(* ===== verification/RicPrelude.thy ===== *)
theory RicPrelude
  imports Main "HOL-Library.Word"
begin

text \<open>
  Shared vocabulary of the development: bytes and machine words, the bits of a byte string
  most significant first (the order in which PER writes them), the number a bit string
  stands for, and the generic list facts that the codec theories share.

  \<^item> \<open>byte_bits\<close> and \<open>bytes_bits\<close>: the bits of an octet and of an octet string;
  \<^item> \<open>bits_of_int\<close> writes the low bits of a number, \<open>int_of_bits\<close> reads them back;
  \<^item> the collection \<open>bit_simps\<close> holds the rewrite rules about them.
\<close>

unbundle bit_operations_syntax

type_synonym byte = "8 word"
type_synonym u16 = "16 word"
type_synonym u32 = "32 word"
type_synonym i64 = "64 word"
type_synonym u64 = "64 word"

named_theorems bit_simps \<open>rewrite rules about the bits of numbers and octets\<close>

section \<open>Numbers and bit strings\<close>

definition int_of_bits :: "bool list \<Rightarrow> int" where
  "int_of_bits bs = horner_sum of_bool 2 (rev bs)"

definition bits_of_int :: "nat \<Rightarrow> int \<Rightarrow> bool list" where
  "bits_of_int n x = rev (map (bit x) [0..<n])"

definition byte_bits :: "byte \<Rightarrow> bool list" where
  "byte_bits b = bits_of_int 8 (uint b)"

definition bytes_bits :: "byte list \<Rightarrow> bool list" where
  "bytes_bits bs = concat (map byte_bits bs)"

lemma length_bits_of_int [simp]: "length (bits_of_int n x) = n"
  by (simp add: bits_of_int_def)

lemma length_byte_bits [simp]: "length (byte_bits b) = 8"
  by (simp add: byte_bits_def)

lemma bytes_bits_Nil [simp]: "bytes_bits [] = []"
  and bytes_bits_Cons [simp]: "bytes_bits (b # bs) = byte_bits b @ bytes_bits bs"
  and bytes_bits_append [simp]: "bytes_bits (xs @ ys) = bytes_bits xs @ bytes_bits ys"
  by (simp_all add: bytes_bits_def)

lemma length_bytes_bits [simp]: "length (bytes_bits bs) = 8 * length bs"
  by (induction bs) simp_all

lemma int_of_bits_of_int [bit_simps]: "int_of_bits (bits_of_int n x) = take_bit n x"
  by (simp add: int_of_bits_def bits_of_int_def horner_sum_bit_eq_take_bit)

lemma nth_bits_of_int: "i < n \<Longrightarrow> bits_of_int n x ! i = bit x (n - 1 - i)"
  by (simp add: bits_of_int_def rev_nth)

lemma bits_of_int_0 [simp]: "bits_of_int 0 x = []"
  by (simp add: bits_of_int_def)

lemma bits_of_int_eqI:
  assumes "\<And>j. j < n \<Longrightarrow> bit x j = bit y j"
  shows "bits_of_int n x = bits_of_int n y"
  using assms by (simp add: bits_of_int_def)

lemma bits_of_int_take_bit [bit_simps]: "n \<le> m \<Longrightarrow> bits_of_int n (take_bit m x) = bits_of_int n x"
  by (rule bits_of_int_eqI) (simp add: bit_take_bit_iff)

lemma bits_of_int_add_length: "bits_of_int (m + n) x = bits_of_int m (drop_bit n x) @ bits_of_int n x"
  by (rule nth_equalityI)
    (auto simp: nth_append nth_bits_of_int bit_drop_bit_eq less_diff_conv intro!: arg_cong [where f = "bit x"])

lemma bits_of_int_append:
  "bits_of_int m x @ bits_of_int n y = bits_of_int (m + n) (push_bit n x + take_bit n y)"
proof -
  have "push_bit n x + take_bit n y = push_bit n x OR take_bit n y"
    by (rule disjunctive_add) (simp add: bit_push_bit_iff bit_take_bit_iff)
  then show ?thesis
    unfolding bits_of_int_add_length
    by (intro arg_cong2 [where f = append] bits_of_int_eqI)
      (simp_all add: bit_drop_bit_eq bit_or_iff bit_push_bit_iff bit_take_bit_iff)
qed

lemma take_drop_bits_of_int:
  assumes "k + n \<le> w"
  shows "take n (drop k (bits_of_int w x)) = bits_of_int n (drop_bit (w - (k + n)) x)"
  using assms
  by (intro nth_equalityI)
    (auto simp: nth_bits_of_int bit_drop_bit_eq intro!: arg_cong [where f = "bit x"])

lemma horner_sum_bool_bound: "0 \<le> horner_sum of_bool (2::int) xs \<and> horner_sum of_bool (2::int) xs < 2 ^ length xs"
  by (induction xs) auto

lemma int_of_bits_nonneg [simp]: "0 \<le> int_of_bits bs"
  by (simp add: int_of_bits_def horner_sum_bool_bound)

lemma int_of_bits_not_neg [simp]: "\<not> int_of_bits bs < 0"
  by (simp add: not_less)

lemma int_of_bits_less: "int_of_bits bs < 2 ^ length bs"
  using horner_sum_bool_bound [of "rev bs"] by (simp add: int_of_bits_def)

lemma int_of_bits_less_le: "length bs \<le> n \<Longrightarrow> int_of_bits bs < 2 ^ n"
  by (rule order_less_le_trans [OF int_of_bits_less]) simp

lemma bits_of_int_of_bits [bit_simps]: "bits_of_int (length bs) (int_of_bits bs) = bs"
  by (rule nth_equalityI)
    (auto simp: nth_bits_of_int int_of_bits_def bit_horner_sum_bit_iff rev_nth)

lemma bits_of_int_take: "n \<le> length bs \<Longrightarrow> bits_of_int n (int_of_bits (take n bs)) = take n bs"
  using bits_of_int_of_bits [of "take n bs"] by (simp add: min_absorb2)

lemma int_of_bits_Nil [simp]: "int_of_bits [] = 0"
  by (simp add: int_of_bits_def)

lemma int_of_bits_append:
  "int_of_bits (xs @ ys) = int_of_bits xs * 2 ^ length ys + int_of_bits ys"
  by (simp add: int_of_bits_def horner_sum_append)

lemma bits_of_int_eq_iff:
  "bits_of_int n x = bits_of_int n y \<longleftrightarrow> take_bit n x = take_bit n y"
  by (metis bits_of_int_take_bit int_of_bits_of_int order_refl)

lemma uint_byte_less [simp]: "uint (b :: byte) < 256"
  using uint_lt2p [of b] by simp

lemma byte_bits_of_bits [bit_simps]: "int_of_bits (byte_bits b) = uint b"
  by (simp add: byte_bits_def bit_simps take_bit_int_eq_self)

lemma byte_bits_inject [simp]: "byte_bits a = byte_bits b \<longleftrightarrow> a = b"
  by (metis byte_bits_of_bits word_uint_eq_iff)

lemma byte_bits_not_Nil [simp]: "byte_bits b \<noteq> []" "[] \<noteq> byte_bits b"
  by (metis length_byte_bits list.size(3) zero_neq_numeral)+

lemma bytes_bits_inject: "bytes_bits xs = bytes_bits ys \<longleftrightarrow> xs = ys"
proof (induction xs arbitrary: ys)
  case Nil
  then show ?case by (cases ys) simp_all
next
  case (Cons x xs)
  then show ?case by (cases ys) simp_all
qed

lemma drop_bytes_bits: "drop (8 * k) (bytes_bits bs) = bytes_bits (drop k bs)"
proof (induction k arbitrary: bs)
  case (Suc k)
  then show ?case by (cases bs) simp_all
qed simp

lemma take_bytes_bits: "take (8 * k) (bytes_bits bs) = bytes_bits (take k bs)"
proof (induction k arbitrary: bs)
  case (Suc k)
  then show ?case by (cases bs) simp_all
qed simp

section \<open>Big-endian numbers\<close>

definition be_int :: "byte list \<Rightarrow> int" where
  "be_int bs = horner_sum uint 256 (rev bs)"

lemma be_int_bits: "be_int bs = int_of_bits (bytes_bits bs)"
  by (induction bs rule: rev_induct)
    (simp_all add: be_int_def int_of_bits_append bit_simps)

lemma bytes_bits_be_int: "bytes_bits bs = bits_of_int (8 * length bs) (be_int bs)"
  by (metis be_int_bits bits_of_int_of_bits length_bytes_bits)

lemma byte_bits_word_of_int [bit_simps]: "byte_bits (word_of_int x) = bits_of_int 8 x"
  by (simp add: byte_bits_def unsigned_word_eqI uint_word_of_int_eq bit_simps)

lemma bits_of_int_zero: "bits_of_int n 0 = replicate n False"
  by (rule nth_equalityI) (simp_all add: nth_bits_of_int)

lemma bits_of_int_push_bit: "bits_of_int (n + p) (push_bit p x) = bits_of_int n x @ replicate p False"
  using bits_of_int_append [of n x p 0] by (simp add: bits_of_int_zero)

lemma take_bits_of_int: "n \<le> w \<Longrightarrow> take n (bits_of_int w x) = bits_of_int n (drop_bit (w - n) x)"
  using take_drop_bits_of_int [of 0 n w x] by simp

lemma drop_bits_of_int: "k \<le> w \<Longrightarrow> drop k (bits_of_int w x) = bits_of_int (w - k) x"
  by (rule nth_equalityI) (auto simp: nth_bits_of_int intro!: arg_cong [where f = "bit x"])

lemma bits_of_int_octets:
  "bits_of_int 16 x = bits_of_int 8 (drop_bit 8 x) @ bits_of_int 8 x"
  "bits_of_int 24 x = bits_of_int 8 (drop_bit 16 x) @ bits_of_int 8 (drop_bit 8 x) @ bits_of_int 8 x"
  "bits_of_int 32 x = bits_of_int 8 (drop_bit 24 x) @ bits_of_int 8 (drop_bit 16 x)
     @ bits_of_int 8 (drop_bit 8 x) @ bits_of_int 8 x"
  using bits_of_int_add_length [of 8 8 x] bits_of_int_add_length [of 8 16 x]
    bits_of_int_add_length [of 8 24 x]
  by simp_all

section \<open>Whole octets\<close>

lemma octets_ceil: "(x + 7) div 8 = (if x mod 8 = 0 then x div 8 else Suc (x div 8))" for x :: nat
proof -
  obtain q r where x: "x = 8 * q + r" and r: "r < 8"
    by (metis mod_less_divisor mult_div_mod_eq zero_less_numeral)
  have "(8 * q + r + 7) div 8 = (if r = 0 then q else Suc q)"
    using r by (cases "r = 0") (auto intro!: div_nat_eqI)
  then show ?thesis using x r by simp
qed

lemma octet_window:
  assumes "p < length t" and "k \<le> 8"
  shows "take (8 * p + k) (bytes_bits t) = bytes_bits (take p t) @ take k (byte_bits (t ! p))"
proof -
  have "bytes_bits t = bytes_bits (take p t) @ byte_bits (t ! p) @ bytes_bits (drop (Suc p) t)"
    using assms(1) by (metis append_take_drop_id bytes_bits_Cons bytes_bits_append Cons_nth_drop_Suc)
  then show ?thesis using assms by (simp add: take_add)
qed

section \<open>Masks of the length determinants\<close>

lemma and_flags:
  fixes v :: int
  shows "v AND 128 = 0 \<longleftrightarrow> \<not> bit v 7" and "v AND 64 = 0 \<longleftrightarrow> \<not> bit v 6"
    and "v AND 127 = take_bit 7 v" and "v AND 63 = take_bit 6 v"
  using and_exp_eq_0_iff_not_bit [of v 7] and_exp_eq_0_iff_not_bit [of v 6]
  by (simp_all add: take_bit_eq_mask mask_eq_exp_minus_1)

lemma bit_small_int: "0 \<le> v \<Longrightarrow> v < 2 ^ n \<Longrightarrow> n \<le> m \<Longrightarrow> \<not> bit v m" for v :: int
  by (metis bit_take_bit_iff leD take_bit_int_eq_self)

lemma or_exp:
  fixes v :: int
  assumes "0 \<le> v" and "v < 2 ^ n" and "n \<le> m"
  shows "v OR 2 ^ m = v + 2 ^ m" and "bit (v + 2 ^ m) j \<longleftrightarrow> j = m \<or> bit v j"
proof -
  have e: "bit (2 ^ m :: int) j \<longleftrightarrow> j = m" for j by (simp add: bit_exp_iff)
  have d: "\<not> bit v j \<or> \<not> bit (2 ^ m :: int) j" for j
    using bit_small_int [OF assms] e by auto
  show o: "v OR 2 ^ m = v + 2 ^ m"
    by (rule disjunctive_add [OF d, symmetric])
  show "bit (v + 2 ^ m) j \<longleftrightarrow> j = m \<or> bit v j"
    unfolding o [symmetric] by (auto simp: bit_or_iff e)
qed

lemma uint_u32_of_nat: "uint (of_nat k :: u32) = take_bit 32 (int k)"
  and uint_u32_of_int: "uint (word_of_int x :: u32) = take_bit 32 x"
  by (simp_all add: unsigned_of_nat of_nat_take_bit uint_word_of_int_eq)

section \<open>Undefined behaviour\<close>

text \<open>
  What C leaves undefined is the left side of a sum: reading through a null pointer or one to
  freed memory, another member of a union than the one stored last, outside an array, a failed
  assertion. \<open>Not_returned\<close> stands for a call that the environment has not answered yet.
\<close>

datatype fault = Null_deref | Wrong_member | Out_of_bounds | Assertion_failed | Use_after_free | Not_returned

fun fault_bind :: "fault + 'a \<Rightarrow> ('a \<Rightarrow> fault + 'b) \<Rightarrow> fault + 'b" where
  "fault_bind (Inl e) f = Inl e"
| "fault_bind (Inr x) f = f x"

lemma fault_bind_Inr [simp]: "fault_bind x f = Inr y \<longleftrightarrow> (\<exists>z. x = Inr z \<and> f z = Inr y)"
  by (cases x) auto

lemma fault_bind_Inl: "fault_bind x f = Inl e \<longleftrightarrow> x = Inl e \<or> (\<exists>z. x = Inr z \<and> f z = Inl e)"
  by (cases x) auto

lemma fault_bind_assoc: "fault_bind (fault_bind x f) g = fault_bind x (\<lambda>y. fault_bind (f y) g)"
  by (cases x) auto

end
