(* ===== verification/BitData.thy ===== *)
theory BitData
  imports RicPrelude
begin

text \<open>
  The PER bit streams of the ASN.1 runtime, \<^verbatim>\<open>e2ap/lib/asn_bit_data.c\<close> (ric-scp-kpimon).
  Input: a position in an octet string, \<open>bit_data\<close> (C: \<^verbatim>\<open>asn_bit_data_t\<close>), read by
  \<open>asn_get_few_bits\<close>, \<open>asn_get_many_bits\<close> and \<open>asn_get_undo\<close>. The streams are the
  non-refillable ones that \<^verbatim>\<open>aper_decode\<close> builds (\<open>refill = NULL\<close>). Output: \<open>outp\<close>
  (C: \<^verbatim>\<open>asn_bit_outp_t\<close>), a 32-octet scratch space that is flushed through a callback.

  The abstract view is a list of bits: \<open>pd_bits\<close> is what is left to read, \<open>po_bits\<close> is
  everything written so far. Reading takes bits from the front of the one, writing appends
  bits to the other.
\<close>

section \<open>Reading\<close>

record bit_data =
  pd_buffer :: "byte list"
  pd_nboff :: nat
  pd_nbits :: nat
  pd_moved :: u64

definition asn_bit_data_new_contiguous :: "bool \<Rightarrow> byte list \<Rightarrow> nat \<Rightarrow> bit_data option" where
  "asn_bit_data_new_contiguous calloc_ok data size_bits =
     (let size_bytes = (size_bits + 7) div 8
      in if \<not> calloc_ok then None
         else Some \<lparr>pd_buffer = take size_bytes data @ [0], pd_nboff = 0, pd_nbits = size_bits, pd_moved = 0\<rparr>)"

definition asn_get_undo :: "bit_data \<Rightarrow> int \<Rightarrow> bit_data" where
  "asn_get_undo pd n =
     (if int (pd_nboff pd) < n then pd
      else pd\<lparr>pd_nboff := nat (int (pd_nboff pd) - n), pd_moved := pd_moved pd - of_int n\<rparr>)"

definition pd_norm :: "bit_data \<Rightarrow> bit_data" where
  "pd_norm pd =
     (if 8 \<le> pd_nboff pd then
        pd\<lparr>pd_buffer := drop (pd_nboff pd div 8) (pd_buffer pd),
           pd_nbits := pd_nbits pd - 8 * (pd_nboff pd div 8),
           pd_nboff := pd_nboff pd mod 8\<rparr>
      else pd)"

definition pd_adv :: "bit_data \<Rightarrow> int \<Rightarrow> bit_data" where
  "pd_adv pd n =
     (let pd = pd_norm pd
      in pd\<lparr>pd_moved := pd_moved pd + of_int n, pd_nboff := pd_nboff pd + nat n\<rparr>)"

lemma pd_adv_nboff_less: "pd_nboff (pd_adv pd n) < 8 + nat n"
  by (simp add: pd_adv_def pd_norm_def Let_def)

function asn_get_few_bits :: "bit_data \<Rightarrow> int \<Rightarrow> int \<times> bit_data" where
  "asn_get_few_bits pd n =
     (if n < 0 then (-1, pd)
      else if int (pd_nbits pd) - int (pd_nboff pd) < n then (-1, pd)
      else
        let pd1 = pd_adv pd n; off = pd_nboff pd1; buf = pd_buffer pd1;
            b = (\<lambda>i. uint (buf ! i)); mask = take_bit (nat n)
        in if off \<le> 8 then (mask (if n \<noteq> 0 then drop_bit (8 - off) (b 0) else 0), pd1)
           else if off \<le> 16 then (mask (drop_bit (16 - off) (push_bit 8 (b 0) + b 1)), pd1)
           else if off \<le> 24 then
             (mask (drop_bit (24 - off) (push_bit 16 (b 0) + push_bit 8 (b 1) + b 2)), pd1)
           else if off \<le> 31 then
             (mask (drop_bit (32 - off) (push_bit 24 (b 0) + push_bit 16 (b 1) + push_bit 8 (b 2) + b 3)), pd1)
           else if n \<le> 31 then
             let (hi, tpd) = asn_get_few_bits (asn_get_undo pd1 n) (n - 24);
                 (lo, _) = asn_get_few_bits tpd 24
             in (mask (push_bit 24 hi OR lo), pd1)
           else (-1, asn_get_undo pd1 n))"
  by pat_completeness auto

termination
proof (relation "measure (\<lambda>(pd, n). nat n)", goal_cases)
  case (2 pd n)
  then show ?case using pd_adv_nboff_less [of pd n] by simp
next
  case (3 pd n)
  then show ?case using pd_adv_nboff_less [of pd n] by simp
qed simp

declare asn_get_few_bits.simps [simp del]

subsection \<open>The bits that are left\<close>

definition pd_ok :: "bit_data \<Rightarrow> bool" where
  "pd_ok pd \<longleftrightarrow> pd_nboff pd \<le> pd_nbits pd \<and> pd_nbits pd \<le> 8 * length (pd_buffer pd)"

definition pd_bits :: "bit_data \<Rightarrow> bool list" where
  "pd_bits pd = drop (pd_nboff pd) (take (pd_nbits pd) (bytes_bits (pd_buffer pd)))"

lemma length_pd_bits: "pd_ok pd \<Longrightarrow> length (pd_bits pd) = pd_nbits pd - pd_nboff pd"
  by (simp add: pd_bits_def pd_ok_def)

lemma pd_norm_facts:
  assumes "pd_ok pd"
  shows "pd_ok (pd_norm pd)" and "pd_bits (pd_norm pd) = pd_bits pd"
    and "pd_nboff (pd_norm pd) = pd_nboff pd mod 8"
    and "pd_nbits (pd_norm pd) - pd_nboff (pd_norm pd) = pd_nbits pd - pd_nboff pd"
proof -
  let ?q = "pd_nboff pd div 8"
  have q: "8 * ?q + pd_nboff pd mod 8 = pd_nboff pd" by simp
  from assms show "pd_ok (pd_norm pd)"
    unfolding pd_ok_def pd_norm_def by simp (use q in linarith)
  show "pd_nboff (pd_norm pd) = pd_nboff pd mod 8"
    by (simp add: pd_norm_def)
  show "pd_nbits (pd_norm pd) - pd_nboff (pd_norm pd) = pd_nbits pd - pd_nboff pd"
    unfolding pd_norm_def by simp
  have "drop (8 * ?q) (take (pd_nbits pd) (bytes_bits (pd_buffer pd)))
      = take (pd_nbits pd - 8 * ?q) (bytes_bits (drop ?q (pd_buffer pd)))"
    by (simp add: drop_take drop_bytes_bits)
  then have "drop (pd_nboff pd mod 8) (take (pd_nbits pd - 8 * ?q) (bytes_bits (drop ?q (pd_buffer pd))))
      = drop (pd_nboff pd) (take (pd_nbits pd) (bytes_bits (pd_buffer pd)))"
    by (metis drop_drop q add.commute)
  then show "pd_bits (pd_norm pd) = pd_bits pd"
    by (simp add: pd_norm_def pd_bits_def)
qed

lemma pd_adv_facts:
  assumes "pd_ok pd" and "0 \<le> n" and "n \<le> int (length (pd_bits pd))"
  shows "pd_ok (pd_adv pd n)" and "pd_bits (pd_adv pd n) = drop (nat n) (pd_bits pd)"
proof -
  note f = pd_norm_facts [OF assms(1)]
  from assms(3) have le: "n \<le> int (pd_nbits (pd_norm pd)) - int (pd_nboff (pd_norm pd))"
    using f(4) assms(1) f(1) by (simp add: length_pd_bits pd_ok_def) linarith
  show "pd_ok (pd_adv pd n)"
    using f(1) le assms(2) by (simp add: pd_adv_def Let_def pd_ok_def)
  have "pd_bits (pd_adv pd n) = drop (nat n) (pd_bits (pd_norm pd))"
    by (simp add: pd_adv_def Let_def pd_bits_def add.commute)
  then show "pd_bits (pd_adv pd n) = drop (nat n) (pd_bits pd)"
    using f(2) by simp
qed

subsection \<open>What the readers return\<close>

lemma window_bits:
  assumes "8 * m \<le> 8 * length buf" and "k + n \<le> 8 * m"
  shows "take_bit n (drop_bit (8 * m - (k + n)) (be_int (take m buf)))
    = int_of_bits (take n (drop k (bytes_bits buf)))"
proof -
  have "take n (drop k (bytes_bits buf)) = take n (drop k (take (8 * m) (bytes_bits buf)))"
    using assms(2) by (simp add: take_drop min_def)
  also have "\<dots> = take n (drop k (bits_of_int (8 * m) (be_int (take m buf))))"
    using bytes_bits_be_int [of "take m buf"] assms(1) by (simp add: take_bytes_bits min_def)
  also have "\<dots> = bits_of_int n (drop_bit (8 * m - (k + n)) (be_int (take m buf)))"
    using assms(2) by (simp add: take_drop_bits_of_int)
  finally show ?thesis by (simp add: bit_simps)
qed

lemma be_int_take:
  "1 \<le> length buf \<Longrightarrow> be_int (take 1 buf) = uint (buf ! 0)"
  "2 \<le> length buf \<Longrightarrow> be_int (take 2 buf) = push_bit 8 (uint (buf ! 0)) + uint (buf ! 1)"
  "3 \<le> length buf \<Longrightarrow> be_int (take 3 buf) = push_bit 16 (uint (buf ! 0)) + push_bit 8 (uint (buf ! 1)) + uint (buf ! 2)"
  "4 \<le> length buf \<Longrightarrow> be_int (take 4 buf) = push_bit 24 (uint (buf ! 0)) + push_bit 16 (uint (buf ! 1))
     + push_bit 8 (uint (buf ! 2)) + uint (buf ! 3)"
  by (auto simp: Suc_le_length_iff eval_nat_numeral be_int_def push_bit_eq_mult)

lemma pd_adv_window:
  assumes "pd_ok pd" and "0 \<le> n" and "n \<le> int (length (pd_bits pd))"
  defines "pd1 \<equiv> pd_adv pd n"
  shows "take (nat n) (pd_bits pd)
      = take (nat n) (drop (pd_nboff pd1 - nat n) (bytes_bits (pd_buffer pd1)))"
    and "pd_nboff pd1 \<le> 8 * length (pd_buffer pd1)"
    and "nat n \<le> pd_nboff pd1"
proof -
  have ok: "pd_ok pd1" unfolding pd1_def by (rule pd_adv_facts(1) [OF assms(1-3)])
  have b: "pd_bits pd = drop (pd_nboff (pd_norm pd)) (take (pd_nbits (pd_norm pd)) (bytes_bits (pd_buffer (pd_norm pd))))"
    using pd_norm_facts(2) [OF assms(1)] by (simp add: pd_bits_def)
  have eqs: "pd_nboff pd1 = pd_nboff (pd_norm pd) + nat n" "pd_buffer pd1 = pd_buffer (pd_norm pd)"
    "pd_nbits pd1 = pd_nbits (pd_norm pd)"
    by (simp_all add: pd1_def pd_adv_def Let_def)
  from ok eqs have "nat n \<le> pd_nbits (pd_norm pd) - pd_nboff (pd_norm pd)"
    unfolding pd_ok_def by linarith
  then show "take (nat n) (pd_bits pd)
      = take (nat n) (drop (pd_nboff pd1 - nat n) (bytes_bits (pd_buffer pd1)))"
    unfolding b by (simp add: eqs drop_take min_def)
  show "pd_nboff pd1 \<le> 8 * length (pd_buffer pd1)" using ok by (simp add: pd_ok_def)
  show "nat n \<le> pd_nboff pd1" by (simp add: eqs)
qed

lemma get_few_bits_error [simp]:
  "n < 0 \<Longrightarrow> asn_get_few_bits pd n = (-1, pd)"
  "pd_ok pd \<Longrightarrow> int (length (pd_bits pd)) < n \<Longrightarrow> asn_get_few_bits pd n = (-1, pd)"
  by (simp_all add: asn_get_few_bits.simps [of pd n] length_pd_bits pd_ok_def of_nat_diff)

lemma take_bit_int_of_bits: "length bs \<le> n \<Longrightarrow> take_bit n (int_of_bits bs) = int_of_bits bs"
  using int_of_bits_less_le [of bs n] by (simp add: take_bit_int_eq_self)

lemma push_bit_or_int_of_bits:
  "push_bit (length ys) (int_of_bits xs) OR int_of_bits ys = int_of_bits (xs @ ys)"
proof -
  have "push_bit (length ys) (int_of_bits xs) + take_bit (length ys) (int_of_bits ys)
      = push_bit (length ys) (int_of_bits xs) OR take_bit (length ys) (int_of_bits ys)"
    by (rule disjunctive_add) (simp add: bit_push_bit_iff bit_take_bit_iff)
  then show ?thesis
    by (simp add: take_bit_int_of_bits int_of_bits_append push_bit_eq_mult)
qed

lemma get_undo_adv: "0 \<le> n \<Longrightarrow> asn_get_undo (pd_adv pd n) n = pd_norm pd"
  by (simp add: asn_get_undo_def pd_adv_def Let_def)

lemma get_few_bits_one_window:
  assumes ok: "pd_ok pd" and n: "0 \<le> n" "n \<le> int (length (pd_bits pd))"
    and off: "pd_nboff (pd_adv pd n) \<le> 31"
  shows "asn_get_few_bits pd n = (int_of_bits (take (nat n) (pd_bits pd)), pd_adv pd n)"
proof (cases "n = 0")
  case True
  with ok have "pd_nboff (pd_adv pd n) \<le> 8"
    by (simp add: pd_adv_def Let_def pd_norm_def)
  with True ok show ?thesis
    by (simp add: asn_get_few_bits.simps [of pd 0] Let_def pd_ok_def)
next
  case False
  let ?pd1 = "pd_adv pd n"
  let ?off = "pd_nboff ?pd1" and ?buf = "pd_buffer ?pd1"
  note w = pd_adv_window [OF ok n]
  have guard: "\<not> n < 0" "\<not> int (pd_nbits pd) - int (pd_nboff pd) < n"
    using n ok by (auto simp: length_pd_bits pd_ok_def of_nat_diff)
  have win: "take_bit (nat n) (drop_bit (8 * m - ?off) (be_int (take m ?buf)))
      = int_of_bits (take (nat n) (pd_bits pd))" if "?off \<le> 8 * m" "m \<le> length ?buf" for m
    using window_bits [of m ?buf "?off - nat n" "nat n"] w that by simp
  consider "?off \<le> 8" | "8 < ?off" "?off \<le> 16" | "16 < ?off" "?off \<le> 24" | "24 < ?off"
    by linarith
  then show ?thesis
  proof cases
    case 1
    have l: "1 \<le> length ?buf" using w(2,3) False n(1) by linarith
    with 1 False guard win [of 1] be_int_take(1) [OF l] show ?thesis
      by (simp add: asn_get_few_bits.simps [of pd n] Let_def)
  next
    case 2
    then have "2 \<le> length ?buf" using w(2) by linarith
    with 2 guard win [of 2] show ?thesis
      by (simp add: asn_get_few_bits.simps [of pd n] Let_def be_int_take)
  next
    case 3
    then have "3 \<le> length ?buf" using w(2) by linarith
    with 3 guard win [of 3] show ?thesis
      by (simp add: asn_get_few_bits.simps [of pd n] Let_def be_int_take)
  next
    case 4
    then have "4 \<le> length ?buf" using w(2) by linarith
    with 4 off guard win [of 4] show ?thesis
      by (simp add: asn_get_few_bits.simps [of pd n] Let_def be_int_take)
  qed
qed

lemma get_few_bits_ok:
  assumes ok: "pd_ok pd" and n: "0 \<le> n" "n \<le> int (length (pd_bits pd))" "n \<le> 31"
  shows "asn_get_few_bits pd n = (int_of_bits (take (nat n) (pd_bits pd)), pd_adv pd n)"
proof (cases "pd_nboff (pd_adv pd n) \<le> 31")
  case True
  then show ?thesis by (rule get_few_bits_one_window [OF ok n(1,2)])
next
  case False
  let ?t = "pd_norm pd" and ?bs = "pd_bits pd"
  note f = pd_norm_facts [OF ok]
  have n25: "25 \<le> n"
    using False pd_adv_nboff_less [of pd n] by linarith
  have guard: "\<not> n < 0" "\<not> int (pd_nbits pd) - int (pd_nboff pd) < n"
    using n ok by (auto simp: length_pd_bits pd_ok_def of_nat_diff)
  have hi: "asn_get_few_bits ?t (n - 24) = (int_of_bits (take (nat (n - 24)) ?bs), pd_adv ?t (n - 24))"
    using get_few_bits_one_window [OF f(1), of "n - 24"] n n25 pd_adv_nboff_less [of ?t "n - 24"]
    by (simp add: f(2))
  have t2: "pd_ok (pd_adv ?t (n - 24))" "pd_bits (pd_adv ?t (n - 24)) = drop (nat (n - 24)) ?bs"
    using pd_adv_facts [OF f(1), of "n - 24"] n n25 by (simp_all add: f(2))
  have lo: "asn_get_few_bits (pd_adv ?t (n - 24)) 24
      = (int_of_bits (take 24 (drop (nat (n - 24)) ?bs)), pd_adv (pd_adv ?t (n - 24)) 24)"
    using get_few_bits_one_window [OF t2(1), of 24] n n25 pd_adv_nboff_less [of "pd_adv ?t (n - 24)" 24]
    by (simp add: t2(2))
  have split: "take (nat (n - 24)) ?bs @ take 24 (drop (nat (n - 24)) ?bs) = take (nat n) ?bs"
    using n25 by (simp add: take_add [symmetric] nat_diff_distrib)
  have l24: "length (take 24 (drop (nat (n - 24)) ?bs)) = 24"
    using n n25 by simp
  have "push_bit 24 (int_of_bits (take (nat (n - 24)) ?bs)) OR int_of_bits (take 24 (drop (nat (n - 24)) ?bs))
      = int_of_bits (take (nat n) ?bs)"
    using push_bit_or_int_of_bits [of "take 24 (drop (nat (n - 24)) ?bs)"] split l24 by simp
  with False guard n hi lo show ?thesis
    by (simp add: asn_get_few_bits.simps [of pd n] Let_def get_undo_adv take_bit_int_of_bits del: take_bit_or)
qed

lemma get_few_bits_wide:
  assumes "pd_ok pd" and "31 < n"
  shows "fst (asn_get_few_bits pd n) = -1"
proof -
  have "\<not> pd_nboff (pd_adv pd n) \<le> 31"
    using assms(2) by (simp add: pd_adv_def Let_def)
  with assms(2) show ?thesis
    by (simp add: asn_get_few_bits.simps [of pd n] Let_def)
qed

text \<open>Reading a field that was written as \<open>n\<close> bits of \<open>x\<close>.\<close>

lemma get_few_bits_feed:
  assumes "pd_ok pd" and "pd_bits pd = bits_of_int n x @ rest" and "n \<le> 31"
  shows "\<exists>pd'. asn_get_few_bits pd (int n) = (take_bit n x, pd') \<and> pd_ok pd' \<and> pd_bits pd' = rest"
  using get_few_bits_ok [of pd "int n"] pd_adv_facts [of pd "int n"] assms
  by (simp add: bit_simps)

lemmas get_field = get_few_bits_feed [where n = "numeral k" for k, unfolded of_nat_numeral]

subsection \<open>Many bits\<close>

function asn_get_many_bits_loop :: "bit_data \<Rightarrow> int \<Rightarrow> int \<times> byte list \<times> bit_data" where
  "asn_get_many_bits_loop pd n =
     (if n = 0 then (0, [], pd)
      else if 24 \<le> n then
        let (v, pd1) = asn_get_few_bits pd 24
        in if v < 0 then (-1, [], pd1)
           else let (r, dst, pd2) = asn_get_many_bits_loop pd1 (n - 24)
                in (r, word_of_int (drop_bit 16 v) # word_of_int (drop_bit 8 v) # word_of_int v # dst, pd2)
      else
        let (v, pd1) = asn_get_few_bits pd n
        in if v < 0 then (-1, [], pd1)
           else let w = (if n mod 8 \<noteq> 0 then push_bit (nat (8 - n mod 8)) v else v);
                    m = (if n mod 8 \<noteq> 0 then n + (8 - n mod 8) else n)
                in (0, (if n mod 8 \<noteq> 0 \<and> 24 < m then [word_of_int (drop_bit 24 w)] else []) @
                       (if 16 < m then [word_of_int (drop_bit 16 w)] else []) @
                       (if 8 < m then [word_of_int (drop_bit 8 w)] else []) @ [word_of_int w], pd1))"
  by pat_completeness auto
termination by (relation "measure (\<lambda>(pd, n). nat n)") auto

declare asn_get_many_bits_loop.simps [simp del]

definition asn_get_many_bits :: "bit_data \<Rightarrow> bool \<Rightarrow> int \<Rightarrow> int \<times> byte list \<times> bit_data" where
  "asn_get_many_bits pd alright n =
     (if alright \<and> n mod 8 \<noteq> 0 then
        let (v, pd1) = asn_get_few_bits pd (n mod 8)
        in if v < 0 then (-1, [], pd1)
           else let (r, dst, pd2) = asn_get_many_bits_loop pd1 (n - n mod 8)
                in (r, word_of_int v # dst, pd2)
      else asn_get_many_bits_loop pd n)"

definition octet_pad :: "int \<Rightarrow> nat" where
  "octet_pad n = nat (- n mod 8)"

lemma tail_octets:
  fixes v :: int
  assumes "0 < n" "n < 24"
  defines "m \<equiv> (if n mod 8 \<noteq> 0 then n + (8 - n mod 8) else n)"
    and "w \<equiv> (if n mod 8 \<noteq> 0 then push_bit (nat (8 - n mod 8)) v else v)"
  shows "bytes_bits ((if n mod 8 \<noteq> 0 \<and> 24 < m then [word_of_int (drop_bit 24 w)] else []) @
           (if 16 < m then [word_of_int (drop_bit 16 w)] else []) @
           (if 8 < m then [word_of_int (drop_bit 8 w)] else []) @ [word_of_int w])
         = bits_of_int (nat n) v @ replicate (octet_pad n) False"
proof -
  have pad: "octet_pad n = (if n mod 8 \<noteq> 0 then nat (8 - n mod 8) else 0)"
    unfolding octet_pad_def by (simp add: zmod_zminus1_eq_if)
  have m: "m = 8 \<or> m = 16 \<or> m = 24" "int (nat n + octet_pad n) = m"
    using assms(1,2) unfolding m_def pad by (auto; presburger)+
  have w: "w = push_bit (octet_pad n) v" unfolding w_def pad by simp
  have "bits_of_int (nat m) w = bits_of_int (nat n) v @ replicate (octet_pad n) False"
    using bits_of_int_push_bit [of "nat n" "octet_pad n" v] m(2) w by (metis nat_int)
  then show ?thesis
    using m(1) by (auto simp: bits_of_int_octets bit_simps)
qed

lemma get_many_bits_loop_ok:
  assumes "pd_ok pd" and "0 \<le> n" and "n \<le> int (length (pd_bits pd))"
  shows "\<exists>dst pd'. asn_get_many_bits_loop pd n = (0, dst, pd') \<and> pd_ok pd'
    \<and> pd_bits pd' = drop (nat n) (pd_bits pd)
    \<and> bytes_bits dst = take (nat n) (pd_bits pd) @ replicate (octet_pad n) False"
  using assms
proof (induction pd n rule: asn_get_many_bits_loop.induct)
  case (1 pd n)
  consider "n = 0" | "24 \<le> n" | "0 < n" "n < 24" using "1.prems" by linarith
  then show ?case
  proof cases
    case 1
    then show ?thesis using "1.prems" by (simp add: asn_get_many_bits_loop.simps [of pd 0] octet_pad_def)
  next
    case 2
    let ?v = "int_of_bits (take 24 (pd_bits pd))"
    have few: "asn_get_few_bits pd 24 = (?v, pd_adv pd 24)"
      using get_few_bits_ok [of pd 24] "1.prems" 2 by simp
    have adv: "pd_ok (pd_adv pd 24)" "pd_bits (pd_adv pd 24) = drop 24 (pd_bits pd)"
      using pd_adv_facts [of pd 24] "1.prems" 2 by simp_all
    have "\<not> n = 0" "24 \<le> n" using 2 by simp_all
    from "1.IH"(1) [OF this few [symmetric] refl] adv "1.prems" 2
    obtain dst pd' where IH: "asn_get_many_bits_loop (pd_adv pd 24) (n - 24) = (0, dst, pd')" "pd_ok pd'"
      "pd_bits pd' = drop (nat (n - 24)) (drop 24 (pd_bits pd))"
      "bytes_bits dst = take (nat (n - 24)) (drop 24 (pd_bits pd)) @ replicate (octet_pad (n - 24)) False"
      by (auto simp: not_less)
    have oct: "bytes_bits [word_of_int (drop_bit 16 ?v), word_of_int (drop_bit 8 ?v), word_of_int ?v]
        = take 24 (pd_bits pd)"
    proof -
      have "length (take 24 (pd_bits pd)) = 24" using "1.prems" 2 by simp
      then have "bits_of_int 24 ?v = take 24 (pd_bits pd)"
        by (metis bits_of_int_of_bits)
      then show ?thesis by (simp add: bit_simps bits_of_int_octets(2))
    qed
    have split: "take 24 (pd_bits pd) @ take (nat (n - 24)) (drop 24 (pd_bits pd)) = take (nat n) (pd_bits pd)"
      using 2 by (simp add: take_add [symmetric] nat_diff_distrib)
    have pad: "octet_pad (n - 24) = octet_pad n"
      using mod_mult_self1 [of "- n" 3 8] by (simp add: octet_pad_def)
    have cat: "bytes_bits ([word_of_int (drop_bit 16 ?v), word_of_int (drop_bit 8 ?v), word_of_int ?v] @ dst)
        = take (nat n) (pd_bits pd) @ replicate (octet_pad n) False"
      by (simp only: bytes_bits_append oct IH(4) pad append_assoc [symmetric] split)
    have "nat (n - 24) + 24 = nat n" using 2 by simp
    then show ?thesis
      using 2 few IH(1-3) cat by (simp add: asn_get_many_bits_loop.simps [of pd n] Let_def)
  next
    case 3
    let ?v = "int_of_bits (take (nat n) (pd_bits pd))"
    have few: "asn_get_few_bits pd n = (?v, pd_adv pd n)"
      using get_few_bits_ok [of pd n] "1.prems" 3 by simp
    have "bits_of_int (nat n) ?v = take (nat n) (pd_bits pd)"
      using "1.prems" by (simp add: bits_of_int_take nat_le_iff)
    then show ?thesis
      using 3 few tail_octets [OF 3, of ?v] pd_adv_facts [OF "1.prems"]
      by (simp add: asn_get_many_bits_loop.simps [of pd n] Let_def)
  qed
qed

theorem get_many_bits_ok:
  assumes "pd_ok pd" and "0 \<le> n" and "n \<le> int (length (pd_bits pd))"
  shows "\<exists>dst pd'. asn_get_many_bits pd False n = (0, dst, pd') \<and> pd_ok pd'
    \<and> pd_bits pd' = drop (nat n) (pd_bits pd)
    \<and> bytes_bits dst = take (nat n) (pd_bits pd) @ replicate (octet_pad n) False"
  using get_many_bits_loop_ok [OF assms] by (simp add: asn_get_many_bits_def)

section \<open>Writing\<close>

text \<open>
  The pointer \<^verbatim>\<open>po->buffer\<close> is the offset \<open>po_buffer\<close> into the scratch space; every
  creator of an output stream (\<^verbatim>\<open>uper_encode\<close>, \<^verbatim>\<open>aper_encode\<close>) points it to the start.
  The callback \<open>out\<close> gets the octets and the key and returns the key's next state, or
  \<open>None\<close> for a negative result.
\<close>

record 'k outp =
  po_tmpspace :: "byte list"
  po_buffer :: nat
  po_nboff :: nat
  po_nbits :: nat
  po_op_key :: 'k
  po_flushed :: nat

definition outp_new :: "'k \<Rightarrow> byte list \<Rightarrow> 'k outp" where
  "outp_new key tmpspace = \<lparr>po_tmpspace = tmpspace, po_buffer = 0, po_nboff = 0, po_nbits = 8 * 32,
     po_op_key = key, po_flushed = 0\<rparr>"

definition po_norm :: "'k outp \<Rightarrow> 'k outp" where
  "po_norm po =
     (if 8 \<le> po_nboff po then
        po\<lparr>po_buffer := po_buffer po + po_nboff po div 8,
           po_nbits := po_nbits po - 8 * (po_nboff po div 8),
           po_nboff := po_nboff po mod 8\<rparr>
      else po)"

definition po_flush :: "(byte list \<Rightarrow> 'k \<Rightarrow> 'k option) \<Rightarrow> 'k outp \<Rightarrow> 'k outp option" where
  "po_flush out po =
     (let complete_bytes = po_buffer po
      in case out (take complete_bytes (po_tmpspace po)) (po_op_key po) of
           None \<Rightarrow> None
         | Some key \<Rightarrow>
             Some (po\<lparr>po_op_key := key,
                      po_tmpspace := (if po_nboff po \<noteq> 0
                        then (po_tmpspace po)[0 := po_tmpspace po ! po_buffer po] else po_tmpspace po),
                      po_buffer := 0, po_nbits := 8 * 32, po_flushed := po_flushed po + complete_bytes\<rparr>))"

text \<open>The assignments \<^verbatim>\<open>buf[0] = (buf[0] & omsk) | (bits >> s); buf[1] = bits >> ...\<close> of one window.\<close>

definition po_store :: "'k outp \<Rightarrow> nat \<Rightarrow> byte list \<Rightarrow> 'k outp" where
  "po_store po off bs =
     (let p = po_buffer po; omsk = NOT (mask (8 - po_nboff po)); t = po_tmpspace po
      in po\<lparr>po_nboff := off,
            po_tmpspace := take p t @ ((t ! p AND omsk) OR hd bs) # tl bs @ drop (p + length bs) t\<rparr>)"

lemma po_norm_nboff [simp]: "po_nboff (po_norm po) = po_nboff po mod 8"
  by (simp add: po_norm_def)

lemma po_flush_nboff: "po_flush out po = Some po' \<Longrightarrow> po_nboff po' = po_nboff po"
  by (auto simp: po_flush_def Let_def split: option.splits)

definition po_room :: "(byte list \<Rightarrow> 'k \<Rightarrow> 'k option) \<Rightarrow> 'k outp \<Rightarrow> int \<Rightarrow> 'k outp option" where
  "po_room out po0 obits =
     (let po = po_norm po0
      in if int (po_nbits po) < int (po_nboff po) + obits then po_flush out po else Some po)"

lemma po_room_nboff: "po_room out po obits = Some po' \<Longrightarrow> po_nboff po' = po_nboff po mod 8"
  by (auto simp: po_room_def Let_def dest: po_flush_nboff split: if_splits)

function asn_put_few_bits ::
  "(byte list \<Rightarrow> 'k \<Rightarrow> 'k option) \<Rightarrow> 'k outp \<Rightarrow> u32 \<Rightarrow> int \<Rightarrow> int \<times> 'k outp" where
  "asn_put_few_bits out po0 bits obits =
     (if obits \<le> 0 \<or> 32 \<le> obits then (if obits \<noteq> 0 then -1 else 0, po0)
      else case po_room out po0 obits of
        None \<Rightarrow> (-1, po_norm po0)
      | Some po \<Rightarrow>
          let off = po_nboff po + nat obits;
              v = take_bit (nat obits) (uint bits);
              b = (\<lambda>s x. word_of_int (drop_bit s x) :: byte)
          in if off \<le> 8 then
               (let w = push_bit (8 - off) v in (0, po_store po off [b 0 w]))
             else if off \<le> 16 then
               (let w = push_bit (16 - off) v in (0, po_store po off [b 8 w, b 0 w]))
             else if off \<le> 24 then
               (let w = push_bit (24 - off) v in (0, po_store po off [b 16 w, b 8 w, b 0 w]))
             else if off \<le> 31 then
               (let w = push_bit (32 - off) v in (0, po_store po off [b 24 w, b 16 w, b 8 w, b 0 w]))
             else
               (let (r, po1) = asn_put_few_bits out po (word_of_int (drop_bit (nat (obits - 24)) v)) 24
                in if r \<noteq> 0 then (-1, po1)
                   else let (r2, po2) = asn_put_few_bits out po1 (word_of_int v) (obits - 24)
                        in if r2 \<noteq> 0 then (-1, po2) else (0, po2)))"
  by pat_completeness auto

termination
proof (relation "measure (\<lambda>(out, po, bits, obits). nat obits)", goal_cases)
  case (2 out po0 bits obits po)
  then have "po_nboff po < 8"
    using po_room_nboff [of out po0 obits po] by simp
  with 2 show ?case by simp
qed auto

declare asn_put_few_bits.simps [simp del]

subsection \<open>The bits written so far\<close>

text \<open>
  What a callback must do for the stream to make sense: on success the octets it was given
  are appended to what was delivered before. The stream operations are proved correct once
  against this interface; \<open>PerCodec\<close> interprets it on the code's own callback.
\<close>

definition po_ok :: "'k outp \<Rightarrow> bool" where
  "po_ok po \<longleftrightarrow> length (po_tmpspace po) = 32 \<and> 8 * po_buffer po + po_nbits po = 256
     \<and> po_nboff po \<le> po_nbits po"

definition po_bits :: "('k \<Rightarrow> byte list) \<Rightarrow> 'k outp \<Rightarrow> bool list" where
  "po_bits contents po =
     bytes_bits (contents (po_op_key po)) @ take (8 * po_buffer po + po_nboff po) (bytes_bits (po_tmpspace po))"

lemma outp_new_ok: "length t = 32 \<Longrightarrow> po_ok (outp_new k t)"
  and outp_new_bits: "po_bits contents (outp_new k t) = bytes_bits (contents k)"
  by (simp_all add: outp_new_def po_ok_def po_bits_def)

lemma po_norm_ok: "po_ok po \<Longrightarrow> po_ok (po_norm po)"
  and po_norm_bits: "po_ok po \<Longrightarrow> po_bits contents (po_norm po) = po_bits contents po"
proof -
  let ?q = "po_nboff po div 8"
  have q: "8 * ?q + po_nboff po mod 8 = po_nboff po" by simp
  show "po_ok (po_norm po)" if "po_ok po"
    using that unfolding po_ok_def po_norm_def by simp (use q in linarith)
  have "8 * (po_buffer po + ?q) + po_nboff po mod 8 = 8 * po_buffer po + po_nboff po"
    using q by (simp add: add_mult_distrib2 del: mult_div_mod_eq) 
  then show "po_bits contents (po_norm po) = po_bits contents po"
    by (simp add: po_norm_def po_bits_def add.commute)
qed

lemma byte_or_bits:
  assumes "k \<le> 8" and "take k (byte_bits h) = replicate k False"
  shows "byte_bits ((b AND NOT (mask (8 - k))) OR h) = take k (byte_bits b) @ drop k (byte_bits h)"
proof (rule nth_equalityI)
  fix i assume "i < length (byte_bits ((b AND NOT (mask (8 - k))) OR h))"
  then have i: "i < 8" by simp
  have bits: "byte_bits x ! j = bit x (7 - j)" if "j < 8" for x :: byte and j
    using that by (auto simp: byte_bits_def nth_bits_of_int bit_uint_iff)
  show "byte_bits ((b AND NOT (mask (8 - k))) OR h) ! i = (take k (byte_bits b) @ drop k (byte_bits h)) ! i"
  proof (cases "i < k")
    case True
    have "byte_bits h ! i = False"
      using assms(2) True i by (metis nth_replicate nth_take)
    then have "\<not> bit h (7 - i)" using i bits [of i h] by simp
    with True i assms(1) show ?thesis
      by (simp add: nth_append bits bit_simps) (auto simp: bit_and_iff bit_or_iff bit_not_iff bit_mask_iff)
  next
    case False
    with i have "7 - i < 8 - k" by linarith
    with False i assms(1) show ?thesis
      by (simp add: nth_append bits bit_and_iff bit_or_iff bit_not_iff bit_mask_iff)
  qed
qed (use assms(1) in simp)

lemma po_store_ok:
  assumes ok: "po_ok po" and k: "po_nboff po < 8" and off: "off = po_nboff po + n"
    and fit: "off \<le> po_nbits po"
    and bs: "bytes_bits bs = bits_of_int (8 * length bs) (push_bit (8 * length bs - off) (take_bit n x))"
    and len: "off \<le> 8 * length bs" "8 * length bs < off + 8" "0 < n"
  shows "po_ok (po_store po off bs)"
    and "po_bits contents (po_store po off bs) = po_bits contents po @ bits_of_int n x"
proof -
  let ?t = "po_tmpspace po" and ?p = "po_buffer po" and ?k = "po_nboff po" and ?m = "length bs"
  from ok have t: "length ?t = 32" and sum: "8 * ?p + po_nbits po = 256" by (auto simp: po_ok_def)
  have m: "?p + ?m \<le> 32" using sum fit len(2) by linarith
  have ne: "bs \<noteq> []" using len(1,3) off by auto
  then obtain h tl' where bs': "bs = h # tl'" by (cases bs) auto
  show "po_ok (po_store po off bs)"
    using ok m ne fit t by (auto simp: po_store_def Let_def po_ok_def bs')
  let ?w = "push_bit (8 * ?m - off) (take_bit n x)"
  have small: "drop_bit (8 * ?m - ?k) ?w = 0"
  proof -
    have "?w < 2 ^ (8 * ?m - ?k)"
    proof -
      have "?w = take_bit n x * 2 ^ (8 * ?m - off)" by (simp add: push_bit_eq_mult)
      also have "\<dots> < 2 ^ n * 2 ^ (8 * ?m - off)" by simp
      also have "\<dots> = 2 ^ (8 * ?m - ?k)" using off len(1) by (simp add: power_add [symmetric])
      finally show ?thesis .
    qed
    then show ?thesis by (simp add: drop_bit_eq_div div_pos_pos_trivial push_bit_eq_mult)
  qed
  have "take ?k (bytes_bits bs) = replicate ?k False"
    using small k len off by (simp add: bs take_bits_of_int bits_of_int_zero)
  then have top: "take ?k (byte_bits h) = replicate ?k False"
    using k by (simp add: bs')
  have or: "bytes_bits ((?t ! ?p AND NOT (mask (8 - ?k)) OR hd bs) # tl bs)
      = take ?k (byte_bits (?t ! ?p)) @ drop ?k (bytes_bits bs)"
    using k byte_or_bits [OF _ top, of "?t ! ?p"] by (simp add: bs')
  have "take (off - ?k) (drop ?k (bytes_bits bs)) = bits_of_int n x"
    using off len(1) by (simp add: bs take_drop_bits_of_int bits_of_int_take_bit drop_bit_eq_div push_bit_eq_mult)
  then have win: "take off (bytes_bits ((?t ! ?p AND NOT (mask (8 - ?k)) OR hd bs) # tl bs))
      = take ?k (byte_bits (?t ! ?p)) @ bits_of_int n x"
    unfolding or using off k by simp
  have old: "take (8 * ?p + ?k) (bytes_bits ?t) = bytes_bits (take ?p ?t) @ take ?k (byte_bits (?t ! ?p))"
    by (rule octet_window) (use m t k bs' in simp_all)
  have new: "take (8 * ?p + off) (bytes_bits (po_tmpspace (po_store po off bs)))
      = bytes_bits (take ?p ?t) @ take off (bytes_bits ((?t ! ?p AND NOT (mask (8 - ?k)) OR hd bs) # tl bs))"
    using len(1) m t by (simp add: po_store_def Let_def take_add bs' min_def)
  show "po_bits contents (po_store po off bs) = po_bits contents po @ bits_of_int n x"
    using new win old by (simp add: po_bits_def po_store_def Let_def)
qed

text \<open>\<^verbatim>\<open>asn_put_many_bits\<close>: the value of the next one to three source octets.\<close>

function asn_put_many_bits ::
  "(byte list \<Rightarrow> 'k \<Rightarrow> 'k option) \<Rightarrow> 'k outp \<Rightarrow> byte list \<Rightarrow> int \<Rightarrow> int \<times> 'k outp" where
  "asn_put_many_bits out po src n =
     (if n = 0 then (0, po)
      else if 24 \<le> n then
        let v = push_bit 16 (uint (src ! 0)) OR push_bit 8 (uint (src ! 1)) OR uint (src ! 2);
            (r, po1) = asn_put_few_bits out po (word_of_int v) 24
        in if r \<noteq> 0 then (-1, po1) else asn_put_many_bits out po1 (drop 3 src) (n - 24)
      else
        let v0 = uint (src ! 0);
            v1 = (if 8 < n then push_bit 8 v0 OR uint (src ! 1) else v0);
            v2 = (if 16 < n then push_bit 8 v1 OR uint (src ! 2) else v1);
            v3 = (if n mod 8 \<noteq> 0 then drop_bit (nat (8 - n mod 8)) v2 else v2);
            (r, po1) = asn_put_few_bits out po (word_of_int v3) n
        in if r \<noteq> 0 then (-1, po1) else (0, po1))"
  by pat_completeness auto
termination
  by (relation "measure (\<lambda>(out, po, src, n). nat n)") auto

declare asn_put_many_bits.simps [simp del]

definition asn_put_aligned_flush :: "(byte list \<Rightarrow> 'k \<Rightarrow> 'k option) \<Rightarrow> 'k outp \<Rightarrow> int \<times> 'k outp" where
  "asn_put_aligned_flush out po =
     (let unused_bits = (8 - po_nboff po mod 8) mod 8;
          complete_bytes = po_buffer po + (po_nboff po + 7) div 8;
          i = po_buffer po + po_nboff po div 8;
          po = (if unused_bits \<noteq> 0
                then po\<lparr>po_tmpspace := (po_tmpspace po)[i := po_tmpspace po ! i AND NOT (mask unused_bits)]\<rparr>
                else po)
      in case out (take complete_bytes (po_tmpspace po)) (po_op_key po) of
           None \<Rightarrow> (-1, po)
         | Some key \<Rightarrow> (0, po\<lparr>po_op_key := key, po_buffer := 0, po_nboff := 0, po_nbits := 8 * 32,
             po_flushed := po_flushed po + complete_bytes\<rparr>))"

lemma octets_or:
  fixes a b c :: byte
  shows "bits_of_int 16 (push_bit 8 (uint a) OR uint b) = byte_bits a @ byte_bits b"
    and "bits_of_int 24 (push_bit 16 (uint a) OR push_bit 8 (uint b) OR uint c)
      = byte_bits a @ byte_bits b @ byte_bits c"
    and "bits_of_int 24 ((push_bit 16 (uint a) OR push_bit 8 (uint b)) OR uint c)
      = byte_bits a @ byte_bits b @ byte_bits c"
  unfolding bits_of_int_octets byte_bits_def
  by (intro arg_cong2 [where f = append] bits_of_int_eqI;
      simp add: bit_drop_bit_eq bit_or_iff bit_push_bit_iff bit_uint_iff)+

lemma three_octets:
  assumes "3 \<le> length src"
  shows "byte_bits (src ! 0) @ byte_bits (src ! 1) @ byte_bits (src ! 2) @ bytes_bits (drop 3 src) = bytes_bits src"
  using assms by (auto simp: Suc_le_length_iff eval_nat_numeral)

lemma take_octets:
  "1 \<le> length src \<Longrightarrow> n \<le> 8 \<Longrightarrow> take n (bytes_bits src) = take n (byte_bits (src ! 0))"
  "2 \<le> length src \<Longrightarrow> n \<le> 16 \<Longrightarrow> take n (bytes_bits src) = take n (byte_bits (src ! 0) @ byte_bits (src ! 1))"
  "3 \<le> length src \<Longrightarrow> n \<le> 24 \<Longrightarrow> take n (bytes_bits src)
     = take n (byte_bits (src ! 0) @ byte_bits (src ! 1) @ byte_bits (src ! 2))"
  by (auto simp: Suc_le_length_iff eval_nat_numeral)

text \<open>The last one to three source octets, shifted down to the bits that are put.\<close>

lemma tail_value:
  fixes n :: int
  assumes "0 < n" "n < 24" "n \<le> 8 * int (length src)"
  defines "v0 \<equiv> uint (src ! 0)"
  defines "v1 \<equiv> (if 8 < n then push_bit 8 v0 OR uint (src ! 1) else v0)"
  defines "v2 \<equiv> (if 16 < n then push_bit 8 v1 OR uint (src ! 2) else v1)"
  defines "v3 \<equiv> (if n mod 8 \<noteq> 0 then drop_bit (nat (8 - n mod 8)) v2 else v2)"
  shows "bits_of_int (nat n) v3 = take (nat n) (bytes_bits src)"
proof -
  define m where "m = (if 16 < n then 3 else if 8 < n then 2 else 1 :: nat)"
  have nm: "nat n \<le> 8 * m" "m \<le> length src"
    using assms(1-3) by (auto simp: m_def)
  have sh: "(if n mod 8 \<noteq> 0 then nat (8 - n mod 8) else 0) = 8 * m - nat n"
  proof -
    have d: "n = 8 * (n div 8) + n mod 8" "0 \<le> n mod 8" "n mod 8 < 8" by simp_all
    with assms(1,2) have "n div 8 = 0 \<or> n div 8 = 1 \<or> n div 8 = 2" by linarith
    with d show ?thesis using assms(1,2) unfolding m_def by (elim disjE) (simp_all, linarith+)
  qed
  have v2: "bits_of_int (8 * m) v2 = take (8 * m) (bytes_bits src)"
    using nm take_octets(1) [of src 8] take_octets(2) [of src 16] take_octets(3) [of src 24]
    by (auto simp: v2_def v1_def v0_def m_def octets_or byte_bits_def [symmetric])
  have "v3 = drop_bit (8 * m - nat n) v2"
    unfolding sh [symmetric] by (simp add: v3_def)
  then have "bits_of_int (nat n) v3 = take (nat n) (bits_of_int (8 * m) v2)"
    using nm(1) by (simp add: take_bits_of_int)
  then show ?thesis using nm(1) by (simp add: v2 min_def)
qed

lemma masked_octet_bits:
  assumes "u \<le> 8"
  shows "byte_bits (b AND NOT (mask u)) = take (8 - u) (byte_bits b) @ replicate u False"
proof -
  have z: "byte_bits 0 = replicate 8 False"
    by (simp add: byte_bits_def bits_of_int_zero)
  show ?thesis
    using byte_or_bits [of "8 - u" 0 b] assms by (simp add: z)
qed

text \<open>The octets a final flush hands over: the last, partly filled one has its unused bits cleared.\<close>

lemma flush_tail:
  assumes ok: "po_ok po"
  shows "bytes_bits (take (po_buffer po + (po_nboff po + 7) div 8)
      (if (8 - po_nboff po mod 8) mod 8 \<noteq> 0
       then (po_tmpspace po)[po_buffer po + po_nboff po div 8 :=
              po_tmpspace po ! (po_buffer po + po_nboff po div 8) AND NOT (mask ((8 - po_nboff po mod 8) mod 8))]
       else po_tmpspace po))
    = take (8 * po_buffer po + po_nboff po) (bytes_bits (po_tmpspace po))
      @ replicate ((8 - po_nboff po mod 8) mod 8) False"
proof -
  let ?u = "(8 - po_nboff po mod 8) mod 8" and ?t = "po_tmpspace po"
  let ?i = "po_buffer po + po_nboff po div 8" and ?c = "po_buffer po + (po_nboff po + 7) div 8"
  let ?t' = "if ?u \<noteq> 0 then ?t[?i := ?t ! ?i AND NOT (mask ?u)] else ?t"
  have t: "length ?t = 32" and bound: "8 * po_buffer po + po_nboff po \<le> 256"
    using ok by (auto simp: po_ok_def)
  have nb: "po_nboff po = 8 * (po_nboff po div 8) + po_nboff po mod 8" and r8: "po_nboff po mod 8 < 8"
    by simp_all
  show "bytes_bits (take ?c ?t') = take (8 * po_buffer po + po_nboff po) (bytes_bits ?t) @ replicate ?u False"
  proof (cases "po_nboff po mod 8 = 0")
    case True
    with nb have c: "8 * po_buffer po + po_nboff po = 8 * ?c" by (simp add: octets_ceil)
    show ?thesis unfolding c take_bytes_bits using True by simp
  next
    case False
    then have u: "?u = 8 - po_nboff po mod 8" by simp
    have c: "?c = Suc ?i" using False by (simp add: octets_ceil)
    have q: "8 * po_buffer po + po_nboff po = 8 * ?i + po_nboff po mod 8" by simp
    have i: "?i < 32" using bound False by presburger
    have "take ?c ?t' = take ?i ?t @ [?t ! ?i AND NOT (mask ?u)]"
      using False u i t unfolding c by (simp add: take_Suc_conv_app_nth) (use r8 in \<open>blast dest: leD\<close>)
    then have "bytes_bits (take ?c ?t') = bytes_bits (take ?i ?t)
        @ take (po_nboff po mod 8) (byte_bits (?t ! ?i)) @ replicate ?u False"
      using masked_octet_bits [of ?u "?t ! ?i"] u by simp
    moreover have "take (8 * ?i + po_nboff po mod 8) (bytes_bits ?t)
        = bytes_bits (take ?i ?t) @ take (po_nboff po mod 8) (byte_bits (?t ! ?i))"
      by (rule octet_window) (use i t in simp_all)
    ultimately show ?thesis unfolding q by simp
  qed
qed

locale octet_sink =
  fixes out :: "byte list \<Rightarrow> 'k \<Rightarrow> 'k option"
    and contents :: "'k \<Rightarrow> byte list"
  assumes out_appends: "out bs k = Some k' \<Longrightarrow> contents k' = contents k @ bs"
begin

lemma po_flush_ok:
  assumes ok: "po_ok po" and nb: "po_nboff po < 8" and fl: "po_flush out po = Some po'"
  shows "po_ok po'" and "po_bits contents po' = po_bits contents po"
proof -
  let ?t = "po_tmpspace po" and ?b = "po_buffer po"
  from fl obtain k where k: "out (take ?b ?t) (po_op_key po) = Some k"
    and po': "po' = po\<lparr>po_op_key := k,
      po_tmpspace := (if po_nboff po \<noteq> 0 then ?t[0 := ?t ! ?b] else ?t),
      po_buffer := 0, po_nbits := 256, po_flushed := po_flushed po + ?b\<rparr>"
    by (auto simp: po_flush_def Let_def split: option.splits)
  show "po_ok po'" using ok nb by (simp add: po' po_ok_def)
  have c: "contents k = contents (po_op_key po) @ take ?b ?t" using k by (rule out_appends)
  have len: "length ?t = 32" "?b \<le> 32" using ok by (auto simp: po_ok_def)
  show "po_bits contents po' = po_bits contents po"
  proof (cases "po_nboff po = 0")
    case True
    then show ?thesis by (simp add: po' po_bits_def c take_bytes_bits)
  next
    case False
    with ok have b: "?b < 32" by (auto simp: po_ok_def)
    have "take (po_nboff po) (bytes_bits (?t[0 := ?t ! ?b])) = take (po_nboff po) (byte_bits (?t ! ?b))"
      using len nb by (cases ?t) simp_all
    moreover have "take (8 * ?b + po_nboff po) (bytes_bits ?t)
        = bytes_bits (take ?b ?t) @ take (po_nboff po) (byte_bits (?t ! ?b))"
      by (rule octet_window) (use b nb len(1) in simp_all)
    ultimately show ?thesis using False by (simp add: po' po_bits_def c)
  qed
qed

lemma po_room_ok:
  assumes "po_ok po" and "po_room out po obits = Some po'" and "0 < obits" and "obits < 32"
  shows "po_ok po'" and "po_bits contents po' = po_bits contents po"
    and "int (po_nboff po') + obits \<le> int (po_nbits po')" and "po_nboff po' < 8"
proof -
  have n: "po_nboff (po_norm po) < 8" by simp
  note ok = po_norm_ok [OF assms(1)]
  consider (flush) "po_flush out (po_norm po) = Some po'"
    | (keep) "po' = po_norm po" "int (po_nboff (po_norm po)) + obits \<le> int (po_nbits (po_norm po))"
    using assms(2) unfolding po_room_def Let_def by (metis not_less option.inject)
  then have "po_ok po' \<and> po_bits contents po' = po_bits contents po
      \<and> int (po_nboff po') + obits \<le> int (po_nbits po')"
  proof cases
    case flush
    have "po_nbits po' = 256"
      using flush by (auto simp: po_flush_def Let_def split: option.splits)
    then show ?thesis
      using po_flush_ok [OF ok n flush] po_flush_nboff [OF flush] n assms(1,4)
      by (simp add: po_norm_bits)
  next
    case keep
    then show ?thesis using ok assms(1) by (simp add: po_norm_bits)
  qed
  then show "po_ok po'" "po_bits contents po' = po_bits contents po"
    "int (po_nboff po') + obits \<le> int (po_nbits po')"
    by simp_all
  show "po_nboff po' < 8" using po_room_nboff [OF assms(2)] by simp
qed

lemma put_few_bits_window:
  assumes ok: "po_ok po" and room: "po_room out po obits = Some po1"
    and ob: "0 < obits" "obits < 32" and off: "po_nboff po1 + nat obits \<le> 31"
    and put: "asn_put_few_bits out po bits obits = (r, po')"
  shows "r = 0" and "po_ok po'" and "po_bits contents po' = po_bits contents po @ bits_of_int (nat obits) (uint bits)"
proof -
  note rm = po_room_ok [OF ok room ob]
  let ?n = "nat obits" and ?off = "po_nboff po1 + nat obits"
  let ?v = "take_bit ?n (uint bits)"
  have n: "0 < ?n" "?off \<le> po_nbits po1" using ob rm(3) by linarith+
  have st: "po_ok (po_store po1 ?off bs) \<and> po_bits contents (po_store po1 ?off bs)
      = po_bits contents po @ bits_of_int ?n (uint bits)"
    if "bytes_bits bs = bits_of_int (8 * length bs) (push_bit (8 * length bs - ?off) ?v)"
      "?off \<le> 8 * length bs" "8 * length bs < ?off + 8" for bs
    using po_store_ok [OF rm(1) rm(4) refl n(2) that n(1)] rm(2) by simp
  have unf: "asn_put_few_bits out po bits obits =
     (if ?off \<le> 8 then (0, po_store po1 ?off [word_of_int (push_bit (8 - ?off) ?v)])
      else if ?off \<le> 16 then (let w = push_bit (16 - ?off) ?v
        in (0, po_store po1 ?off [word_of_int (drop_bit 8 w), word_of_int w]))
      else if ?off \<le> 24 then (let w = push_bit (24 - ?off) ?v
        in (0, po_store po1 ?off [word_of_int (drop_bit 16 w), word_of_int (drop_bit 8 w), word_of_int w]))
      else (let w = push_bit (32 - ?off) ?v
        in (0, po_store po1 ?off [word_of_int (drop_bit 24 w), word_of_int (drop_bit 16 w),
              word_of_int (drop_bit 8 w), word_of_int w])))"
    using ob off room by (simp add: asn_put_few_bits.simps [of out po bits obits] Let_def)
  have "\<exists>bs. (r, po') = (0, po_store po1 ?off bs) \<and> ?off \<le> 8 * length bs \<and> 8 * length bs < ?off + 8
      \<and> bytes_bits bs = bits_of_int (8 * length bs) (push_bit (8 * length bs - ?off) ?v)"
  proof -
    consider "?off \<le> 8" | "8 < ?off" "?off \<le> 16" | "16 < ?off" "?off \<le> 24" | "24 < ?off" by linarith
    then show ?thesis
    proof cases
      case 1
      with n(1) show ?thesis unfolding put [symmetric] unf
        by (intro exI [where x = "[word_of_int (push_bit (8 - ?off) ?v)]"]) (simp add: bit_simps)
    next
      case 2
      let ?w = "push_bit (16 - ?off) ?v"
      from 2 show ?thesis unfolding put [symmetric] unf
        by (intro exI [where x = "[word_of_int (drop_bit 8 ?w), word_of_int ?w]"])
          (simp add: bit_simps bits_of_int_octets Let_def)
    next
      case 3
      let ?w = "push_bit (24 - ?off) ?v"
      from 3 show ?thesis unfolding put [symmetric] unf
        by (intro exI [where x = "[word_of_int (drop_bit 16 ?w), word_of_int (drop_bit 8 ?w), word_of_int ?w]"])
          (simp add: bit_simps bits_of_int_octets Let_def)
    next
      case 4
      let ?w = "push_bit (32 - ?off) ?v"
      from 4 off show ?thesis unfolding put [symmetric] unf
        by (intro exI [where x = "[word_of_int (drop_bit 24 ?w), word_of_int (drop_bit 16 ?w),
            word_of_int (drop_bit 8 ?w), word_of_int ?w]"])
          (simp add: bit_simps bits_of_int_octets Let_def)
    qed
  qed
  then have "r = 0 \<and> po_ok po' \<and> po_bits contents po' = po_bits contents po @ bits_of_int ?n (uint bits)"
    using st by auto
  then show "r = 0" "po_ok po'" "po_bits contents po' = po_bits contents po @ bits_of_int ?n (uint bits)"
    by simp_all
qed

lemma put_few_bits_ok:
  assumes ok: "po_ok po" and put: "asn_put_few_bits out po bits obits = (0, po')"
  shows "0 \<le> obits" and "obits < 32" and "po_ok po'"
    and "po_bits contents po' = po_bits contents po @ bits_of_int (nat obits) (uint bits)"
proof -
  from put show ob: "0 \<le> obits" "obits < 32"
    by (auto simp: asn_put_few_bits.simps [of out po bits obits] split: if_splits)
  have "po_ok po' \<and> po_bits contents po' = po_bits contents po @ bits_of_int (nat obits) (uint bits)"
  proof (cases "obits = 0")
    case True
    with put ok show ?thesis by (simp add: asn_put_few_bits.simps [of out po bits 0])
  next
    case False
    with ob have ob': "0 < obits" by simp
    with ob put obtain po1 where room: "po_room out po obits = Some po1"
      by (auto simp: asn_put_few_bits.simps [of out po bits obits] split: option.splits)
    note rm = po_room_ok [OF ok room ob' ob(2)]
    show ?thesis
    proof (cases "po_nboff po1 + nat obits \<le> 31")
      case True
      then show ?thesis using put_few_bits_window [OF ok room ob' ob(2) True put] by simp
    next
      case off: False
      let ?v = "take_bit (nat obits) (uint bits)"
      obtain r1 po2 where p1: "asn_put_few_bits out po1 (word_of_int (drop_bit (nat (obits - 24)) ?v)) 24 = (r1, po2)"
        by fastforce
      obtain r2 po3 where p2: "asn_put_few_bits out po2 (word_of_int ?v) (obits - 24) = (r2, po3)"
        by fastforce
      from put room ob ob' off p1 p2 have r: "r1 = 0" "r2 = 0" "po3 = po'"
        by (auto simp: asn_put_few_bits.simps [of out po bits obits] Let_def split: if_splits)
      have big: "25 \<le> obits" using off rm(4) ob by linarith
      have room1: "po_room out po1 24 = Some po1"
        using rm(3,4) big by (simp add: po_room_def po_norm_def Let_def)
      have w1: "po_ok po2" "po_bits contents po2 = po_bits contents po1
          @ bits_of_int 24 (uint (word_of_int (drop_bit (nat (obits - 24)) ?v) :: u32))"
        using put_few_bits_window [OF rm(1) room1 _ _ _ p1] rm(4) by simp_all
      obtain po2' where room2: "po_room out po2 (obits - 24) = Some po2'"
        using p2 r(2) big by (auto simp: asn_put_few_bits.simps [of out po2 _ "obits - 24"] split: if_splits option.splits)
      have "po_nboff po2' < 8" by (rule po_room_ok [OF w1(1) room2]) (use big ob in simp_all)
      then have w2: "po_ok po3" "po_bits contents po3 = po_bits contents po2
          @ bits_of_int (nat (obits - 24)) (uint (word_of_int ?v :: u32))"
        using put_few_bits_window [OF w1(1) room2 _ _ _ p2] big ob by simp_all
      have v: "bits_of_int 24 (uint (word_of_int (drop_bit (nat (obits - 24)) ?v) :: u32))
          @ bits_of_int (nat (obits - 24)) (uint (word_of_int ?v :: u32)) = bits_of_int (nat obits) (uint bits)"
      proof -
        have "24 + nat (obits - 24) = nat obits" using big by simp
        then have "bits_of_int (nat obits) ?v = bits_of_int 24 (drop_bit (nat (obits - 24)) ?v)
            @ bits_of_int (nat (obits - 24)) ?v"
          by (metis bits_of_int_add_length)
        then show ?thesis using ob by (simp add: uint_word_of_int_eq bits_of_int_take_bit)
      qed
      show ?thesis using w1 w2 v r(3) rm(2) by simp
    qed
  qed
  then show "po_ok po'" "po_bits contents po' = po_bits contents po @ bits_of_int (nat obits) (uint bits)"
    by simp_all
qed

lemma put_many_bits_ok:
  assumes "po_ok po" and "0 \<le> n" and "n \<le> 8 * int (length src)"
    and "asn_put_many_bits out po src n = (0, po')"
  shows "po_ok po' \<and> po_bits contents po' = po_bits contents po @ take (nat n) (bytes_bits src)"
  using assms
proof (induction "nat n" arbitrary: n po src rule: less_induct)
  case less
  note unf = asn_put_many_bits.simps [of out po src n]
  consider "n = 0" | "24 \<le> n" | "0 < n" "n < 24" using less.prems(2) by linarith
  then show ?case
  proof cases
    case 1
    with less.prems show ?thesis by (simp add: asn_put_many_bits.simps [of out po src 0])
  next
    case 2
    let ?v = "push_bit 16 (uint (src ! 0)) OR push_bit 8 (uint (src ! 1)) OR uint (src ! 2)"
    obtain r po1 where p: "asn_put_few_bits out po (word_of_int ?v) 24 = (r, po1)" by fastforce
    with less.prems(4) 2 have r: "r = 0" and rest: "asn_put_many_bits out po1 (drop 3 src) (n - 24) = (0, po')"
      by (auto simp: unf Let_def split: if_splits)
    have few: "po_ok po1" "po_bits contents po1 = po_bits contents po
        @ byte_bits (src ! 0) @ byte_bits (src ! 1) @ byte_bits (src ! 2)"
      using put_few_bits_ok [OF less.prems(1) p [unfolded r]]
      by (simp_all add: uint_word_of_int_eq bits_of_int_take_bit octets_or del: take_bit_or)
    have len: "3 \<le> length src" using less.prems(3) 2 by linarith
    have "po_ok po' \<and> po_bits contents po' = po_bits contents po1 @ take (nat (n - 24)) (bytes_bits (drop 3 src))"
      by (rule less.hyps [OF _ few(1) _ _ rest]) (use 2 less.prems(3) len in auto)
    moreover have "byte_bits (src ! 0) @ byte_bits (src ! 1) @ byte_bits (src ! 2)
        @ take (nat (n - 24)) (bytes_bits (drop 3 src)) = take (nat n) (bytes_bits src)"
      unfolding three_octets [OF len, symmetric] using 2 by (simp add: nat_diff_distrib)
    ultimately show ?thesis using few(2) by simp
  next
    case 3
    obtain v3 where v3: "bits_of_int (nat n) v3 = take (nat n) (bytes_bits src)"
      and p: "asn_put_few_bits out po (word_of_int v3) n = (0, po')"
      using tail_value [OF 3 less.prems(3)] less.prems(4) 3
      by (auto simp: unf Let_def split: prod.splits if_splits)
    show ?thesis
      using put_few_bits_ok [OF less.prems(1) p] 3 v3
      by (simp add: uint_word_of_int_eq bits_of_int_take_bit)
  qed
qed

lemma put_aligned_flush_ok:
  assumes ok: "po_ok po" and fl: "asn_put_aligned_flush out po = (0, po')"
  shows "po_ok po'" and "po_nboff po' = 0" and "po_buffer po' = 0"
    and "bytes_bits (contents (po_op_key po'))
      = po_bits contents po @ replicate ((8 - po_nboff po mod 8) mod 8) False"
proof -
  let ?u = "(8 - po_nboff po mod 8) mod 8" and ?t = "po_tmpspace po"
  let ?i = "po_buffer po + po_nboff po div 8" and ?c = "po_buffer po + (po_nboff po + 7) div 8"
  let ?t' = "if ?u \<noteq> 0 then ?t[?i := ?t ! ?i AND NOT (mask ?u)] else ?t"
  from fl obtain k where k: "out (take ?c ?t') (po_op_key po) = Some k"
    and po': "po' = po\<lparr>po_tmpspace := ?t', po_op_key := k, po_buffer := 0, po_nboff := 0, po_nbits := 256,
      po_flushed := po_flushed po + ?c\<rparr>"
    by (auto simp: asn_put_aligned_flush_def Let_def split: option.splits if_splits)
  show "po_ok po'" "po_nboff po' = 0" "po_buffer po' = 0"
    using ok by (simp_all add: po' po_ok_def)
  show "bytes_bits (contents (po_op_key po')) = po_bits contents po @ replicate ?u False"
    using out_appends [OF k] flush_tail [OF ok] by (simp add: po' po_bits_def)
qed

end

end
