(* ===== verification/BitFlow.thy ===== *)
theory BitFlow
  imports BitData
begin

text \<open>
  Contracts of PER operations as flows of bits. \<open>po_writes contents po bs po'\<close>: from the
  output stream \<open>po\<close> an operation appended exactly \<open>bs\<close> and kept the stream and its octet
  count consistent. \<open>pd_reads pd bs pd'\<close>: from the input stream \<open>pd\<close> it took exactly \<open>bs\<close>,
  and the position and the \<^verbatim>\<open>moved\<close> counter advanced by as much. Both compose, so the
  contract of a routine is the concatenation of those of its calls.
\<close>

definition align_pad :: "nat \<Rightarrow> bool list" where
  "align_pad n = replicate ((8 - n mod 8) mod 8) False"

lemma align_pad_mod [simp]: "align_pad (n mod 8) = align_pad n"
  by (simp add: align_pad_def)

lemma align_pad_aligned [simp]: "(n + length (align_pad n)) mod 8 = 0"
proof -
  obtain q r where n: "n = 8 * q + r" and r: "r < 8"
    by (metis mod_less_divisor mult_div_mod_eq zero_less_numeral)
  have "r = 0 \<or> 8 * q + r + (8 - r) mod 8 = 8 * (q + 1)" using r by (cases "r = 0") simp_all
  then show ?thesis using n r by (auto simp: align_pad_def simp del: mult_Suc_right)
qed

lemma align_pad_0 [simp]: "n mod 8 = 0 \<Longrightarrow> align_pad n = []"
  by (simp add: align_pad_def)

section \<open>Output\<close>

definition po_counted :: "('k \<Rightarrow> byte list) \<Rightarrow> 'k outp \<Rightarrow> bool" where
  "po_counted contents po \<longleftrightarrow> po_flushed po = length (contents (po_op_key po))"

definition po_writes :: "('k \<Rightarrow> byte list) \<Rightarrow> 'k outp \<Rightarrow> bool list \<Rightarrow> 'k outp \<Rightarrow> bool" where
  "po_writes contents po bs po' \<longleftrightarrow> po_ok po' \<and> po_bits contents po' = po_bits contents po @ bs
     \<and> (po_counted contents po \<longrightarrow> po_counted contents po')"

lemma po_writes_ok [dest]: "po_writes c po bs po' \<Longrightarrow> po_ok po'"
  by (simp add: po_writes_def)

lemma po_writes_refl: "po_ok po \<Longrightarrow> po_writes c po [] po"
  by (simp add: po_writes_def)

lemma po_writes_trans: "po_writes c po as po1 \<Longrightarrow> po_writes c po1 bs po2 \<Longrightarrow> po_writes c po (as @ bs) po2"
  by (simp add: po_writes_def)

lemma po_nboff_mod:
  assumes "po_ok po"
  shows "length (po_bits c po) mod 8 = po_nboff po mod 8"
proof -
  have "8 * po_buffer po + po_nboff po \<le> 8 * length (po_tmpspace po)"
    using assms by (auto simp: po_ok_def)
  then have "length (po_bits c po) = 8 * (length (c (po_op_key po)) + po_buffer po) + po_nboff po"
    by (simp add: po_bits_def)
  then show ?thesis by (simp only: mod_mult_self4)
qed

lemma po_writes_nboff:
  assumes "po_ok po" and "po_writes c po bs po'"
  shows "po_nboff po' mod 8 = (po_nboff po + length bs) mod 8"
proof -
  have "po_nboff po' mod 8 = (length (po_bits c po) + length bs) mod 8"
    using po_nboff_mod [of po' c] assms(2) by (simp add: po_writes_def)
  also have "\<dots> = (po_nboff po + length bs) mod 8"
    using po_nboff_mod [OF assms(1), of c] by (metis mod_add_left_eq)
  finally show ?thesis .
qed

lemma po_norm_counted [simp]: "po_counted c (po_norm po) = po_counted c po"
  by (simp add: po_counted_def po_norm_def)

lemma po_store_counted [simp]: "po_counted c (po_store po off bs) = po_counted c po"
  by (simp add: po_counted_def po_store_def Let_def)

context octet_sink
begin

lemma po_room_counted:
  assumes "po_ok po" and "po_room out po obits = Some po'" and "po_counted contents po"
  shows "po_counted contents po'"
proof -
  have len: "min (length (po_tmpspace (po_norm po))) (po_buffer (po_norm po)) = po_buffer (po_norm po)"
    using po_norm_ok [OF assms(1)] by (auto simp: po_ok_def)
  have "po_counted contents (po_norm po)" using assms(3) by simp
  then show ?thesis
    using assms(2) len
    by (auto simp: po_room_def po_flush_def po_counted_def Let_def out_appends
        split: if_split_asm option.splits)
qed

lemma put_few_bits_counted:
  assumes "po_ok po" and "asn_put_few_bits out po bits obits = (0, po')" and "po_counted contents po"
  shows "po_counted contents po'"
  using assms
proof (induction "nat obits" arbitrary: po bits obits po' rule: less_induct)
  case less
  note unf = asn_put_few_bits.simps [of out po bits obits]
  have ob: "0 \<le> obits" "obits < 32" using put_few_bits_ok [OF less.prems(1,2)] by simp_all
  show ?case
  proof (cases "obits = 0")
    case True
    with less.prems show ?thesis by (simp add: asn_put_few_bits.simps [of out po bits 0])
  next
    case False
    with ob less.prems(2) obtain po1 where room: "po_room out po obits = Some po1"
      by (auto simp: unf split: option.splits)
    note rm = po_room_ok [OF less.prems(1) room] and cn = po_room_counted [OF less.prems(1) room less.prems(3)]
    show ?thesis
    proof (cases "po_nboff po1 + nat obits \<le> 31")
      case True
      with less.prems(2) False ob room show ?thesis using cn
        by (auto simp: unf Let_def split: if_split_asm)
    next
      case off: False
      let ?v = "take_bit (nat obits) (uint bits)"
      obtain r1 po2 where p1: "asn_put_few_bits out po1 (word_of_int (drop_bit (nat (obits - 24)) ?v)) 24 = (r1, po2)"
        by fastforce
      obtain r2 po3 where p2: "asn_put_few_bits out po2 (word_of_int ?v) (obits - 24) = (r2, po3)"
        by fastforce
      have r: "r1 = 0" "r2 = 0" "po3 = po'"
        using less.prems(2) room ob off p1 p2 False
        by (auto simp: unf Let_def split: if_splits)
      have big: "24 < obits" using off rm(4) ob False by linarith
      have ok1: "po_ok po1" using rm(1) ob False by simp
      have "po_counted contents po2" by (rule less.hyps [OF _ ok1 p1 [unfolded r] cn]) (use big in simp)
      then show ?thesis
        using less.hyps [of "obits - 24" po2 "word_of_int ?v" po3] put_few_bits_ok(3) [OF ok1 p1 [unfolded r]]
          p2 r big by simp
    qed
  qed
qed

lemma put_few_bits_writes:
  "po_ok po \<Longrightarrow> asn_put_few_bits out po bits obits = (0, po') \<Longrightarrow>
    po_writes contents po (bits_of_int (nat obits) (uint bits)) po'"
  using put_few_bits_ok [of po bits obits po'] put_few_bits_counted [of po bits obits po']
  by (simp add: po_writes_def)

lemma put_many_bits_counted:
  assumes "po_ok po" and "asn_put_many_bits out po src n = (0, po')" and "po_counted contents po"
  shows "po_counted contents po'"
  using assms
proof (induction "nat n" arbitrary: n po src rule: less_induct)
  case less
  note unf = asn_put_many_bits.simps [of out po src n]
  show ?case
  proof (cases "24 \<le> n")
    case True
    with less.prems(2) obtain po1 v where p: "asn_put_few_bits out po v 24 = (0, po1)"
      and q: "asn_put_many_bits out po1 (drop 3 src) (n - 24) = (0, po')"
      by (auto simp: unf Let_def split: prod.splits if_splits)
    show ?thesis
      by (rule less.hyps [OF _ put_few_bits_ok(3) [OF less.prems(1) p] q
            put_few_bits_counted [OF less.prems(1) p less.prems(3)]]) (use True in simp)
  next
    case False
    then show ?thesis
      using less.prems put_few_bits_counted [OF less.prems(1) _ less.prems(3)]
      by (auto simp: unf Let_def split: prod.splits if_splits)
  qed
qed

lemma put_many_bits_writes:
  "po_ok po \<Longrightarrow> 0 \<le> n \<Longrightarrow> n \<le> 8 * int (length src) \<Longrightarrow> asn_put_many_bits out po src n = (0, po') \<Longrightarrow>
    po_writes contents po (take (nat n) (bytes_bits src)) po'"
  using put_many_bits_ok [of po n src po'] put_many_bits_counted [of po src n po']
  by (simp add: po_writes_def)

end

section \<open>Writing succeeds where there is room\<close>

text \<open>
  A sink with a known amount of room takes everything that fits. The capacity of a stream is
  that room less what waits in the scratch space; every writer uses up exactly the bits it
  writes, so a large enough destination makes it succeed.
\<close>

locale roomy_sink = octet_sink out contents
  for out :: "byte list \<Rightarrow> 'k \<Rightarrow> 'k option" and contents :: "'k \<Rightarrow> byte list" +
  fixes room :: "'k \<Rightarrow> nat"
  assumes out_room: "length bs \<le> room k \<Longrightarrow> \<exists>k'. out bs k = Some k' \<and> room k - length bs \<le> room k'"

definition po_cap :: "('k \<Rightarrow> nat) \<Rightarrow> 'k outp \<Rightarrow> int" where
  "po_cap room po = 8 * int (room (po_op_key po)) - int (8 * po_buffer po + po_nboff po)"

lemma po_cap_norm [simp]: "po_cap room (po_norm po) = po_cap room po"
proof -
  obtain q r where "po_nboff po = 8 * q + r" "r < 8"
    by (metis mod_less_divisor mult_div_mod_eq zero_less_numeral)
  then show ?thesis by (auto simp: po_cap_def po_norm_def)
qed

lemma po_cap_store: "po_cap room (po_store po off bs) = po_cap room po + int (po_nboff po) - int off"
  by (simp add: po_cap_def po_store_def Let_def)

context roomy_sink
begin

lemma po_room_total:
  assumes "po_ok po" and "0 < obits" and "obits \<le> po_cap room po"
  shows "\<exists>po'. po_room out po obits = Some po' \<and> po_cap room po \<le> po_cap room po'"
proof -
  let ?po = "po_norm po" and ?t = "take (po_buffer (po_norm po)) (po_tmpspace (po_norm po))"
  have ok: "po_ok ?po" by (rule po_norm_ok [OF assms(1)])
  have len: "length ?t = po_buffer ?po" using ok by (auto simp: po_ok_def)
  have "0 < po_cap room ?po" using assms(2,3) by simp
  then have "length ?t \<le> room (po_op_key ?po)" by (simp add: len po_cap_def del: po_cap_norm)
  from out_room [OF this] obtain k where k: "out ?t (po_op_key ?po) = Some k"
    and r: "room (po_op_key ?po) - length ?t \<le> room k" by auto
  show ?thesis
  proof (cases "int (po_nbits ?po) < int (po_nboff ?po) + obits")
    case True
    then obtain po' where f: "po_flush out ?po = Some po'" "po_room out po obits = Some po'"
      using k by (simp add: po_room_def po_flush_def Let_def)
    then have "po_op_key po' = k" "po_buffer po' = 0" "po_nboff po' = po_nboff ?po"
      using k by (auto simp: po_flush_def Let_def)
    then have "po_cap room ?po \<le> po_cap room po'" using r len by (simp add: po_cap_def)
    then show ?thesis using f by simp
  qed (simp add: po_room_def Let_def)
qed

lemma put_few_bits_total:
  assumes "po_ok po" and "0 \<le> obits" and "obits < 32" and "obits \<le> po_cap room po"
  shows "\<exists>po'. asn_put_few_bits out po bits obits = (0, po') \<and> po_ok po' \<and> po_cap room po - obits \<le> po_cap room po'"
  using assms
proof (induction "nat obits" arbitrary: po bits obits rule: less_induct)
  case less
  note unf = asn_put_few_bits.simps [of out po bits obits]
  show ?case
  proof (cases "obits = 0")
    case True
    then show ?thesis using less.prems by (simp add: asn_put_few_bits.simps [of out po bits 0])
  next
    case False
    with less.prems have ob: "0 < obits" by simp
    from po_room_total [OF less.prems(1) ob less.prems(4)] obtain po1 where
      room: "po_room out po obits = Some po1" and c: "po_cap room po \<le> po_cap room po1" by auto
    note rm = po_room_ok [OF less.prems(1) room ob less.prems(3)]
    show ?thesis
    proof (cases "po_nboff po1 + nat obits \<le> 31")
      case True
      obtain r po' where put: "asn_put_few_bits out po bits obits = (r, po')" by fastforce
      note w = put_few_bits_window [OF less.prems(1) room ob less.prems(3) True put]
      have "po_cap room po' = po_cap room po1 - obits"
        using put room True ob less.prems(3)
        by (auto simp: unf Let_def po_cap_store split: if_split_asm)
      then show ?thesis using put w c by simp
    next
      case off: False
      have big: "24 < obits" "24 < nat obits" using off rm(4) ob by linarith+
      let ?v = "take_bit (nat obits) (uint bits)"
      from less.hyps [of 24 po1 "word_of_int (drop_bit (nat (obits - 24)) ?v)"] big rm c less.prems
      obtain po2 where 1: "asn_put_few_bits out po1 (word_of_int (drop_bit (nat (obits - 24)) ?v)) 24 = (0, po2)"
        and ok2: "po_ok po2" and c2: "po_cap room po1 - 24 \<le> po_cap room po2" by auto
      from less.hyps [of "obits - 24" po2 "word_of_int ?v"] big ok2 c2 c less.prems
      obtain po3 where 2: "asn_put_few_bits out po2 (word_of_int ?v) (obits - 24) = (0, po3)"
        and ok3: "po_ok po3" and c3: "po_cap room po2 - (obits - 24) \<le> po_cap room po3" by auto
      have "asn_put_few_bits out po bits obits = (0, po3)"
        using room off ob less.prems(3) 1 2 by (simp add: unf Let_def)
      then show ?thesis using ok3 c c2 c3 by simp
    qed
  qed
qed

lemma put_many_bits_total:
  assumes "po_ok po" and "0 \<le> n" and "n \<le> po_cap room po"
  shows "\<exists>po'. asn_put_many_bits out po src n = (0, po') \<and> po_ok po' \<and> po_cap room po - n \<le> po_cap room po'"
  using assms
proof (induction "nat n" arbitrary: n po src rule: less_induct)
  case less
  note unf = asn_put_many_bits.simps [of out po src n]
  consider "n = 0" | "24 \<le> n" | "0 < n" "n < 24" using less.prems(2) by linarith
  then show ?case
  proof cases
    case 1
    then show ?thesis using less.prems by (simp add: asn_put_many_bits.simps [of out po src 0])
  next
    case 2
    let ?v = "push_bit 16 (uint (src ! 0)) OR push_bit 8 (uint (src ! 1)) OR uint (src ! 2)"
    from put_few_bits_total [OF less.prems(1), of 24 "word_of_int ?v"] 2 less.prems(3) obtain po1 where
      1: "asn_put_few_bits out po (word_of_int ?v) 24 = (0, po1)" and ok1: "po_ok po1"
      and c1: "po_cap room po - 24 \<le> po_cap room po1" by auto
    from less.hyps [of "n - 24" po1 "drop 3 src"] 2 ok1 c1 less.prems(3) obtain po2 where
      2: "asn_put_many_bits out po1 (drop 3 src) (n - 24) = (0, po2)" "po_ok po2"
      "po_cap room po1 - (n - 24) \<le> po_cap room po2" by auto
    show ?thesis using 1 2 c1 \<open>24 \<le> n\<close> by (simp add: unf Let_def del: push_bit_or)
  next
    case 3
    let ?v1 = "if 8 < n then push_bit 8 (uint (src ! 0)) OR uint (src ! 1) else uint (src ! 0)"
    let ?v2 = "if 16 < n then push_bit 8 ?v1 OR uint (src ! 2) else ?v1"
    let ?v3 = "if n mod 8 \<noteq> 0 then drop_bit (nat (8 - n mod 8)) ?v2 else ?v2"
    from put_few_bits_total [OF less.prems(1,2), of "word_of_int ?v3"] 3 less.prems(3) obtain po' where
      p: "asn_put_few_bits out po (word_of_int ?v3) n = (0, po')" "po_ok po'" "po_cap room po - n \<le> po_cap room po'"
      by auto
    have "asn_put_many_bits out po src n = (0, po')"
      using 3 p(1) unfolding unf Let_def by (simp del: push_bit_or)
    then show ?thesis using p by simp
  qed
qed

end

section \<open>Input\<close>

definition pd_left :: "bit_data \<Rightarrow> nat" where
  "pd_left pd = 8 * length (pd_buffer pd) - pd_nboff pd"

definition pd_reads :: "bit_data \<Rightarrow> bool list \<Rightarrow> bit_data \<Rightarrow> bool" where
  "pd_reads pd bs pd' \<longleftrightarrow> pd_ok pd' \<and> pd_bits pd = bs @ pd_bits pd' \<and> pd_left pd = length bs + pd_left pd'
     \<and> pd_moved pd' = pd_moved pd + of_nat (length bs)"

lemma pd_reads_ok [dest]: "pd_reads pd bs pd' \<Longrightarrow> pd_ok pd'"
  by (simp add: pd_reads_def)

lemma pd_reads_bits: "pd_reads pd bs pd' \<Longrightarrow> pd_bits pd = bs @ rest \<Longrightarrow> pd_bits pd' = rest"
  by (simp add: pd_reads_def)

lemma pd_reads_refl: "pd_ok pd \<Longrightarrow> pd_reads pd [] pd"
  by (simp add: pd_reads_def)

lemma pd_reads_trans: "pd_reads pd as pd1 \<Longrightarrow> pd_reads pd1 bs pd2 \<Longrightarrow> pd_reads pd (as @ bs) pd2"
  by (simp add: pd_reads_def)

lemma pd_nboff_mod:
  assumes "pd_ok pd"
  shows "(pd_left pd + pd_nboff pd) mod 8 = 0"
  using assms by (simp add: pd_left_def pd_ok_def)

lemma pd_reads_nboff:
  assumes "pd_ok pd" and "pd_reads pd bs pd'"
  shows "pd_nboff pd' mod 8 = (pd_nboff pd + length bs) mod 8"
proof -
  have "pd_nboff pd \<le> 8 * length (pd_buffer pd)" "pd_nboff pd' \<le> 8 * length (pd_buffer pd')"
    using assms by (auto simp: pd_ok_def dest!: pd_reads_ok)
  moreover have "pd_left pd = length bs + pd_left pd'" using assms(2) by (simp add: pd_reads_def)
  ultimately have "pd_nboff pd' + 8 * length (pd_buffer pd) = pd_nboff pd + length bs + 8 * length (pd_buffer pd')"
    by (simp add: pd_left_def)
  then show ?thesis by (metis mod_mult_self2)
qed

lemma get_few_bits_reads:
  assumes "pd_ok pd" and "n \<le> length (pd_bits pd)" and "n \<le> 31"
  shows "\<exists>pd'. asn_get_few_bits pd (int n) = (int_of_bits (take n (pd_bits pd)), pd')
    \<and> pd_reads pd (take n (pd_bits pd)) pd'"
proof -
  have nb: "n \<le> pd_nbits pd - pd_nboff pd" using assms length_pd_bits [of pd] by simp
  have b: "pd_nboff pd \<le> 8 * length (pd_buffer pd)" "n \<le> 8 * length (pd_buffer pd) - pd_nboff pd"
    using assms(1) nb by (auto simp: pd_ok_def)
  have q: "8 * (pd_nboff pd div 8) + pd_nboff pd mod 8 = pd_nboff pd" by simp
  have d: "8 * length (drop (pd_nboff pd div 8) (pd_buffer pd)) = 8 * length (pd_buffer pd) - 8 * (pd_nboff pd div 8)"
    by simp
  have "pd_left (pd_adv pd (int n)) = pd_left pd - n" and "n \<le> pd_left pd"
    using b q d unfolding pd_left_def pd_adv_def pd_norm_def Let_def by simp_all
  moreover have "pd_moved (pd_adv pd (int n)) = pd_moved pd + of_nat n"
    by (simp add: pd_adv_def pd_norm_def Let_def)
  moreover have "asn_get_few_bits pd (int n) = (int_of_bits (take n (pd_bits pd)), pd_adv pd (int n))"
    using get_few_bits_ok [of pd "int n"] assms by simp
  moreover have "pd_ok (pd_adv pd (int n))" "pd_bits (pd_adv pd (int n)) = drop n (pd_bits pd)"
    using pd_adv_facts [of pd "int n"] assms by simp_all
  ultimately show ?thesis
    using assms(2) by (simp add: pd_reads_def min_absorb2)
qed

lemma get_field_reads:
  assumes "pd_ok pd" and "pd_bits pd = bits_of_int n x @ rest" and "n \<le> 31"
  shows "\<exists>pd'. asn_get_few_bits pd (int n) = (take_bit n x, pd') \<and> pd_reads pd (bits_of_int n x) pd'"
  using get_few_bits_reads [of pd n] assms by (simp add: bit_simps)

lemma get_many_bits_loop_left:
  assumes "pd_ok pd" and "0 \<le> n" and "n \<le> int (length (pd_bits pd))"
    and "asn_get_many_bits_loop pd n = (r, dst, pd')"
  shows "pd_left pd = nat n + pd_left pd' \<and> pd_moved pd' = pd_moved pd + of_nat (nat n)"
  using assms
proof (induction "nat n" arbitrary: n pd dst rule: less_induct)
  case less
  note unf = asn_get_many_bits_loop.simps [of pd n]
  consider "n = 0" | "24 \<le> n" | "0 < n" "n < 24" using less.prems(2) by linarith
  then show ?case
  proof cases
    case 1
    with less.prems(4) show ?thesis by (simp add: asn_get_many_bits_loop.simps [of pd 0])
  next
    case 2
    then obtain pd1 where few: "asn_get_few_bits pd 24 = (int_of_bits (take 24 (pd_bits pd)), pd1)"
      and rd: "pd_reads pd (take 24 (pd_bits pd)) pd1"
      using get_few_bits_reads [of pd 24] less.prems(1,3) 2 by auto
    have len: "length (take 24 (pd_bits pd)) = 24" using less.prems(3) 2 by simp
    obtain dst' where rest: "asn_get_many_bits_loop pd1 (n - 24) = (r, dst', pd')"
      using less.prems(4) 2 few by (auto simp: unf Let_def split: prod.splits if_splits)
    have "length (pd_bits pd) = length (take 24 (pd_bits pd)) + length (pd_bits pd1)"
      using rd by (metis length_append pd_reads_def)
    then have bits: "length (pd_bits pd) = 24 + length (pd_bits pd1)" using len by linarith
    have "pd_left pd1 = nat (n - 24) + pd_left pd' \<and> pd_moved pd' = pd_moved pd1 + of_nat (nat (n - 24))"
      by (rule less.hyps [OF _ pd_reads_ok [OF rd] _ _ rest]) (use 2 bits less.prems(3) in simp_all)
    moreover have "pd_left pd = 24 + pd_left pd1" "pd_moved pd1 = pd_moved pd + 24"
      using rd unfolding pd_reads_def len by simp_all
    moreover have "nat n = 24 + nat (n - 24)" using 2 by simp
    ultimately show ?thesis by simp
  next
    case 3
    then obtain pd1 where few: "asn_get_few_bits pd n = (int_of_bits (take (nat n) (pd_bits pd)), pd1)"
      and rd: "pd_reads pd (take (nat n) (pd_bits pd)) pd1"
      using get_few_bits_reads [of pd "nat n"] less.prems(1,3) by (auto simp: nat_le_iff)
    then have "pd' = pd1" using 3 less.prems(4) by (auto simp: unf Let_def split: if_splits)
    then show ?thesis using rd less.prems(3) by (simp add: pd_reads_def nat_le_iff)
  qed
qed

lemma get_many_bits_reads:
  assumes "pd_ok pd" and "pd_bits pd = bytes_bits bs @ rest"
  shows "\<exists>pd'. asn_get_many_bits pd False (8 * int (length bs)) = (0, bs, pd') \<and> pd_reads pd (bytes_bits bs) pd'"
proof -
  let ?n = "8 * int (length bs)"
  have n: "0 \<le> ?n" "?n \<le> int (length (pd_bits pd))" "nat ?n = 8 * length bs"
    using assms(2) by (simp_all add: nat_mult_distrib)
  obtain dst pd' where g: "asn_get_many_bits pd False ?n = (0, dst, pd')" "pd_ok pd'"
    "pd_bits pd' = rest" "bytes_bits dst = bytes_bits bs"
    using get_many_bits_ok [OF assms(1) n(1,2)] assms(2) n(3) by (auto simp: octet_pad_def)
  from g(1) have "asn_get_many_bits_loop pd ?n = (0, dst, pd')" by (simp add: asn_get_many_bits_def)
  from get_many_bits_loop_left [OF assms(1) n(1,2) this] g assms(2) n(3) show ?thesis
    by (simp add: pd_reads_def bytes_bits_inject)
qed

lemmas get_numeral_field = get_field_reads [where n = "numeral k" for k, unfolded of_nat_numeral]

end
