(* ===== verification/PerSupport.thy ===== *)
theory PerSupport
  imports BitFlow
begin

text \<open>
  The PER primitives of \<^verbatim>\<open>e2ap/lib/per_support.c\<close>: length determinants, normally small
  numbers, constrained whole numbers and the rebasing of a value into its range, for the
  unaligned (\<open>uper_\<close>) and the aligned (\<open>aper_\<close>) variant. A C result of -1 is the \<open>int\<close>
  -1, and the out parameters are further components of the result (\<open>None\<close> where the C
  function fails and leaves them unset). \<^verbatim>\<open>size_t\<close> lengths are \<open>nat\<close>; \<^verbatim>\<open>long\<close> and
  \<^verbatim>\<open>unsigned long\<close> are 64 bit words.
\<close>

section \<open>Unaligned PER\<close>

definition uper_get_length :: "bit_data \<Rightarrow> int \<Rightarrow> nat \<Rightarrow> int \<times> bool \<times> bit_data" where
  "uper_get_length pd ebits lower_bound =
     (if 0 \<le> ebits \<and> ebits \<le> 16 then
        let (v, pd1) = asn_get_few_bits pd ebits
        in (if 0 \<le> v then v + int lower_bound else v, False, pd1)
      else
        let (v, pd1) = asn_get_few_bits pd 8
        in if v AND 0x80 = 0 then (v AND 0x7F, False, pd1)
           else if v AND 0x40 = 0 then
             let (w, pd2) = asn_get_few_bits pd1 8
             in (push_bit 8 (v AND 0x3F) OR w, False, pd2)
           else if v < 0 then (-1, False, pd1)
           else let m = v AND 0x3F
                in if m < 1 \<or> 4 < m then (-1, False, pd1) else (16384 * m, True, pd1))"

definition uper_get_nslength :: "bit_data \<Rightarrow> int \<times> bit_data" where
  "uper_get_nslength pd =
     (let (flag, pd1) = asn_get_few_bits pd 1
      in if flag = 0 then
           let (v, pd2) = asn_get_few_bits pd1 6; len = v + 1
           in if len \<le> 0 then (-1, pd2) else (len, pd2)
         else
           let (len, repeat, pd2) = uper_get_length pd1 (-1) 0
           in if 0 \<le> len \<and> \<not> repeat then (len, pd2) else (-1, pd2))"

definition uper_get_nsnnwn :: "bit_data \<Rightarrow> int \<times> bit_data" where
  "uper_get_nsnnwn pd =
     (let (v, pd1) = asn_get_few_bits pd 7
      in if v AND 64 \<noteq> 0 then
           let (w, pd2) = asn_get_few_bits pd1 2;
               v2 = push_bit 2 (v AND 63) OR w
           in if v2 AND 128 \<noteq> 0 then (-1, pd2)
              else if v2 = 0 then (0, pd2)
              else if 3 \<le> v2 then (-1, pd2)
              else asn_get_few_bits pd2 (8 * v2)
         else (v, pd1))"

definition uper_put_nsnnwn :: "(byte list \<Rightarrow> 'k \<Rightarrow> 'k option) \<Rightarrow> 'k outp \<Rightarrow> int \<Rightarrow> int \<times> 'k outp" where
  "uper_put_nsnnwn out po n =
     (if n \<le> 63 then
        if n < 0 then (-1, po) else asn_put_few_bits out po (word_of_int n) 7
      else if 256 * 65536 \<le> n then (-1, po)
      else
        let bytes = (if n < 256 then 1 else if n < 65536 then 2 else 3);
            (r, po1) = asn_put_few_bits out po (word_of_int bytes) 8
        in if r \<noteq> 0 then (-1, po1) else asn_put_few_bits out po1 (word_of_int n) (8 * bytes))"

function uper_get_constrained_whole_number :: "bit_data \<Rightarrow> int \<Rightarrow> u64 option \<times> bit_data" where
  "uper_get_constrained_whole_number pd nbits =
     (if nbits \<le> 31 then
        let (half, pd1) = asn_get_few_bits pd nbits
        in if half < 0 then (None, pd1) else (Some (word_of_int half), pd1)
      else if 64 < nbits then (None, pd)
      else
        let (half, pd1) = asn_get_few_bits pd 31
        in if half < 0 then (None, pd1)
           else case uper_get_constrained_whole_number pd1 (nbits - 31) of
             (None, pd2) \<Rightarrow> (None, pd2)
           | (Some lhalf, pd2) \<Rightarrow> (Some (push_bit (nat (nbits - 31)) (word_of_int half) OR lhalf), pd2))"
  by pat_completeness auto
termination
  by (relation "measure (\<lambda>(pd, nbits). nat nbits)") auto

declare uper_get_constrained_whole_number.simps [simp del]

function uper_put_constrained_whole_number_u ::
  "(byte list \<Rightarrow> 'k \<Rightarrow> 'k option) \<Rightarrow> 'k outp \<Rightarrow> u64 \<Rightarrow> int \<Rightarrow> int \<times> 'k outp" where
  "uper_put_constrained_whole_number_u out po v nbits =
     (if nbits \<le> 31 then asn_put_few_bits out po (ucast v) nbits
      else
        let (r, po1) = uper_put_constrained_whole_number_u out po (drop_bit 31 v) (nbits - 31)
        in if r \<noteq> 0 then (-1, po1) else asn_put_few_bits out po1 (ucast v) 31)"
  by pat_completeness auto
termination
  by (relation "measure (\<lambda>(out, po, v, nbits). nat nbits)") auto

declare uper_put_constrained_whole_number_u.simps [simp del]

definition uper_put_length ::
  "(byte list \<Rightarrow> 'k \<Rightarrow> 'k option) \<Rightarrow> 'k outp \<Rightarrow> nat \<Rightarrow> int \<times> bool \<times> 'k outp" where
  "uper_put_length out po len =
     (if len \<le> 127 then
        let (r, po1) = asn_put_few_bits out po (of_nat len) 8
        in (if r \<noteq> 0 then -1 else int len, False, po1)
      else if len < 16384 then
        let (r, po1) = asn_put_few_bits out po (of_nat (len OR 0x8000)) 16
        in (if r \<noteq> 0 then -1 else int len, False, po1)
      else
        let blocks = drop_bit 14 len;
            need_eom = (if 4 < blocks then False else len AND 16383 = 0);
            m = (if 4 < blocks then 4 else blocks);
            (r, po1) = asn_put_few_bits out po (of_nat (0xC0 OR m)) 8
        in (if r \<noteq> 0 then -1 else int (push_bit 14 m), need_eom, po1))"

definition uper_put_nslength ::
  "(byte list \<Rightarrow> 'k \<Rightarrow> 'k option) \<Rightarrow> 'k outp \<Rightarrow> nat \<Rightarrow> int \<times> 'k outp" where
  "uper_put_nslength out po len =
     (if len \<le> 64 then
        if len = 0 then (-1, po)
        else let (r, po1) = asn_put_few_bits out po (of_nat (len - 1)) 7
             in (if r \<noteq> 0 then -1 else 0, po1)
      else
        let (r, need_eom, po1) = uper_put_length out po len
        in if r \<noteq> int len \<or> need_eom then (-1, po1) else (0, po1))"

section \<open>Rebasing a value into its range\<close>

text \<open>The assertions of this part are \<open>Assertion_failed\<close>, a result of -1 is \<open>None\<close>.\<close>

definition per__long_range :: "i64 \<Rightarrow> i64 \<Rightarrow> fault + u64" where
  "per__long_range lb ub =
     (if (sint ub < 0) = (sint lb < 0) then Inr (ub - lb)
      else if sint lb < 0 then Inr (1 + (ub + - (lb + 1)))
      else Inl Assertion_failed)"

definition per_long_range_rebase :: "i64 \<Rightarrow> i64 \<Rightarrow> i64 \<Rightarrow> fault + u64 option" where
  "per_long_range_rebase v lb ub =
     (if sint ub < sint lb then Inl Assertion_failed
      else if sint v < sint lb \<or> sint ub < sint v then Inr None
      else
        fault_bind (per__long_range lb ub) (\<lambda>rng.
          if (sint v < 0) = (sint lb < 0) then Inr (Some (v - lb))
          else if sint v < 0 then
            let rebased = 1 + - (v + 1) + lb
            in if rebased \<le> rng then Inr (Some rebased) else Inl Assertion_failed
          else if sint lb < 0 then
            let rebased = 1 + - (lb + 1) + v
            in if rebased \<le> rng then Inr (Some rebased) else Inl Assertion_failed
          else Inl Assertion_failed))"

definition LONG_MAX :: u64 where
  "LONG_MAX = 2 ^ 63 - 1"

definition per_long_range_unrebase :: "u64 \<Rightarrow> i64 \<Rightarrow> i64 \<Rightarrow> fault + i64 option" where
  "per_long_range_unrebase inp lb ub =
     fault_bind (per__long_range lb ub) (\<lambda>rng.
       Inr (if rng < inp then None
            else if inp \<le> LONG_MAX then Some (inp + lb)
            else Some ((lb + LONG_MAX + 1) + ((inp - LONG_MAX) - 1))))"

section \<open>Aligned PER\<close>

definition aper_get_align :: "bit_data \<Rightarrow> int \<times> bit_data" where
  "aper_get_align pd =
     (if pd_nboff pd mod 8 \<noteq> 0 then asn_get_few_bits pd (8 - int (pd_nboff pd mod 8)) else (0, pd))"

text \<open>The loop \<^verbatim>\<open>for (i = 1; i <= 8; i++) if (1 << i >= range) break;\<close>.\<close>

function nsnnwn_bits :: "int \<Rightarrow> int \<Rightarrow> int" where
  "nsnnwn_bits rng i =
     (if i \<le> 8 then if rng \<le> 2 ^ nat i then i else nsnnwn_bits rng (i + 1) else i)"
  by pat_completeness auto
termination
  by (relation "measure (\<lambda>(rng, i). nat (9 - i))") auto

declare nsnnwn_bits.simps [simp del]

definition aper_get_nsnnwn :: "bit_data \<Rightarrow> int \<Rightarrow> int \<times> bit_data" where
  "aper_get_nsnnwn pd rng =
     (if rng \<le> 255 then
        if rng < 0 then (-1, pd) else asn_get_few_bits pd (nsnnwn_bits rng 1)
      else if 65536 < rng then (-1, pd)
      else
        let bytes = (if rng = 256 then 1 else 2);
            (a, pd1) = aper_get_align pd
        in if a < 0 then (-1, pd1) else asn_get_few_bits pd1 (8 * bytes))"

definition aper_get_length :: "bit_data \<Rightarrow> int \<Rightarrow> int \<Rightarrow> int \<times> bool \<times> bit_data" where
  "aper_get_length pd rng ebits =
     (if rng \<le> 65536 \<and> 0 \<le> rng then
        let (v, pd1) = aper_get_nsnnwn pd rng in (v, False, pd1)
      else
        let (a, pd1) = aper_get_align pd
        in if a < 0 then (-1, False, pd1)
           else if 0 \<le> ebits then
             let (v, pd2) = asn_get_few_bits pd1 ebits in (v, False, pd2)
           else
             let (v, pd2) = asn_get_few_bits pd1 8
             in if v < 0 then (-1, False, pd2)
                else if v AND 128 = 0 then (v AND 0x7F, False, pd2)
                else if v AND 64 = 0 then
                  let (w, pd3) = asn_get_few_bits pd2 8; len = push_bit 8 (v AND 63) OR w
                  in if len < 0 then (-1, False, pd3) else (len, False, pd3)
                else let m = v AND 63
                     in if m < 1 \<or> 4 < m then (-1, False, pd2) else (16384 * m, True, pd2))"

definition aper_get_nslength :: "bit_data \<Rightarrow> int \<times> bit_data" where
  "aper_get_nslength pd =
     (let (flag, pd1) = asn_get_few_bits pd 1
      in if flag = 0 then
           let (v, pd2) = asn_get_few_bits pd1 6; len = v + 1
           in if len \<le> 0 then (-1, pd2) else (len, pd2)
         else
           let (len, repeat, pd2) = aper_get_length pd1 (-1) (-1)
           in if 0 \<le> len \<and> \<not> repeat then (len, pd2) else (-1, pd2))"

definition aper_put_align :: "(byte list \<Rightarrow> 'k \<Rightarrow> 'k option) \<Rightarrow> 'k outp \<Rightarrow> int \<times> 'k outp" where
  "aper_put_align out po =
     (if po_nboff po mod 8 \<noteq> 0 then
        let (r, po1) = asn_put_few_bits out po 0 (8 - int (po_nboff po mod 8))
        in (if r \<noteq> 0 then -1 else 0, po1)
      else (0, po))"

text \<open>
  For a negative \<open>range\<close> the C function first counts the octets of \<open>number\<close>, but the count
  is dead: the next test \<^verbatim>\<open>range <= 255\<close> holds and takes the single-bit branch. A range
  above \<open>2^24\<close> shifts an \<^verbatim>\<open>int\<close> by 32, which C leaves undefined; the model fails there.
\<close>

definition aper_put_nsnnwn ::
  "(byte list \<Rightarrow> 'k \<Rightarrow> 'k option) \<Rightarrow> 'k outp \<Rightarrow> int \<Rightarrow> int \<Rightarrow> int \<times> 'k outp" where
  "aper_put_nsnnwn out po rng number =
     (if rng \<le> 255 then asn_put_few_bits out po (word_of_int number) (nsnnwn_bits rng 1)
      else if 2 ^ 24 < rng then (-1, po)
      else
        let bytes = (if rng = 256 then 1 else if rng \<le> 65536 then 2 else 3);
            (a, po1) = aper_put_align out po
        in if a < 0 then (-1, po1)
           else asn_put_few_bits out po1 (word_of_int number) (8 * bytes))"

definition aper_put_length ::
  "(byte list \<Rightarrow> 'k \<Rightarrow> 'k option) \<Rightarrow> 'k outp \<Rightarrow> int \<Rightarrow> nat \<Rightarrow> int \<times> 'k outp" where
  "aper_put_length out po rng len =
     (if rng \<le> 65536 \<and> 0 \<le> rng then aper_put_nsnnwn out po rng (int len)
      else
        let (a, po1) = aper_put_align out po
        in if a < 0 then (-1, po1)
           else if len \<le> 127 then
             let (r, po2) = asn_put_few_bits out po1 (of_nat len) 8
             in (if r \<noteq> 0 then -1 else int len, po2)
           else if len < 16384 then
             let (r, po2) = asn_put_few_bits out po1 (of_nat (len OR 0x8000)) 16
             in (if r \<noteq> 0 then -1 else int len, po2)
           else
             let m = (if 4 < drop_bit 14 len then 4 else drop_bit 14 len);
                 (r, po2) = asn_put_few_bits out po1 (of_nat (0xC0 OR m)) 8
             in (if r \<noteq> 0 then -1 else int (push_bit 14 m), po2))"

definition aper_put_nslength ::
  "(byte list \<Rightarrow> 'k \<Rightarrow> 'k option) \<Rightarrow> 'k outp \<Rightarrow> nat \<Rightarrow> int \<times> 'k outp" where
  "aper_put_nslength out po len =
     (if len \<le> 64 then
        if len = 0 then (-1, po)
        else let (r, po1) = asn_put_few_bits out po (of_nat (len - 1)) 7
             in (if r \<noteq> 0 then -1 else 0, po1)
      else
        let (r, po1) = aper_put_length out po (-1) len
        in if r \<noteq> int len then (-1, po1) else (0, po1))"

section \<open>Length determinants\<close>

lemma and_16383: "len AND 16383 = 0 \<longleftrightarrow> len mod 16384 = 0" for len :: nat
  using take_bit_eq_mask [of 14 len] by (simp add: mask_eq_exp_minus_1 take_bit_eq_mod)

text \<open>
  What one call writes for a length (X.691, 11.9.3.6 to 11.9.3.8), and how many items that
  call announces: all of them below 16K, else a fragment of one to four times 16K.
\<close>

definition len_blocks :: "nat \<Rightarrow> nat" where
  "len_blocks len = min 4 (len div 16384)"

definition len_chunk :: "nat \<Rightarrow> nat" where
  "len_chunk len = (if len < 16384 then len else 16384 * len_blocks len)"

definition len_bits :: "nat \<Rightarrow> bool list" where
  "len_bits len = (if len \<le> 127 then bits_of_int 8 (int len)
     else if len < 16384 then bits_of_int 8 (128 + int len div 256) @ bits_of_int 8 (int len)
     else bits_of_int 8 (192 + int (len_blocks len)))"

lemma len_blocks_bounds: "16384 \<le> len \<Longrightarrow> 1 \<le> len_blocks len \<and> len_blocks len \<le> 4"
  by (simp add: len_blocks_def)

lemma len_chunk_le: "len_chunk len \<le> len"
proof -
  have "16384 * len_blocks len \<le> 16384 * (len div 16384)" by (simp add: len_blocks_def)
  also have "\<dots> \<le> len" by simp
  finally show ?thesis by (simp add: len_chunk_def)
qed

lemma len_chunk_pos: "0 < len \<Longrightarrow> 0 < len_chunk len"
  by (auto simp: len_chunk_def len_blocks_def)

lemma len_blocks_drop: "(if 4 < drop_bit 14 len then 4 else drop_bit 14 len) = len_blocks len"
  by (simp add: len_blocks_def drop_bit_eq_div min_def)

lemma or_0xC0:
  assumes "m \<le> 4"
  shows "uint (of_nat (0xC0 OR m) :: u32) = 192 + int m"
proof -
  have "m \<in> {0, 1, 2, 3, 4}" using assms by auto
  then show ?thesis by auto
qed

lemma or_0x8000_bits:
  assumes "len < 16384"
  shows "bits_of_int 16 (uint (of_nat (len OR 0x8000) :: u32)) = bits_of_int 8 (128 + int len div 256) @ bits_of_int 8 (int len)"
proof -
  have "int (len OR 0x8000) = int len OR 2 ^ 15" by (simp add: of_nat_or_eq)
  also have "\<dots> = int len + 2 ^ 15"
    by (rule or_exp(1) [where n = 14]) (use assms in simp_all)
  finally have l: "int (len OR 0x8000) = int len + 2 ^ 15" .
  have d: "drop_bit 8 (int len + 32768) = 128 + int len div 256"
    by (simp add: drop_bit_eq_div)
  have m: "bits_of_int 8 (int len + 32768) = bits_of_int 8 (int len)"
    using mod_mult_self1 [of "int len" 128 256] by (simp add: bits_of_int_eq_iff take_bit_eq_mod)
  have "bits_of_int 16 (take_bit 32 (int len + 2 ^ 15)) = bits_of_int 16 (int len + 32768)"
    by (simp add: bits_of_int_take_bit)
  then show ?thesis
    unfolding uint_u32_of_nat l bits_of_int_octets(1) [of "int len + 32768"] d m by simp
qed

context octet_sink
begin

lemma put_len_field:
  assumes "po_ok po" and "len < 16384"
  shows "len \<le> 127 \<Longrightarrow> asn_put_few_bits out po (of_nat len) 8 = (0, po')
      \<Longrightarrow> po_writes contents po (len_bits len) po'"
    and "\<not> len \<le> 127 \<Longrightarrow> asn_put_few_bits out po (of_nat (len OR 0x8000)) 16 = (0, po')
      \<Longrightarrow> po_writes contents po (len_bits len) po'"
  using put_few_bits_writes [OF assms(1), of "of_nat len" 8 po']
    put_few_bits_writes [OF assms(1), of "of_nat (len OR 0x8000)" 16 po'] or_0x8000_bits [OF assms(2)] assms(2)
  by (simp_all add: len_bits_def uint_u32_of_nat bits_of_int_take_bit del: of_nat_or_eq)

lemma put_len_fragment:
  assumes "po_ok po" and "16384 \<le> len" and "asn_put_few_bits out po (of_nat (0xC0 OR len_blocks len)) 8 = (0, po')"
  shows "po_writes contents po (len_bits len) po'"
  using put_few_bits_writes [OF assms(1,3)] or_0xC0 [of "len_blocks len"] len_blocks_bounds [OF assms(2)] assms(2)
  by (simp add: len_bits_def del: of_nat_or_eq)

lemma uper_put_length_ok:
  assumes "po_ok po" and "uper_put_length out po len = (r, e, po')" and "\<not> r < 0"
  shows "r = int (len_chunk len) \<and> (e \<longleftrightarrow> 16384 \<le> len \<and> len_chunk len = len) \<and> po_writes contents po (len_bits len) po'"
proof (cases "len < 16384")
  case True
  then show ?thesis using assms put_len_field [OF assms(1) True, of po']
    by (auto simp: uper_put_length_def len_chunk_def split: prod.splits if_split_asm)
next
  case False
  have e: "(if 4 < drop_bit 14 len then False else len AND 16383 = 0) = (len_chunk len = len)"
  proof -
    have d: "len mod 16384 = 0 \<longleftrightarrow> 16384 * (len div 16384) = len"
      using mult_div_mod_eq [of 16384 len] by (metis add.right_neutral add_cancel_right_right)
    show ?thesis unfolding and_16383 d using False
      by (auto simp: len_chunk_def len_blocks_def drop_bit_eq_div min_def)
  qed
  show ?thesis using False assms put_len_fragment [OF assms(1), of len po']
    by (auto simp: uper_put_length_def Let_def len_blocks_drop e len_chunk_def push_bit_eq_mult
        simp del: of_nat_or_eq split: prod.splits if_split_asm)
qed

lemma aper_put_align_ok:
  assumes ok: "po_ok po" and put: "aper_put_align out po = (a, po')" and a: "\<not> a < 0"
  shows "po_writes contents po (align_pad (po_nboff po)) po'"
proof (cases "po_nboff po mod 8 = 0")
  case True
  with put ok show ?thesis by (simp add: aper_put_align_def po_writes_refl)
next
  case False
  then have "asn_put_few_bits out po 0 (8 - int (po_nboff po mod 8)) = (0, po')"
    using put a by (auto simp: aper_put_align_def split: prod.splits if_splits)
  moreover have "nat (8 - int (po_nboff po mod 8)) = 8 - po_nboff po mod 8" by (simp add: nat_diff_distrib)
  ultimately show ?thesis
    using put_few_bits_writes [OF ok, of 0 "8 - int (po_nboff po mod 8)" po'] False
    by (simp add: bits_of_int_zero align_pad_def)
qed

lemma aper_put_length_ok:
  assumes "po_ok po" and "rng < 0 \<or> 65536 < rng"
    and "aper_put_length out po rng len = (r, po')" and "\<not> r < 0"
  shows "r = int (len_chunk len) \<and> po_writes contents po (align_pad (po_nboff po) @ len_bits len) po'"
proof -
  obtain a po1 where al: "aper_put_align out po = (a, po1)" by fastforce
  with assms(2-4) have a: "\<not> a < 0" by (auto simp: aper_put_length_def split: if_splits)
  note al' = aper_put_align_ok [OF assms(1) al a]
  note ok1 = po_writes_ok [OF al']
  have "r = int (len_chunk len) \<and> po_writes contents po1 (len_bits len) po'"
  proof (cases "len < 16384")
    case True
    then show ?thesis using assms(2-4) al a put_len_field [OF ok1 True, of po']
      by (auto simp: aper_put_length_def len_chunk_def split: prod.splits if_split_asm)
  next
    case False
    then show ?thesis using assms(2-4) al a put_len_fragment [OF ok1, of len po']
      by (auto simp: aper_put_length_def Let_def len_blocks_drop len_chunk_def push_bit_eq_mult
        simp del: of_nat_or_eq split: prod.splits if_split_asm)
  qed
  then show ?thesis using po_writes_trans [OF al'] by blast
qed

end

context roomy_sink
begin

lemma aper_put_align_total:
  assumes "po_ok po" and "7 \<le> po_cap room po"
  shows "\<exists>po'. aper_put_align out po = (0, po') \<and> po_ok po' \<and> po_cap room po - 7 \<le> po_cap room po'"
proof (cases "po_nboff po mod 8 = 0")
  case True
  with assms show ?thesis by (simp add: aper_put_align_def)
next
  case False
  let ?n = "8 - int (po_nboff po mod 8)"
  have "1 \<le> po_nboff po mod 8" "po_nboff po mod 8 < 8" using False by simp_all
  then have "?n \<le> 7" "0 \<le> ?n" by linarith+
  then show ?thesis
    using put_few_bits_total [OF assms(1), of ?n 0] assms(2) False by (auto simp: aper_put_align_def)
qed

lemma len_blocks_cases: "4 < drop_bit 14 len \<Longrightarrow> len_blocks len = 4" "\<not> 4 < drop_bit 14 len \<Longrightarrow> len_blocks len = drop_bit 14 len"
  by (simp_all add: len_blocks_def drop_bit_eq_div)

lemma uper_put_length_total:
  assumes "po_ok po" and "16 \<le> po_cap room po"
  shows "\<exists>e po'. uper_put_length out po len = (int (len_chunk len), e, po') \<and> po_ok po'
    \<and> po_cap room po - 16 \<le> po_cap room po'"
proof -
  obtain r e po' where u: "uper_put_length out po len = (r, e, po')" by (metis prod_cases3)
  have "r = int (len_chunk len) \<and> po_ok po' \<and> po_cap room po - 16 \<le> po_cap room po'"
    using put_few_bits_total [OF assms(1), of 8 "of_nat len"] put_few_bits_total [OF assms(1), of 16 "of_nat (len OR 0x8000)"]
      put_few_bits_total [OF assms(1), of 8 "of_nat (0xC0 OR len_blocks len)"] assms(2) u len_blocks_cases [of len]
    by (cases "4 < drop_bit 14 len")
      (auto simp: uper_put_length_def len_chunk_def Let_def push_bit_eq_mult simp del: of_nat_or_eq split: if_split_asm)
  with u show ?thesis by blast
qed

lemma aper_put_length_total:
  assumes "po_ok po" and "23 \<le> po_cap room po"
  shows "\<exists>po'. aper_put_length out po (-1) len = (int (len_chunk len), po') \<and> po_ok po'
    \<and> po_cap room po - 23 \<le> po_cap room po'"
proof -
  from aper_put_align_total [OF assms(1)] assms(2) obtain po1 where
    1: "aper_put_align out po = (0, po1)" "po_ok po1" "po_cap room po - 7 \<le> po_cap room po1" by auto
  obtain r po' where u: "aper_put_length out po (-1) len = (r, po')" by fastforce
  have "r = int (len_chunk len) \<and> po_ok po' \<and> po_cap room po - 23 \<le> po_cap room po'"
    using put_few_bits_total [OF 1(2), of 8 "of_nat len"] put_few_bits_total [OF 1(2), of 16 "of_nat (len OR 0x8000)"]
      put_few_bits_total [OF 1(2), of 8 "of_nat (0xC0 OR len_blocks len)"] assms(2) u 1 len_blocks_cases [of len]
    by (cases "4 < drop_bit 14 len")
      (auto simp: aper_put_length_def len_chunk_def Let_def push_bit_eq_mult simp del: of_nat_or_eq split: if_split_asm)
  with u show ?thesis by blast
qed

end

lemma len_first_flags:
  assumes "128 \<le> len" "len < 16384"
  shows "bit (128 + int len div 256) 7" and "\<not> bit (128 + int len div 256) 6"
    and "push_bit 8 (take_bit 6 (128 + int len div 256)) OR take_bit 8 (int len) = int len"
proof -
  let ?h = "int len div 256"
  have h: "0 \<le> ?h" "?h < 64" using assms by simp_all
  have n: "bit (?h + 2 ^ 7) j \<longleftrightarrow> j = 7 \<or> bit ?h j" for j
    by (rule or_exp(2) [where n = 6]) (use h in simp_all)
  show "bit (128 + ?h) 7" "\<not> bit (128 + ?h) 6"
    using n [of 7] n [of 6] h bit_small_int [of ?h 6 6] by (simp_all add: add.commute)
  have t: "take_bit 6 (128 + ?h) = ?h"
    using h mod_mult_self1 [of ?h 2 64] by (simp add: take_bit_eq_mod add.commute)
  have "push_bit 8 ?h + take_bit 8 (int len) = push_bit 8 ?h OR take_bit 8 (int len)"
    by (rule disjunctive_add) (simp add: bit_push_bit_iff bit_take_bit_iff)
  moreover have "push_bit 8 ?h + take_bit 8 (int len) = int len"
    by (simp add: push_bit_eq_mult take_bit_eq_mod)
  ultimately show "push_bit 8 (take_bit 6 (128 + ?h)) OR take_bit 8 (int len) = int len"
    unfolding t by simp
qed

text \<open>Both readers turn the field back into the length and leave what follows it.\<close>

lemma get_len_bits:
  assumes "pd_ok pd" and "pd_bits pd = len_bits len @ rest" and "len < 16384"
  shows "\<exists>v pd1 pd'. asn_get_few_bits pd 8 = (v, pd1) \<and> 0 \<le> v \<and> pd_reads pd (len_bits len) pd' \<and>
    (v AND 128 = 0 \<and> v AND 127 = int len \<and> pd' = pd1 \<or>
     v AND 128 \<noteq> 0 \<and> v AND 64 = 0 \<and>
     (\<exists>w. asn_get_few_bits pd1 8 = (w, pd') \<and> 0 \<le> w \<and> push_bit 8 (v AND 63) OR w = int len))"
proof (cases "len \<le> 127")
  case True
  then have bits: "pd_bits pd = bits_of_int 8 (int len) @ rest" and l: "len_bits len = bits_of_int 8 (int len)"
    using assms(2) by (simp_all add: len_bits_def)
  have small: "\<not> bit (int len) 7" "take_bit 8 (int len) = int len" "take_bit 7 (int len) = int len"
    using True bit_small_int [of "int len" 7 7] by (simp_all add: take_bit_int_eq_self)
  from get_numeral_field [OF assms(1) bits] small show ?thesis by (auto simp: and_flags l)
next
  case False
  let ?h = "128 + int len div 256"
  have bits: "pd_bits pd = bits_of_int 8 ?h @ bits_of_int 8 (int len) @ rest"
    and l: "len_bits len = bits_of_int 8 ?h @ bits_of_int 8 (int len)"
    using False assms(2,3) by (simp_all add: len_bits_def)
  have h: "take_bit 8 ?h = ?h" using assms(3) by (simp add: take_bit_int_eq_self)
  from get_numeral_field [OF assms(1) bits] obtain pd1 where 1: "asn_get_few_bits pd 8 = (?h, pd1)"
    "pd_reads pd (bits_of_int 8 ?h) pd1" by (auto simp: h)
  from get_numeral_field [OF pd_reads_ok [OF 1(2)] pd_reads_bits [OF 1(2) bits]] obtain pd2 where
    2: "asn_get_few_bits pd1 8 = (take_bit 8 (int len), pd2)" "pd_reads pd1 (bits_of_int 8 (int len)) pd2" by auto
  show ?thesis
    using 1(1) 2(1) pd_reads_trans [OF 1(2) 2(2)] len_first_flags [of len] False assms(3)
    by (auto simp: and_flags l)
qed

lemma get_len_fragment:
  assumes "pd_ok pd" and "pd_bits pd = len_bits len @ rest" and "16384 \<le> len"
  shows "\<exists>v pd'. asn_get_few_bits pd 8 = (v, pd') \<and> \<not> v < 0 \<and> pd_reads pd (len_bits len) pd' \<and>
    v AND 128 \<noteq> 0 \<and> v AND 64 \<noteq> 0 \<and> v AND 63 = int (len_blocks len)"
proof -
  have l: "len_bits len = bits_of_int 8 (192 + int (len_blocks len))"
    using assms(3) by (simp add: len_bits_def)
  have "len_blocks len \<in> {1, 2, 3, 4}" using len_blocks_bounds [OF assms(3)] by auto
  then have m: "take_bit 8 (192 + int (len_blocks len)) = 192 + int (len_blocks len)
      \<and> (192 + int (len_blocks len)) AND 128 \<noteq> 0 \<and> (192 + int (len_blocks len)) AND 64 \<noteq> 0
      \<and> (192 + int (len_blocks len)) AND 63 = int (len_blocks len)"
    by auto
  from get_numeral_field [OF assms(1) assms(2) [unfolded l]] m show ?thesis unfolding l by auto
qed

text \<open>The three results of a length reader: the items announced, and whether more follow.\<close>

lemma uper_get_length_ok:
  assumes "pd_ok pd" and "pd_bits pd = len_bits len @ rest"
  shows "\<exists>pd'. uper_get_length pd (-1) lb = (int (len_chunk len), 16384 \<le> len, pd') \<and> pd_reads pd (len_bits len) pd'"
proof (cases "len < 16384")
  case True
  from get_len_bits [OF assms True] True show ?thesis by (auto simp: uper_get_length_def len_chunk_def)
next
  case False
  with len_blocks_bounds [of len] get_len_fragment [OF assms] show ?thesis
    by (auto simp: uper_get_length_def len_chunk_def)
qed

lemma aper_get_align_ok:
  assumes "pd_ok pd" and "pd_bits pd = align_pad (pd_nboff pd) @ rest"
  shows "\<exists>pd'. aper_get_align pd = (0, pd') \<and> pd_reads pd (align_pad (pd_nboff pd)) pd'"
proof (cases "pd_nboff pd mod 8 = 0")
  case True
  with assms(1) show ?thesis by (simp add: aper_get_align_def pd_reads_refl)
next
  case False
  let ?n = "8 - pd_nboff pd mod 8"
  have "align_pad (pd_nboff pd) = bits_of_int ?n 0" using False by (simp add: align_pad_def bits_of_int_zero)
  with get_field_reads [OF assms(1), of ?n 0 rest] assms(2) False show ?thesis
    by (auto simp: aper_get_align_def of_nat_diff)
qed

lemma aper_get_length_ok:
  assumes "pd_ok pd" and "rng < 0 \<or> 65536 < rng"
    and bits: "pd_bits pd = align_pad (pd_nboff pd) @ len_bits len @ rest"
  shows "\<exists>pd'. aper_get_length pd rng (-1) = (int (len_chunk len), 16384 \<le> len, pd')
    \<and> pd_reads pd (align_pad (pd_nboff pd) @ len_bits len) pd'"
proof -
  from aper_get_align_ok [OF assms(1) bits] obtain pd1 where
    1: "aper_get_align pd = (0, pd1)" "pd_reads pd (align_pad (pd_nboff pd)) pd1" by auto
  have "\<exists>pd'. aper_get_length pd rng (-1) = (int (len_chunk len), 16384 \<le> len, pd') \<and> pd_reads pd1 (len_bits len) pd'"
  proof (cases "len < 16384")
    case True
    from get_len_bits [OF pd_reads_ok [OF 1(2)] pd_reads_bits [OF 1(2) bits] True] 1(1) assms(2) True
    show ?thesis by (auto simp: aper_get_length_def len_chunk_def)
  next
    case False
    with get_len_fragment [OF pd_reads_ok [OF 1(2)] pd_reads_bits [OF 1(2) bits]] len_blocks_bounds [of len] 1(1) assms(2)
    show ?thesis by (auto simp: aper_get_length_def len_chunk_def)
  qed
  then show ?thesis using pd_reads_trans [OF 1(2)] by blast
qed

section \<open>Normally small numbers\<close>

context octet_sink
begin

lemma uper_put_nsnnwn_small:
  assumes "po_ok po" and "0 \<le> n" and "n \<le> 63" and "uper_put_nsnnwn out po n = (0, po')"
  shows "po_writes contents po (bits_of_int 7 n) po'"
  using put_few_bits_writes [OF assms(1), of "word_of_int n" 7 po'] assms
  by (simp add: uper_put_nsnnwn_def uint_u32_of_int bits_of_int_take_bit)

lemma uper_put_nsnnwn_large:
  assumes "po_ok po" and "63 < n" and "uper_put_nsnnwn out po n = (0, po')"
  shows "po_writes contents po (bits_of_int 8 (int (if n < 256 then 1 else if n < 65536 then 2 else 3))
    @ bits_of_int (8 * (if n < 256 then 1 else if n < 65536 then 2 else 3)) n) po'"
proof -
  let ?b = "if n < 256 then 1 else if n < 65536 then 2 else 3 :: nat"
  from assms(2,3) obtain po1 where 1: "asn_put_few_bits out po (word_of_int (int ?b)) 8 = (0, po1)"
    and 2: "asn_put_few_bits out po1 (word_of_int n) (8 * int ?b) = (0, po')"
    by (auto simp: uper_put_nsnnwn_def Let_def split: prod.splits if_split_asm)
  note w1 = put_few_bits_writes [OF assms(1) 1]
  note w2 = put_few_bits_writes [OF po_writes_ok [OF w1] 2]
  have "nat (8 * int ?b) = 8 * ?b" by simp
  then show ?thesis
    using po_writes_trans [OF w1 w2]
    by (simp add: uint_u32_of_int bits_of_int_take_bit split: if_splits)
qed

lemma put_nslength_small:
  assumes "po_ok po" and "0 < len" and "len \<le> 64"
  shows "uper_put_nslength out po len = (0, po') \<Longrightarrow> po_writes contents po (bits_of_int 7 (int len - 1)) po'"
    and "aper_put_nslength out po len = (0, po') \<Longrightarrow> po_writes contents po (bits_of_int 7 (int len - 1)) po'"
proof -
  have "bits_of_int 7 (uint (of_nat (len - 1) :: u32)) = bits_of_int 7 (int len - 1)"
    unfolding uint_u32_of_nat using assms(2) by (simp add: bits_of_int_take_bit of_nat_diff)
  then show "uper_put_nslength out po len = (0, po') \<Longrightarrow> po_writes contents po (bits_of_int 7 (int len - 1)) po'"
    and "aper_put_nslength out po len = (0, po') \<Longrightarrow> po_writes contents po (bits_of_int 7 (int len - 1)) po'"
    using put_few_bits_writes [OF assms(1), of "of_nat (len - 1)" 7 po'] assms(2,3)
    by (auto simp: uper_put_nslength_def aper_put_nslength_def simp del: of_nat_diff
        split: prod.splits if_split_asm)
qed

end

lemma uper_get_nsnnwn_small:
  assumes "pd_ok pd" and bits: "pd_bits pd = bits_of_int 7 n @ rest" and n: "0 \<le> n" "n \<le> 63"
  shows "\<exists>pd'. uper_get_nsnnwn pd = (n, pd') \<and> pd_reads pd (bits_of_int 7 n) pd'"
proof -
  have "take_bit 7 n = n" "\<not> bit n 6"
    using n bit_small_int [of n 6 6] by (simp_all add: take_bit_int_eq_self)
  with get_numeral_field [OF assms(1) bits] show ?thesis
    by (auto simp: uper_get_nsnnwn_def and_flags)
qed

text \<open>The 8-bit octet count of the long form is read as a 7-bit number.\<close>

lemma uper_get_nsnnwn_large:
  assumes "pd_ok pd" and bits: "pd_bits pd = bits_of_int 8 (int k) @ rest" and k: "1 \<le> k" "k \<le> 3"
  shows "fst (uper_get_nsnnwn pd) = int k div 2"
proof -
  have k2: "take_bit 7 (int k div 2) = int k div 2" "\<not> bit (int k div 2) 6"
    using k bit_small_int [of "int k div 2" 6 6] by (simp_all add: take_bit_int_eq_self)
  have "bits_of_int 8 (int k) = bits_of_int 7 (int k div 2) @ bits_of_int 1 (int k)"
    using bits_of_int_add_length [of 7 1 "int k"] by (simp add: drop_bit_eq_div)
  with bits have "pd_bits pd = bits_of_int 7 (int k div 2) @ (bits_of_int 1 (int k) @ rest)" by simp
  from get_numeral_field [OF assms(1) this] k2 show ?thesis
    by (auto simp: uper_get_nsnnwn_def and_flags)
qed

lemma bits_of_int_7: "0 \<le> n \<Longrightarrow> n < 64 \<Longrightarrow> bits_of_int 7 n = bits_of_int 1 0 @ bits_of_int 6 n"
  using bits_of_int_add_length [of 1 6 n] by (simp add: drop_bit_eq_div)

lemma get_bit_field:
  assumes "pd_ok pd" and "pd_bits pd = bits_of_int 1 x @ rest"
  shows "\<exists>pd'. asn_get_few_bits pd 1 = (take_bit 1 x, pd') \<and> pd_reads pd (bits_of_int 1 x) pd'"
  using get_field_reads [OF assms(1), of 1 x rest] assms(2) by simp

lemma get_nslength_small:
  assumes "pd_ok pd" and bits: "pd_bits pd = bits_of_int 7 (int len - 1) @ rest" and len: "0 < len" "len \<le> 64"
  shows "\<exists>pd'. uper_get_nslength pd = (int len, pd') \<and> aper_get_nslength pd = (int len, pd')
    \<and> pd_reads pd (bits_of_int 7 (int len - 1)) pd'"
proof -
  note s = bits_of_int_7 [of "int len - 1"]
  have bits': "pd_bits pd = bits_of_int 1 0 @ bits_of_int 6 (int len - 1) @ rest" using s bits len by simp
  from get_bit_field [OF assms(1) this] obtain pd1 where
    1: "asn_get_few_bits pd 1 = (0, pd1)" "pd_reads pd (bits_of_int 1 0) pd1" by auto
  from get_numeral_field [OF pd_reads_ok [OF 1(2)] pd_reads_bits [OF 1(2) bits']] obtain pd2 where
    2: "asn_get_few_bits pd1 6 = (take_bit 6 (int len - 1), pd2)" "pd_reads pd1 (bits_of_int 6 (int len - 1)) pd2"
    by auto
  have "take_bit 6 (int len - 1) = int len - 1" using len by (simp add: take_bit_int_eq_self)
  then show ?thesis
    using 1(1) 2(1) pd_reads_trans [OF 1(2) 2(2)] s len
    by (simp add: uper_get_nslength_def aper_get_nslength_def)
qed

section \<open>Constrained whole numbers\<close>


lemma uper_get_constrained_ok:
  assumes "pd_ok pd" and "pd_bits pd = bits_of_int n x @ rest" and "n \<le> 64"
  shows "\<exists>pd'. uper_get_constrained_whole_number pd (int n) = (Some (word_of_int (take_bit n x)), pd')
    \<and> pd_reads pd (bits_of_int n x) pd'"
  using assms
proof (induction n arbitrary: pd rule: less_induct)
  case (less n)
  note unf = uper_get_constrained_whole_number.simps [of pd "int n"]
  show ?case
  proof (cases "n \<le> 31")
    case True
    with get_field_reads [OF less.prems(1,2)] show ?thesis by (auto simp: unf)
  next
    case False
    then have n: "n = 31 + (n - 31)" by simp
    let ?h = "drop_bit (n - 31) x"
    have s: "bits_of_int n x = bits_of_int 31 ?h @ bits_of_int (n - 31) x"
      by (subst n) (rule bits_of_int_add_length)
    with less.prems(2) have bits: "pd_bits pd = bits_of_int 31 ?h @ bits_of_int (n - 31) x @ rest" by simp
    from get_numeral_field [OF less.prems(1) bits] obtain pd1 where
      1: "asn_get_few_bits pd 31 = (take_bit 31 ?h, pd1)" "pd_reads pd (bits_of_int 31 ?h) pd1" by auto
    have le: "n - 31 < n" "n - 31 \<le> 64" using False less.prems(3) by simp_all
    from less.IH [OF le(1) pd_reads_ok [OF 1(2)] pd_reads_bits [OF 1(2) bits] le(2)] False obtain pd2 where
      2: "uper_get_constrained_whole_number pd1 (int n - 31) = (Some (word_of_int (take_bit (n - 31) x)), pd2)"
        "pd_reads pd1 (bits_of_int (n - 31) x) pd2" by auto
    have "push_bit (n - 31) (take_bit 31 ?h) OR take_bit (n - 31) x = take_bit n x"
      by (rule bit_eqI) (use False in \<open>auto simp: bit_push_bit_iff bit_take_bit_iff bit_drop_bit_eq bit_or_iff\<close>)
    then have "push_bit (n - 31) (word_of_int (take_bit 31 ?h)) OR word_of_int (take_bit (n - 31) x)
        = (word_of_int (take_bit n x) :: u64)"
      by (metis of_int_or_eq of_int_push_bit)
    then show ?thesis
      using 1(1) 2(1) pd_reads_trans [OF 1(2) 2(2)] False less.prems(3) s
      by (simp add: unf of_nat_diff nat_diff_distrib)
  qed
qed

context octet_sink
begin

lemma uper_put_constrained_ok:
  assumes "po_ok po" and "0 \<le> nbits" and "uper_put_constrained_whole_number_u out po v nbits = (0, po')"
  shows "po_writes contents po (bits_of_int (nat nbits) (uint v)) po'"
  using assms
proof (induction "nat nbits" arbitrary: po po' v nbits rule: less_induct)
  case less
  note unf = uper_put_constrained_whole_number_u.simps [of out po v nbits]
  show ?case
  proof (cases "nbits \<le> 31")
    case True
    then have "asn_put_few_bits out po (ucast v) nbits = (0, po')" using less.prems(3) by (simp add: unf)
    from put_few_bits_writes [OF less.prems(1) this] True show ?thesis
      by (simp add: unsigned_ucast_eq bits_of_int_take_bit)
  next
    case False
    then obtain po1 where 1: "uper_put_constrained_whole_number_u out po (drop_bit 31 v) (nbits - 31) = (0, po1)"
      and 2: "asn_put_few_bits out po1 (ucast v) 31 = (0, po')"
      using less.prems(3) by (auto simp: unf split: prod.splits if_split_asm)
    have w1: "po_writes contents po (bits_of_int (nat (nbits - 31)) (uint (drop_bit 31 v))) po1"
      by (rule less.hyps [OF _ less.prems(1) _ 1]) (use False in simp_all)
    note w2 = put_few_bits_writes [OF po_writes_ok [OF w1] 2]
    have n: "nat nbits = nat (nbits - 31) + 31" using False by simp
    have "bits_of_int (nat (nbits - 31)) (uint (drop_bit 31 v)) @ bits_of_int (nat 31) (uint (ucast v :: u32))
        = bits_of_int (nat nbits) (uint v)"
      unfolding n bits_of_int_add_length using uint_lt2p [of v]
      by (simp add: unsigned_ucast_eq bits_of_int_take_bit unsigned_drop_bit_eq take_bit_int_eq_self)
    then show ?thesis using po_writes_trans [OF w1 w2] by simp
  qed
qed

end

section \<open>Ranges\<close>

lemma per_long_range_some:
  assumes "sint lb \<le> sint ub"
  shows "per__long_range lb ub = Inr (ub - lb)" and "uint (ub - lb) = sint ub - sint lb"
proof -
  show "per__long_range lb ub = Inr (ub - lb)"
    using assms by (auto simp: per__long_range_def)
  have "uint (ub - lb) = take_bit 64 (sint ub - sint lb)"
    using uint_word_of_int_eq [where 'a = 64, of "sint ub - sint lb"] by simp
  moreover have "0 \<le> sint ub - sint lb" "sint ub - sint lb < 2 ^ 64"
    using assms sint_lt [of ub] sint_ge [of lb] by simp_all
  ultimately show "uint (ub - lb) = sint ub - sint lb" by (simp add: take_bit_int_eq_self)
qed

lemma per_long_range_rebase_some:
  assumes "sint lb \<le> sint v" and "sint v \<le> sint ub"
  shows "per_long_range_rebase v lb ub = Inr (Some (v - lb))"
proof -
  have "uint (v - lb) = sint v - sint lb" "uint (ub - lb) = sint ub - sint lb"
    using assms per_long_range_some(2) [of lb v] per_long_range_some(2) [of lb ub] by simp_all
  with assms have "v - lb \<le> ub - lb" by (simp add: word_le_def)
  with assms per_long_range_some(1) [of lb ub] show ?thesis by (auto simp: per_long_range_rebase_def)
qed

lemma per_long_range_unrebase_some:
  assumes "sint lb \<le> sint ub"
  shows "per_long_range_unrebase r lb ub = Inr (if uint r \<le> sint ub - sint lb then Some (r + lb) else None)"
  using assms per_long_range_some [of lb ub]
  by (auto simp: per_long_range_unrebase_def word_less_def)

text \<open>
  (C24) Rebasing a value into its range never wraps. Bounds in the wrong order fail the assertion
  \<^verbatim>\<open>lb <= ub\<close>; for a range \<open>[lb, ub]\<close> of the whole 64 bit type \<open>per_long_range_rebase\<close> fails no
  assertion, reports an error exactly outside the range and gives the true difference inside it. Going
  back, \<open>per_long_range_unrebase\<close> accepts exactly the differences up to \<open>ub - lb\<close>, and that of a value is the value.
\<close>

theorem long_range_rebase:
  "per_long_range_rebase v lb ub =
      (if sint ub < sint lb then Inl Assertion_failed
       else Inr (if sint lb \<le> sint v \<and> sint v \<le> sint ub then Some (word_of_int (sint v - sint lb)) else None))
    \<and> (if sint lb \<le> sint v \<and> sint v \<le> sint ub
       then uint (word_of_int (sint v - sint lb) :: u64) = sint v - sint lb
         \<and> per_long_range_unrebase (word_of_int (sint v - sint lb)) lb ub = Inr (Some v)
         \<and> (per_long_range_unrebase r lb ub = Inr None \<longleftrightarrow> sint ub - sint lb < uint r)
       else True)"
proof (cases "sint lb \<le> sint v \<and> sint v \<le> sint ub")
  case True
  then have "uint (v - lb) = sint v - sint lb" using per_long_range_some(2) [of lb v] by simp
  moreover have "word_of_int (sint v - sint lb) = v - lb" by simp
  ultimately show ?thesis
    using True per_long_range_rebase_some [of lb v ub] per_long_range_unrebase_some [of lb ub] by simp
qed (auto simp: per_long_range_rebase_def)

end
