(* ===== verification/PerCodec.thy ===== *)
theory PerCodec
  imports PerSupport
begin

text \<open>
  Whole encodings: \<^verbatim>\<open>e2ap/lib/per_encoder.c\<close>, \<^verbatim>\<open>per_decoder.c\<close> and \<^verbatim>\<open>per_opentype.c\<close>.
  The type descriptor's PER operations (\<^verbatim>\<open>td->op->aper_encoder\<close>, \<^verbatim>\<open>td->op->aper_decoder\<close>) are
  arguments \<open>enc\<close> and \<open>dec\<close>, \<open>None\<close> for a NULL pointer. \<open>enc\<close> gives the C
  \<^verbatim>\<open>er.encoded\<close> (-1 on failure) and the output stream; \<open>dec\<close> gives the return code with
  the consumed count, the decoded value and the input stream. The aligned and the unaligned
  entry points have the same bodies in C and share one definition here.
\<close>

section \<open>Callbacks\<close>

text \<open>
  The destination of \<^verbatim>\<open>encode_to_buffer_cb\<close>: \<open>arg_buffer\<close> is what has been copied so far,
  so the C write pointer is its end, and \<open>arg_left\<close> is the room behind it.
\<close>

record enc_to_buf_arg =
  arg_buffer :: "byte list"
  arg_left :: nat

definition encode_to_buffer_cb :: "byte list \<Rightarrow> enc_to_buf_arg \<Rightarrow> enc_to_buf_arg option" where
  "encode_to_buffer_cb data arg =
     (if arg_left arg < length data then None
      else Some (arg\<lparr>arg_buffer := arg_buffer arg @ data, arg_left := arg_left arg - length data\<rparr>))"

definition ignore_output :: "byte list \<Rightarrow> 'k \<Rightarrow> 'k option" where
  "ignore_output data key = Some key"

record enc_dyn_arg =
  dyn_buffer :: "byte list"
  dyn_length :: nat
  dyn_allocated :: nat

text \<open>The loop \<^verbatim>\<open>do new_size <<= 2; while (arg->length + size >= new_size)\<close>; it starts at 8 or more.\<close>

function dyn_grow :: "nat \<Rightarrow> nat \<Rightarrow> nat" where
  "dyn_grow need new_size =
     (let n = push_bit 2 new_size in if n \<le> need \<and> 0 < n then dyn_grow need n else n)"
  by pat_completeness auto
termination
  by (relation "measure (\<lambda>(need, new_size). need + 1 - new_size)") (auto simp: push_bit_eq_mult)

declare dyn_grow.simps [simp del]

definition encode_dyn_cb :: "(nat \<Rightarrow> bool) \<Rightarrow> byte list \<Rightarrow> enc_dyn_arg \<Rightarrow> enc_dyn_arg option" where
  "encode_dyn_cb alloc_ok data arg =
     (let size = length data;
          grow = dyn_allocated arg \<le> dyn_length arg + size;
          new_size = dyn_grow (dyn_length arg + size) (if dyn_allocated arg \<noteq> 0 then dyn_allocated arg else 8)
      in if grow \<and> \<not> alloc_ok new_size then None
         else Some (arg\<lparr>dyn_allocated := (if grow then new_size else dyn_allocated arg),
                        dyn_buffer := dyn_buffer arg @ data, dyn_length := dyn_length arg + size\<rparr>))"

interpretation buf: octet_sink encode_to_buffer_cb arg_buffer
  by unfold_locales (auto simp: encode_to_buffer_cb_def split: if_splits)

interpretation dyn: octet_sink "encode_dyn_cb alloc_ok" dyn_buffer for alloc_ok
  by unfold_locales (auto simp: encode_dyn_cb_def Let_def split: if_splits)

interpretation buf: roomy_sink encode_to_buffer_cb arg_buffer arg_left
  by unfold_locales (simp add: encode_to_buffer_cb_def)

section \<open>Encoding a value\<close>

definition aper_encode_flush_outp :: "(byte list \<Rightarrow> 'k \<Rightarrow> 'k option) \<Rightarrow> 'k outp \<Rightarrow> 'k option" where
  "aper_encode_flush_outp out po =
     (if po_nboff po = 0 \<and> po_buffer po = 0 then Some (po_op_key po)
      else
        let i = po_buffer po + drop_bit 3 (po_nboff po); t = po_tmpspace po; k = po_nboff po mod 8;
            t' = (if k \<noteq> 0 then t[i := t ! i AND push_bit (8 - k) 0xFF] else t);
            n = (if k \<noteq> 0 then Suc i else i)
        in out (take n t') (po_op_key po))"

definition aper_encode ::
  "('v \<Rightarrow> 'k outp \<Rightarrow> int \<times> 'k outp) option \<Rightarrow> (byte list \<Rightarrow> 'k \<Rightarrow> 'k option) \<Rightarrow> 'v \<Rightarrow> 'k \<Rightarrow> byte list \<Rightarrow> int \<times> 'k" where
  "aper_encode encoder out sptr app_key tmpspace =
     (case encoder of
        None \<Rightarrow> (-1, app_key)
      | Some enc \<Rightarrow>
          let (er, po) = enc sptr (outp_new app_key tmpspace)
          in if er = -1 then (-1, po_op_key po)
             else
               let bits_to_flush = push_bit 3 (po_buffer po) + po_nboff po;
                   encoded = push_bit 3 (po_flushed po) + bits_to_flush
               in case aper_encode_flush_outp out po of
                    None \<Rightarrow> (-1, po_op_key po)
                  | Some key \<Rightarrow> (int encoded, key))"

definition uper_encode ::
  "('v \<Rightarrow> 'k outp \<Rightarrow> int \<times> 'k outp) option \<Rightarrow> (byte list \<Rightarrow> 'k \<Rightarrow> 'k option) option \<Rightarrow> 'v \<Rightarrow> 'k \<Rightarrow> byte list
    \<Rightarrow> int \<times> 'k" where
  "uper_encode encoder cb sptr app_key tmpspace =
     aper_encode encoder (case cb of None \<Rightarrow> ignore_output | Some out \<Rightarrow> out) sptr app_key tmpspace"

definition aper_encode_to_buffer ::
  "('v \<Rightarrow> enc_to_buf_arg outp \<Rightarrow> int \<times> enc_to_buf_arg outp) option \<Rightarrow> 'v \<Rightarrow> nat \<Rightarrow> byte list \<Rightarrow> int \<times> byte list" where
  "aper_encode_to_buffer encoder sptr buffer_size tmpspace =
     (let (er, key) = aper_encode encoder encode_to_buffer_cb sptr
            \<lparr>arg_buffer = [], arg_left = buffer_size\<rparr> tmpspace
      in (er, arg_buffer key))"

definition aper_encode_to_new_buffer ::
  "(nat \<Rightarrow> bool) \<Rightarrow> ('v \<Rightarrow> enc_dyn_arg outp \<Rightarrow> int \<times> enc_dyn_arg outp) option \<Rightarrow> 'v \<Rightarrow> byte list
    \<Rightarrow> int \<times> byte list option" where
  "aper_encode_to_new_buffer alloc_ok encoder sptr tmpspace =
     (let (er, key) = aper_encode encoder (encode_dyn_cb alloc_ok) sptr
            \<lparr>dyn_buffer = [], dyn_length = 0, dyn_allocated = 0\<rparr> tmpspace
      in if er = -1 then (-1, None)
         else if er = 0 then if alloc_ok 1 then (1, Some [0]) else (-1, None)
         else (drop_bit 3 (er + 7), Some (dyn_buffer key)))"

section \<open>Decoding a value\<close>

datatype asn_dec_rval_code = RC_OK | RC_WMORE | RC_FAIL

record asn_dec_rval =
  rv_code :: asn_dec_rval_code
  rv_consumed :: nat

definition ASN__DECODE_FAILED :: asn_dec_rval where
  "ASN__DECODE_FAILED = \<lparr>rv_code = RC_FAIL, rv_consumed = 0\<rparr>"

definition ASN__DECODE_STARVED :: asn_dec_rval where
  "ASN__DECODE_STARVED = \<lparr>rv_code = RC_WMORE, rv_consumed = 0\<rparr>"

text \<open>\<open>None\<close> is the failed \<^verbatim>\<open>assert(rval.consumed == pd.moved)\<close>.\<close>

definition aper_decode ::
  "(bit_data \<Rightarrow> asn_dec_rval \<times> 'v \<times> bit_data) option \<Rightarrow> 'v \<Rightarrow> byte list \<Rightarrow> int \<Rightarrow> int
    \<Rightarrow> (asn_dec_rval \<times> 'v) option" where
  "aper_decode decoder sptr buffer skip_bits unused_bits =
     (let size = length buffer
      in if skip_bits < 0 \<or> 7 < skip_bits \<or> unused_bits < 0 \<or> 7 < unused_bits \<or> 0 < unused_bits \<and> size = 0
         then Some (ASN__DECODE_FAILED, sptr)
         else
           let pd = \<lparr>pd_buffer = buffer, pd_nboff = nat skip_bits, pd_nbits = 8 * size - nat unused_bits, pd_moved = 0\<rparr>
           in if pd_nbits pd < pd_nboff pd then Some (ASN__DECODE_FAILED, sptr)
              else case decoder of
                None \<Rightarrow> Some (ASN__DECODE_FAILED, sptr)
              | Some dec \<Rightarrow>
                  let (rval, v, pd') = dec pd
                  in if rv_code rval = RC_OK then
                       let consumed = nat (push_bit 3 (int size - int (length (pd_buffer pd'))) + int (pd_nboff pd') - skip_bits)
                       in if of_nat consumed = pd_moved pd' then Some (rval\<lparr>rv_consumed := consumed\<rparr>, v) else None
                     else Some (rval\<lparr>rv_consumed := 0\<rparr>, v))"

definition aper_decode_complete ::
  "(bit_data \<Rightarrow> asn_dec_rval \<times> 'v \<times> bit_data) option \<Rightarrow> 'v \<Rightarrow> byte list \<Rightarrow> (asn_dec_rval \<times> 'v) option" where
  "aper_decode_complete decoder sptr buffer =
     (case aper_decode decoder sptr buffer 0 0 of
        None \<Rightarrow> None
      | Some (rval, v) \<Rightarrow>
          Some (if rv_consumed rval \<noteq> 0 then rval\<lparr>rv_consumed := drop_bit 3 (rv_consumed rval + 7)\<rparr>
                else if rv_code rval = RC_OK then
                  case buffer of
                    b # _ \<Rightarrow> if b = 0 then rval\<lparr>rv_consumed := 1\<rparr> else rval\<lparr>rv_code := RC_FAIL\<rparr>
                  | [] \<Rightarrow> rval\<lparr>rv_code := RC_WMORE\<rparr>
                else rval, v))"

definition uper_decode ::
  "(bit_data \<Rightarrow> asn_dec_rval \<times> 'v \<times> bit_data) option \<Rightarrow> 'v \<Rightarrow> byte list \<Rightarrow> int \<Rightarrow> int
    \<Rightarrow> (asn_dec_rval \<times> 'v) option" where
  "uper_decode = aper_decode"

definition uper_decode_complete ::
  "(bit_data \<Rightarrow> asn_dec_rval \<times> 'v \<times> bit_data) option \<Rightarrow> 'v \<Rightarrow> byte list \<Rightarrow> (asn_dec_rval \<times> 'v) option" where
  "uper_decode_complete = aper_decode_complete"

section \<open>What the entry points guarantee\<close>

text \<open>
  The contract of a type's PER operations, for one sink: the encoder appends \<open>field k v\<close>
  when the stream stands at bit \<open>k\<close> of an octet, and the decoder, at the same offset, takes
  that field back to the value.
\<close>

locale per_type = octet_sink out contents
  for out :: "byte list \<Rightarrow> 'k \<Rightarrow> 'k option" and contents :: "'k \<Rightarrow> byte list" +
  fixes enc :: "'v \<Rightarrow> 'k outp \<Rightarrow> int \<times> 'k outp"
    and dec :: "bit_data \<Rightarrow> asn_dec_rval \<times> 'v \<times> bit_data"
    and field :: "nat \<Rightarrow> 'v \<Rightarrow> bool list"
    and valid :: "'v \<Rightarrow> bool"
  assumes enc_writes: "po_ok po \<Longrightarrow> valid v \<Longrightarrow> enc v po = (r, po') \<Longrightarrow> r \<noteq> -1 \<Longrightarrow>
      po_writes contents po (field (po_nboff po mod 8) v) po'"
    and dec_reads: "pd_ok pd \<Longrightarrow> valid v \<Longrightarrow> pd_bits pd = field (pd_nboff pd mod 8) v @ rest \<Longrightarrow>
      \<exists>rv pd'. dec pd = (rv, v, pd') \<and> rv_code rv = RC_OK \<and> pd_reads pd (field (pd_nboff pd mod 8) v) pd'"

lemma push_bit_mask_octet: "push_bit n (255 :: byte) = NOT (mask n)"
proof -
  have "(255 :: byte) = - 1" by simp
  then show ?thesis by (metis push_bit_minus_one_eq_not_mask)
qed

context octet_sink
begin

lemma encode_flush_ok:
  assumes ok: "po_ok po" and fl: "aper_encode_flush_outp out po = Some key"
  shows "bytes_bits (contents key) = po_bits contents po @ align_pad (po_nboff po)"
proof (cases "po_nboff po = 0 \<and> po_buffer po = 0")
  case True
  with fl show ?thesis by (simp add: aper_encode_flush_outp_def po_bits_def)
next
  case False
  let ?u = "(8 - po_nboff po mod 8) mod 8" and ?t = "po_tmpspace po"
  let ?i = "po_buffer po + po_nboff po div 8" and ?c = "po_buffer po + (po_nboff po + 7) div 8"
  have "out (take ?c (if ?u \<noteq> 0 then ?t[?i := ?t ! ?i AND NOT (mask ?u)] else ?t)) (po_op_key po) = Some key"
    using fl False unfolding aper_encode_flush_outp_def push_bit_mask_octet
    by (cases "po_nboff po mod 8 = 0") (auto simp: drop_bit_eq_div octets_ceil Let_def)
  from out_appends [OF this] flush_tail [OF ok] show ?thesis
    by (simp add: po_bits_def align_pad_def)
qed

lemma aper_encode_ok:
  assumes len: "length tmp = 32" and key: "contents key = []"
    and enc: "\<And>po'. fst (enc v (outp_new key tmp)) \<noteq> -1 \<Longrightarrow> snd (enc v (outp_new key tmp)) = po' \<Longrightarrow>
      po_writes contents (outp_new key tmp) bs po'"
    and run: "aper_encode (Some enc) out v key tmp = (n, key')" and n: "n \<noteq> -1"
  shows "n = int (length bs) \<and> bytes_bits (contents key') = bs @ align_pad (length bs)"
proof -
  let ?po0 = "outp_new key tmp"
  obtain r po' where e: "enc v ?po0 = (r, po')" by fastforce
  from run n e have r: "r \<noteq> -1" and fl: "aper_encode_flush_outp out po' = Some key'"
    and nn: "n = int (8 * po_flushed po' + (8 * po_buffer po' + po_nboff po'))"
    by (auto simp: aper_encode_def Let_def push_bit_eq_mult split: if_splits option.splits)
  have w: "po_writes contents ?po0 bs po'" using enc [of po'] e r by simp
  have cnt: "po_counted contents ?po0" by (simp add: po_counted_def outp_new_def key)
  have bits: "po_bits contents po' = bs"
    using w by (simp add: po_writes_def outp_new_bits key)
  have cnt': "po_counted contents po'" using w cnt by (simp add: po_writes_def)
  have ok: "po_ok po'" using w by auto
  then have b: "8 * po_buffer po' + po_nboff po' \<le> 8 * length (po_tmpspace po')" by (auto simp: po_ok_def)
  have "length bs = 8 * po_flushed po' + (8 * po_buffer po' + po_nboff po')"
    using cnt' b by (simp add: bits [symmetric] po_bits_def po_counted_def)
  moreover have "align_pad (po_nboff po') = align_pad (length bs)"
    using po_nboff_mod [OF ok, of contents] bits align_pad_mod by metis
  ultimately show ?thesis using encode_flush_ok [OF ok fl] bits nn by simp
qed

end

lemma aper_decode_ok:
  assumes d: "dec \<lparr>pd_buffer = buffer, pd_nboff = 0, pd_nbits = 8 * length buffer, pd_moved = 0\<rparr> = (rv, v, pd')"
    and rv: "rv_code rv = RC_OK"
    and rd: "pd_reads \<lparr>pd_buffer = buffer, pd_nboff = 0, pd_nbits = 8 * length buffer, pd_moved = 0\<rparr> bs pd'"
  shows "aper_decode (Some dec) sptr buffer 0 0 = Some (\<lparr>rv_code = RC_OK, rv_consumed = length bs\<rparr>, v)"
proof -
  from rd have ok: "pd_ok pd'" and left: "8 * length buffer = length bs + pd_left pd'"
    and moved: "pd_moved pd' = of_nat (length bs)"
    by (auto simp: pd_reads_def pd_left_def)
  have "pd_nboff pd' \<le> 8 * length (pd_buffer pd')" using ok by (auto simp: pd_ok_def)
  with left have "nat (push_bit 3 (int (length buffer) - int (length (pd_buffer pd'))) + int (pd_nboff pd')) = length bs"
    by (simp add: pd_left_def push_bit_eq_mult)
  with d rv moved show ?thesis by (simp add: aper_decode_def Let_def)
qed

context per_type
begin

lemma encode_value_ok:
  assumes "valid v" and "length tmp = 32" and "contents key = []"
    and "aper_encode (Some enc) out v key tmp = (n, key')" and "n \<noteq> -1"
  shows "n = int (length (field 0 v)) \<and> bytes_bits (contents key') = field 0 v @ align_pad (length (field 0 v))"
proof -
  have w: "po_writes contents (outp_new key tmp) (field 0 v) po'"
    if "fst (enc v (outp_new key tmp)) \<noteq> -1" "snd (enc v (outp_new key tmp)) = po'" for po'
    using enc_writes [OF outp_new_ok [OF assms(2)] assms(1) surjective_pairing that(1)] that(2)
    by (simp add: outp_new_def)
  show ?thesis by (rule aper_encode_ok [OF assms(2,3) w assms(4,5)])
qed

lemma decode_value_ok:
  assumes "valid v" and "bytes_bits b = field 0 v @ pad"
  shows "aper_decode (Some dec) sptr b 0 0 = Some (\<lparr>rv_code = RC_OK, rv_consumed = length (field 0 v)\<rparr>, v)"
proof -
  let ?pd = "\<lparr>pd_buffer = b, pd_nboff = 0, pd_nbits = 8 * length b, pd_moved = 0\<rparr>"
  have ok: "pd_ok ?pd" by (simp add: pd_ok_def)
  have bits: "pd_bits ?pd = field (pd_nboff ?pd mod 8) v @ pad"
    using assms(2) take_bytes_bits [of "length b" b] by (simp add: pd_bits_def)
  from dec_reads [OF ok assms(1) bits] obtain rv pd' where
    "dec ?pd = (rv, v, pd')" "rv_code rv = RC_OK" "pd_reads ?pd (field 0 v) pd'" by auto
  then show ?thesis by (rule aper_decode_ok)
qed

end

section \<open>Round trips of the primitives\<close>

text \<open>A stream to write to, used in the examples: room for 64 octets, nothing written.\<close>

definition sample_outp :: "enc_to_buf_arg outp" where
  "sample_outp = outp_new \<lparr>arg_buffer = [], arg_left = 64\<rparr> (replicate 32 0)"

definition sample_pd :: "byte list \<Rightarrow> bit_data" where
  "sample_pd bs = \<lparr>pd_buffer = bs, pd_nboff = 0, pd_nbits = 8 * length bs, pd_moved = 0\<rparr>"

text \<open>What one call appended to the stream.\<close>

definition written :: "enc_to_buf_arg outp \<Rightarrow> enc_to_buf_arg outp \<Rightarrow> bool list" where
  "written po po' = drop (length (po_bits arg_buffer po)) (po_bits arg_buffer po')"

lemma written_eq: "po_writes arg_buffer po bs po' \<Longrightarrow> written po po' = bs"
  by (simp add: written_def po_writes_def)

lemma sample_outp_ok [simp]: "po_ok sample_outp" "po_nboff sample_outp = 0"
  by (simp_all add: sample_outp_def outp_new_ok) (simp add: outp_new_def)

lemmas eval_put = asn_put_few_bits.simps po_room_def po_norm_def po_store_def po_flush_def outp_new_def
  sample_outp_def Let_def

lemma sample_len_300:
  "aper_put_length encode_to_buffer_cb sample_outp (-1) 300
    = (300, snd (aper_put_length encode_to_buffer_cb sample_outp (-1) 300))"
  "uper_put_length encode_to_buffer_cb sample_outp 300
    = (300, False, snd (snd (uper_put_length encode_to_buffer_cb sample_outp 300)))"
  by (simp_all add: eval_put aper_put_length_def aper_put_align_def uper_put_length_def)

lemma sample_len_300_written:
  "written sample_outp (snd (aper_put_length encode_to_buffer_cb sample_outp (-1) 300)) = len_bits 300"
  "written sample_outp (snd (snd (uper_put_length encode_to_buffer_cb sample_outp 300))) = len_bits 300"
  using buf.aper_put_length_ok [OF sample_outp_ok(1) _ sample_len_300(1)]
    buf.uper_put_length_ok [OF sample_outp_ok(1) sample_len_300(2)]
  by (simp_all add: written_eq)

text \<open>
  (C23) Length determinants, aligned PER: reading what \<open>aper_put_length\<close> appended gives back
  its result, for every length. Below 16K that is the length itself; from 16K on it is a
  fragment of at most four times 16K, and the reader is told that more follows.
\<close>

theorem aper_length_round_trip:
  assumes "po_ok po" and "pd_ok pd" and "pd_nboff pd mod 8 = po_nboff po mod 8" and "rng < 0 \<or> 65536 < rng"
    and "aper_put_length encode_to_buffer_cb po rng len = (r, po')" and "\<not> r < 0"
    and "pd_bits pd = written po po' @ rest"
  shows "\<exists>pd'. aper_get_length pd rng (-1) = (r, 16384 \<le> len, pd') \<and> pd_bits pd' = rest
    \<and> r = (if len < 16384 then int len else 16384 * min 4 (int len div 16384))"
proof -
  from buf.aper_put_length_ok [OF assms(1,4,5,6)]
  have r: "r = int (len_chunk len)" and w: "written po po' = align_pad (pd_nboff pd) @ len_bits len"
    using written_eq assms(3) align_pad_mod by metis+
  have b: "pd_bits pd = align_pad (pd_nboff pd) @ len_bits len @ rest" using assms(7) w by simp
  from aper_get_length_ok [OF assms(2,4) b] b show ?thesis
    by (auto simp: pd_reads_def r len_chunk_def len_blocks_def of_nat_min zdiv_int)
qed

theorem aper_length_round_trip_witness:
  "\<exists>pd'. aper_get_length (sample_pd [0x81, 0x2C]) (-1) (-1) = (300, 16384 \<le> (300::nat), pd') \<and> pd_bits pd' = []
    \<and> (300::int) = (if 300 < (16384::nat) then int 300 else 16384 * min 4 (int 300 div 16384))"
  by (rule aper_length_round_trip [OF sample_outp_ok(1) _ _ _ sample_len_300(1)])
    (unfold sample_len_300_written sample_outp_ok, code_simp+)

text \<open>
  Length determinants, unaligned PER: reading what \<open>uper_put_length\<close> appended gives back
  its result for every length, and the writer asks for an end marker exactly when the last
  fragment was a full one.
\<close>

theorem uper_length_round_trip:
  assumes "po_ok po" and "pd_ok pd" and "uper_put_length encode_to_buffer_cb po len = (r, need_eom, po')" and "\<not> r < 0"
    and "pd_bits pd = written po po' @ rest"
  shows "\<exists>pd'. uper_get_length pd (-1) 0 = (r, 16384 \<le> len, pd') \<and> pd_bits pd' = rest
    \<and> r = (if len < 16384 then int len else 16384 * min 4 (int len div 16384))
    \<and> (need_eom \<longleftrightarrow> 16384 \<le> len \<and> r = int len)"
proof -
  note w = buf.uper_put_length_ok [OF assms(1,3,4)]
  then have b: "pd_bits pd = len_bits len @ rest" using assms(5) written_eq by auto
  from uper_get_length_ok [OF assms(2) b, of 0] b w show ?thesis
    by (auto simp: pd_reads_def len_chunk_def len_blocks_def of_nat_min zdiv_int)
qed

theorem uper_length_round_trip_witness:
  "\<exists>pd'. uper_get_length (sample_pd [0x81, 0x2C]) (-1) 0 = (300, 16384 \<le> (300::nat), pd') \<and> pd_bits pd' = []
    \<and> (300::int) = (if 300 < (16384::nat) then int 300 else 16384 * min 4 (int 300 div 16384))
    \<and> (False \<longleftrightarrow> 16384 \<le> (300::nat) \<and> (300::int) = int 300)"
  by (rule uper_length_round_trip [OF sample_outp_ok(1) _ sample_len_300(2)])
    (unfold sample_len_300_written sample_outp_ok, code_simp+)

text \<open>
  Constrained whole numbers: a value written in \<open>n\<close> bits, \<open>n\<close> from 0 to 64, is read
  back as its low \<open>n\<close> bits, although both sides work in pieces of 31 bits.
\<close>

theorem constrained_whole_number_round_trip:
  assumes "po_ok po" and "pd_ok pd" and "n \<le> 64"
    and "uper_put_constrained_whole_number_u encode_to_buffer_cb po v (int n) = (0, po')"
    and "pd_bits pd = written po po' @ rest"
  shows "\<exists>pd'. uper_get_constrained_whole_number pd (int n) = (Some (take_bit n v), pd') \<and> pd_bits pd' = rest"
proof -
  have "po_writes arg_buffer po (bits_of_int n (uint v)) po'"
    using buf.uper_put_constrained_ok [OF assms(1) _ assms(4)] by simp
  then have b: "pd_bits pd = bits_of_int n (uint v) @ rest" using assms(5) written_eq by simp
  have "word_of_int (take_bit n (uint v)) = take_bit n v"
    by (simp add: of_int_take_bit)
  with uper_get_constrained_ok [OF assms(2) b assms(3)] b show ?thesis
    by (auto simp: pd_reads_def)
qed

lemma sample_constrained_37:
  "uper_put_constrained_whole_number_u encode_to_buffer_cb sample_outp 0x123456789A (int 40)
    = (0, snd (uper_put_constrained_whole_number_u encode_to_buffer_cb sample_outp 0x123456789A (int 40)))"
  by (simp add: eval_put uper_put_constrained_whole_number_u.simps)

theorem constrained_whole_number_round_trip_witness:
  "\<exists>pd'. uper_get_constrained_whole_number (sample_pd [0x12, 0x34, 0x56, 0x78, 0x9A]) (int 40)
    = (Some (take_bit 40 0x123456789A), pd') \<and> pd_bits pd' = []"
proof (rule constrained_whole_number_round_trip [OF sample_outp_ok(1) _ _ sample_constrained_37])
  have "written sample_outp (snd (uper_put_constrained_whole_number_u encode_to_buffer_cb sample_outp 0x123456789A (int 40)))
      = bits_of_int 40 0x123456789A"
    using buf.uper_put_constrained_ok [OF sample_outp_ok(1) _ sample_constrained_37] by (simp add: written_eq)
  moreover have "pd_bits (sample_pd [0x12, 0x34, 0x56, 0x78, 0x9A]) = bits_of_int 40 0x123456789A" by code_simp
  ultimately show "pd_bits (sample_pd [0x12, 0x34, 0x56, 0x78, 0x9A]) =
      written sample_outp (snd (uper_put_constrained_whole_number_u encode_to_buffer_cb sample_outp 0x123456789A (int 40))) @ []"
    by simp
qed code_simp+

text \<open>
  Normally small numbers up to 63 and normally small lengths up to 64: what the writers
  append is read back.
\<close>

theorem normally_small_round_trip:
  assumes "po_ok po" and "pd_ok pd" and "pd_ok pd2" and "0 < len" and "len \<le> 64"
    and "uper_put_nsnnwn encode_to_buffer_cb po (int len - 1) = (0, po')" and "pd_bits pd = written po po' @ rest"
    and "aper_put_nslength encode_to_buffer_cb po len = (0, po2')" and "pd_bits pd2 = written po po2' @ rest"
  shows "(\<exists>pd'. uper_get_nsnnwn pd = (int len - 1, pd') \<and> pd_bits pd' = rest)
    \<and> (\<exists>pd'. aper_get_nslength pd2 = (int len, pd') \<and> uper_get_nslength pd2 = (int len, pd') \<and> pd_bits pd' = rest)"
  using buf.uper_put_nsnnwn_small [OF assms(1), of "int len - 1" po']
    buf.put_nslength_small(2) [OF assms(1,4,5), of po2'] assms(4-9)
    uper_get_nsnnwn_small [OF assms(2), of "int len - 1" rest] get_nslength_small [OF assms(3), of len rest]
  by (auto simp: written_eq pd_reads_def)

lemma sample_small_41:
  "uper_put_nsnnwn encode_to_buffer_cb sample_outp (int 41 - 1)
    = (0, snd (uper_put_nsnnwn encode_to_buffer_cb sample_outp (int 41 - 1)))"
  "aper_put_nslength encode_to_buffer_cb sample_outp 41
    = (0, snd (aper_put_nslength encode_to_buffer_cb sample_outp 41))"
  by (simp_all add: eval_put uper_put_nsnnwn_def aper_put_nslength_def)

lemma sample_small_41_written:
  "written sample_outp (snd (uper_put_nsnnwn encode_to_buffer_cb sample_outp (int 41 - 1))) = bits_of_int 7 40"
  "written sample_outp (snd (aper_put_nslength encode_to_buffer_cb sample_outp 41)) = bits_of_int 7 40"
  using buf.uper_put_nsnnwn_small [OF sample_outp_ok(1) _ _ sample_small_41(1)]
    buf.put_nslength_small(2) [OF sample_outp_ok(1) _ _ sample_small_41(2)]
  by (simp_all add: written_eq)

theorem normally_small_round_trip_witness:
  "(\<exists>pd'. uper_get_nsnnwn (sample_pd [0x51]) = (int 41 - 1, pd') \<and> pd_bits pd' = [True])
    \<and> (\<exists>pd'. aper_get_nslength (sample_pd [0x51]) = (int 41, pd') \<and> uper_get_nslength (sample_pd [0x51]) = (int 41, pd')
         \<and> pd_bits pd' = [True])"
  by (rule normally_small_round_trip [OF sample_outp_ok(1) _ _ _ _ sample_small_41(1) _ sample_small_41(2)])
    (unfold sample_small_41_written, code_simp+)

text \<open>
  Larger normally small numbers are lost: the writer emits an 8-bit octet count without
  the flag bit that the reader looks for, so the reader returns 0 or 1 whatever was written.
\<close>

theorem large_nsnnwn_lost:
  assumes "po_ok po" and "pd_ok pd" and "63 < n"
    and "uper_put_nsnnwn encode_to_buffer_cb po n = (0, po')" and "pd_bits pd = written po po' @ rest"
  shows "fst (uper_get_nsnnwn pd) = (if n < 256 then 0 else 1)"
proof -
  from buf.uper_put_nsnnwn_large [OF assms(1,3,4)] obtain k where k: "k = (if n < 256 then 1 else if n < 65536 then 2 else 3)"
    and w: "po_writes arg_buffer po (bits_of_int 8 (int k) @ bits_of_int (8 * k) n) po'" by auto
  then have "pd_bits pd = bits_of_int 8 (int k) @ bits_of_int (8 * k) n @ rest" using assms(5) by (simp add: written_eq)
  from uper_get_nsnnwn_large [OF assms(2) this] k show ?thesis by (simp split: if_splits)
qed

lemma sample_large_300:
  "uper_put_nsnnwn encode_to_buffer_cb sample_outp 300 = (0, snd (uper_put_nsnnwn encode_to_buffer_cb sample_outp 300))"
  by (simp add: eval_put uper_put_nsnnwn_def)

theorem large_nsnnwn_lost_witness:
  "fst (uper_get_nsnnwn (sample_pd [2, 1, 44])) = (if (300::int) < 256 then 0 else 1)"
proof (rule large_nsnnwn_lost [OF sample_outp_ok(1) _ _ sample_large_300, where rest = "[]"])
  have "written sample_outp (snd (uper_put_nsnnwn encode_to_buffer_cb sample_outp 300)) = bits_of_int 8 2 @ bits_of_int 16 300"
    using buf.uper_put_nsnnwn_large [OF sample_outp_ok(1) _ sample_large_300] by (simp add: written_eq)
  moreover have "pd_bits (sample_pd [2, 1, 44]) = bits_of_int 8 2 @ bits_of_int 16 300" by code_simp
  ultimately show "pd_bits (sample_pd [2, 1, 44])
      = written sample_outp (snd (uper_put_nsnnwn encode_to_buffer_cb sample_outp 300)) @ []" by simp
qed code_simp+

lemma dyn_grow_enough: "0 < n \<Longrightarrow> need < dyn_grow need n"
proof (induction need n rule: dyn_grow.induct)
  case (1 need n)
  then show ?case
    by (cases "push_bit 2 n \<le> need") (simp_all add: dyn_grow.simps [of need n] push_bit_eq_mult Let_def)
qed

text \<open>
  The growing buffer of \<open>encode_dyn_cb\<close>: after a successful call the octets fit, with
  room to spare, into what was allocated, and the recorded length is that of the octets.
\<close>

theorem encode_dyn_cb_fits:
  assumes "dyn_length arg = length (dyn_buffer arg)" and "encode_dyn_cb alloc_ok data arg = Some arg'"
  shows "dyn_length arg' = length (dyn_buffer arg') \<and> dyn_length arg' < dyn_allocated arg'
    \<and> dyn_buffer arg' = dyn_buffer arg @ data"
  using assms dyn_grow_enough [of "if dyn_allocated arg \<noteq> 0 then dyn_allocated arg else 8" "dyn_length arg + length data"]
  by (auto simp: encode_dyn_cb_def Let_def split: if_splits)

theorem encode_dyn_cb_fits_witness:
  "dyn_length \<lparr>dyn_buffer = replicate 40 7, dyn_length = 40, dyn_allocated = 128\<rparr>
      = length (dyn_buffer \<lparr>dyn_buffer = replicate 40 7, dyn_length = 40, dyn_allocated = 128\<rparr>)
    \<and> dyn_length \<lparr>dyn_buffer = replicate 40 7, dyn_length = 40, dyn_allocated = 128\<rparr>
      < dyn_allocated \<lparr>dyn_buffer = replicate 40 7, dyn_length = 40, dyn_allocated = 128\<rparr>
    \<and> dyn_buffer \<lparr>dyn_buffer = replicate 40 7, dyn_length = 40, dyn_allocated = 128\<rparr>
      = dyn_buffer \<lparr>dyn_buffer = [], dyn_length = 0, dyn_allocated = 0\<rparr> @ replicate 40 7"
  by (rule encode_dyn_cb_fits [where alloc_ok = "\<lambda>_. True" and data = "replicate 40 7"])
    (simp_all add: encode_dyn_cb_def dyn_grow.simps Let_def)

end
