(* ===== verification/OpenType.thy ===== *)
theory OpenType
  imports PerCodec
begin

text \<open>
  Open types, \<^verbatim>\<open>e2ap/lib/per_opentype.c\<close>: a value is encoded on its own into whole octets,
  which are then written as one or more length-prefixed fragments. Every information element
  of an E2AP message travels this way. The unaligned and the aligned routine differ in the
  length primitive they call, which is the parameter \<open>per_variant\<close>.
\<close>

datatype per_variant = UPER | APER

section \<open>The readers only move forward\<close>

definition pd_rem :: "bit_data \<Rightarrow> nat" where
  "pd_rem pd = pd_nbits pd - pd_nboff pd"

lemma pd_rem_norm [simp]: "pd_rem (pd_norm pd) = pd_rem pd"
proof -
  obtain q r where "pd_nboff pd = 8 * q + r" "r < 8"
    by (metis mod_less_divisor mult_div_mod_eq zero_less_numeral)
  then show ?thesis by (auto simp: pd_rem_def pd_norm_def)
qed

lemma get_few_bits_rem:
  assumes "asn_get_few_bits pd n = (v, pd')"
  shows "pd_rem pd' \<le> pd_rem pd" and "v \<noteq> -1 \<Longrightarrow> pd_rem pd = nat n + pd_rem pd'"
proof -
  have adv: "pd_rem (pd_adv pd n) = pd_rem pd - nat n"
    using pd_rem_norm [of pd] unfolding pd_rem_def by (simp add: pd_adv_def Let_def)
  have "v = -1 \<and> (pd' = pd \<or> pd' = pd_norm pd) \<or> nat n \<le> pd_rem pd \<and> pd' = pd_adv pd n"
    using assms get_undo_adv [of n pd] unfolding asn_get_few_bits.simps [of pd n]
    by (auto simp: pd_rem_def Let_def split: if_split_asm prod.splits)
  then show "pd_rem pd' \<le> pd_rem pd" and "v \<noteq> -1 \<Longrightarrow> pd_rem pd = nat n + pd_rem pd'"
    using adv by auto
qed

lemma get_many_bits_loop_rem:
  "asn_get_many_bits_loop pd n = (r, dst, pd') \<Longrightarrow> pd_rem pd' \<le> pd_rem pd \<and> (r = 0 \<longrightarrow> pd_rem pd = nat n + pd_rem pd')"
proof (induction pd n arbitrary: r dst rule: asn_get_many_bits_loop.induct)
  case (1 pd n)
  note unf = asn_get_many_bits_loop.simps [of pd n]
  obtain v1 pd1 where g1: "asn_get_few_bits pd 24 = (v1, pd1)" by fastforce
  obtain v2 pd2 where g2: "asn_get_few_bits pd n = (v2, pd2)" by fastforce
  consider "n = 0" | "24 \<le> n" | "n \<noteq> 0" "n < 24" by linarith
  then show ?case
  proof cases
    case 1
    with "1.prems" show ?thesis by (simp add: asn_get_many_bits_loop.simps [of pd 0])
  next
    case 2
    then show ?thesis
      using "1.prems" "1.IH"(1) [OF _ _ g1 [symmetric] refl] g1 get_few_bits_rem [OF g1]
      by (auto simp: unf split: if_split_asm prod.splits)
  next
    case 3
    then show ?thesis
      using "1.prems" g2 get_few_bits_rem [OF g2]
      by (auto simp: unf Let_def split: if_split_asm)
  qed
qed

lemma get_many_bits_rem:
  assumes "asn_get_many_bits pd False n = (0, dst, pd')"
  shows "pd_rem pd = nat n + pd_rem pd'"
  using get_many_bits_loop_rem assms by (simp add: asn_get_many_bits_def)

lemma uper_get_length_rem: "uper_get_length pd (-1) 0 = (len, repeat, pd') \<Longrightarrow> pd_rem pd' \<le> pd_rem pd \<and> (repeat \<longrightarrow> 16384 \<le> len)"
  unfolding uper_get_length_def
  by (auto simp: Let_def split: if_split_asm prod.splits dest!: get_few_bits_rem(1) intro: order_trans)

lemma aper_get_length_rem: "aper_get_length pd (-1) (-1) = (len, repeat, pd') \<Longrightarrow> pd_rem pd' \<le> pd_rem pd \<and> (repeat \<longrightarrow> 16384 \<le> len)"
  unfolding aper_get_length_def aper_get_align_def
  by (auto simp: Let_def split: if_split_asm prod.splits dest!: get_few_bits_rem(1) intro: order_trans)

section \<open>Reading an open type\<close>

definition open_type_get_length :: "per_variant \<Rightarrow> bit_data \<Rightarrow> int \<times> bool \<times> bit_data" where
  "open_type_get_length pv pd =
     (case pv of UPER \<Rightarrow> uper_get_length pd (-1) 0 | APER \<Rightarrow> aper_get_length pd (-1) (-1))"

lemma open_type_get_length_rem:
  "open_type_get_length pv pd = (len, repeat, pd') \<Longrightarrow> pd_rem pd' \<le> pd_rem pd \<and> (repeat \<longrightarrow> 16384 \<le> len)"
  by (cases pv) (auto simp: open_type_get_length_def dest: uper_get_length_rem aper_get_length_rem)

text \<open>The loop that gathers the fragments: its result code, the octets and the stream.\<close>

function open_type_chunks ::
  "(nat \<Rightarrow> bool) \<Rightarrow> per_variant \<Rightarrow> byte list \<Rightarrow> nat \<Rightarrow> bit_data \<Rightarrow> asn_dec_rval_code \<times> byte list \<times> bit_data" where
  "open_type_chunks alloc_ok pv buf bufSize pd =
     (let (chunk_bytes, repeat, pd1) = open_type_get_length pv pd
      in if chunk_bytes < 0 then (RC_WMORE, [], pd1)
         else
           let chunk = nat chunk_bytes;
               grow = bufSize < length buf + chunk;
               bufSize' = (if grow then chunk + push_bit 2 bufSize else bufSize)
           in if grow \<and> \<not> alloc_ok bufSize' then (RC_FAIL, [], pd1)
              else
                let (r, dst, pd2) = asn_get_many_bits pd1 False (push_bit 3 chunk_bytes)
                in if r \<noteq> 0 then (RC_WMORE, [], pd2)
                   else if repeat then open_type_chunks alloc_ok pv (buf @ dst) bufSize' pd2
                   else (RC_OK, buf @ dst, pd2))"
  by pat_completeness auto
termination
proof (relation "measure (\<lambda>(alloc_ok, pv, buf, bufSize, pd). pd_rem pd)", goal_cases)
  case (2 alloc_ok pv buf bufSize pd p chunk_bytes q repeat pd1 chunk grow bufSize' x r y dst pd2)
  then have "pd_rem pd1 \<le> pd_rem pd" "16384 \<le> chunk_bytes"
    using open_type_get_length_rem [of pv pd chunk_bytes repeat pd1] by simp_all
  moreover have "pd_rem pd1 = nat (push_bit 3 chunk_bytes) + pd_rem pd2"
    using 2 by (intro get_many_bits_rem [where dst = dst]) simp
  ultimately show ?case by (simp add: push_bit_eq_mult)
qed simp

declare open_type_chunks.simps [simp del]

definition open_type_get_simple ::
  "(nat \<Rightarrow> bool) \<Rightarrow> per_variant \<Rightarrow> (bit_data \<Rightarrow> asn_dec_rval \<times> 'v \<times> bit_data) \<Rightarrow> 'v \<Rightarrow> bit_data
    \<Rightarrow> asn_dec_rval \<times> 'v \<times> bit_data" where
  "open_type_get_simple alloc_ok pv dec sptr pd =
     (let (code, buf, pd1) = open_type_chunks alloc_ok pv [] 0 pd
      in case code of
           RC_WMORE \<Rightarrow> (ASN__DECODE_STARVED, sptr, pd1)
         | RC_FAIL \<Rightarrow> (ASN__DECODE_FAILED, sptr, pd1)
         | RC_OK \<Rightarrow>
             let spd = \<lparr>pd_buffer = buf, pd_nboff = 0, pd_nbits = push_bit 3 (length buf), pd_moved = 0\<rparr>;
                 (rv, v, spd1) = dec spd
             in if rv_code rv = RC_OK then
                  let padding = pd_nbits spd1 - pd_nboff spd1
                  in if (0 < padding \<and> padding < 8 \<or>
                         pd_nboff spd1 = 0 \<and> pd_nbits spd1 = 8 \<and> length (pd_buffer spd1) = length buf) \<and>
                        fst (asn_get_few_bits spd1 (int padding)) = 0 then (rv, v, pd1)
                     else if 8 \<le> padding then (ASN__DECODE_FAILED, v, pd1)
                     else (rv, v, pd1)
                else (rv\<lparr>rv_code := RC_FAIL\<rparr>, v, pd1))"

definition aper_open_type_get ::
  "(nat \<Rightarrow> bool) \<Rightarrow> (bit_data \<Rightarrow> asn_dec_rval \<times> 'v \<times> bit_data) \<Rightarrow> 'v \<Rightarrow> bit_data \<Rightarrow> asn_dec_rval \<times> 'v \<times> bit_data" where
  "aper_open_type_get alloc_ok dec sptr pd = open_type_get_simple alloc_ok APER dec sptr pd"

definition uper_open_type_get ::
  "(nat \<Rightarrow> bool) \<Rightarrow> (bit_data \<Rightarrow> asn_dec_rval \<times> 'v \<times> bit_data) \<Rightarrow> 'v \<Rightarrow> bit_data \<Rightarrow> asn_dec_rval \<times> 'v \<times> bit_data" where
  "uper_open_type_get alloc_ok dec sptr pd = open_type_get_simple alloc_ok UPER dec sptr pd"

text \<open>The decoder of an unknown extension: it swallows the stream bit by bit.\<close>

function uper_sot_suck_loop :: "bit_data \<Rightarrow> bit_data" where
  "uper_sot_suck_loop pd =
     (let (v, pd1) = asn_get_few_bits pd 1 in if 0 \<le> v then uper_sot_suck_loop pd1 else pd1)"
  by pat_completeness auto
termination
  by (relation "measure pd_rem") (auto dest: get_few_bits_rem(2) [OF sym])

declare uper_sot_suck_loop.simps [simp del]

definition uper_sot_suck :: "bit_data \<Rightarrow> asn_dec_rval \<times> unit \<times> bit_data" where
  "uper_sot_suck pd =
     (let pd1 = uper_sot_suck_loop pd in (\<lparr>rv_code = RC_OK, rv_consumed = unat (pd_moved pd1)\<rparr>, (), pd1))"

definition aper_open_type_skip :: "(nat \<Rightarrow> bool) \<Rightarrow> bit_data \<Rightarrow> int \<times> bit_data" where
  "aper_open_type_skip alloc_ok pd =
     (let (rv, _, pd1) = aper_open_type_get alloc_ok uper_sot_suck () pd
      in (if rv_code rv \<noteq> RC_OK then -1 else 0, pd1))"

definition uper_open_type_skip :: "(nat \<Rightarrow> bool) \<Rightarrow> bit_data \<Rightarrow> int \<times> bit_data" where
  "uper_open_type_skip alloc_ok pd =
     (let (rv, _, pd1) = uper_open_type_get alloc_ok uper_sot_suck () pd
      in (if rv_code rv \<noteq> RC_OK then -1 else 0, pd1))"

text \<open>The loop of \<^verbatim>\<open>per_skip_bits\<close>, at most 24 bits at a time.\<close>

function per_skip_bits_loop :: "bit_data \<Rightarrow> int \<Rightarrow> bool \<Rightarrow> int \<times> bit_data" where
  "per_skip_bits_loop pd skip_nbits hasNonZeroBits =
     (if 0 < skip_nbits then
        let skip = (if skip_nbits < 24 then skip_nbits else 24);
            (v, pd1) = asn_get_few_bits pd skip
        in if v = -1 then (-1, pd1)
           else per_skip_bits_loop pd1 (skip_nbits - skip) (hasNonZeroBits \<or> v \<noteq> 0)
      else (if hasNonZeroBits then 1 else 0, pd))"
  by pat_completeness auto
termination
  by (relation "measure (\<lambda>(pd, skip_nbits, h). nat skip_nbits)") auto

declare per_skip_bits_loop.simps [simp del]

definition per_skip_bits :: "bit_data \<Rightarrow> int \<Rightarrow> int \<times> bit_data" where
  "per_skip_bits pd skip_nbits = per_skip_bits_loop pd skip_nbits False"

section \<open>Writing an open type\<close>

definition open_type_put_length ::
  "per_variant \<Rightarrow> (byte list \<Rightarrow> 'k \<Rightarrow> 'k option) \<Rightarrow> 'k outp \<Rightarrow> nat \<Rightarrow> int \<times> bool \<times> 'k outp" where
  "open_type_put_length pv out po len =
     (case pv of UPER \<Rightarrow> uper_put_length out po len
      | APER \<Rightarrow> let (r, po1) = aper_put_length out po (-1) len in (r, False, po1))"

lemma open_type_put_length_bounds:
  "open_type_put_length pv out po len = (r, e, po') \<Longrightarrow> \<not> r < 0 \<Longrightarrow> r = int (len_chunk len)"
  by (cases pv)
    (auto simp: open_type_put_length_def uper_put_length_def aper_put_length_def Let_def len_blocks_def drop_bit_eq_div
      len_chunk_def push_bit_eq_mult min_def simp del: of_nat_or_eq split: if_split_asm prod.splits)

function open_type_put_loop ::
  "per_variant \<Rightarrow> (byte list \<Rightarrow> 'k \<Rightarrow> 'k option) \<Rightarrow> byte list \<Rightarrow> nat \<Rightarrow> 'k outp \<Rightarrow> int \<times> 'k outp" where
  "open_type_put_loop pv out bptr sz po =
     (if sz = 0 then (0, po)
      else
        let (may_save, need_eom, po1) = open_type_put_length pv out po sz
        in if may_save < 0 then (-1, po1)
           else
             let (r, po2) = asn_put_many_bits out po1 bptr (may_save * 8)
             in if r \<noteq> 0 then (-1, po2)
                else
                  let (r3, _, po3) = (if need_eom then uper_put_length out po2 0 else (0, False, po2))
                  in if r3 \<noteq> 0 then (-1, po3)
                     else open_type_put_loop pv out (drop (nat may_save) bptr) (sz - nat may_save) po3)"
  by pat_completeness auto
termination
proof (relation "measure (\<lambda>(pv, out, bptr, sz, po). sz)", goal_cases)
  case (2 pv out bptr sz po p may_save q need_eom po1)
  then have "may_save = int (len_chunk sz)" and "sz \<noteq> 0"
    using open_type_put_length_bounds [of pv out po sz may_save need_eom po1] by simp_all
  then show ?case using len_chunk_pos [of sz] by simp
qed simp

declare open_type_put_loop.simps [simp del]

definition aper_open_type_put ::
  "(nat \<Rightarrow> bool) \<Rightarrow> ('v \<Rightarrow> enc_dyn_arg outp \<Rightarrow> int \<times> enc_dyn_arg outp) option \<Rightarrow> byte list
    \<Rightarrow> (byte list \<Rightarrow> 'k \<Rightarrow> 'k option) \<Rightarrow> 'v \<Rightarrow> 'k outp \<Rightarrow> int \<times> 'k outp" where
  "aper_open_type_put alloc_ok encoder tmpspace out sptr po =
     (let (size, buf) = aper_encode_to_new_buffer alloc_ok encoder sptr tmpspace
      in if size \<le> 0 then (-1, po)
         else case buf of None \<Rightarrow> (-1, po) | Some b \<Rightarrow> open_type_put_loop APER out b (nat size) po)"

definition uper_open_type_put ::
  "(nat \<Rightarrow> bool) \<Rightarrow> ('v \<Rightarrow> enc_dyn_arg outp \<Rightarrow> int \<times> enc_dyn_arg outp) option \<Rightarrow> byte list
    \<Rightarrow> (byte list \<Rightarrow> 'k \<Rightarrow> 'k option) \<Rightarrow> 'v \<Rightarrow> 'k outp \<Rightarrow> int \<times> 'k outp" where
  "uper_open_type_put alloc_ok encoder tmpspace out sptr po =
     (let (size, buf) = aper_encode_to_new_buffer alloc_ok encoder sptr tmpspace
      in if size \<le> 0 then (-1, po)
         else case buf of None \<Rightarrow> (-1, po) | Some b \<Rightarrow> open_type_put_loop UPER out b (nat size) po)"

section \<open>The fragments of an octet string\<close>

lemma len_chunk_take: "min (length bs) (len_chunk (length bs)) = len_chunk (length bs)"
  using len_chunk_le by (simp add: min_absorb2)

function ot_bits :: "per_variant \<Rightarrow> nat \<Rightarrow> byte list \<Rightarrow> bool list" where
  "ot_bits pv k bs =
     (let n = length bs; c = len_chunk n
      in (if pv = APER then align_pad k else []) @ len_bits n @ bytes_bits (take c bs) @
         (if n < 16384 \<or> c = n \<and> pv = APER then [] else ot_bits pv 0 (drop c bs)))"
  by pat_completeness auto
termination
proof (relation "measure (\<lambda>(pv, k, bs). length bs)", goal_cases)
  case (2 pv k bs n c)
  then have "0 < n" by auto
  then show ?case using 2 len_chunk_pos [of n] by (cases bs) auto
qed simp

declare ot_bits.simps [simp del]

lemma ot_bits_mod [simp]: "ot_bits pv (k mod 8) bs = ot_bits pv k bs"
  by (simp add: ot_bits.simps [of pv "k mod 8"] ot_bits.simps [of pv k])

lemma len_bits_octets: "length (len_bits n) mod 8 = 0"
  by (simp add: len_bits_def)

lemma ot_step_aligned:
  "(k + length (align_pad k @ len_bits n @ bytes_bits bs)) mod 8 = 0"
  using align_pad_aligned [of k] len_bits_octets [of n]
  by (metis (no_types, lifting) add.assoc add.right_neutral length_append length_bytes_bits mod_add_eq mod_mult_self1_is_0 mod_0)

context octet_sink
begin

lemma open_type_put_length_ok:
  assumes "po_ok po" and "open_type_put_length pv out po len = (r, e, po')" and "\<not> r < 0"
  shows "r = int (len_chunk len) \<and> (e \<longleftrightarrow> pv = UPER \<and> 16384 \<le> len \<and> len_chunk len = len)
    \<and> po_writes contents po ((if pv = APER then align_pad (po_nboff po) else []) @ len_bits len) po'"
  using assms uper_put_length_ok [OF assms(1)] aper_put_length_ok [OF assms(1), of "-1"]
  by (cases pv) (auto simp: open_type_put_length_def split: prod.splits)

lemma open_type_put_loop_ok:
  assumes "po_ok po" and "bs \<noteq> []" and "open_type_put_loop pv out bs (length bs) po = (0, po')"
  shows "po_writes contents po (ot_bits pv (po_nboff po) bs) po'"
  using assms
proof (induction "length bs" arbitrary: bs po rule: less_induct)
  case less
  let ?n = "length bs" and ?c = "len_chunk (length bs)"
  let ?h = "(if pv = APER then align_pad (po_nboff po) else []) @ len_bits ?n"
  note unf = open_type_put_loop.simps [of pv out bs ?n po]
  obtain m e po1 where 1: "open_type_put_length pv out po ?n = (m, e, po1)" by (metis prod_cases3)
  with less.prems have m: "\<not> m < 0" by (auto simp: unf)
  note L = open_type_put_length_ok [OF less.prems(1) 1 m]
  then have mc: "m = int ?c" and w1: "po_writes contents po ?h po1" by simp_all
  obtain r po2 where 2: "asn_put_many_bits out po1 bs (m * 8) = (r, po2)" by fastforce
  with less.prems 1 m have r: "r = 0" by (auto simp: unf split: if_split_asm)
  have c8: "int ?c * 8 \<le> 8 * int ?n" using len_chunk_le [of ?n] by simp
  have w2: "po_writes contents po1 (bytes_bits (take ?c bs)) po2"
    using put_many_bits_writes [OF po_writes_ok [OF w1] _ _ 2 [unfolded r]] c8 mc take_bytes_bits [of ?c bs]
    by (simp add: mult.commute nat_mult_distrib)
  note w12 = po_writes_trans [OF w1 w2]
  have cpos: "0 < ?c" using len_chunk_pos less.prems(2) by simp
  show ?case
  proof (cases e)
    case True
    with L have U: "pv = UPER" "16384 \<le> ?n" "?c = ?n" by simp_all
    obtain r3 e3 po3 where 3: "uper_put_length out po2 0 = (r3, e3, po3)" by (metis prod_cases3)
    have "r3 = 0" and 4: "open_type_put_loop pv out (drop ?c bs) (?n - ?c) po3 = (0, po')"
      using less.prems(3) 1 2 3 m r True less.prems(2) mc by (auto simp: unf split: if_split_asm)
    then have w3: "po_writes contents po2 (len_bits 0) po'"
      using uper_put_length_ok [OF po_writes_ok [OF w2] 3] U(3) by (simp add: open_type_put_loop.simps [of pv out _ 0])
    have "ot_bits pv (po_nboff po) bs = (?h @ bytes_bits (take ?c bs)) @ len_bits 0"
      using U by (simp add: ot_bits.simps [of UPER _ bs] ot_bits.simps [of UPER 0 "[]"] Let_def len_chunk_def [of 0])
    then show ?thesis using po_writes_trans [OF w12 w3] by simp
  next
    case False
    then have 4: "open_type_put_loop pv out (drop ?c bs) (?n - ?c) po2 = (0, po')"
      using less.prems(3) 1 2 m r less.prems(2) mc by (auto simp: unf split: if_split_asm)
    show ?thesis
    proof (cases "?c = ?n")
      case True
      then have "po' = po2" using 4 by (simp add: open_type_put_loop.simps [of pv out _ 0])
      moreover have "?n < 16384 \<or> ?c = ?n \<and> pv = APER"
        using False L True by (cases pv) auto
      then have "ot_bits pv (po_nboff po) bs = ?h @ bytes_bits (take ?c bs)"
        by (simp add: ot_bits.simps [of pv _ bs] Let_def)
      ultimately show ?thesis using w12 by simp
    next
      case c: False
      with len_chunk_le [of ?n] have lt: "?c < ?n" by simp
      then have big: "\<not> ?n < 16384" by (auto simp: len_chunk_def)
      have d: "drop ?c bs \<noteq> []" "length (drop ?c bs) = ?n - ?c" "length (drop ?c bs) < ?n"
        using lt cpos by simp_all
      have w3: "po_writes contents po2 (ot_bits pv (po_nboff po2) (drop ?c bs)) po'"
        by (rule less.hyps [OF d(3) po_writes_ok [OF w2] d(1)]) (use 4 d(2) in simp)
      have "ot_bits pv (po_nboff po2) (drop ?c bs) = ot_bits pv 0 (drop ?c bs)"
      proof (cases pv)
        case APER
        then have "po_nboff po2 mod 8 = 0"
          using po_writes_nboff [OF less.prems(1) w12] ot_step_aligned [of "po_nboff po" ?n "take ?c bs"]
          by (simp add: add.assoc)
        then show ?thesis by (metis ot_bits_mod mod_0)
      qed (simp add: ot_bits.simps [of UPER _ "drop ?c bs"])
      then have "ot_bits pv (po_nboff po) bs = (?h @ bytes_bits (take ?c bs)) @ ot_bits pv (po_nboff po2) (drop ?c bs)"
        using big c by (simp add: ot_bits.simps [of pv _ bs] Let_def)
      then show ?thesis using po_writes_trans [OF w12 w3] by simp
    qed
  qed
qed

end

context roomy_sink
begin

lemma open_type_put_length_total:
  assumes "po_ok po" and "23 \<le> po_cap room po"
  shows "\<exists>e po'. open_type_put_length pv out po len = (int (len_chunk len), e, po') \<and> po_ok po'
    \<and> po_cap room po - 23 \<le> po_cap room po'"
proof (cases pv)
  case UPER
  then show ?thesis using uper_put_length_total [OF assms(1), of len] assms(2)
    by (auto simp: open_type_put_length_def)
next
  case APER
  then show ?thesis using aper_put_length_total [OF assms, of len] by (auto simp: open_type_put_length_def)
qed

lemma open_type_put_loop_total:
  assumes "po_ok po" and "8 * int n + 39 * (int (n div 16384) + 1) \<le> po_cap room po"
  shows "\<exists>po'. open_type_put_loop pv out bs n po = (0, po')"
  using assms
proof (induction n arbitrary: bs po rule: less_induct)
  case (less n)
  note unf = open_type_put_loop.simps [of pv out bs n po]
  let ?c = "len_chunk n"
  show ?case
  proof (cases "n = 0")
    case False
    then have cpos: "0 < ?c" by (simp add: len_chunk_pos)
    note cle = len_chunk_le [of n]
    from open_type_put_length_total [OF less.prems(1), of pv n] less.prems(2) obtain e po1 where
      1: "open_type_put_length pv out po n = (int ?c, e, po1)" "po_ok po1" "po_cap room po - 23 \<le> po_cap room po1"
      by auto
    have n8: "int ?c * 8 \<le> 8 * int n" using cle by simp
    with put_many_bits_total [OF 1(2), of "int ?c * 8" bs] 1(3) less.prems(2) obtain po2 where
      2: "asn_put_many_bits out po1 bs (int ?c * 8) = (0, po2)" "po_ok po2"
        "po_cap room po1 - int ?c * 8 \<le> po_cap room po2" by auto
    have "0 \<le> int (n div 16384)" by simp
    then have c2: "16 \<le> po_cap room po2" using 1(3) 2(3) n8 less.prems(2) by (simp add: algebra_simps)
    obtain e3 po3 where 3: "(if e then uper_put_length out po2 0 else (0, False, po2)) = (0, e3, po3)"
      and ok3: "po_ok po3" and c3: "po_cap room po2 - 16 \<le> po_cap room po3"
      using uper_put_length_total [OF 2(2) c2, of 0] 2(2) by (cases e) (auto simp: len_chunk_def)
    have run: "open_type_put_loop pv out bs n po = open_type_put_loop pv out (drop ?c bs) (n - ?c) po3"
      using False 1(1) 2(1) 3 by (simp add: unf mult.commute)
    show ?thesis
    proof (cases "n - ?c = 0")
      case True
      then show ?thesis unfolding run by (simp add: open_type_put_loop.simps [of pv out "drop ?c bs" 0])
    next
      case f: False
      then have big: "16384 \<le> n" "?c = 16384 * len_blocks n" by (auto simp: len_chunk_def split: if_splits)
      have "1 \<le> len_blocks n" using len_blocks_bounds [OF big(1)] by simp
      moreover have "(n - ?c) div 16384 + len_blocks n = n div 16384"
        using cle big by (metis div_mult_self4 le_add_diff_inverse zero_neq_numeral add.commute)
      ultimately have d: "int ((n - ?c) div 16384) + 1 \<le> int (n div 16384)" by linarith
      have "8 * int (n - ?c) + 39 * (int ((n - ?c) div 16384) + 1) \<le> po_cap room po3"
        using d 1(3) 2(3) c3 less.prems(2) cle by (simp add: of_nat_diff)
      from less.IH [OF _ ok3 this] cpos False show ?thesis unfolding run by simp
    qed
  qed (simp add: open_type_put_loop.simps [of pv out bs 0])
qed

end

lemma open_type_get_length_ok:
  assumes "pd_ok pd"
    and "pd_bits pd = (if pv = APER then align_pad (pd_nboff pd) else []) @ len_bits len @ rest"
  shows "\<exists>pd'. open_type_get_length pv pd = (int (len_chunk len), 16384 \<le> len, pd')
    \<and> pd_reads pd ((if pv = APER then align_pad (pd_nboff pd) else []) @ len_bits len) pd'"
  using uper_get_length_ok [OF assms(1), of len rest] aper_get_length_ok [OF assms(1), of "-1" len rest] assms(2)
  by (cases pv) (auto simp: open_type_get_length_def)

text \<open>
  The reader gathers exactly the octets that were written, if the last fragment it meets is
  a short one. The aligned writer does not end a string of whole 16K blocks with one.
\<close>

lemma open_type_chunks_ok:
  assumes "pd_ok pd" and "pd_bits pd = ot_bits pv (pd_nboff pd) bs @ rest"
    and "pv = APER \<Longrightarrow> bs = [] \<or> length bs mod 16384 \<noteq> 0" and alloc: "\<And>n. alloc_ok n"
  shows "\<exists>pd'. open_type_chunks alloc_ok pv buf bufSize pd = (RC_OK, buf @ bs, pd')
    \<and> pd_reads pd (ot_bits pv (pd_nboff pd) bs) pd'"
  using assms(1-3)
proof (induction "length bs" arbitrary: bs pd buf bufSize rule: less_induct)
  case less
  let ?n = "length bs" and ?c = "len_chunk (length bs)"
  let ?h = "(if pv = APER then align_pad (pd_nboff pd) else []) @ len_bits ?n"
  let ?tl = "if ?n < 16384 \<or> ?c = ?n \<and> pv = APER then [] else ot_bits pv 0 (drop ?c bs)"
  note unf = open_type_chunks.simps [of alloc_ok pv buf bufSize pd]
  have ot: "ot_bits pv (pd_nboff pd) bs = ?h @ bytes_bits (take ?c bs) @ ?tl"
    by (simp add: ot_bits.simps [of pv "pd_nboff pd" bs] Let_def)
  from less.prems(2) have b1: "pd_bits pd = (if pv = APER then align_pad (pd_nboff pd) else []) @ len_bits ?n
      @ bytes_bits (take ?c bs) @ ?tl @ rest"
    unfolding ot by simp
  from open_type_get_length_ok [OF less.prems(1) b1] obtain pd1 where
    1: "open_type_get_length pv pd = (int ?c, 16384 \<le> ?n, pd1)" and r1: "pd_reads pd ?h pd1" by auto
  have b2: "pd_bits pd1 = bytes_bits (take ?c bs) @ ?tl @ rest"
    using pd_reads_bits [OF r1] b1 by simp
  from get_many_bits_reads [OF pd_reads_ok [OF r1] b2] obtain pd2 where
    2: "asn_get_many_bits pd1 False (push_bit 3 (int ?c)) = (0, take ?c bs, pd2)"
    and r2: "pd_reads pd1 (bytes_bits (take ?c bs)) pd2"
    by (auto simp: len_chunk_take push_bit_eq_mult mult.commute)
  note r12 = pd_reads_trans [OF r1 r2]
  show ?case
  proof (cases "?n < 16384")
    case True
    then show ?thesis using 1 2 r12 alloc by (simp add: unf ot len_chunk_def Let_def)
  next
    case False
    have tl: "?tl = ot_bits pv 0 (drop ?c bs)"
    proof -
      have "\<not> (?n < 16384 \<or> ?c = ?n \<and> pv = APER)"
        using False less.prems(3) by (metis len_chunk_def less_numeral_extra(3) list.size(3) mod_mult_self1_is_0 zero_less_numeral)
      then show ?thesis by (rule if_not_P)
    qed
    have ot2: "ot_bits pv (pd_nboff pd2) (drop ?c bs) = ot_bits pv 0 (drop ?c bs)"
    proof (cases pv)
      case APER
      then have "pd_nboff pd2 mod 8 = 0"
        using pd_reads_nboff [OF less.prems(1) r12] ot_step_aligned [of "pd_nboff pd" ?n "take ?c bs"]
        by (simp add: add.assoc)
      then show ?thesis by (metis ot_bits_mod mod_0)
    qed (simp add: ot_bits.simps [of UPER _ "drop ?c bs"])
    have b3: "pd_bits pd2 = ot_bits pv (pd_nboff pd2) (drop ?c bs) @ rest"
      using pd_reads_bits [OF r2 b2] tl ot2 by simp
    have lt: "length (drop ?c bs) < ?n" using False len_chunk_pos [of ?n] by (cases bs) auto
    have ap: "pv = APER \<Longrightarrow> drop ?c bs = [] \<or> length (drop ?c bs) mod 16384 \<noteq> 0"
      using less.prems(3) False len_chunk_le [of ?n]
      by (auto simp: len_chunk_def mod_eq_0_iff_dvd dvd_diff_nat) (metis dvd_diffD dvd_triv_left)+
    from less.hyps [OF lt pd_reads_ok [OF r2] b3 ap]
    obtain pd3 where 3: "open_type_chunks alloc_ok pv (buf @ take ?c bs)
        (if bufSize < length buf + ?c then ?c + push_bit 2 bufSize else bufSize) pd2
        = (RC_OK, (buf @ take ?c bs) @ drop ?c bs, pd3)"
      and r3: "pd_reads pd2 (ot_bits pv (pd_nboff pd2) (drop ?c bs)) pd3" by blast
    have "open_type_chunks alloc_ok pv buf bufSize pd = (RC_OK, buf @ bs, pd3)"
      using 1 2 3 False alloc by (simp add: unf Let_def)
    then show ?thesis using pd_reads_trans [OF r12 r3] tl ot2 ot by simp
  qed
qed

section \<open>Open types of a type that meets its contract\<close>

text \<open>What a value is before it is cut into fragments: whole octets.\<close>

definition padded :: "bool list \<Rightarrow> bool list" where
  "padded bs = bs @ align_pad (length bs)"

locale open_type = per_type "encode_dyn_cb alloc_ok" dyn_buffer enc dec field valid
  for alloc_ok enc dec field valid +
  assumes alloc: "alloc_ok n"
    and field_pos: "valid v \<Longrightarrow> field 0 v \<noteq> []"
begin

lemma new_buffer_ok:
  assumes "valid v" and "length tmp = 32"
    and "aper_encode_to_new_buffer alloc_ok (Some enc) v tmp = (r, buf)" and "r \<noteq> -1"
  shows "\<exists>b. buf = Some b \<and> bytes_bits b = padded (field 0 v) \<and> r = int (length b) \<and> b \<noteq> []"
proof -
  let ?key = "\<lparr>dyn_buffer = [], dyn_length = 0, dyn_allocated = 0\<rparr>"
  obtain n key where e: "aper_encode (Some enc) (encode_dyn_cb alloc_ok) v ?key tmp = (n, key)" by fastforce
  with assms(3,4) have n: "n \<noteq> -1" by (auto simp: aper_encode_to_new_buffer_def)
  have w: "po_writes dyn_buffer (outp_new ?key tmp) (field 0 v) po'"
    if "fst (enc v (outp_new ?key tmp)) \<noteq> -1" "snd (enc v (outp_new ?key tmp)) = po'" for po'
    using enc_writes [OF outp_new_ok [OF assms(2)] assms(1) surjective_pairing that(1)] that(2)
    by (simp add: outp_new_def)
  have "dyn_buffer ?key = []" by simp
  from aper_encode_ok [OF assms(2) this w e n]
  have len: "n = int (length (field 0 v))" and bits: "bytes_bits (dyn_buffer key) = padded (field 0 v)"
    by (simp_all add: padded_def)
  let ?l = "length (field 0 v)"
  have l: "0 < ?l" using field_pos [OF assms(1)] by simp
  have "8 * length (dyn_buffer key) = ?l + length (align_pad ?l)"
    using arg_cong [OF bits, of length] by (simp add: padded_def)
  moreover have "length (align_pad ?l) < 8" by (simp add: align_pad_def)
  ultimately have "(?l + 7) div 8 = length (dyn_buffer key)"
    by (intro div_nat_eqI) simp_all
  moreover have "drop_bit 3 (n + 7) = int ((?l + 7) div 8)"
    by (simp add: len drop_bit_eq_div zdiv_int)
  moreover have "dyn_buffer key \<noteq> []" using bits l by (auto simp: padded_def)
  ultimately show ?thesis
    using assms(3) e n len l bits by (auto simp: aper_encode_to_new_buffer_def)
qed

lemma open_type_put_ok:
  assumes "octet_sink out2 contents2" and "valid v" and "length tmp = 32" and "po_ok po"
    and "aper_open_type_put alloc_ok (Some enc) tmp out2 v po = (0, po')"
  shows "\<exists>b. bytes_bits b = padded (field 0 v) \<and> b \<noteq> [] \<and> po_writes contents2 po (ot_bits APER (po_nboff po) b) po'"
proof -
  obtain r buf where e: "aper_encode_to_new_buffer alloc_ok (Some enc) v tmp = (r, buf)" by fastforce
  with assms(5) have r: "\<not> r \<le> 0" by (auto simp: aper_open_type_put_def)
  with new_buffer_ok [OF assms(2,3) e] obtain b where b: "buf = Some b" "bytes_bits b = padded (field 0 v)"
    "r = int (length b)" "b \<noteq> []" by auto
  with assms(5) e r have "open_type_put_loop APER out2 b (length b) po = (0, po')"
    by (simp add: aper_open_type_put_def)
  with octet_sink.open_type_put_loop_ok [OF assms(1,4) b(4)] b show ?thesis by blast
qed

lemma open_type_get_ok:
  assumes "valid v" and "bytes_bits b = padded (field 0 v)" and "length b mod 16384 \<noteq> 0"
    and "pd_ok pd" and "pd_bits pd = ot_bits APER (pd_nboff pd) b @ rest"
  shows "\<exists>rv pd'. aper_open_type_get alloc_ok dec sptr pd = (rv, v, pd') \<and> rv_code rv = RC_OK
    \<and> pd_reads pd (ot_bits APER (pd_nboff pd) b) pd'"
proof -
  from open_type_chunks_ok [OF assms(4,5), of alloc_ok "[]" 0] alloc assms(3) obtain pd1 where
    1: "open_type_chunks alloc_ok APER [] 0 pd = (RC_OK, b, pd1)"
    and r1: "pd_reads pd (ot_bits APER (pd_nboff pd) b) pd1" by auto
  let ?spd = "\<lparr>pd_buffer = b, pd_nboff = 0, pd_nbits = push_bit 3 (length b), pd_moved = 0\<rparr>"
  let ?pad = "align_pad (length (field 0 v))"
  have ok: "pd_ok ?spd" by (simp add: pd_ok_def push_bit_eq_mult)
  have bits: "pd_bits ?spd = field (pd_nboff ?spd mod 8) v @ ?pad"
    using assms(2) take_bytes_bits [of "length b" b] by (simp add: pd_bits_def padded_def push_bit_eq_mult mult.commute)
  from dec_reads [OF ok assms(1) bits] obtain rv spd1 where
    d: "dec ?spd = (rv, v, spd1)" "rv_code rv = RC_OK" and rd: "pd_reads ?spd (field 0 v) spd1" by auto
  have ok1: "pd_ok spd1" and left: "pd_bits spd1 = ?pad"
    using rd bits by (auto simp: pd_reads_def)
  have pad: "pd_nbits spd1 - pd_nboff spd1 = length ?pad"
    using length_pd_bits [OF ok1] left by simp
  have "length ?pad < 8" by (simp add: align_pad_def)
  then show ?thesis
    using 1 d r1 pad by (auto simp: aper_open_type_get_def open_type_get_simple_def Let_def)
qed

end

section \<open>Fragments\<close>

lemma aper_get_length_empty:
  assumes "pd_ok pd" and "pd_bits pd = []"
  shows "fst (aper_get_length pd (-1) (-1)) = -1"
proof -
  have left: "int (pd_nbits pd) - int (pd_nboff pd) = 0"
    using length_pd_bits [OF assms(1)] assms by (simp add: pd_ok_def)
  then have no: "0 < n \<Longrightarrow> asn_get_few_bits pd n = (-1, pd)" for n
    by (simp add: asn_get_few_bits.simps [of pd n])
  show ?thesis
    by (simp add: aper_get_length_def aper_get_align_def no)
qed

lemma aper_chunks_starved:
  assumes "pd_ok pd" and "pd_bits pd = ot_bits APER (pd_nboff pd) bs" and "bs \<noteq> []" and "length bs mod 16384 = 0"
    and alloc: "\<And>n. alloc_ok n"
  shows "fst (open_type_chunks alloc_ok APER buf bufSize pd) = RC_WMORE"
  using assms(1-4)
proof (induction "length bs" arbitrary: bs pd buf bufSize rule: less_induct)
  case less
  let ?n = "length bs" and ?c = "len_chunk (length bs)"
  let ?tl = "if ?c = ?n then [] else ot_bits APER 0 (drop ?c bs)"
  have big: "\<not> ?n < 16384" using less.prems(3,4) by auto
  note unf = open_type_chunks.simps [of alloc_ok APER buf bufSize pd]
  have ot: "ot_bits APER (pd_nboff pd) bs = align_pad (pd_nboff pd) @ len_bits ?n @ bytes_bits (take ?c bs) @ ?tl"
    using big by (simp add: ot_bits.simps [of APER "pd_nboff pd" bs] Let_def)
  from less.prems(2) have b1: "pd_bits pd = align_pad (pd_nboff pd) @ len_bits ?n @ bytes_bits (take ?c bs) @ ?tl"
    unfolding ot .
  from aper_get_length_ok [OF less.prems(1) _ b1, of "-1"] obtain pd1 where
    1: "aper_get_length pd (-1) (-1) = (int ?c, 16384 \<le> ?n, pd1)"
    and r1: "pd_reads pd (align_pad (pd_nboff pd) @ len_bits ?n) pd1" by auto
  have b2: "pd_bits pd1 = bytes_bits (take ?c bs) @ ?tl" using pd_reads_bits [OF r1] b1 by simp
  from get_many_bits_reads [OF pd_reads_ok [OF r1] b2] obtain pd2 where
    2: "asn_get_many_bits pd1 False (push_bit 3 (int ?c)) = (0, take ?c bs, pd2)"
    and r2: "pd_reads pd1 (bytes_bits (take ?c bs)) pd2"
    by (auto simp: len_chunk_take push_bit_eq_mult mult.commute)
  note r12 = pd_reads_trans [OF r1 r2]
  have step: "open_type_chunks alloc_ok APER buf bufSize pd = open_type_chunks alloc_ok APER (buf @ take ?c bs)
      (if bufSize < length buf + ?c then ?c + push_bit 2 bufSize else bufSize) pd2"
    using 1 2 big alloc by (simp add: unf open_type_get_length_def Let_def)
  show ?case
  proof (cases "?c = ?n")
    case True
    then have "pd_bits pd2 = []" using pd_reads_bits [OF r2 b2] by simp
    from aper_get_length_empty [OF pd_reads_ok [OF r2] this]
    have "fst (open_type_chunks alloc_ok APER b s pd2) = RC_WMORE" for b s
      by (cases "aper_get_length pd2 (-1) (-1)")
        (simp add: open_type_chunks.simps [of alloc_ok APER b s pd2] open_type_get_length_def)
    with step show ?thesis by simp
  next
    case False
    have "pd_nboff pd2 mod 8 = 0"
      using pd_reads_nboff [OF less.prems(1) r12] ot_step_aligned [of "pd_nboff pd" ?n "take ?c bs"]
      by (simp add: add.assoc)
    then have k: "ot_bits APER (pd_nboff pd2) (drop ?c bs) = ot_bits APER 0 (drop ?c bs)" by (metis ot_bits_mod mod_0)
    have lt: "length (drop ?c bs) < ?n" "drop ?c bs \<noteq> []"
      using big False len_chunk_le [of ?n] len_chunk_pos [of ?n] less.prems(3) by auto
    have "(?n - 16384 * len_blocks ?n) mod 16384 = 0"
      using less.prems(4) by (metis mod_0_imp_dvd dvd_diff_nat dvd_imp_mod_0 dvd_triv_left)
    then have m: "length (drop ?c bs) mod 16384 = 0" using big by (simp add: len_chunk_def)
    have b3: "pd_bits pd2 = ot_bits APER (pd_nboff pd2) (drop ?c bs)"
      using pd_reads_bits [OF r2 b2] False k by simp
    show ?thesis unfolding step by (rule less.hyps [OF lt(1) pd_reads_ok [OF r2] b3 lt(2) m])
  qed
qed

text \<open>
  (C20) The octets of an open type, however many, can be written into a destination with room
  for them and their length prefixes, and come back from the fragments they were cut into,
  at any bit position. The aligned variant needs a length that is not a multiple of 16K.
\<close>

theorem open_type_octets_round_trip:
  assumes "po_ok po" and "bs \<noteq> []" and "pv = UPER \<or> length bs mod 16384 \<noteq> 0"
    and "8 * int (length bs) + 39 * (int (length bs div 16384) + 1) \<le> po_cap arg_left po"
  shows "\<exists>po'. open_type_put_loop pv encode_to_buffer_cb bs (length bs) po = (0, po')
    \<and> (\<forall>pd rest. pd_ok pd \<and> pd_nboff pd mod 8 = po_nboff po mod 8 \<and> pd_bits pd = written po po' @ rest
         \<longrightarrow> (\<exists>pd'. open_type_chunks (\<lambda>_. True) pv [] 0 pd = (RC_OK, bs, pd') \<and> pd_bits pd' = rest))"
proof -
  from buf.open_type_put_loop_total [OF assms(1,4)] obtain po' where
    put: "open_type_put_loop pv encode_to_buffer_cb bs (length bs) po = (0, po')" by blast
  have w: "written po po' = ot_bits pv (po_nboff po) bs"
    by (rule written_eq [OF buf.open_type_put_loop_ok [OF assms(1,2) put]])
  have "\<exists>pd'. open_type_chunks (\<lambda>_. True) pv [] 0 pd = (RC_OK, bs, pd') \<and> pd_bits pd' = rest"
    if "pd_ok pd" "pd_nboff pd mod 8 = po_nboff po mod 8" "pd_bits pd = written po po' @ rest" for pd rest
  proof -
    have b: "pd_bits pd = ot_bits pv (pd_nboff pd) bs @ rest" using that w ot_bits_mod by metis
    from open_type_chunks_ok [OF that(1) b, of "\<lambda>_. True" "[]" 0] b assms(3) show ?thesis
      by (auto simp: pd_reads_def)
  qed
  with put show ?thesis by blast
qed

theorem open_type_octets_round_trip_witness:
  "\<exists>po'. open_type_put_loop APER encode_to_buffer_cb [9, 8, 7] (length [9, 8, 7 :: byte]) sample_outp = (0, po')
    \<and> (\<exists>pd'. open_type_chunks (\<lambda>_. True) APER [] 0 (sample_pd [3, 9, 8, 7, 5]) = (RC_OK, [9, 8, 7], pd')
         \<and> pd_bits pd' = byte_bits 5)"
proof -
  have ne: "[9, 8, 7 :: byte] \<noteq> []" and cap: "8 * int (length [9, 8, 7 :: byte])
      + 39 * (int (length [9, 8, 7 :: byte] div 16384) + 1) \<le> po_cap arg_left sample_outp"
    by (simp_all add: po_cap_def sample_outp_def outp_new_def)
  from open_type_octets_round_trip [OF sample_outp_ok(1) ne, of APER, OF _ cap] obtain po' where
    put: "open_type_put_loop APER encode_to_buffer_cb [9, 8, 7] (length [9, 8, 7 :: byte]) sample_outp = (0, po')"
    and get: "\<And>pd rest. pd_ok pd \<and> pd_nboff pd mod 8 = po_nboff sample_outp mod 8 \<and> pd_bits pd = written sample_outp po' @ rest
      \<Longrightarrow> \<exists>pd'. open_type_chunks (\<lambda>_. True) APER [] 0 pd = (RC_OK, [9, 8, 7], pd') \<and> pd_bits pd' = rest"
    by auto
  have "written sample_outp po' = bytes_bits [3, 9, 8, 7]"
    using written_eq [OF buf.open_type_put_loop_ok [OF sample_outp_ok(1) ne put]]
    by (simp add: ot_bits.simps len_chunk_def len_bits_def byte_bits_def)
  moreover have "pd_bits (sample_pd [3, 9, 8, 7, 5]) = bytes_bits [3, 9, 8, 7] @ byte_bits 5" by code_simp
  ultimately show ?thesis using put get [of "sample_pd [3, 9, 8, 7, 5]" "byte_bits 5"]
    by (simp add: sample_pd_def pd_ok_def)
qed

text \<open>
  (C28) The aligned writer forgets the end marker: after a string of whole 16K blocks the
  reader still expects a fragment, and with nothing behind it the decoding is starved.
\<close>

theorem aper_open_type_no_end_marker:
  assumes "po_ok po" and "bs \<noteq> []" and "length bs mod 16384 = 0"
    and "8 * int (length bs) + 39 * (int (length bs div 16384) + 1) \<le> po_cap arg_left po"
  shows "\<exists>po'. open_type_put_loop APER encode_to_buffer_cb bs (length bs) po = (0, po')
    \<and> (\<forall>pd. pd_ok pd \<and> pd_nboff pd mod 8 = po_nboff po mod 8 \<and> pd_bits pd = written po po'
         \<longrightarrow> fst (open_type_chunks (\<lambda>_. True) APER [] 0 pd) = RC_WMORE)"
proof -
  from buf.open_type_put_loop_total [OF assms(1,4)] obtain po' where
    put: "open_type_put_loop APER encode_to_buffer_cb bs (length bs) po = (0, po')" by blast
  have w: "written po po' = ot_bits APER (po_nboff po) bs"
    by (rule written_eq [OF buf.open_type_put_loop_ok [OF assms(1,2) put]])
  have "fst (open_type_chunks (\<lambda>_. True) APER [] 0 pd) = RC_WMORE"
    if "pd_ok pd" "pd_nboff pd mod 8 = po_nboff po mod 8" "pd_bits pd = written po po'" for pd
    by (rule aper_chunks_starved [OF that(1) _ assms(2,3)]) (use that w ot_bits_mod in metis, simp)
  with put show ?thesis by blast
qed

theorem aper_open_type_no_end_marker_witness:
  "\<exists>po'. open_type_put_loop APER encode_to_buffer_cb (replicate 16384 1) (length (replicate 16384 (1 :: byte)))
        (outp_new \<lparr>arg_buffer = [], arg_left = 20000\<rparr> (replicate 32 0)) = (0, po')
    \<and> fst (open_type_chunks (\<lambda>_. True) APER [] 0 (sample_pd (0xC1 # replicate 16384 1))) = RC_WMORE"
proof -
  let ?po = "outp_new \<lparr>arg_buffer = [], arg_left = 20000\<rparr> (replicate 32 0)" and ?bs = "replicate 16384 (1 :: byte)"
  have po: "po_ok ?po" "po_nboff ?po = 0" by (simp_all add: outp_new_ok) (simp add: outp_new_def)
  have ne: "?bs \<noteq> []" and m: "length ?bs mod 16384 = 0"
    and cap: "8 * int (length ?bs) + 39 * (int (length ?bs div 16384) + 1) \<le> po_cap arg_left ?po"
    by (simp_all add: po_cap_def outp_new_def)
  from aper_open_type_no_end_marker [OF po(1) ne m cap] obtain po' where
    put: "open_type_put_loop APER encode_to_buffer_cb ?bs (length ?bs) ?po = (0, po')"
    and get: "\<And>pd. pd_ok pd \<and> pd_nboff pd mod 8 = po_nboff ?po mod 8 \<and> pd_bits pd = written ?po po'
      \<Longrightarrow> fst (open_type_chunks (\<lambda>_. True) APER [] 0 pd) = RC_WMORE"
    by auto
  have "written ?po po' = bits_of_int 8 193 @ bytes_bits ?bs"
    using written_eq [OF buf.open_type_put_loop_ok [OF po(1) ne put]]
    by (simp add: ot_bits.simps len_chunk_def len_bits_def len_blocks_def po(2))
  moreover have "bytes_bits (0xC1 # ?bs) = bits_of_int 8 193 @ bytes_bits ?bs" by (simp add: byte_bits_def)
  ultimately have "pd_bits (sample_pd (0xC1 # ?bs)) = written ?po po'"
    using take_bytes_bits [of 16385 "0xC1 # ?bs"] by (simp add: sample_pd_def pd_bits_def)
  then have "fst (open_type_chunks (\<lambda>_. True) APER [] 0 (sample_pd (0xC1 # ?bs))) = RC_WMORE"
    by (intro get) (simp add: po(2) sample_pd_def pd_ok_def)
  with put show ?thesis by blast
qed

end
