(* ===== verification/AsnInteger.thy ===== *)
theory AsnInteger
  imports RicPrelude
begin

text \<open>
  The ASN.1 INTEGER of \<^verbatim>\<open>e2ap/lib/INTEGER.c\<close>: an octet string in two's complement, its
  conversions to and from the C integer types, and the decimal parsers. An \<^verbatim>\<open>INTEGER_t\<close> is
  its octets, \<open>None\<close> for a NULL \<^verbatim>\<open>buf\<close>; \<^verbatim>\<open>intmax_t\<close>, \<^verbatim>\<open>long\<close> and \<^verbatim>\<open>int64_t\<close> are all
  64 bits wide. A conversion that returns -1 gives \<open>None\<close>.
\<close>

type_synonym INTEGER = "byte list option"

section \<open>Conversions\<close>

definition asn__integer_convert :: "byte list \<Rightarrow> i64" where
  "asn__integer_convert b =
     foldl (\<lambda>value x. push_bit 8 value OR ucast x) (if drop_bit 7 (hd b) \<noteq> 0 then -1 else 0) b"

text \<open>The loop that drops leading octets which repeat the sign, down to the last octet.\<close>

fun skip_insignificant :: "byte list \<Rightarrow> byte list" where
  "skip_insignificant (b0 # b1 # bs) =
     (if b0 = 0 \<and> b1 AND 0x80 = 0 \<or> b0 = 0xFF \<and> b1 AND 0x80 \<noteq> 0
      then skip_insignificant (b1 # bs) else b0 # b1 # bs)"
| "skip_insignificant bs = bs"

definition asn_INTEGER2imax :: "INTEGER \<Rightarrow> i64 option" where
  "asn_INTEGER2imax iptr =
     (case iptr of
        None \<Rightarrow> None
      | Some buf \<Rightarrow>
          let b = (if 8 < length buf then skip_insignificant buf else buf)
          in if 8 < length b then None
             else if b = [] then Some 0
             else Some (asn__integer_convert b))"

fun umax_skip :: "byte list \<Rightarrow> byte list option" where
  "umax_skip [] = Some []"
| "umax_skip (b # bs) = (if 8 < length (b # bs) then if b \<noteq> 0 then None else umax_skip bs else Some (b # bs))"

definition asn_INTEGER2umax :: "INTEGER \<Rightarrow> u64 option" where
  "asn_INTEGER2umax iptr =
     (case iptr of
        None \<Rightarrow> None
      | Some buf \<Rightarrow>
          (case umax_skip buf of
             None \<Rightarrow> None
           | Some b \<Rightarrow> Some (foldl (\<lambda>value x. push_bit 8 value OR ucast x) 0 b)))"

definition be_bytes :: "u64 \<Rightarrow> byte list" where
  "be_bytes value = map (\<lambda>shr. ucast (drop_bit shr value)) [56, 48, 40, 32, 24, 16, 8, 0]"

definition asn_imax2INTEGER :: "i64 \<Rightarrow> INTEGER" where
  "asn_imax2INTEGER value = Some (skip_insignificant (be_bytes value))"

definition asn_umax2INTEGER :: "u64 \<Rightarrow> INTEGER" where
  "asn_umax2INTEGER value =
     (if value \<le> drop_bit 1 (- 1) then asn_imax2INTEGER value else Some (0 # be_bytes value))"

definition asn_INTEGER2long :: "INTEGER \<Rightarrow> i64 option" where
  "asn_INTEGER2long iptr = asn_INTEGER2imax iptr"

definition asn_INTEGER2ulong :: "INTEGER \<Rightarrow> u64 option" where
  "asn_INTEGER2ulong iptr = asn_INTEGER2umax iptr"

definition asn_long2INTEGER :: "i64 \<Rightarrow> INTEGER" where
  "asn_long2INTEGER value = asn_imax2INTEGER value"

definition asn_ulong2INTEGER :: "u64 \<Rightarrow> INTEGER" where
  "asn_ulong2INTEGER value = asn_imax2INTEGER value"

definition asn_int642INTEGER :: "i64 \<Rightarrow> INTEGER" where
  "asn_int642INTEGER value = Some (skip_insignificant (be_bytes value))"

definition asn_uint642INTEGER :: "u64 \<Rightarrow> INTEGER" where
  "asn_uint642INTEGER value =
     (if value \<le> 2 ^ 63 - 1 then asn_int642INTEGER value else Some (0 # be_bytes value))"

section \<open>Decimal parsers\<close>

datatype asn_strtox_result = ASN_STRTOX_OK | ASN_STRTOX_EXTRA_DATA | ASN_STRTOX_EXPECT_MORE
  | ASN_STRTOX_ERROR_INVAL | ASN_STRTOX_ERROR_RANGE

definition is_digit :: "char \<Rightarrow> bool" where
  "is_digit c \<longleftrightarrow> 0x30 \<le> (of_char c :: nat) \<and> (of_char c :: nat) \<le> 0x39"

definition digit :: "char \<Rightarrow> nat" where
  "digit c = of_char c - 48"

definition strtoimax_boundary :: i64 where
  "strtoimax_boundary = drop_bit 1 (- 1) div 10"

text \<open>The results are the code, what is left of the string at \<^verbatim>\<open>*end\<close>, and \<^verbatim>\<open>*intp\<close> when it is set.\<close>

fun strtoimax_loop :: "string \<Rightarrow> i64 \<Rightarrow> i64 \<Rightarrow> nat \<Rightarrow> asn_strtox_result \<times> string \<times> i64 option" where
  "strtoimax_loop [] sg value last_digit_max = (ASN_STRTOX_OK, [], Some (sg * value))"
| "strtoimax_loop (c # str) sg value last_digit_max =
     (if is_digit c then
        let d = of_nat (digit c)
        in if sint value < sint strtoimax_boundary then
             strtoimax_loop str sg (value * 10 + d) last_digit_max
           else if value = strtoimax_boundary then
             if digit c \<le> last_digit_max then
               if 0 < sint sg then strtoimax_loop str sg (value * 10 + d) last_digit_max
               else strtoimax_loop str 1 (- value * 10 - d) last_digit_max
             else (ASN_STRTOX_ERROR_RANGE, c # str, None)
           else (ASN_STRTOX_ERROR_RANGE, c # str, None)
      else (ASN_STRTOX_EXTRA_DATA, c # str, Some (sg * value)))"

definition asn_strtoimax_lim :: "string \<Rightarrow> asn_strtox_result \<times> string \<times> i64 option" where
  "asn_strtoimax_lim str =
     (case str of
        [] \<Rightarrow> (ASN_STRTOX_ERROR_INVAL, [], None)
      | c # cs \<Rightarrow>
          if c = CHR ''-'' \<or> c = CHR ''+'' then
            if cs = [] then (ASN_STRTOX_EXPECT_MORE, [], None)
            else if c = CHR ''-'' then strtoimax_loop cs (- 1) 0 8 else strtoimax_loop cs 1 0 7
          else strtoimax_loop str 1 0 7)"

definition strtoumax_boundary :: u64 where
  "strtoumax_boundary = (- 1) div 10"

fun strtoumax_loop :: "string \<Rightarrow> u64 \<Rightarrow> asn_strtox_result \<times> string \<times> u64 option" where
  "strtoumax_loop [] value = (ASN_STRTOX_OK, [], Some value)"
| "strtoumax_loop (c # str) value =
     (if is_digit c then
        let d = of_nat (digit c)
        in if value < strtoumax_boundary then strtoumax_loop str (value * 10 + d)
           else if value = strtoumax_boundary then
             if digit c \<le> 5 then strtoumax_loop str (value * 10 + d)
             else (ASN_STRTOX_ERROR_RANGE, c # str, None)
           else (ASN_STRTOX_ERROR_RANGE, c # str, None)
      else (ASN_STRTOX_EXTRA_DATA, c # str, Some value))"

definition asn_strtoumax_lim :: "string \<Rightarrow> asn_strtox_result \<times> string \<times> u64 option" where
  "asn_strtoumax_lim str =
     (case str of
        [] \<Rightarrow> (ASN_STRTOX_ERROR_INVAL, [], None)
      | c # cs \<Rightarrow>
          if c = CHR ''-'' then (ASN_STRTOX_ERROR_INVAL, str, None)
          else if c = CHR ''+'' then
            if cs = [] then (ASN_STRTOX_EXPECT_MORE, [], None) else strtoumax_loop cs 0
          else strtoumax_loop str 0)"

definition asn_strtol_lim :: "string \<Rightarrow> asn_strtox_result \<times> string \<times> i64 option" where
  "asn_strtol_lim str =
     (case asn_strtoimax_lim str of
        (ASN_STRTOX_OK, end_str, value) \<Rightarrow> (ASN_STRTOX_OK, end_str, value)
      | (ASN_STRTOX_EXTRA_DATA, end_str, value) \<Rightarrow> (ASN_STRTOX_EXTRA_DATA, end_str, value)
      | (err, end_str, _) \<Rightarrow> (err, end_str, None))"

definition asn_strtoul_lim :: "string \<Rightarrow> asn_strtox_result \<times> string \<times> u64 option" where
  "asn_strtoul_lim str =
     (case asn_strtoumax_lim str of
        (ASN_STRTOX_OK, end_str, value) \<Rightarrow> (ASN_STRTOX_OK, end_str, value)
      | (ASN_STRTOX_EXTRA_DATA, end_str, value) \<Rightarrow> (ASN_STRTOX_EXTRA_DATA, end_str, value)
      | (err, end_str, _) \<Rightarrow> (err, end_str, None))"

section \<open>The number an INTEGER stands for\<close>

definition octets_value :: "byte list \<Rightarrow> int" where
  "octets_value bs = (if bs \<noteq> [] \<and> 128 \<le> uint (hd bs) then be_int bs - 256 ^ length bs else be_int bs)"

lemma be_int_Nil [simp]: "be_int [] = 0"
  and be_int_Cons [simp]: "be_int (b # bs) = uint b * 256 ^ length bs + be_int bs"
  by (simp_all add: be_int_def horner_sum_append)

lemma be_int_snoc: "be_int (bs @ [b]) = be_int bs * 256 + uint b"
  by (simp add: be_int_def)

lemma be_int_bounds: "0 \<le> be_int bs \<and> be_int bs < 256 ^ length bs"
proof (induction bs)
  case (Cons b bs)
  have "uint b * 256 ^ length bs \<le> 255 * 256 ^ length bs" by (rule mult_right_mono) (use uint_byte_less [of b] in linarith, simp)
  then have "uint b * 256 ^ length bs + be_int bs < 256 * 256 ^ length bs" using Cons by linarith
  with Cons show ?case by simp
qed simp

text \<open>The conversion loop, from any start value.\<close>

lemma convert_foldl:
  "foldl (\<lambda>value x. push_bit 8 value OR ucast x) (word_of_int v :: 64 word) bs = word_of_int (v * 256 ^ length bs + be_int bs)"
proof (induction bs arbitrary: v)
  case (Cons b bs)
  have "push_bit 8 (word_of_int v :: 64 word) OR ucast b = of_int (push_bit 8 v) OR of_int (uint b)"
    by (simp add: of_int_push_bit)
  also have "\<dots> = word_of_int (push_bit 8 v OR uint b)" by (simp only: of_int_or_eq)
  also have "push_bit 8 v OR uint b = push_bit 8 v OR take_bit 8 (uint b)"
    by (simp add: take_bit_int_eq_self)
  also have "\<dots> = push_bit 8 v + take_bit 8 (uint b)"
    by (rule disjunctive_add [symmetric]) (simp add: bit_push_bit_iff bit_take_bit_iff)
  also have "\<dots> = v * 256 + uint b" by (simp add: push_bit_eq_mult take_bit_int_eq_self)
  finally have step: "push_bit 8 (word_of_int v :: 64 word) OR ucast b = word_of_int (v * 256 + uint b)" .
  show ?case unfolding foldl_Cons step Cons.IH by (simp only: be_int_Cons list.size) (simp add: algebra_simps)
qed simp

lemma bit_7_octet: "bit b 7 \<longleftrightarrow> 128 \<le> uint b" for b :: byte
proof -
  have "odd (uint b div 128) \<longleftrightarrow> 128 \<le> uint b"
  proof (cases "uint b < 128")
    case False
    have "uint b div 128 = 1"
      by (rule int_div_pos_eq [where r = "uint b - 128"]) (use False uint_byte_less [of b] in simp_all)
    with False show ?thesis by simp
  qed simp
  moreover have "bit b 7 \<longleftrightarrow> bit (uint b) 7" by (subst bit_uint_iff) simp
  ultimately show ?thesis by (simp only: bit_iff_odd [of "uint b" 7]) simp
qed

lemma uint_hd_msb: "drop_bit 7 b \<noteq> 0 \<longleftrightarrow> 128 \<le> uint b" for b :: byte
proof -
  have "drop_bit 7 b = 0 \<longleftrightarrow> uint (drop_bit 7 b) = 0" by (rule uint_0_iff [symmetric])
  also have "\<dots> \<longleftrightarrow> uint b div 128 = 0" by (simp add: drop_bit_eq_div uint_div_distrib)
  finally show ?thesis by (auto simp: zdiv_eq_0_iff)
qed

lemma uint_and_0x80: "b AND 0x80 = 0 \<longleftrightarrow> uint b < 128" for b :: byte
  using and_exp_eq_0_iff_not_bit [of b 7] bit_7_octet [of b] by auto

lemma integer_convert_value: "bs \<noteq> [] \<Longrightarrow> asn__integer_convert bs = word_of_int (octets_value bs)"
  using convert_foldl [of "- 1" bs] convert_foldl [of 0 bs]
  by (cases bs) (simp_all add: asn__integer_convert_def octets_value_def uint_hd_msb)

lemma skip_insignificant_value: "octets_value (skip_insignificant bs) = octets_value bs"
proof (induction bs rule: skip_insignificant.induct)
  case (1 b0 b1 bs)
  then show ?case
    by (auto simp: octets_value_def uint_and_0x80)
qed simp_all

lemma skip_insignificant_not_Nil [simp]: "skip_insignificant bs = [] \<longleftrightarrow> bs = []"
  by (induction bs rule: skip_insignificant.induct) auto

lemma length_skip_insignificant: "length (skip_insignificant bs) \<le> length bs"
  by (induction bs rule: skip_insignificant.induct) auto

text \<open>
  Leading octets that only repeat the sign do not change the value, and what is left is the
  shortest octet string of that value.
\<close>

lemma octets_value_bounds:
  assumes "bs \<noteq> []"
  shows "- (128 * 256 ^ (length bs - 1)) \<le> octets_value bs \<and> octets_value bs < 128 * 256 ^ (length bs - 1)"
proof -
  obtain b cs where bs: "bs = b # cs" using assms by (cases bs) auto
  let ?X = "256 ^ length cs :: int"
  have X: "0 < ?X" and c: "0 \<le> be_int cs" "be_int cs < ?X" using be_int_bounds by simp_all
  show ?thesis
  proof (cases "128 \<le> uint b")
    case True
    have "uint b \<le> 255" using uint_byte_less [of b] by linarith
    then have "uint b * ?X \<le> 255 * ?X" by (rule mult_right_mono) (use X in simp)
    moreover have "128 * ?X \<le> uint b * ?X" by (rule mult_right_mono [OF True]) (use X in simp)
    moreover have "octets_value bs = uint b * ?X + be_int cs - 256 * ?X"
      using True by (simp add: bs octets_value_def)
    moreover have "length bs - 1 = length cs" by (simp add: bs)
    then have "256 ^ (length bs - 1) = ?X" by simp
    ultimately show ?thesis using X c by linarith
  next
    case False
    then have "uint b \<le> 127" by simp
    then have "uint b * ?X \<le> 127 * ?X" by (rule mult_right_mono) (use X in simp)
    moreover have "0 \<le> uint b * ?X" by simp
    moreover have "octets_value bs = uint b * ?X + be_int cs" using False by (simp add: bs octets_value_def)
    moreover have "256 ^ (length bs - 1) = ?X" by (simp add: bs)
    ultimately show ?thesis using X c by linarith
  qed
qed

lemma uint_255_iff: "uint b = 255 \<longleftrightarrow> b = 0xFF" for b :: byte
  by (simp add: word_uint_eq_iff)

lemma skip_insignificant_shortest:
  assumes "skip_insignificant bs = b0 # b1 # cs"
  shows "octets_value bs < - (128 * 256 ^ length cs) \<or> 128 * 256 ^ length cs \<le> octets_value bs"
proof -
  have sk: "skip_insignificant (b0 # b1 # cs) = b0 # b1 # cs"
    using assms by (induction bs rule: skip_insignificant.induct) (auto split: if_split_asm)
  have v: "octets_value bs = octets_value (b0 # b1 # cs)"
    using skip_insignificant_value [of bs] assms by simp
  let ?X = "256 ^ length cs :: int"
  have X: "0 < ?X" and c: "0 \<le> be_int cs" "be_int cs < ?X" using be_int_bounds by simp_all
  have le: "\<And>k b. uint (b :: byte) \<le> k \<Longrightarrow> uint b * ?X \<le> k * ?X"
    and ge: "\<And>k b. k \<le> uint (b :: byte) \<Longrightarrow> k * ?X \<le> uint b * ?X"
    by (rule mult_right_mono, simp, use X in simp)+
  have b: "uint b0 \<le> 255" "uint b1 \<le> 255" using uint_byte_less [of b0] uint_byte_less [of b1] by linarith+
  have z: "0 \<le> uint b0 * ?X" "0 \<le> uint b1 * ?X" by simp_all
  have guard: "\<not> (uint b0 = 0 \<and> uint b1 < 128)" "\<not> (uint b0 = 255 \<and> 128 \<le> uint b1)"
    using sk length_skip_insignificant [of "b1 # cs"]
    by (auto simp: uint_and_0x80 uint_0_iff uint_255_iff split: if_split_asm)
  have ov: "octets_value bs = (if 128 \<le> uint b0 then - (65536 * ?X) else 0)
      + 256 * (uint b0 * ?X) + uint b1 * ?X + be_int cs"
    unfolding v by (simp add: octets_value_def)
  consider "uint b0 = 0" | "1 \<le> uint b0" "uint b0 < 128" | "128 \<le> uint b0" "uint b0 \<le> 254" | "uint b0 = 255"
    using b uint_ge_0 [of b0] by linarith
  then show ?thesis
  proof cases
    case 1
    then have "octets_value bs = uint b1 * ?X + be_int cs" "128 \<le> uint b1" using guard(1) ov by simp_all
    with ge [OF this(2)] show ?thesis using c by linarith
  next
    case 2
    then have "octets_value bs = 256 * (uint b0 * ?X) + uint b1 * ?X + be_int cs" using ov by simp
    with ge [OF 2(1)] show ?thesis using z X c by linarith
  next
    case 3
    then have "octets_value bs = - (65536 * ?X) + 256 * (uint b0 * ?X) + uint b1 * ?X + be_int cs" using ov by simp
    with le [OF 3(2)] le [OF b(2)] show ?thesis using X c by linarith
  next
    case 4
    then have "octets_value bs = - (256 * ?X) + uint b1 * ?X + be_int cs" "uint b1 \<le> 127" using ov guard(2) by simp_all
    with le [OF this(2)] show ?thesis using X c by linarith
  qed
qed

lemma INTEGER2imax_value:
  "asn_INTEGER2imax (Some bs) =
     (if - (2 ^ 63) \<le> octets_value bs \<and> octets_value bs < 2 ^ 63 then Some (word_of_int (octets_value bs)) else None)"
proof -
  have small: "- (2 ^ 63) \<le> octets_value cs \<and> octets_value cs < 2 ^ 63" if "length cs \<le> 8" for cs
  proof (cases "cs = []")
    case False
    have "256 ^ (length cs - 1) \<le> (256 :: int) ^ 7" by (rule power_increasing) (use that in simp_all)
    then show ?thesis using octets_value_bounds [OF False] by simp
  qed (simp add: octets_value_def)
  let ?b = "if 8 < length bs then skip_insignificant bs else bs"
  have v: "octets_value ?b = octets_value bs" by (simp add: skip_insignificant_value)
  show ?thesis
  proof (cases "8 < length ?b")
    case True
    then have b: "?b = skip_insignificant bs" using length_skip_insignificant [of bs] by (auto split: if_splits)
    then obtain b0 b1 cs where c: "skip_insignificant bs = b0 # b1 # cs" and l: "7 \<le> length cs"
      using True by (cases "skip_insignificant bs"; cases "tl (skip_insignificant bs)") auto
    have "(256 :: int) ^ 7 \<le> 256 ^ length cs" by (rule power_increasing) (use l in simp_all)
    then show ?thesis using True skip_insignificant_shortest [OF c] by (auto simp: asn_INTEGER2imax_def)
  next
    case False
    then show ?thesis
      using small [of ?b] v integer_convert_value [of ?b]
      by (cases "?b = []") (auto simp: asn_INTEGER2imax_def octets_value_def [of "[]"])
  qed
qed

lemma sint_uint_bit: "sint v = uint v - 2 ^ 64 * of_bool (bit (uint v) 63)" for v :: "64 word"
  using uint_lt2p [of v] by (simp add: sint_uint signed_take_bit_eq_take_bit_minus take_bit_int_eq_self)

lemma be_bytes_bits: "bytes_bits (be_bytes v) = bits_of_int 64 (uint v)"
proof -
  have o: "byte_bits (ucast (drop_bit k v)) = bits_of_int 8 (drop_bit k (uint v))" for k
  proof -
    have "byte_bits (ucast (drop_bit k v)) = bits_of_int 8 (take_bit 8 (uint (drop_bit k v)))"
      by (simp add: byte_bits_def unsigned_ucast_eq)
    also have "\<dots> = bits_of_int 8 (uint (drop_bit k v))" by (simp add: bits_of_int_take_bit)
    also have "uint (drop_bit k v) = drop_bit k (uint v)"
      using uint_lt2p [of v] by (simp add: unsigned_drop_bit_eq take_bit_int_eq_self)
    finally show ?thesis .
  qed
  show ?thesis
    using bits_of_int_add_length [of 32 32 "uint v"]
    by (simp add: be_bytes_def o bits_of_int_octets del: drop_bit_0) simp
qed

lemma be_bytes_value: "octets_value (be_bytes v) = sint v"
proof -
  have u: "be_int (be_bytes v) = uint v"
    using uint_lt2p [of v] by (simp add: be_int_bits be_bytes_bits bit_simps take_bit_int_eq_self)
  have "128 \<le> uint (hd (be_bytes v)) \<longleftrightarrow> bit v 63"
    unfolding bit_7_octet [symmetric] by (simp add: be_bytes_def bit_ucast_iff bit_drop_bit_eq)
  also have "\<dots> \<longleftrightarrow> bit (uint v) 63" by (subst bit_uint_iff) simp
  finally have h: "128 \<le> uint (hd (be_bytes v)) \<longleftrightarrow> bit (uint v) 63" .
  note sint_uint_bit [of v]
  moreover have "length (be_bytes v) = 8" by (simp add: be_bytes_def)
  ultimately show ?thesis using u h by (auto simp: octets_value_def)
qed

lemma octets_value_imax: "octets_value (skip_insignificant (be_bytes v)) = sint v"
  by (simp add: skip_insignificant_value be_bytes_value)

lemma imax_round_trip: "asn_INTEGER2imax (asn_imax2INTEGER v) = Some v"
  using sint_lt [of v] sint_ge [of v]
  by (simp add: asn_imax2INTEGER_def INTEGER2imax_value octets_value_imax)

lemma long_round_trip [simp]: "asn_INTEGER2long (asn_long2INTEGER v) = Some v"
  by (simp add: asn_INTEGER2long_def asn_long2INTEGER_def imax_round_trip)

lemma umax_skip_short: "length bs \<le> 8 \<Longrightarrow> umax_skip bs = Some bs"
  by (cases bs) auto

lemma octets_value_nonneg: "0 \<le> octets_value bs \<Longrightarrow> be_int bs = octets_value bs"
  using be_int_bounds [of bs] by (auto simp: octets_value_def split: if_splits)

lemma umax_foldl: "foldl (\<lambda>value x. push_bit 8 value OR ucast x) (0 :: u64) bs = word_of_int (be_int bs)"
  using convert_foldl [of 0 bs] by simp

lemma length_be_bytes [simp]: "length (be_bytes v) = 8"
  by (simp add: be_bytes_def)

lemma INTEGER2umax_imax:
  "asn_INTEGER2umax (asn_imax2INTEGER v) = Some (word_of_int (be_int (skip_insignificant (be_bytes v))))"
  using length_skip_insignificant [of "be_bytes v"]
  by (simp add: asn_INTEGER2umax_def asn_imax2INTEGER_def umax_skip_short umax_foldl)

lemma uint_sint_nonneg: "0 \<le> sint v \<Longrightarrow> uint v = sint v" for v :: "64 word"
  using uint_sint [of v] sint_lt [of v] by (simp add: take_bit_int_eq_self)

lemma uint_lt_sint: "uint v < 2 ^ 63 \<longleftrightarrow> 0 \<le> sint v" for v :: "64 word"
proof
  assume "0 \<le> sint v"
  then show "uint v < 2 ^ 63" using uint_sint_nonneg [of v] sint_lt [of v] by simp
next
  assume "uint v < 2 ^ 63"
  then have "\<not> bit (uint v) 63" by (intro bit_small_int [of _ 63]) simp_all
  then have z: "of_bool (bit (uint v) 63) = (0 :: int)" by (simp only: of_bool_eq)
  show "0 \<le> sint v" by (subst sint_uint_bit, subst z) simp
qed

lemma umax_round_trip: "asn_INTEGER2umax (asn_umax2INTEGER v) = Some v"
proof (cases "uint v < 2 ^ 63")
  case True
  then have "0 \<le> octets_value (skip_insignificant (be_bytes v))"
    unfolding octets_value_imax uint_lt_sint .
  with octets_value_nonneg have "be_int (skip_insignificant (be_bytes v)) = sint v"
    by (simp add: octets_value_imax)
  moreover have "v \<le> drop_bit 1 (- 1)" using True by (simp add: word_le_def mask_eq_exp_minus_1)
  ultimately show ?thesis by (simp add: asn_umax2INTEGER_def INTEGER2umax_imax)
next
  case False
  then have "\<not> v \<le> drop_bit 1 (- 1)" by (simp add: word_le_def mask_eq_exp_minus_1)
  moreover have "be_int (be_bytes v) = uint v"
    using uint_lt2p [of v] by (simp add: be_int_bits be_bytes_bits bit_simps take_bit_int_eq_self)
  ultimately show ?thesis
    by (simp add: asn_umax2INTEGER_def asn_INTEGER2umax_def umax_skip_short umax_foldl)
qed

text \<open>\<^verbatim>\<open>asn_ulong2INTEGER\<close> goes through the signed conversion: values close to \<open>2^64\<close> are lost.\<close>

lemma ulong_lost:
  assumes "sint v < 0" and "- (2 ^ 55) \<le> sint v"
  shows "\<exists>w. asn_INTEGER2ulong (asn_ulong2INTEGER v) = Some w \<and> w \<noteq> v"
proof -
  let ?b = "skip_insignificant (be_bytes v)"
  have l: "length ?b \<le> 7"
  proof (rule ccontr)
    assume "\<not> length ?b \<le> 7"
    then have l8: "length ?b = 8" using length_skip_insignificant [of "be_bytes v"] by simp
    then obtain b0 b1 cs where c: "?b = b0 # b1 # cs" and "length cs = 6"
      by (cases ?b; cases "tl ?b") auto
    with skip_insignificant_shortest [OF c] assms show False by (simp add: be_bytes_value)
  qed
  have "be_int ?b < 256 ^ length ?b" using be_int_bounds by blast
  also have "(256 :: int) ^ length ?b \<le> 256 ^ 7" by (rule power_increasing) (use l in simp_all)
  finally have "be_int ?b < 2 ^ 63" by simp
  moreover have "0 \<le> be_int ?b" using be_int_bounds by blast
  ultimately have "uint (word_of_int (be_int ?b) :: u64) < 2 ^ 63"
    by (simp add: uint_word_of_int_eq take_bit_int_eq_self)
  moreover have "\<not> uint v < 2 ^ 63" using assms(1) uint_lt_sint [of v] by simp
  ultimately have "word_of_int (be_int ?b) \<noteq> v" by auto
  then show ?thesis
    by (simp add: asn_INTEGER2ulong_def asn_ulong2INTEGER_def INTEGER2umax_imax)
qed

lemma umax_skip_None: "umax_skip bs = None \<Longrightarrow> 2 ^ 64 \<le> be_int bs"
proof (induction bs)
  case (Cons b bs)
  show ?case
  proof (cases "b = 0")
    case False
    with Cons.prems have l: "8 \<le> length bs" by (auto split: if_splits)
    have "1 \<le> uint b" using False uint_0_iff [of b] uint_ge_0 [of b] by linarith
    then have "1 * 256 ^ length bs \<le> uint b * 256 ^ length bs" by (rule mult_right_mono) simp
    moreover have "(256 :: int) ^ 8 \<le> 256 ^ length bs" by (rule power_increasing) (use l in simp_all)
    moreover have "0 \<le> be_int bs" using be_int_bounds by blast
    ultimately have "256 ^ 8 \<le> uint b * 256 ^ length bs + be_int bs" by linarith
    then show ?thesis by simp
  qed (use Cons in \<open>auto split: if_splits\<close>)
qed simp

lemma umax_skip_Some: "umax_skip bs = Some b \<Longrightarrow> be_int b = be_int bs \<and> be_int bs < 2 ^ 64"
proof (induction bs)
  case (Cons c bs)
  show ?case
  proof (cases "8 < length (c # bs)")
    case False
    then have "(256 :: int) ^ length (c # bs) \<le> 256 ^ 8" by (intro power_increasing) simp_all
    with be_int_bounds [of "c # bs"] have "be_int (c # bs) < 256 ^ 8" by linarith
    with False Cons.prems show ?thesis by auto
  qed (use Cons in \<open>auto split: if_splits\<close>)
qed simp

section \<open>What the parsers accept\<close>

definition num_from :: "nat \<Rightarrow> string \<Rightarrow> nat" where
  "num_from v ds = foldl (\<lambda>a c. a * 10 + digit c) v ds"

lemma num_from_Nil [simp]: "num_from v [] = v"
  and num_from_Cons [simp]: "num_from v (c # ds) = num_from (v * 10 + digit c) ds"
  by (simp_all add: num_from_def)

lemma num_from_ge: "v \<le> num_from v ds"
proof (induction ds arbitrary: v)
  case (Cons c ds)
  have "v \<le> v * 10 + digit c" by simp
  also have "\<dots> \<le> num_from (v * 10 + digit c) ds" by (rule Cons.IH)
  finally show ?case by simp
qed simp

lemma digit_le: "is_digit c \<Longrightarrow> digit c \<le> 9"
  by (auto simp: is_digit_def digit_def)

lemma strtoimax_boundary_val: "strtoimax_boundary = 922337203685477580"
  by (simp add: strtoimax_boundary_def mask_eq_exp_minus_1)

lemma strtoumax_boundary_val: "strtoumax_boundary = 1844674407370955161"
  by (simp add: strtoumax_boundary_def)

lemma sint_of_nat_small: "v < 2 ^ 63 \<Longrightarrow> sint (of_nat v :: 64 word) = int v"
  by (simp add: signed_of_nat signed_take_bit_int_eq_self)

lemma strtoimax_loop_positive:
  assumes "\<forall>c \<in> set ds. is_digit c" and "v < 2 ^ 63"
  shows "if num_from v ds < 2 ^ 63
    then strtoimax_loop ds 1 (of_nat v) 7 = (ASN_STRTOX_OK, [], Some (of_nat (num_from v ds)))
    else \<exists>e. strtoimax_loop ds 1 (of_nat v) 7 = (ASN_STRTOX_ERROR_RANGE, e, None)"
  using assms
proof (induction ds arbitrary: v)
  case (Cons c ds)
  let ?B = "922337203685477580 :: nat"
  have d: "is_digit c" "digit c \<le> 9" using Cons.prems(1) digit_le by auto
  have b: "(of_nat v :: i64) = strtoimax_boundary \<longleftrightarrow> v = ?B"
  proof
    assume "(of_nat v :: i64) = strtoimax_boundary"
    from arg_cong [OF this, of sint] show "v = ?B"
      using sint_of_nat_small [OF Cons.prems(2)] by (simp add: strtoimax_boundary_val)
  qed (simp add: strtoimax_boundary_val)
  have lt: "sint (of_nat v :: i64) < sint strtoimax_boundary \<longleftrightarrow> v < ?B"
    using sint_of_nat_small [OF Cons.prems(2)] by (simp add: strtoimax_boundary_val)
  have nx: "(of_nat v * 10 + of_nat (digit c) :: i64) = of_nat (v * 10 + digit c)" by simp
  have ge: "v * 10 + digit c \<le> num_from (v * 10 + digit c) ds" by (rule num_from_ge)
  consider (go) "v < ?B \<or> v = ?B \<and> digit c \<le> 7" | (stop) "\<not> v < ?B" "\<not> (v = ?B \<and> digit c \<le> 7)" by blast
  then show ?case
  proof cases
    case go
    then have "v * 10 + digit c < 2 ^ 63" using d(2) by auto
    from Cons.IH [OF _ this] Cons.prems(1) go d(1) show ?thesis
      unfolding strtoimax_loop.simps Let_def b lt nx num_from_Cons by (auto split: if_splits)
  next
    case stop
    then have "2 ^ 63 \<le> v * 10 + digit c" using d(2) by auto
    with ge have "\<not> num_from v (c # ds) < 2 ^ 63" by simp
    with stop d(1) show ?thesis unfolding strtoimax_loop.simps Let_def b lt by auto
  qed
qed simp

lemma strtoimax_loop_negative:
  assumes "\<forall>c \<in> set ds. is_digit c" and "num_from v ds \<le> 2 ^ 63" and "v < 2 ^ 63"
  shows "strtoimax_loop ds (- 1) (of_nat v) 8 = (ASN_STRTOX_OK, [], Some (- of_nat (num_from v ds)))"
  using assms
proof (induction ds arbitrary: v)
  case (Cons c ds)
  let ?B = "922337203685477580 :: nat"
  have d: "is_digit c" "digit c \<le> 9" using Cons.prems(1) digit_le by auto
  have b: "(of_nat v :: i64) = strtoimax_boundary \<longleftrightarrow> v = ?B"
  proof
    assume "(of_nat v :: i64) = strtoimax_boundary"
    from arg_cong [OF this, of sint] show "v = ?B"
      using sint_of_nat_small [OF Cons.prems(3)] by (simp add: strtoimax_boundary_val)
  qed (simp add: strtoimax_boundary_val)
  have lt: "sint (of_nat v :: i64) < sint strtoimax_boundary \<longleftrightarrow> v < ?B"
    using sint_of_nat_small [OF Cons.prems(3)] by (simp add: strtoimax_boundary_val)
  have nx: "(of_nat v * 10 + of_nat (digit c) :: i64) = of_nat (v * 10 + digit c)" by simp
  have ge: "v * 10 + digit c \<le> num_from (v * 10 + digit c) ds" by (rule num_from_ge)
  with Cons.prems(2) have le: "v * 10 + digit c \<le> 2 ^ 63" by simp
  show ?case
  proof (cases "v < ?B")
    case True
    then have "v * 10 + digit c < 2 ^ 63" using d(2) by simp
    from Cons.IH [OF _ _ this] Cons.prems(1,2) True d(1) show ?thesis
      unfolding strtoimax_loop.simps Let_def b lt nx num_from_Cons by simp
  next
    case False
    with le have v: "v = ?B" "digit c \<le> 8" by simp_all
    have "ds = []"
    proof (rule ccontr)
      assume "ds \<noteq> []"
      then obtain e es where ds: "ds = e # es" by (cases ds) auto
      have "(v * 10 + digit c) * 10 + digit e \<le> num_from ((v * 10 + digit c) * 10 + digit e) es"
        by (rule num_from_ge)
      with Cons.prems(2) show False by (simp add: ds v(1))
    qed
    moreover have "- (of_nat v * 10) - of_nat (digit c) = (- of_nat (v * 10 + digit c) :: i64)" by simp
    ultimately show ?thesis
      using False v d(1) unfolding strtoimax_loop.simps Let_def b lt by simp
  qed
qed simp

lemma strtoumax_loop_ok:
  assumes "\<forall>c \<in> set ds. is_digit c" and "v < 2 ^ 64"
  shows "if num_from v ds < 2 ^ 64
    then strtoumax_loop ds (of_nat v) = (ASN_STRTOX_OK, [], Some (of_nat (num_from v ds)))
    else \<exists>e. strtoumax_loop ds (of_nat v) = (ASN_STRTOX_ERROR_RANGE, e, None)"
  using assms
proof (induction ds arbitrary: v)
  case (Cons c ds)
  let ?B = "1844674407370955161 :: nat"
  have d: "is_digit c" "digit c \<le> 9" using Cons.prems(1) digit_le by auto
  have u: "unat (of_nat v :: u64) = v" using Cons.prems(2) by (simp add: unsigned_of_nat take_bit_nat_eq_self)
  have b: "(of_nat v :: u64) = strtoumax_boundary \<longleftrightarrow> v = ?B"
    and lt: "(of_nat v :: u64) < strtoumax_boundary \<longleftrightarrow> v < ?B"
    using u by (simp_all add: strtoumax_boundary_val word_unat_eq_iff word_less_nat_alt)
  have nx: "(of_nat v * 10 + of_nat (digit c) :: u64) = of_nat (v * 10 + digit c)" by simp
  have ge: "v * 10 + digit c \<le> num_from (v * 10 + digit c) ds" by (rule num_from_ge)
  consider (go) "v < ?B \<or> v = ?B \<and> digit c \<le> 5" | (stop) "\<not> v < ?B" "\<not> (v = ?B \<and> digit c \<le> 5)" by blast
  then show ?case
  proof cases
    case go
    then have "v * 10 + digit c < 2 ^ 64" using d(2) by auto
    from Cons.IH [OF _ this] Cons.prems(1) go d(1) show ?thesis
      unfolding strtoumax_loop.simps Let_def b lt nx num_from_Cons by (auto split: if_splits)
  next
    case stop
    then have "2 ^ 64 \<le> v * 10 + digit c" using d(2) by auto
    with ge have "\<not> num_from v (c # ds) < 2 ^ 64" by simp
    with stop d(1) show ?thesis unfolding strtoumax_loop.simps Let_def b lt by auto
  qed
qed simp

lemma strtoimax_loop_prefix:
  assumes "\<forall>c \<in> set ds. is_digit c" and "num_from v ds \<le> 922337203685477580"
  shows "strtoimax_loop (ds @ rest) s (of_nat v) m = strtoimax_loop rest s (of_nat (num_from v ds)) m"
  using assms
proof (induction ds arbitrary: v)
  case (Cons c ds)
  have "v * 10 + digit c \<le> num_from (v * 10 + digit c) ds" by (rule num_from_ge)
  with Cons.prems(2) have v: "v < 922337203685477580" by simp
  then have lt: "sint (of_nat v :: i64) < sint strtoimax_boundary"
    using sint_of_nat_small [of v] by (simp add: strtoimax_boundary_val)
  have nx: "(of_nat v * 10 + of_nat (digit c) :: i64) = of_nat (v * 10 + digit c)" by simp
  show ?case
    using Cons.IH [of "v * 10 + digit c"] Cons.prems lt
    unfolding append_Cons strtoimax_loop.simps Let_def num_from_Cons nx by simp
qed simp

section \<open>Properties\<close>

text \<open>
  (C25) What the conversions to C integers give: \<open>asn_INTEGER2imax\<close> the two's complement value of
  the octets when it fits 64 bits, however many octets hold it, and an error otherwise; \<open>asn_INTEGER2umax\<close>
  their unsigned reading when that fits 64 bits and an error otherwise. The unsigned reading is the value
  of an \<open>INTEGER\<close> that is not negative; of a negative one of \<open>n\<close> octets it is the value and \<open>256 ^ n\<close> more
  (the FIXME above the function). A NULL buffer is an error.
\<close>

theorem INTEGER2max_exact:
  "asn_INTEGER2imax (Some bs) =
     (if - (2 ^ 63) \<le> octets_value bs \<and> octets_value bs < 2 ^ 63 then Some (word_of_int (octets_value bs)) else None)
   \<and> asn_INTEGER2umax (Some bs) =
     (let unsigned_reading = (if octets_value bs < 0 then octets_value bs + 256 ^ length bs else octets_value bs)
      in if unsigned_reading < 2 ^ 64 then Some (word_of_int unsigned_reading) else None)
   \<and> asn_INTEGER2imax None = None \<and> asn_INTEGER2umax None = None"
proof (intro conjI)
  have "(if octets_value bs < 0 then octets_value bs + 256 ^ length bs else octets_value bs) = be_int bs"
    using octets_value_nonneg [of bs] be_int_bounds [of bs] by (auto simp: octets_value_def split: if_splits)
  then show "asn_INTEGER2umax (Some bs) =
     (let unsigned_reading = (if octets_value bs < 0 then octets_value bs + 256 ^ length bs else octets_value bs)
      in if unsigned_reading < 2 ^ 64 then Some (word_of_int unsigned_reading) else None)"
    using umax_skip_None [of bs] umax_skip_Some [of bs]
    by (auto simp: asn_INTEGER2umax_def umax_foldl Let_def split: option.split)
qed (simp_all add: INTEGER2imax_value, simp_all add: asn_INTEGER2imax_def asn_INTEGER2umax_def)

text \<open>
  The conversions from C integers are inverted by those back, and the octets they make
  are the shortest: at least one, and none that only repeats the sign.
\<close>

theorem integer_round_trips:
  "asn_INTEGER2imax (asn_imax2INTEGER v) = Some v \<and> asn_INTEGER2umax (asn_umax2INTEGER w) = Some w
    \<and> asn_INTEGER2imax (asn_int642INTEGER v) = Some v \<and> asn_INTEGER2umax (asn_uint642INTEGER w) = Some w
    \<and> (\<exists>bs. asn_imax2INTEGER v = Some bs \<and> bs \<noteq> [] \<and> octets_value bs = sint v
         \<and> skip_insignificant bs = bs)"
proof -
  have i: "asn_int642INTEGER v = asn_imax2INTEGER v" by (simp add: asn_int642INTEGER_def asn_imax2INTEGER_def)
  have "drop_bit 1 (- 1) = (2 ^ 63 - 1 :: u64)" by (simp add: mask_eq_exp_minus_1)
  then have u: "asn_uint642INTEGER w = asn_umax2INTEGER w"
    by (simp only: asn_uint642INTEGER_def asn_umax2INTEGER_def asn_int642INTEGER_def asn_imax2INTEGER_def)
  have "skip_insignificant (skip_insignificant bs) = skip_insignificant bs" for bs
    by (induction bs rule: skip_insignificant.induct) auto
  moreover have "skip_insignificant (be_bytes v) \<noteq> []" by (simp add: be_bytes_def)
  ultimately show ?thesis
    using imax_round_trip [of v] umax_round_trip [of w] octets_value_imax [of v]
    unfolding i u by (simp add: asn_imax2INTEGER_def)
qed

text \<open>
  \<open>asn_ulong2INTEGER\<close> uses the signed conversion, so an unsigned value of \<open>2^64 - 2^55\<close>
  or more comes back from \<open>asn_INTEGER2ulong\<close> as a different number.
\<close>

theorem ulong_round_trip_fails:
  assumes "2 ^ 64 - 2 ^ 55 \<le> uint v"
  shows "\<exists>w. asn_INTEGER2ulong (asn_ulong2INTEGER v) = Some w \<and> w \<noteq> v"
proof (rule ulong_lost)
  have "bit (uint v) 63"
  proof (rule ccontr)
    assume "\<not> bit (uint v) 63"
    then have "of_bool (bit (uint v) 63) = (0 :: int)" by (simp only: of_bool_eq)
    then have "sint v = uint v" using sint_uint_bit [of v] by (metis diff_zero mult_zero_right)
    then show False using assms sint_lt [of v] by simp
  qed
  then have "of_bool (bit (uint v) 63) = (1 :: int)" by (simp only: of_bool_eq)
  then have "sint v = uint v - 2 ^ 64" using sint_uint_bit [of v] by (metis mult_1_right)
  then show "sint v < 0" "- (2 ^ 55) \<le> sint v" using assms uint_lt2p [of v] by simp_all
qed

theorem ulong_round_trip_fails_witness:
  "\<exists>w. asn_INTEGER2ulong (asn_ulong2INTEGER (2 ^ 64 - 1)) = Some w \<and> w \<noteq> (2 ^ 64 - 1 :: u64)"
  by (rule ulong_round_trip_fails) simp

text \<open>
  The decimal parsers are exact on digit strings: an unsigned or non-negative number
  is accepted just when it fits its type, and every negative number that fits is parsed.
\<close>

theorem decimal_parsers_exact:
  assumes "ds \<noteq> []" and "\<forall>c \<in> set ds. is_digit c"
  shows "(if num_from 0 ds < 2 ^ 63 then asn_strtoimax_lim ds = (ASN_STRTOX_OK, [], Some (of_nat (num_from 0 ds)))
       else \<exists>e. asn_strtoimax_lim ds = (ASN_STRTOX_ERROR_RANGE, e, None))
    \<and> (if num_from 0 ds < 2 ^ 64 then asn_strtoumax_lim ds = (ASN_STRTOX_OK, [], Some (of_nat (num_from 0 ds)))
       else \<exists>e. asn_strtoumax_lim ds = (ASN_STRTOX_ERROR_RANGE, e, None))
    \<and> (num_from 0 ds \<le> 2 ^ 63 \<longrightarrow>
       asn_strtoimax_lim (CHR ''-'' # ds) = (ASN_STRTOX_OK, [], Some (- of_nat (num_from 0 ds))))"
proof -
  obtain c cs where ds: "ds = c # cs" using assms(1) by (cases ds) auto
  have "is_digit c" using assms(2) ds by simp
  then have sign: "c \<noteq> CHR ''-''" "c \<noteq> CHR ''+''" by (auto simp: is_digit_def)
  have "asn_strtoimax_lim ds = strtoimax_loop ds 1 0 7" "asn_strtoumax_lim ds = strtoumax_loop ds 0"
    "asn_strtoimax_lim (CHR ''-'' # ds) = strtoimax_loop ds (- 1) 0 8"
    using sign by (simp_all add: asn_strtoimax_lim_def asn_strtoumax_lim_def ds)
  then show ?thesis
    using strtoimax_loop_positive [OF assms(2), of 0] strtoumax_loop_ok [OF assms(2), of 0]
      strtoimax_loop_negative [OF assms(2), of 0] by (simp split: if_split_asm)
qed

theorem decimal_parsers_exact_witness:
  "asn_strtoimax_lim ''40'' = (ASN_STRTOX_OK, [], Some 40) \<and> asn_strtoumax_lim ''40'' = (ASN_STRTOX_OK, [], Some 40)
    \<and> asn_strtoimax_lim ''-40'' = (ASN_STRTOX_OK, [], Some (- 40))"
proof -
  have "''40'' \<noteq> []" "\<forall>c \<in> set ''40''. is_digit c" by (simp_all add: is_digit_def)
  from decimal_parsers_exact [OF this] show ?thesis by (simp add: digit_def)
qed

text \<open>
  Below the smallest number the signed parser goes wrong: once a negative number has
  reached the limit the sign is folded into the value, so a further digit is added instead of
  refused, and the parser answers \<open>ASN_STRTOX_OK\<close>.
\<close>

theorem strtoimax_underflow_accepted:
  assumes "is_digit d" and "digit d \<le> 8" and "is_digit e"
  shows "asn_strtoimax_lim (''-922337203685477580'' @ [d, e])
    = (ASN_STRTOX_OK, [], Some ((- 9223372036854775800 - of_nat (digit d)) * 10 + of_nat (digit e)))"
proof -
  let ?p = "''922337203685477580''" and ?B = "922337203685477580 :: i64"
  let ?x = "- 9223372036854775800 - of_nat (digit d) :: i64"
  have p: "\<forall>c \<in> set ?p. is_digit c" "num_from 0 ?p = 922337203685477580"
    by (simp_all add: is_digit_def digit_def)
  have "digit d \<in> {0, 1, 2, 3, 4, 5, 6, 7, 8}" using assms(2) by auto
  then have s: "sint ?x < sint strtoimax_boundary" by (auto simp: strtoimax_boundary_val)
  have "asn_strtoimax_lim (''-922337203685477580'' @ [d, e]) = strtoimax_loop (?p @ [d, e]) (- 1) 0 8"
    by (simp add: asn_strtoimax_lim_def)
  also have "\<dots> = strtoimax_loop (?p @ [d, e]) (- 1) (of_nat 0) 8" by (simp del: strtoimax_loop.simps)
  also have "\<dots> = strtoimax_loop [d, e] (- 1) (of_nat (num_from 0 ?p)) 8"
    by (rule strtoimax_loop_prefix [OF p(1)]) (simp only: p(2) order_refl)
  also have "\<dots> = strtoimax_loop [d, e] (- 1) ?B 8" by (simp only: p(2) of_nat_numeral)
  also have "\<dots> = strtoimax_loop [e] 1 ?x 8"
    using assms(1,2) by (simp add: strtoimax_boundary_val Let_def)
  also have "\<dots> = (ASN_STRTOX_OK, [], Some (?x * 10 + of_nat (digit e)))"
    using s assms(3) by (simp add: Let_def)
  finally show ?thesis .
qed

theorem strtoimax_underflow_accepted_witness:
  "asn_strtoimax_lim (''-922337203685477580'' @ [CHR ''8'', CHR ''0''])
    = (ASN_STRTOX_OK, [], Some ((- 9223372036854775800 - of_nat (digit CHR ''8'')) * 10 + of_nat (digit CHR ''0'')))"
  by (rule strtoimax_underflow_accepted) (simp_all add: is_digit_def digit_def)

end
