(* ===== verification/AperInteger.thy ===== *)
theory AperInteger
  imports OpenType AsnInteger
begin

text \<open>
  The aligned PER coding of integers: \<^verbatim>\<open>INTEGER_encode_aper\<close> and \<^verbatim>\<open>INTEGER_decode_aper\<close> of
  \<^verbatim>\<open>e2ap/lib/INTEGER.c\<close>, and the wrappers of \<^verbatim>\<open>NativeInteger.c\<close> through which the request,
  instance, function and action identifiers of E2AP are coded. An \<^verbatim>\<open>er.encoded\<close> of -1 is
  failure and 0 success, as in C. Allocation succeeds.
\<close>

record asn_per_constraint =
  pc_extensible :: bool
  pc_semi_constrained :: bool
  pc_constrained :: bool
  pc_range_bits :: int
  pc_effective_bits :: int
  pc_lower_bound :: i64
  pc_upper_bound :: i64

text \<open>The loop \<^verbatim>\<open>for(i = 1; ; i++) if((1 << i) >= max_range_bytes) break;\<close>.\<close>

function length_field_bits :: "int \<Rightarrow> nat \<Rightarrow> nat" where
  "length_field_bits max_range_bytes i =
     (if max_range_bytes \<le> 2 ^ i then i else length_field_bits max_range_bytes (Suc i))"
  by pat_completeness auto
termination
proof (relation "measure (\<lambda>(m, i). nat m - i)", goal_cases)
  case (2 m i)
  have "int i < 2 ^ i" using of_nat_less_iff [of i "2 ^ i", where 'a = int] by simp
  moreover have "2 ^ i < m" using 2 by simp
  ultimately have "int i < m" by linarith
  then show ?case by simp
qed simp

declare length_field_bits.simps [simp del]

text \<open>The loop \<^verbatim>\<open>for(j = 7; j != 0; j--) if((v64 >> (j * 8)) != 0) break;\<close> with arithmetic shifts.\<close>

fun top_octet :: "i64 \<Rightarrow> nat \<Rightarrow> nat" where
  "top_octet v64 0 = 0"
| "top_octet v64 (Suc j) = (if drop_bit (8 * Suc j) (sint v64) \<noteq> 0 then Suc j else top_octet v64 j)"

fun put_octets :: "(byte list \<Rightarrow> 'k \<Rightarrow> 'k option) \<Rightarrow> i64 \<Rightarrow> nat \<Rightarrow> 'k outp \<Rightarrow> int \<times> 'k outp" where
  "put_octets out v64 0 po = (0, po)"
| "put_octets out v64 (Suc n) po =
     (let (r, po1) = asn_put_few_bits out po (word_of_int (drop_bit (8 * n) (sint v64) AND 0xFF)) 8
      in if r \<noteq> 0 then (-1, po1) else put_octets out v64 n po1)"

definition INTEGER_put_constrained ::
  "(byte list \<Rightarrow> 'k \<Rightarrow> 'k option) \<Rightarrow> 'k outp \<Rightarrow> int \<Rightarrow> u64 \<Rightarrow> int \<times> 'k outp" where
  "INTEGER_put_constrained out po range_bits v =
     (if range_bits < 8 then
        let (r, po1) = asn_put_few_bits out po (ucast v) range_bits in (if r \<noteq> 0 then -1 else 0, po1)
      else if range_bits = 8 then
        let (a, po1) = aper_put_align out po
        in if a < 0 then (-1, po1)
           else let (r, po2) = asn_put_few_bits out po1 (ucast v) range_bits in (if r \<noteq> 0 then -1 else 0, po2)
      else if range_bits \<le> 16 then
        let (a, po1) = aper_put_align out po
        in if a < 0 then (-1, po1)
           else let (r, po2) = asn_put_few_bits out po1 (ucast v) 16 in (if r \<noteq> 0 then -1 else 0, po2)
      else
        let max_range_bytes = drop_bit 3 range_bits + (if 0 < range_bits mod 8 then 1 else 0);
            i = length_field_bits max_range_bytes 1;
            j = top_octet v 7;
            (r, po1) = asn_put_few_bits out po (of_nat j) (int i)
        in if r \<noteq> 0 then (-1, po1)
           else
             let (a, po2) = aper_put_align out po1
             in if a < 0 then (-1, po2) else put_octets out v (Suc j) po2)"

definition INTEGER_encode_aper ::
  "bool \<Rightarrow> asn_per_constraint option \<Rightarrow> (byte list \<Rightarrow> 'k \<Rightarrow> 'k option) \<Rightarrow> INTEGER \<Rightarrow> 'k outp \<Rightarrow> int \<times> 'k outp" where
  "INTEGER_encode_aper field_unsigned constraint out st po =
     (case st of
        None \<Rightarrow> (-1, po)
      | Some buf \<Rightarrow>
          if buf = [] then (-1, po)
          else
            let put_octets_of = (\<lambda>po. open_type_put_loop APER out buf (length buf) po)
            in case constraint of
                 None \<Rightarrow> put_octets_of po
               | Some ct \<Rightarrow>
                   (case (if field_unsigned then asn_INTEGER2ulong st else asn_INTEGER2long st) of
                      None \<Rightarrow> (-1, po)
                    | Some value \<Rightarrow>
                        let lt = (\<lambda>a b. if field_unsigned then a < b else sint a < sint b);
                            inext = (if pc_semi_constrained ct then lt value (pc_lower_bound ct)
                                     else 0 \<le> pc_range_bits ct \<and>
                                       (lt value (pc_lower_bound ct) \<or> lt (pc_upper_bound ct) value));
                            (r, po1) = (if pc_extensible ct then asn_put_few_bits out po (if inext then 1 else 0) 1
                                        else (if inext then -1 else 0, po))
                        in if r \<noteq> 0 then (-1, po1)
                           else if inext then put_octets_of po1
                           else if 0 \<le> pc_range_bits ct then
                             INTEGER_put_constrained out po1 (pc_range_bits ct) (value - pc_lower_bound ct)
                           else if pc_lower_bound ct \<noteq> 0 then (-1, po1)
                           else put_octets_of po1))"

text \<open>The loop that adds up the octets, most significant first; \<open>None\<close> when the stream ends.\<close>

fun get_octets :: "nat \<Rightarrow> i64 \<Rightarrow> bit_data \<Rightarrow> i64 option \<times> bit_data" where
  "get_octets 0 value pd = (Some value, pd)"
| "get_octets (Suc n) value pd =
     (let (b, pd1) = asn_get_few_bits pd 8
      in if b < 0 then (None, pd1) else get_octets n (value + push_bit (8 * n) (word_of_int b)) pd1)"

definition INTEGER_get_constrained ::
  "bool \<Rightarrow> int \<Rightarrow> i64 \<Rightarrow> bit_data \<Rightarrow> asn_dec_rval \<times> INTEGER \<times> bit_data" where
  "INTEGER_get_constrained field_unsigned range_bits lower_bound pd =
     (let ok = \<lparr>rv_code = RC_OK, rv_consumed = 0\<rparr>
      in if 16 < range_bits then
           let max_range_bytes = drop_bit 3 range_bits + (if 0 < range_bits mod 8 then 1 else 0);
               (len, pd1) = asn_get_few_bits pd (int (length_field_bits max_range_bytes 1))
           in if len < 0 then (ASN__DECODE_FAILED, None, pd1)
              else
                let (a, pd2) = aper_get_align pd1
                in if a \<noteq> 0 then (ASN__DECODE_FAILED, None, pd2)
                   else (case get_octets (nat (len + 1)) 0 pd2 of
                           (None, pd3) \<Rightarrow> (ASN__DECODE_FAILED, None, pd3)
                         | (Some value, pd3) \<Rightarrow>
                             (ok, (if field_unsigned then asn_uint642INTEGER else asn_int642INTEGER)
                                    (value + lower_bound), pd3))
         else
           let (a, pd1) = (if range_bits < 8 then (0, pd) else aper_get_align pd)
           in if a < 0 then (ASN__DECODE_FAILED, None, pd1)
              else
                let (value, pd2) = asn_get_few_bits pd1 (if range_bits \<le> 8 then range_bits else 16)
                in if value < 0 then (ASN__DECODE_STARVED, None, pd2)
                   else (ok, (if field_unsigned then asn_ulong2INTEGER else asn_long2INTEGER)
                               (word_of_int value + lower_bound), pd2))"

definition INTEGER_decode_aper ::
  "bool \<Rightarrow> asn_per_constraint option \<Rightarrow> bit_data \<Rightarrow> asn_dec_rval \<times> INTEGER \<times> bit_data" where
  "INTEGER_decode_aper field_unsigned constraint pd0 =
     (let ok = \<lparr>rv_code = RC_OK, rv_consumed = 0\<rparr>;
          (inext, pd) = (case constraint of
             Some ct \<Rightarrow> if pc_extensible ct then asn_get_few_bits pd0 1 else (0, pd0)
           | None \<Rightarrow> (0, pd0))
      in if inext < 0 then (ASN__DECODE_STARVED, None, pd)
         else case (if inext \<noteq> 0 then None else constraint) of
           Some ct \<Rightarrow>
             if pc_extensible ct \<or> pc_semi_constrained ct \<or> pc_constrained ct then
               if pc_range_bits ct < 0 then (ASN__DECODE_FAILED, None, pd)
               else INTEGER_get_constrained field_unsigned (pc_range_bits ct) (pc_lower_bound ct) pd
             else
               (case open_type_chunks (\<lambda>_. True) APER [] 0 pd of
                  (RC_OK, bs, pd1) \<Rightarrow>
                    if pc_lower_bound ct \<noteq> 0 then
                      (case asn_INTEGER2long (Some bs) of
                         None \<Rightarrow> (ASN__DECODE_FAILED, Some bs, pd1)
                       | Some value \<Rightarrow> (ok, asn_long2INTEGER (value + pc_lower_bound ct), pd1))
                    else (ok, Some bs, pd1)
                | (_, _, pd1) \<Rightarrow> (ASN__DECODE_STARVED, None, pd1))
         | None \<Rightarrow>
             (case open_type_chunks (\<lambda>_. True) APER [] 0 pd of
                (RC_OK, bs, pd1) \<Rightarrow> (ok, Some bs, pd1)
              | (_, _, pd1) \<Rightarrow> (ASN__DECODE_STARVED, None, pd1)))"

definition NativeInteger_encode_aper ::
  "bool \<Rightarrow> asn_per_constraint option \<Rightarrow> (byte list \<Rightarrow> 'k \<Rightarrow> 'k option) \<Rightarrow> i64 \<Rightarrow> 'k outp \<Rightarrow> int \<times> 'k outp" where
  "NativeInteger_encode_aper field_unsigned constraint out native po =
     INTEGER_encode_aper field_unsigned constraint out
       (if field_unsigned then asn_ulong2INTEGER native else asn_long2INTEGER native) po"

definition NativeInteger_decode_aper ::
  "bool \<Rightarrow> asn_per_constraint option \<Rightarrow> i64 \<Rightarrow> bit_data \<Rightarrow> asn_dec_rval \<times> i64 \<times> bit_data" where
  "NativeInteger_decode_aper field_unsigned constraint native pd =
     (let (rval, tmpint, pd1) = INTEGER_decode_aper field_unsigned constraint pd
      in if rv_code rval = RC_OK then
           (case (if field_unsigned then asn_INTEGER2ulong tmpint else asn_INTEGER2long tmpint) of
              None \<Rightarrow> (rval\<lparr>rv_code := RC_FAIL\<rparr>, native, pd1)
            | Some v \<Rightarrow> (rval, v, pd1))
         else (rval, native, pd1))"

section \<open>The field of a constrained integer\<close>

definition int_root :: "asn_per_constraint \<Rightarrow> i64 \<Rightarrow> bool" where
  "int_root ct v \<longleftrightarrow> \<not> pc_semi_constrained ct \<and> pc_constrained ct \<and> 0 \<le> pc_range_bits ct \<and> pc_range_bits ct \<le> 64
     \<and> sint (pc_lower_bound ct) \<le> sint v \<and> sint v \<le> sint (pc_upper_bound ct)
     \<and> uint (pc_upper_bound ct - pc_lower_bound ct) < 2 ^ nat (pc_range_bits ct)"

definition int_field_root :: "int \<Rightarrow> nat \<Rightarrow> u64 \<Rightarrow> bool list" where
  "int_field_root rb k d =
     (if rb < 8 then bits_of_int (nat rb) (uint d)
      else if rb = 8 then align_pad k @ bits_of_int 8 (uint d)
      else if rb \<le> 16 then align_pad k @ bits_of_int 16 (uint d)
      else
        let i = length_field_bits (drop_bit 3 rb + (if 0 < rb mod 8 then 1 else 0)) 1; j = top_octet d 7
        in bits_of_int i (int j) @ align_pad (k + i) @ bits_of_int (8 * Suc j) (uint d))"

definition int_field :: "asn_per_constraint \<Rightarrow> nat \<Rightarrow> i64 \<Rightarrow> bool list" where
  "int_field ct k v =
     (if pc_extensible ct then bits_of_int 1 0 @ int_field_root (pc_range_bits ct) (Suc k) (v - pc_lower_bound ct)
      else int_field_root (pc_range_bits ct) k (v - pc_lower_bound ct))"

lemma align_pad_cong: "a mod 8 = b mod 8 \<Longrightarrow> align_pad a = align_pad b"
  by (metis align_pad_mod)

lemma int_field_root_cong: "a mod 8 = b mod 8 \<Longrightarrow> int_field_root rb a d = int_field_root rb b d"
  using align_pad_cong [of a b] align_pad_cong [OF mod_add_cong [of a 8 b n n for n]]
  by (simp add: int_field_root_def Let_def)

lemma length_field_bits_bound: "m \<le> 2 ^ length_field_bits m i \<and> i \<le> length_field_bits m i"
proof (induction m i rule: length_field_bits.induct)
  case (1 m i)
  then show ?case using length_field_bits.simps [of m i] by (cases "m \<le> 2 ^ i") auto
qed

lemma length_field_bits_le: "m \<le> 8 \<Longrightarrow> length_field_bits m 1 \<le> 3"
  by (simp add: length_field_bits.simps [of m])

lemma bits_of_uint_sint: "bits_of_int n (drop_bit k (sint v)) = bits_of_int n (drop_bit k (uint v))"
  if "n + k \<le> 64" for v :: i64
proof (rule bits_of_int_eqI)
  fix j assume "j < n"
  then have "k + j < 64" using that by simp
  moreover have "uint v = take_bit 64 (sint v)" by (simp add: uint_sint)
  ultimately show "bit (drop_bit k (sint v)) j = bit (drop_bit k (uint v)) j"
    by (simp only: bit_drop_bit_eq bit_take_bit_iff comp_def) (simp add: add.commute)
qed

lemma top_octet_le: "top_octet v n \<le> n"
  by (induction n) auto

context octet_sink
begin

lemma put_octets_ok:
  assumes "po_ok po" and "n \<le> 8" and "put_octets out v n po = (0, po')"
  shows "po_writes contents po (bits_of_int (8 * n) (uint v)) po'"
  using assms
proof (induction n arbitrary: po)
  case 0
  then show ?case by (simp add: po_writes_refl)
next
  case (Suc n)
  let ?x = "drop_bit (8 * n) (sint v) AND 0xFF"
  from Suc.prems(3) obtain po1 where 1: "asn_put_few_bits out po (word_of_int ?x) 8 = (0, po1)"
    and 2: "put_octets out v n po1 = (0, po')" by (auto split: prod.splits if_split_asm)
  have x: "?x = take_bit 8 (drop_bit (8 * n) (sint v))"
    by (simp add: take_bit_eq_mask mask_eq_exp_minus_1)
  have w1: "po_writes contents po (bits_of_int 8 (drop_bit (8 * n) (uint v))) po1"
    using put_few_bits_writes [OF Suc.prems(1) 1] bits_of_uint_sint [of 8 "8 * n" v] Suc.prems(2)
    by (simp add: uint_u32_of_int x bits_of_int_take_bit)
  have "bits_of_int (8 * Suc n) (uint v) = bits_of_int 8 (drop_bit (8 * n) (uint v)) @ bits_of_int (8 * n) (uint v)"
    using bits_of_int_add_length [of 8 "8 * n" "uint v"] by simp
  with po_writes_trans [OF w1 Suc.IH [OF po_writes_ok [OF w1] _ 2]] Suc.prems(2) show ?case by simp
qed

lemma put_constrained_int_ok:
  assumes ok: "po_ok po" and rb: "0 \<le> rb" "rb \<le> 64" and put: "INTEGER_put_constrained out po rb d = (0, po')"
  shows "po_writes contents po (int_field_root rb (po_nboff po) d) po'"
proof -
  have few: "po_writes contents p (bits_of_int (nat n) (uint d)) p'"
    if "po_ok p" "asn_put_few_bits out p (ucast d) n = (0, p')" for p p' n
    using put_few_bits_writes [OF that] put_few_bits_ok(2) [OF that]
    by (simp add: unsigned_ucast_eq bits_of_int_take_bit)
  consider "rb < 8" | "8 \<le> rb" "rb \<le> 16" | "16 < rb" by linarith
  then show ?thesis
  proof cases
    case 1
    then show ?thesis using few [OF ok, of rb po'] put
      by (auto simp: INTEGER_put_constrained_def int_field_root_def split: prod.splits if_split_asm)
  next
    case 2
    let ?n = "if rb = 8 then 8 else 16"
    obtain a po1 where al: "aper_put_align out po = (a, po1)" by fastforce
    have a: "\<not> a < 0" and 3: "asn_put_few_bits out po1 (ucast d) ?n = (0, po')"
      using put 2 al by (auto simp: INTEGER_put_constrained_def split: prod.splits if_split_asm)
    note w = aper_put_align_ok [OF ok al a]
    from po_writes_trans [OF w few [OF po_writes_ok [OF w] 3]] 2 show ?thesis
      by (auto simp: int_field_root_def)
  next
    case 3
    let ?m = "drop_bit 3 rb + (if 0 < rb mod 8 then 1 else 0)"
    let ?i = "length_field_bits ?m 1" and ?j = "top_octet d 7"
    obtain r po1 where 1: "asn_put_few_bits out po (of_nat ?j) (int ?i) = (r, po1)" by fastforce
    obtain a po2 where al: "aper_put_align out po1 = (a, po2)" by fastforce
    have r: "r = 0" and a: "\<not> a < 0" and po: "put_octets out d (Suc ?j) po2 = (0, po')"
      using put 3 1 al by (auto simp: INTEGER_put_constrained_def Let_def split: if_split_asm)
    have ib: "?i < 32" using put_few_bits_ok(2) [OF ok 1 [unfolded r]] by simp
    have w1: "po_writes contents po (bits_of_int ?i (int ?j)) po1"
      using put_few_bits_writes [OF ok 1 [unfolded r]] ib
      by (simp add: uint_u32_of_nat bits_of_int_take_bit)
    note w2 = aper_put_align_ok [OF po_writes_ok [OF w1] al a]
    have pad: "align_pad (po_nboff po1) = align_pad (po_nboff po + ?i)"
      using po_writes_nboff [OF ok w1] by (intro align_pad_cong) simp
    have w3: "po_writes contents po2 (bits_of_int (8 * Suc ?j) (uint d)) po'"
      by (rule put_octets_ok [OF po_writes_ok [OF w2] _ po]) (use top_octet_le [of d 7] in simp)
    from po_writes_trans [OF po_writes_trans [OF w1 w2] w3] 3 pad show ?thesis
      by (simp add: int_field_root_def Let_def)
  qed
qed

end

definition int_valid :: "bool \<Rightarrow> asn_per_constraint \<Rightarrow> i64 \<Rightarrow> bool" where
  "int_valid field_unsigned ct v \<longleftrightarrow> int_root ct v \<and> (field_unsigned \<longrightarrow> 0 \<le> sint (pc_lower_bound ct))"

lemma ulong_round_trip:
  assumes "0 \<le> sint v"
  shows "asn_INTEGER2ulong (asn_ulong2INTEGER v) = Some v"
proof -
  have "uint v < 2 ^ 63" using assms unfolding uint_lt_sint .
  then have "v \<le> drop_bit 1 (- 1)" by (simp add: word_le_def mask_eq_exp_minus_1)
  then show ?thesis
    using umax_round_trip [of v] by (simp add: asn_umax2INTEGER_def asn_INTEGER2ulong_def asn_ulong2INTEGER_def)
qed

lemma native_as_INTEGER:
  assumes "int_valid uns ct v"
  shows "(if uns then asn_INTEGER2ulong (asn_ulong2INTEGER v) else asn_INTEGER2long (asn_long2INTEGER v)) = Some v"
  using assms ulong_round_trip [of v] by (auto simp: int_valid_def int_root_def)

lemma INTEGER_not_empty: "asn_long2INTEGER v \<noteq> None" "asn_long2INTEGER v \<noteq> Some []"
    "asn_ulong2INTEGER v = asn_long2INTEGER v"
  by (auto simp: be_bytes_def asn_long2INTEGER_def asn_ulong2INTEGER_def asn_imax2INTEGER_def)

context octet_sink
begin

lemma put_constrained_result: "INTEGER_put_constrained out po rb d = (r, po') \<Longrightarrow> r = 0 \<or> r = -1"
proof -
  have po: "put_octets out d n p = (r, po') \<Longrightarrow> r = 0 \<or> r = -1" for n p
    by (induction n arbitrary: p) (auto split: prod.splits if_split_asm)
  then show "INTEGER_put_constrained out po rb d = (r, po') \<Longrightarrow> r = 0 \<or> r = -1"
    by (auto simp: INTEGER_put_constrained_def Let_def split: prod.splits if_split_asm)
qed

lemma native_encode_ok:
  assumes ok: "po_ok po" and v: "int_valid uns ct v"
    and enc: "NativeInteger_encode_aper uns (Some ct) out v po = (r, po')" and r: "r \<noteq> -1"
  shows "po_writes contents po (int_field ct (po_nboff po mod 8) v) po'"
proof -
  let ?st = "if uns then asn_ulong2INTEGER v else asn_long2INTEGER v"
  obtain buf where buf: "?st = Some buf" "buf \<noteq> []"
    using INTEGER_not_empty [of v] by (cases "asn_long2INTEGER v") auto
  have val: "(if uns then asn_INTEGER2ulong ?st else asn_INTEGER2long ?st) = Some v"
    using native_as_INTEGER [OF v] by auto
  let ?lt = "\<lambda>a b. if uns then a < b else sint a < sint b"
  have in_range: "\<not> ?lt v (pc_lower_bound ct)" "\<not> ?lt (pc_upper_bound ct) v"
    using v uint_sint_nonneg [of v] uint_sint_nonneg [of "pc_lower_bound ct"] uint_sint_nonneg [of "pc_upper_bound ct"]
    by (auto simp: int_valid_def int_root_def word_less_def)
  have root: "\<not> pc_semi_constrained ct" "0 \<le> pc_range_bits ct" "pc_range_bits ct \<le> 64"
    using v by (auto simp: int_valid_def int_root_def)
  let ?d = "v - pc_lower_bound ct" and ?rb = "pc_range_bits ct"
  obtain r1 po1 where 1: "(if pc_extensible ct then asn_put_few_bits out po 0 1 else (0, po)) = (r1, po1)" by fastforce
  have 2: "r1 = 0" "INTEGER_put_constrained out po1 ?rb ?d = (r, po')"
    using enc val buf in_range root 1 r
    by (cases uns; cases "pc_extensible ct";
        simp add: NativeInteger_encode_aper_def INTEGER_encode_aper_def Let_def split: if_split_asm)+
  with put_constrained_result r have put: "INTEGER_put_constrained out po1 ?rb ?d = (0, po')" by blast
  show ?thesis
  proof (cases "pc_extensible ct")
    case True
    with 1 2 have e: "asn_put_few_bits out po 0 1 = (0, po1)" by simp
    have w1: "po_writes contents po (bits_of_int 1 0) po1"
      using put_few_bits_writes [OF ok e] by simp
    have "int_field_root ?rb (po_nboff po1) ?d = int_field_root ?rb (Suc (po_nboff po mod 8)) ?d"
      using po_writes_nboff [OF ok w1]
      by (intro int_field_root_cong) (simp add: mod_Suc_eq)
    then show ?thesis
      using po_writes_trans [OF w1 put_constrained_int_ok [OF po_writes_ok [OF w1] root(2,3) put]] True
      by (simp add: int_field_def)
  next
    case False
    with 1 put have "INTEGER_put_constrained out po ?rb ?d = (0, po')" by simp
    from put_constrained_int_ok [OF ok root(2,3) this] False show ?thesis
      by (simp add: int_field_def int_field_root_cong [of "po_nboff po mod 8" "po_nboff po"])
  qed
qed

end

section \<open>Reading it back\<close>

lemma top_octet_nonzero: "top_octet v n \<noteq> 0 \<Longrightarrow> drop_bit (8 * top_octet v n) (sint v) \<noteq> 0"
  by (induction n) auto

lemma top_octet_above: "top_octet v n < n \<Longrightarrow> drop_bit (8 * Suc (top_octet v n)) (sint v) = 0"
proof (induction n)
  case (Suc n)
  then show ?case by (cases "top_octet v n = n") auto
qed simp

lemma drop_bit_zero_less: "drop_bit n x = 0 \<longleftrightarrow> 0 \<le> x \<and> x < 2 ^ n" for x :: int
  by (simp add: drop_bit_eq_div zdiv_eq_0_iff) (metis not_less zero_less_numeral zero_less_power order_trans less_le)

lemma top_octet_value: "take_bit (8 * Suc (top_octet v 7)) (uint v) = uint v"
proof (cases "top_octet v 7 < 7")
  case True
  from top_octet_above [OF this] have b: "0 \<le> sint v \<and> sint v < 2 ^ (8 * Suc (top_octet v 7))"
    unfolding drop_bit_zero_less .
  then have "uint v = sint v" using uint_sint_nonneg by blast
  with b show ?thesis by (simp only: take_bit_int_eq_self_iff)
next
  case False
  then have "top_octet v 7 = 7" using top_octet_le [of v 7] by simp
  then show ?thesis using uint_lt2p [of v] by (simp add: take_bit_int_eq_self)
qed

lemma get_octets_ok:
  assumes "pd_ok pd" and "pd_bits pd = bits_of_int (8 * n) x @ rest"
  shows "\<exists>pd'. get_octets n a pd = (Some (a + word_of_int (take_bit (8 * n) x)), pd')
    \<and> pd_reads pd (bits_of_int (8 * n) x) pd'"
  using assms
proof (induction n arbitrary: a pd)
  case 0
  then show ?case by (simp add: pd_reads_refl)
next
  case (Suc n)
  have s: "bits_of_int (8 * Suc n) x = bits_of_int 8 (drop_bit (8 * n) x) @ bits_of_int (8 * n) x"
    using bits_of_int_add_length [of 8 "8 * n" x] by simp
  with Suc.prems(2) have bits: "pd_bits pd = bits_of_int 8 (drop_bit (8 * n) x) @ bits_of_int (8 * n) x @ rest" by simp
  from get_numeral_field [OF Suc.prems(1) bits] obtain pd1 where
    1: "asn_get_few_bits pd 8 = (take_bit 8 (drop_bit (8 * n) x), pd1)"
    and r1: "pd_reads pd (bits_of_int 8 (drop_bit (8 * n) x)) pd1" by auto
  let ?v1 = "a + push_bit (8 * n) (word_of_int (take_bit 8 (drop_bit (8 * n) x)))"
  from Suc.IH [OF pd_reads_ok [OF r1] pd_reads_bits [OF r1 bits], of ?v1] obtain pd2 where
    2: "get_octets n ?v1 pd1 = (Some (?v1 + word_of_int (take_bit (8 * n) x)), pd2)"
    and r2: "pd_reads pd1 (bits_of_int (8 * n) x) pd2" by auto
  have "push_bit (8 * n) (take_bit 8 (drop_bit (8 * n) x)) + take_bit (8 * n) x = take_bit (8 * Suc n) x"
  proof -
    have "push_bit (8 * n) (take_bit 8 (drop_bit (8 * n) x)) + take_bit (8 * n) x
        = push_bit (8 * n) (take_bit 8 (drop_bit (8 * n) x)) OR take_bit (8 * n) x"
      by (rule disjunctive_add) (simp add: bit_push_bit_iff bit_take_bit_iff)
    also have "\<dots> = take_bit (8 * Suc n) x"
      by (rule bit_eqI) (auto simp: bit_push_bit_iff bit_take_bit_iff bit_drop_bit_eq bit_or_iff)
    finally show ?thesis .
  qed
  from arg_cong [OF this, of "word_of_int :: int \<Rightarrow> i64"]
  have "?v1 + word_of_int (take_bit (8 * n) x) = a + word_of_int (take_bit (8 * Suc n) x)"
    by (simp only: of_int_add of_int_push_bit add.assoc)
  then show ?case using 1 2 pd_reads_trans [OF r1 r2] s by simp
qed

lemma align_reads:
  assumes "pd_ok pd" and "pd_bits pd = align_pad k @ rest" and "k mod 8 = pd_nboff pd mod 8"
  shows "\<exists>pd'. aper_get_align pd = (0, pd') \<and> pd_reads pd (align_pad k) pd'"
  using aper_get_align_ok [of pd rest] assms align_pad_cong [OF assms(3)] by simp

lemma int642INTEGER [simp]: "asn_int642INTEGER v = asn_long2INTEGER v"
  by (simp add: asn_int642INTEGER_def asn_long2INTEGER_def asn_imax2INTEGER_def)

lemma uint642INTEGER: "0 \<le> sint v \<Longrightarrow> asn_uint642INTEGER v = asn_ulong2INTEGER v"
proof -
  assume "0 \<le> sint v"
  then have "uint v < 2 ^ 63" unfolding uint_lt_sint .
  then have "v \<le> 2 ^ 63 - 1" by (simp add: word_le_def)
  then show ?thesis by (simp add: asn_uint642INTEGER_def INTEGER_not_empty(3))
qed

lemma get_constrained_int_ok:
  assumes ok: "pd_ok pd" and rb: "0 \<le> rb" "rb \<le> 64" and d: "uint d < 2 ^ nat rb"
    and bits: "pd_bits pd = int_field_root rb (pd_nboff pd) d @ rest"
    and uns: "uns \<Longrightarrow> 0 \<le> sint (d + lb)"
  shows "\<exists>pd'. INTEGER_get_constrained uns rb lb pd
      = (\<lparr>rv_code = RC_OK, rv_consumed = 0\<rparr>, (if uns then asn_ulong2INTEGER else asn_long2INTEGER) (d + lb), pd')
    \<and> pd_reads pd (int_field_root rb (pd_nboff pd) d) pd'"
proof -
  have d16: "take_bit 16 (uint d) = uint d" if "rb \<le> 16"
  proof -
    have "(2 :: int) ^ nat rb \<le> 2 ^ 16" by (rule power_increasing) (use that in simp_all)
    with d show ?thesis by (simp add: take_bit_int_eq_self)
  qed
  consider "rb < 8" | "8 \<le> rb" "rb \<le> 16" | "16 < rb" by linarith
  then show ?thesis
  proof cases
    case 1
    then have f: "int_field_root rb (pd_nboff pd) d = bits_of_int (nat rb) (uint d)"
      by (simp add: int_field_root_def)
    have "nat rb \<le> 31" using 1 by simp
    from get_field_reads [OF ok bits [unfolded f] this] rb d obtain pd1 where
      "asn_get_few_bits pd rb = (uint d, pd1)" and "pd_reads pd (bits_of_int (nat rb) (uint d)) pd1"
      by (auto simp: take_bit_int_eq_self)
    with 1 show ?thesis by (auto simp: f INTEGER_get_constrained_def)
  next
    case 2
    let ?n = "if rb = 8 then 8 else 16 :: nat"
    have f: "int_field_root rb (pd_nboff pd) d = align_pad (pd_nboff pd) @ bits_of_int ?n (uint d)"
      using 2 by (simp add: int_field_root_def)
    have b: "pd_bits pd = align_pad (pd_nboff pd) @ bits_of_int ?n (uint d) @ rest"
      using bits unfolding f by simp
    from aper_get_align_ok [OF ok b] obtain pd1 where
      1: "aper_get_align pd = (0, pd1)" and r1: "pd_reads pd (align_pad (pd_nboff pd)) pd1" by auto
    have "take_bit ?n (uint d) = uint d"
      using d d16 2 by (auto simp: take_bit_int_eq_self)
    moreover have "?n \<le> 31" by simp
    ultimately obtain pd2 where
      g: "asn_get_few_bits pd1 (int ?n) = (uint d, pd2)" and r2: "pd_reads pd1 (bits_of_int ?n (uint d)) pd2"
      using get_field_reads [OF pd_reads_ok [OF r1] pd_reads_bits [OF r1 b]] by metis
    show ?thesis using 1 g 2 pd_reads_trans [OF r1 r2] unfolding f
      by (auto simp: INTEGER_get_constrained_def)
  next
    case 3
    let ?m = "drop_bit 3 rb + (if 0 < rb mod 8 then 1 else 0)"
    let ?i = "length_field_bits ?m 1" and ?j = "top_octet d 7"
    have m: "rb \<le> 8 * ?m" "?m \<le> 8" using rb(2) by (auto simp: drop_bit_eq_div) presburger+
    have jlt: "int ?j < 2 ^ ?i"
    proof (cases "?j = 0")
      case False
      have "int ?j < ?m"
      proof (cases "rb = 64")
        case False
        have "(2 :: int) ^ nat rb \<le> 2 ^ 63" by (rule power_increasing) (use False rb in simp_all)
        with d have "uint d < 2 ^ 63" by linarith
        then have s: "sint d = uint d" using uint_lt_sint [of d] uint_sint_nonneg [of d] by simp
        have "\<not> uint d < 2 ^ (8 * ?j)"
          using top_octet_nonzero [of d 7] \<open>?j \<noteq> 0\<close> uint_ge_0 [of d] unfolding s drop_bit_zero_less by blast
        with d have "(2 :: int) ^ (8 * ?j) < 2 ^ nat rb" by linarith
        then have "8 * ?j < nat rb" by simp
        with m(1) show ?thesis by simp
      qed (use top_octet_le [of d 7] in simp)
      with length_field_bits_bound [of ?m 1] show ?thesis by linarith
    qed simp
    have f: "int_field_root rb (pd_nboff pd) d
        = bits_of_int ?i (int ?j) @ align_pad (pd_nboff pd + ?i) @ bits_of_int (8 * Suc ?j) (uint d)"
      using 3 by (simp add: int_field_root_def Let_def)
    have b: "pd_bits pd = bits_of_int ?i (int ?j) @ align_pad (pd_nboff pd + ?i) @ bits_of_int (8 * Suc ?j) (uint d) @ rest"
      using bits unfolding f by simp
    from get_field_reads [OF ok b] length_field_bits_le [OF m(2)] jlt obtain pd1 where
      g: "asn_get_few_bits pd (int ?i) = (int ?j, pd1)" and r1: "pd_reads pd (bits_of_int ?i (int ?j)) pd1"
      by (auto simp: take_bit_int_eq_self)
    note b1 = pd_reads_bits [OF r1 b]
    have k: "(pd_nboff pd + ?i) mod 8 = pd_nboff pd1 mod 8" using pd_reads_nboff [OF ok r1] by simp
    from align_reads [OF pd_reads_ok [OF r1] b1 k] obtain pd2 where
      a: "aper_get_align pd1 = (0, pd2)" and r2: "pd_reads pd1 (align_pad (pd_nboff pd + ?i)) pd2" by auto
    from get_octets_ok [OF pd_reads_ok [OF r2] pd_reads_bits [OF r2 b1], of 0] obtain pd3 where
      o: "get_octets (Suc ?j) 0 pd2 = (Some d, pd3)" and r3: "pd_reads pd2 (bits_of_int (8 * Suc ?j) (uint d)) pd3"
      unfolding top_octet_value by auto
    have n: "nat (int ?j + 1) = Suc ?j" by simp
    have "INTEGER_get_constrained uns rb lb pd
        = (\<lparr>rv_code = RC_OK, rv_consumed = 0\<rparr>, (if uns then asn_ulong2INTEGER else asn_long2INTEGER) (d + lb), pd3)"
      using 3 g a o uns uint642INTEGER [of "d + lb"]
      unfolding INTEGER_get_constrained_def Let_def by (simp del: get_octets.simps add: n)
    then show ?thesis using pd_reads_trans [OF r1 pd_reads_trans [OF r2 r3]] f by auto
  qed
qed

lemma integer_decode_ok:
  assumes ok: "pd_ok pd" and v: "int_valid uns ct v"
    and bits: "pd_bits pd = int_field ct (pd_nboff pd mod 8) v @ rest"
  shows "\<exists>pd'. INTEGER_decode_aper uns (Some ct) pd = (\<lparr>rv_code = RC_OK, rv_consumed = 0\<rparr>,
      (if uns then asn_ulong2INTEGER else asn_long2INTEGER) v, pd')
    \<and> pd_reads pd (int_field ct (pd_nboff pd mod 8) v) pd'"
proof -
  let ?d = "v - pc_lower_bound ct" and ?rb = "pc_range_bits ct"
  have root: "\<not> pc_semi_constrained ct" "pc_constrained ct" "0 \<le> ?rb" "?rb \<le> 64"
    "sint (pc_lower_bound ct) \<le> sint v" "sint v \<le> sint (pc_upper_bound ct)"
    "uint (pc_upper_bound ct - pc_lower_bound ct) < 2 ^ nat ?rb"
    using v by (auto simp: int_valid_def int_root_def)
  have d: "uint ?d < 2 ^ nat ?rb"
    using root per_long_range_some(2) [of "pc_lower_bound ct" v]
      per_long_range_some(2) [of "pc_lower_bound ct" "pc_upper_bound ct"] by simp
  have uns: "uns \<Longrightarrow> 0 \<le> sint (?d + pc_lower_bound ct)" using v root(5) by (simp add: int_valid_def)
  have fin: "\<exists>pd'. INTEGER_decode_aper uns (Some ct) pd = (\<lparr>rv_code = RC_OK, rv_consumed = 0\<rparr>,
        (if uns then asn_ulong2INTEGER else asn_long2INTEGER) v, pd')
      \<and> pd_reads pd (pre @ int_field_root ?rb (pd_nboff pd0) ?d) pd'"
    if e: "(if pc_extensible ct then asn_get_few_bits pd 1 else (0, pd)) = (0, pd0)"
      and r0: "pd_reads pd pre pd0" and b0: "pd_bits pd0 = int_field_root ?rb (pd_nboff pd0) ?d @ rest" for pre pd0
  proof -
    from get_constrained_int_ok [OF pd_reads_ok [OF r0] root(3,4) d b0 uns] obtain pd1 where
      g: "INTEGER_get_constrained uns ?rb (pc_lower_bound ct) pd0 = (\<lparr>rv_code = RC_OK, rv_consumed = 0\<rparr>,
          (if uns then asn_ulong2INTEGER else asn_long2INTEGER) (?d + pc_lower_bound ct), pd1)"
      and r1: "pd_reads pd0 (int_field_root ?rb (pd_nboff pd0) ?d) pd1" by auto
    then have "INTEGER_decode_aper uns (Some ct) pd = (\<lparr>rv_code = RC_OK, rv_consumed = 0\<rparr>,
        (if uns then asn_ulong2INTEGER else asn_long2INTEGER) v, pd1)"
      using e root by (simp add: INTEGER_decode_aper_def Let_def)
    then show ?thesis using pd_reads_trans [OF r0 r1] by blast
  qed
  show ?thesis
  proof (cases "pc_extensible ct")
    case True
    have b: "pd_bits pd = bits_of_int 1 0 @ int_field_root ?rb (Suc (pd_nboff pd mod 8)) ?d @ rest"
      using bits True by (simp add: int_field_def)
    from get_bit_field [OF ok b] obtain pd0 where
      e: "asn_get_few_bits pd 1 = (0, pd0)" and r0: "pd_reads pd (bits_of_int 1 0) pd0" by auto
    have "int_field_root ?rb (pd_nboff pd0) ?d = int_field_root ?rb (Suc (pd_nboff pd mod 8)) ?d"
      using pd_reads_nboff [OF ok r0] by (intro int_field_root_cong) (simp add: mod_Suc_eq)
    with fin [OF _ r0] e True pd_reads_bits [OF r0 b] show ?thesis by (simp add: int_field_def)
  next
    case False
    have "int_field_root ?rb (pd_nboff pd) ?d = int_field_root ?rb (pd_nboff pd mod 8) ?d"
      by (rule int_field_root_cong) simp
    with fin [OF _ pd_reads_refl [OF ok]] bits False show ?thesis by (simp add: int_field_def)
  qed
qed

lemma native_decode_ok:
  assumes "pd_ok pd" and v: "int_valid uns ct v"
    and "pd_bits pd = int_field ct (pd_nboff pd mod 8) v @ rest"
  shows "\<exists>pd'. NativeInteger_decode_aper uns (Some ct) native pd = (\<lparr>rv_code = RC_OK, rv_consumed = 0\<rparr>, v, pd')
    \<and> pd_reads pd (int_field ct (pd_nboff pd mod 8) v) pd'"
  using integer_decode_ok [OF assms] native_as_INTEGER [OF v]
  by (auto simp: NativeInteger_decode_aper_def split: if_splits)

section \<open>Whole messages and open types\<close>

text \<open>An integer that takes no bits at all cannot be sent as an open type of its own.\<close>

definition int_sized :: "bool \<Rightarrow> asn_per_constraint \<Rightarrow> i64 \<Rightarrow> bool" where
  "int_sized uns ct v \<longleftrightarrow> int_valid uns ct v \<and> 0 < pc_range_bits ct"

interpretation native: per_type encode_to_buffer_cb arg_buffer
  "NativeInteger_encode_aper uns (Some ct) encode_to_buffer_cb" "NativeInteger_decode_aper uns (Some ct) nat0"
  "int_field ct" "int_valid uns ct" for uns ct nat0
proof
  fix po :: "enc_to_buf_arg outp" and v r po'
  assume "po_ok po" "int_valid uns ct v" "NativeInteger_encode_aper uns (Some ct) encode_to_buffer_cb v po = (r, po')"
    "r \<noteq> -1"
  then show "po_writes arg_buffer po (int_field ct (po_nboff po mod 8) v) po'" by (rule buf.native_encode_ok)
next
  fix pd v rest
  assume "pd_ok pd" "int_valid uns ct v" "pd_bits pd = int_field ct (pd_nboff pd mod 8) v @ rest"
  from native_decode_ok [OF this]
  show "\<exists>rv pd'. NativeInteger_decode_aper uns (Some ct) nat0 pd = (rv, v, pd') \<and> rv_code rv = RC_OK
      \<and> pd_reads pd (int_field ct (pd_nboff pd mod 8) v) pd'" by force
qed

interpretation native_open: open_type "\<lambda>_. True"
  "NativeInteger_encode_aper uns (Some ct) (encode_dyn_cb (\<lambda>_. True))" "NativeInteger_decode_aper uns (Some ct) nat0"
  "int_field ct" "int_sized uns ct" for uns ct nat0
proof
  fix po :: "enc_dyn_arg outp" and v r po'
  assume "po_ok po" "int_sized uns ct v" "NativeInteger_encode_aper uns (Some ct) (encode_dyn_cb (\<lambda>_. True)) v po = (r, po')"
    "r \<noteq> -1"
  then show "po_writes dyn_buffer po (int_field ct (po_nboff po mod 8) v) po'"
    by (intro dyn.native_encode_ok) (simp_all add: int_sized_def)
next
  fix pd v rest
  assume "pd_ok pd" "int_sized uns ct v" "pd_bits pd = int_field ct (pd_nboff pd mod 8) v @ rest"
  with native_decode_ok [of pd uns ct v rest]
  show "\<exists>rv pd'. NativeInteger_decode_aper uns (Some ct) nat0 pd = (rv, v, pd') \<and> rv_code rv = RC_OK
      \<and> pd_reads pd (int_field ct (pd_nboff pd mod 8) v) pd'" by (force simp: int_sized_def)
next
  fix v assume "int_sized uns ct v"
  then show "int_field ct 0 v \<noteq> []"
    by (auto simp: int_sized_def int_field_def int_field_root_def Let_def dest!: arg_cong [where f = length])
qed simp

lemma int_field_short: "int_valid uns ct v \<Longrightarrow> length (int_field ct k v) \<le> 80"
proof -
  assume "int_valid uns ct v"
  then have rb: "0 \<le> pc_range_bits ct" "pc_range_bits ct \<le> 64" by (auto simp: int_valid_def int_root_def)
  let ?m = "drop_bit 3 (pc_range_bits ct) + (if 0 < pc_range_bits ct mod 8 then 1 else 0)"
  have "?m \<le> 8" using rb(2) by (auto simp: drop_bit_eq_div) presburger+
  then have i: "length_field_bits ?m 1 \<le> 3" by (rule length_field_bits_le)
  have a: "length (align_pad k) \<le> 7" for k using align_pad_def by simp
  have r79: "length (int_field_root (pc_range_bits ct) k d) \<le> 79" for k d
    using rb i a [of k] a [of "k + length_field_bits ?m 1"] top_octet_le [of d 7]
    by (auto simp: int_field_root_def Let_def)
  show ?thesis
    using r79 [of k "v - pc_lower_bound ct"] r79 [of "Suc k" "v - pc_lower_bound ct"] by (simp add: int_field_def)
qed

text \<open>
  (C22) An integer within its PER range goes through a whole message: what
  \<open>aper_encode_to_buffer\<close> puts into the buffer for it, \<open>aper_decode\<close> turns back into the
  value and reports as consumed the number of bits that the encoder reported, and
  \<open>aper_decode_complete\<close> the number of octets in the buffer.
\<close>

theorem native_integer_message:
  assumes "int_valid uns ct v" and "length tmp = 32"
    and "aper_encode_to_buffer (Some (NativeInteger_encode_aper uns (Some ct) encode_to_buffer_cb)) v room tmp = (n, bytes)"
    and "n \<noteq> -1"
  shows "aper_decode (Some (NativeInteger_decode_aper uns (Some ct) nat0)) sptr bytes 0 0
      = Some (\<lparr>rv_code = RC_OK, rv_consumed = nat n\<rparr>, v)
    \<and> (0 < n \<longrightarrow> aper_decode_complete (Some (NativeInteger_decode_aper uns (Some ct) nat0)) sptr bytes
      = Some (\<lparr>rv_code = RC_OK, rv_consumed = length bytes\<rparr>, v))"
proof -
  let ?key = "\<lparr>arg_buffer = [], arg_left = room\<rparr>" and ?l = "length (int_field ct 0 v)"
  from assms(3) obtain key where e: "aper_encode (Some (NativeInteger_encode_aper uns (Some ct) encode_to_buffer_cb))
      encode_to_buffer_cb v ?key tmp = (n, key)" and b: "bytes = arg_buffer key"
    by (auto simp: aper_encode_to_buffer_def split: prod.splits)
  have key0: "arg_buffer ?key = []" by simp
  from native.encode_value_ok [OF assms(1,2) key0 e assms(4)]
  have n: "n = int ?l" and bits: "bytes_bits bytes = int_field ct 0 v @ align_pad ?l" by (simp_all add: b)
  from native.decode_value_ok [OF assms(1) bits]
  have d: "aper_decode (Some (NativeInteger_decode_aper uns (Some ct) nat0)) sptr bytes 0 0
      = Some (\<lparr>rv_code = RC_OK, rv_consumed = nat n\<rparr>, v)" by (simp add: n)
  have "8 * length bytes = ?l + length (align_pad ?l)" using arg_cong [OF bits, of length] by simp
  moreover have "length (align_pad ?l) < 8" by (simp add: align_pad_def)
  ultimately have "(?l + 7) div 8 = length bytes" by (intro div_nat_eqI) simp_all
  then have "drop_bit 3 (nat n + 7) = length bytes" by (simp add: n drop_bit_eq_div)
  with d show ?thesis by (auto simp: aper_decode_complete_def)
qed

text \<open>An integer from 0 to 65535, as \<^verbatim>\<open>RICrequestID\<close> carries them.\<close>

definition request_id_range :: asn_per_constraint where
  "request_id_range = \<lparr>pc_extensible = False, pc_semi_constrained = False, pc_constrained = True,
     pc_range_bits = 16, pc_effective_bits = 16, pc_lower_bound = 0, pc_upper_bound = 65535\<rparr>"

lemma sample_native_message:
  "aper_encode_to_buffer (Some (NativeInteger_encode_aper False (Some request_id_range) encode_to_buffer_cb)) 300 8
     (replicate 32 0) = (16, [1, 44])"
  by (simp add: aper_encode_to_buffer_def aper_encode_def NativeInteger_encode_aper_def INTEGER_encode_aper_def
      asn_long2INTEGER_def asn_imax2INTEGER_def be_bytes_def asn_INTEGER2long_def asn_INTEGER2imax_def
      asn__integer_convert_def request_id_range_def INTEGER_put_constrained_def aper_put_align_def eval_put
      aper_encode_flush_outp_def encode_to_buffer_cb_def)

theorem native_integer_message_witness:
  "aper_decode (Some (NativeInteger_decode_aper False (Some request_id_range) 0)) 0 [1, 44] 0 0
      = Some (\<lparr>rv_code = RC_OK, rv_consumed = nat 16\<rparr>, 300)
    \<and> aper_decode_complete (Some (NativeInteger_decode_aper False (Some request_id_range) 0)) 0 [1, 44]
      = Some (\<lparr>rv_code = RC_OK, rv_consumed = length [1, 44 :: byte]\<rparr>, 300)"
proof -
  have "int_valid False request_id_range 300"
    by (simp add: int_valid_def int_root_def request_id_range_def)
  from native_integer_message [OF this _ sample_native_message, of 0 0] show ?thesis by simp
qed

text \<open>
  (C21) The same integer as an open type inside another stream, at any bit position: what
  \<open>aper_open_type_put\<close> appends, \<open>aper_open_type_get\<close> reads back, leaving what follows.
\<close>

theorem native_integer_open_type:
  assumes "int_sized uns ct v" and "length tmp = 32" and "po_ok po" and "pd_ok pd"
    and "pd_nboff pd mod 8 = po_nboff po mod 8"
    and "aper_open_type_put (\<lambda>_. True) (Some (NativeInteger_encode_aper uns (Some ct) (encode_dyn_cb (\<lambda>_. True)))) tmp
      encode_to_buffer_cb v po = (0, po')"
    and "pd_bits pd = written po po' @ rest"
  shows "\<exists>rv pd'. aper_open_type_get (\<lambda>_. True) (NativeInteger_decode_aper uns (Some ct) nat0) sptr pd = (rv, v, pd')
    \<and> rv_code rv = RC_OK \<and> pd_bits pd' = rest"
proof -
  from native_open.open_type_put_ok [OF buf.octet_sink_axioms assms(1,2,3,6)] obtain b where
    b: "bytes_bits b = padded (int_field ct 0 v)" "b \<noteq> []"
    and w: "po_writes arg_buffer po (ot_bits APER (po_nboff po) b) po'" by blast
  have "8 * length b \<le> 80 + 7"
    using arg_cong [OF b(1), of length] int_field_short [of uns ct v 0] assms(1)
    by (simp add: padded_def align_pad_def int_sized_def)
  then have m: "length b mod 16384 \<noteq> 0" using b(2) by simp
  have "ot_bits APER (po_nboff po) b = ot_bits APER (pd_nboff pd) b" using assms(5) ot_bits_mod by metis
  then have bits: "pd_bits pd = ot_bits APER (pd_nboff pd) b @ rest" using assms(7) written_eq [OF w] by simp
  from native_open.open_type_get_ok [OF assms(1) b(1) m assms(4) bits] bits show ?thesis
    by (force simp: pd_reads_def)
qed

lemma sample_native_open:
  "aper_open_type_put (\<lambda>_. True) (Some (NativeInteger_encode_aper False (Some request_id_range) (encode_dyn_cb (\<lambda>_. True))))
     (replicate 32 0) encode_to_buffer_cb 300 sample_outp
   = (0, snd (aper_open_type_put (\<lambda>_. True) (Some (NativeInteger_encode_aper False (Some request_id_range)
       (encode_dyn_cb (\<lambda>_. True)))) (replicate 32 0) encode_to_buffer_cb 300 sample_outp))"
  by (simp add: aper_open_type_put_def aper_encode_to_new_buffer_def aper_encode_def NativeInteger_encode_aper_def
      INTEGER_encode_aper_def asn_long2INTEGER_def asn_imax2INTEGER_def be_bytes_def asn_INTEGER2long_def
      asn_INTEGER2imax_def asn__integer_convert_def request_id_range_def INTEGER_put_constrained_def
      aper_put_align_def eval_put aper_encode_flush_outp_def encode_dyn_cb_def dyn_grow.simps
      open_type_put_loop.simps open_type_put_length_def aper_put_length_def asn_put_many_bits.simps)

abbreviation sample_native_put :: "enc_to_buf_arg outp" where
  "sample_native_put \<equiv> snd (aper_open_type_put (\<lambda>_. True) (Some (NativeInteger_encode_aper False (Some request_id_range)
     (encode_dyn_cb (\<lambda>_. True)))) (replicate 32 0) encode_to_buffer_cb 300 sample_outp)"

lemma sample_native_sized: "int_sized False request_id_range 300"
  by (simp add: int_sized_def int_valid_def int_root_def request_id_range_def)

lemma sample_native_field: "int_field request_id_range 0 300 = bytes_bits [1, 44]"
  by (simp add: int_field_def int_field_root_def request_id_range_def byte_bits_def bits_of_int_octets drop_bit_eq_div)
    code_simp

lemma sample_native_written: "written sample_outp sample_native_put = bytes_bits [2, 1, 44]"
proof -
  from native_open.open_type_put_ok [OF buf.octet_sink_axioms sample_native_sized _ sample_outp_ok(1) sample_native_open]
  obtain b where b: "bytes_bits b = padded (int_field request_id_range 0 300)"
    and w: "po_writes arg_buffer sample_outp (ot_bits APER (po_nboff sample_outp) b) sample_native_put" by auto
  have "bytes_bits b = bytes_bits [1, 44]" by (simp add: b sample_native_field padded_def)
  then have "b = [1, 44]" by (simp only: bytes_bits_inject)
  then show ?thesis
    using written_eq [OF w] by (simp add: ot_bits.simps len_chunk_def len_bits_def byte_bits_def)
qed

theorem native_integer_open_type_witness:
  "\<exists>rv pd'. aper_open_type_get (\<lambda>_. True) (NativeInteger_decode_aper False (Some request_id_range) 0) 0
      (sample_pd [2, 1, 44, 9]) = (rv, 300, pd') \<and> rv_code rv = RC_OK \<and> pd_bits pd' = byte_bits 9"
proof (rule native_integer_open_type [OF sample_native_sized _ sample_outp_ok(1) _ _ sample_native_open])
  have "pd_bits (sample_pd [2, 1, 44, 9]) = bytes_bits [2, 1, 44] @ byte_bits 9" by code_simp
  then show "pd_bits (sample_pd [2, 1, 44, 9]) = written sample_outp sample_native_put @ byte_bits 9"
    by (simp add: sample_native_written)
qed (simp_all add: sample_pd_def pd_ok_def)

text \<open>
  (C29) No semi-constrained integer can be decoded: the decoder fails on every one of them,
  whatever the input, although the encoder writes those with lower bound 0.
\<close>

theorem semi_constrained_never_decoded:
  assumes "pc_semi_constrained ct" and "\<not> pc_extensible ct" and "pc_range_bits ct < 0"
  shows "rv_code (fst (NativeInteger_decode_aper uns (Some ct) nat0 pd)) = RC_FAIL
    \<and> (pc_lower_bound ct = 0 \<and> \<not> uns \<and> 0 \<le> sint v \<and> po_ok po \<and> 200 \<le> po_cap arg_left po
       \<longrightarrow> (\<exists>po'. NativeInteger_encode_aper uns (Some ct) encode_to_buffer_cb v po = (0, po')))"
proof
  show "rv_code (fst (NativeInteger_decode_aper uns (Some ct) nat0 pd)) = RC_FAIL"
    using assms by (simp add: NativeInteger_decode_aper_def INTEGER_decode_aper_def ASN__DECODE_FAILED_def)
  show "pc_lower_bound ct = 0 \<and> \<not> uns \<and> 0 \<le> sint v \<and> po_ok po \<and> 200 \<le> po_cap arg_left po
       \<longrightarrow> (\<exists>po'. NativeInteger_encode_aper uns (Some ct) encode_to_buffer_cb v po = (0, po'))"
  proof
    assume a: "pc_lower_bound ct = 0 \<and> \<not> uns \<and> 0 \<le> sint v \<and> po_ok po \<and> 200 \<le> po_cap arg_left po"
    let ?b = "skip_insignificant (be_bytes v)"
    have st: "asn_long2INTEGER v = Some ?b" by (simp add: asn_long2INTEGER_def asn_imax2INTEGER_def)
    have len: "length ?b \<le> 8" "?b \<noteq> []"
      using length_skip_insignificant [of "be_bytes v"] by (simp_all add: be_bytes_def)
    then have "8 * int (length ?b) + 39 * (int (length ?b div 16384) + 1) \<le> po_cap arg_left po" using a by simp
    with buf.open_type_put_loop_total [of po "length ?b" APER ?b] a obtain po' where
      "open_type_put_loop APER encode_to_buffer_cb ?b (length ?b) po = (0, po')" by blast
    then show "\<exists>po'. NativeInteger_encode_aper uns (Some ct) encode_to_buffer_cb v po = (0, po')"
      using a assms len long_round_trip [of v] unfolding NativeInteger_encode_aper_def INTEGER_encode_aper_def st
      by (simp add: Let_def)
  qed
qed

definition sample_semi :: asn_per_constraint where
  "sample_semi = \<lparr>pc_extensible = False, pc_semi_constrained = True, pc_constrained = False,
     pc_range_bits = -1, pc_effective_bits = -1, pc_lower_bound = 0, pc_upper_bound = 0\<rparr>"

theorem semi_constrained_never_decoded_witness:
  "rv_code (fst (NativeInteger_decode_aper False (Some sample_semi) 0 (sample_pd [1, 5]))) = RC_FAIL
    \<and> (\<exists>po'. NativeInteger_encode_aper False (Some sample_semi) encode_to_buffer_cb 5 sample_outp = (0, po'))"
proof -
  have "pc_semi_constrained sample_semi" "\<not> pc_extensible sample_semi" "pc_range_bits sample_semi < 0"
    by (simp_all add: sample_semi_def)
  from semi_constrained_never_decoded [OF this, of False 0 "sample_pd [1, 5]" 5 sample_outp] show ?thesis
    by (simp add: po_cap_def sample_outp_def outp_new_def sample_semi_def po_ok_def)
qed

end
