(* ===== verification/AsnArray.thy ===== *)
theory AsnArray
  imports RicPrelude "HOL-Library.Multiset"
begin

text \<open>
  The growing pointer arrays of the ASN.1 runtime, \<^verbatim>\<open>A_SET_OF\<close> and \<^verbatim>\<open>A_SEQUENCE_OF\<close>:
  \<^verbatim>\<open>e2ap/lib/asn_SET_OF.c\<close> and \<^verbatim>\<open>asn_SEQUENCE_OF.c\<close>. Every list of information elements of an
  E2AP message is one of them. \<open>so_array\<close> has one entry per allocated slot, \<open>None\<close> where the
  slot was never written; an element stands for the structure its pointer leads to. The
  \<^verbatim>\<open>free\<close> function pointer is the flag \<open>so_free\<close>; the elements handed to it are returned.
  Whether \<^verbatim>\<open>realloc\<close> succeeds for a number of slots is the argument \<open>realloc_ok\<close>. The number
  of slots is a natural number: its \<^verbatim>\<open>int\<close> overflows only at \<open>2 ^ 30\<close> slots.
\<close>

section \<open>The operations\<close>

record 'a set_of =
  so_array :: "'a option list"
  so_count :: nat
  so_size :: nat
  so_free :: bool

text \<open>What \<^verbatim>\<open>calloc\<close> leaves in an embedded list.\<close>

definition set_of_zero :: "'a set_of" where
  "set_of_zero = \<lparr>so_array = [], so_count = 0, so_size = 0, so_free = False\<rparr>"

definition asn_set_add :: "(nat \<Rightarrow> bool) \<Rightarrow> 'a set_of \<Rightarrow> 'a option \<Rightarrow> int \<times> 'a set_of" where
  "asn_set_add realloc_ok as ptr =
     (if ptr = None then (-1, as)
      else
        let full = so_count as = so_size as;
            newsize = (if so_size as \<noteq> 0 then push_bit 1 (so_size as) else 4)
        in if full \<and> \<not> realloc_ok newsize then (-1, as)
           else
             let as1 = (if full then as\<lparr>so_array := so_array as @ replicate (newsize - so_size as) None, so_size := newsize\<rparr>
                        else as)
             in (0, as1\<lparr>so_array := (so_array as1)[so_count as1 := ptr], so_count := Suc (so_count as1)\<rparr>))"

text \<open>The element freed, if any, is the first result.\<close>

definition asn_set_del :: "'a set_of \<Rightarrow> int \<Rightarrow> bool \<Rightarrow> 'a option \<times> 'a set_of" where
  "asn_set_del as number do_free =
     (if number < 0 \<or> int (so_count as) \<le> number then (None, as)
      else
        let n = nat number; last = so_count as - 1
        in (if do_free \<and> so_free as then so_array as ! n else None,
            as\<lparr>so_array := (so_array as)[n := so_array as ! last], so_count := last\<rparr>))"

fun sequence_shift :: "'a option list \<Rightarrow> nat \<Rightarrow> nat \<Rightarrow> 'a option list" where
  "sequence_shift arr n 0 = arr"
| "sequence_shift arr n (Suc k) = sequence_shift (arr[n := arr ! Suc n]) (Suc n) k"

definition asn_sequence_del :: "'a set_of \<Rightarrow> int \<Rightarrow> bool \<Rightarrow> 'a option \<times> 'a set_of" where
  "asn_sequence_del as number do_free =
     (if number < 0 \<or> int (so_count as) \<le> number then (None, as)
      else
        let n = nat number; c = so_count as - 1
        in (if do_free \<and> so_free as then so_array as ! n else None,
            as\<lparr>so_array := sequence_shift (so_array as) n (c - n), so_count := c\<rparr>))"

text \<open>The elements are freed from the last to the first.\<close>

definition asn_set_empty :: "'a set_of \<Rightarrow> 'a option list \<times> 'a set_of" where
  "asn_set_empty as =
     (if so_size as \<noteq> 0 \<and> so_free as then rev (take (so_count as) (so_array as)) else [],
      as\<lparr>so_array := [], so_count := 0, so_size := 0\<rparr>)"

section \<open>Invariant and abstraction\<close>

definition set_of_ok :: "'a set_of \<Rightarrow> bool" where
  "set_of_ok as \<longleftrightarrow> length (so_array as) = so_size as \<and> so_count as \<le> so_size as
     \<and> (\<forall>p \<in> set (take (so_count as) (so_array as)). p \<noteq> None)"

definition set_items :: "'a set_of \<Rightarrow> 'a list" where
  "set_items as = map the (take (so_count as) (so_array as))"

lemma set_of_zero_ok [simp]: "set_of_ok set_of_zero" "set_items set_of_zero = []" "so_free set_of_zero = False"
  by (simp_all add: set_of_ok_def set_items_def set_of_zero_def)

lemma set_items_length: "set_of_ok as \<Longrightarrow> length (set_items as) = so_count as"
  by (simp add: set_of_ok_def set_items_def)

lemma set_of_slot: "set_of_ok as \<Longrightarrow> n < so_count as \<Longrightarrow> so_array as ! n = Some (set_items as ! n)"
  by (force simp: set_of_ok_def set_items_def in_set_conv_nth)

lemma set_of_eqI:
  assumes "length (so_array as) = so_size as" and "so_count as \<le> so_size as" and "length xs = so_count as"
    and "\<And>i. i < so_count as \<Longrightarrow> so_array as ! i = Some (xs ! i)"
  shows "set_of_ok as \<and> set_items as = xs"
proof -
  have "take (so_count as) (so_array as) = map Some xs"
    by (rule nth_equalityI) (use assms in auto)
  then show ?thesis using assms by (auto simp: set_of_ok_def set_items_def comp_def)
qed

text \<open>
  The interface the message code relies on: a collection with a list of items, an append that
  either adds at the end or changes nothing, and a deletion by index that keeps the other
  items. In an ordered collection the deletion keeps their order too.
\<close>

locale collection =
  fixes ok :: "'s \<Rightarrow> bool" and items :: "'s \<Rightarrow> 'a list"
    and add :: "'s \<Rightarrow> 'a option \<Rightarrow> int \<times> 's" and del :: "'s \<Rightarrow> int \<Rightarrow> bool \<Rightarrow> 'a option \<times> 's"
  assumes add_ok: "ok s \<Longrightarrow> add s (Some x) = (r, s') \<Longrightarrow> ok s' \<and> (if r = 0 then items s' = items s @ [x] else s' = s)"
    and del_ok: "ok s \<Longrightarrow> del s n f = (g, s') \<Longrightarrow> 0 \<le> n \<Longrightarrow> nat n < length (items s) \<Longrightarrow>
      ok s' \<and> mset (items s') + {#items s ! nat n#} = mset (items s)"
    and del_out: "n < 0 \<or> int (length (items s)) \<le> n \<Longrightarrow> ok s \<Longrightarrow> del s n f = (None, s)"
begin

text \<open>Adding one element after another; the results tell which of them are in.\<close>

primrec add_all :: "'s \<Rightarrow> 'a list \<Rightarrow> int list \<times> 's" where
  "add_all s [] = ([], s)"
| "add_all s (x # xs) = (let (r, s1) = add s (Some x); (rs, s2) = add_all s1 xs in (r # rs, s2))"

lemma add_all_ok:
  "ok s \<Longrightarrow> add_all s xs = (rs, s') \<Longrightarrow>
    ok s' \<and> items s' = items s @ map snd (filter (\<lambda>(r, x). r = 0) (zip rs xs))"
proof (induction xs arbitrary: s rs s')
  case Nil
  then show ?case by simp
next
  case (Cons x xs)
  obtain r s1 where a: "add s (Some x) = (r, s1)" by fastforce
  obtain rs1 s2 where b: "add_all s1 xs = (rs1, s2)" by fastforce
  from add_ok [OF Cons.prems(1) a] Cons.IH [OF _ b] Cons.prems(2) a b
  show ?case by (auto split: if_splits)
qed

lemma add_del_items:
  assumes "ok s" and "add s (Some x) = (0, s1)" and "del s1 (int (length (items s))) f = (g, s2)"
  shows "mset (items s2) = mset (items s)"
  using add_ok [OF assms(1,2)] del_ok [OF _ assms(3)] by auto

end

locale ordered_collection = collection ok items add del
  for ok :: "'s \<Rightarrow> bool" and items :: "'s \<Rightarrow> 'a list"
    and add :: "'s \<Rightarrow> 'a option \<Rightarrow> int \<times> 's" and del :: "'s \<Rightarrow> int \<Rightarrow> bool \<Rightarrow> 'a option \<times> 's" +
  assumes del_order: "ok s \<Longrightarrow> del s n f = (g, s') \<Longrightarrow> 0 \<le> n \<Longrightarrow> nat n < length (items s) \<Longrightarrow>
      items s' = take (nat n) (items s) @ drop (Suc (nat n)) (items s)"
begin

lemma add_del_same:
  assumes "ok s" and "add s (Some x) = (0, s1)" and "del s1 (int (length (items s))) f = (g, s2)"
  shows "items s2 = items s"
  using add_ok [OF assms(1,2)] del_order [OF _ assms(3)] by auto

end

lemma push_bit_1_nat: "push_bit 1 (n::nat) = 2 * n"
  by (simp add: push_bit_eq_mult)

lemma asn_set_add_ok:
  assumes ok: "set_of_ok as" and a: "asn_set_add realloc_ok as (Some x) = (r, as')"
  shows "set_of_ok as' \<and> (if r = 0 then set_items as' = set_items as @ [x] else as' = as)"
proof (cases "r = 0")
  case False
  with a ok show ?thesis by (auto simp: asn_set_add_def Let_def split: if_splits)
next
  case True
  let ?new = "if so_size as \<noteq> 0 then push_bit 1 (so_size as) else 4"
  let ?as1 = "if so_count as = so_size as
    then as\<lparr>so_array := so_array as @ replicate (?new - so_size as) None, so_size := ?new\<rparr> else as"
  from a True have as': "as' = ?as1\<lparr>so_array := (so_array ?as1)[so_count as := Some x], so_count := Suc (so_count as)\<rparr>"
    by (auto simp: asn_set_add_def Let_def split: if_splits)
  have "set_of_ok as' \<and> set_items as' = set_items as @ [x]"
  proof (rule set_of_eqI)
    show "so_array as' ! i = Some ((set_items as @ [x]) ! i)" if "i < so_count as'" for i
      using ok that set_of_slot [OF ok, of i] set_items_length [OF ok]
      by (auto simp: as' set_of_ok_def nth_list_update nth_append push_bit_1_nat)
  qed (use ok set_items_length [OF ok] in \<open>auto simp: as' set_of_ok_def push_bit_1_nat\<close>)
  with True show ?thesis by simp
qed

lemma mset_remove_nth: "n < length xs \<Longrightarrow> add_mset (xs ! n) (mset (take n xs @ drop (Suc n) xs)) = mset xs"
  by (metis add.right_neutral add_mset_add_single id_take_nth_drop mset.simps(2) mset_append union_mset_add_mset_right)

lemma asn_set_del_items:
  assumes ok: "set_of_ok as" and n: "n < so_count as" and d: "asn_set_del as (int n) f = (g, as')"
  shows "set_of_ok as' \<and> set_items as' = butlast ((set_items as)[n := last (set_items as)])"
proof (rule set_of_eqI)
  let ?xs = "set_items as"
  note len = set_items_length [OF ok]
  from d n have as': "as' = as\<lparr>so_array := (so_array as)[n := so_array as ! (so_count as - 1)], so_count := so_count as - 1\<rparr>"
    by (auto simp: asn_set_del_def Let_def)
  show "length (so_array as') = so_size as'" "so_count as' \<le> so_size as'"
    using ok by (auto simp: as' set_of_ok_def)
  show "length (butlast (?xs[n := last ?xs])) = so_count as'" by (simp add: as' len)
  fix i assume i: "i < so_count as'"
  then have "i < so_count as" "so_count as - 1 < so_count as" by (auto simp: as')
  moreover have "last ?xs = ?xs ! (so_count as - 1)" using n len by (metis last_conv_nth length_0_conv not_less0)
  ultimately show "so_array as' ! i = Some (butlast (?xs[n := last ?xs]) ! i)" using ok i n len set_of_slot [OF ok]
    by (auto simp: as' set_of_ok_def nth_butlast nth_list_update last_conv_nth)
qed

lemma swap_remove_mset:
  assumes "n < length xs"
  shows "mset (butlast (xs[n := last xs])) + {#xs ! n#} = mset xs"
proof -
  have ne: "xs \<noteq> []" using assms by auto
  let ?ys = "xs[n := last xs]"
  have "mset (butlast ?ys) = mset ?ys - {#last ?ys#}"
    using assms by (metis add_diff_cancel_right' append_butlast_last_id length_greater_0_conv length_list_update
        list.size(3) mset.simps(1) mset.simps(2) mset_append not_less0)
  moreover have "last ?ys = last xs" using assms ne by (simp add: last_list_update)
  moreover have "mset ?ys = add_mset (last xs) (mset xs - {#xs ! n#})" using assms by (rule mset_update)
  ultimately show ?thesis using assms by simp
qed

lemma sequence_shift_nth:
  "n + k < length arr \<Longrightarrow> i < length arr \<Longrightarrow>
    sequence_shift arr n k ! i = (if n \<le> i \<and> i < n + k then arr ! Suc i else arr ! i)
    \<and> length (sequence_shift arr n k) = length arr"
  by (induction arr n k rule: sequence_shift.induct) (auto simp: nth_list_update)

lemma asn_sequence_del_items:
  assumes ok: "set_of_ok as" and n: "n < so_count as" and d: "asn_sequence_del as (int n) f = (g, as')"
  shows "set_of_ok as' \<and> set_items as' = take n (set_items as) @ drop (Suc n) (set_items as)"
proof (rule set_of_eqI)
  let ?xs = "set_items as" and ?c = "so_count as - 1"
  note len = set_items_length [OF ok]
  from d n have as': "as' = as\<lparr>so_array := sequence_shift (so_array as) n (?c - n), so_count := ?c\<rparr>"
    by (auto simp: asn_sequence_del_def Let_def)
  have room: "n + (?c - n) < length (so_array as)" using ok n by (auto simp: set_of_ok_def)
  show "length (so_array as') = so_size as'" "so_count as' \<le> so_size as'"
    using ok sequence_shift_nth [OF room, of 0] room by (auto simp: as' set_of_ok_def)
  show "length (take n ?xs @ drop (Suc n) ?xs) = so_count as'" using n by (simp add: as' len)
  fix i assume i: "i < so_count as'"
  then have "i < length (so_array as)" using ok by (auto simp: as' set_of_ok_def)
  from sequence_shift_nth [OF room this] i n len set_of_slot [OF ok, of i] set_of_slot [OF ok, of "Suc i"]
  show "so_array as' ! i = Some ((take n ?xs @ drop (Suc n) ?xs) ! i)"
    by (auto simp: as' nth_append min_def)
qed

interpretation asn_set: collection set_of_ok set_items "asn_set_add realloc_ok" asn_set_del for realloc_ok
proof unfold_locales
  fix s :: "'a set_of" and x r s' n f g
  show "set_of_ok s' \<and> (if r = 0 then set_items s' = set_items s @ [x] else s' = s)"
    if "set_of_ok s" "asn_set_add realloc_ok s (Some x) = (r, s')"
    using that by (rule asn_set_add_ok)
  show "set_of_ok s' \<and> mset (set_items s') + {#set_items s ! nat n#} = mset (set_items s)"
    if "set_of_ok s" "asn_set_del s n f = (g, s')" "0 \<le> n" "nat n < length (set_items s)"
    using asn_set_del_items [of s "nat n" f g s'] swap_remove_mset [of "nat n" "set_items s"] that
    by (simp add: set_items_length)
  show "asn_set_del s n f = (None, s)" if "n < 0 \<or> int (length (set_items s)) \<le> n" "set_of_ok s"
    using that by (auto simp: asn_set_del_def set_items_length)
qed

interpretation asn_sequence: ordered_collection set_of_ok set_items "asn_set_add realloc_ok" asn_sequence_del for realloc_ok
proof unfold_locales
  fix s :: "'a set_of" and x r n f g s'
  show "set_of_ok s' \<and> (if r = 0 then set_items s' = set_items s @ [x] else s' = s)"
    if "set_of_ok s" "asn_set_add realloc_ok s (Some x) = (r, s')"
    using that by (rule asn_set_add_ok)
  show "set_of_ok s' \<and> mset (set_items s') + {#set_items s ! nat n#} = mset (set_items s)"
    if "set_of_ok s" "asn_sequence_del s n f = (g, s')" "0 \<le> n" "nat n < length (set_items s)"
    using asn_sequence_del_items [of s "nat n" f g s'] mset_remove_nth [of "nat n" "set_items s"] that
    by (simp add: set_items_length)
  show "asn_sequence_del s n f = (None, s)" if "n < 0 \<or> int (length (set_items s)) \<le> n" "set_of_ok s"
    using that by (auto simp: asn_sequence_del_def set_items_length)
  show "set_items s' = take (nat n) (set_items s) @ drop (Suc (nat n)) (set_items s)"
    if "set_of_ok s" "asn_sequence_del s n f = (g, s')" "0 \<le> n" "nat n < length (set_items s)"
    using asn_sequence_del_items [of s "nat n" f g s'] that by (simp add: set_items_length)
qed

section \<open>Properties\<close>

definition sample_set :: "nat set_of" where
  "sample_set = \<lparr>so_array = [Some 7, Some 8, Some 9, None], so_count = 3, so_size = 4, so_free = True\<rparr>"

text \<open>
  Deleting by index. Both deletions hand exactly the named element to the free function
  when asked, and keep all others; the one for sequences keeps their order, the one for sets
  only that of the elements before it.
\<close>

theorem asn_del_exact:
  assumes "set_of_ok as" and "0 \<le> n" and "nat n < length (set_items as)"
    and "asn_set_del as n f = (g, as1)" and "asn_sequence_del as n f = (h, as2)"
  shows "g = (if f \<and> so_free as then Some (set_items as ! nat n) else None) \<and> h = g
    \<and> set_of_ok as1 \<and> set_of_ok as2
    \<and> set_items as2 = take (nat n) (set_items as) @ drop (Suc (nat n)) (set_items as)
    \<and> mset (set_items as1) = mset (set_items as2) \<and> take (nat n) (set_items as1) = take (nat n) (set_items as2)"
proof -
  have n: "nat n < so_count as" using assms by (simp add: set_items_length)
  have "mset (set_items as1) + {#set_items as ! nat n#} = mset (set_items as2) + {#set_items as ! nat n#}"
    using asn_set.del_ok [OF assms(1,4,2,3)] asn_sequence.del_ok [OF assms(1,5,2,3)] by simp
  then have "mset (set_items as1) = mset (set_items as2)" by simp
  moreover have "take (nat n) (set_items as1) = take (nat n) (set_items as)"
    using asn_set_del_items [OF assms(1) n, of f g as1] assms by (simp add: take_butlast)
  moreover have "g = (if f \<and> so_free as then Some (set_items as ! nat n) else None) \<and> h = g"
    using assms(2,4,5) n set_of_slot [OF assms(1) n]
    by (cases "int (so_count as) \<le> n") (auto simp: asn_set_del_def asn_sequence_del_def Let_def)
  ultimately show ?thesis
    using asn_set.del_ok [OF assms(1,4,2,3)] asn_sequence.del_ok [OF assms(1,5,2,3)]
      asn_sequence.del_order [OF assms(1,5,2,3)] assms(3) by simp
qed

theorem asn_del_exact_witness:
  "Some 7 = (if True \<and> so_free sample_set then Some (set_items sample_set ! nat 0) else None) \<and> Some 7 = Some (7::nat)
    \<and> set_of_ok (snd (asn_set_del sample_set 0 True)) \<and> set_of_ok (snd (asn_sequence_del sample_set 0 True))
    \<and> set_items (snd (asn_sequence_del sample_set 0 True))
        = take (nat 0) (set_items sample_set) @ drop (Suc (nat 0)) (set_items sample_set)
    \<and> mset (set_items (snd (asn_set_del sample_set 0 True))) = mset (set_items (snd (asn_sequence_del sample_set 0 True)))
    \<and> take (nat 0) (set_items (snd (asn_set_del sample_set 0 True)))
        = take (nat 0) (set_items (snd (asn_sequence_del sample_set 0 True)))"
  by (rule asn_del_exact [where as = sample_set])
    (simp_all add: sample_set_def set_of_ok_def set_items_def asn_set_del_def asn_sequence_del_def)

text \<open>
  (C32) Building a list and emptying it: whatever additions fail for lack of memory, the list
  holds those that succeeded in order, and emptying a list with a free function frees each of
  them exactly once, from the last to the first.
\<close>

theorem asn_set_add_all_empty:
  assumes "set_of_ok as" and "asn_set.add_all realloc_ok as xs = (rs, as1)" and "asn_set_empty as1 = (freed, as2)" and "so_free as1"
  shows "freed = map Some (rev (set_items as @ map snd (filter (\<lambda>(r, x). r = 0) (zip rs xs))))
    \<and> set_of_ok as2 \<and> set_items as2 = []"
proof -
  from asn_set.add_all_ok [OF assms(1,2)] have ok: "set_of_ok as1"
    and items: "set_items as1 = set_items as @ map snd (filter (\<lambda>(r, x). r = 0) (zip rs xs))" by auto
  have "take (so_count as1) (so_array as1) = map Some (set_items as1)"
    by (rule nth_equalityI) (use ok set_of_slot [OF ok] set_items_length [OF ok] in \<open>auto simp: set_of_ok_def\<close>)
  then have "freed = map Some (rev (set_items as1))"
    using assms(3,4) ok by (auto simp: asn_set_empty_def set_of_ok_def rev_map split: if_splits)
  with items assms(3) show ?thesis by (auto simp: asn_set_empty_def set_of_ok_def set_items_def)
qed

theorem asn_set_add_all_empty_witness:
  "fst (asn_set_empty (snd (asn_set.add_all (\<lambda>_. False) sample_set [5, 6])))
      = map Some (rev (set_items sample_set @ map snd (filter (\<lambda>(r, x). r = 0) (zip [0, -1 :: int] [5, 6]))))
    \<and> set_of_ok (snd (asn_set_empty (snd (asn_set.add_all (\<lambda>_. False) sample_set [5, 6]))))
    \<and> set_items (snd (asn_set_empty (snd (asn_set.add_all (\<lambda>_. False) sample_set [5, 6])))) = []"
  by (rule asn_set_add_all_empty [where realloc_ok = "\<lambda>_. False", where rs = "[0, -1]", OF _ prod_eqI surjective_pairing])
    (simp_all add: sample_set_def set_of_ok_def asn_set_add_def asn_set.add_all.simps)

end
