(* ===== verification/IeTables.thy ===== *)
theory IeTables
  imports AperInteger
begin

text \<open>
  The information object sets of E2AP: which type an information element has, given its id.
  The tables and selector functions of \<^verbatim>\<open>e2ap/lib/ProtocolIE-Field.c\<close> (the elements of each
  message) and of \<^verbatim>\<open>InitiatingMessage.c\<close>, \<^verbatim>\<open>SuccessfulOutcome.c\<close>, \<^verbatim>\<open>UnsuccessfulOutcome.c\<close> (the
  message of each procedure), the union members the decoder stores into and the presence
  constants of the headers; and, over them, the coding of an open type member,
  \<^verbatim>\<open>e2ap/lib/OPEN_TYPE.c\<close>.

  A type descriptor \<^verbatim>\<open>asn_DEF_X\<close> is the constructor \<open>DEF_X\<close>, of a message or of an element. Of a member table the name and the
  type of each member are kept (all members are plain, with flags \<^verbatim>\<open>ATF_NOFLAGS\<close>); tags belong to
  BER and XER. The rows of each table have the constants \<^verbatim>\<open>asn_VAL_*\<close> written out.
\<close>

section \<open>Tables and selection\<close>

datatype message_type =
    DEF_RICsubscriptionRequest | DEF_RICsubscriptionResponse | DEF_RICsubscriptionFailure
  | DEF_RICsubscriptionDeleteRequest | DEF_RICsubscriptionDeleteResponse
  | DEF_RICsubscriptionDeleteFailure | DEF_RICserviceUpdate | DEF_RICserviceUpdateAcknowledge
  | DEF_RICserviceUpdateFailure | DEF_RICcontrolRequest | DEF_RICcontrolAcknowledge
  | DEF_RICcontrolFailure | DEF_E2setupRequest | DEF_E2setupResponse | DEF_E2setupFailure
  | DEF_ResetRequest | DEF_ResetResponse | DEF_RICindication | DEF_RICserviceQuery | DEF_ErrorIndication

datatype element_type =
    DEF_ProtocolIE_ID | DEF_Criticality | DEF_RICaction_ToBeSetup_Item | DEF_Presence
  | DEF_RICaction_Admitted_Item | DEF_RICaction_NotAdmitted_Item | DEF_RANfunction_Item
  | DEF_RANfunctionID_Item | DEF_RANfunctionIDcause_Item | DEF_RICrequestID | DEF_RANfunctionID
  | DEF_RICsubscriptionDetails | DEF_RICaction_Admitted_List | DEF_RICaction_NotAdmitted_List
  | DEF_CriticalityDiagnostics | DEF_Cause | DEF_RICactionID | DEF_RICindicationSN
  | DEF_RICindicationType | DEF_RICindicationHeader | DEF_RICindicationMessage | DEF_RICcallProcessID
  | DEF_RICcontrolHeader | DEF_RICcontrolMessage | DEF_RICcontrolAckRequest | DEF_RICcontrolStatus
  | DEF_RICcontrolOutcome | DEF_GlobalE2node_ID | DEF_RANfunctions_List | DEF_GlobalRIC_ID
  | DEF_RANfunctionsID_List | DEF_RANfunctionsIDcause_List | DEF_TimeToWait | DEF_ProcedureCode

datatype asn_DEF = MSG message_type | IE element_type

datatype ioc_kind = aioc_undefined | aioc_value | aioc_type | aioc_open_type

record ioc_cell =
  ioc_field_name :: string
  ioc_cell_kind :: ioc_kind
  ioc_type_descriptor :: "asn_DEF option"
  ioc_value_sptr :: "int option"

record ioc_set =
  ioc_rows_count :: nat
  ioc_columns_count :: nat
  ioc_rows :: "ioc_cell list"

abbreviation ioc_undefined :: "string \<Rightarrow> ioc_cell" where
  "ioc_undefined n \<equiv> \<lparr>ioc_field_name = n, ioc_cell_kind = aioc_undefined, ioc_type_descriptor = None, ioc_value_sptr = None\<rparr>"

abbreviation ioc_value :: "string \<Rightarrow> asn_DEF \<Rightarrow> int \<Rightarrow> ioc_cell" where
  "ioc_value n d v \<equiv> \<lparr>ioc_field_name = n, ioc_cell_kind = aioc_value, ioc_type_descriptor = Some d, ioc_value_sptr = Some v\<rparr>"

abbreviation ioc_type :: "string \<Rightarrow> asn_DEF \<Rightarrow> ioc_cell" where
  "ioc_type n d \<equiv> \<lparr>ioc_field_name = n, ioc_cell_kind = aioc_type, ioc_type_descriptor = Some d, ioc_value_sptr = None\<rparr>"

text \<open>The comparison of two longs; \<open>None\<close> is the NULL pointer.\<close>

definition NativeInteger_compare :: "bool \<Rightarrow> int option \<Rightarrow> int option \<Rightarrow> int" where
  "NativeInteger_compare field_unsigned aptr bptr =
     (case (aptr, bptr) of
        (Some a, Some b) \<Rightarrow>
          if field_unsigned then
            let ua = take_bit 64 a; ub = take_bit 64 b in if ua < ub then -1 else if ub < ua then 1 else 0
          else if a < b then -1 else if b < a then 1 else 0
      | (None, _) \<Rightarrow> -1
      | (Some a, None) \<Rightarrow> 1)"

text \<open>The loop all selector functions share; they differ in the table and the two columns.\<close>

function select_loop :: "ioc_set \<Rightarrow> nat \<Rightarrow> nat \<Rightarrow> int \<Rightarrow> nat \<Rightarrow> nat \<Rightarrow> asn_DEF option \<times> nat" where
  "select_loop itable constraining_column for_column constraining_value row presence_index =
     (if row < ioc_rows_count itable then
        let constraining_cell = ioc_rows itable ! (row * ioc_columns_count itable + constraining_column);
            type_cell = ioc_rows itable ! (row * ioc_columns_count itable + for_column)
        in if ioc_cell_kind type_cell = aioc_undefined
           then select_loop itable constraining_column for_column constraining_value (Suc row) presence_index
           else if NativeInteger_compare False (Some constraining_value) (ioc_value_sptr constraining_cell) = 0
           then (ioc_type_descriptor type_cell, Suc presence_index)
           else select_loop itable constraining_column for_column constraining_value (Suc row) (Suc presence_index)
      else (None, 0))"
  by pat_completeness auto
termination
  by (relation "measure (\<lambda>(t, _, _, _, row, _). ioc_rows_count t - row)") auto

declare select_loop.simps [simp del]

definition select_type :: "ioc_set \<Rightarrow> nat \<Rightarrow> nat \<Rightarrow> int \<Rightarrow> asn_DEF option \<times> nat" where
  "select_type itable constraining_column for_column constraining_value =
     select_loop itable constraining_column for_column constraining_value 0 0"

text \<open>The range checks on the two constraining fields; \<open>None\<close> is a NULL pointer.\<close>

definition memb_id_constraint :: "int option \<Rightarrow> int" where
  "memb_id_constraint sptr =
     (case sptr of None \<Rightarrow> -1 | Some v \<Rightarrow> if 0 \<le> v \<and> v \<le> 65535 then 0 else -1)"

definition memb_procedureCode_constraint :: "int option \<Rightarrow> int" where
  "memb_procedureCode_constraint sptr =
     (case sptr of None \<Rightarrow> -1 | Some v \<Rightarrow> if 0 \<le> v \<and> v \<le> 255 then 0 else -1)"

section \<open>Information elements by message\<close>

definition asn_IOS_RICaction_ToBeSetup_ItemIEs :: ioc_set where
  "asn_IOS_RICaction_ToBeSetup_ItemIEs = \<lparr>ioc_rows_count = 1, ioc_columns_count = 4, ioc_rows =
    [ioc_value ''&id'' (IE DEF_ProtocolIE_ID) 19, ioc_value ''&criticality'' (IE DEF_Criticality) 1,
      ioc_type ''&Value'' (IE DEF_RICaction_ToBeSetup_Item), ioc_value ''&presence'' (IE DEF_Presence) 2]\<rparr>"

definition asn_IOS_RICaction_Admitted_ItemIEs :: ioc_set where
  "asn_IOS_RICaction_Admitted_ItemIEs = \<lparr>ioc_rows_count = 1, ioc_columns_count = 4, ioc_rows =
    [ioc_value ''&id'' (IE DEF_ProtocolIE_ID) 14, ioc_value ''&criticality'' (IE DEF_Criticality) 1,
      ioc_type ''&Value'' (IE DEF_RICaction_Admitted_Item), ioc_value ''&presence'' (IE DEF_Presence) 2]\<rparr>"

definition asn_IOS_RICaction_NotAdmitted_ItemIEs :: ioc_set where
  "asn_IOS_RICaction_NotAdmitted_ItemIEs = \<lparr>ioc_rows_count = 1, ioc_columns_count = 4, ioc_rows =
    [ioc_value ''&id'' (IE DEF_ProtocolIE_ID) 16, ioc_value ''&criticality'' (IE DEF_Criticality) 1,
      ioc_type ''&Value'' (IE DEF_RICaction_NotAdmitted_Item), ioc_value ''&presence'' (IE DEF_Presence) 2]\<rparr>"

definition asn_IOS_RANfunction_ItemIEs :: ioc_set where
  "asn_IOS_RANfunction_ItemIEs = \<lparr>ioc_rows_count = 1, ioc_columns_count = 4, ioc_rows =
    [ioc_value ''&id'' (IE DEF_ProtocolIE_ID) 8, ioc_value ''&criticality'' (IE DEF_Criticality) 1,
      ioc_type ''&Value'' (IE DEF_RANfunction_Item), ioc_value ''&presence'' (IE DEF_Presence) 2]\<rparr>"

definition asn_IOS_RANfunctionID_ItemIEs :: ioc_set where
  "asn_IOS_RANfunctionID_ItemIEs = \<lparr>ioc_rows_count = 1, ioc_columns_count = 4, ioc_rows =
    [ioc_value ''&id'' (IE DEF_ProtocolIE_ID) 6, ioc_value ''&criticality'' (IE DEF_Criticality) 1,
      ioc_type ''&Value'' (IE DEF_RANfunctionID_Item), ioc_value ''&presence'' (IE DEF_Presence) 2]\<rparr>"

definition asn_IOS_RANfunctionIDcause_ItemIEs :: ioc_set where
  "asn_IOS_RANfunctionIDcause_ItemIEs = \<lparr>ioc_rows_count = 1, ioc_columns_count = 4, ioc_rows =
    [ioc_value ''&id'' (IE DEF_ProtocolIE_ID) 7, ioc_value ''&criticality'' (IE DEF_Criticality) 1,
      ioc_type ''&Value'' (IE DEF_RANfunctionIDcause_Item), ioc_value ''&presence'' (IE DEF_Presence) 2]\<rparr>"

definition asn_IOS_RICsubscriptionRequest_IEs :: ioc_set where
  "asn_IOS_RICsubscriptionRequest_IEs = \<lparr>ioc_rows_count = 3, ioc_columns_count = 4, ioc_rows =
    [ioc_value ''&id'' (IE DEF_ProtocolIE_ID) 29, ioc_value ''&criticality'' (IE DEF_Criticality) 0,
      ioc_type ''&Value'' (IE DEF_RICrequestID), ioc_value ''&presence'' (IE DEF_Presence) 2,
     ioc_value ''&id'' (IE DEF_ProtocolIE_ID) 5, ioc_value ''&criticality'' (IE DEF_Criticality) 0,
      ioc_type ''&Value'' (IE DEF_RANfunctionID), ioc_value ''&presence'' (IE DEF_Presence) 2,
     ioc_value ''&id'' (IE DEF_ProtocolIE_ID) 30, ioc_value ''&criticality'' (IE DEF_Criticality) 0,
      ioc_type ''&Value'' (IE DEF_RICsubscriptionDetails), ioc_value ''&presence'' (IE DEF_Presence) 2]\<rparr>"

definition asn_IOS_RICsubscriptionResponse_IEs :: ioc_set where
  "asn_IOS_RICsubscriptionResponse_IEs = \<lparr>ioc_rows_count = 4, ioc_columns_count = 4, ioc_rows =
    [ioc_value ''&id'' (IE DEF_ProtocolIE_ID) 29, ioc_value ''&criticality'' (IE DEF_Criticality) 0,
      ioc_type ''&Value'' (IE DEF_RICrequestID), ioc_value ''&presence'' (IE DEF_Presence) 2,
     ioc_value ''&id'' (IE DEF_ProtocolIE_ID) 5, ioc_value ''&criticality'' (IE DEF_Criticality) 0,
      ioc_type ''&Value'' (IE DEF_RANfunctionID), ioc_value ''&presence'' (IE DEF_Presence) 2,
     ioc_value ''&id'' (IE DEF_ProtocolIE_ID) 17, ioc_value ''&criticality'' (IE DEF_Criticality) 0,
      ioc_type ''&Value'' (IE DEF_RICaction_Admitted_List), ioc_value ''&presence'' (IE DEF_Presence) 2,
     ioc_value ''&id'' (IE DEF_ProtocolIE_ID) 18, ioc_value ''&criticality'' (IE DEF_Criticality) 0,
      ioc_type ''&Value'' (IE DEF_RICaction_NotAdmitted_List), ioc_value ''&presence'' (IE DEF_Presence) 0]\<rparr>"

definition asn_IOS_RICsubscriptionFailure_IEs :: ioc_set where
  "asn_IOS_RICsubscriptionFailure_IEs = \<lparr>ioc_rows_count = 4, ioc_columns_count = 4, ioc_rows =
    [ioc_value ''&id'' (IE DEF_ProtocolIE_ID) 29, ioc_value ''&criticality'' (IE DEF_Criticality) 0,
      ioc_type ''&Value'' (IE DEF_RICrequestID), ioc_value ''&presence'' (IE DEF_Presence) 2,
     ioc_value ''&id'' (IE DEF_ProtocolIE_ID) 5, ioc_value ''&criticality'' (IE DEF_Criticality) 0,
      ioc_type ''&Value'' (IE DEF_RANfunctionID), ioc_value ''&presence'' (IE DEF_Presence) 2,
     ioc_value ''&id'' (IE DEF_ProtocolIE_ID) 18, ioc_value ''&criticality'' (IE DEF_Criticality) 0,
      ioc_type ''&Value'' (IE DEF_RICaction_NotAdmitted_List), ioc_value ''&presence'' (IE DEF_Presence) 2,
     ioc_value ''&id'' (IE DEF_ProtocolIE_ID) 2, ioc_value ''&criticality'' (IE DEF_Criticality) 1,
      ioc_type ''&Value'' (IE DEF_CriticalityDiagnostics), ioc_value ''&presence'' (IE DEF_Presence) 0]\<rparr>"

definition asn_IOS_RICsubscriptionDeleteRequest_IEs :: ioc_set where
  "asn_IOS_RICsubscriptionDeleteRequest_IEs = \<lparr>ioc_rows_count = 2, ioc_columns_count = 4, ioc_rows =
    [ioc_value ''&id'' (IE DEF_ProtocolIE_ID) 29, ioc_value ''&criticality'' (IE DEF_Criticality) 0,
      ioc_type ''&Value'' (IE DEF_RICrequestID), ioc_value ''&presence'' (IE DEF_Presence) 2,
     ioc_value ''&id'' (IE DEF_ProtocolIE_ID) 5, ioc_value ''&criticality'' (IE DEF_Criticality) 0,
      ioc_type ''&Value'' (IE DEF_RANfunctionID), ioc_value ''&presence'' (IE DEF_Presence) 2]\<rparr>"

definition asn_IOS_RICsubscriptionDeleteResponse_IEs :: ioc_set where
  "asn_IOS_RICsubscriptionDeleteResponse_IEs = \<lparr>ioc_rows_count = 2, ioc_columns_count = 4, ioc_rows =
    [ioc_value ''&id'' (IE DEF_ProtocolIE_ID) 29, ioc_value ''&criticality'' (IE DEF_Criticality) 0,
      ioc_type ''&Value'' (IE DEF_RICrequestID), ioc_value ''&presence'' (IE DEF_Presence) 2,
     ioc_value ''&id'' (IE DEF_ProtocolIE_ID) 5, ioc_value ''&criticality'' (IE DEF_Criticality) 0,
      ioc_type ''&Value'' (IE DEF_RANfunctionID), ioc_value ''&presence'' (IE DEF_Presence) 2]\<rparr>"

definition asn_IOS_RICsubscriptionDeleteFailure_IEs :: ioc_set where
  "asn_IOS_RICsubscriptionDeleteFailure_IEs = \<lparr>ioc_rows_count = 4, ioc_columns_count = 4, ioc_rows =
    [ioc_value ''&id'' (IE DEF_ProtocolIE_ID) 29, ioc_value ''&criticality'' (IE DEF_Criticality) 0,
      ioc_type ''&Value'' (IE DEF_RICrequestID), ioc_value ''&presence'' (IE DEF_Presence) 2,
     ioc_value ''&id'' (IE DEF_ProtocolIE_ID) 5, ioc_value ''&criticality'' (IE DEF_Criticality) 0,
      ioc_type ''&Value'' (IE DEF_RANfunctionID), ioc_value ''&presence'' (IE DEF_Presence) 2,
     ioc_value ''&id'' (IE DEF_ProtocolIE_ID) 1, ioc_value ''&criticality'' (IE DEF_Criticality) 1,
      ioc_type ''&Value'' (IE DEF_Cause), ioc_value ''&presence'' (IE DEF_Presence) 2,
     ioc_value ''&id'' (IE DEF_ProtocolIE_ID) 2, ioc_value ''&criticality'' (IE DEF_Criticality) 1,
      ioc_type ''&Value'' (IE DEF_CriticalityDiagnostics), ioc_value ''&presence'' (IE DEF_Presence) 0]\<rparr>"

definition asn_IOS_RICindication_IEs :: ioc_set where
  "asn_IOS_RICindication_IEs = \<lparr>ioc_rows_count = 8, ioc_columns_count = 4, ioc_rows =
    [ioc_value ''&id'' (IE DEF_ProtocolIE_ID) 29, ioc_value ''&criticality'' (IE DEF_Criticality) 0,
      ioc_type ''&Value'' (IE DEF_RICrequestID), ioc_value ''&presence'' (IE DEF_Presence) 2,
     ioc_value ''&id'' (IE DEF_ProtocolIE_ID) 5, ioc_value ''&criticality'' (IE DEF_Criticality) 0,
      ioc_type ''&Value'' (IE DEF_RANfunctionID), ioc_value ''&presence'' (IE DEF_Presence) 2,
     ioc_value ''&id'' (IE DEF_ProtocolIE_ID) 15, ioc_value ''&criticality'' (IE DEF_Criticality) 0,
      ioc_type ''&Value'' (IE DEF_RICactionID), ioc_value ''&presence'' (IE DEF_Presence) 2,
     ioc_value ''&id'' (IE DEF_ProtocolIE_ID) 27, ioc_value ''&criticality'' (IE DEF_Criticality) 0,
      ioc_type ''&Value'' (IE DEF_RICindicationSN), ioc_value ''&presence'' (IE DEF_Presence) 0,
     ioc_value ''&id'' (IE DEF_ProtocolIE_ID) 28, ioc_value ''&criticality'' (IE DEF_Criticality) 0,
      ioc_type ''&Value'' (IE DEF_RICindicationType), ioc_value ''&presence'' (IE DEF_Presence) 2,
     ioc_value ''&id'' (IE DEF_ProtocolIE_ID) 25, ioc_value ''&criticality'' (IE DEF_Criticality) 0,
      ioc_type ''&Value'' (IE DEF_RICindicationHeader), ioc_value ''&presence'' (IE DEF_Presence) 2,
     ioc_value ''&id'' (IE DEF_ProtocolIE_ID) 26, ioc_value ''&criticality'' (IE DEF_Criticality) 0,
      ioc_type ''&Value'' (IE DEF_RICindicationMessage), ioc_value ''&presence'' (IE DEF_Presence) 2,
     ioc_value ''&id'' (IE DEF_ProtocolIE_ID) 20, ioc_value ''&criticality'' (IE DEF_Criticality) 0,
      ioc_type ''&Value'' (IE DEF_RICcallProcessID), ioc_value ''&presence'' (IE DEF_Presence) 0]\<rparr>"

definition asn_IOS_RICcontrolRequest_IEs :: ioc_set where
  "asn_IOS_RICcontrolRequest_IEs = \<lparr>ioc_rows_count = 6, ioc_columns_count = 4, ioc_rows =
    [ioc_value ''&id'' (IE DEF_ProtocolIE_ID) 29, ioc_value ''&criticality'' (IE DEF_Criticality) 0,
      ioc_type ''&Value'' (IE DEF_RICrequestID), ioc_value ''&presence'' (IE DEF_Presence) 2,
     ioc_value ''&id'' (IE DEF_ProtocolIE_ID) 5, ioc_value ''&criticality'' (IE DEF_Criticality) 0,
      ioc_type ''&Value'' (IE DEF_RANfunctionID), ioc_value ''&presence'' (IE DEF_Presence) 2,
     ioc_value ''&id'' (IE DEF_ProtocolIE_ID) 20, ioc_value ''&criticality'' (IE DEF_Criticality) 0,
      ioc_type ''&Value'' (IE DEF_RICcallProcessID), ioc_value ''&presence'' (IE DEF_Presence) 0,
     ioc_value ''&id'' (IE DEF_ProtocolIE_ID) 22, ioc_value ''&criticality'' (IE DEF_Criticality) 0,
      ioc_type ''&Value'' (IE DEF_RICcontrolHeader), ioc_value ''&presence'' (IE DEF_Presence) 2,
     ioc_value ''&id'' (IE DEF_ProtocolIE_ID) 23, ioc_value ''&criticality'' (IE DEF_Criticality) 0,
      ioc_type ''&Value'' (IE DEF_RICcontrolMessage), ioc_value ''&presence'' (IE DEF_Presence) 2,
     ioc_value ''&id'' (IE DEF_ProtocolIE_ID) 21, ioc_value ''&criticality'' (IE DEF_Criticality) 0,
      ioc_type ''&Value'' (IE DEF_RICcontrolAckRequest), ioc_value ''&presence'' (IE DEF_Presence) 0]\<rparr>"

definition asn_IOS_RICcontrolAcknowledge_IEs :: ioc_set where
  "asn_IOS_RICcontrolAcknowledge_IEs = \<lparr>ioc_rows_count = 5, ioc_columns_count = 4, ioc_rows =
    [ioc_value ''&id'' (IE DEF_ProtocolIE_ID) 29, ioc_value ''&criticality'' (IE DEF_Criticality) 0,
      ioc_type ''&Value'' (IE DEF_RICrequestID), ioc_value ''&presence'' (IE DEF_Presence) 2,
     ioc_value ''&id'' (IE DEF_ProtocolIE_ID) 5, ioc_value ''&criticality'' (IE DEF_Criticality) 0,
      ioc_type ''&Value'' (IE DEF_RANfunctionID), ioc_value ''&presence'' (IE DEF_Presence) 2,
     ioc_value ''&id'' (IE DEF_ProtocolIE_ID) 20, ioc_value ''&criticality'' (IE DEF_Criticality) 0,
      ioc_type ''&Value'' (IE DEF_RICcallProcessID), ioc_value ''&presence'' (IE DEF_Presence) 0,
     ioc_value ''&id'' (IE DEF_ProtocolIE_ID) 24, ioc_value ''&criticality'' (IE DEF_Criticality) 0,
      ioc_type ''&Value'' (IE DEF_RICcontrolStatus), ioc_value ''&presence'' (IE DEF_Presence) 2,
     ioc_value ''&id'' (IE DEF_ProtocolIE_ID) 32, ioc_value ''&criticality'' (IE DEF_Criticality) 0,
      ioc_type ''&Value'' (IE DEF_RICcontrolOutcome), ioc_value ''&presence'' (IE DEF_Presence) 0]\<rparr>"

definition asn_IOS_RICcontrolFailure_IEs :: ioc_set where
  "asn_IOS_RICcontrolFailure_IEs = \<lparr>ioc_rows_count = 5, ioc_columns_count = 4, ioc_rows =
    [ioc_value ''&id'' (IE DEF_ProtocolIE_ID) 29, ioc_value ''&criticality'' (IE DEF_Criticality) 0,
      ioc_type ''&Value'' (IE DEF_RICrequestID), ioc_value ''&presence'' (IE DEF_Presence) 2,
     ioc_value ''&id'' (IE DEF_ProtocolIE_ID) 5, ioc_value ''&criticality'' (IE DEF_Criticality) 0,
      ioc_type ''&Value'' (IE DEF_RANfunctionID), ioc_value ''&presence'' (IE DEF_Presence) 2,
     ioc_value ''&id'' (IE DEF_ProtocolIE_ID) 20, ioc_value ''&criticality'' (IE DEF_Criticality) 0,
      ioc_type ''&Value'' (IE DEF_RICcallProcessID), ioc_value ''&presence'' (IE DEF_Presence) 0,
     ioc_value ''&id'' (IE DEF_ProtocolIE_ID) 1, ioc_value ''&criticality'' (IE DEF_Criticality) 1,
      ioc_type ''&Value'' (IE DEF_Cause), ioc_value ''&presence'' (IE DEF_Presence) 2,
     ioc_value ''&id'' (IE DEF_ProtocolIE_ID) 32, ioc_value ''&criticality'' (IE DEF_Criticality) 0,
      ioc_type ''&Value'' (IE DEF_RICcontrolOutcome), ioc_value ''&presence'' (IE DEF_Presence) 0]\<rparr>"

definition asn_IOS_ErrorIndication_IEs :: ioc_set where
  "asn_IOS_ErrorIndication_IEs = \<lparr>ioc_rows_count = 4, ioc_columns_count = 4, ioc_rows =
    [ioc_value ''&id'' (IE DEF_ProtocolIE_ID) 29, ioc_value ''&criticality'' (IE DEF_Criticality) 0,
      ioc_type ''&Value'' (IE DEF_RICrequestID), ioc_value ''&presence'' (IE DEF_Presence) 0,
     ioc_value ''&id'' (IE DEF_ProtocolIE_ID) 5, ioc_value ''&criticality'' (IE DEF_Criticality) 0,
      ioc_type ''&Value'' (IE DEF_RANfunctionID), ioc_value ''&presence'' (IE DEF_Presence) 0,
     ioc_value ''&id'' (IE DEF_ProtocolIE_ID) 1, ioc_value ''&criticality'' (IE DEF_Criticality) 1,
      ioc_type ''&Value'' (IE DEF_Cause), ioc_value ''&presence'' (IE DEF_Presence) 0,
     ioc_value ''&id'' (IE DEF_ProtocolIE_ID) 2, ioc_value ''&criticality'' (IE DEF_Criticality) 1,
      ioc_type ''&Value'' (IE DEF_CriticalityDiagnostics), ioc_value ''&presence'' (IE DEF_Presence) 0]\<rparr>"

definition asn_IOS_E2setupRequestIEs :: ioc_set where
  "asn_IOS_E2setupRequestIEs = \<lparr>ioc_rows_count = 2, ioc_columns_count = 4, ioc_rows =
    [ioc_value ''&id'' (IE DEF_ProtocolIE_ID) 3, ioc_value ''&criticality'' (IE DEF_Criticality) 0,
      ioc_type ''&Value'' (IE DEF_GlobalE2node_ID), ioc_value ''&presence'' (IE DEF_Presence) 2,
     ioc_value ''&id'' (IE DEF_ProtocolIE_ID) 10, ioc_value ''&criticality'' (IE DEF_Criticality) 0,
      ioc_type ''&Value'' (IE DEF_RANfunctions_List), ioc_value ''&presence'' (IE DEF_Presence) 0]\<rparr>"

definition asn_IOS_E2setupResponseIEs :: ioc_set where
  "asn_IOS_E2setupResponseIEs = \<lparr>ioc_rows_count = 3, ioc_columns_count = 4, ioc_rows =
    [ioc_value ''&id'' (IE DEF_ProtocolIE_ID) 4, ioc_value ''&criticality'' (IE DEF_Criticality) 0,
      ioc_type ''&Value'' (IE DEF_GlobalRIC_ID), ioc_value ''&presence'' (IE DEF_Presence) 2,
     ioc_value ''&id'' (IE DEF_ProtocolIE_ID) 9, ioc_value ''&criticality'' (IE DEF_Criticality) 0,
      ioc_type ''&Value'' (IE DEF_RANfunctionsID_List), ioc_value ''&presence'' (IE DEF_Presence) 0,
     ioc_value ''&id'' (IE DEF_ProtocolIE_ID) 13, ioc_value ''&criticality'' (IE DEF_Criticality) 0,
      ioc_type ''&Value'' (IE DEF_RANfunctionsIDcause_List), ioc_value ''&presence'' (IE DEF_Presence) 0]\<rparr>"

definition asn_IOS_E2setupFailureIEs :: ioc_set where
  "asn_IOS_E2setupFailureIEs = \<lparr>ioc_rows_count = 3, ioc_columns_count = 4, ioc_rows =
    [ioc_value ''&id'' (IE DEF_ProtocolIE_ID) 1, ioc_value ''&criticality'' (IE DEF_Criticality) 1,
      ioc_type ''&Value'' (IE DEF_Cause), ioc_value ''&presence'' (IE DEF_Presence) 2,
     ioc_value ''&id'' (IE DEF_ProtocolIE_ID) 31, ioc_value ''&criticality'' (IE DEF_Criticality) 1,
      ioc_type ''&Value'' (IE DEF_TimeToWait), ioc_value ''&presence'' (IE DEF_Presence) 0,
     ioc_value ''&id'' (IE DEF_ProtocolIE_ID) 2, ioc_value ''&criticality'' (IE DEF_Criticality) 1,
      ioc_type ''&Value'' (IE DEF_CriticalityDiagnostics), ioc_value ''&presence'' (IE DEF_Presence) 0]\<rparr>"

definition asn_IOS_ResetRequestIEs :: ioc_set where
  "asn_IOS_ResetRequestIEs = \<lparr>ioc_rows_count = 1, ioc_columns_count = 4, ioc_rows =
    [ioc_value ''&id'' (IE DEF_ProtocolIE_ID) 1, ioc_value ''&criticality'' (IE DEF_Criticality) 1,
      ioc_type ''&Value'' (IE DEF_Cause), ioc_value ''&presence'' (IE DEF_Presence) 2]\<rparr>"

definition asn_IOS_ResetResponseIEs :: ioc_set where
  "asn_IOS_ResetResponseIEs = \<lparr>ioc_rows_count = 1, ioc_columns_count = 4, ioc_rows =
    [ioc_value ''&id'' (IE DEF_ProtocolIE_ID) 2, ioc_value ''&criticality'' (IE DEF_Criticality) 1,
      ioc_type ''&Value'' (IE DEF_CriticalityDiagnostics), ioc_value ''&presence'' (IE DEF_Presence) 0]\<rparr>"

definition asn_IOS_RICserviceUpdate_IEs :: ioc_set where
  "asn_IOS_RICserviceUpdate_IEs = \<lparr>ioc_rows_count = 3, ioc_columns_count = 4, ioc_rows =
    [ioc_value ''&id'' (IE DEF_ProtocolIE_ID) 10, ioc_value ''&criticality'' (IE DEF_Criticality) 0,
      ioc_type ''&Value'' (IE DEF_RANfunctions_List), ioc_value ''&presence'' (IE DEF_Presence) 0,
     ioc_value ''&id'' (IE DEF_ProtocolIE_ID) 12, ioc_value ''&criticality'' (IE DEF_Criticality) 0,
      ioc_type ''&Value'' (IE DEF_RANfunctions_List), ioc_value ''&presence'' (IE DEF_Presence) 0,
     ioc_value ''&id'' (IE DEF_ProtocolIE_ID) 11, ioc_value ''&criticality'' (IE DEF_Criticality) 0,
      ioc_type ''&Value'' (IE DEF_RANfunctionsID_List), ioc_value ''&presence'' (IE DEF_Presence) 0]\<rparr>"

definition asn_IOS_RICserviceUpdateAcknowledge_IEs :: ioc_set where
  "asn_IOS_RICserviceUpdateAcknowledge_IEs = \<lparr>ioc_rows_count = 2, ioc_columns_count = 4, ioc_rows =
    [ioc_value ''&id'' (IE DEF_ProtocolIE_ID) 9, ioc_value ''&criticality'' (IE DEF_Criticality) 0,
      ioc_type ''&Value'' (IE DEF_RANfunctionsID_List), ioc_value ''&presence'' (IE DEF_Presence) 0,
     ioc_value ''&id'' (IE DEF_ProtocolIE_ID) 13, ioc_value ''&criticality'' (IE DEF_Criticality) 0,
      ioc_type ''&Value'' (IE DEF_RANfunctionsIDcause_List), ioc_value ''&presence'' (IE DEF_Presence) 0]\<rparr>"

definition asn_IOS_RICserviceUpdateFailure_IEs :: ioc_set where
  "asn_IOS_RICserviceUpdateFailure_IEs = \<lparr>ioc_rows_count = 3, ioc_columns_count = 4, ioc_rows =
    [ioc_value ''&id'' (IE DEF_ProtocolIE_ID) 13, ioc_value ''&criticality'' (IE DEF_Criticality) 1,
      ioc_type ''&Value'' (IE DEF_RANfunctionsIDcause_List), ioc_value ''&presence'' (IE DEF_Presence) 0,
     ioc_value ''&id'' (IE DEF_ProtocolIE_ID) 31, ioc_value ''&criticality'' (IE DEF_Criticality) 1,
      ioc_type ''&Value'' (IE DEF_TimeToWait), ioc_value ''&presence'' (IE DEF_Presence) 0,
     ioc_value ''&id'' (IE DEF_ProtocolIE_ID) 2, ioc_value ''&criticality'' (IE DEF_Criticality) 1,
      ioc_type ''&Value'' (IE DEF_CriticalityDiagnostics), ioc_value ''&presence'' (IE DEF_Presence) 0]\<rparr>"

definition asn_IOS_RICserviceQuery_IEs :: ioc_set where
  "asn_IOS_RICserviceQuery_IEs = \<lparr>ioc_rows_count = 1, ioc_columns_count = 4, ioc_rows =
    [ioc_value ''&id'' (IE DEF_ProtocolIE_ID) 9, ioc_value ''&criticality'' (IE DEF_Criticality) 0,
      ioc_type ''&Value'' (IE DEF_RANfunctionsID_List), ioc_value ''&presence'' (IE DEF_Presence) 0]\<rparr>"

definition select_RICaction_ToBeSetup_ItemIEs_criticality_type :: "int \<Rightarrow> asn_DEF option \<times> nat" where
  "select_RICaction_ToBeSetup_ItemIEs_criticality_type = select_type asn_IOS_RICaction_ToBeSetup_ItemIEs 0 1"

definition select_RICaction_ToBeSetup_ItemIEs_value_type :: "int \<Rightarrow> asn_DEF option \<times> nat" where
  "select_RICaction_ToBeSetup_ItemIEs_value_type = select_type asn_IOS_RICaction_ToBeSetup_ItemIEs 0 2"

definition asn_MBR_RICaction_ToBeSetup_ItemIEs_value :: "(string \<times> asn_DEF) list" where
  "asn_MBR_RICaction_ToBeSetup_ItemIEs_value =
    [(''RICaction_ToBeSetup_Item'', IE DEF_RICaction_ToBeSetup_Item)]"

definition RICaction_ToBeSetup_ItemIEs__value_PR :: "string list" where
  "RICaction_ToBeSetup_ItemIEs__value_PR =
    [''NOTHING'', ''RICaction_ToBeSetup_Item'']"

definition select_RICaction_Admitted_ItemIEs_criticality_type :: "int \<Rightarrow> asn_DEF option \<times> nat" where
  "select_RICaction_Admitted_ItemIEs_criticality_type = select_type asn_IOS_RICaction_Admitted_ItemIEs 0 1"

definition select_RICaction_Admitted_ItemIEs_value_type :: "int \<Rightarrow> asn_DEF option \<times> nat" where
  "select_RICaction_Admitted_ItemIEs_value_type = select_type asn_IOS_RICaction_Admitted_ItemIEs 0 2"

definition asn_MBR_RICaction_Admitted_ItemIEs_value :: "(string \<times> asn_DEF) list" where
  "asn_MBR_RICaction_Admitted_ItemIEs_value =
    [(''RICaction_Admitted_Item'', IE DEF_RICaction_Admitted_Item)]"

definition RICaction_Admitted_ItemIEs__value_PR :: "string list" where
  "RICaction_Admitted_ItemIEs__value_PR =
    [''NOTHING'', ''RICaction_Admitted_Item'']"

definition select_RICaction_NotAdmitted_ItemIEs_criticality_type :: "int \<Rightarrow> asn_DEF option \<times> nat" where
  "select_RICaction_NotAdmitted_ItemIEs_criticality_type = select_type asn_IOS_RICaction_NotAdmitted_ItemIEs 0 1"

definition select_RICaction_NotAdmitted_ItemIEs_value_type :: "int \<Rightarrow> asn_DEF option \<times> nat" where
  "select_RICaction_NotAdmitted_ItemIEs_value_type = select_type asn_IOS_RICaction_NotAdmitted_ItemIEs 0 2"

definition asn_MBR_RICaction_NotAdmitted_ItemIEs_value :: "(string \<times> asn_DEF) list" where
  "asn_MBR_RICaction_NotAdmitted_ItemIEs_value =
    [(''RICaction_NotAdmitted_Item'', IE DEF_RICaction_NotAdmitted_Item)]"

definition RICaction_NotAdmitted_ItemIEs__value_PR :: "string list" where
  "RICaction_NotAdmitted_ItemIEs__value_PR =
    [''NOTHING'', ''RICaction_NotAdmitted_Item'']"

definition select_RANfunction_ItemIEs_criticality_type :: "int \<Rightarrow> asn_DEF option \<times> nat" where
  "select_RANfunction_ItemIEs_criticality_type = select_type asn_IOS_RANfunction_ItemIEs 0 1"

definition select_RANfunction_ItemIEs_value_type :: "int \<Rightarrow> asn_DEF option \<times> nat" where
  "select_RANfunction_ItemIEs_value_type = select_type asn_IOS_RANfunction_ItemIEs 0 2"

definition asn_MBR_RANfunction_ItemIEs_value :: "(string \<times> asn_DEF) list" where
  "asn_MBR_RANfunction_ItemIEs_value =
    [(''RANfunction_Item'', IE DEF_RANfunction_Item)]"

definition RANfunction_ItemIEs__value_PR :: "string list" where
  "RANfunction_ItemIEs__value_PR =
    [''NOTHING'', ''RANfunction_Item'']"

definition select_RANfunctionID_ItemIEs_criticality_type :: "int \<Rightarrow> asn_DEF option \<times> nat" where
  "select_RANfunctionID_ItemIEs_criticality_type = select_type asn_IOS_RANfunctionID_ItemIEs 0 1"

definition select_RANfunctionID_ItemIEs_value_type :: "int \<Rightarrow> asn_DEF option \<times> nat" where
  "select_RANfunctionID_ItemIEs_value_type = select_type asn_IOS_RANfunctionID_ItemIEs 0 2"

definition asn_MBR_RANfunctionID_ItemIEs_value :: "(string \<times> asn_DEF) list" where
  "asn_MBR_RANfunctionID_ItemIEs_value =
    [(''RANfunctionID_Item'', IE DEF_RANfunctionID_Item)]"

definition RANfunctionID_ItemIEs__value_PR :: "string list" where
  "RANfunctionID_ItemIEs__value_PR =
    [''NOTHING'', ''RANfunctionID_Item'']"

definition select_RANfunctionIDcause_ItemIEs_criticality_type :: "int \<Rightarrow> asn_DEF option \<times> nat" where
  "select_RANfunctionIDcause_ItemIEs_criticality_type = select_type asn_IOS_RANfunctionIDcause_ItemIEs 0 1"

definition select_RANfunctionIDcause_ItemIEs_value_type :: "int \<Rightarrow> asn_DEF option \<times> nat" where
  "select_RANfunctionIDcause_ItemIEs_value_type = select_type asn_IOS_RANfunctionIDcause_ItemIEs 0 2"

definition asn_MBR_RANfunctionIDcause_ItemIEs_value :: "(string \<times> asn_DEF) list" where
  "asn_MBR_RANfunctionIDcause_ItemIEs_value =
    [(''RANfunctionIDcause_Item'', IE DEF_RANfunctionIDcause_Item)]"

definition RANfunctionIDcause_ItemIEs__value_PR :: "string list" where
  "RANfunctionIDcause_ItemIEs__value_PR =
    [''NOTHING'', ''RANfunctionIDcause_Item'']"

definition select_RICsubscriptionRequest_IEs_criticality_type :: "int \<Rightarrow> asn_DEF option \<times> nat" where
  "select_RICsubscriptionRequest_IEs_criticality_type = select_type asn_IOS_RICsubscriptionRequest_IEs 0 1"

definition select_RICsubscriptionRequest_IEs_value_type :: "int \<Rightarrow> asn_DEF option \<times> nat" where
  "select_RICsubscriptionRequest_IEs_value_type = select_type asn_IOS_RICsubscriptionRequest_IEs 0 2"

definition asn_MBR_RICsubscriptionRequest_IEs_value :: "(string \<times> asn_DEF) list" where
  "asn_MBR_RICsubscriptionRequest_IEs_value =
    [(''RICrequestID'', IE DEF_RICrequestID), (''RANfunctionID'', IE DEF_RANfunctionID),
     (''RICsubscriptionDetails'', IE DEF_RICsubscriptionDetails)]"

definition RICsubscriptionRequest_IEs__value_PR :: "string list" where
  "RICsubscriptionRequest_IEs__value_PR =
    [''NOTHING'', ''RICrequestID'', ''RANfunctionID'', ''RICsubscriptionDetails'']"

definition select_RICsubscriptionResponse_IEs_criticality_type :: "int \<Rightarrow> asn_DEF option \<times> nat" where
  "select_RICsubscriptionResponse_IEs_criticality_type = select_type asn_IOS_RICsubscriptionResponse_IEs 0 1"

definition select_RICsubscriptionResponse_IEs_value_type :: "int \<Rightarrow> asn_DEF option \<times> nat" where
  "select_RICsubscriptionResponse_IEs_value_type = select_type asn_IOS_RICsubscriptionResponse_IEs 0 2"

definition asn_MBR_RICsubscriptionResponse_IEs_value :: "(string \<times> asn_DEF) list" where
  "asn_MBR_RICsubscriptionResponse_IEs_value =
    [(''RICrequestID'', IE DEF_RICrequestID), (''RANfunctionID'', IE DEF_RANfunctionID),
     (''RICaction_Admitted_List'', IE DEF_RICaction_Admitted_List),
     (''RICaction_NotAdmitted_List'', IE DEF_RICaction_NotAdmitted_List)]"

definition RICsubscriptionResponse_IEs__value_PR :: "string list" where
  "RICsubscriptionResponse_IEs__value_PR =
    [''NOTHING'', ''RICrequestID'', ''RANfunctionID'', ''RICaction_Admitted_List'',
     ''RICaction_NotAdmitted_List'']"

definition select_RICsubscriptionFailure_IEs_criticality_type :: "int \<Rightarrow> asn_DEF option \<times> nat" where
  "select_RICsubscriptionFailure_IEs_criticality_type = select_type asn_IOS_RICsubscriptionFailure_IEs 0 1"

definition select_RICsubscriptionFailure_IEs_value_type :: "int \<Rightarrow> asn_DEF option \<times> nat" where
  "select_RICsubscriptionFailure_IEs_value_type = select_type asn_IOS_RICsubscriptionFailure_IEs 0 2"

definition asn_MBR_RICsubscriptionFailure_IEs_value :: "(string \<times> asn_DEF) list" where
  "asn_MBR_RICsubscriptionFailure_IEs_value =
    [(''RICrequestID'', IE DEF_RICrequestID), (''RANfunctionID'', IE DEF_RANfunctionID),
     (''RICaction_NotAdmitted_List'', IE DEF_RICaction_NotAdmitted_List),
     (''CriticalityDiagnostics'', IE DEF_CriticalityDiagnostics)]"

definition RICsubscriptionFailure_IEs__value_PR :: "string list" where
  "RICsubscriptionFailure_IEs__value_PR =
    [''NOTHING'', ''RICrequestID'', ''RANfunctionID'', ''RICaction_NotAdmitted_List'',
     ''CriticalityDiagnostics'']"

definition select_RICsubscriptionDeleteRequest_IEs_criticality_type :: "int \<Rightarrow> asn_DEF option \<times> nat" where
  "select_RICsubscriptionDeleteRequest_IEs_criticality_type = select_type asn_IOS_RICsubscriptionDeleteRequest_IEs 0 1"

definition select_RICsubscriptionDeleteRequest_IEs_value_type :: "int \<Rightarrow> asn_DEF option \<times> nat" where
  "select_RICsubscriptionDeleteRequest_IEs_value_type = select_type asn_IOS_RICsubscriptionDeleteRequest_IEs 0 2"

definition asn_MBR_RICsubscriptionDeleteRequest_IEs_value :: "(string \<times> asn_DEF) list" where
  "asn_MBR_RICsubscriptionDeleteRequest_IEs_value =
    [(''RICrequestID'', IE DEF_RICrequestID), (''RANfunctionID'', IE DEF_RANfunctionID)]"

definition RICsubscriptionDeleteRequest_IEs__value_PR :: "string list" where
  "RICsubscriptionDeleteRequest_IEs__value_PR =
    [''NOTHING'', ''RICrequestID'', ''RANfunctionID'']"

definition select_RICsubscriptionDeleteResponse_IEs_criticality_type :: "int \<Rightarrow> asn_DEF option \<times> nat" where
  "select_RICsubscriptionDeleteResponse_IEs_criticality_type = select_type asn_IOS_RICsubscriptionDeleteResponse_IEs 0 1"

definition select_RICsubscriptionDeleteResponse_IEs_value_type :: "int \<Rightarrow> asn_DEF option \<times> nat" where
  "select_RICsubscriptionDeleteResponse_IEs_value_type = select_type asn_IOS_RICsubscriptionDeleteResponse_IEs 0 2"

definition asn_MBR_RICsubscriptionDeleteResponse_IEs_value :: "(string \<times> asn_DEF) list" where
  "asn_MBR_RICsubscriptionDeleteResponse_IEs_value =
    [(''RICrequestID'', IE DEF_RICrequestID), (''RANfunctionID'', IE DEF_RANfunctionID)]"

definition RICsubscriptionDeleteResponse_IEs__value_PR :: "string list" where
  "RICsubscriptionDeleteResponse_IEs__value_PR =
    [''NOTHING'', ''RICrequestID'', ''RANfunctionID'']"

definition select_RICsubscriptionDeleteFailure_IEs_criticality_type :: "int \<Rightarrow> asn_DEF option \<times> nat" where
  "select_RICsubscriptionDeleteFailure_IEs_criticality_type = select_type asn_IOS_RICsubscriptionDeleteFailure_IEs 0 1"

definition select_RICsubscriptionDeleteFailure_IEs_value_type :: "int \<Rightarrow> asn_DEF option \<times> nat" where
  "select_RICsubscriptionDeleteFailure_IEs_value_type = select_type asn_IOS_RICsubscriptionDeleteFailure_IEs 0 2"

definition asn_MBR_RICsubscriptionDeleteFailure_IEs_value :: "(string \<times> asn_DEF) list" where
  "asn_MBR_RICsubscriptionDeleteFailure_IEs_value =
    [(''RICrequestID'', IE DEF_RICrequestID), (''RANfunctionID'', IE DEF_RANfunctionID),
     (''Cause'', IE DEF_Cause), (''CriticalityDiagnostics'', IE DEF_CriticalityDiagnostics)]"

definition RICsubscriptionDeleteFailure_IEs__value_PR :: "string list" where
  "RICsubscriptionDeleteFailure_IEs__value_PR =
    [''NOTHING'', ''RICrequestID'', ''RANfunctionID'', ''Cause'', ''CriticalityDiagnostics'']"

definition select_RICindication_IEs_criticality_type :: "int \<Rightarrow> asn_DEF option \<times> nat" where
  "select_RICindication_IEs_criticality_type = select_type asn_IOS_RICindication_IEs 0 1"

definition select_RICindication_IEs_value_type :: "int \<Rightarrow> asn_DEF option \<times> nat" where
  "select_RICindication_IEs_value_type = select_type asn_IOS_RICindication_IEs 0 2"

definition asn_MBR_RICindication_IEs_value :: "(string \<times> asn_DEF) list" where
  "asn_MBR_RICindication_IEs_value =
    [(''RICrequestID'', IE DEF_RICrequestID), (''RANfunctionID'', IE DEF_RANfunctionID),
     (''RICactionID'', IE DEF_RICactionID), (''RICindicationSN'', IE DEF_RICindicationSN),
     (''RICindicationType'', IE DEF_RICindicationType),
     (''RICindicationHeader'', IE DEF_RICindicationHeader),
     (''RICindicationMessage'', IE DEF_RICindicationMessage), (''RICcallProcessID'', IE DEF_RICcallProcessID)]"

definition RICindication_IEs__value_PR :: "string list" where
  "RICindication_IEs__value_PR =
    [''NOTHING'', ''RICrequestID'', ''RANfunctionID'', ''RICactionID'', ''RICindicationSN'',
     ''RICindicationType'', ''RICindicationHeader'', ''RICindicationMessage'', ''RICcallProcessID'']"

definition select_RICcontrolRequest_IEs_criticality_type :: "int \<Rightarrow> asn_DEF option \<times> nat" where
  "select_RICcontrolRequest_IEs_criticality_type = select_type asn_IOS_RICcontrolRequest_IEs 0 1"

definition select_RICcontrolRequest_IEs_value_type :: "int \<Rightarrow> asn_DEF option \<times> nat" where
  "select_RICcontrolRequest_IEs_value_type = select_type asn_IOS_RICcontrolRequest_IEs 0 2"

definition asn_MBR_RICcontrolRequest_IEs_value :: "(string \<times> asn_DEF) list" where
  "asn_MBR_RICcontrolRequest_IEs_value =
    [(''RICrequestID'', IE DEF_RICrequestID), (''RANfunctionID'', IE DEF_RANfunctionID),
     (''RICcallProcessID'', IE DEF_RICcallProcessID), (''RICcontrolHeader'', IE DEF_RICcontrolHeader),
     (''RICcontrolMessage'', IE DEF_RICcontrolMessage),
     (''RICcontrolAckRequest'', IE DEF_RICcontrolAckRequest)]"

definition RICcontrolRequest_IEs__value_PR :: "string list" where
  "RICcontrolRequest_IEs__value_PR =
    [''NOTHING'', ''RICrequestID'', ''RANfunctionID'', ''RICcallProcessID'', ''RICcontrolHeader'',
     ''RICcontrolMessage'', ''RICcontrolAckRequest'']"

definition select_RICcontrolAcknowledge_IEs_criticality_type :: "int \<Rightarrow> asn_DEF option \<times> nat" where
  "select_RICcontrolAcknowledge_IEs_criticality_type = select_type asn_IOS_RICcontrolAcknowledge_IEs 0 1"

definition select_RICcontrolAcknowledge_IEs_value_type :: "int \<Rightarrow> asn_DEF option \<times> nat" where
  "select_RICcontrolAcknowledge_IEs_value_type = select_type asn_IOS_RICcontrolAcknowledge_IEs 0 2"

definition asn_MBR_RICcontrolAcknowledge_IEs_value :: "(string \<times> asn_DEF) list" where
  "asn_MBR_RICcontrolAcknowledge_IEs_value =
    [(''RICrequestID'', IE DEF_RICrequestID), (''RANfunctionID'', IE DEF_RANfunctionID),
     (''RICcallProcessID'', IE DEF_RICcallProcessID), (''RICcontrolStatus'', IE DEF_RICcontrolStatus),
     (''RICcontrolOutcome'', IE DEF_RICcontrolOutcome)]"

definition RICcontrolAcknowledge_IEs__value_PR :: "string list" where
  "RICcontrolAcknowledge_IEs__value_PR =
    [''NOTHING'', ''RICrequestID'', ''RANfunctionID'', ''RICcallProcessID'', ''RICcontrolStatus'',
     ''RICcontrolOutcome'']"

definition select_RICcontrolFailure_IEs_criticality_type :: "int \<Rightarrow> asn_DEF option \<times> nat" where
  "select_RICcontrolFailure_IEs_criticality_type = select_type asn_IOS_RICcontrolFailure_IEs 0 1"

definition select_RICcontrolFailure_IEs_value_type :: "int \<Rightarrow> asn_DEF option \<times> nat" where
  "select_RICcontrolFailure_IEs_value_type = select_type asn_IOS_RICcontrolFailure_IEs 0 2"

definition asn_MBR_RICcontrolFailure_IEs_value :: "(string \<times> asn_DEF) list" where
  "asn_MBR_RICcontrolFailure_IEs_value =
    [(''RICrequestID'', IE DEF_RICrequestID), (''RANfunctionID'', IE DEF_RANfunctionID),
     (''RICcallProcessID'', IE DEF_RICcallProcessID), (''Cause'', IE DEF_Cause),
     (''RICcontrolOutcome'', IE DEF_RICcontrolOutcome)]"

definition RICcontrolFailure_IEs__value_PR :: "string list" where
  "RICcontrolFailure_IEs__value_PR =
    [''NOTHING'', ''RICrequestID'', ''RANfunctionID'', ''RICcallProcessID'', ''Cause'', ''RICcontrolOutcome'']"

definition select_ErrorIndication_IEs_criticality_type :: "int \<Rightarrow> asn_DEF option \<times> nat" where
  "select_ErrorIndication_IEs_criticality_type = select_type asn_IOS_ErrorIndication_IEs 0 1"

definition select_ErrorIndication_IEs_value_type :: "int \<Rightarrow> asn_DEF option \<times> nat" where
  "select_ErrorIndication_IEs_value_type = select_type asn_IOS_ErrorIndication_IEs 0 2"

definition asn_MBR_ErrorIndication_IEs_value :: "(string \<times> asn_DEF) list" where
  "asn_MBR_ErrorIndication_IEs_value =
    [(''RICrequestID'', IE DEF_RICrequestID), (''RANfunctionID'', IE DEF_RANfunctionID),
     (''Cause'', IE DEF_Cause), (''CriticalityDiagnostics'', IE DEF_CriticalityDiagnostics)]"

definition ErrorIndication_IEs__value_PR :: "string list" where
  "ErrorIndication_IEs__value_PR =
    [''NOTHING'', ''RICrequestID'', ''RANfunctionID'', ''Cause'', ''CriticalityDiagnostics'']"

definition select_E2setupRequestIEs_criticality_type :: "int \<Rightarrow> asn_DEF option \<times> nat" where
  "select_E2setupRequestIEs_criticality_type = select_type asn_IOS_E2setupRequestIEs 0 1"

definition select_E2setupRequestIEs_value_type :: "int \<Rightarrow> asn_DEF option \<times> nat" where
  "select_E2setupRequestIEs_value_type = select_type asn_IOS_E2setupRequestIEs 0 2"

definition asn_MBR_E2setupRequestIEs_value :: "(string \<times> asn_DEF) list" where
  "asn_MBR_E2setupRequestIEs_value =
    [(''GlobalE2node_ID'', IE DEF_GlobalE2node_ID), (''RANfunctions_List'', IE DEF_RANfunctions_List)]"

definition E2setupRequestIEs__value_PR :: "string list" where
  "E2setupRequestIEs__value_PR =
    [''NOTHING'', ''GlobalE2node_ID'', ''RANfunctions_List'']"

definition select_E2setupResponseIEs_criticality_type :: "int \<Rightarrow> asn_DEF option \<times> nat" where
  "select_E2setupResponseIEs_criticality_type = select_type asn_IOS_E2setupResponseIEs 0 1"

definition select_E2setupResponseIEs_value_type :: "int \<Rightarrow> asn_DEF option \<times> nat" where
  "select_E2setupResponseIEs_value_type = select_type asn_IOS_E2setupResponseIEs 0 2"

definition asn_MBR_E2setupResponseIEs_value :: "(string \<times> asn_DEF) list" where
  "asn_MBR_E2setupResponseIEs_value =
    [(''GlobalRIC_ID'', IE DEF_GlobalRIC_ID), (''RANfunctionsID_List'', IE DEF_RANfunctionsID_List),
     (''RANfunctionsIDcause_List'', IE DEF_RANfunctionsIDcause_List)]"

definition E2setupResponseIEs__value_PR :: "string list" where
  "E2setupResponseIEs__value_PR =
    [''NOTHING'', ''GlobalRIC_ID'', ''RANfunctionsID_List'', ''RANfunctionsIDcause_List'']"

definition select_E2setupFailureIEs_criticality_type :: "int \<Rightarrow> asn_DEF option \<times> nat" where
  "select_E2setupFailureIEs_criticality_type = select_type asn_IOS_E2setupFailureIEs 0 1"

definition select_E2setupFailureIEs_value_type :: "int \<Rightarrow> asn_DEF option \<times> nat" where
  "select_E2setupFailureIEs_value_type = select_type asn_IOS_E2setupFailureIEs 0 2"

definition asn_MBR_E2setupFailureIEs_value :: "(string \<times> asn_DEF) list" where
  "asn_MBR_E2setupFailureIEs_value =
    [(''Cause'', IE DEF_Cause), (''TimeToWait'', IE DEF_TimeToWait),
     (''CriticalityDiagnostics'', IE DEF_CriticalityDiagnostics)]"

definition E2setupFailureIEs__value_PR :: "string list" where
  "E2setupFailureIEs__value_PR =
    [''NOTHING'', ''Cause'', ''TimeToWait'', ''CriticalityDiagnostics'']"

definition select_ResetRequestIEs_criticality_type :: "int \<Rightarrow> asn_DEF option \<times> nat" where
  "select_ResetRequestIEs_criticality_type = select_type asn_IOS_ResetRequestIEs 0 1"

definition select_ResetRequestIEs_value_type :: "int \<Rightarrow> asn_DEF option \<times> nat" where
  "select_ResetRequestIEs_value_type = select_type asn_IOS_ResetRequestIEs 0 2"

definition asn_MBR_ResetRequestIEs_value :: "(string \<times> asn_DEF) list" where
  "asn_MBR_ResetRequestIEs_value =
    [(''Cause'', IE DEF_Cause)]"

definition ResetRequestIEs__value_PR :: "string list" where
  "ResetRequestIEs__value_PR =
    [''NOTHING'', ''Cause'']"

definition select_ResetResponseIEs_criticality_type :: "int \<Rightarrow> asn_DEF option \<times> nat" where
  "select_ResetResponseIEs_criticality_type = select_type asn_IOS_ResetResponseIEs 0 1"

definition select_ResetResponseIEs_value_type :: "int \<Rightarrow> asn_DEF option \<times> nat" where
  "select_ResetResponseIEs_value_type = select_type asn_IOS_ResetResponseIEs 0 2"

definition asn_MBR_ResetResponseIEs_value :: "(string \<times> asn_DEF) list" where
  "asn_MBR_ResetResponseIEs_value =
    [(''CriticalityDiagnostics'', IE DEF_CriticalityDiagnostics)]"

definition ResetResponseIEs__value_PR :: "string list" where
  "ResetResponseIEs__value_PR =
    [''NOTHING'', ''CriticalityDiagnostics'']"

definition select_RICserviceUpdate_IEs_criticality_type :: "int \<Rightarrow> asn_DEF option \<times> nat" where
  "select_RICserviceUpdate_IEs_criticality_type = select_type asn_IOS_RICserviceUpdate_IEs 0 1"

definition select_RICserviceUpdate_IEs_value_type :: "int \<Rightarrow> asn_DEF option \<times> nat" where
  "select_RICserviceUpdate_IEs_value_type = select_type asn_IOS_RICserviceUpdate_IEs 0 2"

definition asn_MBR_RICserviceUpdate_IEs_value :: "(string \<times> asn_DEF) list" where
  "asn_MBR_RICserviceUpdate_IEs_value =
    [(''RANfunctions_List'', IE DEF_RANfunctions_List), (''RANfunctionsID_List'', IE DEF_RANfunctionsID_List)]"

definition RICserviceUpdate_IEs__value_PR :: "string list" where
  "RICserviceUpdate_IEs__value_PR =
    [''NOTHING'', ''RANfunctions_List'', ''RANfunctionsID_List'']"

definition select_RICserviceUpdateAcknowledge_IEs_criticality_type :: "int \<Rightarrow> asn_DEF option \<times> nat" where
  "select_RICserviceUpdateAcknowledge_IEs_criticality_type = select_type asn_IOS_RICserviceUpdateAcknowledge_IEs 0 1"

definition select_RICserviceUpdateAcknowledge_IEs_value_type :: "int \<Rightarrow> asn_DEF option \<times> nat" where
  "select_RICserviceUpdateAcknowledge_IEs_value_type = select_type asn_IOS_RICserviceUpdateAcknowledge_IEs 0 2"

definition asn_MBR_RICserviceUpdateAcknowledge_IEs_value :: "(string \<times> asn_DEF) list" where
  "asn_MBR_RICserviceUpdateAcknowledge_IEs_value =
    [(''RANfunctionsID_List'', IE DEF_RANfunctionsID_List),
     (''RANfunctionsIDcause_List'', IE DEF_RANfunctionsIDcause_List)]"

definition RICserviceUpdateAcknowledge_IEs__value_PR :: "string list" where
  "RICserviceUpdateAcknowledge_IEs__value_PR =
    [''NOTHING'', ''RANfunctionsID_List'', ''RANfunctionsIDcause_List'']"

definition select_RICserviceUpdateFailure_IEs_criticality_type :: "int \<Rightarrow> asn_DEF option \<times> nat" where
  "select_RICserviceUpdateFailure_IEs_criticality_type = select_type asn_IOS_RICserviceUpdateFailure_IEs 0 1"

definition select_RICserviceUpdateFailure_IEs_value_type :: "int \<Rightarrow> asn_DEF option \<times> nat" where
  "select_RICserviceUpdateFailure_IEs_value_type = select_type asn_IOS_RICserviceUpdateFailure_IEs 0 2"

definition asn_MBR_RICserviceUpdateFailure_IEs_value :: "(string \<times> asn_DEF) list" where
  "asn_MBR_RICserviceUpdateFailure_IEs_value =
    [(''RANfunctionsIDcause_List'', IE DEF_RANfunctionsIDcause_List), (''TimeToWait'', IE DEF_TimeToWait),
     (''CriticalityDiagnostics'', IE DEF_CriticalityDiagnostics)]"

definition RICserviceUpdateFailure_IEs__value_PR :: "string list" where
  "RICserviceUpdateFailure_IEs__value_PR =
    [''NOTHING'', ''RANfunctionsIDcause_List'', ''TimeToWait'', ''CriticalityDiagnostics'']"

definition select_RICserviceQuery_IEs_criticality_type :: "int \<Rightarrow> asn_DEF option \<times> nat" where
  "select_RICserviceQuery_IEs_criticality_type = select_type asn_IOS_RICserviceQuery_IEs 0 1"

definition select_RICserviceQuery_IEs_value_type :: "int \<Rightarrow> asn_DEF option \<times> nat" where
  "select_RICserviceQuery_IEs_value_type = select_type asn_IOS_RICserviceQuery_IEs 0 2"

definition asn_MBR_RICserviceQuery_IEs_value :: "(string \<times> asn_DEF) list" where
  "asn_MBR_RICserviceQuery_IEs_value =
    [(''RANfunctionsID_List'', IE DEF_RANfunctionsID_List)]"

definition RICserviceQuery_IEs__value_PR :: "string list" where
  "RICserviceQuery_IEs__value_PR =
    [''NOTHING'', ''RANfunctionsID_List'']"

section \<open>Initiating messages by procedure\<close>

definition asn_IOS_InitiatingMessage_E2AP_ELEMENTARY_PROCEDURES :: ioc_set where
  "asn_IOS_InitiatingMessage_E2AP_ELEMENTARY_PROCEDURES = \<lparr>ioc_rows_count = 9, ioc_columns_count = 5, ioc_rows =
    [ioc_type ''&InitiatingMessage'' (MSG DEF_RICsubscriptionRequest), ioc_type ''&SuccessfulOutcome'' (MSG DEF_RICsubscriptionResponse), ioc_type ''&UnsuccessfulOutcome'' (MSG DEF_RICsubscriptionFailure),
      ioc_value ''&procedureCode'' (IE DEF_ProcedureCode) 8, ioc_value ''&criticality'' (IE DEF_Criticality) 0,
     ioc_type ''&InitiatingMessage'' (MSG DEF_RICsubscriptionDeleteRequest), ioc_type ''&SuccessfulOutcome'' (MSG DEF_RICsubscriptionDeleteResponse), ioc_type ''&UnsuccessfulOutcome'' (MSG DEF_RICsubscriptionDeleteFailure),
      ioc_value ''&procedureCode'' (IE DEF_ProcedureCode) 9, ioc_value ''&criticality'' (IE DEF_Criticality) 0,
     ioc_type ''&InitiatingMessage'' (MSG DEF_RICserviceUpdate), ioc_type ''&SuccessfulOutcome'' (MSG DEF_RICserviceUpdateAcknowledge), ioc_type ''&UnsuccessfulOutcome'' (MSG DEF_RICserviceUpdateFailure),
      ioc_value ''&procedureCode'' (IE DEF_ProcedureCode) 7, ioc_value ''&criticality'' (IE DEF_Criticality) 0,
     ioc_type ''&InitiatingMessage'' (MSG DEF_RICcontrolRequest), ioc_type ''&SuccessfulOutcome'' (MSG DEF_RICcontrolAcknowledge), ioc_type ''&UnsuccessfulOutcome'' (MSG DEF_RICcontrolFailure),
      ioc_value ''&procedureCode'' (IE DEF_ProcedureCode) 4, ioc_value ''&criticality'' (IE DEF_Criticality) 0,
     ioc_type ''&InitiatingMessage'' (MSG DEF_E2setupRequest), ioc_type ''&SuccessfulOutcome'' (MSG DEF_E2setupResponse), ioc_type ''&UnsuccessfulOutcome'' (MSG DEF_E2setupFailure),
      ioc_value ''&procedureCode'' (IE DEF_ProcedureCode) 1, ioc_value ''&criticality'' (IE DEF_Criticality) 0,
     ioc_type ''&InitiatingMessage'' (MSG DEF_ResetRequest), ioc_type ''&SuccessfulOutcome'' (MSG DEF_ResetResponse), ioc_undefined ''&UnsuccessfulOutcome'',
      ioc_value ''&procedureCode'' (IE DEF_ProcedureCode) 3, ioc_value ''&criticality'' (IE DEF_Criticality) 0,
     ioc_type ''&InitiatingMessage'' (MSG DEF_RICindication), ioc_undefined ''&SuccessfulOutcome'', ioc_undefined ''&UnsuccessfulOutcome'',
      ioc_value ''&procedureCode'' (IE DEF_ProcedureCode) 5, ioc_value ''&criticality'' (IE DEF_Criticality) 1,
     ioc_type ''&InitiatingMessage'' (MSG DEF_RICserviceQuery), ioc_undefined ''&SuccessfulOutcome'', ioc_undefined ''&UnsuccessfulOutcome'',
      ioc_value ''&procedureCode'' (IE DEF_ProcedureCode) 6, ioc_value ''&criticality'' (IE DEF_Criticality) 1,
     ioc_type ''&InitiatingMessage'' (MSG DEF_ErrorIndication), ioc_undefined ''&SuccessfulOutcome'', ioc_undefined ''&UnsuccessfulOutcome'',
      ioc_value ''&procedureCode'' (IE DEF_ProcedureCode) 2, ioc_value ''&criticality'' (IE DEF_Criticality) 1]\<rparr>"

definition select_InitiatingMessage_criticality_type :: "int \<Rightarrow> asn_DEF option \<times> nat" where
  "select_InitiatingMessage_criticality_type = select_type asn_IOS_InitiatingMessage_E2AP_ELEMENTARY_PROCEDURES 3 4"

definition select_InitiatingMessage_value_type :: "int \<Rightarrow> asn_DEF option \<times> nat" where
  "select_InitiatingMessage_value_type = select_type asn_IOS_InitiatingMessage_E2AP_ELEMENTARY_PROCEDURES 3 0"

definition asn_MBR_InitiatingMessage_value :: "(string \<times> asn_DEF) list" where
  "asn_MBR_InitiatingMessage_value =
    [(''RICsubscriptionRequest'', MSG DEF_RICsubscriptionRequest),
     (''RICsubscriptionDeleteRequest'', MSG DEF_RICsubscriptionDeleteRequest),
     (''RICserviceUpdate'', MSG DEF_RICserviceUpdate), (''RICcontrolRequest'', MSG DEF_RICcontrolRequest),
     (''E2setupRequest'', MSG DEF_E2setupRequest), (''ResetRequest'', MSG DEF_ResetRequest),
     (''RICindication'', MSG DEF_RICindication), (''RICserviceQuery'', MSG DEF_RICserviceQuery),
     (''ErrorIndication'', MSG DEF_ErrorIndication)]"

definition InitiatingMessage__value_PR :: "string list" where
  "InitiatingMessage__value_PR =
    [''NOTHING'', ''RICsubscriptionRequest'', ''RICsubscriptionDeleteRequest'', ''RICserviceUpdate'',
     ''RICcontrolRequest'', ''E2setupRequest'', ''ResetRequest'', ''RICindication'', ''RICserviceQuery'',
     ''ErrorIndication'']"

section \<open>Successful outcomes by procedure\<close>

definition asn_IOS_SuccessfulOutcome_E2AP_ELEMENTARY_PROCEDURES :: ioc_set where
  "asn_IOS_SuccessfulOutcome_E2AP_ELEMENTARY_PROCEDURES = \<lparr>ioc_rows_count = 9, ioc_columns_count = 5, ioc_rows =
    [ioc_type ''&InitiatingMessage'' (MSG DEF_RICsubscriptionRequest), ioc_type ''&SuccessfulOutcome'' (MSG DEF_RICsubscriptionResponse), ioc_type ''&UnsuccessfulOutcome'' (MSG DEF_RICsubscriptionFailure),
      ioc_value ''&procedureCode'' (IE DEF_ProcedureCode) 8, ioc_value ''&criticality'' (IE DEF_Criticality) 0,
     ioc_type ''&InitiatingMessage'' (MSG DEF_RICsubscriptionDeleteRequest), ioc_type ''&SuccessfulOutcome'' (MSG DEF_RICsubscriptionDeleteResponse), ioc_type ''&UnsuccessfulOutcome'' (MSG DEF_RICsubscriptionDeleteFailure),
      ioc_value ''&procedureCode'' (IE DEF_ProcedureCode) 9, ioc_value ''&criticality'' (IE DEF_Criticality) 0,
     ioc_type ''&InitiatingMessage'' (MSG DEF_RICserviceUpdate), ioc_type ''&SuccessfulOutcome'' (MSG DEF_RICserviceUpdateAcknowledge), ioc_type ''&UnsuccessfulOutcome'' (MSG DEF_RICserviceUpdateFailure),
      ioc_value ''&procedureCode'' (IE DEF_ProcedureCode) 7, ioc_value ''&criticality'' (IE DEF_Criticality) 0,
     ioc_type ''&InitiatingMessage'' (MSG DEF_RICcontrolRequest), ioc_type ''&SuccessfulOutcome'' (MSG DEF_RICcontrolAcknowledge), ioc_type ''&UnsuccessfulOutcome'' (MSG DEF_RICcontrolFailure),
      ioc_value ''&procedureCode'' (IE DEF_ProcedureCode) 4, ioc_value ''&criticality'' (IE DEF_Criticality) 0,
     ioc_type ''&InitiatingMessage'' (MSG DEF_E2setupRequest), ioc_type ''&SuccessfulOutcome'' (MSG DEF_E2setupResponse), ioc_type ''&UnsuccessfulOutcome'' (MSG DEF_E2setupFailure),
      ioc_value ''&procedureCode'' (IE DEF_ProcedureCode) 1, ioc_value ''&criticality'' (IE DEF_Criticality) 0,
     ioc_type ''&InitiatingMessage'' (MSG DEF_ResetRequest), ioc_type ''&SuccessfulOutcome'' (MSG DEF_ResetResponse), ioc_undefined ''&UnsuccessfulOutcome'',
      ioc_value ''&procedureCode'' (IE DEF_ProcedureCode) 3, ioc_value ''&criticality'' (IE DEF_Criticality) 0,
     ioc_type ''&InitiatingMessage'' (MSG DEF_RICindication), ioc_undefined ''&SuccessfulOutcome'', ioc_undefined ''&UnsuccessfulOutcome'',
      ioc_value ''&procedureCode'' (IE DEF_ProcedureCode) 5, ioc_value ''&criticality'' (IE DEF_Criticality) 1,
     ioc_type ''&InitiatingMessage'' (MSG DEF_RICserviceQuery), ioc_undefined ''&SuccessfulOutcome'', ioc_undefined ''&UnsuccessfulOutcome'',
      ioc_value ''&procedureCode'' (IE DEF_ProcedureCode) 6, ioc_value ''&criticality'' (IE DEF_Criticality) 1,
     ioc_type ''&InitiatingMessage'' (MSG DEF_ErrorIndication), ioc_undefined ''&SuccessfulOutcome'', ioc_undefined ''&UnsuccessfulOutcome'',
      ioc_value ''&procedureCode'' (IE DEF_ProcedureCode) 2, ioc_value ''&criticality'' (IE DEF_Criticality) 1]\<rparr>"

definition select_SuccessfulOutcome_criticality_type :: "int \<Rightarrow> asn_DEF option \<times> nat" where
  "select_SuccessfulOutcome_criticality_type = select_type asn_IOS_SuccessfulOutcome_E2AP_ELEMENTARY_PROCEDURES 3 4"

definition select_SuccessfulOutcome_value_type :: "int \<Rightarrow> asn_DEF option \<times> nat" where
  "select_SuccessfulOutcome_value_type = select_type asn_IOS_SuccessfulOutcome_E2AP_ELEMENTARY_PROCEDURES 3 1"

definition asn_MBR_SuccessfulOutcome_value :: "(string \<times> asn_DEF) list" where
  "asn_MBR_SuccessfulOutcome_value =
    [(''RICsubscriptionResponse'', MSG DEF_RICsubscriptionResponse),
     (''RICsubscriptionDeleteResponse'', MSG DEF_RICsubscriptionDeleteResponse),
     (''RICserviceUpdateAcknowledge'', MSG DEF_RICserviceUpdateAcknowledge),
     (''RICcontrolAcknowledge'', MSG DEF_RICcontrolAcknowledge),
     (''E2setupResponse'', MSG DEF_E2setupResponse), (''ResetResponse'', MSG DEF_ResetResponse)]"

definition SuccessfulOutcome__value_PR :: "string list" where
  "SuccessfulOutcome__value_PR =
    [''NOTHING'', ''RICsubscriptionResponse'', ''RICsubscriptionDeleteResponse'',
     ''RICserviceUpdateAcknowledge'', ''RICcontrolAcknowledge'', ''E2setupResponse'', ''ResetResponse'']"

section \<open>Unsuccessful outcomes by procedure\<close>

definition asn_IOS_UnsuccessfulOutcome_E2AP_ELEMENTARY_PROCEDURES :: ioc_set where
  "asn_IOS_UnsuccessfulOutcome_E2AP_ELEMENTARY_PROCEDURES = \<lparr>ioc_rows_count = 9, ioc_columns_count = 5, ioc_rows =
    [ioc_type ''&InitiatingMessage'' (MSG DEF_RICsubscriptionRequest), ioc_type ''&SuccessfulOutcome'' (MSG DEF_RICsubscriptionResponse), ioc_type ''&UnsuccessfulOutcome'' (MSG DEF_RICsubscriptionFailure),
      ioc_value ''&procedureCode'' (IE DEF_ProcedureCode) 8, ioc_value ''&criticality'' (IE DEF_Criticality) 0,
     ioc_type ''&InitiatingMessage'' (MSG DEF_RICsubscriptionDeleteRequest), ioc_type ''&SuccessfulOutcome'' (MSG DEF_RICsubscriptionDeleteResponse), ioc_type ''&UnsuccessfulOutcome'' (MSG DEF_RICsubscriptionDeleteFailure),
      ioc_value ''&procedureCode'' (IE DEF_ProcedureCode) 9, ioc_value ''&criticality'' (IE DEF_Criticality) 0,
     ioc_type ''&InitiatingMessage'' (MSG DEF_RICserviceUpdate), ioc_type ''&SuccessfulOutcome'' (MSG DEF_RICserviceUpdateAcknowledge), ioc_type ''&UnsuccessfulOutcome'' (MSG DEF_RICserviceUpdateFailure),
      ioc_value ''&procedureCode'' (IE DEF_ProcedureCode) 7, ioc_value ''&criticality'' (IE DEF_Criticality) 0,
     ioc_type ''&InitiatingMessage'' (MSG DEF_RICcontrolRequest), ioc_type ''&SuccessfulOutcome'' (MSG DEF_RICcontrolAcknowledge), ioc_type ''&UnsuccessfulOutcome'' (MSG DEF_RICcontrolFailure),
      ioc_value ''&procedureCode'' (IE DEF_ProcedureCode) 4, ioc_value ''&criticality'' (IE DEF_Criticality) 0,
     ioc_type ''&InitiatingMessage'' (MSG DEF_E2setupRequest), ioc_type ''&SuccessfulOutcome'' (MSG DEF_E2setupResponse), ioc_type ''&UnsuccessfulOutcome'' (MSG DEF_E2setupFailure),
      ioc_value ''&procedureCode'' (IE DEF_ProcedureCode) 1, ioc_value ''&criticality'' (IE DEF_Criticality) 0,
     ioc_type ''&InitiatingMessage'' (MSG DEF_ResetRequest), ioc_type ''&SuccessfulOutcome'' (MSG DEF_ResetResponse), ioc_undefined ''&UnsuccessfulOutcome'',
      ioc_value ''&procedureCode'' (IE DEF_ProcedureCode) 3, ioc_value ''&criticality'' (IE DEF_Criticality) 0,
     ioc_type ''&InitiatingMessage'' (MSG DEF_RICindication), ioc_undefined ''&SuccessfulOutcome'', ioc_undefined ''&UnsuccessfulOutcome'',
      ioc_value ''&procedureCode'' (IE DEF_ProcedureCode) 5, ioc_value ''&criticality'' (IE DEF_Criticality) 1,
     ioc_type ''&InitiatingMessage'' (MSG DEF_RICserviceQuery), ioc_undefined ''&SuccessfulOutcome'', ioc_undefined ''&UnsuccessfulOutcome'',
      ioc_value ''&procedureCode'' (IE DEF_ProcedureCode) 6, ioc_value ''&criticality'' (IE DEF_Criticality) 1,
     ioc_type ''&InitiatingMessage'' (MSG DEF_ErrorIndication), ioc_undefined ''&SuccessfulOutcome'', ioc_undefined ''&UnsuccessfulOutcome'',
      ioc_value ''&procedureCode'' (IE DEF_ProcedureCode) 2, ioc_value ''&criticality'' (IE DEF_Criticality) 1]\<rparr>"

definition select_UnsuccessfulOutcome_criticality_type :: "int \<Rightarrow> asn_DEF option \<times> nat" where
  "select_UnsuccessfulOutcome_criticality_type = select_type asn_IOS_UnsuccessfulOutcome_E2AP_ELEMENTARY_PROCEDURES 3 4"

definition select_UnsuccessfulOutcome_value_type :: "int \<Rightarrow> asn_DEF option \<times> nat" where
  "select_UnsuccessfulOutcome_value_type = select_type asn_IOS_UnsuccessfulOutcome_E2AP_ELEMENTARY_PROCEDURES 3 2"

definition asn_MBR_UnsuccessfulOutcome_value :: "(string \<times> asn_DEF) list" where
  "asn_MBR_UnsuccessfulOutcome_value =
    [(''RICsubscriptionFailure'', MSG DEF_RICsubscriptionFailure),
     (''RICsubscriptionDeleteFailure'', MSG DEF_RICsubscriptionDeleteFailure),
     (''RICserviceUpdateFailure'', MSG DEF_RICserviceUpdateFailure),
     (''RICcontrolFailure'', MSG DEF_RICcontrolFailure), (''E2setupFailure'', MSG DEF_E2setupFailure)]"

definition UnsuccessfulOutcome__value_PR :: "string list" where
  "UnsuccessfulOutcome__value_PR =
    [''NOTHING'', ''RICsubscriptionFailure'', ''RICsubscriptionDeleteFailure'', ''RICserviceUpdateFailure'',
     ''RICcontrolFailure'', ''E2setupFailure'']"

section \<open>The open types\<close>

text \<open>Selectors, union members and presence constants of each set.\<close>

record open_type_member =
  ot_select :: "int \<Rightarrow> asn_DEF option \<times> nat"
  ot_criticality :: "int \<Rightarrow> asn_DEF option \<times> nat"
  ot_members :: "(string \<times> asn_DEF) list"
  ot_presence :: "string list"

definition RICaction_ToBeSetup_ItemIEs_value :: open_type_member where
  "RICaction_ToBeSetup_ItemIEs_value =
    \<lparr>ot_select = select_RICaction_ToBeSetup_ItemIEs_value_type,
      ot_criticality = select_RICaction_ToBeSetup_ItemIEs_criticality_type,
      ot_members = asn_MBR_RICaction_ToBeSetup_ItemIEs_value, ot_presence = RICaction_ToBeSetup_ItemIEs__value_PR\<rparr>"

definition RICaction_Admitted_ItemIEs_value :: open_type_member where
  "RICaction_Admitted_ItemIEs_value =
    \<lparr>ot_select = select_RICaction_Admitted_ItemIEs_value_type,
      ot_criticality = select_RICaction_Admitted_ItemIEs_criticality_type,
      ot_members = asn_MBR_RICaction_Admitted_ItemIEs_value, ot_presence = RICaction_Admitted_ItemIEs__value_PR\<rparr>"

definition RICaction_NotAdmitted_ItemIEs_value :: open_type_member where
  "RICaction_NotAdmitted_ItemIEs_value =
    \<lparr>ot_select = select_RICaction_NotAdmitted_ItemIEs_value_type,
      ot_criticality = select_RICaction_NotAdmitted_ItemIEs_criticality_type,
      ot_members = asn_MBR_RICaction_NotAdmitted_ItemIEs_value, ot_presence = RICaction_NotAdmitted_ItemIEs__value_PR\<rparr>"

definition RANfunction_ItemIEs_value :: open_type_member where
  "RANfunction_ItemIEs_value =
    \<lparr>ot_select = select_RANfunction_ItemIEs_value_type,
      ot_criticality = select_RANfunction_ItemIEs_criticality_type,
      ot_members = asn_MBR_RANfunction_ItemIEs_value, ot_presence = RANfunction_ItemIEs__value_PR\<rparr>"

definition RANfunctionID_ItemIEs_value :: open_type_member where
  "RANfunctionID_ItemIEs_value =
    \<lparr>ot_select = select_RANfunctionID_ItemIEs_value_type,
      ot_criticality = select_RANfunctionID_ItemIEs_criticality_type,
      ot_members = asn_MBR_RANfunctionID_ItemIEs_value, ot_presence = RANfunctionID_ItemIEs__value_PR\<rparr>"

definition RANfunctionIDcause_ItemIEs_value :: open_type_member where
  "RANfunctionIDcause_ItemIEs_value =
    \<lparr>ot_select = select_RANfunctionIDcause_ItemIEs_value_type,
      ot_criticality = select_RANfunctionIDcause_ItemIEs_criticality_type,
      ot_members = asn_MBR_RANfunctionIDcause_ItemIEs_value, ot_presence = RANfunctionIDcause_ItemIEs__value_PR\<rparr>"

definition RICsubscriptionRequest_IEs_value :: open_type_member where
  "RICsubscriptionRequest_IEs_value =
    \<lparr>ot_select = select_RICsubscriptionRequest_IEs_value_type,
      ot_criticality = select_RICsubscriptionRequest_IEs_criticality_type,
      ot_members = asn_MBR_RICsubscriptionRequest_IEs_value, ot_presence = RICsubscriptionRequest_IEs__value_PR\<rparr>"

definition RICsubscriptionResponse_IEs_value :: open_type_member where
  "RICsubscriptionResponse_IEs_value =
    \<lparr>ot_select = select_RICsubscriptionResponse_IEs_value_type,
      ot_criticality = select_RICsubscriptionResponse_IEs_criticality_type,
      ot_members = asn_MBR_RICsubscriptionResponse_IEs_value, ot_presence = RICsubscriptionResponse_IEs__value_PR\<rparr>"

definition RICsubscriptionFailure_IEs_value :: open_type_member where
  "RICsubscriptionFailure_IEs_value =
    \<lparr>ot_select = select_RICsubscriptionFailure_IEs_value_type,
      ot_criticality = select_RICsubscriptionFailure_IEs_criticality_type,
      ot_members = asn_MBR_RICsubscriptionFailure_IEs_value, ot_presence = RICsubscriptionFailure_IEs__value_PR\<rparr>"

definition RICsubscriptionDeleteRequest_IEs_value :: open_type_member where
  "RICsubscriptionDeleteRequest_IEs_value =
    \<lparr>ot_select = select_RICsubscriptionDeleteRequest_IEs_value_type,
      ot_criticality = select_RICsubscriptionDeleteRequest_IEs_criticality_type,
      ot_members = asn_MBR_RICsubscriptionDeleteRequest_IEs_value, ot_presence = RICsubscriptionDeleteRequest_IEs__value_PR\<rparr>"

definition RICsubscriptionDeleteResponse_IEs_value :: open_type_member where
  "RICsubscriptionDeleteResponse_IEs_value =
    \<lparr>ot_select = select_RICsubscriptionDeleteResponse_IEs_value_type,
      ot_criticality = select_RICsubscriptionDeleteResponse_IEs_criticality_type,
      ot_members = asn_MBR_RICsubscriptionDeleteResponse_IEs_value, ot_presence = RICsubscriptionDeleteResponse_IEs__value_PR\<rparr>"

definition RICsubscriptionDeleteFailure_IEs_value :: open_type_member where
  "RICsubscriptionDeleteFailure_IEs_value =
    \<lparr>ot_select = select_RICsubscriptionDeleteFailure_IEs_value_type,
      ot_criticality = select_RICsubscriptionDeleteFailure_IEs_criticality_type,
      ot_members = asn_MBR_RICsubscriptionDeleteFailure_IEs_value, ot_presence = RICsubscriptionDeleteFailure_IEs__value_PR\<rparr>"

definition RICindication_IEs_value :: open_type_member where
  "RICindication_IEs_value =
    \<lparr>ot_select = select_RICindication_IEs_value_type,
      ot_criticality = select_RICindication_IEs_criticality_type,
      ot_members = asn_MBR_RICindication_IEs_value, ot_presence = RICindication_IEs__value_PR\<rparr>"

definition RICcontrolRequest_IEs_value :: open_type_member where
  "RICcontrolRequest_IEs_value =
    \<lparr>ot_select = select_RICcontrolRequest_IEs_value_type,
      ot_criticality = select_RICcontrolRequest_IEs_criticality_type,
      ot_members = asn_MBR_RICcontrolRequest_IEs_value, ot_presence = RICcontrolRequest_IEs__value_PR\<rparr>"

definition RICcontrolAcknowledge_IEs_value :: open_type_member where
  "RICcontrolAcknowledge_IEs_value =
    \<lparr>ot_select = select_RICcontrolAcknowledge_IEs_value_type,
      ot_criticality = select_RICcontrolAcknowledge_IEs_criticality_type,
      ot_members = asn_MBR_RICcontrolAcknowledge_IEs_value, ot_presence = RICcontrolAcknowledge_IEs__value_PR\<rparr>"

definition RICcontrolFailure_IEs_value :: open_type_member where
  "RICcontrolFailure_IEs_value =
    \<lparr>ot_select = select_RICcontrolFailure_IEs_value_type,
      ot_criticality = select_RICcontrolFailure_IEs_criticality_type,
      ot_members = asn_MBR_RICcontrolFailure_IEs_value, ot_presence = RICcontrolFailure_IEs__value_PR\<rparr>"

definition ErrorIndication_IEs_value :: open_type_member where
  "ErrorIndication_IEs_value =
    \<lparr>ot_select = select_ErrorIndication_IEs_value_type,
      ot_criticality = select_ErrorIndication_IEs_criticality_type,
      ot_members = asn_MBR_ErrorIndication_IEs_value, ot_presence = ErrorIndication_IEs__value_PR\<rparr>"

definition E2setupRequestIEs_value :: open_type_member where
  "E2setupRequestIEs_value =
    \<lparr>ot_select = select_E2setupRequestIEs_value_type,
      ot_criticality = select_E2setupRequestIEs_criticality_type,
      ot_members = asn_MBR_E2setupRequestIEs_value, ot_presence = E2setupRequestIEs__value_PR\<rparr>"

definition E2setupResponseIEs_value :: open_type_member where
  "E2setupResponseIEs_value =
    \<lparr>ot_select = select_E2setupResponseIEs_value_type,
      ot_criticality = select_E2setupResponseIEs_criticality_type,
      ot_members = asn_MBR_E2setupResponseIEs_value, ot_presence = E2setupResponseIEs__value_PR\<rparr>"

definition E2setupFailureIEs_value :: open_type_member where
  "E2setupFailureIEs_value =
    \<lparr>ot_select = select_E2setupFailureIEs_value_type,
      ot_criticality = select_E2setupFailureIEs_criticality_type,
      ot_members = asn_MBR_E2setupFailureIEs_value, ot_presence = E2setupFailureIEs__value_PR\<rparr>"

definition ResetRequestIEs_value :: open_type_member where
  "ResetRequestIEs_value =
    \<lparr>ot_select = select_ResetRequestIEs_value_type,
      ot_criticality = select_ResetRequestIEs_criticality_type,
      ot_members = asn_MBR_ResetRequestIEs_value, ot_presence = ResetRequestIEs__value_PR\<rparr>"

definition ResetResponseIEs_value :: open_type_member where
  "ResetResponseIEs_value =
    \<lparr>ot_select = select_ResetResponseIEs_value_type,
      ot_criticality = select_ResetResponseIEs_criticality_type,
      ot_members = asn_MBR_ResetResponseIEs_value, ot_presence = ResetResponseIEs__value_PR\<rparr>"

definition RICserviceUpdate_IEs_value :: open_type_member where
  "RICserviceUpdate_IEs_value =
    \<lparr>ot_select = select_RICserviceUpdate_IEs_value_type,
      ot_criticality = select_RICserviceUpdate_IEs_criticality_type,
      ot_members = asn_MBR_RICserviceUpdate_IEs_value, ot_presence = RICserviceUpdate_IEs__value_PR\<rparr>"

definition RICserviceUpdateAcknowledge_IEs_value :: open_type_member where
  "RICserviceUpdateAcknowledge_IEs_value =
    \<lparr>ot_select = select_RICserviceUpdateAcknowledge_IEs_value_type,
      ot_criticality = select_RICserviceUpdateAcknowledge_IEs_criticality_type,
      ot_members = asn_MBR_RICserviceUpdateAcknowledge_IEs_value, ot_presence = RICserviceUpdateAcknowledge_IEs__value_PR\<rparr>"

definition RICserviceUpdateFailure_IEs_value :: open_type_member where
  "RICserviceUpdateFailure_IEs_value =
    \<lparr>ot_select = select_RICserviceUpdateFailure_IEs_value_type,
      ot_criticality = select_RICserviceUpdateFailure_IEs_criticality_type,
      ot_members = asn_MBR_RICserviceUpdateFailure_IEs_value, ot_presence = RICserviceUpdateFailure_IEs__value_PR\<rparr>"

definition RICserviceQuery_IEs_value :: open_type_member where
  "RICserviceQuery_IEs_value =
    \<lparr>ot_select = select_RICserviceQuery_IEs_value_type,
      ot_criticality = select_RICserviceQuery_IEs_criticality_type,
      ot_members = asn_MBR_RICserviceQuery_IEs_value, ot_presence = RICserviceQuery_IEs__value_PR\<rparr>"

definition InitiatingMessage_value :: open_type_member where
  "InitiatingMessage_value =
    \<lparr>ot_select = select_InitiatingMessage_value_type,
      ot_criticality = select_InitiatingMessage_criticality_type,
      ot_members = asn_MBR_InitiatingMessage_value, ot_presence = InitiatingMessage__value_PR\<rparr>"

definition SuccessfulOutcome_value :: open_type_member where
  "SuccessfulOutcome_value =
    \<lparr>ot_select = select_SuccessfulOutcome_value_type,
      ot_criticality = select_SuccessfulOutcome_criticality_type,
      ot_members = asn_MBR_SuccessfulOutcome_value, ot_presence = SuccessfulOutcome__value_PR\<rparr>"

definition UnsuccessfulOutcome_value :: open_type_member where
  "UnsuccessfulOutcome_value =
    \<lparr>ot_select = select_UnsuccessfulOutcome_value_type,
      ot_criticality = select_UnsuccessfulOutcome_criticality_type,
      ot_members = asn_MBR_UnsuccessfulOutcome_value, ot_presence = UnsuccessfulOutcome__value_PR\<rparr>"

text \<open>All but the elements of RICserviceUpdate, which are treated apart below.\<close>

definition e2ap_open_types :: "open_type_member list" where
  "e2ap_open_types =
    [RICaction_ToBeSetup_ItemIEs_value, RICaction_Admitted_ItemIEs_value,
     RICaction_NotAdmitted_ItemIEs_value, RANfunction_ItemIEs_value, RANfunctionID_ItemIEs_value,
     RANfunctionIDcause_ItemIEs_value, RICsubscriptionRequest_IEs_value, RICsubscriptionResponse_IEs_value,
     RICsubscriptionFailure_IEs_value, RICsubscriptionDeleteRequest_IEs_value,
     RICsubscriptionDeleteResponse_IEs_value, RICsubscriptionDeleteFailure_IEs_value,
     RICindication_IEs_value, RICcontrolRequest_IEs_value, RICcontrolAcknowledge_IEs_value,
     RICcontrolFailure_IEs_value, ErrorIndication_IEs_value, E2setupRequestIEs_value,
     E2setupResponseIEs_value, E2setupFailureIEs_value, ResetRequestIEs_value, ResetResponseIEs_value,
     RICserviceUpdateAcknowledge_IEs_value, RICserviceUpdateFailure_IEs_value, RICserviceQuery_IEs_value,
     InitiatingMessage_value, SuccessfulOutcome_value, UnsuccessfulOutcome_value]"

lemmas ioc_table_defs =
  asn_IOS_RICaction_ToBeSetup_ItemIEs_def asn_IOS_RICaction_Admitted_ItemIEs_def
  asn_IOS_RICaction_NotAdmitted_ItemIEs_def asn_IOS_RANfunction_ItemIEs_def
  asn_IOS_RANfunctionID_ItemIEs_def asn_IOS_RANfunctionIDcause_ItemIEs_def
  asn_IOS_RICsubscriptionRequest_IEs_def asn_IOS_RICsubscriptionResponse_IEs_def
  asn_IOS_RICsubscriptionFailure_IEs_def asn_IOS_RICsubscriptionDeleteRequest_IEs_def
  asn_IOS_RICsubscriptionDeleteResponse_IEs_def asn_IOS_RICsubscriptionDeleteFailure_IEs_def
  asn_IOS_RICindication_IEs_def asn_IOS_RICcontrolRequest_IEs_def asn_IOS_RICcontrolAcknowledge_IEs_def
  asn_IOS_RICcontrolFailure_IEs_def asn_IOS_ErrorIndication_IEs_def asn_IOS_E2setupRequestIEs_def
  asn_IOS_E2setupResponseIEs_def asn_IOS_E2setupFailureIEs_def asn_IOS_ResetRequestIEs_def
  asn_IOS_ResetResponseIEs_def asn_IOS_RICserviceUpdate_IEs_def
  asn_IOS_RICserviceUpdateAcknowledge_IEs_def asn_IOS_RICserviceUpdateFailure_IEs_def
  asn_IOS_RICserviceQuery_IEs_def asn_IOS_InitiatingMessage_E2AP_ELEMENTARY_PROCEDURES_def
  asn_IOS_SuccessfulOutcome_E2AP_ELEMENTARY_PROCEDURES_def
  asn_IOS_UnsuccessfulOutcome_E2AP_ELEMENTARY_PROCEDURES_def

lemmas select_defs =
  select_RICaction_ToBeSetup_ItemIEs_value_type_def select_RICaction_Admitted_ItemIEs_value_type_def
  select_RICaction_NotAdmitted_ItemIEs_value_type_def select_RANfunction_ItemIEs_value_type_def
  select_RANfunctionID_ItemIEs_value_type_def select_RANfunctionIDcause_ItemIEs_value_type_def
  select_RICsubscriptionRequest_IEs_value_type_def select_RICsubscriptionResponse_IEs_value_type_def
  select_RICsubscriptionFailure_IEs_value_type_def
  select_RICsubscriptionDeleteRequest_IEs_value_type_def
  select_RICsubscriptionDeleteResponse_IEs_value_type_def
  select_RICsubscriptionDeleteFailure_IEs_value_type_def select_RICindication_IEs_value_type_def
  select_RICcontrolRequest_IEs_value_type_def select_RICcontrolAcknowledge_IEs_value_type_def
  select_RICcontrolFailure_IEs_value_type_def select_ErrorIndication_IEs_value_type_def
  select_E2setupRequestIEs_value_type_def select_E2setupResponseIEs_value_type_def
  select_E2setupFailureIEs_value_type_def select_ResetRequestIEs_value_type_def
  select_ResetResponseIEs_value_type_def select_RICserviceUpdate_IEs_value_type_def
  select_RICserviceUpdateAcknowledge_IEs_value_type_def
  select_RICserviceUpdateFailure_IEs_value_type_def select_RICserviceQuery_IEs_value_type_def
  select_InitiatingMessage_value_type_def select_SuccessfulOutcome_value_type_def
  select_UnsuccessfulOutcome_value_type_def select_RICaction_ToBeSetup_ItemIEs_criticality_type_def
  select_RICaction_Admitted_ItemIEs_criticality_type_def
  select_RICaction_NotAdmitted_ItemIEs_criticality_type_def
  select_RANfunction_ItemIEs_criticality_type_def select_RANfunctionID_ItemIEs_criticality_type_def
  select_RANfunctionIDcause_ItemIEs_criticality_type_def
  select_RICsubscriptionRequest_IEs_criticality_type_def
  select_RICsubscriptionResponse_IEs_criticality_type_def
  select_RICsubscriptionFailure_IEs_criticality_type_def
  select_RICsubscriptionDeleteRequest_IEs_criticality_type_def
  select_RICsubscriptionDeleteResponse_IEs_criticality_type_def
  select_RICsubscriptionDeleteFailure_IEs_criticality_type_def
  select_RICindication_IEs_criticality_type_def select_RICcontrolRequest_IEs_criticality_type_def
  select_RICcontrolAcknowledge_IEs_criticality_type_def
  select_RICcontrolFailure_IEs_criticality_type_def select_ErrorIndication_IEs_criticality_type_def
  select_E2setupRequestIEs_criticality_type_def select_E2setupResponseIEs_criticality_type_def
  select_E2setupFailureIEs_criticality_type_def select_ResetRequestIEs_criticality_type_def
  select_ResetResponseIEs_criticality_type_def select_RICserviceUpdate_IEs_criticality_type_def
  select_RICserviceUpdateAcknowledge_IEs_criticality_type_def
  select_RICserviceUpdateFailure_IEs_criticality_type_def
  select_RICserviceQuery_IEs_criticality_type_def select_InitiatingMessage_criticality_type_def
  select_SuccessfulOutcome_criticality_type_def select_UnsuccessfulOutcome_criticality_type_def

lemmas open_type_member_defs =
  RICaction_ToBeSetup_ItemIEs_value_def RICaction_Admitted_ItemIEs_value_def
  RICaction_NotAdmitted_ItemIEs_value_def RANfunction_ItemIEs_value_def RANfunctionID_ItemIEs_value_def
  RANfunctionIDcause_ItemIEs_value_def RICsubscriptionRequest_IEs_value_def
  RICsubscriptionResponse_IEs_value_def RICsubscriptionFailure_IEs_value_def
  RICsubscriptionDeleteRequest_IEs_value_def RICsubscriptionDeleteResponse_IEs_value_def
  RICsubscriptionDeleteFailure_IEs_value_def RICindication_IEs_value_def
  RICcontrolRequest_IEs_value_def RICcontrolAcknowledge_IEs_value_def RICcontrolFailure_IEs_value_def
  ErrorIndication_IEs_value_def E2setupRequestIEs_value_def E2setupResponseIEs_value_def
  E2setupFailureIEs_value_def ResetRequestIEs_value_def ResetResponseIEs_value_def
  RICserviceUpdate_IEs_value_def RICserviceUpdateAcknowledge_IEs_value_def
  RICserviceUpdateFailure_IEs_value_def RICserviceQuery_IEs_value_def InitiatingMessage_value_def
  SuccessfulOutcome_value_def UnsuccessfulOutcome_value_def

section \<open>Selection is a lookup\<close>

text \<open>The rows that take part, as (id, type, presence index).\<close>

fun alternatives :: "ioc_set \<Rightarrow> nat \<Rightarrow> nat \<Rightarrow> nat list \<Rightarrow> nat \<Rightarrow> (int option \<times> asn_DEF option \<times> nat) list" where
  "alternatives t cc fc [] p = []"
| "alternatives t cc fc (row # rows) p =
     (let key = ioc_rows t ! (row * ioc_columns_count t + cc); ty = ioc_rows t ! (row * ioc_columns_count t + fc)
      in if ioc_cell_kind ty = aioc_undefined then alternatives t cc fc rows p
         else (ioc_value_sptr key, ioc_type_descriptor ty, Suc p) # alternatives t cc fc rows (Suc p))"

abbreviation all_alternatives :: "ioc_set \<Rightarrow> nat \<Rightarrow> nat \<Rightarrow> (int option \<times> asn_DEF option \<times> nat) list" where
  "all_alternatives t cc fc \<equiv> alternatives t cc fc [0..<ioc_rows_count t] 0"

lemma NativeInteger_compare_0 [simp]: "NativeInteger_compare False (Some v) w = 0 \<longleftrightarrow> w = Some v"
  by (cases w) (auto simp: NativeInteger_compare_def)

lemma select_loop_lookup:
  "select_loop t cc fc v row p
    = (case map_of (alternatives t cc fc [row..<ioc_rows_count t] p) (Some v) of None \<Rightarrow> (None, 0) | Some r \<Rightarrow> r)"
proof (induction t cc fc v row p rule: select_loop.induct)
  case (1 t cc fc v row p)
  then show ?case
    by (cases "row < ioc_rows_count t")
      (auto simp: select_loop.simps [of t cc fc v row p] upt_conv_Cons Let_def split: if_splits)
qed

lemma select_type_lookup:
  "select_type t cc fc v = (case map_of (all_alternatives t cc fc) (Some v) of None \<Rightarrow> (None, 0) | Some r \<Rightarrow> r)"
  by (simp add: select_type_def select_loop_lookup)

text \<open>What makes the tables of one open type fit together.\<close>

definition alternatives_fit ::
  "(int option \<times> asn_DEF option \<times> nat) list \<Rightarrow> (int option \<times> asn_DEF option \<times> nat) list
    \<Rightarrow> (string \<times> asn_DEF) list \<Rightarrow> string list \<Rightarrow> bool" where
  "alternatives_fit alts crit members presence \<longleftrightarrow>
     map snd alts = zip (map (Some \<circ> snd) members) [1..<Suc (length members)]
     \<and> presence = ''NOTHING'' # map fst members
     \<and> distinct (map fst alts) \<and> None \<notin> set (map fst alts)
     \<and> list_all (\<lambda>(key, _, k). map_of crit key = Some (Some (IE DEF_Criticality), k)) alts"

definition open_type_fits :: "open_type_member \<Rightarrow> bool" where
  "open_type_fits m \<longleftrightarrow> (\<exists>alts crit. alternatives_fit alts crit (ot_members m) (ot_presence m)
     \<and> (\<forall>v. ot_select m v = (case map_of alts (Some v) of None \<Rightarrow> (None, 0) | Some r \<Rightarrow> r))
     \<and> (\<forall>v. ot_criticality m v = (case map_of crit (Some v) of None \<Rightarrow> (None, 0) | Some r \<Rightarrow> r)))"

lemma open_type_fitsI:
  assumes "ot_select m = select_type t cc fc" and "ot_criticality m = select_type t cc' fc'"
    and "alternatives_fit (all_alternatives t cc fc) (all_alternatives t cc' fc') (ot_members m) (ot_presence m)"
  shows "open_type_fits m"
  using assms by (auto simp: open_type_fits_def select_type_lookup intro!: exI)

lemma e2ap_open_types_fit: "m \<in> set e2ap_open_types \<Longrightarrow> open_type_fits m"
proof -
  have "\<forall>m \<in> set e2ap_open_types. open_type_fits m"
    unfolding e2ap_open_types_def list.set ball_simps
    by (intro conjI TrueI; rule open_type_fitsI, unfold open_type_member_defs open_type_member.select_convs select_defs,
        rule refl, rule refl, code_simp)
  then show "m \<in> set e2ap_open_types \<Longrightarrow> open_type_fits m" by blast
qed

lemma open_type_select:
  assumes "open_type_fits m" and "ot_select m v = (ty, k)" and "k \<noteq> 0"
  shows "k \<le> length (ot_members m) \<and> ty = Some (snd (ot_members m ! (k - 1)))
    \<and> length (ot_presence m) = Suc (length (ot_members m)) \<and> ot_presence m ! k = fst (ot_members m ! (k - 1))
    \<and> ot_criticality m v = (Some (IE DEF_Criticality), k)"
proof -
  from assms(1) obtain alts crit where
    fit: "map snd alts = zip (map (Some \<circ> snd) (ot_members m)) [1..<Suc (length (ot_members m))]"
    and pr: "ot_presence m = ''NOTHING'' # map fst (ot_members m)"
    and c: "list_all (\<lambda>(key, _, k). map_of crit key = Some (Some (IE DEF_Criticality), k)) alts"
    and s: "ot_select m v = (case map_of alts (Some v) of None \<Rightarrow> (None, 0) | Some r \<Rightarrow> r)"
    and sc: "ot_criticality m v = (case map_of crit (Some v) of None \<Rightarrow> (None, 0) | Some r \<Rightarrow> r)"
    unfolding open_type_fits_def alternatives_fit_def by blast
  from s assms(2,3) have "map_of alts (Some v) = Some (ty, k)" by (auto split: option.splits)
  then have in_alts: "(Some v, ty, k) \<in> set alts" by (rule map_of_SomeD)
  then have "(ty, k) \<in> set (map snd alts)" by force
  then obtain i where i: "i < length (ot_members m)" "ty = Some (snd (ot_members m ! i))" "k = Suc i"
    by (auto simp: fit in_set_zip simp del: upt_Suc)
  from c in_alts sc have "ot_criticality m v = (Some (IE DEF_Criticality), k)" by (auto simp: list_all_iff)
  with i pr show ?thesis by simp
qed

lemma open_type_reach:
  assumes "open_type_fits m" and "1 \<le> k" and "k \<le> length (ot_members m)"
  shows "\<exists>!v. snd (ot_select m v) = k"
proof -
  from assms(1) obtain alts where
    fit: "map snd alts = zip (map (Some \<circ> snd) (ot_members m)) [1..<Suc (length (ot_members m))]"
    and d: "distinct (map fst alts)" and n: "None \<notin> set (map fst alts)"
    and s: "\<And>v. ot_select m v = (case map_of alts (Some v) of None \<Rightarrow> (None, 0) | Some r \<Rightarrow> r)"
    unfolding open_type_fits_def alternatives_fit_def by blast
  have len: "length alts = length (ot_members m)"
    using arg_cong [OF fit, of length] by (simp del: upt_Suc)
  have snd_nth: "snd (snd (alts ! i)) = Suc i" if "i < length alts" for i
    using arg_cong [OF fit, of "\<lambda>xs. snd (xs ! i)"] that len by (simp del: upt_Suc)
  let ?i = "k - 1"
  have i: "?i < length alts" using assms len by simp
  then have mem: "alts ! ?i \<in> set alts" by simp
  obtain key r where e: "alts ! ?i = (key, r)" by (cases "alts ! ?i")
  then have "key \<noteq> None" using n mem by force
  then obtain v where v: "key = Some v" by auto
  have "map_of alts (Some v) = Some r" using d mem e v by (simp add: map_of_is_SomeI)
  then have "snd (ot_select m v) = k" using s snd_nth [OF i] e assms by simp
  moreover have "w = v" if w: "snd (ot_select m w) = k" for w
  proof -
    from w s assms(2) obtain r' where r': "map_of alts (Some w) = Some r'" "snd r' = k"
      by (cases "map_of alts (Some w)") auto
    then obtain j where j: "j < length alts" "alts ! j = (Some w, r')" by (metis in_set_conv_nth map_of_SomeD)
    with snd_nth [of j] r' have "j = ?i" by auto
    with j e v show ?thesis by simp
  qed
  ultimately show ?thesis by blast
qed

text \<open>
  In every set but one, a selected presence index is one of the union's members, that
  member has the selected type, the presence constant of that number names the same member,
  and the criticality is selected with the same index.
\<close>

theorem open_types_consistent:
  assumes "m \<in> set e2ap_open_types" and "ot_select m v = (ty, k)" and "k \<noteq> 0"
  shows "k \<le> length (ot_members m) \<and> ty = Some (snd (ot_members m ! (k - 1)))
    \<and> length (ot_presence m) = Suc (length (ot_members m)) \<and> ot_presence m ! k = fst (ot_members m ! (k - 1))
    \<and> ot_criticality m v = (Some (IE DEF_Criticality), k)"
  using open_type_select [OF e2ap_open_types_fit] assms by blast

theorem open_types_consistent_witness:
  "8 \<le> length (ot_members RICindication_IEs_value)
    \<and> Some (IE DEF_RICcallProcessID) = Some (snd (ot_members RICindication_IEs_value ! (8 - 1)))
    \<and> length (ot_presence RICindication_IEs_value) = Suc (length (ot_members RICindication_IEs_value))
    \<and> ot_presence RICindication_IEs_value ! 8 = fst (ot_members RICindication_IEs_value ! (8 - 1))
    \<and> ot_criticality RICindication_IEs_value 20 = (Some (IE DEF_Criticality), 8)"
  by (rule open_types_consistent [where v = 20 and ty = "Some (IE DEF_RICcallProcessID)"],
      simp add: e2ap_open_types_def, code_simp, simp)

text \<open>
  Conversely, in every set but one, each member of the union is selected by exactly one
  id: no element type is unreachable and none is shadowed by an earlier row.
\<close>

theorem open_types_reachable:
  assumes "m \<in> set e2ap_open_types" and "1 \<le> k" and "k \<le> length (ot_members m)"
  shows "\<exists>!v. snd (ot_select m v) = k"
  using assms by (intro open_type_reach e2ap_open_types_fit)

theorem open_types_reachable_witness: "\<exists>!v. snd (ot_select RICindication_IEs_value v) = 8"
  by (rule open_types_reachable) (simp add: e2ap_open_types_def, code_simp+)

section \<open>Open type members\<close>

text \<open>
  A choice is its presence index with the value stored in the union. \<open>zero\<close> is what resetting
  leaves in the union.
\<close>

definition CHOICE_variant_set_presence :: "nat \<Rightarrow> 'v \<Rightarrow> nat \<times> 'v \<Rightarrow> nat \<Rightarrow> int \<times> nat \<times> 'v" where
  "CHOICE_variant_set_presence elements_count zero choice present =
     (if elements_count < present then (-1, choice)
      else if present = fst choice then (0, choice)
      else (0, present, if fst choice \<noteq> 0 then zero else snd choice))"

text \<open>
  The decoder of an element's value. \<open>constraining\<close> is the id decoded before it and \<open>decs\<close> the
  decoder of each type. \<open>None\<close> is a read beyond the table of members.
\<close>

definition OPEN_TYPE_aper_get ::
  "(nat \<Rightarrow> bool) \<Rightarrow> (int \<Rightarrow> asn_DEF option \<times> nat) \<Rightarrow> (string \<times> asn_DEF) list \<Rightarrow> 'v
    \<Rightarrow> (asn_DEF \<Rightarrow> bit_data \<Rightarrow> asn_dec_rval \<times> 'v \<times> bit_data) \<Rightarrow> int \<Rightarrow> nat \<times> 'v \<Rightarrow> bit_data
    \<Rightarrow> (asn_dec_rval \<times> (nat \<times> 'v) \<times> bit_data) option" where
  "OPEN_TYPE_aper_get alloc_ok type_selector elements zero decs constraining choice pd =
     (case type_selector constraining of (type_descriptor, presence_index) \<Rightarrow>
        if presence_index = 0 then Some (ASN__DECODE_FAILED, choice, pd)
        else case CHOICE_variant_set_presence (length elements) zero choice 0 of (r, choice0) \<Rightarrow>
          if r \<noteq> 0 then Some (ASN__DECODE_FAILED, choice0, pd)
          else if length elements < presence_index then None
          else case aper_open_type_get alloc_ok (decs (the type_descriptor)) (snd choice0) pd of (rv, v, pd1) \<Rightarrow>
            if rv_code rv = RC_OK then
              case CHOICE_variant_set_presence (length elements) zero (0, v) presence_index of (r, choice1) \<Rightarrow>
                if r = 0 then Some (rv, choice1, pd1) else Some (rv\<lparr>rv_code := RC_FAIL\<rparr>, (0, zero), pd1)
            else Some (rv, (0, zero), pd1))"

definition OPEN_TYPE_encode_aper ::
  "(nat \<Rightarrow> bool) \<Rightarrow> (string \<times> asn_DEF) list \<Rightarrow> (asn_DEF \<Rightarrow> 'v \<Rightarrow> enc_dyn_arg outp \<Rightarrow> int \<times> enc_dyn_arg outp)
    \<Rightarrow> byte list \<Rightarrow> (byte list \<Rightarrow> 'k \<Rightarrow> 'k option) \<Rightarrow> nat \<times> 'v \<Rightarrow> 'k outp \<Rightarrow> int \<times> 'k outp" where
  "OPEN_TYPE_encode_aper alloc_ok elements encs tmpspace out choice po =
     (if fst choice = 0 \<or> length elements < fst choice then (-1, po)
      else
        let present = fst choice - 1;
            (r, po1) = aper_open_type_put alloc_ok (Some (encs (snd (elements ! present)))) tmpspace out (snd choice) po
        in if r < 0 then (-1, po1) else (0, po1))"

lemma open_type_put_loop_result: "fst (open_type_put_loop pv out bs n po) \<in> {-1, 0}"
  by (induction pv out bs n po rule: open_type_put_loop.induct)
    (subst open_type_put_loop.simps, auto simp: Let_def split: prod.splits)

lemma aper_open_type_put_result: "fst (aper_open_type_put alloc_ok enc tmp out v po) \<in> {-1, 0}"
  using open_type_put_loop_result [of APER out]
  by (fastforce simp: aper_open_type_put_def Let_def split: option.splits prod.splits)

context open_type
begin

lemma put_get_ok:
  assumes "valid v" and "length (field 0 v) < 131000" and "length tmp = 32" and "po_ok po" and "pd_ok pd"
    and "pd_nboff pd mod 8 = po_nboff po mod 8"
    and "aper_open_type_put alloc_ok (Some enc) tmp encode_to_buffer_cb v po = (0, po')"
    and "pd_bits pd = written po po' @ rest"
  shows "\<exists>rv pd'. aper_open_type_get alloc_ok dec sptr pd = (rv, v, pd') \<and> rv_code rv = RC_OK \<and> pd_bits pd' = rest"
proof -
  from open_type_put_ok [OF buf.octet_sink_axioms assms(1,3,4,7)] obtain b where
    b: "bytes_bits b = padded (field 0 v)" "b \<noteq> []"
    and w: "po_writes arg_buffer po (ot_bits APER (po_nboff po) b) po'" by blast
  have "8 * length b \<le> 131000 + 7"
    using arg_cong [OF b(1), of length] assms(2) by (simp add: padded_def align_pad_def)
  then have m: "length b mod 16384 \<noteq> 0" using b(2) by simp
  have "ot_bits APER (po_nboff po) b = ot_bits APER (pd_nboff pd) b" using assms(6) ot_bits_mod by metis
  then have bits: "pd_bits pd = ot_bits APER (pd_nboff pd) b @ rest" using assms(8) written_eq [OF w] by simp
  from open_type_get_ok [OF assms(1) b(1) m assms(5) bits] bits show ?thesis
    by (force simp: pd_reads_def)
qed

end

text \<open>
  (C30) An element of a known id, in each of the 28 element tables but that of RICserviceUpdate, whose
  rows do not fit its members: the value the encoder puts under a presence index is decoded with the
  same presence index and value, whenever the coders of its type are inverse to each other (locale
  \<open>open_type\<close>) and its bits are fewer than 131000. An open type of 16384 octets, or a multiple of them, is
  written without an end and cannot be read.
\<close>

theorem open_type_member_round_trip:
  assumes "m \<in> set e2ap_open_types" and "ot_select m v = (Some ty, k)" and "k \<noteq> 0"
    and "open_type (\<lambda>_. True) (encs ty) (decs ty) field valid" and "valid x"
    and "length (field 0 x) < 131000"
    and "length tmp = 32" and "po_ok po" and "pd_ok pd" and "pd_nboff pd mod 8 = po_nboff po mod 8"
    and "OPEN_TYPE_encode_aper (\<lambda>_. True) (ot_members m) encs tmp encode_to_buffer_cb (k, x) po = (0, po')"
    and "pd_bits pd = written po po' @ rest"
  shows "\<exists>rv pd'. OPEN_TYPE_aper_get (\<lambda>_. True) (ot_select m) (ot_members m) zero decs v (0, zero) pd
      = Some (rv, (k, x), pd') \<and> rv_code rv = RC_OK \<and> pd_bits pd' = rest"
proof -
  from open_type_select [OF e2ap_open_types_fit [OF assms(1)] assms(2,3)]
  have k: "k \<le> length (ot_members m)" "snd (ot_members m ! (k - 1)) = ty" by auto
  let ?put = "aper_open_type_put (\<lambda>_. True) (Some (encs ty)) tmp encode_to_buffer_cb x po"
  from assms(3,11) k have "?put = (fst ?put, po')" and "\<not> fst ?put < 0"
    by (auto simp: OPEN_TYPE_encode_aper_def Let_def split: prod.splits if_splits)
  moreover from this(2) have "fst ?put = 0"
    using aper_open_type_put_result [of "\<lambda>_. True" "Some (encs ty)" tmp encode_to_buffer_cb x po] by auto
  ultimately have put: "?put = (0, po')" by metis
  from open_type.put_get_ok [OF assms(4-10) put assms(12)] obtain rv pd' where
    "aper_open_type_get (\<lambda>_. True) (decs ty) zero pd = (rv, x, pd')" "rv_code rv = RC_OK" "pd_bits pd' = rest" by blast
  with assms(2,3) k show ?thesis
    by (auto simp: OPEN_TYPE_aper_get_def CHOICE_variant_set_presence_def)
qed

theorem open_type_member_round_trip_witness:
  "\<exists>rv pd'. OPEN_TYPE_aper_get (\<lambda>_. True) (ot_select RICindication_IEs_value) (ot_members RICindication_IEs_value) 0
      (\<lambda>_. NativeInteger_decode_aper False (Some request_id_range) 0) 27 (0, 0) (sample_pd [2, 1, 44, 9])
      = Some (rv, (4, 300), pd') \<and> rv_code rv = RC_OK \<and> pd_bits pd' = byte_bits 9"
proof (rule open_type_member_round_trip [where ty = "IE DEF_RICindicationSN" and po = sample_outp and tmp = "replicate 32 0"
      and encs = "\<lambda>_. NativeInteger_encode_aper False (Some request_id_range) (encode_dyn_cb (\<lambda>_. True))"])
  show "open_type (\<lambda>_. True) (NativeInteger_encode_aper False (Some request_id_range) (encode_dyn_cb (\<lambda>_. True)))
      (NativeInteger_decode_aper False (Some request_id_range) 0) (int_field request_id_range) (int_sized False request_id_range)"
    by (rule native_open.open_type_axioms)
  show "OPEN_TYPE_encode_aper (\<lambda>_. True) (ot_members RICindication_IEs_value)
      (\<lambda>_. NativeInteger_encode_aper False (Some request_id_range) (encode_dyn_cb (\<lambda>_. True)))
      (replicate 32 0) encode_to_buffer_cb (4, 300) sample_outp = (0, sample_native_put)"
    by (simp add: OPEN_TYPE_encode_aper_def RICindication_IEs_value_def asn_MBR_RICindication_IEs_value_def)
      (subst sample_native_open, simp)
  have "pd_bits (sample_pd [2, 1, 44, 9]) = bytes_bits [2, 1, 44] @ byte_bits 9" by code_simp
  then show "pd_bits (sample_pd [2, 1, 44, 9]) = written sample_outp sample_native_put @ byte_bits 9"
    by (simp add: sample_native_written)
  show "ot_select RICindication_IEs_value 27 = (Some (IE DEF_RICindicationSN), 4)" by code_simp
qed (simp_all add: e2ap_open_types_def sample_native_sized sample_native_field sample_pd_def pd_ok_def)

end
