(* ===== verification/E2apWrapper.thy ===== *)
theory E2apWrapper
  imports PerCodec AsnArray IeTables
begin

text \<open>
  The message functions of the KPI monitor, \<^verbatim>\<open>e2ap/wrapper.c\<close>: reading and replacing the
  sequence number in a subscription message, building subscription requests, taking responses
  and indications apart.

  A C pointer to a structure is an option over its contents, a C union the constructor that was
  stored last; reading another member is the fault \<open>Wrong_member\<close>. A \<^verbatim>\<open>long\<close> is an \<open>int\<close>: no
  arithmetic is done on them here. The coders of \<^verbatim>\<open>asn_DEF_E2AP_PDU\<close> are the arguments \<open>enc\<close>
  and \<open>dec\<close> of the entry points of \<^theory_text>\<open>PerCodec\<close>, so that this part stands on its own;
  \<^theory_text>\<open>E2apCodec\<close> puts the coders of \<^theory_text>\<open>AsnTypes\<close> in their place. \<open>heap\<close> counts the live message trees and the live blocks of the caller's
  structures, so that leaks show.
\<close>

section \<open>Messages\<close>

record RICrequestID =
  ricRequestorID :: int
  ricInstanceID :: int

datatype cause =
    Cause_NOTHING | Cause_ricRequest int | Cause_ricService int | Cause_transport int | Cause_protocol int | Cause_misc int

text \<open>\<^verbatim>\<open>ProtocolIE-Field\<close>: an id, a criticality and an open type value.\<close>

record 'v field =
  fld_id :: int
  fld_criticality :: int
  fld_value :: 'v

record RICaction_ToBeSetup_Item =
  ts_ricActionID :: int
  ts_ricActionType :: int
  ts_ricActionDefinition :: "byte list option"
  ts_ricSubsequentAction :: "(int \<times> int) option"

record RICaction_NotAdmitted_Item =
  na_ricActionID :: int
  na_cause :: cause

text \<open>In the three lists of actions the union has one member; \<open>None\<close> is \<^verbatim>\<open>PR_NOTHING\<close>.\<close>

record RICsubscriptionDetails =
  ricEventTriggerDefinition :: "byte list"
  ricAction_ToBeSetup_List :: "RICaction_ToBeSetup_Item option field set_of"

text \<open>Elements these functions never look into have their type and a contents \<open>'o\<close>.\<close>

datatype 'o ie_value =
    IE_NOTHING
  | IE_RICrequestID RICrequestID
  | IE_RANfunctionID int
  | IE_RICsubscriptionDetails RICsubscriptionDetails
  | IE_RICaction_Admitted_List "int option field set_of"
  | IE_RICaction_NotAdmitted_List "RICaction_NotAdmitted_Item option field set_of"
  | IE_RICactionID int
  | IE_RICindicationSN int
  | IE_RICindicationType int
  | IE_RICindicationHeader "byte list"
  | IE_RICindicationMessage "byte list"
  | IE_RICcallProcessID "byte list"
  | IE_other element_type 'o

type_synonym 'o ie = "'o ie_value field"

text \<open>All messages are a list of elements; \<open>em_present\<close> says which message it is.\<close>

record 'o elementary =
  em_procedureCode :: int
  em_criticality :: int
  em_present :: nat
  em_protocolIEs :: "'o ie set_of"

datatype 'o E2AP_PDU =
    PDU_NOTHING
  | PDU_initiatingMessage "'o elementary"
  | PDU_successfulOutcome "'o elementary"
  | PDU_unsuccessfulOutcome "'o elementary"

record heap =
  live_pdus :: int
  live_blocks :: int

definition empty_heap :: heap where
  "empty_heap = \<lparr>live_pdus = 0, live_blocks = 0\<rparr>"

definition free_pdu :: "heap \<Rightarrow> heap" where
  "free_pdu h = h\<lparr>live_pdus := live_pdus h - 1\<rparr>"

definition free_blocks :: "nat \<Rightarrow> heap \<Rightarrow> heap" where
  "free_blocks n h = h\<lparr>live_blocks := live_blocks h - int n\<rparr>"

definition alloc_block :: "heap \<Rightarrow> heap" where
  "alloc_block h = h\<lparr>live_blocks := live_blocks h + 1\<rparr>"

abbreviation (input) Criticality_reject :: int where "Criticality_reject \<equiv> 0"
abbreviation (input) ProcedureCode_id_RICindication :: int where "ProcedureCode_id_RICindication \<equiv> 5"
abbreviation (input) ProcedureCode_id_RICsubscription :: int where "ProcedureCode_id_RICsubscription \<equiv> 8"
abbreviation (input) ProcedureCode_id_RICsubscriptionDelete :: int where "ProcedureCode_id_RICsubscriptionDelete \<equiv> 9"
abbreviation (input) id_RANfunctionID :: int where "id_RANfunctionID \<equiv> 5"
abbreviation (input) id_RICaction_Admitted_Item :: int where "id_RICaction_Admitted_Item \<equiv> 14"
abbreviation (input) id_RICactionID :: int where "id_RICactionID \<equiv> 15"
abbreviation (input) id_RICaction_NotAdmitted_Item :: int where "id_RICaction_NotAdmitted_Item \<equiv> 16"
abbreviation (input) id_RICactions_Admitted :: int where "id_RICactions_Admitted \<equiv> 17"
abbreviation (input) id_RICactions_NotAdmitted :: int where "id_RICactions_NotAdmitted \<equiv> 18"
abbreviation (input) id_RICaction_ToBeSetup_Item :: int where "id_RICaction_ToBeSetup_Item \<equiv> 19"
abbreviation (input) id_RICcallProcessID :: int where "id_RICcallProcessID \<equiv> 20"
abbreviation (input) id_RICindicationHeader :: int where "id_RICindicationHeader \<equiv> 25"
abbreviation (input) id_RICindicationMessage :: int where "id_RICindicationMessage \<equiv> 26"
abbreviation (input) id_RICindicationSN :: int where "id_RICindicationSN \<equiv> 27"
abbreviation (input) id_RICindicationType :: int where "id_RICindicationType \<equiv> 28"
abbreviation (input) id_RICrequestID :: int where "id_RICrequestID \<equiv> 29"
abbreviation (input) id_RICsubscriptionDetails :: int where "id_RICsubscriptionDetails \<equiv> 30"

fun choice_RICrequestID :: "'o ie_value \<Rightarrow> fault + RICrequestID" where
  "choice_RICrequestID (IE_RICrequestID r) = Inr r"
| "choice_RICrequestID _ = Inl Wrong_member"

text \<open>The element type that the value of an element has.\<close>

fun ie_value_type :: "'o ie_value \<Rightarrow> element_type option" where
  "ie_value_type IE_NOTHING = None"
| "ie_value_type (IE_RICrequestID _) = Some DEF_RICrequestID"
| "ie_value_type (IE_RANfunctionID _) = Some DEF_RANfunctionID"
| "ie_value_type (IE_RICsubscriptionDetails _) = Some DEF_RICsubscriptionDetails"
| "ie_value_type (IE_RICaction_Admitted_List _) = Some DEF_RICaction_Admitted_List"
| "ie_value_type (IE_RICaction_NotAdmitted_List _) = Some DEF_RICaction_NotAdmitted_List"
| "ie_value_type (IE_RICactionID _) = Some DEF_RICactionID"
| "ie_value_type (IE_RICindicationSN _) = Some DEF_RICindicationSN"
| "ie_value_type (IE_RICindicationType _) = Some DEF_RICindicationType"
| "ie_value_type (IE_RICindicationHeader _) = Some DEF_RICindicationHeader"
| "ie_value_type (IE_RICindicationMessage _) = Some DEF_RICindicationMessage"
| "ie_value_type (IE_RICcallProcessID _) = Some DEF_RICcallProcessID"
| "ie_value_type (IE_other t _) = Some t"

section \<open>Coding a message\<close>

type_synonym 'o pdu_encoder = "'o E2AP_PDU option \<Rightarrow> enc_to_buf_arg outp \<Rightarrow> int \<times> enc_to_buf_arg outp"
type_synonym 'o pdu_decoder = "bit_data \<Rightarrow> asn_dec_rval \<times> 'o E2AP_PDU option \<times> bit_data"

text \<open>
  The result is a \<^verbatim>\<open>size_t\<close> although it is a number of bits or -1. The octets written replace
  the front of the buffer; the message is freed.
\<close>

definition encode_E2AP_PDU ::
  "'o pdu_encoder \<Rightarrow> byte list \<Rightarrow> 'o E2AP_PDU \<Rightarrow> byte list \<Rightarrow> heap \<Rightarrow> 64 word \<times> byte list \<times> heap" where
  "encode_E2AP_PDU enc tmpspace pdu buffer h =
     (let (encoded, octets) = aper_encode_to_buffer (Some enc) (Some pdu) (length buffer) tmpspace
      in (if encoded = -1 then - 1 else word_of_int encoded, octets @ drop (length octets) buffer, free_pdu h))"

definition decode_E2AP_PDU :: "'o pdu_decoder \<Rightarrow> byte list \<Rightarrow> heap \<Rightarrow> fault + 'o E2AP_PDU option \<times> heap" where
  "decode_E2AP_PDU dec buffer h =
     (case aper_decode_complete (Some dec) None buffer of
        None \<Rightarrow> Inl Assertion_failed
      | Some (rv, pdu) \<Rightarrow>
          if rv_code rv = RC_OK then
            Inr (pdu, case pdu of None \<Rightarrow> h | Some _ \<Rightarrow> h\<lparr>live_pdus := live_pdus h + 1\<rparr>)
          else Inr (None, h))"

section \<open>Sequence numbers\<close>

text \<open>What tells the messages apart: the choice of the PDU, the procedure and the presence index.\<close>

record 'o message_kind =
  mk_sel :: "'o E2AP_PDU \<Rightarrow> 'o elementary option"
  mk_con :: "'o elementary \<Rightarrow> 'o E2AP_PDU"
  mk_code :: int
  mk_present :: nat

fun initiatingMessage :: "'o E2AP_PDU \<Rightarrow> 'o elementary option" where
  "initiatingMessage (PDU_initiatingMessage m) = Some m"
| "initiatingMessage _ = None"

fun successfulOutcome :: "'o E2AP_PDU \<Rightarrow> 'o elementary option" where
  "successfulOutcome (PDU_successfulOutcome m) = Some m"
| "successfulOutcome _ = None"

fun unsuccessfulOutcome :: "'o E2AP_PDU \<Rightarrow> 'o elementary option" where
  "unsuccessfulOutcome (PDU_unsuccessfulOutcome m) = Some m"
| "unsuccessfulOutcome _ = None"

text \<open>The number of a presence constant.\<close>

definition presence :: "string list \<Rightarrow> string \<Rightarrow> nat" where
  "presence names name = length (takeWhile (\<lambda>n. n \<noteq> name) names)"

definition RICsubscriptionRequest_kind :: "'o message_kind" where
  "RICsubscriptionRequest_kind = \<lparr>mk_sel = initiatingMessage, mk_con = PDU_initiatingMessage,
     mk_code = ProcedureCode_id_RICsubscription,
     mk_present = presence InitiatingMessage__value_PR ''RICsubscriptionRequest''\<rparr>"

definition RICsubscriptionResponse_kind :: "'o message_kind" where
  "RICsubscriptionResponse_kind = \<lparr>mk_sel = successfulOutcome, mk_con = PDU_successfulOutcome,
     mk_code = ProcedureCode_id_RICsubscription,
     mk_present = presence SuccessfulOutcome__value_PR ''RICsubscriptionResponse''\<rparr>"

definition RICsubscriptionFailure_kind :: "'o message_kind" where
  "RICsubscriptionFailure_kind = \<lparr>mk_sel = unsuccessfulOutcome, mk_con = PDU_unsuccessfulOutcome,
     mk_code = ProcedureCode_id_RICsubscription,
     mk_present = presence UnsuccessfulOutcome__value_PR ''RICsubscriptionFailure''\<rparr>"

definition RICsubscriptionDeleteRequest_kind :: "'o message_kind" where
  "RICsubscriptionDeleteRequest_kind = \<lparr>mk_sel = initiatingMessage, mk_con = PDU_initiatingMessage,
     mk_code = ProcedureCode_id_RICsubscriptionDelete,
     mk_present = presence InitiatingMessage__value_PR ''RICsubscriptionDeleteRequest''\<rparr>"

definition RICsubscriptionDeleteResponse_kind :: "'o message_kind" where
  "RICsubscriptionDeleteResponse_kind = \<lparr>mk_sel = successfulOutcome, mk_con = PDU_successfulOutcome,
     mk_code = ProcedureCode_id_RICsubscriptionDelete,
     mk_present = presence SuccessfulOutcome__value_PR ''RICsubscriptionDeleteResponse''\<rparr>"

definition RICsubscriptionDeleteFailure_kind :: "'o message_kind" where
  "RICsubscriptionDeleteFailure_kind = \<lparr>mk_sel = unsuccessfulOutcome, mk_con = PDU_unsuccessfulOutcome,
     mk_code = ProcedureCode_id_RICsubscriptionDelete,
     mk_present = presence UnsuccessfulOutcome__value_PR ''RICsubscriptionDeleteFailure''\<rparr>"

definition RICindication_kind :: "'o message_kind" where
  "RICindication_kind = \<lparr>mk_sel = initiatingMessage, mk_con = PDU_initiatingMessage,
     mk_code = ProcedureCode_id_RICindication,
     mk_present = presence InitiatingMessage__value_PR ''RICindication''\<rparr>"

lemmas kind_defs = RICsubscriptionRequest_kind_def RICsubscriptionResponse_kind_def RICsubscriptionFailure_kind_def
  RICsubscriptionDeleteRequest_kind_def RICsubscriptionDeleteResponse_kind_def RICsubscriptionDeleteFailure_kind_def
  RICindication_kind_def

definition message_of :: "'o message_kind \<Rightarrow> 'o E2AP_PDU \<Rightarrow> 'o elementary option" where
  "message_of kind pdu =
     (case mk_sel kind pdu of
        None \<Rightarrow> None
      | Some m \<Rightarrow> if em_procedureCode m = mk_code kind \<and> em_present m = mk_present kind then Some m else None)"

text \<open>The index at which the loop over the elements stops.\<close>

fun request_id_index :: "'o ie list \<Rightarrow> nat option" where
  "request_id_index [] = None"
| "request_id_index (ie # ies) =
     (if fld_id ie = id_RICrequestID then Some 0 else map_option Suc (request_id_index ies))"

definition get_sequence_number ::
  "'o message_kind \<Rightarrow> 'o pdu_decoder \<Rightarrow> byte list \<Rightarrow> heap \<Rightarrow> fault + int \<times> heap" where
  "get_sequence_number kind dec buffer h =
     fault_bind (decode_E2AP_PDU dec buffer h) (\<lambda>(pdu, h1).
       case pdu of
         None \<Rightarrow> Inr (-1, h1)
       | Some p \<Rightarrow>
           case message_of kind p of
             None \<Rightarrow> Inr (-1, free_pdu h1)
           | Some m \<Rightarrow>
               case request_id_index (set_items (em_protocolIEs m)) of
                 None \<Rightarrow> Inr (-1, free_pdu h1)
               | Some i \<Rightarrow>
                   fault_bind (choice_RICrequestID (fld_value (set_items (em_protocolIEs m) ! i)))
                     (\<lambda>r. Inr (ricInstanceID r, free_pdu h1)))"

definition set_sequence_number ::
  "'o message_kind \<Rightarrow> 'o pdu_decoder \<Rightarrow> 'o pdu_encoder \<Rightarrow> byte list \<Rightarrow> byte list \<Rightarrow> int \<Rightarrow> heap
    \<Rightarrow> fault + int \<times> byte list \<times> heap" where
  "set_sequence_number kind dec enc tmpspace buffer sequence_number h =
     fault_bind (decode_E2AP_PDU dec buffer h) (\<lambda>(pdu, h1).
       case pdu of
         None \<Rightarrow> Inr (-1, buffer, h1)
       | Some p \<Rightarrow>
           case message_of kind p of
             None \<Rightarrow> Inr (-1, buffer, free_pdu h1)
           | Some m \<Rightarrow>
               case request_id_index (set_items (em_protocolIEs m)) of
                 None \<Rightarrow> Inr (-1, buffer, free_pdu h1)
               | Some i \<Rightarrow>
                   let ies = em_protocolIEs m; ie = set_items ies ! i
                   in fault_bind (choice_RICrequestID (fld_value ie)) (\<lambda>r.
                        let ie' = ie\<lparr>fld_value := IE_RICrequestID (r\<lparr>ricInstanceID := sequence_number\<rparr>)\<rparr>;
                            m' = m\<lparr>em_protocolIEs := ies\<lparr>so_array := (so_array ies)[i := Some ie']\<rparr>\<rparr>;
                            (size, buffer', h2) = encode_E2AP_PDU enc tmpspace (mk_con kind m') buffer h1
                        in Inr (sint size, buffer', h2)))"

definition e2ap_get_ric_subscription_request_sequence_number ::
  "'o pdu_decoder \<Rightarrow> byte list \<Rightarrow> heap \<Rightarrow> fault + int \<times> heap" where
  "e2ap_get_ric_subscription_request_sequence_number = get_sequence_number RICsubscriptionRequest_kind"

definition e2ap_set_ric_subscription_request_sequence_number ::
  "'o pdu_decoder \<Rightarrow> 'o pdu_encoder \<Rightarrow> byte list \<Rightarrow> byte list \<Rightarrow> int \<Rightarrow> heap \<Rightarrow> fault + int \<times> byte list \<times> heap" where
  "e2ap_set_ric_subscription_request_sequence_number = set_sequence_number RICsubscriptionRequest_kind"

definition e2ap_get_ric_subscription_response_sequence_number ::
  "'o pdu_decoder \<Rightarrow> byte list \<Rightarrow> heap \<Rightarrow> fault + int \<times> heap" where
  "e2ap_get_ric_subscription_response_sequence_number = get_sequence_number RICsubscriptionResponse_kind"

definition e2ap_set_ric_subscription_response_sequence_number ::
  "'o pdu_decoder \<Rightarrow> 'o pdu_encoder \<Rightarrow> byte list \<Rightarrow> byte list \<Rightarrow> int \<Rightarrow> heap \<Rightarrow> fault + int \<times> byte list \<times> heap" where
  "e2ap_set_ric_subscription_response_sequence_number = set_sequence_number RICsubscriptionResponse_kind"

definition e2ap_get_ric_subscription_failure_sequence_number ::
  "'o pdu_decoder \<Rightarrow> byte list \<Rightarrow> heap \<Rightarrow> fault + int \<times> heap" where
  "e2ap_get_ric_subscription_failure_sequence_number = get_sequence_number RICsubscriptionFailure_kind"

definition e2ap_get_ric_subscription_delete_request_sequence_number ::
  "'o pdu_decoder \<Rightarrow> byte list \<Rightarrow> heap \<Rightarrow> fault + int \<times> heap" where
  "e2ap_get_ric_subscription_delete_request_sequence_number = get_sequence_number RICsubscriptionDeleteRequest_kind"

definition e2ap_set_ric_subscription_delete_request_sequence_number ::
  "'o pdu_decoder \<Rightarrow> 'o pdu_encoder \<Rightarrow> byte list \<Rightarrow> byte list \<Rightarrow> int \<Rightarrow> heap \<Rightarrow> fault + int \<times> byte list \<times> heap" where
  "e2ap_set_ric_subscription_delete_request_sequence_number = set_sequence_number RICsubscriptionDeleteRequest_kind"

definition e2ap_get_ric_subscription_delete_response_sequence_number ::
  "'o pdu_decoder \<Rightarrow> byte list \<Rightarrow> heap \<Rightarrow> fault + int \<times> heap" where
  "e2ap_get_ric_subscription_delete_response_sequence_number = get_sequence_number RICsubscriptionDeleteResponse_kind"

definition e2ap_set_ric_subscription_delete_response_sequence_number ::
  "'o pdu_decoder \<Rightarrow> 'o pdu_encoder \<Rightarrow> byte list \<Rightarrow> byte list \<Rightarrow> int \<Rightarrow> heap \<Rightarrow> fault + int \<times> byte list \<times> heap" where
  "e2ap_set_ric_subscription_delete_response_sequence_number = set_sequence_number RICsubscriptionDeleteResponse_kind"

definition e2ap_get_ric_subscription_delete_failure_sequence_number ::
  "'o pdu_decoder \<Rightarrow> byte list \<Rightarrow> heap \<Rightarrow> fault + int \<times> heap" where
  "e2ap_get_ric_subscription_delete_failure_sequence_number = get_sequence_number RICsubscriptionDeleteFailure_kind"


lemmas sequence_number_defs =
  e2ap_get_ric_subscription_request_sequence_number_def e2ap_set_ric_subscription_request_sequence_number_def
  e2ap_get_ric_subscription_response_sequence_number_def e2ap_set_ric_subscription_response_sequence_number_def
  e2ap_get_ric_subscription_failure_sequence_number_def
  e2ap_get_ric_subscription_delete_request_sequence_number_def e2ap_set_ric_subscription_delete_request_sequence_number_def
  e2ap_get_ric_subscription_delete_response_sequence_number_def e2ap_set_ric_subscription_delete_response_sequence_number_def
  e2ap_get_ric_subscription_delete_failure_sequence_number_def

section \<open>Building requests\<close>

text \<open>
  \<open>calloc_ok k\<close> tells whether the \<open>k\<close>-th \<^verbatim>\<open>calloc\<close> of the call succeeds, \<open>realloc_ok\<close> whether a
  list can grow; the code ignores the result of \<^verbatim>\<open>ASN_SEQUENCE_ADD\<close>. The structures allocated by
  \<^verbatim>\<open>calloc\<close> have no action definition and no subsequent action.
\<close>

record RICactionDefinition =
  ad_actionDefinition :: "byte list"
  ad_size :: int

record RICSubsequentAction =
  sa_isValid :: int
  sa_subsequentActionType :: int
  sa_timeToWait :: int

definition to_be_setup_field :: "int \<Rightarrow> int \<Rightarrow> RICaction_ToBeSetup_Item option field" where
  "to_be_setup_field action_id action_type =
     \<lparr>fld_id = id_RICaction_ToBeSetup_Item, fld_criticality = Criticality_reject,
      fld_value = Some \<lparr>ts_ricActionID = action_id, ts_ricActionType = action_type, ts_ricActionDefinition = None,
        ts_ricSubsequentAction = None\<rparr>\<rparr>"

text \<open>
  The loop over the actions, \<open>todo\<close> of them from \<open>index\<close> on; \<open>k\<close> numbers the allocation. \<open>None\<close> is
  a failed allocation. A definition or a subsequent action is stored through the null pointers
  of the new structure.
\<close>

fun setup_actions ::
  "(nat \<Rightarrow> bool) \<Rightarrow> (nat \<Rightarrow> bool) \<Rightarrow> int list \<Rightarrow> int list \<Rightarrow> RICactionDefinition list \<Rightarrow> RICSubsequentAction list
    \<Rightarrow> nat \<Rightarrow> nat \<Rightarrow> nat \<Rightarrow> RICaction_ToBeSetup_Item option field set_of
    \<Rightarrow> fault + RICaction_ToBeSetup_Item option field set_of option" where
  "setup_actions calloc_ok realloc_ok actionIds actionTypes actionDefinitions subsequentActionTypes 0 index k ricActions =
     Inr (Some ricActions)"
| "setup_actions calloc_ok realloc_ok actionIds actionTypes actionDefinitions subsequentActionTypes (Suc todo) index k ricActions =
     (if \<not> calloc_ok k then Inr None
      else if length actionIds \<le> index \<or> length actionTypes \<le> index \<or> length actionDefinitions \<le> index then Inl Out_of_bounds
      else if ad_size (actionDefinitions ! index) \<noteq> 0 then Inl Null_deref
      else if length subsequentActionTypes \<le> index then Inl Out_of_bounds
      else if sa_isValid (subsequentActionTypes ! index) \<noteq> 0 then Inl Null_deref
      else
        setup_actions calloc_ok realloc_ok actionIds actionTypes actionDefinitions subsequentActionTypes todo (Suc index) (Suc k)
          (snd (asn_set_add realloc_ok ricActions (Some (to_be_setup_field (actionIds ! index) (actionTypes ! index))))))"

definition request_id_field :: "int \<Rightarrow> int \<Rightarrow> 'o ie" where
  "request_id_field requestor instance_id =
     \<lparr>fld_id = id_RICrequestID, fld_criticality = Criticality_reject,
      fld_value = IE_RICrequestID \<lparr>ricRequestorID = requestor, ricInstanceID = instance_id\<rparr>\<rparr>"

definition function_id_field :: "int \<Rightarrow> 'o ie" where
  "function_id_field ranFunctionID =
     \<lparr>fld_id = id_RANfunctionID, fld_criticality = Criticality_reject, fld_value = IE_RANfunctionID ranFunctionID\<rparr>"

definition details_field :: "byte list \<Rightarrow> RICaction_ToBeSetup_Item option field set_of \<Rightarrow> 'o ie" where
  "details_field trigger actions =
     \<lparr>fld_id = id_RICsubscriptionDetails, fld_criticality = Criticality_reject,
      fld_value = IE_RICsubscriptionDetails \<lparr>ricEventTriggerDefinition = trigger, ricAction_ToBeSetup_List = actions\<rparr>\<rparr>"

text \<open>
  The event trigger's pointer and size are its list of octets. The allocations are, in order:
  message, initiating message, three elements with the trigger's octets, and one per action.
\<close>

definition e2ap_encode_ric_subscription_request_message ::
  "(nat \<Rightarrow> bool) \<Rightarrow> (nat \<Rightarrow> bool) \<Rightarrow> 'o pdu_encoder \<Rightarrow> byte list \<Rightarrow> byte list \<Rightarrow> int \<Rightarrow> int \<Rightarrow> int \<Rightarrow> byte list \<Rightarrow> int
    \<Rightarrow> int list \<Rightarrow> int list \<Rightarrow> RICactionDefinition list \<Rightarrow> RICSubsequentAction list \<Rightarrow> heap
    \<Rightarrow> fault + int \<times> byte list \<times> heap" where
  "e2ap_encode_ric_subscription_request_message calloc_ok realloc_ok enc tmpspace buffer requestorID
     ricRequestSequenceNumber ranFunctionID eventTriggerDefinition actionCount actionIds actionTypes actionDefinitions
     subsequentActionTypes h =
     (if \<not> calloc_ok 0 \<or> \<not> calloc_ok 1 \<or> \<not> calloc_ok 2 then Inr (-1, buffer, h)
      else
        let list1 = snd (asn_set_add realloc_ok set_of_zero (Some (request_id_field requestorID ricRequestSequenceNumber)))
        in if \<not> calloc_ok 3 then Inr (-1, buffer, h)
           else
             let list2 = snd (asn_set_add realloc_ok list1 (Some (function_id_field ranFunctionID)))
             in if \<not> calloc_ok 4 \<or> \<not> calloc_ok 5 then Inr (-1, buffer, h)
                else
                  fault_bind (setup_actions calloc_ok realloc_ok actionIds actionTypes actionDefinitions subsequentActionTypes
                    (nat actionCount) 0 6 set_of_zero) (\<lambda>actions.
                    case actions of
                      None \<Rightarrow> Inr (-1, buffer, h)
                    | Some ricActions \<Rightarrow>
                        let list3 = snd (asn_set_add realloc_ok list2 (Some (details_field eventTriggerDefinition ricActions)));
                            init = PDU_initiatingMessage
                              \<lparr>em_procedureCode = ProcedureCode_id_RICsubscription, em_criticality = Criticality_reject,
                               em_present = presence InitiatingMessage__value_PR ''RICsubscriptionRequest'', em_protocolIEs = list3\<rparr>;
                            (size, buffer', h') = encode_E2AP_PDU enc tmpspace init buffer (h\<lparr>live_pdus := live_pdus h + 1\<rparr>)
                        in Inr (sint size, buffer', h')))"

definition e2ap_encode_ric_subscription_delete_request_message ::
  "(nat \<Rightarrow> bool) \<Rightarrow> (nat \<Rightarrow> bool) \<Rightarrow> 'o pdu_encoder \<Rightarrow> byte list \<Rightarrow> byte list \<Rightarrow> int \<Rightarrow> int \<Rightarrow> int \<Rightarrow> heap
    \<Rightarrow> int \<times> byte list \<times> heap" where
  "e2ap_encode_ric_subscription_delete_request_message calloc_ok realloc_ok enc tmpspace buffer requestorID
     ricRequestSequenceNumber ranFunctionID h =
     (if \<not> calloc_ok 0 \<or> \<not> calloc_ok 1 \<or> \<not> calloc_ok 2 then (-1, buffer, h)
      else
        let list1 = snd (asn_set_add realloc_ok set_of_zero (Some (request_id_field requestorID ricRequestSequenceNumber)))
        in if \<not> calloc_ok 3 then (-1, buffer, h)
           else
             let list2 = snd (asn_set_add realloc_ok list1 (Some (function_id_field ranFunctionID)));
                 init = PDU_initiatingMessage
                   \<lparr>em_procedureCode = ProcedureCode_id_RICsubscriptionDelete, em_criticality = Criticality_reject,
                    em_present = presence InitiatingMessage__value_PR ''RICsubscriptionDeleteRequest'', em_protocolIEs = list2\<rparr>;
                 (size, buffer', h') = encode_E2AP_PDU enc tmpspace init buffer (h\<lparr>live_pdus := live_pdus h + 1\<rparr>)
             in (sint size, buffer', h'))"

section \<open>Taking a subscription response apart\<close>

record RICcauseItem =
  ci_ricCauseType :: int
  ci_ricCauseID :: int

record RICactionAdmittedList =
  al_ricActionID :: "int list"
  al_count :: int

record RICactionNotAdmittedList =
  nl_ricActionID :: "int list"
  nl_ricCause :: "RICcauseItem list"
  nl_count :: int

record RICsubscriptionResponseMsg =
  rm_requestorID :: int
  rm_requestSequenceNumber :: int
  rm_ranfunctionID :: int
  rm_ricActionAdmittedList :: RICactionAdmittedList
  rm_ricActionNotAdmittedList :: RICactionNotAdmittedList

text \<open>What \<^verbatim>\<open>calloc\<close> gives; the arrays have room for 16 actions.\<close>

definition response_zero :: RICsubscriptionResponseMsg where
  "response_zero =
     \<lparr>rm_requestorID = 0, rm_requestSequenceNumber = 0, rm_ranfunctionID = 0,
      rm_ricActionAdmittedList = \<lparr>al_ricActionID = replicate 16 0, al_count = 0\<rparr>,
      rm_ricActionNotAdmittedList = \<lparr>nl_ricActionID = replicate 16 0,
        nl_ricCause = replicate 16 \<lparr>ci_ricCauseType = 0, ci_ricCauseID = 0\<rparr>, nl_count = 0\<rparr>\<rparr>"

fun admitted_loop :: "int option field list \<Rightarrow> nat \<Rightarrow> int list \<Rightarrow> fault + int list" where
  "admitted_loop [] index arr = Inr arr"
| "admitted_loop (item # items) index arr =
     (if fld_id item = id_RICaction_Admitted_Item then
        case fld_value item of
          None \<Rightarrow> Inl Wrong_member
        | Some action_id \<Rightarrow>
            if length arr \<le> index then Inl Out_of_bounds else admitted_loop items (Suc index) (arr[index := action_id])
      else admitted_loop items (Suc index) arr)"

text \<open>The cause stored for an action; \<open>None\<close> leaves the entry as it was.\<close>

fun cause_item :: "cause \<Rightarrow> RICcauseItem option" where
  "cause_item Cause_NOTHING = None"
| "cause_item (Cause_ricRequest c) = Some \<lparr>ci_ricCauseType = 1, ci_ricCauseID = c\<rparr>"
| "cause_item (Cause_ricService c) = Some \<lparr>ci_ricCauseType = 2, ci_ricCauseID = c\<rparr>"
| "cause_item (Cause_transport c) = Some \<lparr>ci_ricCauseType = 3, ci_ricCauseID = c\<rparr>"
| "cause_item (Cause_protocol c) = Some \<lparr>ci_ricCauseType = 4, ci_ricCauseID = c\<rparr>"
| "cause_item (Cause_misc c) = Some \<lparr>ci_ricCauseType = 5, ci_ricCauseID = c\<rparr>"

fun not_admitted_loop ::
  "RICaction_NotAdmitted_Item option field list \<Rightarrow> nat \<Rightarrow> int list \<Rightarrow> RICcauseItem list
    \<Rightarrow> fault + int list \<times> RICcauseItem list" where
  "not_admitted_loop [] index ids causes = Inr (ids, causes)"
| "not_admitted_loop (item # items) index ids causes =
     (if fld_id item = id_RICaction_NotAdmitted_Item then
        case fld_value item of
          None \<Rightarrow> Inl Wrong_member
        | Some v \<Rightarrow>
            if length ids \<le> index then Inl Out_of_bounds
            else not_admitted_loop items (Suc index) (ids[index := na_ricActionID v])
              (case cause_item (na_cause v) of None \<Rightarrow> causes | Some c \<Rightarrow> causes[index := c])
      else not_admitted_loop items (Suc index) ids causes)"

definition response_step :: "'o ie \<Rightarrow> RICsubscriptionResponseMsg \<Rightarrow> fault + RICsubscriptionResponseMsg" where
  "response_step ie msg =
     (if fld_id ie = id_RICrequestID then
        case fld_value ie of
          IE_RICrequestID r \<Rightarrow>
            Inr (msg\<lparr>rm_requestorID := ricRequestorID r, rm_requestSequenceNumber := ricInstanceID r\<rparr>)
        | _ \<Rightarrow> Inl Wrong_member
      else if fld_id ie = id_RANfunctionID then
        case fld_value ie of IE_RANfunctionID f \<Rightarrow> Inr (msg\<lparr>rm_ranfunctionID := f\<rparr>) | _ \<Rightarrow> Inl Wrong_member
      else if fld_id ie = id_RICactions_Admitted then
        case fld_value ie of
          IE_RICaction_Admitted_List l \<Rightarrow>
            fault_bind (admitted_loop (set_items l) 0 (al_ricActionID (rm_ricActionAdmittedList msg))) (\<lambda>ids.
              Inr (msg\<lparr>rm_ricActionAdmittedList := \<lparr>al_ricActionID = ids, al_count = int (so_count l)\<rparr>\<rparr>))
        | _ \<Rightarrow> Inl Wrong_member
      else if fld_id ie = id_RICactions_NotAdmitted then
        case fld_value ie of
          IE_RICaction_NotAdmitted_List l \<Rightarrow>
            fault_bind (not_admitted_loop (set_items l) 0 (nl_ricActionID (rm_ricActionNotAdmittedList msg))
              (nl_ricCause (rm_ricActionNotAdmittedList msg))) (\<lambda>(ids, causes).
              Inr (msg\<lparr>rm_ricActionNotAdmittedList :=
                \<lparr>nl_ricActionID = ids, nl_ricCause = causes, nl_count = int (so_count l)\<rparr>\<rparr>))
        | _ \<Rightarrow> Inl Wrong_member
      else Inr msg)"

fun response_loop :: "'o ie list \<Rightarrow> RICsubscriptionResponseMsg \<Rightarrow> fault + RICsubscriptionResponseMsg" where
  "response_loop [] msg = Inr msg"
| "response_loop (ie # ies) msg = fault_bind (response_step ie msg) (response_loop ies)"

text \<open>The allocation of the result is not checked; no path frees the decoded message.\<close>

definition e2ap_decode_ric_subscription_response_message ::
  "bool \<Rightarrow> 'o pdu_decoder \<Rightarrow> byte list \<Rightarrow> heap \<Rightarrow> fault + RICsubscriptionResponseMsg option \<times> heap" where
  "e2ap_decode_ric_subscription_response_message calloc_ok dec buffer h =
     fault_bind (decode_E2AP_PDU dec buffer h) (\<lambda>(pdu, h1).
       case pdu of
         None \<Rightarrow> Inr (None, h1)
       | Some p \<Rightarrow>
           case message_of RICsubscriptionResponse_kind p of
             None \<Rightarrow> Inr (None, h1)
           | Some m \<Rightarrow>
               let ies = set_items (em_protocolIEs m)
               in if calloc_ok then fault_bind (response_loop ies response_zero) (\<lambda>msg. Inr (Some msg, alloc_block h1))
                  else if \<exists>ie \<in> set ies. fld_id ie \<in> {id_RICrequestID, id_RANfunctionID, id_RICactions_Admitted,
                      id_RICactions_NotAdmitted} then Inl Null_deref
                  else Inr (None, h1))"

section \<open>Taking an indication apart\<close>

record RICindicationMsg =
  im_requestorID :: int
  im_requestSequenceNumber :: int
  im_ranfunctionID :: int
  im_actionID :: int
  im_indicationSN :: int
  im_indicationType :: int
  im_indicationHeader :: "byte list option"
  im_indicationHeaderSize :: nat
  im_indicationMessage :: "byte list option"
  im_indicationMessageSize :: nat
  im_callProcessID :: "byte list option"
  im_callProcessIDSize :: nat

definition indication_zero :: RICindicationMsg where
  "indication_zero =
     \<lparr>im_requestorID = 0, im_requestSequenceNumber = 0, im_ranfunctionID = 0, im_actionID = 0, im_indicationSN = 0,
      im_indicationType = 0, im_indicationHeader = None, im_indicationHeaderSize = 0, im_indicationMessage = None,
      im_indicationMessageSize = 0, im_callProcessID = None, im_callProcessIDSize = 0\<rparr>"

text \<open>The blocks a message holds, itself included; freeing releases them all.\<close>

definition indication_blocks :: "RICindicationMsg \<Rightarrow> nat" where
  "indication_blocks msg =
     1 + (if im_indicationHeader msg = None then 0 else 1) + (if im_indicationMessage msg = None then 0 else 1)
       + (if im_callProcessID msg = None then 0 else 1)"

definition e2ap_free_decoded_ric_indication_message :: "RICindicationMsg option \<Rightarrow> heap \<Rightarrow> heap" where
  "e2ap_free_decoded_ric_indication_message msg h =
     (case msg of None \<Rightarrow> h | Some m \<Rightarrow> free_blocks (indication_blocks m) h)"

text \<open>
  One element. \<open>k\<close> numbers the allocations; \<open>None\<close> is a failed one. A new buffer replaces the
  pointer to an earlier one.
\<close>

definition indication_step ::
  "(nat \<Rightarrow> bool) \<Rightarrow> 'o ie \<Rightarrow> RICindicationMsg \<Rightarrow> nat \<Rightarrow> heap \<Rightarrow> fault + (RICindicationMsg option \<times> nat \<times> heap)" where
  "indication_step calloc_ok ie msg k h =
     (if fld_id ie = id_RICrequestID then
        case fld_value ie of
          IE_RICrequestID r \<Rightarrow>
            Inr (Some (msg\<lparr>im_requestorID := ricRequestorID r, im_requestSequenceNumber := ricInstanceID r\<rparr>), k, h)
        | _ \<Rightarrow> Inl Wrong_member
      else if fld_id ie = id_RANfunctionID then
        case fld_value ie of IE_RANfunctionID n \<Rightarrow> Inr (Some (msg\<lparr>im_ranfunctionID := n\<rparr>), k, h) | _ \<Rightarrow> Inl Wrong_member
      else if fld_id ie = id_RICactionID then
        case fld_value ie of IE_RICactionID n \<Rightarrow> Inr (Some (msg\<lparr>im_actionID := n\<rparr>), k, h) | _ \<Rightarrow> Inl Wrong_member
      else if fld_id ie = id_RICindicationSN then
        case fld_value ie of IE_RICindicationSN n \<Rightarrow> Inr (Some (msg\<lparr>im_indicationSN := n\<rparr>), k, h) | _ \<Rightarrow> Inl Wrong_member
      else if fld_id ie = id_RICindicationType then
        case fld_value ie of IE_RICindicationType n \<Rightarrow> Inr (Some (msg\<lparr>im_indicationType := n\<rparr>), k, h) | _ \<Rightarrow> Inl Wrong_member
      else if fld_id ie = id_RICindicationHeader then
        case fld_value ie of
          IE_RICindicationHeader b \<Rightarrow>
            Inr (if calloc_ok k
                 then (Some (msg\<lparr>im_indicationHeader := Some b, im_indicationHeaderSize := length b\<rparr>), Suc k, alloc_block h)
                 else (None, Suc k, e2ap_free_decoded_ric_indication_message (Some (msg\<lparr>im_indicationHeader := None\<rparr>)) h))
        | _ \<Rightarrow> Inl Wrong_member
      else if fld_id ie = id_RICindicationMessage then
        case fld_value ie of
          IE_RICindicationMessage b \<Rightarrow>
            Inr (if calloc_ok k
                 then (Some (msg\<lparr>im_indicationMessage := Some b, im_indicationMessageSize := length b\<rparr>), Suc k, alloc_block h)
                 else (None, Suc k, e2ap_free_decoded_ric_indication_message (Some (msg\<lparr>im_indicationMessage := None\<rparr>)) h))
        | _ \<Rightarrow> Inl Wrong_member
      else if fld_id ie = id_RICcallProcessID then
        case fld_value ie of
          IE_RICcallProcessID b \<Rightarrow>
            Inr (if calloc_ok k
                 then (Some (msg\<lparr>im_callProcessID := Some b, im_callProcessIDSize := length b\<rparr>), Suc k, alloc_block h)
                 else (None, Suc k, e2ap_free_decoded_ric_indication_message (Some (msg\<lparr>im_callProcessID := None\<rparr>)) h))
        | _ \<Rightarrow> Inl Wrong_member
      else Inr (Some msg, k, h))"

fun indication_loop ::
  "(nat \<Rightarrow> bool) \<Rightarrow> 'o ie list \<Rightarrow> RICindicationMsg \<Rightarrow> nat \<Rightarrow> heap \<Rightarrow> fault + RICindicationMsg option \<times> heap" where
  "indication_loop calloc_ok [] msg k h = Inr (Some msg, h)"
| "indication_loop calloc_ok (ie # ies) msg k h =
     fault_bind (indication_step calloc_ok ie msg k h) (\<lambda>(msg', k', h').
       case msg' of None \<Rightarrow> Inr (None, free_pdu h') | Some m \<Rightarrow> indication_loop calloc_ok ies m k' h')"

text \<open>The elements that \<open>indication_step\<close> stores something for.\<close>

definition indication_ids :: "int set" where
  "indication_ids = {id_RICrequestID, id_RANfunctionID, id_RICactionID, id_RICindicationSN, id_RICindicationType,
     id_RICindicationHeader, id_RICindicationMessage, id_RICcallProcessID}"

text \<open>When the result is complete the decoded message is not freed.\<close>

definition e2ap_decode_ric_indication_message ::
  "(nat \<Rightarrow> bool) \<Rightarrow> 'o pdu_decoder \<Rightarrow> byte list \<Rightarrow> heap \<Rightarrow> fault + RICindicationMsg option \<times> heap" where
  "e2ap_decode_ric_indication_message calloc_ok dec buffer h =
     fault_bind (decode_E2AP_PDU dec buffer h) (\<lambda>(pdu, h1).
       case pdu of
         None \<Rightarrow> Inr (None, h1)
       | Some p \<Rightarrow>
           case message_of RICindication_kind p of
             None \<Rightarrow> Inr (None, free_pdu h1)
           | Some m \<Rightarrow>
               let ies = set_items (em_protocolIEs m)
               in if calloc_ok 0 then indication_loop calloc_ok ies indication_zero 1 (alloc_block h1)
                  else if \<exists>ie \<in> set ies. fld_id ie \<in> indication_ids then Inl Null_deref
                  else Inr (None, h1))"

end
