(* ===== verification/E2apSequence.thy ===== *)
theory E2apSequence
  imports E2apWrapper AperInteger
begin

text \<open>
  Reading and replacing the sequence number of an E2AP message: what the functions of
  \<^theory_text>\<open>E2apWrapper\<close> do on decoded messages, and that reading undoes replacing.
\<close>

section \<open>Well-typed messages\<close>

text \<open>
  The decoder stores each element under the member that the selector gives for its id (this is
  \<open>open_types_consistent\<close>); so in a decoded message ids and members agree. The lists of actions
  have at most 16 items, the upper bound of their size constraint, and their items and causes
  are present.
\<close>

definition member_types :: "element_type set" where
  "member_types = {DEF_RICrequestID, DEF_RANfunctionID, DEF_RICsubscriptionDetails, DEF_RICaction_Admitted_List,
     DEF_RICaction_NotAdmitted_List, DEF_RICactionID, DEF_RICindicationSN, DEF_RICindicationType,
     DEF_RICindicationHeader, DEF_RICindicationMessage, DEF_RICcallProcessID}"

fun value_typed :: "'o ie_value \<Rightarrow> bool" where
  "value_typed (IE_RICaction_Admitted_List l) \<longleftrightarrow>
     set_of_ok l \<and> so_count l \<le> 16 \<and> (\<forall>f \<in> set (set_items l).
       snd (select_RICaction_Admitted_ItemIEs_value_type (fld_id f)) = 1 \<and> fld_value f \<noteq> None)"
| "value_typed (IE_RICaction_NotAdmitted_List l) \<longleftrightarrow>
     set_of_ok l \<and> so_count l \<le> 16 \<and> (\<forall>f \<in> set (set_items l).
       snd (select_RICaction_NotAdmitted_ItemIEs_value_type (fld_id f)) = 1
       \<and> (\<exists>v. fld_value f = Some v \<and> na_cause v \<noteq> Cause_NOTHING))"
| "value_typed IE_NOTHING \<longleftrightarrow> False"
| "value_typed (IE_other t _) \<longleftrightarrow> t \<notin> member_types"
| "value_typed _ \<longleftrightarrow> True"

definition ie_typed :: "(int \<Rightarrow> asn_DEF option \<times> nat) \<Rightarrow> 'o ie \<Rightarrow> bool" where
  "ie_typed table ie \<longleftrightarrow> value_typed (fld_value ie)
     \<and> fst (table (fld_id ie)) = map_option IE (ie_value_type (fld_value ie))"

definition ies_typed :: "(int \<Rightarrow> asn_DEF option \<times> nat) \<Rightarrow> 'o ie set_of \<Rightarrow> bool" where
  "ies_typed table ies \<longleftrightarrow> set_of_ok ies \<and> (\<forall>ie \<in> set (set_items ies). ie_typed table ie)"

definition initiating_tables :: "(int \<Rightarrow> asn_DEF option \<times> nat) list" where
  "initiating_tables =
     [select_RICsubscriptionRequest_IEs_value_type, select_RICsubscriptionDeleteRequest_IEs_value_type,
      select_RICserviceUpdate_IEs_value_type, select_RICcontrolRequest_IEs_value_type,
      select_E2setupRequestIEs_value_type, select_ResetRequestIEs_value_type, select_RICindication_IEs_value_type,
      select_RICserviceQuery_IEs_value_type, select_ErrorIndication_IEs_value_type]"

definition successful_tables :: "(int \<Rightarrow> asn_DEF option \<times> nat) list" where
  "successful_tables =
     [select_RICsubscriptionResponse_IEs_value_type, select_RICsubscriptionDeleteResponse_IEs_value_type,
      select_RICserviceUpdateAcknowledge_IEs_value_type, select_RICcontrolAcknowledge_IEs_value_type,
      select_E2setupResponseIEs_value_type, select_ResetResponseIEs_value_type]"

definition unsuccessful_tables :: "(int \<Rightarrow> asn_DEF option \<times> nat) list" where
  "unsuccessful_tables =
     [select_RICsubscriptionFailure_IEs_value_type, select_RICsubscriptionDeleteFailure_IEs_value_type,
      select_RICserviceUpdateFailure_IEs_value_type, select_RICcontrolFailure_IEs_value_type,
      select_E2setupFailureIEs_value_type]"

definition elementary_typed :: "(int \<Rightarrow> asn_DEF option \<times> nat) list \<Rightarrow> 'o elementary \<Rightarrow> bool" where
  "elementary_typed tables m \<longleftrightarrow> 1 \<le> em_present m \<and> em_present m \<le> length tables
     \<and> ies_typed (tables ! (em_present m - 1)) (em_protocolIEs m)"

fun pdu_typed :: "'o E2AP_PDU \<Rightarrow> bool" where
  "pdu_typed PDU_NOTHING \<longleftrightarrow> False"
| "pdu_typed (PDU_initiatingMessage m) \<longleftrightarrow> elementary_typed initiating_tables m"
| "pdu_typed (PDU_successfulOutcome m) \<longleftrightarrow> elementary_typed successful_tables m"
| "pdu_typed (PDU_unsuccessfulOutcome m) \<longleftrightarrow> elementary_typed unsuccessful_tables m"

section \<open>Messages with a request id\<close>

text \<open>The first request id of a message, and the message with another instance id in it.\<close>

definition sequence_number :: "'o message_kind \<Rightarrow> 'o E2AP_PDU \<Rightarrow> int option" where
  "sequence_number kind p =
     (case message_of kind p of
        None \<Rightarrow> None
      | Some m \<Rightarrow>
          (case find (\<lambda>ie. fld_id ie = id_RICrequestID) (set_items (em_protocolIEs m)) of
             None \<Rightarrow> None
           | Some ie \<Rightarrow> (case fld_value ie of IE_RICrequestID r \<Rightarrow> Some (ricInstanceID r) | _ \<Rightarrow> None)))"

fun with_instance_id :: "int \<Rightarrow> 'o ie_value \<Rightarrow> 'o ie_value" where
  "with_instance_id n (IE_RICrequestID r) = IE_RICrequestID (r\<lparr>ricInstanceID := n\<rparr>)"
| "with_instance_id n v = v"

definition with_sequence_number :: "'o message_kind \<Rightarrow> int \<Rightarrow> 'o elementary \<Rightarrow> 'o E2AP_PDU" where
  "with_sequence_number kind n m =
     (case request_id_index (set_items (em_protocolIEs m)) of
        None \<Rightarrow> mk_con kind m
      | Some i \<Rightarrow>
          let ies = em_protocolIEs m; ie = set_items ies ! i
          in mk_con kind (m\<lparr>em_protocolIEs := ies\<lparr>so_array := (so_array ies)
               [i := Some (ie\<lparr>fld_value := with_instance_id n (fld_value ie)\<rparr>)]\<rparr>\<rparr>))"

lemma request_id_index_Some:
  "request_id_index ies = Some i \<Longrightarrow> i < length ies \<and> fld_id (ies ! i) = id_RICrequestID
    \<and> find (\<lambda>ie. fld_id ie = id_RICrequestID) ies = Some (ies ! i)"
  by (induction ies arbitrary: i) (auto split: if_splits)

lemma request_id_index_None:
  "request_id_index ies = None \<longleftrightarrow> find (\<lambda>ie. fld_id ie = id_RICrequestID) ies = None"
  by (induction ies) auto

lemma request_id_index_update:
  "request_id_index ies = Some i \<Longrightarrow> fld_id ie = id_RICrequestID \<Longrightarrow> request_id_index (ies[i := ie]) = Some i"
  by (induction ies arbitrary: i) (auto split: if_splits nat.split)

lemma set_items_update:
  assumes "set_of_ok as" and "i < so_count as"
  shows "set_of_ok (as\<lparr>so_array := (so_array as)[i := Some x]\<rparr>) \<and>
    set_items (as\<lparr>so_array := (so_array as)[i := Some x]\<rparr>) = (set_items as)[i := x]"
  by (rule set_of_eqI)
    (use assms set_items_length [OF assms(1)] set_of_slot [OF assms(1)] in
      \<open>auto simp: set_of_ok_def nth_list_update\<close>)

lemma choice_RICrequestID_typed:
  assumes "ie_typed table ie" and "fst (table (fld_id ie)) = Some (IE DEF_RICrequestID)"
  shows "\<exists>r. fld_value ie = IE_RICrequestID r"
  using assms by (cases "fld_value ie") (auto simp: ie_typed_def member_types_def)

locale sequenced_message =
  fixes kind :: "'o message_kind" and table :: "int \<Rightarrow> asn_DEF option \<times> nat"
  assumes sel_con: "mk_sel kind p = Some m \<longleftrightarrow> p = mk_con kind m"
    and typed_at: "em_present m = mk_present kind \<Longrightarrow> pdu_typed (mk_con kind m) \<longleftrightarrow> ies_typed table (em_protocolIEs m)"
    and table_request_id: "fst (table id_RICrequestID) = Some (IE DEF_RICrequestID)"
begin

lemma message_of_con: "message_of kind p = Some m \<longleftrightarrow>
    p = mk_con kind m \<and> em_procedureCode m = mk_code kind \<and> em_present m = mk_present kind"
proof (cases "mk_sel kind p")
  case None
  with sel_con [of p m] show ?thesis by (auto simp: message_of_def)
next
  case (Some a)
  with sel_con [of p m] have "a = m \<longleftrightarrow> p = mk_con kind m" by auto
  with Some show ?thesis by (auto simp: message_of_def)
qed

lemma request_id_field_typed:
  assumes "pdu_typed p" and "message_of kind p = Some m" and "request_id_index (set_items (em_protocolIEs m)) = Some i"
  shows "\<exists>r. fld_value (set_items (em_protocolIEs m) ! i) = IE_RICrequestID r \<and> i < so_count (em_protocolIEs m)
    \<and> set_of_ok (em_protocolIEs m)"
proof -
  have typed: "ies_typed table (em_protocolIEs m)" using assms(1,2) typed_at by (auto simp: message_of_con)
  from request_id_index_Some [OF assms(3)] have i: "i < length (set_items (em_protocolIEs m))"
    "fld_id (set_items (em_protocolIEs m) ! i) = id_RICrequestID" by auto
  then have "ie_typed table (set_items (em_protocolIEs m) ! i)" using typed by (auto simp: ies_typed_def)
  with choice_RICrequestID_typed [of table] i table_request_id typed show ?thesis
    by (fastforce simp: ies_typed_def set_items_length)
qed

lemma get_sequence_number_ok:
  assumes "decode_E2AP_PDU dec buffer h = Inr (Some p, h1)" and "pdu_typed p"
  shows "get_sequence_number kind dec buffer h = Inr (case sequence_number kind p of None \<Rightarrow> -1 | Some n \<Rightarrow> n, h)"
proof -
  from assms(1) have h: "free_pdu h1 = h"
    by (auto simp: decode_E2AP_PDU_def free_pdu_def split: option.splits if_splits)
  show ?thesis
  proof (cases "message_of kind p")
    case None
    then show ?thesis by (simp add: get_sequence_number_def assms(1) sequence_number_def h)
  next
    case (Some m)
    let ?ies = "set_items (em_protocolIEs m)"
    show ?thesis
    proof (cases "request_id_index ?ies")
      case None
      then have "find (\<lambda>ie. fld_id ie = id_RICrequestID) ?ies = None" by (simp only: request_id_index_None)
      with Some None show ?thesis
        by (simp add: get_sequence_number_def assms(1) sequence_number_def h)
    next
      fix i assume i: "request_id_index ?ies = Some i"
      from request_id_field_typed [OF assms(2) Some i] obtain r where "fld_value (?ies ! i) = IE_RICrequestID r" by auto
      with Some i request_id_index_Some [OF i] show ?thesis
        by (simp add: get_sequence_number_def assms(1) sequence_number_def h)
    qed
  qed
qed

lemma set_sequence_number_ok:
  assumes "decode_E2AP_PDU dec buffer h = Inr (Some p, h1)" and "pdu_typed p"
    and "set_sequence_number kind dec enc tmp buffer n h = Inr (r, buffer', h')"
    and "message_of kind p = Some m" and "sequence_number kind p \<noteq> None"
  shows "\<exists>size. encode_E2AP_PDU enc tmp (with_sequence_number kind n m) buffer h1 = (size, buffer', h') \<and> r = sint size"
proof -
  from assms(4,5) obtain i where i: "request_id_index (set_items (em_protocolIEs m)) = Some i"
    by (cases "request_id_index (set_items (em_protocolIEs m))")
      (auto simp: sequence_number_def request_id_index_None)
  from request_id_field_typed [OF assms(2,4) i] obtain q where
    "fld_value (set_items (em_protocolIEs m) ! i) = IE_RICrequestID q" by auto
  with i assms(1,3,4) show ?thesis
    by (auto simp: set_sequence_number_def with_sequence_number_def Let_def split: prod.splits)
qed

lemma with_sequence_number_ok:
  assumes "pdu_typed p" and "message_of kind p = Some m" and "sequence_number kind p \<noteq> None"
  shows "pdu_typed (with_sequence_number kind n m) \<and> sequence_number kind (with_sequence_number kind n m) = Some n"
proof -
  let ?ies = "em_protocolIEs m"
  from assms(2,3) obtain i where i: "request_id_index (set_items ?ies) = Some i"
    by (cases "request_id_index (set_items (em_protocolIEs m))")
      (auto simp: sequence_number_def request_id_index_None)
  from request_id_field_typed [OF assms(1,2) i] obtain q where q: "fld_value (set_items ?ies ! i) = IE_RICrequestID q"
    and ok: "i < so_count ?ies" "set_of_ok ?ies" by auto
  let ?ie = "(set_items ?ies ! i)\<lparr>fld_value := IE_RICrequestID (q\<lparr>ricInstanceID := n\<rparr>)\<rparr>"
  let ?ies' = "?ies\<lparr>so_array := (so_array ?ies)[i := Some ?ie]\<rparr>"
  note upd = set_items_update [OF ok(2,1), of ?ie]
  have id: "fld_id ?ie = id_RICrequestID" using request_id_index_Some [OF i] by simp
  then have i': "request_id_index (set_items ?ies') = Some i" using upd request_id_index_update [OF i] by simp
  have w: "with_sequence_number kind n m = mk_con kind (m\<lparr>em_protocolIEs := ?ies'\<rparr>)"
    by (simp add: with_sequence_number_def i q Let_def)
  have m': "message_of kind (with_sequence_number kind n m) = Some (m\<lparr>em_protocolIEs := ?ies'\<rparr>)"
    using assms(2) by (simp add: message_of_con w)
  have "ies_typed table ?ies" using assms(1,2) typed_at by (auto simp: message_of_con)
  then have "ies_typed table ?ies'"
    using upd id table_request_id by (auto simp: ies_typed_def ie_typed_def dest!: set_update_subset_insert [THEN subsetD])
  then have "pdu_typed (with_sequence_number kind n m)"
    using assms(2) typed_at [of "m\<lparr>em_protocolIEs := ?ies'\<rparr>"] by (simp add: w message_of_con)
  moreover have "sequence_number kind (with_sequence_number kind n m) = Some n"
    using request_id_index_Some [OF i'] upd ok set_items_length [OF ok(2)]
    by (simp add: sequence_number_def m' del: with_sequence_number_def)
  ultimately show ?thesis by simp
qed

end

lemma presence_eval [simp]:
  "presence InitiatingMessage__value_PR ''RICsubscriptionRequest'' = 1"
  "presence InitiatingMessage__value_PR ''RICsubscriptionDeleteRequest'' = 2"
  "presence InitiatingMessage__value_PR ''RICindication'' = 7"
  "presence SuccessfulOutcome__value_PR ''RICsubscriptionResponse'' = 1"
  "presence SuccessfulOutcome__value_PR ''RICsubscriptionDeleteResponse'' = 2"
  "presence UnsuccessfulOutcome__value_PR ''RICsubscriptionFailure'' = 1"
  "presence UnsuccessfulOutcome__value_PR ''RICsubscriptionDeleteFailure'' = 2"
  by code_simp+

lemma selectors [simp]:
  "initiatingMessage p = Some m \<longleftrightarrow> p = PDU_initiatingMessage m"
  "successfulOutcome p = Some m \<longleftrightarrow> p = PDU_successfulOutcome m"
  "unsuccessfulOutcome p = Some m \<longleftrightarrow> p = PDU_unsuccessfulOutcome m"
  by (cases p; auto)+

lemmas table_defs = initiating_tables_def successful_tables_def unsuccessful_tables_def

lemma tables_request_id:
  "fst (select_RICsubscriptionRequest_IEs_value_type id_RICrequestID) = Some (IE DEF_RICrequestID)"
  "fst (select_RICsubscriptionDeleteRequest_IEs_value_type id_RICrequestID) = Some (IE DEF_RICrequestID)"
  "fst (select_RICindication_IEs_value_type id_RICrequestID) = Some (IE DEF_RICrequestID)"
  "fst (select_RICsubscriptionResponse_IEs_value_type id_RICrequestID) = Some (IE DEF_RICrequestID)"
  "fst (select_RICsubscriptionDeleteResponse_IEs_value_type id_RICrequestID) = Some (IE DEF_RICrequestID)"
  "fst (select_RICsubscriptionFailure_IEs_value_type id_RICrequestID) = Some (IE DEF_RICrequestID)"
  "fst (select_RICsubscriptionDeleteFailure_IEs_value_type id_RICrequestID) = Some (IE DEF_RICrequestID)"
  by code_simp+

interpretation sub_request: sequenced_message RICsubscriptionRequest_kind select_RICsubscriptionRequest_IEs_value_type
  by unfold_locales (simp_all add: kind_defs elementary_typed_def table_defs tables_request_id)

interpretation sub_response: sequenced_message RICsubscriptionResponse_kind select_RICsubscriptionResponse_IEs_value_type
  by unfold_locales (simp_all add: kind_defs elementary_typed_def table_defs tables_request_id)


interpretation del_request: sequenced_message RICsubscriptionDeleteRequest_kind
    select_RICsubscriptionDeleteRequest_IEs_value_type
  by unfold_locales (simp_all add: kind_defs elementary_typed_def table_defs tables_request_id)

interpretation del_response: sequenced_message RICsubscriptionDeleteResponse_kind
    select_RICsubscriptionDeleteResponse_IEs_value_type
  by unfold_locales (simp_all add: kind_defs elementary_typed_def table_defs tables_request_id)


interpretation indication: sequenced_message RICindication_kind select_RICindication_IEs_value_type
  by unfold_locales (simp_all add: kind_defs elementary_typed_def table_defs tables_request_id)

section \<open>Reading\<close>


text \<open>The functions that replace it, each with the one that reads it.\<close>

definition sequence_setters ::
  "('o message_kind \<times> ('o pdu_decoder \<Rightarrow> 'o pdu_encoder \<Rightarrow> byte list \<Rightarrow> byte list \<Rightarrow> int \<Rightarrow> heap
      \<Rightarrow> fault + int \<times> byte list \<times> heap) \<times> ('o pdu_decoder \<Rightarrow> byte list \<Rightarrow> heap \<Rightarrow> fault + int \<times> heap)) list" where
  "sequence_setters =
     [(RICsubscriptionRequest_kind, e2ap_set_ric_subscription_request_sequence_number,
         e2ap_get_ric_subscription_request_sequence_number),
      (RICsubscriptionResponse_kind, e2ap_set_ric_subscription_response_sequence_number,
         e2ap_get_ric_subscription_response_sequence_number),
      (RICsubscriptionDeleteRequest_kind, e2ap_set_ric_subscription_delete_request_sequence_number,
         e2ap_get_ric_subscription_delete_request_sequence_number),
      (RICsubscriptionDeleteResponse_kind, e2ap_set_ric_subscription_delete_response_sequence_number,
         e2ap_get_ric_subscription_delete_response_sequence_number)]"

lemma sint_u32_of_nat_small:
  assumes "n < 2 ^ 63"
  shows "sint (word_of_nat n :: 64 word) = int n"
proof -
  have "unat (word_of_nat n :: 64 word) = n" using assms by (simp add: unat_of_nat take_bit_nat_eq_self)
  then have "uint (word_of_nat n :: 64 word) = int n" by (metis uint_nat)
  moreover from this have "uint (word_of_nat n :: 64 word) < 2 ^ 63" using assms by simp
  then have "0 \<le> sint (word_of_nat n :: 64 word)" by (simp only: uint_lt_sint)
  ultimately show ?thesis using uint_sint_nonneg [of "word_of_nat n"] by simp
qed

lemma encode_then_decode:
  assumes codec: "per_type encode_to_buffer_cb arg_buffer enc dec field valid" and valid: "valid (Some p)"
    and len: "0 < length (field 0 (Some p))" and tmp: "length tmp = 32"
    and e: "encode_E2AP_PDU enc tmp p buffer h = (sz, buffer', h')" and ok: "sz \<noteq> -1"
  shows "decode_E2AP_PDU dec buffer' h2 = Inr (Some p, h2\<lparr>live_pdus := live_pdus h2 + 1\<rparr>)
    \<and> sz = word_of_int (int (length (field 0 (Some p)))) \<and> h' = free_pdu h"
proof -
  let ?key = "\<lparr>arg_buffer = [], arg_left = length buffer\<rparr>" and ?l = "length (field 0 (Some p))"
  obtain er key where a: "aper_encode (Some enc) encode_to_buffer_cb (Some p) ?key tmp = (er, key)" by fastforce
  with e have sz: "sz = (if er = -1 then - 1 else word_of_int er)" and h': "h' = free_pdu h"
    and buf': "buffer' = arg_buffer key @ drop (length (arg_buffer key)) buffer"
    by (auto simp: encode_E2AP_PDU_def aper_encode_to_buffer_def)
  from sz ok have er: "er \<noteq> -1" by auto
  have key0: "arg_buffer ?key = []" by simp
  from per_type.encode_value_ok [OF codec valid tmp key0 a er] have
    n: "er = int ?l" and bits: "bytes_bits (arg_buffer key) = field 0 (Some p) @ align_pad ?l" by auto
  then have "bytes_bits buffer' = field 0 (Some p) @ align_pad ?l @ bytes_bits (drop (length (arg_buffer key)) buffer)"
    by (simp add: buf')
  from per_type.decode_value_ok [OF codec valid this]
  have "aper_decode_complete (Some dec) None buffer'
      = Some (\<lparr>rv_code = RC_OK, rv_consumed = drop_bit 3 (?l + 7)\<rparr>, Some p)"
    using len by (simp add: aper_decode_complete_def)
  with sz er n h' show ?thesis by (simp add: decode_E2AP_PDU_def)
qed

context sequenced_message
begin

lemma set_then_get:
  assumes codec: "per_type encode_to_buffer_cb arg_buffer enc dec field valid"
    and dec: "decode_E2AP_PDU dec buffer h = Inr (Some p, h1)" and typed: "pdu_typed p"
    and m: "message_of kind p = Some m" and sn: "sequence_number kind p \<noteq> None"
    and valid: "valid (Some (with_sequence_number kind n m))"
    and len: "0 < length (field 0 (Some (with_sequence_number kind n m)))"
      "length (field 0 (Some (with_sequence_number kind n m))) < 2 ^ 63"
    and tmp: "length tmp = 32"
    and set: "set_sequence_number kind dec enc tmp buffer n h = Inr (r, buffer', h')" and ok: "r \<noteq> -1"
  shows "get_sequence_number kind dec buffer' h2 = Inr (n, h2)
    \<and> r = int (length (field 0 (Some (with_sequence_number kind n m)))) \<and> h' = h"
proof -
  let ?p = "with_sequence_number kind n m"
  from set_sequence_number_ok [OF dec typed set m sn] obtain sz where
    e: "encode_E2AP_PDU enc tmp ?p buffer h1 = (sz, buffer', h')" and r: "r = sint sz" by auto
  with ok have "sz \<noteq> -1" by auto
  note d = encode_then_decode [OF codec valid len(1) tmp e this]
  have "get_sequence_number kind dec buffer' h2 = Inr (n, h2)"
    using get_sequence_number_ok [OF d [THEN conjunct1]] with_sequence_number_ok [OF typed m sn, of n] by auto
  moreover have "r = int (length (field 0 (Some ?p)))"
    using d sint_u32_of_nat_small [OF len(2)] by (simp add: r)
  moreover have "free_pdu h1 = h"
    using dec by (auto simp: decode_E2AP_PDU_def free_pdu_def split: option.splits if_splits)
  ultimately show ?thesis using d by simp
qed

end

text \<open>
  Coders for examples: messages that differ in their instance id only, coded as that integer.
\<close>

definition sample_elementary :: "int \<Rightarrow> unit elementary" where
  "sample_elementary n =
     \<lparr>em_procedureCode = ProcedureCode_id_RICsubscription, em_criticality = Criticality_reject, em_present = 1,
      em_protocolIEs = \<lparr>so_array = [Some (function_id_field 2), Some (request_id_field 1001 n), None, None],
        so_count = 2, so_size = 4, so_free = False\<rparr>\<rparr>"

definition sample_dec :: "(int \<Rightarrow> unit E2AP_PDU) \<Rightarrow> unit pdu_decoder" where
  "sample_dec mk pd =
     (let (rv, v, pd') = NativeInteger_decode_aper False (Some request_id_range) 0 pd in (rv, Some (mk (sint v)), pd'))"

fun sample_instance :: "unit message_kind \<Rightarrow> unit E2AP_PDU option \<Rightarrow> 64 word" where
  "sample_instance kind (Some p) = word_of_int (case sequence_number kind p of None \<Rightarrow> 0 | Some n \<Rightarrow> n)"
| "sample_instance kind None = 0"

definition sample_enc :: "unit message_kind \<Rightarrow> unit pdu_encoder" where
  "sample_enc kind p = NativeInteger_encode_aper False (Some request_id_range) encode_to_buffer_cb (sample_instance kind p)"

definition sample_valid :: "unit message_kind \<Rightarrow> (int \<Rightarrow> unit E2AP_PDU) \<Rightarrow> unit E2AP_PDU option \<Rightarrow> bool" where
  "sample_valid kind mk p \<longleftrightarrow> p = Some (mk (sint (sample_instance kind p)))
     \<and> int_valid False request_id_range (sample_instance kind p)"

definition sample_field :: "unit message_kind \<Rightarrow> nat \<Rightarrow> unit E2AP_PDU option \<Rightarrow> bool list" where
  "sample_field kind k p = int_field request_id_range k (sample_instance kind p)"

lemma sample_codec:
  "per_type encode_to_buffer_cb arg_buffer (sample_enc kind) (sample_dec mk) (sample_field kind) (sample_valid kind mk)"
proof
  fix po :: "enc_to_buf_arg outp" and p r po'
  assume "po_ok po" "sample_valid kind mk p" "sample_enc kind p po = (r, po')" "r \<noteq> -1"
  then show "po_writes arg_buffer po (sample_field kind (po_nboff po mod 8) p) po'"
    by (auto simp: sample_enc_def sample_valid_def sample_field_def intro: native.enc_writes)
next
  fix pd p rest
  assume ok: "pd_ok pd" and v: "sample_valid kind mk p"
    and b: "pd_bits pd = sample_field kind (pd_nboff pd mod 8) p @ rest"
  from v have iv: "int_valid False request_id_range (sample_instance kind p)" by (simp add: sample_valid_def)
  from native.dec_reads [OF ok iv b [unfolded sample_field_def], of 0] v
  show "\<exists>rv pd'. sample_dec mk pd = (rv, p, pd') \<and> rv_code rv = RC_OK
      \<and> pd_reads pd (sample_field kind (pd_nboff pd mod 8) p) pd'"
    by (auto simp: sample_dec_def sample_valid_def sample_field_def)
qed

text \<open>The two instance ids used in examples: 300, coded as 1, 44, and 7, coded as 0, 7.\<close>

lemma sample_valid_300: "sequence_number kind (mk 300) = Some 300 \<Longrightarrow> sample_valid kind mk (Some (mk 300))"
  by (simp add: sample_valid_def int_valid_def int_root_def request_id_range_def)

lemma sample_field_300: "sequence_number kind p = Some 300 \<Longrightarrow> length (sample_field kind 0 (Some p)) = 16"
  by (simp add: sample_field_def sample_native_field)

lemma sample_encode_300:
  assumes "sequence_number kind p = Some 300"
  shows "aper_encode_to_buffer (Some (sample_enc kind)) (Some p) 8 (replicate 32 0) = (16, [1, 44])"
  using sample_native_message assms by (simp add: aper_encode_to_buffer_def aper_encode_def sample_enc_def)

lemma sample_decode_7:
  assumes sn: "sequence_number kind (mk 7) = Some 7"
  shows "decode_E2AP_PDU (sample_dec mk) [0, 7, 0, 0, 0, 0, 0, 0] h = Inr (Some (mk 7), h\<lparr>live_pdus := live_pdus h + 1\<rparr>)"
proof -
  let ?p = "Some (mk 7)"
  have v: "sample_valid kind mk ?p" using sn by (simp add: sample_valid_def int_valid_def int_root_def request_id_range_def)
  have "sample_field kind 0 ?p = bytes_bits [0, 7]"
    by (simp add: sn sample_field_def int_field_def int_field_root_def request_id_range_def byte_bits_def
        bits_of_int_octets drop_bit_eq_div)
  then have f: "bytes_bits [0, 7, 0, 0, 0, 0, 0, 0] = sample_field kind 0 ?p @ bytes_bits [0, 0, 0, 0, 0, 0]"
    and l: "length (sample_field kind 0 ?p) = 16" by simp_all
  from per_type.decode_value_ok [OF sample_codec v f] show ?thesis
    by (simp add: l decode_E2AP_PDU_def aper_decode_complete_def)
qed

abbreviation sample_message :: "int \<Rightarrow> unit E2AP_PDU" where
  "sample_message n \<equiv> PDU_initiatingMessage (sample_elementary n)"

lemma sample_items: "set_items (em_protocolIEs (sample_elementary n)) = [function_id_field 2, request_id_field 1001 n]"
  by (simp add: sample_elementary_def set_items_def)

lemma sample_message_of: "message_of RICsubscriptionRequest_kind (PDU_initiatingMessage (sample_elementary n))
    = Some (sample_elementary n)"
  by (simp add: message_of_def kind_defs sample_elementary_def)

lemma sample_sequence_number: "sequence_number RICsubscriptionRequest_kind (PDU_initiatingMessage (sample_elementary n)) = Some n"
  by (simp add: sequence_number_def sample_message_of sample_items request_id_field_def function_id_field_def)

lemma sample_with: "with_sequence_number RICsubscriptionRequest_kind n (sample_elementary m)
    = PDU_initiatingMessage (sample_elementary n)"
  by (simp add: with_sequence_number_def sample_items request_id_field_def function_id_field_def kind_defs Let_def)
    (simp add: sample_elementary_def function_id_field_def request_id_field_def)

lemma sample_typed: "pdu_typed (PDU_initiatingMessage (sample_elementary n))"
proof -
  have "fst (select_RICsubscriptionRequest_IEs_value_type id_RANfunctionID) = Some (IE DEF_RANfunctionID)" by code_simp
  then have "ie_typed select_RICsubscriptionRequest_IEs_value_type ie"
    if "ie \<in> set (set_items (em_protocolIEs (sample_elementary n)))" for ie
    using that tables_request_id
    by (auto simp: sample_items ie_typed_def request_id_field_def function_id_field_def)
  moreover have "set_of_ok (em_protocolIEs (sample_elementary n))"
    by (simp add: set_of_ok_def sample_elementary_def)
  ultimately show ?thesis
    by (simp add: elementary_typed_def table_defs ies_typed_def) (simp add: sample_elementary_def)
qed

lemma sample_7_decode:
  "decode_E2AP_PDU (sample_dec sample_message) [0, 7, 0, 0, 0, 0, 0, 0] h
    = Inr (Some (sample_message 7), h\<lparr>live_pdus := live_pdus h + 1\<rparr>)"
  by (rule sample_decode_7 [where kind = RICsubscriptionRequest_kind], rule sample_sequence_number)



text \<open>
  Replacing and reading back. When one of the four functions replaces the sequence number
  in a buffer, with coders that invert each other, the matching function reads the new number
  from the same buffer, whatever octets were left behind the message; the result is the number
  of bits of the new message and no message is left behind.
\<close>

theorem set_sequence_number_then_get:
  assumes "(kind, setter, getter) \<in> set sequence_setters"
    and "per_type encode_to_buffer_cb arg_buffer enc dec field valid"
    and "decode_E2AP_PDU dec buffer h = Inr (Some p, h1)" and "pdu_typed p"
    and "message_of kind p = Some m" and "sequence_number kind p \<noteq> None"
    and "valid (Some (with_sequence_number kind n m))"
    and "0 < length (field 0 (Some (with_sequence_number kind n m)))"
    and "length (field 0 (Some (with_sequence_number kind n m))) < 2 ^ 63"
    and "length tmp = 32"
    and "setter dec enc tmp buffer n h = Inr (r, buffer', h')" and "r \<noteq> -1"
  shows "getter dec buffer' h2 = Inr (n, h2)
    \<and> r = int (length (field 0 (Some (with_sequence_number kind n m)))) \<and> h' = h"
  using assms(1) sub_request.set_then_get [OF assms(2-4) _ _ _ _ _ assms(10)]
    sub_response.set_then_get [OF assms(2-4) _ _ _ _ _ assms(10)]
    del_request.set_then_get [OF assms(2-4) _ _ _ _ _ assms(10)]
    del_response.set_then_get [OF assms(2-4) _ _ _ _ _ assms(10)] assms(5-9,11,12)
  by (auto simp: sequence_setters_def sequence_number_defs)

lemma sample_set_300:
  "e2ap_set_ric_subscription_request_sequence_number (sample_dec sample_message) (sample_enc RICsubscriptionRequest_kind)
     (replicate 32 0) [0, 7, 0, 0, 0, 0, 0, 0] 300 h = Inr (16, [1, 44, 0, 0, 0, 0, 0, 0], h)"
proof -
  have "length [0, 7, 0, 0, 0, 0, 0, 0 :: byte] = 8" by simp
  moreover note sample_encode_300 [OF sample_sequence_number [of 300]]
  moreover have "sample_elementary 7\<lparr>em_protocolIEs := (em_protocolIEs (sample_elementary 7))
      \<lparr>so_array := (so_array (em_protocolIEs (sample_elementary 7)))[Suc 0 := Some (request_id_field 1001 300)]\<rparr>\<rparr>
      = sample_elementary 300"
    by (simp add: sample_elementary_def)
  moreover have "mk_con RICsubscriptionRequest_kind (x :: unit elementary) = PDU_initiatingMessage x" for x
    by (simp add: kind_defs)
  ultimately show ?thesis
    unfolding sequence_number_defs set_sequence_number_def sample_7_decode
    by (simp add: sample_message_of sample_items function_id_field_def request_id_field_def encode_E2AP_PDU_def
        free_pdu_def Let_def del: list.size) simp
qed

theorem set_sequence_number_then_get_witness:
  "e2ap_get_ric_subscription_request_sequence_number (sample_dec sample_message) [1, 44, 0, 0, 0, 0, 0, 0] empty_heap = Inr (300, empty_heap)
    \<and> (16::int) = int (length (sample_field RICsubscriptionRequest_kind 0
        (Some (with_sequence_number RICsubscriptionRequest_kind 300 (sample_elementary 7)))))
    \<and> empty_heap = empty_heap"
  by (rule set_sequence_number_then_get [where kind = RICsubscriptionRequest_kind
      and setter = e2ap_set_ric_subscription_request_sequence_number
      and getter = e2ap_get_ric_subscription_request_sequence_number,
      OF _ sample_codec sample_7_decode sample_typed sample_message_of _ _ _ _ _ sample_set_300])
    (simp_all add: sequence_setters_def sample_with sample_sequence_number sample_field_300
      sample_valid_300 [where mk = sample_message])

end
