(* ===== verification/E2apRequests.thy ===== *)
theory E2apRequests
  imports E2apSequence
begin

text \<open>
  What the request builders of \<^theory_text>\<open>E2apWrapper\<close> put into the message, and the calls that crash.
\<close>

section \<open>Lists built by appending\<close>

lemma add_two: "snd (asn_set_add (\<lambda>_. True) (snd (asn_set_add (\<lambda>_. True) set_of_zero (Some x))) (Some y))
      = \<lparr>so_array = [Some x, Some y, None, None], so_count = 2, so_size = 4, so_free = False\<rparr>"
  by (simp add: asn_set_add_def set_of_zero_def numeral_eq_Suc)

lemma add_three: "snd (asn_set_add (\<lambda>_. True) \<lparr>so_array = [Some x, Some y, None, None], so_count = 2, so_size = 4, so_free = False\<rparr> (Some z))
      = \<lparr>so_array = [Some x, Some y, Some z, None], so_count = 3, so_size = 4, so_free = False\<rparr>"
  by (simp add: asn_set_add_def)

lemma add_grows:
  assumes "set_of_ok as"
  shows "set_of_ok (snd (asn_set_add (\<lambda>_. True) as (Some x))) \<and>
    set_items (snd (asn_set_add (\<lambda>_. True) as (Some x))) = set_items as @ [x]"
proof -
  obtain r as' where a: "asn_set_add (\<lambda>_. True) as (Some x) = (r, as')" by fastforce
  then have "r = 0" by (auto simp: asn_set_add_def Let_def split: if_splits)
  with asn_set_add_ok [OF assms(1) a] a show ?thesis by simp
qed

definition plain_action :: "RICactionDefinition \<Rightarrow> RICSubsequentAction \<Rightarrow> bool" where
  "plain_action d s \<longleftrightarrow> ad_size d = 0 \<and> sa_isValid s = 0"

lemma setup_actions_ok:
  assumes "set_of_ok acts" and "index + todo \<le> length ids" and "index + todo \<le> length types" and "index + todo \<le> length defs"
    and "index + todo \<le> length subs" and "\<And>i. index \<le> i \<Longrightarrow> i < index + todo \<Longrightarrow> plain_action (defs ! i) (subs ! i)"
  shows "\<exists>acts'. setup_actions (\<lambda>_. True) (\<lambda>_. True) ids types defs subs todo index k acts = Inr (Some acts')
    \<and> set_of_ok acts' \<and> set_items acts' = set_items acts @ map (\<lambda>i. to_be_setup_field (ids ! i) (types ! i)) [index..<index + todo]"
  using assms
proof (induction todo arbitrary: index k acts)
  case 0
  then show ?case by simp
next
  case (Suc todo)
  let ?acts = "snd (asn_set_add (\<lambda>_. True) acts (Some (to_be_setup_field (ids ! index) (types ! index))))"
  note grow = add_grows [OF Suc.prems(1), where x = "to_be_setup_field (ids ! index) (types ! index)"]
  from Suc.prems(6) [of index] have p: "plain_action (defs ! index) (subs ! index)" by simp
  have "\<exists>acts'. setup_actions (\<lambda>_. True) (\<lambda>_. True) ids types defs subs todo (Suc index) (Suc k) ?acts = Inr (Some acts')
    \<and> set_of_ok acts' \<and> set_items acts' = set_items ?acts @ map (\<lambda>i. to_be_setup_field (ids ! i) (types ! i)) [Suc index..<Suc index + todo]"
    by (rule Suc.IH) (use Suc.prems grow in auto)
  moreover have "[index..<index + Suc todo] = index # [Suc index..<Suc index + todo]" by (simp add: upt_rec)
  ultimately show ?case using Suc.prems(2-5) p grow by (auto simp: plain_action_def)
qed

lemma setup_actions_crash:
  assumes "index + todo \<le> length ids" and "index + todo \<le> length types"
    and "index + todo \<le> length defs" and "index + todo \<le> length subs"
    and "index \<le> i" and "i < index + todo" and "\<not> plain_action (defs ! i) (subs ! i)"
  shows "setup_actions (\<lambda>_. True) (\<lambda>_. True) ids types defs subs todo index k acts = Inl Null_deref"
  using assms
proof (induction todo arbitrary: index k acts)
  case 0
  then show ?case by simp
next
  case (Suc todo)
  show ?case
  proof (cases "plain_action (defs ! index) (subs ! index)")
    case True
    with Suc.prems(5,7) have "Suc index \<le> i" by (metis le_antisym not_less_eq_eq)
    then have "setup_actions (\<lambda>_. True) (\<lambda>_. True) ids types defs subs todo (Suc index) (Suc k)
      (snd (asn_set_add (\<lambda>_. True) acts (Some (to_be_setup_field (ids ! index) (types ! index))))) = Inl Null_deref"
      by (intro Suc.IH) (use Suc.prems in auto)
    with True Suc.prems show ?thesis by (simp add: plain_action_def)
  next
    case False
    with Suc.prems show ?thesis by (auto simp: plain_action_def)
  qed
qed

section \<open>Subscription requests\<close>

definition subscription_request_elementary ::
  "int \<Rightarrow> int \<Rightarrow> int \<Rightarrow> byte list \<Rightarrow> RICaction_ToBeSetup_Item option field set_of \<Rightarrow> 'o elementary" where
  "subscription_request_elementary requestor seq function_id trigger actions =
     \<lparr>em_procedureCode = ProcedureCode_id_RICsubscription, em_criticality = Criticality_reject, em_present = 1,
      em_protocolIEs = \<lparr>so_array = [Some (request_id_field requestor seq), Some (function_id_field function_id),
          Some (details_field trigger actions), None], so_count = 3, so_size = 4, so_free = False\<rparr>\<rparr>"

lemma request_table:
  "fst (select_RICsubscriptionRequest_IEs_value_type id_RANfunctionID) = Some (IE DEF_RANfunctionID)"
  "fst (select_RICsubscriptionRequest_IEs_value_type id_RICsubscriptionDetails) = Some (IE DEF_RICsubscriptionDetails)"
  "fst (select_RICsubscriptionDeleteRequest_IEs_value_type id_RANfunctionID) = Some (IE DEF_RANfunctionID)"
  by code_simp+

lemma subscription_request_elementary_ok:
  "pdu_typed (PDU_initiatingMessage (subscription_request_elementary r s f t a :: 'o elementary))"
  "message_of RICsubscriptionRequest_kind (PDU_initiatingMessage (subscription_request_elementary r s f t a :: 'o elementary))
    = Some (subscription_request_elementary r s f t a)"
  "sequence_number RICsubscriptionRequest_kind
     (PDU_initiatingMessage (subscription_request_elementary r s f t a :: 'o elementary)) = Some s"
proof -
  let ?m = "subscription_request_elementary r s f t a :: 'o elementary"
  have items: "set_items (em_protocolIEs ?m) = [request_id_field r s, function_id_field f, details_field t a]"
    by (simp add: subscription_request_elementary_def set_items_def)
  have "ie_typed select_RICsubscriptionRequest_IEs_value_type ie" if "ie \<in> set (set_items (em_protocolIEs ?m))" for ie
    using that tables_request_id request_table
    by (auto simp: items ie_typed_def request_id_field_def function_id_field_def details_field_def)
  moreover have "set_of_ok (em_protocolIEs ?m)"
    by (simp add: set_of_ok_def subscription_request_elementary_def)
  ultimately show "pdu_typed (PDU_initiatingMessage ?m)"
    by (simp add: elementary_typed_def table_defs ies_typed_def) (simp add: subscription_request_elementary_def)
  show m: "message_of RICsubscriptionRequest_kind (PDU_initiatingMessage ?m) = Some ?m"
    by (simp add: message_of_def kind_defs subscription_request_elementary_def)
  show "sequence_number RICsubscriptionRequest_kind (PDU_initiatingMessage ?m) = Some s"
    by (simp add: sequence_number_def m items request_id_field_def)
qed

text \<open>
  (C34) A subscription request whose actions have neither a definition nor a subsequent action, when no
  allocation fails: the message handed to the encoder holds the five elements the builder names and nothing else. Its list
  has request id, function id and subscription details, in this order, and the details contain
  the other two, the event trigger and the list with one item per action in the order of the arguments. The
  message is well typed.
\<close>

theorem subscription_request_contents:
  assumes "length ids = n" and "length types = n" and "length defs = n" and "length subs = n"
    and "\<And>i. i < n \<Longrightarrow> plain_action (defs ! i) (subs ! i)"
  shows "\<exists>acts. set_of_ok acts \<and> set_items acts = map2 to_be_setup_field ids types
    \<and> set_items (em_protocolIEs (subscription_request_elementary requestor seq fid trigger acts :: 'o elementary))
      = [request_id_field requestor seq, function_id_field fid, details_field trigger acts]
    \<and> pdu_typed (PDU_initiatingMessage (subscription_request_elementary requestor seq fid trigger acts :: 'o elementary))
    \<and> e2ap_encode_ric_subscription_request_message (\<lambda>_. True) (\<lambda>_. True) enc tmp buffer requestor seq fid trigger (int n)
        ids types defs subs h
      = (let (sz, buffer', h') = encode_E2AP_PDU enc tmp
             (PDU_initiatingMessage (subscription_request_elementary requestor seq fid trigger acts :: 'o elementary)) buffer
             (h\<lparr>live_pdus := live_pdus h + 1\<rparr>)
         in Inr (sint sz, buffer', h'))"
proof -
  have "\<exists>acts. setup_actions (\<lambda>_. True) (\<lambda>_. True) ids types defs subs n 0 6 set_of_zero = Inr (Some acts)
    \<and> set_of_ok acts \<and> set_items acts = set_items set_of_zero @ map (\<lambda>i. to_be_setup_field (ids ! i) (types ! i)) [0..<0 + n]"
    by (rule setup_actions_ok) (use assms in auto)
  then obtain acts where a: "setup_actions (\<lambda>_. True) (\<lambda>_. True) ids types defs subs n 0 6 set_of_zero = Inr (Some acts)"
    "set_of_ok acts" "set_items acts = map (\<lambda>i. to_be_setup_field (ids ! i) (types ! i)) [0..<n]" by auto
  have "map (\<lambda>i. to_be_setup_field (ids ! i) (types ! i)) [0..<n] = map2 to_be_setup_field ids types"
    by (rule nth_equalityI) (use assms(1,2) in auto)
  with a have "set_items acts = map2 to_be_setup_field ids types" by simp
  moreover have "e2ap_encode_ric_subscription_request_message (\<lambda>_. True) (\<lambda>_. True) enc tmp buffer requestor seq fid trigger
        (int n) ids types defs subs h
      = (let (sz, buffer', h') = encode_E2AP_PDU enc tmp
             (PDU_initiatingMessage (subscription_request_elementary requestor seq fid trigger acts :: 'o elementary)) buffer
             (h\<lparr>live_pdus := live_pdus h + 1\<rparr>)
         in Inr (sint sz, buffer', h'))"
    using a(1)
    by (simp add: e2ap_encode_ric_subscription_request_message_def add_two add_three
        subscription_request_elementary_def Let_def)
  moreover have "set_items (em_protocolIEs (subscription_request_elementary requestor seq fid trigger acts :: 'o elementary))
      = [request_id_field requestor seq, function_id_field fid, details_field trigger acts]"
    by (simp add: subscription_request_elementary_def set_items_def)
  ultimately show ?thesis using a(2) subscription_request_elementary_ok(1) by blast
qed

theorem subscription_request_contents_witness:
  "\<exists>acts. set_of_ok acts \<and> set_items acts = map2 to_be_setup_field [1, 2] [0, 1]
    \<and> set_items (em_protocolIEs (subscription_request_elementary 1001 5 2 [8] acts :: unit elementary))
      = [request_id_field 1001 5, function_id_field 2, details_field [8] acts]
    \<and> pdu_typed (PDU_initiatingMessage (subscription_request_elementary 1001 5 2 [8] acts :: unit elementary))
    \<and> e2ap_encode_ric_subscription_request_message (\<lambda>_. True) (\<lambda>_. True) (sample_enc RICsubscriptionRequest_kind) (replicate 32 0) (replicate 8 0) 1001 5 2 [8] (int 2)
        [1, 2] [0, 1] (replicate 2 \<lparr>ad_actionDefinition = [], ad_size = 0\<rparr>)
        (replicate 2 \<lparr>sa_isValid = 0, sa_subsequentActionType = 0, sa_timeToWait = 0\<rparr>) empty_heap
      = (let (sz, buffer', h') = encode_E2AP_PDU (sample_enc RICsubscriptionRequest_kind) (replicate 32 0)
             (PDU_initiatingMessage (subscription_request_elementary 1001 5 2 [8] acts :: unit elementary)) (replicate 8 0)
             (empty_heap\<lparr>live_pdus := live_pdus empty_heap + 1\<rparr>)
         in Inr (sint sz, buffer', h'))"
  by (rule subscription_request_contents) (simp_all add: plain_action_def)

text \<open>
  (C35) Any action with a definition or a subsequent action crashes the builder: both are
  stored through pointers that the zeroed structure does not have.
\<close>

theorem subscription_request_definition_crashes:
  assumes "length ids = n" and "length types = n" and "length defs = n" and "length subs = n"
    and "i < n" and "ad_size (defs ! i) \<noteq> 0 \<or> sa_isValid (subs ! i) \<noteq> 0"
  shows "e2ap_encode_ric_subscription_request_message (\<lambda>_. True) (\<lambda>_. True) enc tmp buffer requestor seq fid trigger (int n)
    ids types defs subs h = Inl Null_deref"
proof -
  have "setup_actions (\<lambda>_. True) (\<lambda>_. True) ids types defs subs n 0 6 set_of_zero = Inl Null_deref"
    by (rule setup_actions_crash [where i = i]) (use assms in \<open>auto simp: plain_action_def\<close>)
  then show ?thesis by (simp add: e2ap_encode_ric_subscription_request_message_def Let_def)
qed

theorem subscription_request_definition_crashes_witness:
  "e2ap_encode_ric_subscription_request_message (\<lambda>_. True) (\<lambda>_. True) (sample_enc RICsubscriptionRequest_kind) (replicate 32 0) (replicate 8 0) 1001 5 2 [8] (int 1)
    [1] [0] [\<lparr>ad_actionDefinition = [3, 4], ad_size = 2\<rparr>]
    [\<lparr>sa_isValid = 0, sa_subsequentActionType = 0, sa_timeToWait = 0\<rparr>] empty_heap = Inl Null_deref"
  by (rule subscription_request_definition_crashes [where i = 0]) simp_all

section \<open>Delete requests\<close>

definition delete_request_pdu :: "int \<Rightarrow> int \<Rightarrow> int \<Rightarrow> 'o E2AP_PDU" where
  "delete_request_pdu requestor seq function_id = PDU_initiatingMessage
     \<lparr>em_procedureCode = ProcedureCode_id_RICsubscriptionDelete, em_criticality = Criticality_reject, em_present = 2,
      em_protocolIEs = \<lparr>so_array = [Some (request_id_field requestor seq), Some (function_id_field function_id), None, None],
        so_count = 2, so_size = 4, so_free = False\<rparr>\<rparr>"

lemma delete_request_pdu_ok:
  "pdu_typed (delete_request_pdu r s f)"
  "sequence_number RICsubscriptionDeleteRequest_kind (delete_request_pdu r s f) = Some s"
  using tables_request_id request_table
  by (auto simp: delete_request_pdu_def elementary_typed_def table_defs ies_typed_def set_of_ok_def set_items_def
      ie_typed_def request_id_field_def function_id_field_def sequence_number_def message_of_def kind_defs)

lemma delete_request_built:
  "e2ap_encode_ric_subscription_delete_request_message (\<lambda>_. True) (\<lambda>_. True) enc tmp buffer r s f h
    = (let (sz, buffer', h') = encode_E2AP_PDU enc tmp (delete_request_pdu r s f) buffer (h\<lparr>live_pdus := live_pdus h + 1\<rparr>)
       in (sint sz, buffer', h'))"
  by (simp add: e2ap_encode_ric_subscription_delete_request_message_def add_two delete_request_pdu_def Let_def)

text \<open>
  A delete request goes round: when it was written into a buffer, with coders that invert
  each other, the sequence number read from that buffer is the one given to the builder; the
  result is the size of the message in bits and no message is left behind.
\<close>

theorem delete_request_then_get:
  assumes "per_type encode_to_buffer_cb arg_buffer enc dec field valid" and "valid (Some (delete_request_pdu requestor seq fid))"
    and "0 < length (field 0 (Some (delete_request_pdu requestor seq fid)))"
    and "length (field 0 (Some (delete_request_pdu requestor seq fid))) < 2 ^ 63" and "length tmp = 32"
    and "e2ap_encode_ric_subscription_delete_request_message (\<lambda>_. True) (\<lambda>_. True) enc tmp buffer requestor seq fid h
      = (r, buffer', h')" and "r \<noteq> -1"
  shows "e2ap_get_ric_subscription_delete_request_sequence_number dec buffer' h2 = Inr (seq, h2)
    \<and> r = int (length (field 0 (Some (delete_request_pdu requestor seq fid)))) \<and> h' = h"
proof -
  let ?p = "delete_request_pdu requestor seq fid"
  from assms(6) obtain sz where e: "encode_E2AP_PDU enc tmp ?p buffer (h\<lparr>live_pdus := live_pdus h + 1\<rparr>) = (sz, buffer', h')"
    and r: "r = sint sz" by (auto simp: delete_request_built Let_def split: prod.splits)
  with assms(7) have "sz \<noteq> -1" by auto
  note d = encode_then_decode [OF assms(1-3,5) e this]
  have "e2ap_get_ric_subscription_delete_request_sequence_number dec buffer' h2 = Inr (seq, h2)"
    using del_request.get_sequence_number_ok [OF d [THEN conjunct1] delete_request_pdu_ok(1)]
    by (simp add: sequence_number_defs delete_request_pdu_ok(2))
  moreover have "r = int (length (field 0 (Some ?p)))"
    using d sint_of_nat_small [OF assms(4)] by (simp add: r)
  ultimately show ?thesis using d by (simp add: free_pdu_def)
qed

theorem delete_request_then_get_witness:
  "e2ap_get_ric_subscription_delete_request_sequence_number (sample_dec (\<lambda>n. delete_request_pdu 100 n 2))
      [1, 44, 0, 0, 0, 0, 0, 0] empty_heap = Inr (300, empty_heap)
    \<and> (16::int) = int (length (sample_field RICsubscriptionDeleteRequest_kind 0 (Some (delete_request_pdu 100 300 2))))
    \<and> empty_heap = empty_heap"
proof (rule delete_request_then_get [OF sample_codec])
  have "length (replicate 8 0 :: byte list) = 8" by simp
  then show "e2ap_encode_ric_subscription_delete_request_message (\<lambda>_. True) (\<lambda>_. True)
      (sample_enc RICsubscriptionDeleteRequest_kind) (replicate 32 0) (replicate 8 0) 100 300 2 empty_heap
      = (16, [1, 44, 0, 0, 0, 0, 0, 0], empty_heap)"
    using sample_encode_300 [OF delete_request_pdu_ok(2) [of 100 300 2]]
    by (simp add: delete_request_built encode_E2AP_PDU_def free_pdu_def numeral_eq_Suc)
qed (simp_all add: delete_request_pdu_ok sample_field_300
    sample_valid_300 [where mk = "\<lambda>n. delete_request_pdu 100 n 2"])

end
