(* ===== verification/E2apDecode.thy ===== *)
theory E2apDecode
  imports E2apRequests
begin

text \<open>
  What the functions of \<^theory_text>\<open>E2apWrapper\<close> that take responses and indications apart return on
  decoded messages: their contents, the memory they keep, and the overflow of the action arrays.
\<close>

section \<open>Ids and types of the elements\<close>

lemma indication_table:
  "fst (select_RICindication_IEs_value_type v) = Some (IE t) \<Longrightarrow>
    (v, t) \<in> {(id_RICrequestID, DEF_RICrequestID), (id_RANfunctionID, DEF_RANfunctionID), (id_RICactionID, DEF_RICactionID),
      (id_RICindicationSN, DEF_RICindicationSN), (id_RICindicationType, DEF_RICindicationType),
      (id_RICindicationHeader, DEF_RICindicationHeader), (id_RICindicationMessage, DEF_RICindicationMessage),
      (id_RICcallProcessID, DEF_RICcallProcessID)}"
  by (simp add: select_RICindication_IEs_value_type_def select_type_lookup asn_IOS_RICindication_IEs_def upt_rec
      numeral_eq_Suc Let_def split: if_splits)


section \<open>Indications\<close>

text \<open>The result holds what an element carries.\<close>

fun indication_holds :: "'o ie_value \<Rightarrow> RICindicationMsg \<Rightarrow> bool" where
  "indication_holds (IE_RICrequestID r) msg \<longleftrightarrow>
     im_requestorID msg = ricRequestorID r \<and> im_requestSequenceNumber msg = ricInstanceID r"
| "indication_holds (IE_RANfunctionID n) msg \<longleftrightarrow> im_ranfunctionID msg = n"
| "indication_holds (IE_RICactionID n) msg \<longleftrightarrow> im_actionID msg = n"
| "indication_holds (IE_RICindicationSN n) msg \<longleftrightarrow> im_indicationSN msg = n"
| "indication_holds (IE_RICindicationType n) msg \<longleftrightarrow> im_indicationType msg = n"
| "indication_holds (IE_RICindicationHeader b) msg \<longleftrightarrow>
     im_indicationHeader msg = Some b \<and> im_indicationHeaderSize msg = length b"
| "indication_holds (IE_RICindicationMessage b) msg \<longleftrightarrow>
     im_indicationMessage msg = Some b \<and> im_indicationMessageSize msg = length b"
| "indication_holds (IE_RICcallProcessID b) msg \<longleftrightarrow>
     im_callProcessID msg = Some b \<and> im_callProcessIDSize msg = length b"
| "indication_holds _ msg \<longleftrightarrow> True"

text \<open>The types of elements for which the result has a buffer of its own.\<close>

fun has_buffer :: "RICindicationMsg \<Rightarrow> element_type \<Rightarrow> bool" where
  "has_buffer msg DEF_RICindicationHeader \<longleftrightarrow> im_indicationHeader msg \<noteq> None"
| "has_buffer msg DEF_RICindicationMessage \<longleftrightarrow> im_indicationMessage msg \<noteq> None"
| "has_buffer msg DEF_RICcallProcessID \<longleftrightarrow> im_callProcessID msg \<noteq> None"
| "has_buffer msg _ \<longleftrightarrow> False"

abbreviation ie_type :: "'o ie \<Rightarrow> element_type option" where
  "ie_type ie \<equiv> ie_value_type (fld_value ie)"

lemma indication_holds_frame [simp]:
  "ie_value_type v \<noteq> Some DEF_RICrequestID \<Longrightarrow>
    indication_holds v (msg\<lparr>im_requestorID := a, im_requestSequenceNumber := b\<rparr>) = indication_holds v msg"
  "ie_value_type v \<noteq> Some DEF_RANfunctionID \<Longrightarrow> indication_holds v (msg\<lparr>im_ranfunctionID := a\<rparr>) = indication_holds v msg"
  "ie_value_type v \<noteq> Some DEF_RICactionID \<Longrightarrow> indication_holds v (msg\<lparr>im_actionID := a\<rparr>) = indication_holds v msg"
  "ie_value_type v \<noteq> Some DEF_RICindicationSN \<Longrightarrow> indication_holds v (msg\<lparr>im_indicationSN := a\<rparr>) = indication_holds v msg"
  "ie_value_type v \<noteq> Some DEF_RICindicationType \<Longrightarrow> indication_holds v (msg\<lparr>im_indicationType := a\<rparr>) = indication_holds v msg"
  "ie_value_type v \<noteq> Some DEF_RICindicationHeader \<Longrightarrow>
    indication_holds v (msg\<lparr>im_indicationHeader := d, im_indicationHeaderSize := n\<rparr>) = indication_holds v msg"
  "ie_value_type v \<noteq> Some DEF_RICindicationMessage \<Longrightarrow>
    indication_holds v (msg\<lparr>im_indicationMessage := d, im_indicationMessageSize := n\<rparr>) = indication_holds v msg"
  "ie_value_type v \<noteq> Some DEF_RICcallProcessID \<Longrightarrow>
    indication_holds v (msg\<lparr>im_callProcessID := d, im_callProcessIDSize := n\<rparr>) = indication_holds v msg"
  by (cases v; simp)+

lemma has_buffer_frame [simp]:
  "has_buffer (msg\<lparr>im_requestorID := a, im_requestSequenceNumber := b\<rparr>) u = has_buffer msg u"
  "has_buffer (msg\<lparr>im_ranfunctionID := a\<rparr>) u = has_buffer msg u"
  "has_buffer (msg\<lparr>im_actionID := a\<rparr>) u = has_buffer msg u"
  "has_buffer (msg\<lparr>im_indicationSN := a\<rparr>) u = has_buffer msg u"
  "has_buffer (msg\<lparr>im_indicationType := a\<rparr>) u = has_buffer msg u"
  "u \<noteq> DEF_RICindicationHeader \<Longrightarrow>
    has_buffer (msg\<lparr>im_indicationHeader := d, im_indicationHeaderSize := n\<rparr>) u = has_buffer msg u"
  "u \<noteq> DEF_RICindicationMessage \<Longrightarrow>
    has_buffer (msg\<lparr>im_indicationMessage := d, im_indicationMessageSize := n\<rparr>) u = has_buffer msg u"
  "u \<noteq> DEF_RICcallProcessID \<Longrightarrow> has_buffer (msg\<lparr>im_callProcessID := d, im_callProcessIDSize := n\<rparr>) u = has_buffer msg u"
  by (cases u; simp)+

lemma indication_step_ok:
  assumes "ie_typed select_RICindication_IEs_value_type ie" and "ie_type ie = Some t" and "\<not> has_buffer msg t"
  shows "\<exists>msg' k'. indication_step (\<lambda>_. True) ie msg k h
      = Inr (Some msg', k', h\<lparr>live_blocks := live_blocks h + int (indication_blocks msg') - int (indication_blocks msg)\<rparr>)
    \<and> indication_holds (fld_value ie) msg'
    \<and> (\<forall>v :: 'o ie_value. ie_value_type v \<noteq> Some t \<longrightarrow> indication_holds v msg' = indication_holds v msg)
    \<and> (\<forall>u. u \<noteq> t \<longrightarrow> has_buffer msg' u = has_buffer msg u)"
proof -
  from assms(1,2) have "fst (select_RICindication_IEs_value_type (fld_id ie)) = Some (IE t)"
    by (simp add: ie_typed_def)
  from indication_table [OF this] assms show ?thesis
    by (cases "fld_value ie")
      (auto simp: indication_step_def ie_typed_def member_types_def alloc_block_def indication_blocks_def)
qed

lemma indication_loop_ok:
  assumes "\<And>ie. ie \<in> set ies \<Longrightarrow> ie_typed select_RICindication_IEs_value_type ie"
    and "distinct (map ie_type ies)" and "\<And>ie t. ie \<in> set ies \<Longrightarrow> ie_type ie = Some t \<Longrightarrow> \<not> has_buffer msg t"
  shows "\<exists>msg'. indication_loop (\<lambda>_. True) (ies :: 'o ie list) msg k h
      = Inr (Some msg', h\<lparr>live_blocks := live_blocks h + int (indication_blocks msg') - int (indication_blocks msg)\<rparr>)
    \<and> (\<forall>ie \<in> set ies. indication_holds (fld_value ie) msg')
    \<and> (\<forall>v :: 'o ie_value. ie_value_type v \<notin> set (map ie_type ies) \<longrightarrow> indication_holds v msg' = indication_holds v msg)
    \<and> (\<forall>u. Some u \<notin> set (map ie_type ies) \<longrightarrow> has_buffer msg' u = has_buffer msg u)"
  using assms
proof (induction ies arbitrary: msg k h)
  case Nil
  then show ?case by simp
next
  case (Cons ie ies)
  from Cons.prems(1) [of ie] obtain t where t: "ie_type ie = Some t"
    by (cases "fld_value ie") (auto simp: ie_typed_def)
  have nb0: "\<not> has_buffer msg t" using Cons.prems(3) [of ie t] t by simp
  have "ie_typed select_RICindication_IEs_value_type ie" using Cons.prems(1) by simp
  from indication_step_ok [OF this t nb0] obtain m1 k1 where
    s: "indication_step (\<lambda>_. True) ie msg k h
      = Inr (Some m1, k1, h\<lparr>live_blocks := live_blocks h + int (indication_blocks m1) - int (indication_blocks msg)\<rparr>)"
    and h1: "indication_holds (fld_value ie) m1"
    and f1: "\<And>v :: 'o ie_value. ie_value_type v \<noteq> Some t \<Longrightarrow> indication_holds v m1 = indication_holds v msg"
    and b1: "\<And>u. u \<noteq> t \<Longrightarrow> has_buffer m1 u = has_buffer msg u" by blast
  have nb: "\<not> has_buffer m1 u" if "ie' \<in> set ies" "ie_type ie' = Some u" for ie' u
  proof -
    have "\<not> has_buffer msg u" using Cons.prems(3) [of ie' u] that by simp
    moreover have "u \<noteq> t" using Cons.prems(2) t that by (auto simp: image_iff)
    ultimately show ?thesis using b1 by simp
  qed
  let ?h1 = "h\<lparr>live_blocks := live_blocks h + int (indication_blocks m1) - int (indication_blocks msg)\<rparr>"
  from Cons.IH [of m1 k1 ?h1] Cons.prems(1,2) nb obtain m2 where
    l: "indication_loop (\<lambda>_. True) ies m1 k1 ?h1
      = Inr (Some m2, ?h1\<lparr>live_blocks := live_blocks ?h1 + int (indication_blocks m2) - int (indication_blocks m1)\<rparr>)"
    and h2: "\<forall>ie \<in> set ies. indication_holds (fld_value ie) m2"
    and f2: "\<And>v :: 'o ie_value. ie_value_type v \<notin> set (map ie_type ies) \<Longrightarrow> indication_holds v m2 = indication_holds v m1"
    and b2: "\<And>u. Some u \<notin> set (map ie_type ies) \<Longrightarrow> has_buffer m2 u = has_buffer m1 u" by auto
  have "indication_holds (fld_value ie) m2" using f2 [of "fld_value ie"] h1 Cons.prems(2) by simp
  with s l h2 f1 f2 b1 b2 t show ?case by (auto simp: image_iff)
qed

lemma has_buffer_zero: "\<not> has_buffer indication_zero t"
  by (cases t) (simp_all add: indication_zero_def)

lemma indication_typed:
  assumes "pdu_typed p" and "message_of RICindication_kind p = Some m"
  shows "ies_typed select_RICindication_IEs_value_type (em_protocolIEs m)"
  using assms indication.message_of_con indication.typed_at by metis

text \<open>
  (C36) An indication without repeated elements: the function returns a structure that holds
  what each element carries, with a buffer exactly for the octet strings that are present.
  Freeing it returns every block it took; the decoded message itself is never freed.
\<close>

theorem indication_decoded:
  assumes "decode_E2AP_PDU dec buffer h = Inr (Some p, h1)" and "pdu_typed p"
    and "message_of RICindication_kind p = Some m" and "distinct (map ie_type (set_items (em_protocolIEs m)))"
  shows "\<exists>msg h'. e2ap_decode_ric_indication_message (\<lambda>_. True) dec buffer h = Inr (Some msg, h')
    \<and> (\<forall>ie \<in> set (set_items (em_protocolIEs m)). indication_holds (fld_value ie) msg)
    \<and> (\<forall>t. has_buffer msg t = (t \<in> {DEF_RICindicationHeader, DEF_RICindicationMessage, DEF_RICcallProcessID}
        \<and> Some t \<in> set (map ie_type (set_items (em_protocolIEs m)))))
    \<and> e2ap_free_decoded_ric_indication_message (Some msg) h' = h\<lparr>live_pdus := live_pdus h + 1\<rparr>"
proof -
  let ?ies = "set_items (em_protocolIEs m)"
  have typed: "ie_typed select_RICindication_IEs_value_type ie" if "ie \<in> set ?ies" for ie
    using that indication_typed [OF assms(2,3)] by (simp add: ies_typed_def)
  from assms(1) have h1: "h1 = h\<lparr>live_pdus := live_pdus h + 1\<rparr>"
    by (auto simp: decode_E2AP_PDU_def split: option.splits if_splits)
  from indication_loop_ok [OF typed assms(4), of indication_zero 1 "alloc_block h1"] obtain msg where
    l: "indication_loop (\<lambda>_. True) ?ies indication_zero 1 (alloc_block h1)
      = Inr (Some msg, (alloc_block h1)\<lparr>live_blocks := live_blocks (alloc_block h1) + int (indication_blocks msg)
          - int (indication_blocks indication_zero)\<rparr>)"
    and hold: "\<forall>ie \<in> set ?ies. indication_holds (fld_value ie) msg"
    and buf: "\<And>u. Some u \<notin> set (map ie_type ?ies) \<Longrightarrow> \<not> has_buffer msg u"
    by (auto simp: has_buffer_zero)
  have "has_buffer msg t" if t: "t \<in> {DEF_RICindicationHeader, DEF_RICindicationMessage, DEF_RICcallProcessID}"
    "Some t \<in> set (map ie_type ?ies)" for t
  proof -
    from t(2) obtain ie where "ie \<in> set ?ies" "ie_type ie = Some t" by auto
    moreover from this(1) hold typed have "indication_holds (fld_value ie) msg"
      "ie_typed select_RICindication_IEs_value_type ie" by auto
    ultimately show ?thesis using t(1) by (cases "fld_value ie") (auto simp: ie_typed_def member_types_def)
  qed
  moreover have "t \<in> {DEF_RICindicationHeader, DEF_RICindicationMessage, DEF_RICcallProcessID}" if "has_buffer msg t" for t
    using that by (cases t) simp_all
  ultimately have "has_buffer msg t = (t \<in> {DEF_RICindicationHeader, DEF_RICindicationMessage, DEF_RICcallProcessID}
      \<and> Some t \<in> set (map ie_type ?ies))" for t
    using buf by blast
  moreover have "indication_blocks indication_zero = 1" by (simp add: indication_blocks_def indication_zero_def)
  ultimately show ?thesis
    using l hold assms(3)
    by (auto simp: e2ap_decode_ric_indication_message_def assms(1) h1 alloc_block_def
        e2ap_free_decoded_ric_indication_message_def free_blocks_def)
qed

definition sample_indication :: "int \<Rightarrow> unit elementary" where
  "sample_indication n =
     \<lparr>em_procedureCode = ProcedureCode_id_RICindication, em_criticality = 1, em_present = 7,
      em_protocolIEs = \<lparr>so_array = [Some (request_id_field 1001 n),
          Some \<lparr>fld_id = id_RICindicationHeader, fld_criticality = 0, fld_value = IE_RICindicationHeader [3, 4]\<rparr>],
        so_count = 2, so_size = 2, so_free = False\<rparr>\<rparr>"

lemma sample_indication_items: "set_items (em_protocolIEs (sample_indication n)) = [request_id_field 1001 n,
    \<lparr>fld_id = id_RICindicationHeader, fld_criticality = 0, fld_value = IE_RICindicationHeader [3, 4]\<rparr>]"
  by (simp add: sample_indication_def set_items_def)

lemma sample_indication_ok:
  "message_of RICindication_kind (PDU_initiatingMessage (sample_indication n)) = Some (sample_indication n)"
  "sequence_number RICindication_kind (PDU_initiatingMessage (sample_indication n)) = Some n"
  "pdu_typed (PDU_initiatingMessage (sample_indication n))"
proof -
  show m: "message_of RICindication_kind (PDU_initiatingMessage (sample_indication n)) = Some (sample_indication n)"
    by (simp add: message_of_def kind_defs sample_indication_def)
  show "sequence_number RICindication_kind (PDU_initiatingMessage (sample_indication n)) = Some n"
    by (simp add: sequence_number_def m sample_indication_items request_id_field_def)
  have "fst (select_RICindication_IEs_value_type id_RICindicationHeader) = Some (IE DEF_RICindicationHeader)" by code_simp
  then have "ie_typed select_RICindication_IEs_value_type ie"
    if "ie \<in> set (set_items (em_protocolIEs (sample_indication n)))" for ie
    using that tables_request_id by (auto simp: sample_indication_items ie_typed_def request_id_field_def)
  then show "pdu_typed (PDU_initiatingMessage (sample_indication n))"
    by (simp add: elementary_typed_def table_defs ies_typed_def) (simp add: sample_indication_def set_of_ok_def)
qed

theorem indication_decoded_witness:
  "\<exists>msg h'. e2ap_decode_ric_indication_message (\<lambda>_. True) (sample_dec (\<lambda>n. PDU_initiatingMessage (sample_indication n)))
      [0, 7, 0, 0, 0, 0, 0, 0] empty_heap = Inr (Some msg, h')
    \<and> im_requestSequenceNumber msg = 7 \<and> im_indicationHeader msg = Some [3, 4] \<and> im_callProcessID msg = None
    \<and> e2ap_free_decoded_ric_indication_message (Some msg) h' = empty_heap\<lparr>live_pdus := live_pdus empty_heap + 1\<rparr>"
proof -
  note d = sample_decode_7 [where kind = RICindication_kind and mk = "\<lambda>n. PDU_initiatingMessage (sample_indication n)",
      OF sample_indication_ok(2)]
  have "distinct (map ie_type (set_items (em_protocolIEs (sample_indication 7))))"
    by (simp add: sample_indication_items request_id_field_def)
  from indication_decoded [OF d sample_indication_ok(3,1) this] obtain msg h' where
    r: "e2ap_decode_ric_indication_message (\<lambda>_. True) (sample_dec (\<lambda>n. PDU_initiatingMessage (sample_indication n)))
        [0, 7, 0, 0, 0, 0, 0, 0] empty_heap = Inr (Some msg, h')"
    and hold: "\<forall>ie \<in> set (set_items (em_protocolIEs (sample_indication 7))). indication_holds (fld_value ie) msg"
    and buf: "\<forall>t. has_buffer msg t = (t \<in> {DEF_RICindicationHeader, DEF_RICindicationMessage, DEF_RICcallProcessID}
        \<and> Some t \<in> set (map ie_type (set_items (em_protocolIEs (sample_indication 7)))))"
    and fr: "e2ap_free_decoded_ric_indication_message (Some msg) h' = empty_heap\<lparr>live_pdus := live_pdus empty_heap + 1\<rparr>"
    by blast
  from buf [rule_format, of DEF_RICcallProcessID] r hold fr show ?thesis by (simp add: sample_indication_items request_id_field_def)
qed

section \<open>Subscription responses\<close>



lemma admitted_loop_overflow:
  assumes "\<And>f. f \<in> set fs \<Longrightarrow> fld_id f = id_RICaction_Admitted_Item \<and> fld_value f \<noteq> None"
    and "length arr < index + length fs" and "index \<le> length arr"
  shows "admitted_loop fs index arr = Inl Out_of_bounds"
  using assms
proof (induction fs arbitrary: index arr)
  case Nil
  then show ?case by simp
next
  case (Cons f fs)
  from Cons.prems(1) [of f] obtain v where f: "fld_id f = id_RICaction_Admitted_Item" "fld_value f = Some v" by auto
  show ?case
  proof (cases "length arr \<le> index")
    case False
    have "admitted_loop fs (Suc index) (arr[index := v]) = Inl Out_of_bounds"
      by (rule Cons.IH) (use Cons.prems False in auto)
    with f False show ?thesis by simp
  qed (use f in simp)
qed


text \<open>The result holds what an element carries, lists up to their count.\<close>

fun response_holds :: "'o ie_value \<Rightarrow> RICsubscriptionResponseMsg \<Rightarrow> bool" where
  "response_holds (IE_RICrequestID r) msg \<longleftrightarrow>
     rm_requestorID msg = ricRequestorID r \<and> rm_requestSequenceNumber msg = ricInstanceID r"
| "response_holds (IE_RANfunctionID n) msg \<longleftrightarrow> rm_ranfunctionID msg = n"
| "response_holds (IE_RICaction_Admitted_List l) msg \<longleftrightarrow>
     al_count (rm_ricActionAdmittedList msg) = int (so_count l) \<and>
     take (so_count l) (al_ricActionID (rm_ricActionAdmittedList msg)) = map (\<lambda>f. the (fld_value f)) (set_items l)"
| "response_holds (IE_RICaction_NotAdmitted_List l) msg \<longleftrightarrow>
     nl_count (rm_ricActionNotAdmittedList msg) = int (so_count l) \<and>
     take (so_count l) (nl_ricActionID (rm_ricActionNotAdmittedList msg))
       = map (\<lambda>f. na_ricActionID (the (fld_value f))) (set_items l) \<and>
     map Some (take (so_count l) (nl_ricCause (rm_ricActionNotAdmittedList msg)))
       = map (\<lambda>f. cause_item (na_cause (the (fld_value f)))) (set_items l)"
| "response_holds _ msg \<longleftrightarrow> True"


lemma response_holds_frame [simp]:
  "ie_value_type v \<noteq> Some DEF_RICrequestID \<Longrightarrow>
    response_holds v (msg\<lparr>rm_requestorID := a, rm_requestSequenceNumber := b\<rparr>) = response_holds v msg"
  "ie_value_type v \<noteq> Some DEF_RANfunctionID \<Longrightarrow> response_holds v (msg\<lparr>rm_ranfunctionID := a\<rparr>) = response_holds v msg"
  "ie_value_type v \<noteq> Some DEF_RICaction_Admitted_List \<Longrightarrow>
    response_holds v (msg\<lparr>rm_ricActionAdmittedList := al\<rparr>) = response_holds v msg"
  "ie_value_type v \<noteq> Some DEF_RICaction_NotAdmitted_List \<Longrightarrow>
    response_holds v (msg\<lparr>rm_ricActionNotAdmittedList := nl\<rparr>) = response_holds v msg"
  by (cases v; simp)+








text \<open>
  The arrays have no guard of their own: when the decoder lets more than 16 admitted
  actions through, the function writes beyond them.
\<close>

theorem subscription_response_overflow:
  assumes "decode_E2AP_PDU dec buffer h = Inr (Some p, h1)"
    and "message_of RICsubscriptionResponse_kind p = Some m"
    and "set_items (em_protocolIEs m) = ie # ies" and "fld_id ie = id_RICactions_Admitted"
    and "fld_value ie = IE_RICaction_Admitted_List l" and "16 < length (set_items l)"
    and "\<And>f. f \<in> set (set_items l) \<Longrightarrow> fld_id f = id_RICaction_Admitted_Item \<and> fld_value f \<noteq> None"
  shows "e2ap_decode_ric_subscription_response_message True dec buffer h = Inl Out_of_bounds"
proof -
  have "admitted_loop (set_items l) 0 (replicate 16 0) = Inl Out_of_bounds"
    by (rule admitted_loop_overflow) (use assms(6,7) in auto)
  with assms show ?thesis
    by (simp add: e2ap_decode_ric_subscription_response_message_def response_step_def response_zero_def)
qed

definition sample_response :: "int option field set_of \<Rightarrow> unit elementary" where
  "sample_response l =
     \<lparr>em_procedureCode = ProcedureCode_id_RICsubscription, em_criticality = 0, em_present = 1,
      em_protocolIEs = \<lparr>so_array = [Some \<lparr>fld_id = id_RICactions_Admitted, fld_criticality = 0,
          fld_value = IE_RICaction_Admitted_List l\<rparr>], so_count = 1, so_size = 1, so_free = False\<rparr>\<rparr>"

definition sample_admitted :: "nat \<Rightarrow> int option field set_of" where
  "sample_admitted n =
     \<lparr>so_array = replicate n (Some \<lparr>fld_id = id_RICaction_Admitted_Item, fld_criticality = 0, fld_value = Some 4\<rparr>),
      so_count = n, so_size = n, so_free = False\<rparr>"

lemma sample_admitted_items: "set_items (sample_admitted n)
    = replicate n \<lparr>fld_id = id_RICaction_Admitted_Item, fld_criticality = 0, fld_value = Some 4\<rparr>"
  by (simp add: sample_admitted_def set_items_def)


lemma sample_response_items: "set_items (em_protocolIEs (sample_response l))
    = [\<lparr>fld_id = id_RICactions_Admitted, fld_criticality = 0, fld_value = IE_RICaction_Admitted_List l\<rparr>]"
  by (simp add: sample_response_def set_items_def)

lemma sample_response_message: "message_of RICsubscriptionResponse_kind (PDU_successfulOutcome (sample_response l))
    = Some (sample_response l)"
  by (simp add: message_of_def kind_defs sample_response_def)

text \<open>A decoder for one message, whatever the input.\<close>

definition constant_dec :: "unit E2AP_PDU \<Rightarrow> unit pdu_decoder" where
  "constant_dec p pd = (\<lparr>rv_code = RC_OK, rv_consumed = 0\<rparr>, Some p, pd)"

lemma constant_decode: "decode_E2AP_PDU (constant_dec p) [0] h = Inr (Some p, h\<lparr>live_pdus := live_pdus h + 1\<rparr>)"
  by (simp add: decode_E2AP_PDU_def aper_decode_complete_def aper_decode_def constant_dec_def)


theorem subscription_response_overflow_witness:
  "e2ap_decode_ric_subscription_response_message True
     (constant_dec (PDU_successfulOutcome (sample_response (sample_admitted 17)))) [0] empty_heap = Inl Out_of_bounds"
  by (rule subscription_response_overflow [where l = "sample_admitted 17",
      OF constant_decode sample_response_message sample_response_items])
    (simp_all add: sample_admitted_items)

end
