(* ===== verification/PerEmit.thy ===== *)
theory PerEmit
  imports AperInteger
begin

text \<open>
  Exact contracts of PER writers. \<open>po_emits contents room po bs ok po'\<close>: when the operation
  reports success (\<open>ok\<close>) it has appended exactly the bits \<open>bs\<close>, and it does succeed when the
  destination has room for them, using up no more. Operations in sequence, the second run only
  after the first has succeeded, emit the concatenation (\<open>po_emits_bind\<close>). The rules for the
  primitives of \<open>BitData\<close>, \<open>PerSupport\<close>, \<open>OpenType\<close> and \<open>AperInteger\<close> are collected here; the
  coders of constructed types are composed of them.
\<close>

section \<open>Sequences of writers\<close>

definition po_emits ::
  "('k \<Rightarrow> byte list) \<Rightarrow> ('k \<Rightarrow> nat) \<Rightarrow> 'k outp \<Rightarrow> bool list \<Rightarrow> bool \<Rightarrow> 'k outp \<Rightarrow> bool" where
  "po_emits contents room po bs ok po' \<longleftrightarrow>
     (ok \<longrightarrow> po_writes contents po bs po') \<and>
     (int (length bs) \<le> po_cap room po \<longrightarrow> ok \<and> po_cap room po - int (length bs) \<le> po_cap room po')"

lemma po_emits_writes: "po_emits c room po bs ok po' \<Longrightarrow> ok \<Longrightarrow> po_writes c po bs po'"
  by (simp add: po_emits_def)

lemma po_emits_ok: "po_emits c room po bs ok po' \<Longrightarrow> ok \<Longrightarrow> po_ok po'"
  by (auto simp: po_emits_def)

lemma po_emits_total: "po_emits c room po bs ok po' \<Longrightarrow> int (length bs) \<le> po_cap room po \<Longrightarrow> ok"
  by (simp add: po_emits_def)

lemma po_emits_refl: "po_ok po \<Longrightarrow> po_emits c room po [] True po"
  by (simp add: po_emits_def po_writes_refl)

lemma po_emits_bind:
  assumes "po_emits c room po as ok1 po1" and "ok1 \<Longrightarrow> po_emits c room po1 bs ok2 po2" and "\<not> ok1 \<Longrightarrow> \<not> ok2"
  shows "po_emits c room po (as @ bs) ok2 po2"
proof (cases ok1)
  case True
  then show ?thesis using assms(1) assms(2) [OF True] po_writes_trans [of c po as po1 bs po2]
    by (auto simp: po_emits_def)
next
  case False
  then show ?thesis using assms(1) assms(3) by (auto simp: po_emits_def)
qed

lemma po_emits_cong: "po_emits c room po bs ok po' \<Longrightarrow> bs = bs' \<Longrightarrow> ok = ok' \<Longrightarrow> po_emits c room po bs' ok' po'"
  by simp

text \<open>Where an operation may start: only the position within an octet matters.\<close>

lemma po_emits_nboff: "po_ok po \<Longrightarrow> po_emits c room po bs ok po' \<Longrightarrow> ok \<Longrightarrow>
    po_nboff po' mod 8 = (po_nboff po + length bs) mod 8"
  by (rule po_writes_nboff) (auto simp: po_emits_def)

lemma align_pad_add_mod: "align_pad (k mod 8 + n) = align_pad (k + n)"
  by (rule align_pad_cong) (simp add: mod_add_left_eq)

lemma align_pad_Suc_mod: "align_pad (Suc (k mod 8)) = align_pad (Suc k)"
  using align_pad_add_mod [of k 1] by simp

section \<open>Primitives\<close>

lemma asn_put_few_bits_result: "fst (asn_put_few_bits out po b n) \<in> {-1, 0}"
proof (induction "nat n" arbitrary: po b n rule: less_induct)
  case less
  show ?case
  proof (cases "\<exists>po1. n > 24 \<and> po_room out po n = Some po1")
    case True
    then obtain po1 where "24 < n" "po_room out po n = Some po1" by auto
    then show ?thesis
      using less.hyps [of 24 po1] less.hyps [of "n - 24"]
      by (subst asn_put_few_bits.simps) (auto simp: Let_def split: prod.splits if_splits)
  next
    case False
    then show ?thesis
      by (subst asn_put_few_bits.simps) (auto simp: Let_def split: prod.splits if_splits option.splits)
  qed
qed

context roomy_sink
begin

lemma few_emits:
  assumes "po_ok po" and "0 \<le> n" and "n < 32" and "asn_put_few_bits out po b n = (r, po')"
  shows "po_emits contents room po (bits_of_int (nat n) (uint b)) (r = 0) po'"
  using put_few_bits_writes [OF assms(1), of b n po'] put_few_bits_total [OF assms(1-3), of b] assms
  by (auto simp: po_emits_def)

lemma few_int_emits:
  assumes "po_ok po" and "0 \<le> n" and "n < 32" and "asn_put_few_bits out po (word_of_int x) n = (r, po')"
  shows "po_emits contents room po (bits_of_int (nat n) x) (r = 0) po'"
  using few_emits [OF assms] assms(3) by (simp add: uint_u32_of_int bits_of_int_take_bit)

lemma bit_emits:
  assumes "po_ok po" and "asn_put_few_bits out po (if b then 1 else 0) 1 = (r, po')"
  shows "po_emits contents room po [b] (r = 0) po'"
proof -
  have "bits_of_int 1 (uint (if b then 1 else 0 :: u32)) = [b]" by (simp add: bits_of_int_def)
  then show ?thesis using few_emits [OF assms(1) _ _ assms(2)] by simp
qed

lemma many_emits:
  assumes "po_ok po" and "0 \<le> n" and "n \<le> 8 * int (length src)" and "asn_put_many_bits out po src n = (r, po')"
  shows "po_emits contents room po (take (nat n) (bytes_bits src)) (r = 0) po'"
  using put_many_bits_writes [OF assms(1-3), of po'] put_many_bits_total [OF assms(1,2), of src] assms
  by (auto simp: po_emits_def)

lemma align_emits:
  assumes "po_ok po" and "aper_put_align out po = (a, po')"
  shows "po_emits contents room po (align_pad (po_nboff po)) (\<not> a < 0) po'"
proof (cases "po_nboff po mod 8 = 0")
  case True
  with assms show ?thesis by (simp add: aper_put_align_def po_emits_refl)
next
  case False
  let ?n = "8 - int (po_nboff po mod 8)"
  obtain r where p: "asn_put_few_bits out po 0 ?n = (r, po')" and a: "a = (if r \<noteq> 0 then -1 else 0)"
    using assms(2) False by (auto simp: aper_put_align_def split: prod.splits)
  have "po_nboff po mod 8 < 8" by simp
  then have n: "0 \<le> ?n" "?n < 32" by linarith+
  have "nat ?n = 8 - po_nboff po mod 8" by (simp add: nat_diff_distrib)
  then have "bits_of_int (nat ?n) (uint (0 :: u32)) = align_pad (po_nboff po)"
    using False by (simp add: bits_of_int_zero align_pad_def)
  then show ?thesis using few_emits [OF assms(1) n p] a by (simp split: if_splits)
qed

end

section \<open>Numbers and lengths\<close>

text \<open>The number of a known range, as \<open>aper_put_nsnnwn\<close> writes it at bit \<open>k\<close> of an octet.\<close>

definition nsnnwn_field :: "int \<Rightarrow> nat \<Rightarrow> int \<Rightarrow> bool list" where
  "nsnnwn_field rng k n =
     (if rng \<le> 255 then bits_of_int (nat (nsnnwn_bits rng 1)) n
      else align_pad k @ bits_of_int (if rng = 256 then 8 else 16) n)"

lemma nsnnwn_bits_bounds: "i \<le> 9 \<Longrightarrow> i \<le> nsnnwn_bits rng i \<and> nsnnwn_bits rng i \<le> 9 \<and> (rng \<le> 256 \<longrightarrow> 0 \<le> i \<longrightarrow> i \<le> 8 \<longrightarrow>
   rng \<le> 2 ^ nat (nsnnwn_bits rng i))"
proof (induction rng i rule: nsnnwn_bits.induct)
  case (1 rng i)
  consider "i = 9" | "i = 8" | "i < 8" using "1.prems" by linarith
  then show ?case
  proof cases
    case 1
    then show ?thesis by (simp add: nsnnwn_bits.simps [of rng 9])
  next
    case 2
    then show ?thesis by (simp add: nsnnwn_bits.simps [of rng 8] nsnnwn_bits.simps [of rng 9])
  next
    case 3
    then show ?thesis using "1.IH" by (cases "rng \<le> 2 ^ nat i") (auto simp: nsnnwn_bits.simps [of rng i])
  qed
qed

lemma nsnnwn_field_cong: "a mod 8 = b mod 8 \<Longrightarrow> nsnnwn_field rng a n = nsnnwn_field rng b n"
  using align_pad_cong [of a b] by (simp add: nsnnwn_field_def)

context roomy_sink
begin

lemma nsnnwn_emits:
  assumes ok: "po_ok po" and rng: "rng \<le> 65536" and put: "aper_put_nsnnwn out po rng n = (r, po')"
  shows "po_emits contents room po (nsnnwn_field rng (po_nboff po) n) (r = 0) po'"
proof (cases "rng \<le> 255")
  case True
  have "0 \<le> nsnnwn_bits rng 1" "nsnnwn_bits rng 1 < 32" using nsnnwn_bits_bounds [of 1 rng] by linarith+
  from few_int_emits [OF ok this] put True show ?thesis
    by (simp add: aper_put_nsnnwn_def nsnnwn_field_def)
next
  case False
  let ?b = "if rng = 256 then 8 else 16 :: int"
  obtain a po1 where al: "aper_put_align out po = (a, po1)" by fastforce
  note e1 = align_emits [OF ok al]
  have step: "\<not> a < 0 \<Longrightarrow> asn_put_few_bits out po1 (word_of_int n) ?b = (r, po')" and fail: "a < 0 \<Longrightarrow> r = -1"
    using put False rng al by (auto simp: aper_put_nsnnwn_def split: if_splits)
  have "po_emits contents room po (align_pad (po_nboff po) @ bits_of_int (nat ?b) n) (r = 0) po'"
    by (rule po_emits_bind [OF e1 few_int_emits [OF po_emits_ok [OF e1] _ _ step]]) (simp_all add: fail)
  then show ?thesis using False by (simp add: nsnnwn_field_def split: if_splits)
qed

lemma nsnnwn_small_emits:
  assumes "po_ok po" and "0 \<le> n" and "n \<le> 63" and "uper_put_nsnnwn out po n = (r, po')"
  shows "po_emits contents room po (bits_of_int 7 n) (r = 0) po'"
  using few_int_emits [OF assms(1), of 7 n] assms by (simp add: uper_put_nsnnwn_def split: prod.splits if_splits)

lemma length_emits:
  assumes ok: "po_ok po" and rng: "rng < 0 \<or> 65536 < rng" and put: "aper_put_length out po rng len = (r, po')"
  shows "po_emits contents room po (align_pad (po_nboff po) @ len_bits len) (\<not> r < 0) po'"
    and "\<not> r < 0 \<Longrightarrow> r = int (len_chunk len)"
proof -
  obtain a po1 where al: "aper_put_align out po = (a, po1)" by fastforce
  note e1 = align_emits [OF ok al]
  have fail: "a < 0 \<Longrightarrow> r = -1" using put rng al by (auto simp: aper_put_length_def split: if_splits)
  have "po_emits contents room po1 (len_bits len) (\<not> r < 0) po'" if a: "\<not> a < 0"
  proof -
    note ok1 = po_emits_ok [OF e1 a]
    consider "len \<le> 127" | "127 < len" "len < 16384" | "16384 \<le> len" by linarith
    then show ?thesis
    proof cases
      case 1
      then have "bits_of_int 8 (uint (of_nat len :: u32)) = len_bits len"
        by (simp add: len_bits_def uint_u32_of_nat bits_of_int_take_bit)
      with few_emits [OF ok1, of 8 "of_nat len"] 1 put rng al a show ?thesis
        by (auto simp: aper_put_length_def split: prod.splits if_splits)
    next
      case 2
      then have "bits_of_int 16 (uint (of_nat (len OR 0x8000) :: u32)) = len_bits len"
        using or_0x8000_bits [of len]
        by (simp add: len_bits_def uint_u32_of_nat bits_of_int_take_bit del: of_nat_or_eq)
      with few_emits [OF ok1, of 16 "of_nat (len OR 0x8000)"] 2 put rng al a show ?thesis
        by (auto simp: aper_put_length_def simp del: of_nat_or_eq split: prod.splits if_splits)
    next
      case 3
      then have "bits_of_int 8 (uint (of_nat (0xC0 OR len_blocks len) :: u32)) = len_bits len"
        using or_0xC0 [of "len_blocks len"] len_blocks_bounds [OF 3]
        by (simp add: len_bits_def del: of_nat_or_eq)
      with few_emits [OF ok1, of 8 "of_nat (0xC0 OR len_blocks len)"] 3 put rng al a show ?thesis
        by (auto simp: aper_put_length_def Let_def len_blocks_drop simp del: of_nat_or_eq split: prod.splits if_splits)
    qed
  qed
  then show "po_emits contents room po (align_pad (po_nboff po) @ len_bits len) (\<not> r < 0) po'"
    by (rule po_emits_bind [OF e1]) (simp_all add: fail)
  show "\<not> r < 0 \<Longrightarrow> r = int (len_chunk len)" using aper_put_length_ok [OF ok rng put] by simp
qed

end

section \<open>Integers\<close>

context roomy_sink
begin

lemma few_word_emits:
  fixes d :: u64
  assumes "po_ok po" and "0 \<le> n" and "n < 32" and "asn_put_few_bits out po (ucast d) n = (r, po')"
  shows "po_emits contents room po (bits_of_int (nat n) (uint d)) (r = 0) po'"
  using few_emits [OF assms] assms(3) by (simp add: unsigned_ucast_eq bits_of_int_take_bit)

lemma put_octets_emits:
  assumes "po_ok po" and "n \<le> 8" and "put_octets out v n po = (r, po')"
  shows "po_emits contents room po (bits_of_int (8 * n) (uint v)) (r = 0) po'"
  using assms
proof (induction n arbitrary: po)
  case 0
  then show ?case by (simp add: po_emits_refl)
next
  case (Suc n)
  let ?x = "drop_bit (8 * n) (sint v) AND 0xFF"
  obtain q po1 where 1: "asn_put_few_bits out po (word_of_int ?x) 8 = (q, po1)" by fastforce
  have x: "?x = take_bit 8 (drop_bit (8 * n) (sint v))" by (simp add: take_bit_eq_mask mask_eq_exp_minus_1)
  have "bits_of_int 8 ?x = bits_of_int 8 (drop_bit (8 * n) (uint v))"
    unfolding x using bits_of_uint_sint [of 8 "8 * n" v] Suc.prems(2) by (simp add: bits_of_int_take_bit)
  then have e1: "po_emits contents room po (bits_of_int 8 (drop_bit (8 * n) (uint v))) (q = 0) po1"
    using few_int_emits [OF Suc.prems(1) _ _ 1] by simp
  have "bits_of_int (8 * Suc n) (uint v) = bits_of_int 8 (drop_bit (8 * n) (uint v)) @ bits_of_int (8 * n) (uint v)"
    using bits_of_int_add_length [of 8 "8 * n" "uint v"] by simp
  moreover have "po_emits contents room po (bits_of_int 8 (drop_bit (8 * n) (uint v)) @ bits_of_int (8 * n) (uint v)) (r = 0) po'"
    by (rule po_emits_bind [OF e1]) (use Suc 1 po_emits_ok [OF e1] in \<open>auto split: if_splits\<close>)
  ultimately show ?case by simp
qed

lemma put_constrained_emits:
  assumes ok: "po_ok po" and rb: "0 \<le> rb" "rb \<le> 64" and put: "INTEGER_put_constrained out po rb d = (r, po')"
  shows "po_emits contents room po (int_field_root rb (po_nboff po) d) (r = 0) po'"
proof -
  consider "rb < 8" | "8 \<le> rb" "rb \<le> 16" | "16 < rb" by linarith
  then show ?thesis
  proof cases
    case 1
    obtain q where p: "asn_put_few_bits out po (ucast d) rb = (q, po')" and r: "r = (if q \<noteq> 0 then -1 else 0)"
      using put 1 by (auto simp: INTEGER_put_constrained_def split: prod.splits)
    from few_word_emits [OF ok rb(1) _ p] 1 r show ?thesis by (simp add: int_field_root_def split: if_splits)
  next
    case 2
    let ?n = "if rb = 8 then 8 else 16"
    obtain a po1 where al: "aper_put_align out po = (a, po1)" by fastforce
    note e1 = align_emits [OF ok al]
    obtain q po2 where p: "asn_put_few_bits out po1 (ucast d) ?n = (q, po2)" by fastforce
    have run: "(r, po') = (if a < 0 then (-1, po1) else (if q \<noteq> 0 then -1 else 0, po2))"
      using put 2 al p by (auto simp: INTEGER_put_constrained_def split: if_splits)
    have "po_emits contents room po (align_pad (po_nboff po) @ bits_of_int (nat ?n) (uint d)) (r = 0) po'"
      by (rule po_emits_bind [OF e1]) (use few_word_emits [OF po_emits_ok [OF e1] _ _ p] run in \<open>auto split: if_splits\<close>)
    then show ?thesis using 2 by (auto simp: int_field_root_def split: if_splits)
  next
    case 3
    let ?m = "drop_bit 3 rb + (if 0 < rb mod 8 then 1 else 0)"
    let ?i = "length_field_bits ?m 1" and ?j = "top_octet d 7"
    have "?m \<le> 8" using rb(2) by (auto simp: drop_bit_eq_div) presburger+
    then have i: "?i \<le> 3" by (rule length_field_bits_le)
    obtain q po1 where 1: "asn_put_few_bits out po (of_nat ?j) (int ?i) = (q, po1)" by fastforce
    obtain a po2 where al: "aper_put_align out po1 = (a, po2)" by fastforce
    have run: "(r, po') = (if q \<noteq> 0 then (-1, po1) else if a < 0 then (-1, po2) else put_octets out d (Suc ?j) po2)"
      using put 3 1 al by (auto simp: INTEGER_put_constrained_def Let_def split: if_splits)
    have e1: "po_emits contents room po (bits_of_int ?i (int ?j)) (q = 0) po1"
      using few_emits [OF ok _ _ 1] i by (simp add: uint_u32_of_nat bits_of_int_take_bit)
    have e2: "po_emits contents room po1 (align_pad (po_nboff po + ?i)) (\<not> a < 0) po2" if "q = 0"
      using align_emits [OF po_emits_ok [OF e1 that] al] po_emits_nboff [OF ok e1 that]
        align_pad_cong [of "po_nboff po1" "po_nboff po + ?i"] by simp
    have e12: "po_emits contents room po (bits_of_int ?i (int ?j) @ align_pad (po_nboff po + ?i)) (q = 0 \<and> \<not> a < 0) po2"
      by (rule po_emits_bind [OF e1]) (use e2 in auto)
    have "po_emits contents room po
        ((bits_of_int ?i (int ?j) @ align_pad (po_nboff po + ?i)) @ bits_of_int (8 * Suc ?j) (uint d)) (r = 0) po'"
      by (rule po_emits_bind [OF e12])
        (use run put_octets_emits [OF po_emits_ok [OF e12], of "Suc ?j" d r po'] top_octet_le [of d 7] in \<open>auto split: if_splits\<close>)
    then show ?thesis using 3 by (simp add: int_field_root_def Let_def)
  qed
qed

lemma native_emits:
  assumes ok: "po_ok po" and v: "int_valid uns ct v"
    and enc: "NativeInteger_encode_aper uns (Some ct) out v po = (r, po')"
  shows "po_emits contents room po (int_field ct (po_nboff po mod 8) v) (r \<noteq> -1) po'"
proof -
  let ?st = "if uns then asn_ulong2INTEGER v else asn_long2INTEGER v"
  obtain buf where buf: "?st = Some buf" "buf \<noteq> []"
    using INTEGER_not_empty [of v] by (cases "asn_long2INTEGER v") auto
  have val: "(if uns then asn_INTEGER2ulong ?st else asn_INTEGER2long ?st) = Some v"
    using native_as_INTEGER [OF v] by auto
  let ?lt = "\<lambda>a b. if uns then a < b else sint a < sint b"
  have in_range: "\<not> ?lt v (pc_lower_bound ct)" "\<not> ?lt (pc_upper_bound ct) v"
    using v uint_sint_nonneg [of v] uint_sint_nonneg [of "pc_lower_bound ct"] uint_sint_nonneg [of "pc_upper_bound ct"]
    by (auto simp: int_valid_def int_root_def word_less_def)
  have root: "\<not> pc_semi_constrained ct" "0 \<le> pc_range_bits ct" "pc_range_bits ct \<le> 64"
    using v by (auto simp: int_valid_def int_root_def)
  let ?d = "v - pc_lower_bound ct" and ?rb = "pc_range_bits ct"
  let ?head = "if pc_extensible ct then asn_put_few_bits out po 0 1 else (0, po)"
  obtain r1 po1 where 1: "?head = (r1, po1)" by fastforce
  have run: "(r, po') = (if r1 \<noteq> 0 then (-1, po1) else INTEGER_put_constrained out po1 ?rb ?d)"
    using enc val buf in_range root 1
    by (cases uns; cases "pc_extensible ct"; cases "r1 = 0";
        simp add: NativeInteger_encode_aper_def INTEGER_encode_aper_def Let_def)
  have e1: "po_emits contents room po (if pc_extensible ct then bits_of_int 1 0 else []) (r1 = 0) po1"
    using 1 few_emits [OF ok, of 1 0 r1 po1] ok by (auto simp: po_emits_refl split: if_splits)
  let ?k = "po_nboff po mod 8"
  have k: "int_field_root ?rb (po_nboff po1) ?d = int_field_root ?rb (if pc_extensible ct then Suc ?k else ?k) ?d" if "r1 = 0"
    using po_emits_nboff [OF ok e1 that] by (intro int_field_root_cong) (simp add: mod_Suc_eq split: if_splits)
  have "po_emits contents room po ((if pc_extensible ct then bits_of_int 1 0 else [])
      @ int_field_root ?rb (if pc_extensible ct then Suc ?k else ?k) ?d) (r = 0) po'"
    by (rule po_emits_bind [OF e1])
      (use run put_constrained_emits [OF po_emits_ok [OF e1] root(2,3), of ?d r po'] k in \<open>auto split: if_splits\<close>)
  moreover have "r = 0 \<longleftrightarrow> r \<noteq> -1"
    using run put_constrained_result [of po1 ?rb ?d r po'] by (auto split: if_splits)
  ultimately show ?thesis by (simp add: int_field_def split: if_splits)
qed

end

section \<open>Readers\<close>

lemma bit_takes:
  assumes "pd_ok pd" and "pd_bits pd = [b] @ rest"
  shows "\<exists>pd'. asn_get_few_bits pd 1 = (if b then 1 else 0, pd') \<and> pd_reads pd [b] pd'"
proof -
  have b: "bits_of_int 1 (if b then 1 else 0) = [b]" by (simp add: bits_of_int_def)
  have "pd_bits pd = bits_of_int 1 (if b then 1 else 0) @ rest" unfolding b by (rule assms(2))
  from get_bit_field [OF assms(1) this] show ?thesis unfolding b by (auto split: if_splits)
qed

lemma nsnnwn_takes:
  assumes ok: "pd_ok pd" and rng: "rng \<le> 65536" and n: "0 \<le> n" "n < rng"
    and bits: "pd_bits pd = nsnnwn_field rng (pd_nboff pd) n @ rest"
  shows "\<exists>pd'. aper_get_nsnnwn pd rng = (n, pd') \<and> pd_reads pd (nsnnwn_field rng (pd_nboff pd) n) pd'"
proof (cases "rng \<le> 255")
  case True
  let ?b = "nat (nsnnwn_bits rng 1)"
  have b: "int ?b = nsnnwn_bits rng 1" "?b \<le> 31" "rng \<le> 2 ^ ?b"
    using nsnnwn_bits_bounds [of 1 rng] True by auto
  from get_field_reads [OF ok _ b(2), of n rest] bits True obtain pd' where
    "asn_get_few_bits pd (int ?b) = (take_bit ?b n, pd')" "pd_reads pd (bits_of_int ?b n) pd'"
    by (auto simp: nsnnwn_field_def)
  moreover have "take_bit ?b n = n" using n b(3) by (simp add: take_bit_int_eq_self)
  ultimately show ?thesis using True n b(1) by (simp add: aper_get_nsnnwn_def nsnnwn_field_def)
next
  case False
  let ?b = "if rng = 256 then 8 else 16 :: nat"
  have b: "pd_bits pd = align_pad (pd_nboff pd) @ bits_of_int ?b n @ rest"
    using bits False by (simp add: nsnnwn_field_def)
  from aper_get_align_ok [OF ok b] obtain pd1 where
    1: "aper_get_align pd = (0, pd1)" "pd_reads pd (align_pad (pd_nboff pd)) pd1" by auto
  have "?b \<le> 31" by simp
  from get_field_reads [OF pd_reads_ok [OF 1(2)] pd_reads_bits [OF 1(2) b] this] obtain pd2 where
    2: "asn_get_few_bits pd1 (int ?b) = (take_bit ?b n, pd2)" "pd_reads pd1 (bits_of_int ?b n) pd2" by blast
  have "take_bit ?b n = n" using n rng by (simp add: take_bit_int_eq_self)
  moreover have "int ?b = 8 * (if rng = 256 then 1 else 2)" by simp
  ultimately have "aper_get_nsnnwn pd rng = (n, pd2)"
    using 1(1) 2(1) False rng by (simp add: aper_get_nsnnwn_def split: if_splits)
  with pd_reads_trans [OF 1(2) 2(2)] False show ?thesis by (simp add: nsnnwn_field_def)
qed

section \<open>Open types\<close>

function octets_of_bits :: "bool list \<Rightarrow> byte list" where
  "octets_of_bits bs =
     (if length bs < 8 then [] else word_of_int (int_of_bits (take 8 bs)) # octets_of_bits (drop 8 bs))"
  by pat_completeness auto
termination
  by (relation "measure length") auto

declare octets_of_bits.simps [simp del]

lemma bytes_bits_octets: "length bs mod 8 = 0 \<Longrightarrow> bytes_bits (octets_of_bits bs) = bs"
proof (induction bs rule: octets_of_bits.induct)
  case (1 bs)
  show ?case
  proof (cases "length bs < 8")
    case True
    with "1.prems" have "bs = []" by simp
    then show ?thesis by (simp add: octets_of_bits.simps [of "[]"])
  next
    case False
    then have l: "length (take 8 bs) = 8" and m: "length (drop 8 bs) mod 8 = 0"
      using "1.prems" by (simp_all add: le_mod_geq)
    from l have "bits_of_int 8 (int_of_bits (take 8 bs)) = take 8 bs" by (metis bits_of_int_of_bits)
    with False "1.IH" [OF False m] show ?thesis by (simp add: octets_of_bits.simps [of bs] bit_simps)
  qed
qed

lemma octets_of_bytes_bits [simp]: "octets_of_bits (bytes_bits b) = b"
  using bytes_bits_octets [of "bytes_bits b"] by (simp add: bytes_bits_inject)

lemma length_padded: "length (padded bs) mod 8 = 0"
  using align_pad_aligned [of "length bs"] by (simp add: padded_def)

lemma bytes_bits_padded: "bytes_bits (octets_of_bits (padded bs)) = padded bs"
  by (rule bytes_bits_octets [OF length_padded])

text \<open>The bits of an open type whose value has the bits \<open>bs\<close>, at bit \<open>k\<close> of an octet.\<close>

definition open_field :: "nat \<Rightarrow> bool list \<Rightarrow> bool list" where
  "open_field k bs = ot_bits APER k (octets_of_bits (padded bs))"

text \<open>Values that survive: some bits, and not a whole number of 16K fragments.\<close>

definition open_valid :: "bool list \<Rightarrow> bool" where
  "open_valid bs \<longleftrightarrow> bs \<noteq> [] \<and> length (octets_of_bits (padded bs)) mod 16384 \<noteq> 0"

lemma open_field_mod [simp]: "open_field (k mod 8) bs = open_field k bs"
  by (simp add: open_field_def)

context roomy_sink
begin

lemma open_type_loop_emits:
  assumes "po_ok po" and "bs \<noteq> []" and "open_type_put_loop APER out bs (length bs) po = (r, po')"
  shows "po_emits contents room po (ot_bits APER (po_nboff po) bs) (r = 0) po'"
  using assms
proof (induction "length bs" arbitrary: bs po r rule: less_induct)
  case less
  let ?n = "length bs" and ?c = "len_chunk (length bs)"
  note unf = open_type_put_loop.simps [of APER out bs ?n po]
  obtain m po1 where 1: "aper_put_length out po (-1) ?n = (m, po1)" by fastforce
  note e1 = length_emits(1) [OF less.prems(1) _ 1, simplified] and m = length_emits(2) [OF less.prems(1) _ 1, simplified]
  obtain q po2 where 2: "asn_put_many_bits out po1 bs (m * 8) = (q, po2)" by fastforce
  have cpos: "0 < ?c" and cle: "?c \<le> ?n" using len_chunk_pos [of ?n] len_chunk_le [of ?n] less.prems(2) by simp_all
  have run: "open_type_put_loop APER out bs ?n po =
      (if m < 0 then (-1, po1) else if q \<noteq> 0 then (-1, po2) else open_type_put_loop APER out (drop ?c bs) (?n - ?c) po2)"
    using 1 2 m less.prems(2) by (auto simp: unf open_type_put_length_def)
  have e2: "po_emits contents room po1 (bytes_bits (take ?c bs)) (q = 0) po2" if "\<not> m < 0"
    using many_emits [OF po_emits_ok [OF e1] _ _ 2] that m cle take_bytes_bits [of ?c bs]
    by (simp add: mult.commute nat_mult_distrib)
  let ?ok = "\<not> m < 0 \<and> q = 0"
  have e12: "po_emits contents room po ((align_pad (po_nboff po) @ len_bits ?n) @ bytes_bits (take ?c bs)) ?ok po2"
    by (rule po_emits_bind [OF e1]) (use e2 in auto)
  have ot: "ot_bits APER (po_nboff po) bs = ((align_pad (po_nboff po) @ len_bits ?n) @ bytes_bits (take ?c bs))
      @ (if ?c = ?n then [] else ot_bits APER 0 (drop ?c bs))"
    using len_chunk_def [of ?n] by (auto simp: ot_bits.simps [of APER _ bs] Let_def split: if_splits)
  have "po_emits contents room po2 (if ?c = ?n then [] else ot_bits APER 0 (drop ?c bs)) (r = 0) po'" if ok: "?ok"
  proof (cases "?c = ?n")
    case True
    then show ?thesis using run less.prems(3) ok po_emits_ok [OF e12]
      by (simp add: po_emits_refl open_type_put_loop.simps [of APER out _ 0])
  next
    case False
    have "(po_nboff po + length (align_pad (po_nboff po)) + length (len_bits ?n) + 8 * length (take ?c bs)) mod 8 = 0"
      using align_pad_aligned [of "po_nboff po"] len_bits_octets [of ?n] by presburger
    then have "po_nboff po2 mod 8 = 0" using po_emits_nboff [OF less.prems(1) e12 ok] by (simp add: add.assoc)
    then have k: "ot_bits APER (po_nboff po2) (drop ?c bs) = ot_bits APER 0 (drop ?c bs)" by (metis ot_bits_mod)
    have "po_emits contents room po2 (ot_bits APER (po_nboff po2) (drop ?c bs)) (r = 0) po'"
      by (rule less.hyps) (use cpos cle False po_emits_ok [OF e12] run less.prems(3) ok in auto)
    with k False show ?thesis by simp
  qed
  moreover have "\<not> r = 0" if "\<not> ?ok"
  proof -
    have "r = -1" using run less.prems(3) that by (simp split: if_splits)
    then show ?thesis by simp
  qed
  ultimately show ?case unfolding ot by (rule po_emits_bind [OF e12])
qed

end

section \<open>Coders\<close>

text \<open>
  The contract of a coder: the encoder emits \<open>field k v\<close> at bit \<open>k\<close> of an octet, the decoder takes
  it back to \<open>v\<close>, for every value that meets \<open>valid\<close>.
\<close>

definition enc_emits ::
  "('k \<Rightarrow> byte list) \<Rightarrow> ('k \<Rightarrow> nat) \<Rightarrow> ('v \<Rightarrow> 'k outp \<Rightarrow> int \<times> 'k outp) \<Rightarrow> (nat \<Rightarrow> 'v \<Rightarrow> bool list) \<Rightarrow> ('v \<Rightarrow> bool) \<Rightarrow> bool" where
  "enc_emits contents room enc field valid \<longleftrightarrow>
     (\<forall>po v r po'. po_ok po \<longrightarrow> valid v \<longrightarrow> enc v po = (r, po') \<longrightarrow>
        po_emits contents room po (field (po_nboff po mod 8) v) (r \<noteq> -1) po')"

definition dec_takes ::
  "(bit_data \<Rightarrow> asn_dec_rval \<times> 'v \<times> bit_data) \<Rightarrow> (nat \<Rightarrow> 'v \<Rightarrow> bool list) \<Rightarrow> ('v \<Rightarrow> bool) \<Rightarrow> bool" where
  "dec_takes dec field valid \<longleftrightarrow>
     (\<forall>pd v rest. pd_ok pd \<longrightarrow> valid v \<longrightarrow> pd_bits pd = field (pd_nboff pd mod 8) v @ rest \<longrightarrow>
        (\<exists>rv pd'. dec pd = (rv, v, pd') \<and> rv_code rv = RC_OK \<and> pd_reads pd (field (pd_nboff pd mod 8) v) pd'))"

text \<open>The growing buffer of an open type takes whatever is written to it.\<close>

abbreviation new_buffer :: "byte list \<Rightarrow> enc_dyn_arg \<Rightarrow> enc_dyn_arg option" where
  "new_buffer \<equiv> encode_dyn_cb (\<lambda>_. True)"

interpretation dyn: roomy_sink new_buffer dyn_buffer "\<lambda>_. n" for n
  by unfold_locales (simp add: encode_dyn_cb_def Let_def)

definition new_buffer_emits :: "('v \<Rightarrow> enc_dyn_arg outp \<Rightarrow> int \<times> enc_dyn_arg outp) \<Rightarrow> (nat \<Rightarrow> 'v \<Rightarrow> bool list) \<Rightarrow> ('v \<Rightarrow> bool) \<Rightarrow> bool" where
  "new_buffer_emits enc field valid \<longleftrightarrow> (\<forall>n. enc_emits dyn_buffer (\<lambda>_. n) enc field valid)"

lemma enc_emitsD: "enc_emits c room enc field valid \<Longrightarrow> po_ok po \<Longrightarrow> valid v \<Longrightarrow> enc v po = (r, po') \<Longrightarrow>
    po_emits c room po (field (po_nboff po mod 8) v) (r \<noteq> -1) po'"
  by (simp add: enc_emits_def)

lemma new_buffer_emitsD: "new_buffer_emits enc field valid \<Longrightarrow> po_ok po \<Longrightarrow> valid v \<Longrightarrow> enc v po = (r, po') \<Longrightarrow>
    po_emits dyn_buffer (\<lambda>_. n) po (field (po_nboff po mod 8) v) (r \<noteq> -1) po'"
  by (simp add: new_buffer_emits_def enc_emits_def)

lemma dec_takesD: "dec_takes dec field valid \<Longrightarrow> pd_ok pd \<Longrightarrow> valid v \<Longrightarrow> pd_bits pd = field (pd_nboff pd mod 8) v @ rest \<Longrightarrow>
    \<exists>rv pd'. dec pd = (rv, v, pd') \<and> rv_code rv = RC_OK \<and> pd_reads pd (field (pd_nboff pd mod 8) v) pd'"
  by (simp add: dec_takes_def)

lemma coder_open_type:
  assumes "new_buffer_emits enc field valid" and "dec_takes dec field valid"
  shows "open_type (\<lambda>_. True) enc dec field (\<lambda>v. valid v \<and> field 0 v \<noteq> [])"
proof
  show "po_writes dyn_buffer po (field (po_nboff po mod 8) v) po'"
    if "po_ok po" "valid v \<and> field 0 v \<noteq> []" "enc v po = (r, po')" "r \<noteq> -1" for po v r po'
    using po_emits_writes [OF new_buffer_emitsD [OF assms(1)]] that by blast
qed (use assms(2) in \<open>auto simp: dec_takes_def\<close>)

lemma new_buffer_flush: "\<exists>key. aper_encode_flush_outp new_buffer po = Some key"
  by (simp add: aper_encode_flush_outp_def encode_dyn_cb_def Let_def)

lemma new_buffer_octets:
  assumes enc: "new_buffer_emits enc field valid" and dec: "dec_takes dec field valid"
    and v: "valid v" "field 0 v \<noteq> []" and tmp: "length tmp = 32"
  shows "aper_encode_to_new_buffer (\<lambda>_. True) (Some enc) v tmp
    = (int (length (octets_of_bits (padded (field 0 v)))), Some (octets_of_bits (padded (field 0 v))))"
    and "octets_of_bits (padded (field 0 v)) \<noteq> []"
proof -
  let ?key = "\<lparr>dyn_buffer = [], dyn_length = 0, dyn_allocated = 0\<rparr>" and ?f = "field 0 v"
  let ?po = "outp_new ?key tmp"
  obtain er po where e: "enc v ?po = (er, po)" by fastforce
  have "po_emits dyn_buffer (\<lambda>_. length ?f) ?po (field (po_nboff ?po mod 8) v) (er \<noteq> -1) po"
    by (rule new_buffer_emitsD [OF enc outp_new_ok [OF tmp] v(1) e])
  moreover have "po_nboff ?po = 0" and "po_cap (\<lambda>_. length ?f) ?po = 8 * int (length ?f)"
    by (simp_all add: po_cap_def outp_new_def)
  ultimately have "er \<noteq> -1" using po_emits_total [of dyn_buffer "\<lambda>_. length ?f" ?po ?f "er \<noteq> -1" po] by simp
  obtain r buf where run: "aper_encode_to_new_buffer (\<lambda>_. True) (Some enc) v tmp = (r, buf)" by fastforce
  obtain key where fl: "aper_encode_flush_outp new_buffer po = Some key" using new_buffer_flush by blast
  have "r \<noteq> -1"
  proof -
    have "0 \<le> fst (aper_encode (Some enc) new_buffer v ?key tmp)"
      using e fl \<open>er \<noteq> -1\<close> by (simp add: aper_encode_def Let_def)
    then show ?thesis using run
      by (auto simp: aper_encode_to_new_buffer_def drop_bit_eq_div split: prod.splits if_splits)
  qed
  with open_type.new_buffer_ok [OF coder_open_type [OF enc dec] _ tmp run] v obtain b where
    b: "buf = Some b" "bytes_bits b = padded ?f" "r = int (length b)" "b \<noteq> []" by auto
  from b(2) have "b = octets_of_bits (padded ?f)" by (metis octets_of_bytes_bits)
  with b run show "aper_encode_to_new_buffer (\<lambda>_. True) (Some enc) v tmp
    = (int (length (octets_of_bits (padded ?f))), Some (octets_of_bits (padded ?f)))"
    and "octets_of_bits (padded ?f) \<noteq> []" by simp_all
qed

lemma open_type_takes:
  assumes enc: "new_buffer_emits enc field valid" and dec: "dec_takes dec field valid"
    and v: "valid v" "open_valid (field 0 v)"
    and pd: "pd_ok pd" "pd_bits pd = open_field (pd_nboff pd) (field 0 v) @ rest"
  shows "\<exists>rv pd'. aper_open_type_get (\<lambda>_. True) dec sptr pd = (rv, v, pd') \<and> rv_code rv = RC_OK
    \<and> pd_reads pd (open_field (pd_nboff pd) (field 0 v)) pd'"
  using open_type.open_type_get_ok [OF coder_open_type [OF enc dec] _ bytes_bits_padded _ pd(1) pd(2) [unfolded open_field_def]]
    v by (simp add: open_valid_def open_field_def)

context roomy_sink
begin

lemma open_type_emits:
  assumes enc: "new_buffer_emits enc field valid" and dec: "dec_takes dec field valid"
    and v: "valid v" "open_valid (field 0 v)" and tmp: "length tmp = 32"
    and po: "po_ok po" "aper_open_type_put (\<lambda>_. True) (Some enc) tmp out v po = (r, po')"
  shows "po_emits contents room po (open_field (po_nboff po) (field 0 v)) (r = 0) po'"
proof -
  from v have f: "field 0 v \<noteq> []" by (simp add: open_valid_def)
  note n = new_buffer_octets [OF enc dec v(1) f tmp]
  then have "open_type_put_loop APER out (octets_of_bits (padded (field 0 v))) (length (octets_of_bits (padded (field 0 v)))) po = (r, po')"
    using po(2) by (simp add: aper_open_type_put_def)
  from open_type_loop_emits [OF po(1) n(2) this] show ?thesis by (simp add: open_field_def)
qed

end

end
