(* ===== verification/AsnString.thy ===== *)
theory AsnString
  imports PerEmit
begin

text \<open>
  The aligned PER coding of OCTET STRING and BIT STRING, \<^verbatim>\<open>e2ap/lib/OCTET_STRING.c\<close>. A string is
  its octets with the number of unused bits in the last one (\<^verbatim>\<open>BIT_STRING_t\<close>; 0 for an octet
  string). Allocation succeeds, sizes are below \<open>2^28\<close> octets, and a decoder that fails leaves
  the empty string. The assertion in the loop over fragments cannot fail: a fragment is a number of
  16K blocks or the rest.
\<close>

section \<open>Constraints\<close>

record asn_per_constraints =
  pcs_value :: asn_per_constraint
  pcs_size :: asn_per_constraint
  pcs_value2code :: "(int \<Rightarrow> int) option"
  pcs_code2value :: "(int \<Rightarrow> int) option"

abbreviation APC_UNCONSTRAINED :: asn_per_constraint where
  "APC_UNCONSTRAINED \<equiv> \<lparr>pc_extensible = False, pc_semi_constrained = False, pc_constrained = False,
     pc_range_bits = -1, pc_effective_bits = -1, pc_lower_bound = 0, pc_upper_bound = 0\<rparr>"

abbreviation APC_SEMI_CONSTRAINED :: "i64 \<Rightarrow> asn_per_constraint" where
  "APC_SEMI_CONSTRAINED lb \<equiv> \<lparr>pc_extensible = False, pc_semi_constrained = True, pc_constrained = False,
     pc_range_bits = -1, pc_effective_bits = -1, pc_lower_bound = lb, pc_upper_bound = 0\<rparr>"

abbreviation APC_CONSTRAINED :: "bool \<Rightarrow> int \<Rightarrow> int \<Rightarrow> i64 \<Rightarrow> i64 \<Rightarrow> asn_per_constraint" where
  "APC_CONSTRAINED ext range_bits effective_bits lb ub \<equiv> \<lparr>pc_extensible = ext, pc_semi_constrained = False,
     pc_constrained = True, pc_range_bits = range_bits, pc_effective_bits = effective_bits,
     pc_lower_bound = lb, pc_upper_bound = ub\<rparr>"

definition asn_DEF_OCTET_STRING_constraints :: asn_per_constraints where
  "asn_DEF_OCTET_STRING_constraints = \<lparr>pcs_value = APC_CONSTRAINED False 8 8 0 255,
     pcs_size = APC_SEMI_CONSTRAINED 0, pcs_value2code = None, pcs_code2value = None\<rparr>"

abbreviation per_constraints :: "asn_per_constraint \<Rightarrow> asn_per_constraint \<Rightarrow> asn_per_constraints" where
  "per_constraints v s \<equiv> \<lparr>pcs_value = v, pcs_size = s, pcs_value2code = None, pcs_code2value = None\<rparr>"

text \<open>A member's constraints go before those of its type.\<close>

definition constraints_or :: "asn_per_constraints option \<Rightarrow> asn_per_constraints option \<Rightarrow> asn_per_constraints option" where
  "constraints_or constraints td_constraints = (case constraints of None \<Rightarrow> td_constraints | Some c \<Rightarrow> Some c)"

section \<open>Characters\<close>

datatype asn_OS_Subvariant = ASN_OSUBV_ANY | ASN_OSUBV_BIT | ASN_OSUBV_STR | ASN_OSUBV_U16 | ASN_OSUBV_U32

text \<open>Octets per character, canonical bits and bits of a unit.\<close>

definition string_units :: "asn_OS_Subvariant \<Rightarrow> asn_per_constraint \<Rightarrow> nat \<times> int \<times> int" where
  "string_units subvariant cval =
     (case subvariant of
        ASN_OSUBV_BIT \<Rightarrow> (0, 1, 1)
      | ASN_OSUBV_ANY \<Rightarrow> (1, 8, 8)
      | ASN_OSUBV_STR \<Rightarrow> (1, 8, 8)
      | ASN_OSUBV_U16 \<Rightarrow> (2, 16, if pc_constrained cval then pc_range_bits cval else 16)
      | ASN_OSUBV_U32 \<Rightarrow> (4, 32, if pc_constrained cval then pc_range_bits cval else 32))"

definition char_octets :: "nat \<Rightarrow> int \<Rightarrow> byte list" where
  "char_octets bpc ch =
     (if bpc = 1 then [word_of_int ch]
      else if bpc = 2 then [word_of_int (drop_bit 8 ch), word_of_int ch]
      else if bpc = 4 then [word_of_int (drop_bit 24 ch), word_of_int (drop_bit 16 ch), word_of_int (drop_bit 8 ch), word_of_int ch]
      else [])"

text \<open>The loops over the characters; \<open>conv\<close> is the translation between a character and its code.\<close>

fun get_chars :: "(int \<Rightarrow> int option) \<Rightarrow> nat \<Rightarrow> int \<Rightarrow> nat \<Rightarrow> bit_data \<Rightarrow> int \<times> byte list \<times> bit_data" where
  "get_chars conv bpc unit_bits 0 pd = (0, [], pd)"
| "get_chars conv bpc unit_bits (Suc units) pd =
     (let (code, pd1) = asn_get_few_bits pd unit_bits
      in if code < 0 then (-1, [], pd1)
         else case conv code of
           None \<Rightarrow> (1, [], pd1)
         | Some ch \<Rightarrow> let (r, buf, pd2) = get_chars conv bpc unit_bits units pd1 in (r, char_octets bpc ch @ buf, pd2))"

definition OCTET_STRING_per_get_characters ::
  "bit_data \<Rightarrow> nat \<Rightarrow> nat \<Rightarrow> int \<Rightarrow> i64 \<Rightarrow> i64 \<Rightarrow> asn_per_constraints option \<Rightarrow> int \<times> byte list \<times> bit_data" where
  "OCTET_STRING_per_get_characters pd units bpc unit_bits lb ub pc =
     (let as_is = uint ub \<le> push_bit (nat (unit_bits - 1)) 2;
          lb' = (if as_is then 0 else sint lb)
      in case (if as_is then None else Option.bind pc pcs_code2value) of
           Some code2value \<Rightarrow>
             if 16 < unit_bits then (1, [], pd)
             else get_chars (\<lambda>code. if code2value code < 0 then None else Some (code2value code)) bpc unit_bits units pd
         | None \<Rightarrow>
             if lb' = 0 \<and> unit_bits = 8 * int bpc then asn_get_many_bits pd False (unit_bits * int units)
             else get_chars (\<lambda>code. if sint ub < code + lb' then None else Some (code + lb')) bpc unit_bits units pd)"

fun put_chars ::
  "(int \<Rightarrow> int option) \<Rightarrow> (byte list \<Rightarrow> 'k \<Rightarrow> 'k option) \<Rightarrow> nat \<Rightarrow> int \<Rightarrow> nat \<Rightarrow> byte list \<Rightarrow> 'k outp \<Rightarrow> int \<times> 'k outp" where
  "put_chars conv out bpc unit_bits 0 buf po = (0, po)"
| "put_chars conv out bpc unit_bits (Suc units) buf po =
     (if bpc \<notin> {1, 2, 4} then (-1, po)
      else case conv (be_int (take bpc buf)) of
        None \<Rightarrow> (-1, po)
      | Some code \<Rightarrow>
          let (r, po1) = asn_put_few_bits out po (word_of_int code) unit_bits
          in if r \<noteq> 0 then (-1, po1) else put_chars conv out bpc unit_bits units (drop bpc buf) po1)"

text \<open>
  With a value map the C function does not return behind its loop: it goes on with the pointer at the
  end of the string.
\<close>

definition OCTET_STRING_per_put_characters ::
  "(byte list \<Rightarrow> 'k \<Rightarrow> 'k option) \<Rightarrow> 'k outp \<Rightarrow> byte list \<Rightarrow> nat \<Rightarrow> nat \<Rightarrow> int \<Rightarrow> i64 \<Rightarrow> i64 \<Rightarrow> asn_per_constraints option
    \<Rightarrow> int \<times> 'k outp" where
  "OCTET_STRING_per_put_characters out po buf units bpc unit_bits lb ub pc =
     (let as_is = uint ub \<le> push_bit (nat (unit_bits - 1)) 2;
          lb' = (if as_is then 0 else sint lb);
          rest = (\<lambda>buf units po.
            if lb' = 0 \<and> unit_bits = 8 * int bpc then asn_put_many_bits out po buf (unit_bits * int units)
            else put_chars (\<lambda>value. if value - lb' < 0 \<or> sint ub - lb' < value - lb' then None else Some (value - lb'))
              out bpc unit_bits units buf po)
      in case (if as_is then None else Option.bind pc pcs_value2code) of
           Some value2code \<Rightarrow>
             let (r, po1) = put_chars (\<lambda>value. if value2code value < 0 then None else Some (value2code value))
                   out bpc unit_bits units buf po
             in if r \<noteq> 0 then (-1, po1)
                else if lb' = 0 \<and> unit_bits = 8 * int bpc
                then asn_put_many_bits out po1 (drop (units * bpc) buf) (unit_bits * int units)
                else (0, po1)
         | None \<Rightarrow> rest buf units po)"

section \<open>Strings\<close>

type_synonym asn_string = "byte list \<times> nat"

definition string_size :: "asn_OS_Subvariant \<Rightarrow> asn_string \<Rightarrow> nat" where
  "string_size subvariant st =
     (case subvariant of
        ASN_OSUBV_BIT \<Rightarrow> length (fst st) * 8 - (snd st AND 7)
      | ASN_OSUBV_U16 \<Rightarrow> length (fst st) div 2
      | ASN_OSUBV_U32 \<Rightarrow> length (fst st) div 4
      | _ \<Rightarrow> length (fst st))"

text \<open>
  The decoder. The length is read once: \<^verbatim>\<open>repeat\<close> is reset behind the call, so only the first fragment
  of a long string is taken. The result has what \<^verbatim>\<open>RETURN\<close> reports as consumed.
\<close>

definition OCTET_STRING_decode_aper ::
  "asn_OS_Subvariant \<Rightarrow> asn_per_constraints option \<Rightarrow> asn_per_constraints option \<Rightarrow> bit_data
    \<Rightarrow> asn_dec_rval \<times> asn_string \<times> bit_data" where
  "OCTET_STRING_decode_aper subvariant td_constraints constraints pd0 =
     (let pc = constraints_or constraints td_constraints;
          def = asn_DEF_OCTET_STRING_constraints;
          (cval0, csiz0) = (case pc of Some p \<Rightarrow> (pcs_value p, pcs_size p) | None \<Rightarrow> (pcs_value def, pcs_size def));
          (bpc, canonical_unit_bits, unit_bits0) = string_units subvariant cval0;
          fail = (\<lambda>code pd. (\<lparr>rv_code = code, rv_consumed = 0\<rparr>, ([], 0), pd));
          (inext, pd) = (if pc_extensible csiz0 then asn_get_few_bits pd0 1 else (0, pd0))
      in if inext < 0 then fail RC_WMORE pd
         else
           let (cval, csiz, unit_bits) =
                 (if inext \<noteq> 0 then (pcs_value def, pcs_size def, canonical_unit_bits) else (cval0, csiz0, unit_bits0));
               lb = sint (pc_lower_bound csiz); ub = sint (pc_upper_bound csiz);
               get = (\<lambda>units pd. OCTET_STRING_per_get_characters pd units bpc unit_bits
                        (pc_lower_bound cval) (pc_upper_bound cval) pc)
           in if pc_effective_bits csiz = 0 then
                let size = (if bpc \<noteq> 0 then ub * int bpc else drop_bit 3 (ub + 7));
                    (a, pd1) = (if 2 < size then aper_get_align pd else (0, pd))
                in if a < 0 then fail RC_FAIL pd1
                   else
                     let (ret, buf, pd2) = (if bpc \<noteq> 0 then get (nat ub) pd1 else asn_get_many_bits pd1 False (unit_bits * ub))
                     in if 0 < ret then fail RC_FAIL pd2
                        else if ret < 0 then fail RC_WMORE pd2
                        else (\<lparr>rv_code = RC_OK, rv_consumed = nat (unit_bits * ub)\<rparr>,
                              (buf, if bpc = 0 \<and> (ub AND 7) \<noteq> 0 then nat (8 - (ub AND 7)) else 0), pd2)
              else
                let (len, _, pd1) = aper_get_length pd (if ub - lb = 0 then -1 else ub - lb + 1) (pc_effective_bits csiz)
                in if len < 0 then fail RC_WMORE pd1
                   else
                     let raw_len = len + lb;
                         (a, pd2) = (if 2 < raw_len then aper_get_align pd1 else (0, pd1))
                     in if a < 0 then fail RC_FAIL pd2
                        else
                          let (ret, buf, pd3) = (if bpc \<noteq> 0 then get (nat raw_len) pd2 else asn_get_many_bits pd2 False raw_len)
                          in if 0 < ret then fail RC_FAIL pd3
                             else if ret < 0 then fail RC_WMORE pd3
                             else (\<lparr>rv_code = RC_OK, rv_consumed = 0\<rparr>,
                                   (buf, if bpc = 0 \<and> (raw_len AND 7) \<noteq> 0 then nat (8 - (raw_len AND 7)) else 0), pd3))"

text \<open>The loop over the fragments; \<open>put\<close> writes a number of units.\<close>

function put_fragments ::
  "(byte list \<Rightarrow> nat \<Rightarrow> 'k outp \<Rightarrow> int \<times> 'k outp) \<Rightarrow> (byte list \<Rightarrow> 'k \<Rightarrow> 'k option) \<Rightarrow> nat \<Rightarrow> byte list \<Rightarrow> nat \<Rightarrow> 'k outp
    \<Rightarrow> int \<times> 'k outp" where
  "put_fragments put out bpc buf sizeinunits po =
     (if sizeinunits = 0 then (0, po)
      else
        let (maySave, po1) = aper_put_length out po (-1) sizeinunits
        in if maySave < 0 then (-1, po1)
           else
             let (ret, po2) = put buf (nat maySave) po1
             in if ret \<noteq> 0 then (-1, po2)
                else put_fragments put out bpc
                       (drop (if bpc \<noteq> 0 then nat maySave * bpc else drop_bit 3 (nat maySave)) buf)
                       (sizeinunits - nat maySave) po2)"
  by pat_completeness auto
termination
proof (relation "measure (\<lambda>(put, out, bpc, buf, n, po). n)", goal_cases)
  case (2 put out bpc buf n po p may_save po1)
  then have put: "(may_save, po1) = aper_put_length out po (-1) n" and n: "n \<noteq> 0" and m: "\<not> may_save < 0"
    by simp_all
  from put have "open_type_put_length APER out po n = (may_save, False, po1)"
    by (auto simp: open_type_put_length_def split: prod.splits)
  from open_type_put_length_bounds [OF this m] have "may_save = int (len_chunk n)" .
  then show ?case using n len_chunk_pos [of n] by simp
qed simp

declare put_fragments.simps [simp del]

definition OCTET_STRING_encode_aper ::
  "asn_OS_Subvariant \<Rightarrow> asn_per_constraints option \<Rightarrow> asn_per_constraints option \<Rightarrow> (byte list \<Rightarrow> 'k \<Rightarrow> 'k option)
    \<Rightarrow> asn_string \<Rightarrow> 'k outp \<Rightarrow> int \<times> 'k outp" where
  "OCTET_STRING_encode_aper subvariant td_constraints constraints out st po =
     (let pc = constraints_or constraints td_constraints;
          def = asn_DEF_OCTET_STRING_constraints;
          (cval0, csiz0) = (case pc of Some p \<Rightarrow> (pcs_value p, pcs_size p) | None \<Rightarrow> (pcs_value def, pcs_size def));
          ct_extensible = pc_extensible csiz0;
          (bpc, canonical_unit_bits, unit_bits0) = string_units subvariant cval0;
          size = length (fst st); sizeinunits = string_size subvariant st;
          outside = (0 \<le> pc_effective_bits csiz0 \<and>
            (int sizeinunits < sint (pc_lower_bound csiz0) \<or> sint (pc_upper_bound csiz0) < int sizeinunits))
      in if outside \<and> \<not> ct_extensible then (-1, po)
         else
           let (cval, csiz, unit_bits) =
                 (if outside then (pcs_value def, pcs_size def, canonical_unit_bits) else (cval0, csiz0, unit_bits0));
               (r, po1) = (if ct_extensible then asn_put_few_bits out po (if outside then 1 else 0) 1 else (0, po));
               lb = sint (pc_lower_bound csiz); ub = sint (pc_upper_bound csiz);
               put = (\<lambda>buf units po.
                 if bpc \<noteq> 0 then OCTET_STRING_per_put_characters out po buf units bpc unit_bits
                        (pc_lower_bound cval) (pc_upper_bound cval) pc
                 else asn_put_many_bits out po buf (int units * unit_bits))
           in if r \<noteq> 0 then (-1, po1)
              else if 0 \<le> pc_effective_bits csiz then
                let (ret, po2) = (if 0 < pc_effective_bits csiz
                      then aper_put_length out po1 (ub - lb + 1) (nat (int sizeinunits - lb)) else (0, po1))
                in if ret \<noteq> 0 then (-1, po2)
                   else
                     let (a, po3) = (if 2 < size \<or> lb \<noteq> ub then aper_put_align out po2 else (0, po2))
                     in if a < 0 then (-1, po3)
                        else let (ret, po4) = put (fst st) sizeinunits po3 in (if ret \<noteq> 0 then -1 else 0, po4)
              else if sizeinunits = 0 then
                let (ret, po2) = aper_put_length out po1 (-1) 0 in (if ret \<noteq> 0 then -1 else 0, po2)
              else put_fragments put out bpc (fst st) sizeinunits po1)"

section \<open>The bits of a string\<close>

definition string_constraints :: "asn_per_constraints option \<Rightarrow> asn_per_constraint \<times> asn_per_constraint" where
  "string_constraints pc =
     (case pc of Some p \<Rightarrow> (pcs_value p, pcs_size p)
      | None \<Rightarrow> (pcs_value asn_DEF_OCTET_STRING_constraints, pcs_size asn_DEF_OCTET_STRING_constraints))"

definition string_bits :: "asn_OS_Subvariant \<Rightarrow> asn_string \<Rightarrow> bool list" where
  "string_bits subvariant st =
     (if subvariant = ASN_OSUBV_BIT then take (string_size subvariant st) (bytes_bits (fst st)) else bytes_bits (fst st))"

text \<open>
  The strings that survive: octets, or bits with the unused ones cleared; the size is fixed, or in a
  range and above 2 (the decoder does not skip the padding before shorter ones), or below 16K
  units where no range is given.
\<close>

definition string_valid :: "asn_OS_Subvariant \<Rightarrow> asn_per_constraints option \<Rightarrow> asn_string \<Rightarrow> bool" where
  "string_valid subvariant pc st \<longleftrightarrow>
     (let (cval, csiz) = string_constraints pc; n = int (string_size subvariant st);
          lb = sint (pc_lower_bound csiz); ub = sint (pc_upper_bound csiz)
      in (case subvariant of
            ASN_OSUBV_STR \<Rightarrow> snd st = 0 \<and> uint (pc_upper_bound cval) \<le> 256
          | ASN_OSUBV_BIT \<Rightarrow> snd st < 8 \<and> (fst st = [] \<longrightarrow> snd st = 0) \<and>
              bytes_bits (fst st) = string_bits subvariant st @ replicate (snd st) False
          | _ \<Rightarrow> False) \<and>
         (if pc_effective_bits csiz = 0 then lb = ub \<and> n = ub
          else if 0 < pc_effective_bits csiz then lb \<le> n \<and> n \<le> ub \<and> lb < ub \<and> ub - lb + 1 \<le> 65536 \<and> 2 < n
          else lb = 0 \<and> ub = 0 \<and> n < 16384))"

definition string_field :: "asn_OS_Subvariant \<Rightarrow> asn_per_constraints option \<Rightarrow> nat \<Rightarrow> asn_string \<Rightarrow> bool list" where
  "string_field subvariant pc k st =
     (let csiz = snd (string_constraints pc); n = string_size subvariant st;
          lb = sint (pc_lower_bound csiz); ub = sint (pc_upper_bound csiz);
          pre = (if pc_extensible csiz then [False] else []); k = k + length pre;
          len = nsnnwn_field (ub - lb + 1) k (int n - lb)
      in pre @
         (if pc_effective_bits csiz = 0 then if 2 < length (fst st) then align_pad k else []
          else if 0 < pc_effective_bits csiz then len @ align_pad (k + length len)
          else align_pad k @ len_bits n) @ string_bits subvariant st)"

lemma and_7: "x AND 7 = x mod 8" for x :: int
  using take_bit_eq_mask [of 3 x] by (simp add: mask_eq_exp_minus_1 take_bit_eq_mod)

lemma and_7_nat: "x AND 7 = x mod 8" for x :: nat
  using take_bit_eq_mask [of 3 x] by (simp add: mask_eq_exp_minus_1 take_bit_eq_mod)

lemma octet_rest:
  fixes n u l :: nat
  assumes "n + u = 8 * l" and "u < 8"
  shows "u = (if n mod 8 = 0 then 0 else 8 - n mod 8)" and "l = (n + 7) div 8"
proof -
  obtain q r where n: "n = 8 * q + r" and r: "r < 8"
    by (metis mod_less_divisor mult_div_mod_eq zero_less_numeral)
  with assms have "q \<le> l" "l < q + 2" by linarith+
  then consider "l = q" | "l = Suc q" by linarith
  then have "u = 0 \<and> r = 0 \<and> l = q \<or> u = 8 - r \<and> 0 < r \<and> l = Suc q"
    using assms n r by cases auto
  with n r show "u = (if n mod 8 = 0 then 0 else 8 - n mod 8)" and "l = (n + 7) div 8"
    by auto
qed

lemma bit_string_size:
  assumes "string_valid ASN_OSUBV_BIT pc st"
  shows "string_size ASN_OSUBV_BIT st + snd st = 8 * length (fst st)"
    and "snd st = (if string_size ASN_OSUBV_BIT st mod 8 = 0 then 0 else 8 - string_size ASN_OSUBV_BIT st mod 8)"
    and "length (fst st) = (string_size ASN_OSUBV_BIT st + 7) div 8"
proof -
  have v: "snd st < 8" "fst st = [] \<longrightarrow> snd st = 0"
    using assms by (simp_all add: string_valid_def Let_def split: prod.splits)
  then have "snd st \<le> 8 * length (fst st)" by (cases "fst st") auto
  moreover have "snd st AND 7 = snd st" using v(1) by (simp add: and_7_nat)
  ultimately show 1: "string_size ASN_OSUBV_BIT st + snd st = 8 * length (fst st)"
    by (simp add: string_size_def)
  show "snd st = (if string_size ASN_OSUBV_BIT st mod 8 = 0 then 0 else 8 - string_size ASN_OSUBV_BIT st mod 8)"
    and "length (fst st) = (string_size ASN_OSUBV_BIT st + 7) div 8"
    using octet_rest [OF 1 v(1)] .
qed

lemma length_string_bits:
  assumes "string_valid subvariant pc st"
  shows "subvariant = ASN_OSUBV_BIT \<Longrightarrow> length (string_bits subvariant st) = string_size subvariant st"
    and "subvariant = ASN_OSUBV_STR \<Longrightarrow> string_size subvariant st = length (fst st)"
    and "subvariant = ASN_OSUBV_BIT \<or> subvariant = ASN_OSUBV_STR"
proof -
  show "subvariant = ASN_OSUBV_BIT \<or> subvariant = ASN_OSUBV_STR"
    using assms by (cases subvariant) (simp_all add: string_valid_def Let_def split: prod.splits)
  show "subvariant = ASN_OSUBV_STR \<Longrightarrow> string_size subvariant st = length (fst st)"
    by (simp add: string_size_def)
  show "subvariant = ASN_OSUBV_BIT \<Longrightarrow> length (string_bits subvariant st) = string_size subvariant st"
    using bit_string_size(1) [of pc st] assms by (simp add: string_bits_def)
qed

lemma per_characters_octets:
  assumes "uint ub \<le> 256"
  shows "OCTET_STRING_per_put_characters out po buf units (Suc 0) 8 lb ub pc = asn_put_many_bits out po buf (8 * int units)"
    and "OCTET_STRING_per_get_characters pd units (Suc 0) 8 lb ub pc = asn_get_many_bits pd False (8 * int units)"
  using assms by (simp_all add: OCTET_STRING_per_put_characters_def OCTET_STRING_per_get_characters_def Let_def)

section \<open>Writing a string\<close>

context roomy_sink
begin

lemma fragment_emits:
  assumes ok: "po_ok po" and n: "0 < n" "n < 16384" and run: "put_fragments put out bpc buf n po = (r, po')"
    and put: "\<And>po r po'. po_ok po \<Longrightarrow> put buf n po = (r, po') \<Longrightarrow> po_emits contents room po bs (r = 0) po'"
  shows "po_emits contents room po ((align_pad (po_nboff po) @ len_bits n) @ bs) (r \<noteq> -1) po'"
proof -
  obtain m po1 where 1: "aper_put_length out po (-1) n = (m, po1)" by fastforce
  note e1 = length_emits [OF ok _ 1, simplified]
  obtain q po2 where 2: "put buf n po1 = (q, po2)" by fastforce
  have m: "nat m = n" if "\<not> m < 0" using e1(2) that n by (simp add: len_chunk_def)
  have r: "(r, po') = (if m < 0 then (-1, po1) else if q \<noteq> 0 then (-1, po2) else (0, po2))"
    using run 1 2 m n(1)
    by (simp add: put_fragments.simps [of put out bpc buf n] put_fragments.simps [of put out bpc _ 0] split: if_splits)
  show ?thesis
    by (rule po_emits_bind [OF e1(1)]) (use put [OF po_emits_ok [OF e1(1)] 2] r in \<open>auto split: if_splits\<close>)
qed

lemma string_put_emits:
  assumes "string_valid subvariant pc st" and "string_constraints pc = (cval, csiz)"
    and units: "string_units subvariant cval = (bpc, cub, unit_bits)" and "po_ok po"
    and "(if bpc \<noteq> 0 then OCTET_STRING_per_put_characters out po (fst st) (string_size subvariant st) bpc unit_bits
        (pc_lower_bound cval) (pc_upper_bound cval) pc
      else asn_put_many_bits out po (fst st) (int (string_size subvariant st) * unit_bits)) = (r, po')"
  shows "po_emits contents room po (string_bits subvariant st) (r = 0) po'"
  using length_string_bits(3) [OF assms(1)]
proof
  assume b: "subvariant = ASN_OSUBV_BIT"
  with assms have "asn_put_many_bits out po (fst st) (int (string_size ASN_OSUBV_BIT st)) = (r, po')"
    by (simp add: string_units_def)
  from many_emits [OF assms(4) _ _ this] bit_string_size(1) [of pc st] assms(1) b show ?thesis
    by (simp add: string_bits_def)
next
  assume b: "subvariant = ASN_OSUBV_STR"
  with assms(1,2) have "uint (pc_upper_bound cval) \<le> 256" by (simp add: string_valid_def Let_def)
  moreover have "bpc = Suc 0" "unit_bits = 8" using units b by (simp_all add: string_units_def)
  ultimately have "asn_put_many_bits out po (fst st) (8 * int (length (fst st))) = (r, po')"
    using assms(5) b by (simp add: per_characters_octets string_size_def)
  from many_emits [OF assms(4) _ _ this] b show ?thesis
    by (simp add: string_bits_def nat_mult_distrib)
qed

lemma string_emits:
  assumes ok: "po_ok po" and v: "string_valid subvariant (constraints_or ct td) st"
    and enc: "OCTET_STRING_encode_aper subvariant td ct out st po = (r, po')"
  shows "po_emits contents room po (string_field subvariant (constraints_or ct td) (po_nboff po mod 8) st) (r \<noteq> -1) po'"
proof -
  let ?pc = "constraints_or ct td" and ?n = "string_size subvariant st" and ?bits = "string_bits subvariant st"
  obtain cval csiz where c: "string_constraints ?pc = (cval, csiz)" by fastforce
  then have c': "(case ?pc of Some p \<Rightarrow> (pcs_value p, pcs_size p) | None \<Rightarrow> (pcs_value asn_DEF_OCTET_STRING_constraints,
      pcs_size asn_DEF_OCTET_STRING_constraints)) = (cval, csiz)" by (simp add: string_constraints_def)
  obtain bpc cub ub8 where u: "string_units subvariant cval = (bpc, cub, ub8)" by (metis prod_cases3)
  let ?lb = "sint (pc_lower_bound csiz)" and ?ub = "sint (pc_upper_bound csiz)" and ?eff = "pc_effective_bits csiz"
  have range: "?eff = 0 \<Longrightarrow> ?lb = ?ub \<and> int ?n = ?ub" "?eff < 0 \<Longrightarrow> ?lb = 0 \<and> ?ub = 0 \<and> ?n < 16384"
    "0 < ?eff \<Longrightarrow> ?lb \<le> int ?n \<and> int ?n \<le> ?ub \<and> ?lb < ?ub \<and> ?ub - ?lb + 1 \<le> 65536"
    using v c by (auto simp: string_valid_def Let_def split: if_splits)
  let ?put = "\<lambda>buf units po. if bpc \<noteq> 0 then OCTET_STRING_per_put_characters out po buf units bpc ub8
      (pc_lower_bound cval) (pc_upper_bound cval) ?pc else asn_put_many_bits out po buf (int units * ub8)"
  have put: "po_emits contents room po ?bits (r = 0) po'" if "po_ok po" "?put (fst st) ?n po = (r, po')" for po r po'
    by (rule string_put_emits [OF v c u that])
  obtain r1 po1 where 1: "(if pc_extensible csiz then asn_put_few_bits out po 0 1 else (0, po)) = (r1, po1)" by fastforce
  let ?pre = "if pc_extensible csiz then [False] else []"
  have e1: "po_emits contents room po ?pre (r1 = 0) po1"
    using 1 bit_emits [OF ok, of False r1 po1] ok by (auto simp: po_emits_refl split: if_splits)
  let ?k = "po_nboff po mod 8 + length ?pre"
  have k: "po_nboff po1 mod 8 = ?k mod 8" if "r1 = 0"
    using po_emits_nboff [OF ok e1 that] by (simp add: mod_add_left_eq)
  have outside: "(0 \<le> ?eff \<and> (int ?n < ?lb \<or> ?ub < int ?n)) = False"
    using range by (cases ?eff "0 :: int" rule: linorder_cases) auto
  have run0: "(r, po') = (if r1 \<noteq> 0 then (-1, po1)
      else if 0 \<le> ?eff then
        (let (ret, po2) = (if 0 < ?eff then aper_put_length out po1 (?ub - ?lb + 1) (nat (int ?n - ?lb)) else (0, po1))
         in if ret \<noteq> 0 then (-1, po2)
            else let (a, po3) = (if 2 < length (fst st) \<or> ?lb \<noteq> ?ub then aper_put_align out po2 else (0, po2))
                 in if a < 0 then (-1, po3)
                    else let (ret, po4) = ?put (fst st) ?n po3 in (if ret \<noteq> 0 then -1 else 0, po4))
      else if ?n = 0 then (let (ret, po2) = aper_put_length out po1 (-1) 0 in (if ret \<noteq> 0 then -1 else 0, po2))
      else put_fragments ?put out bpc (fst st) ?n po1)"
    using enc unfolding OCTET_STRING_encode_aper_def Let_def c' u prod.case outside simp_thms if_False 1 by (rule sym)
  consider "?eff = 0" | "0 < ?eff" | "?eff < 0" by linarith
  then show ?thesis
  proof cases
    case 1
    obtain a po2 where al: "(if 2 < length (fst st) then aper_put_align out po1 else (0, po1)) = (a, po2)" by fastforce
    obtain q po3 where p: "?put (fst st) ?n po2 = (q, po3)" by fastforce
    have run: "(r, po') = (if r1 \<noteq> 0 then (-1, po1) else if a < 0 then (-1, po2) else (if q \<noteq> 0 then -1 else 0, po3))"
      using run0 al p 1 range(1) by (cases "r1 = 0") (simp_all add: Let_def)
    have e2: "po_emits contents room po1 (if 2 < length (fst st) then align_pad ?k else []) (\<not> a < 0) po2" if "r1 = 0"
      using al align_emits [OF po_emits_ok [OF e1 that], of a po2] po_emits_ok [OF e1 that] align_pad_cong [OF k [OF that]]
      by (auto simp: po_emits_refl split: if_splits)
    have e12: "po_emits contents room po (?pre @ (if 2 < length (fst st) then align_pad ?k else [])) (r1 = 0 \<and> \<not> a < 0) po2"
      by (rule po_emits_bind [OF e1]) (use e2 in auto)
    have "po_emits contents room po ((?pre @ (if 2 < length (fst st) then align_pad ?k else [])) @ ?bits) (r \<noteq> -1) po'"
      by (rule po_emits_bind [OF e12]) (use run put [OF po_emits_ok [OF e12] p] in \<open>auto split: if_splits\<close>)
    then show ?thesis using 1 c by (simp add: string_field_def Let_def)
  next
    case 2
    let ?rng = "?ub - ?lb + 1" and ?m = "int ?n - ?lb"
    let ?len = "nsnnwn_field ?rng ?k ?m"
    obtain l po2 where l: "aper_put_nsnnwn out po1 ?rng ?m = (l, po2)" by fastforce
    obtain a po3 where al: "aper_put_align out po2 = (a, po3)" by fastforce
    obtain q po4 where p: "?put (fst st) ?n po3 = (q, po4)" by fastforce
    have rng: "0 \<le> ?rng" "?rng \<le> 65536" "0 \<le> ?m" "?lb \<noteq> ?ub" using range(3) 2 by auto
    then have l': "aper_put_length out po1 ?rng (nat ?m) = (l, po2)" using l by (simp add: aper_put_length_def)
    have run: "(r, po') = (if r1 \<noteq> 0 then (-1, po1) else if l \<noteq> 0 then (-1, po2)
        else if a < 0 then (-1, po3) else (if q \<noteq> 0 then -1 else 0, po4))"
      using run0 l' al p 2 rng(4) by (cases "r1 = 0"; cases "l = 0") (simp_all add: Let_def)
    have e2: "po_emits contents room po1 ?len (l = 0) po2" if "r1 = 0"
      using nsnnwn_emits [OF po_emits_ok [OF e1 that] rng(2) l] nsnnwn_field_cong [OF k [OF that]] by simp
    have e12: "po_emits contents room po (?pre @ ?len) (r1 = 0 \<and> l = 0) po2"
      by (rule po_emits_bind [OF e1]) (use e2 in auto)
    have "align_pad (po_nboff po2) = align_pad (?k + length ?len)" if "r1 = 0 \<and> l = 0"
      using po_emits_nboff [OF ok e12 that] by (intro align_pad_cong) (simp add: mod_add_left_eq add.assoc)
    then have e3: "po_emits contents room po2 (align_pad (?k + length ?len)) (\<not> a < 0) po3" if "r1 = 0 \<and> l = 0"
      using align_emits [OF po_emits_ok [OF e12 that] al] that by simp
    have e123: "po_emits contents room po ((?pre @ ?len) @ align_pad (?k + length ?len)) ((r1 = 0 \<and> l = 0) \<and> \<not> a < 0) po3"
      by (rule po_emits_bind [OF e12]) (use e3 in auto)
    have "po_emits contents room po (((?pre @ ?len) @ align_pad (?k + length ?len)) @ ?bits) (r \<noteq> -1) po'"
      by (rule po_emits_bind [OF e123]) (use run put [OF po_emits_ok [OF e123] p] in \<open>auto split: if_splits\<close>)
    then show ?thesis using 2 c by (simp add: string_field_def Let_def)
  next
    case 3
    have len: "po_emits contents room po1 ((align_pad ?k @ len_bits ?n) @ ?bits) (r \<noteq> -1) po'" if r1: "r1 = 0"
    proof (cases "?n = 0")
      case True
      obtain l po2 where l: "aper_put_length out po1 (-1) 0 = (l, po2)" by fastforce
      have run: "(r, po') = (if l \<noteq> 0 then -1 else 0, po2)"
        using run0 l 3 True r1 by (simp add: Let_def)
      note e2 = length_emits [OF po_emits_ok [OF e1 r1] _ l, simplified]
      have "?bits = []"
        using length_string_bits [OF v] True by (auto simp: string_bits_def)
      moreover have "\<not> l < 0 \<longleftrightarrow> l = 0" using e2(2) by (auto simp: len_chunk_def)
      ultimately show ?thesis using e2(1) run True align_pad_cong [OF k [OF r1]] by (auto split: if_splits)
    next
      case False
      have "put_fragments ?put out bpc (fst st) ?n po1 = (r, po')"
        using run0 3 False r1 by (simp add: Let_def)
      from fragment_emits [OF po_emits_ok [OF e1 r1] _ _ this put] range(2) 3 False align_pad_cong [OF k [OF r1]]
      show ?thesis by simp
    qed
    have "r = -1" if "r1 \<noteq> 0"
      using run0 that by simp
    then have "po_emits contents room po (?pre @ ((align_pad ?k @ len_bits ?n) @ ?bits)) (r \<noteq> -1) po'"
      by (intro po_emits_bind [OF e1]) (use len in auto)
    then show ?thesis using 3 c by (simp add: string_field_def Let_def)
  qed
qed

end

section \<open>Reading it back\<close>

lemma many_bits_takes:
  assumes ok: "pd_ok pd" and bits: "pd_bits pd = bs @ rest"
  shows "\<exists>dst pd'. asn_get_many_bits pd False (int (length bs)) = (0, dst, pd')
    \<and> bytes_bits dst = bs @ replicate (octet_pad (int (length bs))) False \<and> pd_reads pd bs pd'"
proof -
  have l: "int (length bs) \<le> int (length (pd_bits pd))" using bits by simp
  from get_many_bits_ok [OF ok _ l] bits obtain dst pd' where
    g: "asn_get_many_bits pd False (int (length bs)) = (0, dst, pd')" "pd_ok pd'" "pd_bits pd' = rest"
    and d: "bytes_bits dst = bs @ replicate (octet_pad (int (length bs))) False" by auto
  from g(1) have "asn_get_many_bits_loop pd (int (length bs)) = (0, dst, pd')" by (simp add: asn_get_many_bits_def)
  from get_many_bits_loop_left [OF ok _ l this] g bits have "pd_reads pd bs pd'" by (simp add: pd_reads_def)
  with g d show ?thesis by blast
qed

lemma octet_rest_int: "(int n mod 8 = 0) = (n mod 8 = 0)" "nat (8 - int n mod 8) = 8 - n mod 8"
proof -
  have m: "int n mod 8 = int (n mod 8)" by (simp add: zmod_int)
  show "(int n mod 8 = 0) = (n mod 8 = 0)" unfolding m by linarith
  have "n mod 8 \<le> 8" by simp
  then have "8 - int (n mod 8) = int (8 - n mod 8)" by linarith
  then show "nat (8 - int n mod 8) = 8 - n mod 8" unfolding m by (metis nat_int)
qed

lemma string_get_takes:
  assumes v: "string_valid subvariant pc st" and c: "string_constraints pc = (cval, csiz)"
    and units: "string_units subvariant cval = (bpc, cub, unit_bits)" and ok: "pd_ok pd"
    and bits: "pd_bits pd = string_bits subvariant st @ rest"
  shows "\<exists>pd'. (if bpc \<noteq> 0 then OCTET_STRING_per_get_characters pd (string_size subvariant st) bpc unit_bits
        (pc_lower_bound cval) (pc_upper_bound cval) pc
      else asn_get_many_bits pd False (int (string_size subvariant st))) = (0, fst st, pd')
    \<and> pd_reads pd (string_bits subvariant st) pd'"
  using length_string_bits(3) [OF v]
proof
  assume b: "subvariant = ASN_OSUBV_BIT"
  let ?n = "string_size ASN_OSUBV_BIT st"
  from many_bits_takes [OF ok bits] length_string_bits(1) [OF v b] b obtain dst pd' where
    g: "asn_get_many_bits pd False (int ?n) = (0, dst, pd')" "pd_reads pd (string_bits subvariant st) pd'"
    and d: "bytes_bits dst = string_bits subvariant st @ replicate (octet_pad (int ?n)) False" by auto
  have "octet_pad (int ?n) = snd st"
    using bit_string_size(2) [of pc st] v b by (simp add: octet_pad_def zmod_zminus1_eq_if octet_rest_int)
  moreover have "bytes_bits (fst st) = string_bits subvariant st @ replicate (snd st) False"
    using v b by (simp add: string_valid_def Let_def split: prod.splits)
  ultimately have "dst = fst st" using d by (metis bytes_bits_inject)
  with g units b show ?thesis by (auto simp: string_units_def)
next
  assume b: "subvariant = ASN_OSUBV_STR"
  then have "uint (pc_upper_bound cval) \<le> 256" using v c by (simp add: string_valid_def Let_def)
  moreover have "bpc = Suc 0" "unit_bits = 8" using units b by (simp_all add: string_units_def)
  moreover have "pd_bits pd = bytes_bits (fst st) @ rest" using bits b by (simp add: string_bits_def)
  ultimately show ?thesis
    using get_many_bits_reads [OF ok, of "fst st" rest] b
    by (simp add: per_characters_octets string_size_def string_bits_def)
qed

lemma string_unused:
  assumes v: "string_valid subvariant pc st" and units: "string_units subvariant cval = (bpc, cub, unit_bits)"
  shows "(if bpc = 0 \<and> (int (string_size subvariant st) AND 7) \<noteq> 0
      then nat (8 - (int (string_size subvariant st) AND 7)) else 0) = snd st"
  using length_string_bits(3) [OF v]
proof
  assume b: "subvariant = ASN_OSUBV_BIT"
  then show ?thesis using bit_string_size(2) [of pc st] v units
    by (simp add: string_units_def and_7 octet_rest_int)
next
  assume b: "subvariant = ASN_OSUBV_STR"
  with v units show ?thesis by (simp add: string_units_def string_valid_def Let_def split: prod.splits)
qed

lemma aper_get_length_neg:
  assumes "pd_ok pd" and "eff < 0" and "pd_bits pd = align_pad (pd_nboff pd) @ len_bits len @ rest"
  shows "\<exists>pd'. aper_get_length pd (-1) eff = (int (len_chunk len), 16384 \<le> len, pd')
    \<and> pd_reads pd (align_pad (pd_nboff pd) @ len_bits len) pd'"
proof -
  have "aper_get_length pd (-1) eff = aper_get_length pd (-1) (-1)"
    using assms(2) by (auto simp: aper_get_length_def split: prod.splits)
  with aper_get_length_ok [OF assms(1) _ assms(3)] show ?thesis by simp
qed

lemma align_takes:
  assumes "pd_ok pd" and "pd_bits pd = align_pad k @ rest" and "k mod 8 = pd_nboff pd mod 8"
  shows "\<exists>pd'. aper_get_align pd = (0, pd') \<and> pd_reads pd (align_pad k) pd'"
  using aper_get_align_ok [OF assms(1)] assms(2) align_pad_cong [OF assms(3)] by simp

text \<open>Reading on behind what has been read: the position within the octet follows.\<close>

lemma pd_reads_step:
  assumes "pd_ok pd" and "pd_reads pd bs pd1" and "pd_bits pd = bs @ rest"
  shows "pd_ok pd1" and "pd_bits pd1 = rest" and "(pd_nboff pd mod 8 + length bs) mod 8 = pd_nboff pd1 mod 8"
  using assms pd_reads_nboff [OF assms(1,2)] by (auto simp: pd_reads_def mod_add_left_eq)

lemma pair_of_snd [simp]: "(fst st, x) = st \<longleftrightarrow> x = snd st"
  by (cases st) auto

lemma string_takes:
  assumes ok: "pd_ok pd" and v: "string_valid subvariant (constraints_or ct td) st"
    and bits: "pd_bits pd = string_field subvariant (constraints_or ct td) (pd_nboff pd mod 8) st @ rest"
  shows "\<exists>rv pd'. OCTET_STRING_decode_aper subvariant td ct pd = (rv, st, pd') \<and> rv_code rv = RC_OK
    \<and> pd_reads pd (string_field subvariant (constraints_or ct td) (pd_nboff pd mod 8) st) pd'"
proof -
  let ?pc = "constraints_or ct td" and ?n = "string_size subvariant st" and ?bits = "string_bits subvariant st"
  obtain cval csiz where c: "string_constraints ?pc = (cval, csiz)" by fastforce
  then have c': "(case ?pc of Some p \<Rightarrow> (pcs_value p, pcs_size p) | None \<Rightarrow> (pcs_value asn_DEF_OCTET_STRING_constraints,
      pcs_size asn_DEF_OCTET_STRING_constraints)) = (cval, csiz)" by (simp add: string_constraints_def)
  obtain bpc cub ub8 where u: "string_units subvariant cval = (bpc, cub, ub8)" by (metis prod_cases3)
  have ub8: "bpc = 0 \<Longrightarrow> ub8 = 1"
    using u length_string_bits(3) [OF v] by (auto simp: string_units_def)
  let ?lb = "sint (pc_lower_bound csiz)" and ?ub = "sint (pc_upper_bound csiz)" and ?eff = "pc_effective_bits csiz"
  have range: "?eff = 0 \<Longrightarrow> ?lb = ?ub \<and> ?ub = int ?n" "?eff < 0 \<Longrightarrow> ?lb = 0 \<and> ?ub = 0 \<and> ?n < 16384"
    "0 < ?eff \<Longrightarrow> ?lb \<le> int ?n \<and> int ?n \<le> ?ub \<and> ?lb < ?ub \<and> ?ub - ?lb + 1 \<le> 65536 \<and> 2 < int ?n"
    using v c by (auto simp: string_valid_def Let_def split: if_splits)
  let ?get = "\<lambda>units pd. OCTET_STRING_per_get_characters pd units bpc ub8 (pc_lower_bound cval) (pc_upper_bound cval) ?pc"
  note get = string_get_takes [OF v c u]
  let ?pre = "if pc_extensible csiz then [False] else []"
  let ?k = "pd_nboff pd mod 8 + length ?pre"
  have "\<exists>pd0. (if pc_extensible csiz then asn_get_few_bits pd 1 else (0, pd)) = (0, pd0) \<and> pd_reads pd ?pre pd0"
    using bit_takes [OF ok, of False] bits c ok pd_reads_refl by (auto simp: string_field_def Let_def split: if_splits)
  then obtain pd0 where 0: "(if pc_extensible csiz then asn_get_few_bits pd 1 else (0, pd)) = (0, pd0)"
    and r0: "pd_reads pd ?pre pd0" by blast
  note dec = OCTET_STRING_decode_aper_def [of subvariant td ct pd, unfolded Let_def c' u prod.case 0, simplified]
  consider "?eff = 0" | "0 < ?eff" | "?eff < 0" by linarith
  then show ?thesis
  proof cases
    case 1
    let ?al = "if 2 < length (fst st) then align_pad ?k else []"
    have f: "string_field subvariant ?pc (pd_nboff pd mod 8) st = ?pre @ ?al @ ?bits"
      using 1 c by (simp add: string_field_def Let_def)
    note s0 = pd_reads_step [OF ok r0, of "?al @ ?bits @ rest"]
    have b0: "pd_bits pd = ?pre @ ?al @ ?bits @ rest" using bits f by simp
    have size: "(if bpc \<noteq> 0 then ?ub * int bpc else drop_bit 3 (?ub + 7)) = int (length (fst st))"
      using length_string_bits(2,3) [OF v] bit_string_size(3) [of ?pc st] v u range(1) [OF 1]
      by (auto simp: string_units_def drop_bit_eq_div zdiv_int)
    have "\<exists>pd1. (if 2 < int (length (fst st)) then aper_get_align pd0 else (0, pd0)) = (0, pd1) \<and> pd_reads pd0 ?al pd1"
      using align_takes [OF s0(1) [OF b0], of ?k "?bits @ rest"] s0 [OF b0] pd_reads_refl by (auto split: if_splits)
    then obtain pd1 where al: "(if 2 < int (length (fst st)) then aper_get_align pd0 else (0, pd0)) = (0, pd1)"
      and r1: "pd_reads pd0 ?al pd1" by blast
    from get [OF pd_reads_ok [OF r1] pd_reads_bits [OF r1 s0(2) [OF b0]]] obtain pd2 where
      g: "(if bpc \<noteq> 0 then ?get ?n pd1 else asn_get_many_bits pd1 False (int ?n)) = (0, fst st, pd2)"
      and r2: "pd_reads pd1 ?bits pd2" by auto
    have "\<exists>rv. OCTET_STRING_decode_aper subvariant td ct pd = (rv, st, pd2) \<and> rv_code rv = RC_OK"
      using dec 1 size al g range(1) [OF 1] ub8 string_unused [OF v u] by (auto split: if_splits)
    with pd_reads_trans [OF r0 pd_reads_trans [OF r1 r2]] f show ?thesis by auto
  next
    case 2
    let ?rng = "?ub - ?lb + 1" and ?m = "int ?n - ?lb"
    let ?len = "nsnnwn_field ?rng ?k ?m"
    let ?al = "align_pad (?k + length ?len)"
    have f: "string_field subvariant ?pc (pd_nboff pd mod 8) st = ?pre @ ?len @ ?al @ ?bits"
      using 2 c by (simp add: string_field_def Let_def)
    then have b0: "pd_bits pd = ?pre @ ?len @ ?al @ ?bits @ rest" using bits by simp
    note s0 = pd_reads_step [OF ok r0 b0]
    have rng: "?rng \<le> 65536" "0 \<le> ?m" "?m < ?rng" "?ub - ?lb \<noteq> 0" "0 \<le> ?rng" using range(3) 2 by auto
    have "pd_bits pd0 = nsnnwn_field ?rng (pd_nboff pd0) ?m @ ?al @ ?bits @ rest"
      using s0(2) nsnnwn_field_cong [OF s0(3)] by simp
    from nsnnwn_takes [OF s0(1) rng(1-3) this] obtain pd1 where
      n: "aper_get_nsnnwn pd0 ?rng = (?m, pd1)" and r1: "pd_reads pd0 ?len pd1"
      using nsnnwn_field_cong [OF s0(3), of ?rng ?m] by auto
    note r01 = pd_reads_trans [OF r0 r1] and b01 = b0 [folded append_assoc [of ?pre ?len]]
    note s1 = pd_reads_step [OF ok r01 b01]
    have "(?k + length ?len) mod 8 = pd_nboff pd1 mod 8" using s1(3) by (simp add: add.assoc)
    from align_takes [OF s1(1,2) this] obtain pd2 where
      al: "aper_get_align pd1 = (0, pd2)" and r2: "pd_reads pd1 ?al pd2" by auto
    from get [OF pd_reads_ok [OF r2] pd_reads_bits [OF r2 s1(2)]] obtain pd3 where
      g: "(if bpc \<noteq> 0 then ?get ?n pd2 else asn_get_many_bits pd2 False (int ?n)) = (0, fst st, pd3)"
      and r3: "pd_reads pd2 ?bits pd3" by auto
    have l: "aper_get_length pd0 ?rng ?eff = (?m, False, pd1)" using n rng by (simp add: aper_get_length_def)
    have "\<exists>rv. OCTET_STRING_decode_aper subvariant td ct pd = (rv, st, pd3) \<and> rv_code rv = RC_OK"
      using dec 2 l al g rng range(3) [OF 2] string_unused [OF v u] by (auto split: if_splits)
    with pd_reads_trans [OF r01 pd_reads_trans [OF r2 r3]] f show ?thesis by auto
  next
    case 3
    have f: "string_field subvariant ?pc (pd_nboff pd mod 8) st = ?pre @ align_pad ?k @ len_bits ?n @ ?bits"
      using 3 c by (simp add: string_field_def Let_def)
    then have b0: "pd_bits pd = ?pre @ align_pad ?k @ len_bits ?n @ ?bits @ rest" using bits by simp
    note s0 = pd_reads_step [OF ok r0 b0]
    have ak: "align_pad ?k = align_pad (pd_nboff pd0)" by (rule align_pad_cong [OF s0(3)])
    have rn: "?ub - ?lb = 0" "?lb = 0" "?n < 16384" using range(2) [OF 3] by auto
    have b1: "pd_bits pd0 = align_pad (pd_nboff pd0) @ len_bits ?n @ ?bits @ rest" using s0(2) ak by simp
    from aper_get_length_neg [OF s0(1) 3 b1] rn(3) obtain pd1 where
      l: "aper_get_length pd0 (-1) ?eff = (int ?n, False, pd1)"
      and r1: "pd_reads pd0 (align_pad ?k @ len_bits ?n) pd1" unfolding ak by (auto simp: len_chunk_def)
    note r01 = pd_reads_trans [OF r0 r1]
    have b01: "pd_bits pd = (?pre @ align_pad ?k @ len_bits ?n) @ ?bits @ rest" using b0 by simp
    note s1 = pd_reads_step [OF ok r01 b01]
    have "pd_nboff pd1 mod 8 = 0"
    proof -
      have "(?k + length (align_pad ?k) + length (len_bits ?n)) mod 8 = 0"
        using align_pad_aligned [of ?k] len_bits_octets [of ?n] unfolding mod_eq_0_iff_dvd by (rule dvd_add)
      then show ?thesis using s1(3) by (simp add: add.assoc)
    qed
    then have al: "(if 2 < int ?n then aper_get_align pd1 else (0, pd1)) = (0, pd1)" by (simp add: aper_get_align_def)
    from get [OF s1(1,2)] obtain pd2 where
      g: "(if bpc \<noteq> 0 then ?get ?n pd1 else asn_get_many_bits pd1 False (int ?n)) = (0, fst st, pd2)"
      and r2: "pd_reads pd1 ?bits pd2" by auto
    have "\<exists>rv. OCTET_STRING_decode_aper subvariant td ct pd = (rv, st, pd2) \<and> rv_code rv = RC_OK"
      using dec 3 l al g rn string_unused [OF v u] by (auto split: if_splits)
    with pd_reads_trans [OF r01 r2] f show ?thesis by auto
  qed
qed

end
