(* ===== verification/AsnEnumerated.thy ===== *)
theory AsnEnumerated
  imports AsnString
begin

text \<open>
  The aligned PER coding of enumerations, \<^verbatim>\<open>e2ap/lib/NativeEnumerated.c\<close>. \<open>en_value2enum\<close> is the
  table of values and names in ascending order, \<open>en_extension\<close> one more than the number of values
  of the root (0: not extensible). On an ascending table \<^verbatim>\<open>bsearch\<close> finds the row of a value.
\<close>

record asn_INTEGER_specifics =
  en_value2enum :: "(int \<times> string) list"
  en_extension :: nat

definition bsearch :: "int \<Rightarrow> (int \<times> string) list \<Rightarrow> nat option" where
  "bsearch key rows =
     (let k = length (takeWhile (\<lambda>e. fst e \<noteq> key) rows) in if k < length rows then Some k else None)"

text \<open>The number of values of the root.\<close>

definition en_root :: "asn_INTEGER_specifics \<Rightarrow> nat" where
  "en_root specs = (if en_extension specs \<noteq> 0 then en_extension specs - 1 else length (en_value2enum specs))"

definition NativeEnumerated_encode_aper ::
  "asn_INTEGER_specifics option \<Rightarrow> asn_per_constraints option \<Rightarrow> asn_per_constraints option
    \<Rightarrow> (byte list \<Rightarrow> 'k \<Rightarrow> 'k option) \<Rightarrow> i64 \<Rightarrow> 'k outp \<Rightarrow> int \<times> 'k outp" where
  "NativeEnumerated_encode_aper specifics td_constraints constraints out native po =
     (case (specifics, constraints_or constraints td_constraints) of
        (Some specs, Some pc) \<Rightarrow>
          let ct = pcs_value pc
          in if sint native < 0 then (-1, po)
             else (case bsearch (sint native) (en_value2enum specs) of
                     None \<Rightarrow> (-1, po)
                   | Some value \<Rightarrow>
                       let inext = (0 \<le> pc_range_bits ct \<and> en_root specs \<le> value);
                           (r, po1) = (if pc_extensible ct then asn_put_few_bits out po (if inext then 1 else 0) 1
                                       else (if inext then -1 else 0, po))
                       in if r \<noteq> 0 then (-1, po1)
                          else if \<not> inext \<and> 0 \<le> pc_range_bits ct then
                            let (r, po2) = asn_put_few_bits out po1 (of_nat value) (pc_range_bits ct)
                            in (if r \<noteq> 0 then -1 else 0, po2)
                          else if en_extension specs = 0 then (-1, po1)
                          else
                            let (r, po2) = uper_put_nsnnwn out po1 (int value - (if inext then int (en_extension specs) - 1 else 0))
                            in (if r \<noteq> 0 then -1 else 0, po2))
      | _ \<Rightarrow> (-1, po))"

definition NativeEnumerated_decode_aper ::
  "asn_INTEGER_specifics option \<Rightarrow> asn_per_constraints option \<Rightarrow> asn_per_constraints option \<Rightarrow> i64 \<Rightarrow> bit_data
    \<Rightarrow> asn_dec_rval \<times> i64 \<times> bit_data" where
  "NativeEnumerated_decode_aper specifics td_constraints constraints native pd =
     (case (specifics, constraints_or constraints td_constraints) of
        (Some specs, Some pc) \<Rightarrow>
          let ct = pcs_value pc; rows = en_value2enum specs;
              (inext, pd1) = (if pc_extensible ct then asn_get_few_bits pd 1 else (0, pd))
          in if inext < 0 then (ASN__DECODE_STARVED, native, pd1)
             else if inext = 0 \<and> 0 \<le> pc_range_bits ct then
               let padding = (8 - int (unat (pd_moved pd1) mod 8)) mod 8;
                   pd2 = (if 255 \<le> sint (pc_upper_bound ct) \<and> 0 < padding then snd (asn_get_few_bits pd1 padding) else pd1);
                   (value, pd3) = asn_get_few_bits pd2 (pc_range_bits ct)
               in if value < 0 then (ASN__DECODE_STARVED, native, pd3)
                  else if int (en_root specs) \<le> value then (ASN__DECODE_FAILED, native, pd3)
                  else (\<lparr>rv_code = RC_OK, rv_consumed = 0\<rparr>, word_of_int (fst (rows ! nat value)), pd3)
             else if en_extension specs = 0 then (ASN__DECODE_FAILED, native, pd1)
             else
               let (n, pd2) = uper_get_nsnnwn pd1; value = n + int (en_extension specs) - 1
               in if n < 0 then (ASN__DECODE_STARVED, native, pd2)
                  else if int (length rows) \<le> value then (ASN__DECODE_FAILED, native, pd2)
                  else (\<lparr>rv_code = RC_OK, rv_consumed = 0\<rparr>, word_of_int (fst (rows ! nat value)), pd2)
      | _ \<Rightarrow> (ASN__DECODE_FAILED, native, pd))"

section \<open>The bits of an enumeration\<close>

definition enum_valid :: "asn_INTEGER_specifics option \<Rightarrow> asn_per_constraints option \<Rightarrow> i64 \<Rightarrow> bool" where
  "enum_valid specifics pc v =
     (case (specifics, pc) of
        (Some specs, Some p) \<Rightarrow>
          let ct = pcs_value p
          in 0 \<le> sint v \<and> 0 \<le> pc_range_bits ct \<and> pc_range_bits ct \<le> 31 \<and> sint (pc_upper_bound ct) < 255 \<and>
             (case bsearch (sint v) (en_value2enum specs) of
                None \<Rightarrow> False
              | Some value \<Rightarrow>
                  if value < en_root specs then int value < 2 ^ nat (pc_range_bits ct)
                  else pc_extensible ct \<and> en_extension specs \<noteq> 0 \<and> value - (en_extension specs - 1) \<le> 63)
      | _ \<Rightarrow> False)"

definition enum_field :: "asn_INTEGER_specifics option \<Rightarrow> asn_per_constraints option \<Rightarrow> i64 \<Rightarrow> bool list" where
  "enum_field specifics pc v =
     (let specs = the specifics; ct = pcs_value (the pc); value = the (bsearch (sint v) (en_value2enum specs));
          inext = (en_root specs \<le> value)
      in (if pc_extensible ct then [inext] else []) @
         (if inext then bits_of_int 7 (int value - (int (en_extension specs) - 1))
          else bits_of_int (nat (pc_range_bits ct)) (int value)))"

lemma bsearch_Some: "bsearch key rows = Some k \<Longrightarrow> k < length rows \<and> fst (rows ! k) = key"
proof -
  assume "bsearch key rows = Some k"
  then have k: "k = length (takeWhile (\<lambda>e. fst e \<noteq> key) rows)" "k < length rows"
    by (auto simp: bsearch_def Let_def split: if_splits)
  from nth_length_takeWhile [OF k(2) [unfolded k(1)]] have "fst (rows ! k) = key" by (simp add: k(1))
  with k(2) show ?thesis by simp
qed

lemma enum_validE:
  assumes "enum_valid specifics pc v"
  obtains specs p i where "specifics = Some specs" "pc = Some p" "bsearch (sint v) (en_value2enum specs) = Some i"
    "0 \<le> sint v" "0 \<le> pc_range_bits (pcs_value p)" "pc_range_bits (pcs_value p) \<le> 31" "sint (pc_upper_bound (pcs_value p)) < 255"
    "i < en_root specs \<longrightarrow> int i < 2 ^ nat (pc_range_bits (pcs_value p))"
    "\<not> i < en_root specs \<longrightarrow>
      pc_extensible (pcs_value p) \<and> en_extension specs \<noteq> 0 \<and> i - (en_extension specs - 1) \<le> 63"
  using assms by (auto simp: enum_valid_def Let_def split: option.splits if_splits)

context roomy_sink
begin

lemma enum_emits:
  assumes ok: "po_ok po" and v: "enum_valid specifics (constraints_or ct td) v"
    and enc: "NativeEnumerated_encode_aper specifics td ct out v po = (r, po')"
  shows "po_emits contents room po (enum_field specifics (constraints_or ct td) v) (r \<noteq> -1) po'"
proof -
  from v obtain specs p i where s: "specifics = Some specs" "constraints_or ct td = Some p"
    and idx: "bsearch (sint v) (en_value2enum specs) = Some i" and nonneg: "0 \<le> sint v"
    and rb: "0 \<le> pc_range_bits (pcs_value p)" "pc_range_bits (pcs_value p) \<le> 31"
    and small: "\<not> i < en_root specs \<longrightarrow>
      pc_extensible (pcs_value p) \<and> en_extension specs \<noteq> 0 \<and> i - (en_extension specs - 1) \<le> 63"
    by (elim enum_validE) blast
  let ?c = "pcs_value p" and ?inext = "en_root specs \<le> i"
  obtain r1 po1 where 1: "(if pc_extensible ?c then asn_put_few_bits out po (if ?inext then 1 else 0) 1 else (0, po)) = (r1, po1)"
    by fastforce
  have e1: "po_emits contents room po (if pc_extensible ?c then [?inext] else []) (r1 = 0) po1"
    using 1 bit_emits [OF ok, of ?inext r1 po1] ok by (auto simp: po_emits_refl split: if_splits)
  show ?thesis
  proof (cases ?inext)
    case False
    obtain q po2 where 2: "asn_put_few_bits out po1 (of_nat i) (pc_range_bits ?c) = (q, po2)" by fastforce
    have run: "(r, po') = (if r1 \<noteq> 0 then (-1, po1) else (if q \<noteq> 0 then -1 else 0, po2))"
      using enc s idx nonneg rb(1) 1 2 False
      by (cases "pc_extensible ?c"; cases "r1 = 0") (simp_all add: NativeEnumerated_encode_aper_def Let_def)
    have "po_emits contents room po1 (bits_of_int (nat (pc_range_bits ?c)) (int i)) (q = 0) po2" if "r1 = 0"
      using few_int_emits [OF po_emits_ok [OF e1 that] rb(1), of "int i"] rb(2) 2 by simp
    then have "po_emits contents room po ((if pc_extensible ?c then [?inext] else [])
        @ bits_of_int (nat (pc_range_bits ?c)) (int i)) (r \<noteq> -1) po'"
      by (intro po_emits_bind [OF e1]) (use run in \<open>auto split: if_splits\<close>)
    then show ?thesis using s idx False by (cases "pc_extensible ?c") (simp_all add: enum_field_def Let_def)
  next
    case True
    let ?n = "int i - (int (en_extension specs) - 1)"
    obtain q po2 where 2: "uper_put_nsnnwn out po1 ?n = (q, po2)" by fastforce
    have x: "pc_extensible ?c" "en_extension specs \<noteq> 0" "0 \<le> ?n" "?n \<le> 63"
      using small True by (auto simp: en_root_def split: if_splits)
    have run: "(r, po') = (if r1 \<noteq> 0 then (-1, po1) else (if q \<noteq> 0 then -1 else 0, po2))"
      using enc s idx nonneg rb(1) 1 2 True x
      by (cases "r1 = 0") (simp_all add: NativeEnumerated_encode_aper_def Let_def)
    have "po_emits contents room po ((if pc_extensible ?c then [?inext] else []) @ bits_of_int 7 ?n) (r \<noteq> -1) po'"
      by (rule po_emits_bind [OF e1])
        (use nsnnwn_small_emits [OF po_emits_ok [OF e1] x(3,4) 2] run in \<open>auto split: if_splits\<close>)
    then show ?thesis using s idx True by (cases "pc_extensible ?c") (simp_all add: enum_field_def Let_def)
  qed
qed

end

lemma enum_takes:
  assumes ok: "pd_ok pd" and v: "enum_valid specifics (constraints_or ct td) v"
    and bits: "pd_bits pd = enum_field specifics (constraints_or ct td) v @ rest"
  shows "\<exists>rv pd'. NativeEnumerated_decode_aper specifics td ct native pd = (rv, v, pd') \<and> rv_code rv = RC_OK
    \<and> pd_reads pd (enum_field specifics (constraints_or ct td) v) pd'"
proof -
  from v obtain specs p i where s: "specifics = Some specs" "constraints_or ct td = Some p"
    and idx: "bsearch (sint v) (en_value2enum specs) = Some i"
    and rb: "0 \<le> pc_range_bits (pcs_value p)" "pc_range_bits (pcs_value p) \<le> 31" and ub: "sint (pc_upper_bound (pcs_value p)) < 255"
    and root: "i < en_root specs \<longrightarrow> int i < 2 ^ nat (pc_range_bits (pcs_value p))"
    and small: "\<not> i < en_root specs \<longrightarrow>
      pc_extensible (pcs_value p) \<and> en_extension specs \<noteq> 0 \<and> i - (en_extension specs - 1) \<le> 63"
    by (elim enum_validE) blast
  let ?c = "pcs_value p" and ?inext = "en_root specs \<le> i"
  let ?pre = "if pc_extensible ?c then [?inext] else []"
  let ?val = "if ?inext then bits_of_int 7 (int i - (int (en_extension specs) - 1)) else bits_of_int (nat (pc_range_bits ?c)) (int i)"
  from bsearch_Some [OF idx] have row: "i < length (en_value2enum specs)"
    "word_of_int (fst (en_value2enum specs ! i)) = v" by simp_all
  have f: "enum_field specifics (constraints_or ct td) v = ?pre @ ?val"
    using s idx by (simp add: enum_field_def Let_def)
  then have b0: "pd_bits pd = ?pre @ ?val @ rest" using bits by simp
  have "\<exists>pd0. (if pc_extensible ?c then asn_get_few_bits pd 1 else (0, pd)) = (if ?inext then 1 else 0, pd0) \<and> pd_reads pd ?pre pd0"
    using bit_takes [OF ok, of ?inext "?val @ rest"] b0 ok pd_reads_refl small by (auto split: if_splits)
  then obtain pd0 where 0: "(if pc_extensible ?c then asn_get_few_bits pd 1 else (0, pd)) = (if ?inext then 1 else 0, pd0)"
    and r0: "pd_reads pd ?pre pd0" by blast
  note s0 = pd_reads_step [OF ok r0 b0]
  show ?thesis
  proof (cases ?inext)
    case False
    have "take_bit (nat (pc_range_bits ?c)) (int i) = int i" using root False by (simp add: take_bit_int_eq_self)
    with get_field_reads [OF s0(1), of "nat (pc_range_bits ?c)" "int i" rest] s0(2) False rb obtain pd1 where
      g: "asn_get_few_bits pd0 (pc_range_bits ?c) = (int i, pd1)" and r1: "pd_reads pd0 ?val pd1" by (auto simp: nat_le_iff)
    have "NativeEnumerated_decode_aper specifics td ct native pd = (\<lparr>rv_code = RC_OK, rv_consumed = 0\<rparr>, v, pd1)"
      using s 0 g rb(1) ub row False by (simp add: NativeEnumerated_decode_aper_def Let_def split: if_splits)
    with pd_reads_trans [OF r0 r1] f show ?thesis by auto
  next
    case True
    let ?n = "int i - (int (en_extension specs) - 1)"
    have x: "pc_extensible ?c" "en_extension specs \<noteq> 0" "0 \<le> ?n" "?n \<le> 63"
      using small True by (auto simp: en_root_def split: if_splits)
    have "pd_bits pd0 = bits_of_int 7 ?n @ rest" using s0(2) True by simp
    from uper_get_nsnnwn_small [OF s0(1) this x(3,4)] obtain pd1 where
      g: "uper_get_nsnnwn pd0 = (?n, pd1)" and r1: "pd_reads pd0 (bits_of_int 7 ?n) pd1" by auto
    have "NativeEnumerated_decode_aper specifics td ct native pd = (\<lparr>rv_code = RC_OK, rv_consumed = 0\<rparr>, v, pd1)"
      using s 0 g x row True by (simp add: NativeEnumerated_decode_aper_def Let_def)
    moreover have "pd_reads pd (?pre @ ?val) pd1" using pd_reads_trans [OF r0 r1] True by simp
    ultimately show ?thesis using f by auto
  qed
qed

end
