(* ===== verification/AsnConstructed.thy ===== *)
theory AsnConstructed
  imports AsnEnumerated IeTables
begin

text \<open>
  The aligned PER coding of constructed types, \<^verbatim>\<open>e2ap/lib/constr_SEQUENCE.c\<close>,
  \<^verbatim>\<open>constr_SEQUENCE_OF.c\<close>, \<^verbatim>\<open>constr_SET_OF.c\<close> and \<^verbatim>\<open>constr_CHOICE.c\<close>, over the coders of their
  members. A member table entry carries, in place of the pointer to the member's type, the
  operations of that type (\<open>per_op\<close>), so the recursion through types is that of \<open>AsnTypes\<close>.

  Allocation succeeds and the stack check passes. No type of E2AP has default values, so the
  two default functions of a member table are left out. \<open>undef\<close> stands for what a decoder does after
  a read outside an array or through a null pointer; nothing is assumed about it.
\<close>

section \<open>Values and members\<close>

text \<open>
  A structure is the list of its members. \<open>V_none\<close> is a null pointer, and the contents of a
  union of which no member is present.
\<close>

datatype asn_value =
    V_none
  | V_long i64
  | V_INTEGER INTEGER
  | V_string asn_string
  | V_struct "asn_value list"
  | V_list "asn_value list"
  | V_choice nat asn_value

datatype member_flags = ATF_NOFLAGS | ATF_POINTER | ATF_OPEN_TYPE

text \<open>
  A row of a member table. The type selector of an open type reads a number from another member
  of the structure: the index of that member and the selection.
\<close>

datatype 't asn_TYPE_member = Member
  (mb_flags: member_flags)
  (mb_optional: nat)
  (mb_type: 't)
  (mb_selector: "(nat \<times> (int \<Rightarrow> asn_DEF option \<times> nat)) option")
  (mb_constraints: "asn_per_constraints option")
  (mb_name: string)

type_synonym 'k encoder = "asn_per_constraints option \<Rightarrow> asn_value \<Rightarrow> 'k outp \<Rightarrow> int \<times> 'k outp"

text \<open>
  The PER operations of a type. C has one encoder for every destination; here there are its two
  instances, for the caller's destination and for the growing buffer of an open type. \<open>op_open_get\<close>
  decodes the union of an open type for what the selector has chosen.
\<close>

record 'k per_op =
  op_zero :: asn_value
  op_encode :: "'k encoder"
  op_encode_new :: "enc_dyn_arg encoder"
  op_decode :: "asn_per_constraints option \<Rightarrow> bit_data \<Rightarrow> asn_dec_rval \<times> asn_value \<times> bit_data"
  op_open_get :: "asn_DEF option \<times> nat \<Rightarrow> bit_data \<Rightarrow> asn_dec_rval \<times> asn_value \<times> bit_data"

definition op_new :: "'k per_op \<Rightarrow> enc_dyn_arg per_op" where
  "op_new op = \<lparr>op_zero = op_zero op, op_encode = op_encode_new op, op_encode_new = op_encode_new op,
     op_decode = op_decode op, op_open_get = op_open_get op\<rparr>"

abbreviation member_zero :: "'k per_op asn_TYPE_member \<Rightarrow> asn_value" where
  "member_zero elm \<equiv> if mb_flags elm = ATF_POINTER then V_none else op_zero (mb_type elm)"

definition member_present :: "'t asn_TYPE_member \<Rightarrow> asn_value \<Rightarrow> bool" where
  "member_present elm v \<longleftrightarrow> (mb_flags elm = ATF_POINTER \<longrightarrow> v \<noteq> V_none)"

abbreviation per_ok :: asn_dec_rval where
  "per_ok \<equiv> \<lparr>rv_code = RC_OK, rv_consumed = 0\<rparr>"

section \<open>SEQUENCE\<close>

record asn_SEQUENCE_specifics =
  seq_oms :: "nat list"
  seq_roms_count :: nat
  seq_aoms_count :: nat
  seq_first_extension :: int

definition IN_EXTENSION_GROUP :: "asn_SEQUENCE_specifics \<Rightarrow> nat \<Rightarrow> bool" where
  "IN_EXTENSION_GROUP specs edx \<longleftrightarrow> 0 \<le> seq_first_extension specs \<and> nat (seq_first_extension specs) \<le> edx"

text \<open>The loop over the root elements, each with its index.\<close>

fun SEQUENCE_root_loop ::
  "asn_SEQUENCE_specifics \<Rightarrow> (nat \<times> 'k per_op asn_TYPE_member) list \<Rightarrow> bit_data \<Rightarrow> asn_value list \<Rightarrow> bit_data
    \<Rightarrow> asn_dec_rval \<times> asn_value list \<times> bit_data" where
  "SEQUENCE_root_loop specs [] opmd st pd = (per_ok, st, pd)"
| "SEQUENCE_root_loop specs ((edx, elm) # elms) opmd st pd =
     (if IN_EXTENSION_GROUP specs edx then SEQUENCE_root_loop specs elms opmd st pd
      else
        let (present, opmd1) = (if mb_optional elm \<noteq> 0 then asn_get_few_bits opmd 1 else (1, opmd))
        in if mb_optional elm \<noteq> 0 \<and> present = 0 then SEQUENCE_root_loop specs elms opmd1 st pd
           else
             let (rv, v, pd1) =
                   (if mb_flags elm = ATF_OPEN_TYPE then
                      op_open_get (mb_type elm)
                        (case mb_selector elm of
                           Some (i, select) \<Rightarrow> (case st ! i of V_long x \<Rightarrow> select (sint x) | _ \<Rightarrow> (None, 0))
                         | None \<Rightarrow> (None, 0)) pd
                    else op_decode (mb_type elm) (mb_constraints elm) pd)
             in if rv_code rv \<noteq> RC_OK then (rv, st, pd1)
                else SEQUENCE_root_loop specs elms opmd1 (st[edx := v]) pd1)"

text \<open>
  The loop over the known extensions: a result that ends the decoder, or the rest of the presence
  bits.
\<close>

fun SEQUENCE_extension_loop ::
  "(nat \<times> 'k per_op asn_TYPE_member) list \<Rightarrow> bit_data \<Rightarrow> asn_value list \<Rightarrow> bit_data
    \<Rightarrow> (asn_dec_rval + bit_data) \<times> asn_value list \<times> bit_data" where
  "SEQUENCE_extension_loop [] epmd st pd = (Inr epmd, st, pd)"
| "SEQUENCE_extension_loop ((edx, elm) # elms) epmd st pd =
     (let (present, epmd1) = asn_get_few_bits epmd 1
      in if present < 0 then (Inr epmd1, st, pd)
         else if present = 0 then SEQUENCE_extension_loop elms epmd1 st pd
         else
           let (rv, v, pd1) = aper_open_type_get (\<lambda>_. True) (op_decode (mb_type elm) (mb_constraints elm)) (st ! edx) pd
           in if rv_code rv \<noteq> RC_OK then (Inl rv, st, pd1)
              else SEQUENCE_extension_loop elms epmd1 (st[edx := v]) pd1)"

text \<open>
  Extensions beyond those of this version: the \<^verbatim>\<open>break\<close> behind the switch is reached after the first
  one that has been skipped, so only that one is.
\<close>

function SEQUENCE_skip_overflow :: "bit_data \<Rightarrow> bit_data \<Rightarrow> int \<times> bit_data" where
  "SEQUENCE_skip_overflow epmd pd =
     (let (p, epmd1) = asn_get_few_bits epmd 1
      in if p = -1 then (0, pd)
         else if p = 0 then SEQUENCE_skip_overflow epmd1 pd
         else aper_open_type_skip (\<lambda>_. True) pd)"
  by pat_completeness auto
termination
  by (relation "measure (\<lambda>(epmd, pd). pd_rem epmd)") (auto dest: get_few_bits_rem(2) [OF sym])

declare SEQUENCE_skip_overflow.simps [simp del]

abbreviation bitmap_stream :: "byte list \<Rightarrow> nat \<Rightarrow> bit_data" where
  "bitmap_stream buf n \<equiv> \<lparr>pd_buffer = buf, pd_nboff = 0, pd_nbits = n, pd_moved = 0\<rparr>"

definition SEQUENCE_decode_aper ::
  "asn_SEQUENCE_specifics \<Rightarrow> 'k per_op asn_TYPE_member list \<Rightarrow> bit_data \<Rightarrow> asn_dec_rval \<times> asn_value \<times> bit_data" where
  "SEQUENCE_decode_aper specs elements pd0 =
     (let st = map member_zero elements;
          (extpresent, pd1) = (if seq_first_extension specs < 0 then (0, pd0) else asn_get_few_bits pd0 1)
      in if extpresent < 0 then (ASN__DECODE_STARVED, V_struct st, pd1)
         else
           let (r, opres, pd2) = (if seq_roms_count specs \<noteq> 0 then asn_get_many_bits pd1 False (int (seq_roms_count specs))
                                  else (0, [], pd1))
           in if r \<noteq> 0 then (ASN__DECODE_STARVED, V_struct st, pd2)
              else
                let (rv, st1, pd3) = SEQUENCE_root_loop specs (enumerate 0 elements)
                                       (bitmap_stream opres (seq_roms_count specs)) st pd2
                in if rv_code rv \<noteq> RC_OK then (rv, V_struct st1, pd3)
                   else if extpresent = 0 then (per_ok, V_struct st1, pd3)
                   else
                     let (bmlength, pd4) = aper_get_nslength pd3
                     in if bmlength < 0 then (ASN__DECODE_STARVED, V_struct st1, pd4)
                        else
                          let (r, epres, pd5) = asn_get_many_bits pd4 False bmlength;
                              first = nat (seq_first_extension specs)
                          in if r \<noteq> 0 then (ASN__DECODE_STARVED, V_struct st1, pd5)
                             else (case SEQUENCE_extension_loop (drop first (enumerate 0 elements))
                                     (bitmap_stream epres (nat bmlength)) st1 pd5 of
                                 (Inl rv, st2, pd6) \<Rightarrow> (rv, V_struct st2, pd6)
                               | (Inr epmd, st2, pd6) \<Rightarrow>
                                   (case SEQUENCE_skip_overflow epmd pd6 of (r, pd7) \<Rightarrow>
                                      (if r \<noteq> 0 then ASN__DECODE_STARVED else per_ok, V_struct st2, pd7))))"

text \<open>The three passes over the extensions: count them, write the presence bits, write the values.\<close>

datatype extension_pass = Pass_count | Pass_bitmap | Pass_values

fun handle_extensions_loop ::
  "byte list \<Rightarrow> (byte list \<Rightarrow> 'k \<Rightarrow> 'k option) \<Rightarrow> extension_pass \<Rightarrow> ('k per_op asn_TYPE_member \<times> asn_value) list
    \<Rightarrow> nat \<Rightarrow> 'k outp \<Rightarrow> nat option \<times> 'k outp" where
  "handle_extensions_loop tmp out pass [] exts_present po = (Some exts_present, po)"
| "handle_extensions_loop tmp out pass ((elm, v) # elms) exts_present po =
     (let present = member_present elm v;
          (r, po1) = (case pass of
             Pass_count \<Rightarrow> (0, po)
           | Pass_bitmap \<Rightarrow> asn_put_few_bits out po (if present then 1 else 0) 1
           | Pass_values \<Rightarrow>
               if present
               then aper_open_type_put (\<lambda>_. True) (Some (op_encode_new (mb_type elm) (mb_constraints elm))) tmp out v po
               else (0, po))
      in if r \<noteq> 0 then (None, po1)
         else handle_extensions_loop tmp out pass elms (exts_present + (if present then 1 else 0)) po1)"

definition SEQUENCE_handle_extensions_aper ::
  "byte list \<Rightarrow> (byte list \<Rightarrow> 'k \<Rightarrow> 'k option) \<Rightarrow> asn_SEQUENCE_specifics \<Rightarrow> 'k per_op asn_TYPE_member list \<Rightarrow> asn_value list
    \<Rightarrow> extension_pass \<Rightarrow> 'k outp \<Rightarrow> int \<times> 'k outp" where
  "SEQUENCE_handle_extensions_aper tmp out specs elements st pass po =
     (if seq_first_extension specs < 0 then (0, po)
      else
        let exts = drop (nat (seq_first_extension specs)) (zip elements st)
        in case handle_extensions_loop tmp out pass exts 0 po of
             (None, po1) \<Rightarrow> (-1, po1)
           | (Some exts_present, po1) \<Rightarrow> (if exts_present \<noteq> 0 then int (length exts) else 0, po1))"

fun put_presence_bitmap ::
  "(byte list \<Rightarrow> 'k \<Rightarrow> 'k option) \<Rightarrow> 'k per_op asn_TYPE_member list \<Rightarrow> asn_value list \<Rightarrow> nat list \<Rightarrow> 'k outp \<Rightarrow> int \<times> 'k outp" where
  "put_presence_bitmap out elements st [] po = (0, po)"
| "put_presence_bitmap out elements st (edx # oms) po =
     (let (r, po1) = asn_put_few_bits out po (if member_present (elements ! edx) (st ! edx) then 1 else 0) 1
      in if r \<noteq> 0 then (-1, po1) else put_presence_bitmap out elements st oms po1)"

fun SEQUENCE_encode_root ::
  "('k per_op asn_TYPE_member \<times> asn_value) list \<Rightarrow> 'k outp \<Rightarrow> int \<times> 'k outp" where
  "SEQUENCE_encode_root [] po = (0, po)"
| "SEQUENCE_encode_root ((elm, v) # elms) po =
     (if \<not> member_present elm v then
        if mb_optional elm \<noteq> 0 then SEQUENCE_encode_root elms po else (-1, po)
      else
        let (r, po1) = op_encode (mb_type elm) (mb_constraints elm) v po
        in if r = -1 then (-1, po1) else SEQUENCE_encode_root elms po1)"

definition SEQUENCE_encode_aper ::
  "byte list \<Rightarrow> (byte list \<Rightarrow> 'k \<Rightarrow> 'k option) \<Rightarrow> asn_SEQUENCE_specifics \<Rightarrow> 'k per_op asn_TYPE_member list \<Rightarrow> asn_value list
    \<Rightarrow> 'k outp \<Rightarrow> int \<times> 'k outp" where
  "SEQUENCE_encode_aper tmp out specs elements st po =
     (let handle = SEQUENCE_handle_extensions_aper tmp out specs elements st;
          n_extensions = fst (handle Pass_count po);
          (r, po1) = (if seq_first_extension specs < 0 then (0, po)
                      else asn_put_few_bits out po (if n_extensions \<noteq> 0 then 1 else 0) 1)
      in if n_extensions < 0 \<or> r \<noteq> 0 then (-1, po1)
         else
           let (r, po2) = put_presence_bitmap out elements st (take (seq_roms_count specs) (seq_oms specs)) po1
           in if r \<noteq> 0 then (-1, po2)
              else
                let root = (if seq_first_extension specs < 0 then zip elements st
                            else take (nat (seq_first_extension specs)) (zip elements st));
                    (r, po3) = SEQUENCE_encode_root root po2
                in if r = -1 then (-1, po3)
                   else if n_extensions = 0 then (0, po3)
                   else
                     let (r, po4) = aper_put_nslength out po3 (nat n_extensions)
                     in if r \<noteq> 0 then (-1, po4)
                        else
                          let (n, po5) = handle Pass_bitmap po4
                          in if n \<noteq> n_extensions then (-1, po5)
                             else
                               let (n, po6) = handle Pass_values po5
                               in (if n \<noteq> n_extensions then -1 else 0, po6))"

section \<open>SEQUENCE OF\<close>

fun encode_elements :: "(asn_value \<Rightarrow> 'k outp \<Rightarrow> int \<times> 'k outp) \<Rightarrow> asn_value list \<Rightarrow> 'k outp \<Rightarrow> int \<times> 'k outp" where
  "encode_elements enc [] po = (0, po)"
| "encode_elements enc (v # vs) po =
     (if v = V_none then (-1, po)
      else let (r, po1) = enc v po in if r = -1 then (-1, po1) else encode_elements enc vs po1)"

text \<open>The passes of the outer loop when the length is sent in fragments; at least one is made.\<close>

function encode_fragments ::
  "(byte list \<Rightarrow> 'k \<Rightarrow> 'k option) \<Rightarrow> (asn_value \<Rightarrow> 'k outp \<Rightarrow> int \<times> 'k outp) \<Rightarrow> asn_value list \<Rightarrow> 'k outp \<Rightarrow> int \<times> 'k outp" where
  "encode_fragments out enc vs po =
     (let (mayEncode, po1) = aper_put_length out po (-1) (length vs)
      in if mayEncode < 0 then (-1, po1)
         else
           let (r, po2) = encode_elements enc (take (nat mayEncode) vs) po1; rest = drop (nat mayEncode) vs
           in if r \<noteq> 0 then (-1, po2) else if rest = [] then (0, po2) else encode_fragments out enc rest po2)"
  by pat_completeness auto
termination
proof (relation "measure (\<lambda>(out, enc, vs, po). length vs)", goal_cases)
  case (2 out enc vs po p may po1 q r po2 rest)
  then have put: "(may, po1) = aper_put_length out po (-1) (length vs)" and m: "\<not> may < 0" and "0 < length vs"
    by auto
  from put have "open_type_put_length APER out po (length vs) = (may, False, po1)"
    by (auto simp: open_type_put_length_def split: prod.splits)
  from open_type_put_length_bounds [OF this m] 2 \<open>0 < length vs\<close> len_chunk_pos [of "length vs"] show ?case by simp
qed simp

declare encode_fragments.simps [simp del]

definition SEQUENCE_OF_encode_aper ::
  "(byte list \<Rightarrow> 'k \<Rightarrow> 'k option) \<Rightarrow> asn_per_constraints option \<Rightarrow> 'k per_op asn_TYPE_member \<Rightarrow> asn_per_constraints option
    \<Rightarrow> asn_value list \<Rightarrow> 'k outp \<Rightarrow> int \<times> 'k outp" where
  "SEQUENCE_OF_encode_aper out td_constraints elm constraints vs po =
     (let ct0 = map_option pcs_size (constraints_or constraints td_constraints);
          not_in_root = (case ct0 of None \<Rightarrow> False
            | Some ct \<Rightarrow> int (length vs) < sint (pc_lower_bound ct) \<or> sint (pc_upper_bound ct) < int (length vs));
          (r, po1, ct1) = (case ct0 of
             None \<Rightarrow> (0, po, None)
           | Some ct \<Rightarrow>
               if pc_extensible ct then
                 let (r, po1) = asn_put_few_bits out po (if not_in_root then 1 else 0) 1
                 in (r, po1, if not_in_root then None else Some ct)
               else (if not_in_root \<and> 0 \<le> pc_effective_bits ct then -1 else 0, po, Some ct));
          enc = op_encode (mb_type elm) (mb_constraints elm)
      in if r \<noteq> 0 then (-1, po1)
         else case ct1 of
           Some ct \<Rightarrow>
             if 0 \<le> pc_effective_bits ct then
               let lb = sint (pc_lower_bound ct); ub = sint (pc_upper_bound ct);
                   (l, po2) = aper_put_length out po1 (ub - lb + 1) (nat (int (length vs) - lb))
               in if l < 0 then (-1, po2) else encode_elements enc vs po2
             else encode_fragments out enc vs po1
         | None \<Rightarrow> encode_fragments out enc vs po1)"

text \<open>\<open>rv\<close> is the result of the last element, which the C function hands on.\<close>

fun decode_elements ::
  "(bit_data \<Rightarrow> asn_dec_rval \<times> asn_value \<times> bit_data) \<Rightarrow> nat \<Rightarrow> asn_dec_rval \<Rightarrow> asn_value list \<Rightarrow> bit_data
    \<Rightarrow> asn_dec_rval \<times> asn_value list \<times> bit_data" where
  "decode_elements dec 0 rv acc pd = (rv, acc, pd)"
| "decode_elements dec (Suc n) rv acc pd =
     (let (rv, v, pd1) = dec pd
      in if rv_code rv = RC_OK then decode_elements dec n rv (acc @ [v]) pd1 else (rv, acc, pd1))"

text \<open>
  The loop over the fragments of a long list. Each takes a length off the stream, so one more than
  the bits that are left is enough fuel, whatever the decoder of the elements does
  (\<open>decode_fragments_enough\<close>, provided it does not move backwards).
\<close>

fun decode_fragments ::
  "nat \<Rightarrow> int \<Rightarrow> int \<Rightarrow> (bit_data \<Rightarrow> asn_dec_rval \<times> asn_value \<times> bit_data) \<Rightarrow> asn_dec_rval \<Rightarrow> asn_value list \<Rightarrow> bit_data
    \<Rightarrow> (asn_dec_rval \<times> asn_value list \<times> bit_data) option" where
  "decode_fragments 0 rng ebits dec rv acc pd = None"
| "decode_fragments (Suc fuel) rng ebits dec rv acc pd =
     (let (nelems, repeat, pd1) = aper_get_length pd rng ebits
      in if nelems < 0 then Some (ASN__DECODE_STARVED, acc, pd1)
         else
           let (rv, acc1, pd2) = decode_elements dec (nat nelems) rv acc pd1
           in if rv_code rv = RC_OK \<and> repeat then decode_fragments fuel rng ebits dec rv acc1 pd2
              else Some (rv, acc1, pd2))"

text \<open>Behind the last element the result is \<^verbatim>\<open>RC_OK\<close> and counts nothing.\<close>

definition list_end :: "asn_dec_rval \<Rightarrow> asn_dec_rval" where
  "list_end rv = (if rv_code rv = RC_OK then per_ok else rv)"

lemma list_end_code [simp]: "rv_code (list_end rv) = rv_code rv"
  by (simp add: list_end_def)

definition SET_OF_decode_aper ::
  "asn_per_constraints option \<Rightarrow> 'k per_op asn_TYPE_member \<Rightarrow> asn_per_constraints option \<Rightarrow> bit_data
    \<Rightarrow> asn_dec_rval \<times> asn_value \<times> bit_data" where
  "SET_OF_decode_aper td_constraints elm constraints pd0 =
     (let ct0 = map_option pcs_size (constraints_or constraints td_constraints);
          (inext, pd) = (case ct0 of
             Some ct \<Rightarrow> if pc_extensible ct then asn_get_few_bits pd0 1 else (0, pd0)
           | None \<Rightarrow> (0, pd0));
          ct1 = (if inext \<noteq> 0 then None else ct0);
          dec = op_decode (mb_type elm) (mb_constraints elm);
          fragments = (\<lambda>rng ebits. case decode_fragments (Suc (pd_rem pd)) rng ebits dec per_ok [] pd of
             None \<Rightarrow> (ASN__DECODE_FAILED, V_list [], pd) | Some (rv, acc, pd1) \<Rightarrow> (list_end rv, V_list acc, pd1))
      in if inext < 0 then (ASN__DECODE_STARVED, V_list [], pd)
         else case ct1 of
           None \<Rightarrow> fragments (-1) (-1)
         | Some ct \<Rightarrow>
             let lb = sint (pc_lower_bound ct); ub = sint (pc_upper_bound ct)
             in if 0 \<le> pc_effective_bits ct then
                  let (n, pd1) = aper_get_nsnnwn pd (ub - lb + 1)
                  in if n < 0 then (ASN__DECODE_STARVED, V_list [], pd1)
                     else if n + lb < 0 then fragments (ub - lb + 1) (pc_effective_bits ct)
                     else let (rv, acc, pd2) = decode_elements dec (nat (n + lb)) per_ok [] pd1 in (list_end rv, V_list acc, pd2)
                else fragments (ub - lb + 1) (pc_effective_bits ct))"

section \<open>CHOICE\<close>

record asn_CHOICE_specifics =
  ch_to_canonical_order :: "nat list option"
  ch_from_canonical_order :: "nat list option"
  ch_ext_start :: int

text \<open>The index of an alternative through one of the two tables, if there is one.\<close>

definition canonical :: "nat list option \<Rightarrow> nat \<Rightarrow> nat" where
  "canonical order i = (case order of None \<Rightarrow> i | Some xs \<Rightarrow> xs ! i)"

definition CHOICE_encode_aper ::
  "byte list \<Rightarrow> (byte list \<Rightarrow> 'k \<Rightarrow> 'k option) \<Rightarrow> asn_per_constraints option \<Rightarrow> asn_CHOICE_specifics
    \<Rightarrow> 'k per_op asn_TYPE_member list \<Rightarrow> asn_per_constraints option \<Rightarrow> nat \<times> asn_value \<Rightarrow> 'k outp \<Rightarrow> int \<times> 'k outp" where
  "CHOICE_encode_aper tmp out td_constraints specs elements constraints choice po =
     (let ct0 = map_option pcs_value (constraints_or constraints td_constraints)
      in if fst choice = 0 \<or> length elements < fst choice then (-1, po)
         else
           let present = fst choice - 1;
               present_enc = canonical (ch_to_canonical_order specs) present;
               outside = (case ct0 of None \<Rightarrow> False
                 | Some ct \<Rightarrow> 0 \<le> pc_range_bits ct \<and>
                     (int present < sint (pc_lower_bound ct) \<or> sint (pc_upper_bound ct) < int present));
               extensible = (case ct0 of None \<Rightarrow> False | Some ct \<Rightarrow> pc_extensible ct);
               (r, po1) = (if extensible then asn_put_few_bits out po (if outside then 1 else 0) 1
                           else (if outside then -1 else 0, po));
               elm = elements ! present
           in if r \<noteq> 0 \<or> \<not> member_present elm (snd choice) then (-1, po1)
              else case (if outside then None else ct0) of
                Some ct \<Rightarrow>
                  if 0 \<le> pc_range_bits ct then
                    let (r, po2) = asn_put_few_bits out po1 (of_nat present_enc) (pc_range_bits ct)
                    in if r \<noteq> 0 then (-1, po2) else op_encode (mb_type elm) (mb_constraints elm) (snd choice) po2
                  else if ch_ext_start specs = -1 then (-1, po1)
                  else let (r, po2) = aper_open_type_put (\<lambda>_. True) (Some (op_encode_new (mb_type elm) (mb_constraints elm)))
                             tmp out (snd choice) po1
                       in (if r \<noteq> 0 then -1 else 0, po2)
              | None \<Rightarrow>
                  if ch_ext_start specs = -1 then (-1, po1)
                  else
                    let (r, po2) = (if outside
                          then aper_put_nsnnwn out po1 (pc_range_bits (the ct0)) (int present_enc - ch_ext_start specs)
                          else (0, po1))
                    in if r \<noteq> 0 then (-1, po2)
                       else let (r, po3) = aper_open_type_put (\<lambda>_. True)
                                  (Some (op_encode_new (mb_type elm) (mb_constraints elm))) tmp out (snd choice) po2
                            in (if r \<noteq> 0 then -1 else 0, po3))"

definition CHOICE_decode_aper ::
  "(bit_data \<Rightarrow> asn_dec_rval \<times> asn_value \<times> bit_data) \<Rightarrow> asn_per_constraints option \<Rightarrow> asn_CHOICE_specifics
    \<Rightarrow> 'k per_op asn_TYPE_member list \<Rightarrow> asn_per_constraints option \<Rightarrow> bit_data \<Rightarrow> asn_dec_rval \<times> asn_value \<times> bit_data" where
  "CHOICE_decode_aper undef td_constraints specs elements constraints pd0 =
     (let ct0 = map_option pcs_value (constraints_or constraints td_constraints);
          (inext, pd) = (case ct0 of
             Some ct \<Rightarrow> if pc_extensible ct then asn_get_few_bits pd0 1 else (0, pd0)
           | None \<Rightarrow> (0, pd0));
          finish = (\<lambda>root i pd.
             let i = canonical (ch_from_canonical_order specs) i; elm = elements ! i;
                 dec = op_decode (mb_type elm) (mb_constraints elm)
             in if length elements \<le> i then undef pd
                else let (rv, v, pd1) = (if root then dec pd else aper_open_type_get (\<lambda>_. True) dec (member_zero elm) pd)
                     in (rv, V_choice (Suc i) v, pd1))
      in if inext < 0 then (ASN__DECODE_STARVED, V_choice 0 V_none, pd)
         else case (if inext \<noteq> 0 then None else ct0) of
           Some ct \<Rightarrow>
             if 0 \<le> pc_range_bits ct then
               let (val, pd1) = asn_get_few_bits pd (pc_range_bits ct)
               in if val < 0 then (ASN__DECODE_STARVED, V_choice 0 V_none, pd1)
                  else if sint (pc_upper_bound ct) < val then (ASN__DECODE_FAILED, V_choice 0 V_none, pd1)
                  else finish True (nat val) pd1
             else if ch_ext_start specs = -1 then (ASN__DECODE_FAILED, V_choice 0 V_none, pd)
             else undef pd
         | None \<Rightarrow>
             if ch_ext_start specs = -1 then (ASN__DECODE_FAILED, V_choice 0 V_none, pd)
             else if inext = 0 then undef pd
             else
               let (n, pd1) = aper_get_nsnnwn pd (pc_range_bits (the ct0)); val = n + ch_ext_start specs
               in if n < 0 then (ASN__DECODE_STARVED, V_choice 0 V_none, pd1)
                  else if val < 0 \<or> int (length elements) \<le> val then (ASN__DECODE_FAILED, V_choice 0 V_none, pd1)
                  else finish False (nat val) pd1)"

end
