(* ===== verification/AsnMeets.thy ===== *)
theory AsnMeets
  imports AsnConstructed
begin

text \<open>
  What the coders of a type promise, and that the coders of \<open>AsnConstructed\<close> keep the promise when
  those of their members do. The specification of a type (\<open>per_spec\<close>) gives the bits of a value at
  bit \<open>k\<close> of an octet and the values that survive; \<open>op_meets\<close> says that the encoder, into any roomy
  destination, emits these bits and that the decoder takes them back.
\<close>

section \<open>Specifications\<close>

text \<open>\<open>sp_alt\<close> is what the selector has to choose for a value of an open type, \<open>None\<close> for other types.\<close>

record per_spec =
  sp_field :: "asn_per_constraints option \<Rightarrow> nat \<Rightarrow> asn_value \<Rightarrow> bool list"
  sp_valid :: "asn_per_constraints option \<Rightarrow> asn_value \<Rightarrow> bool"
  sp_alt :: "asn_value \<Rightarrow> (asn_DEF option \<times> nat) option"

definition op_meets :: "('k \<Rightarrow> byte list) \<Rightarrow> ('k \<Rightarrow> nat) \<Rightarrow> 'k per_op \<Rightarrow> per_spec \<Rightarrow> bool" where
  "op_meets contents room op sp \<longleftrightarrow>
     (\<forall>ct. enc_emits contents room (op_encode op ct) (sp_field sp ct) (sp_valid sp ct) \<and>
       new_buffer_emits (op_encode_new op ct) (sp_field sp ct) (sp_valid sp ct) \<and>
       dec_takes (op_decode op ct) (sp_field sp ct) (\<lambda>v. sp_valid sp ct v \<and> sp_alt sp v = None) \<and>
       (\<forall>alt. dec_takes (op_open_get op alt) (sp_field sp ct) (\<lambda>v. sp_valid sp ct v \<and> sp_alt sp v = Some alt)))"

lemma op_meetsD:
  assumes "op_meets contents room op sp"
  shows "enc_emits contents room (op_encode op ct) (sp_field sp ct) (sp_valid sp ct)"
    and "new_buffer_emits (op_encode_new op ct) (sp_field sp ct) (sp_valid sp ct)"
    and "dec_takes (op_decode op ct) (sp_field sp ct) (\<lambda>v. sp_valid sp ct v \<and> sp_alt sp v = None)"
    and "dec_takes (op_open_get op alt) (sp_field sp ct) (\<lambda>v. sp_valid sp ct v \<and> sp_alt sp v = Some alt)"
  using assms unfolding op_meets_def by blast+

text \<open>Values of a type other than an open type.\<close>

definition sp_plain :: "per_spec \<Rightarrow> asn_per_constraints option \<Rightarrow> asn_value \<Rightarrow> bool" where
  "sp_plain sp ct v \<longleftrightarrow> sp_valid sp ct v \<and> sp_alt sp v = None"

lemma op_encode_emits: "op_meets contents room op sp \<Longrightarrow> po_ok po \<Longrightarrow> sp_valid sp ct v \<Longrightarrow> op_encode op ct v po = (r, po') \<Longrightarrow>
    po_emits contents room po (sp_field sp ct (po_nboff po mod 8) v) (r \<noteq> -1) po'"
  by (rule enc_emitsD [OF op_meetsD(1)])

lemma op_decode_takes: "op_meets contents room op sp \<Longrightarrow> pd_ok pd \<Longrightarrow> sp_plain sp ct v \<Longrightarrow>
    pd_bits pd = sp_field sp ct (pd_nboff pd mod 8) v @ rest \<Longrightarrow>
    \<exists>rv pd'. op_decode op ct pd = (rv, v, pd') \<and> rv_code rv = RC_OK \<and> pd_reads pd (sp_field sp ct (pd_nboff pd mod 8) v) pd'"
  unfolding sp_plain_def by (rule dec_takesD [OF op_meetsD(3)])

lemma op_open_get_takes: "op_meets contents room op sp \<Longrightarrow> pd_ok pd \<Longrightarrow> sp_valid sp ct v \<Longrightarrow> sp_alt sp v = Some alt \<Longrightarrow>
    pd_bits pd = sp_field sp ct (pd_nboff pd mod 8) v @ rest \<Longrightarrow>
    \<exists>rv pd'. op_open_get op alt pd = (rv, v, pd') \<and> rv_code rv = RC_OK \<and> pd_reads pd (sp_field sp ct (pd_nboff pd mod 8) v) pd'"
  by (rule dec_takesD [OF op_meetsD(4) [of contents room op sp]]) auto

lemma op_new_meets: "op_meets contents room op sp \<Longrightarrow> op_meets dyn_buffer (\<lambda>_. n) (op_new op) sp"
  by (auto simp: op_meets_def op_new_def new_buffer_emits_def)

text \<open>A field inside an open type, whose member table entry is that of an extension.\<close>

lemma op_open_type_takes:
  assumes "op_meets contents room op sp" and "sp_plain sp ct v" and "open_valid (sp_field sp ct 0 v)"
    and "pd_ok pd" and "pd_bits pd = open_field (pd_nboff pd) (sp_field sp ct 0 v) @ rest"
  shows "\<exists>rv pd'. aper_open_type_get (\<lambda>_. True) (op_decode op ct) sptr pd = (rv, v, pd') \<and> rv_code rv = RC_OK
    \<and> pd_reads pd (open_field (pd_nboff pd) (sp_field sp ct 0 v)) pd'"
proof (rule open_type_takes [OF _ op_meetsD(3) [OF assms(1)] _ assms(3-5)])
  show "new_buffer_emits (op_encode_new op ct) (sp_field sp ct) (\<lambda>v. sp_valid sp ct v \<and> sp_alt sp v = None)"
    using op_meetsD(2) [OF assms(1), of ct] by (simp add: new_buffer_emits_def enc_emits_def)
qed (use assms(2) in \<open>simp add: sp_plain_def\<close>)

context roomy_sink
begin

lemma op_open_type_emits:
  assumes "op_meets c rm op sp" and "sp_plain sp ct v" and "open_valid (sp_field sp ct 0 v)" and "length tmp = 32"
    and "po_ok po" and "aper_open_type_put (\<lambda>_. True) (Some (op_encode_new op ct)) tmp out v po = (r, po')"
  shows "po_emits contents room po (open_field (po_nboff po) (sp_field sp ct 0 v)) (r = 0) po'"
proof (rule open_type_emits [OF _ op_meetsD(3) [OF assms(1)] _ assms(3-6)])
  show "new_buffer_emits (op_encode_new op ct) (sp_field sp ct) (\<lambda>v. sp_valid sp ct v \<and> sp_alt sp v = None)"
    using op_meetsD(2) [OF assms(1), of ct] by (simp add: new_buffer_emits_def enc_emits_def)
qed (use assms(2) in \<open>simp add: sp_plain_def\<close>)

end

section \<open>The bits of a structure\<close>

abbreviation with_types :: "('a \<Rightarrow> 'b) \<Rightarrow> 'a asn_TYPE_member list \<Rightarrow> 'b asn_TYPE_member list" where
  "with_types f ms \<equiv> map (map_asn_TYPE_member f) ms"

definition seq_optionals :: "'t asn_TYPE_member list \<Rightarrow> nat list" where
  "seq_optionals ms = filter (\<lambda>i. mb_optional (ms ! i) \<noteq> 0) [0..<length ms]"

text \<open>The descriptors treated: no additions to the root, all optional members listed in order.\<close>

definition seq_ok :: "asn_SEQUENCE_specifics \<Rightarrow> 't asn_TYPE_member list \<Rightarrow> bool" where
  "seq_ok specs ms \<longleftrightarrow> (seq_first_extension specs < 0 \<or> seq_first_extension specs = int (length ms)) \<and>
     seq_oms specs = seq_optionals ms \<and> seq_roms_count specs = length (seq_oms specs)"

fun members_field :: "nat \<Rightarrow> (per_spec asn_TYPE_member \<times> asn_value) list \<Rightarrow> bool list" where
  "members_field k [] = []"
| "members_field k ((elm, v) # elms) =
     (if member_present elm v then
        let f = sp_field (mb_type elm) (mb_constraints elm) (k mod 8) v in f @ members_field (k + length f) elms
      else members_field k elms)"

text \<open>\<open>us\<close> are the values of the members before.\<close>

fun members_valid :: "asn_value list \<Rightarrow> (per_spec asn_TYPE_member \<times> asn_value) list \<Rightarrow> bool" where
  "members_valid us [] \<longleftrightarrow> True"
| "members_valid us ((elm, v) # elms) \<longleftrightarrow>
     (if member_present elm v then
        sp_valid (mb_type elm) (mb_constraints elm) v \<and>
        (case sp_alt (mb_type elm) v of
           None \<Rightarrow> mb_flags elm \<noteq> ATF_OPEN_TYPE
         | Some alt \<Rightarrow> mb_flags elm = ATF_OPEN_TYPE \<and>
             (case mb_selector elm of None \<Rightarrow> False
              | Some (j, select) \<Rightarrow> j < length us \<and> (case us ! j of V_long x \<Rightarrow> select (sint x) = alt | _ \<Rightarrow> False)))
      else mb_optional elm \<noteq> 0) \<and>
     members_valid (us @ [v]) elms"

definition seq_presence :: "'t asn_TYPE_member list \<Rightarrow> asn_value list \<Rightarrow> bool list" where
  "seq_presence ms vs = map (\<lambda>i. member_present (ms ! i) (vs ! i)) (seq_optionals ms)"

definition seq_field :: "asn_SEQUENCE_specifics \<Rightarrow> per_spec asn_TYPE_member list \<Rightarrow> nat \<Rightarrow> asn_value list \<Rightarrow> bool list" where
  "seq_field specs ms k vs =
     (let pre = (if seq_first_extension specs < 0 then [] else [False]) @ seq_presence ms vs
      in pre @ members_field (k + length pre) (zip ms vs))"

definition seq_valid :: "asn_SEQUENCE_specifics \<Rightarrow> per_spec asn_TYPE_member list \<Rightarrow> asn_value list \<Rightarrow> bool" where
  "seq_valid specs ms vs \<longleftrightarrow> seq_ok specs ms \<and> length vs = length ms \<and> members_valid [] (zip ms vs)"

lemma case_long_iff: "(case w of V_long x \<Rightarrow> P x | _ \<Rightarrow> False) \<longleftrightarrow> (\<exists>x. w = V_long x \<and> P x)"
  by (cases w) auto

lemma member_present_map [simp]: "member_present (map_asn_TYPE_member f m) v = member_present m v"
  by (simp add: member_present_def asn_TYPE_member.map_sel)

lemma seq_optionals_map [simp]: "seq_optionals (with_types f ms) = seq_optionals ms"
  by (auto simp: seq_optionals_def asn_TYPE_member.map_sel intro!: filter_cong)

lemma seq_ok_map [simp]: "seq_ok specs (with_types f ms) = seq_ok specs ms"
  by (simp add: seq_ok_def)

lemma seq_presence_map [simp]: "seq_presence (with_types f ms) vs = seq_presence ms vs"
  unfolding seq_presence_def seq_optionals_map by (rule map_cong) (simp_all add: seq_optionals_def)

lemma members_field_cong: "a mod 8 = b mod 8 \<Longrightarrow> members_field a elms = members_field b elms"
proof (induction elms arbitrary: a b)
  case (Cons e elms)
  obtain elm v where [simp]: "e = (elm, v)" by (cases e)
  let ?f = "sp_field (mb_type elm) (mb_constraints elm) (b mod 8) v"
  have "(a + length ?f) mod 8 = (b + length ?f) mod 8" using Cons.prems by (metis mod_add_left_eq)
  with Cons.IH [OF this] Cons.IH [OF Cons.prems] Cons.prems show ?case by (simp add: Let_def)
qed simp

section \<open>SEQUENCE\<close>

context roomy_sink
begin

lemma presence_emits:
  assumes "po_ok po" and "put_presence_bitmap out elements st oms po = (r, po')"
  shows "po_emits contents room po (map (\<lambda>i. member_present (elements ! i) (st ! i)) oms) (r = 0) po'"
  using assms
proof (induction oms arbitrary: po)
  case (Cons i oms)
  obtain q po1 where 1: "asn_put_few_bits out po (if member_present (elements ! i) (st ! i) then 1 else 0) 1 = (q, po1)"
    by fastforce
  note e1 = bit_emits [OF Cons.prems(1) 1]
  have run: "(r, po') = (if q \<noteq> 0 then (-1, po1) else put_presence_bitmap out elements st oms po1)"
    using Cons.prems(2) 1 by simp
  have "po_emits contents room po ([member_present (elements ! i) (st ! i)]
      @ map (\<lambda>i. member_present (elements ! i) (st ! i)) oms) (r = 0) po'"
    by (rule po_emits_bind [OF e1]) (use Cons.IH [OF po_emits_ok [OF e1]] run in \<open>auto split: if_splits\<close>)
  then show ?case by simp
qed (simp add: po_emits_refl)

lemma root_emits:
  assumes "\<forall>m \<in> set ms. op_meets contents room (op (mb_type m)) (sp (mb_type m))"
    and "members_valid us (zip (with_types sp ms) vs)"
    and "po_ok po" and "SEQUENCE_encode_root (zip (with_types op ms) vs) po = (r, po')"
  shows "po_emits contents room po (members_field (po_nboff po) (zip (with_types sp ms) vs)) (r \<noteq> -1) po'"
  using assms
proof (induction ms vs arbitrary: us po rule: list_induct2')
  case (4 m ms v vs)
  show ?case
  proof (cases "member_present m v")
    case False
    with "4.prems"(2) have "members_valid (us @ [v]) (zip (with_types sp ms) vs)" by simp
    from "4.IH" [OF _ this "4.prems"(3)] "4.prems" False show ?thesis by (simp add: asn_TYPE_member.map_sel)
  next
    case True
    let ?f = "sp_field (sp (mb_type m)) (mb_constraints m) (po_nboff po mod 8) v"
    obtain q po1 where 1: "op_encode (op (mb_type m)) (mb_constraints m) v po = (q, po1)" by fastforce
    have e1: "po_emits contents room po ?f (q \<noteq> -1) po1"
      by (rule op_encode_emits [OF _ "4.prems"(3) _ 1]) (use "4.prems" True in \<open>simp_all add: asn_TYPE_member.map_sel\<close>)
    have run: "(r, po') = (if q = -1 then (-1, po1) else SEQUENCE_encode_root (zip (with_types op ms) vs) po1)"
      using "4.prems"(4) True 1 by (simp add: asn_TYPE_member.map_sel)
    have valid: "members_valid (us @ [v]) (zip (with_types sp ms) vs)"
      using "4.prems"(2) by simp
    have "po_emits contents room po1 (members_field (po_nboff po + length ?f) (zip (with_types sp ms) vs)) (r \<noteq> -1) po'"
      if q: "q \<noteq> -1"
    proof -
      have "po_emits contents room po1 (members_field (po_nboff po1) (zip (with_types sp ms) vs)) (r \<noteq> -1) po'"
        by (rule "4.IH" [OF _ valid po_emits_ok [OF e1 q]]) (use "4.prems"(1) run q in auto)
      moreover have "po_nboff po1 mod 8 = (po_nboff po + length ?f) mod 8"
        by (rule po_emits_nboff [OF "4.prems"(3) e1 q])
      ultimately show ?thesis using members_field_cong by metis
    qed
    then have "po_emits contents room po (?f @ members_field (po_nboff po + length ?f) (zip (with_types sp ms) vs)) (r \<noteq> -1) po'"
      by (rule po_emits_bind [OF e1]) (use run in \<open>auto split: if_splits\<close>)
    then show ?thesis using True by (simp add: Let_def asn_TYPE_member.map_sel)
  qed
qed (simp_all add: po_emits_refl)

lemma sequence_emits:
  assumes meets: "\<forall>m \<in> set ms. op_meets contents room (op (mb_type m)) (sp (mb_type m))"
    and v: "seq_valid specs (with_types sp ms) vs"
    and ok: "po_ok po" and enc: "SEQUENCE_encode_aper tmp out specs (with_types op ms) vs po = (r, po')"
  shows "po_emits contents room po (seq_field specs (with_types sp ms) (po_nboff po) vs) (r \<noteq> -1) po'"
proof -
  let ?ops = "with_types op ms" and ?fe = "seq_first_extension specs"
  from v have len: "length vs = length ms" and oms: "seq_oms specs = seq_optionals ms" "seq_roms_count specs = length (seq_oms specs)"
    and fe: "?fe < 0 \<or> ?fe = int (length ms)" and valid: "members_valid [] (zip (with_types sp ms) vs)"
    by (auto simp: seq_valid_def seq_ok_def)
  have count: "SEQUENCE_handle_extensions_aper tmp out specs ?ops vs Pass_count p = (0, p)" for p
    using fe len by (auto simp: SEQUENCE_handle_extensions_aper_def)
  have root: "\<not> ?fe < 0 \<Longrightarrow> take (nat ?fe) (zip ?ops vs) = zip ?ops vs"
    using fe len by auto
  obtain q1 po1 where 1: "(if ?fe < 0 then (0, po) else asn_put_few_bits out po 0 1) = (q1, po1)" by fastforce
  obtain q2 po2 where 2: "put_presence_bitmap out ?ops vs (seq_optionals ms) po1 = (q2, po2)" by fastforce
  obtain q3 po3 where 3: "SEQUENCE_encode_root (zip ?ops vs) po2 = (q3, po3)" by fastforce
  have run: "(r, po') = (if q1 \<noteq> 0 then (-1, po1) else if q2 \<noteq> 0 then (-1, po2) else if q3 = -1 then (-1, po3) else (0, po3))"
    using enc 1 2 3 by (auto simp: SEQUENCE_encode_aper_def Let_def count root oms split: if_splits)
  have e1: "po_emits contents room po (if ?fe < 0 then [] else [False]) (q1 = 0) po1"
    using 1 bit_emits [OF ok, of False q1 po1] ok by (auto simp: po_emits_refl split: if_splits)
  have pres: "map (\<lambda>i. member_present (?ops ! i) (vs ! i)) (seq_optionals ms) = seq_presence ms vs"
    using seq_presence_map [of op ms vs] by (simp add: seq_presence_def)
  let ?pre = "(if ?fe < 0 then [] else [False]) @ seq_presence ms vs"
  have e12: "po_emits contents room po ?pre (q1 = 0 \<and> q2 = 0) po2"
    by (rule po_emits_bind [OF e1]) (use presence_emits [OF po_emits_ok [OF e1] 2] pres in auto)
  have e3: "po_emits contents room po2 (members_field (po_nboff po + length ?pre) (zip (with_types sp ms) vs)) (q3 \<noteq> -1) po3"
    if "q1 = 0 \<and> q2 = 0"
    using root_emits [OF meets valid po_emits_ok [OF e12 that] 3]
      members_field_cong [OF po_emits_nboff [OF ok e12 that]] by simp
  have "po_emits contents room po (?pre @ members_field (po_nboff po + length ?pre) (zip (with_types sp ms) vs)) (r \<noteq> -1) po'"
    by (rule po_emits_bind [OF e12]) (use e3 run in \<open>auto split: if_splits\<close>)
  then show ?thesis by (simp add: seq_field_def Let_def)
qed

end

lemma bitmap_stream_bits:
  assumes "bytes_bits buf = bs @ pad"
  shows "pd_ok (bitmap_stream buf (length bs))" and "pd_bits (bitmap_stream buf (length bs)) = bs"
proof -
  have "8 * length buf = length bs + length pad" using arg_cong [OF assms, of length] by simp
  with assms show "pd_ok (bitmap_stream buf (length bs))" and "pd_bits (bitmap_stream buf (length bs)) = bs"
    by (simp_all add: pd_ok_def pd_bits_def)
qed

text \<open>The root loop goes on from the members \<open>us\<close> it has stored.\<close>

lemma root_loop_takes:
  assumes "\<forall>m \<in> set ms. op_meets contents room (op (mb_type m)) (sp (mb_type m))"
    and "members_valid us (zip (with_types sp ms) vs)" and "length vs = length ms"
    and "seq_first_extension specs < 0 \<or> seq_first_extension specs = int (length us + length ms)"
    and "pd_ok opmd" and "pd_bits opmd = map (\<lambda>(m, v). member_present m v) (filter (\<lambda>(m, v). mb_optional m \<noteq> 0) (zip ms vs))"
    and "pd_ok pd" and "pd_bits pd = members_field (pd_nboff pd) (zip (with_types sp ms) vs) @ rest"
  shows "\<exists>pd'. SEQUENCE_root_loop specs (enumerate (length us) (with_types op ms)) opmd
      (us @ map member_zero (with_types op ms)) pd = (per_ok, us @ vs, pd')
    \<and> pd_reads pd (members_field (pd_nboff pd) (zip (with_types sp ms) vs)) pd'"
  using assms
proof (induction ms vs arbitrary: us opmd pd rule: list_induct2')
  case 1
  then show ?case by (simp add: pd_reads_refl)
next
  case (4 m ms v vs)
  let ?elm = "map_asn_TYPE_member op m" and ?op = "op (mb_type m)" and ?sp = "sp (mb_type m)" and ?ct = "mb_constraints m"
  have root: "\<not> IN_EXTENSION_GROUP specs (length us)"
    using "4.prems"(4) by (auto simp: IN_EXTENSION_GROUP_def)
  have next_member: "members_valid (us @ [v]) (zip (with_types sp ms) vs)" "length vs = length ms"
    "seq_first_extension specs < 0 \<or> seq_first_extension specs = int (length (us @ [v]) + length ms)"
    "\<forall>m \<in> set ms. op_meets contents room (op (mb_type m)) (sp (mb_type m))"
    using "4.prems"(1-4) by simp_all
  have mandatory: "mb_optional m = 0 \<Longrightarrow> member_present m v"
    using "4.prems"(2) by (simp add: asn_TYPE_member.map_sel split: if_splits)
  obtain present opmd1 where p: "(if mb_optional m \<noteq> 0 then asn_get_few_bits opmd 1 else (1, opmd)) = (present, opmd1)"
    and pv: "mb_optional m \<noteq> 0 \<and> present = 0 \<longleftrightarrow> \<not> member_present m v"
    and ok1: "pd_ok opmd1" and bits1: "pd_bits opmd1 = map (\<lambda>(m, v). member_present m v) (filter (\<lambda>(m, v). mb_optional m \<noteq> 0) (zip ms vs))"
  proof (cases "mb_optional m = 0")
    case True
    with "4.prems"(5,6) that [of 1 opmd] mandatory show ?thesis by simp
  next
    case False
    with "4.prems"(6) have "pd_bits opmd = [member_present m v] @
        map (\<lambda>(m, v). member_present m v) (filter (\<lambda>(m, v). mb_optional m \<noteq> 0) (zip ms vs))" by simp
    from bit_takes [OF "4.prems"(5) this] this False that show ?thesis by (auto simp: pd_reads_def split: if_splits)
  qed
  note unf = enumerate_simps list.map SEQUENCE_root_loop.simps root if_False asn_TYPE_member.map_sel p prod.case Let_def
  show ?case
  proof (cases "member_present m v")
    case False
    then have v: "v = V_none" "mb_flags m = ATF_POINTER" by (auto simp: member_present_def)
    from False have f: "members_field (pd_nboff pd) (zip (with_types sp (m # ms)) (v # vs))
        = members_field (pd_nboff pd) (zip (with_types sp ms) vs)" by simp
    from "4.IH" [OF next_member(4,1-3) ok1 bits1 "4.prems"(7)] "4.prems"(8) obtain pd' where
      "SEQUENCE_root_loop specs (enumerate (length (us @ [v])) (with_types op ms)) opmd1
        ((us @ [v]) @ map member_zero (with_types op ms)) pd = (per_ok, (us @ [v]) @ vs, pd')"
      "pd_reads pd (members_field (pd_nboff pd) (zip (with_types sp ms) vs)) pd'"
      unfolding f by auto
    moreover have "mb_optional m \<noteq> 0" "asn_get_few_bits opmd 1 = (0, opmd1)" using p pv False by auto
    ultimately show ?thesis using v f by (simp add: root asn_TYPE_member.map_sel)
  next
    case True
    let ?f = "sp_field ?sp ?ct (pd_nboff pd mod 8) v" and ?z = "us @ map member_zero (with_types op (m # ms))"
    let ?g = "members_field (pd_nboff pd + length ?f) (zip (with_types sp ms) vs)"
    have f: "members_field (pd_nboff pd) (zip (with_types sp (m # ms)) (v # vs)) = ?f @ ?g"
      using True by (simp add: Let_def asn_TYPE_member.map_sel)
    have meets: "op_meets contents room ?op ?sp" and bits: "pd_bits pd = ?f @ ?g @ rest"
      using "4.prems"(1,8) f by simp_all
    have "\<exists>rv pd1. (if mb_flags m = ATF_OPEN_TYPE then op_open_get ?op
          (case mb_selector m of Some (i, select) \<Rightarrow> (case ?z ! i of V_long x \<Rightarrow> select (sint x) | _ \<Rightarrow> (None, 0)) | None \<Rightarrow> (None, 0)) pd
        else op_decode ?op ?ct pd) = (rv, v, pd1) \<and> rv_code rv = RC_OK \<and> pd_reads pd ?f pd1"
    proof (cases "sp_alt ?sp v")
      case None
      then have "sp_plain ?sp ?ct v" "mb_flags m \<noteq> ATF_OPEN_TYPE"
        using "4.prems"(2) True by (simp_all add: sp_plain_def asn_TYPE_member.map_sel)
      with op_decode_takes [OF meets "4.prems"(7) _ bits] show ?thesis by simp
    next
      case (Some alt)
      with "4.prems"(2) True obtain i select x where sel: "mb_flags m = ATF_OPEN_TYPE" "mb_selector m = Some (i, select)"
        "i < length us" "us ! i = V_long x" "select (sint x) = alt" and v: "sp_valid ?sp ?ct v"
        by (auto simp: asn_TYPE_member.map_sel case_long_iff split: option.splits)
      from op_open_get_takes [OF meets "4.prems"(7) v Some bits] sel show ?thesis by (simp add: nth_append)
    qed
    then obtain rv pd1 where d: "(if mb_flags m = ATF_OPEN_TYPE then op_open_get ?op
          (case mb_selector m of Some (i, select) \<Rightarrow> (case ?z ! i of V_long x \<Rightarrow> select (sint x) | _ \<Rightarrow> (None, 0)) | None \<Rightarrow> (None, 0)) pd
        else op_decode ?op ?ct pd) = (rv, v, pd1)" and rv: "rv_code rv = RC_OK" and r1: "pd_reads pd ?f pd1" by blast
    have g: "?g = members_field (pd_nboff pd1) (zip (with_types sp ms) vs)"
      using pd_reads_nboff [OF "4.prems"(7) r1] by (intro members_field_cong) simp
    from "4.IH" [OF next_member(4,1-3) ok1 bits1 pd_reads_ok [OF r1], of ] pd_reads_bits [OF r1 bits] obtain pd' where
      l: "SEQUENCE_root_loop specs (enumerate (length (us @ [v])) (with_types op ms)) opmd1
        ((us @ [v]) @ map member_zero (with_types op ms)) pd1 = (per_ok, (us @ [v]) @ vs, pd')"
      and r2: "pd_reads pd1 ?g pd'"
      unfolding g by auto
    have st: "?z[length us := v] = (us @ [v]) @ map member_zero (with_types op ms)" by (simp add: list_update_append)
    have "SEQUENCE_root_loop specs (enumerate (length us) (with_types op (m # ms))) opmd ?z pd = (per_ok, us @ v # vs, pd')"
      using pv True d rv l st by (simp only: unf) (simp add: asn_TYPE_member.map_sel)
    with pd_reads_trans [OF r1 r2] f show ?thesis by auto
  qed
qed simp_all

lemma seq_presence_zip:
  assumes "length vs = length ms"
  shows "seq_presence ms vs = map (\<lambda>(m, v). member_present m v) (filter (\<lambda>(m, v). mb_optional m \<noteq> 0) (zip ms vs))"
proof -
  have "zip ms vs = map (\<lambda>i. (ms ! i, vs ! i)) [0..<length ms]"
    by (rule nth_equalityI) (simp_all add: assms)
  then show ?thesis by (simp add: seq_presence_def seq_optionals_def filter_map comp_def)
qed

lemma optional_bit_takes:
  assumes "pd_ok pd" and "pd_bits pd = (if absent then [] else [b]) @ rest"
  shows "\<exists>pd'. (if absent then (0, pd) else asn_get_few_bits pd 1) = (if \<not> absent \<and> b then 1 else 0, pd')
    \<and> pd_reads pd (if absent then [] else [b]) pd'"
  using bit_takes [OF assms(1), of b rest] assms pd_reads_refl [OF assms(1)] by (auto split: if_splits)

lemma sequence_takes:
  assumes meets: "\<forall>m \<in> set ms. op_meets contents room (op (mb_type m)) (sp (mb_type m))"
    and v: "seq_valid specs (with_types sp ms) vs"
    and ok: "pd_ok pd" and bits: "pd_bits pd = seq_field specs (with_types sp ms) (pd_nboff pd) vs @ rest"
  shows "\<exists>pd'. SEQUENCE_decode_aper specs (with_types op ms) pd = (per_ok, V_struct vs, pd')
    \<and> pd_reads pd (seq_field specs (with_types sp ms) (pd_nboff pd) vs) pd'"
proof -
  let ?fe = "seq_first_extension specs" and ?pres = "seq_presence ms vs"
  from v have len: "length vs = length ms" and roms: "seq_roms_count specs = length ?pres"
    and fe: "?fe < 0 \<or> ?fe = int (length ([] :: asn_value list) + length ms)" and valid: "members_valid [] (zip (with_types sp ms) vs)"
    by (auto simp: seq_valid_def seq_ok_def seq_presence_def)
  let ?ext = "if ?fe < 0 then [] else [False]"
  let ?body = "members_field (pd_nboff pd + length (?ext @ ?pres)) (zip (with_types sp ms) vs)"
  have f: "seq_field specs (with_types sp ms) (pd_nboff pd) vs = ?ext @ ?pres @ ?body"
    by (simp add: seq_field_def Let_def)
  have b0: "pd_bits pd = ?ext @ ?pres @ ?body @ rest" using bits f by simp
  from optional_bit_takes [OF ok, of "?fe < 0" False] b0 obtain pd1 where
    1: "(if ?fe < 0 then (0, pd) else asn_get_few_bits pd 1) = (0, pd1)" and r1: "pd_reads pd ?ext pd1" by auto
  note s1 = pd_reads_step [OF ok r1 b0]
  have "\<exists>opres pad pd2. (if length ?pres \<noteq> 0 then asn_get_many_bits pd1 False (int (length ?pres)) else (0, [], pd1))
        = (0, opres, pd2) \<and> bytes_bits opres = ?pres @ pad \<and> pd_reads pd1 ?pres pd2"
    using many_bits_takes [OF s1(1,2)] pd_reads_refl [OF s1(1)] by (cases "?pres = []") auto
  then obtain opres pad pd2 where 2: "(if length ?pres \<noteq> 0 then asn_get_many_bits pd1 False (int (length ?pres)) else (0, [], pd1))
        = (0, opres, pd2)" and opres: "bytes_bits opres = ?pres @ pad" and r2: "pd_reads pd1 ?pres pd2" by blast
  note r12 = pd_reads_trans [OF r1 r2]
  have b12: "pd_bits pd = (?ext @ ?pres) @ ?body @ rest" using b0 by simp
  note s2 = pd_reads_step [OF ok r12 b12]
  have body: "?body = members_field (pd_nboff pd2) (zip (with_types sp ms) vs)"
    by (rule members_field_cong) (use s2(3) in \<open>simp add: mod_add_left_eq\<close>)
  have stream: "pd_bits (bitmap_stream opres (length ?pres))
      = map (\<lambda>(m, v). member_present m v) (filter (\<lambda>(m, v). mb_optional m \<noteq> 0) (zip ms vs))"
    unfolding bitmap_stream_bits(2) [OF opres] by (rule seq_presence_zip [OF len])
  from root_loop_takes [OF meets valid len fe bitmap_stream_bits(1) [OF opres] stream s2(1) s2(2) [unfolded body]] obtain pd3 where
    3: "SEQUENCE_root_loop specs (enumerate 0 (with_types op ms)) (bitmap_stream opres (length ?pres))
        (map member_zero (with_types op ms)) pd2 = (per_ok, vs, pd3)"
    and r3: "pd_reads pd2 ?body pd3" unfolding body by auto
  have "SEQUENCE_decode_aper specs (with_types op ms) pd = (per_ok, V_struct vs, pd3)"
    unfolding SEQUENCE_decode_aper_def Let_def 1 2 prod.case roms 3 by simp
  with pd_reads_trans [OF r12 r3] f show ?thesis by auto
qed

section \<open>SEQUENCE OF\<close>

fun elements_field :: "(nat \<Rightarrow> asn_value \<Rightarrow> bool list) \<Rightarrow> nat \<Rightarrow> asn_value list \<Rightarrow> bool list" where
  "elements_field field k [] = []"
| "elements_field field k (v # vs) = field (k mod 8) v @ elements_field field (k + length (field (k mod 8) v)) vs"

text \<open>The number of elements, at bit \<open>k\<close>.\<close>

definition list_length_field :: "asn_per_constraints option \<Rightarrow> nat \<Rightarrow> nat \<Rightarrow> bool list" where
  "list_length_field pc k n =
     (case map_option pcs_size pc of
        None \<Rightarrow> align_pad k @ len_bits n
      | Some ct \<Rightarrow>
          let lb = sint (pc_lower_bound ct); ub = sint (pc_upper_bound ct); pre = (if pc_extensible ct then [False] else [])
          in pre @ nsnnwn_field (ub - lb + 1) (k + length pre) (int n - lb))"

definition list_field ::
  "asn_per_constraints option \<Rightarrow> per_spec asn_TYPE_member \<Rightarrow> asn_per_constraints option \<Rightarrow> nat \<Rightarrow> asn_value list \<Rightarrow> bool list" where
  "list_field td elm ct k vs =
     (let len = list_length_field (constraints_or ct td) k (length vs)
      in len @ elements_field (sp_field (mb_type elm) (mb_constraints elm)) (k + length len) vs)"

text \<open>A list that survives has a size in the range of its type; no range at all allows 16K elements.\<close>

definition list_valid ::
  "asn_per_constraints option \<Rightarrow> per_spec asn_TYPE_member \<Rightarrow> asn_per_constraints option \<Rightarrow> asn_value list \<Rightarrow> bool" where
  "list_valid td elm ct vs \<longleftrightarrow>
     (case map_option pcs_size (constraints_or ct td) of
        None \<Rightarrow> length vs < 16384
      | Some c \<Rightarrow>
          let lb = sint (pc_lower_bound c); ub = sint (pc_upper_bound c)
          in 0 \<le> pc_effective_bits c \<and> 0 \<le> lb \<and> lb \<le> int (length vs) \<and> int (length vs) \<le> ub \<and> ub - lb + 1 \<le> 65536) \<and>
     (\<forall>v \<in> set vs. v \<noteq> V_none \<and> sp_plain (mb_type elm) (mb_constraints elm) v)"

lemma elements_field_cong: "a mod 8 = b mod 8 \<Longrightarrow> elements_field f a vs = elements_field f b vs"
proof (induction vs arbitrary: a b)
  case (Cons v vs)
  have "(a + length (f (b mod 8) v)) mod 8 = (b + length (f (b mod 8) v)) mod 8" using Cons.prems by (metis mod_add_left_eq)
  from Cons.IH [OF this] Cons.prems show ?case by simp
qed simp

lemma aper_put_nsnnwn_result: "fst (aper_put_nsnnwn out po rng n) \<in> {-1, 0}"
  using asn_put_few_bits_result by (auto simp: aper_put_nsnnwn_def Let_def split: prod.split)

lemma encode_elements_result: "encode_elements enc vs po = (r, po') \<Longrightarrow> r = 0 \<or> r = -1"
  by (induction vs arbitrary: po) (auto split: prod.splits if_splits)

context roomy_sink
begin

lemma elements_emits:
  assumes enc: "\<And>v po r po'. po_ok po \<Longrightarrow> v \<in> set vs \<Longrightarrow> enc v po = (r, po') \<Longrightarrow>
      po_emits contents room po (field (po_nboff po mod 8) v) (r \<noteq> -1) po'"
    and "V_none \<notin> set vs" and "po_ok po" and "encode_elements enc vs po = (r, po')"
  shows "po_emits contents room po (elements_field field (po_nboff po) vs) (r = 0) po'"
  using assms
proof (induction vs arbitrary: po)
  case (Cons v vs)
  obtain q po1 where 1: "enc v po = (q, po1)" by fastforce
  let ?f = "field (po_nboff po mod 8) v"
  have e1: "po_emits contents room po ?f (q \<noteq> -1) po1" by (rule Cons.prems(1) [OF Cons.prems(3) _ 1]) simp
  have run: "(r, po') = (if q = -1 then (-1, po1) else encode_elements enc vs po1)"
    using Cons.prems(2,4) 1 by (simp split: if_splits)
  have rest: "po_emits contents room po1 (elements_field field (po_nboff po1) vs) (r = 0) po'"
    if q: "q \<noteq> -1"
    by (rule Cons.IH [OF Cons.prems(1) _ po_emits_ok [OF e1 q]]) (use Cons.prems(2) run q in auto)
  have "po_emits contents room po (?f @ elements_field field (po_nboff po + length ?f) vs) (r = 0) po'"
    by (rule po_emits_bind [OF e1])
      (use rest run elements_field_cong [OF po_emits_nboff [OF Cons.prems(3) e1]] in \<open>auto split: if_splits\<close>)
  then show ?case using rest run by (auto split: if_splits)
qed (simp add: po_emits_refl)

lemma list_emits:
  assumes meets: "op_meets contents room (op (mb_type elm)) (sp (mb_type elm))"
    and v: "list_valid td (map_asn_TYPE_member sp elm) ct vs"
    and ok: "po_ok po" and enc: "SEQUENCE_OF_encode_aper out td (map_asn_TYPE_member op elm) ct vs po = (r, po')"
  shows "po_emits contents room po (list_field td (map_asn_TYPE_member sp elm) ct (po_nboff po) vs) (r \<noteq> -1) po'"
proof -
  let ?pc = "constraints_or ct td" and ?n = "length vs"
  let ?enc = "op_encode (op (mb_type elm)) (mb_constraints elm)" and ?field = "sp_field (sp (mb_type elm)) (mb_constraints elm)"
  let ?len = "list_length_field ?pc (po_nboff po) ?n"
  from v have elems: "v \<in> set vs \<Longrightarrow> sp_valid (sp (mb_type elm)) (mb_constraints elm) v" "V_none \<notin> set vs" for v
    by (auto simp: list_valid_def sp_plain_def asn_TYPE_member.map_sel)
  have rest: "po_emits contents room p (elements_field ?field (po_nboff p) vs) (q = 0) p'"
    if "po_ok p" "encode_elements ?enc vs p = (q, p')" for p q p'
    by (rule elements_emits [OF _ elems(2) that]) (use op_encode_emits [OF meets] elems(1) in auto)
  have fin: ?thesis if e: "po_emits contents room po ?len ok1 po1"
      and run: "ok1 \<Longrightarrow> encode_elements ?enc vs po1 = (r, po')" and fail: "\<not> ok1 \<Longrightarrow> r = -1" for ok1 po1
  proof -
    have "po_emits contents room po (?len @ elements_field ?field (po_nboff po + length ?len) vs) (r = 0) po'"
      by (rule po_emits_bind [OF e])
        (use rest [OF po_emits_ok [OF e] run] fail elements_field_cong [OF po_emits_nboff [OF ok e]] in auto)
    moreover have "r = 0 \<longleftrightarrow> r \<noteq> -1" using run fail encode_elements_result [of ?enc vs po1 r po'] by auto
    ultimately show ?thesis by (simp add: list_field_def Let_def asn_TYPE_member.map_sel)
  qed
  show ?thesis
  proof (cases "map_option pcs_size ?pc")
    case None
    obtain l po1 where l: "aper_put_length out po (-1) ?n = (l, po1)" by fastforce
    note e1 = length_emits [OF ok _ l, simplified]
    have "?n < 16384" using v None by (simp add: list_valid_def)
    then have n: "l = int ?n" if "\<not> l < 0" using e1(2) that by (simp add: len_chunk_def)
    have l1: "l < 0 \<Longrightarrow> l = -1" using l by (auto simp: aper_put_length_def Let_def split: prod.splits if_splits)
    have "(r, po') = (if l < 0 then (-1, po1) else encode_elements ?enc vs po1)"
      using enc None l n encode_elements_result [of ?enc vs po1]
      by (auto simp: SEQUENCE_OF_encode_aper_def asn_TYPE_member.map_sel encode_fragments.simps [of out _ vs] Let_def split: prod.splits if_splits)
    then show ?thesis using fin [of "\<not> l < 0" po1] e1(1) None l1 by (auto simp: list_length_field_def split: if_splits)
  next
    case (Some c)
    let ?lb = "sint (pc_lower_bound c)" and ?ub = "sint (pc_upper_bound c)" and ?pre = "if pc_extensible c then [False] else []"
    have root: "0 \<le> pc_effective_bits c" "?lb \<le> int ?n" "int ?n \<le> ?ub" "?ub - ?lb + 1 \<le> 65536"
      using v Some by (auto simp: list_valid_def Let_def)
    let ?rng = "?ub - ?lb + 1" and ?m = "int ?n - ?lb"
    have m: "int (nat ?m) = ?m" using root by simp
    obtain q po1 where 1: "(if pc_extensible c then asn_put_few_bits out po 0 1 else (0, po)) = (q, po1)" by fastforce
    have e1: "po_emits contents room po ?pre (q = 0) po1"
      using 1 bit_emits [OF ok, of False q po1] ok by (auto simp: po_emits_refl split: if_splits)
    obtain l po2 where 2: "aper_put_nsnnwn out po1 ?rng ?m = (l, po2)" by fastforce
    have l: "aper_put_length out po1 ?rng (nat ?m) = (l, po2)"
      unfolding aper_put_length_def m using 2 root by simp
    have l_res: "l = -1 \<or> l = 0"
      using aper_put_nsnnwn_result [of out po1 ?rng ?m] 2 by simp
    have "(r, po') = (if q \<noteq> 0 then (-1, po1) else if l < 0 then (-1, po2) else encode_elements ?enc vs po2)"
      using enc Some 1 l root
      by (cases "pc_extensible c"; cases "q = 0") (simp_all add: SEQUENCE_OF_encode_aper_def asn_TYPE_member.map_sel Let_def)
    moreover have "po_emits contents room po (?pre @ nsnnwn_field ?rng (po_nboff po + length ?pre) ?m) (q = 0 \<and> l = 0) po2"
    proof (rule po_emits_bind [OF e1])
      assume q: "q = 0"
      show "po_emits contents room po1 (nsnnwn_field ?rng (po_nboff po + length ?pre) ?m) (q = 0 \<and> l = 0) po2"
        using nsnnwn_emits [OF po_emits_ok [OF e1 q] root(4) 2] nsnnwn_field_cong [OF po_emits_nboff [OF ok e1 q]] q by simp
    qed simp
    ultimately show ?thesis
      using fin [of "q = 0 \<and> l = 0" po2] Some l_res
      by (auto simp: list_length_field_def Let_def split: if_splits)
  qed
qed

end

lemma decode_elements_takes:
  assumes dec: "\<And>v pd rest. v \<in> set vs \<Longrightarrow> pd_ok pd \<Longrightarrow> pd_bits pd = field (pd_nboff pd mod 8) v @ rest \<Longrightarrow>
      \<exists>rv pd'. dec pd = (rv, v, pd') \<and> rv_code rv = RC_OK \<and> pd_reads pd (field (pd_nboff pd mod 8) v) pd'"
    and "pd_ok pd" and "rv_code rv = RC_OK" and "pd_bits pd = elements_field field (pd_nboff pd) vs @ rest"
  shows "\<exists>rv' pd'. decode_elements dec (length vs) rv acc pd = (rv', acc @ vs, pd') \<and> rv_code rv' = RC_OK
    \<and> pd_reads pd (elements_field field (pd_nboff pd) vs) pd'"
  using assms
proof (induction vs arbitrary: acc pd rv)
  case (Cons v vs)
  let ?f = "field (pd_nboff pd mod 8) v" and ?g = "elements_field field (pd_nboff pd + length (field (pd_nboff pd mod 8) v)) vs"
  have bits: "pd_bits pd = ?f @ ?g @ rest" using Cons.prems(4) by simp
  from Cons.prems(1) [OF _ Cons.prems(2) bits] obtain rv1 pd1 where
    d: "dec pd = (rv1, v, pd1)" "rv_code rv1 = RC_OK" and r1: "pd_reads pd ?f pd1" by auto
  have g: "?g = elements_field field (pd_nboff pd1) vs"
    using pd_reads_nboff [OF Cons.prems(2) r1] by (intro elements_field_cong) simp
  have "\<exists>rv2 pd2. decode_elements dec (length vs) rv1 (acc @ [v]) pd1 = (rv2, (acc @ [v]) @ vs, pd2) \<and> rv_code rv2 = RC_OK
      \<and> pd_reads pd1 ?g pd2"
    unfolding g by (rule Cons.IH [OF Cons.prems(1) pd_reads_ok [OF r1] d(2)]) (use pd_reads_bits [OF r1 bits] g in auto)
  with d pd_reads_trans [OF r1] show ?case by auto
qed (simp add: pd_reads_refl)

lemma list_takes:
  assumes meets: "op_meets contents room (op (mb_type elm)) (sp (mb_type elm))"
    and v: "list_valid td (map_asn_TYPE_member sp elm) ct vs"
    and ok: "pd_ok pd" and bits: "pd_bits pd = list_field td (map_asn_TYPE_member sp elm) ct (pd_nboff pd) vs @ rest"
  shows "\<exists>rv pd'. SET_OF_decode_aper td (map_asn_TYPE_member op elm) ct pd = (rv, V_list vs, pd') \<and> rv_code rv = RC_OK
    \<and> pd_reads pd (list_field td (map_asn_TYPE_member sp elm) ct (pd_nboff pd) vs) pd'"
proof -
  let ?pc = "constraints_or ct td" and ?n = "length vs"
  let ?dec = "op_decode (op (mb_type elm)) (mb_constraints elm)" and ?field = "sp_field (sp (mb_type elm)) (mb_constraints elm)"
  let ?len = "list_length_field ?pc (pd_nboff pd) ?n"
  let ?body = "elements_field ?field (pd_nboff pd + length ?len) vs"
  have f: "list_field td (map_asn_TYPE_member sp elm) ct (pd_nboff pd) vs = ?len @ ?body"
    by (simp add: list_field_def Let_def asn_TYPE_member.map_sel)
  have b0: "pd_bits pd = ?len @ ?body @ rest" using bits f by simp
  have dec: "\<exists>rv pd'. ?dec p = (rv, v, pd') \<and> rv_code rv = RC_OK \<and> pd_reads p (?field (pd_nboff p mod 8) v) pd'"
    if "v \<in> set vs" "pd_ok p" "pd_bits p = ?field (pd_nboff p mod 8) v @ rest" for v p rest
    using op_decode_takes [OF meets that(2) _ that(3)] v that(1) by (simp add: list_valid_def asn_TYPE_member.map_sel)
  have elems: "\<exists>rv pd2. decode_elements ?dec ?n per_ok [] pd1 = (rv, vs, pd2) \<and> rv_code rv = RC_OK
      \<and> pd_reads pd (list_field td (map_asn_TYPE_member sp elm) ct (pd_nboff pd) vs) pd2"
    if r1: "pd_reads pd ?len pd1" for pd1
  proof -
    have body: "?body = elements_field ?field (pd_nboff pd1) vs"
      using pd_reads_nboff [OF ok r1] by (intro elements_field_cong) simp
    have "\<exists>rv pd2. decode_elements ?dec ?n per_ok [] pd1 = (rv, [] @ vs, pd2) \<and> rv_code rv = RC_OK \<and> pd_reads pd1 ?body pd2"
      unfolding body by (rule decode_elements_takes [OF dec pd_reads_ok [OF r1]])
        (use pd_reads_bits [OF r1 b0] body in \<open>auto simp del: elements_field.simps\<close>)
    with pd_reads_trans [OF r1] f show ?thesis by auto
  qed
  show ?thesis
  proof (cases "map_option pcs_size ?pc")
    case None
    then have n: "?n < 16384" and len: "?len = align_pad (pd_nboff pd) @ len_bits ?n"
      using v by (simp_all add: list_valid_def list_length_field_def)
    from aper_get_length_neg [OF ok, of "-1" ?n "?body @ rest"] b0 n obtain pd1 where
      l: "aper_get_length pd (-1) (-1) = (int ?n, False, pd1)" and r1: "pd_reads pd ?len pd1"
      unfolding len by (auto simp: len_chunk_def)
    from elems [OF r1] obtain rv pd2 where "decode_elements ?dec ?n per_ok [] pd1 = (rv, vs, pd2)" "rv_code rv = RC_OK"
      "pd_reads pd (list_field td (map_asn_TYPE_member sp elm) ct (pd_nboff pd) vs) pd2" by blast
    with None l show ?thesis by (simp add: SET_OF_decode_aper_def asn_TYPE_member.map_sel Let_def)
  next
    case (Some c)
    let ?lb = "sint (pc_lower_bound c)" and ?ub = "sint (pc_upper_bound c)" and ?pre = "if pc_extensible c then [False] else []"
    have root: "0 \<le> pc_effective_bits c" "0 \<le> ?lb" "?lb \<le> int ?n" "int ?n \<le> ?ub" "?ub - ?lb + 1 \<le> 65536"
      using v Some by (auto simp: list_valid_def Let_def)
    let ?rng = "?ub - ?lb + 1" and ?m = "int ?n - ?lb"
    let ?num = "nsnnwn_field ?rng (pd_nboff pd + length ?pre) ?m"
    have len: "?len = ?pre @ ?num" by (simp only: list_length_field_def Some option.case Let_def)
    have b1: "pd_bits pd = ?pre @ ?num @ ?body @ rest" using b0 len by simp
    have "pd_bits pd = (if \<not> pc_extensible c then [] else [False]) @ ?num @ ?body @ rest" using b1 by simp
    from optional_bit_takes [OF ok this] obtain pd0 where
      0: "(if pc_extensible c then asn_get_few_bits pd 1 else (0, pd)) = (0, pd0)" and r0: "pd_reads pd ?pre pd0"
      by (auto split: if_splits)
    note s0 = pd_reads_step [OF ok r0 b1]
    have num: "?num = nsnnwn_field ?rng (pd_nboff pd0) ?m"
      by (rule nsnnwn_field_cong) (use s0(3) in \<open>simp add: mod_add_left_eq\<close>)
    from nsnnwn_takes [OF s0(1) root(5) _ _ s0(2) [unfolded num]] root obtain pd1 where
      l: "aper_get_nsnnwn pd0 ?rng = (?m, pd1)" and r1: "pd_reads pd0 ?num pd1" unfolding num by auto
    from elems [of pd1] pd_reads_trans [OF r0 r1] len obtain rv pd2 where
      e: "decode_elements ?dec ?n per_ok [] pd1 = (rv, vs, pd2)" "rv_code rv = RC_OK"
      "pd_reads pd (list_field td (map_asn_TYPE_member sp elm) ct (pd_nboff pd) vs) pd2" by auto
    have "SET_OF_decode_aper td (map_asn_TYPE_member op elm) ct pd = (list_end rv, V_list vs, pd2)"
      unfolding SET_OF_decode_aper_def Let_def Some option.case 0 prod.case using root l e(1)
      by (simp add: asn_TYPE_member.map_sel)
    with e show ?thesis by simp
  qed
qed

section \<open>CHOICE\<close>

definition choice_outside :: "asn_per_constraint \<Rightarrow> nat \<Rightarrow> bool" where
  "choice_outside c present \<longleftrightarrow> int present < sint (pc_lower_bound c) \<or> sint (pc_upper_bound c) < int present"

text \<open>The index of an extension is coded as a number whose range is the number of bits of a root index.\<close>

definition choice_field ::
  "asn_per_constraints option \<Rightarrow> asn_CHOICE_specifics \<Rightarrow> per_spec asn_TYPE_member list \<Rightarrow> asn_per_constraints option
    \<Rightarrow> nat \<Rightarrow> nat \<times> asn_value \<Rightarrow> bool list" where
  "choice_field td specs elements ct k choice =
     (let c = pcs_value (the (constraints_or ct td)); present = fst choice - 1; elm = elements ! present;
          present_enc = canonical (ch_to_canonical_order specs) present; rb = pc_range_bits c;
          index = (if choice_outside c present
                   then [True] @ nsnnwn_field rb (Suc k) (int present_enc - ch_ext_start specs)
                   else (if pc_extensible c then [False] else []) @ bits_of_int (nat rb) (int present_enc));
          field = (\<lambda>k. sp_field (mb_type elm) (mb_constraints elm) k (snd choice))
      in index @ (if choice_outside c present then open_field (k + length index) (field 0) else field ((k + length index) mod 8)))"

definition choice_valid ::
  "asn_per_constraints option \<Rightarrow> asn_CHOICE_specifics \<Rightarrow> per_spec asn_TYPE_member list \<Rightarrow> asn_per_constraints option
    \<Rightarrow> nat \<times> asn_value \<Rightarrow> bool" where
  "choice_valid td specs elements ct choice \<longleftrightarrow>
     (case map_option pcs_value (constraints_or ct td) of
        None \<Rightarrow> False
      | Some c \<Rightarrow>
          let present = fst choice - 1; elm = elements ! present; rb = pc_range_bits c;
              present_enc = canonical (ch_to_canonical_order specs) present; n = int present_enc - ch_ext_start specs
          in 0 < fst choice \<and> fst choice \<le> length elements \<and> 0 \<le> rb \<and> rb \<le> 31 \<and>
             canonical (ch_from_canonical_order specs) present_enc = present \<and>
             member_present elm (snd choice) \<and> sp_plain (mb_type elm) (mb_constraints elm) (snd choice) \<and>
             (if choice_outside c present
              then pc_extensible c \<and> ch_ext_start specs \<noteq> -1 \<and> 0 \<le> n \<and> n < 2 ^ nat (nsnnwn_bits rb 1) \<and>
                present_enc < length elements \<and> open_valid (sp_field (mb_type elm) (mb_constraints elm) 0 (snd choice))
              else int present_enc < 2 ^ nat rb \<and> int present_enc \<le> sint (pc_upper_bound c)))"

lemma nsnnwn_fits_takes:
  assumes "pd_ok pd" and "0 \<le> rng" and "rng \<le> 255" and "0 \<le> n" and "n < 2 ^ nat (nsnnwn_bits rng 1)"
    and "pd_bits pd = nsnnwn_field rng k n @ rest"
  shows "\<exists>pd'. aper_get_nsnnwn pd rng = (n, pd') \<and> pd_reads pd (nsnnwn_field rng k n) pd'"
proof -
  let ?b = "nat (nsnnwn_bits rng 1)"
  have b: "int ?b = nsnnwn_bits rng 1" "?b \<le> 31" using nsnnwn_bits_bounds [of 1 rng] by auto
  have "take_bit ?b n = n" using assms(4,5) by (simp add: take_bit_int_eq_self)
  with get_field_reads [OF assms(1) _ b(2), of n rest] assms b(1) show ?thesis
    by (simp add: aper_get_nsnnwn_def nsnnwn_field_def)
qed

context roomy_sink
begin

lemma choice_emits:
  assumes meets: "\<forall>m \<in> set ms. op_meets contents room (op (mb_type m)) (sp (mb_type m))" and tmp: "length tmp = 32"
    and v: "choice_valid td specs (with_types sp ms) ct choice"
    and ok: "po_ok po" and enc: "CHOICE_encode_aper tmp out td specs (with_types op ms) ct choice po = (r, po')"
  shows "po_emits contents room po (choice_field td specs (with_types sp ms) ct (po_nboff po) choice) (r \<noteq> -1) po'"
proof -
  obtain c where c: "map_option pcs_value (constraints_or ct td) = Some c"
    using v by (auto simp: choice_valid_def split: option.splits)
  then have c': "pcs_value (the (constraints_or ct td)) = c" by auto
  let ?present = "fst choice - 1" and ?rb = "pc_range_bits c"
  let ?enc = "canonical (ch_to_canonical_order specs) ?present" and ?m = "ms ! ?present"
  let ?out = "choice_outside c ?present" and ?n = "int (canonical (ch_to_canonical_order specs) ?present) - ch_ext_start specs"
  have p: "0 < fst choice" "fst choice \<le> length ms" using v c by (auto simp: choice_valid_def Let_def)
  then have elm: "?present < length ms" by linarith
  note sel = nth_map [OF elm [unfolded One_nat_def]] asn_TYPE_member.map_sel
  from v c have w: "0 \<le> ?rb" "?rb \<le> 31" "member_present ?m (snd choice)" "sp_plain (sp (mb_type ?m)) (mb_constraints ?m) (snd choice)"
    and ext: "?out \<Longrightarrow> pc_extensible c \<and> ch_ext_start specs \<noteq> -1 \<and> open_valid (sp_field (sp (mb_type ?m)) (mb_constraints ?m) 0 (snd choice))"
    by (simp_all add: choice_valid_def Let_def sel)
  have meet: "op_meets contents room (op (mb_type ?m)) (sp (mb_type ?m))" using meets elm by simp
  let ?field = "\<lambda>k. sp_field (sp (mb_type ?m)) (mb_constraints ?m) k (snd choice)"
  have out: "?out = (0 \<le> ?rb \<and> (int ?present < sint (pc_lower_bound c) \<or> sint (pc_upper_bound c) < int ?present))"
    using w(1) by (simp add: choice_outside_def)
  obtain q po1 where 1: "(if pc_extensible c then asn_put_few_bits out po (if ?out then 1 else 0) 1
      else (if ?out then -1 else 0, po)) = (q, po1)" by fastforce
  let ?pre = "if pc_extensible c then [?out] else []"
  have e1: "po_emits contents room po ?pre (q = 0) po1"
    using 1 bit_emits [OF ok, of ?out q po1] ext ok by (auto simp: po_emits_refl split: if_splits)
  show ?thesis
  proof (cases ?out)
    case False
    obtain l po2 where 2: "asn_put_few_bits out po1 (of_nat ?enc) ?rb = (l, po2)" by fastforce
    have run: "(r, po') = (if q \<noteq> 0 then (-1, po1) else if l \<noteq> 0 then (-1, po2)
        else op_encode (op (mb_type ?m)) (mb_constraints ?m) (snd choice) po2)"
      using enc p w 1 2 False
      unfolding CHOICE_encode_aper_def Let_def c option.case length_map out [symmetric]
      by (simp add: sel split: if_splits)
    let ?idx = "?pre @ bits_of_int (nat ?rb) (int ?enc)"
    have "po_emits contents room po1 (bits_of_int (nat ?rb) (int ?enc)) (l = 0) po2" if "q = 0"
      using few_int_emits [OF po_emits_ok [OF e1 that] w(1), of "int ?enc"] w(2) 2 by simp
    then have e12: "po_emits contents room po ?idx (q = 0 \<and> l = 0) po2"
      by (intro po_emits_bind [OF e1]) auto
    have v': "sp_valid (sp (mb_type ?m)) (mb_constraints ?m) (snd choice)" using w(4) by (simp add: sp_plain_def)
    have "po_emits contents room po (?idx @ ?field ((po_nboff po + length ?idx) mod 8)) (r \<noteq> -1) po'"
      by (rule po_emits_bind [OF e12])
        (use op_encode_emits [OF meet po_emits_ok [OF e12] v'] run po_emits_nboff [OF ok e12] in \<open>auto split: if_splits\<close>)
    then show ?thesis using False by (cases "pc_extensible c") (simp_all add: choice_field_def Let_def c' sel)
  next
    case True
    note ext = ext [OF True]
    obtain l po2 where 2: "aper_put_nsnnwn out po1 ?rb ?n = (l, po2)" by fastforce
    obtain o3 po3 where 3: "aper_open_type_put (\<lambda>_. True) (Some (op_encode_new (op (mb_type ?m)) (mb_constraints ?m))) tmp out (snd choice) po2
        = (o3, po3)" by fastforce
    have run: "(r, po') = (if q \<noteq> 0 then (-1, po1) else if l \<noteq> 0 then (-1, po2) else (if o3 \<noteq> 0 then -1 else 0, po3))"
      using enc p w 1 2 3 True ext
      unfolding CHOICE_encode_aper_def Let_def c option.case length_map out [symmetric]
      by (cases "q = 0"; cases "l = 0") (simp_all add: sel)
    let ?num = "nsnnwn_field ?rb (Suc (po_nboff po)) ?n" and ?pre = "[True]"
    have e1: "po_emits contents room po ?pre (q = 0) po1" using e1 True ext by simp
    have "po_emits contents room po1 ?num (l = 0) po2" if "q = 0"
      using nsnnwn_emits [OF po_emits_ok [OF e1 that] _ 2] w(2) nsnnwn_field_cong [OF po_emits_nboff [OF ok e1 that]] by simp
    then have e12: "po_emits contents room po (?pre @ ?num) (q = 0 \<and> l = 0) po2"
      by (intro po_emits_bind [OF e1]) auto
    have op: "open_field (po_nboff po2) (?field 0) = open_field (po_nboff po + length (?pre @ ?num)) (?field 0)" if "q = 0 \<and> l = 0"
      using po_emits_nboff [OF ok e12 that] open_field_mod by metis
    have "po_emits contents room po ((?pre @ ?num) @ open_field (po_nboff po + length (?pre @ ?num)) (?field 0)) (r \<noteq> -1) po'"
      by (rule po_emits_bind [OF e12])
        (use op_open_type_emits [OF meet w(4) _ tmp po_emits_ok [OF e12] 3] ext run op in \<open>auto split: if_splits\<close>)
    then show ?thesis using True by (simp add: choice_field_def Let_def c' sel)
  qed
qed

end

lemma choice_takes:
  assumes meets: "\<forall>m \<in> set ms. op_meets contents room (op (mb_type m)) (sp (mb_type m))"
    and v: "choice_valid td specs (with_types sp ms) ct choice"
    and ok: "pd_ok pd" and bits: "pd_bits pd = choice_field td specs (with_types sp ms) ct (pd_nboff pd) choice @ rest"
  shows "\<exists>rv pd'. CHOICE_decode_aper undef td specs (with_types op ms) ct pd = (rv, V_choice (fst choice) (snd choice), pd')
    \<and> rv_code rv = RC_OK \<and> pd_reads pd (choice_field td specs (with_types sp ms) ct (pd_nboff pd) choice) pd'"
proof -
  obtain c where c: "map_option pcs_value (constraints_or ct td) = Some c"
    using v by (auto simp: choice_valid_def split: option.splits)
  then have c': "pcs_value (the (constraints_or ct td)) = c" by auto
  let ?present = "fst choice - 1" and ?rb = "pc_range_bits c"
  let ?enc = "canonical (ch_to_canonical_order specs) ?present" and ?m = "ms ! ?present"
  let ?out = "choice_outside c ?present" and ?n = "int (canonical (ch_to_canonical_order specs) ?present) - ch_ext_start specs"
  have p: "0 < fst choice" "fst choice \<le> length ms" using v c by (auto simp: choice_valid_def Let_def)
  then have elm: "?present < length ms" and Suc: "Suc ?present = fst choice" by linarith+
  note sel = nth_map [OF elm [unfolded One_nat_def]] asn_TYPE_member.map_sel
  from v c have w: "0 \<le> ?rb" "?rb \<le> 31" "sp_plain (sp (mb_type ?m)) (mb_constraints ?m) (snd choice)"
    "canonical (ch_from_canonical_order specs) ?enc = ?present"
    and ext: "?out \<Longrightarrow> pc_extensible c \<and> ch_ext_start specs \<noteq> -1 \<and> 0 \<le> ?n \<and> ?n < 2 ^ nat (nsnnwn_bits ?rb 1) \<and> ?enc < length ms
      \<and> open_valid (sp_field (sp (mb_type ?m)) (mb_constraints ?m) 0 (snd choice))"
    and root: "\<not> ?out \<Longrightarrow> int ?enc < 2 ^ nat ?rb \<and> int ?enc \<le> sint (pc_upper_bound c)"
    by (simp_all add: choice_valid_def Let_def sel)
  have meet: "op_meets contents room (op (mb_type ?m)) (sp (mb_type ?m))" using meets elm by simp
  let ?field = "\<lambda>k. sp_field (sp (mb_type ?m)) (mb_constraints ?m) k (snd choice)"
  let ?pre = "if pc_extensible c then [?out] else []"
  show ?thesis
  proof (cases ?out)
    case False
    let ?num = "bits_of_int (nat ?rb) (int ?enc)"
    let ?k = "(pd_nboff pd + length (?pre @ ?num)) mod 8"
    have f: "choice_field td specs (with_types sp ms) ct (pd_nboff pd) choice = ?pre @ ?num @ ?field ?k"
      using False by (simp add: choice_field_def Let_def c' sel)
    have b0: "pd_bits pd = ?pre @ ?num @ ?field ?k @ rest" using bits f by simp
    have "pd_bits pd = (if \<not> pc_extensible c then [] else [False]) @ ?num @ ?field ?k @ rest" using b0 False by simp
    from optional_bit_takes [OF ok this] obtain pd0 where
      0: "(if pc_extensible c then asn_get_few_bits pd 1 else (0, pd)) = (0, pd0)" and r0: "pd_reads pd ?pre pd0"
      using False by (auto split: if_splits)
    note s0 = pd_reads_step [OF ok r0 b0]
    have "take_bit (nat ?rb) (int ?enc) = int ?enc" using root [OF False] by (simp add: take_bit_int_eq_self)
    with get_field_reads [OF s0(1,2)] w obtain pd1 where
      n: "asn_get_few_bits pd0 ?rb = (int ?enc, pd1)" and r1: "pd_reads pd0 ?num pd1" by (auto simp: nat_le_iff)
    note r01 = pd_reads_trans [OF r0 r1]
    have b1: "pd_bits pd = (?pre @ ?num) @ ?field ?k @ rest" using b0 by simp
    note s1 = pd_reads_step [OF ok r01 b1]
    have k: "?k = pd_nboff pd1 mod 8" using s1(3) by (simp add: mod_add_left_eq)
    from op_decode_takes [OF meet s1(1) w(3) s1(2) [unfolded k]] obtain rv pd2 where
      d: "op_decode (op (mb_type ?m)) (mb_constraints ?m) pd1 = (rv, snd choice, pd2)" "rv_code rv = RC_OK"
      and r2: "pd_reads pd1 (?field ?k) pd2" unfolding k by blast
    have "CHOICE_decode_aper undef td specs (with_types op ms) ct pd = (rv, V_choice (fst choice) (snd choice), pd2)"
      unfolding CHOICE_decode_aper_def Let_def c option.case 0 prod.case
      using w n root [OF False] d elm Suc by (simp add: sel)
    with d pd_reads_trans [OF r01 r2] f show ?thesis by auto
  next
    case True
    note ext = ext [OF True]
    let ?num = "nsnnwn_field ?rb (Suc (pd_nboff pd)) ?n"
    let ?open = "open_field (pd_nboff pd + length ([True] @ ?num)) (?field 0)"
    have f: "choice_field td specs (with_types sp ms) ct (pd_nboff pd) choice = [True] @ ?num @ ?open"
      using True by (simp add: choice_field_def Let_def c' sel)
    have b0: "pd_bits pd = [True] @ ?num @ ?open @ rest" using bits f by simp
    from bit_takes [OF ok b0] obtain pd0 where 0: "asn_get_few_bits pd 1 = (1, pd0)" and r0: "pd_reads pd [True] pd0" by auto
    note s0 = pd_reads_step [OF ok r0 b0]
    from nsnnwn_fits_takes [OF s0(1) w(1) _ _ _ s0(2)] w(2) ext obtain pd1 where
      n: "aper_get_nsnnwn pd0 ?rb = (?n, pd1)" and r1: "pd_reads pd0 ?num pd1" by auto
    note r01 = pd_reads_trans [OF r0 r1]
    have b1: "pd_bits pd = ([True] @ ?num) @ ?open @ rest" using b0 by simp
    note s1 = pd_reads_step [OF ok r01 b1]
    have op: "?open = open_field (pd_nboff pd1) (?field 0)"
      using s1(3) open_field_mod by (metis mod_add_left_eq)
    from ext op_open_type_takes [OF meet w(3) _ s1(1) s1(2) [unfolded op]] obtain rv pd2 where
      d: "aper_open_type_get (\<lambda>_. True) (op_decode (op (mb_type ?m)) (mb_constraints ?m)) (member_zero (map_asn_TYPE_member op ?m)) pd1
          = (rv, snd choice, pd2)" "rv_code rv = RC_OK" and r2: "pd_reads pd1 ?open pd2" unfolding op by blast
    have "CHOICE_decode_aper undef td specs (with_types op ms) ct pd = (rv, V_choice (fst choice) (snd choice), pd2)"
      unfolding CHOICE_decode_aper_def Let_def c option.case
      using w n ext d elm Suc 0 by (cases "mb_flags (ms ! (fst choice - Suc 0)) = ATF_POINTER") (simp_all add: sel)
    with d pd_reads_trans [OF r01 r2] f show ?thesis by auto
  qed
qed

end
