(* ===== verification/AsnTypes.thy ===== *)
theory AsnTypes
  imports AsnMeets
begin

text \<open>
  Type descriptors, \<^verbatim>\<open>asn_TYPE_descriptor_t\<close>, as far as the aligned PER coders read them: which
  operations a type has (\<^verbatim>\<open>asn_OP_*\<close>), its PER constraints, its members and its specifics. \<open>per_op\<close>
  is the dispatch through \<^verbatim>\<open>td->op\<close>, by recursion over the descriptor; \<open>per_spec_of\<close> is the
  specification of the type, and \<open>per_op_meets\<close> the theorem that every type's operations meet it.
\<close>

section \<open>Descriptors\<close>

text \<open>
  An open type has the names and types of its alternatives and, for every descriptor its selector
  may choose, what that descriptor is.
\<close>

datatype asn_type =
    T_NativeInteger bool "asn_per_constraints option"
  | T_INTEGER bool "asn_per_constraints option"
  | T_NativeEnumerated "asn_INTEGER_specifics option" "asn_per_constraints option"
  | T_STRING asn_OS_Subvariant "asn_per_constraints option"
  | T_SEQUENCE asn_SEQUENCE_specifics "asn_type asn_TYPE_member list"
  | T_SEQUENCE_OF "asn_per_constraints option" "asn_type asn_TYPE_member"
  | T_CHOICE "asn_per_constraints option" asn_CHOICE_specifics "asn_type asn_TYPE_member list"
  | T_OPEN_TYPE "(string \<times> asn_DEF) list" "(asn_DEF \<times> asn_type) list"

section \<open>Operations\<close>

text \<open>
  Each coder takes the constraints of the member it is called for, or else those of its type. A value
  of the wrong kind cannot occur in C; here its encoder fails.
\<close>

abbreviation value_constraint :: "asn_per_constraints option \<Rightarrow> asn_per_constraints option \<Rightarrow> asn_per_constraint option" where
  "value_constraint ct td \<equiv> map_option pcs_value (constraints_or ct td)"

definition encode_NativeInteger ::
  "bool \<Rightarrow> asn_per_constraints option \<Rightarrow> (byte list \<Rightarrow> 'k \<Rightarrow> 'k option) \<Rightarrow> 'k encoder" where
  "encode_NativeInteger uns td out ct v po =
     (case v of V_long x \<Rightarrow> NativeInteger_encode_aper uns (value_constraint ct td) out x po | _ \<Rightarrow> (-1, po))"

definition encode_INTEGER ::
  "bool \<Rightarrow> asn_per_constraints option \<Rightarrow> (byte list \<Rightarrow> 'k \<Rightarrow> 'k option) \<Rightarrow> 'k encoder" where
  "encode_INTEGER uns td out ct v po =
     (case v of V_INTEGER st \<Rightarrow> INTEGER_encode_aper uns (value_constraint ct td) out st po | _ \<Rightarrow> (-1, po))"

definition encode_NativeEnumerated ::
  "asn_INTEGER_specifics option \<Rightarrow> asn_per_constraints option \<Rightarrow> (byte list \<Rightarrow> 'k \<Rightarrow> 'k option) \<Rightarrow> 'k encoder" where
  "encode_NativeEnumerated specs td out ct v po =
     (case v of V_long x \<Rightarrow> NativeEnumerated_encode_aper specs td ct out x po | _ \<Rightarrow> (-1, po))"

definition encode_STRING ::
  "asn_OS_Subvariant \<Rightarrow> asn_per_constraints option \<Rightarrow> (byte list \<Rightarrow> 'k \<Rightarrow> 'k option) \<Rightarrow> 'k encoder" where
  "encode_STRING subvariant td out ct v po =
     (case v of V_string st \<Rightarrow> OCTET_STRING_encode_aper subvariant td ct out st po | _ \<Rightarrow> (-1, po))"

definition encode_SEQUENCE ::
  "byte list \<Rightarrow> asn_SEQUENCE_specifics \<Rightarrow> 'k per_op asn_TYPE_member list \<Rightarrow> (byte list \<Rightarrow> 'k \<Rightarrow> 'k option) \<Rightarrow> 'k encoder" where
  "encode_SEQUENCE tmp specs elements out ct v po =
     (case v of V_struct vs \<Rightarrow> SEQUENCE_encode_aper tmp out specs elements vs po | _ \<Rightarrow> (-1, po))"

definition encode_SEQUENCE_OF ::
  "asn_per_constraints option \<Rightarrow> 'k per_op asn_TYPE_member \<Rightarrow> (byte list \<Rightarrow> 'k \<Rightarrow> 'k option) \<Rightarrow> 'k encoder" where
  "encode_SEQUENCE_OF td elm out ct v po =
     (case v of V_list vs \<Rightarrow> SEQUENCE_OF_encode_aper out td elm ct vs po | _ \<Rightarrow> (-1, po))"

definition encode_CHOICE ::
  "byte list \<Rightarrow> asn_per_constraints option \<Rightarrow> asn_CHOICE_specifics \<Rightarrow> 'k per_op asn_TYPE_member list
    \<Rightarrow> (byte list \<Rightarrow> 'k \<Rightarrow> 'k option) \<Rightarrow> 'k encoder" where
  "encode_CHOICE tmp td specs elements out ct v po =
     (case v of V_choice k x \<Rightarrow> CHOICE_encode_aper tmp out td specs elements ct (k, x) po | _ \<Rightarrow> (-1, po))"

text \<open>The alternatives of an open type are coded with the constraints of their own types.\<close>

definition encode_OPEN_TYPE ::
  "byte list \<Rightarrow> (string \<times> asn_DEF) list \<Rightarrow> (asn_DEF \<times> 'j per_op) list \<Rightarrow> (byte list \<Rightarrow> 'k \<Rightarrow> 'k option) \<Rightarrow> 'k encoder" where
  "encode_OPEN_TYPE tmp elements types out ct v po =
     (case v of
        V_choice k x \<Rightarrow> OPEN_TYPE_encode_aper (\<lambda>_. True) elements
          (\<lambda>ty. case map_of types ty of Some op \<Rightarrow> op_encode_new op None | None \<Rightarrow> (\<lambda>_ po. (-1, po))) tmp out (k, x) po
      | _ \<Rightarrow> (-1, po))"

definition open_get_OPEN_TYPE ::
  "(bit_data \<Rightarrow> asn_dec_rval \<times> asn_value \<times> bit_data) \<Rightarrow> (string \<times> asn_DEF) list \<Rightarrow> (asn_DEF \<times> 'k per_op) list
    \<Rightarrow> asn_DEF option \<times> nat \<Rightarrow> bit_data \<Rightarrow> asn_dec_rval \<times> asn_value \<times> bit_data" where
  "open_get_OPEN_TYPE undef elements types alt pd =
     (case OPEN_TYPE_aper_get (\<lambda>_. True) (\<lambda>_. alt) elements V_none
             (\<lambda>ty. case map_of types ty of Some op \<Rightarrow> op_decode op None | None \<Rightarrow> undef) 0 (0, V_none) pd of
        Some (rv, (k, x), pd1) \<Rightarrow> (rv, V_choice k x, pd1)
      | None \<Rightarrow> undef pd)"

text \<open>The operation tables of the runtime, \<^verbatim>\<open>asn_OP_*\<close>, for a descriptor with these constraints and members.\<close>

type_synonym asn_decoder = "bit_data \<Rightarrow> asn_dec_rval \<times> asn_value \<times> bit_data"

definition asn_OP_NativeInteger ::
  "(byte list \<Rightarrow> 'k \<Rightarrow> 'k option) \<Rightarrow> asn_decoder \<Rightarrow> bool \<Rightarrow> asn_per_constraints option \<Rightarrow> 'k per_op" where
  "asn_OP_NativeInteger out undef uns td =
     \<lparr>op_zero = V_long 0, op_encode = encode_NativeInteger uns td out, op_encode_new = encode_NativeInteger uns td new_buffer,
      op_decode = (\<lambda>ct pd. let (rv, x, pd1) = NativeInteger_decode_aper uns (value_constraint ct td) 0 pd in (rv, V_long x, pd1)),
      op_open_get = (\<lambda>_. undef)\<rparr>"

definition asn_OP_INTEGER ::
  "(byte list \<Rightarrow> 'k \<Rightarrow> 'k option) \<Rightarrow> asn_decoder \<Rightarrow> bool \<Rightarrow> asn_per_constraints option \<Rightarrow> 'k per_op" where
  "asn_OP_INTEGER out undef uns td =
     \<lparr>op_zero = V_INTEGER None, op_encode = encode_INTEGER uns td out, op_encode_new = encode_INTEGER uns td new_buffer,
      op_decode = (\<lambda>ct pd. let (rv, st, pd1) = INTEGER_decode_aper uns (value_constraint ct td) pd in (rv, V_INTEGER st, pd1)),
      op_open_get = (\<lambda>_. undef)\<rparr>"

definition asn_OP_NativeEnumerated ::
  "(byte list \<Rightarrow> 'k \<Rightarrow> 'k option) \<Rightarrow> asn_decoder \<Rightarrow> asn_INTEGER_specifics option \<Rightarrow> asn_per_constraints option \<Rightarrow> 'k per_op" where
  "asn_OP_NativeEnumerated out undef specs td =
     \<lparr>op_zero = V_long 0, op_encode = encode_NativeEnumerated specs td out,
      op_encode_new = encode_NativeEnumerated specs td new_buffer,
      op_decode = (\<lambda>ct pd. let (rv, x, pd1) = NativeEnumerated_decode_aper specs td ct 0 pd in (rv, V_long x, pd1)),
      op_open_get = (\<lambda>_. undef)\<rparr>"

definition asn_OP_STRING ::
  "(byte list \<Rightarrow> 'k \<Rightarrow> 'k option) \<Rightarrow> asn_decoder \<Rightarrow> asn_OS_Subvariant \<Rightarrow> asn_per_constraints option \<Rightarrow> 'k per_op" where
  "asn_OP_STRING out undef subvariant td =
     \<lparr>op_zero = V_string ([], 0), op_encode = encode_STRING subvariant td out,
      op_encode_new = encode_STRING subvariant td new_buffer,
      op_decode = (\<lambda>ct pd. let (rv, st, pd1) = OCTET_STRING_decode_aper subvariant td ct pd in (rv, V_string st, pd1)),
      op_open_get = (\<lambda>_. undef)\<rparr>"

definition asn_OP_SEQUENCE ::
  "byte list \<Rightarrow> (byte list \<Rightarrow> 'k \<Rightarrow> 'k option) \<Rightarrow> asn_decoder \<Rightarrow> asn_SEQUENCE_specifics \<Rightarrow> 'k per_op asn_TYPE_member list \<Rightarrow> 'k per_op" where
  "asn_OP_SEQUENCE tmp out undef specs elements =
     \<lparr>op_zero = V_struct (map member_zero elements), op_encode = encode_SEQUENCE tmp specs elements out,
      op_encode_new = encode_SEQUENCE tmp specs (map (map_asn_TYPE_member op_new) elements) new_buffer,
      op_decode = (\<lambda>ct. SEQUENCE_decode_aper specs elements), op_open_get = (\<lambda>_. undef)\<rparr>"

definition asn_OP_SEQUENCE_OF ::
  "(byte list \<Rightarrow> 'k \<Rightarrow> 'k option) \<Rightarrow> asn_decoder \<Rightarrow> asn_per_constraints option \<Rightarrow> 'k per_op asn_TYPE_member \<Rightarrow> 'k per_op" where
  "asn_OP_SEQUENCE_OF out undef td elm =
     \<lparr>op_zero = V_list [], op_encode = encode_SEQUENCE_OF td elm out,
      op_encode_new = encode_SEQUENCE_OF td (map_asn_TYPE_member op_new elm) new_buffer,
      op_decode = SET_OF_decode_aper td elm, op_open_get = (\<lambda>_. undef)\<rparr>"

definition asn_OP_CHOICE ::
  "byte list \<Rightarrow> (byte list \<Rightarrow> 'k \<Rightarrow> 'k option) \<Rightarrow> asn_decoder \<Rightarrow> asn_per_constraints option \<Rightarrow> asn_CHOICE_specifics
    \<Rightarrow> 'k per_op asn_TYPE_member list \<Rightarrow> 'k per_op" where
  "asn_OP_CHOICE tmp out undef td specs elements =
     \<lparr>op_zero = V_choice 0 V_none, op_encode = encode_CHOICE tmp td specs elements out,
      op_encode_new = encode_CHOICE tmp td specs (map (map_asn_TYPE_member op_new) elements) new_buffer,
      op_decode = CHOICE_decode_aper undef td specs elements, op_open_get = (\<lambda>_. undef)\<rparr>"

text \<open>
  Only open types are decoded through \<open>op_open_get\<close>; their own decoder is a null pointer
  (\<^verbatim>\<open>#define OPEN_TYPE_decode_aper NULL\<close>).
\<close>

definition asn_OP_OPEN_TYPE ::
  "byte list \<Rightarrow> (byte list \<Rightarrow> 'k \<Rightarrow> 'k option) \<Rightarrow> asn_decoder \<Rightarrow> (string \<times> asn_DEF) list \<Rightarrow> (asn_DEF \<times> 'k per_op) list \<Rightarrow> 'k per_op" where
  "asn_OP_OPEN_TYPE tmp out undef elements types =
     \<lparr>op_zero = V_choice 0 V_none, op_encode = encode_OPEN_TYPE tmp elements types out,
      op_encode_new = encode_OPEN_TYPE tmp elements types new_buffer,
      op_decode = (\<lambda>ct. undef), op_open_get = open_get_OPEN_TYPE undef elements types\<rparr>"

primrec per_op ::
  "byte list \<Rightarrow> (byte list \<Rightarrow> 'k \<Rightarrow> 'k option) \<Rightarrow> asn_decoder \<Rightarrow> asn_type \<Rightarrow> 'k per_op" where
  "per_op tmp out undef (T_NativeInteger uns td) = asn_OP_NativeInteger out undef uns td"
| "per_op tmp out undef (T_INTEGER uns td) = asn_OP_INTEGER out undef uns td"
| "per_op tmp out undef (T_NativeEnumerated specs td) = asn_OP_NativeEnumerated out undef specs td"
| "per_op tmp out undef (T_STRING subvariant td) = asn_OP_STRING out undef subvariant td"
| "per_op tmp out undef (T_SEQUENCE specs ms) =
     asn_OP_SEQUENCE tmp out undef specs (map (map_asn_TYPE_member (per_op tmp out undef)) ms)"
| "per_op tmp out undef (T_SEQUENCE_OF td m) =
     asn_OP_SEQUENCE_OF out undef td (map_asn_TYPE_member (per_op tmp out undef) m)"
| "per_op tmp out undef (T_CHOICE td specs ms) =
     asn_OP_CHOICE tmp out undef td specs (map (map_asn_TYPE_member (per_op tmp out undef)) ms)"
| "per_op tmp out undef (T_OPEN_TYPE elements types) =
     asn_OP_OPEN_TYPE tmp out undef elements (map (map_prod id (per_op tmp out undef)) types)"

section \<open>Specifications\<close>

definition long_valid :: "bool \<Rightarrow> asn_per_constraint option \<Rightarrow> i64 \<Rightarrow> bool" where
  "long_valid uns ct x \<longleftrightarrow> (case ct of None \<Rightarrow> False | Some c \<Rightarrow> int_valid uns c x)"

text \<open>An INTEGER in the form in which the decoder leaves it, with the number it stands for.\<close>

definition INTEGER_number :: "bool \<Rightarrow> INTEGER \<Rightarrow> i64 option" where
  "INTEGER_number uns st = (if uns then asn_INTEGER2ulong st else asn_INTEGER2long st)"

definition INTEGER_valid :: "bool \<Rightarrow> asn_per_constraint option \<Rightarrow> INTEGER \<Rightarrow> bool" where
  "INTEGER_valid uns ct st \<longleftrightarrow>
     (case INTEGER_number uns st of
        None \<Rightarrow> False
      | Some x \<Rightarrow> long_valid uns ct x \<and> st = (if uns then asn_ulong2INTEGER x else asn_long2INTEGER x))"

definition open_alternative :: "(string \<times> asn_DEF) list \<Rightarrow> asn_value \<Rightarrow> (asn_DEF option \<times> nat) option" where
  "open_alternative elements v =
     (case v of
        V_choice k x \<Rightarrow> if 0 < k \<and> k \<le> length elements then Some (Some (snd (elements ! (k - 1))), k) else None
      | _ \<Rightarrow> None)"

definition open_valid_value :: "(string \<times> asn_DEF) list \<Rightarrow> (asn_DEF \<times> per_spec) list \<Rightarrow> asn_value \<Rightarrow> bool" where
  "open_valid_value elements types v \<longleftrightarrow>
     (case v of
        V_choice k x \<Rightarrow> 0 < k \<and> k \<le> length elements \<and>
          (case map_of types (snd (elements ! (k - 1))) of
             None \<Rightarrow> False
           | Some sp \<Rightarrow> sp_plain sp None x \<and> open_valid (sp_field sp None 0 x))
      | _ \<Rightarrow> False)"

definition open_value_field :: "(string \<times> asn_DEF) list \<Rightarrow> (asn_DEF \<times> per_spec) list \<Rightarrow> nat \<Rightarrow> asn_value \<Rightarrow> bool list" where
  "open_value_field elements types k v =
     (case v of
        V_choice i x \<Rightarrow> (case map_of types (snd (elements ! (i - 1))) of
            None \<Rightarrow> [] | Some sp \<Rightarrow> open_field k (sp_field sp None 0 x))
      | _ \<Rightarrow> [])"

definition sequence_spec :: "asn_SEQUENCE_specifics \<Rightarrow> per_spec asn_TYPE_member list \<Rightarrow> per_spec" where
  "sequence_spec specs ms =
     \<lparr>sp_field = (\<lambda>ct k v. case v of V_struct vs \<Rightarrow> seq_field specs ms k vs | _ \<Rightarrow> []),
      sp_valid = (\<lambda>ct v. case v of V_struct vs \<Rightarrow> seq_valid specs ms vs | _ \<Rightarrow> False), sp_alt = (\<lambda>_. None)\<rparr>"

definition list_spec :: "asn_per_constraints option \<Rightarrow> per_spec asn_TYPE_member \<Rightarrow> per_spec" where
  "list_spec td m =
     \<lparr>sp_field = (\<lambda>ct k v. case v of V_list vs \<Rightarrow> list_field td m ct k vs | _ \<Rightarrow> []),
      sp_valid = (\<lambda>ct v. case v of V_list vs \<Rightarrow> list_valid td m ct vs | _ \<Rightarrow> False), sp_alt = (\<lambda>_. None)\<rparr>"

definition choice_spec :: "asn_per_constraints option \<Rightarrow> asn_CHOICE_specifics \<Rightarrow> per_spec asn_TYPE_member list \<Rightarrow> per_spec" where
  "choice_spec td specs ms =
     \<lparr>sp_field = (\<lambda>ct k v. case v of V_choice i x \<Rightarrow> choice_field td specs ms ct k (i, x) | _ \<Rightarrow> []),
      sp_valid = (\<lambda>ct v. case v of V_choice i x \<Rightarrow> choice_valid td specs ms ct (i, x) | _ \<Rightarrow> False), sp_alt = (\<lambda>_. None)\<rparr>"

definition open_spec :: "(string \<times> asn_DEF) list \<Rightarrow> (asn_DEF \<times> per_spec) list \<Rightarrow> per_spec" where
  "open_spec elements types =
     \<lparr>sp_field = (\<lambda>ct. open_value_field elements types), sp_valid = (\<lambda>ct. open_valid_value elements types),
      sp_alt = open_alternative elements\<rparr>"

primrec per_spec_of :: "asn_type \<Rightarrow> per_spec" where
  "per_spec_of (T_NativeInteger uns td) =
     \<lparr>sp_field = (\<lambda>ct k v. case v of V_long x \<Rightarrow> int_field (the (value_constraint ct td)) k x | _ \<Rightarrow> []),
      sp_valid = (\<lambda>ct v. case v of V_long x \<Rightarrow> long_valid uns (value_constraint ct td) x | _ \<Rightarrow> False), sp_alt = (\<lambda>_. None)\<rparr>"
| "per_spec_of (T_INTEGER uns td) =
     \<lparr>sp_field = (\<lambda>ct k v. case v of
        V_INTEGER st \<Rightarrow> int_field (the (value_constraint ct td)) k (the (INTEGER_number uns st)) | _ \<Rightarrow> []),
      sp_valid = (\<lambda>ct v. case v of V_INTEGER st \<Rightarrow> INTEGER_valid uns (value_constraint ct td) st | _ \<Rightarrow> False),
      sp_alt = (\<lambda>_. None)\<rparr>"
| "per_spec_of (T_NativeEnumerated specs td) =
     \<lparr>sp_field = (\<lambda>ct k v. case v of V_long x \<Rightarrow> enum_field specs (constraints_or ct td) x | _ \<Rightarrow> []),
      sp_valid = (\<lambda>ct v. case v of V_long x \<Rightarrow> enum_valid specs (constraints_or ct td) x | _ \<Rightarrow> False), sp_alt = (\<lambda>_. None)\<rparr>"
| "per_spec_of (T_STRING subvariant td) =
     \<lparr>sp_field = (\<lambda>ct k v. case v of V_string st \<Rightarrow> string_field subvariant (constraints_or ct td) k st | _ \<Rightarrow> []),
      sp_valid = (\<lambda>ct v. case v of V_string st \<Rightarrow> string_valid subvariant (constraints_or ct td) st | _ \<Rightarrow> False),
      sp_alt = (\<lambda>_. None)\<rparr>"
| "per_spec_of (T_SEQUENCE specs ms) = sequence_spec specs (map (map_asn_TYPE_member per_spec_of) ms)"
| "per_spec_of (T_SEQUENCE_OF td m) = list_spec td (map_asn_TYPE_member per_spec_of m)"
| "per_spec_of (T_CHOICE td specs ms) = choice_spec td specs (map (map_asn_TYPE_member per_spec_of) ms)"
| "per_spec_of (T_OPEN_TYPE elements types) = open_spec elements (map (map_prod id per_spec_of) types)"

section \<open>Every type meets its specification\<close>

lemma op_meetsI:
  assumes "\<And>ct po v r po'. po_ok po \<Longrightarrow> sp_valid sp ct v \<Longrightarrow> op_encode op ct v po = (r, po') \<Longrightarrow>
      po_emits contents room po (sp_field sp ct (po_nboff po mod 8) v) (r \<noteq> -1) po'"
    and "\<And>ct n po v r po'. po_ok po \<Longrightarrow> sp_valid sp ct v \<Longrightarrow> op_encode_new op ct v po = (r, po') \<Longrightarrow>
      po_emits dyn_buffer (\<lambda>_. n) po (sp_field sp ct (po_nboff po mod 8) v) (r \<noteq> -1) po'"
    and "\<And>ct pd v rest. pd_ok pd \<Longrightarrow> sp_valid sp ct v \<Longrightarrow> sp_alt sp v = None \<Longrightarrow>
      pd_bits pd = sp_field sp ct (pd_nboff pd mod 8) v @ rest \<Longrightarrow>
      \<exists>rv pd'. op_decode op ct pd = (rv, v, pd') \<and> rv_code rv = RC_OK \<and> pd_reads pd (sp_field sp ct (pd_nboff pd mod 8) v) pd'"
    and "\<And>ct pd v alt rest. pd_ok pd \<Longrightarrow> sp_valid sp ct v \<Longrightarrow> sp_alt sp v = Some alt \<Longrightarrow>
      pd_bits pd = sp_field sp ct (pd_nboff pd mod 8) v @ rest \<Longrightarrow>
      \<exists>rv pd'. op_open_get op alt pd = (rv, v, pd') \<and> rv_code rv = RC_OK \<and> pd_reads pd (sp_field sp ct (pd_nboff pd mod 8) v) pd'"
  shows "op_meets contents room op sp"
  unfolding op_meets_def enc_emits_def new_buffer_emits_def dec_takes_def
  by (intro allI conjI impI; (elim conjE)?; rule assms; assumption)

lemma op_encode_new_emits: "op_meets contents room op sp \<Longrightarrow> po_ok po \<Longrightarrow> sp_valid sp ct v \<Longrightarrow> op_encode_new op ct v po = (r, po') \<Longrightarrow>
    po_emits dyn_buffer (\<lambda>_. n) po (sp_field sp ct (po_nboff po mod 8) v) (r \<noteq> -1) po'"
  by (rule new_buffer_emitsD [OF op_meetsD(2)])

lemma seq_field_mod [simp]: "seq_field specs ms (k mod 8) vs = seq_field specs ms k vs"
  unfolding seq_field_def Let_def by (intro arg_cong2 [where f = append] refl members_field_cong) (simp add: mod_add_left_eq)

lemma list_length_field_mod [simp]: "list_length_field pc (k mod 8) n = list_length_field pc k n"
  by (auto simp: list_length_field_def Let_def split: option.split intro!: nsnnwn_field_cong mod_add_left_eq simp: mod_Suc_eq align_pad_mod)

lemma list_field_mod [simp]: "list_field td elm ct (k mod 8) vs = list_field td elm ct k vs"
  by (auto simp: list_field_def Let_def mod_add_left_eq intro: elements_field_cong)

lemma choice_field_mod [simp]: "choice_field td specs ms ct (k mod 8) choice = choice_field td specs ms ct k choice"
proof -
  have 1: "nsnnwn_field rng (Suc (k mod 8)) n = nsnnwn_field rng (Suc k) n" for rng n
    by (rule nsnnwn_field_cong) (simp add: mod_Suc_eq)
  have 2: "open_field (k mod 8 + n) bs = open_field (k + n) bs" for n bs
    using open_field_mod [of "k mod 8 + n" bs] open_field_mod [of "k + n" bs] by (simp add: mod_add_left_eq)
  show ?thesis unfolding choice_field_def Let_def by (simp only: 1 2 mod_add_left_eq)
qed

lemma open_value_field_mod [simp]: "open_value_field elements types (k mod 8) v = open_value_field elements types k v"
  by (auto simp: open_value_field_def split: asn_value.split option.split)

lemma INTEGER_as_native:
  assumes "sp_valid (per_spec_of (T_INTEGER uns td)) ct v"
  obtains st c x where "v = V_INTEGER st" "constraints_or ct td = Some c" "int_valid uns (pcs_value c) x"
    "INTEGER_number uns st = Some x" "st = (if uns then asn_ulong2INTEGER x else asn_long2INTEGER x)"
  using assms by (auto simp: INTEGER_valid_def long_valid_def split: asn_value.splits option.splits)

lemma map_of_map_prod: "map_of (map (map_prod id f) xs) k = map_option f (map_of xs k)"
  by (induction xs) auto

lemma decode_wrapped:
  "\<exists>rv pd'. r = (rv, x, pd') \<and> rv_code rv = RC_OK \<and> P pd' \<Longrightarrow>
    \<exists>rv pd'. (case r of (rv, y, pd1) \<Rightarrow> (rv, V y, pd1)) = (rv, V x, pd') \<and> rv_code rv = RC_OK \<and> P pd'"
  by auto

context roomy_sink
begin

lemma OP_NativeInteger_meets: "op_meets contents room (asn_OP_NativeInteger out undef uns td) (per_spec_of (T_NativeInteger uns td))"
proof (rule op_meetsI, goal_cases)
  case (3 ct pd v rest)
  then obtain x c where "v = V_long x" "constraints_or ct td = Some c" and v: "int_valid uns (pcs_value c) x"
    by (auto simp: long_valid_def split: asn_value.splits option.splits)
  with native_decode_ok [OF 3(1) v, of rest 0] 3(4) show ?case by (fastforce simp: asn_OP_NativeInteger_def intro!: decode_wrapped)
qed (auto simp: asn_OP_NativeInteger_def encode_NativeInteger_def long_valid_def split: asn_value.splits option.splits
    intro: native_emits dyn.native_emits)

lemma OP_INTEGER_meets: "op_meets contents room (asn_OP_INTEGER out undef uns td) (per_spec_of (T_INTEGER uns td))"
proof (rule op_meetsI, goal_cases)
  case (1 ct po v r po')
  then obtain st c x where v: "v = V_INTEGER st" "constraints_or ct td = Some c" "int_valid uns (pcs_value c) x"
    "INTEGER_number uns st = Some x" "st = (if uns then asn_ulong2INTEGER x else asn_long2INTEGER x)"
    by (elim INTEGER_as_native)
  then have "NativeInteger_encode_aper uns (Some (pcs_value c)) out x po = (r, po')"
    using 1(3) by (simp add: asn_OP_INTEGER_def encode_INTEGER_def NativeInteger_encode_aper_def)
  from native_emits [OF 1(1) v(3) this] v show ?case by simp
next
  case (2 ct n po v r po')
  then obtain st c x where v: "v = V_INTEGER st" "constraints_or ct td = Some c" "int_valid uns (pcs_value c) x"
    "INTEGER_number uns st = Some x" "st = (if uns then asn_ulong2INTEGER x else asn_long2INTEGER x)"
    by (elim INTEGER_as_native)
  then have "NativeInteger_encode_aper uns (Some (pcs_value c)) new_buffer x po = (r, po')"
    using 2(3) by (simp add: asn_OP_INTEGER_def encode_INTEGER_def NativeInteger_encode_aper_def)
  from dyn.native_emits [OF 2(1) v(3) this] v show ?case by simp
next
  case (3 ct pd v rest)
  from 3(2) obtain st c x where v: "v = V_INTEGER st" "constraints_or ct td = Some c" "int_valid uns (pcs_value c) x"
    "INTEGER_number uns st = Some x" "st = (if uns then asn_ulong2INTEGER x else asn_long2INTEGER x)"
    by (elim INTEGER_as_native)
  have bits: "pd_bits pd = int_field (pcs_value c) (pd_nboff pd mod 8) x @ rest" using 3(4) v by simp
  have "(if uns then asn_ulong2INTEGER else asn_long2INTEGER) x = st" using v(5) by simp
  with integer_decode_ok [OF 3(1) v(3) bits] v show ?case by (auto simp: asn_OP_INTEGER_def intro!: decode_wrapped)
qed (auto split: asn_value.splits)

lemma OP_NativeEnumerated_meets:
  "op_meets contents room (asn_OP_NativeEnumerated out undef specs td) (per_spec_of (T_NativeEnumerated specs td))"
  by (rule op_meetsI)
    (auto simp: asn_OP_NativeEnumerated_def encode_NativeEnumerated_def split: asn_value.splits
      intro: enum_emits dyn.enum_emits intro!: decode_wrapped enum_takes)

lemma OP_STRING_meets: "op_meets contents room (asn_OP_STRING out undef subvariant td) (per_spec_of (T_STRING subvariant td))"
  by (rule op_meetsI)
    (auto simp: asn_OP_STRING_def encode_STRING_def split: asn_value.splits
      intro: string_emits dyn.string_emits intro!: decode_wrapped string_takes)

text \<open>The encoder into a new buffer is the same composition, of the members' encoders into one.\<close>

lemma op_new_members: "map_asn_TYPE_member op_new \<circ> map_asn_TYPE_member op = map_asn_TYPE_member (\<lambda>t. op_new (op t))"
  by (simp add: fun_eq_iff asn_TYPE_member.map_comp comp_def)

lemma OP_SEQUENCE_meets:
  assumes meets: "\<forall>m \<in> set ms. op_meets contents room (op (mb_type m)) (sp (mb_type m))"
  shows "op_meets contents room (asn_OP_SEQUENCE tmp out undef specs (with_types op ms)) (sequence_spec specs (with_types sp ms))"
proof (rule op_meetsI, goal_cases)
  case (1 ct po v r po')
  with sequence_emits [OF meets, of specs _ po tmp r po'] show ?case
    by (auto simp: sequence_spec_def asn_OP_SEQUENCE_def encode_SEQUENCE_def split: asn_value.splits)
next
  case (2 ct n po v r po')
  have "\<forall>m \<in> set ms. op_meets dyn_buffer (\<lambda>_. n) (op_new (op (mb_type m))) (sp (mb_type m))"
    using meets op_new_meets by blast
  with 2 dyn.sequence_emits [of ms n "\<lambda>t. op_new (op t)" sp specs _ po tmp r po'] show ?case
    by (auto simp: sequence_spec_def asn_OP_SEQUENCE_def encode_SEQUENCE_def op_new_members split: asn_value.splits)
next
  case (3 ct pd v rest)
  then obtain vs where v: "v = V_struct vs" "seq_valid specs (with_types sp ms) vs"
    by (auto simp: sequence_spec_def split: asn_value.splits)
  with 3(4) have "pd_bits pd = seq_field specs (with_types sp ms) (pd_nboff pd) vs @ rest" by (simp add: sequence_spec_def)
  from sequence_takes [OF meets v(2) 3(1) this] v(1) show ?case by (auto simp: sequence_spec_def asn_OP_SEQUENCE_def)
qed (simp add: sequence_spec_def)

lemma OP_SEQUENCE_OF_meets:
  assumes meets: "op_meets contents room (op (mb_type m)) (sp (mb_type m))"
  shows "op_meets contents room (asn_OP_SEQUENCE_OF out undef td (map_asn_TYPE_member op m)) (list_spec td (map_asn_TYPE_member sp m))"
proof (rule op_meetsI, goal_cases)
  case (1 ct po v r po')
  with list_emits [of op m sp td ct _ po r po', OF meets] show ?case
    by (auto simp: list_spec_def asn_OP_SEQUENCE_OF_def encode_SEQUENCE_OF_def split: asn_value.splits)
next
  case (2 ct n po v r po')
  have "op_meets dyn_buffer (\<lambda>_. n) (op_new (op (mb_type m))) (sp (mb_type m))"
    using meets op_new_meets by blast
  with 2 dyn.list_emits [of n "\<lambda>t. op_new (op t)" m sp td ct _ po r po'] show ?case
    by (auto simp: list_spec_def asn_OP_SEQUENCE_OF_def encode_SEQUENCE_OF_def asn_TYPE_member.map_comp comp_def split: asn_value.splits)
next
  case (3 ct pd v rest)
  then obtain vs where v: "v = V_list vs" "list_valid td (map_asn_TYPE_member sp m) ct vs"
    by (auto simp: list_spec_def split: asn_value.splits)
  with 3(4) have "pd_bits pd = list_field td (map_asn_TYPE_member sp m) ct (pd_nboff pd) vs @ rest" by (simp add: list_spec_def)
  from list_takes [of contents room op m sp, OF meets v(2) 3(1) this] v(1) show ?case by (auto simp: list_spec_def asn_OP_SEQUENCE_OF_def)
qed (simp add: list_spec_def)

lemma OP_CHOICE_meets:
  assumes meets: "\<forall>m \<in> set ms. op_meets contents room (op (mb_type m)) (sp (mb_type m))" and tmp: "length tmp = 32"
  shows "op_meets contents room (asn_OP_CHOICE tmp out undef td specs (with_types op ms)) (choice_spec td specs (with_types sp ms))"
proof (rule op_meetsI, goal_cases)
  case (1 ct po v r po')
  with choice_emits [OF meets tmp, of td specs ct _ po r po'] show ?case
    by (auto simp: choice_spec_def asn_OP_CHOICE_def encode_CHOICE_def split: asn_value.splits)
next
  case (2 ct n po v r po')
  have "\<forall>m \<in> set ms. op_meets dyn_buffer (\<lambda>_. n) (op_new (op (mb_type m))) (sp (mb_type m))"
    using meets op_new_meets by blast
  with 2 dyn.choice_emits [of ms n "\<lambda>t. op_new (op t)" sp tmp td specs ct _ po r po'] tmp show ?case
    by (auto simp: choice_spec_def asn_OP_CHOICE_def encode_CHOICE_def op_new_members split: asn_value.splits)
next
  case (3 ct pd v rest)
  then obtain i x where v: "v = V_choice i x" "choice_valid td specs (with_types sp ms) ct (i, x)"
    by (auto simp: choice_spec_def split: asn_value.splits)
  with 3(4) have "pd_bits pd = choice_field td specs (with_types sp ms) ct (pd_nboff pd) (i, x) @ rest" by (simp add: choice_spec_def)
  from choice_takes [OF meets v(2) 3(1) this, of undef] v(1) show ?case by (auto simp: choice_spec_def asn_OP_CHOICE_def)
qed (simp add: choice_spec_def)

end

text \<open>A value of an open type: one of its alternatives, with a type that meets its specification.\<close>

lemma open_valid_valueE:
  assumes "open_valid_value elements (map (map_prod id sp) types) v" and "\<forall>(ty, t) \<in> set types. op_meets c rm (op t) (sp t)"
  obtains k x t where "v = V_choice k x" "0 < k" "k \<le> length elements" "map_of types (snd (elements ! (k - 1))) = Some t"
    "sp_plain (sp t) None x" "open_valid (sp_field (sp t) None 0 x)" "op_meets c rm (op t) (sp t)"
    "\<And>j. open_value_field elements (map (map_prod id sp) types) j v = open_field j (sp_field (sp t) None 0 x)"
proof -
  from assms(1) obtain k x t where v: "v = V_choice k x" "0 < k" "k \<le> length elements"
    "map_of types (snd (elements ! (k - 1))) = Some t" "sp_plain (sp t) None x" "open_valid (sp_field (sp t) None 0 x)"
    by (auto simp: open_valid_value_def map_of_map_prod split: asn_value.splits option.splits)
  moreover have "op_meets c rm (op t) (sp t)" using assms(2) map_of_SomeD [OF v(4)] by blast
  ultimately show thesis using that by (simp add: open_value_field_def map_of_map_prod)
qed

context roomy_sink
begin

lemma encode_OPEN_TYPE_emits:
  assumes "open_valid_value elements (map (map_prod id sp) types) v" and "\<forall>(ty, t) \<in> set types. op_meets c rm (op t) (sp t)"
    and tmp: "length tmp = 32" and ok: "po_ok po" and enc: "encode_OPEN_TYPE tmp elements (map (map_prod id op) types) out ct v po = (r, po')"
  shows "po_emits contents room po (open_value_field elements (map (map_prod id sp) types) (po_nboff po) v) (r \<noteq> -1) po'"
proof (rule open_valid_valueE [OF assms(1,2)])
  fix k x t
  assume v: "v = V_choice k x" "0 < k" "k \<le> length elements" "map_of types (snd (elements ! (k - 1))) = Some t"
    "sp_plain (sp t) None x" "open_valid (sp_field (sp t) None 0 x)" "op_meets c rm (op t) (sp t)"
    and f: "\<And>j. open_value_field elements (map (map_prod id sp) types) j v = open_field j (sp_field (sp t) None 0 x)"
  obtain q po1 where p: "aper_open_type_put (\<lambda>_. True) (Some (op_encode_new (op t) None)) tmp out x po = (q, po1)" by fastforce
  have "r = (if q < 0 then -1 else 0)" "po' = po1"
    using enc v p by (simp_all add: encode_OPEN_TYPE_def OPEN_TYPE_encode_aper_def map_of_map_prod split: if_splits)
  moreover have "q = -1 \<or> q = 0"
    using aper_open_type_put_result [of "\<lambda>_. True" "Some (op_encode_new (op t) None)" tmp out x po] p by simp
  ultimately show ?thesis using op_open_type_emits [OF v(7,5,6) tmp ok p] unfolding f by auto
qed

end

context roomy_sink
begin

lemma OP_OPEN_TYPE_meets:
  assumes meets: "\<forall>(ty, t) \<in> set types. op_meets contents room (op t) (sp t)" and tmp: "length tmp = 32"
  shows "op_meets contents room (asn_OP_OPEN_TYPE tmp out undef elements (map (map_prod id op) types))
    (open_spec elements (map (map_prod id sp) types))"
proof (rule op_meetsI, goal_cases)
  case (4 ct pd v a rest)
  show ?case
  proof (rule open_valid_valueE [OF _ meets])
    show "open_valid_value elements (map (map_prod id sp) types) v" using 4(2) by (simp add: open_spec_def)
    fix k x t
    assume v: "v = V_choice k x" "0 < k" "k \<le> length elements" "map_of types (snd (elements ! (k - 1))) = Some t"
      "sp_plain (sp t) None x" "open_valid (sp_field (sp t) None 0 x)" "op_meets contents room (op t) (sp t)"
      and f: "\<And>j. open_value_field elements (map (map_prod id sp) types) j v = open_field j (sp_field (sp t) None 0 x)"
    have a: "a = (Some (snd (elements ! (k - 1))), k)" using 4(3) v by (simp add: open_spec_def open_alternative_def)
    have "pd_bits pd = open_field (pd_nboff pd) (sp_field (sp t) None 0 x) @ rest" using 4(4) f by (simp add: open_spec_def)
    from op_open_type_takes [OF v(7,5,6) 4(1) this, of V_none] obtain rv pd' where
      "aper_open_type_get (\<lambda>_. True) (op_decode (op t) None) V_none pd = (rv, x, pd')" "rv_code rv = RC_OK"
      "pd_reads pd (open_field (pd_nboff pd) (sp_field (sp t) None 0 x)) pd'" by blast
    with v a f show ?case
      by (auto simp: open_spec_def asn_OP_OPEN_TYPE_def open_get_OPEN_TYPE_def OPEN_TYPE_aper_get_def
          CHOICE_variant_set_presence_def map_of_map_prod)
  qed
next
  case (3 ct pd v rest)
  then show ?case by (auto simp: open_spec_def open_valid_value_def open_alternative_def split: asn_value.splits)
qed (auto simp: open_spec_def asn_OP_OPEN_TYPE_def intro: encode_OPEN_TYPE_emits [OF _ meets tmp] dyn.encode_OPEN_TYPE_emits [OF _ meets tmp])

text \<open>The recursion over descriptors.\<close>

lemma per_op_meets:
  assumes tmp: "length tmp = 32"
  shows "op_meets contents room (per_op tmp out undef t) (per_spec_of t)"
proof (induction t)
  case (T_SEQUENCE specs ms)
  have "\<forall>m \<in> set ms. op_meets contents room (per_op tmp out undef (mb_type m)) (per_spec_of (mb_type m))"
    using T_SEQUENCE asn_TYPE_member.set_sel by blast
  then show ?case by (simp add: OP_SEQUENCE_meets)
next
  case (T_SEQUENCE_OF td m)
  have "op_meets contents room (per_op tmp out undef (mb_type m)) (per_spec_of (mb_type m))"
    using T_SEQUENCE_OF asn_TYPE_member.set_sel by blast
  then show ?case by (simp add: OP_SEQUENCE_OF_meets)
next
  case (T_CHOICE td specs ms)
  have "\<forall>m \<in> set ms. op_meets contents room (per_op tmp out undef (mb_type m)) (per_spec_of (mb_type m))"
    using T_CHOICE asn_TYPE_member.set_sel by blast
  then show ?case by (simp add: OP_CHOICE_meets tmp)
next
  case (T_OPEN_TYPE elements types)
  have "\<forall>(ty, t) \<in> set types. op_meets contents room (per_op tmp out undef t) (per_spec_of t)"
    using T_OPEN_TYPE by (fastforce simp: snds.simps)
  then show ?case by (simp add: OP_OPEN_TYPE_meets tmp)
qed (simp_all add: OP_NativeInteger_meets [simplified] OP_INTEGER_meets [simplified] OP_NativeEnumerated_meets [simplified]
    OP_STRING_meets [simplified])

end

end
