(* ===== verification/AsnSize.thy ===== *)
theory AsnSize
  imports AsnTypes
begin

text \<open>
  How many bits a value takes: \<open>value_size\<close> bounds the field of a valid value of any descriptor,
  whatever the descriptor. Values within the bound of a single fragment are valid in an open type.
\<close>

fun value_size :: "asn_value \<Rightarrow> nat" where
  "value_size V_none = 0"
| "value_size (V_long x) = 88"
| "value_size (V_INTEGER st) = 88"
| "value_size (V_string st) = 48 + 8 * length (fst st)"
| "value_size (V_struct vs) = 1 + (\<Sum>v\<leftarrow>vs. 1 + value_size v)"
| "value_size (V_list vs) = 24 + (\<Sum>v\<leftarrow>vs. value_size v)"
| "value_size (V_choice k x) = 72 + value_size x"

lemma length_align_pad: "length (align_pad k) \<le> 7"
  by (simp add: align_pad_def)

lemma length_len_bits: "length (len_bits n) \<le> 16"
  by (simp add: len_bits_def)

lemma length_nsnnwn_field: "length (nsnnwn_field rng k n) \<le> 23"
proof -
  have "nsnnwn_bits rng 1 \<le> 9" using nsnnwn_bits_bounds [of 1 rng] by simp
  then show ?thesis using length_align_pad [of k] by (auto simp: nsnnwn_field_def nat_le_iff)
qed

lemma length_octets_of_bits: "length bs mod 8 = 0 \<Longrightarrow> 8 * length (octets_of_bits bs) = length bs"
  using arg_cong [OF bytes_bits_octets, of bs length] by simp

lemma length_padded_octets: "8 * length (octets_of_bits (padded bs)) \<le> length bs + 7"
  using length_octets_of_bits [OF length_padded, of bs] length_align_pad [of "length bs"] by (simp add: padded_def)

lemma length_open_field: "length bs < 131000 \<Longrightarrow> length (open_field k bs) \<le> length bs + 30"
proof -
  let ?b = "octets_of_bits (padded bs)"
  assume "length bs < 131000"
  then have "length ?b < 16384" using length_padded_octets [of bs] by linarith
  then have "length (ot_bits APER k ?b) = length (align_pad k) + length (len_bits (length ?b)) + 8 * length ?b"
    by (simp add: ot_bits.simps [of APER k] Let_def len_chunk_def)
  then show ?thesis
    using length_padded_octets [of bs] length_align_pad [of k] length_len_bits [of "length ?b"] by (simp add: open_field_def)
qed

lemma open_valid_small: "bs \<noteq> [] \<Longrightarrow> length bs < 131000 \<Longrightarrow> open_valid bs"
proof -
  assume bs: "bs \<noteq> []" and len: "length bs < 131000"
  let ?b = "octets_of_bits (padded bs)"
  have "0 < length (padded bs)" using bs by (simp add: padded_def)
  then have "0 < length ?b" using length_octets_of_bits [OF length_padded, of bs] by linarith
  moreover have "length ?b < 16384" using length_padded_octets [of bs] len by linarith
  ultimately show ?thesis using bs by (simp add: open_valid_def)
qed

lemma length_string_field: "string_valid subvariant pc st \<Longrightarrow> length (string_field subvariant pc k st) \<le> 48 + 8 * length (fst st)"
proof -
  let ?csiz = "snd (string_constraints pc)" and ?rng = "sint (pc_upper_bound (snd (string_constraints pc)))
    - sint (pc_lower_bound (snd (string_constraints pc))) + 1"
  obtain pre where pre: "(if pc_extensible ?csiz then [False] else []) = pre" "length pre \<le> 1" by simp
  let ?num = "nsnnwn_field ?rng (k + length pre) (int (string_size subvariant st) - sint (pc_lower_bound ?csiz))"
  have "length (string_bits subvariant st) \<le> 8 * length (fst st)" by (simp add: string_bits_def)
  then show ?thesis
    using pre(2) length_align_pad [of "k + length pre"] length_align_pad [of "k + length pre + length ?num"]
      length_len_bits [of "string_size subvariant st"] length_nsnnwn_field [of ?rng "k + length pre"
        "int (string_size subvariant st) - sint (pc_lower_bound ?csiz)"]
    unfolding string_field_def Let_def pre(1) by simp
qed

lemma length_enum_field: "enum_valid specs pc x \<Longrightarrow> length (enum_field specs pc x) \<le> 32"
  by (elim enum_validE) (auto simp: enum_field_def Let_def)

text \<open>A specification whose fields keep to the bound, for values below the limit.\<close>

definition sized_spec :: "per_spec \<Rightarrow> bool" where
  "sized_spec sp \<longleftrightarrow> (\<forall>ct k v. sp_valid sp ct v \<longrightarrow> value_size v < 131000 \<longrightarrow> length (sp_field sp ct k v) \<le> value_size v)"

lemma sized_specD: "sized_spec sp \<Longrightarrow> sp_valid sp ct v \<Longrightarrow> value_size v < 131000 \<Longrightarrow> length (sp_field sp ct k v) \<le> value_size v"
  by (simp add: sized_spec_def)

lemma length_members_field:
  assumes "\<forall>m \<in> set ms. sized_spec (sp (mb_type m))" and "members_valid us (zip (with_types sp ms) vs)"
    and "length vs = length ms" and "(\<Sum>v\<leftarrow>vs. value_size v) < 131000"
  shows "length (members_field k (zip (with_types sp ms) vs)) \<le> (\<Sum>v\<leftarrow>vs. value_size v)"
  using assms
proof (induction ms vs arbitrary: us k rule: list_induct2')
  case (4 m ms v vs)
  let ?f = "sp_field (sp (mb_type m)) (mb_constraints m) (k mod 8) v"
  have valid: "members_valid (us @ [v]) (zip (with_types sp ms) vs)" using "4.prems"(2) by simp
  have rest: "length (members_field j (zip (with_types sp ms) vs)) \<le> (\<Sum>v\<leftarrow>vs. value_size v)" for j
    by (rule "4.IH" [OF _ valid]) (use "4.prems" in simp_all)
  show ?case
  proof (cases "member_present m v")
    case True
    then have "length ?f \<le> value_size v"
      using "4.prems" sized_specD [of "sp (mb_type m)" "mb_constraints m" v "k mod 8"] by (simp add: asn_TYPE_member.map_sel)
    with True rest [of "k + length ?f"] show ?thesis by (simp add: Let_def asn_TYPE_member.map_sel)
  next
    case False
    with rest [of k] show ?thesis by simp
  qed
qed simp_all

lemma length_elements_field:
  assumes "\<forall>v \<in> set vs. \<forall>k. length (field k v) \<le> value_size v"
  shows "length (elements_field field k vs) \<le> (\<Sum>v\<leftarrow>vs. value_size v)"
  using assms by (induction vs arbitrary: k) (auto simp: add_mono)

lemma value_size_mem: "v \<in> set vs \<Longrightarrow> value_size v \<le> (\<Sum>v\<leftarrow>vs. value_size v)"
  by (simp add: member_le_sum_list)

lemma sized_sequence:
  assumes "\<forall>m \<in> set ms. sized_spec (sp (mb_type m))"
  shows "sized_spec (sequence_spec specs (with_types sp ms))"
  unfolding sized_spec_def
proof (intro allI impI)
  fix ct k v
  assume "sp_valid (sequence_spec specs (with_types sp ms)) ct v" and s: "value_size v < 131000"
  then obtain vs where v: "v = V_struct vs" "seq_valid specs (with_types sp ms) vs"
    by (auto simp: sequence_spec_def split: asn_value.splits)
  then have valid: "members_valid [] (zip (with_types sp ms) vs)" and len: "length vs = length ms"
    by (simp_all add: seq_valid_def)
  have "(\<Sum>v\<leftarrow>vs. 1 + value_size v) = length vs + (\<Sum>v\<leftarrow>vs. value_size v)" by (induction vs) simp_all
  with v(1) len have size: "value_size v = 1 + length ms + (\<Sum>v\<leftarrow>vs. value_size v)" by simp
  have "length (seq_presence ms vs) \<le> length ms"
    using length_filter_le [of "\<lambda>i. mb_optional (ms ! i) \<noteq> 0" "[0..<length ms]"] by (simp add: seq_presence_def seq_optionals_def)
  moreover obtain pre where pre: "(if seq_first_extension specs < 0 then [] else [False]) = pre" "length pre \<le> 1" by simp
  moreover have "length (members_field (k + length (pre @ seq_presence ms vs)) (zip (with_types sp ms) vs)) \<le> (\<Sum>v\<leftarrow>vs. value_size v)"
    by (rule length_members_field [OF assms valid len]) (use s size in simp)
  ultimately show "length (sp_field (sequence_spec specs (with_types sp ms)) ct k v) \<le> value_size v"
    using v(1) unfolding size by (simp add: sequence_spec_def seq_field_def Let_def pre(1))
qed

lemma sized_list:
  assumes "sized_spec (sp (mb_type m))"
  shows "sized_spec (list_spec td (map_asn_TYPE_member sp m))"
  unfolding sized_spec_def
proof (intro allI impI)
  fix ct k v
  assume "sp_valid (list_spec td (map_asn_TYPE_member sp m)) ct v" and s: "value_size v < 131000"
  then obtain vs where v: "v = V_list vs" "list_valid td (map_asn_TYPE_member sp m) ct vs"
    by (auto simp: list_spec_def split: asn_value.splits)
  then have valid: "sp_valid (sp (mb_type m)) (mb_constraints m) u" if "u \<in> set vs" for u
    using that by (simp add: list_valid_def sp_plain_def asn_TYPE_member.map_sel)
  have "length (sp_field (sp (mb_type m)) (mb_constraints m) j u) \<le> value_size u" if "u \<in> set vs" for j u
    by (rule sized_specD [OF assms valid [OF that]]) (use value_size_mem [OF that] s v(1) in simp)
  then have "length (elements_field (sp_field (sp (mb_type m)) (mb_constraints m)) j vs) \<le> (\<Sum>v\<leftarrow>vs. value_size v)" for j
    by (intro length_elements_field) simp
  moreover have "length (list_length_field pc j n) \<le> 24" for pc j n
    using length_align_pad [of j] length_len_bits [of n] length_nsnnwn_field
    by (auto simp: list_length_field_def Let_def intro: le_trans [OF length_nsnnwn_field] split: option.split)
  ultimately show "length (sp_field (list_spec td (map_asn_TYPE_member sp m)) ct k v) \<le> value_size v"
    using v(1) by (simp add: list_spec_def list_field_def Let_def asn_TYPE_member.map_sel add_mono)
qed

lemma length_choice_index:
  assumes "pc_range_bits c \<le> 31"
  shows "length (if choice_outside c p then [True] @ nsnnwn_field (pc_range_bits c) k n
    else (if pc_extensible c then [False] else []) @ bits_of_int (nat (pc_range_bits c)) m) \<le> 32"
  using length_nsnnwn_field [of "pc_range_bits c" k n] assms by (simp add: nat_le_iff)

lemma sized_choice:
  assumes "\<forall>m \<in> set ms. sized_spec (sp (mb_type m))"
  shows "sized_spec (choice_spec td specs (with_types sp ms))"
  unfolding sized_spec_def
proof (intro allI impI)
  fix ct k v
  assume "sp_valid (choice_spec td specs (with_types sp ms)) ct v" and s: "value_size v < 131000"
  then obtain i x where v: "v = V_choice i x" "choice_valid td specs (with_types sp ms) ct (i, x)"
    by (auto simp: choice_spec_def split: asn_value.splits)
  let ?m = "ms ! (i - 1)" and ?c = "pcs_value (the (constraints_or ct td))"
  have c: "pc_range_bits ?c \<le> 31" and i: "i - 1 < length ms" and valid: "sp_valid (sp (mb_type ?m)) (mb_constraints ?m) x"
    using v(2) by (auto simp: choice_valid_def Let_def sp_plain_def asn_TYPE_member.map_sel split: option.splits if_splits)
  have "sized_spec (sp (mb_type ?m))" using assms i by simp
  then have f: "length (sp_field (sp (mb_type ?m)) (mb_constraints ?m) j x) \<le> value_size x" for j
    by (rule sized_specD [OF _ valid]) (use s v(1) in simp)
  obtain out where out: "choice_outside ?c (i - 1) = out" by simp
  obtain index where index: "(if choice_outside ?c (i - 1)
      then [True] @ nsnnwn_field (pc_range_bits ?c) (Suc k) (int (canonical (ch_to_canonical_order specs) (i - 1)) - ch_ext_start specs)
      else (if pc_extensible ?c then [False] else []) @ bits_of_int (nat (pc_range_bits ?c)) (int (canonical (ch_to_canonical_order specs) (i - 1))))
      = index" by simp
  have "length index \<le> 32" unfolding index [symmetric] by (rule length_choice_index [OF c])
  moreover have "length (open_field (k + length index) (sp_field (sp (mb_type ?m)) (mb_constraints ?m) 0 x)) \<le> value_size x + 30"
    using length_open_field [of "sp_field (sp (mb_type ?m)) (mb_constraints ?m) 0 x" "k + length index"] f [of 0] s v(1) by simp
  moreover have "sp_field (choice_spec td specs (with_types sp ms)) ct k v = index @ (if out
      then open_field (k + length index) (sp_field (sp (mb_type ?m)) (mb_constraints ?m) 0 x)
      else sp_field (sp (mb_type ?m)) (mb_constraints ?m) ((k + length index) mod 8) x)"
    using v(1) i by (simp add: choice_spec_def choice_field_def Let_def index [symmetric] out asn_TYPE_member.map_sel
        del: One_nat_def)
  ultimately show "length (sp_field (choice_spec td specs (with_types sp ms)) ct k v) \<le> value_size v"
    using v(1) f [of "(k + length index) mod 8"] by (cases out) simp_all
qed

lemma sized_open:
  assumes "\<forall>(ty, t) \<in> set types. sized_spec (sp t)"
  shows "sized_spec (open_spec elements (map (map_prod id sp) types))"
  unfolding sized_spec_def
proof (intro allI impI)
  fix ct k v
  assume "sp_valid (open_spec elements (map (map_prod id sp) types)) ct v" and s: "value_size v < 131000"
  then obtain i x t where v: "v = V_choice i x" "map_of types (snd (elements ! (i - 1))) = Some t" "sp_valid (sp t) None x"
    by (auto simp: open_spec_def open_valid_value_def map_of_map_prod sp_plain_def split: asn_value.splits option.splits)
  have "sized_spec (sp t)" using assms map_of_SomeD [OF v(2)] by blast
  then have "length (sp_field (sp t) None 0 x) \<le> value_size x" by (rule sized_specD [OF _ v(3)]) (use s v(1) in simp)
  then show "length (sp_field (open_spec elements (map (map_prod id sp) types)) ct k v) \<le> value_size v"
    using v(1,2) s length_open_field [of "sp_field (sp t) None 0 x" k]
    by (simp add: open_spec_def open_value_field_def map_of_map_prod)
qed

lemma length_int_field: "long_valid uns c x \<Longrightarrow> length (int_field (the c) k x) \<le> 88"
  by (cases c) (auto simp: long_valid_def intro: le_trans [OF int_field_short])

text \<open>The field of a valid value of any descriptor keeps to the bound.\<close>

lemma per_spec_of_sized: "sized_spec (per_spec_of t)"
proof (induction t)
  case (T_SEQUENCE specs ms)
  then show ?case using asn_TYPE_member.set_sel by (force intro: sized_sequence)
next
  case (T_SEQUENCE_OF td m)
  then show ?case using asn_TYPE_member.set_sel by (force intro: sized_list)
next
  case (T_CHOICE td specs ms)
  then show ?case using asn_TYPE_member.set_sel by (force intro: sized_choice)
next
  case (T_OPEN_TYPE elements types)
  have "\<forall>(ty, t) \<in> set types. sized_spec (per_spec_of t)" using T_OPEN_TYPE by (fastforce simp: snds.simps)
  then show ?case by (simp add: sized_open)
next
  case (T_STRING subvariant td)
  then show ?case using length_string_field by (auto simp: sized_spec_def split: asn_value.splits)
qed (auto simp: sized_spec_def INTEGER_valid_def split: asn_value.splits option.splits
    intro: length_int_field le_trans [OF length_enum_field])

end
