(* ===== verification/AsnWhole.thy ===== *)
theory AsnWhole
  imports AsnSize
begin

text \<open>
  A coder that meets its specification, on a whole buffer: \<^verbatim>\<open>aper_encode_to_buffer\<close> succeeds when there is
  room and writes the field of the value, padded to octets, and \<^verbatim>\<open>aper_decode_complete\<close> takes exactly
  that. Nothing here depends on which descriptor, or which copy of the runtime, the coder belongs to.
\<close>

section \<open>Encoding always succeeds when there is room\<close>

context roomy_sink
begin

lemma flush_total:
  assumes ok: "po_ok po" and cap: "0 \<le> po_cap room po"
  shows "\<exists>key. aper_encode_flush_outp out po = Some key"
proof (cases "po_nboff po = 0 \<and> po_buffer po = 0")
  case True
  then show ?thesis by (simp add: aper_encode_flush_outp_def)
next
  case False
  let ?n = "if po_nboff po mod 8 \<noteq> 0 then Suc (po_buffer po + po_nboff po div 8) else po_buffer po + po_nboff po div 8"
  have "8 * po_buffer po + po_nboff po \<le> 8 * room (po_op_key po)" using cap by (simp add: po_cap_def)
  then have "?n \<le> room (po_op_key po)"
    using mult_div_mod_eq [of 8 "po_nboff po"] by (split if_split, intro conjI impI) linarith+
  then have "length (take ?n t) \<le> room (po_op_key po)" for t by simp
  then have "\<exists>k'. out (take ?n t) (po_op_key po) = Some k'" for t using out_room by blast
  with False show ?thesis unfolding aper_encode_flush_outp_def Let_def drop_bit_eq_div
    by (cases "po_nboff po mod 8 = 0") simp_all
qed

lemma aper_encode_total:
  assumes enc: "enc_emits contents room enc field valid" and v: "valid v" and tmp: "length tmp = 32"
    and key: "contents key = []" and fits: "length (field 0 v) \<le> 8 * room key"
  shows "\<exists>key'. aper_encode (Some enc) out v key tmp = (int (length (field 0 v)), key')
    \<and> bytes_bits (contents key') = padded (field 0 v)"
proof -
  let ?po0 = "outp_new key tmp"
  obtain r po where e: "enc v ?po0 = (r, po)" by fastforce
  have "po_emits contents room ?po0 (field 0 v) (r \<noteq> -1) po"
    using enc_emitsD [OF enc outp_new_ok [OF tmp] v e] by (simp add: outp_new_def)
  then have w: "po_writes contents ?po0 (field 0 v) po" and r: "r \<noteq> -1"
    and cap: "po_cap room ?po0 - int (length (field 0 v)) \<le> po_cap room po"
    using fits by (auto simp: po_emits_def po_cap_def outp_new_def)
  have "0 \<le> po_cap room po" using cap fits by (simp add: po_cap_def outp_new_def)
  with flush_total [OF po_writes_ok [OF w]] obtain key' where fl: "aper_encode_flush_outp out po = Some key'" by blast
  obtain n where run: "aper_encode (Some enc) out v key tmp = (n, key')" and n: "n \<noteq> -1"
    using e r fl by (simp add: aper_encode_def Let_def)
  have "n = int (length (field 0 v)) \<and> bytes_bits (contents key') = field 0 v @ align_pad (length (field 0 v))"
    by (rule aper_encode_ok [OF tmp key _ run n]) (use w e in auto)
  with run show ?thesis by (simp add: padded_def)
qed

end

section \<open>A buffer of the caller\<close>

definition field_octets :: "bool list \<Rightarrow> byte list" where
  "field_octets bs = octets_of_bits (padded bs)"

lemma bytes_bits_field_octets: "bytes_bits (field_octets bs) = bs @ align_pad (length bs)"
  using bytes_bits_padded [of bs] by (simp add: field_octets_def padded_def)

lemma length_field_octets: "length (field_octets bs) = (length bs + 7) div 8"
proof -
  have "8 * length (field_octets bs) = length bs + length (align_pad (length bs))"
    using arg_cong [OF bytes_bits_field_octets [of bs], of length] by simp
  moreover have "length (align_pad (length bs)) < 8" by (simp add: align_pad_def)
  ultimately show ?thesis by linarith
qed

lemma op_encode_total:
  assumes meets: "op_meets arg_buffer arg_left op sp" and v: "sp_plain sp None v" and tmp: "length tmp = 32"
    and fits: "length (sp_field sp None 0 v) \<le> 8 * buffer_size"
  shows "aper_encode_to_buffer (Some (op_encode op None)) v buffer_size tmp
    = (int (length (sp_field sp None 0 v)), field_octets (sp_field sp None 0 v))"
proof -
  let ?key = "\<lparr>arg_buffer = [], arg_left = buffer_size\<rparr>" and ?bits = "sp_field sp None 0 v"
  note emits = op_meetsD(1) [OF meets, of None]
  from buf.aper_encode_total [OF emits _ tmp, of v ?key] v fits obtain key' where
    "aper_encode (Some (op_encode op None)) encode_to_buffer_cb v ?key tmp = (int (length ?bits), key')"
    and "bytes_bits (arg_buffer key') = padded ?bits"
    by (auto simp: sp_plain_def)
  moreover from this(2) have "arg_buffer key' = field_octets ?bits" by (metis field_octets_def octets_of_bytes_bits)
  ultimately show ?thesis by (simp add: aper_encode_to_buffer_def)
qed

lemma op_decode_octets:
  assumes meets: "op_meets contents room op sp" and v: "sp_plain sp None v" and bits: "bytes_bits b = sp_field sp None 0 v @ pad"
  shows "aper_decode (Some (op_decode op None)) sptr b 0 0
    = Some (\<lparr>rv_code = RC_OK, rv_consumed = length (sp_field sp None 0 v)\<rparr>, v)"
proof -
  let ?pd = "\<lparr>pd_buffer = b, pd_nboff = 0, pd_nbits = 8 * length b, pd_moved = 0\<rparr>"
  have ok: "pd_ok ?pd" by (simp add: pd_ok_def)
  have "pd_bits ?pd = sp_field sp None (pd_nboff ?pd mod 8) v @ pad"
    using bits take_bytes_bits [of "length b" b] by (simp add: pd_bits_def)
  from op_decode_takes [OF meets ok v this]
  obtain rv pd' where "op_decode op None ?pd = (rv, v, pd')" "rv_code rv = RC_OK" "pd_reads ?pd (sp_field sp None 0 v) pd'"
    by auto
  then show ?thesis by (rule aper_decode_ok)
qed

lemma op_decode_complete:
  assumes meets: "op_meets contents room op sp" and v: "sp_plain sp None v" and f: "sp_field sp None 0 v \<noteq> []"
  shows "aper_decode_complete (Some (op_decode op None)) sptr (field_octets (sp_field sp None 0 v) @ rest)
    = Some (\<lparr>rv_code = RC_OK, rv_consumed = length (field_octets (sp_field sp None 0 v))\<rparr>, v)"
proof -
  let ?bits = "sp_field sp None 0 v"
  have b: "bytes_bits (field_octets ?bits @ rest) = ?bits @ align_pad (length ?bits) @ bytes_bits rest"
    by (simp add: bytes_bits_field_octets)
  show ?thesis using op_decode_octets [OF meets v b, of sptr] f
    by (simp add: aper_decode_complete_def drop_bit_eq_div length_field_octets)
qed

end
