(* ===== verification/E2apElements.thy ===== *)
theory E2apElements
  imports AsnTypes
begin

text \<open>
  The type descriptors of the elements of E2AP, in \<^verbatim>\<open>e2ap/lib/*.c\<close>, as far as aligned PER reads
  them: the constraint tables, the tables of enumerations, the specifics and member tables and the
  descriptors themselves, each under its C name. Tags, OER constraints and the offsets of members
  are for other purposes.
\<close>

definition asn_DEF_BIT_STRING :: "asn_type" where
  "asn_DEF_BIT_STRING = T_STRING ASN_OSUBV_BIT None"

definition asn_PER_type_Cause_constr_1 :: "asn_per_constraints" where
  "asn_PER_type_Cause_constr_1 = per_constraints (APC_CONSTRAINED True 3 3 0 4) APC_UNCONSTRAINED"

definition asn_PER_type_CauseRIC_constr_1 :: "asn_per_constraints" where
  "asn_PER_type_CauseRIC_constr_1 = per_constraints (APC_CONSTRAINED True 4 4 0 10) APC_UNCONSTRAINED"

definition asn_MAP_CauseRIC_value2enum_1 :: "(int \<times> string) list" where
  "asn_MAP_CauseRIC_value2enum_1 =
   [(0, ''ran-function-id-Invalid''),
    (1, ''action-not-supported''),
    (2, ''excessive-actions''),
    (3, ''duplicate-action''),
    (4, ''duplicate-event''),
    (5, ''function-resource-limit''),
    (6, ''request-id-unknown''),
    (7, ''inconsistent-action-subsequent-action-sequence''),
    (8, ''control-message-invalid''),
    (9, ''call-process-id-invalid''),
    (10, ''unspecified'')]"

definition asn_SPC_CauseRIC_specs_1 :: "asn_INTEGER_specifics" where
  "asn_SPC_CauseRIC_specs_1 = \<lparr>en_value2enum = asn_MAP_CauseRIC_value2enum_1, en_extension = 12\<rparr>"

definition asn_DEF_CauseRIC :: "asn_type" where
  "asn_DEF_CauseRIC = T_NativeEnumerated (Some asn_SPC_CauseRIC_specs_1) (Some asn_PER_type_CauseRIC_constr_1)"

definition asn_PER_type_CauseRICservice_constr_1 :: "asn_per_constraints" where
  "asn_PER_type_CauseRICservice_constr_1 = per_constraints (APC_CONSTRAINED True 2 2 0 2) APC_UNCONSTRAINED"

definition asn_MAP_CauseRICservice_value2enum_1 :: "(int \<times> string) list" where
  "asn_MAP_CauseRICservice_value2enum_1 =
   [(0, ''function-not-required''),
    (1, ''excessive-functions''),
    (2, ''ric-resource-limit'')]"

definition asn_SPC_CauseRICservice_specs_1 :: "asn_INTEGER_specifics" where
  "asn_SPC_CauseRICservice_specs_1 = \<lparr>en_value2enum = asn_MAP_CauseRICservice_value2enum_1, en_extension = 4\<rparr>"

definition asn_DEF_CauseRICservice :: "asn_type" where
  "asn_DEF_CauseRICservice = T_NativeEnumerated (Some asn_SPC_CauseRICservice_specs_1) (Some asn_PER_type_CauseRICservice_constr_1)"

definition asn_PER_type_CauseTransport_constr_1 :: "asn_per_constraints" where
  "asn_PER_type_CauseTransport_constr_1 = per_constraints (APC_CONSTRAINED True 1 1 0 1) APC_UNCONSTRAINED"

definition asn_MAP_CauseTransport_value2enum_1 :: "(int \<times> string) list" where
  "asn_MAP_CauseTransport_value2enum_1 =
   [(0, ''unspecified''),
    (1, ''transport-resource-unavailable'')]"

definition asn_SPC_CauseTransport_specs_1 :: "asn_INTEGER_specifics" where
  "asn_SPC_CauseTransport_specs_1 = \<lparr>en_value2enum = asn_MAP_CauseTransport_value2enum_1, en_extension = 3\<rparr>"

definition asn_DEF_CauseTransport :: "asn_type" where
  "asn_DEF_CauseTransport = T_NativeEnumerated (Some asn_SPC_CauseTransport_specs_1) (Some asn_PER_type_CauseTransport_constr_1)"

definition asn_PER_type_CauseProtocol_constr_1 :: "asn_per_constraints" where
  "asn_PER_type_CauseProtocol_constr_1 = per_constraints (APC_CONSTRAINED True 3 3 0 6) APC_UNCONSTRAINED"

definition asn_MAP_CauseProtocol_value2enum_1 :: "(int \<times> string) list" where
  "asn_MAP_CauseProtocol_value2enum_1 =
   [(0, ''transfer-syntax-error''),
    (1, ''abstract-syntax-error-reject''),
    (2, ''abstract-syntax-error-ignore-and-notify''),
    (3, ''message-not-compatible-with-receiver-state''),
    (4, ''semantic-error''),
    (5, ''abstract-syntax-error-falsely-constructed-message''),
    (6, ''unspecified'')]"

definition asn_SPC_CauseProtocol_specs_1 :: "asn_INTEGER_specifics" where
  "asn_SPC_CauseProtocol_specs_1 = \<lparr>en_value2enum = asn_MAP_CauseProtocol_value2enum_1, en_extension = 8\<rparr>"

definition asn_DEF_CauseProtocol :: "asn_type" where
  "asn_DEF_CauseProtocol = T_NativeEnumerated (Some asn_SPC_CauseProtocol_specs_1) (Some asn_PER_type_CauseProtocol_constr_1)"

definition asn_PER_type_CauseMisc_constr_1 :: "asn_per_constraints" where
  "asn_PER_type_CauseMisc_constr_1 = per_constraints (APC_CONSTRAINED True 2 2 0 3) APC_UNCONSTRAINED"

definition asn_MAP_CauseMisc_value2enum_1 :: "(int \<times> string) list" where
  "asn_MAP_CauseMisc_value2enum_1 =
   [(0, ''control-processing-overload''),
    (1, ''hardware-failure''),
    (2, ''om-intervention''),
    (3, ''unspecified'')]"

definition asn_SPC_CauseMisc_specs_1 :: "asn_INTEGER_specifics" where
  "asn_SPC_CauseMisc_specs_1 = \<lparr>en_value2enum = asn_MAP_CauseMisc_value2enum_1, en_extension = 5\<rparr>"

definition asn_DEF_CauseMisc :: "asn_type" where
  "asn_DEF_CauseMisc = T_NativeEnumerated (Some asn_SPC_CauseMisc_specs_1) (Some asn_PER_type_CauseMisc_constr_1)"

definition asn_MBR_Cause_1 :: "asn_type asn_TYPE_member list" where
  "asn_MBR_Cause_1 =
   [Member ATF_NOFLAGS 0 asn_DEF_CauseRIC None None ''ricRequest'',
    Member ATF_NOFLAGS 0 asn_DEF_CauseRICservice None None ''ricService'',
    Member ATF_NOFLAGS 0 asn_DEF_CauseTransport None None ''transport'',
    Member ATF_NOFLAGS 0 asn_DEF_CauseProtocol None None ''protocol'',
    Member ATF_NOFLAGS 0 asn_DEF_CauseMisc None None ''misc'']"

definition asn_SPC_Cause_specs_1 :: "asn_CHOICE_specifics" where
  "asn_SPC_Cause_specs_1 = \<lparr>ch_to_canonical_order = None, ch_from_canonical_order = None, ch_ext_start = 5\<rparr>"

definition asn_DEF_Cause :: "asn_type" where
  "asn_DEF_Cause = T_CHOICE (Some asn_PER_type_Cause_constr_1) asn_SPC_Cause_specs_1 asn_MBR_Cause_1"

definition asn_PER_type_Criticality_constr_1 :: "asn_per_constraints" where
  "asn_PER_type_Criticality_constr_1 = per_constraints (APC_CONSTRAINED False 2 2 0 2) APC_UNCONSTRAINED"

definition asn_MAP_Criticality_value2enum_1 :: "(int \<times> string) list" where
  "asn_MAP_Criticality_value2enum_1 =
   [(0, ''reject''),
    (1, ''ignore''),
    (2, ''notify'')]"

definition asn_SPC_Criticality_specs_1 :: "asn_INTEGER_specifics" where
  "asn_SPC_Criticality_specs_1 = \<lparr>en_value2enum = asn_MAP_Criticality_value2enum_1, en_extension = 0\<rparr>"

definition asn_DEF_Criticality :: "asn_type" where
  "asn_DEF_Criticality = T_NativeEnumerated (Some asn_SPC_Criticality_specs_1) (Some asn_PER_type_Criticality_constr_1)"

definition asn_PER_type_ProtocolIE_ID_constr_1 :: "asn_per_constraints" where
  "asn_PER_type_ProtocolIE_ID_constr_1 = per_constraints (APC_CONSTRAINED False 16 16 0 65535) APC_UNCONSTRAINED"

definition asn_DEF_ProtocolIE_ID :: "asn_type" where
  "asn_DEF_ProtocolIE_ID = T_NativeInteger False (Some asn_PER_type_ProtocolIE_ID_constr_1)"

definition asn_PER_type_TypeOfError_constr_1 :: "asn_per_constraints" where
  "asn_PER_type_TypeOfError_constr_1 = per_constraints (APC_CONSTRAINED True 1 1 0 1) APC_UNCONSTRAINED"

definition asn_MAP_TypeOfError_value2enum_1 :: "(int \<times> string) list" where
  "asn_MAP_TypeOfError_value2enum_1 =
   [(0, ''not-understood''),
    (1, ''missing'')]"

definition asn_SPC_TypeOfError_specs_1 :: "asn_INTEGER_specifics" where
  "asn_SPC_TypeOfError_specs_1 = \<lparr>en_value2enum = asn_MAP_TypeOfError_value2enum_1, en_extension = 3\<rparr>"

definition asn_DEF_TypeOfError :: "asn_type" where
  "asn_DEF_TypeOfError = T_NativeEnumerated (Some asn_SPC_TypeOfError_specs_1) (Some asn_PER_type_TypeOfError_constr_1)"

definition asn_MBR_CriticalityDiagnostics_IE_Item_1 :: "asn_type asn_TYPE_member list" where
  "asn_MBR_CriticalityDiagnostics_IE_Item_1 =
   [Member ATF_NOFLAGS 0 asn_DEF_Criticality None None ''iECriticality'',
    Member ATF_NOFLAGS 0 asn_DEF_ProtocolIE_ID None None ''iE-ID'',
    Member ATF_NOFLAGS 0 asn_DEF_TypeOfError None None ''typeOfError'']"

definition asn_SPC_CriticalityDiagnostics_IE_Item_specs_1 :: "asn_SEQUENCE_specifics" where
  "asn_SPC_CriticalityDiagnostics_IE_Item_specs_1 =
    \<lparr>seq_oms = [], seq_roms_count = 0, seq_aoms_count = 0, seq_first_extension = 3\<rparr>"

definition asn_DEF_CriticalityDiagnostics_IE_Item :: "asn_type" where
  "asn_DEF_CriticalityDiagnostics_IE_Item = T_SEQUENCE asn_SPC_CriticalityDiagnostics_IE_Item_specs_1 asn_MBR_CriticalityDiagnostics_IE_Item_1"

definition asn_PER_type_CriticalityDiagnostics_IE_List_constr_1 :: "asn_per_constraints" where
  "asn_PER_type_CriticalityDiagnostics_IE_List_constr_1 = per_constraints APC_UNCONSTRAINED (APC_CONSTRAINED False 8 8 1 256)"

definition asn_MBR_CriticalityDiagnostics_IE_List_1 :: "asn_type asn_TYPE_member" where
  "asn_MBR_CriticalityDiagnostics_IE_List_1 = Member ATF_POINTER 0 asn_DEF_CriticalityDiagnostics_IE_Item None None ''''"

definition asn_DEF_CriticalityDiagnostics_IE_List :: "asn_type" where
  "asn_DEF_CriticalityDiagnostics_IE_List = T_SEQUENCE_OF (Some asn_PER_type_CriticalityDiagnostics_IE_List_constr_1) asn_MBR_CriticalityDiagnostics_IE_List_1"

definition asn_PER_type_ProcedureCode_constr_1 :: "asn_per_constraints" where
  "asn_PER_type_ProcedureCode_constr_1 = per_constraints (APC_CONSTRAINED False 8 8 0 255) APC_UNCONSTRAINED"

definition asn_DEF_ProcedureCode :: "asn_type" where
  "asn_DEF_ProcedureCode = T_NativeInteger False (Some asn_PER_type_ProcedureCode_constr_1)"

definition asn_PER_type_TriggeringMessage_constr_1 :: "asn_per_constraints" where
  "asn_PER_type_TriggeringMessage_constr_1 = per_constraints (APC_CONSTRAINED False 2 2 0 2) APC_UNCONSTRAINED"

definition asn_MAP_TriggeringMessage_value2enum_1 :: "(int \<times> string) list" where
  "asn_MAP_TriggeringMessage_value2enum_1 =
   [(0, ''initiating-message''),
    (1, ''successful-outcome''),
    (2, ''unsuccessfull-outcome'')]"

definition asn_SPC_TriggeringMessage_specs_1 :: "asn_INTEGER_specifics" where
  "asn_SPC_TriggeringMessage_specs_1 =
    \<lparr>en_value2enum = asn_MAP_TriggeringMessage_value2enum_1, en_extension = 0\<rparr>"

definition asn_DEF_TriggeringMessage :: "asn_type" where
  "asn_DEF_TriggeringMessage = T_NativeEnumerated (Some asn_SPC_TriggeringMessage_specs_1) (Some asn_PER_type_TriggeringMessage_constr_1)"

definition asn_DEF_NativeInteger :: "asn_type" where
  "asn_DEF_NativeInteger = T_NativeInteger False None"

definition asn_PER_memb_ricRequestorID_constr_2 :: "asn_per_constraints" where
  "asn_PER_memb_ricRequestorID_constr_2 = per_constraints (APC_CONSTRAINED False 16 16 0 65535) APC_UNCONSTRAINED"

definition asn_PER_memb_ricInstanceID_constr_3 :: "asn_per_constraints" where
  "asn_PER_memb_ricInstanceID_constr_3 = per_constraints (APC_CONSTRAINED False 16 16 0 65535) APC_UNCONSTRAINED"

definition asn_MBR_RICrequestID_1 :: "asn_type asn_TYPE_member list" where
  "asn_MBR_RICrequestID_1 =
   [Member ATF_NOFLAGS 0 asn_DEF_NativeInteger None (Some asn_PER_memb_ricRequestorID_constr_2) ''ricRequestorID'',
    Member ATF_NOFLAGS 0 asn_DEF_NativeInteger None (Some asn_PER_memb_ricInstanceID_constr_3) ''ricInstanceID'']"

definition asn_SPC_RICrequestID_specs_1 :: "asn_SEQUENCE_specifics" where
  "asn_SPC_RICrequestID_specs_1 =
    \<lparr>seq_oms = [], seq_roms_count = 0, seq_aoms_count = 0, seq_first_extension = 2\<rparr>"

definition asn_DEF_RICrequestID :: "asn_type" where
  "asn_DEF_RICrequestID = T_SEQUENCE asn_SPC_RICrequestID_specs_1 asn_MBR_RICrequestID_1"

definition asn_MBR_CriticalityDiagnostics_1 :: "asn_type asn_TYPE_member list" where
  "asn_MBR_CriticalityDiagnostics_1 =
   [Member ATF_POINTER 5 asn_DEF_ProcedureCode None None ''procedureCode'',
    Member ATF_POINTER 4 asn_DEF_TriggeringMessage None None ''triggeringMessage'',
    Member ATF_POINTER 3 asn_DEF_Criticality None None ''procedureCriticality'',
    Member ATF_POINTER 2 asn_DEF_RICrequestID None None ''ricRequestorID'',
    Member ATF_POINTER 1 asn_DEF_CriticalityDiagnostics_IE_List None None ''iEsCriticalityDiagnostics'']"

definition asn_SPC_CriticalityDiagnostics_specs_1 :: "asn_SEQUENCE_specifics" where
  "asn_SPC_CriticalityDiagnostics_specs_1 =
    \<lparr>seq_oms = [0, 1, 2, 3, 4], seq_roms_count = 5, seq_aoms_count = 0, seq_first_extension = 5\<rparr>"

definition asn_DEF_CriticalityDiagnostics :: "asn_type" where
  "asn_DEF_CriticalityDiagnostics = T_SEQUENCE asn_SPC_CriticalityDiagnostics_specs_1 asn_MBR_CriticalityDiagnostics_1"

definition asn_PER_type_ENB_ID_Choice_constr_1 :: "asn_per_constraints" where
  "asn_PER_type_ENB_ID_Choice_constr_1 = per_constraints (APC_CONSTRAINED True 2 2 0 2) APC_UNCONSTRAINED"

definition asn_PER_memb_enb_ID_macro_constr_2 :: "asn_per_constraints" where
  "asn_PER_memb_enb_ID_macro_constr_2 = per_constraints APC_UNCONSTRAINED (APC_CONSTRAINED False 0 0 20 20)"

definition asn_PER_memb_enb_ID_shortmacro_constr_3 :: "asn_per_constraints" where
  "asn_PER_memb_enb_ID_shortmacro_constr_3 = per_constraints APC_UNCONSTRAINED (APC_CONSTRAINED False 0 0 18 18)"

definition asn_PER_memb_enb_ID_longmacro_constr_4 :: "asn_per_constraints" where
  "asn_PER_memb_enb_ID_longmacro_constr_4 = per_constraints APC_UNCONSTRAINED (APC_CONSTRAINED False 0 0 21 21)"

definition asn_MBR_ENB_ID_Choice_1 :: "asn_type asn_TYPE_member list" where
  "asn_MBR_ENB_ID_Choice_1 =
   [Member ATF_NOFLAGS 0 asn_DEF_BIT_STRING None (Some asn_PER_memb_enb_ID_macro_constr_2) ''enb-ID-macro'',
    Member ATF_NOFLAGS 0 asn_DEF_BIT_STRING None (Some asn_PER_memb_enb_ID_shortmacro_constr_3) ''enb-ID-shortmacro'',
    Member ATF_NOFLAGS 0 asn_DEF_BIT_STRING None (Some asn_PER_memb_enb_ID_longmacro_constr_4) ''enb-ID-longmacro'']"

definition asn_SPC_ENB_ID_Choice_specs_1 :: "asn_CHOICE_specifics" where
  "asn_SPC_ENB_ID_Choice_specs_1 =
    \<lparr>ch_to_canonical_order = None, ch_from_canonical_order = None, ch_ext_start = 3\<rparr>"

definition asn_DEF_ENB_ID_Choice :: "asn_type" where
  "asn_DEF_ENB_ID_Choice = T_CHOICE (Some asn_PER_type_ENB_ID_Choice_constr_1) asn_SPC_ENB_ID_Choice_specs_1 asn_MBR_ENB_ID_Choice_1"

definition asn_PER_type_ENB_ID_constr_1 :: "asn_per_constraints" where
  "asn_PER_type_ENB_ID_constr_1 = per_constraints (APC_CONSTRAINED True 1 1 0 1) APC_UNCONSTRAINED"

definition asn_PER_memb_macro_eNB_ID_constr_2 :: "asn_per_constraints" where
  "asn_PER_memb_macro_eNB_ID_constr_2 = per_constraints APC_UNCONSTRAINED (APC_CONSTRAINED False 0 0 20 20)"

definition asn_PER_memb_home_eNB_ID_constr_3 :: "asn_per_constraints" where
  "asn_PER_memb_home_eNB_ID_constr_3 = per_constraints APC_UNCONSTRAINED (APC_CONSTRAINED False 0 0 28 28)"

definition asn_PER_memb_short_Macro_eNB_ID_constr_5 :: "asn_per_constraints" where
  "asn_PER_memb_short_Macro_eNB_ID_constr_5 = per_constraints APC_UNCONSTRAINED (APC_CONSTRAINED False 0 0 18 18)"

definition asn_PER_memb_long_Macro_eNB_ID_constr_6 :: "asn_per_constraints" where
  "asn_PER_memb_long_Macro_eNB_ID_constr_6 = per_constraints APC_UNCONSTRAINED (APC_CONSTRAINED False 0 0 21 21)"

definition asn_MBR_ENB_ID_1 :: "asn_type asn_TYPE_member list" where
  "asn_MBR_ENB_ID_1 =
   [Member ATF_NOFLAGS 0 asn_DEF_BIT_STRING None (Some asn_PER_memb_macro_eNB_ID_constr_2) ''macro-eNB-ID'',
    Member ATF_NOFLAGS 0 asn_DEF_BIT_STRING None (Some asn_PER_memb_home_eNB_ID_constr_3) ''home-eNB-ID'',
    Member ATF_NOFLAGS 0 asn_DEF_BIT_STRING None (Some asn_PER_memb_short_Macro_eNB_ID_constr_5) ''short-Macro-eNB-ID'',
    Member ATF_NOFLAGS 0 asn_DEF_BIT_STRING None (Some asn_PER_memb_long_Macro_eNB_ID_constr_6) ''long-Macro-eNB-ID'']"

definition asn_SPC_ENB_ID_specs_1 :: "asn_CHOICE_specifics" where
  "asn_SPC_ENB_ID_specs_1 = \<lparr>ch_to_canonical_order = None, ch_from_canonical_order = None, ch_ext_start = 2\<rparr>"

definition asn_DEF_ENB_ID :: "asn_type" where
  "asn_DEF_ENB_ID = T_CHOICE (Some asn_PER_type_ENB_ID_constr_1) asn_SPC_ENB_ID_specs_1 asn_MBR_ENB_ID_1"

definition asn_PER_type_ENGNB_ID_constr_1 :: "asn_per_constraints" where
  "asn_PER_type_ENGNB_ID_constr_1 = per_constraints (APC_CONSTRAINED True 0 0 0 0) APC_UNCONSTRAINED"

definition asn_PER_memb_gNB_ID_constr_2 :: "asn_per_constraints" where
  "asn_PER_memb_gNB_ID_constr_2 = per_constraints APC_UNCONSTRAINED (APC_CONSTRAINED False 4 4 22 32)"

definition asn_MBR_ENGNB_ID_1 :: "asn_type asn_TYPE_member list" where
  "asn_MBR_ENGNB_ID_1 =
   [Member ATF_NOFLAGS 0 asn_DEF_BIT_STRING None (Some asn_PER_memb_gNB_ID_constr_2) ''gNB-ID'']"

definition asn_SPC_ENGNB_ID_specs_1 :: "asn_CHOICE_specifics" where
  "asn_SPC_ENGNB_ID_specs_1 = \<lparr>ch_to_canonical_order = None, ch_from_canonical_order = None, ch_ext_start = 1\<rparr>"

definition asn_DEF_ENGNB_ID :: "asn_type" where
  "asn_DEF_ENGNB_ID = T_CHOICE (Some asn_PER_type_ENGNB_ID_constr_1) asn_SPC_ENGNB_ID_specs_1 asn_MBR_ENGNB_ID_1"

definition asn_PER_type_GNB_CU_UP_ID_constr_1 :: "asn_per_constraints" where
  "asn_PER_type_GNB_CU_UP_ID_constr_1 = per_constraints (APC_CONSTRAINED False 36 (-1) 0 68719476735) APC_UNCONSTRAINED"

definition asn_DEF_GNB_CU_UP_ID :: "asn_type" where
  "asn_DEF_GNB_CU_UP_ID = T_INTEGER False (Some asn_PER_type_GNB_CU_UP_ID_constr_1)"

definition asn_PER_type_GNB_DU_ID_constr_1 :: "asn_per_constraints" where
  "asn_PER_type_GNB_DU_ID_constr_1 = per_constraints (APC_CONSTRAINED False 36 (-1) 0 68719476735) APC_UNCONSTRAINED"

definition asn_DEF_GNB_DU_ID :: "asn_type" where
  "asn_DEF_GNB_DU_ID = T_INTEGER False (Some asn_PER_type_GNB_DU_ID_constr_1)"

definition asn_PER_type_GNB_ID_Choice_constr_1 :: "asn_per_constraints" where
  "asn_PER_type_GNB_ID_Choice_constr_1 = per_constraints (APC_CONSTRAINED True 0 0 0 0) APC_UNCONSTRAINED"

definition asn_PER_memb_gnb_ID_constr_2 :: "asn_per_constraints" where
  "asn_PER_memb_gnb_ID_constr_2 = per_constraints APC_UNCONSTRAINED (APC_CONSTRAINED False 4 4 22 32)"

definition asn_MBR_GNB_ID_Choice_1 :: "asn_type asn_TYPE_member list" where
  "asn_MBR_GNB_ID_Choice_1 =
   [Member ATF_NOFLAGS 0 asn_DEF_BIT_STRING None (Some asn_PER_memb_gnb_ID_constr_2) ''gnb-ID'']"

definition asn_SPC_GNB_ID_Choice_specs_1 :: "asn_CHOICE_specifics" where
  "asn_SPC_GNB_ID_Choice_specs_1 =
    \<lparr>ch_to_canonical_order = None, ch_from_canonical_order = None, ch_ext_start = 1\<rparr>"

definition asn_DEF_GNB_ID_Choice :: "asn_type" where
  "asn_DEF_GNB_ID_Choice = T_CHOICE (Some asn_PER_type_GNB_ID_Choice_constr_1) asn_SPC_GNB_ID_Choice_specs_1 asn_MBR_GNB_ID_Choice_1"

definition asn_PER_type_GlobalE2node_ID_constr_1 :: "asn_per_constraints" where
  "asn_PER_type_GlobalE2node_ID_constr_1 = per_constraints (APC_CONSTRAINED True 2 2 0 3) APC_UNCONSTRAINED"

definition asn_PER_type_PLMN_Identity_constr_1 :: "asn_per_constraints" where
  "asn_PER_type_PLMN_Identity_constr_1 = per_constraints APC_UNCONSTRAINED (APC_CONSTRAINED False 0 0 3 3)"

definition asn_DEF_PLMN_Identity :: "asn_type" where
  "asn_DEF_PLMN_Identity = T_STRING ASN_OSUBV_STR (Some asn_PER_type_PLMN_Identity_constr_1)"

definition asn_MBR_GlobalgNB_ID_1 :: "asn_type asn_TYPE_member list" where
  "asn_MBR_GlobalgNB_ID_1 =
   [Member ATF_NOFLAGS 0 asn_DEF_PLMN_Identity None None ''plmn-id'',
    Member ATF_NOFLAGS 0 asn_DEF_GNB_ID_Choice None None ''gnb-id'']"

definition asn_SPC_GlobalgNB_ID_specs_1 :: "asn_SEQUENCE_specifics" where
  "asn_SPC_GlobalgNB_ID_specs_1 =
    \<lparr>seq_oms = [], seq_roms_count = 0, seq_aoms_count = 0, seq_first_extension = 2\<rparr>"

definition asn_DEF_GlobalgNB_ID :: "asn_type" where
  "asn_DEF_GlobalgNB_ID = T_SEQUENCE asn_SPC_GlobalgNB_ID_specs_1 asn_MBR_GlobalgNB_ID_1"

definition asn_MBR_GlobalE2node_gNB_ID_1 :: "asn_type asn_TYPE_member list" where
  "asn_MBR_GlobalE2node_gNB_ID_1 =
   [Member ATF_NOFLAGS 0 asn_DEF_GlobalgNB_ID None None ''global-gNB-ID'',
    Member ATF_POINTER 2 asn_DEF_GNB_CU_UP_ID None None ''gNB-CU-UP-ID'',
    Member ATF_POINTER 1 asn_DEF_GNB_DU_ID None None ''gNB-DU-ID'']"

definition asn_SPC_GlobalE2node_gNB_ID_specs_1 :: "asn_SEQUENCE_specifics" where
  "asn_SPC_GlobalE2node_gNB_ID_specs_1 =
    \<lparr>seq_oms = [1, 2], seq_roms_count = 2, seq_aoms_count = 0, seq_first_extension = 3\<rparr>"

definition asn_DEF_GlobalE2node_gNB_ID :: "asn_type" where
  "asn_DEF_GlobalE2node_gNB_ID = T_SEQUENCE asn_SPC_GlobalE2node_gNB_ID_specs_1 asn_MBR_GlobalE2node_gNB_ID_1"

definition asn_MBR_GlobalenGNB_ID_1 :: "asn_type asn_TYPE_member list" where
  "asn_MBR_GlobalenGNB_ID_1 =
   [Member ATF_NOFLAGS 0 asn_DEF_PLMN_Identity None None ''pLMN-Identity'',
    Member ATF_NOFLAGS 0 asn_DEF_ENGNB_ID None None ''gNB-ID'']"

definition asn_SPC_GlobalenGNB_ID_specs_1 :: "asn_SEQUENCE_specifics" where
  "asn_SPC_GlobalenGNB_ID_specs_1 =
    \<lparr>seq_oms = [], seq_roms_count = 0, seq_aoms_count = 0, seq_first_extension = 2\<rparr>"

definition asn_DEF_GlobalenGNB_ID :: "asn_type" where
  "asn_DEF_GlobalenGNB_ID = T_SEQUENCE asn_SPC_GlobalenGNB_ID_specs_1 asn_MBR_GlobalenGNB_ID_1"

definition asn_MBR_GlobalE2node_en_gNB_ID_1 :: "asn_type asn_TYPE_member list" where
  "asn_MBR_GlobalE2node_en_gNB_ID_1 =
   [Member ATF_NOFLAGS 0 asn_DEF_GlobalenGNB_ID None None ''global-gNB-ID'']"

definition asn_SPC_GlobalE2node_en_gNB_ID_specs_1 :: "asn_SEQUENCE_specifics" where
  "asn_SPC_GlobalE2node_en_gNB_ID_specs_1 =
    \<lparr>seq_oms = [], seq_roms_count = 0, seq_aoms_count = 0, seq_first_extension = 1\<rparr>"

definition asn_DEF_GlobalE2node_en_gNB_ID :: "asn_type" where
  "asn_DEF_GlobalE2node_en_gNB_ID = T_SEQUENCE asn_SPC_GlobalE2node_en_gNB_ID_specs_1 asn_MBR_GlobalE2node_en_gNB_ID_1"

definition asn_MBR_GlobalngeNB_ID_1 :: "asn_type asn_TYPE_member list" where
  "asn_MBR_GlobalngeNB_ID_1 =
   [Member ATF_NOFLAGS 0 asn_DEF_PLMN_Identity None None ''plmn-id'',
    Member ATF_NOFLAGS 0 asn_DEF_ENB_ID_Choice None None ''enb-id'']"

definition asn_SPC_GlobalngeNB_ID_specs_1 :: "asn_SEQUENCE_specifics" where
  "asn_SPC_GlobalngeNB_ID_specs_1 =
    \<lparr>seq_oms = [], seq_roms_count = 0, seq_aoms_count = 0, seq_first_extension = 2\<rparr>"

definition asn_DEF_GlobalngeNB_ID :: "asn_type" where
  "asn_DEF_GlobalngeNB_ID = T_SEQUENCE asn_SPC_GlobalngeNB_ID_specs_1 asn_MBR_GlobalngeNB_ID_1"

definition asn_MBR_GlobalE2node_ng_eNB_ID_1 :: "asn_type asn_TYPE_member list" where
  "asn_MBR_GlobalE2node_ng_eNB_ID_1 =
   [Member ATF_NOFLAGS 0 asn_DEF_GlobalngeNB_ID None None ''global-ng-eNB-ID'']"

definition asn_SPC_GlobalE2node_ng_eNB_ID_specs_1 :: "asn_SEQUENCE_specifics" where
  "asn_SPC_GlobalE2node_ng_eNB_ID_specs_1 =
    \<lparr>seq_oms = [], seq_roms_count = 0, seq_aoms_count = 0, seq_first_extension = 1\<rparr>"

definition asn_DEF_GlobalE2node_ng_eNB_ID :: "asn_type" where
  "asn_DEF_GlobalE2node_ng_eNB_ID = T_SEQUENCE asn_SPC_GlobalE2node_ng_eNB_ID_specs_1 asn_MBR_GlobalE2node_ng_eNB_ID_1"

definition asn_MBR_GlobalENB_ID_1 :: "asn_type asn_TYPE_member list" where
  "asn_MBR_GlobalENB_ID_1 =
   [Member ATF_NOFLAGS 0 asn_DEF_PLMN_Identity None None ''pLMN-Identity'',
    Member ATF_NOFLAGS 0 asn_DEF_ENB_ID None None ''eNB-ID'']"

definition asn_SPC_GlobalENB_ID_specs_1 :: "asn_SEQUENCE_specifics" where
  "asn_SPC_GlobalENB_ID_specs_1 =
    \<lparr>seq_oms = [], seq_roms_count = 0, seq_aoms_count = 0, seq_first_extension = 2\<rparr>"

definition asn_DEF_GlobalENB_ID :: "asn_type" where
  "asn_DEF_GlobalENB_ID = T_SEQUENCE asn_SPC_GlobalENB_ID_specs_1 asn_MBR_GlobalENB_ID_1"

definition asn_MBR_GlobalE2node_eNB_ID_1 :: "asn_type asn_TYPE_member list" where
  "asn_MBR_GlobalE2node_eNB_ID_1 =
   [Member ATF_NOFLAGS 0 asn_DEF_GlobalENB_ID None None ''global-eNB-ID'']"

definition asn_SPC_GlobalE2node_eNB_ID_specs_1 :: "asn_SEQUENCE_specifics" where
  "asn_SPC_GlobalE2node_eNB_ID_specs_1 =
    \<lparr>seq_oms = [], seq_roms_count = 0, seq_aoms_count = 0, seq_first_extension = 1\<rparr>"

definition asn_DEF_GlobalE2node_eNB_ID :: "asn_type" where
  "asn_DEF_GlobalE2node_eNB_ID = T_SEQUENCE asn_SPC_GlobalE2node_eNB_ID_specs_1 asn_MBR_GlobalE2node_eNB_ID_1"

definition asn_MBR_GlobalE2node_ID_1 :: "asn_type asn_TYPE_member list" where
  "asn_MBR_GlobalE2node_ID_1 =
   [Member ATF_POINTER 0 asn_DEF_GlobalE2node_gNB_ID None None ''gNB'',
    Member ATF_POINTER 0 asn_DEF_GlobalE2node_en_gNB_ID None None ''en-gNB'',
    Member ATF_POINTER 0 asn_DEF_GlobalE2node_ng_eNB_ID None None ''ng-eNB'',
    Member ATF_POINTER 0 asn_DEF_GlobalE2node_eNB_ID None None ''eNB'']"

definition asn_SPC_GlobalE2node_ID_specs_1 :: "asn_CHOICE_specifics" where
  "asn_SPC_GlobalE2node_ID_specs_1 =
    \<lparr>ch_to_canonical_order = None, ch_from_canonical_order = None, ch_ext_start = 4\<rparr>"

definition asn_DEF_GlobalE2node_ID :: "asn_type" where
  "asn_DEF_GlobalE2node_ID = T_CHOICE (Some asn_PER_type_GlobalE2node_ID_constr_1) asn_SPC_GlobalE2node_ID_specs_1 asn_MBR_GlobalE2node_ID_1"

definition asn_PER_memb_ric_ID_constr_3 :: "asn_per_constraints" where
  "asn_PER_memb_ric_ID_constr_3 = per_constraints APC_UNCONSTRAINED (APC_CONSTRAINED False 0 0 20 20)"

definition asn_MBR_GlobalRIC_ID_1 :: "asn_type asn_TYPE_member list" where
  "asn_MBR_GlobalRIC_ID_1 =
   [Member ATF_NOFLAGS 0 asn_DEF_PLMN_Identity None None ''pLMN-Identity'',
    Member ATF_NOFLAGS 0 asn_DEF_BIT_STRING None (Some asn_PER_memb_ric_ID_constr_3) ''ric-ID'']"

definition asn_SPC_GlobalRIC_ID_specs_1 :: "asn_SEQUENCE_specifics" where
  "asn_SPC_GlobalRIC_ID_specs_1 =
    \<lparr>seq_oms = [], seq_roms_count = 0, seq_aoms_count = 0, seq_first_extension = 2\<rparr>"

definition asn_DEF_GlobalRIC_ID :: "asn_type" where
  "asn_DEF_GlobalRIC_ID = T_SEQUENCE asn_SPC_GlobalRIC_ID_specs_1 asn_MBR_GlobalRIC_ID_1"

definition asn_DEF_INTEGER :: "asn_type" where
  "asn_DEF_INTEGER = T_INTEGER False None"

definition asn_DEF_NativeEnumerated :: "asn_type" where
  "asn_DEF_NativeEnumerated = T_NativeEnumerated None None"

definition asn_DEF_OCTET_STRING :: "asn_type" where
  "asn_DEF_OCTET_STRING = T_STRING ASN_OSUBV_STR None"

definition asn_PER_type_Presence_constr_1 :: "asn_per_constraints" where
  "asn_PER_type_Presence_constr_1 = per_constraints (APC_CONSTRAINED False 2 2 0 2) APC_UNCONSTRAINED"

definition asn_MAP_Presence_value2enum_1 :: "(int \<times> string) list" where
  "asn_MAP_Presence_value2enum_1 =
   [(0, ''optional''),
    (1, ''conditional''),
    (2, ''mandatory'')]"

definition asn_SPC_Presence_specs_1 :: "asn_INTEGER_specifics" where
  "asn_SPC_Presence_specs_1 = \<lparr>en_value2enum = asn_MAP_Presence_value2enum_1, en_extension = 0\<rparr>"

definition asn_DEF_Presence :: "asn_type" where
  "asn_DEF_Presence = T_NativeEnumerated (Some asn_SPC_Presence_specs_1) (Some asn_PER_type_Presence_constr_1)"

definition asn_PER_type_RANfunctionID_constr_1 :: "asn_per_constraints" where
  "asn_PER_type_RANfunctionID_constr_1 = per_constraints (APC_CONSTRAINED False 12 12 0 4095) APC_UNCONSTRAINED"

definition asn_DEF_RANfunctionID :: "asn_type" where
  "asn_DEF_RANfunctionID = T_NativeInteger False (Some asn_PER_type_RANfunctionID_constr_1)"

definition asn_DEF_RANfunctionDefinition :: "asn_type" where
  "asn_DEF_RANfunctionDefinition = T_STRING ASN_OSUBV_STR None"

definition asn_PER_type_RANfunctionRevision_constr_1 :: "asn_per_constraints" where
  "asn_PER_type_RANfunctionRevision_constr_1 = per_constraints (APC_CONSTRAINED False 12 12 0 4095) APC_UNCONSTRAINED"

definition asn_DEF_RANfunctionRevision :: "asn_type" where
  "asn_DEF_RANfunctionRevision = T_NativeInteger False (Some asn_PER_type_RANfunctionRevision_constr_1)"

definition asn_MBR_RANfunction_Item_1 :: "asn_type asn_TYPE_member list" where
  "asn_MBR_RANfunction_Item_1 =
   [Member ATF_NOFLAGS 0 asn_DEF_RANfunctionID None None ''ranFunctionID'',
    Member ATF_NOFLAGS 0 asn_DEF_RANfunctionDefinition None None ''ranFunctionDefinition'',
    Member ATF_NOFLAGS 0 asn_DEF_RANfunctionRevision None None ''ranFunctionRevision'']"

definition asn_SPC_RANfunction_Item_specs_1 :: "asn_SEQUENCE_specifics" where
  "asn_SPC_RANfunction_Item_specs_1 =
    \<lparr>seq_oms = [], seq_roms_count = 0, seq_aoms_count = 0, seq_first_extension = 3\<rparr>"

definition asn_DEF_RANfunction_Item :: "asn_type" where
  "asn_DEF_RANfunction_Item = T_SEQUENCE asn_SPC_RANfunction_Item_specs_1 asn_MBR_RANfunction_Item_1"

definition asn_MBR_RANfunctionID_Item_1 :: "asn_type asn_TYPE_member list" where
  "asn_MBR_RANfunctionID_Item_1 =
   [Member ATF_NOFLAGS 0 asn_DEF_RANfunctionID None None ''ranFunctionID'',
    Member ATF_NOFLAGS 0 asn_DEF_RANfunctionRevision None None ''ranFunctionRevision'']"

definition asn_SPC_RANfunctionID_Item_specs_1 :: "asn_SEQUENCE_specifics" where
  "asn_SPC_RANfunctionID_Item_specs_1 =
    \<lparr>seq_oms = [], seq_roms_count = 0, seq_aoms_count = 0, seq_first_extension = 2\<rparr>"

definition asn_DEF_RANfunctionID_Item :: "asn_type" where
  "asn_DEF_RANfunctionID_Item = T_SEQUENCE asn_SPC_RANfunctionID_Item_specs_1 asn_MBR_RANfunctionID_Item_1"

definition asn_MBR_RANfunctionIDcause_Item_1 :: "asn_type asn_TYPE_member list" where
  "asn_MBR_RANfunctionIDcause_Item_1 =
   [Member ATF_NOFLAGS 0 asn_DEF_RANfunctionID None None ''ranFunctionID'',
    Member ATF_NOFLAGS 0 asn_DEF_Cause None None ''cause'']"

definition asn_SPC_RANfunctionIDcause_Item_specs_1 :: "asn_SEQUENCE_specifics" where
  "asn_SPC_RANfunctionIDcause_Item_specs_1 =
    \<lparr>seq_oms = [], seq_roms_count = 0, seq_aoms_count = 0, seq_first_extension = 2\<rparr>"

definition asn_DEF_RANfunctionIDcause_Item :: "asn_type" where
  "asn_DEF_RANfunctionIDcause_Item = T_SEQUENCE asn_SPC_RANfunctionIDcause_Item_specs_1 asn_MBR_RANfunctionIDcause_Item_1"

definition asn_PER_type_RICactionID_constr_1 :: "asn_per_constraints" where
  "asn_PER_type_RICactionID_constr_1 = per_constraints (APC_CONSTRAINED False 8 8 0 255) APC_UNCONSTRAINED"

definition asn_DEF_RICactionID :: "asn_type" where
  "asn_DEF_RICactionID = T_NativeInteger False (Some asn_PER_type_RICactionID_constr_1)"

definition asn_MBR_RICaction_Admitted_Item_1 :: "asn_type asn_TYPE_member list" where
  "asn_MBR_RICaction_Admitted_Item_1 =
   [Member ATF_NOFLAGS 0 asn_DEF_RICactionID None None ''ricActionID'']"

definition asn_SPC_RICaction_Admitted_Item_specs_1 :: "asn_SEQUENCE_specifics" where
  "asn_SPC_RICaction_Admitted_Item_specs_1 =
    \<lparr>seq_oms = [], seq_roms_count = 0, seq_aoms_count = 0, seq_first_extension = 1\<rparr>"

definition asn_DEF_RICaction_Admitted_Item :: "asn_type" where
  "asn_DEF_RICaction_Admitted_Item = T_SEQUENCE asn_SPC_RICaction_Admitted_Item_specs_1 asn_MBR_RICaction_Admitted_Item_1"

definition asn_MBR_RICaction_NotAdmitted_Item_1 :: "asn_type asn_TYPE_member list" where
  "asn_MBR_RICaction_NotAdmitted_Item_1 =
   [Member ATF_NOFLAGS 0 asn_DEF_RICactionID None None ''ricActionID'',
    Member ATF_NOFLAGS 0 asn_DEF_Cause None None ''cause'']"

definition asn_SPC_RICaction_NotAdmitted_Item_specs_1 :: "asn_SEQUENCE_specifics" where
  "asn_SPC_RICaction_NotAdmitted_Item_specs_1 =
    \<lparr>seq_oms = [], seq_roms_count = 0, seq_aoms_count = 0, seq_first_extension = 2\<rparr>"

definition asn_DEF_RICaction_NotAdmitted_Item :: "asn_type" where
  "asn_DEF_RICaction_NotAdmitted_Item = T_SEQUENCE asn_SPC_RICaction_NotAdmitted_Item_specs_1 asn_MBR_RICaction_NotAdmitted_Item_1"

definition asn_PER_type_RICactionType_constr_1 :: "asn_per_constraints" where
  "asn_PER_type_RICactionType_constr_1 = per_constraints (APC_CONSTRAINED True 2 2 0 2) APC_UNCONSTRAINED"

definition asn_MAP_RICactionType_value2enum_1 :: "(int \<times> string) list" where
  "asn_MAP_RICactionType_value2enum_1 =
   [(0, ''report''),
    (1, ''insert''),
    (2, ''policy'')]"

definition asn_SPC_RICactionType_specs_1 :: "asn_INTEGER_specifics" where
  "asn_SPC_RICactionType_specs_1 = \<lparr>en_value2enum = asn_MAP_RICactionType_value2enum_1, en_extension = 4\<rparr>"

definition asn_DEF_RICactionType :: "asn_type" where
  "asn_DEF_RICactionType = T_NativeEnumerated (Some asn_SPC_RICactionType_specs_1) (Some asn_PER_type_RICactionType_constr_1)"

definition asn_DEF_RICactionDefinition :: "asn_type" where
  "asn_DEF_RICactionDefinition = T_STRING ASN_OSUBV_STR None"

definition asn_PER_type_RICsubsequentActionType_constr_1 :: "asn_per_constraints" where
  "asn_PER_type_RICsubsequentActionType_constr_1 = per_constraints (APC_CONSTRAINED True 1 1 0 1) APC_UNCONSTRAINED"

definition asn_MAP_RICsubsequentActionType_value2enum_1 :: "(int \<times> string) list" where
  "asn_MAP_RICsubsequentActionType_value2enum_1 =
   [(0, ''continue''),
    (1, ''wait'')]"

definition asn_SPC_RICsubsequentActionType_specs_1 :: "asn_INTEGER_specifics" where
  "asn_SPC_RICsubsequentActionType_specs_1 =
    \<lparr>en_value2enum = asn_MAP_RICsubsequentActionType_value2enum_1, en_extension = 3\<rparr>"

definition asn_DEF_RICsubsequentActionType :: "asn_type" where
  "asn_DEF_RICsubsequentActionType = T_NativeEnumerated (Some asn_SPC_RICsubsequentActionType_specs_1) (Some asn_PER_type_RICsubsequentActionType_constr_1)"

definition asn_PER_type_RICtimeToWait_constr_1 :: "asn_per_constraints" where
  "asn_PER_type_RICtimeToWait_constr_1 = per_constraints (APC_CONSTRAINED True 5 5 0 17) APC_UNCONSTRAINED"

definition asn_MAP_RICtimeToWait_value2enum_1 :: "(int \<times> string) list" where
  "asn_MAP_RICtimeToWait_value2enum_1 =
   [(0, ''zero''),
    (1, ''w1ms''),
    (2, ''w2ms''),
    (3, ''w5ms''),
    (4, ''w10ms''),
    (5, ''w20ms''),
    (6, ''w30ms''),
    (7, ''w40ms''),
    (8, ''w50ms''),
    (9, ''w100ms''),
    (10, ''w200ms''),
    (11, ''w500ms''),
    (12, ''w1s''),
    (13, ''w2s''),
    (14, ''w5s''),
    (15, ''w10s''),
    (16, ''w20s''),
    (17, ''w60s'')]"

definition asn_SPC_RICtimeToWait_specs_1 :: "asn_INTEGER_specifics" where
  "asn_SPC_RICtimeToWait_specs_1 = \<lparr>en_value2enum = asn_MAP_RICtimeToWait_value2enum_1, en_extension = 19\<rparr>"

definition asn_DEF_RICtimeToWait :: "asn_type" where
  "asn_DEF_RICtimeToWait = T_NativeEnumerated (Some asn_SPC_RICtimeToWait_specs_1) (Some asn_PER_type_RICtimeToWait_constr_1)"

definition asn_MBR_RICsubsequentAction_1 :: "asn_type asn_TYPE_member list" where
  "asn_MBR_RICsubsequentAction_1 =
   [Member ATF_NOFLAGS 0 asn_DEF_RICsubsequentActionType None None ''ricSubsequentActionType'',
    Member ATF_NOFLAGS 0 asn_DEF_RICtimeToWait None None ''ricTimeToWait'']"

definition asn_SPC_RICsubsequentAction_specs_1 :: "asn_SEQUENCE_specifics" where
  "asn_SPC_RICsubsequentAction_specs_1 =
    \<lparr>seq_oms = [], seq_roms_count = 0, seq_aoms_count = 0, seq_first_extension = 2\<rparr>"

definition asn_DEF_RICsubsequentAction :: "asn_type" where
  "asn_DEF_RICsubsequentAction = T_SEQUENCE asn_SPC_RICsubsequentAction_specs_1 asn_MBR_RICsubsequentAction_1"

definition asn_MBR_RICaction_ToBeSetup_Item_1 :: "asn_type asn_TYPE_member list" where
  "asn_MBR_RICaction_ToBeSetup_Item_1 =
   [Member ATF_NOFLAGS 0 asn_DEF_RICactionID None None ''ricActionID'',
    Member ATF_NOFLAGS 0 asn_DEF_RICactionType None None ''ricActionType'',
    Member ATF_POINTER 2 asn_DEF_RICactionDefinition None None ''ricActionDefinition'',
    Member ATF_POINTER 1 asn_DEF_RICsubsequentAction None None ''ricSubsequentAction'']"

definition asn_SPC_RICaction_ToBeSetup_Item_specs_1 :: "asn_SEQUENCE_specifics" where
  "asn_SPC_RICaction_ToBeSetup_Item_specs_1 =
    \<lparr>seq_oms = [2, 3], seq_roms_count = 2, seq_aoms_count = 0, seq_first_extension = 4\<rparr>"

definition asn_DEF_RICaction_ToBeSetup_Item :: "asn_type" where
  "asn_DEF_RICaction_ToBeSetup_Item = T_SEQUENCE asn_SPC_RICaction_ToBeSetup_Item_specs_1 asn_MBR_RICaction_ToBeSetup_Item_1"

definition asn_DEF_RICcallProcessID :: "asn_type" where
  "asn_DEF_RICcallProcessID = T_STRING ASN_OSUBV_STR None"

definition asn_PER_type_RICcontrolAckRequest_constr_1 :: "asn_per_constraints" where
  "asn_PER_type_RICcontrolAckRequest_constr_1 = per_constraints (APC_CONSTRAINED True 2 2 0 2) APC_UNCONSTRAINED"

definition asn_MAP_RICcontrolAckRequest_value2enum_1 :: "(int \<times> string) list" where
  "asn_MAP_RICcontrolAckRequest_value2enum_1 =
   [(0, ''noAck''),
    (1, ''ack''),
    (2, ''nAck'')]"

definition asn_SPC_RICcontrolAckRequest_specs_1 :: "asn_INTEGER_specifics" where
  "asn_SPC_RICcontrolAckRequest_specs_1 =
    \<lparr>en_value2enum = asn_MAP_RICcontrolAckRequest_value2enum_1, en_extension = 4\<rparr>"

definition asn_DEF_RICcontrolAckRequest :: "asn_type" where
  "asn_DEF_RICcontrolAckRequest = T_NativeEnumerated (Some asn_SPC_RICcontrolAckRequest_specs_1) (Some asn_PER_type_RICcontrolAckRequest_constr_1)"

definition asn_DEF_RICcontrolHeader :: "asn_type" where
  "asn_DEF_RICcontrolHeader = T_STRING ASN_OSUBV_STR None"

definition asn_DEF_RICcontrolMessage :: "asn_type" where
  "asn_DEF_RICcontrolMessage = T_STRING ASN_OSUBV_STR None"

definition asn_DEF_RICcontrolOutcome :: "asn_type" where
  "asn_DEF_RICcontrolOutcome = T_STRING ASN_OSUBV_STR None"

definition asn_PER_type_RICcontrolStatus_constr_1 :: "asn_per_constraints" where
  "asn_PER_type_RICcontrolStatus_constr_1 = per_constraints (APC_CONSTRAINED True 2 2 0 2) APC_UNCONSTRAINED"

definition asn_MAP_RICcontrolStatus_value2enum_1 :: "(int \<times> string) list" where
  "asn_MAP_RICcontrolStatus_value2enum_1 =
   [(0, ''success''),
    (1, ''rejected''),
    (2, ''failed'')]"

definition asn_SPC_RICcontrolStatus_specs_1 :: "asn_INTEGER_specifics" where
  "asn_SPC_RICcontrolStatus_specs_1 = \<lparr>en_value2enum = asn_MAP_RICcontrolStatus_value2enum_1, en_extension = 4\<rparr>"

definition asn_DEF_RICcontrolStatus :: "asn_type" where
  "asn_DEF_RICcontrolStatus = T_NativeEnumerated (Some asn_SPC_RICcontrolStatus_specs_1) (Some asn_PER_type_RICcontrolStatus_constr_1)"

definition asn_DEF_RICeventTriggerDefinition :: "asn_type" where
  "asn_DEF_RICeventTriggerDefinition = T_STRING ASN_OSUBV_STR None"

definition asn_DEF_RICindicationHeader :: "asn_type" where
  "asn_DEF_RICindicationHeader = T_STRING ASN_OSUBV_STR None"

definition asn_DEF_RICindicationMessage :: "asn_type" where
  "asn_DEF_RICindicationMessage = T_STRING ASN_OSUBV_STR None"

definition asn_PER_type_RICindicationSN_constr_1 :: "asn_per_constraints" where
  "asn_PER_type_RICindicationSN_constr_1 = per_constraints (APC_CONSTRAINED False 16 16 0 65535) APC_UNCONSTRAINED"

definition asn_DEF_RICindicationSN :: "asn_type" where
  "asn_DEF_RICindicationSN = T_NativeInteger False (Some asn_PER_type_RICindicationSN_constr_1)"

definition asn_PER_type_RICindicationType_constr_1 :: "asn_per_constraints" where
  "asn_PER_type_RICindicationType_constr_1 = per_constraints (APC_CONSTRAINED True 1 1 0 1) APC_UNCONSTRAINED"

definition asn_MAP_RICindicationType_value2enum_1 :: "(int \<times> string) list" where
  "asn_MAP_RICindicationType_value2enum_1 =
   [(0, ''report''),
    (1, ''insert'')]"

definition asn_SPC_RICindicationType_specs_1 :: "asn_INTEGER_specifics" where
  "asn_SPC_RICindicationType_specs_1 =
    \<lparr>en_value2enum = asn_MAP_RICindicationType_value2enum_1, en_extension = 3\<rparr>"

definition asn_DEF_RICindicationType :: "asn_type" where
  "asn_DEF_RICindicationType = T_NativeEnumerated (Some asn_SPC_RICindicationType_specs_1) (Some asn_PER_type_RICindicationType_constr_1)"

definition asn_PER_type_TimeToWait_constr_1 :: "asn_per_constraints" where
  "asn_PER_type_TimeToWait_constr_1 = per_constraints (APC_CONSTRAINED True 3 3 0 5) APC_UNCONSTRAINED"

definition asn_MAP_TimeToWait_value2enum_1 :: "(int \<times> string) list" where
  "asn_MAP_TimeToWait_value2enum_1 =
   [(0, ''v1s''),
    (1, ''v2s''),
    (2, ''v5s''),
    (3, ''v10s''),
    (4, ''v20s''),
    (5, ''v60s'')]"

definition asn_SPC_TimeToWait_specs_1 :: "asn_INTEGER_specifics" where
  "asn_SPC_TimeToWait_specs_1 = \<lparr>en_value2enum = asn_MAP_TimeToWait_value2enum_1, en_extension = 7\<rparr>"

definition asn_DEF_TimeToWait :: "asn_type" where
  "asn_DEF_TimeToWait = T_NativeEnumerated (Some asn_SPC_TimeToWait_specs_1) (Some asn_PER_type_TimeToWait_constr_1)"

text \<open>The tables, by kind: constraints, specifics, members and descriptors.\<close>

lemmas element_constraints =
  asn_PER_type_Cause_constr_1_def asn_PER_type_CauseRIC_constr_1_def asn_PER_type_CauseRICservice_constr_1_def
  asn_PER_type_CauseTransport_constr_1_def asn_PER_type_CauseProtocol_constr_1_def asn_PER_type_CauseMisc_constr_1_def
  asn_PER_type_Criticality_constr_1_def asn_PER_type_ProtocolIE_ID_constr_1_def asn_PER_type_TypeOfError_constr_1_def
  asn_PER_type_CriticalityDiagnostics_IE_List_constr_1_def asn_PER_type_ProcedureCode_constr_1_def asn_PER_type_TriggeringMessage_constr_1_def
  asn_PER_memb_ricRequestorID_constr_2_def asn_PER_memb_ricInstanceID_constr_3_def asn_PER_type_ENB_ID_Choice_constr_1_def
  asn_PER_memb_enb_ID_macro_constr_2_def asn_PER_memb_enb_ID_shortmacro_constr_3_def asn_PER_memb_enb_ID_longmacro_constr_4_def
  asn_PER_type_ENB_ID_constr_1_def asn_PER_memb_macro_eNB_ID_constr_2_def asn_PER_memb_home_eNB_ID_constr_3_def
  asn_PER_memb_short_Macro_eNB_ID_constr_5_def asn_PER_memb_long_Macro_eNB_ID_constr_6_def asn_PER_type_ENGNB_ID_constr_1_def
  asn_PER_memb_gNB_ID_constr_2_def asn_PER_type_GNB_CU_UP_ID_constr_1_def asn_PER_type_GNB_DU_ID_constr_1_def
  asn_PER_type_GNB_ID_Choice_constr_1_def asn_PER_memb_gnb_ID_constr_2_def asn_PER_type_GlobalE2node_ID_constr_1_def
  asn_PER_type_PLMN_Identity_constr_1_def asn_PER_memb_ric_ID_constr_3_def asn_PER_type_Presence_constr_1_def
  asn_PER_type_RANfunctionID_constr_1_def asn_PER_type_RANfunctionRevision_constr_1_def asn_PER_type_RICactionID_constr_1_def
  asn_PER_type_RICactionType_constr_1_def asn_PER_type_RICsubsequentActionType_constr_1_def asn_PER_type_RICtimeToWait_constr_1_def
  asn_PER_type_RICcontrolAckRequest_constr_1_def asn_PER_type_RICcontrolStatus_constr_1_def asn_PER_type_RICindicationSN_constr_1_def
  asn_PER_type_RICindicationType_constr_1_def asn_PER_type_TimeToWait_constr_1_def

lemmas element_specifics =
  asn_MAP_CauseRIC_value2enum_1_def asn_SPC_CauseRIC_specs_1_def asn_MAP_CauseRICservice_value2enum_1_def
  asn_SPC_CauseRICservice_specs_1_def asn_MAP_CauseTransport_value2enum_1_def asn_SPC_CauseTransport_specs_1_def
  asn_MAP_CauseProtocol_value2enum_1_def asn_SPC_CauseProtocol_specs_1_def asn_MAP_CauseMisc_value2enum_1_def
  asn_SPC_CauseMisc_specs_1_def asn_SPC_Cause_specs_1_def asn_MAP_Criticality_value2enum_1_def
  asn_SPC_Criticality_specs_1_def asn_MAP_TypeOfError_value2enum_1_def asn_SPC_TypeOfError_specs_1_def
  asn_SPC_CriticalityDiagnostics_IE_Item_specs_1_def asn_MAP_TriggeringMessage_value2enum_1_def asn_SPC_TriggeringMessage_specs_1_def
  asn_SPC_RICrequestID_specs_1_def asn_SPC_CriticalityDiagnostics_specs_1_def asn_SPC_ENB_ID_Choice_specs_1_def
  asn_SPC_ENB_ID_specs_1_def asn_SPC_ENGNB_ID_specs_1_def asn_SPC_GNB_ID_Choice_specs_1_def
  asn_SPC_GlobalgNB_ID_specs_1_def asn_SPC_GlobalE2node_gNB_ID_specs_1_def asn_SPC_GlobalenGNB_ID_specs_1_def
  asn_SPC_GlobalE2node_en_gNB_ID_specs_1_def asn_SPC_GlobalngeNB_ID_specs_1_def asn_SPC_GlobalE2node_ng_eNB_ID_specs_1_def
  asn_SPC_GlobalENB_ID_specs_1_def asn_SPC_GlobalE2node_eNB_ID_specs_1_def asn_SPC_GlobalE2node_ID_specs_1_def
  asn_SPC_GlobalRIC_ID_specs_1_def asn_MAP_Presence_value2enum_1_def asn_SPC_Presence_specs_1_def
  asn_SPC_RANfunction_Item_specs_1_def asn_SPC_RANfunctionID_Item_specs_1_def asn_SPC_RANfunctionIDcause_Item_specs_1_def
  asn_SPC_RICaction_Admitted_Item_specs_1_def asn_SPC_RICaction_NotAdmitted_Item_specs_1_def asn_MAP_RICactionType_value2enum_1_def
  asn_SPC_RICactionType_specs_1_def asn_MAP_RICsubsequentActionType_value2enum_1_def asn_SPC_RICsubsequentActionType_specs_1_def
  asn_MAP_RICtimeToWait_value2enum_1_def asn_SPC_RICtimeToWait_specs_1_def asn_SPC_RICsubsequentAction_specs_1_def
  asn_SPC_RICaction_ToBeSetup_Item_specs_1_def asn_MAP_RICcontrolAckRequest_value2enum_1_def asn_SPC_RICcontrolAckRequest_specs_1_def
  asn_MAP_RICcontrolStatus_value2enum_1_def asn_SPC_RICcontrolStatus_specs_1_def asn_MAP_RICindicationType_value2enum_1_def
  asn_SPC_RICindicationType_specs_1_def asn_MAP_TimeToWait_value2enum_1_def asn_SPC_TimeToWait_specs_1_def

lemmas element_members =
  asn_MBR_Cause_1_def asn_MBR_CriticalityDiagnostics_IE_Item_1_def asn_MBR_CriticalityDiagnostics_IE_List_1_def
  asn_MBR_RICrequestID_1_def asn_MBR_CriticalityDiagnostics_1_def asn_MBR_ENB_ID_Choice_1_def
  asn_MBR_ENB_ID_1_def asn_MBR_ENGNB_ID_1_def asn_MBR_GNB_ID_Choice_1_def
  asn_MBR_GlobalgNB_ID_1_def asn_MBR_GlobalE2node_gNB_ID_1_def asn_MBR_GlobalenGNB_ID_1_def
  asn_MBR_GlobalE2node_en_gNB_ID_1_def asn_MBR_GlobalngeNB_ID_1_def asn_MBR_GlobalE2node_ng_eNB_ID_1_def
  asn_MBR_GlobalENB_ID_1_def asn_MBR_GlobalE2node_eNB_ID_1_def asn_MBR_GlobalE2node_ID_1_def
  asn_MBR_GlobalRIC_ID_1_def asn_MBR_RANfunction_Item_1_def asn_MBR_RANfunctionID_Item_1_def
  asn_MBR_RANfunctionIDcause_Item_1_def asn_MBR_RICaction_Admitted_Item_1_def asn_MBR_RICaction_NotAdmitted_Item_1_def
  asn_MBR_RICsubsequentAction_1_def asn_MBR_RICaction_ToBeSetup_Item_1_def

lemmas element_types =
  asn_DEF_BIT_STRING_def asn_DEF_CauseRIC_def asn_DEF_CauseRICservice_def
  asn_DEF_CauseTransport_def asn_DEF_CauseProtocol_def asn_DEF_CauseMisc_def
  asn_DEF_Cause_def asn_DEF_Criticality_def asn_DEF_ProtocolIE_ID_def
  asn_DEF_TypeOfError_def asn_DEF_CriticalityDiagnostics_IE_Item_def asn_DEF_CriticalityDiagnostics_IE_List_def
  asn_DEF_ProcedureCode_def asn_DEF_TriggeringMessage_def asn_DEF_NativeInteger_def
  asn_DEF_RICrequestID_def asn_DEF_CriticalityDiagnostics_def asn_DEF_ENB_ID_Choice_def
  asn_DEF_ENB_ID_def asn_DEF_ENGNB_ID_def asn_DEF_GNB_CU_UP_ID_def
  asn_DEF_GNB_DU_ID_def asn_DEF_GNB_ID_Choice_def asn_DEF_PLMN_Identity_def
  asn_DEF_GlobalgNB_ID_def asn_DEF_GlobalE2node_gNB_ID_def asn_DEF_GlobalenGNB_ID_def
  asn_DEF_GlobalE2node_en_gNB_ID_def asn_DEF_GlobalngeNB_ID_def asn_DEF_GlobalE2node_ng_eNB_ID_def
  asn_DEF_GlobalENB_ID_def asn_DEF_GlobalE2node_eNB_ID_def asn_DEF_GlobalE2node_ID_def
  asn_DEF_GlobalRIC_ID_def asn_DEF_INTEGER_def asn_DEF_NativeEnumerated_def
  asn_DEF_OCTET_STRING_def asn_DEF_Presence_def asn_DEF_RANfunctionID_def
  asn_DEF_RANfunctionDefinition_def asn_DEF_RANfunctionRevision_def asn_DEF_RANfunction_Item_def
  asn_DEF_RANfunctionID_Item_def asn_DEF_RANfunctionIDcause_Item_def asn_DEF_RICactionID_def
  asn_DEF_RICaction_Admitted_Item_def asn_DEF_RICaction_NotAdmitted_Item_def asn_DEF_RICactionType_def
  asn_DEF_RICactionDefinition_def asn_DEF_RICsubsequentActionType_def asn_DEF_RICtimeToWait_def
  asn_DEF_RICsubsequentAction_def asn_DEF_RICaction_ToBeSetup_Item_def asn_DEF_RICcallProcessID_def
  asn_DEF_RICcontrolAckRequest_def asn_DEF_RICcontrolHeader_def asn_DEF_RICcontrolMessage_def
  asn_DEF_RICcontrolOutcome_def asn_DEF_RICcontrolStatus_def asn_DEF_RICeventTriggerDefinition_def
  asn_DEF_RICindicationHeader_def asn_DEF_RICindicationMessage_def asn_DEF_RICindicationSN_def
  asn_DEF_RICindicationType_def asn_DEF_TimeToWait_def

end
