(* ===== verification/E2apMessages.thy ===== *)
theory E2apMessages
  imports E2apElements
begin

text \<open>
  The type descriptors of the messages of E2AP: the fields of \<^verbatim>\<open>e2ap/lib/ProtocolIE-Field.c\<close> with
  their open types, the containers, the messages and \<^verbatim>\<open>E2AP_PDU\<close>, each under its C name. The static
  descriptors of open types have the name of the structure they are a member of, and carry the
  member tables of \<open>IeTables\<close>.
\<close>

definition asn_PER_type_E2AP_PDU_constr_1 :: "asn_per_constraints" where
  "asn_PER_type_E2AP_PDU_constr_1 = per_constraints (APC_CONSTRAINED True 2 2 0 2) APC_UNCONSTRAINED"

definition asn_PER_memb_InitiatingMessage_procedureCode_constr_2 :: "asn_per_constraints" where
  "asn_PER_memb_InitiatingMessage_procedureCode_constr_2 = per_constraints (APC_CONSTRAINED False 8 8 0 255) APC_UNCONSTRAINED"

definition asn_PER_memb_InitiatingMessage_criticality_constr_3 :: "asn_per_constraints" where
  "asn_PER_memb_InitiatingMessage_criticality_constr_3 = per_constraints (APC_CONSTRAINED False 2 2 0 2) APC_UNCONSTRAINED"

definition asn_PER_type_ProtocolIE_Container_87P0_constr_1 :: "asn_per_constraints" where
  "asn_PER_type_ProtocolIE_Container_87P0_constr_1 = per_constraints APC_UNCONSTRAINED (APC_CONSTRAINED False 16 16 0 65535)"

definition asn_PER_memb_id_constr_26 :: "asn_per_constraints" where
  "asn_PER_memb_id_constr_26 = per_constraints (APC_CONSTRAINED False 16 16 0 65535) APC_UNCONSTRAINED"

definition asn_PER_memb_criticality_constr_27 :: "asn_per_constraints" where
  "asn_PER_memb_criticality_constr_27 = per_constraints (APC_CONSTRAINED False 2 2 0 2) APC_UNCONSTRAINED"

definition asn_PER_type_RICactions_ToBeSetup_List_constr_1 :: "asn_per_constraints" where
  "asn_PER_type_RICactions_ToBeSetup_List_constr_1 = per_constraints APC_UNCONSTRAINED (APC_CONSTRAINED False 4 4 1 16)"

definition asn_PER_memb_id_constr_2 :: "asn_per_constraints" where
  "asn_PER_memb_id_constr_2 = per_constraints (APC_CONSTRAINED False 16 16 0 65535) APC_UNCONSTRAINED"

definition asn_PER_memb_ProtocolIE_SingleContainer_90P0_criticality_constr_3 :: "asn_per_constraints" where
  "asn_PER_memb_ProtocolIE_SingleContainer_90P0_criticality_constr_3 = per_constraints (APC_CONSTRAINED False 2 2 0 2) APC_UNCONSTRAINED"

definition asn_DEF_RICaction_ToBeSetup_ItemIEs_value :: "asn_type" where
  "asn_DEF_RICaction_ToBeSetup_ItemIEs_value = T_OPEN_TYPE asn_MBR_RICaction_ToBeSetup_ItemIEs_value
    [(IE DEF_RICaction_ToBeSetup_Item, asn_DEF_RICaction_ToBeSetup_Item)]"

definition asn_PER_memb_ProtocolIE_SingleContainer_90P0_value_constr_4 :: "asn_per_constraints" where
  "asn_PER_memb_ProtocolIE_SingleContainer_90P0_value_constr_4 = per_constraints APC_UNCONSTRAINED APC_UNCONSTRAINED"

definition asn_MBR_RICaction_ToBeSetup_ItemIEs_1 :: "asn_type asn_TYPE_member list" where
  "asn_MBR_RICaction_ToBeSetup_ItemIEs_1 =
   [Member ATF_NOFLAGS 0 asn_DEF_ProtocolIE_ID None (Some asn_PER_memb_id_constr_2) ''id'',
    Member ATF_NOFLAGS 0 asn_DEF_Criticality (Some (0, select_RICaction_ToBeSetup_ItemIEs_criticality_type)) (Some asn_PER_memb_ProtocolIE_SingleContainer_90P0_criticality_constr_3) ''criticality'',
    Member ATF_OPEN_TYPE 0 asn_DEF_RICaction_ToBeSetup_ItemIEs_value (Some (0, select_RICaction_ToBeSetup_ItemIEs_value_type)) (Some asn_PER_memb_ProtocolIE_SingleContainer_90P0_value_constr_4) ''value'']"

definition asn_SPC_RICaction_ToBeSetup_ItemIEs_specs_1 :: "asn_SEQUENCE_specifics" where
  "asn_SPC_RICaction_ToBeSetup_ItemIEs_specs_1 =
    \<lparr>seq_oms = [], seq_roms_count = 0, seq_aoms_count = 0, seq_first_extension = -1\<rparr>"

definition asn_DEF_ProtocolIE_SingleContainer_90P0 :: "asn_type" where
  "asn_DEF_ProtocolIE_SingleContainer_90P0 = T_SEQUENCE asn_SPC_RICaction_ToBeSetup_ItemIEs_specs_1 asn_MBR_RICaction_ToBeSetup_ItemIEs_1"

definition asn_MBR_RICactions_ToBeSetup_List_1 :: "asn_type asn_TYPE_member" where
  "asn_MBR_RICactions_ToBeSetup_List_1 = Member ATF_POINTER 0 asn_DEF_ProtocolIE_SingleContainer_90P0 None None ''''"

definition asn_DEF_RICactions_ToBeSetup_List :: "asn_type" where
  "asn_DEF_RICactions_ToBeSetup_List = T_SEQUENCE_OF (Some asn_PER_type_RICactions_ToBeSetup_List_constr_1) asn_MBR_RICactions_ToBeSetup_List_1"

definition asn_MBR_RICsubscriptionDetails_1 :: "asn_type asn_TYPE_member list" where
  "asn_MBR_RICsubscriptionDetails_1 =
   [Member ATF_NOFLAGS 0 asn_DEF_RICeventTriggerDefinition None None ''ricEventTriggerDefinition'',
    Member ATF_NOFLAGS 0 asn_DEF_RICactions_ToBeSetup_List None None ''ricAction-ToBeSetup-List'']"

definition asn_SPC_RICsubscriptionDetails_specs_1 :: "asn_SEQUENCE_specifics" where
  "asn_SPC_RICsubscriptionDetails_specs_1 =
    \<lparr>seq_oms = [], seq_roms_count = 0, seq_aoms_count = 0, seq_first_extension = 2\<rparr>"

definition asn_DEF_RICsubscriptionDetails :: "asn_type" where
  "asn_DEF_RICsubscriptionDetails = T_SEQUENCE asn_SPC_RICsubscriptionDetails_specs_1 asn_MBR_RICsubscriptionDetails_1"

definition asn_DEF_RICsubscriptionRequest_IEs_value :: "asn_type" where
  "asn_DEF_RICsubscriptionRequest_IEs_value = T_OPEN_TYPE asn_MBR_RICsubscriptionRequest_IEs_value
    [(IE DEF_RICrequestID, asn_DEF_RICrequestID),
     (IE DEF_RANfunctionID, asn_DEF_RANfunctionID),
     (IE DEF_RICsubscriptionDetails, asn_DEF_RICsubscriptionDetails)]"

definition asn_PER_memb_value_constr_28 :: "asn_per_constraints" where
  "asn_PER_memb_value_constr_28 = per_constraints APC_UNCONSTRAINED APC_UNCONSTRAINED"

definition asn_MBR_RICsubscriptionRequest_IEs_25 :: "asn_type asn_TYPE_member list" where
  "asn_MBR_RICsubscriptionRequest_IEs_25 =
   [Member ATF_NOFLAGS 0 asn_DEF_ProtocolIE_ID None (Some asn_PER_memb_id_constr_26) ''id'',
    Member ATF_NOFLAGS 0 asn_DEF_Criticality (Some (0, select_RICsubscriptionRequest_IEs_criticality_type)) (Some asn_PER_memb_criticality_constr_27) ''criticality'',
    Member ATF_OPEN_TYPE 0 asn_DEF_RICsubscriptionRequest_IEs_value (Some (0, select_RICsubscriptionRequest_IEs_value_type)) (Some asn_PER_memb_value_constr_28) ''value'']"

definition asn_SPC_RICsubscriptionRequest_IEs_specs_25 :: "asn_SEQUENCE_specifics" where
  "asn_SPC_RICsubscriptionRequest_IEs_specs_25 =
    \<lparr>seq_oms = [], seq_roms_count = 0, seq_aoms_count = 0, seq_first_extension = -1\<rparr>"

definition asn_DEF_RICsubscriptionRequest_IEs :: "asn_type" where
  "asn_DEF_RICsubscriptionRequest_IEs = T_SEQUENCE asn_SPC_RICsubscriptionRequest_IEs_specs_25 asn_MBR_RICsubscriptionRequest_IEs_25"

definition asn_MBR_ProtocolIE_Container_87P0_1 :: "asn_type asn_TYPE_member" where
  "asn_MBR_ProtocolIE_Container_87P0_1 = Member ATF_POINTER 0 asn_DEF_RICsubscriptionRequest_IEs None None ''''"

definition asn_DEF_ProtocolIE_Container_87P0 :: "asn_type" where
  "asn_DEF_ProtocolIE_Container_87P0 = T_SEQUENCE_OF (Some asn_PER_type_ProtocolIE_Container_87P0_constr_1) asn_MBR_ProtocolIE_Container_87P0_1"

definition asn_MBR_RICsubscriptionRequest_1 :: "asn_type asn_TYPE_member list" where
  "asn_MBR_RICsubscriptionRequest_1 =
   [Member ATF_NOFLAGS 0 asn_DEF_ProtocolIE_Container_87P0 None None ''protocolIEs'']"

definition asn_SPC_RICsubscriptionRequest_specs_1 :: "asn_SEQUENCE_specifics" where
  "asn_SPC_RICsubscriptionRequest_specs_1 =
    \<lparr>seq_oms = [], seq_roms_count = 0, seq_aoms_count = 0, seq_first_extension = 1\<rparr>"

definition asn_DEF_RICsubscriptionRequest :: "asn_type" where
  "asn_DEF_RICsubscriptionRequest = T_SEQUENCE asn_SPC_RICsubscriptionRequest_specs_1 asn_MBR_RICsubscriptionRequest_1"

definition asn_PER_type_ProtocolIE_Container_87P3_constr_7 :: "asn_per_constraints" where
  "asn_PER_type_ProtocolIE_Container_87P3_constr_7 = per_constraints APC_UNCONSTRAINED (APC_CONSTRAINED False 16 16 0 65535)"

definition asn_PER_memb_id_constr_38 :: "asn_per_constraints" where
  "asn_PER_memb_id_constr_38 = per_constraints (APC_CONSTRAINED False 16 16 0 65535) APC_UNCONSTRAINED"

definition asn_PER_memb_criticality_constr_39 :: "asn_per_constraints" where
  "asn_PER_memb_criticality_constr_39 = per_constraints (APC_CONSTRAINED False 2 2 0 2) APC_UNCONSTRAINED"

definition asn_DEF_RICsubscriptionDeleteRequest_IEs_value :: "asn_type" where
  "asn_DEF_RICsubscriptionDeleteRequest_IEs_value = T_OPEN_TYPE asn_MBR_RICsubscriptionDeleteRequest_IEs_value
    [(IE DEF_RICrequestID, asn_DEF_RICrequestID),
     (IE DEF_RANfunctionID, asn_DEF_RANfunctionID)]"

definition asn_PER_memb_value_constr_40 :: "asn_per_constraints" where
  "asn_PER_memb_value_constr_40 = per_constraints APC_UNCONSTRAINED APC_UNCONSTRAINED"

definition asn_MBR_RICsubscriptionDeleteRequest_IEs_37 :: "asn_type asn_TYPE_member list" where
  "asn_MBR_RICsubscriptionDeleteRequest_IEs_37 =
   [Member ATF_NOFLAGS 0 asn_DEF_ProtocolIE_ID None (Some asn_PER_memb_id_constr_38) ''id'',
    Member ATF_NOFLAGS 0 asn_DEF_Criticality (Some (0, select_RICsubscriptionDeleteRequest_IEs_criticality_type)) (Some asn_PER_memb_criticality_constr_39) ''criticality'',
    Member ATF_OPEN_TYPE 0 asn_DEF_RICsubscriptionDeleteRequest_IEs_value (Some (0, select_RICsubscriptionDeleteRequest_IEs_value_type)) (Some asn_PER_memb_value_constr_40) ''value'']"

definition asn_SPC_RICsubscriptionDeleteRequest_IEs_specs_37 :: "asn_SEQUENCE_specifics" where
  "asn_SPC_RICsubscriptionDeleteRequest_IEs_specs_37 =
    \<lparr>seq_oms = [], seq_roms_count = 0, seq_aoms_count = 0, seq_first_extension = -1\<rparr>"

definition asn_DEF_RICsubscriptionDeleteRequest_IEs :: "asn_type" where
  "asn_DEF_RICsubscriptionDeleteRequest_IEs = T_SEQUENCE asn_SPC_RICsubscriptionDeleteRequest_IEs_specs_37 asn_MBR_RICsubscriptionDeleteRequest_IEs_37"

definition asn_MBR_ProtocolIE_Container_87P3_7 :: "asn_type asn_TYPE_member" where
  "asn_MBR_ProtocolIE_Container_87P3_7 = Member ATF_POINTER 0 asn_DEF_RICsubscriptionDeleteRequest_IEs None None ''''"

definition asn_DEF_ProtocolIE_Container_87P3 :: "asn_type" where
  "asn_DEF_ProtocolIE_Container_87P3 = T_SEQUENCE_OF (Some asn_PER_type_ProtocolIE_Container_87P3_constr_7) asn_MBR_ProtocolIE_Container_87P3_7"

definition asn_MBR_RICsubscriptionDeleteRequest_1 :: "asn_type asn_TYPE_member list" where
  "asn_MBR_RICsubscriptionDeleteRequest_1 =
   [Member ATF_NOFLAGS 0 asn_DEF_ProtocolIE_Container_87P3 None None ''protocolIEs'']"

definition asn_SPC_RICsubscriptionDeleteRequest_specs_1 :: "asn_SEQUENCE_specifics" where
  "asn_SPC_RICsubscriptionDeleteRequest_specs_1 =
    \<lparr>seq_oms = [], seq_roms_count = 0, seq_aoms_count = 0, seq_first_extension = 1\<rparr>"

definition asn_DEF_RICsubscriptionDeleteRequest :: "asn_type" where
  "asn_DEF_RICsubscriptionDeleteRequest = T_SEQUENCE asn_SPC_RICsubscriptionDeleteRequest_specs_1 asn_MBR_RICsubscriptionDeleteRequest_1"

definition asn_PER_type_ProtocolIE_Container_87P16_constr_33 :: "asn_per_constraints" where
  "asn_PER_type_ProtocolIE_Container_87P16_constr_33 = per_constraints APC_UNCONSTRAINED (APC_CONSTRAINED False 16 16 0 65535)"

definition asn_PER_memb_id_constr_90 :: "asn_per_constraints" where
  "asn_PER_memb_id_constr_90 = per_constraints (APC_CONSTRAINED False 16 16 0 65535) APC_UNCONSTRAINED"

definition asn_PER_memb_criticality_constr_91 :: "asn_per_constraints" where
  "asn_PER_memb_criticality_constr_91 = per_constraints (APC_CONSTRAINED False 2 2 0 2) APC_UNCONSTRAINED"

definition asn_PER_type_RANfunctions_List_constr_1 :: "asn_per_constraints" where
  "asn_PER_type_RANfunctions_List_constr_1 = per_constraints APC_UNCONSTRAINED (APC_CONSTRAINED False 9 9 0 256)"

definition asn_PER_memb_id_constr_14 :: "asn_per_constraints" where
  "asn_PER_memb_id_constr_14 = per_constraints (APC_CONSTRAINED False 16 16 0 65535) APC_UNCONSTRAINED"

definition asn_PER_memb_criticality_constr_15 :: "asn_per_constraints" where
  "asn_PER_memb_criticality_constr_15 = per_constraints (APC_CONSTRAINED False 2 2 0 2) APC_UNCONSTRAINED"

definition asn_DEF_RANfunction_ItemIEs_value :: "asn_type" where
  "asn_DEF_RANfunction_ItemIEs_value = T_OPEN_TYPE asn_MBR_RANfunction_ItemIEs_value
    [(IE DEF_RANfunction_Item, asn_DEF_RANfunction_Item)]"

definition asn_PER_memb_value_constr_16 :: "asn_per_constraints" where
  "asn_PER_memb_value_constr_16 = per_constraints APC_UNCONSTRAINED APC_UNCONSTRAINED"

definition asn_MBR_RANfunction_ItemIEs_13 :: "asn_type asn_TYPE_member list" where
  "asn_MBR_RANfunction_ItemIEs_13 =
   [Member ATF_NOFLAGS 0 asn_DEF_ProtocolIE_ID None (Some asn_PER_memb_id_constr_14) ''id'',
    Member ATF_NOFLAGS 0 asn_DEF_Criticality (Some (0, select_RANfunction_ItemIEs_criticality_type)) (Some asn_PER_memb_criticality_constr_15) ''criticality'',
    Member ATF_OPEN_TYPE 0 asn_DEF_RANfunction_ItemIEs_value (Some (0, select_RANfunction_ItemIEs_value_type)) (Some asn_PER_memb_value_constr_16) ''value'']"

definition asn_SPC_RANfunction_ItemIEs_specs_13 :: "asn_SEQUENCE_specifics" where
  "asn_SPC_RANfunction_ItemIEs_specs_13 =
    \<lparr>seq_oms = [], seq_roms_count = 0, seq_aoms_count = 0, seq_first_extension = -1\<rparr>"

definition asn_DEF_ProtocolIE_SingleContainer_90P3 :: "asn_type" where
  "asn_DEF_ProtocolIE_SingleContainer_90P3 = T_SEQUENCE asn_SPC_RANfunction_ItemIEs_specs_13 asn_MBR_RANfunction_ItemIEs_13"

definition asn_MBR_RANfunctions_List_1 :: "asn_type asn_TYPE_member" where
  "asn_MBR_RANfunctions_List_1 = Member ATF_POINTER 0 asn_DEF_ProtocolIE_SingleContainer_90P3 None None ''''"

definition asn_DEF_RANfunctions_List :: "asn_type" where
  "asn_DEF_RANfunctions_List = T_SEQUENCE_OF (Some asn_PER_type_RANfunctions_List_constr_1) asn_MBR_RANfunctions_List_1"

definition asn_PER_type_RANfunctionsID_List_constr_1 :: "asn_per_constraints" where
  "asn_PER_type_RANfunctionsID_List_constr_1 = per_constraints APC_UNCONSTRAINED (APC_CONSTRAINED False 9 9 0 256)"

definition asn_PER_memb_id_constr_18 :: "asn_per_constraints" where
  "asn_PER_memb_id_constr_18 = per_constraints (APC_CONSTRAINED False 16 16 0 65535) APC_UNCONSTRAINED"

definition asn_PER_memb_criticality_constr_19 :: "asn_per_constraints" where
  "asn_PER_memb_criticality_constr_19 = per_constraints (APC_CONSTRAINED False 2 2 0 2) APC_UNCONSTRAINED"

definition asn_DEF_RANfunctionID_ItemIEs_value :: "asn_type" where
  "asn_DEF_RANfunctionID_ItemIEs_value = T_OPEN_TYPE asn_MBR_RANfunctionID_ItemIEs_value
    [(IE DEF_RANfunctionID_Item, asn_DEF_RANfunctionID_Item)]"

definition asn_PER_memb_value_constr_20 :: "asn_per_constraints" where
  "asn_PER_memb_value_constr_20 = per_constraints APC_UNCONSTRAINED APC_UNCONSTRAINED"

definition asn_MBR_RANfunctionID_ItemIEs_17 :: "asn_type asn_TYPE_member list" where
  "asn_MBR_RANfunctionID_ItemIEs_17 =
   [Member ATF_NOFLAGS 0 asn_DEF_ProtocolIE_ID None (Some asn_PER_memb_id_constr_18) ''id'',
    Member ATF_NOFLAGS 0 asn_DEF_Criticality (Some (0, select_RANfunctionID_ItemIEs_criticality_type)) (Some asn_PER_memb_criticality_constr_19) ''criticality'',
    Member ATF_OPEN_TYPE 0 asn_DEF_RANfunctionID_ItemIEs_value (Some (0, select_RANfunctionID_ItemIEs_value_type)) (Some asn_PER_memb_value_constr_20) ''value'']"

definition asn_SPC_RANfunctionID_ItemIEs_specs_17 :: "asn_SEQUENCE_specifics" where
  "asn_SPC_RANfunctionID_ItemIEs_specs_17 =
    \<lparr>seq_oms = [], seq_roms_count = 0, seq_aoms_count = 0, seq_first_extension = -1\<rparr>"

definition asn_DEF_ProtocolIE_SingleContainer_90P4 :: "asn_type" where
  "asn_DEF_ProtocolIE_SingleContainer_90P4 = T_SEQUENCE asn_SPC_RANfunctionID_ItemIEs_specs_17 asn_MBR_RANfunctionID_ItemIEs_17"

definition asn_MBR_RANfunctionsID_List_1 :: "asn_type asn_TYPE_member" where
  "asn_MBR_RANfunctionsID_List_1 = Member ATF_POINTER 0 asn_DEF_ProtocolIE_SingleContainer_90P4 None None ''''"

definition asn_DEF_RANfunctionsID_List :: "asn_type" where
  "asn_DEF_RANfunctionsID_List = T_SEQUENCE_OF (Some asn_PER_type_RANfunctionsID_List_constr_1) asn_MBR_RANfunctionsID_List_1"

definition asn_DEF_RICserviceUpdate_IEs_value :: "asn_type" where
  "asn_DEF_RICserviceUpdate_IEs_value = T_OPEN_TYPE asn_MBR_RICserviceUpdate_IEs_value
    [(IE DEF_RANfunctions_List, asn_DEF_RANfunctions_List),
     (IE DEF_RANfunctionsID_List, asn_DEF_RANfunctionsID_List)]"

definition asn_PER_memb_value_constr_92 :: "asn_per_constraints" where
  "asn_PER_memb_value_constr_92 = per_constraints APC_UNCONSTRAINED APC_UNCONSTRAINED"

definition asn_MBR_RICserviceUpdate_IEs_89 :: "asn_type asn_TYPE_member list" where
  "asn_MBR_RICserviceUpdate_IEs_89 =
   [Member ATF_NOFLAGS 0 asn_DEF_ProtocolIE_ID None (Some asn_PER_memb_id_constr_90) ''id'',
    Member ATF_NOFLAGS 0 asn_DEF_Criticality (Some (0, select_RICserviceUpdate_IEs_criticality_type)) (Some asn_PER_memb_criticality_constr_91) ''criticality'',
    Member ATF_OPEN_TYPE 0 asn_DEF_RICserviceUpdate_IEs_value (Some (0, select_RICserviceUpdate_IEs_value_type)) (Some asn_PER_memb_value_constr_92) ''value'']"

definition asn_SPC_RICserviceUpdate_IEs_specs_89 :: "asn_SEQUENCE_specifics" where
  "asn_SPC_RICserviceUpdate_IEs_specs_89 =
    \<lparr>seq_oms = [], seq_roms_count = 0, seq_aoms_count = 0, seq_first_extension = -1\<rparr>"

definition asn_DEF_RICserviceUpdate_IEs :: "asn_type" where
  "asn_DEF_RICserviceUpdate_IEs = T_SEQUENCE asn_SPC_RICserviceUpdate_IEs_specs_89 asn_MBR_RICserviceUpdate_IEs_89"

definition asn_MBR_ProtocolIE_Container_87P16_33 :: "asn_type asn_TYPE_member" where
  "asn_MBR_ProtocolIE_Container_87P16_33 = Member ATF_POINTER 0 asn_DEF_RICserviceUpdate_IEs None None ''''"

definition asn_DEF_ProtocolIE_Container_87P16 :: "asn_type" where
  "asn_DEF_ProtocolIE_Container_87P16 = T_SEQUENCE_OF (Some asn_PER_type_ProtocolIE_Container_87P16_constr_33) asn_MBR_ProtocolIE_Container_87P16_33"

definition asn_MBR_RICserviceUpdate_1 :: "asn_type asn_TYPE_member list" where
  "asn_MBR_RICserviceUpdate_1 =
   [Member ATF_NOFLAGS 0 asn_DEF_ProtocolIE_Container_87P16 None None ''protocolIEs'']"

definition asn_SPC_RICserviceUpdate_specs_1 :: "asn_SEQUENCE_specifics" where
  "asn_SPC_RICserviceUpdate_specs_1 =
    \<lparr>seq_oms = [], seq_roms_count = 0, seq_aoms_count = 0, seq_first_extension = 1\<rparr>"

definition asn_DEF_RICserviceUpdate :: "asn_type" where
  "asn_DEF_RICserviceUpdate = T_SEQUENCE asn_SPC_RICserviceUpdate_specs_1 asn_MBR_RICserviceUpdate_1"

definition asn_PER_type_ProtocolIE_Container_87P7_constr_15 :: "asn_per_constraints" where
  "asn_PER_type_ProtocolIE_Container_87P7_constr_15 = per_constraints APC_UNCONSTRAINED (APC_CONSTRAINED False 16 16 0 65535)"

definition asn_PER_memb_id_constr_54 :: "asn_per_constraints" where
  "asn_PER_memb_id_constr_54 = per_constraints (APC_CONSTRAINED False 16 16 0 65535) APC_UNCONSTRAINED"

definition asn_PER_memb_criticality_constr_55 :: "asn_per_constraints" where
  "asn_PER_memb_criticality_constr_55 = per_constraints (APC_CONSTRAINED False 2 2 0 2) APC_UNCONSTRAINED"

definition asn_DEF_RICcontrolRequest_IEs_value :: "asn_type" where
  "asn_DEF_RICcontrolRequest_IEs_value = T_OPEN_TYPE asn_MBR_RICcontrolRequest_IEs_value
    [(IE DEF_RICrequestID, asn_DEF_RICrequestID),
     (IE DEF_RANfunctionID, asn_DEF_RANfunctionID),
     (IE DEF_RICcallProcessID, asn_DEF_RICcallProcessID),
     (IE DEF_RICcontrolHeader, asn_DEF_RICcontrolHeader),
     (IE DEF_RICcontrolMessage, asn_DEF_RICcontrolMessage),
     (IE DEF_RICcontrolAckRequest, asn_DEF_RICcontrolAckRequest)]"

definition asn_PER_memb_value_constr_56 :: "asn_per_constraints" where
  "asn_PER_memb_value_constr_56 = per_constraints APC_UNCONSTRAINED APC_UNCONSTRAINED"

definition asn_MBR_RICcontrolRequest_IEs_53 :: "asn_type asn_TYPE_member list" where
  "asn_MBR_RICcontrolRequest_IEs_53 =
   [Member ATF_NOFLAGS 0 asn_DEF_ProtocolIE_ID None (Some asn_PER_memb_id_constr_54) ''id'',
    Member ATF_NOFLAGS 0 asn_DEF_Criticality (Some (0, select_RICcontrolRequest_IEs_criticality_type)) (Some asn_PER_memb_criticality_constr_55) ''criticality'',
    Member ATF_OPEN_TYPE 0 asn_DEF_RICcontrolRequest_IEs_value (Some (0, select_RICcontrolRequest_IEs_value_type)) (Some asn_PER_memb_value_constr_56) ''value'']"

definition asn_SPC_RICcontrolRequest_IEs_specs_53 :: "asn_SEQUENCE_specifics" where
  "asn_SPC_RICcontrolRequest_IEs_specs_53 =
    \<lparr>seq_oms = [], seq_roms_count = 0, seq_aoms_count = 0, seq_first_extension = -1\<rparr>"

definition asn_DEF_RICcontrolRequest_IEs :: "asn_type" where
  "asn_DEF_RICcontrolRequest_IEs = T_SEQUENCE asn_SPC_RICcontrolRequest_IEs_specs_53 asn_MBR_RICcontrolRequest_IEs_53"

definition asn_MBR_ProtocolIE_Container_87P7_15 :: "asn_type asn_TYPE_member" where
  "asn_MBR_ProtocolIE_Container_87P7_15 = Member ATF_POINTER 0 asn_DEF_RICcontrolRequest_IEs None None ''''"

definition asn_DEF_ProtocolIE_Container_87P7 :: "asn_type" where
  "asn_DEF_ProtocolIE_Container_87P7 = T_SEQUENCE_OF (Some asn_PER_type_ProtocolIE_Container_87P7_constr_15) asn_MBR_ProtocolIE_Container_87P7_15"

definition asn_MBR_RICcontrolRequest_1 :: "asn_type asn_TYPE_member list" where
  "asn_MBR_RICcontrolRequest_1 =
   [Member ATF_NOFLAGS 0 asn_DEF_ProtocolIE_Container_87P7 None None ''protocolIEs'']"

definition asn_SPC_RICcontrolRequest_specs_1 :: "asn_SEQUENCE_specifics" where
  "asn_SPC_RICcontrolRequest_specs_1 =
    \<lparr>seq_oms = [], seq_roms_count = 0, seq_aoms_count = 0, seq_first_extension = 1\<rparr>"

definition asn_DEF_RICcontrolRequest :: "asn_type" where
  "asn_DEF_RICcontrolRequest = T_SEQUENCE asn_SPC_RICcontrolRequest_specs_1 asn_MBR_RICcontrolRequest_1"

definition asn_PER_type_ProtocolIE_Container_87P11_constr_23 :: "asn_per_constraints" where
  "asn_PER_type_ProtocolIE_Container_87P11_constr_23 = per_constraints APC_UNCONSTRAINED (APC_CONSTRAINED False 16 16 0 65535)"

definition asn_PER_memb_id_constr_70 :: "asn_per_constraints" where
  "asn_PER_memb_id_constr_70 = per_constraints (APC_CONSTRAINED False 16 16 0 65535) APC_UNCONSTRAINED"

definition asn_PER_memb_criticality_constr_71 :: "asn_per_constraints" where
  "asn_PER_memb_criticality_constr_71 = per_constraints (APC_CONSTRAINED False 2 2 0 2) APC_UNCONSTRAINED"

definition asn_DEF_E2setupRequestIEs_value :: "asn_type" where
  "asn_DEF_E2setupRequestIEs_value = T_OPEN_TYPE asn_MBR_E2setupRequestIEs_value
    [(IE DEF_GlobalE2node_ID, asn_DEF_GlobalE2node_ID),
     (IE DEF_RANfunctions_List, asn_DEF_RANfunctions_List)]"

definition asn_PER_memb_value_constr_72 :: "asn_per_constraints" where
  "asn_PER_memb_value_constr_72 = per_constraints APC_UNCONSTRAINED APC_UNCONSTRAINED"

definition asn_MBR_E2setupRequestIEs_69 :: "asn_type asn_TYPE_member list" where
  "asn_MBR_E2setupRequestIEs_69 =
   [Member ATF_NOFLAGS 0 asn_DEF_ProtocolIE_ID None (Some asn_PER_memb_id_constr_70) ''id'',
    Member ATF_NOFLAGS 0 asn_DEF_Criticality (Some (0, select_E2setupRequestIEs_criticality_type)) (Some asn_PER_memb_criticality_constr_71) ''criticality'',
    Member ATF_OPEN_TYPE 0 asn_DEF_E2setupRequestIEs_value (Some (0, select_E2setupRequestIEs_value_type)) (Some asn_PER_memb_value_constr_72) ''value'']"

definition asn_SPC_E2setupRequestIEs_specs_69 :: "asn_SEQUENCE_specifics" where
  "asn_SPC_E2setupRequestIEs_specs_69 =
    \<lparr>seq_oms = [], seq_roms_count = 0, seq_aoms_count = 0, seq_first_extension = -1\<rparr>"

definition asn_DEF_E2setupRequestIEs :: "asn_type" where
  "asn_DEF_E2setupRequestIEs = T_SEQUENCE asn_SPC_E2setupRequestIEs_specs_69 asn_MBR_E2setupRequestIEs_69"

definition asn_MBR_ProtocolIE_Container_87P11_23 :: "asn_type asn_TYPE_member" where
  "asn_MBR_ProtocolIE_Container_87P11_23 = Member ATF_POINTER 0 asn_DEF_E2setupRequestIEs None None ''''"

definition asn_DEF_ProtocolIE_Container_87P11 :: "asn_type" where
  "asn_DEF_ProtocolIE_Container_87P11 = T_SEQUENCE_OF (Some asn_PER_type_ProtocolIE_Container_87P11_constr_23) asn_MBR_ProtocolIE_Container_87P11_23"

definition asn_MBR_E2setupRequest_1 :: "asn_type asn_TYPE_member list" where
  "asn_MBR_E2setupRequest_1 =
   [Member ATF_NOFLAGS 0 asn_DEF_ProtocolIE_Container_87P11 None None ''protocolIEs'']"

definition asn_SPC_E2setupRequest_specs_1 :: "asn_SEQUENCE_specifics" where
  "asn_SPC_E2setupRequest_specs_1 =
    \<lparr>seq_oms = [], seq_roms_count = 0, seq_aoms_count = 0, seq_first_extension = 1\<rparr>"

definition asn_DEF_E2setupRequest :: "asn_type" where
  "asn_DEF_E2setupRequest = T_SEQUENCE asn_SPC_E2setupRequest_specs_1 asn_MBR_E2setupRequest_1"

definition asn_PER_type_ProtocolIE_Container_87P14_constr_29 :: "asn_per_constraints" where
  "asn_PER_type_ProtocolIE_Container_87P14_constr_29 = per_constraints APC_UNCONSTRAINED (APC_CONSTRAINED False 16 16 0 65535)"

definition asn_PER_memb_id_constr_82 :: "asn_per_constraints" where
  "asn_PER_memb_id_constr_82 = per_constraints (APC_CONSTRAINED False 16 16 0 65535) APC_UNCONSTRAINED"

definition asn_PER_memb_criticality_constr_83 :: "asn_per_constraints" where
  "asn_PER_memb_criticality_constr_83 = per_constraints (APC_CONSTRAINED False 2 2 0 2) APC_UNCONSTRAINED"

definition asn_DEF_ResetRequestIEs_value :: "asn_type" where
  "asn_DEF_ResetRequestIEs_value = T_OPEN_TYPE asn_MBR_ResetRequestIEs_value
    [(IE DEF_Cause, asn_DEF_Cause)]"

definition asn_PER_memb_value_constr_84 :: "asn_per_constraints" where
  "asn_PER_memb_value_constr_84 = per_constraints APC_UNCONSTRAINED APC_UNCONSTRAINED"

definition asn_MBR_ResetRequestIEs_81 :: "asn_type asn_TYPE_member list" where
  "asn_MBR_ResetRequestIEs_81 =
   [Member ATF_NOFLAGS 0 asn_DEF_ProtocolIE_ID None (Some asn_PER_memb_id_constr_82) ''id'',
    Member ATF_NOFLAGS 0 asn_DEF_Criticality (Some (0, select_ResetRequestIEs_criticality_type)) (Some asn_PER_memb_criticality_constr_83) ''criticality'',
    Member ATF_OPEN_TYPE 0 asn_DEF_ResetRequestIEs_value (Some (0, select_ResetRequestIEs_value_type)) (Some asn_PER_memb_value_constr_84) ''value'']"

definition asn_SPC_ResetRequestIEs_specs_81 :: "asn_SEQUENCE_specifics" where
  "asn_SPC_ResetRequestIEs_specs_81 =
    \<lparr>seq_oms = [], seq_roms_count = 0, seq_aoms_count = 0, seq_first_extension = -1\<rparr>"

definition asn_DEF_ResetRequestIEs :: "asn_type" where
  "asn_DEF_ResetRequestIEs = T_SEQUENCE asn_SPC_ResetRequestIEs_specs_81 asn_MBR_ResetRequestIEs_81"

definition asn_MBR_ProtocolIE_Container_87P14_29 :: "asn_type asn_TYPE_member" where
  "asn_MBR_ProtocolIE_Container_87P14_29 = Member ATF_POINTER 0 asn_DEF_ResetRequestIEs None None ''''"

definition asn_DEF_ProtocolIE_Container_87P14 :: "asn_type" where
  "asn_DEF_ProtocolIE_Container_87P14 = T_SEQUENCE_OF (Some asn_PER_type_ProtocolIE_Container_87P14_constr_29) asn_MBR_ProtocolIE_Container_87P14_29"

definition asn_MBR_ResetRequest_1 :: "asn_type asn_TYPE_member list" where
  "asn_MBR_ResetRequest_1 =
   [Member ATF_NOFLAGS 0 asn_DEF_ProtocolIE_Container_87P14 None None ''protocolIEs'']"

definition asn_SPC_ResetRequest_specs_1 :: "asn_SEQUENCE_specifics" where
  "asn_SPC_ResetRequest_specs_1 =
    \<lparr>seq_oms = [], seq_roms_count = 0, seq_aoms_count = 0, seq_first_extension = 1\<rparr>"

definition asn_DEF_ResetRequest :: "asn_type" where
  "asn_DEF_ResetRequest = T_SEQUENCE asn_SPC_ResetRequest_specs_1 asn_MBR_ResetRequest_1"

definition asn_PER_type_ProtocolIE_Container_87P6_constr_13 :: "asn_per_constraints" where
  "asn_PER_type_ProtocolIE_Container_87P6_constr_13 = per_constraints APC_UNCONSTRAINED (APC_CONSTRAINED False 16 16 0 65535)"

definition asn_PER_memb_id_constr_50 :: "asn_per_constraints" where
  "asn_PER_memb_id_constr_50 = per_constraints (APC_CONSTRAINED False 16 16 0 65535) APC_UNCONSTRAINED"

definition asn_PER_memb_criticality_constr_51 :: "asn_per_constraints" where
  "asn_PER_memb_criticality_constr_51 = per_constraints (APC_CONSTRAINED False 2 2 0 2) APC_UNCONSTRAINED"

definition asn_DEF_RICindication_IEs_value :: "asn_type" where
  "asn_DEF_RICindication_IEs_value = T_OPEN_TYPE asn_MBR_RICindication_IEs_value
    [(IE DEF_RICrequestID, asn_DEF_RICrequestID),
     (IE DEF_RANfunctionID, asn_DEF_RANfunctionID),
     (IE DEF_RICactionID, asn_DEF_RICactionID),
     (IE DEF_RICindicationSN, asn_DEF_RICindicationSN),
     (IE DEF_RICindicationType, asn_DEF_RICindicationType),
     (IE DEF_RICindicationHeader, asn_DEF_RICindicationHeader),
     (IE DEF_RICindicationMessage, asn_DEF_RICindicationMessage),
     (IE DEF_RICcallProcessID, asn_DEF_RICcallProcessID)]"

definition asn_PER_memb_value_constr_52 :: "asn_per_constraints" where
  "asn_PER_memb_value_constr_52 = per_constraints APC_UNCONSTRAINED APC_UNCONSTRAINED"

definition asn_MBR_RICindication_IEs_49 :: "asn_type asn_TYPE_member list" where
  "asn_MBR_RICindication_IEs_49 =
   [Member ATF_NOFLAGS 0 asn_DEF_ProtocolIE_ID None (Some asn_PER_memb_id_constr_50) ''id'',
    Member ATF_NOFLAGS 0 asn_DEF_Criticality (Some (0, select_RICindication_IEs_criticality_type)) (Some asn_PER_memb_criticality_constr_51) ''criticality'',
    Member ATF_OPEN_TYPE 0 asn_DEF_RICindication_IEs_value (Some (0, select_RICindication_IEs_value_type)) (Some asn_PER_memb_value_constr_52) ''value'']"

definition asn_SPC_RICindication_IEs_specs_49 :: "asn_SEQUENCE_specifics" where
  "asn_SPC_RICindication_IEs_specs_49 =
    \<lparr>seq_oms = [], seq_roms_count = 0, seq_aoms_count = 0, seq_first_extension = -1\<rparr>"

definition asn_DEF_RICindication_IEs :: "asn_type" where
  "asn_DEF_RICindication_IEs = T_SEQUENCE asn_SPC_RICindication_IEs_specs_49 asn_MBR_RICindication_IEs_49"

definition asn_MBR_ProtocolIE_Container_87P6_13 :: "asn_type asn_TYPE_member" where
  "asn_MBR_ProtocolIE_Container_87P6_13 = Member ATF_POINTER 0 asn_DEF_RICindication_IEs None None ''''"

definition asn_DEF_ProtocolIE_Container_87P6 :: "asn_type" where
  "asn_DEF_ProtocolIE_Container_87P6 = T_SEQUENCE_OF (Some asn_PER_type_ProtocolIE_Container_87P6_constr_13) asn_MBR_ProtocolIE_Container_87P6_13"

definition asn_MBR_RICindication_1 :: "asn_type asn_TYPE_member list" where
  "asn_MBR_RICindication_1 =
   [Member ATF_NOFLAGS 0 asn_DEF_ProtocolIE_Container_87P6 None None ''protocolIEs'']"

definition asn_SPC_RICindication_specs_1 :: "asn_SEQUENCE_specifics" where
  "asn_SPC_RICindication_specs_1 =
    \<lparr>seq_oms = [], seq_roms_count = 0, seq_aoms_count = 0, seq_first_extension = 1\<rparr>"

definition asn_DEF_RICindication :: "asn_type" where
  "asn_DEF_RICindication = T_SEQUENCE asn_SPC_RICindication_specs_1 asn_MBR_RICindication_1"

definition asn_PER_type_ProtocolIE_Container_87P19_constr_39 :: "asn_per_constraints" where
  "asn_PER_type_ProtocolIE_Container_87P19_constr_39 = per_constraints APC_UNCONSTRAINED (APC_CONSTRAINED False 16 16 0 65535)"

definition asn_PER_memb_id_constr_102 :: "asn_per_constraints" where
  "asn_PER_memb_id_constr_102 = per_constraints (APC_CONSTRAINED False 16 16 0 65535) APC_UNCONSTRAINED"

definition asn_PER_memb_criticality_constr_103 :: "asn_per_constraints" where
  "asn_PER_memb_criticality_constr_103 = per_constraints (APC_CONSTRAINED False 2 2 0 2) APC_UNCONSTRAINED"

definition asn_DEF_RICserviceQuery_IEs_value :: "asn_type" where
  "asn_DEF_RICserviceQuery_IEs_value = T_OPEN_TYPE asn_MBR_RICserviceQuery_IEs_value
    [(IE DEF_RANfunctionsID_List, asn_DEF_RANfunctionsID_List)]"

definition asn_PER_memb_value_constr_104 :: "asn_per_constraints" where
  "asn_PER_memb_value_constr_104 = per_constraints APC_UNCONSTRAINED APC_UNCONSTRAINED"

definition asn_MBR_RICserviceQuery_IEs_101 :: "asn_type asn_TYPE_member list" where
  "asn_MBR_RICserviceQuery_IEs_101 =
   [Member ATF_NOFLAGS 0 asn_DEF_ProtocolIE_ID None (Some asn_PER_memb_id_constr_102) ''id'',
    Member ATF_NOFLAGS 0 asn_DEF_Criticality (Some (0, select_RICserviceQuery_IEs_criticality_type)) (Some asn_PER_memb_criticality_constr_103) ''criticality'',
    Member ATF_OPEN_TYPE 0 asn_DEF_RICserviceQuery_IEs_value (Some (0, select_RICserviceQuery_IEs_value_type)) (Some asn_PER_memb_value_constr_104) ''value'']"

definition asn_SPC_RICserviceQuery_IEs_specs_101 :: "asn_SEQUENCE_specifics" where
  "asn_SPC_RICserviceQuery_IEs_specs_101 =
    \<lparr>seq_oms = [], seq_roms_count = 0, seq_aoms_count = 0, seq_first_extension = -1\<rparr>"

definition asn_DEF_RICserviceQuery_IEs :: "asn_type" where
  "asn_DEF_RICserviceQuery_IEs = T_SEQUENCE asn_SPC_RICserviceQuery_IEs_specs_101 asn_MBR_RICserviceQuery_IEs_101"

definition asn_MBR_ProtocolIE_Container_87P19_39 :: "asn_type asn_TYPE_member" where
  "asn_MBR_ProtocolIE_Container_87P19_39 = Member ATF_POINTER 0 asn_DEF_RICserviceQuery_IEs None None ''''"

definition asn_DEF_ProtocolIE_Container_87P19 :: "asn_type" where
  "asn_DEF_ProtocolIE_Container_87P19 = T_SEQUENCE_OF (Some asn_PER_type_ProtocolIE_Container_87P19_constr_39) asn_MBR_ProtocolIE_Container_87P19_39"

definition asn_MBR_RICserviceQuery_1 :: "asn_type asn_TYPE_member list" where
  "asn_MBR_RICserviceQuery_1 =
   [Member ATF_NOFLAGS 0 asn_DEF_ProtocolIE_Container_87P19 None None ''protocolIEs'']"

definition asn_SPC_RICserviceQuery_specs_1 :: "asn_SEQUENCE_specifics" where
  "asn_SPC_RICserviceQuery_specs_1 =
    \<lparr>seq_oms = [], seq_roms_count = 0, seq_aoms_count = 0, seq_first_extension = 1\<rparr>"

definition asn_DEF_RICserviceQuery :: "asn_type" where
  "asn_DEF_RICserviceQuery = T_SEQUENCE asn_SPC_RICserviceQuery_specs_1 asn_MBR_RICserviceQuery_1"

definition asn_PER_type_ProtocolIE_Container_87P10_constr_21 :: "asn_per_constraints" where
  "asn_PER_type_ProtocolIE_Container_87P10_constr_21 = per_constraints APC_UNCONSTRAINED (APC_CONSTRAINED False 16 16 0 65535)"

definition asn_PER_memb_id_constr_66 :: "asn_per_constraints" where
  "asn_PER_memb_id_constr_66 = per_constraints (APC_CONSTRAINED False 16 16 0 65535) APC_UNCONSTRAINED"

definition asn_PER_memb_criticality_constr_67 :: "asn_per_constraints" where
  "asn_PER_memb_criticality_constr_67 = per_constraints (APC_CONSTRAINED False 2 2 0 2) APC_UNCONSTRAINED"

definition asn_DEF_ErrorIndication_IEs_value :: "asn_type" where
  "asn_DEF_ErrorIndication_IEs_value = T_OPEN_TYPE asn_MBR_ErrorIndication_IEs_value
    [(IE DEF_RICrequestID, asn_DEF_RICrequestID),
     (IE DEF_RANfunctionID, asn_DEF_RANfunctionID),
     (IE DEF_Cause, asn_DEF_Cause),
     (IE DEF_CriticalityDiagnostics, asn_DEF_CriticalityDiagnostics)]"

definition asn_PER_memb_value_constr_68 :: "asn_per_constraints" where
  "asn_PER_memb_value_constr_68 = per_constraints APC_UNCONSTRAINED APC_UNCONSTRAINED"

definition asn_MBR_ErrorIndication_IEs_65 :: "asn_type asn_TYPE_member list" where
  "asn_MBR_ErrorIndication_IEs_65 =
   [Member ATF_NOFLAGS 0 asn_DEF_ProtocolIE_ID None (Some asn_PER_memb_id_constr_66) ''id'',
    Member ATF_NOFLAGS 0 asn_DEF_Criticality (Some (0, select_ErrorIndication_IEs_criticality_type)) (Some asn_PER_memb_criticality_constr_67) ''criticality'',
    Member ATF_OPEN_TYPE 0 asn_DEF_ErrorIndication_IEs_value (Some (0, select_ErrorIndication_IEs_value_type)) (Some asn_PER_memb_value_constr_68) ''value'']"

definition asn_SPC_ErrorIndication_IEs_specs_65 :: "asn_SEQUENCE_specifics" where
  "asn_SPC_ErrorIndication_IEs_specs_65 =
    \<lparr>seq_oms = [], seq_roms_count = 0, seq_aoms_count = 0, seq_first_extension = -1\<rparr>"

definition asn_DEF_ErrorIndication_IEs :: "asn_type" where
  "asn_DEF_ErrorIndication_IEs = T_SEQUENCE asn_SPC_ErrorIndication_IEs_specs_65 asn_MBR_ErrorIndication_IEs_65"

definition asn_MBR_ProtocolIE_Container_87P10_21 :: "asn_type asn_TYPE_member" where
  "asn_MBR_ProtocolIE_Container_87P10_21 = Member ATF_POINTER 0 asn_DEF_ErrorIndication_IEs None None ''''"

definition asn_DEF_ProtocolIE_Container_87P10 :: "asn_type" where
  "asn_DEF_ProtocolIE_Container_87P10 = T_SEQUENCE_OF (Some asn_PER_type_ProtocolIE_Container_87P10_constr_21) asn_MBR_ProtocolIE_Container_87P10_21"

definition asn_MBR_ErrorIndication_1 :: "asn_type asn_TYPE_member list" where
  "asn_MBR_ErrorIndication_1 =
   [Member ATF_NOFLAGS 0 asn_DEF_ProtocolIE_Container_87P10 None None ''protocolIEs'']"

definition asn_SPC_ErrorIndication_specs_1 :: "asn_SEQUENCE_specifics" where
  "asn_SPC_ErrorIndication_specs_1 =
    \<lparr>seq_oms = [], seq_roms_count = 0, seq_aoms_count = 0, seq_first_extension = 1\<rparr>"

definition asn_DEF_ErrorIndication :: "asn_type" where
  "asn_DEF_ErrorIndication = T_SEQUENCE asn_SPC_ErrorIndication_specs_1 asn_MBR_ErrorIndication_1"

definition asn_DEF_InitiatingMessage_value :: "asn_type" where
  "asn_DEF_InitiatingMessage_value = T_OPEN_TYPE asn_MBR_InitiatingMessage_value
    [(MSG DEF_RICsubscriptionRequest, asn_DEF_RICsubscriptionRequest),
     (MSG DEF_RICsubscriptionDeleteRequest, asn_DEF_RICsubscriptionDeleteRequest),
     (MSG DEF_RICserviceUpdate, asn_DEF_RICserviceUpdate),
     (MSG DEF_RICcontrolRequest, asn_DEF_RICcontrolRequest),
     (MSG DEF_E2setupRequest, asn_DEF_E2setupRequest),
     (MSG DEF_ResetRequest, asn_DEF_ResetRequest),
     (MSG DEF_RICindication, asn_DEF_RICindication),
     (MSG DEF_RICserviceQuery, asn_DEF_RICserviceQuery),
     (MSG DEF_ErrorIndication, asn_DEF_ErrorIndication)]"

definition asn_PER_memb_InitiatingMessage_value_constr_4 :: "asn_per_constraints" where
  "asn_PER_memb_InitiatingMessage_value_constr_4 = per_constraints APC_UNCONSTRAINED APC_UNCONSTRAINED"

definition asn_MBR_InitiatingMessage_1 :: "asn_type asn_TYPE_member list" where
  "asn_MBR_InitiatingMessage_1 =
   [Member ATF_NOFLAGS 0 asn_DEF_ProcedureCode None (Some asn_PER_memb_InitiatingMessage_procedureCode_constr_2) ''procedureCode'',
    Member ATF_NOFLAGS 0 asn_DEF_Criticality (Some (0, select_InitiatingMessage_criticality_type)) (Some asn_PER_memb_InitiatingMessage_criticality_constr_3) ''criticality'',
    Member ATF_OPEN_TYPE 0 asn_DEF_InitiatingMessage_value (Some (0, select_InitiatingMessage_value_type)) (Some asn_PER_memb_InitiatingMessage_value_constr_4) ''value'']"

definition asn_SPC_InitiatingMessage_specs_1 :: "asn_SEQUENCE_specifics" where
  "asn_SPC_InitiatingMessage_specs_1 =
    \<lparr>seq_oms = [], seq_roms_count = 0, seq_aoms_count = 0, seq_first_extension = -1\<rparr>"

definition asn_DEF_InitiatingMessage :: "asn_type" where
  "asn_DEF_InitiatingMessage = T_SEQUENCE asn_SPC_InitiatingMessage_specs_1 asn_MBR_InitiatingMessage_1"

definition asn_PER_memb_SuccessfulOutcome_procedureCode_constr_2 :: "asn_per_constraints" where
  "asn_PER_memb_SuccessfulOutcome_procedureCode_constr_2 = per_constraints (APC_CONSTRAINED False 8 8 0 255) APC_UNCONSTRAINED"

definition asn_PER_memb_SuccessfulOutcome_criticality_constr_3 :: "asn_per_constraints" where
  "asn_PER_memb_SuccessfulOutcome_criticality_constr_3 = per_constraints (APC_CONSTRAINED False 2 2 0 2) APC_UNCONSTRAINED"

definition asn_PER_type_ProtocolIE_Container_87P1_constr_3 :: "asn_per_constraints" where
  "asn_PER_type_ProtocolIE_Container_87P1_constr_3 = per_constraints APC_UNCONSTRAINED (APC_CONSTRAINED False 16 16 0 65535)"

definition asn_PER_memb_id_constr_30 :: "asn_per_constraints" where
  "asn_PER_memb_id_constr_30 = per_constraints (APC_CONSTRAINED False 16 16 0 65535) APC_UNCONSTRAINED"

definition asn_PER_memb_criticality_constr_31 :: "asn_per_constraints" where
  "asn_PER_memb_criticality_constr_31 = per_constraints (APC_CONSTRAINED False 2 2 0 2) APC_UNCONSTRAINED"

definition asn_PER_type_RICaction_Admitted_List_constr_1 :: "asn_per_constraints" where
  "asn_PER_type_RICaction_Admitted_List_constr_1 = per_constraints APC_UNCONSTRAINED (APC_CONSTRAINED False 4 4 1 16)"

definition asn_PER_memb_id_constr_6 :: "asn_per_constraints" where
  "asn_PER_memb_id_constr_6 = per_constraints (APC_CONSTRAINED False 16 16 0 65535) APC_UNCONSTRAINED"

definition asn_PER_memb_criticality_constr_7 :: "asn_per_constraints" where
  "asn_PER_memb_criticality_constr_7 = per_constraints (APC_CONSTRAINED False 2 2 0 2) APC_UNCONSTRAINED"

definition asn_DEF_RICaction_Admitted_ItemIEs_value :: "asn_type" where
  "asn_DEF_RICaction_Admitted_ItemIEs_value = T_OPEN_TYPE asn_MBR_RICaction_Admitted_ItemIEs_value
    [(IE DEF_RICaction_Admitted_Item, asn_DEF_RICaction_Admitted_Item)]"

definition asn_PER_memb_value_constr_8 :: "asn_per_constraints" where
  "asn_PER_memb_value_constr_8 = per_constraints APC_UNCONSTRAINED APC_UNCONSTRAINED"

definition asn_MBR_RICaction_Admitted_ItemIEs_5 :: "asn_type asn_TYPE_member list" where
  "asn_MBR_RICaction_Admitted_ItemIEs_5 =
   [Member ATF_NOFLAGS 0 asn_DEF_ProtocolIE_ID None (Some asn_PER_memb_id_constr_6) ''id'',
    Member ATF_NOFLAGS 0 asn_DEF_Criticality (Some (0, select_RICaction_Admitted_ItemIEs_criticality_type)) (Some asn_PER_memb_criticality_constr_7) ''criticality'',
    Member ATF_OPEN_TYPE 0 asn_DEF_RICaction_Admitted_ItemIEs_value (Some (0, select_RICaction_Admitted_ItemIEs_value_type)) (Some asn_PER_memb_value_constr_8) ''value'']"

definition asn_SPC_RICaction_Admitted_ItemIEs_specs_5 :: "asn_SEQUENCE_specifics" where
  "asn_SPC_RICaction_Admitted_ItemIEs_specs_5 =
    \<lparr>seq_oms = [], seq_roms_count = 0, seq_aoms_count = 0, seq_first_extension = -1\<rparr>"

definition asn_DEF_ProtocolIE_SingleContainer_90P1 :: "asn_type" where
  "asn_DEF_ProtocolIE_SingleContainer_90P1 = T_SEQUENCE asn_SPC_RICaction_Admitted_ItemIEs_specs_5 asn_MBR_RICaction_Admitted_ItemIEs_5"

definition asn_MBR_RICaction_Admitted_List_1 :: "asn_type asn_TYPE_member" where
  "asn_MBR_RICaction_Admitted_List_1 = Member ATF_POINTER 0 asn_DEF_ProtocolIE_SingleContainer_90P1 None None ''''"

definition asn_DEF_RICaction_Admitted_List :: "asn_type" where
  "asn_DEF_RICaction_Admitted_List = T_SEQUENCE_OF (Some asn_PER_type_RICaction_Admitted_List_constr_1) asn_MBR_RICaction_Admitted_List_1"

definition asn_PER_type_RICaction_NotAdmitted_List_constr_1 :: "asn_per_constraints" where
  "asn_PER_type_RICaction_NotAdmitted_List_constr_1 = per_constraints APC_UNCONSTRAINED (APC_CONSTRAINED False 5 5 0 16)"

definition asn_PER_memb_id_constr_10 :: "asn_per_constraints" where
  "asn_PER_memb_id_constr_10 = per_constraints (APC_CONSTRAINED False 16 16 0 65535) APC_UNCONSTRAINED"

definition asn_PER_memb_criticality_constr_11 :: "asn_per_constraints" where
  "asn_PER_memb_criticality_constr_11 = per_constraints (APC_CONSTRAINED False 2 2 0 2) APC_UNCONSTRAINED"

definition asn_DEF_RICaction_NotAdmitted_ItemIEs_value :: "asn_type" where
  "asn_DEF_RICaction_NotAdmitted_ItemIEs_value = T_OPEN_TYPE asn_MBR_RICaction_NotAdmitted_ItemIEs_value
    [(IE DEF_RICaction_NotAdmitted_Item, asn_DEF_RICaction_NotAdmitted_Item)]"

definition asn_PER_memb_value_constr_12 :: "asn_per_constraints" where
  "asn_PER_memb_value_constr_12 = per_constraints APC_UNCONSTRAINED APC_UNCONSTRAINED"

definition asn_MBR_RICaction_NotAdmitted_ItemIEs_9 :: "asn_type asn_TYPE_member list" where
  "asn_MBR_RICaction_NotAdmitted_ItemIEs_9 =
   [Member ATF_NOFLAGS 0 asn_DEF_ProtocolIE_ID None (Some asn_PER_memb_id_constr_10) ''id'',
    Member ATF_NOFLAGS 0 asn_DEF_Criticality (Some (0, select_RICaction_NotAdmitted_ItemIEs_criticality_type)) (Some asn_PER_memb_criticality_constr_11) ''criticality'',
    Member ATF_OPEN_TYPE 0 asn_DEF_RICaction_NotAdmitted_ItemIEs_value (Some (0, select_RICaction_NotAdmitted_ItemIEs_value_type)) (Some asn_PER_memb_value_constr_12) ''value'']"

definition asn_SPC_RICaction_NotAdmitted_ItemIEs_specs_9 :: "asn_SEQUENCE_specifics" where
  "asn_SPC_RICaction_NotAdmitted_ItemIEs_specs_9 =
    \<lparr>seq_oms = [], seq_roms_count = 0, seq_aoms_count = 0, seq_first_extension = -1\<rparr>"

definition asn_DEF_ProtocolIE_SingleContainer_90P2 :: "asn_type" where
  "asn_DEF_ProtocolIE_SingleContainer_90P2 = T_SEQUENCE asn_SPC_RICaction_NotAdmitted_ItemIEs_specs_9 asn_MBR_RICaction_NotAdmitted_ItemIEs_9"

definition asn_MBR_RICaction_NotAdmitted_List_1 :: "asn_type asn_TYPE_member" where
  "asn_MBR_RICaction_NotAdmitted_List_1 = Member ATF_POINTER 0 asn_DEF_ProtocolIE_SingleContainer_90P2 None None ''''"

definition asn_DEF_RICaction_NotAdmitted_List :: "asn_type" where
  "asn_DEF_RICaction_NotAdmitted_List = T_SEQUENCE_OF (Some asn_PER_type_RICaction_NotAdmitted_List_constr_1) asn_MBR_RICaction_NotAdmitted_List_1"

definition asn_DEF_RICsubscriptionResponse_IEs_value :: "asn_type" where
  "asn_DEF_RICsubscriptionResponse_IEs_value = T_OPEN_TYPE asn_MBR_RICsubscriptionResponse_IEs_value
    [(IE DEF_RICrequestID, asn_DEF_RICrequestID),
     (IE DEF_RANfunctionID, asn_DEF_RANfunctionID),
     (IE DEF_RICaction_Admitted_List, asn_DEF_RICaction_Admitted_List),
     (IE DEF_RICaction_NotAdmitted_List, asn_DEF_RICaction_NotAdmitted_List)]"

definition asn_PER_memb_value_constr_32 :: "asn_per_constraints" where
  "asn_PER_memb_value_constr_32 = per_constraints APC_UNCONSTRAINED APC_UNCONSTRAINED"

definition asn_MBR_RICsubscriptionResponse_IEs_29 :: "asn_type asn_TYPE_member list" where
  "asn_MBR_RICsubscriptionResponse_IEs_29 =
   [Member ATF_NOFLAGS 0 asn_DEF_ProtocolIE_ID None (Some asn_PER_memb_id_constr_30) ''id'',
    Member ATF_NOFLAGS 0 asn_DEF_Criticality (Some (0, select_RICsubscriptionResponse_IEs_criticality_type)) (Some asn_PER_memb_criticality_constr_31) ''criticality'',
    Member ATF_OPEN_TYPE 0 asn_DEF_RICsubscriptionResponse_IEs_value (Some (0, select_RICsubscriptionResponse_IEs_value_type)) (Some asn_PER_memb_value_constr_32) ''value'']"

definition asn_SPC_RICsubscriptionResponse_IEs_specs_29 :: "asn_SEQUENCE_specifics" where
  "asn_SPC_RICsubscriptionResponse_IEs_specs_29 =
    \<lparr>seq_oms = [], seq_roms_count = 0, seq_aoms_count = 0, seq_first_extension = -1\<rparr>"

definition asn_DEF_RICsubscriptionResponse_IEs :: "asn_type" where
  "asn_DEF_RICsubscriptionResponse_IEs = T_SEQUENCE asn_SPC_RICsubscriptionResponse_IEs_specs_29 asn_MBR_RICsubscriptionResponse_IEs_29"

definition asn_MBR_ProtocolIE_Container_87P1_3 :: "asn_type asn_TYPE_member" where
  "asn_MBR_ProtocolIE_Container_87P1_3 = Member ATF_POINTER 0 asn_DEF_RICsubscriptionResponse_IEs None None ''''"

definition asn_DEF_ProtocolIE_Container_87P1 :: "asn_type" where
  "asn_DEF_ProtocolIE_Container_87P1 = T_SEQUENCE_OF (Some asn_PER_type_ProtocolIE_Container_87P1_constr_3) asn_MBR_ProtocolIE_Container_87P1_3"

definition asn_MBR_RICsubscriptionResponse_1 :: "asn_type asn_TYPE_member list" where
  "asn_MBR_RICsubscriptionResponse_1 =
   [Member ATF_NOFLAGS 0 asn_DEF_ProtocolIE_Container_87P1 None None ''protocolIEs'']"

definition asn_SPC_RICsubscriptionResponse_specs_1 :: "asn_SEQUENCE_specifics" where
  "asn_SPC_RICsubscriptionResponse_specs_1 =
    \<lparr>seq_oms = [], seq_roms_count = 0, seq_aoms_count = 0, seq_first_extension = 1\<rparr>"

definition asn_DEF_RICsubscriptionResponse :: "asn_type" where
  "asn_DEF_RICsubscriptionResponse = T_SEQUENCE asn_SPC_RICsubscriptionResponse_specs_1 asn_MBR_RICsubscriptionResponse_1"

definition asn_PER_type_ProtocolIE_Container_87P4_constr_9 :: "asn_per_constraints" where
  "asn_PER_type_ProtocolIE_Container_87P4_constr_9 = per_constraints APC_UNCONSTRAINED (APC_CONSTRAINED False 16 16 0 65535)"

definition asn_PER_memb_id_constr_42 :: "asn_per_constraints" where
  "asn_PER_memb_id_constr_42 = per_constraints (APC_CONSTRAINED False 16 16 0 65535) APC_UNCONSTRAINED"

definition asn_PER_memb_criticality_constr_43 :: "asn_per_constraints" where
  "asn_PER_memb_criticality_constr_43 = per_constraints (APC_CONSTRAINED False 2 2 0 2) APC_UNCONSTRAINED"

definition asn_DEF_RICsubscriptionDeleteResponse_IEs_value :: "asn_type" where
  "asn_DEF_RICsubscriptionDeleteResponse_IEs_value = T_OPEN_TYPE asn_MBR_RICsubscriptionDeleteResponse_IEs_value
    [(IE DEF_RICrequestID, asn_DEF_RICrequestID),
     (IE DEF_RANfunctionID, asn_DEF_RANfunctionID)]"

definition asn_PER_memb_value_constr_44 :: "asn_per_constraints" where
  "asn_PER_memb_value_constr_44 = per_constraints APC_UNCONSTRAINED APC_UNCONSTRAINED"

definition asn_MBR_RICsubscriptionDeleteResponse_IEs_41 :: "asn_type asn_TYPE_member list" where
  "asn_MBR_RICsubscriptionDeleteResponse_IEs_41 =
   [Member ATF_NOFLAGS 0 asn_DEF_ProtocolIE_ID None (Some asn_PER_memb_id_constr_42) ''id'',
    Member ATF_NOFLAGS 0 asn_DEF_Criticality (Some (0, select_RICsubscriptionDeleteResponse_IEs_criticality_type)) (Some asn_PER_memb_criticality_constr_43) ''criticality'',
    Member ATF_OPEN_TYPE 0 asn_DEF_RICsubscriptionDeleteResponse_IEs_value (Some (0, select_RICsubscriptionDeleteResponse_IEs_value_type)) (Some asn_PER_memb_value_constr_44) ''value'']"

definition asn_SPC_RICsubscriptionDeleteResponse_IEs_specs_41 :: "asn_SEQUENCE_specifics" where
  "asn_SPC_RICsubscriptionDeleteResponse_IEs_specs_41 =
    \<lparr>seq_oms = [], seq_roms_count = 0, seq_aoms_count = 0, seq_first_extension = -1\<rparr>"

definition asn_DEF_RICsubscriptionDeleteResponse_IEs :: "asn_type" where
  "asn_DEF_RICsubscriptionDeleteResponse_IEs = T_SEQUENCE asn_SPC_RICsubscriptionDeleteResponse_IEs_specs_41 asn_MBR_RICsubscriptionDeleteResponse_IEs_41"

definition asn_MBR_ProtocolIE_Container_87P4_9 :: "asn_type asn_TYPE_member" where
  "asn_MBR_ProtocolIE_Container_87P4_9 = Member ATF_POINTER 0 asn_DEF_RICsubscriptionDeleteResponse_IEs None None ''''"

definition asn_DEF_ProtocolIE_Container_87P4 :: "asn_type" where
  "asn_DEF_ProtocolIE_Container_87P4 = T_SEQUENCE_OF (Some asn_PER_type_ProtocolIE_Container_87P4_constr_9) asn_MBR_ProtocolIE_Container_87P4_9"

definition asn_MBR_RICsubscriptionDeleteResponse_1 :: "asn_type asn_TYPE_member list" where
  "asn_MBR_RICsubscriptionDeleteResponse_1 =
   [Member ATF_NOFLAGS 0 asn_DEF_ProtocolIE_Container_87P4 None None ''protocolIEs'']"

definition asn_SPC_RICsubscriptionDeleteResponse_specs_1 :: "asn_SEQUENCE_specifics" where
  "asn_SPC_RICsubscriptionDeleteResponse_specs_1 =
    \<lparr>seq_oms = [], seq_roms_count = 0, seq_aoms_count = 0, seq_first_extension = 1\<rparr>"

definition asn_DEF_RICsubscriptionDeleteResponse :: "asn_type" where
  "asn_DEF_RICsubscriptionDeleteResponse = T_SEQUENCE asn_SPC_RICsubscriptionDeleteResponse_specs_1 asn_MBR_RICsubscriptionDeleteResponse_1"

definition asn_PER_type_ProtocolIE_Container_87P17_constr_35 :: "asn_per_constraints" where
  "asn_PER_type_ProtocolIE_Container_87P17_constr_35 = per_constraints APC_UNCONSTRAINED (APC_CONSTRAINED False 16 16 0 65535)"

definition asn_PER_memb_id_constr_94 :: "asn_per_constraints" where
  "asn_PER_memb_id_constr_94 = per_constraints (APC_CONSTRAINED False 16 16 0 65535) APC_UNCONSTRAINED"

definition asn_PER_memb_criticality_constr_95 :: "asn_per_constraints" where
  "asn_PER_memb_criticality_constr_95 = per_constraints (APC_CONSTRAINED False 2 2 0 2) APC_UNCONSTRAINED"

definition asn_PER_type_RANfunctionsIDcause_List_constr_1 :: "asn_per_constraints" where
  "asn_PER_type_RANfunctionsIDcause_List_constr_1 = per_constraints APC_UNCONSTRAINED (APC_CONSTRAINED False 9 9 0 256)"

definition asn_PER_memb_id_constr_22 :: "asn_per_constraints" where
  "asn_PER_memb_id_constr_22 = per_constraints (APC_CONSTRAINED False 16 16 0 65535) APC_UNCONSTRAINED"

definition asn_PER_memb_criticality_constr_23 :: "asn_per_constraints" where
  "asn_PER_memb_criticality_constr_23 = per_constraints (APC_CONSTRAINED False 2 2 0 2) APC_UNCONSTRAINED"

definition asn_DEF_RANfunctionIDcause_ItemIEs_value :: "asn_type" where
  "asn_DEF_RANfunctionIDcause_ItemIEs_value = T_OPEN_TYPE asn_MBR_RANfunctionIDcause_ItemIEs_value
    [(IE DEF_RANfunctionIDcause_Item, asn_DEF_RANfunctionIDcause_Item)]"

definition asn_PER_memb_value_constr_24 :: "asn_per_constraints" where
  "asn_PER_memb_value_constr_24 = per_constraints APC_UNCONSTRAINED APC_UNCONSTRAINED"

definition asn_MBR_RANfunctionIDcause_ItemIEs_21 :: "asn_type asn_TYPE_member list" where
  "asn_MBR_RANfunctionIDcause_ItemIEs_21 =
   [Member ATF_NOFLAGS 0 asn_DEF_ProtocolIE_ID None (Some asn_PER_memb_id_constr_22) ''id'',
    Member ATF_NOFLAGS 0 asn_DEF_Criticality (Some (0, select_RANfunctionIDcause_ItemIEs_criticality_type)) (Some asn_PER_memb_criticality_constr_23) ''criticality'',
    Member ATF_OPEN_TYPE 0 asn_DEF_RANfunctionIDcause_ItemIEs_value (Some (0, select_RANfunctionIDcause_ItemIEs_value_type)) (Some asn_PER_memb_value_constr_24) ''value'']"

definition asn_SPC_RANfunctionIDcause_ItemIEs_specs_21 :: "asn_SEQUENCE_specifics" where
  "asn_SPC_RANfunctionIDcause_ItemIEs_specs_21 =
    \<lparr>seq_oms = [], seq_roms_count = 0, seq_aoms_count = 0, seq_first_extension = -1\<rparr>"

definition asn_DEF_ProtocolIE_SingleContainer_90P5 :: "asn_type" where
  "asn_DEF_ProtocolIE_SingleContainer_90P5 = T_SEQUENCE asn_SPC_RANfunctionIDcause_ItemIEs_specs_21 asn_MBR_RANfunctionIDcause_ItemIEs_21"

definition asn_MBR_RANfunctionsIDcause_List_1 :: "asn_type asn_TYPE_member" where
  "asn_MBR_RANfunctionsIDcause_List_1 = Member ATF_POINTER 0 asn_DEF_ProtocolIE_SingleContainer_90P5 None None ''''"

definition asn_DEF_RANfunctionsIDcause_List :: "asn_type" where
  "asn_DEF_RANfunctionsIDcause_List = T_SEQUENCE_OF (Some asn_PER_type_RANfunctionsIDcause_List_constr_1) asn_MBR_RANfunctionsIDcause_List_1"

definition asn_DEF_RICserviceUpdateAcknowledge_IEs_value :: "asn_type" where
  "asn_DEF_RICserviceUpdateAcknowledge_IEs_value = T_OPEN_TYPE asn_MBR_RICserviceUpdateAcknowledge_IEs_value
    [(IE DEF_RANfunctionsID_List, asn_DEF_RANfunctionsID_List),
     (IE DEF_RANfunctionsIDcause_List, asn_DEF_RANfunctionsIDcause_List)]"

definition asn_PER_memb_value_constr_96 :: "asn_per_constraints" where
  "asn_PER_memb_value_constr_96 = per_constraints APC_UNCONSTRAINED APC_UNCONSTRAINED"

definition asn_MBR_RICserviceUpdateAcknowledge_IEs_93 :: "asn_type asn_TYPE_member list" where
  "asn_MBR_RICserviceUpdateAcknowledge_IEs_93 =
   [Member ATF_NOFLAGS 0 asn_DEF_ProtocolIE_ID None (Some asn_PER_memb_id_constr_94) ''id'',
    Member ATF_NOFLAGS 0 asn_DEF_Criticality (Some (0, select_RICserviceUpdateAcknowledge_IEs_criticality_type)) (Some asn_PER_memb_criticality_constr_95) ''criticality'',
    Member ATF_OPEN_TYPE 0 asn_DEF_RICserviceUpdateAcknowledge_IEs_value (Some (0, select_RICserviceUpdateAcknowledge_IEs_value_type)) (Some asn_PER_memb_value_constr_96) ''value'']"

definition asn_SPC_RICserviceUpdateAcknowledge_IEs_specs_93 :: "asn_SEQUENCE_specifics" where
  "asn_SPC_RICserviceUpdateAcknowledge_IEs_specs_93 =
    \<lparr>seq_oms = [], seq_roms_count = 0, seq_aoms_count = 0, seq_first_extension = -1\<rparr>"

definition asn_DEF_RICserviceUpdateAcknowledge_IEs :: "asn_type" where
  "asn_DEF_RICserviceUpdateAcknowledge_IEs = T_SEQUENCE asn_SPC_RICserviceUpdateAcknowledge_IEs_specs_93 asn_MBR_RICserviceUpdateAcknowledge_IEs_93"

definition asn_MBR_ProtocolIE_Container_87P17_35 :: "asn_type asn_TYPE_member" where
  "asn_MBR_ProtocolIE_Container_87P17_35 = Member ATF_POINTER 0 asn_DEF_RICserviceUpdateAcknowledge_IEs None None ''''"

definition asn_DEF_ProtocolIE_Container_87P17 :: "asn_type" where
  "asn_DEF_ProtocolIE_Container_87P17 = T_SEQUENCE_OF (Some asn_PER_type_ProtocolIE_Container_87P17_constr_35) asn_MBR_ProtocolIE_Container_87P17_35"

definition asn_MBR_RICserviceUpdateAcknowledge_1 :: "asn_type asn_TYPE_member list" where
  "asn_MBR_RICserviceUpdateAcknowledge_1 =
   [Member ATF_NOFLAGS 0 asn_DEF_ProtocolIE_Container_87P17 None None ''protocolIEs'']"

definition asn_SPC_RICserviceUpdateAcknowledge_specs_1 :: "asn_SEQUENCE_specifics" where
  "asn_SPC_RICserviceUpdateAcknowledge_specs_1 =
    \<lparr>seq_oms = [], seq_roms_count = 0, seq_aoms_count = 0, seq_first_extension = 1\<rparr>"

definition asn_DEF_RICserviceUpdateAcknowledge :: "asn_type" where
  "asn_DEF_RICserviceUpdateAcknowledge = T_SEQUENCE asn_SPC_RICserviceUpdateAcknowledge_specs_1 asn_MBR_RICserviceUpdateAcknowledge_1"

definition asn_PER_type_ProtocolIE_Container_87P8_constr_17 :: "asn_per_constraints" where
  "asn_PER_type_ProtocolIE_Container_87P8_constr_17 = per_constraints APC_UNCONSTRAINED (APC_CONSTRAINED False 16 16 0 65535)"

definition asn_PER_memb_id_constr_58 :: "asn_per_constraints" where
  "asn_PER_memb_id_constr_58 = per_constraints (APC_CONSTRAINED False 16 16 0 65535) APC_UNCONSTRAINED"

definition asn_PER_memb_criticality_constr_59 :: "asn_per_constraints" where
  "asn_PER_memb_criticality_constr_59 = per_constraints (APC_CONSTRAINED False 2 2 0 2) APC_UNCONSTRAINED"

definition asn_DEF_RICcontrolAcknowledge_IEs_value :: "asn_type" where
  "asn_DEF_RICcontrolAcknowledge_IEs_value = T_OPEN_TYPE asn_MBR_RICcontrolAcknowledge_IEs_value
    [(IE DEF_RICrequestID, asn_DEF_RICrequestID),
     (IE DEF_RANfunctionID, asn_DEF_RANfunctionID),
     (IE DEF_RICcallProcessID, asn_DEF_RICcallProcessID),
     (IE DEF_RICcontrolStatus, asn_DEF_RICcontrolStatus),
     (IE DEF_RICcontrolOutcome, asn_DEF_RICcontrolOutcome)]"

definition asn_PER_memb_value_constr_60 :: "asn_per_constraints" where
  "asn_PER_memb_value_constr_60 = per_constraints APC_UNCONSTRAINED APC_UNCONSTRAINED"

definition asn_MBR_RICcontrolAcknowledge_IEs_57 :: "asn_type asn_TYPE_member list" where
  "asn_MBR_RICcontrolAcknowledge_IEs_57 =
   [Member ATF_NOFLAGS 0 asn_DEF_ProtocolIE_ID None (Some asn_PER_memb_id_constr_58) ''id'',
    Member ATF_NOFLAGS 0 asn_DEF_Criticality (Some (0, select_RICcontrolAcknowledge_IEs_criticality_type)) (Some asn_PER_memb_criticality_constr_59) ''criticality'',
    Member ATF_OPEN_TYPE 0 asn_DEF_RICcontrolAcknowledge_IEs_value (Some (0, select_RICcontrolAcknowledge_IEs_value_type)) (Some asn_PER_memb_value_constr_60) ''value'']"

definition asn_SPC_RICcontrolAcknowledge_IEs_specs_57 :: "asn_SEQUENCE_specifics" where
  "asn_SPC_RICcontrolAcknowledge_IEs_specs_57 =
    \<lparr>seq_oms = [], seq_roms_count = 0, seq_aoms_count = 0, seq_first_extension = -1\<rparr>"

definition asn_DEF_RICcontrolAcknowledge_IEs :: "asn_type" where
  "asn_DEF_RICcontrolAcknowledge_IEs = T_SEQUENCE asn_SPC_RICcontrolAcknowledge_IEs_specs_57 asn_MBR_RICcontrolAcknowledge_IEs_57"

definition asn_MBR_ProtocolIE_Container_87P8_17 :: "asn_type asn_TYPE_member" where
  "asn_MBR_ProtocolIE_Container_87P8_17 = Member ATF_POINTER 0 asn_DEF_RICcontrolAcknowledge_IEs None None ''''"

definition asn_DEF_ProtocolIE_Container_87P8 :: "asn_type" where
  "asn_DEF_ProtocolIE_Container_87P8 = T_SEQUENCE_OF (Some asn_PER_type_ProtocolIE_Container_87P8_constr_17) asn_MBR_ProtocolIE_Container_87P8_17"

definition asn_MBR_RICcontrolAcknowledge_1 :: "asn_type asn_TYPE_member list" where
  "asn_MBR_RICcontrolAcknowledge_1 =
   [Member ATF_NOFLAGS 0 asn_DEF_ProtocolIE_Container_87P8 None None ''protocolIEs'']"

definition asn_SPC_RICcontrolAcknowledge_specs_1 :: "asn_SEQUENCE_specifics" where
  "asn_SPC_RICcontrolAcknowledge_specs_1 =
    \<lparr>seq_oms = [], seq_roms_count = 0, seq_aoms_count = 0, seq_first_extension = 1\<rparr>"

definition asn_DEF_RICcontrolAcknowledge :: "asn_type" where
  "asn_DEF_RICcontrolAcknowledge = T_SEQUENCE asn_SPC_RICcontrolAcknowledge_specs_1 asn_MBR_RICcontrolAcknowledge_1"

definition asn_PER_type_ProtocolIE_Container_87P12_constr_25 :: "asn_per_constraints" where
  "asn_PER_type_ProtocolIE_Container_87P12_constr_25 = per_constraints APC_UNCONSTRAINED (APC_CONSTRAINED False 16 16 0 65535)"

definition asn_PER_memb_id_constr_74 :: "asn_per_constraints" where
  "asn_PER_memb_id_constr_74 = per_constraints (APC_CONSTRAINED False 16 16 0 65535) APC_UNCONSTRAINED"

definition asn_PER_memb_criticality_constr_75 :: "asn_per_constraints" where
  "asn_PER_memb_criticality_constr_75 = per_constraints (APC_CONSTRAINED False 2 2 0 2) APC_UNCONSTRAINED"

definition asn_DEF_E2setupResponseIEs_value :: "asn_type" where
  "asn_DEF_E2setupResponseIEs_value = T_OPEN_TYPE asn_MBR_E2setupResponseIEs_value
    [(IE DEF_GlobalRIC_ID, asn_DEF_GlobalRIC_ID),
     (IE DEF_RANfunctionsID_List, asn_DEF_RANfunctionsID_List),
     (IE DEF_RANfunctionsIDcause_List, asn_DEF_RANfunctionsIDcause_List)]"

definition asn_PER_memb_value_constr_76 :: "asn_per_constraints" where
  "asn_PER_memb_value_constr_76 = per_constraints APC_UNCONSTRAINED APC_UNCONSTRAINED"

definition asn_MBR_E2setupResponseIEs_73 :: "asn_type asn_TYPE_member list" where
  "asn_MBR_E2setupResponseIEs_73 =
   [Member ATF_NOFLAGS 0 asn_DEF_ProtocolIE_ID None (Some asn_PER_memb_id_constr_74) ''id'',
    Member ATF_NOFLAGS 0 asn_DEF_Criticality (Some (0, select_E2setupResponseIEs_criticality_type)) (Some asn_PER_memb_criticality_constr_75) ''criticality'',
    Member ATF_OPEN_TYPE 0 asn_DEF_E2setupResponseIEs_value (Some (0, select_E2setupResponseIEs_value_type)) (Some asn_PER_memb_value_constr_76) ''value'']"

definition asn_SPC_E2setupResponseIEs_specs_73 :: "asn_SEQUENCE_specifics" where
  "asn_SPC_E2setupResponseIEs_specs_73 =
    \<lparr>seq_oms = [], seq_roms_count = 0, seq_aoms_count = 0, seq_first_extension = -1\<rparr>"

definition asn_DEF_E2setupResponseIEs :: "asn_type" where
  "asn_DEF_E2setupResponseIEs = T_SEQUENCE asn_SPC_E2setupResponseIEs_specs_73 asn_MBR_E2setupResponseIEs_73"

definition asn_MBR_ProtocolIE_Container_87P12_25 :: "asn_type asn_TYPE_member" where
  "asn_MBR_ProtocolIE_Container_87P12_25 = Member ATF_POINTER 0 asn_DEF_E2setupResponseIEs None None ''''"

definition asn_DEF_ProtocolIE_Container_87P12 :: "asn_type" where
  "asn_DEF_ProtocolIE_Container_87P12 = T_SEQUENCE_OF (Some asn_PER_type_ProtocolIE_Container_87P12_constr_25) asn_MBR_ProtocolIE_Container_87P12_25"

definition asn_MBR_E2setupResponse_1 :: "asn_type asn_TYPE_member list" where
  "asn_MBR_E2setupResponse_1 =
   [Member ATF_NOFLAGS 0 asn_DEF_ProtocolIE_Container_87P12 None None ''protocolIEs'']"

definition asn_SPC_E2setupResponse_specs_1 :: "asn_SEQUENCE_specifics" where
  "asn_SPC_E2setupResponse_specs_1 =
    \<lparr>seq_oms = [], seq_roms_count = 0, seq_aoms_count = 0, seq_first_extension = 1\<rparr>"

definition asn_DEF_E2setupResponse :: "asn_type" where
  "asn_DEF_E2setupResponse = T_SEQUENCE asn_SPC_E2setupResponse_specs_1 asn_MBR_E2setupResponse_1"

definition asn_PER_type_ProtocolIE_Container_87P15_constr_31 :: "asn_per_constraints" where
  "asn_PER_type_ProtocolIE_Container_87P15_constr_31 = per_constraints APC_UNCONSTRAINED (APC_CONSTRAINED False 16 16 0 65535)"

definition asn_PER_memb_id_constr_86 :: "asn_per_constraints" where
  "asn_PER_memb_id_constr_86 = per_constraints (APC_CONSTRAINED False 16 16 0 65535) APC_UNCONSTRAINED"

definition asn_PER_memb_criticality_constr_87 :: "asn_per_constraints" where
  "asn_PER_memb_criticality_constr_87 = per_constraints (APC_CONSTRAINED False 2 2 0 2) APC_UNCONSTRAINED"

definition asn_DEF_ResetResponseIEs_value :: "asn_type" where
  "asn_DEF_ResetResponseIEs_value = T_OPEN_TYPE asn_MBR_ResetResponseIEs_value
    [(IE DEF_CriticalityDiagnostics, asn_DEF_CriticalityDiagnostics)]"

definition asn_PER_memb_value_constr_88 :: "asn_per_constraints" where
  "asn_PER_memb_value_constr_88 = per_constraints APC_UNCONSTRAINED APC_UNCONSTRAINED"

definition asn_MBR_ResetResponseIEs_85 :: "asn_type asn_TYPE_member list" where
  "asn_MBR_ResetResponseIEs_85 =
   [Member ATF_NOFLAGS 0 asn_DEF_ProtocolIE_ID None (Some asn_PER_memb_id_constr_86) ''id'',
    Member ATF_NOFLAGS 0 asn_DEF_Criticality (Some (0, select_ResetResponseIEs_criticality_type)) (Some asn_PER_memb_criticality_constr_87) ''criticality'',
    Member ATF_OPEN_TYPE 0 asn_DEF_ResetResponseIEs_value (Some (0, select_ResetResponseIEs_value_type)) (Some asn_PER_memb_value_constr_88) ''value'']"

definition asn_SPC_ResetResponseIEs_specs_85 :: "asn_SEQUENCE_specifics" where
  "asn_SPC_ResetResponseIEs_specs_85 =
    \<lparr>seq_oms = [], seq_roms_count = 0, seq_aoms_count = 0, seq_first_extension = -1\<rparr>"

definition asn_DEF_ResetResponseIEs :: "asn_type" where
  "asn_DEF_ResetResponseIEs = T_SEQUENCE asn_SPC_ResetResponseIEs_specs_85 asn_MBR_ResetResponseIEs_85"

definition asn_MBR_ProtocolIE_Container_87P15_31 :: "asn_type asn_TYPE_member" where
  "asn_MBR_ProtocolIE_Container_87P15_31 = Member ATF_POINTER 0 asn_DEF_ResetResponseIEs None None ''''"

definition asn_DEF_ProtocolIE_Container_87P15 :: "asn_type" where
  "asn_DEF_ProtocolIE_Container_87P15 = T_SEQUENCE_OF (Some asn_PER_type_ProtocolIE_Container_87P15_constr_31) asn_MBR_ProtocolIE_Container_87P15_31"

definition asn_MBR_ResetResponse_1 :: "asn_type asn_TYPE_member list" where
  "asn_MBR_ResetResponse_1 =
   [Member ATF_NOFLAGS 0 asn_DEF_ProtocolIE_Container_87P15 None None ''protocolIEs'']"

definition asn_SPC_ResetResponse_specs_1 :: "asn_SEQUENCE_specifics" where
  "asn_SPC_ResetResponse_specs_1 =
    \<lparr>seq_oms = [], seq_roms_count = 0, seq_aoms_count = 0, seq_first_extension = 1\<rparr>"

definition asn_DEF_ResetResponse :: "asn_type" where
  "asn_DEF_ResetResponse = T_SEQUENCE asn_SPC_ResetResponse_specs_1 asn_MBR_ResetResponse_1"

definition asn_DEF_SuccessfulOutcome_value :: "asn_type" where
  "asn_DEF_SuccessfulOutcome_value = T_OPEN_TYPE asn_MBR_SuccessfulOutcome_value
    [(MSG DEF_RICsubscriptionResponse, asn_DEF_RICsubscriptionResponse),
     (MSG DEF_RICsubscriptionDeleteResponse, asn_DEF_RICsubscriptionDeleteResponse),
     (MSG DEF_RICserviceUpdateAcknowledge, asn_DEF_RICserviceUpdateAcknowledge),
     (MSG DEF_RICcontrolAcknowledge, asn_DEF_RICcontrolAcknowledge),
     (MSG DEF_E2setupResponse, asn_DEF_E2setupResponse),
     (MSG DEF_ResetResponse, asn_DEF_ResetResponse)]"

definition asn_PER_memb_SuccessfulOutcome_value_constr_4 :: "asn_per_constraints" where
  "asn_PER_memb_SuccessfulOutcome_value_constr_4 = per_constraints APC_UNCONSTRAINED APC_UNCONSTRAINED"

definition asn_MBR_SuccessfulOutcome_1 :: "asn_type asn_TYPE_member list" where
  "asn_MBR_SuccessfulOutcome_1 =
   [Member ATF_NOFLAGS 0 asn_DEF_ProcedureCode None (Some asn_PER_memb_SuccessfulOutcome_procedureCode_constr_2) ''procedureCode'',
    Member ATF_NOFLAGS 0 asn_DEF_Criticality (Some (0, select_SuccessfulOutcome_criticality_type)) (Some asn_PER_memb_SuccessfulOutcome_criticality_constr_3) ''criticality'',
    Member ATF_OPEN_TYPE 0 asn_DEF_SuccessfulOutcome_value (Some (0, select_SuccessfulOutcome_value_type)) (Some asn_PER_memb_SuccessfulOutcome_value_constr_4) ''value'']"

definition asn_SPC_SuccessfulOutcome_specs_1 :: "asn_SEQUENCE_specifics" where
  "asn_SPC_SuccessfulOutcome_specs_1 =
    \<lparr>seq_oms = [], seq_roms_count = 0, seq_aoms_count = 0, seq_first_extension = -1\<rparr>"

definition asn_DEF_SuccessfulOutcome :: "asn_type" where
  "asn_DEF_SuccessfulOutcome = T_SEQUENCE asn_SPC_SuccessfulOutcome_specs_1 asn_MBR_SuccessfulOutcome_1"

definition asn_PER_memb_UnsuccessfulOutcome_procedureCode_constr_2 :: "asn_per_constraints" where
  "asn_PER_memb_UnsuccessfulOutcome_procedureCode_constr_2 = per_constraints (APC_CONSTRAINED False 8 8 0 255) APC_UNCONSTRAINED"

definition asn_PER_memb_UnsuccessfulOutcome_criticality_constr_3 :: "asn_per_constraints" where
  "asn_PER_memb_UnsuccessfulOutcome_criticality_constr_3 = per_constraints (APC_CONSTRAINED False 2 2 0 2) APC_UNCONSTRAINED"

definition asn_PER_type_ProtocolIE_Container_87P2_constr_5 :: "asn_per_constraints" where
  "asn_PER_type_ProtocolIE_Container_87P2_constr_5 = per_constraints APC_UNCONSTRAINED (APC_CONSTRAINED False 16 16 0 65535)"

definition asn_PER_memb_id_constr_34 :: "asn_per_constraints" where
  "asn_PER_memb_id_constr_34 = per_constraints (APC_CONSTRAINED False 16 16 0 65535) APC_UNCONSTRAINED"

definition asn_PER_memb_criticality_constr_35 :: "asn_per_constraints" where
  "asn_PER_memb_criticality_constr_35 = per_constraints (APC_CONSTRAINED False 2 2 0 2) APC_UNCONSTRAINED"

definition asn_DEF_RICsubscriptionFailure_IEs_value :: "asn_type" where
  "asn_DEF_RICsubscriptionFailure_IEs_value = T_OPEN_TYPE asn_MBR_RICsubscriptionFailure_IEs_value
    [(IE DEF_RICrequestID, asn_DEF_RICrequestID),
     (IE DEF_RANfunctionID, asn_DEF_RANfunctionID),
     (IE DEF_RICaction_NotAdmitted_List, asn_DEF_RICaction_NotAdmitted_List),
     (IE DEF_CriticalityDiagnostics, asn_DEF_CriticalityDiagnostics)]"

definition asn_PER_memb_value_constr_36 :: "asn_per_constraints" where
  "asn_PER_memb_value_constr_36 = per_constraints APC_UNCONSTRAINED APC_UNCONSTRAINED"

definition asn_MBR_RICsubscriptionFailure_IEs_33 :: "asn_type asn_TYPE_member list" where
  "asn_MBR_RICsubscriptionFailure_IEs_33 =
   [Member ATF_NOFLAGS 0 asn_DEF_ProtocolIE_ID None (Some asn_PER_memb_id_constr_34) ''id'',
    Member ATF_NOFLAGS 0 asn_DEF_Criticality (Some (0, select_RICsubscriptionFailure_IEs_criticality_type)) (Some asn_PER_memb_criticality_constr_35) ''criticality'',
    Member ATF_OPEN_TYPE 0 asn_DEF_RICsubscriptionFailure_IEs_value (Some (0, select_RICsubscriptionFailure_IEs_value_type)) (Some asn_PER_memb_value_constr_36) ''value'']"

definition asn_SPC_RICsubscriptionFailure_IEs_specs_33 :: "asn_SEQUENCE_specifics" where
  "asn_SPC_RICsubscriptionFailure_IEs_specs_33 =
    \<lparr>seq_oms = [], seq_roms_count = 0, seq_aoms_count = 0, seq_first_extension = -1\<rparr>"

definition asn_DEF_RICsubscriptionFailure_IEs :: "asn_type" where
  "asn_DEF_RICsubscriptionFailure_IEs = T_SEQUENCE asn_SPC_RICsubscriptionFailure_IEs_specs_33 asn_MBR_RICsubscriptionFailure_IEs_33"

definition asn_MBR_ProtocolIE_Container_87P2_5 :: "asn_type asn_TYPE_member" where
  "asn_MBR_ProtocolIE_Container_87P2_5 = Member ATF_POINTER 0 asn_DEF_RICsubscriptionFailure_IEs None None ''''"

definition asn_DEF_ProtocolIE_Container_87P2 :: "asn_type" where
  "asn_DEF_ProtocolIE_Container_87P2 = T_SEQUENCE_OF (Some asn_PER_type_ProtocolIE_Container_87P2_constr_5) asn_MBR_ProtocolIE_Container_87P2_5"

definition asn_MBR_RICsubscriptionFailure_1 :: "asn_type asn_TYPE_member list" where
  "asn_MBR_RICsubscriptionFailure_1 =
   [Member ATF_NOFLAGS 0 asn_DEF_ProtocolIE_Container_87P2 None None ''protocolIEs'']"

definition asn_SPC_RICsubscriptionFailure_specs_1 :: "asn_SEQUENCE_specifics" where
  "asn_SPC_RICsubscriptionFailure_specs_1 =
    \<lparr>seq_oms = [], seq_roms_count = 0, seq_aoms_count = 0, seq_first_extension = 1\<rparr>"

definition asn_DEF_RICsubscriptionFailure :: "asn_type" where
  "asn_DEF_RICsubscriptionFailure = T_SEQUENCE asn_SPC_RICsubscriptionFailure_specs_1 asn_MBR_RICsubscriptionFailure_1"

definition asn_PER_type_ProtocolIE_Container_87P5_constr_11 :: "asn_per_constraints" where
  "asn_PER_type_ProtocolIE_Container_87P5_constr_11 = per_constraints APC_UNCONSTRAINED (APC_CONSTRAINED False 16 16 0 65535)"

definition asn_PER_memb_id_constr_46 :: "asn_per_constraints" where
  "asn_PER_memb_id_constr_46 = per_constraints (APC_CONSTRAINED False 16 16 0 65535) APC_UNCONSTRAINED"

definition asn_PER_memb_criticality_constr_47 :: "asn_per_constraints" where
  "asn_PER_memb_criticality_constr_47 = per_constraints (APC_CONSTRAINED False 2 2 0 2) APC_UNCONSTRAINED"

definition asn_DEF_RICsubscriptionDeleteFailure_IEs_value :: "asn_type" where
  "asn_DEF_RICsubscriptionDeleteFailure_IEs_value = T_OPEN_TYPE asn_MBR_RICsubscriptionDeleteFailure_IEs_value
    [(IE DEF_RICrequestID, asn_DEF_RICrequestID),
     (IE DEF_RANfunctionID, asn_DEF_RANfunctionID),
     (IE DEF_Cause, asn_DEF_Cause),
     (IE DEF_CriticalityDiagnostics, asn_DEF_CriticalityDiagnostics)]"

definition asn_PER_memb_value_constr_48 :: "asn_per_constraints" where
  "asn_PER_memb_value_constr_48 = per_constraints APC_UNCONSTRAINED APC_UNCONSTRAINED"

definition asn_MBR_RICsubscriptionDeleteFailure_IEs_45 :: "asn_type asn_TYPE_member list" where
  "asn_MBR_RICsubscriptionDeleteFailure_IEs_45 =
   [Member ATF_NOFLAGS 0 asn_DEF_ProtocolIE_ID None (Some asn_PER_memb_id_constr_46) ''id'',
    Member ATF_NOFLAGS 0 asn_DEF_Criticality (Some (0, select_RICsubscriptionDeleteFailure_IEs_criticality_type)) (Some asn_PER_memb_criticality_constr_47) ''criticality'',
    Member ATF_OPEN_TYPE 0 asn_DEF_RICsubscriptionDeleteFailure_IEs_value (Some (0, select_RICsubscriptionDeleteFailure_IEs_value_type)) (Some asn_PER_memb_value_constr_48) ''value'']"

definition asn_SPC_RICsubscriptionDeleteFailure_IEs_specs_45 :: "asn_SEQUENCE_specifics" where
  "asn_SPC_RICsubscriptionDeleteFailure_IEs_specs_45 =
    \<lparr>seq_oms = [], seq_roms_count = 0, seq_aoms_count = 0, seq_first_extension = -1\<rparr>"

definition asn_DEF_RICsubscriptionDeleteFailure_IEs :: "asn_type" where
  "asn_DEF_RICsubscriptionDeleteFailure_IEs = T_SEQUENCE asn_SPC_RICsubscriptionDeleteFailure_IEs_specs_45 asn_MBR_RICsubscriptionDeleteFailure_IEs_45"

definition asn_MBR_ProtocolIE_Container_87P5_11 :: "asn_type asn_TYPE_member" where
  "asn_MBR_ProtocolIE_Container_87P5_11 = Member ATF_POINTER 0 asn_DEF_RICsubscriptionDeleteFailure_IEs None None ''''"

definition asn_DEF_ProtocolIE_Container_87P5 :: "asn_type" where
  "asn_DEF_ProtocolIE_Container_87P5 = T_SEQUENCE_OF (Some asn_PER_type_ProtocolIE_Container_87P5_constr_11) asn_MBR_ProtocolIE_Container_87P5_11"

definition asn_MBR_RICsubscriptionDeleteFailure_1 :: "asn_type asn_TYPE_member list" where
  "asn_MBR_RICsubscriptionDeleteFailure_1 =
   [Member ATF_NOFLAGS 0 asn_DEF_ProtocolIE_Container_87P5 None None ''protocolIEs'']"

definition asn_SPC_RICsubscriptionDeleteFailure_specs_1 :: "asn_SEQUENCE_specifics" where
  "asn_SPC_RICsubscriptionDeleteFailure_specs_1 =
    \<lparr>seq_oms = [], seq_roms_count = 0, seq_aoms_count = 0, seq_first_extension = 1\<rparr>"

definition asn_DEF_RICsubscriptionDeleteFailure :: "asn_type" where
  "asn_DEF_RICsubscriptionDeleteFailure = T_SEQUENCE asn_SPC_RICsubscriptionDeleteFailure_specs_1 asn_MBR_RICsubscriptionDeleteFailure_1"

definition asn_PER_type_ProtocolIE_Container_87P18_constr_37 :: "asn_per_constraints" where
  "asn_PER_type_ProtocolIE_Container_87P18_constr_37 = per_constraints APC_UNCONSTRAINED (APC_CONSTRAINED False 16 16 0 65535)"

definition asn_PER_memb_id_constr_98 :: "asn_per_constraints" where
  "asn_PER_memb_id_constr_98 = per_constraints (APC_CONSTRAINED False 16 16 0 65535) APC_UNCONSTRAINED"

definition asn_PER_memb_criticality_constr_99 :: "asn_per_constraints" where
  "asn_PER_memb_criticality_constr_99 = per_constraints (APC_CONSTRAINED False 2 2 0 2) APC_UNCONSTRAINED"

definition asn_DEF_RICserviceUpdateFailure_IEs_value :: "asn_type" where
  "asn_DEF_RICserviceUpdateFailure_IEs_value = T_OPEN_TYPE asn_MBR_RICserviceUpdateFailure_IEs_value
    [(IE DEF_RANfunctionsIDcause_List, asn_DEF_RANfunctionsIDcause_List),
     (IE DEF_TimeToWait, asn_DEF_TimeToWait),
     (IE DEF_CriticalityDiagnostics, asn_DEF_CriticalityDiagnostics)]"

definition asn_PER_memb_value_constr_100 :: "asn_per_constraints" where
  "asn_PER_memb_value_constr_100 = per_constraints APC_UNCONSTRAINED APC_UNCONSTRAINED"

definition asn_MBR_RICserviceUpdateFailure_IEs_97 :: "asn_type asn_TYPE_member list" where
  "asn_MBR_RICserviceUpdateFailure_IEs_97 =
   [Member ATF_NOFLAGS 0 asn_DEF_ProtocolIE_ID None (Some asn_PER_memb_id_constr_98) ''id'',
    Member ATF_NOFLAGS 0 asn_DEF_Criticality (Some (0, select_RICserviceUpdateFailure_IEs_criticality_type)) (Some asn_PER_memb_criticality_constr_99) ''criticality'',
    Member ATF_OPEN_TYPE 0 asn_DEF_RICserviceUpdateFailure_IEs_value (Some (0, select_RICserviceUpdateFailure_IEs_value_type)) (Some asn_PER_memb_value_constr_100) ''value'']"

definition asn_SPC_RICserviceUpdateFailure_IEs_specs_97 :: "asn_SEQUENCE_specifics" where
  "asn_SPC_RICserviceUpdateFailure_IEs_specs_97 =
    \<lparr>seq_oms = [], seq_roms_count = 0, seq_aoms_count = 0, seq_first_extension = -1\<rparr>"

definition asn_DEF_RICserviceUpdateFailure_IEs :: "asn_type" where
  "asn_DEF_RICserviceUpdateFailure_IEs = T_SEQUENCE asn_SPC_RICserviceUpdateFailure_IEs_specs_97 asn_MBR_RICserviceUpdateFailure_IEs_97"

definition asn_MBR_ProtocolIE_Container_87P18_37 :: "asn_type asn_TYPE_member" where
  "asn_MBR_ProtocolIE_Container_87P18_37 = Member ATF_POINTER 0 asn_DEF_RICserviceUpdateFailure_IEs None None ''''"

definition asn_DEF_ProtocolIE_Container_87P18 :: "asn_type" where
  "asn_DEF_ProtocolIE_Container_87P18 = T_SEQUENCE_OF (Some asn_PER_type_ProtocolIE_Container_87P18_constr_37) asn_MBR_ProtocolIE_Container_87P18_37"

definition asn_MBR_RICserviceUpdateFailure_1 :: "asn_type asn_TYPE_member list" where
  "asn_MBR_RICserviceUpdateFailure_1 =
   [Member ATF_NOFLAGS 0 asn_DEF_ProtocolIE_Container_87P18 None None ''protocolIEs'']"

definition asn_SPC_RICserviceUpdateFailure_specs_1 :: "asn_SEQUENCE_specifics" where
  "asn_SPC_RICserviceUpdateFailure_specs_1 =
    \<lparr>seq_oms = [], seq_roms_count = 0, seq_aoms_count = 0, seq_first_extension = 1\<rparr>"

definition asn_DEF_RICserviceUpdateFailure :: "asn_type" where
  "asn_DEF_RICserviceUpdateFailure = T_SEQUENCE asn_SPC_RICserviceUpdateFailure_specs_1 asn_MBR_RICserviceUpdateFailure_1"

definition asn_PER_type_ProtocolIE_Container_87P9_constr_19 :: "asn_per_constraints" where
  "asn_PER_type_ProtocolIE_Container_87P9_constr_19 = per_constraints APC_UNCONSTRAINED (APC_CONSTRAINED False 16 16 0 65535)"

definition asn_PER_memb_id_constr_62 :: "asn_per_constraints" where
  "asn_PER_memb_id_constr_62 = per_constraints (APC_CONSTRAINED False 16 16 0 65535) APC_UNCONSTRAINED"

definition asn_PER_memb_criticality_constr_63 :: "asn_per_constraints" where
  "asn_PER_memb_criticality_constr_63 = per_constraints (APC_CONSTRAINED False 2 2 0 2) APC_UNCONSTRAINED"

definition asn_DEF_RICcontrolFailure_IEs_value :: "asn_type" where
  "asn_DEF_RICcontrolFailure_IEs_value = T_OPEN_TYPE asn_MBR_RICcontrolFailure_IEs_value
    [(IE DEF_RICrequestID, asn_DEF_RICrequestID),
     (IE DEF_RANfunctionID, asn_DEF_RANfunctionID),
     (IE DEF_RICcallProcessID, asn_DEF_RICcallProcessID),
     (IE DEF_Cause, asn_DEF_Cause),
     (IE DEF_RICcontrolOutcome, asn_DEF_RICcontrolOutcome)]"

definition asn_PER_memb_value_constr_64 :: "asn_per_constraints" where
  "asn_PER_memb_value_constr_64 = per_constraints APC_UNCONSTRAINED APC_UNCONSTRAINED"

definition asn_MBR_RICcontrolFailure_IEs_61 :: "asn_type asn_TYPE_member list" where
  "asn_MBR_RICcontrolFailure_IEs_61 =
   [Member ATF_NOFLAGS 0 asn_DEF_ProtocolIE_ID None (Some asn_PER_memb_id_constr_62) ''id'',
    Member ATF_NOFLAGS 0 asn_DEF_Criticality (Some (0, select_RICcontrolFailure_IEs_criticality_type)) (Some asn_PER_memb_criticality_constr_63) ''criticality'',
    Member ATF_OPEN_TYPE 0 asn_DEF_RICcontrolFailure_IEs_value (Some (0, select_RICcontrolFailure_IEs_value_type)) (Some asn_PER_memb_value_constr_64) ''value'']"

definition asn_SPC_RICcontrolFailure_IEs_specs_61 :: "asn_SEQUENCE_specifics" where
  "asn_SPC_RICcontrolFailure_IEs_specs_61 =
    \<lparr>seq_oms = [], seq_roms_count = 0, seq_aoms_count = 0, seq_first_extension = -1\<rparr>"

definition asn_DEF_RICcontrolFailure_IEs :: "asn_type" where
  "asn_DEF_RICcontrolFailure_IEs = T_SEQUENCE asn_SPC_RICcontrolFailure_IEs_specs_61 asn_MBR_RICcontrolFailure_IEs_61"

definition asn_MBR_ProtocolIE_Container_87P9_19 :: "asn_type asn_TYPE_member" where
  "asn_MBR_ProtocolIE_Container_87P9_19 = Member ATF_POINTER 0 asn_DEF_RICcontrolFailure_IEs None None ''''"

definition asn_DEF_ProtocolIE_Container_87P9 :: "asn_type" where
  "asn_DEF_ProtocolIE_Container_87P9 = T_SEQUENCE_OF (Some asn_PER_type_ProtocolIE_Container_87P9_constr_19) asn_MBR_ProtocolIE_Container_87P9_19"

definition asn_MBR_RICcontrolFailure_1 :: "asn_type asn_TYPE_member list" where
  "asn_MBR_RICcontrolFailure_1 =
   [Member ATF_NOFLAGS 0 asn_DEF_ProtocolIE_Container_87P9 None None ''protocolIEs'']"

definition asn_SPC_RICcontrolFailure_specs_1 :: "asn_SEQUENCE_specifics" where
  "asn_SPC_RICcontrolFailure_specs_1 =
    \<lparr>seq_oms = [], seq_roms_count = 0, seq_aoms_count = 0, seq_first_extension = 1\<rparr>"

definition asn_DEF_RICcontrolFailure :: "asn_type" where
  "asn_DEF_RICcontrolFailure = T_SEQUENCE asn_SPC_RICcontrolFailure_specs_1 asn_MBR_RICcontrolFailure_1"

definition asn_PER_type_ProtocolIE_Container_87P13_constr_27 :: "asn_per_constraints" where
  "asn_PER_type_ProtocolIE_Container_87P13_constr_27 = per_constraints APC_UNCONSTRAINED (APC_CONSTRAINED False 16 16 0 65535)"

definition asn_PER_memb_id_constr_78 :: "asn_per_constraints" where
  "asn_PER_memb_id_constr_78 = per_constraints (APC_CONSTRAINED False 16 16 0 65535) APC_UNCONSTRAINED"

definition asn_PER_memb_criticality_constr_79 :: "asn_per_constraints" where
  "asn_PER_memb_criticality_constr_79 = per_constraints (APC_CONSTRAINED False 2 2 0 2) APC_UNCONSTRAINED"

definition asn_DEF_E2setupFailureIEs_value :: "asn_type" where
  "asn_DEF_E2setupFailureIEs_value = T_OPEN_TYPE asn_MBR_E2setupFailureIEs_value
    [(IE DEF_Cause, asn_DEF_Cause),
     (IE DEF_TimeToWait, asn_DEF_TimeToWait),
     (IE DEF_CriticalityDiagnostics, asn_DEF_CriticalityDiagnostics)]"

definition asn_PER_memb_value_constr_80 :: "asn_per_constraints" where
  "asn_PER_memb_value_constr_80 = per_constraints APC_UNCONSTRAINED APC_UNCONSTRAINED"

definition asn_MBR_E2setupFailureIEs_77 :: "asn_type asn_TYPE_member list" where
  "asn_MBR_E2setupFailureIEs_77 =
   [Member ATF_NOFLAGS 0 asn_DEF_ProtocolIE_ID None (Some asn_PER_memb_id_constr_78) ''id'',
    Member ATF_NOFLAGS 0 asn_DEF_Criticality (Some (0, select_E2setupFailureIEs_criticality_type)) (Some asn_PER_memb_criticality_constr_79) ''criticality'',
    Member ATF_OPEN_TYPE 0 asn_DEF_E2setupFailureIEs_value (Some (0, select_E2setupFailureIEs_value_type)) (Some asn_PER_memb_value_constr_80) ''value'']"

definition asn_SPC_E2setupFailureIEs_specs_77 :: "asn_SEQUENCE_specifics" where
  "asn_SPC_E2setupFailureIEs_specs_77 =
    \<lparr>seq_oms = [], seq_roms_count = 0, seq_aoms_count = 0, seq_first_extension = -1\<rparr>"

definition asn_DEF_E2setupFailureIEs :: "asn_type" where
  "asn_DEF_E2setupFailureIEs = T_SEQUENCE asn_SPC_E2setupFailureIEs_specs_77 asn_MBR_E2setupFailureIEs_77"

definition asn_MBR_ProtocolIE_Container_87P13_27 :: "asn_type asn_TYPE_member" where
  "asn_MBR_ProtocolIE_Container_87P13_27 = Member ATF_POINTER 0 asn_DEF_E2setupFailureIEs None None ''''"

definition asn_DEF_ProtocolIE_Container_87P13 :: "asn_type" where
  "asn_DEF_ProtocolIE_Container_87P13 = T_SEQUENCE_OF (Some asn_PER_type_ProtocolIE_Container_87P13_constr_27) asn_MBR_ProtocolIE_Container_87P13_27"

definition asn_MBR_E2setupFailure_1 :: "asn_type asn_TYPE_member list" where
  "asn_MBR_E2setupFailure_1 =
   [Member ATF_NOFLAGS 0 asn_DEF_ProtocolIE_Container_87P13 None None ''protocolIEs'']"

definition asn_SPC_E2setupFailure_specs_1 :: "asn_SEQUENCE_specifics" where
  "asn_SPC_E2setupFailure_specs_1 =
    \<lparr>seq_oms = [], seq_roms_count = 0, seq_aoms_count = 0, seq_first_extension = 1\<rparr>"

definition asn_DEF_E2setupFailure :: "asn_type" where
  "asn_DEF_E2setupFailure = T_SEQUENCE asn_SPC_E2setupFailure_specs_1 asn_MBR_E2setupFailure_1"

definition asn_DEF_UnsuccessfulOutcome_value :: "asn_type" where
  "asn_DEF_UnsuccessfulOutcome_value = T_OPEN_TYPE asn_MBR_UnsuccessfulOutcome_value
    [(MSG DEF_RICsubscriptionFailure, asn_DEF_RICsubscriptionFailure),
     (MSG DEF_RICsubscriptionDeleteFailure, asn_DEF_RICsubscriptionDeleteFailure),
     (MSG DEF_RICserviceUpdateFailure, asn_DEF_RICserviceUpdateFailure),
     (MSG DEF_RICcontrolFailure, asn_DEF_RICcontrolFailure),
     (MSG DEF_E2setupFailure, asn_DEF_E2setupFailure)]"

definition asn_PER_memb_UnsuccessfulOutcome_value_constr_4 :: "asn_per_constraints" where
  "asn_PER_memb_UnsuccessfulOutcome_value_constr_4 = per_constraints APC_UNCONSTRAINED APC_UNCONSTRAINED"

definition asn_MBR_UnsuccessfulOutcome_1 :: "asn_type asn_TYPE_member list" where
  "asn_MBR_UnsuccessfulOutcome_1 =
   [Member ATF_NOFLAGS 0 asn_DEF_ProcedureCode None (Some asn_PER_memb_UnsuccessfulOutcome_procedureCode_constr_2) ''procedureCode'',
    Member ATF_NOFLAGS 0 asn_DEF_Criticality (Some (0, select_UnsuccessfulOutcome_criticality_type)) (Some asn_PER_memb_UnsuccessfulOutcome_criticality_constr_3) ''criticality'',
    Member ATF_OPEN_TYPE 0 asn_DEF_UnsuccessfulOutcome_value (Some (0, select_UnsuccessfulOutcome_value_type)) (Some asn_PER_memb_UnsuccessfulOutcome_value_constr_4) ''value'']"

definition asn_SPC_UnsuccessfulOutcome_specs_1 :: "asn_SEQUENCE_specifics" where
  "asn_SPC_UnsuccessfulOutcome_specs_1 =
    \<lparr>seq_oms = [], seq_roms_count = 0, seq_aoms_count = 0, seq_first_extension = -1\<rparr>"

definition asn_DEF_UnsuccessfulOutcome :: "asn_type" where
  "asn_DEF_UnsuccessfulOutcome = T_SEQUENCE asn_SPC_UnsuccessfulOutcome_specs_1 asn_MBR_UnsuccessfulOutcome_1"

definition asn_MBR_E2AP_PDU_1 :: "asn_type asn_TYPE_member list" where
  "asn_MBR_E2AP_PDU_1 =
   [Member ATF_POINTER 0 asn_DEF_InitiatingMessage None None ''initiatingMessage'',
    Member ATF_POINTER 0 asn_DEF_SuccessfulOutcome None None ''successfulOutcome'',
    Member ATF_POINTER 0 asn_DEF_UnsuccessfulOutcome None None ''unsuccessfulOutcome'']"

definition asn_SPC_E2AP_PDU_specs_1 :: "asn_CHOICE_specifics" where
  "asn_SPC_E2AP_PDU_specs_1 = \<lparr>ch_to_canonical_order = None, ch_from_canonical_order = None, ch_ext_start = 3\<rparr>"

definition asn_DEF_E2AP_PDU :: "asn_type" where
  "asn_DEF_E2AP_PDU = T_CHOICE (Some asn_PER_type_E2AP_PDU_constr_1) asn_SPC_E2AP_PDU_specs_1 asn_MBR_E2AP_PDU_1"

definition asn_DEF_RICaction_ToBeSetup_ItemIEs :: "asn_type" where
  "asn_DEF_RICaction_ToBeSetup_ItemIEs = T_SEQUENCE asn_SPC_RICaction_ToBeSetup_ItemIEs_specs_1 asn_MBR_RICaction_ToBeSetup_ItemIEs_1"

definition asn_DEF_RICaction_Admitted_ItemIEs :: "asn_type" where
  "asn_DEF_RICaction_Admitted_ItemIEs = T_SEQUENCE asn_SPC_RICaction_Admitted_ItemIEs_specs_5 asn_MBR_RICaction_Admitted_ItemIEs_5"

definition asn_DEF_RICaction_NotAdmitted_ItemIEs :: "asn_type" where
  "asn_DEF_RICaction_NotAdmitted_ItemIEs = T_SEQUENCE asn_SPC_RICaction_NotAdmitted_ItemIEs_specs_9 asn_MBR_RICaction_NotAdmitted_ItemIEs_9"

definition asn_DEF_RANfunction_ItemIEs :: "asn_type" where
  "asn_DEF_RANfunction_ItemIEs = T_SEQUENCE asn_SPC_RANfunction_ItemIEs_specs_13 asn_MBR_RANfunction_ItemIEs_13"

definition asn_DEF_RANfunctionID_ItemIEs :: "asn_type" where
  "asn_DEF_RANfunctionID_ItemIEs = T_SEQUENCE asn_SPC_RANfunctionID_ItemIEs_specs_17 asn_MBR_RANfunctionID_ItemIEs_17"

definition asn_DEF_RANfunctionIDcause_ItemIEs :: "asn_type" where
  "asn_DEF_RANfunctionIDcause_ItemIEs = T_SEQUENCE asn_SPC_RANfunctionIDcause_ItemIEs_specs_21 asn_MBR_RANfunctionIDcause_ItemIEs_21"

text \<open>The tables, by kind: constraints, specifics, members and descriptors.\<close>

lemmas message_constraints =
  asn_PER_type_E2AP_PDU_constr_1_def asn_PER_memb_InitiatingMessage_procedureCode_constr_2_def asn_PER_memb_InitiatingMessage_criticality_constr_3_def
  asn_PER_type_ProtocolIE_Container_87P0_constr_1_def asn_PER_memb_id_constr_26_def asn_PER_memb_criticality_constr_27_def
  asn_PER_type_RICactions_ToBeSetup_List_constr_1_def asn_PER_memb_id_constr_2_def asn_PER_memb_ProtocolIE_SingleContainer_90P0_criticality_constr_3_def
  asn_PER_memb_ProtocolIE_SingleContainer_90P0_value_constr_4_def asn_PER_memb_value_constr_28_def asn_PER_type_ProtocolIE_Container_87P3_constr_7_def
  asn_PER_memb_id_constr_38_def asn_PER_memb_criticality_constr_39_def asn_PER_memb_value_constr_40_def
  asn_PER_type_ProtocolIE_Container_87P16_constr_33_def asn_PER_memb_id_constr_90_def asn_PER_memb_criticality_constr_91_def
  asn_PER_type_RANfunctions_List_constr_1_def asn_PER_memb_id_constr_14_def asn_PER_memb_criticality_constr_15_def
  asn_PER_memb_value_constr_16_def asn_PER_type_RANfunctionsID_List_constr_1_def asn_PER_memb_id_constr_18_def
  asn_PER_memb_criticality_constr_19_def asn_PER_memb_value_constr_20_def asn_PER_memb_value_constr_92_def
  asn_PER_type_ProtocolIE_Container_87P7_constr_15_def asn_PER_memb_id_constr_54_def asn_PER_memb_criticality_constr_55_def
  asn_PER_memb_value_constr_56_def asn_PER_type_ProtocolIE_Container_87P11_constr_23_def asn_PER_memb_id_constr_70_def
  asn_PER_memb_criticality_constr_71_def asn_PER_memb_value_constr_72_def asn_PER_type_ProtocolIE_Container_87P14_constr_29_def
  asn_PER_memb_id_constr_82_def asn_PER_memb_criticality_constr_83_def asn_PER_memb_value_constr_84_def
  asn_PER_type_ProtocolIE_Container_87P6_constr_13_def asn_PER_memb_id_constr_50_def asn_PER_memb_criticality_constr_51_def
  asn_PER_memb_value_constr_52_def asn_PER_type_ProtocolIE_Container_87P19_constr_39_def asn_PER_memb_id_constr_102_def
  asn_PER_memb_criticality_constr_103_def asn_PER_memb_value_constr_104_def asn_PER_type_ProtocolIE_Container_87P10_constr_21_def
  asn_PER_memb_id_constr_66_def asn_PER_memb_criticality_constr_67_def asn_PER_memb_value_constr_68_def
  asn_PER_memb_InitiatingMessage_value_constr_4_def asn_PER_memb_SuccessfulOutcome_procedureCode_constr_2_def asn_PER_memb_SuccessfulOutcome_criticality_constr_3_def
  asn_PER_type_ProtocolIE_Container_87P1_constr_3_def asn_PER_memb_id_constr_30_def asn_PER_memb_criticality_constr_31_def
  asn_PER_type_RICaction_Admitted_List_constr_1_def asn_PER_memb_id_constr_6_def asn_PER_memb_criticality_constr_7_def
  asn_PER_memb_value_constr_8_def asn_PER_type_RICaction_NotAdmitted_List_constr_1_def asn_PER_memb_id_constr_10_def
  asn_PER_memb_criticality_constr_11_def asn_PER_memb_value_constr_12_def asn_PER_memb_value_constr_32_def
  asn_PER_type_ProtocolIE_Container_87P4_constr_9_def asn_PER_memb_id_constr_42_def asn_PER_memb_criticality_constr_43_def
  asn_PER_memb_value_constr_44_def asn_PER_type_ProtocolIE_Container_87P17_constr_35_def asn_PER_memb_id_constr_94_def
  asn_PER_memb_criticality_constr_95_def asn_PER_type_RANfunctionsIDcause_List_constr_1_def asn_PER_memb_id_constr_22_def
  asn_PER_memb_criticality_constr_23_def asn_PER_memb_value_constr_24_def asn_PER_memb_value_constr_96_def
  asn_PER_type_ProtocolIE_Container_87P8_constr_17_def asn_PER_memb_id_constr_58_def asn_PER_memb_criticality_constr_59_def
  asn_PER_memb_value_constr_60_def asn_PER_type_ProtocolIE_Container_87P12_constr_25_def asn_PER_memb_id_constr_74_def
  asn_PER_memb_criticality_constr_75_def asn_PER_memb_value_constr_76_def asn_PER_type_ProtocolIE_Container_87P15_constr_31_def
  asn_PER_memb_id_constr_86_def asn_PER_memb_criticality_constr_87_def asn_PER_memb_value_constr_88_def
  asn_PER_memb_SuccessfulOutcome_value_constr_4_def asn_PER_memb_UnsuccessfulOutcome_procedureCode_constr_2_def asn_PER_memb_UnsuccessfulOutcome_criticality_constr_3_def
  asn_PER_type_ProtocolIE_Container_87P2_constr_5_def asn_PER_memb_id_constr_34_def asn_PER_memb_criticality_constr_35_def
  asn_PER_memb_value_constr_36_def asn_PER_type_ProtocolIE_Container_87P5_constr_11_def asn_PER_memb_id_constr_46_def
  asn_PER_memb_criticality_constr_47_def asn_PER_memb_value_constr_48_def asn_PER_type_ProtocolIE_Container_87P18_constr_37_def
  asn_PER_memb_id_constr_98_def asn_PER_memb_criticality_constr_99_def asn_PER_memb_value_constr_100_def
  asn_PER_type_ProtocolIE_Container_87P9_constr_19_def asn_PER_memb_id_constr_62_def asn_PER_memb_criticality_constr_63_def
  asn_PER_memb_value_constr_64_def asn_PER_type_ProtocolIE_Container_87P13_constr_27_def asn_PER_memb_id_constr_78_def
  asn_PER_memb_criticality_constr_79_def asn_PER_memb_value_constr_80_def asn_PER_memb_UnsuccessfulOutcome_value_constr_4_def

lemmas message_specifics =
  asn_SPC_RICaction_ToBeSetup_ItemIEs_specs_1_def asn_SPC_RICsubscriptionDetails_specs_1_def asn_SPC_RICsubscriptionRequest_IEs_specs_25_def
  asn_SPC_RICsubscriptionRequest_specs_1_def asn_SPC_RICsubscriptionDeleteRequest_IEs_specs_37_def asn_SPC_RICsubscriptionDeleteRequest_specs_1_def
  asn_SPC_RANfunction_ItemIEs_specs_13_def asn_SPC_RANfunctionID_ItemIEs_specs_17_def asn_SPC_RICserviceUpdate_IEs_specs_89_def
  asn_SPC_RICserviceUpdate_specs_1_def asn_SPC_RICcontrolRequest_IEs_specs_53_def asn_SPC_RICcontrolRequest_specs_1_def
  asn_SPC_E2setupRequestIEs_specs_69_def asn_SPC_E2setupRequest_specs_1_def asn_SPC_ResetRequestIEs_specs_81_def
  asn_SPC_ResetRequest_specs_1_def asn_SPC_RICindication_IEs_specs_49_def asn_SPC_RICindication_specs_1_def
  asn_SPC_RICserviceQuery_IEs_specs_101_def asn_SPC_RICserviceQuery_specs_1_def asn_SPC_ErrorIndication_IEs_specs_65_def
  asn_SPC_ErrorIndication_specs_1_def asn_SPC_InitiatingMessage_specs_1_def asn_SPC_RICaction_Admitted_ItemIEs_specs_5_def
  asn_SPC_RICaction_NotAdmitted_ItemIEs_specs_9_def asn_SPC_RICsubscriptionResponse_IEs_specs_29_def asn_SPC_RICsubscriptionResponse_specs_1_def
  asn_SPC_RICsubscriptionDeleteResponse_IEs_specs_41_def asn_SPC_RICsubscriptionDeleteResponse_specs_1_def asn_SPC_RANfunctionIDcause_ItemIEs_specs_21_def
  asn_SPC_RICserviceUpdateAcknowledge_IEs_specs_93_def asn_SPC_RICserviceUpdateAcknowledge_specs_1_def asn_SPC_RICcontrolAcknowledge_IEs_specs_57_def
  asn_SPC_RICcontrolAcknowledge_specs_1_def asn_SPC_E2setupResponseIEs_specs_73_def asn_SPC_E2setupResponse_specs_1_def
  asn_SPC_ResetResponseIEs_specs_85_def asn_SPC_ResetResponse_specs_1_def asn_SPC_SuccessfulOutcome_specs_1_def
  asn_SPC_RICsubscriptionFailure_IEs_specs_33_def asn_SPC_RICsubscriptionFailure_specs_1_def asn_SPC_RICsubscriptionDeleteFailure_IEs_specs_45_def
  asn_SPC_RICsubscriptionDeleteFailure_specs_1_def asn_SPC_RICserviceUpdateFailure_IEs_specs_97_def asn_SPC_RICserviceUpdateFailure_specs_1_def
  asn_SPC_RICcontrolFailure_IEs_specs_61_def asn_SPC_RICcontrolFailure_specs_1_def asn_SPC_E2setupFailureIEs_specs_77_def
  asn_SPC_E2setupFailure_specs_1_def asn_SPC_UnsuccessfulOutcome_specs_1_def asn_SPC_E2AP_PDU_specs_1_def

lemmas message_members =
  asn_MBR_RICaction_ToBeSetup_ItemIEs_1_def asn_MBR_RICactions_ToBeSetup_List_1_def asn_MBR_RICsubscriptionDetails_1_def
  asn_MBR_RICsubscriptionRequest_IEs_25_def asn_MBR_ProtocolIE_Container_87P0_1_def asn_MBR_RICsubscriptionRequest_1_def
  asn_MBR_RICsubscriptionDeleteRequest_IEs_37_def asn_MBR_ProtocolIE_Container_87P3_7_def asn_MBR_RICsubscriptionDeleteRequest_1_def
  asn_MBR_RANfunction_ItemIEs_13_def asn_MBR_RANfunctions_List_1_def asn_MBR_RANfunctionID_ItemIEs_17_def
  asn_MBR_RANfunctionsID_List_1_def asn_MBR_RICserviceUpdate_IEs_89_def asn_MBR_ProtocolIE_Container_87P16_33_def
  asn_MBR_RICserviceUpdate_1_def asn_MBR_RICcontrolRequest_IEs_53_def asn_MBR_ProtocolIE_Container_87P7_15_def
  asn_MBR_RICcontrolRequest_1_def asn_MBR_E2setupRequestIEs_69_def asn_MBR_ProtocolIE_Container_87P11_23_def
  asn_MBR_E2setupRequest_1_def asn_MBR_ResetRequestIEs_81_def asn_MBR_ProtocolIE_Container_87P14_29_def
  asn_MBR_ResetRequest_1_def asn_MBR_RICindication_IEs_49_def asn_MBR_ProtocolIE_Container_87P6_13_def
  asn_MBR_RICindication_1_def asn_MBR_RICserviceQuery_IEs_101_def asn_MBR_ProtocolIE_Container_87P19_39_def
  asn_MBR_RICserviceQuery_1_def asn_MBR_ErrorIndication_IEs_65_def asn_MBR_ProtocolIE_Container_87P10_21_def
  asn_MBR_ErrorIndication_1_def asn_MBR_InitiatingMessage_1_def asn_MBR_RICaction_Admitted_ItemIEs_5_def
  asn_MBR_RICaction_Admitted_List_1_def asn_MBR_RICaction_NotAdmitted_ItemIEs_9_def asn_MBR_RICaction_NotAdmitted_List_1_def
  asn_MBR_RICsubscriptionResponse_IEs_29_def asn_MBR_ProtocolIE_Container_87P1_3_def asn_MBR_RICsubscriptionResponse_1_def
  asn_MBR_RICsubscriptionDeleteResponse_IEs_41_def asn_MBR_ProtocolIE_Container_87P4_9_def asn_MBR_RICsubscriptionDeleteResponse_1_def
  asn_MBR_RANfunctionIDcause_ItemIEs_21_def asn_MBR_RANfunctionsIDcause_List_1_def asn_MBR_RICserviceUpdateAcknowledge_IEs_93_def
  asn_MBR_ProtocolIE_Container_87P17_35_def asn_MBR_RICserviceUpdateAcknowledge_1_def asn_MBR_RICcontrolAcknowledge_IEs_57_def
  asn_MBR_ProtocolIE_Container_87P8_17_def asn_MBR_RICcontrolAcknowledge_1_def asn_MBR_E2setupResponseIEs_73_def
  asn_MBR_ProtocolIE_Container_87P12_25_def asn_MBR_E2setupResponse_1_def asn_MBR_ResetResponseIEs_85_def
  asn_MBR_ProtocolIE_Container_87P15_31_def asn_MBR_ResetResponse_1_def asn_MBR_SuccessfulOutcome_1_def
  asn_MBR_RICsubscriptionFailure_IEs_33_def asn_MBR_ProtocolIE_Container_87P2_5_def asn_MBR_RICsubscriptionFailure_1_def
  asn_MBR_RICsubscriptionDeleteFailure_IEs_45_def asn_MBR_ProtocolIE_Container_87P5_11_def asn_MBR_RICsubscriptionDeleteFailure_1_def
  asn_MBR_RICserviceUpdateFailure_IEs_97_def asn_MBR_ProtocolIE_Container_87P18_37_def asn_MBR_RICserviceUpdateFailure_1_def
  asn_MBR_RICcontrolFailure_IEs_61_def asn_MBR_ProtocolIE_Container_87P9_19_def asn_MBR_RICcontrolFailure_1_def
  asn_MBR_E2setupFailureIEs_77_def asn_MBR_ProtocolIE_Container_87P13_27_def asn_MBR_E2setupFailure_1_def
  asn_MBR_UnsuccessfulOutcome_1_def asn_MBR_E2AP_PDU_1_def

lemmas message_types =
  asn_DEF_RICaction_ToBeSetup_ItemIEs_value_def asn_DEF_ProtocolIE_SingleContainer_90P0_def asn_DEF_RICactions_ToBeSetup_List_def
  asn_DEF_RICsubscriptionDetails_def asn_DEF_RICsubscriptionRequest_IEs_value_def asn_DEF_RICsubscriptionRequest_IEs_def
  asn_DEF_ProtocolIE_Container_87P0_def asn_DEF_RICsubscriptionRequest_def asn_DEF_RICsubscriptionDeleteRequest_IEs_value_def
  asn_DEF_RICsubscriptionDeleteRequest_IEs_def asn_DEF_ProtocolIE_Container_87P3_def asn_DEF_RICsubscriptionDeleteRequest_def
  asn_DEF_RANfunction_ItemIEs_value_def asn_DEF_ProtocolIE_SingleContainer_90P3_def asn_DEF_RANfunctions_List_def
  asn_DEF_RANfunctionID_ItemIEs_value_def asn_DEF_ProtocolIE_SingleContainer_90P4_def asn_DEF_RANfunctionsID_List_def
  asn_DEF_RICserviceUpdate_IEs_value_def asn_DEF_RICserviceUpdate_IEs_def asn_DEF_ProtocolIE_Container_87P16_def
  asn_DEF_RICserviceUpdate_def asn_DEF_RICcontrolRequest_IEs_value_def asn_DEF_RICcontrolRequest_IEs_def
  asn_DEF_ProtocolIE_Container_87P7_def asn_DEF_RICcontrolRequest_def asn_DEF_E2setupRequestIEs_value_def
  asn_DEF_E2setupRequestIEs_def asn_DEF_ProtocolIE_Container_87P11_def asn_DEF_E2setupRequest_def
  asn_DEF_ResetRequestIEs_value_def asn_DEF_ResetRequestIEs_def asn_DEF_ProtocolIE_Container_87P14_def
  asn_DEF_ResetRequest_def asn_DEF_RICindication_IEs_value_def asn_DEF_RICindication_IEs_def
  asn_DEF_ProtocolIE_Container_87P6_def asn_DEF_RICindication_def asn_DEF_RICserviceQuery_IEs_value_def
  asn_DEF_RICserviceQuery_IEs_def asn_DEF_ProtocolIE_Container_87P19_def asn_DEF_RICserviceQuery_def
  asn_DEF_ErrorIndication_IEs_value_def asn_DEF_ErrorIndication_IEs_def asn_DEF_ProtocolIE_Container_87P10_def
  asn_DEF_ErrorIndication_def asn_DEF_InitiatingMessage_value_def asn_DEF_InitiatingMessage_def
  asn_DEF_RICaction_Admitted_ItemIEs_value_def asn_DEF_ProtocolIE_SingleContainer_90P1_def asn_DEF_RICaction_Admitted_List_def
  asn_DEF_RICaction_NotAdmitted_ItemIEs_value_def asn_DEF_ProtocolIE_SingleContainer_90P2_def asn_DEF_RICaction_NotAdmitted_List_def
  asn_DEF_RICsubscriptionResponse_IEs_value_def asn_DEF_RICsubscriptionResponse_IEs_def asn_DEF_ProtocolIE_Container_87P1_def
  asn_DEF_RICsubscriptionResponse_def asn_DEF_RICsubscriptionDeleteResponse_IEs_value_def asn_DEF_RICsubscriptionDeleteResponse_IEs_def
  asn_DEF_ProtocolIE_Container_87P4_def asn_DEF_RICsubscriptionDeleteResponse_def asn_DEF_RANfunctionIDcause_ItemIEs_value_def
  asn_DEF_ProtocolIE_SingleContainer_90P5_def asn_DEF_RANfunctionsIDcause_List_def asn_DEF_RICserviceUpdateAcknowledge_IEs_value_def
  asn_DEF_RICserviceUpdateAcknowledge_IEs_def asn_DEF_ProtocolIE_Container_87P17_def asn_DEF_RICserviceUpdateAcknowledge_def
  asn_DEF_RICcontrolAcknowledge_IEs_value_def asn_DEF_RICcontrolAcknowledge_IEs_def asn_DEF_ProtocolIE_Container_87P8_def
  asn_DEF_RICcontrolAcknowledge_def asn_DEF_E2setupResponseIEs_value_def asn_DEF_E2setupResponseIEs_def
  asn_DEF_ProtocolIE_Container_87P12_def asn_DEF_E2setupResponse_def asn_DEF_ResetResponseIEs_value_def
  asn_DEF_ResetResponseIEs_def asn_DEF_ProtocolIE_Container_87P15_def asn_DEF_ResetResponse_def
  asn_DEF_SuccessfulOutcome_value_def asn_DEF_SuccessfulOutcome_def asn_DEF_RICsubscriptionFailure_IEs_value_def
  asn_DEF_RICsubscriptionFailure_IEs_def asn_DEF_ProtocolIE_Container_87P2_def asn_DEF_RICsubscriptionFailure_def
  asn_DEF_RICsubscriptionDeleteFailure_IEs_value_def asn_DEF_RICsubscriptionDeleteFailure_IEs_def asn_DEF_ProtocolIE_Container_87P5_def
  asn_DEF_RICsubscriptionDeleteFailure_def asn_DEF_RICserviceUpdateFailure_IEs_value_def asn_DEF_RICserviceUpdateFailure_IEs_def
  asn_DEF_ProtocolIE_Container_87P18_def asn_DEF_RICserviceUpdateFailure_def asn_DEF_RICcontrolFailure_IEs_value_def
  asn_DEF_RICcontrolFailure_IEs_def asn_DEF_ProtocolIE_Container_87P9_def asn_DEF_RICcontrolFailure_def
  asn_DEF_E2setupFailureIEs_value_def asn_DEF_E2setupFailureIEs_def asn_DEF_ProtocolIE_Container_87P13_def
  asn_DEF_E2setupFailure_def asn_DEF_UnsuccessfulOutcome_value_def asn_DEF_UnsuccessfulOutcome_def
  asn_DEF_E2AP_PDU_def asn_DEF_RICaction_ToBeSetup_ItemIEs_def asn_DEF_RICaction_Admitted_ItemIEs_def
  asn_DEF_RICaction_NotAdmitted_ItemIEs_def asn_DEF_RANfunction_ItemIEs_def asn_DEF_RANfunctionID_ItemIEs_def
  asn_DEF_RANfunctionIDcause_ItemIEs_def

end
