(* ===== verification/E2apRoundTrip.thy ===== *)
theory E2apRoundTrip
  imports AsnWhole E2apMessages
begin

text \<open>
  Whole messages: what \<^verbatim>\<open>aper_encode_to_buffer\<close> and \<^verbatim>\<open>aper_decode_complete\<close> do with a value of any
  descriptor, and with \<^verbatim>\<open>E2AP_PDU\<close> in particular. \<open>asn_bits\<close> and \<open>asn_valid\<close> are the specification
  of a descriptor, which does not mention the coders.
\<close>

section \<open>Values of a descriptor\<close>

definition asn_bits :: "asn_type \<Rightarrow> asn_value \<Rightarrow> bool list" where
  "asn_bits t v = sp_field (per_spec_of t) None 0 v"

definition asn_valid :: "asn_type \<Rightarrow> asn_value \<Rightarrow> bool" where
  "asn_valid t v \<longleftrightarrow> sp_plain (per_spec_of t) None v"

definition asn_octets :: "asn_type \<Rightarrow> asn_value \<Rightarrow> byte list" where
  "asn_octets t v = octets_of_bits (padded (asn_bits t v))"

text \<open>The coders of a descriptor; the first argument is the scratch space of nested open types.\<close>

definition asn_encoder :: "byte list \<Rightarrow> asn_decoder \<Rightarrow> asn_type \<Rightarrow> asn_value \<Rightarrow> enc_to_buf_arg outp \<Rightarrow> int \<times> enc_to_buf_arg outp" where
  "asn_encoder tmp undef t = op_encode (per_op tmp encode_to_buffer_cb undef t) None"

definition asn_decoder_of :: "byte list \<Rightarrow> asn_decoder \<Rightarrow> asn_type \<Rightarrow> asn_decoder" where
  "asn_decoder_of tmp undef t = op_decode (per_op tmp encode_to_buffer_cb undef t) None"

lemma asn_op_meets: "length tmp = 32 \<Longrightarrow> op_meets arg_buffer arg_left (per_op tmp encode_to_buffer_cb undef t) (per_spec_of t)"
  by (rule buf.per_op_meets)

section \<open>Whole messages\<close>

lemma asn_octets_field: "asn_octets t v = field_octets (asn_bits t v)"
  by (simp add: asn_octets_def field_octets_def)

lemmas asn_value_defs = asn_encoder_def asn_decoder_of_def asn_octets_field asn_bits_def asn_valid_def

lemma asn_encode_total:
  assumes v: "asn_valid t v" and tmp: "length tmp = 32" "length tmp' = 32" and fits: "length (asn_bits t v) \<le> 8 * buffer_size"
  shows "aper_encode_to_buffer (Some (asn_encoder tmp' undef t)) v buffer_size tmp = (int (length (asn_bits t v)), asn_octets t v)"
  using op_encode_total [OF asn_op_meets [OF tmp(2)] _ tmp(1)] v fits unfolding asn_value_defs by blast

lemma asn_decode_octets:
  assumes v: "asn_valid t v" and tmp: "length tmp = 32" and bits: "bytes_bits b = asn_bits t v @ pad"
  shows "aper_decode (Some (asn_decoder_of tmp undef t)) sptr b 0 0
    = Some (\<lparr>rv_code = RC_OK, rv_consumed = length (asn_bits t v)\<rparr>, v)"
  using op_decode_octets [OF asn_op_meets [OF tmp]] v bits unfolding asn_value_defs by blast

lemma bytes_bits_octets_of: "bytes_bits (asn_octets t v) = asn_bits t v @ align_pad (length (asn_bits t v))"
  by (simp add: asn_octets_field bytes_bits_field_octets)

lemma asn_decode_complete:
  assumes v: "asn_valid t v" and f: "asn_bits t v \<noteq> []" and tmp: "length tmp = 32"
  shows "aper_decode_complete (Some (asn_decoder_of tmp undef t)) sptr (asn_octets t v @ rest)
    = Some (\<lparr>rv_code = RC_OK, rv_consumed = length (asn_octets t v)\<rparr>, v)"
  using op_decode_complete [OF asn_op_meets [OF tmp]] v f unfolding asn_value_defs by blast

end
