(* ===== verification/E2apValid.thy ===== *)
theory E2apValid
  imports AsnSize E2apRoundTrip
begin

text \<open>
  The valid values of the E2AP descriptors: what a message looks like, for all messages at once. Every
  message is a structure of a procedure code, a criticality and an open type, whose alternatives are
  lists of structures of an id, a criticality and an open type.
\<close>

section \<open>Leaves\<close>

lemma long_valid_constrained:
  assumes "0 \<le> b" and "b \<le> 64" and "uint u < 2 ^ nat b"
  shows "long_valid uns (Some (APC_CONSTRAINED ext b e 0 u)) x \<longleftrightarrow> 0 \<le> sint x \<and> sint x \<le> sint u"
  using assms by (simp add: long_valid_def int_valid_def int_root_def)

lemma constraints_or_Some [simp]: "constraints_or (Some c) td = Some c" and constraints_or_None [simp]: "constraints_or None td = td"
  by (simp_all add: constraints_or_def)

text \<open>No type but an open type has alternatives.\<close>

lemma sp_alt_sequence [simp]: "sp_alt (sequence_spec specs ms) v = None"
  and sp_alt_list [simp]: "sp_alt (list_spec td m) v = None"
  and sp_alt_choice [simp]: "sp_alt (choice_spec td chs ms) v = None"
  by (simp_all add: sequence_spec_def list_spec_def choice_spec_def)

section \<open>Structures\<close>

lemma sp_valid_sequence: "sp_valid (sequence_spec specs ms) ct v \<longleftrightarrow> (\<exists>vs. v = V_struct vs \<and> seq_valid specs ms vs)"
  by (auto simp: sequence_spec_def split: asn_value.splits)

lemma sp_valid_list: "sp_valid (list_spec td m) ct v \<longleftrightarrow> (\<exists>vs. v = V_list vs \<and> list_valid td m ct vs)"
  by (auto simp: list_spec_def split: asn_value.splits)

lemma sp_valid_choice: "sp_valid (choice_spec td specs ms) ct v \<longleftrightarrow> (\<exists>k x. v = V_choice k x \<and> choice_valid td specs ms ct (k, x))"
  by (auto simp: choice_spec_def split: asn_value.splits)

text \<open>
  The alternatives of an open type: the value \<open>x\<close> of alternative \<open>k\<close>, and what the selector has to
  choose for it.
\<close>

definition open_holds :: "(string \<times> asn_DEF) list \<Rightarrow> (asn_DEF \<times> asn_type) list \<Rightarrow> nat \<Rightarrow> asn_value \<Rightarrow> bool" where
  "open_holds elements types k x \<longleftrightarrow> 0 < k \<and> k \<le> length elements \<and>
     (case map_of types (snd (elements ! (k - 1))) of
        None \<Rightarrow> False | Some t \<Rightarrow> asn_valid t x \<and> open_valid (asn_bits t x))"

lemma sp_valid_open: "sp_valid (open_spec elements (map (map_prod id per_spec_of) types)) ct v \<longleftrightarrow>
    (\<exists>k x. v = V_choice k x \<and> open_holds elements types k x)"
  by (auto simp: open_spec_def open_valid_value_def open_holds_def asn_valid_def asn_bits_def map_of_map_prod
      split: asn_value.splits option.splits)

lemma sp_alt_open: "sp_alt (open_spec elements types) (V_choice k x) = Some alt \<longleftrightarrow>
    0 < k \<and> k \<le> length elements \<and> alt = (Some (snd (elements ! (k - 1))), k)"
  by (auto simp: open_spec_def open_alternative_def)

lemma asn_valid_sequence: "asn_valid (T_SEQUENCE specs ms) v \<longleftrightarrow> seq_ok specs ms \<and>
    (\<exists>vs. v = V_struct vs \<and> length vs = length ms \<and> members_valid [] (zip (with_types per_spec_of ms) vs))"
  by (auto simp: asn_valid_def sp_plain_def sp_valid_sequence seq_valid_def)

lemma asn_valid_list: "asn_valid (T_SEQUENCE_OF td m) v \<longleftrightarrow>
    (\<exists>vs. v = V_list vs \<and> list_valid td (map_asn_TYPE_member per_spec_of m) None vs)"
  by (auto simp: asn_valid_def sp_plain_def sp_valid_list)

lemma asn_valid_choice: "asn_valid (T_CHOICE td specs ms) v \<longleftrightarrow>
    (\<exists>k x. v = V_choice k x \<and> choice_valid td specs (with_types per_spec_of ms) None (k, x))"
  by (auto simp: asn_valid_def sp_plain_def sp_valid_choice)

text \<open>Members as they occur: a number, an enumeration, an open type, another type.\<close>

lemma valid_native [simp]: "sp_valid (per_spec_of (T_NativeInteger uns td)) ct v \<longleftrightarrow> (\<exists>x. v = V_long x \<and> long_valid uns (value_constraint ct td) x)"
  and valid_enum [simp]: "sp_valid (per_spec_of (T_NativeEnumerated specs td)) ct v \<longleftrightarrow>
    (\<exists>x. v = V_long x \<and> enum_valid specs (constraints_or ct td) x)"
  and valid_string [simp]: "sp_valid (per_spec_of (T_STRING subvariant td)) ct v \<longleftrightarrow>
    (\<exists>st. v = V_string st \<and> string_valid subvariant (constraints_or ct td) st)"
  and valid_open [simp]: "sp_valid (per_spec_of (T_OPEN_TYPE elements types)) ct v \<longleftrightarrow>
    (\<exists>k x. v = V_choice k x \<and> open_holds elements types k x)"
  by (auto simp: sp_valid_open split: asn_value.splits)

lemma alt_native [simp]: "sp_alt (per_spec_of (T_NativeInteger uns td)) v = None"
  and alt_enum [simp]: "sp_alt (per_spec_of (T_NativeEnumerated specs td)) v = None"
  and alt_string [simp]: "sp_alt (per_spec_of (T_STRING subvariant td)) v = None"
  and alt_sequence [simp]: "sp_alt (per_spec_of (T_SEQUENCE ss ms)) v = None"
  and alt_list [simp]: "sp_alt (per_spec_of (T_SEQUENCE_OF td m)) v = None"
  and alt_choice [simp]: "sp_alt (per_spec_of (T_CHOICE td cs ms)) v = None"
  by simp_all

lemma alt_open: "sp_alt (per_spec_of (T_OPEN_TYPE elements types)) (V_choice k x) =
    (if 0 < k \<and> k \<le> length elements then Some (Some (snd (elements ! (k - 1))), k) else None)"
  by (simp add: open_spec_def open_alternative_def)

lemma members_valid_number:
  "members_valid us ((map_asn_TYPE_member per_spec_of (Member ATF_NOFLAGS opt (T_NativeInteger uns td) sel c name), v) # elms) \<longleftrightarrow>
    (\<exists>x. v = V_long x \<and> long_valid uns (value_constraint c td) x) \<and> members_valid (us @ [v]) elms"
  by (auto simp: member_present_def simp del: per_spec_of.simps)

lemma members_valid_enum:
  "members_valid us ((map_asn_TYPE_member per_spec_of (Member ATF_NOFLAGS opt (T_NativeEnumerated specs td) sel c name), v) # elms) \<longleftrightarrow>
    (\<exists>x. v = V_long x \<and> enum_valid specs (constraints_or c td) x) \<and> members_valid (us @ [v]) elms"
  by (auto simp: member_present_def simp del: per_spec_of.simps)

lemma members_valid_open:
  assumes "us ! j = V_long i" and "j < length us"
  shows "members_valid us ((map_asn_TYPE_member per_spec_of (Member ATF_OPEN_TYPE opt (T_OPEN_TYPE elements types) (Some (j, select)) c name), v) # elms) \<longleftrightarrow>
    (\<exists>k x. v = V_choice k x \<and> open_holds elements types k x \<and> select (sint i) = (Some (snd (elements ! (k - 1))), k))
    \<and> members_valid (us @ [v]) elms"
proof -
  have "case_option False (\<lambda>alt. select (sint i) = alt) (sp_alt (per_spec_of (T_OPEN_TYPE elements types)) (V_choice k x)) \<longleftrightarrow>
      select (sint i) = (Some (snd (elements ! (k - 1))), k)" if "open_holds elements types k x" for k x
    using that by (auto simp: alt_open open_holds_def simp del: per_spec_of.simps)
  then show ?thesis using assms by (auto simp: member_present_def alt_open open_holds_def simp del: per_spec_of.simps split: option.splits)
qed

text \<open>A structure of a number, a criticality and an open type that the number selects.\<close>

lemma triple_valid:
  assumes "seq_oms specs = []" and "seq_roms_count specs = 0" and "seq_first_extension specs = -1"
  shows "asn_valid (T_SEQUENCE specs
      [Member ATF_NOFLAGS 0 (T_NativeInteger uns td1) None c1 n1, Member ATF_NOFLAGS 0 (T_NativeEnumerated s2 td2) sel2 c2 n2,
       Member ATF_OPEN_TYPE 0 (T_OPEN_TYPE elements types) (Some (0, select)) c3 n3]) v \<longleftrightarrow>
    (\<exists>i c k x. v = V_struct [V_long i, V_long c, V_choice k x] \<and> long_valid uns (value_constraint c1 td1) i \<and>
       enum_valid s2 (constraints_or c2 td2) c \<and> open_holds elements types k x \<and>
       select (sint i) = (Some (snd (elements ! (k - 1))), k))"
    (is "asn_valid (T_SEQUENCE specs ?ms) v \<longleftrightarrow> ?R")
proof -
  have ok: "seq_ok specs ?ms" using assms by (simp add: seq_ok_def seq_optionals_def)
  have "asn_valid (T_SEQUENCE specs ?ms) v \<longleftrightarrow>
      (\<exists>a b c. v = V_struct [a, b, c] \<and> members_valid [] (zip (with_types per_spec_of ?ms) [a, b, c]))"
    using ok by (auto simp: asn_valid_sequence length_Suc_conv simp del: per_spec_of.simps members_valid.simps asn_TYPE_member.map)
  also have "\<dots> \<longleftrightarrow> ?R"
    by (auto simp: members_valid_number members_valid_enum members_valid_open [where i = i for i]
        simp del: asn_TYPE_member.map per_spec_of.simps members_valid.simps(2))
  finally show ?thesis .
qed

section \<open>Messages\<close>

definition criticality_valid :: "i64 \<Rightarrow> bool" where
  "criticality_valid c \<longleftrightarrow> sint c \<in> {0, 1, 2}"

lemma enum_valid_criticality:
  "enum_valid (Some asn_SPC_Criticality_specs_1) (Some (per_constraints (APC_CONSTRAINED False 2 2 0 2) s)) c \<longleftrightarrow> criticality_valid c"
  by (auto simp: enum_valid_def criticality_valid_def asn_SPC_Criticality_specs_1_def asn_MAP_Criticality_value2enum_1_def
      bsearch_def en_root_def split: if_splits)

text \<open>A field of a message, with the tables of its open type.\<close>

definition ie_holds ::
  "(int \<Rightarrow> asn_DEF option \<times> nat) \<Rightarrow> (string \<times> asn_DEF) list \<Rightarrow> (asn_DEF \<times> asn_type) list \<Rightarrow> asn_value \<Rightarrow> bool" where
  "ie_holds select elements types f \<longleftrightarrow>
     (\<exists>i c k x. f = V_struct [V_long i, V_long c, V_choice k x] \<and> 0 \<le> sint i \<and> sint i \<le> 65535 \<and> criticality_valid c \<and>
        open_holds elements types k x \<and> select (sint i) = (Some (snd (elements ! (k - 1))), k))"

abbreviation plain_specs :: "int \<Rightarrow> asn_SEQUENCE_specifics" where
  "plain_specs ext \<equiv> \<lparr>seq_oms = [], seq_roms_count = 0, seq_aoms_count = 0, seq_first_extension = ext\<rparr>"

abbreviation ie_constraints :: asn_per_constraints where
  "ie_constraints \<equiv> per_constraints (APC_CONSTRAINED False 16 16 0 65535) APC_UNCONSTRAINED"

abbreviation criticality_constraints :: asn_per_constraints where
  "criticality_constraints \<equiv> per_constraints (APC_CONSTRAINED False 2 2 0 2) APC_UNCONSTRAINED"

abbreviation container_constraints :: asn_per_constraints where
  "container_constraints \<equiv> per_constraints APC_UNCONSTRAINED (APC_CONSTRAINED False 16 16 0 65535)"

abbreviation field_type ::
  "(int \<Rightarrow> asn_DEF option \<times> nat) \<Rightarrow> (int \<Rightarrow> asn_DEF option \<times> nat) \<Rightarrow> (string \<times> asn_DEF) list \<Rightarrow> (asn_DEF \<times> asn_type) list \<Rightarrow> asn_type" where
  "field_type crit select elements types \<equiv> T_SEQUENCE (plain_specs (-1))
     [Member ATF_NOFLAGS 0 asn_DEF_ProtocolIE_ID None (Some ie_constraints) ''id'',
      Member ATF_NOFLAGS 0 asn_DEF_Criticality (Some (0, crit)) (Some criticality_constraints) ''criticality'',
      Member ATF_OPEN_TYPE 0 (T_OPEN_TYPE elements types) (Some (0, select)) (Some (per_constraints APC_UNCONSTRAINED APC_UNCONSTRAINED)) ''value'']"

abbreviation message_type_of ::
  "(int \<Rightarrow> asn_DEF option \<times> nat) \<Rightarrow> (int \<Rightarrow> asn_DEF option \<times> nat) \<Rightarrow> (string \<times> asn_DEF) list \<Rightarrow> (asn_DEF \<times> asn_type) list \<Rightarrow> asn_type" where
  "message_type_of crit select elements types \<equiv> T_SEQUENCE (plain_specs 1)
     [Member ATF_NOFLAGS 0 (T_SEQUENCE_OF (Some container_constraints)
        (Member ATF_POINTER 0 (field_type crit select elements types) None None '''')) None None ''protocolIEs'']"

lemma field_valid: "asn_valid (field_type crit select elements types) f \<longleftrightarrow> ie_holds select elements types f"
  unfolding asn_DEF_ProtocolIE_ID_def asn_DEF_Criticality_def
  by (subst triple_valid) (simp_all add: ie_holds_def long_valid_constrained enum_valid_criticality conj_ac)

lemma asn_valid_struct: "asn_valid (T_SEQUENCE specs ms) v \<Longrightarrow> \<exists>vs. v = V_struct vs"
  by (auto simp: asn_valid_sequence)

lemma container_valid:
  "asn_valid (T_SEQUENCE_OF (Some container_constraints) (Member ATF_POINTER 0 (T_SEQUENCE specs ms) None None n)) v \<longleftrightarrow>
    (\<exists>l. v = V_list l \<and> length l \<le> 65535 \<and> (\<forall>f \<in> set l. asn_valid (T_SEQUENCE specs ms) f))"
  using asn_valid_struct [of specs ms]
  by (auto simp: asn_valid_list list_valid_def asn_valid_def [symmetric] Let_def simp del: per_spec_of.simps)

lemma message_valid:
  "asn_valid (message_type_of crit select elements types) v \<longleftrightarrow>
    (\<exists>l. v = V_struct [V_list l] \<and> length l \<le> 65535 \<and> (\<forall>f \<in> set l. ie_holds select elements types f))"
proof -
  let ?c = "T_SEQUENCE_OF (Some container_constraints) (Member ATF_POINTER 0 (field_type crit select elements types) None None '''')"
  have "asn_valid (message_type_of crit select elements types) v \<longleftrightarrow> (\<exists>u. v = V_struct [u] \<and> asn_valid ?c u)"
    by (auto simp: asn_valid_sequence [of "plain_specs 1"] seq_ok_def seq_optionals_def length_Suc_conv member_present_def
        asn_valid_def [of ?c] sp_plain_def simp del: per_spec_of.simps)
  then show ?thesis unfolding container_valid field_valid by auto
qed

lemma message_bits_nonempty: "asn_bits (message_type_of crit select elements types) v \<noteq> [] \<longleftrightarrow> (\<exists>vs. v = V_struct vs)"
  by (auto simp: asn_bits_def sequence_spec_def seq_field_def split: asn_value.splits)

text \<open>The descriptors of the messages treated here have this form.\<close>

lemmas form_defs = message_constraints message_specifics message_members

lemma RICsubscriptionRequest_form: "asn_DEF_RICsubscriptionRequest = message_type_of
    select_RICsubscriptionRequest_IEs_criticality_type select_RICsubscriptionRequest_IEs_value_type asn_MBR_RICsubscriptionRequest_IEs_value
    [(IE DEF_RICrequestID, asn_DEF_RICrequestID), (IE DEF_RANfunctionID, asn_DEF_RANfunctionID),
     (IE DEF_RICsubscriptionDetails, asn_DEF_RICsubscriptionDetails)]"
  by (simp add: form_defs asn_DEF_RICsubscriptionRequest_def asn_DEF_ProtocolIE_Container_87P0_def
      asn_DEF_RICsubscriptionRequest_IEs_def asn_DEF_RICsubscriptionRequest_IEs_value_def)

lemma RICsubscriptionResponse_form: "asn_DEF_RICsubscriptionResponse = message_type_of
    select_RICsubscriptionResponse_IEs_criticality_type select_RICsubscriptionResponse_IEs_value_type asn_MBR_RICsubscriptionResponse_IEs_value
    [(IE DEF_RICrequestID, asn_DEF_RICrequestID), (IE DEF_RANfunctionID, asn_DEF_RANfunctionID),
     (IE DEF_RICaction_Admitted_List, asn_DEF_RICaction_Admitted_List),
     (IE DEF_RICaction_NotAdmitted_List, asn_DEF_RICaction_NotAdmitted_List)]"
  by (simp add: form_defs asn_DEF_RICsubscriptionResponse_def asn_DEF_ProtocolIE_Container_87P1_def
      asn_DEF_RICsubscriptionResponse_IEs_def asn_DEF_RICsubscriptionResponse_IEs_value_def)

lemma RICsubscriptionFailure_form: "asn_DEF_RICsubscriptionFailure = message_type_of
    select_RICsubscriptionFailure_IEs_criticality_type select_RICsubscriptionFailure_IEs_value_type asn_MBR_RICsubscriptionFailure_IEs_value
    [(IE DEF_RICrequestID, asn_DEF_RICrequestID), (IE DEF_RANfunctionID, asn_DEF_RANfunctionID),
     (IE DEF_RICaction_NotAdmitted_List, asn_DEF_RICaction_NotAdmitted_List),
     (IE DEF_CriticalityDiagnostics, asn_DEF_CriticalityDiagnostics)]"
  by (simp add: form_defs asn_DEF_RICsubscriptionFailure_def asn_DEF_ProtocolIE_Container_87P2_def
      asn_DEF_RICsubscriptionFailure_IEs_def asn_DEF_RICsubscriptionFailure_IEs_value_def)

lemma RICsubscriptionDeleteRequest_form: "asn_DEF_RICsubscriptionDeleteRequest = message_type_of
    select_RICsubscriptionDeleteRequest_IEs_criticality_type select_RICsubscriptionDeleteRequest_IEs_value_type asn_MBR_RICsubscriptionDeleteRequest_IEs_value
    [(IE DEF_RICrequestID, asn_DEF_RICrequestID), (IE DEF_RANfunctionID, asn_DEF_RANfunctionID)]"
  by (simp add: form_defs asn_DEF_RICsubscriptionDeleteRequest_def asn_DEF_ProtocolIE_Container_87P3_def
      asn_DEF_RICsubscriptionDeleteRequest_IEs_def asn_DEF_RICsubscriptionDeleteRequest_IEs_value_def)

lemma RICsubscriptionDeleteResponse_form: "asn_DEF_RICsubscriptionDeleteResponse = message_type_of
    select_RICsubscriptionDeleteResponse_IEs_criticality_type select_RICsubscriptionDeleteResponse_IEs_value_type asn_MBR_RICsubscriptionDeleteResponse_IEs_value
    [(IE DEF_RICrequestID, asn_DEF_RICrequestID), (IE DEF_RANfunctionID, asn_DEF_RANfunctionID)]"
  by (simp add: form_defs asn_DEF_RICsubscriptionDeleteResponse_def asn_DEF_ProtocolIE_Container_87P4_def
      asn_DEF_RICsubscriptionDeleteResponse_IEs_def asn_DEF_RICsubscriptionDeleteResponse_IEs_value_def)

lemma RICsubscriptionDeleteFailure_form: "asn_DEF_RICsubscriptionDeleteFailure = message_type_of
    select_RICsubscriptionDeleteFailure_IEs_criticality_type select_RICsubscriptionDeleteFailure_IEs_value_type asn_MBR_RICsubscriptionDeleteFailure_IEs_value
    [(IE DEF_RICrequestID, asn_DEF_RICrequestID), (IE DEF_RANfunctionID, asn_DEF_RANfunctionID),
     (IE DEF_Cause, asn_DEF_Cause), (IE DEF_CriticalityDiagnostics, asn_DEF_CriticalityDiagnostics)]"
  by (simp add: form_defs asn_DEF_RICsubscriptionDeleteFailure_def asn_DEF_ProtocolIE_Container_87P5_def
      asn_DEF_RICsubscriptionDeleteFailure_IEs_def asn_DEF_RICsubscriptionDeleteFailure_IEs_value_def)

lemma RICindication_form: "asn_DEF_RICindication = message_type_of
    select_RICindication_IEs_criticality_type select_RICindication_IEs_value_type asn_MBR_RICindication_IEs_value
    [(IE DEF_RICrequestID, asn_DEF_RICrequestID), (IE DEF_RANfunctionID, asn_DEF_RANfunctionID),
     (IE DEF_RICactionID, asn_DEF_RICactionID), (IE DEF_RICindicationSN, asn_DEF_RICindicationSN),
     (IE DEF_RICindicationType, asn_DEF_RICindicationType),
     (IE DEF_RICindicationHeader, asn_DEF_RICindicationHeader),
     (IE DEF_RICindicationMessage, asn_DEF_RICindicationMessage),
     (IE DEF_RICcallProcessID, asn_DEF_RICcallProcessID)]"
  by (simp add: form_defs asn_DEF_RICindication_def asn_DEF_ProtocolIE_Container_87P6_def
      asn_DEF_RICindication_IEs_def asn_DEF_RICindication_IEs_value_def)

section \<open>PDUs\<close>

abbreviation procedure_type ::
  "(int \<Rightarrow> asn_DEF option \<times> nat) \<Rightarrow> (int \<Rightarrow> asn_DEF option \<times> nat) \<Rightarrow> (string \<times> asn_DEF) list \<Rightarrow> (asn_DEF \<times> asn_type) list \<Rightarrow> asn_type" where
  "procedure_type crit select elements types \<equiv> T_SEQUENCE (plain_specs (-1))
     [Member ATF_NOFLAGS 0 asn_DEF_ProcedureCode None (Some (per_constraints (APC_CONSTRAINED False 8 8 0 255) APC_UNCONSTRAINED)) ''procedureCode'',
      Member ATF_NOFLAGS 0 asn_DEF_Criticality (Some (0, crit)) (Some criticality_constraints) ''criticality'',
      Member ATF_OPEN_TYPE 0 (T_OPEN_TYPE elements types) (Some (0, select)) (Some (per_constraints APC_UNCONSTRAINED APC_UNCONSTRAINED)) ''value'']"

definition procedure_holds ::
  "(int \<Rightarrow> asn_DEF option \<times> nat) \<Rightarrow> (string \<times> asn_DEF) list \<Rightarrow> (asn_DEF \<times> asn_type) list \<Rightarrow> asn_value \<Rightarrow> bool" where
  "procedure_holds select elements types f \<longleftrightarrow>
     (\<exists>i c k x. f = V_struct [V_long i, V_long c, V_choice k x] \<and> 0 \<le> sint i \<and> sint i \<le> 255 \<and> criticality_valid c \<and>
        open_holds elements types k x \<and> select (sint i) = (Some (snd (elements ! (k - 1))), k))"

lemma procedure_valid: "asn_valid (procedure_type crit select elements types) f \<longleftrightarrow> procedure_holds select elements types f"
  unfolding asn_DEF_ProcedureCode_def asn_DEF_Criticality_def
  by (subst triple_valid) (simp_all add: procedure_holds_def long_valid_constrained enum_valid_criticality conj_ac)

definition initiating_types :: "(asn_DEF \<times> asn_type) list" where
  "initiating_types =
    [(MSG DEF_RICsubscriptionRequest, asn_DEF_RICsubscriptionRequest),
     (MSG DEF_RICsubscriptionDeleteRequest, asn_DEF_RICsubscriptionDeleteRequest),
     (MSG DEF_RICserviceUpdate, asn_DEF_RICserviceUpdate),
     (MSG DEF_RICcontrolRequest, asn_DEF_RICcontrolRequest),
     (MSG DEF_E2setupRequest, asn_DEF_E2setupRequest),
     (MSG DEF_ResetRequest, asn_DEF_ResetRequest),
     (MSG DEF_RICindication, asn_DEF_RICindication),
     (MSG DEF_RICserviceQuery, asn_DEF_RICserviceQuery),
     (MSG DEF_ErrorIndication, asn_DEF_ErrorIndication)]"

lemma InitiatingMessage_form: "asn_DEF_InitiatingMessage = procedure_type select_InitiatingMessage_criticality_type select_InitiatingMessage_value_type
    asn_MBR_InitiatingMessage_value initiating_types"
  by (simp add: form_defs asn_DEF_InitiatingMessage_def asn_DEF_InitiatingMessage_value_def initiating_types_def)

definition successful_types :: "(asn_DEF \<times> asn_type) list" where
  "successful_types =
    [(MSG DEF_RICsubscriptionResponse, asn_DEF_RICsubscriptionResponse),
     (MSG DEF_RICsubscriptionDeleteResponse, asn_DEF_RICsubscriptionDeleteResponse),
     (MSG DEF_RICserviceUpdateAcknowledge, asn_DEF_RICserviceUpdateAcknowledge),
     (MSG DEF_RICcontrolAcknowledge, asn_DEF_RICcontrolAcknowledge),
     (MSG DEF_E2setupResponse, asn_DEF_E2setupResponse),
     (MSG DEF_ResetResponse, asn_DEF_ResetResponse)]"

lemma SuccessfulOutcome_form: "asn_DEF_SuccessfulOutcome = procedure_type select_SuccessfulOutcome_criticality_type select_SuccessfulOutcome_value_type
    asn_MBR_SuccessfulOutcome_value successful_types"
  by (simp add: form_defs asn_DEF_SuccessfulOutcome_def asn_DEF_SuccessfulOutcome_value_def successful_types_def)

definition unsuccessful_types :: "(asn_DEF \<times> asn_type) list" where
  "unsuccessful_types =
    [(MSG DEF_RICsubscriptionFailure, asn_DEF_RICsubscriptionFailure),
     (MSG DEF_RICsubscriptionDeleteFailure, asn_DEF_RICsubscriptionDeleteFailure),
     (MSG DEF_RICserviceUpdateFailure, asn_DEF_RICserviceUpdateFailure),
     (MSG DEF_RICcontrolFailure, asn_DEF_RICcontrolFailure),
     (MSG DEF_E2setupFailure, asn_DEF_E2setupFailure)]"

lemma UnsuccessfulOutcome_form: "asn_DEF_UnsuccessfulOutcome = procedure_type select_UnsuccessfulOutcome_criticality_type select_UnsuccessfulOutcome_value_type
    asn_MBR_UnsuccessfulOutcome_value unsuccessful_types"
  by (simp add: form_defs asn_DEF_UnsuccessfulOutcome_def asn_DEF_UnsuccessfulOutcome_value_def unsuccessful_types_def)

definition pdu_members :: "asn_type list" where
  "pdu_members = [asn_DEF_InitiatingMessage, asn_DEF_SuccessfulOutcome, asn_DEF_UnsuccessfulOutcome]"

lemma pdu_member_struct: "m < 3 \<Longrightarrow> \<exists>specs ms. pdu_members ! m = T_SEQUENCE specs ms"
  by (auto simp: pdu_members_def numeral_3_eq_3 less_Suc_eq asn_DEF_InitiatingMessage_def asn_DEF_SuccessfulOutcome_def
      asn_DEF_UnsuccessfulOutcome_def)

lemma E2AP_PDU_valid: "asn_valid asn_DEF_E2AP_PDU v \<longleftrightarrow>
    (\<exists>k x. v = V_choice k x \<and> 1 \<le> k \<and> k \<le> 3 \<and> asn_valid (pdu_members ! (k - 1)) x)"
proof -
  have nz: "x \<noteq> V_none" if "asn_valid (pdu_members ! m) x" "m < 3" for m x
    using pdu_member_struct [OF that(2)] that(1) asn_valid_struct by fastforce
  have "choice_valid (Some asn_PER_type_E2AP_PDU_constr_1) asn_SPC_E2AP_PDU_specs_1 (with_types per_spec_of asn_MBR_E2AP_PDU_1) None (k, x)
      \<longleftrightarrow> 1 \<le> k \<and> k \<le> 3 \<and> asn_valid (pdu_members ! (k - 1)) x" for k x
  proof (cases "k = 1 \<or> k = 2 \<or> k = 3")
    case False
    then show ?thesis by (auto simp: choice_valid_def Let_def form_defs)
  next
    case True
    then show ?thesis using nz [of 0 x] nz [of 1 x] nz [of 2 x]
      by (elim disjE) (auto simp: choice_valid_def Let_def form_defs pdu_members_def choice_outside_def canonical_def
          member_present_def asn_valid_def simp del: per_spec_of.simps)
  qed
  then show ?thesis unfolding asn_DEF_E2AP_PDU_def asn_valid_choice by blast
qed

section \<open>Small elements\<close>

lemma sequence_bits_nonempty: "0 \<le> seq_first_extension specs \<Longrightarrow> asn_bits (T_SEQUENCE specs ms) (V_struct vs) \<noteq> []"
  by (simp add: asn_bits_def sequence_spec_def seq_field_def Let_def)

text \<open>A small value is carried by an open type; only its own validity is left to show.\<close>

lemma open_holds_small:
  assumes "value_size x < 131000"
  shows "open_holds elements types k x \<longleftrightarrow> 0 < k \<and> k \<le> length elements \<and>
    (case map_of types (snd (elements ! (k - 1))) of None \<Rightarrow> False | Some t \<Rightarrow> asn_valid t x \<and> asn_bits t x \<noteq> [])"
proof -
  have "open_valid (asn_bits t x) \<longleftrightarrow> asn_bits t x \<noteq> []" if "asn_valid t x" for t
  proof -
    have "length (asn_bits t x) \<le> value_size x"
      using sized_specD [OF per_spec_of_sized] that assms by (simp add: asn_bits_def asn_valid_def sp_plain_def)
    then show ?thesis using assms open_valid_small [of "asn_bits t x"] by (auto simp: open_valid_def)
  qed
  then show ?thesis by (auto simp: open_holds_def split: option.split)
qed

definition in_range :: "int \<Rightarrow> i64 \<Rightarrow> bool" where
  "in_range ub x \<longleftrightarrow> 0 \<le> sint x \<and> sint x \<le> ub"

declare per_spec_of.simps [simp del]

lemma RICrequestID_valid: "asn_valid asn_DEF_RICrequestID v \<longleftrightarrow>
    (\<exists>a b. v = V_struct [V_long a, V_long b] \<and> in_range 65535 a \<and> in_range 65535 b)"
  unfolding asn_DEF_RICrequestID_def asn_valid_sequence
  by (auto simp: element_constraints element_specifics element_members asn_DEF_NativeInteger_def seq_ok_def seq_optionals_def
      length_Suc_conv member_present_def long_valid_constrained in_range_def)

lemma RICrequestID_nonempty: "asn_valid asn_DEF_RICrequestID v \<Longrightarrow> asn_bits asn_DEF_RICrequestID v \<noteq> []"
  by (auto simp: RICrequestID_valid) (simp add: asn_DEF_RICrequestID_def asn_SPC_RICrequestID_specs_1_def sequence_bits_nonempty)

lemma native_type_valid: "asn_valid (T_NativeInteger uns td) v \<longleftrightarrow> (\<exists>x. v = V_long x \<and> long_valid uns (map_option pcs_value td) x)"
  by (auto simp: asn_valid_def sp_plain_def)

lemma native_bits: "asn_bits (T_NativeInteger uns (Some (per_constraints c s))) (V_long x) = int_field c 0 x"
  by (simp add: asn_bits_def per_spec_of.simps)

lemma RANfunctionID_valid: "asn_valid asn_DEF_RANfunctionID v \<longleftrightarrow> (\<exists>a. v = V_long a \<and> in_range 4095 a)"
  by (auto simp: asn_DEF_RANfunctionID_def native_type_valid element_constraints long_valid_constrained in_range_def)

lemma bits_of_int_Nil [simp]: "bits_of_int n x = [] \<longleftrightarrow> n = 0"
  by (simp flip: length_0_conv)

lemmas native_nonempty = native_type_valid element_constraints native_bits int_field_def int_field_root_def

lemma RANfunctionID_nonempty: "asn_valid asn_DEF_RANfunctionID v \<Longrightarrow> asn_bits asn_DEF_RANfunctionID v \<noteq> []"
  by (auto simp: asn_DEF_RANfunctionID_def native_nonempty)

lemma RICactionID_valid: "asn_valid asn_DEF_RICactionID v \<longleftrightarrow> (\<exists>a. v = V_long a \<and> in_range 255 a)"
  by (auto simp: asn_DEF_RICactionID_def native_type_valid element_constraints long_valid_constrained in_range_def)

lemma RICactionID_nonempty: "asn_valid asn_DEF_RICactionID v \<Longrightarrow> asn_bits asn_DEF_RICactionID v \<noteq> []"
  by (auto simp: asn_DEF_RICactionID_def native_nonempty)

lemma RICindicationSN_valid: "asn_valid asn_DEF_RICindicationSN v \<longleftrightarrow> (\<exists>a. v = V_long a \<and> in_range 65535 a)"
  by (auto simp: asn_DEF_RICindicationSN_def native_type_valid element_constraints long_valid_constrained in_range_def)

lemma RICindicationSN_nonempty: "asn_valid asn_DEF_RICindicationSN v \<Longrightarrow> asn_bits asn_DEF_RICindicationSN v \<noteq> []"
  by (auto simp: asn_DEF_RICindicationSN_def native_nonempty)

lemma RICindicationType_valid: "asn_valid asn_DEF_RICindicationType v \<longleftrightarrow> (\<exists>a. v = V_long a \<and> sint a \<in> {0, 1})"
  by (auto simp: asn_DEF_RICindicationType_def asn_valid_def sp_plain_def element_constraints enum_valid_def
      asn_SPC_RICindicationType_specs_1_def asn_MAP_RICindicationType_value2enum_1_def bsearch_def en_root_def split: if_splits)

lemma RICindicationType_nonempty: "asn_valid asn_DEF_RICindicationType v \<Longrightarrow> asn_bits asn_DEF_RICindicationType v \<noteq> []"
  by (auto simp: RICindicationType_valid)
    (auto simp: asn_DEF_RICindicationType_def asn_bits_def per_spec_of.simps element_constraints enum_field_def Let_def split: option.splits)

text \<open>Octet strings without a size constraint: below one fragment.\<close>

lemma octets_valid: "asn_valid (T_STRING ASN_OSUBV_STR None) v \<longleftrightarrow> (\<exists>b. v = V_string (b, 0) \<and> length b < 16384)"
  by (auto simp: asn_valid_def sp_plain_def string_valid_def string_constraints_def asn_DEF_OCTET_STRING_constraints_def string_size_def)

lemma octets_nonempty: "asn_bits (T_STRING ASN_OSUBV_STR None) (V_string st) \<noteq> []"
  by (simp add: asn_bits_def per_spec_of.simps string_field_def string_constraints_def asn_DEF_OCTET_STRING_constraints_def
      Let_def len_bits_def)

lemmas octets_types = asn_DEF_RICindicationHeader_def asn_DEF_RICindicationMessage_def asn_DEF_RICcallProcessID_def

section \<open>Indications\<close>

text \<open>
  An element with criticality \<^verbatim>\<open>reject\<close>, and an indication: its elements in the order of the standard, the
  sequence number and the call process id if there are any.
\<close>

definition protocol_ie :: "i64 \<Rightarrow> nat \<Rightarrow> asn_value \<Rightarrow> asn_value" where
  "protocol_ie i k x = V_struct [V_long i, V_long 0, V_choice k x]"

definition indication_list ::
  "i64 \<Rightarrow> i64 \<Rightarrow> i64 \<Rightarrow> i64 \<Rightarrow> i64 option \<Rightarrow> i64 \<Rightarrow> byte list \<Rightarrow> byte list \<Rightarrow> byte list option \<Rightarrow> asn_value list" where
  "indication_list requestor inst function_id action sn ty header msg process =
     [protocol_ie 29 1 (V_struct [V_long requestor, V_long inst]), protocol_ie 5 2 (V_long function_id),
      protocol_ie 15 3 (V_long action)] @
     (case sn of None \<Rightarrow> [] | Some n \<Rightarrow> [protocol_ie 27 4 (V_long n)]) @
     [protocol_ie 28 5 (V_long ty), protocol_ie 25 6 (V_string (header, 0)), protocol_ie 26 7 (V_string (msg, 0))] @
     (case process of None \<Rightarrow> [] | Some p \<Rightarrow> [protocol_ie 20 8 (V_string (p, 0))])"

definition indication_value ::
  "i64 \<Rightarrow> i64 \<Rightarrow> i64 \<Rightarrow> i64 \<Rightarrow> i64 option \<Rightarrow> i64 \<Rightarrow> byte list \<Rightarrow> byte list \<Rightarrow> byte list option \<Rightarrow> asn_value" where
  "indication_value requestor inst function_id action sn ty header msg process =
     V_choice 1 (V_struct [V_long 5, V_long 1, V_choice 7 (V_struct [V_list
       (indication_list requestor inst function_id action sn ty header msg process)])])"

text \<open>The ranges of the elements, and how many octets they hold together.\<close>

definition indication_in_range :: "i64 \<Rightarrow> i64 \<Rightarrow> i64 \<Rightarrow> i64 \<Rightarrow> i64 option \<Rightarrow> i64 \<Rightarrow> bool" where
  "indication_in_range requestor inst function_id action sn ty \<longleftrightarrow>
     in_range 65535 requestor \<and> in_range 65535 inst \<and> in_range 4095 function_id \<and> in_range 255 action
     \<and> pred_option (in_range 65535) sn \<and> sint ty \<in> {0, 1}"

definition indication_octets :: "byte list \<Rightarrow> byte list \<Rightarrow> byte list option \<Rightarrow> nat" where
  "indication_octets header msg process = length header + length msg + (case process of None \<Rightarrow> 0 | Some p \<Rightarrow> length p)"

lemma indication_select:
  "select_RICindication_IEs_value_type 29 = (Some (IE DEF_RICrequestID), 1)"
  "select_RICindication_IEs_value_type 5 = (Some (IE DEF_RANfunctionID), 2)"
  "select_RICindication_IEs_value_type 15 = (Some (IE DEF_RICactionID), 3)"
  "select_RICindication_IEs_value_type 27 = (Some (IE DEF_RICindicationSN), 4)"
  "select_RICindication_IEs_value_type 28 = (Some (IE DEF_RICindicationType), 5)"
  "select_RICindication_IEs_value_type 25 = (Some (IE DEF_RICindicationHeader), 6)"
  "select_RICindication_IEs_value_type 26 = (Some (IE DEF_RICindicationMessage), 7)"
  "select_RICindication_IEs_value_type 20 = (Some (IE DEF_RICcallProcessID), 8)"
  "select_InitiatingMessage_value_type 5 = (Some (MSG DEF_RICindication), 7)"
  by code_simp+

lemma protocol_ie_holds: "ie_holds select elements types (protocol_ie i k x) \<longleftrightarrow>
    0 \<le> sint i \<and> sint i \<le> 65535 \<and> open_holds elements types k x \<and> select (sint i) = (Some (snd (elements ! (k - 1))), k)"
  by (auto simp: ie_holds_def protocol_ie_def criticality_valid_def)

lemmas small_elements = RICrequestID_valid RICrequestID_nonempty RANfunctionID_valid RANfunctionID_nonempty
  RICactionID_valid RICactionID_nonempty RICindicationSN_valid RICindicationSN_nonempty RICindicationType_valid
  RICindicationType_nonempty octets_types octets_valid octets_nonempty

lemma indication_valid:
  assumes "indication_in_range requestor inst function_id action sn ty" and "indication_octets header msg process < 15000"
  shows "asn_valid asn_DEF_E2AP_PDU (indication_value requestor inst function_id action sn ty header msg process)"
proof -
  let ?types = "[(IE DEF_RICrequestID, asn_DEF_RICrequestID), (IE DEF_RANfunctionID, asn_DEF_RANfunctionID),
     (IE DEF_RICactionID, asn_DEF_RICactionID), (IE DEF_RICindicationSN, asn_DEF_RICindicationSN),
     (IE DEF_RICindicationType, asn_DEF_RICindicationType),
     (IE DEF_RICindicationHeader, asn_DEF_RICindicationHeader),
     (IE DEF_RICindicationMessage, asn_DEF_RICindicationMessage),
     (IE DEF_RICcallProcessID, asn_DEF_RICcallProcessID)]"
  let ?l = "indication_list requestor inst function_id action sn ty header msg process"
  have "\<forall>f \<in> set ?l. ie_holds select_RICindication_IEs_value_type asn_MBR_RICindication_IEs_value ?types f"
    using assms by (cases sn; cases process)
      (simp_all add: indication_list_def indication_in_range_def indication_octets_def protocol_ie_holds open_holds_small
        asn_MBR_RICindication_IEs_value_def indication_select small_elements)
  moreover have "length ?l \<le> 65535" by (cases sn; cases process) (simp_all add: indication_list_def)
  ultimately have m: "asn_valid asn_DEF_RICindication (V_struct [V_list ?l])"
    unfolding RICindication_form message_valid by simp
  have "asn_bits asn_DEF_RICindication (V_struct [V_list ?l]) \<noteq> []"
    unfolding RICindication_form message_bits_nonempty by blast
  moreover have "value_size (V_struct [V_list ?l]) < 131000" using assms(2)
    by (cases sn; cases process) (simp_all add: indication_list_def indication_octets_def protocol_ie_def)
  ultimately have "open_holds asn_MBR_InitiatingMessage_value initiating_types 7 (V_struct [V_list ?l])"
    using m by (simp add: open_holds_small asn_MBR_InitiatingMessage_value_def initiating_types_def)
  then have "asn_valid asn_DEF_InitiatingMessage (V_struct [V_long 5, V_long 1, V_choice 7 (V_struct [V_list ?l])])"
    unfolding InitiatingMessage_form procedure_valid procedure_holds_def criticality_valid_def
    by (simp add: indication_select asn_MBR_InitiatingMessage_value_def)
  then show ?thesis by (simp add: E2AP_PDU_valid indication_value_def pdu_members_def)
qed

section \<open>Round trips\<close>

text \<open>The size of a message, from the size of its value.\<close>

lemma length_asn_bits: "asn_valid t v \<Longrightarrow> value_size v < 131000 \<Longrightarrow> length (asn_bits t v) \<le> value_size v"
  using sized_specD [OF per_spec_of_sized] by (simp add: asn_bits_def asn_valid_def sp_plain_def)

lemma choice_field_nonempty:
  "choice_outside (pcs_value (the (constraints_or ct td))) (fst x - 1) \<or> pc_extensible (pcs_value (the (constraints_or ct td)))
    \<Longrightarrow> choice_field td specs ms ct k x \<noteq> []"
  unfolding choice_field_def Let_def by (auto split del: if_split) (auto split: if_splits)

lemma E2AP_PDU_nonempty:
  assumes "asn_valid asn_DEF_E2AP_PDU v"
  shows "asn_bits asn_DEF_E2AP_PDU v \<noteq> []"
proof -
  obtain k x where "v = V_choice k x" using assms unfolding E2AP_PDU_valid by blast
  then show ?thesis
    by (simp add: asn_DEF_E2AP_PDU_def asn_bits_def per_spec_of.simps choice_spec_def asn_PER_type_E2AP_PDU_constr_1_def
        choice_field_nonempty)
qed

lemma sample_indication_size: "value_size (indication_value 123 1 2 0 (Some 7) 0 [1, 2, 3] [4, 5] None) < 4000"
  by (simp add: indication_value_def indication_list_def protocol_ie_def)

lemma sample_indication_valid: "asn_valid asn_DEF_E2AP_PDU (indication_value 123 1 2 0 (Some 7) 0 [1, 2, 3] [4, 5] None)"
  by (rule indication_valid) (simp_all add: indication_in_range_def indication_octets_def in_range_def)

lemma indication_size: "value_size (indication_value requestor inst function_id action sn ty header msg process)
    \<le> 4000 + 8 * indication_octets header msg process"
  by (cases sn; cases process) (simp_all add: indication_value_def indication_list_def indication_octets_def protocol_ie_def)

text \<open>
  (C7) Round trip of whole messages, for every type descriptor: a valid value is encoded whenever the
  buffer has room for its bits, the octets are those of the specification, and decoding them, whatever
  octets follow, gives the value back and consumes exactly them.
\<close>

theorem message_round_trip:
  assumes "asn_valid t v" and "asn_bits t v \<noteq> []" and "length (asn_bits t v) \<le> 8 * buffer_size"
    and "length tmp = 32" and "length tmp' = 32"
  shows "aper_encode_to_buffer (Some (asn_encoder tmp' undef t)) v buffer_size tmp = (int (length (asn_bits t v)), asn_octets t v)
    \<and> aper_decode_complete (Some (asn_decoder_of tmp' undef t)) sptr (asn_octets t v @ rest)
      = Some (\<lparr>rv_code = RC_OK, rv_consumed = length (asn_octets t v)\<rparr>, v)"
  using asn_encode_total [OF assms(1,4,5,3)] asn_decode_complete [OF assms(1,2,5)] by blast

theorem message_round_trip_witness:
  "let t = asn_DEF_E2AP_PDU; v = indication_value 123 1 2 0 (Some 7) 0 [1, 2, 3] [4, 5] None; tmp = replicate 32 0;
       undef = (\<lambda>pd. (\<lparr>rv_code = RC_FAIL, rv_consumed = 0\<rparr>, V_none, pd))
   in aper_encode_to_buffer (Some (asn_encoder tmp undef t)) v 500 tmp = (int (length (asn_bits t v)), asn_octets t v)
    \<and> aper_decode_complete (Some (asn_decoder_of tmp undef t)) V_none (asn_octets t v @ [1, 2])
      = Some (\<lparr>rv_code = RC_OK, rv_consumed = length (asn_octets t v)\<rparr>, v)"
  unfolding Let_def
  by (rule message_round_trip)
    (use sample_indication_valid sample_indication_size length_asn_bits [OF sample_indication_valid] in
      \<open>simp_all add: E2AP_PDU_nonempty\<close>)

text \<open>
  (C18) The two ways to encode agree: into a buffer of the caller with room enough, as wrapper.c does, and
  into a buffer that grows, as open types do, gives the same octets, and the sizes in bits and in octets
  match; only a value of no bits at all, where the growing buffer returns one octet of zero, is different.
\<close>

theorem buffers_agree:
  assumes "asn_valid t v" and "length (asn_bits t v) \<le> 8 * buffer_size" and "length tmp = 32" and "length tmp' = 32"
  shows "aper_encode_to_new_buffer (\<lambda>_. True) (Some (op_encode (per_op tmp' new_buffer undef t) None)) v tmp
    = (case aper_encode_to_buffer (Some (asn_encoder tmp' undef t)) v buffer_size tmp of
         (n, octets) \<Rightarrow> if n = 0 then (1, Some [0]) else ((n + 7) div 8, Some octets))"
proof -
  let ?key = "\<lparr>dyn_buffer = [], dyn_length = 0, dyn_allocated = 0\<rparr>" and ?n = "length (asn_bits t v)"
  have "enc_emits dyn_buffer (\<lambda>_. buffer_size) (op_encode (per_op tmp' new_buffer undef t) None)
      (sp_field (per_spec_of t) None) (sp_valid (per_spec_of t) None)"
    by (rule op_meetsD(1) [OF dyn.per_op_meets [OF assms(4)]])
  from dyn.aper_encode_total [OF this _ assms(3), of v ?key] assms(1,2) obtain key' where
    run: "aper_encode (Some (op_encode (per_op tmp' new_buffer undef t) None)) new_buffer v ?key tmp = (int ?n, key')"
    and "bytes_bits (dyn_buffer key') = padded (asn_bits t v)"
    by (auto simp: asn_valid_def sp_plain_def asn_bits_def)
  then have "dyn_buffer key' = asn_octets t v" by (metis asn_octets_def octets_of_bytes_bits)
  with run asn_encode_total [OF assms(1,3,4,2), of undef] show ?thesis
    by (simp add: aper_encode_to_new_buffer_def drop_bit_eq_div)
qed

theorem buffers_agree_witness:
  "let v = indication_value 123 1 2 0 (Some 7) 0 [1, 2, 3] [4, 5] None; tmp = replicate 32 0;
       undef = (\<lambda>pd. (\<lparr>rv_code = RC_FAIL, rv_consumed = 0\<rparr>, V_none, pd))
   in aper_encode_to_new_buffer (\<lambda>_. True) (Some (op_encode (per_op tmp new_buffer undef asn_DEF_E2AP_PDU) None)) v tmp
    = (case aper_encode_to_buffer (Some (asn_encoder tmp undef asn_DEF_E2AP_PDU)) v 500 tmp of
         (n, octets) \<Rightarrow> if n = 0 then (1, Some [0]) else ((n + 7) div 8, Some octets))"
  unfolding Let_def
  by (rule buffers_agree)
    (use sample_indication_valid sample_indication_size length_asn_bits [OF sample_indication_valid] in simp_all)

text \<open>
  (C8) A RICindication with its elements in their ranges, in the order of the standard and with
  criticality reject, with or without a sequence number and a call process id, is encoded into a buffer
  of 500 octets more than header, message and call process id together, and decoded again, when these
  three have fewer than 15000 octets.
\<close>

theorem indication_round_trip:
  assumes "indication_in_range requestor inst function_id action sn ty" and "indication_octets header msg process < 15000"
    and "500 + indication_octets header msg process \<le> buffer_size" and "length tmp = 32" and "length tmp' = 32"
  shows "\<exists>n octets. aper_encode_to_buffer (Some (asn_encoder tmp' undef asn_DEF_E2AP_PDU))
        (indication_value requestor inst function_id action sn ty header msg process) buffer_size tmp = (n, octets)
    \<and> 0 < n \<and> n \<le> 4000 + 8 * int (indication_octets header msg process)
    \<and> aper_decode_complete (Some (asn_decoder_of tmp' undef asn_DEF_E2AP_PDU)) sptr (octets @ rest)
      = Some (\<lparr>rv_code = RC_OK, rv_consumed = length octets\<rparr>,
          indication_value requestor inst function_id action sn ty header msg process)"
proof -
  let ?v = "indication_value requestor inst function_id action sn ty header msg process"
  have v: "asn_valid asn_DEF_E2AP_PDU ?v" by (rule indication_valid [OF assms(1,2)])
  have len: "length (asn_bits asn_DEF_E2AP_PDU ?v) \<le> 4000 + 8 * indication_octets header msg process"
    using length_asn_bits [OF v] indication_size [of requestor inst function_id action sn ty header msg process] assms(2) by linarith
  have "aper_encode_to_buffer (Some (asn_encoder tmp' undef asn_DEF_E2AP_PDU)) ?v buffer_size tmp
      = (int (length (asn_bits asn_DEF_E2AP_PDU ?v)), asn_octets asn_DEF_E2AP_PDU ?v)"
    using asn_encode_total [OF v assms(4,5)] len assms(3) by simp
  with asn_decode_complete [OF v E2AP_PDU_nonempty [OF v] assms(5)] len E2AP_PDU_nonempty [OF v] show ?thesis by fastforce
qed

theorem indication_round_trip_witness:
  "let v = indication_value 123 1 2 0 (Some 7) 0 [1, 2, 3] [4, 5] (Some [6]); tmp = replicate 32 0;
       undef = (\<lambda>pd. (\<lparr>rv_code = RC_FAIL, rv_consumed = 0\<rparr>, V_none, pd))
   in \<exists>n octets. aper_encode_to_buffer (Some (asn_encoder tmp undef asn_DEF_E2AP_PDU)) v 600 tmp = (n, octets)
    \<and> 0 < n \<and> n \<le> 4000 + 8 * int (indication_octets [1, 2, 3] [4, 5] (Some [6]))
    \<and> aper_decode_complete (Some (asn_decoder_of tmp undef asn_DEF_E2AP_PDU)) V_none (octets @ [9])
      = Some (\<lparr>rv_code = RC_OK, rv_consumed = length octets\<rparr>, v)"
  unfolding Let_def by (rule indication_round_trip) (simp_all add: indication_in_range_def indication_octets_def in_range_def)

end
