(* ===== verification/AsnForward.thy ===== *)
theory AsnForward
  imports AsnTypes
begin

text \<open>
  Decoding of arbitrary octets: whatever a stream holds, the decoder of any descriptor leaves it inside
  its buffer, never moves it backwards and counts every bit it moves over (\<open>op_forward\<close>), so that the loop
  over the fragments of a list comes to its end.
\<close>

definition pd_forward :: "bit_data \<Rightarrow> bit_data \<Rightarrow> bool" where
  "pd_forward pd pd' \<longleftrightarrow> (pd_ok pd \<longrightarrow> pd_ok pd' \<and> pd_left pd' \<le> pd_left pd
      \<and> pd_moved pd' + of_nat (pd_left pd') = pd_moved pd + of_nat (pd_left pd)) \<and> pd_rem pd' \<le> pd_rem pd"

lemma pd_forward_refl [simp]: "pd_forward pd pd"
  by (simp add: pd_forward_def)

lemma pd_forward_trans: "pd_forward a b \<Longrightarrow> pd_forward b c \<Longrightarrow> pd_forward a c"
  by (auto simp: pd_forward_def)

section \<open>The primitives\<close>

lemma pd_norm_left:
  assumes "pd_ok pd"
  shows "pd_left (pd_norm pd) = pd_left pd"
proof -
  have "8 * (l - q) - m = 8 * l - n" if "8 * q + m = n" for l q m n :: nat
    using that by linarith
  from this [OF mult_div_mod_eq] show ?thesis by (simp add: pd_left_def pd_norm_def)
qed

lemma pd_adv_left:
  assumes "pd_ok pd" and "0 \<le> n" and "nat n \<le> pd_rem pd"
  shows "pd_left (pd_adv pd n) + nat n = pd_left pd" and "pd_moved (pd_adv pd n) = pd_moved pd + of_nat (nat n)"
proof -
  have ok: "pd_ok (pd_norm pd)" and "nat n \<le> pd_rem (pd_norm pd)"
    using pd_norm_facts(1, 4) [OF assms(1)] assms(3) by (simp_all add: pd_rem_def)
  then show "pd_left (pd_adv pd n) + nat n = pd_left pd"
    using pd_norm_left [OF assms(1)] assms(2) by (simp add: pd_adv_def Let_def pd_left_def pd_ok_def pd_rem_def) linarith
  show "pd_moved (pd_adv pd n) = pd_moved pd + of_nat (nat n)"
    using assms(2) by (simp add: pd_adv_def Let_def pd_norm_def)
qed

lemma get_few_bits_forward: "asn_get_few_bits pd n = (v, pd') \<Longrightarrow> pd_forward pd pd'"
proof -
  assume get: "asn_get_few_bits pd n = (v, pd')"
  have "pd' = pd \<or> pd' = pd_norm pd \<or> 0 \<le> n \<and> nat n \<le> pd_rem pd \<and> pd' = pd_adv pd n"
    using get get_undo_adv [of n pd] unfolding asn_get_few_bits.simps [of pd n]
    by (auto simp: pd_rem_def Let_def split: if_split_asm prod.splits)
  then consider "pd' = pd" | "pd' = pd_norm pd" | "0 \<le> n" "nat n \<le> pd_rem pd" "pd' = pd_adv pd n" by blast
  then have "pd_ok pd' \<and> pd_left pd' \<le> pd_left pd \<and> pd_moved pd' + of_nat (pd_left pd') = pd_moved pd + of_nat (pd_left pd)"
    if ok: "pd_ok pd"
  proof cases
    case 2
    then show ?thesis using pd_norm_facts(1) [OF ok] pd_norm_left [OF ok] by (simp add: pd_norm_def)
  next
    case 3
    note left = pd_adv_left [OF ok 3(1,2)]
    have "pd_ok (pd_adv pd n)" using pd_adv_facts(1) [OF ok 3(1)] 3(1,2) by (simp add: length_pd_bits [OF ok] pd_rem_def)
    moreover have "(of_nat (pd_left pd) :: u64) = of_nat (pd_left (pd_adv pd n)) + of_nat (nat n)"
      unfolding left(1) [symmetric] by simp
    ultimately show ?thesis using left(2) 3(3) left(1) [symmetric] by simp
  qed (use ok in simp)
  with get_few_bits_rem(1) [OF get] show ?thesis by (simp add: pd_forward_def)
qed

lemma get_many_bits_loop_forward: "asn_get_many_bits_loop pd n = (r, dst, pd') \<Longrightarrow> pd_forward pd pd'"
proof (induction pd n arbitrary: r dst rule: asn_get_many_bits_loop.induct)
  case (1 pd n)
  obtain v1 pd1 where g1: "asn_get_few_bits pd 24 = (v1, pd1)" by fastforce
  obtain v2 pd2 where g2: "asn_get_few_bits pd n = (v2, pd2)" by fastforce
  note f = get_few_bits_forward [OF g1] get_few_bits_forward [OF g2]
  consider "n = 0" | "24 \<le> n" | "n \<noteq> 0" "n < 24" by linarith
  then show ?case
  proof cases
    case 1
    with "1.prems" show ?thesis by (simp add: asn_get_many_bits_loop.simps [of pd 0])
  next
    case 2
    then show ?thesis
      using "1.prems" "1.IH"(1) [OF _ _ g1 [symmetric] refl] g1 f(1) pd_forward_trans
      by (auto simp: asn_get_many_bits_loop.simps [of pd n] split: if_split_asm prod.splits)
  next
    case 3
    then show ?thesis
      using "1.prems" g2 f(2) by (auto simp: asn_get_many_bits_loop.simps [of pd n] Let_def split: if_split_asm)
  qed
qed

lemma get_many_bits_forward: "asn_get_many_bits pd alright n = (r, dst, pd') \<Longrightarrow> pd_forward pd pd'"
  unfolding asn_get_many_bits_def
  by (auto split: if_split_asm prod.splits dest!: get_few_bits_forward get_many_bits_loop_forward intro: pd_forward_trans)

lemma get_align_forward: "aper_get_align pd = (r, pd') \<Longrightarrow> pd_forward pd pd'"
  by (auto simp: aper_get_align_def split: if_split_asm dest: get_few_bits_forward)

lemma get_nsnnwn_forward: "aper_get_nsnnwn pd rng = (v, pd') \<Longrightarrow> pd_forward pd pd'"
  unfolding aper_get_nsnnwn_def Let_def
  by (auto split: if_split_asm prod.splits dest!: get_few_bits_forward get_align_forward intro: pd_forward_trans)

lemma uper_get_nsnnwn_forward: "uper_get_nsnnwn pd = (v, pd') \<Longrightarrow> pd_forward pd pd'"
  unfolding uper_get_nsnnwn_def Let_def
  by (auto split: if_split_asm prod.splits dest!: get_few_bits_forward intro: pd_forward_trans)

text \<open>A length that more fragments follow takes an octet off the stream.\<close>

lemma get_length_forward: "aper_get_length pd rng ebits = (len, repeat, pd') \<Longrightarrow> pd_forward pd pd'"
  unfolding aper_get_length_def Let_def
  by (auto split: if_split_asm prod.splits dest!: get_few_bits_forward get_align_forward get_nsnnwn_forward intro: pd_forward_trans)

lemma get_length_repeat:
  assumes "aper_get_length pd rng ebits = (len, True, pd')"
  shows "pd_rem pd' < pd_rem pd"
proof -
  obtain a pd1 where a: "aper_get_align pd = (a, pd1)" by fastforce
  obtain v pd2 where v: "asn_get_few_bits pd1 8 = (v, pd2)" by fastforce
  have "pd_rem pd1 \<le> pd_rem pd" using get_align_forward [OF a] by (simp add: pd_forward_def)
  moreover have "v \<noteq> -1 \<and> pd' = pd2"
    using assms a v unfolding aper_get_length_def by (auto simp: Let_def split: if_split_asm prod.splits)
  ultimately show ?thesis using get_few_bits_rem(2) [OF v] by simp
qed

lemma get_nslength_forward: "aper_get_nslength pd = (v, pd') \<Longrightarrow> pd_forward pd pd'"
  unfolding aper_get_nslength_def Let_def
  by (auto split: if_split_asm prod.splits dest!: get_few_bits_forward get_length_forward intro: pd_forward_trans)

lemma open_type_chunks_forward: "open_type_chunks alloc_ok pv buf n pd = (code, bs, pd') \<Longrightarrow> pv = APER \<Longrightarrow> pd_forward pd pd'"
proof (induction alloc_ok pv buf n pd arbitrary: code bs rule: open_type_chunks.induct)
  case (1 alloc_ok pv buf n pd)
  obtain len repeat pd1 where l: "open_type_get_length pv pd = (len, repeat, pd1)" by (metis prod_cases3)
  obtain r dst pd2 where g: "asn_get_many_bits pd1 False (push_bit 3 len) = (r, dst, pd2)" by (metis prod_cases3)
  have "pd_forward pd pd1" using l get_length_forward "1.prems"(2) by (simp add: open_type_get_length_def)
  moreover have "pd_forward pd1 pd2" by (rule get_many_bits_forward [OF g])
  ultimately have f: "pd_forward pd pd1" "pd_forward pd pd2" using pd_forward_trans by blast+
  note run = "1.prems"(1) [unfolded open_type_chunks.simps [of alloc_ok pv buf n pd] l prod.case Let_def g]
  let ?grow = "n < length buf + nat len"
  let ?n = "if ?grow then nat len + push_bit 2 n else n"
  show ?case
  proof (cases "\<not> len < 0 \<and> \<not> (?grow \<and> \<not> alloc_ok ?n) \<and> r = 0 \<and> repeat")
    case True
    then have ok: "\<not> len < 0" "\<not> (?grow \<and> \<not> alloc_ok ?n)" "\<not> r \<noteq> 0" repeat by blast+
    moreover from run have "open_type_chunks alloc_ok pv (buf @ dst) ?n pd2 = (code, bs, pd')"
      unfolding if_not_P [OF ok(1)] if_not_P [OF ok(2)] if_not_P [OF ok(3)] if_P [OF ok(4)] .
    ultimately have "pd_forward pd2 pd'"
      by (intro "1.IH" [OF l [symmetric] refl refl _ refl refl refl _ g [symmetric] refl refl _ _ _ "1.prems"(2)])
    with f(2) show ?thesis by (rule pd_forward_trans)
  next
    case False
    then consider "len < 0" | "?grow \<and> \<not> alloc_ok ?n" | "r \<noteq> 0" | "\<not> repeat" by blast
    then have "pd' = pd1 \<or> pd' = pd2" by cases (use run in \<open>auto split: if_split_asm\<close>)
    with f show ?thesis by blast
  qed
qed

section \<open>A calculus\<close>

text \<open>
  The decoders are nests of readers whose results are tuples ending in the stream. One rule per
  construct takes the fact that the stream has moved forward from the start inside.
\<close>

definition forward2 :: "bit_data \<Rightarrow> 'a \<times> bit_data \<Rightarrow> bool" where
  "forward2 pd r \<longleftrightarrow> pd_forward pd (snd r)"

definition forward3 :: "bit_data \<Rightarrow> 'a \<times> 'b \<times> bit_data \<Rightarrow> bool" where
  "forward3 pd r \<longleftrightarrow> pd_forward pd (snd (snd r))"

lemma forward_pair: "pd_forward pd pd1 \<Longrightarrow> forward2 pd (a, pd1)" and forward_triple: "pd_forward pd pd1 \<Longrightarrow> forward3 pd (a, b, pd1)"
  by (simp_all add: forward2_def forward3_def)

lemma forward_if: "forward2 pd x \<Longrightarrow> forward2 pd y \<Longrightarrow> forward2 pd (if c then x else y)"
  "forward3 pd u \<Longrightarrow> forward3 pd v \<Longrightarrow> forward3 pd (if c then u else v)"
  by simp_all

lemma forward_option: "forward2 pd x \<Longrightarrow> (\<And>a. forward2 pd (f a)) \<Longrightarrow> forward2 pd (case z of None \<Rightarrow> x | Some a \<Rightarrow> f a)"
  "forward3 pd u \<Longrightarrow> (\<And>a. forward3 pd (g a)) \<Longrightarrow> forward3 pd (case z of None \<Rightarrow> u | Some a \<Rightarrow> g a)"
  by (simp_all split: option.split)

lemma forward_bind2: "forward2 pd r \<Longrightarrow> (\<And>a pd1. pd_forward pd pd1 \<Longrightarrow> forward2 pd (f a pd1)) \<Longrightarrow> forward2 pd (case r of (a, pd1) \<Rightarrow> f a pd1)"
  "forward2 pd r \<Longrightarrow> (\<And>a pd1. pd_forward pd pd1 \<Longrightarrow> forward3 pd (g a pd1)) \<Longrightarrow> forward3 pd (case r of (a, pd1) \<Rightarrow> g a pd1)"
  by (cases r; simp add: forward2_def)+

lemma forward_bind3: "forward3 pd r \<Longrightarrow> (\<And>a b pd1. pd_forward pd pd1 \<Longrightarrow> forward2 pd (f a b pd1)) \<Longrightarrow>
    forward2 pd (case r of (a, b, pd1) \<Rightarrow> f a b pd1)"
  "forward3 pd r \<Longrightarrow> (\<And>a b pd1. pd_forward pd pd1 \<Longrightarrow> forward3 pd (g a b pd1)) \<Longrightarrow>
    forward3 pd (case r of (a, b, pd1) \<Rightarrow> g a b pd1)"
  by (cases r; simp add: forward3_def)+

lemma forward_bind: "forward3 pd r \<Longrightarrow> (\<And>a s. forward2 pd s \<Longrightarrow> forward3 pd (g a s)) \<Longrightarrow> forward3 pd (case r of (a, s) \<Rightarrow> g a s)"
  by (cases r) (simp add: forward2_def forward3_def)

text \<open>Tuples without a stream.\<close>

lemma forward_plain: "(\<And>a b. forward2 pd (f a b)) \<Longrightarrow> forward2 pd (case r of (a, b) \<Rightarrow> f a b)"
  "(\<And>a b. forward3 pd (g a b)) \<Longrightarrow> forward3 pd (case r of (a, b) \<Rightarrow> g a b)"
  by (simp_all split: prod.split)

lemma forward_step: "forward2 pd1 r \<Longrightarrow> pd_forward pd pd1 \<Longrightarrow> forward2 pd r" "forward3 pd1 t \<Longrightarrow> pd_forward pd pd1 \<Longrightarrow> forward3 pd t"
  by (auto simp: forward2_def forward3_def intro: pd_forward_trans)

lemma forward_code: "forward3 pd x \<Longrightarrow> forward3 pd y \<Longrightarrow> forward3 pd z \<Longrightarrow>
    forward3 pd (case c of RC_OK \<Rightarrow> x | RC_WMORE \<Rightarrow> y | RC_FAIL \<Rightarrow> z)"
  by (cases c) simp_all

lemma open_type_get_forward3: "forward3 pd (aper_open_type_get alloc_ok dec sptr pd)"
proof -
  have "forward3 pd (open_type_chunks alloc_ok APER [] 0 pd)"
    by (metis forward3_def prod.collapse open_type_chunks_forward)
  then show ?thesis unfolding aper_open_type_get_def open_type_get_simple_def Let_def
    by (elim forward_bind3) (rule forward_code forward_plain forward_if forward_triple | assumption)+
qed

lemma open_type_get_forward: "aper_open_type_get alloc_ok dec sptr pd = (rv, v, pd') \<Longrightarrow> pd_forward pd pd'"
  using open_type_get_forward3 [of pd alloc_ok dec sptr] by (simp add: forward3_def)

lemma open_type_skip_forward: "aper_open_type_skip alloc_ok pd = (r, pd') \<Longrightarrow> pd_forward pd pd'"
  unfolding aper_open_type_skip_def by (auto split: prod.splits dest!: open_type_get_forward)

lemma forward2_primitives:
  "forward2 pd (asn_get_few_bits pd n)" "forward2 pd (aper_get_align pd)" "forward2 pd (aper_get_nsnnwn pd rng)"
  "forward2 pd (uper_get_nsnnwn pd)" "forward2 pd (aper_get_nslength pd)" "forward2 pd (aper_open_type_skip alloc_ok pd)"
  using get_few_bits_forward get_align_forward get_nsnnwn_forward uper_get_nsnnwn_forward get_nslength_forward open_type_skip_forward
  by (metis forward2_def prod.collapse)+

lemma forward3_primitives:
  "forward3 pd (asn_get_many_bits pd alright n)" "forward3 pd (aper_get_length pd rng ebits)"
  "forward3 pd (open_type_chunks alloc_ok APER buf k pd)" "forward3 pd (aper_open_type_get alloc_ok dec sptr pd)"
  using get_many_bits_forward get_length_forward open_type_chunks_forward [OF _ refl] open_type_get_forward
  by (metis forward3_def prod.collapse)+

lemmas forward_rules = pd_forward_refl forward_pair forward_triple forward_if forward_option forward_code forward_bind3 forward_bind2 forward_bind
  forward2_primitives [THEN forward_step(1)] forward3_primitives [THEN forward_step(2)] forward_plain

section \<open>The types\<close>

lemma get_octets_forward: "forward2 pd (get_octets n acc pd)"
proof (induction n arbitrary: acc pd)
  case (Suc n)
  show ?case unfolding get_octets.simps Let_def
    by (rule forward_rules | assumption | rule Suc.IH [THEN forward_step(1)])+
qed (simp add: forward2_def)

lemma INTEGER_forward: "forward3 pd (INTEGER_decode_aper uns ct pd)"
proof -
  have "forward3 pd (INTEGER_get_constrained uns rb lb pd)" for rb lb pd
    unfolding INTEGER_get_constrained_def Let_def
    by (rule forward_rules | assumption | rule get_octets_forward [THEN forward_step(1)])+
  note constrained = this [THEN forward_step(2)]
  show ?thesis unfolding INTEGER_decode_aper_def Let_def
    by (rule forward_rules | assumption | rule constrained)+
qed

lemma NativeInteger_forward: "forward3 pd (NativeInteger_decode_aper uns ct native pd)"
  unfolding NativeInteger_decode_aper_def Let_def by (rule forward_rules | assumption | rule INTEGER_forward)+

lemma NativeEnumerated_forward: "forward3 pd (NativeEnumerated_decode_aper specs td ct native pd)"
proof -
  have "pd_forward pd pd1 \<Longrightarrow> pd_forward pd (if c then snd (asn_get_few_bits pd1 n) else pd1)" for pd1 c n
    using forward2_primitives(1) [of pd1 n] by (auto simp: forward2_def intro: pd_forward_trans)
  note padding = this
  show ?thesis unfolding NativeEnumerated_decode_aper_def Let_def
    by (rule forward_rules | assumption | rule padding)+
qed

lemma get_chars_forward: "forward3 pd (get_chars conv bpc unit_bits units pd)"
proof (induction units arbitrary: pd)
  case (Suc units)
  show ?case unfolding get_chars.simps Let_def
    by (rule forward_rules | assumption | rule Suc.IH [THEN forward_step(2)])+
qed (simp add: forward3_def)

lemma STRING_forward: "forward3 pd (OCTET_STRING_decode_aper subvariant td ct pd)"
proof -
  have "forward3 pd (OCTET_STRING_per_get_characters pd units bpc unit_bits lb ub pc)" for pd units bpc unit_bits lb ub pc
    unfolding OCTET_STRING_per_get_characters_def Let_def
    by (rule forward_rules | assumption | rule get_chars_forward)+
  note characters = this [THEN forward_step(2)]
  show ?thesis unfolding OCTET_STRING_decode_aper_def Let_def
    by (rule forward_rules | assumption | rule characters)+
qed

text \<open>Constructed types, from their members.\<close>

definition op_forward :: "'k per_op \<Rightarrow> bool" where
  "op_forward op \<longleftrightarrow> (\<forall>ct pd. forward3 pd (op_decode op ct pd)) \<and> (\<forall>alt pd. forward3 pd (op_open_get op alt pd))"

lemma op_forwardD: "op_forward op \<Longrightarrow> forward3 pd (op_decode op ct pd)" "op_forward op \<Longrightarrow> forward3 pd (op_open_get op alt pd)"
  unfolding op_forward_def by blast+

lemma root_loop_forward:
  assumes "\<forall>(edx, elm) \<in> set elms. op_forward (mb_type elm)"
  shows "forward3 pd (SEQUENCE_root_loop specs elms opmd st pd)"
  using assms
proof (induction elms arbitrary: opmd st pd)
  case (Cons e elms)
  obtain edx elm where e: "e = (edx, elm)" by (cases e)
  with Cons.prems have elm: "op_forward (mb_type elm)" and "\<forall>(edx, elm) \<in> set elms. op_forward (mb_type elm)" by auto
  then have IH: "forward3 pd (SEQUENCE_root_loop specs elms opmd st pd)" for opmd st pd using Cons.IH by blast
  note op = op_forwardD(1) [OF elm] op_forwardD(2) [OF elm]
  show ?case unfolding e SEQUENCE_root_loop.simps Let_def
    by (rule op IH [THEN forward_step(2)] forward_rules | assumption)+
qed (simp add: forward3_def)

lemma extension_loop_forward: "forward3 pd (SEQUENCE_extension_loop elms epmd st pd)"
proof (induction elms arbitrary: epmd st pd)
  case (Cons e elms)
  obtain edx elm where e: "e = (edx, elm)" by (cases e)
  show ?case unfolding e SEQUENCE_extension_loop.simps Let_def
    by (rule forward_plain(2), (rule Cons.IH [THEN forward_step(2)] forward_rules | assumption)+)
qed (simp add: forward3_def)

lemma skip_overflow_forward: "forward2 pd (SEQUENCE_skip_overflow epmd pd)"
proof (induction epmd pd rule: SEQUENCE_skip_overflow.induct)
  case (1 epmd pd)
  obtain p epmd1 where g: "asn_get_few_bits epmd 1 = (p, epmd1)" by fastforce
  show ?case
    using "1.IH" [OF g [symmetric] refl] forward2_primitives(6)
    by (simp add: SEQUENCE_skip_overflow.simps [of epmd pd] g forward_pair)
qed

lemma SEQUENCE_forward:
  assumes "\<forall>m \<in> set ms. op_forward (mb_type m)"
  shows "forward3 pd (SEQUENCE_decode_aper specs ms pd)"
proof -
  have "\<forall>(edx, elm) \<in> set (enumerate 0 ms). op_forward (mb_type elm)"
    using assms by (auto simp: enumerate_eq_zip dest: set_zip_rightD)
  note loops = root_loop_forward [OF this, THEN forward_step(2)] extension_loop_forward [THEN forward_step(2)]
    skip_overflow_forward [THEN forward_step(1)]
  have sum: "forward3 pd r \<Longrightarrow> (\<And>a b pd1. pd_forward pd pd1 \<Longrightarrow> forward3 pd (f a b pd1)) \<Longrightarrow> (\<And>a b pd1. pd_forward pd pd1 \<Longrightarrow> forward3 pd (g a b pd1))
    \<Longrightarrow> forward3 pd (case r of (Inl a, b, pd1) \<Rightarrow> f a b pd1 | (Inr a, b, pd1) \<Rightarrow> g a b pd1)" for r f g
    by (cases r; simp add: forward3_def split: sum.split)
  show ?thesis unfolding SEQUENCE_decode_aper_def Let_def
    by (rule loops sum forward_rules | assumption)+
qed

lemma decode_elements_forward:
  assumes "\<And>pd. forward3 pd (dec pd)"
  shows "forward3 pd (decode_elements dec n rv acc pd)"
proof (induction n arbitrary: rv acc pd)
  case (Suc n)
  show ?case unfolding decode_elements.simps Let_def
    by (rule assms Suc.IH [THEN forward_step(2)] forward_rules | assumption)+
qed (simp add: forward3_def)

text \<open>One unit of fuel for every bit that is left, and one more, is enough for the loop over fragments.\<close>

lemma decode_fragments_enough:
  assumes "\<And>pd. forward3 pd (dec pd)" and "pd_rem pd < fuel"
  shows "\<exists>r. decode_fragments fuel rng ebits dec rv acc pd = Some r \<and> forward3 pd r"
  using assms(2)
proof (induction fuel arbitrary: rv acc pd)
  case (Suc fuel)
  obtain n repeat pd1 where l: "aper_get_length pd rng ebits = (n, repeat, pd1)" by (metis prod_cases3)
  obtain rv1 acc1 pd2 where e: "decode_elements dec (nat n) rv acc pd1 = (rv1, acc1, pd2)" by (metis prod_cases3)
  have f1: "pd_forward pd pd1" by (rule get_length_forward [OF l])
  have "pd_forward pd1 pd2" using decode_elements_forward [OF assms(1), of pd1 "nat n" rv acc] e by (simp add: forward3_def)
  with f1 have f2: "pd_forward pd pd2" and r2: "pd_rem pd2 \<le> pd_rem pd1" by (auto simp: pd_forward_def)
  show ?case
  proof (cases "0 \<le> n \<and> rv_code rv1 = RC_OK \<and> repeat")
    case False
    then show ?thesis using f1 f2 by (auto simp: l e forward3_def)
  next
    case True
    then have "pd_rem pd1 < pd_rem pd" using l get_length_repeat by auto
    then have "pd_rem pd2 < fuel" using r2 Suc.prems by linarith
    from Suc.IH [OF this, of rv1 acc1] obtain r where "decode_fragments fuel rng ebits dec rv1 acc1 pd2 = Some r" "forward3 pd2 r" by blast
    then have "forward3 pd r" using forward_step(2) [OF _ f2] by blast
    with \<open>decode_fragments fuel rng ebits dec rv1 acc1 pd2 = Some r\<close> True show ?thesis by (auto simp: l e)
  qed
qed simp

lemma SET_OF_forward:
  assumes "op_forward (mb_type m)"
  shows "forward3 pd (SET_OF_decode_aper td m ct pd)"
proof -
  let ?dec = "op_decode (mb_type m) (mb_constraints m)"
  have dec: "forward3 pd (?dec pd)" for pd by (rule op_forwardD(1) [OF assms])
  have loop: "forward3 pd (case decode_fragments (Suc (pd_rem pd)) rng ebits ?dec per_ok [] pd of
      None \<Rightarrow> (ASN__DECODE_FAILED, V_list [], pd) | Some (rv, acc, pd1) \<Rightarrow> (list_end rv, V_list acc, pd1))" for rng ebits pd
  proof -
    obtain rv acc pd1 where "decode_fragments (Suc (pd_rem pd)) rng ebits ?dec per_ok [] pd = Some (rv, acc, pd1)"
      and "forward3 pd (rv, acc, pd1)"
      using decode_fragments_enough [where dec = ?dec and pd = pd and fuel = "Suc (pd_rem pd)", OF dec] by (metis lessI prod_cases3)
    then show ?thesis by (simp add: forward3_def)
  qed
  note loops = loop [THEN forward_step(2)] decode_elements_forward [of ?dec, OF dec, THEN forward_step(2)]
  show ?thesis unfolding SET_OF_decode_aper_def Let_def by (rule loops forward_rules | assumption)+
qed

lemma CHOICE_forward:
  assumes "\<forall>m \<in> set ms. op_forward (mb_type m)" and undef: "\<And>pd. forward3 pd (undef pd)"
  shows "forward3 pd (CHOICE_decode_aper undef td specs ms ct pd)"
proof -
  have finish: "forward3 pd (if length ms \<le> i then undef pd
      else case if root then op_decode (mb_type (ms ! i)) (mb_constraints (ms ! i)) pd
        else aper_open_type_get (\<lambda>_. True) (op_decode (mb_type (ms ! i)) (mb_constraints (ms ! i))) sptr pd of
          (rv, v, pd1) \<Rightarrow> (rv, V_choice (Suc i) v, pd1))" for i root sptr pd
  proof (cases "length ms \<le> i")
    case False
    then have "op_forward (mb_type (ms ! i))" using assms(1) by simp
    note op = op_forwardD(1) [OF this]
    show ?thesis unfolding if_not_P [OF False] by (rule op forward_rules | assumption)+
  qed (simp add: undef)
  show ?thesis unfolding CHOICE_decode_aper_def Let_def
    by (rule finish [THEN forward_step(2)] undef [THEN forward_step(2)] forward_rules | assumption)+
qed

lemma OPEN_TYPE_forward:
  assumes undef: "\<And>pd. forward3 pd (undef pd)"
  shows "forward3 pd (open_get_OPEN_TYPE undef elements types alt pd)"
proof -
  have opened: "pd_forward pd pd1" if "OPEN_TYPE_aper_get alloc_ok sel els zero decs c choice pd = Some (rv, y, pd1)"
    for alloc_ok sel els zero decs c choice rv y pd1
    using that unfolding OPEN_TYPE_aper_get_def
    by (auto split: prod.splits if_split_asm dest: open_type_get_forward)
  have "forward3 pd (case r of Some (rv, (k, x), pd1) \<Rightarrow> (rv, V_choice k x, pd1) | None \<Rightarrow> undef pd)"
    if "\<And>rv y pd1. r = Some (rv, y, pd1) \<Longrightarrow> pd_forward pd pd1" for r
    using that undef by (auto simp: forward3_def split: option.split)
  from this [OF opened] show ?thesis unfolding open_get_OPEN_TYPE_def .
qed

text \<open>The tables of operations.\<close>

lemma op_forwardI: "(\<And>ct pd. forward3 pd (op_decode op ct pd)) \<Longrightarrow> (\<And>alt pd. forward3 pd (op_open_get op alt pd)) \<Longrightarrow> op_forward op"
  unfolding op_forward_def by blast

lemma scalar_ops_forward:
  assumes undef: "\<And>pd. forward3 pd (undef pd)"
  shows "op_forward (asn_OP_NativeInteger out undef uns td)" "op_forward (asn_OP_INTEGER out undef uns td)"
    "op_forward (asn_OP_NativeEnumerated out undef specs td)" "op_forward (asn_OP_STRING out undef subvariant td)"
proof -
  have result: "forward3 pd r \<Longrightarrow> forward3 pd (case r of (rv, x, pd1) \<Rightarrow> (rv, f x, pd1))" for pd r f
    by (cases r) (simp add: forward3_def)
  note ops = result [OF NativeInteger_forward] result [OF INTEGER_forward] result [OF NativeEnumerated_forward] result [OF STRING_forward]
  show "op_forward (asn_OP_NativeInteger out undef uns td)" "op_forward (asn_OP_INTEGER out undef uns td)"
    "op_forward (asn_OP_NativeEnumerated out undef specs td)" "op_forward (asn_OP_STRING out undef subvariant td)"
    by (simp_all add: op_forward_def asn_OP_NativeInteger_def asn_OP_INTEGER_def asn_OP_NativeEnumerated_def asn_OP_STRING_def undef ops)
qed

lemma constructed_ops_forward:
  assumes undef: "\<And>pd. forward3 pd (undef pd)"
  shows "\<forall>m \<in> set ms. op_forward (mb_type m) \<Longrightarrow> op_forward (asn_OP_SEQUENCE tmp out undef sspecs ms)"
    "op_forward (mb_type m) \<Longrightarrow> op_forward (asn_OP_SEQUENCE_OF out undef td m)"
    "\<forall>m \<in> set ms. op_forward (mb_type m) \<Longrightarrow> op_forward (asn_OP_CHOICE tmp out undef td cspecs ms)"
    "op_forward (asn_OP_OPEN_TYPE tmp out undef elements types)"
  unfolding asn_OP_SEQUENCE_def asn_OP_SEQUENCE_OF_def asn_OP_CHOICE_def asn_OP_OPEN_TYPE_def
  by (rule op_forwardI; simp add: undef SEQUENCE_forward SET_OF_forward CHOICE_forward [of _ undef, OF _ undef] OPEN_TYPE_forward [of undef, OF undef])+

lemma per_op_forward:
  assumes undef: "\<And>pd. forward3 pd (undef pd)"
  shows "op_forward (per_op tmp out undef t)"
proof (induction t)
  case (T_SEQUENCE specs ms)
  then have "\<forall>m \<in> set (map (map_asn_TYPE_member (per_op tmp out undef)) ms). op_forward (mb_type m)"
    by (auto simp: asn_TYPE_member.map_sel intro: asn_TYPE_member.set_sel)
  then show ?case unfolding per_op.simps by (rule constructed_ops_forward(1) [of undef, OF undef])
next
  case (T_SEQUENCE_OF td m)
  then have "op_forward (mb_type (map_asn_TYPE_member (per_op tmp out undef) m))"
    by (auto simp: asn_TYPE_member.map_sel intro: asn_TYPE_member.set_sel)
  then show ?case unfolding per_op.simps by (rule constructed_ops_forward(2) [of undef, OF undef])
next
  case (T_CHOICE td specs ms)
  then have "\<forall>m \<in> set (map (map_asn_TYPE_member (per_op tmp out undef)) ms). op_forward (mb_type m)"
    by (auto simp: asn_TYPE_member.map_sel intro: asn_TYPE_member.set_sel)
  then show ?case unfolding per_op.simps by (rule constructed_ops_forward(3) [of undef, OF undef])
qed (simp_all only: per_op.simps scalar_ops_forward [of undef, OF undef] constructed_ops_forward(4) [of undef, OF undef])

end
