(* ===== verification/AsnDefined.thy ===== *)
theory AsnDefined
  imports AsnTypes
begin

text \<open>
  Where the decoders are defined. The C code calls through null pointers or reads beyond a member table
  when a descriptor's tables do not fit together; the model returns the parameter \<open>undef\<close> there.
  \<open>type_sound\<close> states what the tables must satisfy, and \<open>sound_decoders\<close> that no octets lead a decoder
  of a sound descriptor to \<open>undef\<close>.
\<close>

section \<open>Sound descriptors\<close>

type_synonym selector = "int \<Rightarrow> asn_DEF option \<times> nat"

text \<open>Whatever row is selected names a member of the union, and the type is that member's.\<close>

definition selector_sound :: "(string \<times> asn_DEF) list \<Rightarrow> selector \<Rightarrow> bool" where
  "selector_sound elements select \<longleftrightarrow>
     (\<forall>c. snd (select c) \<noteq> 0 \<longrightarrow>
        snd (select c) \<le> length elements \<and> fst (select c) = Some (snd (elements ! (snd (select c) - 1))))"

text \<open>The selector of a member; a member without one selects nothing.\<close>

definition member_select :: "'t asn_TYPE_member \<Rightarrow> selector" where
  "member_select m = (case mb_selector m of Some (i, select) \<Rightarrow> select | None \<Rightarrow> (\<lambda>_. (None, 0)))"

definition choice_sound :: "asn_per_constraint option \<Rightarrow> asn_CHOICE_specifics \<Rightarrow> nat \<Rightarrow> bool" where
  "choice_sound ct specs n \<longleftrightarrow>
     (case ct of
        None \<Rightarrow> ch_ext_start specs = -1
      | Some c \<Rightarrow> 0 \<le> pc_range_bits c \<and> (\<forall>i \<le> nat (sint (pc_upper_bound c)). canonical (ch_from_canonical_order specs) i < n)
          \<and> (pc_extensible c \<longrightarrow> (\<forall>i < n. canonical (ch_from_canonical_order specs) i < n)))"

text \<open>
  With a selector, a type is decoded as the open type of a member; without, by its own decoder, for
  which an open type has a null pointer.
\<close>

primrec type_sound :: "asn_type \<Rightarrow> asn_per_constraints option \<Rightarrow> selector option \<Rightarrow> bool" where
  "type_sound (T_NativeInteger uns td) = (\<lambda>ct select. select = None)"
| "type_sound (T_INTEGER uns td) = (\<lambda>ct select. select = None)"
| "type_sound (T_NativeEnumerated specs td) = (\<lambda>ct select. select = None)"
| "type_sound (T_STRING subvariant td) = (\<lambda>ct select. select = None)"
| "type_sound (T_SEQUENCE specs ms) = (\<lambda>ct select. select = None \<and>
     (\<forall>m \<in> set (map (map_asn_TYPE_member type_sound) ms).
        mb_type m (mb_constraints m) (if mb_flags m = ATF_OPEN_TYPE then Some (member_select m) else None)) \<and>
     (\<forall>m \<in> set (if seq_first_extension specs < 0 then [] else drop (nat (seq_first_extension specs)) ms).
        mb_flags m \<noteq> ATF_OPEN_TYPE))"
| "type_sound (T_SEQUENCE_OF td m) = (\<lambda>ct select. select = None \<and>
     mb_type (map_asn_TYPE_member type_sound m) (mb_constraints m) None)"
| "type_sound (T_CHOICE td specs ms) = (\<lambda>ct select. select = None \<and> choice_sound (value_constraint ct td) specs (length ms) \<and>
     (\<forall>m \<in> set (map (map_asn_TYPE_member type_sound) ms). mb_type m (mb_constraints m) None))"
| "type_sound (T_OPEN_TYPE elements types) = (\<lambda>ct select. case select of None \<Rightarrow> False
     | Some sel \<Rightarrow> selector_sound elements sel \<and> (\<forall>e \<in> set elements. snd e \<in> set (map fst types)) \<and>
         (\<forall>x \<in> set (map (map_prod id type_sound) types). snd x None None))"

lemma member_select_map [simp]: "member_select (map_asn_TYPE_member f m) = member_select m"
  by (simp add: member_select_def asn_TYPE_member.map_sel)

section \<open>Decoders that agree\<close>

definition dec_agree :: "asn_per_constraints option \<Rightarrow> selector option \<Rightarrow> 'k per_op \<Rightarrow> 'k per_op \<Rightarrow> bool" where
  "dec_agree ct select op op' \<longleftrightarrow> op_zero op = op_zero op' \<and>
     (case select of None \<Rightarrow> op_decode op ct = op_decode op' ct
      | Some sel \<Rightarrow> op_open_get op (None, 0) = op_open_get op' (None, 0) \<and> (\<forall>c. op_open_get op (sel c) = op_open_get op' (sel c)))"

lemma dec_agreeD: "dec_agree ct select op op' \<Longrightarrow> op_zero op = op_zero op'"
  "dec_agree ct None op op' \<Longrightarrow> op_decode op ct = op_decode op' ct"
  "dec_agree ct (Some sel) op op' \<Longrightarrow> op_open_get op (sel c) = op_open_get op' (sel c)"
  "dec_agree ct (Some sel) op op' \<Longrightarrow> op_open_get op (None, 0) = op_open_get op' (None, 0)"
  by (auto simp: dec_agree_def split: option.splits)

definition member_agree :: "'k per_op asn_TYPE_member \<Rightarrow> 'k per_op asn_TYPE_member \<Rightarrow> bool" where
  "member_agree m m' \<longleftrightarrow> mb_flags m = mb_flags m' \<and> mb_optional m = mb_optional m' \<and> mb_selector m = mb_selector m' \<and>
     mb_constraints m = mb_constraints m' \<and>
     dec_agree (mb_constraints m) (if mb_flags m = ATF_OPEN_TYPE then Some (member_select m) else None) (mb_type m) (mb_type m')"

lemma root_loop_agree:
  assumes "list_all2 (\<lambda>(i, m) (i', m'). i = i' \<and> member_agree m m') elms elms'"
  shows "SEQUENCE_root_loop specs elms = SEQUENCE_root_loop specs elms'"
  using assms
proof (induction elms elms' rule: list_all2_induct)
  case (Cons x xs y ys)
  obtain i m m' where x: "x = (i, m)" "y = (i, m')" and a: "member_agree m m'" using Cons.hyps(1) by (cases x; cases y) auto
  have same: "mb_flags m = mb_flags m'" "mb_optional m = mb_optional m'"
    using a by (simp_all add: member_agree_def)
  have "(if mb_flags m = ATF_OPEN_TYPE then op_open_get (mb_type m)
           (case mb_selector m of Some (i, select) \<Rightarrow> (case st ! i of V_long x \<Rightarrow> select (sint x) | _ \<Rightarrow> (None, 0)) | None \<Rightarrow> (None, 0)) pd
         else op_decode (mb_type m) (mb_constraints m) pd)
      = (if mb_flags m' = ATF_OPEN_TYPE then op_open_get (mb_type m')
           (case mb_selector m' of Some (i, select) \<Rightarrow> (case st ! i of V_long x \<Rightarrow> select (sint x) | _ \<Rightarrow> (None, 0)) | None \<Rightarrow> (None, 0)) pd
         else op_decode (mb_type m') (mb_constraints m') pd)" for st pd
    using a dec_agreeD(2-4) [where op = "mb_type m" and op' = "mb_type m'"]
    by (auto simp: member_agree_def member_select_def split: option.splits asn_value.splits)
  then show ?case by (intro ext) (simp only: x SEQUENCE_root_loop.simps Cons.IH same)
qed simp

lemma extension_loop_agree:
  assumes "list_all2 (\<lambda>(i, m) (i', m'). i = i' \<and> member_agree m m' \<and> mb_flags m \<noteq> ATF_OPEN_TYPE) elms elms'"
  shows "SEQUENCE_extension_loop elms = SEQUENCE_extension_loop elms'"
  using assms
proof (induction elms elms' rule: list_all2_induct)
  case (Cons x xs y ys)
  obtain i m m' where x: "x = (i, m)" "y = (i, m')" and a: "member_agree m m'" "mb_flags m \<noteq> ATF_OPEN_TYPE"
    using Cons.hyps(1) by (cases x; cases y) auto
  then have "op_decode (mb_type m) (mb_constraints m) = op_decode (mb_type m') (mb_constraints m')"
    by (auto simp: member_agree_def dest: dec_agreeD(2))
  then show ?case by (intro ext) (simp only: x SEQUENCE_extension_loop.simps Cons.IH)
qed simp

lemma member_agree_zero: "member_agree m m' \<Longrightarrow> member_zero m = member_zero m'"
  by (auto simp: member_agree_def dest: dec_agreeD(1))

lemma list_all2_enumerate: "list_all2 P xs ys \<Longrightarrow> list_all2 (\<lambda>(i, x) (j, y). i = j \<and> P x y) (enumerate k xs) (enumerate k ys)"
  by (induction xs ys arbitrary: k rule: list_all2_induct) simp_all

lemma drop_enumerate_zero: "drop n (enumerate 0 xs) = enumerate n (drop n xs)"
  by (cases "n \<le> length xs") (simp_all add: enumerate_eq_zip drop_zip)

lemma SEQUENCE_agree:
  assumes agree: "list_all2 member_agree ms ms'"
    and plain: "\<forall>m \<in> set (if seq_first_extension specs < 0 then [] else drop (nat (seq_first_extension specs)) ms). mb_flags m \<noteq> ATF_OPEN_TYPE"
  shows "SEQUENCE_decode_aper specs ms = SEQUENCE_decode_aper specs ms'"
proof
  fix pd
  let ?n = "nat (seq_first_extension specs)"
  have zero: "map member_zero ms = map member_zero ms'"
    using agree by (induction rule: list_all2_induct) (simp_all only: list.map member_agree_zero)
  have root: "SEQUENCE_root_loop specs (enumerate 0 ms) = SEQUENCE_root_loop specs (enumerate 0 ms')"
    by (intro root_loop_agree list_all2_enumerate agree)
  have extensions: "SEQUENCE_extension_loop (drop ?n (enumerate 0 ms)) = SEQUENCE_extension_loop (drop ?n (enumerate 0 ms'))"
    if "\<not> seq_first_extension specs < 0"
  proof -
    have "list_all2 (\<lambda>m m'. member_agree m m' \<and> mb_flags m \<noteq> ATF_OPEN_TYPE) (drop ?n ms) (drop ?n ms')"
      using list_all2_dropI [OF agree] by (rule list.rel_mono_strong) (use plain that in simp)
    then show ?thesis unfolding drop_enumerate_zero by (intro extension_loop_agree list_all2_enumerate)
  qed
  show "SEQUENCE_decode_aper specs ms pd = SEQUENCE_decode_aper specs ms' pd"
  proof (cases "seq_first_extension specs < 0")
    case True
    then show ?thesis unfolding SEQUENCE_decode_aper_def Let_def zero root if_P [OF True] by (auto split: prod.splits)
  next
    case False
    show ?thesis unfolding SEQUENCE_decode_aper_def Let_def zero root extensions [OF False] ..
  qed
qed

lemma SET_OF_agree:
  assumes "op_decode (mb_type m) (mb_constraints m) = op_decode (mb_type m') (mb_constraints m')"
  shows "SET_OF_decode_aper td m = SET_OF_decode_aper td m'"
  unfolding SET_OF_decode_aper_def assms ..

lemma CHOICE_agree:
  assumes "length ms = length ms'" and "map member_zero ms = map member_zero ms'"
    and "map (\<lambda>m. op_decode (mb_type m) (mb_constraints m)) ms = map (\<lambda>m. op_decode (mb_type m) (mb_constraints m)) ms'"
    and sound: "choice_sound (value_constraint ct td) specs (length ms)"
  shows "CHOICE_decode_aper undef td specs ms ct = CHOICE_decode_aper undef' td specs ms' ct"
proof
  fix pd0
  have same: "op_decode (mb_type (ms ! j)) (mb_constraints (ms ! j)) = op_decode (mb_type (ms' ! j)) (mb_constraints (ms' ! j))"
    "member_zero (ms ! j) = member_zero (ms' ! j)" if "j < length ms" for j
    using arg_cong [OF assms(3), of "\<lambda>xs. xs ! j"] arg_cong [OF assms(2), of "\<lambda>xs. xs ! j"] assms(1) that by simp_all
  let ?order = "canonical (ch_from_canonical_order specs)"
  let ?finish = "\<lambda>undef ms root i pd. if length ms \<le> ?order i then undef pd
      else let (rv, v, pd1) = (if root then op_decode (mb_type (ms ! ?order i)) (mb_constraints (ms ! ?order i)) pd
                else aper_open_type_get (\<lambda>_. True) (op_decode (mb_type (ms ! ?order i)) (mb_constraints (ms ! ?order i)))
                       (member_zero (ms ! ?order i)) pd)
           in (rv, V_choice (Suc (?order i)) v, pd1)"
  have finish: "?finish undef ms root i pd = ?finish undef' ms' root i pd" if "?order i < length ms" for root i pd
    using that assms(1) by (simp add: same [OF that])
  show "CHOICE_decode_aper undef td specs ms ct pd0 = CHOICE_decode_aper undef' td specs ms' ct pd0"
  proof (cases "value_constraint ct td")
    case None
    with sound show ?thesis by (simp add: CHOICE_decode_aper_def choice_sound_def)
  next
    case (Some c)
    obtain inext pd where i: "(if pc_extensible c then asn_get_few_bits pd0 1 else (0, pd0)) = (inext, pd)" by fastforce
    have bits: "0 \<le> pc_range_bits c" and root: "j \<le> nat (sint (pc_upper_bound c)) \<Longrightarrow> ?order j < length ms" for j
      using sound Some by (auto simp: choice_sound_def)
    have beyond: "?order j < length ms" if "inext \<noteq> 0" "j < length ms" for j
      using sound Some i that by (auto simp: choice_sound_def split: if_split_asm)
    show ?thesis
    proof (cases "inext = 0")
      case True
      obtain val pd1 where v: "asn_get_few_bits pd (pc_range_bits c) = (val, pd1)" by fastforce
      have "?finish undef ms True (nat val) pd1 = ?finish undef' ms' True (nat val) pd1" if "val \<le> sint (pc_upper_bound c)"
        using that by (intro finish root nat_mono)
      then show ?thesis using bits by (simp add: CHOICE_decode_aper_def Some i True v Let_def)
    next
      case False
      obtain n pd1 where v: "aper_get_nsnnwn pd (pc_range_bits c) = (n, pd1)" by fastforce
      let ?val = "n + ch_ext_start specs"
      have "?finish undef ms False (nat ?val) pd1 = ?finish undef' ms' False (nat ?val) pd1"
        if "0 \<le> ?val" "?val < int (length ms)"
        using that by (intro finish beyond [OF False]) linarith
      then show ?thesis using assms(1) by (simp add: CHOICE_decode_aper_def Some i False v Let_def)
    qed
  qed
qed

lemma OPEN_TYPE_agree:
  assumes sound: "selector_sound elements sel" and known: "\<forall>e \<in> set elements. snd e \<in> set (map fst types)"
    and "map fst types = map fst types'"
    and "map (\<lambda>x. op_decode (snd x) None) types = map (\<lambda>x. op_decode (snd x) None) types'"
  shows "open_get_OPEN_TYPE undef elements types (sel c) = open_get_OPEN_TYPE undef' elements types' (sel c)"
proof -
  have lookup: "map_option (\<lambda>op. op_decode op None) (map_of types d) = map_option (\<lambda>op. op_decode op None) (map_of types' d)" for d
    using assms(3,4)
  proof (induction types types' rule: list_induct2')
    case (4 x xs y ys)
    then show ?case by (cases x; cases y) simp
  qed simp_all
  have "(case map_of types d of Some op \<Rightarrow> op_decode op None | None \<Rightarrow> undef)
      = (case map_of types' d of Some op \<Rightarrow> op_decode op None | None \<Rightarrow> undef')" if d: "d \<in> fst ` set types" for d
  proof -
    obtain op where "map_of types d = Some op" using d by (cases "map_of types d") (auto simp: map_of_eq_None_iff)
    then show ?thesis using lookup [of d] by (auto split: option.split)
  qed
  note same = this
  obtain ty k where k: "sel c = (ty, k)" by fastforce
  show ?thesis
  proof (cases "k = 0")
    case True
    then show ?thesis
      by (intro ext) (simp add: open_get_OPEN_TYPE_def OPEN_TYPE_aper_get_def k)
  next
    case False
    with sound k have le: "k \<le> length elements" and ty: "ty = Some (snd (elements ! (k - 1)))"
      by (auto simp: selector_sound_def dest: spec [of _ c])
    then have "snd (elements ! (k - 1)) \<in> fst ` set types" using known False by simp
    note decs = same [OF this]
    show ?thesis
    proof
      fix pd
      obtain rv v pd1 where "aper_open_type_get (\<lambda>_. True) (case map_of types' (snd (elements ! (k - 1))) of
          Some op \<Rightarrow> op_decode op None | None \<Rightarrow> undef') V_none pd = (rv, v, pd1)" by (metis prod_cases3)
      with le show "open_get_OPEN_TYPE undef elements types (sel c) pd = open_get_OPEN_TYPE undef' elements types' (sel c) pd"
        by (simp add: open_get_OPEN_TYPE_def OPEN_TYPE_aper_get_def k False ty decs [unfolded One_nat_def] CHOICE_variant_set_presence_def)
    qed
  qed
qed

text \<open>
  A sound descriptor's decoder does not depend on what undefined behaviour would do.
\<close>

lemma zero_agree: "op_zero (per_op tmp out undef t) = op_zero (per_op tmp out undef' t)"
proof (induction t)
  case (T_SEQUENCE specs ms)
  then have "op_zero (per_op tmp out undef (mb_type m)) = op_zero (per_op tmp out undef' (mb_type m))" if "m \<in> set ms" for m
    using that asn_TYPE_member.set_sel by blast
  then show ?case by (simp add: asn_OP_SEQUENCE_def asn_TYPE_member.map_sel)
qed (simp_all add: asn_OP_NativeInteger_def asn_OP_INTEGER_def asn_OP_NativeEnumerated_def asn_OP_STRING_def
    asn_OP_SEQUENCE_OF_def asn_OP_CHOICE_def asn_OP_OPEN_TYPE_def)

lemma sound_agree:
  assumes "type_sound t ct select"
  shows "dec_agree ct select (per_op tmp out undef t) (per_op tmp out undef' t)"
  using assms
proof (induction t arbitrary: ct select)
  case (T_SEQUENCE specs ms)
  let ?ops = "\<lambda>undef. map (map_asn_TYPE_member (per_op tmp out undef)) ms"
  have "member_agree (map_asn_TYPE_member (per_op tmp out undef) m) (map_asn_TYPE_member (per_op tmp out undef') m)" if "m \<in> set ms" for m
  proof -
    have "type_sound (mb_type m) (mb_constraints m) (if mb_flags m = ATF_OPEN_TYPE then Some (member_select m) else None)"
      using T_SEQUENCE.prems that by (simp add: asn_TYPE_member.map_sel cong: if_cong)
    from T_SEQUENCE.IH [OF that asn_TYPE_member.set_sel this] show ?thesis
      by (simp add: member_agree_def asn_TYPE_member.map_sel cong: if_cong)
  qed
  then have "list_all2 member_agree (?ops undef) (?ops undef')"
    by (simp add: list.rel_map list.rel_refl_strong)
  moreover have "\<forall>m \<in> set (if seq_first_extension specs < 0 then [] else drop (nat (seq_first_extension specs)) (?ops undef)).
      mb_flags m \<noteq> ATF_OPEN_TYPE"
    using T_SEQUENCE.prems by (auto simp: drop_map asn_TYPE_member.map_sel split: if_split_asm)
  ultimately have "SEQUENCE_decode_aper specs (?ops undef) = SEQUENCE_decode_aper specs (?ops undef')"
    by (rule SEQUENCE_agree)
  with T_SEQUENCE.prems zero_agree [of tmp out undef "T_SEQUENCE specs ms" undef'] show ?case
    by (simp add: dec_agree_def asn_OP_SEQUENCE_def)
next
  case (T_SEQUENCE_OF td m)
  let ?op = "\<lambda>undef. map_asn_TYPE_member (per_op tmp out undef) m"
  have "op_decode (mb_type (?op undef)) (mb_constraints (?op undef)) = op_decode (mb_type (?op undef')) (mb_constraints (?op undef'))"
    using T_SEQUENCE_OF.IH [OF asn_TYPE_member.set_sel, THEN dec_agreeD(2)] T_SEQUENCE_OF.prems by (simp add: asn_TYPE_member.map_sel)
  from SET_OF_agree [OF this] T_SEQUENCE_OF.prems show ?case
    by (simp add: dec_agree_def asn_OP_SEQUENCE_OF_def)
next
  case (T_CHOICE td specs ms)
  let ?ops = "\<lambda>undef. map (map_asn_TYPE_member (per_op tmp out undef)) ms"
  have "op_decode (per_op tmp out undef (mb_type m)) (mb_constraints m) = op_decode (per_op tmp out undef' (mb_type m)) (mb_constraints m)"
    if "m \<in> set ms" for m
    using T_CHOICE.IH [OF that asn_TYPE_member.set_sel, THEN dec_agreeD(2)] T_CHOICE.prems that by (simp add: asn_TYPE_member.map_sel)
  then have "map (\<lambda>m. op_decode (mb_type m) (mb_constraints m)) (?ops undef) = map (\<lambda>m. op_decode (mb_type m) (mb_constraints m)) (?ops undef')"
    by (simp add: asn_TYPE_member.map_sel)
  moreover have "map member_zero (?ops undef) = map member_zero (?ops undef')"
    using zero_agree [of tmp out undef _ undef'] by (simp add: asn_TYPE_member.map_sel)
  ultimately have "CHOICE_decode_aper undef td specs (?ops undef) ct = CHOICE_decode_aper undef' td specs (?ops undef') ct"
    using T_CHOICE.prems by (intro CHOICE_agree) simp_all
  then show ?case using T_CHOICE.prems by (simp add: dec_agree_def asn_OP_CHOICE_def)
next
  case (T_OPEN_TYPE elements types)
  let ?ops = "\<lambda>undef. map (map_prod id (per_op tmp out undef)) types"
  from T_OPEN_TYPE.prems obtain sel where sel: "select = Some sel" "selector_sound elements sel"
    and known: "\<forall>e \<in> set elements. snd e \<in> set (map fst types)" and types: "\<And>x. x \<in> set types \<Longrightarrow> type_sound (snd x) None None" by (auto split: option.splits)
  have "op_decode (per_op tmp out undef (snd x)) None = op_decode (per_op tmp out undef' (snd x)) None" if "x \<in> set types" for x
    using T_OPEN_TYPE.IH [OF that, THEN dec_agreeD(2)] types [OF that] by (cases x) (simp add: snds.simps)
  then have "map (\<lambda>x. op_decode (snd x) None) (?ops undef) = map (\<lambda>x. op_decode (snd x) None) (?ops undef')" by simp
  moreover have "map fst (?ops undef) = map fst types" for undef by simp
  moreover have "selector_sound elements (\<lambda>_. (None, 0))" by (simp add: selector_sound_def)
  ultimately have "open_get_OPEN_TYPE undef elements (?ops undef) (sel c) = open_get_OPEN_TYPE undef' elements (?ops undef') (sel c)"
    "open_get_OPEN_TYPE undef elements (?ops undef) (None, 0) = open_get_OPEN_TYPE undef' elements (?ops undef') (None, 0)" for c
    using OPEN_TYPE_agree [where elements = elements and types = "?ops undef" and types' = "?ops undef'" and sel = sel]
      OPEN_TYPE_agree [where elements = elements and types = "?ops undef" and types' = "?ops undef'" and sel = "\<lambda>_. (None, 0)"] sel(2) known
    by simp_all
  then show ?case using sel(1) by (simp add: dec_agree_def asn_OP_OPEN_TYPE_def)
qed (auto simp: dec_agree_def asn_OP_NativeInteger_def asn_OP_INTEGER_def asn_OP_NativeEnumerated_def asn_OP_STRING_def)

lemma sound_decoders:
  "type_sound t ct None \<Longrightarrow> op_decode (per_op tmp out undef t) ct = op_decode (per_op tmp out undef' t) ct"
  by (rule dec_agreeD(2) [OF sound_agree])

end
