(* ===== verification/E2apSafety.thy ===== *)
theory E2apSafety
  imports AsnForward AsnDefined E2apRoundTrip
begin

text \<open>
  What \<^verbatim>\<open>aper_decode_complete\<close> does with octets nobody has encoded. The descriptors of E2AP are sound, all but
  RICserviceUpdate (\<open>messages_sound\<close>), so decoding is defined on any octets; it stays inside them, counts
  what it takes without tripping the runtime's assertion, and comes to its end.
\<close>

section \<open>Which descriptors are sound\<close>

lemma selector_fits: "open_type_fits m \<Longrightarrow> selector_sound (ot_members m) (ot_select m)"
  unfolding selector_sound_def using open_type_select [OF _ prod.collapse [symmetric]] by blast

lemma e2ap_selectors_sound: "list_all (\<lambda>m. selector_sound (ot_members m) (ot_select m)) e2ap_open_types"
  by (simp add: list_all_iff e2ap_open_types_fit selector_fits)

text \<open>The member tables of the open types.\<close>

lemmas open_members =
  asn_MBR_RICaction_ToBeSetup_ItemIEs_value_def asn_MBR_RICaction_Admitted_ItemIEs_value_def asn_MBR_RICaction_NotAdmitted_ItemIEs_value_def
  asn_MBR_RANfunction_ItemIEs_value_def asn_MBR_RANfunctionID_ItemIEs_value_def asn_MBR_RANfunctionIDcause_ItemIEs_value_def
  asn_MBR_RICsubscriptionRequest_IEs_value_def asn_MBR_RICsubscriptionResponse_IEs_value_def asn_MBR_RICsubscriptionFailure_IEs_value_def
  asn_MBR_RICsubscriptionDeleteRequest_IEs_value_def asn_MBR_RICsubscriptionDeleteResponse_IEs_value_def
  asn_MBR_RICsubscriptionDeleteFailure_IEs_value_def asn_MBR_RICindication_IEs_value_def asn_MBR_RICcontrolRequest_IEs_value_def
  asn_MBR_RICcontrolAcknowledge_IEs_value_def asn_MBR_RICcontrolFailure_IEs_value_def asn_MBR_ErrorIndication_IEs_value_def
  asn_MBR_E2setupRequestIEs_value_def asn_MBR_E2setupResponseIEs_value_def asn_MBR_E2setupFailureIEs_value_def asn_MBR_ResetRequestIEs_value_def
  asn_MBR_ResetResponseIEs_value_def asn_MBR_RICserviceUpdate_IEs_value_def asn_MBR_RICserviceUpdateAcknowledge_IEs_value_def
  asn_MBR_RICserviceUpdateFailure_IEs_value_def asn_MBR_RICserviceQuery_IEs_value_def asn_MBR_InitiatingMessage_value_def
  asn_MBR_SuccessfulOutcome_value_def asn_MBR_UnsuccessfulOutcome_value_def

lemmas selectors_sound = e2ap_selectors_sound [unfolded e2ap_open_types_def list.pred_inject open_type_member_defs open_type_member.select_convs open_members]

lemma sound_SEQUENCE: "type_sound (T_SEQUENCE specs ms) ct None \<longleftrightarrow>
    list_all (\<lambda>m. type_sound (mb_type m) (mb_constraints m) (if mb_flags m = ATF_OPEN_TYPE then Some (member_select m) else None)) ms \<and>
    list_all (\<lambda>m. mb_flags m \<noteq> ATF_OPEN_TYPE) (if seq_first_extension specs < 0 then [] else drop (nat (seq_first_extension specs)) ms)"
  by (auto simp: list_all_iff asn_TYPE_member.map_sel cong: if_cong)

lemma sound_SEQUENCE_OF: "type_sound (T_SEQUENCE_OF td m) ct None \<longleftrightarrow> type_sound (mb_type m) (mb_constraints m) None"
  by (simp add: asn_TYPE_member.map_sel)

lemma sound_CHOICE: "type_sound (T_CHOICE td specs ms) ct None \<longleftrightarrow> choice_sound (value_constraint ct td) specs (length ms) \<and>
    list_all (\<lambda>m. type_sound (mb_type m) (mb_constraints m) None) ms"
  by (simp add: list_all_iff asn_TYPE_member.map_sel)

lemma sound_OPEN: "type_sound (T_OPEN_TYPE elements types) ct (Some sel) \<longleftrightarrow> selector_sound elements sel \<and>
    list_all (\<lambda>e. snd e \<in> fst ` set types) elements \<and> list_all (\<lambda>(d, t). type_sound t None None) types"
  by (auto simp: list_all_iff)

lemma choice_sound_plain: "ch_from_canonical_order specs = None \<Longrightarrow> 0 \<le> pc_range_bits c \<Longrightarrow> nat (sint (pc_upper_bound c)) < n \<Longrightarrow>
    choice_sound (Some c) specs n"
  by (auto simp: choice_sound_def canonical_def)

lemmas sound_rules = sound_SEQUENCE sound_SEQUENCE_OF sound_CHOICE sound_OPEN choice_sound_plain selectors_sound member_select_def constraints_or_def

text \<open>The elements.\<close>

lemma scalars_sound:
  "type_sound asn_DEF_BIT_STRING ct None" "type_sound asn_DEF_CauseRIC ct None" "type_sound asn_DEF_CauseRICservice ct None"
    "type_sound asn_DEF_CauseTransport ct None" "type_sound asn_DEF_CauseProtocol ct None" "type_sound asn_DEF_CauseMisc ct None"
    "type_sound asn_DEF_Criticality ct None" "type_sound asn_DEF_ProtocolIE_ID ct None" "type_sound asn_DEF_TypeOfError ct None"
    "type_sound asn_DEF_ProcedureCode ct None" "type_sound asn_DEF_TriggeringMessage ct None" "type_sound asn_DEF_NativeInteger ct None"
    "type_sound asn_DEF_GNB_CU_UP_ID ct None" "type_sound asn_DEF_GNB_DU_ID ct None" "type_sound asn_DEF_PLMN_Identity ct None"
    "type_sound asn_DEF_INTEGER ct None" "type_sound asn_DEF_NativeEnumerated ct None" "type_sound asn_DEF_OCTET_STRING ct None"
    "type_sound asn_DEF_Presence ct None" "type_sound asn_DEF_RANfunctionID ct None" "type_sound asn_DEF_RANfunctionDefinition ct None"
    "type_sound asn_DEF_RANfunctionRevision ct None" "type_sound asn_DEF_RICactionID ct None" "type_sound asn_DEF_RICactionType ct None"
    "type_sound asn_DEF_RICactionDefinition ct None" "type_sound asn_DEF_RICsubsequentActionType ct None" "type_sound asn_DEF_RICtimeToWait ct None"
    "type_sound asn_DEF_RICcallProcessID ct None" "type_sound asn_DEF_RICcontrolAckRequest ct None" "type_sound asn_DEF_RICcontrolHeader ct None"
    "type_sound asn_DEF_RICcontrolMessage ct None" "type_sound asn_DEF_RICcontrolOutcome ct None" "type_sound asn_DEF_RICcontrolStatus ct None"
    "type_sound asn_DEF_RICeventTriggerDefinition ct None" "type_sound asn_DEF_RICindicationHeader ct None"
    "type_sound asn_DEF_RICindicationMessage ct None" "type_sound asn_DEF_RICindicationSN ct None" "type_sound asn_DEF_RICindicationType ct None"
    "type_sound asn_DEF_TimeToWait ct None"
  by (simp_all add: element_types)

lemma elements_sound:
  "type_sound asn_DEF_Cause None None" "type_sound asn_DEF_CriticalityDiagnostics_IE_Item None None"
    "type_sound asn_DEF_CriticalityDiagnostics_IE_List None None" "type_sound asn_DEF_RICrequestID None None"
    "type_sound asn_DEF_CriticalityDiagnostics None None" "type_sound asn_DEF_ENB_ID_Choice None None" "type_sound asn_DEF_ENB_ID None None"
    "type_sound asn_DEF_ENGNB_ID None None" "type_sound asn_DEF_GNB_ID_Choice None None" "type_sound asn_DEF_GlobalgNB_ID None None"
    "type_sound asn_DEF_GlobalE2node_gNB_ID None None" "type_sound asn_DEF_GlobalenGNB_ID None None"
    "type_sound asn_DEF_GlobalE2node_en_gNB_ID None None" "type_sound asn_DEF_GlobalngeNB_ID None None"
    "type_sound asn_DEF_GlobalE2node_ng_eNB_ID None None" "type_sound asn_DEF_GlobalENB_ID None None"
    "type_sound asn_DEF_GlobalE2node_eNB_ID None None" "type_sound asn_DEF_GlobalE2node_ID None None" "type_sound asn_DEF_GlobalRIC_ID None None"
    "type_sound asn_DEF_RANfunction_Item None None" "type_sound asn_DEF_RANfunctionID_Item None None"
    "type_sound asn_DEF_RANfunctionIDcause_Item None None" "type_sound asn_DEF_RICaction_Admitted_Item None None"
    "type_sound asn_DEF_RICaction_NotAdmitted_Item None None" "type_sound asn_DEF_RICsubsequentAction None None"
    "type_sound asn_DEF_RICaction_ToBeSetup_Item None None"
  by (simp_all add: sound_rules scalars_sound element_types element_members element_specifics element_constraints)

text \<open>The messages.\<close>

definition sound_messages :: "asn_type list" where
  "sound_messages =
     [asn_DEF_RICsubscriptionRequest, asn_DEF_RICsubscriptionDeleteRequest, asn_DEF_RICcontrolRequest, asn_DEF_E2setupRequest,
      asn_DEF_ResetRequest, asn_DEF_RICindication, asn_DEF_RICserviceQuery, asn_DEF_ErrorIndication,
      asn_DEF_SuccessfulOutcome, asn_DEF_UnsuccessfulOutcome]"

lemmas sound_message_rules = sound_SEQUENCE sound_SEQUENCE_OF sound_OPEN selectors_sound member_select_def
  scalars_sound elements_sound message_types message_members message_specifics open_members

lemma outcomes_sound: "type_sound asn_DEF_SuccessfulOutcome None None" "type_sound asn_DEF_UnsuccessfulOutcome None None"
  by (simp_all add: sound_message_rules)

lemma messages_sound: "list_all (\<lambda>t. type_sound t None None) sound_messages"
  unfolding sound_messages_def list.pred_inject
  by (intro conjI TrueI outcomes_sound; simp add: sound_message_rules)

text \<open>
  (C17) The descriptors of all messages but one fit together: every selected row names a member of the
  open type with a known descriptor, and every index of a CHOICE an alternative. Those of RICserviceUpdate
  do not.
\<close>

theorem descriptors_sound:
  "list_all (\<lambda>t. type_sound t None None) sound_messages \<and> \<not> type_sound asn_DEF_RICserviceUpdate None None"
proof -
  have "snd (select_RICserviceUpdate_IEs_value_type 11) = 3" by code_simp
  then have "\<not> selector_sound asn_MBR_RICserviceUpdate_IEs_value select_RICserviceUpdate_IEs_value_type"
    by (auto simp: selector_sound_def asn_MBR_RICserviceUpdate_IEs_value_def intro!: exI [of _ 11])
  then show ?thesis using messages_sound
    by (simp add: sound_SEQUENCE sound_SEQUENCE_OF sound_OPEN member_select_def asn_DEF_RICserviceUpdate_def asn_MBR_RICserviceUpdate_1_def
        asn_DEF_ProtocolIE_Container_87P16_def asn_MBR_ProtocolIE_Container_87P16_33_def asn_DEF_RICserviceUpdate_IEs_def
        asn_MBR_RICserviceUpdate_IEs_89_def asn_DEF_RICserviceUpdate_IEs_value_def)
qed

section \<open>Decoding any octets\<close>

text \<open>A decoder that stays where it is stands in for undefined behaviour that a sound descriptor never reaches.\<close>

definition refuse :: asn_decoder where
  "refuse pd = (ASN__DECODE_FAILED, V_none, pd)"

lemma refuse_forward: "forward3 pd (refuse pd)"
  by (simp add: refuse_def forward3_def)

lemma sound_forward:
  assumes "type_sound t ct None"
  shows "forward3 pd (op_decode (per_op tmp out undef t) ct pd)"
  using op_forwardD(1) [OF per_op_forward [of refuse, OF refuse_forward]] sound_decoders [OF assms, of tmp out undef refuse] by simp

lemma fragments_more: "decode_fragments fuel rng ebits dec rv acc pd = Some r \<Longrightarrow> decode_fragments (fuel + n) rng ebits dec rv acc pd = Some r"
  by (induction fuel arbitrary: rv acc pd) (auto simp: Let_def split: prod.splits if_splits)

text \<open>
  (C16) The loop over the fragments of a list ends: whatever the octets, one unit of fuel more than there are
  bits is enough for elements of any sound type, and more fuel makes no difference.
\<close>

theorem list_loop_ends:
  assumes "type_sound t ct None"
  shows "\<exists>rv vs pd'. pd_rem pd' \<le> pd_rem pd \<and>
    (\<forall>n. decode_fragments (Suc (pd_rem pd + n)) rng ebits (op_decode (per_op tmp out undef t) ct) rv0 acc pd = Some (rv, vs, pd'))"
proof -
  let ?dec = "op_decode (per_op tmp out undef t) ct"
  obtain rv vs pd' where r: "decode_fragments (Suc (pd_rem pd)) rng ebits ?dec rv0 acc pd = Some (rv, vs, pd')" "forward3 pd (rv, vs, pd')"
    using decode_fragments_enough [of ?dec, OF sound_forward [OF assms], of pd "Suc (pd_rem pd)"] by (metis lessI prod_cases3)
  then have "pd_rem pd' \<le> pd_rem pd" by (simp add: forward3_def pd_forward_def)
  with fragments_more [OF r(1)] show ?thesis by auto
qed

theorem list_loop_ends_witness:
  "\<exists>rv vs pd'. pd_rem pd' \<le> pd_rem (sample_pd [0xC1, 3, 9]) \<and>
    (\<forall>n. decode_fragments (Suc (pd_rem (sample_pd [0xC1, 3, 9]) + n)) (-1) (-1)
      (op_decode (per_op (replicate 32 0) encode_to_buffer_cb refuse asn_DEF_RICindication) None) per_ok [] (sample_pd [0xC1, 3, 9])
      = Some (rv, vs, pd'))"
  by (rule list_loop_ends) (use descriptors_sound in \<open>simp add: sound_messages_def\<close>)

lemma decode_counts:
  assumes sound: "type_sound t None None"
  shows "\<exists>rv v. aper_decode (Some (asn_decoder_of tmp undef t)) sptr octets skip_bits unused_bits = Some (rv, v)
    \<and> rv_consumed rv \<le> 8 * length octets \<and> (rv_code rv \<noteq> RC_OK \<longrightarrow> rv_consumed rv = 0)"
proof -
  let ?pd = "\<lparr>pd_buffer = octets, pd_nboff = nat skip_bits, pd_nbits = 8 * length octets - nat unused_bits, pd_moved = 0\<rparr>"
  obtain rv v pd' where d: "asn_decoder_of tmp undef t ?pd = (rv, v, pd')" by (metis prod_cases3)
  consider "skip_bits < 0 \<or> 7 < skip_bits \<or> unused_bits < 0 \<or> 7 < unused_bits \<or> 0 < unused_bits \<and> octets = [] \<or> pd_nbits ?pd < pd_nboff ?pd"
    | "0 \<le> skip_bits" "pd_ok ?pd" "\<not> (skip_bits < 0 \<or> 7 < skip_bits \<or> unused_bits < 0 \<or> 7 < unused_bits \<or> 0 < unused_bits \<and> octets = [])"
      "\<not> pd_nbits ?pd < pd_nboff ?pd"
    by (fastforce simp: pd_ok_def)
  then show ?thesis
  proof cases
    case 1
    then show ?thesis by (auto simp: aper_decode_def ASN__DECODE_FAILED_def Let_def)
  next
    case 2
    let ?consumed = "nat (push_bit 3 (int (length octets) - int (length (pd_buffer pd'))) + int (pd_nboff pd') - skip_bits)"
    have "forward3 ?pd (rv, v, pd')" using sound_forward [OF sound, of ?pd tmp encode_to_buffer_cb undef] d by (simp add: asn_decoder_of_def)
    with 2(2) have ok: "pd_ok pd'" and le: "pd_left pd' \<le> pd_left ?pd"
      and moved: "pd_moved pd' + of_nat (pd_left pd') = of_nat (pd_left ?pd)"
      by (auto simp: forward3_def pd_forward_def)
    have "nat skip_bits \<le> 8 * length octets" using 2(2) by (simp add: pd_ok_def)
    moreover have "pd_nboff pd' \<le> 8 * length (pd_buffer pd')" using ok by (simp add: pd_ok_def)
    ultimately have c: "?consumed + pd_left pd' = pd_left ?pd" and b: "?consumed \<le> 8 * length octets"
      using le 2(1) by (simp_all add: pd_left_def push_bit_eq_mult nat_eq_iff nat_le_iff)
    have "(of_nat ?consumed :: u64) = pd_moved pd'"
      using moved arg_cong [OF c, of "of_nat :: nat \<Rightarrow> u64"] unfolding of_nat_add by (metis add_right_imp_eq)
    with d b show ?thesis by (auto simp: aper_decode_def Let_def ASN__DECODE_FAILED_def)
  qed
qed

text \<open>
  (C15) Decoding the octets of any sound type, whatever they are: it never fails the assertion that the bits
  counted are the bits moved over, never reports more octets than there are, and does not depend on what
  a call through a null pointer would do.
\<close>

theorem decode_any_octets:
  assumes "type_sound t None None"
  shows "\<exists>rv v. (\<forall>undef. aper_decode_complete (Some (asn_decoder_of tmp undef t)) sptr octets = Some (rv, v))
    \<and> rv_consumed rv \<le> length octets"
proof -
  obtain rv v where d: "aper_decode (Some (asn_decoder_of tmp refuse t)) sptr octets 0 0 = Some (rv, v)"
    and c: "rv_consumed rv \<le> 8 * length octets"
    using decode_counts [OF assms, of tmp refuse sptr octets 0 0] by blast
  have same: "asn_decoder_of tmp refuse t = asn_decoder_of tmp undef t" for undef
    unfolding asn_decoder_of_def by (rule sound_decoders [OF assms])
  have "drop_bit 3 (rv_consumed rv + 7) \<le> length octets" using c by (simp add: drop_bit_eq_div)
  with c d obtain rv' v' where "aper_decode_complete (Some (asn_decoder_of tmp refuse t)) sptr octets = Some (rv', v')"
    and "rv_consumed rv' \<le> length octets"
    by (cases octets) (auto simp: aper_decode_complete_def)
  then show ?thesis using same by metis
qed

theorem decode_any_octets_witness:
  "\<exists>rv v. (\<forall>undef. aper_decode_complete (Some (asn_decoder_of (replicate 32 0) undef asn_DEF_RICindication)) V_none [0, 0, 9, 255, 0xC4, 7]
      = Some (rv, v)) \<and> rv_consumed rv \<le> length [0, 0, 9, 255, 0xC4, 7 :: byte]"
  by (rule decode_any_octets) (use descriptors_sound in \<open>simp add: sound_messages_def\<close>)

end
