(* ===== verification/E2apCodec.thy ===== *)
theory E2apCodec
  imports E2apDecode E2apValid
begin

text \<open>
  The message functions of \<^verbatim>\<open>wrapper.c\<close> on the coder of \<^verbatim>\<open>asn_DEF_E2AP_PDU\<close>. The functions see a message
  as C structures with typed members (\<open>E2AP_PDU\<close>), the runtime as a tree of values that follows the
  descriptor; \<open>pdu_asn\<close> and \<open>pdu_view\<close> go from one to the other. With them the coder parameters of
  \<open>E2apSequence\<close> and \<open>E2apRequests\<close> become the coders of \<open>AsnTypes\<close> and the round trips hold without
  assumptions on the coder: what the xApp writes is read back, and what a RAN writes reaches the xApp.
\<close>

section \<open>A message as a value\<close>

abbreviation C_long :: "int \<Rightarrow> asn_value" where
  "C_long n \<equiv> V_long (word_of_int n)"

definition string_asn :: "byte list option \<Rightarrow> asn_value" where
  "string_asn b = (case b of None \<Rightarrow> V_none | Some b \<Rightarrow> V_string (b, 0))"

text \<open>A field whose open type has one member.\<close>

definition single_asn :: "('v \<Rightarrow> asn_value) \<Rightarrow> 'v option field \<Rightarrow> asn_value" where
  "single_asn val f = V_struct [C_long (fld_id f), C_long (fld_criticality f),
     case fld_value f of None \<Rightarrow> V_choice 0 V_none | Some x \<Rightarrow> V_choice 1 (val x)]"

definition setup_item_asn :: "RICaction_ToBeSetup_Item \<Rightarrow> asn_value" where
  "setup_item_asn x = V_struct [C_long (ts_ricActionID x), C_long (ts_ricActionType x), string_asn (ts_ricActionDefinition x),
     case ts_ricSubsequentAction x of None \<Rightarrow> V_none | Some (a, w) \<Rightarrow> V_struct [C_long a, C_long w]]"

definition cause_asn :: "cause \<Rightarrow> asn_value" where
  "cause_asn c = (case c of Cause_NOTHING \<Rightarrow> V_choice 0 V_none | Cause_ricRequest n \<Rightarrow> V_choice 1 (C_long n)
     | Cause_ricService n \<Rightarrow> V_choice 2 (C_long n) | Cause_transport n \<Rightarrow> V_choice 3 (C_long n)
     | Cause_protocol n \<Rightarrow> V_choice 4 (C_long n) | Cause_misc n \<Rightarrow> V_choice 5 (C_long n))"

definition not_admitted_asn :: "RICaction_NotAdmitted_Item \<Rightarrow> asn_value" where
  "not_admitted_asn x = V_struct [C_long (na_ricActionID x), cause_asn (na_cause x)]"

definition list_asn :: "('v \<Rightarrow> asn_value) \<Rightarrow> 'v option field set_of \<Rightarrow> asn_value" where
  "list_asn val fs = V_list (map (single_asn val) (set_items fs))"

fun contents_asn :: "asn_value ie_value \<Rightarrow> asn_value" where
  "contents_asn IE_NOTHING = V_none"
| "contents_asn (IE_RICrequestID r) = V_struct [C_long (ricRequestorID r), C_long (ricInstanceID r)]"
| "contents_asn (IE_RANfunctionID n) = C_long n"
| "contents_asn (IE_RICsubscriptionDetails d) =
     V_struct [string_asn (Some (ricEventTriggerDefinition d)), list_asn setup_item_asn (ricAction_ToBeSetup_List d)]"
| "contents_asn (IE_RICaction_Admitted_List l) = list_asn (\<lambda>n. V_struct [C_long n]) l"
| "contents_asn (IE_RICaction_NotAdmitted_List l) = list_asn not_admitted_asn l"
| "contents_asn (IE_RICactionID n) = C_long n"
| "contents_asn (IE_RICindicationSN n) = C_long n"
| "contents_asn (IE_RICindicationType n) = C_long n"
| "contents_asn (IE_RICindicationHeader b) = string_asn (Some b)"
| "contents_asn (IE_RICindicationMessage b) = string_asn (Some b)"
| "contents_asn (IE_RICcallProcessID b) = string_asn (Some b)"
| "contents_asn (IE_other t v) = v"

text \<open>The unions of the messages, in the order of the presence constants.\<close>

definition initiating_members :: "(string \<times> asn_DEF) list list" where
  "initiating_members = [asn_MBR_RICsubscriptionRequest_IEs_value, asn_MBR_RICsubscriptionDeleteRequest_IEs_value,
     asn_MBR_RICserviceUpdate_IEs_value, asn_MBR_RICcontrolRequest_IEs_value, asn_MBR_E2setupRequestIEs_value,
     asn_MBR_ResetRequestIEs_value, asn_MBR_RICindication_IEs_value, asn_MBR_RICserviceQuery_IEs_value,
     asn_MBR_ErrorIndication_IEs_value]"

definition successful_members :: "(string \<times> asn_DEF) list list" where
  "successful_members = [asn_MBR_RICsubscriptionResponse_IEs_value, asn_MBR_RICsubscriptionDeleteResponse_IEs_value,
     asn_MBR_RICserviceUpdateAcknowledge_IEs_value, asn_MBR_RICcontrolAcknowledge_IEs_value, asn_MBR_E2setupResponseIEs_value,
     asn_MBR_ResetResponseIEs_value]"

definition unsuccessful_members :: "(string \<times> asn_DEF) list list" where
  "unsuccessful_members = [asn_MBR_RICsubscriptionFailure_IEs_value, asn_MBR_RICsubscriptionDeleteFailure_IEs_value,
     asn_MBR_RICserviceUpdateFailure_IEs_value, asn_MBR_RICcontrolFailure_IEs_value, asn_MBR_E2setupFailureIEs_value]"

definition member_index :: "(string \<times> asn_DEF) list \<Rightarrow> element_type \<Rightarrow> nat" where
  "member_index members t = Suc (length (takeWhile (\<lambda>e. snd e \<noteq> IE t) members))"

definition ie_asn :: "(string \<times> asn_DEF) list \<Rightarrow> asn_value ie \<Rightarrow> asn_value" where
  "ie_asn members f = V_struct [C_long (fld_id f), C_long (fld_criticality f),
     case ie_value_type (fld_value f) of None \<Rightarrow> V_choice 0 V_none
     | Some t \<Rightarrow> V_choice (member_index members t) (contents_asn (fld_value f))]"

definition elementary_asn :: "(string \<times> asn_DEF) list list \<Rightarrow> asn_value elementary \<Rightarrow> asn_value" where
  "elementary_asn members m = V_struct [C_long (em_procedureCode m), C_long (em_criticality m),
     V_choice (em_present m) (V_struct [V_list (map (ie_asn (members ! (em_present m - 1))) (set_items (em_protocolIEs m)))])]"

definition pdu_asn :: "asn_value E2AP_PDU \<Rightarrow> asn_value" where
  "pdu_asn p = (case p of PDU_NOTHING \<Rightarrow> V_choice 0 V_none
     | PDU_initiatingMessage m \<Rightarrow> V_choice 1 (elementary_asn initiating_members m)
     | PDU_successfulOutcome m \<Rightarrow> V_choice 2 (elementary_asn successful_members m)
     | PDU_unsuccessfulOutcome m \<Rightarrow> V_choice 3 (elementary_asn unsuccessful_members m))"

section \<open>A value as a message\<close>

text \<open>A decoded list has been filled by \<^verbatim>\<open>ASN_SET_ADD\<close>. \<open>None\<close> is a tree of another shape.\<close>

definition decoded_list :: "'a list \<Rightarrow> 'a set_of" where
  "decoded_list xs = foldl (\<lambda>as x. snd (asn_set_add (\<lambda>_. True) as (Some x))) set_of_zero xs"

definition long_view :: "asn_value \<Rightarrow> int option" where
  "long_view v = (case v of V_long n \<Rightarrow> Some (sint n) | _ \<Rightarrow> None)"

definition string_view :: "asn_value \<Rightarrow> byte list option" where
  "string_view v = (case v of V_string (b, n) \<Rightarrow> Some b | _ \<Rightarrow> None)"

definition request_id_view :: "asn_value \<Rightarrow> RICrequestID option" where
  "request_id_view v = (case v of
     V_struct [V_long a, V_long b] \<Rightarrow> Some \<lparr>ricRequestorID = sint a, ricInstanceID = sint b\<rparr> | _ \<Rightarrow> None)"

definition single_view :: "(asn_value \<Rightarrow> 'v option) \<Rightarrow> asn_value \<Rightarrow> 'v option field option" where
  "single_view val v = (case v of
     V_struct [V_long i, V_long c, V_choice k x] \<Rightarrow>
       if k = 0 then Some \<lparr>fld_id = sint i, fld_criticality = sint c, fld_value = None\<rparr>
       else map_option (\<lambda>y. \<lparr>fld_id = sint i, fld_criticality = sint c, fld_value = Some y\<rparr>) (val x)
   | _ \<Rightarrow> None)"

definition setup_item_view :: "asn_value \<Rightarrow> RICaction_ToBeSetup_Item option" where
  "setup_item_view v = (case v of
     V_struct [V_long a, V_long t, d, s] \<Rightarrow>
       Some \<lparr>ts_ricActionID = sint a, ts_ricActionType = sint t, ts_ricActionDefinition = string_view d,
         ts_ricSubsequentAction = (case s of V_struct [V_long x, V_long w] \<Rightarrow> Some (sint x, sint w) | _ \<Rightarrow> None)\<rparr>
   | _ \<Rightarrow> None)"

definition cause_view :: "asn_value \<Rightarrow> cause" where
  "cause_view v = (case v of
     V_choice k (V_long n) \<Rightarrow>
       (if k = 1 then Cause_ricRequest (sint n) else if k = 2 then Cause_ricService (sint n)
        else if k = 3 then Cause_transport (sint n) else if k = 4 then Cause_protocol (sint n)
        else if k = 5 then Cause_misc (sint n) else Cause_NOTHING)
   | _ \<Rightarrow> Cause_NOTHING)"

definition admitted_view :: "asn_value \<Rightarrow> int option" where
  "admitted_view v = (case v of V_struct [V_long n] \<Rightarrow> Some (sint n) | _ \<Rightarrow> None)"

definition not_admitted_view :: "asn_value \<Rightarrow> RICaction_NotAdmitted_Item option" where
  "not_admitted_view v = (case v of
     V_struct [V_long n, c] \<Rightarrow> Some \<lparr>na_ricActionID = sint n, na_cause = cause_view c\<rparr> | _ \<Rightarrow> None)"

definition list_view :: "(asn_value \<Rightarrow> 'v option) \<Rightarrow> asn_value \<Rightarrow> 'v option field set_of option" where
  "list_view val v = (case v of V_list vs \<Rightarrow> map_option decoded_list (those (map (single_view val) vs)) | _ \<Rightarrow> None)"

definition details_view :: "asn_value \<Rightarrow> RICsubscriptionDetails option" where
  "details_view v = (case v of
     V_struct [s, l] \<Rightarrow> (case (string_view s, list_view setup_item_view l) of
         (Some b, Some as) \<Rightarrow> Some \<lparr>ricEventTriggerDefinition = b, ricAction_ToBeSetup_List = as\<rparr> | _ \<Rightarrow> None)
   | _ \<Rightarrow> None)"

definition contents_view :: "element_type \<Rightarrow> asn_value \<Rightarrow> asn_value ie_value option" where
  "contents_view t v =
     (if t = DEF_RICrequestID then map_option IE_RICrequestID (request_id_view v)
      else if t = DEF_RANfunctionID then map_option IE_RANfunctionID (long_view v)
      else if t = DEF_RICsubscriptionDetails then map_option IE_RICsubscriptionDetails (details_view v)
      else if t = DEF_RICaction_Admitted_List then map_option IE_RICaction_Admitted_List (list_view admitted_view v)
      else if t = DEF_RICaction_NotAdmitted_List then map_option IE_RICaction_NotAdmitted_List (list_view not_admitted_view v)
      else if t = DEF_RICactionID then map_option IE_RICactionID (long_view v)
      else if t = DEF_RICindicationSN then map_option IE_RICindicationSN (long_view v)
      else if t = DEF_RICindicationType then map_option IE_RICindicationType (long_view v)
      else if t = DEF_RICindicationHeader then map_option IE_RICindicationHeader (string_view v)
      else if t = DEF_RICindicationMessage then map_option IE_RICindicationMessage (string_view v)
      else if t = DEF_RICcallProcessID then map_option IE_RICcallProcessID (string_view v)
      else Some (IE_other t v))"

definition ie_view :: "(string \<times> asn_DEF) list \<Rightarrow> asn_value \<Rightarrow> asn_value ie option" where
  "ie_view members v = (case v of
     V_struct [V_long i, V_long c, V_choice k x] \<Rightarrow>
       if k = 0 then Some \<lparr>fld_id = sint i, fld_criticality = sint c, fld_value = IE_NOTHING\<rparr>
       else (case snd (members ! (k - 1)) of
           IE t \<Rightarrow> map_option (\<lambda>y. \<lparr>fld_id = sint i, fld_criticality = sint c, fld_value = y\<rparr>) (contents_view t x)
         | MSG m \<Rightarrow> None)
   | _ \<Rightarrow> None)"

definition elementary_view :: "(string \<times> asn_DEF) list list \<Rightarrow> asn_value \<Rightarrow> asn_value elementary option" where
  "elementary_view members v = (case v of
     V_struct [V_long p, V_long c, V_choice k (V_struct [V_list fs])] \<Rightarrow>
       map_option (\<lambda>ies. \<lparr>em_procedureCode = sint p, em_criticality = sint c, em_present = k, em_protocolIEs = decoded_list ies\<rparr>)
         (those (map (ie_view (members ! (k - 1))) fs))
   | _ \<Rightarrow> None)"

definition pdu_view :: "asn_value \<Rightarrow> asn_value E2AP_PDU option" where
  "pdu_view v = (case v of
     V_choice k x \<Rightarrow>
       (if k = 1 then map_option PDU_initiatingMessage (elementary_view initiating_members x)
        else if k = 2 then map_option PDU_successfulOutcome (elementary_view successful_members x)
        else if k = 3 then map_option PDU_unsuccessfulOutcome (elementary_view unsuccessful_members x)
        else Some PDU_NOTHING)
   | _ \<Rightarrow> None)"

section \<open>The coders\<close>

definition pdu_encode :: "byte list \<Rightarrow> asn_decoder \<Rightarrow> asn_value pdu_encoder" where
  "pdu_encode tmp undef p po = (case p of None \<Rightarrow> (-1, po) | Some q \<Rightarrow> asn_encoder tmp undef asn_DEF_E2AP_PDU (pdu_asn q) po)"

definition pdu_decode :: "byte list \<Rightarrow> asn_decoder \<Rightarrow> asn_value pdu_decoder" where
  "pdu_decode tmp undef pd = (case asn_decoder_of tmp undef asn_DEF_E2AP_PDU pd of (rv, v, pd1) \<Rightarrow> (rv, pdu_view v, pd1))"

text \<open>A message that can be sent: its value is valid, and seen as a message again it is the same.\<close>

definition pdu_valid :: "asn_value E2AP_PDU \<Rightarrow> bool" where
  "pdu_valid p \<longleftrightarrow> asn_valid asn_DEF_E2AP_PDU (pdu_asn p) \<and> pdu_view (pdu_asn p) = Some p"

definition pdu_bits :: "asn_value E2AP_PDU \<Rightarrow> bool list" where
  "pdu_bits p = asn_bits asn_DEF_E2AP_PDU (pdu_asn p)"

lemma pdu_decode_viewed:
  assumes "aper_decode_complete (Some (asn_decoder_of tmp undef asn_DEF_E2AP_PDU)) V_none buffer = Some (rv, v)" and "rv_code rv = RC_OK"
  shows "aper_decode_complete (Some (pdu_decode tmp undef)) None buffer = Some (rv, pdu_view v)"
proof -
  let ?pd = "\<lparr>pd_buffer = buffer, pd_nboff = 0, pd_nbits = 8 * length buffer, pd_moved = 0\<rparr>"
  obtain rv0 v0 pd' where d: "asn_decoder_of tmp undef asn_DEF_E2AP_PDU ?pd = (rv0, v0, pd')" by (metis prod_cases3)
  then have "pdu_decode tmp undef ?pd = (rv0, pdu_view v0, pd')" by (simp add: pdu_decode_def)
  with d assms show ?thesis
    by (auto simp: aper_decode_complete_def aper_decode_def Let_def split: if_split_asm option.splits list.splits)
qed

lemma pdu_decode_octets:
  assumes "pdu_valid p" and "length tmp = 32"
  shows "decode_E2AP_PDU (pdu_decode tmp undef) (asn_octets asn_DEF_E2AP_PDU (pdu_asn p) @ rest) h
    = Inr (Some p, h\<lparr>live_pdus := live_pdus h + 1\<rparr>)"
proof -
  have v: "asn_valid asn_DEF_E2AP_PDU (pdu_asn p)" and view: "pdu_view (pdu_asn p) = Some p" using assms(1) by (simp_all add: pdu_valid_def)
  from pdu_decode_viewed [OF asn_decode_complete [OF v E2AP_PDU_nonempty [OF v] assms(2)]] show ?thesis
    by (simp add: decode_E2AP_PDU_def view)
qed

lemma pdu_encode_written:
  assumes "pdu_valid p" and "length tmp = 32" and "length tmp' = 32" and "length (pdu_bits p) \<le> 8 * length buffer"
    and "length (pdu_bits p) < 2 ^ 63"
  obtains sz buffer' where "encode_E2AP_PDU (pdu_encode tmp' undef) tmp p buffer h = (sz, buffer', free_pdu h)"
    and "sint sz = int (length (pdu_bits p))" and "length buffer' = length buffer"
    and "\<And>h2 undef. decode_E2AP_PDU (pdu_decode tmp' undef) buffer' h2 = Inr (Some p, h2\<lparr>live_pdus := live_pdus h2 + 1\<rparr>)"
proof -
  let ?n = "length (pdu_bits p)" and ?o = "asn_octets asn_DEF_E2AP_PDU (pdu_asn p)"
  let ?buffer' = "?o @ drop (length ?o) buffer"
  have v: "asn_valid asn_DEF_E2AP_PDU (pdu_asn p)" using assms(1) by (simp add: pdu_valid_def)
  have same: "pdu_encode tmp' undef (Some p) = asn_encoder tmp' undef asn_DEF_E2AP_PDU (pdu_asn p)"
    by (rule ext) (simp add: pdu_encode_def)
  have "aper_encode_to_buffer (Some (pdu_encode tmp' undef)) (Some p) (length buffer) tmp
      = aper_encode_to_buffer (Some (asn_encoder tmp' undef asn_DEF_E2AP_PDU)) (pdu_asn p) (length buffer) tmp"
    by (simp add: aper_encode_to_buffer_def aper_encode_def same)
  also have "\<dots> = (int ?n, ?o)"
    unfolding pdu_bits_def by (rule asn_encode_total [OF v assms(2,3)]) (use assms(4) in \<open>simp add: pdu_bits_def\<close>)
  finally have "encode_E2AP_PDU (pdu_encode tmp' undef) tmp p buffer h = (word_of_int (int ?n), ?buffer', free_pdu h)"
    by (simp add: encode_E2AP_PDU_def)
  moreover have "sint (word_of_int (int ?n) :: 64 word) = int ?n"
    using sint_of_nat_small [OF assms(5)] by simp
  moreover have "length ?buffer' = length buffer"
  proof -
    have "8 * length ?o = ?n + length (align_pad ?n)"
      using arg_cong [OF bytes_bits_octets_of [of asn_DEF_E2AP_PDU "pdu_asn p"], of length] by (simp add: pdu_bits_def)
    moreover have "length (align_pad ?n) < 8" by (simp add: align_pad_def)
    ultimately have "length ?o \<le> length buffer" using assms(4) by linarith
    then show ?thesis by simp
  qed
  ultimately show ?thesis using pdu_decode_octets [OF assms(1,3)] that by blast
qed

section \<open>Delete requests\<close>

lemma sint_in_range: "0 \<le> n \<Longrightarrow> n < 2 ^ 63 \<Longrightarrow> sint (word_of_int n :: i64) = n"
  using sint_of_nat_small [of "nat n"] by simp

lemma delete_request_asn: "pdu_asn (delete_request_pdu r s f) = V_choice 1 (V_struct [V_long 9, V_long 0, V_choice 2 (V_struct [V_list
    [protocol_ie 29 1 (V_struct [C_long r, C_long s]), protocol_ie 5 2 (C_long f)]])])"
  by (simp add: pdu_asn_def delete_request_pdu_def elementary_asn_def initiating_members_def set_items_def ie_asn_def
      request_id_field_def function_id_field_def member_index_def asn_MBR_RICsubscriptionDeleteRequest_IEs_value_def protocol_ie_def)

lemma delete_request_view:
  assumes "0 \<le> r" "r \<le> 65535" "0 \<le> s" "s \<le> 65535" "0 \<le> f" "f \<le> 4095"
  shows "pdu_view (pdu_asn (delete_request_pdu r s f)) = Some (delete_request_pdu r s f)"
  using assms unfolding delete_request_asn
  by (simp add: pdu_view_def elementary_view_def initiating_members_def ie_view_def protocol_ie_def
      asn_MBR_RICsubscriptionDeleteRequest_IEs_value_def contents_view_def request_id_view_def long_view_def sint_in_range
      decoded_list_def add_two delete_request_pdu_def request_id_field_def function_id_field_def)

lemma in_range_of_int: "0 \<le> n \<Longrightarrow> n \<le> m \<Longrightarrow> m < 2 ^ 63 \<Longrightarrow> in_range m (word_of_int n)"
  by (simp add: in_range_def sint_in_range)

lemma delete_request_select:
  "select_RICsubscriptionDeleteRequest_IEs_value_type 29 = (Some (IE DEF_RICrequestID), 1)"
  "select_RICsubscriptionDeleteRequest_IEs_value_type 5 = (Some (IE DEF_RANfunctionID), 2)"
  "select_InitiatingMessage_value_type 9 = (Some (MSG DEF_RICsubscriptionDeleteRequest), 2)"
  by code_simp+

text \<open>An initiating message, from its elements.\<close>

lemma initiating_valid:
  assumes "asn_valid t (V_struct [V_list l])" and "asn_bits t (V_struct [V_list l]) \<noteq> []" and "value_size (V_struct [V_list l]) < 131000"
    and "in_range 255 code" and "criticality_valid crit" and "0 < k" and "k \<le> length asn_MBR_InitiatingMessage_value"
    and "map_of initiating_types (snd (asn_MBR_InitiatingMessage_value ! (k - 1))) = Some t"
    and "select_InitiatingMessage_value_type (sint code) = (Some (snd (asn_MBR_InitiatingMessage_value ! (k - 1))), k)"
  shows "asn_valid asn_DEF_E2AP_PDU (V_choice 1 (V_struct [V_long code, V_long crit, V_choice k (V_struct [V_list l])]))"
proof -
  have "open_holds asn_MBR_InitiatingMessage_value initiating_types k (V_struct [V_list l])"
    using assms by (simp add: open_holds_small)
  then have "asn_valid asn_DEF_InitiatingMessage (V_struct [V_long code, V_long crit, V_choice k (V_struct [V_list l])])"
    unfolding InitiatingMessage_form procedure_valid procedure_holds_def using assms(4,5,9) by (auto simp: in_range_def)
  then show ?thesis by (simp add: E2AP_PDU_valid pdu_members_def)
qed

lemma delete_request_valid:
  assumes "0 \<le> r" "r \<le> 65535" "0 \<le> s" "s \<le> 65535" "0 \<le> f" "f \<le> 4095"
  shows "pdu_valid (delete_request_pdu r s f)"
proof -
  let ?l = "[protocol_ie 29 1 (V_struct [C_long r, C_long s]), protocol_ie 5 2 (C_long f)]"
  let ?types = "[(IE DEF_RICrequestID, asn_DEF_RICrequestID), (IE DEF_RANfunctionID, asn_DEF_RANfunctionID)]"
  have "\<forall>e \<in> set ?l. ie_holds select_RICsubscriptionDeleteRequest_IEs_value_type asn_MBR_RICsubscriptionDeleteRequest_IEs_value ?types e"
    using assms by (simp add: protocol_ie_holds open_holds_small asn_MBR_RICsubscriptionDeleteRequest_IEs_value_def delete_request_select
        small_elements in_range_of_int)
  then have "asn_valid asn_DEF_RICsubscriptionDeleteRequest (V_struct [V_list ?l])"
    unfolding RICsubscriptionDeleteRequest_form message_valid by simp
  moreover have "asn_bits asn_DEF_RICsubscriptionDeleteRequest (V_struct [V_list ?l]) \<noteq> []"
    unfolding RICsubscriptionDeleteRequest_form message_bits_nonempty by blast
  ultimately have "asn_valid asn_DEF_E2AP_PDU (pdu_asn (delete_request_pdu r s f))"
    unfolding delete_request_asn
    by (rule initiating_valid) (simp_all add: protocol_ie_def in_range_def criticality_valid_def asn_MBR_InitiatingMessage_value_def
        initiating_types_def delete_request_select)
  then show ?thesis using delete_request_view [OF assms] by (simp add: pdu_valid_def)
qed

lemma delete_request_bits:
  assumes "0 \<le> r" "r \<le> 65535" "0 \<le> s" "s \<le> 65535" "0 \<le> f" "f \<le> 4095"
  shows "0 < length (pdu_bits (delete_request_pdu r s f))" and "length (pdu_bits (delete_request_pdu r s f)) \<le> 1200"
proof -
  have v: "asn_valid asn_DEF_E2AP_PDU (pdu_asn (delete_request_pdu r s f))"
    using delete_request_valid [OF assms] by (simp add: pdu_valid_def)
  have "value_size (pdu_asn (delete_request_pdu r s f)) \<le> 1200"
    unfolding delete_request_asn by (simp add: protocol_ie_def)
  then show "length (pdu_bits (delete_request_pdu r s f)) \<le> 1200"
    using length_asn_bits [OF v] by (simp add: pdu_bits_def)
  show "0 < length (pdu_bits (delete_request_pdu r s f))" using E2AP_PDU_nonempty [OF v] by (simp add: pdu_bits_def)
qed

lemma delete_request_renumbered:
  "message_of RICsubscriptionDeleteRequest_kind (delete_request_pdu r s f) \<noteq> None
    \<and> with_sequence_number RICsubscriptionDeleteRequest_kind n (the (message_of RICsubscriptionDeleteRequest_kind (delete_request_pdu r s f)))
      = delete_request_pdu r n f"
  by (simp add: message_of_def kind_defs delete_request_pdu_def with_sequence_number_def set_items_def request_id_field_def
      function_id_field_def Let_def)

text \<open>
  (C11) The life of a delete request on the coder of \<^verbatim>\<open>asn_DEF_E2AP_PDU\<close> itself: ids in range are written into any
  buffer of 150 octets, the sequence number is read back, and a replaced one is read back from the buffer it was
  replaced in; no message is left behind.
\<close>

theorem delete_request_on_the_wire:
  assumes "0 \<le> requestor" "requestor \<le> 65535" "0 \<le> seq" "seq \<le> 65535" "0 \<le> fid" "fid \<le> 4095" "0 \<le> n" "n \<le> 65535"
    and "150 \<le> length buffer" and "length tmp = 32" and "length tmp' = 32"
  shows "\<exists>size buf1 size' buf2.
      e2ap_encode_ric_subscription_delete_request_message (\<lambda>_. True) (\<lambda>_. True) (pdu_encode tmp' undef) tmp buffer requestor seq fid h
        = (size, buf1, h)
    \<and> 0 < size \<and> size \<le> 1200 \<and> length buf1 = length buffer
    \<and> e2ap_get_ric_subscription_delete_request_sequence_number (pdu_decode tmp' undef) buf1 h = Inr (seq, h)
    \<and> e2ap_set_ric_subscription_delete_request_sequence_number (pdu_decode tmp' undef) (pdu_encode tmp' undef) tmp buf1 n h
        = Inr (size', buf2, h)
    \<and> 0 < size'
    \<and> e2ap_get_ric_subscription_delete_request_sequence_number (pdu_decode tmp' undef) buf2 h = Inr (n, h)"
proof -
  let ?p = "delete_request_pdu requestor seq fid" and ?q = "delete_request_pdu requestor n fid"
  let ?dec = "pdu_decode tmp' undef" and ?enc = "pdu_encode tmp' undef" and ?kind = "RICsubscriptionDeleteRequest_kind"
  note bits = delete_request_bits [OF assms(1-6)] and bits' = delete_request_bits [OF assms(1,2,7,8,5,6)]
  obtain sz buf1 where e: "encode_E2AP_PDU ?enc tmp ?p buffer (h\<lparr>live_pdus := live_pdus h + 1\<rparr>) = (sz, buf1, h)"
    and sz: "sint sz = int (length (pdu_bits ?p))" and l: "length buf1 = length buffer"
    and d: "\<And>h2. decode_E2AP_PDU ?dec buf1 h2 = Inr (Some ?p, h2\<lparr>live_pdus := live_pdus h2 + 1\<rparr>)"
    by (rule pdu_encode_written [OF delete_request_valid [OF assms(1-6)] assms(10,11), where buffer = buffer and undef = undef
          and h = "h\<lparr>live_pdus := live_pdus h + 1\<rparr>"])
      (use bits assms(9) in \<open>simp_all add: free_pdu_def\<close>)
  obtain sz' buf2 where e': "encode_E2AP_PDU ?enc tmp ?q buf1 (h\<lparr>live_pdus := live_pdus h + 1\<rparr>) = (sz', buf2, h)"
    and sz': "sint sz' = int (length (pdu_bits ?q))"
    and d': "\<And>h2. decode_E2AP_PDU ?dec buf2 h2 = Inr (Some ?q, h2\<lparr>live_pdus := live_pdus h2 + 1\<rparr>)"
    by (rule pdu_encode_written [OF delete_request_valid [OF assms(1,2,7,8,5,6)] assms(10,11), where buffer = buf1 and undef = undef
          and h = "h\<lparr>live_pdus := live_pdus h + 1\<rparr>"])
      (use bits' assms(9) l in \<open>simp_all add: free_pdu_def\<close>)
  have get: "get_sequence_number ?kind ?dec buf1 h = Inr (seq, h)" "get_sequence_number ?kind ?dec buf2 h = Inr (n, h)"
    using del_request.get_sequence_number_ok [OF d delete_request_pdu_ok(1)] del_request.get_sequence_number_ok [OF d' delete_request_pdu_ok(1)]
    by (simp_all add: delete_request_pdu_ok(2))
  have "set_sequence_number ?kind ?dec ?enc tmp buf1 n h = Inr (sint sz', buf2, h)"
    using e' by (simp add: set_sequence_number_def d message_of_def kind_defs delete_request_pdu_def set_items_def request_id_field_def
        function_id_field_def Let_def)
  with e sz sz' l get bits bits' show ?thesis
    by (auto simp: delete_request_built sequence_number_defs)
qed

theorem delete_request_on_the_wire_witness:
  "let undef = (\<lambda>pd. (ASN__DECODE_FAILED, V_none, pd)) in \<exists>size buf1 size' buf2.
      e2ap_encode_ric_subscription_delete_request_message (\<lambda>_. True) (\<lambda>_. True) (pdu_encode (replicate 32 0) undef) (replicate 32 0)
        (replicate 200 0) 1001 7 2 empty_heap = (size, buf1, empty_heap)
    \<and> 0 < size \<and> size \<le> 1200 \<and> length buf1 = length (replicate 200 0 :: byte list)
    \<and> e2ap_get_ric_subscription_delete_request_sequence_number (pdu_decode (replicate 32 0) undef) buf1 empty_heap = Inr (7, empty_heap)
    \<and> e2ap_set_ric_subscription_delete_request_sequence_number (pdu_decode (replicate 32 0) undef) (pdu_encode (replicate 32 0) undef)
        (replicate 32 0) buf1 65535 empty_heap = Inr (size', buf2, empty_heap)
    \<and> 0 < size'
    \<and> e2ap_get_ric_subscription_delete_request_sequence_number (pdu_decode (replicate 32 0) undef) buf2 empty_heap = Inr (65535, empty_heap)"
  unfolding Let_def by (rule delete_request_on_the_wire) simp_all

section \<open>Indications\<close>

lemma decoded_list_items: "set_of_ok (decoded_list xs) \<and> set_items (decoded_list xs) = xs"
proof -
  have "set_of_ok as \<Longrightarrow> set_of_ok (foldl (\<lambda>as x. snd (asn_set_add (\<lambda>_. True) as (Some x))) as xs)
      \<and> set_items (foldl (\<lambda>as x. snd (asn_set_add (\<lambda>_. True) as (Some x))) as xs) = set_items as @ xs" for as
    by (induction xs arbitrary: as) (simp_all add: add_grows)
  from this [OF set_of_zero_ok(1)] show ?thesis by (simp add: decoded_list_def)
qed

definition indication_ies ::
  "i64 \<Rightarrow> i64 \<Rightarrow> i64 \<Rightarrow> i64 \<Rightarrow> i64 option \<Rightarrow> i64 \<Rightarrow> byte list \<Rightarrow> byte list \<Rightarrow> byte list option \<Rightarrow> asn_value ie list" where
  "indication_ies requestor inst function_id action sn ty header msg process =
     map (\<lambda>(i, v). \<lparr>fld_id = i, fld_criticality = 0, fld_value = v\<rparr>)
       ([(id_RICrequestID, IE_RICrequestID \<lparr>ricRequestorID = sint requestor, ricInstanceID = sint inst\<rparr>),
         (id_RANfunctionID, IE_RANfunctionID (sint function_id)), (id_RICactionID, IE_RICactionID (sint action))] @
        (case sn of None \<Rightarrow> [] | Some n \<Rightarrow> [(id_RICindicationSN, IE_RICindicationSN (sint n))]) @
        [(id_RICindicationType, IE_RICindicationType (sint ty)),
         (id_RICindicationHeader, IE_RICindicationHeader header), (id_RICindicationMessage, IE_RICindicationMessage msg)] @
        (case process of None \<Rightarrow> [] | Some p \<Rightarrow> [(id_RICcallProcessID, IE_RICcallProcessID p)]))"

lemma indication_view: "pdu_view (indication_value requestor inst function_id action sn ty header msg process)
    = Some (PDU_initiatingMessage \<lparr>em_procedureCode = 5, em_criticality = 1, em_present = 7,
        em_protocolIEs = decoded_list (indication_ies requestor inst function_id action sn ty header msg process)\<rparr>)"
  by (cases sn; cases process)
    (simp_all add: indication_value_def indication_list_def protocol_ie_def pdu_view_def elementary_view_def initiating_members_def
      ie_view_def asn_MBR_RICindication_IEs_value_def contents_view_def request_id_view_def long_view_def string_view_def
      indication_ies_def)

text \<open>What the xApp gets: a sequence number that is not sent is 0.\<close>

definition taken_indication ::
  "i64 \<Rightarrow> i64 \<Rightarrow> i64 \<Rightarrow> i64 \<Rightarrow> i64 option \<Rightarrow> i64 \<Rightarrow> byte list \<Rightarrow> byte list \<Rightarrow> byte list option \<Rightarrow> RICindicationMsg" where
  "taken_indication requestor inst function_id action sn ty header msg process =
     \<lparr>im_requestorID = sint requestor, im_requestSequenceNumber = sint inst, im_ranfunctionID = sint function_id,
      im_actionID = sint action, im_indicationSN = (case sn of None \<Rightarrow> 0 | Some n \<Rightarrow> sint n), im_indicationType = sint ty,
      im_indicationHeader = Some header, im_indicationHeaderSize = length header,
      im_indicationMessage = Some msg, im_indicationMessageSize = length msg,
      im_callProcessID = process, im_callProcessIDSize = (case process of None \<Rightarrow> 0 | Some p \<Rightarrow> length p)\<rparr>"

lemma indication_taken_apart:
  assumes "indication_in_range requestor inst function_id action sn ty" and "indication_octets header msg process < 15000"
    and "500 + indication_octets header msg process \<le> buffer_size" and "length tmp = 32" and "length tmp' = 32"
  shows "\<exists>n octets h'. aper_encode_to_buffer (Some (asn_encoder tmp' undef asn_DEF_E2AP_PDU))
        (indication_value requestor inst function_id action sn ty header msg process) buffer_size tmp = (n, octets)
    \<and> 0 < n \<and> e2ap_decode_ric_indication_message (\<lambda>_. True) (pdu_decode tmp' undef) (octets @ rest) h
      = Inr (Some (taken_indication requestor inst function_id action sn ty header msg process), h')
    \<and> e2ap_free_decoded_ric_indication_message (Some (taken_indication requestor inst function_id action sn ty header msg process)) h'
      = h\<lparr>live_pdus := live_pdus h + 1\<rparr>"
proof -
  let ?v = "indication_value requestor inst function_id action sn ty header msg process"
  have v: "asn_valid asn_DEF_E2AP_PDU ?v" by (rule indication_valid [OF assms(1,2)])
  have len: "length (asn_bits asn_DEF_E2AP_PDU ?v) \<le> 8 * buffer_size"
    using length_asn_bits [OF v] indication_size [of requestor inst function_id action sn ty header msg process] assms(2,3)
    by linarith
  note enc = asn_encode_total [OF v assms(4,5) len, of undef]
  note dec = pdu_decode_viewed [OF asn_decode_complete [OF v E2AP_PDU_nonempty [OF v] assms(5)], of undef rest, unfolded indication_view]
  show ?thesis
    using enc dec E2AP_PDU_nonempty [OF v]
    by (cases sn; cases process)
      (simp_all add: e2ap_decode_ric_indication_message_def decode_E2AP_PDU_def message_of_def kind_defs decoded_list_items
        taken_indication_def indication_ies_def indication_step_def indication_zero_def alloc_block_def
        e2ap_free_decoded_ric_indication_message_def free_blocks_def indication_blocks_def)
qed

text \<open>
  (C10) An indication of a RAN reaches the xApp: what the coder of \<^verbatim>\<open>asn_DEF_E2AP_PDU\<close> writes for it is taken apart by
  \<^verbatim>\<open>e2ap_decode_ric_indication_message\<close> into exactly the ids, numbers and octet strings that were sent, whatever
  follows in the buffer; a sequence number or call process id that was not sent is 0 or absent, and only the
  decoded message itself is never freed. The elements are in their ranges and in the order of the standard,
  and header, message and call process id have fewer than 15000 octets together.
\<close>

theorem indication_on_the_wire:
  assumes "indication_in_range requestor inst function_id action sn ty" and "indication_octets header msg process < 15000"
    and "500 + indication_octets header msg process \<le> buffer_size" and "length tmp = 32" and "length tmp' = 32"
  shows "\<exists>n octets ind h'. aper_encode_to_buffer (Some (asn_encoder tmp' undef asn_DEF_E2AP_PDU))
        (indication_value requestor inst function_id action sn ty header msg process) buffer_size tmp = (n, octets)
    \<and> 0 < n \<and> e2ap_decode_ric_indication_message (\<lambda>_. True) (pdu_decode tmp' undef) (octets @ rest) h = Inr (Some ind, h')
    \<and> ind = \<lparr>im_requestorID = sint requestor, im_requestSequenceNumber = sint inst, im_ranfunctionID = sint function_id,
        im_actionID = sint action, im_indicationSN = (case sn of None \<Rightarrow> 0 | Some n \<Rightarrow> sint n), im_indicationType = sint ty,
        im_indicationHeader = Some header, im_indicationHeaderSize = length header,
        im_indicationMessage = Some msg, im_indicationMessageSize = length msg,
        im_callProcessID = process, im_callProcessIDSize = (case process of None \<Rightarrow> 0 | Some p \<Rightarrow> length p)\<rparr>
    \<and> e2ap_free_decoded_ric_indication_message (Some ind) h' = h\<lparr>live_pdus := live_pdus h + 1\<rparr>"
  using indication_taken_apart [OF assms, of undef rest h] unfolding taken_indication_def by blast

theorem indication_on_the_wire_witness:
  "let undef = (\<lambda>pd. (ASN__DECODE_FAILED, V_none, pd)); tmp = replicate 32 0 in
    \<exists>n octets ind h'. aper_encode_to_buffer (Some (asn_encoder tmp undef asn_DEF_E2AP_PDU))
        (indication_value 123 1 2 0 None 0 [1, 2, 3] [4, 5] (Some [6])) 600 tmp = (n, octets)
    \<and> 0 < n \<and> e2ap_decode_ric_indication_message (\<lambda>_. True) (pdu_decode tmp undef) (octets @ [0, 0]) empty_heap = Inr (Some ind, h')
    \<and> ind = \<lparr>im_requestorID = sint (123 :: i64), im_requestSequenceNumber = sint (1 :: i64), im_ranfunctionID = sint (2 :: i64),
        im_actionID = sint (0 :: i64), im_indicationSN = 0, im_indicationType = sint (0 :: i64),
        im_indicationHeader = Some [1, 2, 3], im_indicationHeaderSize = length [1, 2, 3 :: byte],
        im_indicationMessage = Some [4, 5], im_indicationMessageSize = length [4, 5 :: byte],
        im_callProcessID = Some [6], im_callProcessIDSize = length [6 :: byte]\<rparr>
    \<and> e2ap_free_decoded_ric_indication_message (Some ind) h' = empty_heap\<lparr>live_pdus := live_pdus empty_heap + 1\<rparr>"
  unfolding Let_def
  using indication_on_the_wire [of 123 1 2 0 None 0 "[1, 2, 3]" "[4, 5]" "Some [6]" 600 "replicate 32 0" "replicate 32 0"]
  by (simp add: indication_in_range_def indication_octets_def in_range_def)

end
