(* ===== verification/E2apSubscription.thy ===== *)
theory E2apSubscription
  imports E2apCodec
begin

text \<open>
  Subscription requests on the coder of \<^verbatim>\<open>asn_DEF_E2AP_PDU\<close>: the request the xApp builds for a list of
  actions is valid and goes round.
\<close>

section \<open>The message\<close>

lemma setup_actions_list:
  assumes "index + todo \<le> length ids" and "index + todo \<le> length types" and "index + todo \<le> length defs"
    and "index + todo \<le> length subs" and "\<And>i. index \<le> i \<Longrightarrow> i < index + todo \<Longrightarrow> plain_action (defs ! i) (subs ! i)"
  shows "setup_actions (\<lambda>_. True) (\<lambda>_. True) ids types defs subs todo index k acts
    = Inr (Some (foldl (\<lambda>as x. snd (asn_set_add (\<lambda>_. True) as (Some x))) acts
        (map (\<lambda>i. to_be_setup_field (ids ! i) (types ! i)) [index..<index + todo])))"
  using assms
proof (induction todo arbitrary: index k acts)
  case (Suc todo)
  from Suc.prems(5) [of index] have p: "plain_action (defs ! index) (subs ! index)" by simp
  have "setup_actions (\<lambda>_. True) (\<lambda>_. True) ids types defs subs todo (Suc index) (Suc k) acts'
    = Inr (Some (foldl (\<lambda>as x. snd (asn_set_add (\<lambda>_. True) as (Some x))) acts'
        (map (\<lambda>i. to_be_setup_field (ids ! i) (types ! i)) [Suc index..<Suc index + todo])))" for acts'
    by (rule Suc.IH) (use Suc.prems in auto)
  moreover have "[index..<index + Suc todo] = index # [Suc index..<Suc index + todo]" by (simp add: upt_rec)
  ultimately show ?case using Suc.prems(1-4) p by (simp add: plain_action_def)
qed simp

definition subscription_request_pdu :: "int \<Rightarrow> int \<Rightarrow> int \<Rightarrow> byte list \<Rightarrow> int list \<Rightarrow> int list \<Rightarrow> 'o E2AP_PDU" where
  "subscription_request_pdu requestor seq fid trigger ids types =
     PDU_initiatingMessage (subscription_request_elementary requestor seq fid trigger (decoded_list (map2 to_be_setup_field ids types)))"

lemma subscription_request_built:
  assumes "length ids = n" and "length types = n" and "length defs = n" and "length subs = n"
    and "\<forall>i < n. plain_action (defs ! i) (subs ! i)"
  shows "e2ap_encode_ric_subscription_request_message (\<lambda>_. True) (\<lambda>_. True) enc tmp buffer requestor seq fid trigger (int n)
      ids types defs subs h
    = (let (sz, buffer', h') = encode_E2AP_PDU enc tmp (subscription_request_pdu requestor seq fid trigger ids types) buffer
           (h\<lparr>live_pdus := live_pdus h + 1\<rparr>)
       in Inr (sint sz, buffer', h'))"
proof -
  have "map (\<lambda>i. to_be_setup_field (ids ! i) (types ! i)) [0..<n] = map2 to_be_setup_field ids types"
    by (rule nth_equalityI) (use assms(1,2) in auto)
  then have "setup_actions (\<lambda>_. True) (\<lambda>_. True) ids types defs subs n 0 6 set_of_zero
      = Inr (Some (decoded_list (map2 to_be_setup_field ids types)))"
    using setup_actions_list [of 0 n ids types defs subs 6 set_of_zero] assms by (simp add: decoded_list_def)
  then show ?thesis
    by (simp add: e2ap_encode_ric_subscription_request_message_def add_two add_three
        subscription_request_pdu_def subscription_request_elementary_def Let_def)
qed

section \<open>Its value\<close>

definition setup_ie :: "int \<times> int \<Rightarrow> asn_value" where
  "setup_ie x = protocol_ie 19 1 (V_struct [C_long (fst x), C_long (snd x), V_none, V_none])"

lemma subscription_request_asn: "pdu_asn (subscription_request_pdu r s f trigger ids types) =
    V_choice 1 (V_struct [V_long 8, V_long 0, V_choice 1 (V_struct [V_list
      [protocol_ie 29 1 (V_struct [C_long r, C_long s]), protocol_ie 5 2 (C_long f),
       protocol_ie 30 3 (V_struct [V_string (trigger, 0), V_list (map setup_ie (zip ids types))])]])])"
proof -
  have "map (single_asn setup_item_asn) (map2 to_be_setup_field ids types) = map setup_ie (zip ids types)"
    by (auto simp: setup_ie_def single_asn_def to_be_setup_field_def setup_item_asn_def string_asn_def protocol_ie_def)
  then show ?thesis
    by (simp add: pdu_asn_def subscription_request_pdu_def subscription_request_elementary_def elementary_asn_def initiating_members_def
        set_items_def [of "\<lparr>so_array = _, so_count = _, so_size = _, so_free = _\<rparr>"] ie_asn_def request_id_field_def function_id_field_def
        details_field_def member_index_def asn_MBR_RICsubscriptionRequest_IEs_value_def protocol_ie_def list_asn_def decoded_list_items
        string_asn_def)
qed

lemma those_map: "(\<And>x. x \<in> set xs \<Longrightarrow> f (g x) = Some (k x)) \<Longrightarrow> those (map f (map g xs)) = Some (map k xs)"
  by (induction xs) simp_all

text \<open>Ids and types of the actions in their ranges.\<close>

definition actions_in_range :: "int list \<Rightarrow> int list \<Rightarrow> bool" where
  "actions_in_range ids types \<longleftrightarrow> length ids = length types \<and> 1 \<le> length ids \<and> length ids \<le> 16
     \<and> list_all (\<lambda>a. 0 \<le> a \<and> a \<le> 255) ids \<and> list_all (\<lambda>t. 0 \<le> t \<and> t \<le> 2) types"

lemma actions_in_rangeD:
  assumes "actions_in_range ids types" and "x \<in> set (zip ids types)"
  shows "0 \<le> fst x \<and> fst x \<le> 255 \<and> 0 \<le> snd x \<and> snd x \<le> 2"
  using assms by (cases x) (auto simp: actions_in_range_def list_all_iff dest: set_zip_leftD set_zip_rightD)

lemma setup_ie_view:
  assumes "actions_in_range ids types"
  shows "those (map (single_view setup_item_view) (map setup_ie (zip ids types))) = Some (map2 to_be_setup_field ids types)"
proof (rule those_map)
  fix x assume "x \<in> set (zip ids types)"
  from actions_in_rangeD [OF assms this]
  show "single_view setup_item_view (setup_ie x) = Some ((\<lambda>(x, y). to_be_setup_field x y) x)"
    by (cases x) (simp add: setup_ie_def protocol_ie_def single_view_def setup_item_view_def string_view_def to_be_setup_field_def sint_in_range)
qed

lemma subscription_request_view:
  assumes "0 \<le> r" "r \<le> 65535" "0 \<le> s" "s \<le> 65535" "0 \<le> f" "f \<le> 4095" and "actions_in_range ids types"
  shows "pdu_view (pdu_asn (subscription_request_pdu r s f trigger ids types)) = Some (subscription_request_pdu r s f trigger ids types)"
  using assms(1-6) setup_ie_view [OF assms(7)] unfolding subscription_request_asn
  by (simp add: pdu_view_def elementary_view_def initiating_members_def ie_view_def protocol_ie_def
      asn_MBR_RICsubscriptionRequest_IEs_value_def contents_view_def request_id_view_def long_view_def sint_in_range
      details_view_def string_view_def list_view_def decoded_list_def [of "[_, _, _]"] add_two add_three
      subscription_request_pdu_def subscription_request_elementary_def request_id_field_def function_id_field_def details_field_def)

section \<open>It is valid\<close>

lemma subscription_request_select:
  "select_RICsubscriptionRequest_IEs_value_type 29 = (Some (IE DEF_RICrequestID), 1)"
  "select_RICsubscriptionRequest_IEs_value_type 5 = (Some (IE DEF_RANfunctionID), 2)"
  "select_RICsubscriptionRequest_IEs_value_type 30 = (Some (IE DEF_RICsubscriptionDetails), 3)"
  "select_RICaction_ToBeSetup_ItemIEs_value_type 19 = (Some (IE DEF_RICaction_ToBeSetup_Item), 1)"
  "select_InitiatingMessage_value_type 8 = (Some (MSG DEF_RICsubscriptionRequest), 1)"
  by code_simp+

lemma ToBeSetup_Item_valid:
  assumes "in_range 255 a" and "in_range 2 t"
  shows "asn_valid asn_DEF_RICaction_ToBeSetup_Item (V_struct [V_long a, V_long t, V_none, V_none])"
    and "asn_bits asn_DEF_RICaction_ToBeSetup_Item (V_struct [V_long a, V_long t, V_none, V_none]) \<noteq> []"
proof -
  have "sint t \<in> {0, 1, 2}" using assms(2) by (auto simp: in_range_def)
  then have "enum_valid (Some asn_SPC_RICactionType_specs_1) (Some asn_PER_type_RICactionType_constr_1) t"
    by (auto simp: enum_valid_def asn_SPC_RICactionType_specs_1_def asn_MAP_RICactionType_value2enum_1_def
        asn_PER_type_RICactionType_constr_1_def bsearch_def en_root_def)
  with assms(1) show "asn_valid asn_DEF_RICaction_ToBeSetup_Item (V_struct [V_long a, V_long t, V_none, V_none])"
    unfolding asn_DEF_RICaction_ToBeSetup_Item_def asn_valid_sequence
    by (simp add: asn_SPC_RICaction_ToBeSetup_Item_specs_1_def asn_MBR_RICaction_ToBeSetup_Item_1_def asn_DEF_RICactionID_def
        asn_DEF_RICactionType_def seq_ok_def seq_optionals_def upt_rec member_present_def in_range_def
        element_constraints long_valid_constrained)
  show "asn_bits asn_DEF_RICaction_ToBeSetup_Item (V_struct [V_long a, V_long t, V_none, V_none]) \<noteq> []"
    by (simp add: asn_DEF_RICaction_ToBeSetup_Item_def asn_SPC_RICaction_ToBeSetup_Item_specs_1_def sequence_bits_nonempty)
qed

lemma ToBeSetup_form: "asn_DEF_ProtocolIE_SingleContainer_90P0 = field_type select_RICaction_ToBeSetup_ItemIEs_criticality_type
    select_RICaction_ToBeSetup_ItemIEs_value_type asn_MBR_RICaction_ToBeSetup_ItemIEs_value
    [(IE DEF_RICaction_ToBeSetup_Item, asn_DEF_RICaction_ToBeSetup_Item)]"
  by (simp add: form_defs asn_DEF_ProtocolIE_SingleContainer_90P0_def asn_DEF_RICaction_ToBeSetup_ItemIEs_value_def)

lemma setup_ie_valid:
  assumes "0 \<le> fst x" "fst x \<le> 255" "0 \<le> snd x" "snd x \<le> 2"
  shows "asn_valid asn_DEF_ProtocolIE_SingleContainer_90P0 (setup_ie x)"
proof -
  have r: "in_range 255 (word_of_int (fst x))" "in_range 2 (word_of_int (snd x))"
    using assms by (simp_all add: in_range_of_int)
  show ?thesis unfolding ToBeSetup_form field_valid setup_ie_def
    using ToBeSetup_Item_valid [OF r]
    by (simp add: protocol_ie_holds open_holds_small asn_MBR_RICaction_ToBeSetup_ItemIEs_value_def subscription_request_select)
qed

lemma details_valid:
  assumes "length trigger < 16384" and "1 \<le> length l" and "length l \<le> 16"
    and "\<forall>v \<in> set l. asn_valid asn_DEF_ProtocolIE_SingleContainer_90P0 v"
  shows "asn_valid asn_DEF_RICsubscriptionDetails (V_struct [V_string (trigger, 0), V_list l])"
    and "asn_bits asn_DEF_RICsubscriptionDetails (V_struct [V_string (trigger, 0), V_list l]) \<noteq> []"
proof -
  have "v \<noteq> V_none" if "v \<in> set l" for v
    using assms(4) that asn_valid_struct unfolding asn_DEF_ProtocolIE_SingleContainer_90P0_def by blast
  then have "asn_valid asn_DEF_RICactions_ToBeSetup_List (V_list l)"
    unfolding asn_DEF_RICactions_ToBeSetup_List_def asn_valid_list using assms(2-4)
    by (simp add: list_valid_def asn_PER_type_RICactions_ToBeSetup_List_constr_1_def asn_MBR_RICactions_ToBeSetup_List_1_def asn_valid_def)
  moreover have "asn_valid asn_DEF_RICeventTriggerDefinition (V_string (trigger, 0))"
    using assms(1) by (simp add: asn_DEF_RICeventTriggerDefinition_def octets_valid)
  ultimately show "asn_valid asn_DEF_RICsubscriptionDetails (V_struct [V_string (trigger, 0), V_list l])"
    unfolding asn_DEF_RICsubscriptionDetails_def asn_valid_sequence
    by (simp add: asn_SPC_RICsubscriptionDetails_specs_1_def asn_MBR_RICsubscriptionDetails_1_def seq_ok_def seq_optionals_def
        upt_rec member_present_def asn_valid_def sp_plain_def)
  show "asn_bits asn_DEF_RICsubscriptionDetails (V_struct [V_string (trigger, 0), V_list l]) \<noteq> []"
    by (simp add: asn_DEF_RICsubscriptionDetails_def asn_SPC_RICsubscriptionDetails_specs_1_def sequence_bits_nonempty)
qed

lemma setup_ie_size: "(\<Sum>v\<leftarrow>map setup_ie xs. value_size v) = 433 * length xs"
  by (induction xs) (simp_all add: setup_ie_def protocol_ie_def)

lemma subscription_request_valid:
  assumes "0 \<le> r" "r \<le> 65535" "0 \<le> s" "s \<le> 65535" "0 \<le> f" "f \<le> 4095" and act: "actions_in_range ids types"
    and "length trigger < 14000"
  shows "pdu_valid (subscription_request_pdu r s f trigger ids types)"
proof -
  let ?items = "map setup_ie (zip ids types)"
  let ?d = "V_struct [V_string (trigger, 0), V_list ?items]"
  let ?l = "[protocol_ie 29 1 (V_struct [C_long r, C_long s]), protocol_ie 5 2 (C_long f), protocol_ie 30 3 ?d]"
  let ?types = "[(IE DEF_RICrequestID, asn_DEF_RICrequestID), (IE DEF_RANfunctionID, asn_DEF_RANfunctionID),
     (IE DEF_RICsubscriptionDetails, asn_DEF_RICsubscriptionDetails)]"
  have len: "length ids = length types" "1 \<le> length ids" "length ids \<le> 16" using act by (simp_all add: actions_in_range_def)
  have "\<forall>v \<in> set ?items. asn_valid asn_DEF_ProtocolIE_SingleContainer_90P0 v"
    using actions_in_rangeD [OF act] setup_ie_valid by auto
  with details_valid [of trigger ?items] assms(8) len
  have details: "asn_valid asn_DEF_RICsubscriptionDetails ?d" "asn_bits asn_DEF_RICsubscriptionDetails ?d \<noteq> []" by simp_all
  have size: "value_size ?d < 121000" using assms(8) len setup_ie_size [of "zip ids types"] by simp
  have "\<forall>e \<in> set ?l. ie_holds select_RICsubscriptionRequest_IEs_value_type asn_MBR_RICsubscriptionRequest_IEs_value ?types e"
    using assms details size
    by (simp add: protocol_ie_holds open_holds_small asn_MBR_RICsubscriptionRequest_IEs_value_def subscription_request_select
        small_elements in_range_of_int)
  then have "asn_valid asn_DEF_RICsubscriptionRequest (V_struct [V_list ?l])"
    unfolding RICsubscriptionRequest_form message_valid by simp
  moreover have "asn_bits asn_DEF_RICsubscriptionRequest (V_struct [V_list ?l]) \<noteq> []"
    unfolding RICsubscriptionRequest_form message_bits_nonempty by blast
  moreover have "value_size (V_struct [V_list ?l]) < 131000" using size by (simp add: protocol_ie_def)
  ultimately have "asn_valid asn_DEF_E2AP_PDU (pdu_asn (subscription_request_pdu r s f trigger ids types))"
    unfolding subscription_request_asn
    by (rule initiating_valid) (simp_all add: in_range_def criticality_valid_def asn_MBR_InitiatingMessage_value_def
        initiating_types_def subscription_request_select)
  then show ?thesis using subscription_request_view [OF assms(1-7)] by (simp add: pdu_valid_def)
qed

lemma subscription_request_bits:
  assumes "0 \<le> r" "r \<le> 65535" "0 \<le> s" "s \<le> 65535" "0 \<le> f" "f \<le> 4095" and act: "actions_in_range ids types"
    and "length trigger < 14000"
  shows "0 < length (pdu_bits (subscription_request_pdu r s f trigger ids types))"
    and "length (pdu_bits (subscription_request_pdu r s f trigger ids types)) \<le> 9000 + 8 * length trigger"
proof -
  have v: "asn_valid asn_DEF_E2AP_PDU (pdu_asn (subscription_request_pdu r s f trigger ids types))"
    using subscription_request_valid [OF assms] by (simp add: pdu_valid_def)
  have "length ids \<le> 16" "length ids = length types" using act by (simp_all add: actions_in_range_def)
  then have "value_size (pdu_asn (subscription_request_pdu r s f trigger ids types)) \<le> 9000 + 8 * length trigger"
    unfolding subscription_request_asn using setup_ie_size [of "zip ids types"] by (simp add: protocol_ie_def)
  then show "length (pdu_bits (subscription_request_pdu r s f trigger ids types)) \<le> 9000 + 8 * length trigger"
    using length_asn_bits [OF v] assms(8) by (simp add: pdu_bits_def)
  show "0 < length (pdu_bits (subscription_request_pdu r s f trigger ids types))"
    using E2AP_PDU_nonempty [OF v] by (simp add: pdu_bits_def)
qed

text \<open>
  (C9) A subscription request whose actions have neither a definition nor a subsequent action goes over the wire
  (with one of them the builder does not survive): for ids, function and 1 to 16 actions in their ranges
  and an event trigger of less than 14000 octets, the builder writes it into every buffer that has 1125 octets more
  than the trigger; the octets are decoded into exactly that request, its sequence number is read back, and can be
  replaced and read back again.
\<close>

theorem subscription_request_on_the_wire:
  assumes "0 \<le> requestor" "requestor \<le> 65535" "0 \<le> seq" "seq \<le> 65535" "0 \<le> fid" "fid \<le> 4095" "0 \<le> n" "n \<le> 65535"
    and "actions_in_range ids types" and "list_all2 plain_action defs subs" and "length defs = length ids"
    and "length trigger < 14000" and "1125 + length trigger \<le> length buffer" and "length tmp = 32" and "length tmp' = 32"
  shows "\<exists>size buf1 size' buf2.
      e2ap_encode_ric_subscription_request_message (\<lambda>_. True) (\<lambda>_. True) (pdu_encode tmp' undef) tmp buffer requestor seq fid trigger
        (int (length ids)) ids types defs subs h = Inr (size, buf1, h)
    \<and> 0 < size \<and> size \<le> 9000 + 8 * int (length trigger) \<and> length buf1 = length buffer
    \<and> decode_E2AP_PDU (pdu_decode tmp' undef) buf1 h
        = Inr (Some (subscription_request_pdu requestor seq fid trigger ids types), h\<lparr>live_pdus := live_pdus h + 1\<rparr>)
    \<and> e2ap_get_ric_subscription_request_sequence_number (pdu_decode tmp' undef) buf1 h = Inr (seq, h)
    \<and> e2ap_set_ric_subscription_request_sequence_number (pdu_decode tmp' undef) (pdu_encode tmp' undef) tmp buf1 n h
        = Inr (size', buf2, h)
    \<and> e2ap_get_ric_subscription_request_sequence_number (pdu_decode tmp' undef) buf2 h = Inr (n, h)"
proof -
  let ?p = "\<lambda>s. subscription_request_pdu requestor s fid trigger ids types :: asn_value E2AP_PDU"
  let ?dec = "pdu_decode tmp' undef" and ?enc = "pdu_encode tmp' undef" and ?kind = "RICsubscriptionRequest_kind"
  let ?h = "h\<lparr>live_pdus := live_pdus h + 1\<rparr>"
  note rp = assms(1-6) assms(9,12) and rq = assms(1,2,7,8,5,6) assms(9,12)
  note bits = subscription_request_bits [OF rp] and bits' = subscription_request_bits [OF rq]
  obtain sz buf1 where e: "encode_E2AP_PDU ?enc tmp (?p seq) buffer ?h = (sz, buf1, h)"
    and sz: "sint sz = int (length (pdu_bits (?p seq)))" and l: "length buf1 = length buffer"
    and d: "\<And>h2. decode_E2AP_PDU ?dec buf1 h2 = Inr (Some (?p seq), h2\<lparr>live_pdus := live_pdus h2 + 1\<rparr>)"
    by (rule pdu_encode_written [OF subscription_request_valid [OF rp] assms(14,15), where buffer = buffer and undef = undef and h = ?h])
      (use bits assms(12,13) in \<open>simp_all add: free_pdu_def\<close>)
  obtain sz' buf2 where e': "encode_E2AP_PDU ?enc tmp (?p n) buf1 ?h = (sz', buf2, h)"
    and d': "\<And>h2. decode_E2AP_PDU ?dec buf2 h2 = Inr (Some (?p n), h2\<lparr>live_pdus := live_pdus h2 + 1\<rparr>)"
    by (rule pdu_encode_written [OF subscription_request_valid [OF rq] assms(14,15), where buffer = buf1 and undef = undef and h = ?h])
      (use bits' assms(12,13) l in \<open>simp_all add: free_pdu_def\<close>)
  note ok = subscription_request_elementary_ok [of requestor _ fid trigger "decoded_list (map2 to_be_setup_field ids types)"]
  have get: "get_sequence_number ?kind ?dec buf1 h = Inr (seq, h)" "get_sequence_number ?kind ?dec buf2 h = Inr (n, h)"
    using sub_request.get_sequence_number_ok [OF d [unfolded subscription_request_pdu_def] ok(1)]
      sub_request.get_sequence_number_ok [OF d' [unfolded subscription_request_pdu_def] ok(1)]
    by (simp_all add: ok(3))
  have set: "set_sequence_number ?kind ?dec ?enc tmp buf1 n h = Inr (sint sz', buf2, h)"
    using e' by (simp add: set_sequence_number_def d subscription_request_pdu_def message_of_def kind_defs subscription_request_elementary_def
        set_items_def [of "\<lparr>so_array = _, so_count = _, so_size = _, so_free = _\<rparr>"] request_id_field_def
        function_id_field_def details_field_def Let_def)
  have "\<forall>i < length ids. plain_action (defs ! i) (subs ! i)" "length subs = length ids"
    using assms(10,11) by (auto simp: list_all2_conv_all_nth)
  then have "e2ap_encode_ric_subscription_request_message (\<lambda>_. True) (\<lambda>_. True) ?enc tmp buffer requestor seq fid trigger
      (int (length ids)) ids types defs subs h = Inr (sint sz, buf1, h)"
    by (subst subscription_request_built [where n = "length ids"]) (use e assms(9,11) in \<open>simp_all add: actions_in_range_def\<close>)
  with sz l d get set bits show ?thesis by (auto simp: sequence_number_defs)
qed

theorem subscription_request_on_the_wire_witness:
  "let undef = (\<lambda>pd. (ASN__DECODE_FAILED, V_none, pd)); tmp = replicate 32 0; h = empty_heap in \<exists>size buf1 size' buf2.
      e2ap_encode_ric_subscription_request_message (\<lambda>_. True) (\<lambda>_. True) (pdu_encode tmp undef) tmp (replicate 2000 0) 1001 5 2 [8, 9]
        (int (length [1, 2 :: int])) [1, 2] [0, 1] (replicate 2 \<lparr>ad_actionDefinition = [], ad_size = 0\<rparr>)
        (replicate 2 \<lparr>sa_isValid = 0, sa_subsequentActionType = 0, sa_timeToWait = 0\<rparr>) h = Inr (size, buf1, h)
    \<and> 0 < size \<and> size \<le> 9000 + 8 * int (length [8, 9 :: byte]) \<and> length buf1 = length (replicate 2000 (0 :: byte))
    \<and> decode_E2AP_PDU (pdu_decode tmp undef) buf1 h
        = Inr (Some (subscription_request_pdu 1001 5 2 [8, 9] [1, 2] [0, 1]), h\<lparr>live_pdus := live_pdus h + 1\<rparr>)
    \<and> e2ap_get_ric_subscription_request_sequence_number (pdu_decode tmp undef) buf1 h = Inr (5, h)
    \<and> e2ap_set_ric_subscription_request_sequence_number (pdu_decode tmp undef) (pdu_encode tmp undef) tmp buf1 77 h
        = Inr (size', buf2, h)
    \<and> e2ap_get_ric_subscription_request_sequence_number (pdu_decode tmp undef) buf2 h = Inr (77, h)"
  unfolding Let_def
  by (rule subscription_request_on_the_wire) (simp_all add: actions_in_range_def plain_action_def list_all2_conv_all_nth nth_Cons')

end
