(* ===== verification/AsnE2sm.thy ===== *)
theory AsnE2sm
  imports AsnWhole
begin

text \<open>
  The second copy of the runtime, \<^verbatim>\<open>e2sm/lib\<close>, which codes the service model. It is the copy under
  \<^verbatim>\<open>e2ap/lib\<close> but for three functions that aligned PER uses: the string encoder skips to an octet only
  before more than two octets, and the CHOICE coders treat alternatives behind the extension marker
  differently. (\<^verbatim>\<open>SEQUENCE_encode_aper\<close> also reads the result of a default comparison the other way round;
  no type of the service model has a default value.) The functions of this copy are modelled here with
  the prefix \<open>e2sm_\<close>, its dispatch is \<open>e2sm_op\<close>, and \<open>e2sm_op_meets\<close> is the counterpart of \<open>per_op_meets\<close>.

  The encoder of an alternative behind the marker reads \<^verbatim>\<open>ct->range_bits\<close> through the pointer it has just
  cleared; \<open>crash\<close> stands for what happens then, and nothing is assumed about it.
\<close>

section \<open>Strings\<close>

definition e2sm_OCTET_STRING_encode_aper ::
  "asn_OS_Subvariant \<Rightarrow> asn_per_constraints option \<Rightarrow> asn_per_constraints option \<Rightarrow> (byte list \<Rightarrow> 'k \<Rightarrow> 'k option)
    \<Rightarrow> asn_string \<Rightarrow> 'k outp \<Rightarrow> int \<times> 'k outp" where
  "e2sm_OCTET_STRING_encode_aper subvariant td_constraints constraints out st po =
     (let pc = constraints_or constraints td_constraints;
          def = asn_DEF_OCTET_STRING_constraints;
          (cval0, csiz0) = (case pc of Some p \<Rightarrow> (pcs_value p, pcs_size p) | None \<Rightarrow> (pcs_value def, pcs_size def));
          ct_extensible = pc_extensible csiz0;
          (bpc, canonical_unit_bits, unit_bits0) = string_units subvariant cval0;
          size = length (fst st); sizeinunits = string_size subvariant st;
          outside = (0 \<le> pc_effective_bits csiz0 \<and>
            (int sizeinunits < sint (pc_lower_bound csiz0) \<or> sint (pc_upper_bound csiz0) < int sizeinunits))
      in if outside \<and> \<not> ct_extensible then (-1, po)
         else
           let (cval, csiz, unit_bits) =
                 (if outside then (pcs_value def, pcs_size def, canonical_unit_bits) else (cval0, csiz0, unit_bits0));
               (r, po1) = (if ct_extensible then asn_put_few_bits out po (if outside then 1 else 0) 1 else (0, po));
               lb = sint (pc_lower_bound csiz); ub = sint (pc_upper_bound csiz);
               put = (\<lambda>buf units po.
                 if bpc \<noteq> 0 then OCTET_STRING_per_put_characters out po buf units bpc unit_bits
                        (pc_lower_bound cval) (pc_upper_bound cval) pc
                 else asn_put_many_bits out po buf (int units * unit_bits))
           in if r \<noteq> 0 then (-1, po1)
              else if 0 \<le> pc_effective_bits csiz then
                let (ret, po2) = (if 0 < pc_effective_bits csiz
                      then aper_put_length out po1 (ub - lb + 1) (nat (int sizeinunits - lb)) else (0, po1))
                in if ret \<noteq> 0 then (-1, po2)
                   else
                     let (a, po3) = (if 2 < size then aper_put_align out po2 else (0, po2))
                     in if a < 0 then (-1, po3)
                        else let (ret, po4) = put (fst st) sizeinunits po3 in (if ret \<noteq> 0 then -1 else 0, po4)
              else if sizeinunits = 0 then
                let (ret, po2) = aper_put_length out po1 (-1) 0 in (if ret \<noteq> 0 then -1 else 0, po2)
              else put_fragments put out bpc (fst st) sizeinunits po1)"

text \<open>
  One or two characters where the size has a range: nothing is skipped, as the decoder expects. A
  string in a range is otherwise written as by the other copy when it has more than two octets.
\<close>

definition short_string :: "asn_OS_Subvariant \<Rightarrow> asn_per_constraints option \<Rightarrow> asn_string \<Rightarrow> bool" where
  "short_string subvariant pc st \<longleftrightarrow> subvariant = ASN_OSUBV_STR \<and> length (fst st) \<le> 2 \<and>
     0 < pc_effective_bits (snd (string_constraints pc))"

definition e2sm_string_valid :: "asn_OS_Subvariant \<Rightarrow> asn_per_constraints option \<Rightarrow> asn_string \<Rightarrow> bool" where
  "e2sm_string_valid subvariant pc st \<longleftrightarrow>
     (let (cval, csiz) = string_constraints pc; n = int (length (fst st));
          lb = sint (pc_lower_bound csiz); ub = sint (pc_upper_bound csiz)
      in if short_string subvariant pc st
         then snd st = 0 \<and> uint (pc_upper_bound cval) \<le> 256 \<and> lb \<le> n \<and> n \<le> ub \<and> lb < ub \<and> ub - lb + 1 \<le> 65536
         else string_valid subvariant pc st \<and> (0 < pc_effective_bits csiz \<longrightarrow> 2 < n))"

definition e2sm_string_field :: "asn_OS_Subvariant \<Rightarrow> asn_per_constraints option \<Rightarrow> nat \<Rightarrow> asn_string \<Rightarrow> bool list" where
  "e2sm_string_field subvariant pc k st =
     (let csiz = snd (string_constraints pc); lb = sint (pc_lower_bound csiz); ub = sint (pc_upper_bound csiz);
          pre = (if pc_extensible csiz then [False] else [])
      in if short_string subvariant pc st
         then pre @ nsnnwn_field (ub - lb + 1) (k + length pre) (int (length (fst st)) - lb) @ bytes_bits (fst st)
         else string_field subvariant pc k st)"

lemma e2sm_string_encode:
  assumes "string_valid subvariant (constraints_or ct td) st"
    and "0 < pc_effective_bits (snd (string_constraints (constraints_or ct td))) \<longrightarrow> 2 < length (fst st)"
  shows "e2sm_OCTET_STRING_encode_aper subvariant td ct out st po = OCTET_STRING_encode_aper subvariant td ct out st po"
proof -
  let ?pc = "constraints_or ct td"
  obtain cval csiz where c: "string_constraints ?pc = (cval, csiz)" by fastforce
  then have c': "(case ?pc of Some p \<Rightarrow> (pcs_value p, pcs_size p) | None \<Rightarrow> (pcs_value asn_DEF_OCTET_STRING_constraints,
      pcs_size asn_DEF_OCTET_STRING_constraints)) = (cval, csiz)" by (simp add: string_constraints_def)
  obtain bpc cub ub8 where u: "string_units subvariant cval = (bpc, cub, ub8)" by (metis prod_cases3)
  have outside: "(0 \<le> pc_effective_bits csiz \<and> (int (string_size subvariant st) < sint (pc_lower_bound csiz)
      \<or> sint (pc_upper_bound csiz) < int (string_size subvariant st))) = False"
    using assms(1) c by (auto simp: string_valid_def Let_def split: if_splits)
  have align: "0 \<le> pc_effective_bits csiz \<Longrightarrow>
      (2 < length (fst st) \<or> sint (pc_lower_bound csiz) \<noteq> sint (pc_upper_bound csiz)) = (2 < length (fst st))"
    using assms c by (auto simp: string_valid_def Let_def split: if_splits)
  show ?thesis
    unfolding e2sm_OCTET_STRING_encode_aper_def OCTET_STRING_encode_aper_def Let_def c' u prod.case outside simp_thms if_False
    using align by (simp cong: if_cong)
qed

context roomy_sink
begin

lemma short_string_emits:
  assumes ok: "po_ok po" and s: "short_string subvariant (constraints_or ct td) st" and v: "e2sm_string_valid subvariant (constraints_or ct td) st"
    and enc: "e2sm_OCTET_STRING_encode_aper subvariant td ct out st po = (r, po')"
  shows "po_emits contents room po (e2sm_string_field subvariant (constraints_or ct td) (po_nboff po mod 8) st) (r \<noteq> -1) po'"
proof -
  let ?pc = "constraints_or ct td" and ?n = "length (fst st)"
  obtain cval csiz where c: "string_constraints ?pc = (cval, csiz)" by fastforce
  then have c': "(case ?pc of Some p \<Rightarrow> (pcs_value p, pcs_size p) | None \<Rightarrow> (pcs_value asn_DEF_OCTET_STRING_constraints,
      pcs_size asn_DEF_OCTET_STRING_constraints)) = (cval, csiz)" by (simp add: string_constraints_def)
  let ?lb = "sint (pc_lower_bound csiz)" and ?ub = "sint (pc_upper_bound csiz)" and ?eff = "pc_effective_bits csiz"
  have sub: "subvariant = ASN_OSUBV_STR" "?n \<le> 2" "0 < ?eff" using s c by (simp_all add: short_string_def)
  have w: "snd st = 0" "uint (pc_upper_bound cval) \<le> 256" "?lb \<le> int ?n" "int ?n \<le> ?ub" "?lb < ?ub" "?ub - ?lb + 1 \<le> 65536"
    using v s c by (simp_all add: e2sm_string_valid_def Let_def)
  have u: "string_units subvariant cval = (1, 8, 8)" and size: "string_size subvariant st = ?n"
    using sub(1) by (simp_all add: string_units_def string_size_def)
  obtain r1 po1 where 1: "(if pc_extensible csiz then asn_put_few_bits out po 0 1 else (0, po)) = (r1, po1)" by fastforce
  let ?pre = "if pc_extensible csiz then [False] else []" and ?rng = "?ub - ?lb + 1" and ?m = "int ?n - ?lb"
  let ?k = "po_nboff po mod 8 + length ?pre"
  let ?len = "nsnnwn_field ?rng ?k ?m"
  have e1: "po_emits contents room po ?pre (r1 = 0) po1"
    using 1 bit_emits [OF ok, of False r1 po1] ok by (auto simp: po_emits_refl split: if_splits)
  have k: "po_nboff po1 mod 8 = ?k mod 8" if "r1 = 0"
    using po_emits_nboff [OF ok e1 that] by (simp add: mod_add_left_eq)
  obtain l po2 where l: "aper_put_nsnnwn out po1 ?rng ?m = (l, po2)" by fastforce
  obtain q po3 where p: "asn_put_many_bits out po2 (fst st) (8 * int ?n) = (q, po3)" by fastforce
  have rng: "0 \<le> ?rng" "?rng \<le> 65536" "0 \<le> ?m" using w by auto
  then have l': "aper_put_length out po1 ?rng (nat ?m) = (l, po2)" using l by (simp add: aper_put_length_def)
  have outside: "(0 \<le> ?eff \<and> (int ?n < ?lb \<or> ?ub < int ?n)) = False" using w by simp
  have run: "(r, po') = (if r1 \<noteq> 0 then (-1, po1) else if l \<noteq> 0 then (-1, po2) else (if q \<noteq> 0 then -1 else 0, po3))"
    using enc l' p sub w(2)
    unfolding e2sm_OCTET_STRING_encode_aper_def Let_def c' u prod.case size outside simp_thms if_False 1
    by (cases "r1 = 0"; cases "l = 0") (auto simp: per_characters_octets)
  have e2: "po_emits contents room po1 ?len (l = 0) po2" if "r1 = 0"
    using nsnnwn_emits [OF po_emits_ok [OF e1 that] rng(2) l] nsnnwn_field_cong [OF k [OF that]] by simp
  have e12: "po_emits contents room po (?pre @ ?len) (r1 = 0 \<and> l = 0) po2"
    by (rule po_emits_bind [OF e1]) (use e2 in auto)
  have e3: "po_emits contents room po2 (bytes_bits (fst st)) (q = 0) po3" if "r1 = 0 \<and> l = 0"
    using many_emits [OF po_emits_ok [OF e12 that] _ _ p] by (simp add: nat_mult_distrib)
  have "po_emits contents room po ((?pre @ ?len) @ bytes_bits (fst st)) (r \<noteq> -1) po'"
    by (rule po_emits_bind [OF e12]) (use run e3 in \<open>auto split: if_splits\<close>)
  then show ?thesis using s c by (simp add: e2sm_string_field_def Let_def)
qed

lemma e2sm_string_emits:
  assumes "po_ok po" and v: "e2sm_string_valid subvariant (constraints_or ct td) st"
    and enc: "e2sm_OCTET_STRING_encode_aper subvariant td ct out st po = (r, po')"
  shows "po_emits contents room po (e2sm_string_field subvariant (constraints_or ct td) (po_nboff po mod 8) st) (r \<noteq> -1) po'"
proof (cases "short_string subvariant (constraints_or ct td) st")
  case True
  then show ?thesis by (rule short_string_emits [OF assms(1) _ assms(2,3)])
next
  case False
  then have w: "string_valid subvariant (constraints_or ct td) st"
    "0 < pc_effective_bits (snd (string_constraints (constraints_or ct td))) \<longrightarrow> 2 < length (fst st)"
    using v by (auto simp: e2sm_string_valid_def split: prod.splits)
  have "OCTET_STRING_encode_aper subvariant td ct out st po = (r, po')" using enc unfolding e2sm_string_encode [OF w] .
  from string_emits [OF assms(1) w(1) this] False show ?thesis
    by (simp add: e2sm_string_field_def)
qed

end

lemma short_string_takes:
  assumes ok: "pd_ok pd" and s: "short_string subvariant (constraints_or ct td) st" and v: "e2sm_string_valid subvariant (constraints_or ct td) st"
    and bits: "pd_bits pd = e2sm_string_field subvariant (constraints_or ct td) (pd_nboff pd mod 8) st @ rest"
  shows "\<exists>rv pd'. OCTET_STRING_decode_aper subvariant td ct pd = (rv, st, pd') \<and> rv_code rv = RC_OK
    \<and> pd_reads pd (e2sm_string_field subvariant (constraints_or ct td) (pd_nboff pd mod 8) st) pd'"
proof -
  let ?pc = "constraints_or ct td" and ?n = "length (fst st)"
  obtain cval csiz where c: "string_constraints ?pc = (cval, csiz)" by fastforce
  then have c': "(case ?pc of Some p \<Rightarrow> (pcs_value p, pcs_size p) | None \<Rightarrow> (pcs_value asn_DEF_OCTET_STRING_constraints,
      pcs_size asn_DEF_OCTET_STRING_constraints)) = (cval, csiz)" by (simp add: string_constraints_def)
  let ?lb = "sint (pc_lower_bound csiz)" and ?ub = "sint (pc_upper_bound csiz)" and ?eff = "pc_effective_bits csiz"
  have sub: "subvariant = ASN_OSUBV_STR" "?n \<le> 2" "0 < ?eff" using s c by (simp_all add: short_string_def)
  have w: "snd st = 0" "uint (pc_upper_bound cval) \<le> 256" "?lb \<le> int ?n" "int ?n \<le> ?ub" "?lb < ?ub" "?ub - ?lb + 1 \<le> 65536"
    using v s c by (simp_all add: e2sm_string_valid_def Let_def)
  have u: "string_units subvariant cval = (1, 8, 8)" using sub(1) by (simp add: string_units_def)
  let ?pre = "if pc_extensible csiz then [False] else []" and ?rng = "?ub - ?lb + 1" and ?m = "int ?n - ?lb"
  let ?k = "pd_nboff pd mod 8 + length ?pre"
  let ?len = "nsnnwn_field ?rng ?k ?m"
  have f: "e2sm_string_field subvariant ?pc (pd_nboff pd mod 8) st = ?pre @ ?len @ bytes_bits (fst st)"
    using s c by (simp add: e2sm_string_field_def Let_def)
  then have b0: "pd_bits pd = ?pre @ ?len @ bytes_bits (fst st) @ rest" using bits by simp
  then have "pd_bits pd = (if \<not> pc_extensible csiz then [] else [False]) @ ?len @ bytes_bits (fst st) @ rest" by simp
  from optional_bit_takes [OF ok this] obtain pd0 where
    0: "(if pc_extensible csiz then asn_get_few_bits pd 1 else (0, pd)) = (0, pd0)" and r0: "pd_reads pd ?pre pd0"
    by (auto split: if_splits)
  note s0 = pd_reads_step [OF ok r0 b0]
  have rng: "?rng \<le> 65536" "0 \<le> ?m" "?m < ?rng" "0 \<le> ?rng" "?ub - ?lb \<noteq> 0" using w by auto
  have "pd_bits pd0 = nsnnwn_field ?rng (pd_nboff pd0) ?m @ bytes_bits (fst st) @ rest"
    using s0(2) nsnnwn_field_cong [OF s0(3)] by simp
  from nsnnwn_takes [OF s0(1) rng(1-3) this] obtain pd1 where
    n: "aper_get_nsnnwn pd0 ?rng = (?m, pd1)" and r1: "pd_reads pd0 ?len pd1"
    using nsnnwn_field_cong [OF s0(3), of ?rng ?m] by auto
  note r01 = pd_reads_trans [OF r0 r1] and b01 = b0 [folded append_assoc [of ?pre ?len]]
  note s1 = pd_reads_step [OF ok r01 b01]
  from get_many_bits_reads [OF s1(1,2)] obtain pd2 where
    g: "asn_get_many_bits pd1 False (8 * int ?n) = (0, fst st, pd2)" and r2: "pd_reads pd1 (bytes_bits (fst st)) pd2" by auto
  have l: "aper_get_length pd0 ?rng ?eff = (?m, False, pd1)" using n rng by (simp add: aper_get_length_def)
  have "\<exists>rv. OCTET_STRING_decode_aper subvariant td ct pd = (rv, st, pd2) \<and> rv_code rv = RC_OK"
    unfolding OCTET_STRING_decode_aper_def Let_def c' u prod.case 0
    using sub w l g rng by (auto simp: per_characters_octets)
  with pd_reads_trans [OF r01 r2] f show ?thesis by auto
qed

lemma e2sm_string_takes:
  assumes "pd_ok pd" and v: "e2sm_string_valid subvariant (constraints_or ct td) st"
    and bits: "pd_bits pd = e2sm_string_field subvariant (constraints_or ct td) (pd_nboff pd mod 8) st @ rest"
  shows "\<exists>rv pd'. OCTET_STRING_decode_aper subvariant td ct pd = (rv, st, pd') \<and> rv_code rv = RC_OK
    \<and> pd_reads pd (e2sm_string_field subvariant (constraints_or ct td) (pd_nboff pd mod 8) st) pd'"
proof (cases "short_string subvariant (constraints_or ct td) st")
  case True
  then show ?thesis by (rule short_string_takes [OF assms(1) _ assms(2,3)])
next
  case False
  then have "string_valid subvariant (constraints_or ct td) st"
    using v by (auto simp: e2sm_string_valid_def split: prod.splits)
  from string_takes [OF assms(1) this] bits False show ?thesis by (simp add: e2sm_string_field_def)
qed

section \<open>CHOICE\<close>

definition e2sm_CHOICE_encode_aper ::
  "('k outp \<Rightarrow> int \<times> 'k outp) \<Rightarrow> byte list \<Rightarrow> (byte list \<Rightarrow> 'k \<Rightarrow> 'k option) \<Rightarrow> asn_per_constraints option
    \<Rightarrow> asn_CHOICE_specifics \<Rightarrow> 'k per_op asn_TYPE_member list \<Rightarrow> asn_per_constraints option \<Rightarrow> nat \<times> asn_value
    \<Rightarrow> 'k outp \<Rightarrow> int \<times> 'k outp" where
  "e2sm_CHOICE_encode_aper crash tmp out td_constraints specs elements constraints choice po =
     (let ct0 = map_option pcs_value (constraints_or constraints td_constraints)
      in if fst choice = 0 \<or> length elements < fst choice then (-1, po)
         else
           let present = canonical (ch_to_canonical_order specs) (fst choice - 1);
               outside = (case ct0 of None \<Rightarrow> False
                 | Some ct \<Rightarrow> 0 \<le> pc_range_bits ct \<and>
                     (int present < sint (pc_lower_bound ct) \<or> sint (pc_upper_bound ct) < int present));
               extensible = (case ct0 of None \<Rightarrow> False | Some ct \<Rightarrow> pc_extensible ct);
               (r, po1) = (if extensible then asn_put_few_bits out po (if outside then 1 else 0) 1
                           else (if outside then -1 else 0, po));
               elm = elements ! present
           in if r \<noteq> 0 \<or> \<not> member_present elm (snd choice) then (-1, po1)
              else case (if outside then None else ct0) of
                Some ct \<Rightarrow>
                  if 0 \<le> pc_range_bits ct then
                    let (r, po2) = asn_put_few_bits out po1 (of_nat present) (pc_range_bits ct)
                    in if r \<noteq> 0 then (-1, po2) else op_encode (mb_type elm) (mb_constraints elm) (snd choice) po2
                  else if ch_ext_start specs = -1 then (-1, po1)
                  else
                    let (r, po2) = aper_put_nsnnwn out po1 (pc_range_bits ct) (int present - ch_ext_start specs)
                    in if r \<noteq> 0 then (-1, po2)
                       else let (r, po3) = aper_open_type_put (\<lambda>_. True)
                                  (Some (op_encode_new (mb_type elm) (mb_constraints elm))) tmp out (snd choice) po2
                            in (if r \<noteq> 0 then -1 else 0, po3)
              | None \<Rightarrow> if ch_ext_start specs = -1 then (-1, po1) else crash po1)"

definition e2sm_CHOICE_decode_aper ::
  "asn_decoder \<Rightarrow> asn_per_constraints option \<Rightarrow> asn_CHOICE_specifics \<Rightarrow> 'k per_op asn_TYPE_member list
    \<Rightarrow> asn_per_constraints option \<Rightarrow> asn_decoder" where
  "e2sm_CHOICE_decode_aper undef td_constraints specs elements constraints pd0 =
     (let ct0 = map_option pcs_value (constraints_or constraints td_constraints);
          (inext, pd) = (case ct0 of
             Some ct \<Rightarrow> if pc_extensible ct then asn_get_few_bits pd0 1 else (0, pd0)
           | None \<Rightarrow> (0, pd0));
          finish = (\<lambda>root i pd.
             let i = canonical (ch_from_canonical_order specs) i; elm = elements ! i;
                 dec = op_decode (mb_type elm) (mb_constraints elm)
             in if length elements \<le> i then undef pd
                else let (rv, v, pd1) = (if root then dec pd else uper_open_type_get (\<lambda>_. True) dec (member_zero elm) pd)
                     in (rv, V_choice (Suc i) v, pd1));
          extension = (\<lambda>pd.
             if ch_ext_start specs = -1 then (ASN__DECODE_FAILED, V_choice 0 V_none, pd)
             else
               let (n, pd1) = uper_get_nsnnwn pd; val = n + ch_ext_start specs
               in if n < 0 then (ASN__DECODE_STARVED, V_choice 0 V_none, pd1)
                  else if val < 0 \<or> int (length elements) \<le> val then (ASN__DECODE_FAILED, V_choice 0 V_none, pd1)
                  else finish False (nat val) pd1)
      in if inext < 0 then (ASN__DECODE_STARVED, V_choice 0 V_none, pd)
         else case (if inext \<noteq> 0 then None else ct0) of
           Some ct \<Rightarrow>
             if 0 \<le> pc_range_bits ct then
               let (val, pd1) = asn_get_few_bits pd (pc_range_bits ct)
               in if val < 0 then (ASN__DECODE_STARVED, V_choice 0 V_none, pd1)
                  else if sint (pc_upper_bound ct) < val then (ASN__DECODE_FAILED, V_choice 0 V_none, pd1)
                  else finish True (nat val) pd1
             else extension pd
         | None \<Rightarrow> extension pd)"

text \<open>The alternatives of the root, in a table without a canonical order, as all of the service model are.\<close>

definition root_choice_valid ::
  "asn_per_constraints option \<Rightarrow> asn_CHOICE_specifics \<Rightarrow> per_spec asn_TYPE_member list \<Rightarrow> asn_per_constraints option
    \<Rightarrow> nat \<times> asn_value \<Rightarrow> bool" where
  "root_choice_valid td specs elements ct choice \<longleftrightarrow> choice_valid td specs elements ct choice
     \<and> \<not> choice_outside (pcs_value (the (constraints_or ct td))) (fst choice - 1) \<and> ch_to_canonical_order specs = None"

lemma e2sm_choice_encode:
  assumes "root_choice_valid td specs elements ct choice" and "length elements = length ops"
  shows "e2sm_CHOICE_encode_aper crash tmp out td specs ops ct choice po = CHOICE_encode_aper tmp out td specs ops ct choice po"
proof -
  obtain c where c: "map_option pcs_value (constraints_or ct td) = Some c" and c': "pcs_value (the (constraints_or ct td)) = c"
    using assms by (auto simp: root_choice_valid_def choice_valid_def split: option.splits)
  note v = assms(1) [unfolded root_choice_valid_def choice_valid_def c option.case Let_def c']
  have w: "0 \<le> pc_range_bits c" "\<not> (int (fst choice - 1) < sint (pc_lower_bound c) \<or> sint (pc_upper_bound c) < int (fst choice - 1))"
    "ch_to_canonical_order specs = None"
    using v unfolding choice_outside_def by blast+
  have order: "canonical (ch_to_canonical_order specs) i = i" for i using w(3) by (simp add: canonical_def)
  have outside: "(0 \<le> pc_range_bits c \<and> (int (fst choice - 1) < sint (pc_lower_bound c) \<or> sint (pc_upper_bound c) < int (fst choice - 1))) = False"
    using w(2) by blast
  show ?thesis
    unfolding e2sm_CHOICE_encode_aper_def CHOICE_encode_aper_def Let_def c order option.case outside if_False if_P [OF w(1)] ..
qed

lemma e2sm_choice_decode:
  assumes v: "root_choice_valid td specs elements ct choice" and ok: "pd_ok pd"
    and bits: "pd_bits pd = choice_field td specs elements ct k choice @ rest"
  shows "e2sm_CHOICE_decode_aper undef td specs ops ct pd = CHOICE_decode_aper undef td specs ops ct pd"
proof -
  obtain c where c: "map_option pcs_value (constraints_or ct td) = Some c" and c': "pcs_value (the (constraints_or ct td)) = c"
    using v by (auto simp: root_choice_valid_def choice_valid_def split: option.splits)
  have w: "0 \<le> pc_range_bits c" "\<not> choice_outside c (fst choice - 1)"
    using v c c' by (auto simp: root_choice_valid_def choice_valid_def Let_def)
  obtain tl where "pd_bits pd = (if \<not> pc_extensible c then [] else [False]) @ tl"
    using bits w(2) c' by (auto simp: choice_field_def Let_def)
  from optional_bit_takes [OF ok this] obtain pd0 where
    0: "(if pc_extensible c then asn_get_few_bits pd 1 else (0, pd)) = (0, pd0)" by (auto split: if_splits)
  obtain val pd1 where n: "asn_get_few_bits pd0 (pc_range_bits c) = (val, pd1)" by fastforce
  show ?thesis unfolding e2sm_CHOICE_decode_aper_def CHOICE_decode_aper_def Let_def c option.case 0 prod.case
    using w(1) n by simp
qed

section \<open>Integers without a constraint\<close>

text \<open>The octets of the number with their length; the service model has such numbers.\<close>

definition native_valid :: "bool \<Rightarrow> asn_per_constraint option \<Rightarrow> i64 \<Rightarrow> bool" where
  "native_valid uns ct x \<longleftrightarrow> (case ct of None \<Rightarrow> \<not> uns | Some c \<Rightarrow> long_valid uns (Some c) x)"

definition native_field :: "asn_per_constraint option \<Rightarrow> nat \<Rightarrow> i64 \<Rightarrow> bool list" where
  "native_field ct k x =
     (case ct of None \<Rightarrow> ot_bits APER k (the (asn_long2INTEGER x)) | Some c \<Rightarrow> int_field c k x)"

lemma long_octets:
  obtains b where "asn_long2INTEGER x = Some b" and "b \<noteq> []" and "length b \<le> 8"
proof -
  let ?b = "skip_insignificant (be_bytes x)"
  have "asn_long2INTEGER x = Some ?b" by (simp add: asn_long2INTEGER_def asn_imax2INTEGER_def)
  moreover have "?b \<noteq> []" "length ?b \<le> 8"
    using length_skip_insignificant [of "be_bytes x"] by (simp_all add: be_bytes_def)
  ultimately show ?thesis using that by blast
qed

lemma length_native_field: "native_valid uns ct x \<Longrightarrow> length (native_field ct k x) \<le> 88"
proof (cases ct)
  case None
  obtain b where b: "asn_long2INTEGER x = Some b" "length b \<le> 8" using long_octets by blast
  then have "length (ot_bits APER k b) = length (align_pad k) + length (len_bits (length b)) + 8 * length b"
    by (simp add: ot_bits.simps [of APER k] Let_def len_chunk_def)
  with b length_align_pad [of k] length_len_bits [of "length b"] None show ?thesis by (simp add: native_field_def)
next
  case (Some c)
  then show "native_valid uns ct x \<Longrightarrow> ?thesis"
    using length_int_field [of uns "Some c" x k] by (simp add: native_valid_def native_field_def)
qed

context roomy_sink
begin

lemma native_octets_emits:
  assumes "po_ok po" and "native_valid uns ct x" and "NativeInteger_encode_aper uns ct out x po = (r, po')"
  shows "po_emits contents room po (native_field ct (po_nboff po mod 8) x) (r \<noteq> -1) po'"
proof (cases ct)
  case None
  obtain b where b: "asn_long2INTEGER x = Some b" "b \<noteq> []" using long_octets by blast
  have run: "open_type_put_loop APER out b (length b) po = (r, po')"
    using assms(2,3) b None by (simp add: native_valid_def NativeInteger_encode_aper_def INTEGER_encode_aper_def)
  have "(r = 0) = (r \<noteq> -1)" using open_type_put_loop_result [of APER out b "length b" po] run by auto
  with open_type_loop_emits [OF assms(1) b(2) run] b(1) None show ?thesis by (simp add: native_field_def)
next
  case (Some c)
  then have "int_valid uns c x" using assms(2) by (simp add: native_valid_def long_valid_def)
  with native_emits [OF assms(1)] assms(3) Some show ?thesis by (simp add: native_field_def)
qed

end

lemma native_octets_takes:
  assumes ok: "pd_ok pd" and v: "native_valid uns ct x" and bits: "pd_bits pd = native_field ct (pd_nboff pd mod 8) x @ rest"
  shows "\<exists>rv pd'. NativeInteger_decode_aper uns ct native pd = (rv, x, pd') \<and> rv_code rv = RC_OK
    \<and> pd_reads pd (native_field ct (pd_nboff pd mod 8) x) pd'"
proof (cases ct)
  case None
  obtain b where b: "asn_long2INTEGER x = Some b" "b \<noteq> []" "length b \<le> 8" using long_octets by blast
  have "pd_bits pd = ot_bits APER (pd_nboff pd) b @ rest" using bits b(1) None by (simp add: native_field_def)
  from open_type_chunks_ok [OF ok this, of "\<lambda>_. True" "[]" 0] b obtain pd' where
    g: "open_type_chunks (\<lambda>_. True) APER [] 0 pd = (RC_OK, b, pd')" and r: "pd_reads pd (ot_bits APER (pd_nboff pd) b) pd'"
    by auto
  have "asn_INTEGER2long (Some b) = Some x" using long_round_trip [of x] b(1) by simp
  with g v None r b(1) show ?thesis
    by (simp add: native_valid_def native_field_def NativeInteger_decode_aper_def INTEGER_decode_aper_def)
next
  case (Some c)
  then have "int_valid uns c x" using v by (simp add: native_valid_def long_valid_def)
  with native_decode_ok [OF ok, of uns c x rest native] bits Some show ?thesis by (auto simp: native_field_def)
qed

section \<open>Dispatch\<close>

definition e2sm_encode_STRING ::
  "asn_OS_Subvariant \<Rightarrow> asn_per_constraints option \<Rightarrow> (byte list \<Rightarrow> 'k \<Rightarrow> 'k option) \<Rightarrow> 'k encoder" where
  "e2sm_encode_STRING subvariant td out ct v po =
     (case v of V_string st \<Rightarrow> e2sm_OCTET_STRING_encode_aper subvariant td ct out st po | _ \<Rightarrow> (-1, po))"

definition e2sm_encode_CHOICE ::
  "('k outp \<Rightarrow> int \<times> 'k outp) \<Rightarrow> byte list \<Rightarrow> asn_per_constraints option \<Rightarrow> asn_CHOICE_specifics
    \<Rightarrow> 'k per_op asn_TYPE_member list \<Rightarrow> (byte list \<Rightarrow> 'k \<Rightarrow> 'k option) \<Rightarrow> 'k encoder" where
  "e2sm_encode_CHOICE crash tmp td specs elements out ct v po =
     (case v of V_choice k x \<Rightarrow> e2sm_CHOICE_encode_aper crash tmp out td specs elements ct (k, x) po | _ \<Rightarrow> (-1, po))"

definition e2sm_OP_STRING ::
  "(byte list \<Rightarrow> 'k \<Rightarrow> 'k option) \<Rightarrow> asn_decoder \<Rightarrow> asn_OS_Subvariant \<Rightarrow> asn_per_constraints option \<Rightarrow> 'k per_op" where
  "e2sm_OP_STRING out undef subvariant td =
     \<lparr>op_zero = V_string ([], 0), op_encode = e2sm_encode_STRING subvariant td out,
      op_encode_new = e2sm_encode_STRING subvariant td new_buffer,
      op_decode = (\<lambda>ct pd. let (rv, st, pd1) = OCTET_STRING_decode_aper subvariant td ct pd in (rv, V_string st, pd1)),
      op_open_get = (\<lambda>_. undef)\<rparr>"

definition e2sm_OP_CHOICE ::
  "('k outp \<Rightarrow> int \<times> 'k outp) \<Rightarrow> (enc_dyn_arg outp \<Rightarrow> int \<times> enc_dyn_arg outp) \<Rightarrow> byte list
    \<Rightarrow> (byte list \<Rightarrow> 'k \<Rightarrow> 'k option) \<Rightarrow> asn_decoder \<Rightarrow> asn_per_constraints option \<Rightarrow> asn_CHOICE_specifics
    \<Rightarrow> 'k per_op asn_TYPE_member list \<Rightarrow> 'k per_op" where
  "e2sm_OP_CHOICE crash crash_new tmp out undef td specs elements =
     \<lparr>op_zero = V_choice 0 V_none, op_encode = e2sm_encode_CHOICE crash tmp td specs elements out,
      op_encode_new = e2sm_encode_CHOICE crash_new tmp td specs (map (map_asn_TYPE_member op_new) elements) new_buffer,
      op_decode = e2sm_CHOICE_decode_aper undef td specs elements, op_open_get = (\<lambda>_. undef)\<rparr>"

primrec e2sm_op ::
  "('k outp \<Rightarrow> int \<times> 'k outp) \<Rightarrow> (enc_dyn_arg outp \<Rightarrow> int \<times> enc_dyn_arg outp) \<Rightarrow> byte list
    \<Rightarrow> (byte list \<Rightarrow> 'k \<Rightarrow> 'k option) \<Rightarrow> asn_decoder \<Rightarrow> asn_type \<Rightarrow> 'k per_op" where
  "e2sm_op crash crash_new tmp out undef (T_NativeInteger uns td) = asn_OP_NativeInteger out undef uns td"
| "e2sm_op crash crash_new tmp out undef (T_INTEGER uns td) = asn_OP_INTEGER out undef uns td"
| "e2sm_op crash crash_new tmp out undef (T_NativeEnumerated specs td) = asn_OP_NativeEnumerated out undef specs td"
| "e2sm_op crash crash_new tmp out undef (T_STRING subvariant td) = e2sm_OP_STRING out undef subvariant td"
| "e2sm_op crash crash_new tmp out undef (T_SEQUENCE specs ms) =
     asn_OP_SEQUENCE tmp out undef specs (map (map_asn_TYPE_member (e2sm_op crash crash_new tmp out undef)) ms)"
| "e2sm_op crash crash_new tmp out undef (T_SEQUENCE_OF td m) =
     asn_OP_SEQUENCE_OF out undef td (map_asn_TYPE_member (e2sm_op crash crash_new tmp out undef) m)"
| "e2sm_op crash crash_new tmp out undef (T_CHOICE td specs ms) =
     e2sm_OP_CHOICE crash crash_new tmp out undef td specs (map (map_asn_TYPE_member (e2sm_op crash crash_new tmp out undef)) ms)"
| "e2sm_op crash crash_new tmp out undef (T_OPEN_TYPE elements types) =
     asn_OP_OPEN_TYPE tmp out undef elements (map (map_prod id (e2sm_op crash crash_new tmp out undef)) types)"

section \<open>Specification\<close>

definition native_spec :: "bool \<Rightarrow> asn_per_constraints option \<Rightarrow> per_spec" where
  "native_spec uns td =
     \<lparr>sp_field = (\<lambda>ct k v. case v of V_long x \<Rightarrow> native_field (value_constraint ct td) k x | _ \<Rightarrow> []),
      sp_valid = (\<lambda>ct v. case v of V_long x \<Rightarrow> native_valid uns (value_constraint ct td) x | _ \<Rightarrow> False), sp_alt = (\<lambda>_. None)\<rparr>"

definition e2sm_string_spec :: "asn_OS_Subvariant \<Rightarrow> asn_per_constraints option \<Rightarrow> per_spec" where
  "e2sm_string_spec subvariant td =
     \<lparr>sp_field = (\<lambda>ct k v. case v of V_string st \<Rightarrow> e2sm_string_field subvariant (constraints_or ct td) k st | _ \<Rightarrow> []),
      sp_valid = (\<lambda>ct v. case v of V_string st \<Rightarrow> e2sm_string_valid subvariant (constraints_or ct td) st | _ \<Rightarrow> False),
      sp_alt = (\<lambda>_. None)\<rparr>"

definition root_choice_spec :: "asn_per_constraints option \<Rightarrow> asn_CHOICE_specifics \<Rightarrow> per_spec asn_TYPE_member list \<Rightarrow> per_spec" where
  "root_choice_spec td specs ms =
     \<lparr>sp_field = (\<lambda>ct k v. case v of V_choice i x \<Rightarrow> choice_field td specs ms ct k (i, x) | _ \<Rightarrow> []),
      sp_valid = (\<lambda>ct v. case v of V_choice i x \<Rightarrow> root_choice_valid td specs ms ct (i, x) | _ \<Rightarrow> False), sp_alt = (\<lambda>_. None)\<rparr>"

primrec e2sm_spec_of :: "asn_type \<Rightarrow> per_spec" where
  "e2sm_spec_of (T_NativeInteger uns td) = native_spec uns td"
| "e2sm_spec_of (T_INTEGER uns td) = per_spec_of (T_INTEGER uns td)"
| "e2sm_spec_of (T_NativeEnumerated specs td) = per_spec_of (T_NativeEnumerated specs td)"
| "e2sm_spec_of (T_STRING subvariant td) = e2sm_string_spec subvariant td"
| "e2sm_spec_of (T_SEQUENCE specs ms) = sequence_spec specs (map (map_asn_TYPE_member e2sm_spec_of) ms)"
| "e2sm_spec_of (T_SEQUENCE_OF td m) = list_spec td (map_asn_TYPE_member e2sm_spec_of m)"
| "e2sm_spec_of (T_CHOICE td specs ms) = root_choice_spec td specs (map (map_asn_TYPE_member e2sm_spec_of) ms)"
| "e2sm_spec_of (T_OPEN_TYPE elements types) = open_spec elements (map (map_prod id e2sm_spec_of) types)"

context roomy_sink
begin

lemma native_spec_meets: "op_meets contents room (asn_OP_NativeInteger out undef uns td) (native_spec uns td)"
proof (rule op_meetsI, goal_cases)
  case (3 ct pd v rest)
  then show ?case by (auto simp: native_spec_def asn_OP_NativeInteger_def split: asn_value.splits intro!: decode_wrapped native_octets_takes)
qed (auto simp: native_spec_def asn_OP_NativeInteger_def encode_NativeInteger_def split: asn_value.splits
    intro: native_octets_emits dyn.native_octets_emits)

lemma e2sm_OP_STRING_meets: "op_meets contents room (e2sm_OP_STRING out undef subvariant td) (e2sm_string_spec subvariant td)"
  by (rule op_meetsI)
    (auto simp: e2sm_string_spec_def e2sm_OP_STRING_def e2sm_encode_STRING_def split: asn_value.splits
      intro: e2sm_string_emits dyn.e2sm_string_emits intro!: decode_wrapped e2sm_string_takes)

lemma e2sm_OP_CHOICE_meets:
  assumes meets: "\<forall>m \<in> set ms. op_meets contents room (op (mb_type m)) (sp (mb_type m))" and tmp: "length tmp = 32"
  shows "op_meets contents room (e2sm_OP_CHOICE crash crash_new tmp out undef td specs (with_types op ms))
    (root_choice_spec td specs (with_types sp ms))"
proof -
  let ?op = "e2sm_OP_CHOICE crash crash_new tmp out undef td specs (with_types op ms)"
    and ?ap = "asn_OP_CHOICE tmp out undef td specs (with_types op ms)" and ?sp = "choice_spec td specs (with_types sp ms)"
  note ap = OP_CHOICE_meets [OF meets tmp, of undef td specs]
  have root: "sp_valid ?sp ct v" if "sp_valid (root_choice_spec td specs (with_types sp ms)) ct v" for ct v
    using that by (auto simp: root_choice_spec_def choice_spec_def root_choice_valid_def split: asn_value.splits)
  have field: "sp_field (root_choice_spec td specs (with_types sp ms)) = sp_field ?sp"
    by (simp add: root_choice_spec_def choice_spec_def)
  show ?thesis
  proof (rule op_meetsI, goal_cases)
    case (1 ct po v r po')
    then have "op_encode ?op ct v po = op_encode ?ap ct v po"
      by (auto simp: root_choice_spec_def e2sm_OP_CHOICE_def asn_OP_CHOICE_def e2sm_encode_CHOICE_def encode_CHOICE_def
          e2sm_choice_encode split: asn_value.splits)
    then show ?case unfolding field using op_encode_emits [OF ap 1(1) root [OF 1(2)]] 1(3) by simp
  next
    case (2 ct n po v r po')
    then have "op_encode_new ?op ct v po = op_encode_new ?ap ct v po"
      by (auto simp: root_choice_spec_def e2sm_OP_CHOICE_def asn_OP_CHOICE_def e2sm_encode_CHOICE_def encode_CHOICE_def
          e2sm_choice_encode split: asn_value.splits)
    then show ?case unfolding field using op_encode_new_emits [OF ap 2(1) root [OF 2(2)]] 2(3) by simp
  next
    case (3 ct pd v rest)
    then have "op_decode ?op ct pd = op_decode ?ap ct pd"
      by (auto simp: root_choice_spec_def e2sm_OP_CHOICE_def asn_OP_CHOICE_def split: asn_value.splits intro: e2sm_choice_decode)
    then show ?case unfolding field
      using op_decode_takes [OF ap 3(1), of ct v rest] root [OF 3(2)] 3(4) by (simp add: sp_plain_def field choice_spec_def)
  next
    case 4
    then show ?case by (simp add: root_choice_spec_def)
  qed
qed

lemma e2sm_op_meets:
  assumes tmp: "length tmp = 32"
  shows "op_meets contents room (e2sm_op crash crash_new tmp out undef t) (e2sm_spec_of t)"
proof (induction t)
  case (T_SEQUENCE specs ms)
  have "\<forall>m \<in> set ms. op_meets contents room (e2sm_op crash crash_new tmp out undef (mb_type m)) (e2sm_spec_of (mb_type m))"
    using T_SEQUENCE asn_TYPE_member.set_sel by blast
  then show ?case by (simp add: OP_SEQUENCE_meets)
next
  case (T_SEQUENCE_OF td m)
  have "op_meets contents room (e2sm_op crash crash_new tmp out undef (mb_type m)) (e2sm_spec_of (mb_type m))"
    using T_SEQUENCE_OF asn_TYPE_member.set_sel by blast
  then show ?case by (simp add: OP_SEQUENCE_OF_meets)
next
  case (T_CHOICE td specs ms)
  have "\<forall>m \<in> set ms. op_meets contents room (e2sm_op crash crash_new tmp out undef (mb_type m)) (e2sm_spec_of (mb_type m))"
    using T_CHOICE asn_TYPE_member.set_sel by blast
  then show ?case by (simp add: e2sm_OP_CHOICE_meets tmp)
next
  case (T_OPEN_TYPE elements types)
  have "\<forall>(ty, t) \<in> set types. op_meets contents room (e2sm_op crash crash_new tmp out undef t) (e2sm_spec_of t)"
    using T_OPEN_TYPE by (fastforce simp: snds.simps)
  then show ?case by (simp add: OP_OPEN_TYPE_meets tmp)
qed (simp_all add: native_spec_meets OP_INTEGER_meets [simplified] OP_NativeEnumerated_meets [simplified] e2sm_OP_STRING_meets)

end

section \<open>Size\<close>

lemma length_short_string_field:
  "e2sm_string_valid subvariant pc st \<Longrightarrow> length (e2sm_string_field subvariant pc k st) \<le> 48 + 8 * length (fst st)"
proof (cases "short_string subvariant pc st")
  case True
  obtain lb ub pre where f: "e2sm_string_field subvariant pc k st =
      pre @ nsnnwn_field (ub - lb + 1) (k + length pre) (int (length (fst st)) - lb) @ bytes_bits (fst st)" "length pre \<le> 1"
    using True by (simp add: e2sm_string_field_def Let_def)
  show ?thesis using length_nsnnwn_field [of "ub - lb + 1" "k + length pre" "int (length (fst st)) - lb"] f by simp
next
  case False
  then show "e2sm_string_valid subvariant pc st \<Longrightarrow> ?thesis"
    using length_string_field [of subvariant pc st k] by (auto simp: e2sm_string_field_def e2sm_string_valid_def split: prod.splits)
qed

lemma sized_root_choice: "sized_spec (choice_spec td specs ms) \<Longrightarrow> sized_spec (root_choice_spec td specs ms)"
proof -
  let ?r = "root_choice_spec td specs ms" and ?c = "choice_spec td specs ms"
  assume c: "sized_spec ?c"
  have "sp_valid ?c ct v" if "sp_valid ?r ct v" for ct v
    using that by (auto simp: root_choice_spec_def choice_spec_def root_choice_valid_def split: asn_value.splits)
  moreover have "sp_field ?r = sp_field ?c" by (simp add: root_choice_spec_def choice_spec_def)
  ultimately show ?thesis using c unfolding sized_spec_def by metis
qed

lemma e2sm_spec_of_sized: "sized_spec (e2sm_spec_of t)"
proof (induction t)
  case (T_SEQUENCE specs ms)
  then show ?case using asn_TYPE_member.set_sel by (force intro: sized_sequence)
next
  case (T_SEQUENCE_OF td m)
  then show ?case using asn_TYPE_member.set_sel by (force intro: sized_list)
next
  case (T_CHOICE td specs ms)
  then have "sized_spec (choice_spec td specs (with_types e2sm_spec_of ms))"
    using asn_TYPE_member.set_sel by (force intro: sized_choice)
  then show ?case by (simp add: sized_root_choice)
next
  case (T_OPEN_TYPE elements types)
  have "\<forall>(ty, t) \<in> set types. sized_spec (e2sm_spec_of t)" using T_OPEN_TYPE by (fastforce simp: snds.simps)
  then show ?case by (simp add: sized_open)
next
  case (T_STRING subvariant td)
  then show ?case using length_short_string_field
    by (auto simp: sized_spec_def e2sm_string_spec_def split: asn_value.splits)
next
  case (T_NativeInteger uns td)
  then show ?case using length_native_field by (auto simp: sized_spec_def native_spec_def split: asn_value.splits)
qed (metis per_spec_of_sized e2sm_spec_of.simps)+

end
