(* ===== verification/E2smTypes.thy ===== *)
theory E2smTypes
  imports AsnE2sm
begin

text \<open>
  The type descriptors of the KPM service model, \<^verbatim>\<open>e2sm/lib/*.c\<close>, as far as aligned PER reads them, each
  under its C name; names that the descriptors of E2AP have as well carry the prefix \<open>e2sm_\<close>, static
  names that several files have carry the name of the file. A string of printable characters has the
  functions between characters and codes of its permitted alphabet.
\<close>

definition e2sm_asn_DEF_BIT_STRING :: "asn_type" where
  "e2sm_asn_DEF_BIT_STRING = T_STRING ASN_OSUBV_BIT None"

definition asn_PER_type_plmnList_constr_2 :: "asn_per_constraints" where
  "asn_PER_type_plmnList_constr_2 = per_constraints APC_UNCONSTRAINED (APC_CONSTRAINED False 4 4 1 12)"

definition e2sm_asn_PER_type_PLMN_Identity_constr_1 :: "asn_per_constraints" where
  "e2sm_asn_PER_type_PLMN_Identity_constr_1 = per_constraints APC_UNCONSTRAINED (APC_CONSTRAINED False 0 0 3 3)"

definition e2sm_asn_DEF_PLMN_Identity :: "asn_type" where
  "e2sm_asn_DEF_PLMN_Identity = T_STRING ASN_OSUBV_STR (Some e2sm_asn_PER_type_PLMN_Identity_constr_1)"

definition asn_PER_type_sliceToReportList_constr_2 :: "asn_per_constraints" where
  "asn_PER_type_sliceToReportList_constr_2 = per_constraints APC_UNCONSTRAINED (APC_CONSTRAINED False 10 10 1 1024)"

definition e2sm_asn_DEF_OCTET_STRING :: "asn_type" where
  "e2sm_asn_DEF_OCTET_STRING = T_STRING ASN_OSUBV_STR None"

definition asn_PER_memb_sST_constr_2 :: "asn_per_constraints" where
  "asn_PER_memb_sST_constr_2 = per_constraints APC_UNCONSTRAINED (APC_CONSTRAINED False 0 0 1 1)"

definition asn_PER_memb_sD_constr_3 :: "asn_per_constraints" where
  "asn_PER_memb_sD_constr_3 = per_constraints APC_UNCONSTRAINED (APC_CONSTRAINED False 0 0 3 3)"

definition asn_MBR_SNSSAI_1 :: "asn_type asn_TYPE_member list" where
  "asn_MBR_SNSSAI_1 =
   [Member ATF_NOFLAGS 0 e2sm_asn_DEF_OCTET_STRING None (Some asn_PER_memb_sST_constr_2) ''sST'',
    Member ATF_POINTER 1 e2sm_asn_DEF_OCTET_STRING None (Some asn_PER_memb_sD_constr_3) ''sD'']"

definition asn_SPC_SNSSAI_specs_1 :: "asn_SEQUENCE_specifics" where
  "asn_SPC_SNSSAI_specs_1 = \<lparr>seq_oms = [1], seq_roms_count = 1, seq_aoms_count = 0, seq_first_extension = -1\<rparr>"

definition asn_DEF_SNSSAI :: "asn_type" where
  "asn_DEF_SNSSAI = T_SEQUENCE asn_SPC_SNSSAI_specs_1 asn_MBR_SNSSAI_1"

definition asn_PER_type_fQIPERSlicesPerPlmnList_constr_3 :: "asn_per_constraints" where
  "asn_PER_type_fQIPERSlicesPerPlmnList_constr_3 = per_constraints APC_UNCONSTRAINED (APC_CONSTRAINED False 6 6 1 64)"

definition e2sm_asn_DEF_NativeInteger :: "asn_type" where
  "e2sm_asn_DEF_NativeInteger = T_NativeInteger False None"

definition asn_PER_memb_FQIPERSlicesPerPlmnListItem_fiveQI_constr_2 :: "asn_per_constraints" where
  "asn_PER_memb_FQIPERSlicesPerPlmnListItem_fiveQI_constr_2 = per_constraints (APC_CONSTRAINED False 8 8 0 255) APC_UNCONSTRAINED"

definition e2sm_asn_DEF_INTEGER :: "asn_type" where
  "e2sm_asn_DEF_INTEGER = T_INTEGER False None"

definition asn_PER_memb_FQIPERSlicesPerPlmnListItem_pDCPBytesDL_constr_3 :: "asn_per_constraints" where
  "asn_PER_memb_FQIPERSlicesPerPlmnListItem_pDCPBytesDL_constr_3 = per_constraints (APC_CONSTRAINED True 34 (-1) 0 10000000000) APC_UNCONSTRAINED"

definition asn_PER_memb_FQIPERSlicesPerPlmnListItem_pDCPBytesUL_constr_4 :: "asn_per_constraints" where
  "asn_PER_memb_FQIPERSlicesPerPlmnListItem_pDCPBytesUL_constr_4 = per_constraints (APC_CONSTRAINED True 34 (-1) 0 10000000000) APC_UNCONSTRAINED"

definition asn_MBR_FQIPERSlicesPerPlmnListItem_1 :: "asn_type asn_TYPE_member list" where
  "asn_MBR_FQIPERSlicesPerPlmnListItem_1 =
   [Member ATF_NOFLAGS 0 e2sm_asn_DEF_NativeInteger None (Some asn_PER_memb_FQIPERSlicesPerPlmnListItem_fiveQI_constr_2) ''fiveQI'',
    Member ATF_POINTER 2 e2sm_asn_DEF_INTEGER None (Some asn_PER_memb_FQIPERSlicesPerPlmnListItem_pDCPBytesDL_constr_3) ''pDCPBytesDL'',
    Member ATF_POINTER 1 e2sm_asn_DEF_INTEGER None (Some asn_PER_memb_FQIPERSlicesPerPlmnListItem_pDCPBytesUL_constr_4) ''pDCPBytesUL'']"

definition asn_SPC_FQIPERSlicesPerPlmnListItem_specs_1 :: "asn_SEQUENCE_specifics" where
  "asn_SPC_FQIPERSlicesPerPlmnListItem_specs_1 =
    \<lparr>seq_oms = [1, 2], seq_roms_count = 2, seq_aoms_count = 0, seq_first_extension = 3\<rparr>"

definition asn_DEF_FQIPERSlicesPerPlmnListItem :: "asn_type" where
  "asn_DEF_FQIPERSlicesPerPlmnListItem = T_SEQUENCE asn_SPC_FQIPERSlicesPerPlmnListItem_specs_1 asn_MBR_FQIPERSlicesPerPlmnListItem_1"

definition asn_MBR_fQIPERSlicesPerPlmnList_3 :: "asn_type asn_TYPE_member" where
  "asn_MBR_fQIPERSlicesPerPlmnList_3 = Member ATF_POINTER 0 asn_DEF_FQIPERSlicesPerPlmnListItem None None ''''"

definition asn_DEF_fQIPERSlicesPerPlmnList_3 :: "asn_type" where
  "asn_DEF_fQIPERSlicesPerPlmnList_3 = T_SEQUENCE_OF (Some asn_PER_type_fQIPERSlicesPerPlmnList_constr_3) asn_MBR_fQIPERSlicesPerPlmnList_3"

definition asn_PER_memb_fQIPERSlicesPerPlmnList_constr_3 :: "asn_per_constraints" where
  "asn_PER_memb_fQIPERSlicesPerPlmnList_constr_3 = per_constraints APC_UNCONSTRAINED (APC_CONSTRAINED False 6 6 1 64)"

definition asn_MBR_SliceToReportListItem_1 :: "asn_type asn_TYPE_member list" where
  "asn_MBR_SliceToReportListItem_1 =
   [Member ATF_NOFLAGS 0 asn_DEF_SNSSAI None None ''sliceID'',
    Member ATF_NOFLAGS 0 asn_DEF_fQIPERSlicesPerPlmnList_3 None (Some asn_PER_memb_fQIPERSlicesPerPlmnList_constr_3) ''fQIPERSlicesPerPlmnList'']"

definition asn_SPC_SliceToReportListItem_specs_1 :: "asn_SEQUENCE_specifics" where
  "asn_SPC_SliceToReportListItem_specs_1 =
    \<lparr>seq_oms = [], seq_roms_count = 0, seq_aoms_count = 0, seq_first_extension = 2\<rparr>"

definition asn_DEF_SliceToReportListItem :: "asn_type" where
  "asn_DEF_SliceToReportListItem = T_SEQUENCE asn_SPC_SliceToReportListItem_specs_1 asn_MBR_SliceToReportListItem_1"

definition asn_MBR_sliceToReportList_2 :: "asn_type asn_TYPE_member" where
  "asn_MBR_sliceToReportList_2 = Member ATF_POINTER 0 asn_DEF_SliceToReportListItem None None ''''"

definition asn_DEF_sliceToReportList_2 :: "asn_type" where
  "asn_DEF_sliceToReportList_2 = T_SEQUENCE_OF (Some asn_PER_type_sliceToReportList_constr_2) asn_MBR_sliceToReportList_2"

definition asn_PER_memb_sliceToReportList_constr_2 :: "asn_per_constraints" where
  "asn_PER_memb_sliceToReportList_constr_2 = per_constraints APC_UNCONSTRAINED (APC_CONSTRAINED False 10 10 1 1024)"

definition asn_MBR_FGC_CUUP_PM_Format_1 :: "asn_type asn_TYPE_member list" where
  "asn_MBR_FGC_CUUP_PM_Format_1 =
   [Member ATF_NOFLAGS 0 asn_DEF_sliceToReportList_2 None (Some asn_PER_memb_sliceToReportList_constr_2) ''sliceToReportList'']"

definition asn_SPC_FGC_CUUP_PM_Format_specs_1 :: "asn_SEQUENCE_specifics" where
  "asn_SPC_FGC_CUUP_PM_Format_specs_1 =
    \<lparr>seq_oms = [], seq_roms_count = 0, seq_aoms_count = 0, seq_first_extension = 1\<rparr>"

definition asn_DEF_FGC_CUUP_PM_Format :: "asn_type" where
  "asn_DEF_FGC_CUUP_PM_Format = T_SEQUENCE asn_SPC_FGC_CUUP_PM_Format_specs_1 asn_MBR_FGC_CUUP_PM_Format_1"

definition asn_PER_type_EPC_CUUP_PM_Format_perQCIReportList_constr_2 :: "asn_per_constraints" where
  "asn_PER_type_EPC_CUUP_PM_Format_perQCIReportList_constr_2 = per_constraints APC_UNCONSTRAINED (APC_CONSTRAINED False 8 8 1 256)"

definition asn_PER_memb_PerQCIReportListItemFormat_qci_constr_2 :: "asn_per_constraints" where
  "asn_PER_memb_PerQCIReportListItemFormat_qci_constr_2 = per_constraints (APC_CONSTRAINED False 8 8 0 255) APC_UNCONSTRAINED"

definition asn_PER_memb_PerQCIReportListItemFormat_pDCPBytesDL_constr_3 :: "asn_per_constraints" where
  "asn_PER_memb_PerQCIReportListItemFormat_pDCPBytesDL_constr_3 = per_constraints (APC_CONSTRAINED True 34 (-1) 0 10000000000) APC_UNCONSTRAINED"

definition asn_PER_memb_PerQCIReportListItemFormat_pDCPBytesUL_constr_4 :: "asn_per_constraints" where
  "asn_PER_memb_PerQCIReportListItemFormat_pDCPBytesUL_constr_4 = per_constraints (APC_CONSTRAINED True 34 (-1) 0 10000000000) APC_UNCONSTRAINED"

definition asn_MBR_PerQCIReportListItemFormat_1 :: "asn_type asn_TYPE_member list" where
  "asn_MBR_PerQCIReportListItemFormat_1 =
   [Member ATF_NOFLAGS 0 e2sm_asn_DEF_NativeInteger None (Some asn_PER_memb_PerQCIReportListItemFormat_qci_constr_2) ''qci'',
    Member ATF_POINTER 2 e2sm_asn_DEF_INTEGER None (Some asn_PER_memb_PerQCIReportListItemFormat_pDCPBytesDL_constr_3) ''pDCPBytesDL'',
    Member ATF_POINTER 1 e2sm_asn_DEF_INTEGER None (Some asn_PER_memb_PerQCIReportListItemFormat_pDCPBytesUL_constr_4) ''pDCPBytesUL'']"

definition asn_SPC_PerQCIReportListItemFormat_specs_1 :: "asn_SEQUENCE_specifics" where
  "asn_SPC_PerQCIReportListItemFormat_specs_1 =
    \<lparr>seq_oms = [1, 2], seq_roms_count = 2, seq_aoms_count = 0, seq_first_extension = 3\<rparr>"

definition asn_DEF_PerQCIReportListItemFormat :: "asn_type" where
  "asn_DEF_PerQCIReportListItemFormat = T_SEQUENCE asn_SPC_PerQCIReportListItemFormat_specs_1 asn_MBR_PerQCIReportListItemFormat_1"

definition asn_MBR_EPC_CUUP_PM_Format_perQCIReportList_2 :: "asn_type asn_TYPE_member" where
  "asn_MBR_EPC_CUUP_PM_Format_perQCIReportList_2 = Member ATF_POINTER 0 asn_DEF_PerQCIReportListItemFormat None None ''''"

definition asn_DEF_EPC_CUUP_PM_Format_perQCIReportList_2 :: "asn_type" where
  "asn_DEF_EPC_CUUP_PM_Format_perQCIReportList_2 = T_SEQUENCE_OF (Some asn_PER_type_EPC_CUUP_PM_Format_perQCIReportList_constr_2) asn_MBR_EPC_CUUP_PM_Format_perQCIReportList_2"

definition asn_PER_memb_EPC_CUUP_PM_Format_perQCIReportList_constr_2 :: "asn_per_constraints" where
  "asn_PER_memb_EPC_CUUP_PM_Format_perQCIReportList_constr_2 = per_constraints APC_UNCONSTRAINED (APC_CONSTRAINED False 8 8 1 256)"

definition asn_MBR_EPC_CUUP_PM_Format_1 :: "asn_type asn_TYPE_member list" where
  "asn_MBR_EPC_CUUP_PM_Format_1 =
   [Member ATF_NOFLAGS 0 asn_DEF_EPC_CUUP_PM_Format_perQCIReportList_2 None (Some asn_PER_memb_EPC_CUUP_PM_Format_perQCIReportList_constr_2) ''perQCIReportList'']"

definition asn_SPC_EPC_CUUP_PM_Format_specs_1 :: "asn_SEQUENCE_specifics" where
  "asn_SPC_EPC_CUUP_PM_Format_specs_1 =
    \<lparr>seq_oms = [], seq_roms_count = 0, seq_aoms_count = 0, seq_first_extension = 1\<rparr>"

definition asn_DEF_EPC_CUUP_PM_Format :: "asn_type" where
  "asn_DEF_EPC_CUUP_PM_Format = T_SEQUENCE asn_SPC_EPC_CUUP_PM_Format_specs_1 asn_MBR_EPC_CUUP_PM_Format_1"

definition asn_MBR_PlmnID_List_1 :: "asn_type asn_TYPE_member list" where
  "asn_MBR_PlmnID_List_1 =
   [Member ATF_NOFLAGS 0 e2sm_asn_DEF_PLMN_Identity None None ''pLMN-Identity'',
    Member ATF_POINTER 2 asn_DEF_FGC_CUUP_PM_Format None None ''cu-UP-PM-5GC'',
    Member ATF_POINTER 1 asn_DEF_EPC_CUUP_PM_Format None None ''cu-UP-PM-EPC'']"

definition asn_SPC_PlmnID_List_specs_1 :: "asn_SEQUENCE_specifics" where
  "asn_SPC_PlmnID_List_specs_1 =
    \<lparr>seq_oms = [1, 2], seq_roms_count = 2, seq_aoms_count = 0, seq_first_extension = 3\<rparr>"

definition asn_DEF_PlmnID_List :: "asn_type" where
  "asn_DEF_PlmnID_List = T_SEQUENCE asn_SPC_PlmnID_List_specs_1 asn_MBR_PlmnID_List_1"

definition asn_MBR_plmnList_2 :: "asn_type asn_TYPE_member" where
  "asn_MBR_plmnList_2 = Member ATF_POINTER 0 asn_DEF_PlmnID_List None None ''''"

definition asn_DEF_plmnList_2 :: "asn_type" where
  "asn_DEF_plmnList_2 = T_SEQUENCE_OF (Some asn_PER_type_plmnList_constr_2) asn_MBR_plmnList_2"

definition asn_PER_memb_plmnList_constr_2 :: "asn_per_constraints" where
  "asn_PER_memb_plmnList_constr_2 = per_constraints APC_UNCONSTRAINED (APC_CONSTRAINED False 4 4 1 12)"

definition asn_MBR_CUUPMeasurement_Container_1 :: "asn_type asn_TYPE_member list" where
  "asn_MBR_CUUPMeasurement_Container_1 =
   [Member ATF_NOFLAGS 0 asn_DEF_plmnList_2 None (Some asn_PER_memb_plmnList_constr_2) ''plmnList'']"

definition asn_SPC_CUUPMeasurement_Container_specs_1 :: "asn_SEQUENCE_specifics" where
  "asn_SPC_CUUPMeasurement_Container_specs_1 =
    \<lparr>seq_oms = [], seq_roms_count = 0, seq_aoms_count = 0, seq_first_extension = 1\<rparr>"

definition asn_DEF_CUUPMeasurement_Container :: "asn_type" where
  "asn_DEF_CUUPMeasurement_Container = T_SEQUENCE asn_SPC_CUUPMeasurement_Container_specs_1 asn_MBR_CUUPMeasurement_Container_1"

definition asn_PER_type_servedPlmnPerCellList_constr_5 :: "asn_per_constraints" where
  "asn_PER_type_servedPlmnPerCellList_constr_5 = per_constraints APC_UNCONSTRAINED (APC_CONSTRAINED False 4 4 1 12)"

definition asn_PER_type_slicePerPlmnPerCellList_constr_2 :: "asn_per_constraints" where
  "asn_PER_type_slicePerPlmnPerCellList_constr_2 = per_constraints APC_UNCONSTRAINED (APC_CONSTRAINED False 10 10 1 1024)"

definition asn_PER_type_fQIPERSlicesPerPlmnPerCellList_constr_3 :: "asn_per_constraints" where
  "asn_PER_type_fQIPERSlicesPerPlmnPerCellList_constr_3 = per_constraints APC_UNCONSTRAINED (APC_CONSTRAINED False 6 6 1 64)"

definition asn_PER_memb_FQIPERSlicesPerPlmnPerCellListItem_fiveQI_constr_2 :: "asn_per_constraints" where
  "asn_PER_memb_FQIPERSlicesPerPlmnPerCellListItem_fiveQI_constr_2 = per_constraints (APC_CONSTRAINED False 8 8 0 255) APC_UNCONSTRAINED"

definition asn_PER_memb_FQIPERSlicesPerPlmnPerCellListItem_dl_PRBUsage_constr_3 :: "asn_per_constraints" where
  "asn_PER_memb_FQIPERSlicesPerPlmnPerCellListItem_dl_PRBUsage_constr_3 = per_constraints (APC_CONSTRAINED False 9 9 0 273) APC_UNCONSTRAINED"

definition asn_PER_memb_FQIPERSlicesPerPlmnPerCellListItem_ul_PRBUsage_constr_4 :: "asn_per_constraints" where
  "asn_PER_memb_FQIPERSlicesPerPlmnPerCellListItem_ul_PRBUsage_constr_4 = per_constraints (APC_CONSTRAINED False 9 9 0 273) APC_UNCONSTRAINED"

definition asn_MBR_FQIPERSlicesPerPlmnPerCellListItem_1 :: "asn_type asn_TYPE_member list" where
  "asn_MBR_FQIPERSlicesPerPlmnPerCellListItem_1 =
   [Member ATF_NOFLAGS 0 e2sm_asn_DEF_NativeInteger None (Some asn_PER_memb_FQIPERSlicesPerPlmnPerCellListItem_fiveQI_constr_2) ''fiveQI'',
    Member ATF_POINTER 2 e2sm_asn_DEF_NativeInteger None (Some asn_PER_memb_FQIPERSlicesPerPlmnPerCellListItem_dl_PRBUsage_constr_3) ''dl-PRBUsage'',
    Member ATF_POINTER 1 e2sm_asn_DEF_NativeInteger None (Some asn_PER_memb_FQIPERSlicesPerPlmnPerCellListItem_ul_PRBUsage_constr_4) ''ul-PRBUsage'']"

definition asn_SPC_FQIPERSlicesPerPlmnPerCellListItem_specs_1 :: "asn_SEQUENCE_specifics" where
  "asn_SPC_FQIPERSlicesPerPlmnPerCellListItem_specs_1 =
    \<lparr>seq_oms = [1, 2], seq_roms_count = 2, seq_aoms_count = 0, seq_first_extension = 3\<rparr>"

definition asn_DEF_FQIPERSlicesPerPlmnPerCellListItem :: "asn_type" where
  "asn_DEF_FQIPERSlicesPerPlmnPerCellListItem = T_SEQUENCE asn_SPC_FQIPERSlicesPerPlmnPerCellListItem_specs_1 asn_MBR_FQIPERSlicesPerPlmnPerCellListItem_1"

definition asn_MBR_fQIPERSlicesPerPlmnPerCellList_3 :: "asn_type asn_TYPE_member" where
  "asn_MBR_fQIPERSlicesPerPlmnPerCellList_3 = Member ATF_POINTER 0 asn_DEF_FQIPERSlicesPerPlmnPerCellListItem None None ''''"

definition asn_DEF_fQIPERSlicesPerPlmnPerCellList_3 :: "asn_type" where
  "asn_DEF_fQIPERSlicesPerPlmnPerCellList_3 = T_SEQUENCE_OF (Some asn_PER_type_fQIPERSlicesPerPlmnPerCellList_constr_3) asn_MBR_fQIPERSlicesPerPlmnPerCellList_3"

definition asn_PER_memb_fQIPERSlicesPerPlmnPerCellList_constr_3 :: "asn_per_constraints" where
  "asn_PER_memb_fQIPERSlicesPerPlmnPerCellList_constr_3 = per_constraints APC_UNCONSTRAINED (APC_CONSTRAINED False 6 6 1 64)"

definition asn_MBR_SlicePerPlmnPerCellListItem_1 :: "asn_type asn_TYPE_member list" where
  "asn_MBR_SlicePerPlmnPerCellListItem_1 =
   [Member ATF_NOFLAGS 0 asn_DEF_SNSSAI None None ''sliceID'',
    Member ATF_NOFLAGS 0 asn_DEF_fQIPERSlicesPerPlmnPerCellList_3 None (Some asn_PER_memb_fQIPERSlicesPerPlmnPerCellList_constr_3) ''fQIPERSlicesPerPlmnPerCellList'']"

definition asn_SPC_SlicePerPlmnPerCellListItem_specs_1 :: "asn_SEQUENCE_specifics" where
  "asn_SPC_SlicePerPlmnPerCellListItem_specs_1 =
    \<lparr>seq_oms = [], seq_roms_count = 0, seq_aoms_count = 0, seq_first_extension = 2\<rparr>"

definition asn_DEF_SlicePerPlmnPerCellListItem :: "asn_type" where
  "asn_DEF_SlicePerPlmnPerCellListItem = T_SEQUENCE asn_SPC_SlicePerPlmnPerCellListItem_specs_1 asn_MBR_SlicePerPlmnPerCellListItem_1"

definition asn_MBR_slicePerPlmnPerCellList_2 :: "asn_type asn_TYPE_member" where
  "asn_MBR_slicePerPlmnPerCellList_2 = Member ATF_POINTER 0 asn_DEF_SlicePerPlmnPerCellListItem None None ''''"

definition asn_DEF_slicePerPlmnPerCellList_2 :: "asn_type" where
  "asn_DEF_slicePerPlmnPerCellList_2 = T_SEQUENCE_OF (Some asn_PER_type_slicePerPlmnPerCellList_constr_2) asn_MBR_slicePerPlmnPerCellList_2"

definition asn_PER_memb_slicePerPlmnPerCellList_constr_2 :: "asn_per_constraints" where
  "asn_PER_memb_slicePerPlmnPerCellList_constr_2 = per_constraints APC_UNCONSTRAINED (APC_CONSTRAINED False 10 10 1 1024)"

definition asn_MBR_FGC_DU_PM_Container_1 :: "asn_type asn_TYPE_member list" where
  "asn_MBR_FGC_DU_PM_Container_1 =
   [Member ATF_NOFLAGS 0 asn_DEF_slicePerPlmnPerCellList_2 None (Some asn_PER_memb_slicePerPlmnPerCellList_constr_2) ''slicePerPlmnPerCellList'']"

definition asn_SPC_FGC_DU_PM_Container_specs_1 :: "asn_SEQUENCE_specifics" where
  "asn_SPC_FGC_DU_PM_Container_specs_1 =
    \<lparr>seq_oms = [], seq_roms_count = 0, seq_aoms_count = 0, seq_first_extension = 1\<rparr>"

definition asn_DEF_FGC_DU_PM_Container :: "asn_type" where
  "asn_DEF_FGC_DU_PM_Container = T_SEQUENCE asn_SPC_FGC_DU_PM_Container_specs_1 asn_MBR_FGC_DU_PM_Container_1"

definition asn_PER_type_EPC_DU_PM_Container_perQCIReportList_constr_2 :: "asn_per_constraints" where
  "asn_PER_type_EPC_DU_PM_Container_perQCIReportList_constr_2 = per_constraints APC_UNCONSTRAINED (APC_CONSTRAINED False 8 8 1 256)"

definition asn_PER_memb_PerQCIReportListItem_qci_constr_2 :: "asn_per_constraints" where
  "asn_PER_memb_PerQCIReportListItem_qci_constr_2 = per_constraints (APC_CONSTRAINED False 8 8 0 255) APC_UNCONSTRAINED"

definition asn_PER_memb_PerQCIReportListItem_dl_PRBUsage_constr_3 :: "asn_per_constraints" where
  "asn_PER_memb_PerQCIReportListItem_dl_PRBUsage_constr_3 = per_constraints (APC_CONSTRAINED False 7 7 0 100) APC_UNCONSTRAINED"

definition asn_PER_memb_PerQCIReportListItem_ul_PRBUsage_constr_4 :: "asn_per_constraints" where
  "asn_PER_memb_PerQCIReportListItem_ul_PRBUsage_constr_4 = per_constraints (APC_CONSTRAINED False 7 7 0 100) APC_UNCONSTRAINED"

definition asn_MBR_PerQCIReportListItem_1 :: "asn_type asn_TYPE_member list" where
  "asn_MBR_PerQCIReportListItem_1 =
   [Member ATF_NOFLAGS 0 e2sm_asn_DEF_NativeInteger None (Some asn_PER_memb_PerQCIReportListItem_qci_constr_2) ''qci'',
    Member ATF_POINTER 2 e2sm_asn_DEF_NativeInteger None (Some asn_PER_memb_PerQCIReportListItem_dl_PRBUsage_constr_3) ''dl-PRBUsage'',
    Member ATF_POINTER 1 e2sm_asn_DEF_NativeInteger None (Some asn_PER_memb_PerQCIReportListItem_ul_PRBUsage_constr_4) ''ul-PRBUsage'']"

definition asn_SPC_PerQCIReportListItem_specs_1 :: "asn_SEQUENCE_specifics" where
  "asn_SPC_PerQCIReportListItem_specs_1 =
    \<lparr>seq_oms = [1, 2], seq_roms_count = 2, seq_aoms_count = 0, seq_first_extension = 3\<rparr>"

definition asn_DEF_PerQCIReportListItem :: "asn_type" where
  "asn_DEF_PerQCIReportListItem = T_SEQUENCE asn_SPC_PerQCIReportListItem_specs_1 asn_MBR_PerQCIReportListItem_1"

definition asn_MBR_EPC_DU_PM_Container_perQCIReportList_2 :: "asn_type asn_TYPE_member" where
  "asn_MBR_EPC_DU_PM_Container_perQCIReportList_2 = Member ATF_POINTER 0 asn_DEF_PerQCIReportListItem None None ''''"

definition asn_DEF_EPC_DU_PM_Container_perQCIReportList_2 :: "asn_type" where
  "asn_DEF_EPC_DU_PM_Container_perQCIReportList_2 = T_SEQUENCE_OF (Some asn_PER_type_EPC_DU_PM_Container_perQCIReportList_constr_2) asn_MBR_EPC_DU_PM_Container_perQCIReportList_2"

definition asn_PER_memb_EPC_DU_PM_Container_perQCIReportList_constr_2 :: "asn_per_constraints" where
  "asn_PER_memb_EPC_DU_PM_Container_perQCIReportList_constr_2 = per_constraints APC_UNCONSTRAINED (APC_CONSTRAINED False 8 8 1 256)"

definition asn_MBR_EPC_DU_PM_Container_1 :: "asn_type asn_TYPE_member list" where
  "asn_MBR_EPC_DU_PM_Container_1 =
   [Member ATF_NOFLAGS 0 asn_DEF_EPC_DU_PM_Container_perQCIReportList_2 None (Some asn_PER_memb_EPC_DU_PM_Container_perQCIReportList_constr_2) ''perQCIReportList'']"

definition asn_SPC_EPC_DU_PM_Container_specs_1 :: "asn_SEQUENCE_specifics" where
  "asn_SPC_EPC_DU_PM_Container_specs_1 =
    \<lparr>seq_oms = [], seq_roms_count = 0, seq_aoms_count = 0, seq_first_extension = 1\<rparr>"

definition asn_DEF_EPC_DU_PM_Container :: "asn_type" where
  "asn_DEF_EPC_DU_PM_Container = T_SEQUENCE asn_SPC_EPC_DU_PM_Container_specs_1 asn_MBR_EPC_DU_PM_Container_1"

definition asn_MBR_ServedPlmnPerCellListItem_1 :: "asn_type asn_TYPE_member list" where
  "asn_MBR_ServedPlmnPerCellListItem_1 =
   [Member ATF_NOFLAGS 0 e2sm_asn_DEF_PLMN_Identity None None ''pLMN-Identity'',
    Member ATF_POINTER 2 asn_DEF_FGC_DU_PM_Container None None ''du-PM-5GC'',
    Member ATF_POINTER 1 asn_DEF_EPC_DU_PM_Container None None ''du-PM-EPC'']"

definition asn_SPC_ServedPlmnPerCellListItem_specs_1 :: "asn_SEQUENCE_specifics" where
  "asn_SPC_ServedPlmnPerCellListItem_specs_1 =
    \<lparr>seq_oms = [1, 2], seq_roms_count = 2, seq_aoms_count = 0, seq_first_extension = 3\<rparr>"

definition asn_DEF_ServedPlmnPerCellListItem :: "asn_type" where
  "asn_DEF_ServedPlmnPerCellListItem = T_SEQUENCE asn_SPC_ServedPlmnPerCellListItem_specs_1 asn_MBR_ServedPlmnPerCellListItem_1"

definition asn_MBR_servedPlmnPerCellList_5 :: "asn_type asn_TYPE_member" where
  "asn_MBR_servedPlmnPerCellList_5 = Member ATF_POINTER 0 asn_DEF_ServedPlmnPerCellListItem None None ''''"

definition asn_DEF_servedPlmnPerCellList_5 :: "asn_type" where
  "asn_DEF_servedPlmnPerCellList_5 = T_SEQUENCE_OF (Some asn_PER_type_servedPlmnPerCellList_constr_5) asn_MBR_servedPlmnPerCellList_5"

definition asn_PER_type_NRCellIdentity_constr_1 :: "asn_per_constraints" where
  "asn_PER_type_NRCellIdentity_constr_1 = per_constraints APC_UNCONSTRAINED (APC_CONSTRAINED False 0 0 36 36)"

definition asn_DEF_NRCellIdentity :: "asn_type" where
  "asn_DEF_NRCellIdentity = T_STRING ASN_OSUBV_BIT (Some asn_PER_type_NRCellIdentity_constr_1)"

definition asn_MBR_NRCGI_1 :: "asn_type asn_TYPE_member list" where
  "asn_MBR_NRCGI_1 =
   [Member ATF_NOFLAGS 0 e2sm_asn_DEF_PLMN_Identity None None ''pLMN-Identity'',
    Member ATF_NOFLAGS 0 asn_DEF_NRCellIdentity None None ''nRCellIdentity'']"

definition asn_SPC_NRCGI_specs_1 :: "asn_SEQUENCE_specifics" where
  "asn_SPC_NRCGI_specs_1 = \<lparr>seq_oms = [], seq_roms_count = 0, seq_aoms_count = 0, seq_first_extension = -1\<rparr>"

definition asn_DEF_NRCGI :: "asn_type" where
  "asn_DEF_NRCGI = T_SEQUENCE asn_SPC_NRCGI_specs_1 asn_MBR_NRCGI_1"

definition asn_PER_memb_dl_TotalofAvailablePRBs_constr_3 :: "asn_per_constraints" where
  "asn_PER_memb_dl_TotalofAvailablePRBs_constr_3 = per_constraints (APC_CONSTRAINED False 9 9 0 273) APC_UNCONSTRAINED"

definition asn_PER_memb_ul_TotalofAvailablePRBs_constr_4 :: "asn_per_constraints" where
  "asn_PER_memb_ul_TotalofAvailablePRBs_constr_4 = per_constraints (APC_CONSTRAINED False 9 9 0 273) APC_UNCONSTRAINED"

definition asn_PER_memb_servedPlmnPerCellList_constr_5 :: "asn_per_constraints" where
  "asn_PER_memb_servedPlmnPerCellList_constr_5 = per_constraints APC_UNCONSTRAINED (APC_CONSTRAINED False 4 4 1 12)"

definition asn_MBR_CellResourceReportListItem_1 :: "asn_type asn_TYPE_member list" where
  "asn_MBR_CellResourceReportListItem_1 =
   [Member ATF_NOFLAGS 0 asn_DEF_NRCGI None None ''nRCGI'',
    Member ATF_POINTER 2 e2sm_asn_DEF_NativeInteger None (Some asn_PER_memb_dl_TotalofAvailablePRBs_constr_3) ''dl-TotalofAvailablePRBs'',
    Member ATF_POINTER 1 e2sm_asn_DEF_NativeInteger None (Some asn_PER_memb_ul_TotalofAvailablePRBs_constr_4) ''ul-TotalofAvailablePRBs'',
    Member ATF_NOFLAGS 0 asn_DEF_servedPlmnPerCellList_5 None (Some asn_PER_memb_servedPlmnPerCellList_constr_5) ''servedPlmnPerCellList'']"

definition asn_SPC_CellResourceReportListItem_specs_1 :: "asn_SEQUENCE_specifics" where
  "asn_SPC_CellResourceReportListItem_specs_1 =
    \<lparr>seq_oms = [1, 2], seq_roms_count = 2, seq_aoms_count = 0, seq_first_extension = 4\<rparr>"

definition asn_DEF_CellResourceReportListItem :: "asn_type" where
  "asn_DEF_CellResourceReportListItem = T_SEQUENCE asn_SPC_CellResourceReportListItem_specs_1 asn_MBR_CellResourceReportListItem_1"

definition asn_DEF_RIC_Style_Type :: "asn_type" where
  "asn_DEF_RIC_Style_Type = T_NativeInteger False None"

definition asn_MBR_E2SM_KPM_ActionDefinition_1 :: "asn_type asn_TYPE_member list" where
  "asn_MBR_E2SM_KPM_ActionDefinition_1 =
   [Member ATF_NOFLAGS 0 asn_DEF_RIC_Style_Type None None ''ric-Style-Type'']"

definition asn_SPC_E2SM_KPM_ActionDefinition_specs_1 :: "asn_SEQUENCE_specifics" where
  "asn_SPC_E2SM_KPM_ActionDefinition_specs_1 =
    \<lparr>seq_oms = [], seq_roms_count = 0, seq_aoms_count = 0, seq_first_extension = 1\<rparr>"

definition asn_DEF_E2SM_KPM_ActionDefinition :: "asn_type" where
  "asn_DEF_E2SM_KPM_ActionDefinition = T_SEQUENCE asn_SPC_E2SM_KPM_ActionDefinition_specs_1 asn_MBR_E2SM_KPM_ActionDefinition_1"

definition asn_PER_type_policyTest_List_constr_2 :: "asn_per_constraints" where
  "asn_PER_type_policyTest_List_constr_2 = per_constraints APC_UNCONSTRAINED (APC_CONSTRAINED False 4 4 1 15)"

definition asn_PER_type_RT_Period_IE_constr_1 :: "asn_per_constraints" where
  "asn_PER_type_RT_Period_IE_constr_1 = per_constraints (APC_CONSTRAINED True 5 5 0 19) APC_UNCONSTRAINED"

definition asn_MAP_RT_Period_IE_value2enum_1 :: "(int \<times> string) list" where
  "asn_MAP_RT_Period_IE_value2enum_1 =
   [(0, ''ms10''),
    (1, ''ms20''),
    (2, ''ms32''),
    (3, ''ms40''),
    (4, ''ms60''),
    (5, ''ms64''),
    (6, ''ms70''),
    (7, ''ms80''),
    (8, ''ms128''),
    (9, ''ms160''),
    (10, ''ms256''),
    (11, ''ms320''),
    (12, ''ms512''),
    (13, ''ms640''),
    (14, ''ms1024''),
    (15, ''ms1280''),
    (16, ''ms2048''),
    (17, ''ms2560''),
    (18, ''ms5120''),
    (19, ''ms10240'')]"

definition asn_SPC_RT_Period_IE_specs_1 :: "asn_INTEGER_specifics" where
  "asn_SPC_RT_Period_IE_specs_1 = \<lparr>en_value2enum = asn_MAP_RT_Period_IE_value2enum_1, en_extension = 21\<rparr>"

definition asn_DEF_RT_Period_IE :: "asn_type" where
  "asn_DEF_RT_Period_IE = T_NativeEnumerated (Some asn_SPC_RT_Period_IE_specs_1) (Some asn_PER_type_RT_Period_IE_constr_1)"

definition asn_MBR_Trigger_ConditionIE_Item_1 :: "asn_type asn_TYPE_member list" where
  "asn_MBR_Trigger_ConditionIE_Item_1 =
   [Member ATF_NOFLAGS 0 asn_DEF_RT_Period_IE None None ''report-Period-IE'']"

definition asn_SPC_Trigger_ConditionIE_Item_specs_1 :: "asn_SEQUENCE_specifics" where
  "asn_SPC_Trigger_ConditionIE_Item_specs_1 =
    \<lparr>seq_oms = [], seq_roms_count = 0, seq_aoms_count = 0, seq_first_extension = 1\<rparr>"

definition asn_DEF_Trigger_ConditionIE_Item :: "asn_type" where
  "asn_DEF_Trigger_ConditionIE_Item = T_SEQUENCE asn_SPC_Trigger_ConditionIE_Item_specs_1 asn_MBR_Trigger_ConditionIE_Item_1"

definition asn_MBR_policyTest_List_2 :: "asn_type asn_TYPE_member" where
  "asn_MBR_policyTest_List_2 = Member ATF_POINTER 0 asn_DEF_Trigger_ConditionIE_Item None None ''''"

definition asn_DEF_policyTest_List_2 :: "asn_type" where
  "asn_DEF_policyTest_List_2 = T_SEQUENCE_OF (Some asn_PER_type_policyTest_List_constr_2) asn_MBR_policyTest_List_2"

definition asn_PER_memb_policyTest_List_constr_2 :: "asn_per_constraints" where
  "asn_PER_memb_policyTest_List_constr_2 = per_constraints APC_UNCONSTRAINED (APC_CONSTRAINED False 4 4 1 15)"

definition asn_MBR_E2SM_KPM_EventTriggerDefinition_Format1_1 :: "asn_type asn_TYPE_member list" where
  "asn_MBR_E2SM_KPM_EventTriggerDefinition_Format1_1 =
   [Member ATF_POINTER 1 asn_DEF_policyTest_List_2 None (Some asn_PER_memb_policyTest_List_constr_2) ''policyTest-List'']"

definition asn_SPC_E2SM_KPM_EventTriggerDefinition_Format1_specs_1 :: "asn_SEQUENCE_specifics" where
  "asn_SPC_E2SM_KPM_EventTriggerDefinition_Format1_specs_1 =
    \<lparr>seq_oms = [0], seq_roms_count = 1, seq_aoms_count = 0, seq_first_extension = 1\<rparr>"

definition asn_DEF_E2SM_KPM_EventTriggerDefinition_Format1 :: "asn_type" where
  "asn_DEF_E2SM_KPM_EventTriggerDefinition_Format1 = T_SEQUENCE asn_SPC_E2SM_KPM_EventTriggerDefinition_Format1_specs_1 asn_MBR_E2SM_KPM_EventTriggerDefinition_Format1_1"

definition asn_PER_type_E2SM_KPM_EventTriggerDefinition_constr_1 :: "asn_per_constraints" where
  "asn_PER_type_E2SM_KPM_EventTriggerDefinition_constr_1 = per_constraints (APC_CONSTRAINED True 0 0 0 0) APC_UNCONSTRAINED"

definition asn_MBR_E2SM_KPM_EventTriggerDefinition_1 :: "asn_type asn_TYPE_member list" where
  "asn_MBR_E2SM_KPM_EventTriggerDefinition_1 =
   [Member ATF_POINTER 0 asn_DEF_E2SM_KPM_EventTriggerDefinition_Format1 None None ''eventDefinition-Format1'']"

definition asn_SPC_E2SM_KPM_EventTriggerDefinition_specs_1 :: "asn_CHOICE_specifics" where
  "asn_SPC_E2SM_KPM_EventTriggerDefinition_specs_1 =
    \<lparr>ch_to_canonical_order = None, ch_from_canonical_order = None, ch_ext_start = 1\<rparr>"

definition asn_DEF_E2SM_KPM_EventTriggerDefinition :: "asn_type" where
  "asn_DEF_E2SM_KPM_EventTriggerDefinition = T_CHOICE (Some asn_PER_type_E2SM_KPM_EventTriggerDefinition_constr_1) asn_SPC_E2SM_KPM_EventTriggerDefinition_specs_1 asn_MBR_E2SM_KPM_EventTriggerDefinition_1"

definition asn_PER_type_GlobalKPMnode_ID_constr_1 :: "asn_per_constraints" where
  "asn_PER_type_GlobalKPMnode_ID_constr_1 = per_constraints (APC_CONSTRAINED True 2 2 0 3) APC_UNCONSTRAINED"

definition e2sm_asn_PER_type_GNB_ID_Choice_constr_1 :: "asn_per_constraints" where
  "e2sm_asn_PER_type_GNB_ID_Choice_constr_1 = per_constraints (APC_CONSTRAINED True 0 0 0 0) APC_UNCONSTRAINED"

definition e2sm_asn_PER_memb_gnb_ID_constr_2 :: "asn_per_constraints" where
  "e2sm_asn_PER_memb_gnb_ID_constr_2 = per_constraints APC_UNCONSTRAINED (APC_CONSTRAINED False 4 4 22 32)"

definition e2sm_asn_MBR_GNB_ID_Choice_1 :: "asn_type asn_TYPE_member list" where
  "e2sm_asn_MBR_GNB_ID_Choice_1 =
   [Member ATF_NOFLAGS 0 e2sm_asn_DEF_BIT_STRING None (Some e2sm_asn_PER_memb_gnb_ID_constr_2) ''gnb-ID'']"

definition e2sm_asn_SPC_GNB_ID_Choice_specs_1 :: "asn_CHOICE_specifics" where
  "e2sm_asn_SPC_GNB_ID_Choice_specs_1 =
    \<lparr>ch_to_canonical_order = None, ch_from_canonical_order = None, ch_ext_start = 1\<rparr>"

definition e2sm_asn_DEF_GNB_ID_Choice :: "asn_type" where
  "e2sm_asn_DEF_GNB_ID_Choice = T_CHOICE (Some e2sm_asn_PER_type_GNB_ID_Choice_constr_1) e2sm_asn_SPC_GNB_ID_Choice_specs_1 e2sm_asn_MBR_GNB_ID_Choice_1"

definition e2sm_asn_MBR_GlobalgNB_ID_1 :: "asn_type asn_TYPE_member list" where
  "e2sm_asn_MBR_GlobalgNB_ID_1 =
   [Member ATF_NOFLAGS 0 e2sm_asn_DEF_PLMN_Identity None None ''plmn-id'',
    Member ATF_NOFLAGS 0 e2sm_asn_DEF_GNB_ID_Choice None None ''gnb-id'']"

definition e2sm_asn_SPC_GlobalgNB_ID_specs_1 :: "asn_SEQUENCE_specifics" where
  "e2sm_asn_SPC_GlobalgNB_ID_specs_1 =
    \<lparr>seq_oms = [], seq_roms_count = 0, seq_aoms_count = 0, seq_first_extension = 2\<rparr>"

definition e2sm_asn_DEF_GlobalgNB_ID :: "asn_type" where
  "e2sm_asn_DEF_GlobalgNB_ID = T_SEQUENCE e2sm_asn_SPC_GlobalgNB_ID_specs_1 e2sm_asn_MBR_GlobalgNB_ID_1"

definition e2sm_asn_PER_type_GNB_CU_UP_ID_constr_1 :: "asn_per_constraints" where
  "e2sm_asn_PER_type_GNB_CU_UP_ID_constr_1 = per_constraints (APC_CONSTRAINED False 36 (-1) 0 68719476735) APC_UNCONSTRAINED"

definition e2sm_asn_DEF_GNB_CU_UP_ID :: "asn_type" where
  "e2sm_asn_DEF_GNB_CU_UP_ID = T_INTEGER False (Some e2sm_asn_PER_type_GNB_CU_UP_ID_constr_1)"

definition e2sm_asn_PER_type_GNB_DU_ID_constr_1 :: "asn_per_constraints" where
  "e2sm_asn_PER_type_GNB_DU_ID_constr_1 = per_constraints (APC_CONSTRAINED False 36 (-1) 0 68719476735) APC_UNCONSTRAINED"

definition e2sm_asn_DEF_GNB_DU_ID :: "asn_type" where
  "e2sm_asn_DEF_GNB_DU_ID = T_INTEGER False (Some e2sm_asn_PER_type_GNB_DU_ID_constr_1)"

definition asn_MBR_GlobalKPMnode_gNB_ID_1 :: "asn_type asn_TYPE_member list" where
  "asn_MBR_GlobalKPMnode_gNB_ID_1 =
   [Member ATF_NOFLAGS 0 e2sm_asn_DEF_GlobalgNB_ID None None ''global-gNB-ID'',
    Member ATF_POINTER 2 e2sm_asn_DEF_GNB_CU_UP_ID None None ''gNB-CU-UP-ID'',
    Member ATF_POINTER 1 e2sm_asn_DEF_GNB_DU_ID None None ''gNB-DU-ID'']"

definition asn_SPC_GlobalKPMnode_gNB_ID_specs_1 :: "asn_SEQUENCE_specifics" where
  "asn_SPC_GlobalKPMnode_gNB_ID_specs_1 =
    \<lparr>seq_oms = [1, 2], seq_roms_count = 2, seq_aoms_count = 0, seq_first_extension = 3\<rparr>"

definition asn_DEF_GlobalKPMnode_gNB_ID :: "asn_type" where
  "asn_DEF_GlobalKPMnode_gNB_ID = T_SEQUENCE asn_SPC_GlobalKPMnode_gNB_ID_specs_1 asn_MBR_GlobalKPMnode_gNB_ID_1"

definition e2sm_asn_PER_type_ENGNB_ID_constr_1 :: "asn_per_constraints" where
  "e2sm_asn_PER_type_ENGNB_ID_constr_1 = per_constraints (APC_CONSTRAINED True 0 0 0 0) APC_UNCONSTRAINED"

definition e2sm_asn_PER_memb_gNB_ID_constr_2 :: "asn_per_constraints" where
  "e2sm_asn_PER_memb_gNB_ID_constr_2 = per_constraints APC_UNCONSTRAINED (APC_CONSTRAINED False 4 4 22 32)"

definition e2sm_asn_MBR_ENGNB_ID_1 :: "asn_type asn_TYPE_member list" where
  "e2sm_asn_MBR_ENGNB_ID_1 =
   [Member ATF_NOFLAGS 0 e2sm_asn_DEF_BIT_STRING None (Some e2sm_asn_PER_memb_gNB_ID_constr_2) ''gNB-ID'']"

definition e2sm_asn_SPC_ENGNB_ID_specs_1 :: "asn_CHOICE_specifics" where
  "e2sm_asn_SPC_ENGNB_ID_specs_1 =
    \<lparr>ch_to_canonical_order = None, ch_from_canonical_order = None, ch_ext_start = 1\<rparr>"

definition e2sm_asn_DEF_ENGNB_ID :: "asn_type" where
  "e2sm_asn_DEF_ENGNB_ID = T_CHOICE (Some e2sm_asn_PER_type_ENGNB_ID_constr_1) e2sm_asn_SPC_ENGNB_ID_specs_1 e2sm_asn_MBR_ENGNB_ID_1"

definition e2sm_asn_MBR_GlobalenGNB_ID_1 :: "asn_type asn_TYPE_member list" where
  "e2sm_asn_MBR_GlobalenGNB_ID_1 =
   [Member ATF_NOFLAGS 0 e2sm_asn_DEF_PLMN_Identity None None ''pLMN-Identity'',
    Member ATF_NOFLAGS 0 e2sm_asn_DEF_ENGNB_ID None None ''gNB-ID'']"

definition e2sm_asn_SPC_GlobalenGNB_ID_specs_1 :: "asn_SEQUENCE_specifics" where
  "e2sm_asn_SPC_GlobalenGNB_ID_specs_1 =
    \<lparr>seq_oms = [], seq_roms_count = 0, seq_aoms_count = 0, seq_first_extension = 2\<rparr>"

definition e2sm_asn_DEF_GlobalenGNB_ID :: "asn_type" where
  "e2sm_asn_DEF_GlobalenGNB_ID = T_SEQUENCE e2sm_asn_SPC_GlobalenGNB_ID_specs_1 e2sm_asn_MBR_GlobalenGNB_ID_1"

definition asn_MBR_GlobalKPMnode_en_gNB_ID_1 :: "asn_type asn_TYPE_member list" where
  "asn_MBR_GlobalKPMnode_en_gNB_ID_1 =
   [Member ATF_NOFLAGS 0 e2sm_asn_DEF_GlobalenGNB_ID None None ''global-gNB-ID'']"

definition asn_SPC_GlobalKPMnode_en_gNB_ID_specs_1 :: "asn_SEQUENCE_specifics" where
  "asn_SPC_GlobalKPMnode_en_gNB_ID_specs_1 =
    \<lparr>seq_oms = [], seq_roms_count = 0, seq_aoms_count = 0, seq_first_extension = 1\<rparr>"

definition asn_DEF_GlobalKPMnode_en_gNB_ID :: "asn_type" where
  "asn_DEF_GlobalKPMnode_en_gNB_ID = T_SEQUENCE asn_SPC_GlobalKPMnode_en_gNB_ID_specs_1 asn_MBR_GlobalKPMnode_en_gNB_ID_1"

definition e2sm_asn_PER_type_ENB_ID_Choice_constr_1 :: "asn_per_constraints" where
  "e2sm_asn_PER_type_ENB_ID_Choice_constr_1 = per_constraints (APC_CONSTRAINED True 2 2 0 2) APC_UNCONSTRAINED"

definition e2sm_asn_PER_memb_enb_ID_macro_constr_2 :: "asn_per_constraints" where
  "e2sm_asn_PER_memb_enb_ID_macro_constr_2 = per_constraints APC_UNCONSTRAINED (APC_CONSTRAINED False 0 0 20 20)"

definition e2sm_asn_PER_memb_enb_ID_shortmacro_constr_3 :: "asn_per_constraints" where
  "e2sm_asn_PER_memb_enb_ID_shortmacro_constr_3 = per_constraints APC_UNCONSTRAINED (APC_CONSTRAINED False 0 0 18 18)"

definition e2sm_asn_PER_memb_enb_ID_longmacro_constr_4 :: "asn_per_constraints" where
  "e2sm_asn_PER_memb_enb_ID_longmacro_constr_4 = per_constraints APC_UNCONSTRAINED (APC_CONSTRAINED False 0 0 21 21)"

definition e2sm_asn_MBR_ENB_ID_Choice_1 :: "asn_type asn_TYPE_member list" where
  "e2sm_asn_MBR_ENB_ID_Choice_1 =
   [Member ATF_NOFLAGS 0 e2sm_asn_DEF_BIT_STRING None (Some e2sm_asn_PER_memb_enb_ID_macro_constr_2) ''enb-ID-macro'',
    Member ATF_NOFLAGS 0 e2sm_asn_DEF_BIT_STRING None (Some e2sm_asn_PER_memb_enb_ID_shortmacro_constr_3) ''enb-ID-shortmacro'',
    Member ATF_NOFLAGS 0 e2sm_asn_DEF_BIT_STRING None (Some e2sm_asn_PER_memb_enb_ID_longmacro_constr_4) ''enb-ID-longmacro'']"

definition e2sm_asn_SPC_ENB_ID_Choice_specs_1 :: "asn_CHOICE_specifics" where
  "e2sm_asn_SPC_ENB_ID_Choice_specs_1 =
    \<lparr>ch_to_canonical_order = None, ch_from_canonical_order = None, ch_ext_start = 3\<rparr>"

definition e2sm_asn_DEF_ENB_ID_Choice :: "asn_type" where
  "e2sm_asn_DEF_ENB_ID_Choice = T_CHOICE (Some e2sm_asn_PER_type_ENB_ID_Choice_constr_1) e2sm_asn_SPC_ENB_ID_Choice_specs_1 e2sm_asn_MBR_ENB_ID_Choice_1"

definition e2sm_asn_MBR_GlobalngeNB_ID_1 :: "asn_type asn_TYPE_member list" where
  "e2sm_asn_MBR_GlobalngeNB_ID_1 =
   [Member ATF_NOFLAGS 0 e2sm_asn_DEF_PLMN_Identity None None ''plmn-id'',
    Member ATF_NOFLAGS 0 e2sm_asn_DEF_ENB_ID_Choice None None ''enb-id'']"

definition e2sm_asn_SPC_GlobalngeNB_ID_specs_1 :: "asn_SEQUENCE_specifics" where
  "e2sm_asn_SPC_GlobalngeNB_ID_specs_1 =
    \<lparr>seq_oms = [], seq_roms_count = 0, seq_aoms_count = 0, seq_first_extension = 2\<rparr>"

definition e2sm_asn_DEF_GlobalngeNB_ID :: "asn_type" where
  "e2sm_asn_DEF_GlobalngeNB_ID = T_SEQUENCE e2sm_asn_SPC_GlobalngeNB_ID_specs_1 e2sm_asn_MBR_GlobalngeNB_ID_1"

definition asn_MBR_GlobalKPMnode_ng_eNB_ID_1 :: "asn_type asn_TYPE_member list" where
  "asn_MBR_GlobalKPMnode_ng_eNB_ID_1 =
   [Member ATF_NOFLAGS 0 e2sm_asn_DEF_GlobalngeNB_ID None None ''global-ng-eNB-ID'']"

definition asn_SPC_GlobalKPMnode_ng_eNB_ID_specs_1 :: "asn_SEQUENCE_specifics" where
  "asn_SPC_GlobalKPMnode_ng_eNB_ID_specs_1 =
    \<lparr>seq_oms = [], seq_roms_count = 0, seq_aoms_count = 0, seq_first_extension = 1\<rparr>"

definition asn_DEF_GlobalKPMnode_ng_eNB_ID :: "asn_type" where
  "asn_DEF_GlobalKPMnode_ng_eNB_ID = T_SEQUENCE asn_SPC_GlobalKPMnode_ng_eNB_ID_specs_1 asn_MBR_GlobalKPMnode_ng_eNB_ID_1"

definition e2sm_asn_PER_type_ENB_ID_constr_1 :: "asn_per_constraints" where
  "e2sm_asn_PER_type_ENB_ID_constr_1 = per_constraints (APC_CONSTRAINED True 1 1 0 1) APC_UNCONSTRAINED"

definition e2sm_asn_PER_memb_macro_eNB_ID_constr_2 :: "asn_per_constraints" where
  "e2sm_asn_PER_memb_macro_eNB_ID_constr_2 = per_constraints APC_UNCONSTRAINED (APC_CONSTRAINED False 0 0 20 20)"

definition e2sm_asn_PER_memb_home_eNB_ID_constr_3 :: "asn_per_constraints" where
  "e2sm_asn_PER_memb_home_eNB_ID_constr_3 = per_constraints APC_UNCONSTRAINED (APC_CONSTRAINED False 0 0 28 28)"

definition e2sm_asn_PER_memb_short_Macro_eNB_ID_constr_5 :: "asn_per_constraints" where
  "e2sm_asn_PER_memb_short_Macro_eNB_ID_constr_5 = per_constraints APC_UNCONSTRAINED (APC_CONSTRAINED False 0 0 18 18)"

definition e2sm_asn_PER_memb_long_Macro_eNB_ID_constr_6 :: "asn_per_constraints" where
  "e2sm_asn_PER_memb_long_Macro_eNB_ID_constr_6 = per_constraints APC_UNCONSTRAINED (APC_CONSTRAINED False 0 0 21 21)"

definition e2sm_asn_MBR_ENB_ID_1 :: "asn_type asn_TYPE_member list" where
  "e2sm_asn_MBR_ENB_ID_1 =
   [Member ATF_NOFLAGS 0 e2sm_asn_DEF_BIT_STRING None (Some e2sm_asn_PER_memb_macro_eNB_ID_constr_2) ''macro-eNB-ID'',
    Member ATF_NOFLAGS 0 e2sm_asn_DEF_BIT_STRING None (Some e2sm_asn_PER_memb_home_eNB_ID_constr_3) ''home-eNB-ID'',
    Member ATF_NOFLAGS 0 e2sm_asn_DEF_BIT_STRING None (Some e2sm_asn_PER_memb_short_Macro_eNB_ID_constr_5) ''short-Macro-eNB-ID'',
    Member ATF_NOFLAGS 0 e2sm_asn_DEF_BIT_STRING None (Some e2sm_asn_PER_memb_long_Macro_eNB_ID_constr_6) ''long-Macro-eNB-ID'']"

definition e2sm_asn_SPC_ENB_ID_specs_1 :: "asn_CHOICE_specifics" where
  "e2sm_asn_SPC_ENB_ID_specs_1 =
    \<lparr>ch_to_canonical_order = None, ch_from_canonical_order = None, ch_ext_start = 2\<rparr>"

definition e2sm_asn_DEF_ENB_ID :: "asn_type" where
  "e2sm_asn_DEF_ENB_ID = T_CHOICE (Some e2sm_asn_PER_type_ENB_ID_constr_1) e2sm_asn_SPC_ENB_ID_specs_1 e2sm_asn_MBR_ENB_ID_1"

definition e2sm_asn_MBR_GlobalENB_ID_1 :: "asn_type asn_TYPE_member list" where
  "e2sm_asn_MBR_GlobalENB_ID_1 =
   [Member ATF_NOFLAGS 0 e2sm_asn_DEF_PLMN_Identity None None ''pLMN-Identity'',
    Member ATF_NOFLAGS 0 e2sm_asn_DEF_ENB_ID None None ''eNB-ID'']"

definition e2sm_asn_SPC_GlobalENB_ID_specs_1 :: "asn_SEQUENCE_specifics" where
  "e2sm_asn_SPC_GlobalENB_ID_specs_1 =
    \<lparr>seq_oms = [], seq_roms_count = 0, seq_aoms_count = 0, seq_first_extension = 2\<rparr>"

definition e2sm_asn_DEF_GlobalENB_ID :: "asn_type" where
  "e2sm_asn_DEF_GlobalENB_ID = T_SEQUENCE e2sm_asn_SPC_GlobalENB_ID_specs_1 e2sm_asn_MBR_GlobalENB_ID_1"

definition asn_MBR_GlobalKPMnode_eNB_ID_1 :: "asn_type asn_TYPE_member list" where
  "asn_MBR_GlobalKPMnode_eNB_ID_1 =
   [Member ATF_NOFLAGS 0 e2sm_asn_DEF_GlobalENB_ID None None ''global-eNB-ID'']"

definition asn_SPC_GlobalKPMnode_eNB_ID_specs_1 :: "asn_SEQUENCE_specifics" where
  "asn_SPC_GlobalKPMnode_eNB_ID_specs_1 =
    \<lparr>seq_oms = [], seq_roms_count = 0, seq_aoms_count = 0, seq_first_extension = 1\<rparr>"

definition asn_DEF_GlobalKPMnode_eNB_ID :: "asn_type" where
  "asn_DEF_GlobalKPMnode_eNB_ID = T_SEQUENCE asn_SPC_GlobalKPMnode_eNB_ID_specs_1 asn_MBR_GlobalKPMnode_eNB_ID_1"

definition asn_MBR_GlobalKPMnode_ID_1 :: "asn_type asn_TYPE_member list" where
  "asn_MBR_GlobalKPMnode_ID_1 =
   [Member ATF_POINTER 0 asn_DEF_GlobalKPMnode_gNB_ID None None ''gNB'',
    Member ATF_POINTER 0 asn_DEF_GlobalKPMnode_en_gNB_ID None None ''en-gNB'',
    Member ATF_POINTER 0 asn_DEF_GlobalKPMnode_ng_eNB_ID None None ''ng-eNB'',
    Member ATF_POINTER 0 asn_DEF_GlobalKPMnode_eNB_ID None None ''eNB'']"

definition asn_SPC_GlobalKPMnode_ID_specs_1 :: "asn_CHOICE_specifics" where
  "asn_SPC_GlobalKPMnode_ID_specs_1 =
    \<lparr>ch_to_canonical_order = None, ch_from_canonical_order = None, ch_ext_start = 4\<rparr>"

definition asn_DEF_GlobalKPMnode_ID :: "asn_type" where
  "asn_DEF_GlobalKPMnode_ID = T_CHOICE (Some asn_PER_type_GlobalKPMnode_ID_constr_1) asn_SPC_GlobalKPMnode_ID_specs_1 asn_MBR_GlobalKPMnode_ID_1"

definition asn_PER_memb_fiveQI_constr_6 :: "asn_per_constraints" where
  "asn_PER_memb_fiveQI_constr_6 = per_constraints (APC_CONSTRAINED False 8 8 0 255) APC_UNCONSTRAINED"

definition asn_PER_memb_qci_constr_7 :: "asn_per_constraints" where
  "asn_PER_memb_qci_constr_7 = per_constraints (APC_CONSTRAINED False 8 8 0 255) APC_UNCONSTRAINED"

definition asn_MBR_E2SM_KPM_IndicationHeader_Format1_1 :: "asn_type asn_TYPE_member list" where
  "asn_MBR_E2SM_KPM_IndicationHeader_Format1_1 =
   [Member ATF_POINTER 6 asn_DEF_GlobalKPMnode_ID None None ''id-GlobalKPMnode-ID'',
    Member ATF_POINTER 5 asn_DEF_NRCGI None None ''nRCGI'',
    Member ATF_POINTER 4 e2sm_asn_DEF_PLMN_Identity None None ''pLMN-Identity'',
    Member ATF_POINTER 3 asn_DEF_SNSSAI None None ''sliceID'',
    Member ATF_POINTER 2 e2sm_asn_DEF_NativeInteger None (Some asn_PER_memb_fiveQI_constr_6) ''fiveQI'',
    Member ATF_POINTER 1 e2sm_asn_DEF_NativeInteger None (Some asn_PER_memb_qci_constr_7) ''qci'']"

definition asn_SPC_E2SM_KPM_IndicationHeader_Format1_specs_1 :: "asn_SEQUENCE_specifics" where
  "asn_SPC_E2SM_KPM_IndicationHeader_Format1_specs_1 =
    \<lparr>seq_oms = [0, 1, 2, 3, 4, 5], seq_roms_count = 6, seq_aoms_count = 0, seq_first_extension = 6\<rparr>"

definition asn_DEF_E2SM_KPM_IndicationHeader_Format1 :: "asn_type" where
  "asn_DEF_E2SM_KPM_IndicationHeader_Format1 = T_SEQUENCE asn_SPC_E2SM_KPM_IndicationHeader_Format1_specs_1 asn_MBR_E2SM_KPM_IndicationHeader_Format1_1"

definition asn_PER_type_E2SM_KPM_IndicationHeader_constr_1 :: "asn_per_constraints" where
  "asn_PER_type_E2SM_KPM_IndicationHeader_constr_1 = per_constraints (APC_CONSTRAINED True 0 0 0 0) APC_UNCONSTRAINED"

definition asn_MBR_E2SM_KPM_IndicationHeader_1 :: "asn_type asn_TYPE_member list" where
  "asn_MBR_E2SM_KPM_IndicationHeader_1 =
   [Member ATF_POINTER 0 asn_DEF_E2SM_KPM_IndicationHeader_Format1 None None ''indicationHeader-Format1'']"

definition asn_SPC_E2SM_KPM_IndicationHeader_specs_1 :: "asn_CHOICE_specifics" where
  "asn_SPC_E2SM_KPM_IndicationHeader_specs_1 =
    \<lparr>ch_to_canonical_order = None, ch_from_canonical_order = None, ch_ext_start = 1\<rparr>"

definition asn_DEF_E2SM_KPM_IndicationHeader :: "asn_type" where
  "asn_DEF_E2SM_KPM_IndicationHeader = T_CHOICE (Some asn_PER_type_E2SM_KPM_IndicationHeader_constr_1) asn_SPC_E2SM_KPM_IndicationHeader_specs_1 asn_MBR_E2SM_KPM_IndicationHeader_1"

definition asn_PER_type_pm_Containers_constr_2 :: "asn_per_constraints" where
  "asn_PER_type_pm_Containers_constr_2 = per_constraints APC_UNCONSTRAINED (APC_CONSTRAINED False 9 9 1 512)"

definition asn_PER_type_PF_Container_constr_1 :: "asn_per_constraints" where
  "asn_PER_type_PF_Container_constr_1 = per_constraints (APC_CONSTRAINED False 2 2 0 2) APC_UNCONSTRAINED"

definition asn_PER_type_cellResourceReportList_constr_2 :: "asn_per_constraints" where
  "asn_PER_type_cellResourceReportList_constr_2 = per_constraints APC_UNCONSTRAINED (APC_CONSTRAINED False 9 9 1 512)"

definition asn_MBR_cellResourceReportList_2 :: "asn_type asn_TYPE_member" where
  "asn_MBR_cellResourceReportList_2 = Member ATF_POINTER 0 asn_DEF_CellResourceReportListItem None None ''''"

definition asn_DEF_cellResourceReportList_2 :: "asn_type" where
  "asn_DEF_cellResourceReportList_2 = T_SEQUENCE_OF (Some asn_PER_type_cellResourceReportList_constr_2) asn_MBR_cellResourceReportList_2"

definition asn_PER_memb_cellResourceReportList_constr_2 :: "asn_per_constraints" where
  "asn_PER_memb_cellResourceReportList_constr_2 = per_constraints APC_UNCONSTRAINED (APC_CONSTRAINED False 9 9 1 512)"

definition asn_MBR_ODU_PF_Container_1 :: "asn_type asn_TYPE_member list" where
  "asn_MBR_ODU_PF_Container_1 =
   [Member ATF_NOFLAGS 0 asn_DEF_cellResourceReportList_2 None (Some asn_PER_memb_cellResourceReportList_constr_2) ''cellResourceReportList'']"

definition asn_SPC_ODU_PF_Container_specs_1 :: "asn_SEQUENCE_specifics" where
  "asn_SPC_ODU_PF_Container_specs_1 =
    \<lparr>seq_oms = [], seq_roms_count = 0, seq_aoms_count = 0, seq_first_extension = 1\<rparr>"

definition asn_DEF_ODU_PF_Container :: "asn_type" where
  "asn_DEF_ODU_PF_Container = T_SEQUENCE asn_SPC_ODU_PF_Container_specs_1 asn_MBR_ODU_PF_Container_1"

definition permitted_alphabet_GNB_CU_CP_Name_table_1 :: "int list" where
  "permitted_alphabet_GNB_CU_CP_Name_table_1 =
   [0, 0, 0, 0, 0, 0, 0, 0, 0, 0, 0, 0, 0, 0, 0, 0,
    0, 0, 0, 0, 0, 0, 0, 0, 0, 0, 0, 0, 0, 0, 0, 0,
    1, 0, 0, 0, 0, 0, 0, 2, 3, 4, 0, 5, 6, 7, 8, 9,
    10, 11, 12, 13, 14, 15, 16, 17, 18, 19, 20, 0, 0, 21, 0, 22,
    0, 23, 24, 25, 26, 27, 28, 29, 30, 31, 32, 33, 34, 35, 36, 37,
    38, 39, 40, 41, 42, 43, 44, 45, 46, 47, 48, 0, 0, 0, 0, 0,
    0, 49, 50, 51, 52, 53, 54, 55, 56, 57, 58, 59, 60, 61, 62, 63,
    64, 65, 66, 67, 68, 69, 70, 71, 72, 73, 74, 0, 0, 0, 0, 0]"

definition asn_PER_MAP_GNB_CU_CP_Name_1_v2c :: "int \<Rightarrow> int" where
  "asn_PER_MAP_GNB_CU_CP_Name_1_v2c value =
     (if 256 \<le> value then -1
      else (if nat value < length permitted_alphabet_GNB_CU_CP_Name_table_1 then permitted_alphabet_GNB_CU_CP_Name_table_1 ! nat value else 0) - 1)"

definition permitted_alphabet_GNB_CU_CP_Name_code2value_1 :: "int list" where
  "permitted_alphabet_GNB_CU_CP_Name_code2value_1 =
   [32, 39, 40, 41, 43, 44, 45, 46, 47, 48, 49, 50, 51, 52, 53, 54,
    55, 56, 57, 58, 61, 63, 65, 66, 67, 68, 69, 70, 71, 72, 73, 74,
    75, 76, 77, 78, 79, 80, 81, 82, 83, 84, 85, 86, 87, 88, 89, 90,
    97, 98, 99, 100, 101, 102, 103, 104, 105, 106, 107, 108, 109, 110, 111, 112,
    113, 114, 115, 116, 117, 118, 119, 120, 121, 122]"

definition asn_PER_MAP_GNB_CU_CP_Name_1_c2v :: "int \<Rightarrow> int" where
  "asn_PER_MAP_GNB_CU_CP_Name_1_c2v code =
     (if 74 \<le> code then -1 else permitted_alphabet_GNB_CU_CP_Name_code2value_1 ! nat code)"

definition asn_PER_type_GNB_CU_CP_Name_constr_1 :: "asn_per_constraints" where
  "asn_PER_type_GNB_CU_CP_Name_constr_1 =
    \<lparr>pcs_value = APC_CONSTRAINED False 7 7 32 122, pcs_size = APC_CONSTRAINED True 8 8 1 150,
    pcs_value2code = Some asn_PER_MAP_GNB_CU_CP_Name_1_v2c, pcs_code2value = Some asn_PER_MAP_GNB_CU_CP_Name_1_c2v\<rparr>"

definition asn_DEF_GNB_CU_CP_Name :: "asn_type" where
  "asn_DEF_GNB_CU_CP_Name = T_STRING ASN_OSUBV_STR (Some asn_PER_type_GNB_CU_CP_Name_constr_1)"

definition asn_PER_memb_numberOfActive_UEs_constr_4 :: "asn_per_constraints" where
  "asn_PER_memb_numberOfActive_UEs_constr_4 = per_constraints (APC_CONSTRAINED True 16 (-1) 1 65536) APC_UNCONSTRAINED"

definition asn_MBR_cu_CP_Resource_Status_3 :: "asn_type asn_TYPE_member list" where
  "asn_MBR_cu_CP_Resource_Status_3 =
   [Member ATF_POINTER 1 e2sm_asn_DEF_NativeInteger None (Some asn_PER_memb_numberOfActive_UEs_constr_4) ''numberOfActive-UEs'']"

definition asn_SPC_cu_CP_Resource_Status_specs_3 :: "asn_SEQUENCE_specifics" where
  "asn_SPC_cu_CP_Resource_Status_specs_3 =
    \<lparr>seq_oms = [0], seq_roms_count = 1, seq_aoms_count = 0, seq_first_extension = -1\<rparr>"

definition asn_DEF_cu_CP_Resource_Status_3 :: "asn_type" where
  "asn_DEF_cu_CP_Resource_Status_3 = T_SEQUENCE asn_SPC_cu_CP_Resource_Status_specs_3 asn_MBR_cu_CP_Resource_Status_3"

definition asn_MBR_OCUCP_PF_Container_1 :: "asn_type asn_TYPE_member list" where
  "asn_MBR_OCUCP_PF_Container_1 =
   [Member ATF_POINTER 1 asn_DEF_GNB_CU_CP_Name None None ''gNB-CU-CP-Name'',
    Member ATF_NOFLAGS 0 asn_DEF_cu_CP_Resource_Status_3 None None ''cu-CP-Resource-Status'']"

definition asn_SPC_OCUCP_PF_Container_specs_1 :: "asn_SEQUENCE_specifics" where
  "asn_SPC_OCUCP_PF_Container_specs_1 =
    \<lparr>seq_oms = [0], seq_roms_count = 1, seq_aoms_count = 0, seq_first_extension = -1\<rparr>"

definition asn_DEF_OCUCP_PF_Container :: "asn_type" where
  "asn_DEF_OCUCP_PF_Container = T_SEQUENCE asn_SPC_OCUCP_PF_Container_specs_1 asn_MBR_OCUCP_PF_Container_1"

definition permitted_alphabet_GNB_CU_UP_Name_table_1 :: "int list" where
  "permitted_alphabet_GNB_CU_UP_Name_table_1 =
   [0, 0, 0, 0, 0, 0, 0, 0, 0, 0, 0, 0, 0, 0, 0, 0,
    0, 0, 0, 0, 0, 0, 0, 0, 0, 0, 0, 0, 0, 0, 0, 0,
    1, 0, 0, 0, 0, 0, 0, 2, 3, 4, 0, 5, 6, 7, 8, 9,
    10, 11, 12, 13, 14, 15, 16, 17, 18, 19, 20, 0, 0, 21, 0, 22,
    0, 23, 24, 25, 26, 27, 28, 29, 30, 31, 32, 33, 34, 35, 36, 37,
    38, 39, 40, 41, 42, 43, 44, 45, 46, 47, 48, 0, 0, 0, 0, 0,
    0, 49, 50, 51, 52, 53, 54, 55, 56, 57, 58, 59, 60, 61, 62, 63,
    64, 65, 66, 67, 68, 69, 70, 71, 72, 73, 74, 0, 0, 0, 0, 0]"

definition asn_PER_MAP_GNB_CU_UP_Name_1_v2c :: "int \<Rightarrow> int" where
  "asn_PER_MAP_GNB_CU_UP_Name_1_v2c value =
     (if 256 \<le> value then -1
      else (if nat value < length permitted_alphabet_GNB_CU_UP_Name_table_1 then permitted_alphabet_GNB_CU_UP_Name_table_1 ! nat value else 0) - 1)"

definition permitted_alphabet_GNB_CU_UP_Name_code2value_1 :: "int list" where
  "permitted_alphabet_GNB_CU_UP_Name_code2value_1 =
   [32, 39, 40, 41, 43, 44, 45, 46, 47, 48, 49, 50, 51, 52, 53, 54,
    55, 56, 57, 58, 61, 63, 65, 66, 67, 68, 69, 70, 71, 72, 73, 74,
    75, 76, 77, 78, 79, 80, 81, 82, 83, 84, 85, 86, 87, 88, 89, 90,
    97, 98, 99, 100, 101, 102, 103, 104, 105, 106, 107, 108, 109, 110, 111, 112,
    113, 114, 115, 116, 117, 118, 119, 120, 121, 122]"

definition asn_PER_MAP_GNB_CU_UP_Name_1_c2v :: "int \<Rightarrow> int" where
  "asn_PER_MAP_GNB_CU_UP_Name_1_c2v code =
     (if 74 \<le> code then -1 else permitted_alphabet_GNB_CU_UP_Name_code2value_1 ! nat code)"

definition asn_PER_type_GNB_CU_UP_Name_constr_1 :: "asn_per_constraints" where
  "asn_PER_type_GNB_CU_UP_Name_constr_1 =
    \<lparr>pcs_value = APC_CONSTRAINED False 7 7 32 122, pcs_size = APC_CONSTRAINED True 8 8 1 150,
    pcs_value2code = Some asn_PER_MAP_GNB_CU_UP_Name_1_v2c, pcs_code2value = Some asn_PER_MAP_GNB_CU_UP_Name_1_c2v\<rparr>"

definition asn_DEF_GNB_CU_UP_Name :: "asn_type" where
  "asn_DEF_GNB_CU_UP_Name = T_STRING ASN_OSUBV_STR (Some asn_PER_type_GNB_CU_UP_Name_constr_1)"

definition asn_PER_type_pf_ContainerList_constr_3 :: "asn_per_constraints" where
  "asn_PER_type_pf_ContainerList_constr_3 = per_constraints APC_UNCONSTRAINED (APC_CONSTRAINED False 2 2 1 3)"

definition asn_PER_type_NI_Type_constr_1 :: "asn_per_constraints" where
  "asn_PER_type_NI_Type_constr_1 = per_constraints (APC_CONSTRAINED True 2 2 0 2) APC_UNCONSTRAINED"

definition asn_MAP_NI_Type_value2enum_1 :: "(int \<times> string) list" where
  "asn_MAP_NI_Type_value2enum_1 =
   [(0, ''x2-u''),
    (1, ''xn-u''),
    (2, ''f1-u'')]"

definition asn_SPC_NI_Type_specs_1 :: "asn_INTEGER_specifics" where
  "asn_SPC_NI_Type_specs_1 = \<lparr>en_value2enum = asn_MAP_NI_Type_value2enum_1, en_extension = 4\<rparr>"

definition asn_DEF_NI_Type :: "asn_type" where
  "asn_DEF_NI_Type = T_NativeEnumerated (Some asn_SPC_NI_Type_specs_1) (Some asn_PER_type_NI_Type_constr_1)"

definition asn_MBR_PF_ContainerListItem_1 :: "asn_type asn_TYPE_member list" where
  "asn_MBR_PF_ContainerListItem_1 =
   [Member ATF_NOFLAGS 0 asn_DEF_NI_Type None None ''interface-type'',
    Member ATF_NOFLAGS 0 asn_DEF_CUUPMeasurement_Container None None ''o-CU-UP-PM-Container'']"

definition asn_SPC_PF_ContainerListItem_specs_1 :: "asn_SEQUENCE_specifics" where
  "asn_SPC_PF_ContainerListItem_specs_1 =
    \<lparr>seq_oms = [], seq_roms_count = 0, seq_aoms_count = 0, seq_first_extension = 2\<rparr>"

definition asn_DEF_PF_ContainerListItem :: "asn_type" where
  "asn_DEF_PF_ContainerListItem = T_SEQUENCE asn_SPC_PF_ContainerListItem_specs_1 asn_MBR_PF_ContainerListItem_1"

definition asn_MBR_pf_ContainerList_3 :: "asn_type asn_TYPE_member" where
  "asn_MBR_pf_ContainerList_3 = Member ATF_POINTER 0 asn_DEF_PF_ContainerListItem None None ''''"

definition asn_DEF_pf_ContainerList_3 :: "asn_type" where
  "asn_DEF_pf_ContainerList_3 = T_SEQUENCE_OF (Some asn_PER_type_pf_ContainerList_constr_3) asn_MBR_pf_ContainerList_3"

definition asn_PER_memb_pf_ContainerList_constr_3 :: "asn_per_constraints" where
  "asn_PER_memb_pf_ContainerList_constr_3 = per_constraints APC_UNCONSTRAINED (APC_CONSTRAINED False 2 2 1 3)"

definition asn_MBR_OCUUP_PF_Container_1 :: "asn_type asn_TYPE_member list" where
  "asn_MBR_OCUUP_PF_Container_1 =
   [Member ATF_POINTER 1 asn_DEF_GNB_CU_UP_Name None None ''gNB-CU-UP-Name'',
    Member ATF_NOFLAGS 0 asn_DEF_pf_ContainerList_3 None (Some asn_PER_memb_pf_ContainerList_constr_3) ''pf-ContainerList'']"

definition asn_SPC_OCUUP_PF_Container_specs_1 :: "asn_SEQUENCE_specifics" where
  "asn_SPC_OCUUP_PF_Container_specs_1 =
    \<lparr>seq_oms = [0], seq_roms_count = 1, seq_aoms_count = 0, seq_first_extension = 2\<rparr>"

definition asn_DEF_OCUUP_PF_Container :: "asn_type" where
  "asn_DEF_OCUUP_PF_Container = T_SEQUENCE asn_SPC_OCUUP_PF_Container_specs_1 asn_MBR_OCUUP_PF_Container_1"

definition asn_MBR_PF_Container_1 :: "asn_type asn_TYPE_member list" where
  "asn_MBR_PF_Container_1 =
   [Member ATF_POINTER 0 asn_DEF_ODU_PF_Container None None ''oDU'',
    Member ATF_POINTER 0 asn_DEF_OCUCP_PF_Container None None ''oCU-CP'',
    Member ATF_POINTER 0 asn_DEF_OCUUP_PF_Container None None ''oCU-UP'']"

definition asn_SPC_PF_Container_specs_1 :: "asn_CHOICE_specifics" where
  "asn_SPC_PF_Container_specs_1 =
    \<lparr>ch_to_canonical_order = None, ch_from_canonical_order = None, ch_ext_start = -1\<rparr>"

definition asn_DEF_PF_Container :: "asn_type" where
  "asn_DEF_PF_Container = T_CHOICE (Some asn_PER_type_PF_Container_constr_1) asn_SPC_PF_Container_specs_1 asn_MBR_PF_Container_1"

definition asn_DEF_RAN_Container :: "asn_type" where
  "asn_DEF_RAN_Container = T_STRING ASN_OSUBV_STR None"

definition asn_MBR_PM_Containers_List_1 :: "asn_type asn_TYPE_member list" where
  "asn_MBR_PM_Containers_List_1 =
   [Member ATF_POINTER 2 asn_DEF_PF_Container None None ''performanceContainer'',
    Member ATF_POINTER 1 asn_DEF_RAN_Container None None ''theRANContainer'']"

definition asn_SPC_PM_Containers_List_specs_1 :: "asn_SEQUENCE_specifics" where
  "asn_SPC_PM_Containers_List_specs_1 =
    \<lparr>seq_oms = [0, 1], seq_roms_count = 2, seq_aoms_count = 0, seq_first_extension = 2\<rparr>"

definition asn_DEF_PM_Containers_List :: "asn_type" where
  "asn_DEF_PM_Containers_List = T_SEQUENCE asn_SPC_PM_Containers_List_specs_1 asn_MBR_PM_Containers_List_1"

definition asn_MBR_pm_Containers_2 :: "asn_type asn_TYPE_member" where
  "asn_MBR_pm_Containers_2 = Member ATF_POINTER 0 asn_DEF_PM_Containers_List None None ''''"

definition asn_DEF_pm_Containers_2 :: "asn_type" where
  "asn_DEF_pm_Containers_2 = T_SEQUENCE_OF (Some asn_PER_type_pm_Containers_constr_2) asn_MBR_pm_Containers_2"

definition asn_PER_memb_pm_Containers_constr_2 :: "asn_per_constraints" where
  "asn_PER_memb_pm_Containers_constr_2 = per_constraints APC_UNCONSTRAINED (APC_CONSTRAINED False 9 9 1 512)"

definition asn_MBR_E2SM_KPM_IndicationMessage_Format1_1 :: "asn_type asn_TYPE_member list" where
  "asn_MBR_E2SM_KPM_IndicationMessage_Format1_1 =
   [Member ATF_NOFLAGS 0 asn_DEF_pm_Containers_2 None (Some asn_PER_memb_pm_Containers_constr_2) ''pm-Containers'']"

definition asn_SPC_E2SM_KPM_IndicationMessage_Format1_specs_1 :: "asn_SEQUENCE_specifics" where
  "asn_SPC_E2SM_KPM_IndicationMessage_Format1_specs_1 =
    \<lparr>seq_oms = [], seq_roms_count = 0, seq_aoms_count = 0, seq_first_extension = 1\<rparr>"

definition asn_DEF_E2SM_KPM_IndicationMessage_Format1 :: "asn_type" where
  "asn_DEF_E2SM_KPM_IndicationMessage_Format1 = T_SEQUENCE asn_SPC_E2SM_KPM_IndicationMessage_Format1_specs_1 asn_MBR_E2SM_KPM_IndicationMessage_Format1_1"

definition asn_PER_type_indicationMessage_constr_3 :: "asn_per_constraints" where
  "asn_PER_type_indicationMessage_constr_3 = per_constraints (APC_CONSTRAINED True 0 0 0 0) APC_UNCONSTRAINED"

definition asn_MBR_indicationMessage_3 :: "asn_type asn_TYPE_member list" where
  "asn_MBR_indicationMessage_3 =
   [Member ATF_POINTER 0 asn_DEF_E2SM_KPM_IndicationMessage_Format1 None None ''indicationMessage-Format1'']"

definition asn_SPC_indicationMessage_specs_3 :: "asn_CHOICE_specifics" where
  "asn_SPC_indicationMessage_specs_3 =
    \<lparr>ch_to_canonical_order = None, ch_from_canonical_order = None, ch_ext_start = 1\<rparr>"

definition asn_DEF_indicationMessage_3 :: "asn_type" where
  "asn_DEF_indicationMessage_3 = T_CHOICE (Some asn_PER_type_indicationMessage_constr_3) asn_SPC_indicationMessage_specs_3 asn_MBR_indicationMessage_3"

definition asn_MBR_E2SM_KPM_IndicationMessage_1 :: "asn_type asn_TYPE_member list" where
  "asn_MBR_E2SM_KPM_IndicationMessage_1 =
   [Member ATF_NOFLAGS 0 asn_DEF_RIC_Style_Type None None ''ric-Style-Type'',
    Member ATF_NOFLAGS 0 asn_DEF_indicationMessage_3 None None ''indicationMessage'']"

definition asn_SPC_E2SM_KPM_IndicationMessage_specs_1 :: "asn_SEQUENCE_specifics" where
  "asn_SPC_E2SM_KPM_IndicationMessage_specs_1 =
    \<lparr>seq_oms = [], seq_roms_count = 0, seq_aoms_count = 0, seq_first_extension = -1\<rparr>"

definition asn_DEF_E2SM_KPM_IndicationMessage :: "asn_type" where
  "asn_DEF_E2SM_KPM_IndicationMessage = T_SEQUENCE asn_SPC_E2SM_KPM_IndicationMessage_specs_1 asn_MBR_E2SM_KPM_IndicationMessage_1"

definition asn_PER_type_ric_EventTriggerStyle_List_constr_4 :: "asn_per_constraints" where
  "asn_PER_type_ric_EventTriggerStyle_List_constr_4 = per_constraints APC_UNCONSTRAINED (APC_CONSTRAINED False 6 6 1 63)"

definition permitted_alphabet_RIC_Style_Name_table_1 :: "int list" where
  "permitted_alphabet_RIC_Style_Name_table_1 =
   [0, 0, 0, 0, 0, 0, 0, 0, 0, 0, 0, 0, 0, 0, 0, 0,
    0, 0, 0, 0, 0, 0, 0, 0, 0, 0, 0, 0, 0, 0, 0, 0,
    1, 0, 0, 0, 0, 0, 0, 2, 3, 4, 0, 5, 6, 7, 8, 9,
    10, 11, 12, 13, 14, 15, 16, 17, 18, 19, 20, 0, 0, 21, 0, 22,
    0, 23, 24, 25, 26, 27, 28, 29, 30, 31, 32, 33, 34, 35, 36, 37,
    38, 39, 40, 41, 42, 43, 44, 45, 46, 47, 48, 0, 0, 0, 0, 0,
    0, 49, 50, 51, 52, 53, 54, 55, 56, 57, 58, 59, 60, 61, 62, 63,
    64, 65, 66, 67, 68, 69, 70, 71, 72, 73, 74, 0, 0, 0, 0, 0]"

definition asn_PER_MAP_RIC_Style_Name_1_v2c :: "int \<Rightarrow> int" where
  "asn_PER_MAP_RIC_Style_Name_1_v2c value =
     (if 256 \<le> value then -1
      else (if nat value < length permitted_alphabet_RIC_Style_Name_table_1 then permitted_alphabet_RIC_Style_Name_table_1 ! nat value else 0) - 1)"

definition permitted_alphabet_RIC_Style_Name_code2value_1 :: "int list" where
  "permitted_alphabet_RIC_Style_Name_code2value_1 =
   [32, 39, 40, 41, 43, 44, 45, 46, 47, 48, 49, 50, 51, 52, 53, 54,
    55, 56, 57, 58, 61, 63, 65, 66, 67, 68, 69, 70, 71, 72, 73, 74,
    75, 76, 77, 78, 79, 80, 81, 82, 83, 84, 85, 86, 87, 88, 89, 90,
    97, 98, 99, 100, 101, 102, 103, 104, 105, 106, 107, 108, 109, 110, 111, 112,
    113, 114, 115, 116, 117, 118, 119, 120, 121, 122]"

definition asn_PER_MAP_RIC_Style_Name_1_c2v :: "int \<Rightarrow> int" where
  "asn_PER_MAP_RIC_Style_Name_1_c2v code =
     (if 74 \<le> code then -1 else permitted_alphabet_RIC_Style_Name_code2value_1 ! nat code)"

definition asn_PER_type_RIC_Style_Name_constr_1 :: "asn_per_constraints" where
  "asn_PER_type_RIC_Style_Name_constr_1 =
    \<lparr>pcs_value = APC_CONSTRAINED False 7 7 32 122, pcs_size = APC_CONSTRAINED True 8 8 1 150,
    pcs_value2code = Some asn_PER_MAP_RIC_Style_Name_1_v2c, pcs_code2value = Some asn_PER_MAP_RIC_Style_Name_1_c2v\<rparr>"

definition asn_DEF_RIC_Style_Name :: "asn_type" where
  "asn_DEF_RIC_Style_Name = T_STRING ASN_OSUBV_STR (Some asn_PER_type_RIC_Style_Name_constr_1)"

definition asn_DEF_RIC_Format_Type :: "asn_type" where
  "asn_DEF_RIC_Format_Type = T_NativeInteger False None"

definition asn_MBR_RIC_EventTriggerStyle_List_1 :: "asn_type asn_TYPE_member list" where
  "asn_MBR_RIC_EventTriggerStyle_List_1 =
   [Member ATF_NOFLAGS 0 asn_DEF_RIC_Style_Type None None ''ric-EventTriggerStyle-Type'',
    Member ATF_NOFLAGS 0 asn_DEF_RIC_Style_Name None None ''ric-EventTriggerStyle-Name'',
    Member ATF_NOFLAGS 0 asn_DEF_RIC_Format_Type None None ''ric-EventTriggerFormat-Type'']"

definition asn_SPC_RIC_EventTriggerStyle_List_specs_1 :: "asn_SEQUENCE_specifics" where
  "asn_SPC_RIC_EventTriggerStyle_List_specs_1 =
    \<lparr>seq_oms = [], seq_roms_count = 0, seq_aoms_count = 0, seq_first_extension = 3\<rparr>"

definition asn_DEF_RIC_EventTriggerStyle_List :: "asn_type" where
  "asn_DEF_RIC_EventTriggerStyle_List = T_SEQUENCE asn_SPC_RIC_EventTriggerStyle_List_specs_1 asn_MBR_RIC_EventTriggerStyle_List_1"

definition asn_MBR_ric_EventTriggerStyle_List_4 :: "asn_type asn_TYPE_member" where
  "asn_MBR_ric_EventTriggerStyle_List_4 = Member ATF_POINTER 0 asn_DEF_RIC_EventTriggerStyle_List None None ''''"

definition asn_DEF_ric_EventTriggerStyle_List_4 :: "asn_type" where
  "asn_DEF_ric_EventTriggerStyle_List_4 = T_SEQUENCE_OF (Some asn_PER_type_ric_EventTriggerStyle_List_constr_4) asn_MBR_ric_EventTriggerStyle_List_4"

definition asn_PER_type_ric_ReportStyle_List_constr_6 :: "asn_per_constraints" where
  "asn_PER_type_ric_ReportStyle_List_constr_6 = per_constraints APC_UNCONSTRAINED (APC_CONSTRAINED False 6 6 1 63)"

definition asn_MBR_RIC_ReportStyle_List_1 :: "asn_type asn_TYPE_member list" where
  "asn_MBR_RIC_ReportStyle_List_1 =
   [Member ATF_NOFLAGS 0 asn_DEF_RIC_Style_Type None None ''ric-ReportStyle-Type'',
    Member ATF_NOFLAGS 0 asn_DEF_RIC_Style_Name None None ''ric-ReportStyle-Name'',
    Member ATF_NOFLAGS 0 asn_DEF_RIC_Format_Type None None ''ric-IndicationHeaderFormat-Type'',
    Member ATF_NOFLAGS 0 asn_DEF_RIC_Format_Type None None ''ric-IndicationMessageFormat-Type'']"

definition asn_SPC_RIC_ReportStyle_List_specs_1 :: "asn_SEQUENCE_specifics" where
  "asn_SPC_RIC_ReportStyle_List_specs_1 =
    \<lparr>seq_oms = [], seq_roms_count = 0, seq_aoms_count = 0, seq_first_extension = 4\<rparr>"

definition asn_DEF_RIC_ReportStyle_List :: "asn_type" where
  "asn_DEF_RIC_ReportStyle_List = T_SEQUENCE asn_SPC_RIC_ReportStyle_List_specs_1 asn_MBR_RIC_ReportStyle_List_1"

definition asn_MBR_ric_ReportStyle_List_6 :: "asn_type asn_TYPE_member" where
  "asn_MBR_ric_ReportStyle_List_6 = Member ATF_POINTER 0 asn_DEF_RIC_ReportStyle_List None None ''''"

definition asn_DEF_ric_ReportStyle_List_6 :: "asn_type" where
  "asn_DEF_ric_ReportStyle_List_6 = T_SEQUENCE_OF (Some asn_PER_type_ric_ReportStyle_List_constr_6) asn_MBR_ric_ReportStyle_List_6"

definition asn_PER_memb_ric_EventTriggerStyle_List_constr_4 :: "asn_per_constraints" where
  "asn_PER_memb_ric_EventTriggerStyle_List_constr_4 = per_constraints APC_UNCONSTRAINED (APC_CONSTRAINED False 6 6 1 63)"

definition asn_PER_memb_ric_ReportStyle_List_constr_6 :: "asn_per_constraints" where
  "asn_PER_memb_ric_ReportStyle_List_constr_6 = per_constraints APC_UNCONSTRAINED (APC_CONSTRAINED False 6 6 1 63)"

definition asn_MBR_e2SM_KPM_RANfunction_Item_3 :: "asn_type asn_TYPE_member list" where
  "asn_MBR_e2SM_KPM_RANfunction_Item_3 =
   [Member ATF_POINTER 2 asn_DEF_ric_EventTriggerStyle_List_4 None (Some asn_PER_memb_ric_EventTriggerStyle_List_constr_4) ''ric-EventTriggerStyle-List'',
    Member ATF_POINTER 1 asn_DEF_ric_ReportStyle_List_6 None (Some asn_PER_memb_ric_ReportStyle_List_constr_6) ''ric-ReportStyle-List'']"

definition asn_SPC_e2SM_KPM_RANfunction_Item_specs_3 :: "asn_SEQUENCE_specifics" where
  "asn_SPC_e2SM_KPM_RANfunction_Item_specs_3 =
    \<lparr>seq_oms = [0, 1], seq_roms_count = 2, seq_aoms_count = 0, seq_first_extension = 2\<rparr>"

definition asn_DEF_e2SM_KPM_RANfunction_Item_3 :: "asn_type" where
  "asn_DEF_e2SM_KPM_RANfunction_Item_3 = T_SEQUENCE asn_SPC_e2SM_KPM_RANfunction_Item_specs_3 asn_MBR_e2SM_KPM_RANfunction_Item_3"

definition PrintableString_alphabet :: "int list" where
  "PrintableString_alphabet =
   [0, 0, 0, 0, 0, 0, 0, 0, 0, 0, 0, 0, 0, 0, 0, 0,
    0, 0, 0, 0, 0, 0, 0, 0, 0, 0, 0, 0, 0, 0, 0, 0,
    1, 0, 0, 0, 0, 0, 0, 2, 3, 4, 0, 5, 6, 7, 8, 9,
    10, 11, 12, 13, 14, 15, 16, 17, 18, 19, 20, 0, 0, 21, 0, 22,
    0, 23, 24, 25, 26, 27, 28, 29, 30, 31, 32, 33, 34, 35, 36, 37,
    38, 39, 40, 41, 42, 43, 44, 45, 46, 47, 48, 0, 0, 0, 0, 0,
    0, 49, 50, 51, 52, 53, 54, 55, 56, 57, 58, 59, 60, 61, 62, 63,
    64, 65, 66, 67, 68, 69, 70, 71, 72, 73, 74, 0, 0, 0, 0, 0]"

definition asn_DEF_PrintableString_v2c :: "int \<Rightarrow> int" where
  "asn_DEF_PrintableString_v2c value =
     ((if 255 < value then PrintableString_alphabet ! 0 else (if nat value < length PrintableString_alphabet then PrintableString_alphabet ! nat value else 0)) - 1)"

definition PrintableString_code2value :: "int list" where
  "PrintableString_code2value =
   [32, 39, 40, 41, 43, 44, 45, 46, 47, 48, 49, 50, 51, 52, 53, 54,
    55, 56, 57, 58, 61, 63, 65, 66, 67, 68, 69, 70, 71, 72, 73, 74,
    75, 76, 77, 78, 79, 80, 81, 82, 83, 84, 85, 86, 87, 88, 89, 90,
    97, 98, 99, 100, 101, 102, 103, 104, 105, 106, 107, 108, 109, 110, 111, 112,
    113, 114, 115, 116, 117, 118, 119, 120, 121, 122]"

definition asn_DEF_PrintableString_c2v :: "int \<Rightarrow> int" where
  "asn_DEF_PrintableString_c2v code =
     (if 74 \<le> code then -1 else PrintableString_code2value ! nat code)"

definition asn_DEF_PrintableString_per_constraints :: "asn_per_constraints" where
  "asn_DEF_PrintableString_per_constraints =
    \<lparr>pcs_value = APC_CONSTRAINED False 4 4 0x20 0x39, pcs_size = APC_SEMI_CONSTRAINED 0,
    pcs_value2code = Some asn_DEF_PrintableString_v2c, pcs_code2value = Some asn_DEF_PrintableString_c2v\<rparr>"

definition asn_DEF_PrintableString :: "asn_type" where
  "asn_DEF_PrintableString = T_STRING ASN_OSUBV_STR (Some asn_DEF_PrintableString_per_constraints)"

definition permitted_alphabet_table_2 :: "int list" where
  "permitted_alphabet_table_2 =
   [0, 0, 0, 0, 0, 0, 0, 0, 0, 0, 0, 0, 0, 0, 0, 0,
    0, 0, 0, 0, 0, 0, 0, 0, 0, 0, 0, 0, 0, 0, 0, 0,
    1, 0, 0, 0, 0, 0, 0, 2, 3, 4, 0, 5, 6, 7, 8, 9,
    10, 11, 12, 13, 14, 15, 16, 17, 18, 19, 20, 0, 0, 21, 0, 22,
    0, 23, 24, 25, 26, 27, 28, 29, 30, 31, 32, 33, 34, 35, 36, 37,
    38, 39, 40, 41, 42, 43, 44, 45, 46, 47, 48, 0, 0, 0, 0, 0,
    0, 49, 50, 51, 52, 53, 54, 55, 56, 57, 58, 59, 60, 61, 62, 63,
    64, 65, 66, 67, 68, 69, 70, 71, 72, 73, 74, 0, 0, 0, 0, 0]"

definition asn_PER_MAP_ranFunction_ShortName_2_v2c :: "int \<Rightarrow> int" where
  "asn_PER_MAP_ranFunction_ShortName_2_v2c value =
     (if 256 \<le> value then -1
      else (if nat value < length permitted_alphabet_table_2 then permitted_alphabet_table_2 ! nat value else 0) - 1)"

definition permitted_alphabet_code2value_2 :: "int list" where
  "permitted_alphabet_code2value_2 =
   [32, 39, 40, 41, 43, 44, 45, 46, 47, 48, 49, 50, 51, 52, 53, 54,
    55, 56, 57, 58, 61, 63, 65, 66, 67, 68, 69, 70, 71, 72, 73, 74,
    75, 76, 77, 78, 79, 80, 81, 82, 83, 84, 85, 86, 87, 88, 89, 90,
    97, 98, 99, 100, 101, 102, 103, 104, 105, 106, 107, 108, 109, 110, 111, 112,
    113, 114, 115, 116, 117, 118, 119, 120, 121, 122]"

definition asn_PER_MAP_ranFunction_ShortName_2_c2v :: "int \<Rightarrow> int" where
  "asn_PER_MAP_ranFunction_ShortName_2_c2v code =
     (if 74 \<le> code then -1 else permitted_alphabet_code2value_2 ! nat code)"

definition asn_PER_memb_ranFunction_ShortName_constr_2 :: "asn_per_constraints" where
  "asn_PER_memb_ranFunction_ShortName_constr_2 =
    \<lparr>pcs_value = APC_CONSTRAINED False 7 7 32 122, pcs_size = APC_CONSTRAINED True 8 8 1 150,
    pcs_value2code = Some asn_PER_MAP_ranFunction_ShortName_2_v2c, pcs_code2value = Some asn_PER_MAP_ranFunction_ShortName_2_c2v\<rparr>"

definition permitted_alphabet_table_3 :: "int list" where
  "permitted_alphabet_table_3 =
   [0, 0, 0, 0, 0, 0, 0, 0, 0, 0, 0, 0, 0, 0, 0, 0,
    0, 0, 0, 0, 0, 0, 0, 0, 0, 0, 0, 0, 0, 0, 0, 0,
    1, 0, 0, 0, 0, 0, 0, 2, 3, 4, 0, 5, 6, 7, 8, 9,
    10, 11, 12, 13, 14, 15, 16, 17, 18, 19, 20, 0, 0, 21, 0, 22,
    0, 23, 24, 25, 26, 27, 28, 29, 30, 31, 32, 33, 34, 35, 36, 37,
    38, 39, 40, 41, 42, 43, 44, 45, 46, 47, 48, 0, 0, 0, 0, 0,
    0, 49, 50, 51, 52, 53, 54, 55, 56, 57, 58, 59, 60, 61, 62, 63,
    64, 65, 66, 67, 68, 69, 70, 71, 72, 73, 74, 0, 0, 0, 0, 0]"

definition asn_PER_MAP_ranFunction_E2SM_OID_3_v2c :: "int \<Rightarrow> int" where
  "asn_PER_MAP_ranFunction_E2SM_OID_3_v2c value =
     (if 256 \<le> value then -1
      else (if nat value < length permitted_alphabet_table_3 then permitted_alphabet_table_3 ! nat value else 0) - 1)"

definition permitted_alphabet_code2value_3 :: "int list" where
  "permitted_alphabet_code2value_3 =
   [32, 39, 40, 41, 43, 44, 45, 46, 47, 48, 49, 50, 51, 52, 53, 54,
    55, 56, 57, 58, 61, 63, 65, 66, 67, 68, 69, 70, 71, 72, 73, 74,
    75, 76, 77, 78, 79, 80, 81, 82, 83, 84, 85, 86, 87, 88, 89, 90,
    97, 98, 99, 100, 101, 102, 103, 104, 105, 106, 107, 108, 109, 110, 111, 112,
    113, 114, 115, 116, 117, 118, 119, 120, 121, 122]"

definition asn_PER_MAP_ranFunction_E2SM_OID_3_c2v :: "int \<Rightarrow> int" where
  "asn_PER_MAP_ranFunction_E2SM_OID_3_c2v code =
     (if 74 \<le> code then -1 else permitted_alphabet_code2value_3 ! nat code)"

definition asn_PER_memb_ranFunction_E2SM_OID_constr_3 :: "asn_per_constraints" where
  "asn_PER_memb_ranFunction_E2SM_OID_constr_3 =
    \<lparr>pcs_value = APC_CONSTRAINED False 7 7 32 122, pcs_size = APC_CONSTRAINED True 10 10 1 1000,
    pcs_value2code = Some asn_PER_MAP_ranFunction_E2SM_OID_3_v2c, pcs_code2value = Some asn_PER_MAP_ranFunction_E2SM_OID_3_c2v\<rparr>"

definition permitted_alphabet_table_4 :: "int list" where
  "permitted_alphabet_table_4 =
   [0, 0, 0, 0, 0, 0, 0, 0, 0, 0, 0, 0, 0, 0, 0, 0,
    0, 0, 0, 0, 0, 0, 0, 0, 0, 0, 0, 0, 0, 0, 0, 0,
    1, 0, 0, 0, 0, 0, 0, 2, 3, 4, 0, 5, 6, 7, 8, 9,
    10, 11, 12, 13, 14, 15, 16, 17, 18, 19, 20, 0, 0, 21, 0, 22,
    0, 23, 24, 25, 26, 27, 28, 29, 30, 31, 32, 33, 34, 35, 36, 37,
    38, 39, 40, 41, 42, 43, 44, 45, 46, 47, 48, 0, 0, 0, 0, 0,
    0, 49, 50, 51, 52, 53, 54, 55, 56, 57, 58, 59, 60, 61, 62, 63,
    64, 65, 66, 67, 68, 69, 70, 71, 72, 73, 74, 0, 0, 0, 0, 0]"

definition asn_PER_MAP_ranFunction_Description_4_v2c :: "int \<Rightarrow> int" where
  "asn_PER_MAP_ranFunction_Description_4_v2c value =
     (if 256 \<le> value then -1
      else (if nat value < length permitted_alphabet_table_4 then permitted_alphabet_table_4 ! nat value else 0) - 1)"

definition permitted_alphabet_code2value_4 :: "int list" where
  "permitted_alphabet_code2value_4 =
   [32, 39, 40, 41, 43, 44, 45, 46, 47, 48, 49, 50, 51, 52, 53, 54,
    55, 56, 57, 58, 61, 63, 65, 66, 67, 68, 69, 70, 71, 72, 73, 74,
    75, 76, 77, 78, 79, 80, 81, 82, 83, 84, 85, 86, 87, 88, 89, 90,
    97, 98, 99, 100, 101, 102, 103, 104, 105, 106, 107, 108, 109, 110, 111, 112,
    113, 114, 115, 116, 117, 118, 119, 120, 121, 122]"

definition asn_PER_MAP_ranFunction_Description_4_c2v :: "int \<Rightarrow> int" where
  "asn_PER_MAP_ranFunction_Description_4_c2v code =
     (if 74 \<le> code then -1 else permitted_alphabet_code2value_4 ! nat code)"

definition asn_PER_memb_ranFunction_Description_constr_4 :: "asn_per_constraints" where
  "asn_PER_memb_ranFunction_Description_constr_4 =
    \<lparr>pcs_value = APC_CONSTRAINED False 7 7 32 122, pcs_size = APC_CONSTRAINED True 8 8 1 150,
    pcs_value2code = Some asn_PER_MAP_ranFunction_Description_4_v2c, pcs_code2value = Some asn_PER_MAP_ranFunction_Description_4_c2v\<rparr>"

definition asn_MBR_RANfunction_Name_1 :: "asn_type asn_TYPE_member list" where
  "asn_MBR_RANfunction_Name_1 =
   [Member ATF_NOFLAGS 0 asn_DEF_PrintableString None (Some asn_PER_memb_ranFunction_ShortName_constr_2) ''ranFunction-ShortName'',
    Member ATF_NOFLAGS 0 asn_DEF_PrintableString None (Some asn_PER_memb_ranFunction_E2SM_OID_constr_3) ''ranFunction-E2SM-OID'',
    Member ATF_NOFLAGS 0 asn_DEF_PrintableString None (Some asn_PER_memb_ranFunction_Description_constr_4) ''ranFunction-Description'',
    Member ATF_POINTER 1 e2sm_asn_DEF_NativeInteger None None ''ranFunction-Instance'']"

definition asn_SPC_RANfunction_Name_specs_1 :: "asn_SEQUENCE_specifics" where
  "asn_SPC_RANfunction_Name_specs_1 =
    \<lparr>seq_oms = [3], seq_roms_count = 1, seq_aoms_count = 0, seq_first_extension = 4\<rparr>"

definition asn_DEF_RANfunction_Name :: "asn_type" where
  "asn_DEF_RANfunction_Name = T_SEQUENCE asn_SPC_RANfunction_Name_specs_1 asn_MBR_RANfunction_Name_1"

definition asn_MBR_E2SM_KPM_RANfunction_Description_1 :: "asn_type asn_TYPE_member list" where
  "asn_MBR_E2SM_KPM_RANfunction_Description_1 =
   [Member ATF_NOFLAGS 0 asn_DEF_RANfunction_Name None None ''ranFunction-Name'',
    Member ATF_NOFLAGS 0 asn_DEF_e2SM_KPM_RANfunction_Item_3 None None ''e2SM-KPM-RANfunction-Item'']"

definition asn_SPC_E2SM_KPM_RANfunction_Description_specs_1 :: "asn_SEQUENCE_specifics" where
  "asn_SPC_E2SM_KPM_RANfunction_Description_specs_1 =
    \<lparr>seq_oms = [], seq_roms_count = 0, seq_aoms_count = 0, seq_first_extension = 2\<rparr>"

definition asn_DEF_E2SM_KPM_RANfunction_Description :: "asn_type" where
  "asn_DEF_E2SM_KPM_RANfunction_Description = T_SEQUENCE asn_SPC_E2SM_KPM_RANfunction_Description_specs_1 asn_MBR_E2SM_KPM_RANfunction_Description_1"

definition permitted_alphabet_GNB_DU_Name_table_1 :: "int list" where
  "permitted_alphabet_GNB_DU_Name_table_1 =
   [0, 0, 0, 0, 0, 0, 0, 0, 0, 0, 0, 0, 0, 0, 0, 0,
    0, 0, 0, 0, 0, 0, 0, 0, 0, 0, 0, 0, 0, 0, 0, 0,
    1, 0, 0, 0, 0, 0, 0, 2, 3, 4, 0, 5, 6, 7, 8, 9,
    10, 11, 12, 13, 14, 15, 16, 17, 18, 19, 20, 0, 0, 21, 0, 22,
    0, 23, 24, 25, 26, 27, 28, 29, 30, 31, 32, 33, 34, 35, 36, 37,
    38, 39, 40, 41, 42, 43, 44, 45, 46, 47, 48, 0, 0, 0, 0, 0,
    0, 49, 50, 51, 52, 53, 54, 55, 56, 57, 58, 59, 60, 61, 62, 63,
    64, 65, 66, 67, 68, 69, 70, 71, 72, 73, 74, 0, 0, 0, 0, 0]"

definition asn_PER_MAP_GNB_DU_Name_1_v2c :: "int \<Rightarrow> int" where
  "asn_PER_MAP_GNB_DU_Name_1_v2c value =
     (if 256 \<le> value then -1
      else (if nat value < length permitted_alphabet_GNB_DU_Name_table_1 then permitted_alphabet_GNB_DU_Name_table_1 ! nat value else 0) - 1)"

definition permitted_alphabet_GNB_DU_Name_code2value_1 :: "int list" where
  "permitted_alphabet_GNB_DU_Name_code2value_1 =
   [32, 39, 40, 41, 43, 44, 45, 46, 47, 48, 49, 50, 51, 52, 53, 54,
    55, 56, 57, 58, 61, 63, 65, 66, 67, 68, 69, 70, 71, 72, 73, 74,
    75, 76, 77, 78, 79, 80, 81, 82, 83, 84, 85, 86, 87, 88, 89, 90,
    97, 98, 99, 100, 101, 102, 103, 104, 105, 106, 107, 108, 109, 110, 111, 112,
    113, 114, 115, 116, 117, 118, 119, 120, 121, 122]"

definition asn_PER_MAP_GNB_DU_Name_1_c2v :: "int \<Rightarrow> int" where
  "asn_PER_MAP_GNB_DU_Name_1_c2v code =
     (if 74 \<le> code then -1 else permitted_alphabet_GNB_DU_Name_code2value_1 ! nat code)"

definition asn_PER_type_GNB_DU_Name_constr_1 :: "asn_per_constraints" where
  "asn_PER_type_GNB_DU_Name_constr_1 =
    \<lparr>pcs_value = APC_CONSTRAINED False 7 7 32 122, pcs_size = APC_CONSTRAINED True 8 8 1 150,
    pcs_value2code = Some asn_PER_MAP_GNB_DU_Name_1_v2c, pcs_code2value = Some asn_PER_MAP_GNB_DU_Name_1_c2v\<rparr>"

definition asn_DEF_GNB_DU_Name :: "asn_type" where
  "asn_DEF_GNB_DU_Name = T_STRING ASN_OSUBV_STR (Some asn_PER_type_GNB_DU_Name_constr_1)"

definition e2sm_asn_DEF_NativeEnumerated :: "asn_type" where
  "e2sm_asn_DEF_NativeEnumerated = T_NativeEnumerated None None"

definition permitted_alphabet_RANcallProcess_ID_string_table_1 :: "int list" where
  "permitted_alphabet_RANcallProcess_ID_string_table_1 =
   [0, 0, 0, 0, 0, 0, 0, 0, 0, 0, 0, 0, 0, 0, 0, 0,
    0, 0, 0, 0, 0, 0, 0, 0, 0, 0, 0, 0, 0, 0, 0, 0,
    1, 0, 0, 0, 0, 0, 0, 2, 3, 4, 0, 5, 6, 7, 8, 9,
    10, 11, 12, 13, 14, 15, 16, 17, 18, 19, 20, 0, 0, 21, 0, 22,
    0, 23, 24, 25, 26, 27, 28, 29, 30, 31, 32, 33, 34, 35, 36, 37,
    38, 39, 40, 41, 42, 43, 44, 45, 46, 47, 48, 0, 0, 0, 0, 0,
    0, 49, 50, 51, 52, 53, 54, 55, 56, 57, 58, 59, 60, 61, 62, 63,
    64, 65, 66, 67, 68, 69, 70, 71, 72, 73, 74, 0, 0, 0, 0, 0]"

definition asn_PER_MAP_RANcallProcess_ID_string_1_v2c :: "int \<Rightarrow> int" where
  "asn_PER_MAP_RANcallProcess_ID_string_1_v2c value =
     (if 256 \<le> value then -1
      else (if nat value < length permitted_alphabet_RANcallProcess_ID_string_table_1 then permitted_alphabet_RANcallProcess_ID_string_table_1 ! nat value else 0) - 1)"

definition permitted_alphabet_RANcallProcess_ID_string_code2value_1 :: "int list" where
  "permitted_alphabet_RANcallProcess_ID_string_code2value_1 =
   [32, 39, 40, 41, 43, 44, 45, 46, 47, 48, 49, 50, 51, 52, 53, 54,
    55, 56, 57, 58, 61, 63, 65, 66, 67, 68, 69, 70, 71, 72, 73, 74,
    75, 76, 77, 78, 79, 80, 81, 82, 83, 84, 85, 86, 87, 88, 89, 90,
    97, 98, 99, 100, 101, 102, 103, 104, 105, 106, 107, 108, 109, 110, 111, 112,
    113, 114, 115, 116, 117, 118, 119, 120, 121, 122]"

definition asn_PER_MAP_RANcallProcess_ID_string_1_c2v :: "int \<Rightarrow> int" where
  "asn_PER_MAP_RANcallProcess_ID_string_1_c2v code =
     (if 74 \<le> code then -1 else permitted_alphabet_RANcallProcess_ID_string_code2value_1 ! nat code)"

definition asn_PER_type_RANcallProcess_ID_string_constr_1 :: "asn_per_constraints" where
  "asn_PER_type_RANcallProcess_ID_string_constr_1 =
    \<lparr>pcs_value = APC_CONSTRAINED False 7 7 32 122, pcs_size = APC_CONSTRAINED True 8 8 1 150,
    pcs_value2code = Some asn_PER_MAP_RANcallProcess_ID_string_1_v2c, pcs_code2value = Some asn_PER_MAP_RANcallProcess_ID_string_1_c2v\<rparr>"

definition asn_DEF_RANcallProcess_ID_string :: "asn_type" where
  "asn_DEF_RANcallProcess_ID_string = T_STRING ASN_OSUBV_STR (Some asn_PER_type_RANcallProcess_ID_string_constr_1)"

text \<open>The tables, by kind: constraints, specifics, members and descriptors.\<close>

lemmas kpm_constraints =
  asn_PER_type_plmnList_constr_2_def e2sm_asn_PER_type_PLMN_Identity_constr_1_def asn_PER_type_sliceToReportList_constr_2_def
  asn_PER_memb_sST_constr_2_def asn_PER_memb_sD_constr_3_def asn_PER_type_fQIPERSlicesPerPlmnList_constr_3_def
  asn_PER_memb_FQIPERSlicesPerPlmnListItem_fiveQI_constr_2_def asn_PER_memb_FQIPERSlicesPerPlmnListItem_pDCPBytesDL_constr_3_def asn_PER_memb_FQIPERSlicesPerPlmnListItem_pDCPBytesUL_constr_4_def
  asn_PER_memb_fQIPERSlicesPerPlmnList_constr_3_def asn_PER_memb_sliceToReportList_constr_2_def asn_PER_type_EPC_CUUP_PM_Format_perQCIReportList_constr_2_def
  asn_PER_memb_PerQCIReportListItemFormat_qci_constr_2_def asn_PER_memb_PerQCIReportListItemFormat_pDCPBytesDL_constr_3_def asn_PER_memb_PerQCIReportListItemFormat_pDCPBytesUL_constr_4_def
  asn_PER_memb_EPC_CUUP_PM_Format_perQCIReportList_constr_2_def asn_PER_memb_plmnList_constr_2_def asn_PER_type_servedPlmnPerCellList_constr_5_def
  asn_PER_type_slicePerPlmnPerCellList_constr_2_def asn_PER_type_fQIPERSlicesPerPlmnPerCellList_constr_3_def asn_PER_memb_FQIPERSlicesPerPlmnPerCellListItem_fiveQI_constr_2_def
  asn_PER_memb_FQIPERSlicesPerPlmnPerCellListItem_dl_PRBUsage_constr_3_def asn_PER_memb_FQIPERSlicesPerPlmnPerCellListItem_ul_PRBUsage_constr_4_def asn_PER_memb_fQIPERSlicesPerPlmnPerCellList_constr_3_def
  asn_PER_memb_slicePerPlmnPerCellList_constr_2_def asn_PER_type_EPC_DU_PM_Container_perQCIReportList_constr_2_def asn_PER_memb_PerQCIReportListItem_qci_constr_2_def
  asn_PER_memb_PerQCIReportListItem_dl_PRBUsage_constr_3_def asn_PER_memb_PerQCIReportListItem_ul_PRBUsage_constr_4_def asn_PER_memb_EPC_DU_PM_Container_perQCIReportList_constr_2_def
  asn_PER_type_NRCellIdentity_constr_1_def asn_PER_memb_dl_TotalofAvailablePRBs_constr_3_def asn_PER_memb_ul_TotalofAvailablePRBs_constr_4_def
  asn_PER_memb_servedPlmnPerCellList_constr_5_def asn_PER_type_policyTest_List_constr_2_def asn_PER_type_RT_Period_IE_constr_1_def
  asn_PER_memb_policyTest_List_constr_2_def asn_PER_type_E2SM_KPM_EventTriggerDefinition_constr_1_def asn_PER_type_GlobalKPMnode_ID_constr_1_def
  e2sm_asn_PER_type_GNB_ID_Choice_constr_1_def e2sm_asn_PER_memb_gnb_ID_constr_2_def e2sm_asn_PER_type_GNB_CU_UP_ID_constr_1_def
  e2sm_asn_PER_type_GNB_DU_ID_constr_1_def e2sm_asn_PER_type_ENGNB_ID_constr_1_def e2sm_asn_PER_memb_gNB_ID_constr_2_def
  e2sm_asn_PER_type_ENB_ID_Choice_constr_1_def e2sm_asn_PER_memb_enb_ID_macro_constr_2_def e2sm_asn_PER_memb_enb_ID_shortmacro_constr_3_def
  e2sm_asn_PER_memb_enb_ID_longmacro_constr_4_def e2sm_asn_PER_type_ENB_ID_constr_1_def e2sm_asn_PER_memb_macro_eNB_ID_constr_2_def
  e2sm_asn_PER_memb_home_eNB_ID_constr_3_def e2sm_asn_PER_memb_short_Macro_eNB_ID_constr_5_def e2sm_asn_PER_memb_long_Macro_eNB_ID_constr_6_def
  asn_PER_memb_fiveQI_constr_6_def asn_PER_memb_qci_constr_7_def asn_PER_type_E2SM_KPM_IndicationHeader_constr_1_def
  asn_PER_type_pm_Containers_constr_2_def asn_PER_type_PF_Container_constr_1_def asn_PER_type_cellResourceReportList_constr_2_def
  asn_PER_memb_cellResourceReportList_constr_2_def asn_PER_type_GNB_CU_CP_Name_constr_1_def asn_PER_memb_numberOfActive_UEs_constr_4_def
  asn_PER_type_GNB_CU_UP_Name_constr_1_def asn_PER_type_pf_ContainerList_constr_3_def asn_PER_type_NI_Type_constr_1_def
  asn_PER_memb_pf_ContainerList_constr_3_def asn_PER_memb_pm_Containers_constr_2_def asn_PER_type_indicationMessage_constr_3_def
  asn_PER_type_ric_EventTriggerStyle_List_constr_4_def asn_PER_type_RIC_Style_Name_constr_1_def asn_PER_type_ric_ReportStyle_List_constr_6_def
  asn_PER_memb_ric_EventTriggerStyle_List_constr_4_def asn_PER_memb_ric_ReportStyle_List_constr_6_def asn_PER_memb_ranFunction_ShortName_constr_2_def
  asn_PER_memb_ranFunction_E2SM_OID_constr_3_def asn_PER_memb_ranFunction_Description_constr_4_def asn_PER_type_GNB_DU_Name_constr_1_def
  asn_PER_type_RANcallProcess_ID_string_constr_1_def

lemmas kpm_specifics =
  asn_SPC_SNSSAI_specs_1_def asn_SPC_FQIPERSlicesPerPlmnListItem_specs_1_def asn_SPC_SliceToReportListItem_specs_1_def
  asn_SPC_FGC_CUUP_PM_Format_specs_1_def asn_SPC_PerQCIReportListItemFormat_specs_1_def asn_SPC_EPC_CUUP_PM_Format_specs_1_def
  asn_SPC_PlmnID_List_specs_1_def asn_SPC_CUUPMeasurement_Container_specs_1_def asn_SPC_FQIPERSlicesPerPlmnPerCellListItem_specs_1_def
  asn_SPC_SlicePerPlmnPerCellListItem_specs_1_def asn_SPC_FGC_DU_PM_Container_specs_1_def asn_SPC_PerQCIReportListItem_specs_1_def
  asn_SPC_EPC_DU_PM_Container_specs_1_def asn_SPC_ServedPlmnPerCellListItem_specs_1_def asn_SPC_NRCGI_specs_1_def
  asn_SPC_CellResourceReportListItem_specs_1_def asn_SPC_E2SM_KPM_ActionDefinition_specs_1_def asn_MAP_RT_Period_IE_value2enum_1_def
  asn_SPC_RT_Period_IE_specs_1_def asn_SPC_Trigger_ConditionIE_Item_specs_1_def asn_SPC_E2SM_KPM_EventTriggerDefinition_Format1_specs_1_def
  asn_SPC_E2SM_KPM_EventTriggerDefinition_specs_1_def e2sm_asn_SPC_GNB_ID_Choice_specs_1_def e2sm_asn_SPC_GlobalgNB_ID_specs_1_def
  asn_SPC_GlobalKPMnode_gNB_ID_specs_1_def e2sm_asn_SPC_ENGNB_ID_specs_1_def e2sm_asn_SPC_GlobalenGNB_ID_specs_1_def
  asn_SPC_GlobalKPMnode_en_gNB_ID_specs_1_def e2sm_asn_SPC_ENB_ID_Choice_specs_1_def e2sm_asn_SPC_GlobalngeNB_ID_specs_1_def
  asn_SPC_GlobalKPMnode_ng_eNB_ID_specs_1_def e2sm_asn_SPC_ENB_ID_specs_1_def e2sm_asn_SPC_GlobalENB_ID_specs_1_def
  asn_SPC_GlobalKPMnode_eNB_ID_specs_1_def asn_SPC_GlobalKPMnode_ID_specs_1_def asn_SPC_E2SM_KPM_IndicationHeader_Format1_specs_1_def
  asn_SPC_E2SM_KPM_IndicationHeader_specs_1_def asn_SPC_ODU_PF_Container_specs_1_def asn_SPC_cu_CP_Resource_Status_specs_3_def
  asn_SPC_OCUCP_PF_Container_specs_1_def asn_MAP_NI_Type_value2enum_1_def asn_SPC_NI_Type_specs_1_def
  asn_SPC_PF_ContainerListItem_specs_1_def asn_SPC_OCUUP_PF_Container_specs_1_def asn_SPC_PF_Container_specs_1_def
  asn_SPC_PM_Containers_List_specs_1_def asn_SPC_E2SM_KPM_IndicationMessage_Format1_specs_1_def asn_SPC_indicationMessage_specs_3_def
  asn_SPC_E2SM_KPM_IndicationMessage_specs_1_def asn_SPC_RIC_EventTriggerStyle_List_specs_1_def asn_SPC_RIC_ReportStyle_List_specs_1_def
  asn_SPC_e2SM_KPM_RANfunction_Item_specs_3_def asn_SPC_RANfunction_Name_specs_1_def asn_SPC_E2SM_KPM_RANfunction_Description_specs_1_def

lemmas kpm_members =
  asn_MBR_SNSSAI_1_def asn_MBR_FQIPERSlicesPerPlmnListItem_1_def asn_MBR_fQIPERSlicesPerPlmnList_3_def
  asn_MBR_SliceToReportListItem_1_def asn_MBR_sliceToReportList_2_def asn_MBR_FGC_CUUP_PM_Format_1_def
  asn_MBR_PerQCIReportListItemFormat_1_def asn_MBR_EPC_CUUP_PM_Format_perQCIReportList_2_def asn_MBR_EPC_CUUP_PM_Format_1_def
  asn_MBR_PlmnID_List_1_def asn_MBR_plmnList_2_def asn_MBR_CUUPMeasurement_Container_1_def
  asn_MBR_FQIPERSlicesPerPlmnPerCellListItem_1_def asn_MBR_fQIPERSlicesPerPlmnPerCellList_3_def asn_MBR_SlicePerPlmnPerCellListItem_1_def
  asn_MBR_slicePerPlmnPerCellList_2_def asn_MBR_FGC_DU_PM_Container_1_def asn_MBR_PerQCIReportListItem_1_def
  asn_MBR_EPC_DU_PM_Container_perQCIReportList_2_def asn_MBR_EPC_DU_PM_Container_1_def asn_MBR_ServedPlmnPerCellListItem_1_def
  asn_MBR_servedPlmnPerCellList_5_def asn_MBR_NRCGI_1_def asn_MBR_CellResourceReportListItem_1_def
  asn_MBR_E2SM_KPM_ActionDefinition_1_def asn_MBR_Trigger_ConditionIE_Item_1_def asn_MBR_policyTest_List_2_def
  asn_MBR_E2SM_KPM_EventTriggerDefinition_Format1_1_def asn_MBR_E2SM_KPM_EventTriggerDefinition_1_def e2sm_asn_MBR_GNB_ID_Choice_1_def
  e2sm_asn_MBR_GlobalgNB_ID_1_def asn_MBR_GlobalKPMnode_gNB_ID_1_def e2sm_asn_MBR_ENGNB_ID_1_def
  e2sm_asn_MBR_GlobalenGNB_ID_1_def asn_MBR_GlobalKPMnode_en_gNB_ID_1_def e2sm_asn_MBR_ENB_ID_Choice_1_def
  e2sm_asn_MBR_GlobalngeNB_ID_1_def asn_MBR_GlobalKPMnode_ng_eNB_ID_1_def e2sm_asn_MBR_ENB_ID_1_def
  e2sm_asn_MBR_GlobalENB_ID_1_def asn_MBR_GlobalKPMnode_eNB_ID_1_def asn_MBR_GlobalKPMnode_ID_1_def
  asn_MBR_E2SM_KPM_IndicationHeader_Format1_1_def asn_MBR_E2SM_KPM_IndicationHeader_1_def asn_MBR_cellResourceReportList_2_def
  asn_MBR_ODU_PF_Container_1_def asn_MBR_cu_CP_Resource_Status_3_def asn_MBR_OCUCP_PF_Container_1_def
  asn_MBR_PF_ContainerListItem_1_def asn_MBR_pf_ContainerList_3_def asn_MBR_OCUUP_PF_Container_1_def
  asn_MBR_PF_Container_1_def asn_MBR_PM_Containers_List_1_def asn_MBR_pm_Containers_2_def
  asn_MBR_E2SM_KPM_IndicationMessage_Format1_1_def asn_MBR_indicationMessage_3_def asn_MBR_E2SM_KPM_IndicationMessage_1_def
  asn_MBR_RIC_EventTriggerStyle_List_1_def asn_MBR_ric_EventTriggerStyle_List_4_def asn_MBR_RIC_ReportStyle_List_1_def
  asn_MBR_ric_ReportStyle_List_6_def asn_MBR_e2SM_KPM_RANfunction_Item_3_def asn_MBR_RANfunction_Name_1_def
  asn_MBR_E2SM_KPM_RANfunction_Description_1_def

lemmas kpm_types =
  e2sm_asn_DEF_BIT_STRING_def e2sm_asn_DEF_PLMN_Identity_def e2sm_asn_DEF_OCTET_STRING_def
  asn_DEF_SNSSAI_def e2sm_asn_DEF_NativeInteger_def e2sm_asn_DEF_INTEGER_def
  asn_DEF_FQIPERSlicesPerPlmnListItem_def asn_DEF_fQIPERSlicesPerPlmnList_3_def asn_DEF_SliceToReportListItem_def
  asn_DEF_sliceToReportList_2_def asn_DEF_FGC_CUUP_PM_Format_def asn_DEF_PerQCIReportListItemFormat_def
  asn_DEF_EPC_CUUP_PM_Format_perQCIReportList_2_def asn_DEF_EPC_CUUP_PM_Format_def asn_DEF_PlmnID_List_def
  asn_DEF_plmnList_2_def asn_DEF_CUUPMeasurement_Container_def asn_DEF_FQIPERSlicesPerPlmnPerCellListItem_def
  asn_DEF_fQIPERSlicesPerPlmnPerCellList_3_def asn_DEF_SlicePerPlmnPerCellListItem_def asn_DEF_slicePerPlmnPerCellList_2_def
  asn_DEF_FGC_DU_PM_Container_def asn_DEF_PerQCIReportListItem_def asn_DEF_EPC_DU_PM_Container_perQCIReportList_2_def
  asn_DEF_EPC_DU_PM_Container_def asn_DEF_ServedPlmnPerCellListItem_def asn_DEF_servedPlmnPerCellList_5_def
  asn_DEF_NRCellIdentity_def asn_DEF_NRCGI_def asn_DEF_CellResourceReportListItem_def
  asn_DEF_RIC_Style_Type_def asn_DEF_E2SM_KPM_ActionDefinition_def asn_DEF_RT_Period_IE_def
  asn_DEF_Trigger_ConditionIE_Item_def asn_DEF_policyTest_List_2_def asn_DEF_E2SM_KPM_EventTriggerDefinition_Format1_def
  asn_DEF_E2SM_KPM_EventTriggerDefinition_def e2sm_asn_DEF_GNB_ID_Choice_def e2sm_asn_DEF_GlobalgNB_ID_def
  e2sm_asn_DEF_GNB_CU_UP_ID_def e2sm_asn_DEF_GNB_DU_ID_def asn_DEF_GlobalKPMnode_gNB_ID_def
  e2sm_asn_DEF_ENGNB_ID_def e2sm_asn_DEF_GlobalenGNB_ID_def asn_DEF_GlobalKPMnode_en_gNB_ID_def
  e2sm_asn_DEF_ENB_ID_Choice_def e2sm_asn_DEF_GlobalngeNB_ID_def asn_DEF_GlobalKPMnode_ng_eNB_ID_def
  e2sm_asn_DEF_ENB_ID_def e2sm_asn_DEF_GlobalENB_ID_def asn_DEF_GlobalKPMnode_eNB_ID_def
  asn_DEF_GlobalKPMnode_ID_def asn_DEF_E2SM_KPM_IndicationHeader_Format1_def asn_DEF_E2SM_KPM_IndicationHeader_def
  asn_DEF_cellResourceReportList_2_def asn_DEF_ODU_PF_Container_def asn_DEF_GNB_CU_CP_Name_def
  asn_DEF_cu_CP_Resource_Status_3_def asn_DEF_OCUCP_PF_Container_def asn_DEF_GNB_CU_UP_Name_def
  asn_DEF_NI_Type_def asn_DEF_PF_ContainerListItem_def asn_DEF_pf_ContainerList_3_def
  asn_DEF_OCUUP_PF_Container_def asn_DEF_PF_Container_def asn_DEF_RAN_Container_def
  asn_DEF_PM_Containers_List_def asn_DEF_pm_Containers_2_def asn_DEF_E2SM_KPM_IndicationMessage_Format1_def
  asn_DEF_indicationMessage_3_def asn_DEF_E2SM_KPM_IndicationMessage_def asn_DEF_RIC_Style_Name_def
  asn_DEF_RIC_Format_Type_def asn_DEF_RIC_EventTriggerStyle_List_def asn_DEF_ric_EventTriggerStyle_List_4_def
  asn_DEF_RIC_ReportStyle_List_def asn_DEF_ric_ReportStyle_List_6_def asn_DEF_e2SM_KPM_RANfunction_Item_3_def
  asn_DEF_PrintableString_v2c_def asn_DEF_PrintableString_c2v_def asn_DEF_PrintableString_per_constraints_def
  asn_DEF_PrintableString_def asn_DEF_RANfunction_Name_def asn_DEF_E2SM_KPM_RANfunction_Description_def
  asn_DEF_GNB_DU_Name_def e2sm_asn_DEF_NativeEnumerated_def asn_DEF_RANcallProcess_ID_string_def

end
