(* ===== verification/E2smWrapper.thy ===== *)
theory E2smWrapper
  imports E2smTypes AsnArray
begin

text \<open>
  The service model functions of the KPI monitor, \<^verbatim>\<open>e2sm/wrapper.c\<close>: the event trigger and the action
  definition are written, the header and the message of an indication are read. A C structure is the
  value its descriptor describes, as in \<open>AsnTypes\<close>; \<open>live\<close> counts the trees of structures that have been
  allocated and not freed.
\<close>

section \<open>The coders\<close>

text \<open>
  What a call of the runtime finds: the scratch space of nested buffers, and what happens behind a read
  outside an array and behind the cleared pointer of the CHOICE encoder.
\<close>

record runtime =
  rt_tmp :: "byte list"
  rt_undef :: asn_decoder
  rt_crash :: "enc_to_buf_arg outp \<Rightarrow> int \<times> enc_to_buf_arg outp"
  rt_crash_new :: "enc_dyn_arg outp \<Rightarrow> int \<times> enc_dyn_arg outp"

definition e2sm_rt :: "runtime \<Rightarrow> asn_type \<Rightarrow> enc_to_buf_arg per_op" where
  "e2sm_rt rt = e2sm_op (rt_crash rt) (rt_crash_new rt) (rt_tmp rt) encode_to_buffer_cb (rt_undef rt)"

definition e2sm_encoder :: "runtime \<Rightarrow> asn_type \<Rightarrow> asn_value \<Rightarrow> enc_to_buf_arg outp \<Rightarrow> int \<times> enc_to_buf_arg outp" where
  "e2sm_encoder rt t = op_encode (e2sm_rt rt t) None"

definition e2sm_decoder_of :: "runtime \<Rightarrow> asn_type \<Rightarrow> asn_decoder" where
  "e2sm_decoder_of rt t = op_decode (e2sm_rt rt t) None"

definition e2sm_bits :: "asn_type \<Rightarrow> asn_value \<Rightarrow> bool list" where
  "e2sm_bits t v = sp_field (e2sm_spec_of t) None 0 v"

definition e2sm_valid :: "asn_type \<Rightarrow> asn_value \<Rightarrow> bool" where
  "e2sm_valid t v \<longleftrightarrow> sp_plain (e2sm_spec_of t) None v"

definition e2sm_octets :: "asn_type \<Rightarrow> asn_value \<Rightarrow> byte list" where
  "e2sm_octets t v = field_octets (e2sm_bits t v)"

lemma e2sm_meets: "length (rt_tmp rt) = 32 \<Longrightarrow> op_meets arg_buffer arg_left (e2sm_rt rt t) (e2sm_spec_of t)"
  unfolding e2sm_rt_def by (rule buf.e2sm_op_meets)

lemmas e2sm_value_defs = e2sm_encoder_def e2sm_decoder_of_def e2sm_octets_def e2sm_bits_def e2sm_valid_def

lemma e2sm_encode_total:
  assumes "e2sm_valid t v" and "length tmp = 32" "length (rt_tmp rt) = 32" and "length (e2sm_bits t v) \<le> 8 * buffer_size"
  shows "aper_encode_to_buffer (Some (e2sm_encoder rt t)) v buffer_size tmp = (int (length (e2sm_bits t v)), e2sm_octets t v)"
  using op_encode_total [OF e2sm_meets [OF assms(3)] _ assms(2)] assms(1,4) unfolding e2sm_value_defs by blast

lemma e2sm_decode_complete:
  assumes "e2sm_valid t v" and "e2sm_bits t v \<noteq> []" and "length (rt_tmp rt) = 32"
  shows "aper_decode_complete (Some (e2sm_decoder_of rt t)) sptr (e2sm_octets t v @ rest)
    = Some (\<lparr>rv_code = RC_OK, rv_consumed = length (e2sm_octets t v)\<rparr>, v)"
  using op_decode_complete [OF e2sm_meets [OF assms(3)]] assms(1,2) unfolding e2sm_value_defs by blast

lemma length_e2sm_bits: "e2sm_valid t v \<Longrightarrow> value_size v < 131000 \<Longrightarrow> length (e2sm_bits t v) \<le> value_size v"
  unfolding e2sm_bits_def e2sm_valid_def sp_plain_def by (blast intro: sized_specD [OF e2sm_spec_of_sized])

section \<open>Event triggers\<close>

text \<open>
  The loop over the periods: \<open>alloc\<close> tells which of the calls of \<^verbatim>\<open>calloc\<close> succeed. When there is no
  list, or it cannot grow, \<^verbatim>\<open>ASN_SEQUENCE_ADD\<close> fails unnoticed and the condition leaks.
\<close>

fun add_triggers ::
  "(nat \<Rightarrow> bool) \<Rightarrow> (nat \<Rightarrow> bool) \<Rightarrow> int list \<Rightarrow> nat \<Rightarrow> nat \<Rightarrow> asn_value set_of option \<Rightarrow> int
    \<Rightarrow> fault + asn_value set_of option \<times> int" where
  "add_triggers alloc realloc_ok periods 0 index policies live = Inr (policies, live)"
| "add_triggers alloc realloc_ok periods (Suc todo) index policies live =
     (if \<not> alloc (3 + index) then Inl Assertion_failed
      else if length periods \<le> index then Inl Out_of_bounds
      else case policies of
        None \<Rightarrow> add_triggers alloc realloc_ok periods todo (Suc index) None (live + 1)
      | Some as \<Rightarrow>
          let (r, as') = asn_set_add realloc_ok as (Some (V_struct [V_long (word_of_int (periods ! index))]))
          in add_triggers alloc realloc_ok periods todo (Suc index) (Some as') (if r < 0 then live + 1 else live))"

definition event_trigger_value :: "asn_value set_of option \<Rightarrow> asn_value" where
  "event_trigger_value policies =
     V_choice 1 (V_struct [case policies of None \<Rightarrow> V_none | Some as \<Rightarrow> V_list (set_items as)])"

definition e2sm_encode_ric_event_trigger_definition ::
  "(nat \<Rightarrow> bool) \<Rightarrow> (nat \<Rightarrow> bool) \<Rightarrow> runtime \<Rightarrow> byte list \<Rightarrow> byte list \<Rightarrow> nat \<Rightarrow> int list \<Rightarrow> int
    \<Rightarrow> fault + int \<times> byte list \<times> int" where
  "e2sm_encode_ric_event_trigger_definition alloc realloc_ok rt tmp buffer event_trigger_count RT_periods live =
     (if \<not> alloc 0 \<or> \<not> alloc 1 then Inr (-1, buffer, live)
      else
        case add_triggers alloc realloc_ok RT_periods event_trigger_count 0 (if alloc 2 then Some set_of_zero else None) live of
          Inl f \<Rightarrow> Inl f
        | Inr (policies, live) \<Rightarrow>
            let (encoded, octets) = aper_encode_to_buffer (Some (e2sm_encoder rt asn_DEF_E2SM_KPM_EventTriggerDefinition))
                  (event_trigger_value policies) (length buffer) tmp
            in Inr (encoded, octets @ drop (length octets) buffer, live))"

definition e2sm_encode_ric_action_definition ::
  "(nat \<Rightarrow> bool) \<Rightarrow> runtime \<Rightarrow> byte list \<Rightarrow> byte list \<Rightarrow> int \<Rightarrow> int \<times> byte list" where
  "e2sm_encode_ric_action_definition alloc rt tmp buffer ric_style_type =
     (if \<not> alloc 0 then (-1, buffer)
      else
        let (encoded, octets) = aper_encode_to_buffer (Some (e2sm_encoder rt asn_DEF_E2SM_KPM_ActionDefinition))
              (V_struct [V_long (word_of_int ric_style_type)]) (length buffer) tmp
        in (encoded, octets @ drop (length octets) buffer))"

section \<open>Indications\<close>

text \<open>
  A decoder that fails has its structure freed with \<^verbatim>\<open>ASN_STRUCT_FREE\<close>, which frees the structure
  itself as well, and the function frees it again.
\<close>

definition e2sm_decode_indication :: "asn_type \<Rightarrow> runtime \<Rightarrow> byte list \<Rightarrow> int \<Rightarrow> fault + asn_value \<times> int" where
  "e2sm_decode_indication t rt buffer live =
     (case aper_decode_complete (Some (e2sm_decoder_of rt t)) (op_zero (e2sm_rt rt t)) buffer of
        None \<Rightarrow> Inl Assertion_failed
      | Some (rv, v) \<Rightarrow> if rv_code rv = RC_OK then Inr (v, live + 1) else Inl Use_after_free)"

definition e2sm_decode_ric_indication_header :: "runtime \<Rightarrow> byte list \<Rightarrow> int \<Rightarrow> fault + asn_value \<times> int" where
  "e2sm_decode_ric_indication_header = e2sm_decode_indication asn_DEF_E2SM_KPM_IndicationHeader"

definition e2sm_free_ric_indication_header :: "asn_value \<Rightarrow> int \<Rightarrow> int" where
  "e2sm_free_ric_indication_header indHdr live = live - 1"

definition e2sm_decode_ric_indication_message :: "runtime \<Rightarrow> byte list \<Rightarrow> int \<Rightarrow> fault + asn_value \<times> int" where
  "e2sm_decode_ric_indication_message = e2sm_decode_indication asn_DEF_E2SM_KPM_IndicationMessage"

definition e2sm_free_ric_indication_message :: "asn_value \<Rightarrow> int \<Rightarrow> int" where
  "e2sm_free_ric_indication_message indMsg live = live - 1"

section \<open>Event triggers and action definitions that are written\<close>

lemma add_triggers_ok:
  assumes "set_of_ok as" and "index + todo \<le> length periods"
  shows "\<exists>as'. add_triggers (\<lambda>_. True) (\<lambda>_. True) periods todo index (Some as) live = Inr (Some as', live)
    \<and> set_items as' = set_items as @ map (\<lambda>p. V_struct [V_long (word_of_int p)]) (take todo (drop index periods))"
  using assms
proof (induction todo arbitrary: index as)
  case (Suc todo)
  obtain r as1 where a: "asn_set_add (\<lambda>_. True) as (Some (V_struct [V_long (word_of_int (periods ! index))])) = (r, as1)" by fastforce
  then have r: "r = 0" by (auto simp: asn_set_add_def Let_def split: if_splits)
  note add = asn_set_add_ok [OF Suc.prems(1), OF a [unfolded r]]
  have "take (Suc todo) (drop index periods) = periods ! index # take todo (drop (Suc index) periods)"
    using Suc.prems(2) by (simp add: Cons_nth_drop_Suc [symmetric])
  with Suc.IH [of as1 "Suc index"] add a r Suc.prems(2) show ?case by auto
qed simp

definition trigger_condition :: "int \<Rightarrow> asn_value" where
  "trigger_condition p = V_struct [V_long (word_of_int p)]"

definition kpm_trigger :: "int list \<Rightarrow> asn_value" where
  "kpm_trigger ps = V_choice 1 (V_struct [V_list (map trigger_condition ps)])"

lemma period_cases: "list_all (\<lambda>p. enum_valid (Some asn_SPC_RT_Period_IE_specs_1) (Some asn_PER_type_RT_Period_IE_constr_1) (word_of_int p)
    \<and> length (enum_field (Some asn_SPC_RT_Period_IE_specs_1) (Some asn_PER_type_RT_Period_IE_constr_1) (word_of_int p)) = 6) [0..19]"
  by code_simp

lemma period_valid:
  assumes "0 \<le> p" and "p \<le> 19"
  shows "enum_valid (Some asn_SPC_RT_Period_IE_specs_1) (Some asn_PER_type_RT_Period_IE_constr_1) (word_of_int p)"
    and "length (enum_field (Some asn_SPC_RT_Period_IE_specs_1) (Some asn_PER_type_RT_Period_IE_constr_1) (word_of_int p)) = 6"
  using period_cases assms by (auto simp: list_all_iff)

lemma condition_valid:
  assumes "0 \<le> p" and "p \<le> 19"
  shows "sp_plain (e2sm_spec_of asn_DEF_Trigger_ConditionIE_Item) None (trigger_condition p)"
    and "length (sp_field (e2sm_spec_of asn_DEF_Trigger_ConditionIE_Item) None k (trigger_condition p)) = 7"
  using period_valid [OF assms]
  by (simp_all add: trigger_condition_def asn_DEF_Trigger_ConditionIE_Item_def asn_SPC_Trigger_ConditionIE_Item_specs_1_def
      asn_MBR_Trigger_ConditionIE_Item_1_def asn_DEF_RT_Period_IE_def sp_plain_def sequence_spec_def seq_valid_def seq_ok_def
      seq_optionals_def seq_field_def seq_presence_def member_present_def constraints_or_def)

lemma elements_field_length: "\<forall>v \<in> set vs. \<forall>k. length (f k v) = n \<Longrightarrow> length (elements_field f k vs) = n * length vs"
  by (induction vs arbitrary: k) auto

lemma kpm_trigger_valid:
  assumes "\<forall>p \<in> set ps. 0 \<le> p \<and> p \<le> 19" and "ps \<noteq> []" and "length ps \<le> 15"
  shows "e2sm_valid asn_DEF_E2SM_KPM_EventTriggerDefinition (kpm_trigger ps)"
    and "length (e2sm_bits asn_DEF_E2SM_KPM_EventTriggerDefinition (kpm_trigger ps)) = 7 * length ps + 7"
proof -
  let ?l = "map trigger_condition ps"
  have n: "1 \<le> int (length ps)" "int (length ps) \<le> 15" using assms(2,3) by (simp_all add: Suc_le_eq)
  have v: "\<forall>v \<in> set ?l. v \<noteq> V_none \<and> sp_plain (e2sm_spec_of asn_DEF_Trigger_ConditionIE_Item) None v"
    using assms(1) condition_valid(1) by (auto simp: trigger_condition_def)
  have f: "length (elements_field (sp_field (e2sm_spec_of asn_DEF_Trigger_ConditionIE_Item) None) k ?l) = 7 * length ps" for k
    using elements_field_length [of ?l "sp_field (e2sm_spec_of asn_DEF_Trigger_ConditionIE_Item) None" 7 k] assms(1) condition_valid(2)
    by auto
  note defs = asn_DEF_E2SM_KPM_EventTriggerDefinition_def asn_PER_type_E2SM_KPM_EventTriggerDefinition_constr_1_def
    asn_SPC_E2SM_KPM_EventTriggerDefinition_specs_1_def asn_MBR_E2SM_KPM_EventTriggerDefinition_1_def
    asn_DEF_E2SM_KPM_EventTriggerDefinition_Format1_def asn_SPC_E2SM_KPM_EventTriggerDefinition_Format1_specs_1_def
    asn_MBR_E2SM_KPM_EventTriggerDefinition_Format1_1_def asn_DEF_policyTest_List_2_def asn_MBR_policyTest_List_2_def
    asn_PER_type_policyTest_List_constr_2_def asn_PER_memb_policyTest_List_constr_2_def
  show "e2sm_valid asn_DEF_E2SM_KPM_EventTriggerDefinition (kpm_trigger ps)"
    using n v
    by (simp add: e2sm_valid_def kpm_trigger_def defs root_choice_spec_def root_choice_valid_def choice_valid_def choice_outside_def
        canonical_def constraints_or_def sequence_spec_def list_spec_def seq_valid_def seq_ok_def
        seq_optionals_def member_present_def list_valid_def sp_plain_def)
  have "nsnnwn_bits 15 1 = 4" by code_simp
  with f show "length (e2sm_bits asn_DEF_E2SM_KPM_EventTriggerDefinition (kpm_trigger ps)) = 7 * length ps + 7"
    by (simp add: e2sm_bits_def kpm_trigger_def defs root_choice_spec_def choice_field_def choice_outside_def
        canonical_def constraints_or_def sequence_spec_def list_spec_def seq_field_def seq_presence_def
        seq_optionals_def member_present_def list_field_def list_length_field_def nsnnwn_field_def)
qed

section \<open>Samples\<close>

definition sample_header :: asn_value where
  "sample_header = V_choice 1 (V_struct [V_none, V_struct [V_string ([19, 0, 20], 0), V_string ([18, 52, 86, 120, 144], 4)],
     V_none, V_none, V_long 9, V_none])"

definition sample_report :: asn_value where
  "sample_report = V_struct [V_long 6, V_choice 1 (V_struct [V_list [V_struct
     [V_choice 2 (V_struct [V_string ([99, 117], 0), V_struct [V_long 100]]), V_none]]])]"

text \<open>Valid values from valid members; the types of members need not be unfolded.\<close>

abbreviation kpm_plain :: "asn_type \<Rightarrow> asn_per_constraints option \<Rightarrow> asn_value \<Rightarrow> bool" where
  "kpm_plain t ct v \<equiv> sp_plain (e2sm_spec_of t) ct v"

definition kpm_member :: "asn_type asn_TYPE_member \<Rightarrow> asn_value \<Rightarrow> bool" where
  "kpm_member m v \<longleftrightarrow> (if member_present m v then mb_flags m \<noteq> ATF_OPEN_TYPE \<and> kpm_plain (mb_type m) (mb_constraints m) v
     else mb_optional m \<noteq> 0)"

lemma members_validI: "list_all2 kpm_member ms vs \<Longrightarrow> members_valid us (zip (with_types e2sm_spec_of ms) vs)"
  by (induction ms vs arbitrary: us rule: list_all2_induct)
    (auto simp: kpm_member_def sp_plain_def asn_TYPE_member.map_sel split: if_splits)

lemma plain_sequence: "seq_ok specs ms \<and> list_all2 kpm_member ms vs \<Longrightarrow> kpm_plain (T_SEQUENCE specs ms) ct (V_struct vs)"
  using members_validI [of ms vs "[]"]
  by (auto simp: sp_plain_def sequence_spec_def seq_valid_def dest: list_all2_lengthD)

lemma plain_list: "list_valid td (map_asn_TYPE_member e2sm_spec_of m) ct vs \<Longrightarrow> kpm_plain (T_SEQUENCE_OF td m) ct (V_list vs)"
  by (simp add: sp_plain_def list_spec_def)

lemma plain_choice:
  assumes "case constraints_or ct td of None \<Rightarrow> False | Some p \<Rightarrow> 0 < k \<and> k \<le> length ms \<and> 0 \<le> pc_range_bits (pcs_value p)
      \<and> pc_range_bits (pcs_value p) \<le> 31 \<and> \<not> choice_outside (pcs_value p) (k - 1) \<and> int k - 1 < 2 ^ nat (pc_range_bits (pcs_value p))"
    and "ch_to_canonical_order specs = None" and "ch_from_canonical_order specs = None"
    and "member_present (ms ! (k - 1)) x" and "kpm_plain (mb_type (ms ! (k - 1))) (mb_constraints (ms ! (k - 1))) x"
  shows "kpm_plain (T_CHOICE td specs ms) ct (V_choice k x)"
proof -
  obtain p where p: "constraints_or ct td = Some p" using assms(1) by (auto split: option.splits)
  with assms(1) have k: "k - Suc 0 < length ms" by (simp, linarith)
  show ?thesis using assms k p
    by (auto simp: sp_plain_def root_choice_spec_def root_choice_valid_def choice_valid_def canonical_def Let_def choice_outside_def
        asn_TYPE_member.map_sel)
qed

lemma plain_native: "native_valid uns (value_constraint ct td) x \<Longrightarrow> kpm_plain (T_NativeInteger uns td) ct (V_long x)"
  by (simp add: sp_plain_def native_spec_def)

lemma plain_string: "e2sm_string_valid subvariant (constraints_or ct td) st \<Longrightarrow> kpm_plain (T_STRING subvariant td) ct (V_string st)"
  by (simp add: sp_plain_def e2sm_string_spec_def)

lemmas kpm_plain_rules = plain_sequence plain_list plain_choice plain_native plain_string

lemmas kpm_leaf_defs = native_valid_def long_valid_def int_valid_def int_root_def constraints_or_def
  e2sm_string_valid_def short_string_def string_valid_def string_constraints_def string_size_def string_bits_def

lemma plmn_plain: "length b = 3 \<Longrightarrow> kpm_plain e2sm_asn_DEF_PLMN_Identity None (V_string (b, 0))"
  unfolding e2sm_asn_DEF_PLMN_Identity_def
  by (rule plain_string) (simp add: kpm_leaf_defs e2sm_asn_PER_type_PLMN_Identity_constr_1_def)

lemma cell_identity_plain:
  assumes "length b = 5" and "bytes_bits b = take 36 (bytes_bits b) @ replicate 4 False"
  shows "kpm_plain asn_DEF_NRCellIdentity None (V_string (b, 4))"
proof -
  have "b \<noteq> []" using assms(1) by auto
  moreover have "5 * 8 - (4 AND 7) = (36 :: nat)" by code_simp
  ultimately show ?thesis using assms unfolding asn_DEF_NRCellIdentity_def
    by (intro plain_string) (simp add: kpm_leaf_defs asn_PER_type_NRCellIdentity_constr_1_def)
qed

lemma cell_plain: "kpm_plain asn_DEF_NRCellIdentity None (V_string ([18, 52, 86, 120, 144], 4))"
  by (rule cell_identity_plain) code_simp+

lemma nrcgi_plain: "kpm_plain asn_DEF_NRCGI None (V_struct [V_string ([19, 0, 20], 0), V_string ([18, 52, 86, 120, 144], 4)])"
  unfolding asn_DEF_NRCGI_def
  by (rule plain_sequence) (simp add: asn_SPC_NRCGI_specs_1_def asn_MBR_NRCGI_1_def seq_ok_def seq_optionals_def kpm_member_def
      member_present_def plmn_plain cell_plain)

lemma five_qi_plain: "0 \<le> sint x \<Longrightarrow> sint x \<le> 255 \<Longrightarrow> kpm_plain e2sm_asn_DEF_NativeInteger (Some asn_PER_memb_fiveQI_constr_6) (V_long x)"
  unfolding e2sm_asn_DEF_NativeInteger_def
  by (rule plain_native) (simp add: kpm_leaf_defs asn_PER_memb_fiveQI_constr_6_def)

lemma header_format_plain: "kpm_plain asn_DEF_E2SM_KPM_IndicationHeader_Format1 None
    (V_struct [V_none, V_struct [V_string ([19, 0, 20], 0), V_string ([18, 52, 86, 120, 144], 4)], V_none, V_none, V_long 9, V_none])"
  unfolding asn_DEF_E2SM_KPM_IndicationHeader_Format1_def
  by (rule plain_sequence) (simp add: asn_SPC_E2SM_KPM_IndicationHeader_Format1_specs_1_def asn_MBR_E2SM_KPM_IndicationHeader_Format1_1_def
      seq_ok_def seq_optionals_def kpm_member_def member_present_def nrcgi_plain five_qi_plain)

lemma sample_header_valid: "e2sm_valid asn_DEF_E2SM_KPM_IndicationHeader sample_header"
  unfolding sample_header_def e2sm_valid_def asn_DEF_E2SM_KPM_IndicationHeader_def
  by (rule plain_choice) (simp_all add: constraints_or_def asn_PER_type_E2SM_KPM_IndicationHeader_constr_1_def choice_outside_def
      asn_SPC_E2SM_KPM_IndicationHeader_specs_1_def asn_MBR_E2SM_KPM_IndicationHeader_1_def member_present_def header_format_plain)

lemma name_plain: "kpm_plain asn_DEF_GNB_CU_CP_Name None (V_string ([99, 117], 0))"
  unfolding asn_DEF_GNB_CU_CP_Name_def
  by (rule plain_string) (simp add: kpm_leaf_defs asn_PER_type_GNB_CU_CP_Name_constr_1_def)

lemma status_plain: "kpm_plain asn_DEF_cu_CP_Resource_Status_3 None (V_struct [V_long 100])"
proof -
  have "kpm_plain e2sm_asn_DEF_NativeInteger (Some asn_PER_memb_numberOfActive_UEs_constr_4) (V_long 100)"
    unfolding e2sm_asn_DEF_NativeInteger_def
    by (rule plain_native) (simp add: kpm_leaf_defs asn_PER_memb_numberOfActive_UEs_constr_4_def)
  then show ?thesis unfolding asn_DEF_cu_CP_Resource_Status_3_def
    by (intro plain_sequence) (simp add: asn_SPC_cu_CP_Resource_Status_specs_3_def asn_MBR_cu_CP_Resource_Status_3_def
      seq_ok_def seq_optionals_def kpm_member_def member_present_def)
qed

lemma container_plain: "kpm_plain asn_DEF_PF_Container None (V_choice 2 (V_struct [V_string ([99, 117], 0), V_struct [V_long 100]]))"
proof -
  have "kpm_plain asn_DEF_OCUCP_PF_Container None (V_struct [V_string ([99, 117], 0), V_struct [V_long 100]])"
    unfolding asn_DEF_OCUCP_PF_Container_def
    by (rule plain_sequence) (simp add: asn_SPC_OCUCP_PF_Container_specs_1_def asn_MBR_OCUCP_PF_Container_1_def
      seq_ok_def seq_optionals_def kpm_member_def member_present_def name_plain status_plain)
  then show ?thesis unfolding asn_DEF_PF_Container_def
    by (intro plain_choice) (simp_all add: constraints_or_def asn_PER_type_PF_Container_constr_1_def choice_outside_def
      asn_SPC_PF_Container_specs_1_def asn_MBR_PF_Container_1_def member_present_def)
qed

lemma report_format_plain: "kpm_plain asn_DEF_indicationMessage_3 None (V_choice 1 (V_struct [V_list [V_struct
     [V_choice 2 (V_struct [V_string ([99, 117], 0), V_struct [V_long 100]]), V_none]]]))"
proof -
  have "kpm_plain asn_DEF_PM_Containers_List None (V_struct [V_choice 2 (V_struct [V_string ([99, 117], 0), V_struct [V_long 100]]), V_none])"
    unfolding asn_DEF_PM_Containers_List_def
    by (rule plain_sequence) (simp add: asn_SPC_PM_Containers_List_specs_1_def asn_MBR_PM_Containers_List_1_def
      seq_ok_def seq_optionals_def kpm_member_def member_present_def container_plain)
  then have "kpm_plain asn_DEF_pm_Containers_2 (Some asn_PER_memb_pm_Containers_constr_2)
      (V_list [V_struct [V_choice 2 (V_struct [V_string ([99, 117], 0), V_struct [V_long 100]]), V_none]])"
    unfolding asn_DEF_pm_Containers_2_def
    by (intro plain_list) (simp add: list_valid_def constraints_or_def asn_PER_memb_pm_Containers_constr_2_def asn_MBR_pm_Containers_2_def)
  then have "kpm_plain asn_DEF_E2SM_KPM_IndicationMessage_Format1 None (V_struct
      [V_list [V_struct [V_choice 2 (V_struct [V_string ([99, 117], 0), V_struct [V_long 100]]), V_none]]])"
    unfolding asn_DEF_E2SM_KPM_IndicationMessage_Format1_def
    by (intro plain_sequence) (simp add: asn_SPC_E2SM_KPM_IndicationMessage_Format1_specs_1_def
      asn_MBR_E2SM_KPM_IndicationMessage_Format1_1_def seq_ok_def seq_optionals_def kpm_member_def member_present_def)
  then show ?thesis unfolding asn_DEF_indicationMessage_3_def
    by (intro plain_choice) (simp_all add: constraints_or_def asn_PER_type_indicationMessage_constr_3_def choice_outside_def
      asn_SPC_indicationMessage_specs_3_def asn_MBR_indicationMessage_3_def member_present_def)
qed

lemma sample_report_valid: "e2sm_valid asn_DEF_E2SM_KPM_IndicationMessage sample_report"
proof -
  have "kpm_plain asn_DEF_RIC_Style_Type None (V_long 6)"
    unfolding asn_DEF_RIC_Style_Type_def by (rule plain_native) (simp add: kpm_leaf_defs)
  then show ?thesis unfolding sample_report_def e2sm_valid_def asn_DEF_E2SM_KPM_IndicationMessage_def
    by (intro plain_sequence) (simp add: asn_SPC_E2SM_KPM_IndicationMessage_specs_1_def asn_MBR_E2SM_KPM_IndicationMessage_1_def
      seq_ok_def seq_optionals_def kpm_member_def member_present_def
      report_format_plain [unfolded One_nat_def])
qed

end
