(* ===== verification/E2smReports.thy ===== *)
theory E2smReports
  imports E2smWrapper
begin

text \<open>
  What the service model functions of \<open>E2smWrapper\<close> do: every valid value survives, event triggers are
  read by the RAN as they were meant, and what a header of a later version does to the xApp.
\<close>

section \<open>Round trips\<close>

text \<open>
  (C14) Round trip of the service model, with the runtime under \<^verbatim>\<open>e2sm/lib\<close>, for every type descriptor: a
  valid value is encoded whenever the buffer has room for its bits, and decoding the octets, whatever
  follows, gives the value back and consumes exactly them.
\<close>

theorem service_model_round_trip:
  assumes "e2sm_valid t v" and "e2sm_bits t v \<noteq> []" and "length (e2sm_bits t v) \<le> 8 * buffer_size"
    and "length tmp = 32" and "length (rt_tmp rt) = 32"
  shows "aper_encode_to_buffer (Some (e2sm_encoder rt t)) v buffer_size tmp = (int (length (e2sm_bits t v)), e2sm_octets t v)
    \<and> aper_decode_complete (Some (e2sm_decoder_of rt t)) sptr (e2sm_octets t v @ rest)
      = Some (\<lparr>rv_code = RC_OK, rv_consumed = length (e2sm_octets t v)\<rparr>, v)"
  using e2sm_encode_total [OF assms(1,4,5,3)] e2sm_decode_complete [OF assms(1,2,5)] by blast

text \<open>A CHOICE that may be extended and a SEQUENCE of some members have bits.\<close>

lemma sample_header_bits: "e2sm_bits asn_DEF_E2SM_KPM_IndicationHeader sample_header \<noteq> []"
  "length (e2sm_bits asn_DEF_E2SM_KPM_IndicationHeader sample_header) \<le> 800"
proof -
  have "value_size sample_header \<le> 800" by (simp add: sample_header_def)
  then show "length (e2sm_bits asn_DEF_E2SM_KPM_IndicationHeader sample_header) \<le> 800"
    using length_e2sm_bits [OF sample_header_valid] by simp
  show "e2sm_bits asn_DEF_E2SM_KPM_IndicationHeader sample_header \<noteq> []"
    by (simp add: e2sm_bits_def sample_header_def asn_DEF_E2SM_KPM_IndicationHeader_def root_choice_spec_def choice_field_def Let_def
        constraints_or_def asn_PER_type_E2SM_KPM_IndicationHeader_constr_1_def)
qed

definition plain_runtime :: runtime where
  "plain_runtime = \<lparr>rt_tmp = replicate 32 0, rt_undef = (\<lambda>pd. (ASN__DECODE_FAILED, V_none, pd)),
     rt_crash = (\<lambda>po. (-1, po)), rt_crash_new = (\<lambda>po. (-1, po))\<rparr>"

theorem service_model_round_trip_witness:
  "let t = asn_DEF_E2SM_KPM_IndicationHeader; v = sample_header; rt = plain_runtime
   in aper_encode_to_buffer (Some (e2sm_encoder rt t)) v 100 (replicate 32 0) = (int (length (e2sm_bits t v)), e2sm_octets t v)
    \<and> aper_decode_complete (Some (e2sm_decoder_of rt t)) V_none (e2sm_octets t v @ [7])
      = Some (\<lparr>rv_code = RC_OK, rv_consumed = length (e2sm_octets t v)\<rparr>, v)"
  unfolding Let_def
  by (rule service_model_round_trip) (use sample_header_valid sample_header_bits in \<open>simp_all add: plain_runtime_def\<close>)

section \<open>The two copies of the runtime\<close>

text \<open>
  (C19) Equivalence of the two CHOICE coders: \<^verbatim>\<open>e2ap/lib/constr_CHOICE.c\<close> and \<^verbatim>\<open>e2sm/lib/constr_CHOICE.c\<close>
  have different bodies under the same names, but for an alternative of the root they write the same bits
  whatever the sink, and they read a stream that starts with such an alternative in the same way.
\<close>

theorem choice_coders_agree:
  assumes "root_choice_valid td specs elements ct choice" and "length elements = length ops"
    and "pd_ok pd" and "pd_bits pd = choice_field td specs elements ct k choice @ rest"
  shows "e2sm_CHOICE_encode_aper crash tmp out td specs ops ct choice po = CHOICE_encode_aper tmp out td specs ops ct choice po
    \<and> e2sm_CHOICE_decode_aper undef td specs ops ct pd = CHOICE_decode_aper undef td specs ops ct pd"
  using e2sm_choice_encode [OF assms(1,2)] e2sm_choice_decode [OF assms(1,3,4)] by blast

definition sample_header_format :: asn_value where
  "sample_header_format = (case sample_header of V_choice _ v \<Rightarrow> v | _ \<Rightarrow> V_none)"

lemma sample_header_root: "root_choice_valid (Some asn_PER_type_E2SM_KPM_IndicationHeader_constr_1) asn_SPC_E2SM_KPM_IndicationHeader_specs_1
    (with_types e2sm_spec_of asn_MBR_E2SM_KPM_IndicationHeader_1) None (1, sample_header_format)"
  using sample_header_valid
  by (simp add: e2sm_valid_def sp_plain_def asn_DEF_E2SM_KPM_IndicationHeader_def root_choice_spec_def sample_header_def
      sample_header_format_def)

lemma sample_header_stream: "pd_bits (sample_pd (e2sm_octets asn_DEF_E2SM_KPM_IndicationHeader sample_header))
    = choice_field (Some asn_PER_type_E2SM_KPM_IndicationHeader_constr_1) asn_SPC_E2SM_KPM_IndicationHeader_specs_1
        (with_types e2sm_spec_of asn_MBR_E2SM_KPM_IndicationHeader_1) None 0 (1, sample_header_format)
      @ align_pad (length (e2sm_bits asn_DEF_E2SM_KPM_IndicationHeader sample_header))"
proof -
  have "choice_field (Some asn_PER_type_E2SM_KPM_IndicationHeader_constr_1) asn_SPC_E2SM_KPM_IndicationHeader_specs_1
      (with_types e2sm_spec_of asn_MBR_E2SM_KPM_IndicationHeader_1) None 0 (1, sample_header_format)
    = e2sm_bits asn_DEF_E2SM_KPM_IndicationHeader sample_header"
    by (simp add: e2sm_bits_def asn_DEF_E2SM_KPM_IndicationHeader_def root_choice_spec_def sample_header_def sample_header_format_def)
  moreover have "pd_bits (sample_pd bs) = bytes_bits bs" for bs
    using take_bytes_bits [of "length bs" bs] by (simp add: pd_bits_def sample_pd_def)
  ultimately show ?thesis by (simp add: e2sm_octets_def bytes_bits_field_octets)
qed

theorem choice_coders_agree_witness:
  "let td = Some asn_PER_type_E2SM_KPM_IndicationHeader_constr_1; specs = asn_SPC_E2SM_KPM_IndicationHeader_specs_1;
       ops = with_types (e2sm_rt plain_runtime) asn_MBR_E2SM_KPM_IndicationHeader_1; choice = (1, sample_header_format);
       pd = sample_pd (e2sm_octets asn_DEF_E2SM_KPM_IndicationHeader sample_header)
   in e2sm_CHOICE_encode_aper (rt_crash plain_runtime) (replicate 32 0) encode_to_buffer_cb td specs ops None choice sample_outp
      = CHOICE_encode_aper (replicate 32 0) encode_to_buffer_cb td specs ops None choice sample_outp
    \<and> e2sm_CHOICE_decode_aper (rt_undef plain_runtime) td specs ops None pd
      = CHOICE_decode_aper (rt_undef plain_runtime) td specs ops None pd"
  unfolding Let_def by (rule choice_coders_agree [OF sample_header_root _ _ sample_header_stream]) (simp_all add: sample_pd_def pd_ok_def)

section \<open>Event triggers\<close>

text \<open>
  (C13) An event trigger of 1 to 15 periods takes 7 bits and 7 more for each: in a buffer with that room
  the function reports exactly this size, leaks nothing, and the octets are decoded into exactly these
  periods in their order.
\<close>

theorem event_trigger_on_the_wire:
  assumes "\<forall>p \<in> set ps. 0 \<le> p \<and> p \<le> 19" and "ps \<noteq> []" and "length ps \<le> 15" and "7 * length ps + 7 \<le> 8 * length buffer"
    and "length tmp = 32" and "length (rt_tmp rt) = 32"
  shows "\<exists>buffer'. e2sm_encode_ric_event_trigger_definition (\<lambda>_. True) (\<lambda>_. True) rt tmp buffer (length ps) (ps @ after) live
      = Inr (7 * int (length ps) + 7, buffer', live)
    \<and> length buffer' = length buffer
    \<and> aper_decode_complete (Some (e2sm_decoder_of rt asn_DEF_E2SM_KPM_EventTriggerDefinition)) V_none buffer'
      = Some (\<lparr>rv_code = RC_OK, rv_consumed = (7 * length ps + 14) div 8\<rparr>, V_choice 1 (V_struct [V_list (map trigger_condition ps)]))"
proof -
  let ?t = asn_DEF_E2SM_KPM_EventTriggerDefinition and ?v = "kpm_trigger ps"
  note v = kpm_trigger_valid [OF assms(1-3)]
  obtain as where a: "add_triggers (\<lambda>_. True) (\<lambda>_. True) (ps @ after) (length ps) 0 (Some set_of_zero) live = Inr (Some as, live)"
    and items: "set_items as = map trigger_condition ps"
    using add_triggers_ok [OF set_of_zero_ok(1), of 0 "length ps" "ps @ after" live] by (auto simp: trigger_condition_def)
  have "aper_encode_to_buffer (Some (e2sm_encoder rt ?t)) ?v (length buffer) tmp = (int (length (e2sm_bits ?t ?v)), e2sm_octets ?t ?v)"
    by (rule e2sm_encode_total [OF v(1) assms(5,6)]) (use assms(4) v(2) in simp)
  then have "e2sm_encode_ric_event_trigger_definition (\<lambda>_. True) (\<lambda>_. True) rt tmp buffer (length ps) (ps @ after) live
      = Inr (7 * int (length ps) + 7, e2sm_octets ?t ?v @ drop (length (e2sm_octets ?t ?v)) buffer, live)"
    using a items v(2) by (simp add: e2sm_encode_ric_event_trigger_definition_def event_trigger_value_def kpm_trigger_def)
  moreover have l: "length (e2sm_octets ?t ?v) = (7 * length ps + 14) div 8"
    using v(2) by (simp add: e2sm_octets_def length_field_octets)
  moreover have "(7 * length ps + 14) div 8 \<le> length buffer" using assms(4) by linarith
  moreover have "e2sm_bits ?t ?v \<noteq> []" using v(2) by auto
  ultimately show ?thesis
    using e2sm_decode_complete [OF v(1) _ assms(6), of V_none] by (simp add: kpm_trigger_def)
qed

theorem event_trigger_on_the_wire_witness:
  "\<exists>buffer'. e2sm_encode_ric_event_trigger_definition (\<lambda>_. True) (\<lambda>_. True) plain_runtime (replicate 32 0) (replicate 8 0)
        (length [13, 0 :: int]) ([13, 0] @ [99]) 0 = Inr (7 * int (length [13, 0 :: int]) + 7, buffer', 0)
    \<and> length buffer' = length (replicate 8 0 :: byte list)
    \<and> aper_decode_complete (Some (e2sm_decoder_of plain_runtime asn_DEF_E2SM_KPM_EventTriggerDefinition)) V_none buffer'
      = Some (\<lparr>rv_code = RC_OK, rv_consumed = (7 * length [13, 0 :: int] + 14) div 8\<rparr>,
          V_choice 1 (V_struct [V_list (map trigger_condition [13, 0])]))"
  by (rule event_trigger_on_the_wire) (simp_all add: plain_runtime_def)

section \<open>Indications\<close>

text \<open>A header whose first bit is set has an alternative behind the extension marker; there is none.\<close>

lemma extension_header_fails:
  assumes "pd_ok pd" and "pd_bits pd = [True] @ rest"
  obtains rv v pd' where "e2sm_decoder_of rt asn_DEF_E2SM_KPM_IndicationHeader pd = (rv, v, pd')" and "rv_code rv \<noteq> RC_OK"
proof -
  obtain pd0 where 0: "asn_get_few_bits pd 1 = (1, pd0)" using bit_takes [OF assms] by auto
  obtain n pd1 where "uper_get_nsnnwn pd0 = (n, pd1)" by fastforce
  with 0 show thesis
    by (intro that [of "if n < 0 then ASN__DECODE_STARVED else ASN__DECODE_FAILED" "V_choice 0 V_none" pd1])
      (simp_all add: e2sm_decoder_of_def e2sm_rt_def asn_DEF_E2SM_KPM_IndicationHeader_def e2sm_OP_CHOICE_def e2sm_CHOICE_decode_aper_def
        asn_PER_type_E2SM_KPM_IndicationHeader_constr_1_def asn_SPC_E2SM_KPM_IndicationHeader_specs_1_def
        asn_MBR_E2SM_KPM_IndicationHeader_1_def constraints_or_def ASN__DECODE_STARVED_def ASN__DECODE_FAILED_def)
qed

text \<open>
  (C31) A header of a later version, with the extension bit of its CHOICE set, makes the xApp free the
  decoded structure twice, whatever follows.
\<close>

theorem extended_header_freed_twice:
  assumes "128 \<le> b"
  shows "e2sm_decode_ric_indication_header rt (b # bs) live = Inl Use_after_free"
proof -
  let ?pd = "\<lparr>pd_buffer = b # bs, pd_nboff = 0, pd_nbits = 8 * length (b # bs), pd_moved = 0\<rparr>"
  have "128 \<le> uint b" using assms by (simp add: word_le_def)
  moreover have "uint b < 256" using uint_lt2p [of b] by simp
  ultimately have "uint b div 128 = 1" by linarith
  then have "bit (uint b) 7" by (simp add: bit_iff_odd)
  then have "byte_bits b ! 0" unfolding byte_bits_def by (simp add: nth_bits_of_int)
  then have "hd (byte_bits b)" by (simp add: hd_conv_nth)
  then have "byte_bits b = [True] @ tl (byte_bits b)" by (cases "byte_bits b") auto
  then have bits: "pd_bits ?pd = [True] @ tl (byte_bits b) @ bytes_bits bs"
    by (simp add: pd_bits_def)
  have "pd_ok ?pd" by (simp add: pd_ok_def)
  from extension_header_fails [OF this bits, of rt] obtain rv v pd' where
    d: "e2sm_decoder_of rt asn_DEF_E2SM_KPM_IndicationHeader ?pd = (rv, v, pd')" "rv_code rv \<noteq> RC_OK" by blast
  then show ?thesis
    by (simp add: e2sm_decode_ric_indication_header_def e2sm_decode_indication_def aper_decode_complete_def aper_decode_def)
qed

theorem extended_header_freed_twice_witness:
  "e2sm_decode_ric_indication_header plain_runtime [0x80, 0x01, 0x00] 0 = Inl Use_after_free"
  by (rule extended_header_freed_twice) simp

end
