(* ===== verification/KpmReport.thy ===== *)
theory KpmReport
  imports E2apCodec E2smReports
begin

text \<open>
  A report of the KPI monitor from end to end: the RAN writes the header and the message with the
  service model, puts the octets into an indication and writes that with E2AP; the xApp takes the
  indication apart and hands the two octet strings to the service model. The two runtimes, with their
  own copies of the coders, meet here.
\<close>

lemma decode_indication_octets:
  assumes "e2sm_valid t v" and "e2sm_bits t v \<noteq> []" and "length (rt_tmp rt) = 32"
  shows "e2sm_decode_indication t rt (e2sm_octets t v) live = Inr (v, live + 1)"
  using e2sm_decode_complete [OF assms, of _ "[]"] by (simp add: e2sm_decode_indication_def)

text \<open>
  (C12) A report of a RAN reaches the xApp unchanged: when the header and the message of the service model
  are valid, the octets of both and of the call process id together fewer than 15000, and the indication that carries them is
  written and taken apart, the two decoders of the service model give the original header and message,
  and freeing both leaves no tree behind.
\<close>

theorem kpm_report_reaches_xapp:
  fixes hdr msg
  defines "header \<equiv> e2sm_octets asn_DEF_E2SM_KPM_IndicationHeader hdr"
    and "message \<equiv> e2sm_octets asn_DEF_E2SM_KPM_IndicationMessage msg"
  assumes "e2sm_valid asn_DEF_E2SM_KPM_IndicationHeader hdr" and "e2sm_bits asn_DEF_E2SM_KPM_IndicationHeader hdr \<noteq> []"
    and "e2sm_valid asn_DEF_E2SM_KPM_IndicationMessage msg" and "e2sm_bits asn_DEF_E2SM_KPM_IndicationMessage msg \<noteq> []"
    and "indication_in_range requestor inst function_id action sn ty" and "indication_octets header message process < 15000"
    and "500 + indication_octets header message process \<le> buffer_size" and "length tmp = 32" and "length tmp' = 32" and "length (rt_tmp rt) = 32"
  shows "\<exists>n octets ind h'. aper_encode_to_buffer (Some (asn_encoder tmp' undef asn_DEF_E2AP_PDU))
        (indication_value requestor inst function_id action sn ty header message process) buffer_size tmp = (n, octets)
    \<and> e2ap_decode_ric_indication_message (\<lambda>_. True) (pdu_decode tmp' undef) (octets @ rest) h = Inr (Some ind, h')
    \<and> e2sm_decode_ric_indication_header rt (the (im_indicationHeader ind)) live = Inr (hdr, live + 1)
    \<and> e2sm_decode_ric_indication_message rt (the (im_indicationMessage ind)) (live + 1) = Inr (msg, live + 2)
    \<and> e2sm_free_ric_indication_message msg (e2sm_free_ric_indication_header hdr (live + 2)) = live"
proof -
  note taken = indication_taken_apart [OF assms(7-11), of undef rest h]
  note dec = decode_indication_octets [OF assms(3,4,12), of live] decode_indication_octets [OF assms(5,6,12), of "live + 1"]
  from taken obtain n octets h' where
    "aper_encode_to_buffer (Some (asn_encoder tmp' undef asn_DEF_E2AP_PDU))
        (indication_value requestor inst function_id action sn ty header message process) buffer_size tmp = (n, octets)"
    and "e2ap_decode_ric_indication_message (\<lambda>_. True) (pdu_decode tmp' undef) (octets @ rest) h
      = Inr (Some (taken_indication requestor inst function_id action sn ty header message process), h')" by blast
  then show ?thesis using dec
    by (intro exI [of _ n] exI [of _ octets] exI [of _ "taken_indication requestor inst function_id action sn ty header message process"]
        exI [of _ h'])
      (simp add: taken_indication_def header_def message_def e2sm_decode_ric_indication_header_def e2sm_decode_ric_indication_message_def
        e2sm_free_ric_indication_header_def e2sm_free_ric_indication_message_def)
qed

lemma native_field_nonempty: "native_field None k x \<noteq> []"
proof -
  obtain b where "asn_long2INTEGER x = Some b" "b \<noteq> []" using long_octets by blast
  then show ?thesis by (simp add: native_field_def ot_bits.simps [of APER k b] Let_def len_bits_def)
qed

lemma sample_report_bits: "e2sm_bits asn_DEF_E2SM_KPM_IndicationMessage sample_report \<noteq> []"
  "length (e2sm_bits asn_DEF_E2SM_KPM_IndicationMessage sample_report) \<le> 8000"
proof -
  have "value_size sample_report \<le> 8000" by (simp add: sample_report_def)
  then show "length (e2sm_bits asn_DEF_E2SM_KPM_IndicationMessage sample_report) \<le> 8000"
    using length_e2sm_bits [OF sample_report_valid] by simp
  show "e2sm_bits asn_DEF_E2SM_KPM_IndicationMessage sample_report \<noteq> []"
    by (simp add: e2sm_bits_def sample_report_def asn_DEF_E2SM_KPM_IndicationMessage_def sequence_spec_def seq_field_def
        seq_presence_def seq_optionals_def asn_SPC_E2SM_KPM_IndicationMessage_specs_1_def
        asn_MBR_E2SM_KPM_IndicationMessage_1_def upt_rec member_present_def asn_DEF_RIC_Style_Type_def native_spec_def constraints_or_def
        Let_def native_field_nonempty)
qed

lemma samples_short: "length (e2sm_octets asn_DEF_E2SM_KPM_IndicationHeader sample_header) \<le> 101"
  "length (e2sm_octets asn_DEF_E2SM_KPM_IndicationMessage sample_report) \<le> 1001"
  using sample_header_bits(2) sample_report_bits(2) by (simp_all add: e2sm_octets_def length_field_octets)

theorem kpm_report_reaches_xapp_witness:
  "let undef = (\<lambda>pd. (ASN__DECODE_FAILED, V_none, pd)); tmp = replicate 32 0;
       header = e2sm_octets asn_DEF_E2SM_KPM_IndicationHeader sample_header;
       message = e2sm_octets asn_DEF_E2SM_KPM_IndicationMessage sample_report in
    \<exists>n octets ind h'. aper_encode_to_buffer (Some (asn_encoder tmp undef asn_DEF_E2AP_PDU))
        (indication_value 123 1 2 0 (Some 7) 0 header message None) 2000 tmp = (n, octets)
    \<and> e2ap_decode_ric_indication_message (\<lambda>_. True) (pdu_decode tmp undef) (octets @ [0, 0]) empty_heap = Inr (Some ind, h')
    \<and> e2sm_decode_ric_indication_header plain_runtime (the (im_indicationHeader ind)) 0 = Inr (sample_header, 0 + 1)
    \<and> e2sm_decode_ric_indication_message plain_runtime (the (im_indicationMessage ind)) (0 + 1) = Inr (sample_report, 0 + 2)
    \<and> e2sm_free_ric_indication_message sample_report (e2sm_free_ric_indication_header sample_header (0 + 2)) = 0"
  unfolding Let_def
  by (rule kpm_report_reaches_xapp)
    (use sample_header_valid sample_header_bits sample_report_valid sample_report_bits samples_short
      in \<open>simp_all add: indication_in_range_def indication_octets_def in_range_def plain_runtime_def\<close>)

end
