(* ===== verification/CStrings.thy ===== *)
theory CStrings
  imports AsnInteger
begin

text \<open>
  C strings: character arrays that end at the first NUL, \<^verbatim>\<open>snprintf\<close> and \<^verbatim>\<open>memcpy\<close> into them,
  numbers in decimal and hexadecimal, \<^verbatim>\<open>strtol\<close>. The parts of the E2 termination that keep
  names in fixed arrays are written with these.
\<close>

section \<open>Character arrays\<close>

definition c_str :: "char list \<Rightarrow> string" where
  "c_str buf = takeWhile (\<lambda>c. c \<noteq> CHR 0x00) buf"

definition zero_buf :: "nat \<Rightarrow> char list" where
  "zero_buf n = replicate n (CHR 0x00)"

text \<open>\<^verbatim>\<open>memcpy\<close> to the start of an array.\<close>

definition memcpy :: "char list \<Rightarrow> char list \<Rightarrow> fault + char list" where
  "memcpy dst src = (if length src \<le> length dst then Inr (src @ drop (length src) dst) else Inl Out_of_bounds)"

text \<open>
  \<^verbatim>\<open>snprintf(dst, n, ...)\<close> of a text: what is stored is cut after \<open>n - 1\<close> characters, the result
  is the length of the whole text.
\<close>

definition snprintf :: "char list \<Rightarrow> nat \<Rightarrow> string \<Rightarrow> fault + char list \<times> nat" where
  "snprintf dst n s = fault_bind (memcpy dst (take (n - 1) s @ [CHR 0x00])) (\<lambda>buf. Inr (buf, length s))"

lemma c_str_append_NUL [simp]: "CHR 0x00 \<notin> set s \<Longrightarrow> c_str (s @ CHR 0x00 # t) = s"
  by (auto simp: c_str_def takeWhile_append)

lemma c_str_zero_buf [simp]: "c_str (zero_buf n) = []"
  by (cases n) (auto simp: c_str_def zero_buf_def)

lemma c_str_append_zero_buf [simp]: "CHR 0x00 \<notin> set s \<Longrightarrow> c_str (s @ zero_buf n) = s"
  by (cases n) (auto simp: c_str_def zero_buf_def takeWhile_append)

lemma drop_zero_buf [simp]: "drop k (zero_buf n) = zero_buf (n - k)"
  by (simp add: zero_buf_def)

lemma length_zero_buf [simp]: "length (zero_buf n) = n"
  by (simp add: zero_buf_def)

lemma NUL_c_str [simp]: "CHR 0x00 \<notin> set (c_str buf)"
  by (auto simp: c_str_def dest: set_takeWhileD)

lemma c_str_id: "CHR 0x00 \<notin> set s \<Longrightarrow> c_str s = s"
  by (auto simp: c_str_def takeWhile_eq_all_conv)

section \<open>Numbers\<close>

definition decimal_digit :: "nat \<Rightarrow> char" where
  "decimal_digit d = char_of (48 + d)"

definition hex_digit :: "nat \<Rightarrow> char" where
  "hex_digit d = ''0123456789abcdef'' ! d"

fun decimal :: "nat \<Rightarrow> string" where
  "decimal n = (if n < 10 then [decimal_digit n] else decimal (n div 10) @ [decimal_digit (n mod 10)])"

declare decimal.simps [simp del]

definition decimal_int :: "int \<Rightarrow> string" where
  "decimal_int z = (if z < 0 then CHR ''-'' # decimal (nat (- z)) else decimal (nat z))"

text \<open>\<^verbatim>\<open>strtol(s, &end, 10)\<close>: the end is not used; values beyond a \<^verbatim>\<open>long\<close> are clamped.\<close>

definition is_space :: "char \<Rightarrow> bool" where
  "is_space c \<longleftrightarrow> c \<in> {CHR '' '', CHR 0x09, CHR 0x0A, CHR 0x0B, CHR 0x0C, CHR 0x0D}"

definition strtol :: "string \<Rightarrow> int" where
  "strtol s =
     (let t = dropWhile is_space s;
          digits = (\<lambda>u. int (num_from 0 (takeWhile is_digit u)));
          v = (case t of
                 [] \<Rightarrow> 0
               | c # u \<Rightarrow> if c = CHR ''-'' then - digits u else if c = CHR ''+'' then digits u else digits t)
      in max (- (2 ^ 63)) (min (2 ^ 63 - 1) v))"

lemma decimal_digit_code: "d < 10 \<Longrightarrow> of_char (decimal_digit d) = 48 + d"
  by (simp add: decimal_digit_def)

lemma decimal_digit_digit [simp]: "d < 10 \<Longrightarrow> is_digit (decimal_digit d) \<and> digit (decimal_digit d) = d"
  by (simp add: is_digit_def digit_def decimal_digit_code)

lemma digit_not_sign: "is_digit c \<Longrightarrow> c \<noteq> CHR ''-'' \<and> c \<noteq> CHR ''+'' \<and> \<not> is_space c \<and> c \<noteq> CHR 0x00"
  by (auto simp: is_digit_def is_space_def)

lemma decimal_digits: "\<forall>c \<in> set (decimal n). is_digit c"
proof (induction n rule: decimal.induct)
  case (1 n)
  then show ?case by (simp add: decimal.simps [of n])
qed

lemma decimal_not_Nil [simp]: "decimal n \<noteq> []"
  by (simp add: decimal.simps [of n])

lemma num_from_append: "num_from v (ds @ es) = num_from (num_from v ds) es"
  by (simp add: num_from_def)

lemma num_from_decimal: "num_from 0 (decimal n) = n"
proof (induction n rule: decimal.induct)
  case (1 n)
  then show ?case by (simp add: decimal.simps [of n] num_from_append)
qed

lemma decimal_inject [simp]: "decimal m = decimal n \<longleftrightarrow> m = n"
  by (metis num_from_decimal)

lemma strtol_decimal: "int n < 2 ^ 63 \<Longrightarrow> strtol (decimal n) = int n"
proof -
  assume n: "int n < 2 ^ 63"
  obtain c ds where d: "decimal n = c # ds" by (cases "decimal n") auto
  have c: "c \<noteq> CHR ''-'' \<and> c \<noteq> CHR ''+'' \<and> \<not> is_space c"
    using decimal_digits [of n] digit_not_sign by (auto simp: d)
  have "takeWhile is_digit (decimal n) = decimal n" using decimal_digits [of n] by (simp add: takeWhile_eq_all_conv)
  then have "int (num_from 0 (takeWhile is_digit (c # ds))) = int n" by (metis d num_from_decimal)
  with c n show ?thesis by (simp add: strtol_def d Let_def)
qed

section \<open>Octets of a text\<close>

definition text_octets :: "string \<Rightarrow> byte list" where
  "text_octets s = map of_char s"

lemma length_text_octets [simp]: "length (text_octets s) = length s"
  by (simp add: text_octets_def)

end
