(* ===== verification/RanName.thy ===== *)
theory RanName
  imports CStrings
begin

text \<open>
  The name of a RAN node, \<^verbatim>\<open>BuildRunName.h\<close> of the E2 termination: built from the PLMN and
  the node id of an E2 setup request, written into the 64 characters of \<^verbatim>\<open>enodbName\<close>.
\<close>

section \<open>Node identities\<close>

text \<open>
  \<^verbatim>\<open>GlobalE2node_ID\<close> as far as the names use it. A PLMN is an octet string; of a bit string only
  the octets are read, not the number of unused bits.
\<close>

datatype gnb_id_choice = GNB_ID_NOTHING | GNB_ID_gnb_ID "byte list"

datatype enb_id_choice = NGENB_ID_NOTHING | NGENB_ID_macro "byte list" | NGENB_ID_shortmacro "byte list"
  | NGENB_ID_longmacro "byte list"

datatype enb_id = ENB_ID_NOTHING | ENB_ID_macro "byte list" | ENB_ID_home "byte list"
  | ENB_ID_short_Macro "byte list" | ENB_ID_long_Macro "byte list"

record 'i global_id =
  plmn_id :: "byte list"
  node_id :: 'i

datatype GlobalE2node_ID =
    NODE_NOTHING
  | NODE_gNB "gnb_id_choice global_id"
  | NODE_en_gNB "gnb_id_choice global_id"
  | NODE_ng_eNB "enb_id_choice global_id"
  | NODE_eNB "enb_id global_id"

section \<open>Building the name\<close>

definition plmn_text :: "string \<Rightarrow> byte list \<Rightarrow> string" where
  "plmn_text type data =
     (let nib = (\<lambda>i. (unat (data ! i AND 0x0F), unat (drop_bit 4 (data ! i AND 0xF0))));
          (mcc1, mcc2) = nib 0; (mcc3, mnc3) = nib 1; (mnc1, mnc2) = nib 2
      in type @ decimal mcc1 @ decimal mcc2 @ decimal mcc3 @
         (if mnc3 \<noteq> 15 then CHR ''_'' # decimal mnc1 @ decimal mnc2 @ decimal mnc3
          else CHR ''_'' # CHR ''0'' # decimal mnc1 @ decimal mnc2))"

definition translatePlmnId :: "char list \<Rightarrow> byte list \<Rightarrow> string \<Rightarrow> fault + char list" where
  "translatePlmnId plmnId data type =
     (if length data < 3 then Inl Out_of_bounds
      else fault_bind (snprintf plmnId 20 (plmn_text type data)) (\<lambda>(buf, j). Inr buf))"

text \<open>
  \<^verbatim>\<open>snprintf(buffer, 256, "%s..", ranName)\<close> into a local buffer and \<^verbatim>\<open>memcpy(ranName, buffer, j)\<close>,
  which leaves out the NUL: the name must have been zeroed. A name that fills the array has no
  NUL any more and is read beyond its end.
\<close>

definition append_text :: "char list \<Rightarrow> string \<Rightarrow> fault + char list" where
  "append_text ranName s =
     (let t = c_str ranName @ s
      in if length ranName \<le> length t then Inl Out_of_bounds else memcpy ranName t)"

fun hex_loop :: "byte list \<Rightarrow> char list \<Rightarrow> fault + char list" where
  "hex_loop [] ranName = Inr ranName"
| "hex_loop (b # bs) ranName =
     fault_bind (append_text ranName [hex_digit (unat (drop_bit 4 (b AND 0xF0)))]) (\<lambda>r1.
       fault_bind (append_text r1 [hex_digit (unat (b AND 0x0F))]) (hex_loop bs))"

definition translateBitStringToChar :: "char list \<Rightarrow> byte list \<Rightarrow> fault + char list" where
  "translateBitStringToChar ranName data = fault_bind (append_text ranName ''_'') (hex_loop data)"

definition plmn_and_id :: "char list \<Rightarrow> byte list \<Rightarrow> string \<Rightarrow> byte list \<Rightarrow> fault + char list" where
  "plmn_and_id ranName plmn type data =
     fault_bind (translatePlmnId ranName plmn type) (\<lambda>r. translateBitStringToChar r data)"

text \<open>
  The case of an ng-eNB has no \<^verbatim>\<open>break\<close>: the same structure is read again as an eNB. Both have
  the PLMN first and then a choice whose tag and bit string are at the same place; the tags 1,
  2 and 3 of an ng-eNB are macro, short macro and long macro, of an eNB macro, home and short
  macro.
\<close>

fun reread_id :: "enb_id_choice \<Rightarrow> enb_id" where
  "reread_id NGENB_ID_NOTHING = ENB_ID_NOTHING"
| "reread_id (NGENB_ID_macro d) = ENB_ID_macro d"
| "reread_id (NGENB_ID_shortmacro d) = ENB_ID_home d"
| "reread_id (NGENB_ID_longmacro d) = ENB_ID_short_Macro d"

definition ng_eNB_name :: "char list \<Rightarrow> enb_id_choice global_id \<Rightarrow> fault + char list" where
  "ng_eNB_name ranName g =
     (case node_id g of
        NGENB_ID_macro d \<Rightarrow> plmn_and_id ranName (plmn_id g) ''ng_enB_macro_'' d
      | NGENB_ID_shortmacro d \<Rightarrow> plmn_and_id ranName (plmn_id g) ''ng_enB_shortmacro_'' d
      | NGENB_ID_longmacro d \<Rightarrow> plmn_and_id ranName (plmn_id g) ''ng_enB_longmacro_'' d
      | NGENB_ID_NOTHING \<Rightarrow> Inr ranName)"

definition eNB_name :: "char list \<Rightarrow> byte list \<Rightarrow> enb_id \<Rightarrow> fault + char list" where
  "eNB_name ranName plmn i =
     (case i of
        ENB_ID_macro d \<Rightarrow> plmn_and_id ranName plmn ''enB_macro_'' d
      | ENB_ID_home d \<Rightarrow> plmn_and_id ranName plmn ''enB_home_'' d
      | ENB_ID_short_Macro d \<Rightarrow> plmn_and_id ranName plmn ''enB_shortmacro_'' d
      | ENB_ID_long_Macro d \<Rightarrow> plmn_and_id ranName plmn ''enB_longmacro_'' d
      | ENB_ID_NOTHING \<Rightarrow> Inr ranName)"

text \<open>The result and the array; the case of an eNB falls through to \<^verbatim>\<open>return -1\<close>.\<close>

fun buildRanName :: "char list \<Rightarrow> GlobalE2node_ID \<Rightarrow> fault + int \<times> char list" where
  "buildRanName ranName (NODE_gNB g) =
     fault_bind (translatePlmnId ranName (plmn_id g) ''gnb_'') (\<lambda>r.
       case node_id g of
         GNB_ID_gnb_ID d \<Rightarrow> fault_bind (translateBitStringToChar r d) (\<lambda>r'. Inr (0, r'))
       | GNB_ID_NOTHING \<Rightarrow> Inr (0, r))"
| "buildRanName ranName (NODE_en_gNB g) =
     fault_bind (translatePlmnId ranName (plmn_id g) ''en_gnb_'') (\<lambda>r.
       case node_id g of
         GNB_ID_gnb_ID d \<Rightarrow> fault_bind (translateBitStringToChar r d) (\<lambda>r'. Inr (0, r'))
       | GNB_ID_NOTHING \<Rightarrow> Inr (0, r))"
| "buildRanName ranName (NODE_ng_eNB g) =
     fault_bind (ng_eNB_name ranName g) (\<lambda>r.
       fault_bind (eNB_name r (plmn_id g) (reread_id (node_id g))) (\<lambda>r'. Inr (-1, r')))"
| "buildRanName ranName (NODE_eNB g) =
     fault_bind (eNB_name ranName (plmn_id g) (node_id g)) (\<lambda>r. Inr (-1, r))"
| "buildRanName ranName NODE_NOTHING = Inr (-1, ranName)"

section \<open>What the name is\<close>

definition hex_text :: "byte list \<Rightarrow> string" where
  "hex_text bs = concat (map (\<lambda>b. [hex_digit (unat b div 16), hex_digit (unat b mod 16)]) bs)"

text \<open>The name that a gNB or en-gNB gets.\<close>

fun ran_name :: "GlobalE2node_ID \<Rightarrow> string" where
  "ran_name (NODE_gNB g) = plmn_text ''gnb_'' (plmn_id g) @
     (case node_id g of GNB_ID_gnb_ID d \<Rightarrow> CHR ''_'' # hex_text d | GNB_ID_NOTHING \<Rightarrow> [])"
| "ran_name (NODE_en_gNB g) = plmn_text ''en_gnb_'' (plmn_id g) @
     (case node_id g of GNB_ID_gnb_ID d \<Rightarrow> CHR ''_'' # hex_text d | GNB_ID_NOTHING \<Rightarrow> [])"
| "ran_name _ = []"

text \<open>Binary coded decimal digits, the third of the network code possibly the filler 15.\<close>

definition bcd_plmn :: "byte list \<Rightarrow> bool" where
  "bcd_plmn data \<longleftrightarrow> length data = 3 \<and> unat (data ! 0) mod 16 < 10 \<and> unat (data ! 0) div 16 < 10
     \<and> unat (data ! 1) mod 16 < 10 \<and> (unat (data ! 1) div 16 < 10 \<or> unat (data ! 1) div 16 = 15)
     \<and> unat (data ! 2) mod 16 < 10 \<and> unat (data ! 2) div 16 < 10"

fun named_node :: "GlobalE2node_ID \<Rightarrow> bool" where
  "named_node (NODE_gNB g) \<longleftrightarrow> bcd_plmn (plmn_id g) \<and> (\<exists>d. node_id g = GNB_ID_gnb_ID d \<and> length d \<le> 4)"
| "named_node (NODE_en_gNB g) \<longleftrightarrow> bcd_plmn (plmn_id g) \<and> (\<exists>d. node_id g = GNB_ID_gnb_ID d \<and> length d \<le> 4)"
| "named_node _ \<longleftrightarrow> False"

text \<open>Country code and network code as the digits of the name: a network code of two digits gets a leading 0.\<close>

definition plmn_digits :: "byte list \<Rightarrow> nat list" where
  "plmn_digits data =
     [unat (data ! 0) mod 16, unat (data ! 0) div 16, unat (data ! 1) mod 16] @
     (if unat (data ! 1) div 16 = 15 then [0, unat (data ! 2) mod 16, unat (data ! 2) div 16]
      else [unat (data ! 2) mod 16, unat (data ! 2) div 16, unat (data ! 1) div 16])"

lemma decimal_length: "n < 10 ^ Suc k \<Longrightarrow> length (decimal n) \<le> Suc k"
proof (induction k arbitrary: n)
  case 0
  then show ?case by (simp add: decimal.simps [of n])
next
  case (Suc k)
  have "n div 10 < 10 ^ Suc k" using Suc.prems by (simp add: less_mult_imp_div_less)
  from Suc.IH [OF this] show ?case by (subst decimal.simps) simp
qed

lemma decimal_small [simp]: "n < 10 \<Longrightarrow> decimal n = [decimal_digit n]"
  by (simp add: decimal.simps [of n])

lemma NUL_decimal [simp]: "CHR 0x00 \<notin> set (decimal n)"
  using decimal_digits [of n] digit_not_sign by blast

lemma hex_digit_not_NUL [simp]: "d < 16 \<Longrightarrow> hex_digit d \<noteq> CHR 0x00 \<and> CHR 0x00 \<noteq> hex_digit d"
proof -
  assume "d < 16"
  then have "hex_digit d \<in> set ''0123456789abcdef''" unfolding hex_digit_def by (intro nth_mem) simp
  then have "hex_digit d \<noteq> CHR 0x00" by auto
  then show ?thesis by metis
qed

lemma hex_digit_inject: "d < 16 \<Longrightarrow> e < 16 \<Longrightarrow> hex_digit d = hex_digit e \<longleftrightarrow> d = e"
  unfolding hex_digit_def by (rule nth_eq_iff_index_eq) simp_all

lemma low_nibble: "unat (b AND 0x0F) = unat (b :: byte) mod 16"
proof -
  have "b AND 0x0F = take_bit 4 b" by (simp add: take_bit_eq_mask mask_eq_exp_minus_1)
  then show ?thesis by (simp only: unsigned_take_bit_eq) (simp add: take_bit_eq_mod)
qed

lemma byte_nibbles: "unat (drop_bit 4 (b AND 0xF0)) = unat (b :: byte) div 16" "unat (b AND 0x0F) = unat b mod 16"
proof -
  have "drop_bit 4 (b AND 0xF0) = drop_bit 4 b AND 0x0F" by simp
  then have "unat (drop_bit 4 (b AND 0xF0)) = unat (drop_bit 4 b) mod 16" by (simp only: low_nibble)
  also have "unat (drop_bit 4 b) = unat b div 16" by (simp add: drop_bit_eq_div unat_div_distrib)
  also have "\<dots> mod 16 = unat b div 16" using unsigned_less [of b, where ?'a = nat] by simp
  finally show "unat (drop_bit 4 (b AND 0xF0)) = unat b div 16" .
qed (rule low_nibble)

lemma plmn_text_nibbles:
  "plmn_text type data = type @ decimal (unat (data ! 0) mod 16) @ decimal (unat (data ! 0) div 16)
     @ decimal (unat (data ! 1) mod 16) @
     (if unat (data ! 1) div 16 \<noteq> 15
      then CHR ''_'' # decimal (unat (data ! 2) mod 16) @ decimal (unat (data ! 2) div 16) @ decimal (unat (data ! 1) div 16)
      else CHR ''_'' # CHR ''0'' # decimal (unat (data ! 2) mod 16) @ decimal (unat (data ! 2) div 16))"
  unfolding plmn_text_def byte_nibbles Let_def prod.case by (rule refl)

lemma plmn_text_bcd:
  assumes "bcd_plmn data"
  shows "plmn_text type data = type @ (case plmn_digits data of
    [a, b, c, d, e, f] \<Rightarrow> map decimal_digit [a, b, c] @ CHR ''_'' # map decimal_digit [d, e, f] | _ \<Rightarrow> [])"
proof -
  have "decimal_digit 0 = CHR ''0''" by code_simp
  with assms show ?thesis by (auto simp: plmn_text_nibbles plmn_digits_def bcd_plmn_def)
qed

lemma plmn_digits_bcd:
  assumes "bcd_plmn data"
  shows "\<exists>a b c d e f. plmn_digits data = [a, b, c, d, e, f] \<and> (\<forall>x \<in> {a, b, c, d, e, f}. x < 10)"
  using assms by (auto simp: plmn_digits_def bcd_plmn_def)

lemma decimal_digit_not_NUL [simp]: "d < 10 \<Longrightarrow> decimal_digit d \<noteq> CHR 0x00 \<and> CHR 0x00 \<noteq> decimal_digit d"
  by (metis decimal_digit_digit digit_not_sign)

lemma decimal_digit_inject [simp]: "d < 10 \<Longrightarrow> e < 10 \<Longrightarrow> decimal_digit d = decimal_digit e \<longleftrightarrow> d = e"
  using decimal_digit_digit by metis

lemma plmn_text_shape:
  assumes "bcd_plmn data"
  shows "length (plmn_text type data) = length type + 7"
    and "CHR 0x00 \<notin> set type \<Longrightarrow> CHR 0x00 \<notin> set (plmn_text type data)"
  using plmn_digits_bcd [OF assms] by (auto simp: plmn_text_bcd [OF assms])

lemma hex_text_Cons: "hex_text (b # bs) = hex_digit (unat b div 16) # hex_digit (unat b mod 16) # hex_text bs"
  by (simp add: hex_text_def)

lemma nibble_less [simp]: "unat (b :: byte) div 16 < 16"
  using unsigned_less [of b, where ?'a = nat] by simp

lemma hex_text_shape: "length (hex_text bs) = 2 * length bs" "CHR 0x00 \<notin> set (hex_text bs)"
  by (induction bs) (auto simp: hex_text_def)

lemma append_text_ok:
  assumes "CHR 0x00 \<notin> set t" and "length (t @ s) < n"
  shows "append_text (t @ zero_buf (n - length t)) s = Inr ((t @ s) @ zero_buf (n - length (t @ s)))"
  using assms by (simp add: append_text_def memcpy_def diff_diff_add add.commute)

lemma hex_loop_ok:
  assumes "CHR 0x00 \<notin> set t" and "length t + 2 * length bs < n"
  shows "hex_loop bs (t @ zero_buf (n - length t))
    = Inr ((t @ hex_text bs) @ zero_buf (n - length (t @ hex_text bs)))"
  using assms
proof (induction bs arbitrary: t)
  case Nil
  then show ?case by (simp add: hex_text_def)
next
  case (Cons b bs)
  let ?h = "hex_digit (unat b div 16)" and ?l = "hex_digit (unat b mod 16)"
  note 1 = append_text_ok [of t "[?h]" n] and 2 = append_text_ok [of "t @ [?h]" "[?l]" n]
  have "?h \<noteq> CHR 0x00" "?l \<noteq> CHR 0x00" by simp_all
  with Cons.IH [of "(t @ [?h]) @ [?l]"] Cons.prems 1 2 show ?case
    unfolding hex_loop.simps byte_nibbles by (simp add: hex_text_Cons)
qed

lemma snprintf_zero_buf:
  assumes "length s < n" and "n \<le> m"
  shows "snprintf (zero_buf m) n s = Inr (s @ zero_buf (m - length s), length s)"
proof -
  have "zero_buf (m - length s) = CHR 0x00 # zero_buf (m - Suc (length s))"
    using assms by (simp add: zero_buf_def Suc_diff_Suc flip: replicate_Suc)
  with assms show ?thesis by (simp add: snprintf_def memcpy_def)
qed

lemma plmn_and_id_ok:
  assumes "bcd_plmn plmn" and "length type < 13" and "CHR 0x00 \<notin> set type" and "length d \<le> 4"
  shows "plmn_and_id (zero_buf 64) plmn type d
    = Inr ((plmn_text type plmn @ CHR ''_'' # hex_text d) @ zero_buf (64 - length (plmn_text type plmn @ CHR ''_'' # hex_text d)))"
proof -
  let ?p = "plmn_text type plmn"
  note shape = plmn_text_shape [OF assms(1), of type]
  have p: "length ?p < 20" "CHR 0x00 \<notin> set ?p" using shape assms by auto
  have "length plmn = 3" using assms(1) by (simp add: bcd_plmn_def)
  then have 1: "translatePlmnId (zero_buf 64) plmn type = Inr (?p @ zero_buf (64 - length ?p))"
    using p by (simp add: translatePlmnId_def snprintf_zero_buf)
  have 2: "append_text (?p @ zero_buf (64 - length ?p)) ''_'' = Inr ((?p @ ''_'') @ zero_buf (64 - length (?p @ ''_'')))"
    by (rule append_text_ok) (use p in auto)
  have 3: "hex_loop d ((?p @ ''_'') @ zero_buf (64 - length (?p @ ''_'')))
    = Inr (((?p @ ''_'') @ hex_text d) @ zero_buf (64 - length ((?p @ ''_'') @ hex_text d)))"
    by (rule hex_loop_ok) (use p assms(4) in auto)
  show ?thesis unfolding plmn_and_id_def translateBitStringToChar_def 1 fault_bind.simps 2 3 by simp
qed

lemma buildRanName_named:
  assumes "named_node node"
  shows "buildRanName (zero_buf 64) node = Inr (0, ran_name node @ zero_buf (64 - length (ran_name node)))
    \<and> length (ran_name node) \<le> 23 \<and> CHR 0x00 \<notin> set (ran_name node)"
proof (cases node)
  case (NODE_gNB g)
  with assms obtain d where d: "bcd_plmn (plmn_id g)" "node_id g = GNB_ID_gnb_ID d" "length d \<le> 4" by auto
  with NODE_gNB plmn_and_id_ok [of "plmn_id g" "''gnb_''" d] plmn_text_shape [of "plmn_id g" "''gnb_''"] hex_text_shape [of d]
  show ?thesis by (simp add: plmn_and_id_def)
next
  case (NODE_en_gNB g)
  with assms obtain d where d: "bcd_plmn (plmn_id g)" "node_id g = GNB_ID_gnb_ID d" "length d \<le> 4" by auto
  with NODE_en_gNB plmn_and_id_ok [of "plmn_id g" "''en_gnb_''" d] plmn_text_shape [of "plmn_id g" "''en_gnb_''"] hex_text_shape [of d]
  show ?thesis by (simp add: plmn_and_id_def)
qed (use assms in auto)

text \<open>
  (C26) A gNB or an en-gNB whose PLMN is in decimal digits and whose id has at most 32 bits gets
  the name made of its PLMN and its id in hexadecimal; it fits into the array, is NUL terminated
  and nothing beyond the array is written.
\<close>

theorem ran_name_built:
  assumes "named_node node"
  shows "buildRanName (zero_buf 64) node = Inr (0, ran_name node @ zero_buf (64 - length (ran_name node)))
    \<and> length (ran_name node) \<le> 23 \<and> CHR 0x00 \<notin> set (ran_name node)"
  using assms by (rule buildRanName_named)

theorem ran_name_built_witness:
  "buildRanName (zero_buf 64) (NODE_gNB \<lparr>plmn_id = [0x13, 0xF0, 0x14], node_id = GNB_ID_gnb_ID [0xB5, 0xC6, 0x70]\<rparr>)
    = Inr (0, ''gnb_310_041_b5c670'' @ zero_buf 46)"
proof -
  let ?n = "NODE_gNB \<lparr>plmn_id = [0x13, 0xF0, 0x14], node_id = GNB_ID_gnb_ID [0xB5, 0xC6, 0x70]\<rparr>"
  have "named_node ?n" by (simp add: bcd_plmn_def)
  moreover have "ran_name ?n = ''gnb_310_041_b5c670''" by code_simp
  ultimately show ?thesis using ran_name_built [of ?n] by simp
qed

section \<open>Which nodes share a name\<close>

lemma hex_text_inject: "hex_text bs = hex_text cs \<longleftrightarrow> bs = cs"
proof (induction bs arbitrary: cs)
  case Nil
  then show ?case by (cases cs) (auto simp: hex_text_def)
next
  case (Cons b bs)
  have "b = c" if "unat b div 16 = unat c div 16" "unat b mod 16 = unat c mod 16" for c :: byte
    using that by (metis div_mult_mod_eq word_unat_eq_iff)
  with Cons.IH show ?case by (cases cs) (auto simp: hex_text_Cons hex_digit_inject hex_text_def [of "[]"])
qed

lemma plmn_text_inject:
  assumes "bcd_plmn p" and "bcd_plmn q"
  shows "plmn_text type p = plmn_text type q \<longleftrightarrow> plmn_digits p = plmn_digits q"
  using plmn_digits_bcd [OF assms(1)] plmn_digits_bcd [OF assms(2)]
  by (auto simp: plmn_text_bcd [OF assms(1)] plmn_text_bcd [OF assms(2)])

text \<open>What a name keeps of a node: its kind, the digits of its PLMN and the octets of its id.\<close>

fun name_key :: "GlobalE2node_ID \<Rightarrow> nat \<times> nat list \<times> byte list" where
  "name_key (NODE_gNB g) = (1, plmn_digits (plmn_id g), case node_id g of GNB_ID_gnb_ID d \<Rightarrow> d | GNB_ID_NOTHING \<Rightarrow> [])"
| "name_key (NODE_en_gNB g) = (2, plmn_digits (plmn_id g), case node_id g of GNB_ID_gnb_ID d \<Rightarrow> d | GNB_ID_NOTHING \<Rightarrow> [])"
| "name_key _ = (0, [], [])"

lemma ran_name_key:
  assumes "named_node n"
  shows "\<exists>k type plmn d. name_key n = (k, plmn_digits plmn, d) \<and> ran_name n = plmn_text type plmn @ CHR ''_'' # hex_text d
    \<and> bcd_plmn plmn \<and> (k, type) \<in> {(1, ''gnb_''), (2, ''en_gnb_'')}"
proof (cases n)
  case (NODE_gNB g)
  with assms obtain d where "bcd_plmn (plmn_id g)" "node_id g = GNB_ID_gnb_ID d" by auto
  with NODE_gNB show ?thesis
    by (intro exI [of _ 1] exI [of _ "''gnb_''"] exI [of _ "plmn_id g"] exI [of _ d]) simp
next
  case (NODE_en_gNB g)
  with assms obtain d where "bcd_plmn (plmn_id g)" "node_id g = GNB_ID_gnb_ID d" by auto
  with NODE_en_gNB show ?thesis
    by (intro exI [of _ 2] exI [of _ "''en_gnb_''"] exI [of _ "plmn_id g"] exI [of _ d]) simp
qed (use assms in auto)

lemma plmn_text_kind: "(k, type) \<in> {(1 :: nat, ''gnb_''), (2, ''en_gnb_'')} \<Longrightarrow> hd (plmn_text type p @ t) = CHR ''g'' \<longleftrightarrow> k = 1"
  by (auto simp: plmn_text_nibbles)

lemma ran_name_inject:
  assumes "named_node n" and "named_node m"
  shows "ran_name n = ran_name m \<longleftrightarrow> name_key n = name_key m"
proof -
  from ran_name_key [OF assms(1)] obtain k s p d where n: "name_key n = (k, plmn_digits p, d)"
    "ran_name n = plmn_text s p @ CHR ''_'' # hex_text d" "bcd_plmn p" "(k, s) \<in> {(1, ''gnb_''), (2, ''en_gnb_'')}" by metis
  from ran_name_key [OF assms(2)] obtain l t q e where m: "name_key m = (l, plmn_digits q, e)"
    "ran_name m = plmn_text t q @ CHR ''_'' # hex_text e" "bcd_plmn q" "(l, t) \<in> {(1, ''gnb_''), (2, ''en_gnb_'')}" by metis
  show ?thesis
  proof (cases "k = l")
    case True
    with n(4) m(4) have "s = t" by auto
    then have "length (plmn_text s p) = length (plmn_text t q)" using plmn_text_shape n(3) m(3) by simp
    with \<open>s = t\<close> True show ?thesis
      using plmn_text_inject [OF n(3) m(3)] by (simp add: n m hex_text_inject)
  next
    case False
    have "k = 1 \<longleftrightarrow> l \<noteq> 1" using n(4) m(4) False by auto
    then have "ran_name n \<noteq> ran_name m"
      using plmn_text_kind [OF n(4), of p "CHR ''_'' # hex_text d"] plmn_text_kind [OF m(4), of q "CHR ''_'' # hex_text e"]
      by (metis m(2) n(2))
    with False show ?thesis by (simp add: n m)
  qed
qed

text \<open>
  (C27) Two gNBs or en-gNBs, with PLMNs in decimal digits and ids of at most four octets, are given the
  same name by \<^verbatim>\<open>buildRanName\<close> exactly when they are of the same kind, have the same octets of the id and the
  same country and network digits, where a network code of two digits counts as one of three digits
  with a leading 0. The number of unused bits of the last octet of the id is not part of the name.
\<close>

theorem ran_name_identifies:
  assumes "named_node n" and "named_node m"
  shows "buildRanName (zero_buf 64) n = buildRanName (zero_buf 64) m \<longleftrightarrow> name_key n = name_key m"
proof -
  have kept: "c_str (ran_name k @ zero_buf (64 - length (ran_name k))) = ran_name k" if "named_node k" for k
    using buildRanName_named [OF that] by (auto simp: c_str_def zero_buf_def takeWhile_append)
  have "buildRanName (zero_buf 64) n = buildRanName (zero_buf 64) m \<longleftrightarrow> ran_name n = ran_name m"
    using buildRanName_named [OF assms(1)] buildRanName_named [OF assms(2)] kept [OF assms(1)] kept [OF assms(2)]
    by (metis prod.inject sum.inject(2))
  then show ?thesis by (simp only: ran_name_inject [OF assms])
qed

text \<open>The network codes 41 and 041 under country code 310 are not told apart.\<close>

theorem ran_name_identifies_witness:
  "buildRanName (zero_buf 64) (NODE_gNB \<lparr>plmn_id = [0x13, 0xF0, 0x14], node_id = GNB_ID_gnb_ID [0xB5]\<rparr>)
   = buildRanName (zero_buf 64) (NODE_gNB \<lparr>plmn_id = [0x13, 0x10, 0x40], node_id = GNB_ID_gnb_ID [0xB5]\<rparr>)"
  by (subst ran_name_identifies) (simp_all add: bcd_plmn_def plmn_digits_def del: buildRanName.simps)

text \<open>An ng-eNB and an eNB are never accepted.\<close>

lemma enb_rejected:
  "buildRanName buf (NODE_eNB g) = Inr (r, buf') \<Longrightarrow> r = -1"
  "buildRanName buf (NODE_ng_eNB h) = Inr (r, buf') \<Longrightarrow> r = -1"
  by auto

lemma buildRanName_length: "buildRanName buf node = Inr (r, buf') \<Longrightarrow> length buf' = length buf"
proof -
  have memcpy: "memcpy b s = Inr b' \<Longrightarrow> length b' = length b" for b s b'
    by (auto simp: memcpy_def split: if_splits)
  then have append: "append_text b s = Inr b' \<Longrightarrow> length b' = length b" for b s b'
    by (auto simp: append_text_def Let_def split: if_splits)
  have hex: "hex_loop bs b = Inr b' \<Longrightarrow> length b' = length b" for bs b b'
    by (induction bs arbitrary: b) (auto dest!: append)
  have plmn: "translatePlmnId b p s = Inr b' \<Longrightarrow> length b' = length b" for b p s b'
    by (auto simp: translatePlmnId_def snprintf_def dest!: memcpy split: if_splits)
  have bits: "translateBitStringToChar b d = Inr b' \<Longrightarrow> length b' = length b" for b d b'
    by (auto simp: translateBitStringToChar_def dest!: append hex)
  have both: "plmn_and_id b p s d = Inr b' \<Longrightarrow> length b' = length b" for b p s d b'
    by (auto simp: plmn_and_id_def dest!: plmn bits)
  assume build: "buildRanName buf node = Inr (r, buf')"
  show ?thesis
  proof (cases node)
    case (NODE_gNB g)
    with build show ?thesis by (cases "node_id g") (auto dest!: plmn bits)
  next
    case (NODE_en_gNB g)
    with build show ?thesis by (cases "node_id g") (auto dest!: plmn bits)
  next
    case (NODE_ng_eNB g)
    with build show ?thesis by (cases "node_id g") (auto simp: ng_eNB_name_def eNB_name_def dest!: both)
  next
    case (NODE_eNB g)
    with build show ?thesis by (cases "node_id g") (auto simp: eNB_name_def dest!: both)
  qed (use build in auto)
qed

end
