(* ===== verification/E2tState.thy ===== *)
theory E2tState
  imports E2apWrapper RanName "HOL-Library.AList"
begin

text \<open>
  The state of the E2 termination (\<^verbatim>\<open>sctpThread.h\<close>, \<^verbatim>\<open>mapWrapper.h\<close>): the peers, the map
  from RAN names to peers, the buffers of one listener thread, the traffic counters and what has
  been sent so far.

  A \<^verbatim>\<open>ConnectedCU_t\<close> lives at a 64 bit address; \<open>peers\<close> says which addresses hold one, so
  reading through a pointer to a freed peer is the fault \<open>Use_after_free\<close>. What system calls and
  the RMR library answer is taken from lists in the state, one per kind of call; a call that
  finds its list empty has not been answered (\<open>Not_returned\<close>). The codecs and constants of
  third-party code are the record \<open>ext\<close>.
\<close>

section \<open>Data\<close>

type_synonym addr = "64 word"

text \<open>RMR message types; \<open>Mtype\<close> is any other number.\<close>

datatype mtype =
    RIC_E2_SETUP_REQ | RIC_E2_SETUP_RESP | RIC_E2_SETUP_FAILURE | RIC_ERROR_INDICATION | RIC_E2_RESET_REQ
  | RIC_E2_RESET_RESP | RIC_SUB_REQ | RIC_SUB_RESP | RIC_SUB_FAILURE | RIC_SUB_DEL_REQ | RIC_SUB_DEL_RESP
  | RIC_CONTROL_REQ | RIC_CONTROL_ACK | RIC_CONTROL_FAILURE | RIC_INDICATION | RIC_SERVICE_QUERY
  | RIC_SERVICE_UPDATE | RIC_SERVICE_UPDATE_ACK | RIC_SERVICE_UPDATE_FAILURE | RIC_SCTP_CONNECTION_FAILURE
  | RIC_SCTP_CLEAR_ALL | E2_TERM_KEEP_ALIVE_REQ | E2_TERM_KEEP_ALIVE_RESP | RIC_HEALTH_CHECK_REQ
  | RIC_HEALTH_CHECK_RESP | E2_TERM_INIT | Mtype int

text \<open>An RMR buffer; the payload is the whole buffer, of which \<open>mb_len\<close> octets count.\<close>

record mbuf =
  mb_mtype :: mtype
  mb_state :: int
  mb_len :: int
  mb_payload :: "byte list"
  mb_meid :: string
  mb_xact :: string
  mb_sub_id :: int

datatype dir = IN_INITI | IN_SUCC | IN_UN_SUCC | OUT_INITI | OUT_SUCC | OUT_UN_SUCC

text \<open>
  A traffic counter counts messages and octets. \<open>counters\<close> gives the counters a peer has
  pointers to, by the name they are registered under; \<open>None\<close> is a null pointer.
\<close>

type_synonym cidx = "dir \<times> int"

record peer =
  fileDescriptor :: int
  hostName :: string
  portNumber :: string
  enodbName :: "char list"
  asnData :: "byte list"
  asnLength :: int
  mtype :: mtype
  isConnected :: bool
  gotSetup :: bool
  counters :: "cidx \<Rightarrow> string option"

datatype epoll_data = Data_fd int | Data_ptr addr

datatype epoll_flag = EPOLLIN | EPOLLOUT | EPOLLERR | EPOLLHUP | EPOLLET

datatype errno = EINTR | EAGAIN | Errno_other

datatype effect =
    Sctp_send int "byte list"
  | Rmr_send mbuf
  | Rmr_return mbuf
  | Close int
  | Trace string mtype char "byte list"

record e2t =
  peers :: "addr \<Rightarrow> peer option"
  keyMap :: "(string \<times> addr) list"
  interest :: "int \<Rightarrow> (epoll_data \<times> epoll_flag set) option"
  sendMessage :: "mbuf option"
  rcvMessage :: "mbuf option"
  transactionCounter :: int
  num_of_XAPP_messages :: int
  jsonTrace :: bool
  metrics :: "string option \<times> cidx \<Rightarrow> nat \<times> int"
  rmr_in :: "mbuf option list"
  send_in :: "errno option list"
  epoll_in :: "bool list"
  malloc_in :: "bool list"
  sockopt_in :: "(int \<times> int \<times> string) list"
  out :: "effect list"

text \<open>Elements of messages: \<^verbatim>\<open>GlobalE2node_ID\<close> is read, the other opaque ones are not.\<close>

datatype node_ie = Node GlobalE2node_ID | Opaque

type_synonym pdu = "node_ie E2AP_PDU"

record ext =
  asn_decode_per :: "byte list \<Rightarrow> pdu option"
  asn_encode_per :: "pdu \<Rightarrow> byte list option"
  asn_decode_xer :: "byte list \<Rightarrow> pdu option"
  asn_encode_xer :: "pdu \<Rightarrow> byte list option"
  rmr_alloc_msg :: "mbuf option"
  rmr_err_retry :: int
  mtype_number :: "mtype \<Rightarrow> int"

record sctp_params =
  listenFD :: int
  rmrListenFd :: int
  inotifyFD :: int
  myIP :: string
  rmrPort :: nat
  ka_message :: string

text \<open>\<^verbatim>\<open>FormatedMessage_t\<close>; the pointer to the octets says which buffer it points to.\<close>

datatype asn_source = No_data | Send_payload | Rcv_payload | Peer_data addr

record reporting =
  msg_enodbName :: "char list"
  msg_messageType :: mtype
  msg_direction :: char
  msg_asnLength :: int
  msg_asndata :: asn_source

definition reporting_zero :: reporting where
  "reporting_zero = \<lparr>msg_enodbName = zero_buf 64, msg_messageType = Mtype 0, msg_direction = CHR 0x00,
     msg_asnLength = 0, msg_asndata = No_data\<rparr>"

section \<open>The map from names to peers\<close>

definition map_find :: "(string \<times> addr) list \<Rightarrow> string \<Rightarrow> addr option" where
  "map_find m key = map_of m key"

definition map_setkey :: "string \<Rightarrow> addr \<Rightarrow> (string \<times> addr) list \<Rightarrow> (string \<times> addr) list" where
  "map_setkey key val m = AList.update key val m"

definition map_erase :: "string \<Rightarrow> (string \<times> addr) list \<Rightarrow> (string \<times> addr) list" where
  "map_erase key m = AList.delete key m"

definition map_clear :: "(string \<times> addr) list \<Rightarrow> (string \<times> addr) list" where
  "map_clear m = []"

definition map_getKeys :: "(string \<times> addr) list \<Rightarrow> string list" where
  "map_getKeys m = map fst m"

text \<open>
  What the handlers need of the map. A registry says under which name a peer is registered;
  \<open>registers m nm\<close> states that the map holds exactly the registered peers.
\<close>

definition registers :: "(string \<Rightarrow> addr option) \<Rightarrow> (addr \<Rightarrow> string option) \<Rightarrow> bool" where
  "registers look nm \<longleftrightarrow> (\<forall>k a. look k = Some a \<longleftrightarrow> nm a = Some k)"

locale name_table =
  fixes ok :: "'m \<Rightarrow> bool"
    and find :: "'m \<Rightarrow> string \<Rightarrow> addr option"
    and setkey :: "string \<Rightarrow> addr \<Rightarrow> 'm \<Rightarrow> 'm"
    and erase :: "string \<Rightarrow> 'm \<Rightarrow> 'm"
    and clear :: "'m \<Rightarrow> 'm"
    and keys :: "'m \<Rightarrow> string list"
  assumes find_setkey: "ok m \<Longrightarrow> find (setkey k a m) l = (if l = k then Some a else find m l)"
    and find_erase: "ok m \<Longrightarrow> find (erase k m) l = (if l = k then None else find m l)"
    and find_clear: "find (clear m) l = None"
    and keys_find: "ok m \<Longrightarrow> distinct (keys m) \<and> (l \<in> set (keys m) \<longleftrightarrow> find m l \<noteq> None)"
    and ok_setkey: "ok m \<Longrightarrow> ok (setkey k a m)"
    and ok_erase: "ok m \<Longrightarrow> ok (erase k m)"
    and ok_clear: "ok (clear m)"
begin

lemma register:
  assumes "ok m" and "registers (find m) nm" and "find m k = None" and "nm a = None"
  shows "registers (find (setkey k a m)) (nm(a := Some k))"
  using assms by (auto simp: registers_def find_setkey) (metis option.distinct(1))

lemma unregister:
  assumes "ok m" and "registers (find m) nm" and "nm a = Some k"
  shows "registers (find (erase k m)) (nm(a := None))"
  using assms by (auto simp: registers_def find_erase) (metis option.inject)+

lemma erase_absent:
  assumes "ok m" and "registers (find m) nm" and "\<forall>a. nm a \<noteq> Some k"
  shows "registers (find (erase k m)) nm"
  using assms by (auto simp: registers_def find_erase)

lemma clear_registers: "registers (find (clear m)) (\<lambda>a. None)"
  by (simp add: registers_def find_clear)

end

lemma map_of_erase: "map_of (map_erase k m) l = (if l = k then None else map_of m l)"
  by (simp add: map_erase_def delete_conv)

interpretation peer_map: name_table "\<lambda>m. distinct (map fst m)" map_find map_setkey map_erase map_clear map_getKeys
proof unfold_locales
  fix m :: "(string \<times> addr) list" and l
  assume d: "distinct (map fst m)"
  show "distinct (map_getKeys m) \<and> (l \<in> set (map_getKeys m) \<longleftrightarrow> map_find m l \<noteq> None)"
    using d by (auto simp: map_getKeys_def map_find_def map_of_eq_None_iff)
qed (auto simp: map_find_def map_setkey_def map_erase_def map_clear_def update_conv distinct_update
    delete_conv distinct_delete)

end
