(* ===== verification/E2tSend.thy ===== *)
theory E2tSend
  imports E2tState
begin

text \<open>
  The functions of \<^verbatim>\<open>sctpThread.cpp\<close> that the message handlers are built from: counting traffic,
  sending to the RIC over RMR and to a RAN over SCTP, cleaning up a peer, epoll registrations.
\<close>

section \<open>Peers and blocks\<close>

definition peer_at :: "addr \<Rightarrow> e2t \<Rightarrow> fault + peer" where
  "peer_at a st = (case peers st a of None \<Rightarrow> Inl Use_after_free | Some p \<Rightarrow> Inr p)"

definition set_peer :: "addr \<Rightarrow> peer \<Rightarrow> e2t \<Rightarrow> e2t" where
  "set_peer a p st = st\<lparr>peers := (peers st)(a := Some p)\<rparr>"

definition free_block :: "addr \<Rightarrow> e2t \<Rightarrow> fault + e2t" where
  "free_block a st =
     (case peers st a of None \<Rightarrow> Inl Use_after_free | Some _ \<Rightarrow> Inr (st\<lparr>peers := (peers st)(a := None)\<rparr>))"

text \<open>Closing a descriptor takes it out of the epoll set.\<close>

definition close_fd :: "int \<Rightarrow> e2t \<Rightarrow> e2t" where
  "close_fd fd st = st\<lparr>interest := (interest st)(fd := None), out := out st @ [Close fd]\<rparr>"

section \<open>Counting\<close>

abbreviation (input) ProcedureCode_id_E2setup :: int where "ProcedureCode_id_E2setup \<equiv> 1"
abbreviation (input) ProcedureCode_id_ErrorIndication :: int where "ProcedureCode_id_ErrorIndication \<equiv> 2"
abbreviation (input) ProcedureCode_id_Reset :: int where "ProcedureCode_id_Reset \<equiv> 3"
abbreviation (input) ProcedureCode_id_RICcontrol :: int where "ProcedureCode_id_RICcontrol \<equiv> 4"
abbreviation (input) ProcedureCode_id_RICserviceQuery :: int where "ProcedureCode_id_RICserviceQuery \<equiv> 6"
abbreviation (input) ProcedureCode_id_RICserviceUpdate :: int where "ProcedureCode_id_RICserviceUpdate \<equiv> 7"
abbreviation (input) id_GlobalE2node_ID :: int where "id_GlobalE2node_ID \<equiv> 3"

text \<open>The counters that exist once for the termination: always the pair of messages and octets.\<close>

definition buildE2TPrometheusCounters :: "cidx list" where
  "buildE2TPrometheusCounters =
     [(IN_INITI, ProcedureCode_id_E2setup), (OUT_SUCC, ProcedureCode_id_E2setup), (OUT_UN_SUCC, ProcedureCode_id_E2setup),
      (IN_INITI, ProcedureCode_id_ErrorIndication), (IN_INITI, ProcedureCode_id_Reset), (OUT_SUCC, ProcedureCode_id_Reset),
      (IN_INITI, ProcedureCode_id_RICserviceUpdate), (OUT_SUCC, ProcedureCode_id_RICserviceUpdate),
      (OUT_UN_SUCC, ProcedureCode_id_RICserviceUpdate), (OUT_INITI, ProcedureCode_id_RICcontrol),
      (IN_SUCC, ProcedureCode_id_RICcontrol), (IN_UN_SUCC, ProcedureCode_id_RICcontrol),
      (OUT_INITI, ProcedureCode_id_RICsubscription), (IN_SUCC, ProcedureCode_id_RICsubscription),
      (IN_UN_SUCC, ProcedureCode_id_RICsubscription), (OUT_INITI, ProcedureCode_id_RICsubscriptionDelete),
      (IN_SUCC, ProcedureCode_id_RICsubscriptionDelete), (IN_UN_SUCC, ProcedureCode_id_RICsubscriptionDelete),
      (IN_INITI, ProcedureCode_id_RICindication), (OUT_INITI, ProcedureCode_id_RICserviceQuery)]"

text \<open>The counters of a peer, registered under its name when it sets up.\<close>

definition peer_counters :: "cidx list" where
  "peer_counters =
     [(IN_INITI, ProcedureCode_id_E2setup), (IN_INITI, ProcedureCode_id_ErrorIndication),
      (IN_INITI, ProcedureCode_id_RICindication), (IN_INITI, ProcedureCode_id_Reset),
      (IN_INITI, ProcedureCode_id_RICserviceUpdate), (IN_SUCC, ProcedureCode_id_Reset),
      (IN_SUCC, ProcedureCode_id_RICcontrol), (IN_SUCC, ProcedureCode_id_RICsubscription),
      (IN_SUCC, ProcedureCode_id_RICsubscriptionDelete), (IN_UN_SUCC, ProcedureCode_id_RICcontrol),
      (IN_UN_SUCC, ProcedureCode_id_RICsubscription), (IN_UN_SUCC, ProcedureCode_id_RICsubscriptionDelete),
      (OUT_INITI, ProcedureCode_id_ErrorIndication), (OUT_INITI, ProcedureCode_id_Reset),
      (OUT_INITI, ProcedureCode_id_RICcontrol), (OUT_INITI, ProcedureCode_id_RICserviceQuery),
      (OUT_INITI, ProcedureCode_id_RICsubscription), (OUT_INITI, ProcedureCode_id_RICsubscriptionDelete),
      (OUT_SUCC, ProcedureCode_id_E2setup), (OUT_SUCC, ProcedureCode_id_Reset),
      (OUT_SUCC, ProcedureCode_id_RICserviceUpdate), (OUT_UN_SUCC, ProcedureCode_id_E2setup),
      (OUT_UN_SUCC, ProcedureCode_id_RICserviceUpdate)]"

definition buildPrometheusList :: "peer \<Rightarrow> peer" where
  "buildPrometheusList p =
     p\<lparr>counters := (\<lambda>i. if i \<in> set peer_counters then Some (c_str (enodbName p)) else counters p i)\<rparr>"

definition bump :: "string option \<times> cidx \<Rightarrow> int \<Rightarrow> e2t \<Rightarrow> e2t" where
  "bump key n st =
     st\<lparr>metrics := (metrics st)(key := (fst (metrics st key) + 1, snd (metrics st key) + n))\<rparr>"

definition count_peer :: "addr \<Rightarrow> cidx \<Rightarrow> int \<Rightarrow> e2t \<Rightarrow> fault + e2t" where
  "count_peer a i n st = fault_bind (peer_at a st) (\<lambda>p.
     case counters p i of None \<Rightarrow> Inl Null_deref | Some name \<Rightarrow> Inr (bump (Some name, i) n st))"

definition count_e2t :: "cidx \<Rightarrow> int \<Rightarrow> e2t \<Rightarrow> fault + e2t" where
  "count_e2t i n st = (if i \<in> set buildE2TPrometheusCounters then Inr (bump (None, i) n st) else Inl Null_deref)"

text \<open>The four increments of every handler: the peer's counters, then those of the termination.\<close>

definition count_traffic :: "addr \<Rightarrow> cidx \<Rightarrow> cidx \<Rightarrow> int \<Rightarrow> e2t \<Rightarrow> fault + e2t" where
  "count_traffic a i j n st = fault_bind (count_peer a i n st) (count_e2t j n)"

section \<open>Tracing\<close>

definition asn_octets :: "reporting \<Rightarrow> e2t \<Rightarrow> fault + byte list" where
  "asn_octets msg st =
     (case msg_asndata msg of
        No_data \<Rightarrow> Inl Null_deref
      | Send_payload \<Rightarrow> (case sendMessage st of None \<Rightarrow> Inl Use_after_free | Some mb \<Rightarrow> Inr (take (nat (msg_asnLength msg)) (mb_payload mb)))
      | Rcv_payload \<Rightarrow> (case rcvMessage st of None \<Rightarrow> Inl Use_after_free | Some mb \<Rightarrow> Inr (take (nat (msg_asnLength msg)) (mb_payload mb)))
      | Peer_data a \<Rightarrow> fault_bind (peer_at a st) (\<lambda>p. Inr (take (nat (msg_asnLength msg)) (asnData p))))"

definition buildJsonMessage :: "reporting \<Rightarrow> e2t \<Rightarrow> fault + e2t" where
  "buildJsonMessage msg st =
     (if jsonTrace st then fault_bind (asn_octets msg st) (\<lambda>bs.
        Inr (st\<lparr>out := out st @ [Trace (c_str (msg_enodbName msg)) (msg_messageType msg) (msg_direction msg) bs]\<rparr>))
      else Inr st)"

section \<open>Sending to the RIC\<close>

text \<open>The library takes the buffer and answers with the one to use next, or with none.\<close>

definition rmr_send_buf :: "mbuf \<Rightarrow> e2t \<Rightarrow> fault + mbuf option \<times> e2t" where
  "rmr_send_buf mb st =
     (case rmr_in st of
        [] \<Rightarrow> Inl Not_returned
      | r # rs \<Rightarrow> Inr (r, st\<lparr>rmr_in := rs, out := out st @ [Rmr_send mb]\<rparr>))"

definition rmr_send_msg :: "e2t \<Rightarrow> fault + e2t" where
  "rmr_send_msg st =
     (case sendMessage st of
        None \<Rightarrow> Inl Null_deref
      | Some mb \<Rightarrow> fault_bind (rmr_send_buf mb st) (\<lambda>(r, st1). Inr (st1\<lparr>sendMessage := r\<rparr>)))"

definition sendRmrMessage :: "ext \<Rightarrow> reporting \<Rightarrow> e2t \<Rightarrow> fault + int \<times> e2t" where
  "sendRmrMessage x msg st =
     fault_bind (buildJsonMessage msg st) (\<lambda>st1.
     fault_bind (rmr_send_msg st1) (\<lambda>st2.
       case sendMessage st2 of
         None \<Rightarrow> Inr (-1, st2\<lparr>sendMessage := rmr_alloc_msg x\<rparr>)
       | Some mb \<Rightarrow>
           if mb_state mb = 0 then Inr (0, st2)
           else if mb_state mb = rmr_err_retry x then
             fault_bind (rmr_send_msg (st2\<lparr>sendMessage := Some (mb\<lparr>mb_state := 0\<rparr>)\<rparr>)) (\<lambda>st3.
               case sendMessage st3 of
                 None \<Rightarrow> Inr (-1, st3\<lparr>sendMessage := rmr_alloc_msg x\<rparr>)
               | Some mb' \<Rightarrow> Inr (mb_state mb', st3))
           else Inr (mb_state mb, st2)))"

text \<open>\<^verbatim>\<open>snprintf(tx, sizeof tx, "%15ld", transactionCounter++)\<close>\<close>

definition pad15 :: "string \<Rightarrow> string" where
  "pad15 s = replicate (15 - length s) CHR '' '' @ s"

definition next_transaction :: "e2t \<Rightarrow> string \<times> e2t" where
  "next_transaction st = (pad15 (decimal_int (transactionCounter st)), st\<lparr>transactionCounter := transactionCounter st + 1\<rparr>)"

definition with_send :: "(mbuf \<Rightarrow> mbuf) \<Rightarrow> e2t \<Rightarrow> fault + e2t" where
  "with_send f st =
     (case sendMessage st of None \<Rightarrow> Inl Null_deref | Some mb \<Rightarrow> Inr (st\<lparr>sendMessage := Some (f mb)\<rparr>))"

definition sendRequestToXapp :: "ext \<Rightarrow> reporting \<Rightarrow> mtype \<Rightarrow> e2t \<Rightarrow> fault + int \<times> reporting \<times> e2t" where
  "sendRequestToXapp x msg requestId st =
     (let (tx, st1) = next_transaction st; msg' = msg\<lparr>msg_messageType := requestId\<rparr>
      in fault_bind (with_send (\<lambda>mb. mb\<lparr>mb_meid := c_str (msg_enodbName msg), mb_mtype := requestId, mb_state := 0,
             mb_xact := tx\<rparr>) st1) (\<lambda>st2.
         fault_bind (sendRmrMessage x msg' st2) (\<lambda>(rc, st3). Inr (rc, msg', st3))))"

text \<open>\<^verbatim>\<open>snprintf\<close> of a text into the payload, at most \<open>n\<close> characters with the NUL.\<close>

definition overwrite :: "byte list \<Rightarrow> byte list \<Rightarrow> byte list" where
  "overwrite new old = new @ drop (length new) old"

definition payload_text :: "nat \<Rightarrow> string \<Rightarrow> mbuf \<Rightarrow> mbuf" where
  "payload_text n s mb = mb\<lparr>mb_len := int (length s),
     mb_payload := overwrite (text_octets (take (n - 1) s @ [CHR 0x00])) (mb_payload mb)\<rparr>"

text \<open>Tell the RIC that a connection failed: the name, a bar and the reason.\<close>

definition report_failure :: "ext \<Rightarrow> reporting \<Rightarrow> string \<Rightarrow> e2t \<Rightarrow> fault + e2t" where
  "report_failure x msg text st =
     fault_bind (with_send (payload_text 256 text) st) (\<lambda>st1.
     fault_bind (sendRequestToXapp x (msg\<lparr>msg_asndata := Send_payload, msg_asnLength := int (length text)\<rparr>)
       RIC_SCTP_CONNECTION_FAILURE st1) (\<lambda>(rc, msg', st2). Inr st2))"

section \<open>Cleaning up a peer\<close>

definition host_key :: "peer \<Rightarrow> string" where
  "host_key p = ''host:'' @ hostName p @ '':'' @ decimal (nat (strtol (portNumber p) mod 2 ^ 16))"

definition cleanHashEntry :: "addr \<Rightarrow> e2t \<Rightarrow> fault + e2t" where
  "cleanHashEntry a st =
     fault_bind (peer_at a st) (\<lambda>p.
       free_block a (st\<lparr>keyMap := map_erase (c_str (enodbName p)) (map_erase (host_key p) (keyMap st))\<rparr>))"

definition message_key :: "ext \<Rightarrow> string \<Rightarrow> mtype \<Rightarrow> string" where
  "message_key x name t = take 127 (''msg:'' @ name @ ''|'' @ decimal_int (mtype_number x t))"

definition drop_message_entry :: "string \<Rightarrow> e2t \<Rightarrow> fault + e2t" where
  "drop_message_entry key st =
     fault_bind (case map_find (keyMap st) key of None \<Rightarrow> Inr st | Some tmp \<Rightarrow> free_block tmp st) (\<lambda>st1.
       Inr (st1\<lparr>keyMap := map_erase key (keyMap st1)\<rparr>))"

section \<open>Sending to a RAN\<close>

fun send_result :: "errno option list \<Rightarrow> fault + bool \<times> errno option list" where
  "send_result [] = Inl Not_returned"
| "send_result (None # rs) = Inr (True, rs)"
| "send_result (Some e # rs) = (if e = EINTR then send_result rs else Inr (False, rs))"

definition sendSctpMsg :: "ext \<Rightarrow> addr \<Rightarrow> reporting \<Rightarrow> e2t \<Rightarrow> fault + int \<times> e2t" where
  "sendSctpMsg x a msg st =
     fault_bind (peer_at a st) (\<lambda>p.
     fault_bind (asn_octets msg st) (\<lambda>bs.
     fault_bind (send_result (send_in st)) (\<lambda>(sent, rs).
       if sent then
         fault_bind (buildJsonMessage (msg\<lparr>msg_direction := CHR ''D''\<rparr>)
             (st\<lparr>send_in := rs, out := out st @ [Sctp_send (fileDescriptor p) bs]\<rparr>)) (\<lambda>st1. Inr (0, st1))
       else if \<not> isConnected p then Inr (-1, st\<lparr>send_in := rs\<rparr>)
       else
         fault_bind (cleanHashEntry a (st\<lparr>send_in := rs\<rparr>)) (\<lambda>st1.
         fault_bind (drop_message_entry (message_key x (c_str (msg_enodbName msg)) (msg_messageType msg))
             (close_fd (fileDescriptor p) st1)) (\<lambda>st2. Inr (-1, st2))))))"

definition sendDirectionalSctpMsg :: "ext \<Rightarrow> addr \<Rightarrow> reporting \<Rightarrow> e2t \<Rightarrow> fault + int \<times> e2t" where
  "sendDirectionalSctpMsg x a msg st =
     (case rcvMessage st of
        None \<Rightarrow> Inl Null_deref
      | Some mb \<Rightarrow> sendSctpMsg x a (msg\<lparr>msg_asndata := Rcv_payload, msg_asnLength := mb_len mb, msg_messageType := mb_mtype mb\<rparr>) st)"

section \<open>Epoll\<close>

definition epoll_ctl :: "int \<Rightarrow> epoll_data \<Rightarrow> epoll_flag set \<Rightarrow> e2t \<Rightarrow> fault + bool \<times> e2t" where
  "epoll_ctl fd data events st =
     (case epoll_in st of
        [] \<Rightarrow> Inl Not_returned
      | ok # rs \<Rightarrow>
          Inr (ok, (if ok then st\<lparr>interest := (interest st)(fd \<mapsto> (data, events)), epoll_in := rs\<rparr> else st\<lparr>epoll_in := rs\<rparr>)))"

definition addToEpoll ::
  "ext \<Rightarrow> addr \<Rightarrow> epoll_flag set \<Rightarrow> string option \<Rightarrow> mtype \<Rightarrow> e2t \<Rightarrow> fault + int \<times> e2t" where
  "addToEpoll x a events name msgType st =
     fault_bind (peer_at a st) (\<lambda>p.
     fault_bind (epoll_ctl (fileDescriptor p) (Data_ptr a) events st) (\<lambda>(ok, st1).
       if ok then Inr (0, st1)
       else
         case name of
           Some n \<Rightarrow>
             fault_bind (cleanHashEntry a (close_fd (fileDescriptor p) st1)) (\<lambda>st2.
             fault_bind (drop_message_entry (message_key x n msgType) st2) (\<lambda>st3. Inr (-1, st3)))
         | None \<Rightarrow>
             Inr (-1, set_peer a (p\<lparr>enodbName := (enodbName p)[0 := CHR 0x00]\<rparr>) (close_fd (fileDescriptor p) st1))))"

text \<open>The name is read through the peer after \<^verbatim>\<open>cleanHashEntry\<close> has freed it.\<close>

definition modifyToEpoll :: "ext \<Rightarrow> addr \<Rightarrow> epoll_flag set \<Rightarrow> mtype \<Rightarrow> e2t \<Rightarrow> fault + int \<times> e2t" where
  "modifyToEpoll x a events msgType st =
     fault_bind (peer_at a st) (\<lambda>p.
     fault_bind (epoll_ctl (fileDescriptor p) (Data_ptr a) events st) (\<lambda>(ok, st1).
       if ok then Inr (0, st1)
       else
         fault_bind (cleanHashEntry a (close_fd (fileDescriptor p) st1)) (\<lambda>st2.
         fault_bind (peer_at a st2) (\<lambda>q.
         fault_bind (drop_message_entry (message_key x (c_str (enodbName q)) msgType) st2) (\<lambda>st3. Inr (-1, st3))))))"

end
