(* ===== verification/E2tReceive.thy ===== *)
theory E2tReceive
  imports E2tSend
begin

text \<open>
  What the E2 termination does with data from a RAN: \<^verbatim>\<open>receiveDataFromSctp\<close> and the handlers
  of initiating messages, successful and unsuccessful outcomes in \<^verbatim>\<open>sctpThread.cpp\<close>. The debug
  output of the messages is left out.
\<close>

section \<open>E2 setup requests\<close>

text \<open>
  \<^verbatim>\<open>collectSetupRequestData\<close>: the name is built in the peer, copied over the one in the message
  without its NUL, and registered.
\<close>

fun collect_loop :: "addr \<Rightarrow> node_ie ie list \<Rightarrow> reporting \<Rightarrow> e2t \<Rightarrow> fault + int \<times> reporting \<times> e2t" where
  "collect_loop a [] msg st = Inr (0, msg, st)"
| "collect_loop a (ie # ies) msg st =
     (if fld_id ie = id_GlobalE2node_ID then
        case fld_value ie of
          IE_other DEF_GlobalE2node_ID v \<Rightarrow>
            (case v of
               Opaque \<Rightarrow> Inl Wrong_member
             | Node node \<Rightarrow>
                 fault_bind (peer_at a st) (\<lambda>p.
                 fault_bind (buildRanName (enodbName p) node) (\<lambda>(r, name).
                   let p' = p\<lparr>enodbName := name\<rparr>; st1 = set_peer a p' st
                   in if r < 0 then Inr (-1, msg, st1)
                      else
                        fault_bind (memcpy (msg_enodbName msg) (c_str name)) (\<lambda>copied.
                          collect_loop a ies (msg\<lparr>msg_enodbName := copied\<rparr>)
                            (st1\<lparr>keyMap := map_setkey (c_str copied) a (keyMap st1)\<rparr>)))))
        | _ \<Rightarrow> collect_loop a ies msg st
      else collect_loop a ies msg st)"

definition collectSetupRequestData ::
  "addr \<Rightarrow> node_ie elementary \<Rightarrow> reporting \<Rightarrow> e2t \<Rightarrow> fault + int \<times> reporting \<times> e2t" where
  "collectSetupRequestData a m msg st =
     fault_bind (peer_at a st) (\<lambda>p.
       collect_loop a (set_items (em_protocolIEs m)) msg (set_peer a (p\<lparr>enodbName := zero_buf 64\<rparr>) st))"

definition malloc_call :: "e2t \<Rightarrow> fault + bool \<times> e2t" where
  "malloc_call st = (case malloc_in st of [] \<Rightarrow> Inl Not_returned | ok # oks \<Rightarrow> Inr (ok, st\<lparr>malloc_in := oks\<rparr>))"

definition xer_buffer_size :: nat where
  "xer_buffer_size = 512 * 1024"

text \<open>
  Encoding into a growing buffer: the second try has room for the text. \<open>None\<close> when an allocation
  or the encoder failed. A text as long as the buffer is terminated beyond its end.
\<close>

definition setup_xml :: "ext \<Rightarrow> pdu \<Rightarrow> e2t \<Rightarrow> fault + byte list option \<times> e2t" where
  "setup_xml x pdu st =
     fault_bind (malloc_call st) (\<lambda>(ok, st1).
       if \<not> ok then Inr (None, st1)
       else
         case asn_encode_xer x pdu of
           None \<Rightarrow> Inr (None, st1)
         | Some xml \<Rightarrow>
             if xer_buffer_size < length xml then
               fault_bind (malloc_call st1) (\<lambda>(ok', st2). Inr (if ok' then Some xml else None, st2))
             else if length xml = xer_buffer_size then Inl Out_of_bounds
             else Inr (Some xml, st1))"

definition without_blanks :: "byte list \<Rightarrow> string" where
  "without_blanks xml = filter (\<lambda>c. c \<notin> {CHR 0x0A, CHR 0x09, CHR '' ''}) (c_str (map (\<lambda>b. char_of (unat b)) xml))"

text \<open>One retry when the library asks for it; the state that is left is only logged.\<close>

definition rmr_send_retry :: "ext \<Rightarrow> mbuf \<Rightarrow> e2t \<Rightarrow> fault + e2t" where
  "rmr_send_retry x mb st =
     fault_bind (rmr_send_buf mb st) (\<lambda>(r, st1).
       case r of
         None \<Rightarrow> Inr st1
       | Some mb' \<Rightarrow>
           if mb_state mb' \<noteq> 0 \<and> mb_state mb' = rmr_err_retry x then
             fault_bind (rmr_send_buf (mb'\<lparr>mb_state := 0\<rparr>) st1) (\<lambda>(_, st2). Inr st2)
           else Inr st1)"

definition buildAndSendSetupRequest ::
  "ext \<Rightarrow> sctp_params \<Rightarrow> addr \<Rightarrow> pdu \<Rightarrow> reporting \<Rightarrow> e2t \<Rightarrow> fault + e2t" where
  "buildAndSendSetupRequest x par a pdu msg st =
     fault_bind (setup_xml x pdu st) (\<lambda>(r, st1).
       case r of
         None \<Rightarrow> Inr st1
       | Some xml \<Rightarrow>
           let res = without_blanks xml;
               text = myIP par @ '':'' @ decimal (rmrPort par) @ ''|'' @ res;
               (tx, st2) = next_transaction st1
           in case rmr_alloc_msg x of
                None \<Rightarrow> Inl Null_deref
              | Some mb \<Rightarrow>
                  fault_bind (rmr_send_retry x ((payload_text (length res + 256) text mb)\<lparr>mb_mtype := msg_messageType msg,
                      mb_state := 0, mb_meid := c_str (msg_enodbName msg), mb_xact := tx\<rparr>) st2) (\<lambda>st3.
                  fault_bind (peer_at a st3) (\<lambda>p.
                    buildJsonMessage msg (set_peer a (p\<lparr>gotSetup := True\<rparr>) st3))))"

section \<open>Other messages\<close>

definition xapp_buffer_size :: nat where
  "xapp_buffer_size = 256 * 1024"

text \<open>\<^verbatim>\<open>XML_From_PER\<close>: the payload is replaced by its XML; what a failing encoder left there is not modelled.\<close>

definition XML_From_PER :: "ext \<Rightarrow> e2t \<Rightarrow> fault + int \<times> e2t" where
  "XML_From_PER x st =
     (case sendMessage st of
        None \<Rightarrow> Inl Null_deref
      | Some mb \<Rightarrow>
          case asn_decode_per x (take (nat (mb_len mb)) (mb_payload mb)) of
            None \<Rightarrow> Inr (-1, st)
          | Some pdu \<Rightarrow>
              case asn_encode_xer x pdu of
                None \<Rightarrow> Inr (-1, st)
              | Some xml \<Rightarrow>
                  let mb' = mb\<lparr>mb_payload := overwrite (take xapp_buffer_size xml) (mb_payload mb)\<rparr>
                  in if xapp_buffer_size < length xml then Inr (-1, st\<lparr>sendMessage := Some mb'\<rparr>)
                     else Inr (0, st\<lparr>sendMessage := Some (mb'\<lparr>mb_len := int (length xml)\<rparr>)\<rparr>))"

definition int32 :: "int \<Rightarrow> int" where
  "int32 n = sint (word_of_int n :: u32)"

text \<open>
  The loops over the elements of an indication, a control acknowledgement and a control failure:
  the message goes to the xApp of the first request id, with its instance id as subscription id.
\<close>

fun forward_request_id ::
  "ext \<Rightarrow> addr \<Rightarrow> cidx \<Rightarrow> mtype \<Rightarrow> node_ie ie list \<Rightarrow> reporting \<Rightarrow> e2t \<Rightarrow> fault + reporting \<times> e2t" where
  "forward_request_id x a i t [] msg st = Inr (msg, st)"
| "forward_request_id x a i t (ie # ies) msg st =
     (if fld_id ie = id_RICrequestID then
        case fld_value ie of
          IE_RICrequestID r \<Rightarrow>
            let (tx, st1) = next_transaction st; msg' = msg\<lparr>msg_messageType := t\<rparr>
            in fault_bind (with_send (\<lambda>mb. mb\<lparr>mb_mtype := t, mb_state := 0, mb_sub_id := int32 (ricInstanceID r),
                   mb_xact := tx, mb_meid := c_str (msg_enodbName msg)\<rparr>) st1) (\<lambda>st2.
               fault_bind (count_traffic a i i (msg_asnLength msg) st2) (\<lambda>st3.
               fault_bind (sendRmrMessage x msg' st3) (\<lambda>(rc, st4). Inr (msg', st4))))
        | _ \<Rightarrow> forward_request_id x a i t ies msg st
      else forward_request_id x a i t ies msg st)"

text \<open>The handlers that count a message and send it on.\<close>

definition count_and_forward ::
  "ext \<Rightarrow> addr \<Rightarrow> cidx \<Rightarrow> mtype \<Rightarrow> reporting \<Rightarrow> e2t \<Rightarrow> fault + reporting \<times> e2t" where
  "count_and_forward x a i t msg st =
     fault_bind (count_traffic a i i (msg_asnLength msg) st) (\<lambda>st1.
     fault_bind (sendRequestToXapp x msg t st1) (\<lambda>(rc, msg', st2). Inr (msg', st2)))"

definition count_and_forward_xml ::
  "ext \<Rightarrow> addr \<Rightarrow> cidx \<Rightarrow> mtype \<Rightarrow> reporting \<Rightarrow> e2t \<Rightarrow> fault + reporting \<times> e2t" where
  "count_and_forward_xml x a i t msg st =
     fault_bind (count_traffic a i i (msg_asnLength msg) st) (\<lambda>st1.
     fault_bind (XML_From_PER x st1) (\<lambda>(r, st2).
       if r < 0 then Inr (msg, st2)
       else fault_bind (sendRequestToXapp x msg t st2) (\<lambda>(rc, msg', st3). Inr (msg', st3))))"

definition unsupported :: "reporting \<Rightarrow> e2t \<Rightarrow> fault + reporting \<times> e2t" where
  "unsupported msg st =
     (let msg' = msg\<lparr>msg_messageType := Mtype 0\<rparr> in fault_bind (buildJsonMessage msg' st) (\<lambda>st1. Inr (msg', st1)))"

definition asnInitiatingRequest ::
  "ext \<Rightarrow> sctp_params \<Rightarrow> addr \<Rightarrow> pdu \<Rightarrow> node_ie elementary \<Rightarrow> reporting \<Rightarrow> e2t \<Rightarrow> fault + reporting \<times> e2t" where
  "asnInitiatingRequest x par a pdu m msg st =
     (let code = em_procedureCode m
      in if code = ProcedureCode_id_E2setup then
           fault_bind (collectSetupRequestData a m msg st) (\<lambda>(r, msg1, st1).
             if r \<noteq> 0 then Inr (msg1, st1)
             else
               fault_bind (peer_at a st1) (\<lambda>p.
               let st2 = set_peer a (buildPrometheusList p) st1; msg2 = msg1\<lparr>msg_messageType := RIC_E2_SETUP_REQ\<rparr>
               in fault_bind (count_traffic a (IN_INITI, code) (IN_INITI, code) (msg_asnLength msg2) st2) (\<lambda>st3.
                  fault_bind (buildAndSendSetupRequest x par a pdu msg2 st3) (\<lambda>st4. Inr (msg2, st4)))))
         else if code = ProcedureCode_id_RICserviceUpdate then
           let msg1 = msg\<lparr>msg_messageType := RIC_SERVICE_UPDATE\<rparr>
           in fault_bind (count_traffic a (IN_INITI, code) (IN_INITI, code) (msg_asnLength msg1) st) (\<lambda>st1.
              fault_bind (buildAndSendSetupRequest x par a pdu msg1 st1) (\<lambda>st2. Inr (msg1, st2)))
         else if code = ProcedureCode_id_ErrorIndication then
           count_and_forward x a (IN_INITI, code) RIC_ERROR_INDICATION msg st
         else if code = ProcedureCode_id_Reset then
           count_and_forward_xml x a (IN_INITI, code) RIC_E2_RESET_REQ msg st
         else if code = ProcedureCode_id_RICindication then
           forward_request_id x a (IN_INITI, code) RIC_INDICATION (set_items (em_protocolIEs m)) msg st
         else unsupported msg st)"

definition asnSuccessfulMsg ::
  "ext \<Rightarrow> addr \<Rightarrow> node_ie elementary \<Rightarrow> reporting \<Rightarrow> e2t \<Rightarrow> fault + reporting \<times> e2t" where
  "asnSuccessfulMsg x a m msg st =
     (let code = em_procedureCode m
      in if code = ProcedureCode_id_Reset then count_and_forward_xml x a (IN_SUCC, code) RIC_E2_RESET_RESP msg st
         else if code = ProcedureCode_id_RICcontrol then
           forward_request_id x a (IN_SUCC, code) RIC_CONTROL_ACK (set_items (em_protocolIEs m)) msg st
         else if code = ProcedureCode_id_RICsubscription then
           count_and_forward x a (IN_SUCC, code) RIC_SUB_RESP msg st
         else if code = ProcedureCode_id_RICsubscriptionDelete then
           count_and_forward x a (IN_SUCC, code) RIC_SUB_DEL_RESP msg st
         else unsupported msg st)"

definition asnUnSuccsesfulMsg ::
  "ext \<Rightarrow> addr \<Rightarrow> node_ie elementary \<Rightarrow> reporting \<Rightarrow> e2t \<Rightarrow> fault + reporting \<times> e2t" where
  "asnUnSuccsesfulMsg x a m msg st =
     (let code = em_procedureCode m
      in if code = ProcedureCode_id_RICcontrol then
           forward_request_id x a (IN_UN_SUCC, code) RIC_CONTROL_FAILURE (set_items (em_protocolIEs m)) msg st
         else if code = ProcedureCode_id_RICsubscription then
           count_and_forward x a (IN_UN_SUCC, code) RIC_SUB_FAILURE msg st
         else if code = ProcedureCode_id_RICsubscriptionDelete then
           count_and_forward x a (IN_UN_SUCC, code) RIC_SUB_FAILURE msg st
         else unsupported msg st)"

fun dispatch_pdu ::
  "ext \<Rightarrow> sctp_params \<Rightarrow> addr \<Rightarrow> pdu \<Rightarrow> reporting \<Rightarrow> e2t \<Rightarrow> fault + reporting \<times> e2t" where
  "dispatch_pdu x par a (PDU_initiatingMessage m) msg st = asnInitiatingRequest x par a (PDU_initiatingMessage m) m msg st"
| "dispatch_pdu x par a (PDU_successfulOutcome m) msg st = asnSuccessfulMsg x a m msg st"
| "dispatch_pdu x par a (PDU_unsuccessfulOutcome m) msg st = asnUnSuccsesfulMsg x a m msg st"
| "dispatch_pdu x par a PDU_NOTHING msg st = Inr (msg, st)"

section \<open>Reading until there is no more\<close>

text \<open>What \<^verbatim>\<open>read\<close> returns: octets, none at the end of the stream, or an error.\<close>

datatype read_result = Read_octets "byte list" | Read_failed errno

text \<open>One turn of the loop ends the reading with \<open>Some done\<close> or goes on.\<close>

definition receive_step ::
  "ext \<Rightarrow> sctp_params \<Rightarrow> addr \<Rightarrow> read_result \<Rightarrow> reporting \<Rightarrow> e2t \<Rightarrow> fault + bool option \<times> reporting \<times> e2t" where
  "receive_step x par a r msg st =
     fault_bind (peer_at a st) (\<lambda>p.
       let n = (case r of Read_octets bs \<Rightarrow> int (length bs) | Read_failed e \<Rightarrow> -1);
           bs = (case r of Read_octets bs \<Rightarrow> bs | Read_failed e \<Rightarrow> []);
           msg1 = msg\<lparr>msg_asndata := Send_payload, msg_asnLength := n, msg_enodbName := enodbName p, msg_direction := CHR ''U''\<rparr>
       in fault_bind (with_send (\<lambda>mb. mb\<lparr>mb_len := n, mb_payload := overwrite bs (mb_payload mb)\<rparr>) st) (\<lambda>st1.
            case r of
              Read_failed e \<Rightarrow> Inr (if e = EINTR then None else Some (e \<noteq> EAGAIN), msg1, st1)
            | Read_octets bs \<Rightarrow>
                if bs = [] then Inr (Some True, msg1, st1)
                else
                  case asn_decode_per x bs of
                    None \<Rightarrow> Inr (Some False, msg1, st1)
                  | Some pdu \<Rightarrow> fault_bind (dispatch_pdu x par a pdu msg1 st1) (\<lambda>(msg2, st2). Inr (None, msg2, st2))))"

fun receive_loop ::
  "ext \<Rightarrow> sctp_params \<Rightarrow> addr \<Rightarrow> read_result list \<Rightarrow> reporting \<Rightarrow> e2t \<Rightarrow> fault + bool \<times> reporting \<times> e2t" where
  "receive_loop x par a [] msg st = Inl Not_returned"
| "receive_loop x par a (r # rs) msg st =
     fault_bind (receive_step x par a r msg st) (\<lambda>(d, msg1, st1).
       case d of Some dn \<Rightarrow> Inr (dn, msg1, st1) | None \<Rightarrow> receive_loop x par a rs msg1 st1)"

definition receiveDataFromSctp :: "ext \<Rightarrow> sctp_params \<Rightarrow> addr \<Rightarrow> read_result list \<Rightarrow> e2t \<Rightarrow> fault + e2t" where
  "receiveDataFromSctp x par a reads st =
     fault_bind (receive_loop x par a reads reporting_zero st) (\<lambda>(closed, msg, st1).
       if closed then
         fault_bind (peer_at a st1) (\<lambda>p.
         fault_bind (report_failure x msg (c_str (enodbName p) @ ''|CU disconnected unexpectedly'') st1) (\<lambda>st2.
           cleanHashEntry a (close_fd (fileDescriptor p) st2)))
       else Inr st1)"

end
