(* ===== verification/E2tXapp.thy ===== *)
theory E2tXapp
  imports E2tReceive
begin

text \<open>
  What the E2 termination does with messages from the RIC: \<^verbatim>\<open>receiveXappMessages\<close> in
  \<^verbatim>\<open>sctpThread.cpp\<close>.
\<close>

section \<open>Messages for a RAN\<close>

text \<open>\<^verbatim>\<open>PER_FromXML\<close>; what a failing encoder left in the payload is not modelled.\<close>

definition PER_FromXML :: "ext \<Rightarrow> e2t \<Rightarrow> fault + int \<times> e2t" where
  "PER_FromXML x st =
     (case rcvMessage st of
        None \<Rightarrow> Inl Null_deref
      | Some mb \<Rightarrow>
          case asn_decode_xer x (take (nat (mb_len mb)) (mb_payload mb)) of
            None \<Rightarrow> Inr (-1, st)
          | Some pdu \<Rightarrow>
              case asn_encode_per x pdu of
                None \<Rightarrow> Inr (-1, st)
              | Some per \<Rightarrow>
                  let mb' = mb\<lparr>mb_payload := overwrite (take xapp_buffer_size per) (mb_payload mb)\<rparr>
                  in if xapp_buffer_size < length per then Inr (-1, st\<lparr>rcvMessage := Some mb'\<rparr>)
                     else Inr (0, st\<lparr>rcvMessage := Some (mb'\<lparr>mb_len := int (length per)\<rparr>)\<rparr>))"

text \<open>
  The cases of the switch that send to a RAN: whether the message comes as XML, which counters of
  the peer and which of the termination are incremented. The error indication and the reset
  request count as incoming in the termination's counters.
\<close>

fun setup_route :: "mtype \<Rightarrow> (bool \<times> cidx \<times> cidx) option" where
  "setup_route RIC_E2_SETUP_RESP = Some (True, (OUT_SUCC, ProcedureCode_id_E2setup), (OUT_SUCC, ProcedureCode_id_E2setup))"
| "setup_route RIC_E2_SETUP_FAILURE =
     Some (True, (OUT_UN_SUCC, ProcedureCode_id_E2setup), (OUT_UN_SUCC, ProcedureCode_id_E2setup))"
| "setup_route RIC_ERROR_INDICATION =
     Some (False, (OUT_INITI, ProcedureCode_id_ErrorIndication), (IN_INITI, ProcedureCode_id_ErrorIndication))"
| "setup_route RIC_SUB_REQ =
     Some (False, (OUT_INITI, ProcedureCode_id_RICsubscription), (OUT_INITI, ProcedureCode_id_RICsubscription))"
| "setup_route RIC_SUB_DEL_REQ =
     Some (False, (OUT_INITI, ProcedureCode_id_RICsubscriptionDelete), (OUT_INITI, ProcedureCode_id_RICsubscriptionDelete))"
| "setup_route RIC_CONTROL_REQ =
     Some (False, (OUT_INITI, ProcedureCode_id_RICcontrol), (OUT_INITI, ProcedureCode_id_RICcontrol))"
| "setup_route _ = None"

fun service_route :: "mtype \<Rightarrow> (bool \<times> cidx \<times> cidx) option" where
  "service_route RIC_SERVICE_QUERY =
     Some (True, (OUT_INITI, ProcedureCode_id_RICserviceQuery), (OUT_INITI, ProcedureCode_id_RICserviceQuery))"
| "service_route RIC_SERVICE_UPDATE_ACK =
     Some (True, (OUT_SUCC, ProcedureCode_id_RICserviceUpdate), (OUT_SUCC, ProcedureCode_id_RICserviceUpdate))"
| "service_route RIC_SERVICE_UPDATE_FAILURE =
     Some (True, (OUT_UN_SUCC, ProcedureCode_id_RICserviceUpdate), (OUT_UN_SUCC, ProcedureCode_id_RICserviceUpdate))"
| "service_route RIC_E2_RESET_REQ =
     Some (True, (OUT_INITI, ProcedureCode_id_Reset), (IN_INITI, ProcedureCode_id_Reset))"
| "service_route RIC_E2_RESET_RESP =
     Some (True, (OUT_SUCC, ProcedureCode_id_Reset), (OUT_SUCC, ProcedureCode_id_Reset))"
| "service_route _ = None"

definition xapp_route :: "mtype \<Rightarrow> (bool \<times> cidx \<times> cidx) option" where
  "xapp_route t = (case setup_route t of None \<Rightarrow> service_route t | r \<Rightarrow> r)"

definition forward_to_ran ::
  "ext \<Rightarrow> addr \<Rightarrow> bool \<times> cidx \<times> cidx \<Rightarrow> reporting \<Rightarrow> e2t \<Rightarrow> fault + int \<times> e2t" where
  "forward_to_ran x a route msg st =
     (let (xml, i, j) = route
      in fault_bind (if xml then PER_FromXML x st else Inr (0, st)) (\<lambda>(r, st1).
           if r \<noteq> 0 then Inr (0, st1)
           else
             case rcvMessage st1 of
               None \<Rightarrow> Inl Null_deref
             | Some mb \<Rightarrow>
                 fault_bind (count_traffic a i j (mb_len mb) st1) (\<lambda>st2.
                 fault_bind (sendDirectionalSctpMsg x a msg st2) (\<lambda>(rc, st3). Inr (if rc \<noteq> 0 then -6 else 0, st3)))))"

section \<open>Other messages\<close>

definition starts_with :: "string \<Rightarrow> string \<Rightarrow> bool" where
  "starts_with s p \<longleftrightarrow> take (length p) s = p"

text \<open>\<^verbatim>\<open>RIC_SCTP_CLEAR_ALL\<close>: close, report and free every peer in the map, then clear the map.\<close>

fun clear_loop :: "ext \<Rightarrow> string list \<Rightarrow> reporting \<Rightarrow> e2t \<Rightarrow> fault + reporting \<times> e2t" where
  "clear_loop x [] msg st = Inr (msg, st)"
| "clear_loop x (key # keys) msg st =
     (if starts_with key ''host:'' \<or> starts_with key ''msg:'' then clear_loop x keys msg st
      else
        case map_find (keyMap st) key of
          None \<Rightarrow> clear_loop x keys msg st
        | Some a \<Rightarrow>
            fault_bind (peer_at a st) (\<lambda>p.
            let msg1 = msg\<lparr>msg_enodbName := enodbName p, msg_direction := CHR ''D''\<rparr>
            in fault_bind (report_failure x msg1 (c_str (enodbName p) @ ''|RIC_SCTP_CLEAR_ALL'') (close_fd (fileDescriptor p) st))
                 (\<lambda>st1. fault_bind (free_block a st1) (\<lambda>st2. clear_loop x keys msg1 st2))))"

definition clear_all :: "ext \<Rightarrow> reporting \<Rightarrow> e2t \<Rightarrow> fault + e2t" where
  "clear_all x msg st =
     fault_bind (clear_loop x (map_getKeys (keyMap st)) msg st) (\<lambda>(msg1, st1).
       Inr (st1\<lparr>keyMap := map_clear (keyMap st1)\<rparr>))"

definition keep_alive :: "ext \<Rightarrow> sctp_params \<Rightarrow> e2t \<Rightarrow> fault + e2t" where
  "keep_alive x par st =
     (let (tx, st1) = next_transaction st
      in fault_bind (with_send (\<lambda>mb. mb\<lparr>mb_payload := overwrite (text_octets (ka_message par)) (mb_payload mb),
             mb_len := int (length (ka_message par)), mb_mtype := E2_TERM_KEEP_ALIVE_RESP, mb_state := 0, mb_xact := tx\<rparr>) st1)
           (\<lambda>st2. fault_bind (rmr_send_msg st2) (\<lambda>st3.
              Inr (if sendMessage st3 = None then st3\<lparr>sendMessage := rmr_alloc_msg x\<rparr> else st3))))"

definition health_check :: "ext \<Rightarrow> e2t \<Rightarrow> fault + e2t" where
  "health_check x st =
     (case rcvMessage st of
        None \<Rightarrow> Inl Null_deref
      | Some mb \<Rightarrow>
          let (tx, st1) = next_transaction st;
              mb' = mb\<lparr>mb_payload := overwrite (text_octets ''OK'') (mb_payload mb), mb_len := 2,
                mb_mtype := RIC_HEALTH_CHECK_RESP, mb_state := 0, mb_xact := tx\<rparr>
          in case rmr_in st1 of
               [] \<Rightarrow> Inl Not_returned
             | r # rs \<Rightarrow>
                 Inr (st1\<lparr>rcvMessage := (case r of None \<Rightarrow> rmr_alloc_msg x | Some _ \<Rightarrow> r), rmr_in := rs,
                   out := out st1 @ [Rmr_return mb']\<rparr>))"

section \<open>The handler\<close>

text \<open>
  \<^verbatim>\<open>rmr_rcv_msg\<close> takes the buffer and answers with one that holds the message. \<open>-1\<close> and \<open>-2\<close> are
  failures to receive or an unknown RAN, \<open>-6\<close> a failure to send, \<open>-7\<close> an unknown type.
\<close>

definition receiveXappMessages :: "ext \<Rightarrow> sctp_params \<Rightarrow> e2t \<Rightarrow> fault + int \<times> e2t" where
  "receiveXappMessages x par st =
     (if rcvMessage st = None then Inr (-1, st)
      else
        case rmr_in st of
          [] \<Rightarrow> Inl Not_returned
        | None # rs \<Rightarrow> Inr (-2, st\<lparr>rcvMessage := rmr_alloc_msg x, rmr_in := rs\<rparr>)
        | Some mb # rs \<Rightarrow>
            let st1 = st\<lparr>rcvMessage := Some mb, rmr_in := rs\<rparr>; t = mb_mtype mb
            in if mb_state mb \<noteq> 0 then Inr (-1, st1)
               else
                 let msg = reporting_zero\<lparr>msg_direction := CHR ''D'', msg_enodbName := mb_meid mb @ zero_buf (64 - length (mb_meid mb))\<rparr>;
                     entry = map_find (keyMap st1) (c_str (msg_enodbName msg))
                 in if entry = None \<and> t \<notin> {RIC_SCTP_CLEAR_ALL, E2_TERM_KEEP_ALIVE_REQ, RIC_HEALTH_CHECK_REQ} then Inr (-1, st1)
                    else
                      let st2 = (if t = RIC_HEALTH_CHECK_REQ then st1
                                 else st1\<lparr>num_of_XAPP_messages := num_of_XAPP_messages st1 + 1\<rparr>)
                      in case xapp_route t of
                           Some route \<Rightarrow> (case entry of None \<Rightarrow> Inl Null_deref | Some a \<Rightarrow> forward_to_ran x a route msg st2)
                         | None \<Rightarrow>
                             if t = RIC_SCTP_CLEAR_ALL then fault_bind (clear_all x msg st2) (\<lambda>st3. Inr (0, st3))
                             else if t = E2_TERM_KEEP_ALIVE_REQ then fault_bind (keep_alive x par st2) (\<lambda>st3. Inr (0, st3))
                             else if t = RIC_HEALTH_CHECK_REQ then fault_bind (health_check x st2) (\<lambda>st3. Inr (0, st3))
                             else
                               fault_bind (buildJsonMessage (msg\<lparr>msg_asndata := Rcv_payload, msg_asnLength := mb_len mb,
                                 msg_messageType := t\<rparr>) st2) (\<lambda>st3. Inr (-7, st3)))"

end
