(* ===== verification/E2tListener.thy ===== *)
theory E2tListener
  imports E2tXapp
begin

text \<open>
  The event loop of the E2 termination, \<^verbatim>\<open>listener\<close> in \<^verbatim>\<open>sctpThread.cpp\<close>, with the handlers of
  errors, of connections that become writable and of new connections.
\<close>

section \<open>Events\<close>

text \<open>
  \<^verbatim>\<open>epoll_data\<close> is a union: the descriptor is the lower half of the pointer, and a pointer read
  from an event that holds a descriptor has the upper half zero.
\<close>

fun data_fd :: "epoll_data \<Rightarrow> int" where
  "data_fd (Data_fd fd) = fd"
| "data_fd (Data_ptr a) = sint (ucast a :: u32)"

fun data_ptr :: "epoll_data \<Rightarrow> addr" where
  "data_ptr (Data_ptr a) = a"
| "data_ptr (Data_fd fd) = ucast (word_of_int fd :: u32)"

record event =
  ev_data :: epoll_data
  ev_events :: "epoll_flag set"

text \<open>What an accept answers: the descriptor and the printed address, or nothing.\<close>

record connection =
  cn_fd :: int
  cn_nonblocking :: bool
  cn_name :: "(string \<times> string) option"

section \<open>Handlers\<close>

definition handlepoll_error :: "ext \<Rightarrow> sctp_params \<Rightarrow> event \<Rightarrow> e2t \<Rightarrow> fault + e2t" where
  "handlepoll_error x par ev st =
     (if data_fd (ev_data ev) = rmrListenFd par then Inr st
      else
        let a = data_ptr (ev_data ev)
        in fault_bind (peer_at a st) (\<lambda>p.
           fault_bind (report_failure x (reporting_zero\<lparr>msg_enodbName := enodbName p, msg_direction := CHR ''N''\<rparr>)
               (c_str (enodbName p) @ ''|Failed SCTP Connection'') st) (\<lambda>st1.
           cleanHashEntry a ((close_fd (fileDescriptor p) st1)\<lparr>keyMap := map_erase (c_str (enodbName p)) (keyMap st1)\<rparr>))))"

definition forget_message :: "peer \<Rightarrow> peer" where
  "forget_message p = p\<lparr>asnData := overwrite (replicate (nat (asnLength p)) 0) (asnData p), asnLength := 0, mtype := Mtype 0\<rparr>"

definition handleEinprogressMessages :: "ext \<Rightarrow> sctp_params \<Rightarrow> event \<Rightarrow> e2t \<Rightarrow> fault + e2t" where
  "handleEinprogressMessages x par ev st =
     (let a = data_ptr (ev_data ev)
      in fault_bind (peer_at a st) (\<lambda>p.
           case sockopt_in st of
             [] \<Rightarrow> Inl Not_returned
           | (rc, retVal, strerror) # ss \<Rightarrow>
               let st1 = st\<lparr>sockopt_in := ss\<rparr>; msg = reporting_zero\<lparr>msg_enodbName := enodbName p\<rparr>
               in if rc \<noteq> 0 \<or> retVal \<noteq> 0 then
                    fault_bind (report_failure x (msg\<lparr>msg_direction := CHR ''N''\<rparr>) (c_str (enodbName p) @
                      (if rc \<noteq> 0 then ''|Failed SCTP Connection, after EINPROGRESS the getsockopt'' @ strerror
                       else ''|Failed SCTP Connection after EINPROGRESS, SO_ERROR'')) st1) (\<lambda>st2.
                    fault_bind (peer_at a st2) (\<lambda>q. Inr (set_peer a (forget_message q) st2)))
                  else
                    fault_bind (modifyToEpoll x a {EPOLLIN, EPOLLET} (mtype p) (set_peer a (p\<lparr>isConnected := True\<rparr>) st1)) (\<lambda>(r, st2).
                      if r \<noteq> 0 then Inr st2
                      else
                        fault_bind (sendSctpMsg x a (msg\<lparr>msg_asndata := Peer_data a, msg_asnLength := asnLength p,
                            msg_messageType := mtype p\<rparr>) st2) (\<lambda>(rc, st3).
                          if rc \<noteq> 0 then Inr st3
                          else fault_bind (peer_at a st3) (\<lambda>q. Inr (set_peer a (forget_message q) st3))))))"

text \<open>
  A new connection: \<open>fresh\<close> is the block that \<^verbatim>\<open>calloc\<close> answers with. The name of the host is
  cut to the array by \<^verbatim>\<open>getnameinfo\<close>.
\<close>

definition new_peer :: "connection \<Rightarrow> string \<times> string \<Rightarrow> peer" where
  "new_peer c name = \<lparr>fileDescriptor = cn_fd c, hostName = fst name, portNumber = snd name, enodbName = zero_buf 64,
     asnData = [], asnLength = 0, mtype = Mtype 0, isConnected = False, gotSetup = False, counters = (\<lambda>_. None)\<rparr>"

definition accept_connection :: "ext \<Rightarrow> addr option \<Rightarrow> connection option \<Rightarrow> e2t \<Rightarrow> fault + e2t" where
  "accept_connection x fresh c st =
     (case fresh of
        None \<Rightarrow> Inr st
      | Some a \<Rightarrow>
          case c of
            None \<Rightarrow> Inr st
          | Some c' \<Rightarrow>
              if \<not> cn_nonblocking c' then Inr (close_fd (cn_fd c') st)
              else
                case cn_name c' of
                  None \<Rightarrow> Inr (close_fd (cn_fd c') st)
                | Some name \<Rightarrow>
                    fault_bind (addToEpoll x a {EPOLLIN, EPOLLET} None (Mtype 0) (set_peer a (new_peer c' name) st)) (\<lambda>(r, st1).
                      if r \<noteq> 0 then free_block a st1 else Inr st1))"

text \<open>
  One event of the loop. \<open>reads\<close> is what reading the connection gives, \<open>fresh\<close> and \<open>c\<close> the
  answers to a new connection. A configuration change touches only logging and tracing;
  \<open>trace\<close> is the value it leaves.
\<close>

definition handle_event ::
  "ext \<Rightarrow> sctp_params \<Rightarrow> event \<Rightarrow> read_result list \<Rightarrow> addr option \<Rightarrow> connection option \<Rightarrow> bool \<Rightarrow> e2t \<Rightarrow> fault + e2t" where
  "handle_event x par ev reads fresh c trace st =
     (if EPOLLERR \<in> ev_events ev \<or> EPOLLHUP \<in> ev_events ev then handlepoll_error x par ev st
      else if EPOLLOUT \<in> ev_events ev then handleEinprogressMessages x par ev st
      else if data_fd (ev_data ev) = listenFD par then accept_connection x fresh c st
      else if data_fd (ev_data ev) = rmrListenFd par then
        fault_bind (receiveXappMessages x par st) (\<lambda>(r, st1). Inr st1)
      else if data_fd (ev_data ev) = inotifyFD par then Inr (st\<lparr>jsonTrace := trace\<rparr>)
      else receiveDataFromSctp x par (data_ptr (ev_data ev)) reads st)"

text \<open>
  One return of \<^verbatim>\<open>epoll_wait\<close>: its events are handled in order. An occurrence is an event with
  what the calls of its handler answer.
\<close>

record occurrence =
  oc_event :: event
  oc_reads :: "read_result list"
  oc_block :: "addr option"
  oc_connection :: "connection option"
  oc_trace :: bool

fun handle_events :: "ext \<Rightarrow> sctp_params \<Rightarrow> occurrence list \<Rightarrow> e2t \<Rightarrow> fault + e2t" where
  "handle_events x par [] st = Inr st"
| "handle_events x par (oc # ocs) st =
     fault_bind (handle_event x par (oc_event oc) (oc_reads oc) (oc_block oc) (oc_connection oc) (oc_trace oc) st)
       (handle_events x par ocs)"

section \<open>Announcing the termination\<close>

text \<open>
  \<^verbatim>\<open>sendTermInit\<close> sends the announcement until it is accepted: \<open>rs\<close> is what each send answers.
  The buffer of a failed send is used again.
\<close>

fun term_init_loop :: "ext \<Rightarrow> sctp_params \<Rightarrow> mbuf option list \<Rightarrow> mbuf option \<Rightarrow> e2t \<Rightarrow> fault + e2t" where
  "term_init_loop x par rs None st = Inl Null_deref"
| "term_init_loop x par [] (Some mb) st = Inl Not_returned"
| "term_init_loop x par (r # rs) (Some mb) st =
     (let (tx, st1) = next_transaction st;
          mb' = mb\<lparr>mb_mtype := E2_TERM_INIT, mb_state := 0, mb_len := int (length (ka_message par)),
            mb_payload := overwrite (text_octets (ka_message par)) (mb_payload mb), mb_xact := tx\<rparr>;
          st2 = st1\<lparr>rmr_in := rs, out := out st1 @ [Rmr_send mb']\<rparr>
      in case r of
           None \<Rightarrow> term_init_loop x par rs (rmr_alloc_msg x) st2
         | Some m \<Rightarrow> if mb_state m = 0 then Inr st2 else term_init_loop x par rs (Some m) st2)"

definition sendTermInit :: "ext \<Rightarrow> sctp_params \<Rightarrow> e2t \<Rightarrow> fault + e2t" where
  "sendTermInit x par st = term_init_loop x par (rmr_in st) (rmr_alloc_msg x) st"

text \<open>
  \<^verbatim>\<open>handleTermInit\<close> announces once more after every thousandth look at the number of messages from
  xApps; \<open>seen\<close> are the numbers it reads.
\<close>

fun term_init_wait :: "ext \<Rightarrow> sctp_params \<Rightarrow> nat \<Rightarrow> int list \<Rightarrow> e2t \<Rightarrow> fault + e2t" where
  "term_init_wait x par n [] st = Inl Not_returned"
| "term_init_wait x par n (s # ss) st =
     (if 0 < s then Inr st
      else fault_bind (if (n + 1) mod 1000 = 0 then sendTermInit x par st else Inr st) (term_init_wait x par (n + 1) ss))"

definition handleTermInit :: "ext \<Rightarrow> sctp_params \<Rightarrow> int list \<Rightarrow> e2t \<Rightarrow> fault + e2t" where
  "handleTermInit x par seen st = fault_bind (sendTermInit x par st) (term_init_wait x par 0 seen)"

end
