(* ===== verification/E2tSafety.thy ===== *)
theory E2tSafety
  imports E2tListener
begin

text \<open>
  Which parts of the state the functions of the E2 termination touch, and when they cannot
  fault. \<open>safe Q r\<close> says that a call has not run into undefined behaviour: its result satisfies
  \<open>Q\<close> unless the environment has not answered. The rules of \<open>safe\<close> are in \<open>safe_rules\<close>.
\<close>

named_theorems safe_rules \<open>when the functions of the E2 termination cannot fault\<close>

section \<open>Calls without undefined behaviour\<close>

definition safe :: "('a \<Rightarrow> bool) \<Rightarrow> fault + 'a \<Rightarrow> bool" where
  "safe Q r \<longleftrightarrow> (case r of Inl f \<Rightarrow> f = Not_returned | Inr y \<Rightarrow> Q y)"

lemma safe_simps [simp]: "safe Q (Inr y) \<longleftrightarrow> Q y" "safe Q (Inl f) \<longleftrightarrow> f = Not_returned"
  by (simp_all add: safe_def)

lemma safe_bind: "safe P r \<Longrightarrow> (\<And>y. P y \<Longrightarrow> safe Q (f y)) \<Longrightarrow> safe Q (fault_bind r f)"
  by (cases r) auto

lemma safe_mono: "safe P r \<Longrightarrow> (\<And>y. P y \<Longrightarrow> Q y) \<Longrightarrow> safe Q r"
  by (cases r) auto

lemma safe_conj: "safe P r \<Longrightarrow> safe Q r \<Longrightarrow> safe (\<lambda>y. P y \<and> Q y) r"
  by (cases r) auto

section \<open>Quiet functions\<close>

text \<open>
  Sending, tracing and counting leave the peers, the map and the epoll set alone, and there are
  buffers to go on with as long as the library can allocate.
\<close>

definition has_bufs :: "ext \<Rightarrow> e2t \<Rightarrow> bool" where
  "has_bufs x st \<longleftrightarrow> rmr_alloc_msg x \<noteq> None \<and> sendMessage st \<noteq> None \<and> rcvMessage st \<noteq> None"

definition quiet :: "ext \<Rightarrow> e2t \<Rightarrow> e2t \<Rightarrow> bool" where
  "quiet x st st' \<longleftrightarrow> peers st' = peers st \<and> keyMap st' = keyMap st \<and> interest st' = interest st
     \<and> (has_bufs x st \<longrightarrow> has_bufs x st')"

lemma quiet_refl [simp]: "quiet x st st"
  by (simp add: quiet_def)

lemma quiet_trans: "quiet x st st1 \<Longrightarrow> quiet x st1 st2 \<Longrightarrow> quiet x st st2"
  by (auto simp: quiet_def)

lemma quiet_bufs: "quiet x st st' \<Longrightarrow> has_bufs x st \<Longrightarrow> has_bufs x st'"
  by (simp add: quiet_def)

lemma quiet_peers: "quiet x st st' \<Longrightarrow> peers st' = peers st"
  by (simp add: quiet_def)

lemma quiet_fields [simp]:
  "quiet x st (st\<lparr>rmr_in := r\<rparr>)" "quiet x st (st\<lparr>send_in := s\<rparr>)" "quiet x st (st\<lparr>malloc_in := m\<rparr>)"
  "quiet x st (st\<lparr>out := os\<rparr>)" "quiet x st (st\<lparr>transactionCounter := c\<rparr>)" "quiet x st (st\<lparr>metrics := ms\<rparr>)"
  "quiet x st (st\<lparr>num_of_XAPP_messages := n\<rparr>)" "quiet x st (st\<lparr>jsonTrace := b\<rparr>)" "quiet x st (st\<lparr>sockopt_in := so\<rparr>)"
  "quiet x st (st\<lparr>sendMessage := Some mb\<rparr>)" "quiet x st (st\<lparr>rcvMessage := Some mb\<rparr>)"
  by (auto simp: quiet_def has_bufs_def)

text \<open>Quiet calls one after the other.\<close>

lemma safe_quiet_seq:
  "safe (quiet x st) r \<Longrightarrow> (\<And>st1. quiet x st st1 \<Longrightarrow> safe (quiet x st1) (f st1)) \<Longrightarrow> safe (quiet x st) (fault_bind r f)"
  by (rule safe_bind) (auto intro: safe_mono quiet_trans)

lemma safe_quiet_after:
  "quiet x st st1 \<Longrightarrow> safe (\<lambda>(y, st'). quiet x st1 st') r \<Longrightarrow> safe (\<lambda>(y, st'). quiet x st st') r"
  by (erule safe_mono) (auto intro: quiet_trans)

definition data_there :: "reporting \<Rightarrow> bool" where
  "data_there msg \<longleftrightarrow> msg_asndata msg \<in> {Send_payload, Rcv_payload}"

lemma data_there_simps [simp]:
  "data_there (msg\<lparr>msg_enodbName := n\<rparr>) = data_there msg" "data_there (msg\<lparr>msg_messageType := t\<rparr>) = data_there msg"
  "data_there (msg\<lparr>msg_direction := d\<rparr>) = data_there msg" "data_there (msg\<lparr>msg_asnLength := l\<rparr>) = data_there msg"
  "data_there (msg\<lparr>msg_asndata := Send_payload\<rparr>)" "data_there (msg\<lparr>msg_asndata := Rcv_payload\<rparr>)"
  by (simp_all add: data_there_def)

lemma safe_buildJsonMessage [safe_rules]:
  "has_bufs x st \<Longrightarrow> data_there msg \<Longrightarrow> safe (quiet x st) (buildJsonMessage msg st)"
  by (auto simp: buildJsonMessage_def asn_octets_def data_there_def has_bufs_def)

lemma safe_rmr_send_buf [safe_rules]: "safe (\<lambda>(r, st'). quiet x st st') (rmr_send_buf mb st)"
proof (cases "rmr_in st")
  case (Cons r rs)
  have "quiet x st (st\<lparr>rmr_in := rs, out := out st @ [Rmr_send mb]\<rparr>)" by (simp add: quiet_def has_bufs_def)
  with Cons show ?thesis by (simp add: rmr_send_buf_def)
qed (simp add: rmr_send_buf_def)

lemma safe_sendRmrMessage [safe_rules]:
  assumes "has_bufs x st" and "data_there msg"
  shows "safe (\<lambda>(rc, st'). quiet x st st') (sendRmrMessage x msg st)"
  unfolding sendRmrMessage_def
proof (rule safe_bind [OF safe_buildJsonMessage [OF assms]])
  fix st1 assume q1: "quiet x st st1"
  with assms have b1: "has_bufs x st1" by (simp add: quiet_bufs)
  then obtain sm where sm: "sendMessage st1 = Some sm" by (auto simp: has_bufs_def)
  let ?next = "\<lambda>st2. case sendMessage st2 of None \<Rightarrow> Inr (-1, st2\<lparr>sendMessage := rmr_alloc_msg x\<rparr>)
     | Some mb \<Rightarrow> if mb_state mb = 0 then Inr (0, st2) else if mb_state mb = rmr_err_retry x then
         fault_bind (rmr_send_msg (st2\<lparr>sendMessage := Some (mb\<lparr>mb_state := 0\<rparr>)\<rparr>)) (\<lambda>st3. case sendMessage st3 of
           None \<Rightarrow> Inr (-1, st3\<lparr>sendMessage := rmr_alloc_msg x\<rparr>) | Some mb' \<Rightarrow> Inr (mb_state mb', st3))
       else Inr (mb_state mb, st2)"
  have "safe (\<lambda>(rc, st'). quiet x st1 st') (fault_bind (rmr_send_msg st1) ?next)"
    using b1 by (auto simp: rmr_send_msg_def rmr_send_buf_def sm quiet_def has_bufs_def split: list.splits option.splits)
  then show "safe (\<lambda>(rc, st'). quiet x st st') (fault_bind (rmr_send_msg st1) ?next)"
    by (rule safe_mono) (use q1 in \<open>auto intro: quiet_trans\<close>)
qed

lemma safe_with_send [safe_rules]: "has_bufs x st \<Longrightarrow> safe (quiet x st) (with_send f st)"
  by (auto simp: with_send_def has_bufs_def)

lemma quiet_next_transaction: "quiet x st (snd (next_transaction st))"
  by (simp add: next_transaction_def)

lemma safe_sendRequestToXapp [safe_rules]:
  assumes "has_bufs x st" and "data_there msg"
  shows "safe (\<lambda>(rc, msg', st'). quiet x st st' \<and> msg' = msg\<lparr>msg_messageType := t\<rparr>) (sendRequestToXapp x msg t st)"
proof -
  obtain tx st1 where n: "next_transaction st = (tx, st1)" by (cases "next_transaction st")
  with quiet_next_transaction [of x st] have q1: "quiet x st st1" by simp
  let ?f = "\<lambda>mb. mb\<lparr>mb_meid := c_str (msg_enodbName msg), mb_mtype := t, mb_state := 0, mb_xact := tx\<rparr>"
  have "safe (\<lambda>(rc, msg', st'). quiet x st st' \<and> msg' = msg\<lparr>msg_messageType := t\<rparr>)
    (fault_bind (with_send ?f st1) (\<lambda>st2. fault_bind (sendRmrMessage x (msg\<lparr>msg_messageType := t\<rparr>) st2)
      (\<lambda>(rc, st3). Inr (rc, msg\<lparr>msg_messageType := t\<rparr>, st3))))"
  proof (rule safe_bind [OF safe_with_send [OF quiet_bufs [OF q1 assms(1)]]])
    fix st2 assume q2: "quiet x st1 st2"
    with q1 assms have "has_bufs x st2" by (simp add: quiet_bufs)
    from safe_sendRmrMessage [OF this, of "msg\<lparr>msg_messageType := t\<rparr>"] assms(2)
    show "safe (\<lambda>(rc, msg', st'). quiet x st st' \<and> msg' = msg\<lparr>msg_messageType := t\<rparr>)
      (fault_bind (sendRmrMessage x (msg\<lparr>msg_messageType := t\<rparr>) st2) (\<lambda>(rc, st3). Inr (rc, msg\<lparr>msg_messageType := t\<rparr>, st3)))"
      by (auto elim!: safe_bind intro: quiet_trans [OF q1 quiet_trans [OF q2]])
  qed
  then show ?thesis by (simp add: sendRequestToXapp_def n Let_def)
qed

lemma safe_report_failure [safe_rules]:
  assumes "has_bufs x st"
  shows "safe (quiet x st) (report_failure x msg text st)"
  unfolding report_failure_def
proof (rule safe_quiet_seq [OF safe_with_send [OF assms]])
  fix st1 assume "quiet x st st1"
  with assms have "has_bufs x st1" by (rule quiet_bufs [rotated])
  from safe_sendRequestToXapp [OF this, where t = RIC_SCTP_CONNECTION_FAILURE, of "msg\<lparr>msg_asndata := Send_payload, msg_asnLength := int (length text)\<rparr>"]
  show "safe (quiet x st1) (fault_bind (sendRequestToXapp x (msg\<lparr>msg_asndata := Send_payload, msg_asnLength := int (length text)\<rparr>)
      RIC_SCTP_CONNECTION_FAILURE st1) (\<lambda>(rc, msg', st2). Inr st2))"
    by (auto elim!: safe_bind)
qed

section \<open>Counting\<close>

definition countable :: "e2t \<Rightarrow> addr \<Rightarrow> cidx \<Rightarrow> bool" where
  "countable st a i \<longleftrightarrow> (\<exists>p. peers st a = Some p \<and> counters p i \<noteq> None)"

lemma safe_count_traffic [safe_rules]:
  "countable st a i \<Longrightarrow> j \<in> set buildE2TPrometheusCounters \<Longrightarrow> safe (quiet x st) (count_traffic a i j n st)"
  by (auto simp: countable_def count_traffic_def count_peer_def count_e2t_def peer_at_def bump_def quiet_def has_bufs_def)

lemma quiet_countable: "quiet x st st' \<Longrightarrow> countable st' a i = countable st a i"
  by (simp add: countable_def quiet_peers)

lemma safe_XML_From_PER [safe_rules]: "has_bufs x st \<Longrightarrow> safe (\<lambda>(r, st'). quiet x st st') (XML_From_PER x st)"
  by (auto simp: XML_From_PER_def has_bufs_def Let_def split: option.splits)

lemma safe_PER_FromXML [safe_rules]: "has_bufs x st \<Longrightarrow> safe (\<lambda>(r, st'). quiet x st st') (PER_FromXML x st)"
  by (auto simp: PER_FromXML_def has_bufs_def Let_def split: option.splits)

lemma safe_count_and_forward [safe_rules]:
  assumes "has_bufs x st" and "data_there msg" and "countable st a i" and "i \<in> set buildE2TPrometheusCounters"
  shows "safe (\<lambda>(msg', st'). quiet x st st' \<and> data_there msg') (count_and_forward x a i t msg st)"
  unfolding count_and_forward_def
proof (rule safe_bind [OF safe_count_traffic [OF assms(3,4), where x = x]])
  fix st1 assume q: "quiet x st st1"
  from safe_sendRequestToXapp [OF quiet_bufs [OF q assms(1)] assms(2), where t = t] q assms(2)
  show "safe (\<lambda>(msg', st'). quiet x st st' \<and> data_there msg')
    (fault_bind (sendRequestToXapp x msg t st1) (\<lambda>(rc, msg', st2). Inr (msg', st2)))"
    by (auto elim!: safe_bind intro: quiet_trans)
qed

lemma safe_count_and_forward_xml [safe_rules]:
  assumes "has_bufs x st" and "data_there msg" and "countable st a i" and "i \<in> set buildE2TPrometheusCounters"
  shows "safe (\<lambda>(msg', st'). quiet x st st' \<and> data_there msg') (count_and_forward_xml x a i t msg st)"
  unfolding count_and_forward_xml_def
proof (rule safe_bind [OF safe_count_traffic [OF assms(3,4), where x = x]])
  fix st1 assume q1: "quiet x st st1"
  let ?rest = "\<lambda>(r, st2). if r < 0 then Inr (msg, st2)
    else fault_bind (sendRequestToXapp x msg t st2) (\<lambda>(rc, msg', st3). Inr (msg', st3))"
  show "safe (\<lambda>(msg', st'). quiet x st st' \<and> data_there msg') (fault_bind (XML_From_PER x st1) ?rest)"
  proof (rule safe_bind [OF safe_XML_From_PER [OF quiet_bufs [OF q1 assms(1)]]], clarify)
    fix r st2 assume "quiet x st1 st2"
    with q1 have q2: "quiet x st st2" by (rule quiet_trans)
    from safe_sendRequestToXapp [OF quiet_bufs [OF q2 assms(1)] assms(2), where t = t] q2 assms(2)
    show "safe (\<lambda>(msg', st'). quiet x st st' \<and> data_there msg') (if r < 0 then Inr (msg, st2)
        else fault_bind (sendRequestToXapp x msg t st2) (\<lambda>(rc, msg', st3). Inr (msg', st3)))"
      by (auto elim!: safe_bind intro: quiet_trans)
  qed
qed

lemma safe_forward_request_id [safe_rules]:
  assumes "has_bufs x st" and "data_there msg" and "countable st a i" and "i \<in> set buildE2TPrometheusCounters"
  shows "safe (\<lambda>(msg', st'). quiet x st st' \<and> data_there msg') (forward_request_id x a i t ies msg st)"
proof (induction ies)
  case (Cons ie ies)
  obtain tx st1 where n: "next_transaction st = (tx, st1)" by (cases "next_transaction st")
  with quiet_next_transaction [of x st] have q1: "quiet x st st1" by simp
  have "safe (\<lambda>(msg', st'). quiet x st st' \<and> data_there msg')
    (fault_bind (with_send f st1) (\<lambda>st2. fault_bind (count_traffic a i i (msg_asnLength msg) st2) (\<lambda>st3.
      fault_bind (sendRmrMessage x (msg\<lparr>msg_messageType := t\<rparr>) st3) (\<lambda>(rc, st4). Inr (msg\<lparr>msg_messageType := t\<rparr>, st4)))))" for f
  proof (rule safe_bind [OF safe_with_send [OF quiet_bufs [OF q1 assms(1)]]])
    fix st2 assume "quiet x st1 st2"
    with q1 have q2: "quiet x st st2" by (rule quiet_trans)
    with assms(3) have c: "countable st2 a i" by (simp add: quiet_countable)
    show "safe (\<lambda>(msg', st'). quiet x st st' \<and> data_there msg') (fault_bind (count_traffic a i i (msg_asnLength msg) st2) (\<lambda>st3.
      fault_bind (sendRmrMessage x (msg\<lparr>msg_messageType := t\<rparr>) st3) (\<lambda>(rc, st4). Inr (msg\<lparr>msg_messageType := t\<rparr>, st4))))"
    proof (rule safe_bind [OF safe_count_traffic [OF c assms(4), where x = x]])
      fix st3 assume "quiet x st2 st3"
      with q2 have q3: "quiet x st st3" by (rule quiet_trans)
      from safe_sendRmrMessage [OF quiet_bufs [OF q3 assms(1)], of "msg\<lparr>msg_messageType := t\<rparr>"] q3 assms(2)
      show "safe (\<lambda>(msg', st'). quiet x st st' \<and> data_there msg')
        (fault_bind (sendRmrMessage x (msg\<lparr>msg_messageType := t\<rparr>) st3) (\<lambda>(rc, st4). Inr (msg\<lparr>msg_messageType := t\<rparr>, st4)))"
        by (auto elim!: safe_bind intro: quiet_trans)
    qed
  qed
  with Cons show ?case by (auto simp: n Let_def split: ie_value.split)
qed (use assms in simp)

end
