(* ===== verification/E2tInvariant.thy ===== *)
theory E2tInvariant
  imports E2tSafety
begin

text \<open>
  The invariant of the E2 termination between two events: the map from names to peers holds
  exactly the peers that have set up, every live peer is in the epoll set under its own
  descriptor and nothing else is, and no peer ever counts as connected.
\<close>

section \<open>Names\<close>

definition ran_name_like :: "string \<Rightarrow> bool" where
  "ran_name_like s \<longleftrightarrow> take 4 s = ''gnb_'' \<or> take 4 s = ''en_g''"

text \<open>A node whose octet strings have the sizes of the protocol.\<close>

fun node_sized :: "GlobalE2node_ID \<Rightarrow> bool" where
  "node_sized NODE_NOTHING \<longleftrightarrow> True"
| "node_sized (NODE_gNB g) \<longleftrightarrow> length (plmn_id g) = 3 \<and> (case node_id g of GNB_ID_NOTHING \<Rightarrow> True | GNB_ID_gnb_ID d \<Rightarrow> length d \<le> 4)"
| "node_sized (NODE_en_gNB g) \<longleftrightarrow> length (plmn_id g) = 3 \<and> (case node_id g of GNB_ID_NOTHING \<Rightarrow> True | GNB_ID_gnb_ID d \<Rightarrow> length d \<le> 4)"
| "node_sized (NODE_ng_eNB g) \<longleftrightarrow> length (plmn_id g) = 3 \<and> (case node_id g of NGENB_ID_NOTHING \<Rightarrow> True
     | NGENB_ID_macro d \<Rightarrow> length d \<le> 4 | NGENB_ID_shortmacro d \<Rightarrow> length d \<le> 4 | NGENB_ID_longmacro d \<Rightarrow> length d \<le> 4)"
| "node_sized (NODE_eNB g) \<longleftrightarrow> length (plmn_id g) = 3 \<and> (case node_id g of ENB_ID_NOTHING \<Rightarrow> True
     | ENB_ID_macro d \<Rightarrow> length d \<le> 4 | ENB_ID_home d \<Rightarrow> length d \<le> 4 | ENB_ID_short_Macro d \<Rightarrow> length d \<le> 4
     | ENB_ID_long_Macro d \<Rightarrow> length d \<le> 4)"

text \<open>
  Writing a name into an array of 64 characters: \<open>k\<close> bounds what has been written, \<open>s\<close> is how
  it begins.
\<close>

definition writes_name :: "nat \<Rightarrow> string \<Rightarrow> char list \<Rightarrow> bool" where
  "writes_name k s buf \<longleftrightarrow> length buf = 64 \<and> drop k buf = zero_buf (64 - k) \<and> take (length s) (c_str buf) = s"

lemma c_str_short: "drop k buf = zero_buf (length buf - k) \<Longrightarrow> k < length buf \<Longrightarrow> length (c_str buf) \<le> k"
proof -
  assume "drop k buf = zero_buf (length buf - k)" "k < length buf"
  then have "buf ! k = CHR 0x00" by (metis (no_types, opaque_lifting) drop_zero_buf hd_drop_conv_nth hd_replicate
        length_drop length_greater_0_conv list.size(3) not_less_iff_gr_or_eq zero_buf_def replicate_empty zero_less_diff)
  then show ?thesis unfolding c_str_def
    by (metis (mono_tags, lifting) linorder_le_less_linear nth_mem set_takeWhileD takeWhile_nth)
qed

lemma append_writes:
  assumes "writes_name k s buf" and "k + length t < 64" and "CHR 0x00 \<notin> set t"
  shows "\<exists>buf'. append_text buf t = Inr buf' \<and> writes_name (k + length t) s buf'"
proof -
  let ?u = "c_str buf @ t" and ?buf' = "(c_str buf @ t) @ drop (length (c_str buf @ t)) buf"
  have buf: "length buf = 64" "drop k buf = zero_buf (64 - k)" "take (length s) (c_str buf) = s"
    using assms(1) by (auto simp: writes_name_def)
  then have len: "length (c_str buf) \<le> k" using c_str_short [of k buf] assms(2) by simp
  have "drop (k + length t) ?buf' = drop (k + length t) buf" using len by (simp add: algebra_simps)
  also have "\<dots> = drop (length t) (drop k buf)" by (simp add: add.commute)
  also have "\<dots> = zero_buf (64 - (k + length t))" by (simp add: buf)
  finally have tail: "drop (k + length t) ?buf' = zero_buf (64 - (k + length t))" .
  have "take (length s) (c_str ?buf') = s"
  proof -
    have "c_str ?buf' = ?u @ c_str (drop (length ?u) buf)"
      unfolding c_str_def using assms(3) by (subst takeWhile_append2) (auto dest: set_takeWhileD)
    moreover have "length s \<le> length (c_str buf)" using buf(3) by (metis length_take min.cobounded1)
    ultimately show ?thesis using buf(3) by simp
  qed
  moreover have "length ?buf' = 64" using len buf(1) assms(2) by simp
  ultimately have "writes_name (k + length t) s ?buf'" using tail by (simp add: writes_name_def)
  moreover have "append_text buf t = Inr ?buf'" using len buf(1) assms(2) by (simp add: append_text_def memcpy_def)
  ultimately show ?thesis by blast
qed

lemma hex_loop_writes:
  assumes "writes_name k s buf" and "k + 2 * length d < 64"
  shows "\<exists>buf'. hex_loop d buf = Inr buf' \<and> writes_name (k + 2 * length d) s buf'"
  using assms
proof (induction d arbitrary: k buf)
  case (Cons b bs)
  have hex: "CHR 0x00 \<notin> set [hex_digit (unat b div 16)]" "CHR 0x00 \<notin> set [hex_digit (unat b mod 16)]" by simp_all
  from append_writes [OF Cons.prems(1) _ hex(1)] Cons.prems(2) obtain b1 where
    1: "append_text buf [hex_digit (unat b div 16)] = Inr b1" "writes_name (k + 1) s b1" by auto
  from append_writes [OF 1(2) _ hex(2)] Cons.prems(2) obtain b2 where
    2: "append_text b1 [hex_digit (unat b mod 16)] = Inr b2" "writes_name (k + 2) s b2" by auto
  from Cons.IH [OF 2(2)] Cons.prems(2) show ?case
    unfolding hex_loop.simps byte_nibbles 1(1) fault_bind.simps 2(1) by (simp add: algebra_simps)
qed simp

lemma NUL_plmn_text: "CHR 0x00 \<notin> set type \<Longrightarrow> CHR 0x00 \<notin> set (plmn_text type data)"
  by (simp add: plmn_text_nibbles)

lemma translatePlmnId_writes:
  assumes "writes_name k s buf" and "k < 64" and "length plmn = 3" and "CHR 0x00 \<notin> set type" and "4 \<le> length type"
  shows "\<exists>buf'. translatePlmnId buf plmn type = Inr buf' \<and> writes_name (max k 20) (take 4 type) buf'"
proof -
  let ?t = "take 19 (plmn_text type plmn)" let ?buf' = "?t @ CHR 0x00 # drop (Suc (length ?t)) buf"
  have buf: "length buf = 64" "drop k buf = zero_buf (64 - k)" using assms(1) by (auto simp: writes_name_def)
  have t: "length ?t \<le> 19" by simp
  have "drop (max k 20) ?buf' = drop (max k 20) buf" using t by (simp add: drop_Cons' max_def)
  also have "\<dots> = drop (max k 20 - k) (drop k buf)" by simp
  also have "\<dots> = zero_buf (64 - max k 20)" by (simp add: buf)
  finally have tail: "drop (max k 20) ?buf' = zero_buf (64 - max k 20)" .
  have "CHR 0x00 \<notin> set ?t" using NUL_plmn_text [OF assms(4), of plmn] by (meson in_set_takeD)
  then have "c_str ?buf' = ?t" by simp
  moreover have "take 4 ?t = take 4 type" using assms(5) by (simp add: plmn_text_nibbles)
  ultimately have "writes_name (max k 20) (take 4 type) ?buf'" using tail t buf(1) assms(5) by (simp add: writes_name_def min_def)
  moreover have "translatePlmnId buf plmn type = Inr ?buf'"
    using t buf(1) assms(3) by (simp add: translatePlmnId_def snprintf_def memcpy_def)
  ultimately show ?thesis by blast
qed

lemma plmn_and_id_writes:
  assumes "writes_name k s buf" and "k \<le> 29" and "length plmn = 3" and "CHR 0x00 \<notin> set type" and "4 \<le> length type"
    and "length d \<le> 4"
  shows "\<exists>buf'. plmn_and_id buf plmn type d = Inr buf' \<and> writes_name (max k 20 + 9) (take 4 type) buf'"
proof -
  from translatePlmnId_writes [OF assms(1) _ assms(3-5)] assms(2) obtain b1 where
    1: "translatePlmnId buf plmn type = Inr b1" "writes_name (max k 20) (take 4 type) b1" by auto
  from append_writes [OF 1(2), of "''_''"] assms(2) obtain b2 where
    2: "append_text b1 ''_'' = Inr b2" "writes_name (max k 20 + 1) (take 4 type) b2" by auto
  have "max k 20 + 1 + 2 * length d < 64" using assms(2,6) by simp
  from hex_loop_writes [OF 2(2) this] obtain b3 where
    3: "hex_loop d b2 = Inr b3" "writes_name (max k 20 + 1 + 2 * length d) (take 4 type) b3" by auto
  have "drop (max k 20 + 9) b3 = drop (8 - 2 * length d) (drop (max k 20 + 1 + 2 * length d) b3)"
    using assms(6) by (simp add: add.commute)
  with 3(2) assms(2,6) have "writes_name (max k 20 + 9) (take 4 type) b3" by (simp add: writes_name_def)
  with 1(1) 2(1) 3(1) show ?thesis by (simp add: plmn_and_id_def translateBitStringToChar_def)
qed

lemma writes_like:
  assumes "writes_name k s buf" and "length s = 4"
  shows "length buf = 64 \<and> (ran_name_like (c_str buf) \<longleftrightarrow> s = ''gnb_'' \<or> s = ''en_g'')"
  using assms by (auto simp: writes_name_def ran_name_like_def)

lemma writes_zero_buf: "writes_name 0 [] (zero_buf 64)"
  by (simp add: writes_name_def)

lemma gnb_name_writes:
  assumes "length (plmn_id g) = 3" and "case node_id g of GNB_ID_NOTHING \<Rightarrow> True | GNB_ID_gnb_ID d \<Rightarrow> length d \<le> 4"
    and "CHR 0x00 \<notin> set type" and "4 \<le> length type"
  shows "\<exists>buf. fault_bind (translatePlmnId (zero_buf 64) (plmn_id g) type) (\<lambda>r.
       case node_id g of
         GNB_ID_gnb_ID d \<Rightarrow> fault_bind (translateBitStringToChar r d) (\<lambda>r'. Inr (0 :: int, r'))
       | GNB_ID_NOTHING \<Rightarrow> Inr (0, r)) = Inr (0, buf) \<and> writes_name 29 (take 4 type) buf"
proof (cases "node_id g")
  case GNB_ID_NOTHING
  from translatePlmnId_writes [OF writes_zero_buf _ assms(1,3,4)] obtain b where
    b: "translatePlmnId (zero_buf 64) (plmn_id g) type = Inr b" "writes_name 20 (take 4 type) b" by auto
  have "drop 29 b = drop 9 (drop 20 b)" by simp
  with b(2) have "writes_name 29 (take 4 type) b" by (simp add: writes_name_def)
  with b(1) GNB_ID_NOTHING show ?thesis by simp
next
  case (GNB_ID_gnb_ID d)
  with plmn_and_id_writes [OF writes_zero_buf _ assms(1,3,4), of d] assms(2) show ?thesis
    by (auto simp: plmn_and_id_def)
qed

text \<open>
  The name of a node of the right sizes always fits. A gNB or en-gNB is accepted with a name that
  says so, an eNB never is.
\<close>

lemma buildRanName_sized:
  assumes "node_sized node"
  shows "\<exists>r buf. buildRanName (zero_buf 64) node = Inr (r, buf) \<and> length buf = 64
    \<and> (if r < 0 then \<not> ran_name_like (c_str buf) else r = 0 \<and> ran_name_like (c_str buf))"
proof -
  have enb: "\<exists>buf. eNB_name b plmn i = Inr buf \<and> length buf = 64 \<and> \<not> ran_name_like (c_str buf)"
    if "writes_name k s b" "k \<le> 29" "length plmn = 3" "\<not> ran_name_like (c_str b)"
      "case i of ENB_ID_NOTHING \<Rightarrow> True | ENB_ID_macro d \<Rightarrow> length d \<le> 4 | ENB_ID_home d \<Rightarrow> length d \<le> 4
        | ENB_ID_short_Macro d \<Rightarrow> length d \<le> 4 | ENB_ID_long_Macro d \<Rightarrow> length d \<le> 4" for b plmn i k s
  proof (cases i)
    case ENB_ID_NOTHING
    with that show ?thesis by (simp add: eNB_name_def writes_name_def)
  next
    case (ENB_ID_macro d)
    with plmn_and_id_writes [OF that(1-3), of "''enB_macro_''" d] that(5) show ?thesis
      by (auto simp: eNB_name_def dest!: writes_like)
  next
    case (ENB_ID_home d)
    with plmn_and_id_writes [OF that(1-3), of "''enB_home_''" d] that(5) show ?thesis
      by (auto simp: eNB_name_def dest!: writes_like)
  next
    case (ENB_ID_short_Macro d)
    with plmn_and_id_writes [OF that(1-3), of "''enB_shortmacro_''" d] that(5) show ?thesis
      by (auto simp: eNB_name_def dest!: writes_like)
  next
    case (ENB_ID_long_Macro d)
    with plmn_and_id_writes [OF that(1-3), of "''enB_longmacro_''" d] that(5) show ?thesis
      by (auto simp: eNB_name_def dest!: writes_like)
  qed
  have zero: "\<not> ran_name_like (c_str (zero_buf 64))" by (simp add: ran_name_like_def)
  show ?thesis
  proof (cases node)
    case NODE_NOTHING
    then show ?thesis using zero by simp
  next
    case (NODE_gNB g)
    with gnb_name_writes [of g "''gnb_''"] assms show ?thesis by (auto dest!: writes_like)
  next
    case (NODE_en_gNB g)
    with gnb_name_writes [of g "''en_gnb_''"] assms show ?thesis by (auto dest!: writes_like)
  next
    case (NODE_eNB g)
    with enb [OF writes_zero_buf _ _ zero, of "plmn_id g" "node_id g"] assms show ?thesis by auto
  next
    case (NODE_ng_eNB g)
    have first: "\<exists>b k s. ng_eNB_name (zero_buf 64) g = Inr b \<and> writes_name k s b \<and> k \<le> 29 \<and> \<not> ran_name_like (c_str b)"
    proof (cases "node_id g")
      case NGENB_ID_NOTHING
      with zero writes_zero_buf show ?thesis by (fastforce simp: ng_eNB_name_def)
    next
      case (NGENB_ID_macro d)
      with plmn_and_id_writes [OF writes_zero_buf, of "plmn_id g" "''ng_enB_macro_''" d] NODE_ng_eNB assms show ?thesis
        by (auto simp: ng_eNB_name_def) (fastforce dest: writes_like)
    next
      case (NGENB_ID_shortmacro d)
      with plmn_and_id_writes [OF writes_zero_buf, of "plmn_id g" "''ng_enB_shortmacro_''" d] NODE_ng_eNB assms show ?thesis
        by (auto simp: ng_eNB_name_def) (fastforce dest: writes_like)
    next
      case (NGENB_ID_longmacro d)
      with plmn_and_id_writes [OF writes_zero_buf, of "plmn_id g" "''ng_enB_longmacro_''" d] NODE_ng_eNB assms show ?thesis
        by (auto simp: ng_eNB_name_def) (fastforce dest: writes_like)
    qed
    then obtain b k s where b: "ng_eNB_name (zero_buf 64) g = Inr b" "writes_name k s b" "k \<le> 29"
      "\<not> ran_name_like (c_str b)" by blast
    have "case reread_id (node_id g) of ENB_ID_NOTHING \<Rightarrow> True | ENB_ID_macro d \<Rightarrow> length d \<le> 4 | ENB_ID_home d \<Rightarrow> length d \<le> 4
        | ENB_ID_short_Macro d \<Rightarrow> length d \<le> 4 | ENB_ID_long_Macro d \<Rightarrow> length d \<le> 4"
      using NODE_ng_eNB assms by (cases "node_id g") auto
    from enb [OF b(2,3) _ b(4) this, of "plmn_id g"] NODE_ng_eNB assms b(1) show ?thesis by auto
  qed
qed

section \<open>The invariant\<close>

definition registered :: "peer \<Rightarrow> bool" where
  "registered p \<longleftrightarrow> counters p (IN_INITI, ProcedureCode_id_E2setup) \<noteq> None"

text \<open>Under which name the map holds a peer.\<close>

definition name_of :: "e2t \<Rightarrow> addr \<Rightarrow> string option" where
  "name_of st a = (case peers st a of
     None \<Rightarrow> None | Some p \<Rightarrow> if registered p then Some (c_str (enodbName p)) else None)"

definition peer_ok :: "peer \<Rightarrow> bool" where
  "peer_ok p \<longleftrightarrow> length (enodbName p) = 64 \<and> \<not> isConnected p
     \<and> (registered p \<longleftrightarrow> ran_name_like (c_str (enodbName p)))
     \<and> (registered p \<longrightarrow> (\<forall>i \<in> set peer_counters. counters p i \<noteq> None))"

definition reserved_fds :: "sctp_params \<Rightarrow> int set" where
  "reserved_fds par = {listenFD par, rmrListenFd par, inotifyFD par}"

definition peer_events :: "epoll_flag set" where
  "peer_events = {EPOLLIN, EPOLLET}"

definition table_inv :: "e2t \<Rightarrow> bool" where
  "table_inv st \<longleftrightarrow> distinct (map fst (keyMap st)) \<and> registers (map_find (keyMap st)) (name_of st)
     \<and> (\<forall>a p. peers st a = Some p \<longrightarrow> peer_ok p)"

text \<open>
  A descriptor in the epoll set is one of the termination's own or that of a live peer, and every
  live peer has one; a block of the heap is never mistaken for one of the own descriptors.
\<close>

definition epoll_inv :: "sctp_params \<Rightarrow> e2t \<Rightarrow> bool" where
  "epoll_inv par st \<longleftrightarrow>
     (\<forall>a p. peers st a = Some p \<longrightarrow> interest st (fileDescriptor p) = Some (Data_ptr a, peer_events)
        \<and> data_fd (Data_ptr a) \<notin> reserved_fds par)
     \<and> (\<forall>fd d fl. interest st fd = Some (d, fl) \<longrightarrow> EPOLLOUT \<notin> fl \<and>
        (d = Data_fd fd \<and> fd \<in> reserved_fds par \<or> (\<exists>a p. d = Data_ptr a \<and> peers st a = Some p \<and> fileDescriptor p = fd)))"

definition e2t_inv :: "ext \<Rightarrow> sctp_params \<Rightarrow> e2t \<Rightarrow> bool" where
  "e2t_inv x par st \<longleftrightarrow> has_bufs x st \<and> table_inv st \<and> epoll_inv par st"

lemmas inv_defs = e2t_inv_def table_inv_def epoll_inv_def

lemma quiet_name_of: "quiet x st st' \<Longrightarrow> name_of st' = name_of st"
  by (rule ext) (simp add: name_of_def quiet_peers)

lemma quiet_inv:
  assumes "quiet x st st'" and "e2t_inv x par st"
  shows "e2t_inv x par st'"
proof -
  from assms(1) have "name_of st' = name_of st" by (rule quiet_name_of)
  with assms show ?thesis by (simp add: inv_defs quiet_def)
qed

lemma table_name_like: "table_inv st \<Longrightarrow> name_of st a = Some k \<Longrightarrow> ran_name_like k"
  by (auto simp: table_inv_def name_of_def peer_ok_def split: option.splits if_splits)

lemma host_key_not_like: "\<not> ran_name_like (host_key p)"
  by (simp add: ran_name_like_def host_key_def)

lemma table_peer: "table_inv st \<Longrightarrow> peers st a = Some p \<Longrightarrow> peer_ok p"
  by (simp add: table_inv_def)

text \<open>A registered peer has all the counters that the handlers use.\<close>

lemma registered_countable:
  "e2t_inv x par st \<Longrightarrow> peers st a = Some p \<Longrightarrow> registered p \<Longrightarrow> i \<in> set peer_counters \<Longrightarrow> countable st a i"
  by (auto simp: inv_defs countable_def peer_ok_def)

section \<open>Cleaning up keeps the invariant\<close>

text \<open>What is left when a peer is gone.\<close>

definition without_peer :: "addr \<Rightarrow> peer \<Rightarrow> e2t \<Rightarrow> e2t \<Rightarrow> bool" where
  "without_peer a p st st' \<longleftrightarrow> peers st' = (peers st)(a := None) \<and> interest st' = (interest st)(fileDescriptor p := None)
     \<and> distinct (map fst (keyMap st'))
     \<and> (\<forall>k. map_find (keyMap st') k = (if k = c_str (enodbName p) \<or> k = host_key p then None else map_find (keyMap st) k))"

lemma without_peer_inv:
  assumes inv: "e2t_inv x par st" and p: "peers st a = Some p" and gone: "without_peer a p st st'" and "has_bufs x st'"
  shows "e2t_inv x par st' \<and> name_of st' = (name_of st)(a := None)"
proof -
  have names: "name_of st' = (name_of st)(a := None)"
    using gone by (auto simp: without_peer_def name_of_def)
  have table: "table_inv st" using inv by (simp add: e2t_inv_def)
  have "registers (map_find (keyMap st')) (name_of st')"
    unfolding registers_def
  proof (intro allI)
    fix k b
    have reg: "map_find (keyMap st) k = Some b \<longleftrightarrow> name_of st b = Some k"
      using table by (simp add: table_inv_def registers_def)
    have mine: "name_of st b = Some (c_str (enodbName p)) \<longleftrightarrow> b = a \<and> registered p"
    proof
      assume b: "name_of st b = Some (c_str (enodbName p))"
      with table_name_like [OF table b] table_peer [OF table p] have r: "registered p" by (simp add: peer_ok_def)
      then have "name_of st a = Some (c_str (enodbName p))" using p by (simp add: name_of_def)
      with b table r show "b = a \<and> registered p" by (simp add: table_inv_def registers_def) (metis option.inject)
    qed (use p in \<open>simp add: name_of_def\<close>)
    have host: "name_of st b \<noteq> Some (host_key p)" using table_name_like [OF table] host_key_not_like by blast
    have "name_of st a = Some k \<Longrightarrow> k = c_str (enodbName p)" using p by (simp add: name_of_def split: if_splits)
    then show "map_find (keyMap st') k = Some b \<longleftrightarrow> name_of st' b = Some k"
      using gone mine host reg by (auto simp: without_peer_def names)
  qed
  then have "table_inv st'" using table gone by (auto simp: table_inv_def without_peer_def)
  moreover have "epoll_inv par st'"
  proof -
    have e: "epoll_inv par st" using inv by (simp add: e2t_inv_def)
    have fd: "interest st (fileDescriptor p) = Some (Data_ptr a, peer_events)" using e p by (simp add: epoll_inv_def)
    have "fileDescriptor q \<noteq> fileDescriptor p" if "peers st b = Some q" "b \<noteq> a" for b q
    proof
      assume "fileDescriptor q = fileDescriptor p"
      moreover have "interest st (fileDescriptor q) = Some (Data_ptr b, peer_events)" using e that(1) by (simp add: epoll_inv_def)
      ultimately show False using fd that(2) by simp
    qed
    with e gone have "interest st' (fileDescriptor q) = Some (Data_ptr b, peer_events) \<and> data_fd (Data_ptr b) \<notin> reserved_fds par"
      if "peers st' b = Some q" for b q
      using that by (auto simp: epoll_inv_def without_peer_def split: if_splits)
    moreover have "EPOLLOUT \<notin> fl \<and> (d = Data_fd f \<and> f \<in> reserved_fds par
        \<or> (\<exists>b q. d = Data_ptr b \<and> peers st' b = Some q \<and> fileDescriptor q = f))" if i: "interest st' f = Some (d, fl)" for f d fl
    proof -
      from i gone have f: "f \<noteq> fileDescriptor p" "interest st f = Some (d, fl)" by (auto simp: without_peer_def split: if_splits)
      from e f(2) have "EPOLLOUT \<notin> fl" and "d = Data_fd f \<and> f \<in> reserved_fds par
        \<or> (\<exists>b q. d = Data_ptr b \<and> peers st b = Some q \<and> fileDescriptor q = f)" unfolding epoll_inv_def by blast+
      moreover have "peers st' b = Some q" if "peers st b = Some q" "fileDescriptor q = f" for b q
        using that f(1) p gone by (auto simp: without_peer_def)
      ultimately show ?thesis by blast
    qed
    ultimately show ?thesis unfolding epoll_inv_def by blast
  qed
  ultimately show ?thesis using names assms(4) by (simp add: e2t_inv_def)
qed

lemma distinct_map_erase: "distinct (map fst m) \<Longrightarrow> distinct (map fst (map_erase k m))"
  by (rule peer_map.ok_erase)

lemma cleanHashEntry_without:
  assumes "peers st a = Some p" and "distinct (map fst (keyMap st))" and "peers st1 = peers st"
    and "interest st1 = (interest st)(fileDescriptor p := None)"
    and "keyMap st1 = keyMap st \<or> keyMap st1 = map_erase (c_str (enodbName p)) (keyMap st)" and "has_bufs x st1"
  shows "\<exists>st'. cleanHashEntry a st1 = Inr st' \<and> without_peer a p st st' \<and> has_bufs x st'"
  using assms
  by (auto simp: cleanHashEntry_def peer_at_def free_block_def without_peer_def has_bufs_def map_find_def map_of_erase
      intro!: distinct_map_erase)

end
