(* ===== verification/E2tEvents.thy ===== *)
theory E2tEvents
  imports E2tInvariant
begin

text \<open>
  No expected event makes the E2 termination run into undefined behaviour: every handler keeps
  the invariant, and what happens to the map is a run of the abstract registry below.
\<close>

section \<open>The abstract registry\<close>

text \<open>Connected RANs by name: a RAN registers once, disconnects, or all are cleared.\<close>

inductive registry_step :: "(addr \<Rightarrow> string option) \<Rightarrow> (addr \<Rightarrow> string option) \<Rightarrow> bool" where
  register: "nm a = None \<Longrightarrow> \<forall>b. nm b \<noteq> Some k \<Longrightarrow> ran_name_like k \<Longrightarrow> registry_step nm (nm(a \<mapsto> k))"
| disconnect: "registry_step nm (nm(a := None))"
| clear: "registry_step nm (\<lambda>_. None)"

definition evolves :: "ext \<Rightarrow> sctp_params \<Rightarrow> e2t \<Rightarrow> e2t \<Rightarrow> bool" where
  "evolves x par st st' \<longleftrightarrow> e2t_inv x par st' \<and> registry_step\<^sup>*\<^sup>* (name_of st) (name_of st')"

lemma evolves_refl: "e2t_inv x par st \<Longrightarrow> evolves x par st st"
  by (simp add: evolves_def)

lemma evolves_trans: "evolves x par st st1 \<Longrightarrow> evolves x par st1 st2 \<Longrightarrow> evolves x par st st2"
  by (auto simp: evolves_def)

lemma evolves_inv: "evolves x par st st' \<Longrightarrow> e2t_inv x par st'"
  by (simp add: evolves_def)

lemma quiet_evolves: "quiet x st st' \<Longrightarrow> e2t_inv x par st \<Longrightarrow> evolves x par st st'"
  by (simp add: evolves_def quiet_inv quiet_name_of)

lemma without_peer_evolves:
  "e2t_inv x par st \<Longrightarrow> peers st a = Some p \<Longrightarrow> without_peer a p st st' \<Longrightarrow> has_bufs x st' \<Longrightarrow> evolves x par st st'"
  using without_peer_inv [of x par st a p st'] disconnect [of "name_of st" a] by (auto simp: evolves_def)

lemma inv_bufs: "e2t_inv x par st \<Longrightarrow> has_bufs x st"
  by (simp add: e2t_inv_def)

section \<open>Setting up\<close>

text \<open>Changing a peer but not its name or descriptor.\<close>

lemma set_peer_evolves:
  assumes "e2t_inv x par st" and "peers st a = Some p" and "peer_ok p'" and "fileDescriptor p' = fileDescriptor p"
    and "name_of (set_peer a p' st) = name_of st"
  shows "evolves x par st (set_peer a p' st)"
proof -
  have "has_bufs x (set_peer a p' st)" using assms(1) by (simp add: e2t_inv_def has_bufs_def set_peer_def)
  moreover have "table_inv (set_peer a p' st)"
    using assms(1,3,5) by (auto simp: e2t_inv_def table_inv_def set_peer_def)
  moreover have "epoll_inv par (set_peer a p' st)"
    using assms(1,2,4) unfolding e2t_inv_def epoll_inv_def set_peer_def
    by (simp add: fun_upd_def) (metis option.inject)
  ultimately show ?thesis using assms(5) by (simp add: evolves_def e2t_inv_def)
qed

lemma registered_simps [simp]:
  "registered (p\<lparr>enodbName := n\<rparr>) = registered p" "registered (p\<lparr>gotSetup := b\<rparr>) = registered p"
  "registered (p\<lparr>isConnected := b\<rparr>) = registered p"
  by (simp_all add: registered_def)

lemma registered_build: "registered (buildPrometheusList p)"
  by (simp add: registered_def buildPrometheusList_def peer_counters_def)

lemma build_fields [simp]:
  "enodbName (buildPrometheusList p) = enodbName p" "fileDescriptor (buildPrometheusList p) = fileDescriptor p"
  "isConnected (buildPrometheusList p) = isConnected p"
  by (simp_all add: buildPrometheusList_def)

lemma register_evolves:
  assumes inv: "e2t_inv x par st" and p: "peers st a = Some p" and "\<not> registered p"
    and name: "length buf = 64" "ran_name_like (c_str buf)" "\<forall>b. name_of st b \<noteq> Some (c_str buf)"
  shows "evolves x par st (set_peer a (buildPrometheusList (p\<lparr>enodbName := buf\<rparr>))
    (st\<lparr>keyMap := map_setkey (c_str buf) a (keyMap st)\<rparr>))" (is "evolves x par st ?st")
proof -
  let ?p = "buildPrometheusList (p\<lparr>enodbName := buf\<rparr>)"
  have a: "name_of st a = None" using p assms(3) by (simp add: name_of_def)
  have nm: "name_of ?st = (name_of st)(a \<mapsto> c_str buf)"
    by (rule ext) (simp add: name_of_def set_peer_def registered_build)
  have "map_find (keyMap st) (c_str buf) = None"
    using inv name(3) by (cases "map_find (keyMap st) (c_str buf)") (auto simp: e2t_inv_def table_inv_def registers_def)
  moreover have "distinct (map fst (keyMap st))" "registers (map_find (keyMap st)) (name_of st)"
    using inv by (simp_all add: e2t_inv_def table_inv_def)
  moreover have "keyMap ?st = map_setkey (c_str buf) a (keyMap st)" by (simp add: set_peer_def)
  ultimately have "registers (map_find (keyMap ?st)) (name_of ?st)" and "distinct (map fst (keyMap ?st))"
    using peer_map.register [of "keyMap st" "name_of st" "c_str buf" a] peer_map.ok_setkey [of "keyMap st"] a
    by (simp_all only: nm)
  moreover have "peer_ok ?p"
    using inv p name(1,2) by (auto simp: e2t_inv_def table_inv_def peer_ok_def registered_build)
      (auto simp: buildPrometheusList_def)
  ultimately have "table_inv ?st" using inv by (auto simp: e2t_inv_def table_inv_def set_peer_def)
  moreover have "epoll_inv par ?st"
    using inv p unfolding e2t_inv_def epoll_inv_def set_peer_def
    by (simp add: fun_upd_def) (metis option.inject)
  moreover have "has_bufs x ?st" using inv by (simp add: e2t_inv_def has_bufs_def set_peer_def)
  ultimately have "e2t_inv x par ?st" by (simp add: e2t_inv_def)
  moreover have "registry_step (name_of st) (name_of ?st)" unfolding nm by (rule register [OF a name(3,2)])
  ultimately show ?thesis by (simp add: evolves_def)
qed

text \<open>The list of a setup request has one node id.\<close>

definition setup_node :: "node_ie ie list \<Rightarrow> GlobalE2node_ID \<Rightarrow> bool" where
  "setup_node ies node \<longleftrightarrow> (\<exists>ie. filter (\<lambda>ie. fld_id ie = id_GlobalE2node_ID) ies = [ie]
     \<and> fld_value ie = IE_other DEF_GlobalE2node_ID (Node node))"

lemma collect_no_node: "filter (\<lambda>ie. fld_id ie = id_GlobalE2node_ID) ies = [] \<Longrightarrow> collect_loop a ies msg st = Inr (0, msg, st)"
  by (induction ies) (auto split: if_splits)

lemma collect_one:
  assumes "filter (\<lambda>ie. fld_id ie = id_GlobalE2node_ID) ies = [ie]"
    and "fld_value ie = IE_other DEF_GlobalE2node_ID (Node node)"
  shows "collect_loop a ies msg st = collect_loop a [ie] msg st"
  using assms
proof (induction ies)
  case (Cons j js)
  show ?case
  proof (cases "fld_id j = id_GlobalE2node_ID")
    case True
    with Cons.prems have "j = ie" "filter (\<lambda>ie. fld_id ie = id_GlobalE2node_ID) js = []" by auto
    then have "collect_loop a js = collect_loop a []" by (intro ext) (simp add: collect_no_node)
    with \<open>j = ie\<close> show ?thesis unfolding collect_loop.simps(2) by (simp only:)
  next
    case False
    with Cons show ?thesis by simp
  qed
qed simp

lemma collect_setup:
  assumes "peers st a = Some p" and "enodbName p = zero_buf 64" and "msg_enodbName msg = zero_buf 64"
    and "setup_node (set_items (em_protocolIEs m)) node" and "node_sized node"
  shows "\<exists>r buf. buildRanName (zero_buf 64) node = Inr (r, buf) \<and> length buf = 64 \<and>
    (if r < 0 then \<not> ran_name_like (c_str buf)
       \<and> collectSetupRequestData a m msg st = Inr (-1, msg, set_peer a (p\<lparr>enodbName := buf\<rparr>) st)
     else ran_name_like (c_str buf) \<and> (\<exists>copied. c_str copied = c_str buf \<and>
       collectSetupRequestData a m msg st = Inr (0, msg\<lparr>msg_enodbName := copied\<rparr>,
         set_peer a (p\<lparr>enodbName := buf\<rparr>) (st\<lparr>keyMap := map_setkey (c_str buf) a (keyMap st)\<rparr>))))"
proof -
  from buildRanName_sized [OF assms(5)] obtain r buf where b: "buildRanName (zero_buf 64) node = Inr (r, buf)" "length buf = 64"
    "if r < 0 then \<not> ran_name_like (c_str buf) else r = 0 \<and> ran_name_like (c_str buf)" by blast
  from assms(4) obtain ie where ie: "filter (\<lambda>ie. fld_id ie = id_GlobalE2node_ID) (set_items (em_protocolIEs m)) = [ie]"
    "fld_value ie = IE_other DEF_GlobalE2node_ID (Node node)" by (auto simp: setup_node_def)
  then have id: "fld_id ie = id_GlobalE2node_ID" by (metis (mono_tags, lifting) filter_eq_Cons_iff)
  have same: "p\<lparr>enodbName := zero_buf 64\<rparr> = p" using assms(2) by simp
  have len: "length (c_str buf) \<le> 64" using b(2) by (metis c_str_def length_takeWhile_le)
  let ?copied = "c_str buf @ drop (length (c_str buf)) (zero_buf 64)"
  have c: "c_str ?copied = c_str buf" by (simp del: drop_zero_buf add: drop_zero_buf)
  have m: "memcpy (msg_enodbName msg) (c_str buf) = Inr ?copied" using len assms(3) by (simp add: memcpy_def)
  show ?thesis
  proof (cases "r < 0")
    case True
    with b assms(1) show ?thesis unfolding collectSetupRequestData_def collect_one [OF ie]
      by (intro exI [of _ r] exI [of _ buf]) (simp add: id ie(2) same peer_at_def set_peer_def Let_def)
  next
    case False
    with b assms(1) m have "collectSetupRequestData a m msg st = Inr (0, msg\<lparr>msg_enodbName := ?copied\<rparr>,
        set_peer a (p\<lparr>enodbName := buf\<rparr>) (st\<lparr>keyMap := map_setkey (c_str ?copied) a (keyMap st)\<rparr>))"
      unfolding collectSetupRequestData_def collect_one [OF ie]
      by (simp add: id ie(2) same peer_at_def set_peer_def Let_def)
    then have ex: "\<exists>copied. c_str copied = c_str buf \<and> collectSetupRequestData a m msg st = Inr (0, msg\<lparr>msg_enodbName := copied\<rparr>,
        set_peer a (p\<lparr>enodbName := buf\<rparr>) (st\<lparr>keyMap := map_setkey (c_str buf) a (keyMap st)\<rparr>))"
      by (intro exI [of _ ?copied]) (simp only: c)
    show ?thesis by (rule exI [of _ r], rule exI [of _ buf]) (use False b ex in \<open>simp only: if_False simp_thms\<close>)
  qed
qed

section \<open>Forwarding a setup or a service update\<close>

text \<open>
  Text of exactly the size of the buffer is terminated behind its end (\<open>setup_xml\<close>); it is the only
  length that does harm.
\<close>

definition xml_fits :: "ext \<Rightarrow> pdu \<Rightarrow> bool" where
  "xml_fits x pdu \<longleftrightarrow> (case asn_encode_xer x pdu of None \<Rightarrow> True | Some xml \<Rightarrow> length xml \<noteq> xer_buffer_size)"

lemma safe_setup_xml [safe_rules]: "xml_fits x pdu \<Longrightarrow> safe (\<lambda>(r, st'). quiet x st st') (setup_xml x pdu st)"
  by (auto simp: setup_xml_def malloc_call_def xml_fits_def quiet_def has_bufs_def split: list.splits option.splits)

lemma safe_rmr_send_retry [safe_rules]: "safe (quiet x st) (rmr_send_retry x mb st)"
  unfolding rmr_send_retry_def
proof (rule safe_bind [OF safe_rmr_send_buf [where x = x]], clarify)
  fix r st1 assume q: "quiet x st st1"
  from safe_rmr_send_buf [where x = x and st = st1]
  have "safe (quiet x st) (fault_bind (rmr_send_buf mb' st1) (\<lambda>(_, st2). Inr st2))" for mb'
    by (rule safe_bind) (use q in \<open>auto intro: quiet_trans\<close>)
  with q show "safe (quiet x st) (case r of None \<Rightarrow> Inr st1 | Some mb' \<Rightarrow>
      if mb_state mb' \<noteq> 0 \<and> mb_state mb' = rmr_err_retry x then
        fault_bind (rmr_send_buf (mb'\<lparr>mb_state := 0\<rparr>) st1) (\<lambda>(_, st2). Inr st2) else Inr st1)"
    by (auto split: option.split)
qed

lemma got_setup_evolves:
  assumes "e2t_inv x par st" and "peers st a = Some p"
  shows "evolves x par st (set_peer a (p\<lparr>gotSetup := b\<rparr>) st)"
proof (rule set_peer_evolves [OF assms])
  show "peer_ok (p\<lparr>gotSetup := b\<rparr>)" using assms by (auto simp: e2t_inv_def table_inv_def peer_ok_def)
  show "name_of (set_peer a (p\<lparr>gotSetup := b\<rparr>) st) = name_of st"
    by (rule ext) (simp add: name_of_def set_peer_def assms(2))
qed simp

text \<open>What a handler of a peer's message may do: the peer stays, the map evolves.\<close>

definition serves :: "ext \<Rightarrow> sctp_params \<Rightarrow> addr \<Rightarrow> e2t \<Rightarrow> e2t \<Rightarrow> bool" where
  "serves x par a st st' \<longleftrightarrow> evolves x par st st' \<and> (peers st a \<noteq> None \<longrightarrow> peers st' a \<noteq> None)"

lemma serves_trans: "serves x par a st st1 \<Longrightarrow> serves x par a st1 st2 \<Longrightarrow> serves x par a st st2"
  by (auto simp: serves_def intro: evolves_trans)

lemma quiet_serves: "quiet x st st' \<Longrightarrow> e2t_inv x par st \<Longrightarrow> serves x par a st st'"
  by (simp add: serves_def quiet_evolves quiet_peers)

lemma serves_inv: "serves x par a st st' \<Longrightarrow> e2t_inv x par st'"
  by (simp add: serves_def evolves_def)

lemma safe_buildAndSendSetupRequest [safe_rules]:
  assumes inv: "e2t_inv x par st" and p: "peers st a = Some p" and msg: "data_there msg" and "xml_fits x pdu"
  shows "safe (serves x par a st) (buildAndSendSetupRequest x par a pdu msg st)"
  unfolding buildAndSendSetupRequest_def
proof (rule safe_bind [OF safe_setup_xml [OF assms(4)]], clarify)
  fix r st1 assume q1: "quiet x st st1"
  show "safe (serves x par a st) (case r of None \<Rightarrow> Inr st1 | Some xml \<Rightarrow>
      let res = without_blanks xml; text = myIP par @ '':'' @ decimal (rmrPort par) @ ''|'' @ res; (tx, st2) = next_transaction st1
      in case rmr_alloc_msg x of None \<Rightarrow> Inl Null_deref | Some mb \<Rightarrow>
        fault_bind (rmr_send_retry x ((payload_text (length res + 256) text mb)\<lparr>mb_mtype := msg_messageType msg,
            mb_state := 0, mb_meid := c_str (msg_enodbName msg), mb_xact := tx\<rparr>) st2) (\<lambda>st3.
        fault_bind (peer_at a st3) (\<lambda>p. buildJsonMessage msg (set_peer a (p\<lparr>gotSetup := True\<rparr>) st3))))"
  proof (cases r)
    case None
    with q1 inv show ?thesis by (simp add: quiet_serves)
  next
    case (Some xml)
    obtain tx st2 where n: "next_transaction st1 = (tx, st2)" by (cases "next_transaction st1")
    with quiet_next_transaction [of x st1] q1 have q2: "quiet x st st2" by (auto intro: quiet_trans)
    from inv_bufs [OF inv] obtain mb where mb: "rmr_alloc_msg x = Some mb" by (auto simp: has_bufs_def)
    have "safe (serves x par a st) (fault_bind (rmr_send_retry x m st2) (\<lambda>st3.
        fault_bind (peer_at a st3) (\<lambda>p. buildJsonMessage msg (set_peer a (p\<lparr>gotSetup := True\<rparr>) st3))))" for m
    proof (rule safe_bind [OF safe_rmr_send_retry [where x = x]])
      fix st3 assume "quiet x st2 st3"
      with q2 have q3: "quiet x st st3" by (rule quiet_trans)
      then have p3: "peers st3 a = Some p" and i3: "e2t_inv x par st3" using p inv by (simp_all add: quiet_peers quiet_inv)
      let ?st = "set_peer a (p\<lparr>gotSetup := True\<rparr>) st3"
      have e: "serves x par a st ?st"
        using q3 inv got_setup_evolves [OF i3 p3] by (auto simp: serves_def set_peer_def intro: evolves_trans quiet_evolves)
      from safe_buildJsonMessage [OF inv_bufs [OF serves_inv [OF e]] msg] e
      show "safe (serves x par a st) (fault_bind (peer_at a st3) (\<lambda>p. buildJsonMessage msg (set_peer a (p\<lparr>gotSetup := True\<rparr>) st3)))"
        by (simp add: peer_at_def p3) (auto elim!: safe_mono intro: serves_trans quiet_serves serves_inv)
    qed
    with Some n mb show ?thesis by (simp add: Let_def)
  qed
qed

section \<open>Expected messages\<close>

text \<open>
  What a RAN sends in the order of the protocol: first a setup request with one node id of the
  right sizes, whose name no other RAN has; then anything but another setup request or the
  outcome of a reset. A setup request and a service update, which are turned into XML, have a text
  of another size than the buffer. Messages that are not forwarded are always expected.
\<close>

definition setup_expected :: "e2t \<Rightarrow> peer \<Rightarrow> node_ie elementary \<Rightarrow> bool" where
  "setup_expected st p m \<longleftrightarrow> enodbName p = zero_buf 64 \<and>
     (\<exists>node. setup_node (set_items (em_protocolIEs m)) node \<and> node_sized node \<and>
       (\<forall>r buf b. buildRanName (zero_buf 64) node = Inr (r, buf) \<longrightarrow> name_of st b \<noteq> Some (c_str buf)))"

fun pdu_expected :: "ext \<Rightarrow> e2t \<Rightarrow> peer \<Rightarrow> pdu \<Rightarrow> bool" where
  "pdu_expected x st p (PDU_initiatingMessage m) \<longleftrightarrow>
     (em_procedureCode m \<in> {ProcedureCode_id_E2setup, ProcedureCode_id_RICserviceUpdate} \<longrightarrow> xml_fits x (PDU_initiatingMessage m))
     \<and> (if em_procedureCode m = ProcedureCode_id_E2setup then setup_expected st p m
      else em_procedureCode m \<in> {ProcedureCode_id_RICserviceUpdate, ProcedureCode_id_ErrorIndication, ProcedureCode_id_Reset,
        ProcedureCode_id_RICindication} \<longrightarrow> registered p)"
| "pdu_expected x st p (PDU_successfulOutcome m) \<longleftrightarrow> em_procedureCode m \<noteq> ProcedureCode_id_Reset \<and>
     (em_procedureCode m \<in> {ProcedureCode_id_RICcontrol, ProcedureCode_id_RICsubscription,
        ProcedureCode_id_RICsubscriptionDelete} \<longrightarrow> registered p)"
| "pdu_expected x st p (PDU_unsuccessfulOutcome m) \<longleftrightarrow>
     (em_procedureCode m \<in> {ProcedureCode_id_RICcontrol, ProcedureCode_id_RICsubscription,
        ProcedureCode_id_RICsubscriptionDelete} \<longrightarrow> registered p)"
| "pdu_expected x st p PDU_NOTHING \<longleftrightarrow> True"

lemma counter_lists [simp]:
  "set buildE2TPrometheusCounters \<union> {(IN_SUCC, ProcedureCode_id_Reset), (OUT_INITI, ProcedureCode_id_ErrorIndication),
     (OUT_INITI, ProcedureCode_id_Reset)} = set peer_counters"
  by code_simp

lemma e2t_counter_simps [simp]:
  "(IN_INITI, ProcedureCode_id_E2setup) \<in> set buildE2TPrometheusCounters"
  "(IN_INITI, ProcedureCode_id_RICserviceUpdate) \<in> set buildE2TPrometheusCounters"
  "(IN_INITI, ProcedureCode_id_ErrorIndication) \<in> set buildE2TPrometheusCounters"
  "(IN_INITI, ProcedureCode_id_Reset) \<in> set buildE2TPrometheusCounters"
  "(IN_INITI, ProcedureCode_id_RICindication) \<in> set buildE2TPrometheusCounters"
  "(IN_SUCC, ProcedureCode_id_RICcontrol) \<in> set buildE2TPrometheusCounters"
  "(IN_SUCC, ProcedureCode_id_RICsubscription) \<in> set buildE2TPrometheusCounters"
  "(IN_SUCC, ProcedureCode_id_RICsubscriptionDelete) \<in> set buildE2TPrometheusCounters"
  "(IN_UN_SUCC, ProcedureCode_id_RICcontrol) \<in> set buildE2TPrometheusCounters"
  "(IN_UN_SUCC, ProcedureCode_id_RICsubscription) \<in> set buildE2TPrometheusCounters"
  "(IN_UN_SUCC, ProcedureCode_id_RICsubscriptionDelete) \<in> set buildE2TPrometheusCounters"
  by (simp_all add: buildE2TPrometheusCounters_def)

lemma e2t_counter_peer: "i \<in> set buildE2TPrometheusCounters \<Longrightarrow> i \<in> set peer_counters"
  using counter_lists by blast

lemma safe_unsupported [safe_rules]:
  "has_bufs x st \<Longrightarrow> data_there msg \<Longrightarrow> safe (\<lambda>(msg', st'). quiet x st st' \<and> data_there msg') (unsupported msg st)"
  using safe_buildJsonMessage [of x st "msg\<lparr>msg_messageType := Mtype 0\<rparr>"]
  by (auto simp: unsupported_def Let_def elim!: safe_bind)

text \<open>A quiet handler serves its peer.\<close>

lemma quiet_handler:
  "e2t_inv x par st \<Longrightarrow> safe (\<lambda>(msg', st'). quiet x st st' \<and> data_there msg') r
    \<Longrightarrow> safe (\<lambda>(msg', st'). serves x par a st st' \<and> data_there msg') r"
  by (erule safe_mono) (auto intro: quiet_serves)

lemma safe_setup:
  assumes inv: "e2t_inv x par st" and p: "peers st a = Some p" and msg: "data_there msg" "msg_enodbName msg = enodbName p"
    and x: "xml_fits x pdu" and m: "setup_expected st p m" "em_procedureCode m = ProcedureCode_id_E2setup"
  shows "safe (\<lambda>(msg', st'). serves x par a st st' \<and> data_there msg') (asnInitiatingRequest x par a pdu m msg st)"
proof -
  from m(1) obtain node where node: "enodbName p = zero_buf 64" "setup_node (set_items (em_protocolIEs m)) node" "node_sized node"
    and fresh: "\<And>r buf b. buildRanName (zero_buf 64) node = Inr (r, buf) \<Longrightarrow> name_of st b \<noteq> Some (c_str buf)"
    by (auto simp: setup_expected_def)
  have unreg: "\<not> registered p" and ok: "peer_ok p"
    using inv p node(1) by (auto simp: e2t_inv_def table_inv_def peer_ok_def ran_name_like_def)
  from collect_setup [OF p node(1) _ node(2,3), of msg] msg(2) node(1) obtain r buf where
    b: "buildRanName (zero_buf 64) node = Inr (r, buf)" "length buf = 64" and
    c: "if r < 0 then \<not> ran_name_like (c_str buf)
          \<and> collectSetupRequestData a m msg st = Inr (-1, msg, set_peer a (p\<lparr>enodbName := buf\<rparr>) st)
        else ran_name_like (c_str buf) \<and> (\<exists>copied. c_str copied = c_str buf \<and>
          collectSetupRequestData a m msg st = Inr (0, msg\<lparr>msg_enodbName := copied\<rparr>,
            set_peer a (p\<lparr>enodbName := buf\<rparr>) (st\<lparr>keyMap := map_setkey (c_str buf) a (keyMap st)\<rparr>)))" by auto
  show ?thesis
  proof (cases "r < 0")
    case True
    have "evolves x par st (set_peer a (p\<lparr>enodbName := buf\<rparr>) st)"
    proof (rule set_peer_evolves [OF inv p])
      show "peer_ok (p\<lparr>enodbName := buf\<rparr>)" using ok unreg True c b(2) by (simp add: peer_ok_def)
      show "name_of (set_peer a (p\<lparr>enodbName := buf\<rparr>) st) = name_of st"
        by (rule ext) (simp add: name_of_def set_peer_def p unreg)
    qed simp
    with True c m(2) msg(1) show ?thesis by (simp add: asnInitiatingRequest_def serves_def set_peer_def)
  next
    case False
    with c obtain copied where like: "ran_name_like (c_str buf)" and col: "collectSetupRequestData a m msg st =
        Inr (0, msg\<lparr>msg_enodbName := copied\<rparr>,
          set_peer a (p\<lparr>enodbName := buf\<rparr>) (st\<lparr>keyMap := map_setkey (c_str buf) a (keyMap st)\<rparr>))" by auto
    let ?p = "buildPrometheusList (p\<lparr>enodbName := buf\<rparr>)"
    let ?st = "set_peer a ?p (st\<lparr>keyMap := map_setkey (c_str buf) a (keyMap st)\<rparr>)"
    let ?msg = "msg\<lparr>msg_enodbName := copied, msg_messageType := RIC_E2_SETUP_REQ\<rparr>"
    have e: "evolves x par st ?st" by (rule register_evolves [OF inv p unreg b(2) like]) (use fresh b(1) in blast)
    then have inv': "e2t_inv x par ?st" by (rule evolves_inv)
    have p': "peers ?st a = Some ?p" by (simp add: set_peer_def)
    have s: "serves x par a st ?st" using e by (simp add: serves_def set_peer_def)
    have "safe (\<lambda>(msg', st'). serves x par a st st' \<and> data_there msg')
      (fault_bind (count_traffic a (IN_INITI, 1) (IN_INITI, 1) n ?st) (\<lambda>st3.
        fault_bind (buildAndSendSetupRequest x par a pdu ?msg st3) (\<lambda>st4. Inr (?msg, st4))))" for n
    proof (rule safe_bind [OF safe_count_traffic [where x = x]])
      show "countable ?st a (IN_INITI, 1)"
        by (rule registered_countable [OF inv' p' registered_build e2t_counter_peer]) simp
      fix st3 assume q: "quiet x ?st st3"
      then have s3: "serves x par a st st3" by (rule serves_trans [OF s quiet_serves [OF _ inv']])
      from q p' have "peers st3 a = Some ?p" by (simp add: quiet_peers)
      from safe_buildAndSendSetupRequest [OF serves_inv [OF s3] this _ x, of ?msg] msg(1)
      show "safe (\<lambda>(msg', st'). serves x par a st st' \<and> data_there msg')
        (fault_bind (buildAndSendSetupRequest x par a pdu ?msg st3) (\<lambda>st4. Inr (?msg, st4)))"
        by (auto elim!: safe_bind intro: serves_trans [OF s3])
    qed simp
    then show ?thesis by (simp add: asnInitiatingRequest_def m(2) col peer_at_def set_peer_def Let_def)
  qed
qed

lemma safe_service_update:
  assumes inv: "e2t_inv x par st" and p: "peers st a = Some p" "registered p" and msg: "data_there msg" and x: "xml_fits x pdu"
    and m: "em_procedureCode m = ProcedureCode_id_RICserviceUpdate"
  shows "safe (\<lambda>(msg', st'). serves x par a st st' \<and> data_there msg') (asnInitiatingRequest x par a pdu m msg st)"
proof -
  let ?msg = "msg\<lparr>msg_messageType := RIC_SERVICE_UPDATE\<rparr>"
  have "safe (\<lambda>(msg', st'). serves x par a st st' \<and> data_there msg')
    (fault_bind (count_traffic a (IN_INITI, 7) (IN_INITI, 7) n st) (\<lambda>st1.
      fault_bind (buildAndSendSetupRequest x par a pdu ?msg st1) (\<lambda>st2. Inr (?msg, st2))))" for n
  proof (rule safe_bind [OF safe_count_traffic [where x = x]])
    show "countable st a (IN_INITI, 7)" by (rule registered_countable [OF inv p e2t_counter_peer]) simp
    fix st1 assume q: "quiet x st st1"
    then have s: "serves x par a st st1" using inv by (rule quiet_serves)
    from q p have "peers st1 a = Some p" by (simp add: quiet_peers)
    from safe_buildAndSendSetupRequest [OF serves_inv [OF s] this _ x, of ?msg] msg
    show "safe (\<lambda>(msg', st'). serves x par a st st' \<and> data_there msg')
      (fault_bind (buildAndSendSetupRequest x par a pdu ?msg st1) (\<lambda>st2. Inr (?msg, st2)))"
      by (auto elim!: safe_bind intro: serves_trans [OF s])
  qed simp
  then show ?thesis by (simp add: asnInitiatingRequest_def m Let_def)
qed

lemma safe_dispatch:
  assumes inv: "e2t_inv x par st" and p: "peers st a = Some p" and msg: "data_there msg" "msg_enodbName msg = enodbName p"
    and pdu: "pdu_expected x st p pdu"
  shows "safe (\<lambda>(msg', st'). serves x par a st st' \<and> data_there msg') (dispatch_pdu x par a pdu msg st)"
proof -
  note bufs = inv_bufs [OF inv]
  have count: "registered p \<Longrightarrow> i \<in> set buildE2TPrometheusCounters \<Longrightarrow> countable st a i" for i
    by (rule registered_countable [OF inv p _ e2t_counter_peer])
  note quietly = quiet_handler [OF inv safe_unsupported [OF bufs msg(1)]]
    quiet_handler [OF inv safe_count_and_forward [OF bufs msg(1) count]]
    quiet_handler [OF inv safe_count_and_forward_xml [OF bufs msg(1) count]]
    quiet_handler [OF inv safe_forward_request_id [OF bufs msg(1) count]]
  show ?thesis
  proof (cases pdu)
    case PDU_NOTHING
    then show ?thesis using msg inv by (simp add: serves_def evolves_refl)
  next
    case (PDU_initiatingMessage m)
    consider "em_procedureCode m = ProcedureCode_id_E2setup" | "em_procedureCode m = ProcedureCode_id_RICserviceUpdate"
      | "em_procedureCode m \<noteq> ProcedureCode_id_E2setup" "em_procedureCode m \<noteq> ProcedureCode_id_RICserviceUpdate" by blast
    then show ?thesis
    proof cases
      case 1
      with safe_setup [OF inv p msg _ _ 1, of pdu] pdu PDU_initiatingMessage show ?thesis by simp
    next
      case 2
      with safe_service_update [OF inv p _ msg(1) _ 2, of pdu] pdu PDU_initiatingMessage show ?thesis by simp
    next
      case 3
      with pdu PDU_initiatingMessage show ?thesis by (auto simp: asnInitiatingRequest_def Let_def intro!: quietly)
    qed
  next
    case (PDU_successfulOutcome m)
    with pdu show ?thesis by (auto simp: asnSuccessfulMsg_def Let_def intro!: quietly)
  next
    case (PDU_unsuccessfulOutcome m)
    with pdu show ?thesis by (auto simp: asnUnSuccsesfulMsg_def Let_def intro!: quietly)
  qed
qed

section \<open>Reading\<close>

text \<open>Each message that is read is expected in the state that has been reached.\<close>

fun reads_expected :: "ext \<Rightarrow> sctp_params \<Rightarrow> addr \<Rightarrow> read_result list \<Rightarrow> reporting \<Rightarrow> e2t \<Rightarrow> bool" where
  "reads_expected x par a [] msg st \<longleftrightarrow> True"
| "reads_expected x par a (r # rs) msg st \<longleftrightarrow>
     (case r of
        Read_failed e \<Rightarrow> True
      | Read_octets bs \<Rightarrow>
          (case (peers st a, asn_decode_per x bs) of
             (Some p, Some pdu) \<Rightarrow> bs = [] \<or> pdu_expected x st p pdu
           | _ \<Rightarrow> True))
     \<and> (case receive_step x par a r msg st of
          Inr (None, msg', st') \<Rightarrow> reads_expected x par a rs msg' st'
        | _ \<Rightarrow> True)"

lemma quiet_pdu_expected: "quiet x st st' \<Longrightarrow> pdu_expected x st' p pdu = pdu_expected x st p pdu"
  by (cases pdu) (simp_all add: setup_expected_def quiet_name_of)

lemma safe_receive_step:
  assumes inv: "e2t_inv x par st" and p: "peers st a = Some p"
    and exp: "\<And>bs pdu. r = Read_octets bs \<Longrightarrow> bs \<noteq> [] \<Longrightarrow> asn_decode_per x bs = Some pdu \<Longrightarrow> pdu_expected x st p pdu"
  shows "safe (\<lambda>(d, msg', st'). serves x par a st st' \<and> data_there msg') (receive_step x par a r msg st)"
proof -
  define n where "n = (case r of Read_octets bs \<Rightarrow> int (length bs) | Read_failed e \<Rightarrow> -1)"
  define bs where "bs = (case r of Read_octets bs \<Rightarrow> bs | Read_failed e \<Rightarrow> [])"
  define msg1 where "msg1 = msg\<lparr>msg_asndata := Send_payload, msg_asnLength := n, msg_enodbName := enodbName p,
    msg_direction := CHR ''U''\<rparr>"
  have msg1: "data_there msg1" "msg_enodbName msg1 = enodbName p" by (simp_all add: msg1_def)
  have "safe (\<lambda>(d, msg', st'). serves x par a st st' \<and> data_there msg')
    (fault_bind (with_send (\<lambda>mb. mb\<lparr>mb_len := n, mb_payload := overwrite bs (mb_payload mb)\<rparr>) st) (\<lambda>st1.
       case r of
         Read_failed e \<Rightarrow> Inr (if e = EINTR then None else Some (e \<noteq> EAGAIN), msg1, st1)
       | Read_octets bs \<Rightarrow>
           if bs = [] then Inr (Some True, msg1, st1)
           else case asn_decode_per x bs of None \<Rightarrow> Inr (Some False, msg1, st1)
             | Some pdu \<Rightarrow> fault_bind (dispatch_pdu x par a pdu msg1 st1) (\<lambda>(msg2, st2). Inr (None, msg2, st2))))"
  proof (rule safe_bind [OF safe_with_send [OF inv_bufs [OF inv]]])
    fix st1 assume q: "quiet x st st1"
    have s: "serves x par a st st1" using q inv by (rule quiet_serves)
    have p1: "peers st1 a = Some p" using q p by (simp add: quiet_peers)
    have "safe (\<lambda>(d, msg', st'). serves x par a st st' \<and> data_there msg')
        (fault_bind (dispatch_pdu x par a pdu msg1 st1) (\<lambda>(msg2, st2). Inr (None, msg2, st2)))"
      if "r = Read_octets bs" "bs \<noteq> []" "asn_decode_per x bs = Some pdu" for bs pdu
      by (rule safe_bind [OF safe_dispatch [OF serves_inv [OF s] p1 msg1]])
        (use exp [OF that] q in \<open>auto simp: quiet_pdu_expected intro: serves_trans [OF s]\<close>)
    with s msg1 show "safe (\<lambda>(d, msg', st'). serves x par a st st' \<and> data_there msg') (case r of
         Read_failed e \<Rightarrow> Inr (if e = EINTR then None else Some (e \<noteq> EAGAIN), msg1, st1)
       | Read_octets bs \<Rightarrow>
           if bs = [] then Inr (Some True, msg1, st1)
           else case asn_decode_per x bs of None \<Rightarrow> Inr (Some False, msg1, st1)
             | Some pdu \<Rightarrow> fault_bind (dispatch_pdu x par a pdu msg1 st1) (\<lambda>(msg2, st2). Inr (None, msg2, st2)))"
      by (auto split: read_result.split option.split)
  qed
  then show ?thesis
    unfolding receive_step_def peer_at_def p option.case fault_bind.simps Let_def n_def bs_def msg1_def .
qed

lemma safe_receive_loop:
  assumes "e2t_inv x par st" and "peers st a \<noteq> None" and "reads_expected x par a rs msg st"
  shows "safe (\<lambda>(d, msg', st'). serves x par a st st') (receive_loop x par a rs msg st)"
  using assms
proof (induction rs arbitrary: msg st)
  case (Cons r rs)
  then obtain p where p: "peers st a = Some p" by auto
  have step: "safe (\<lambda>(d, msg', st'). serves x par a st st' \<and> data_there msg') (receive_step x par a r msg st)"
    by (rule safe_receive_step [OF Cons.prems(1) p]) (use Cons.prems(3) p in auto)
  show ?case
  proof (cases "receive_step x par a r msg st")
    case (Inl f)
    with step show ?thesis by simp
  next
    case (Inr y)
    obtain d msg1 st1 where y: "y = (d, msg1, st1)" by (cases y)
    with step Inr have s: "serves x par a st st1" by simp
    then have "e2t_inv x par st1" "peers st1 a \<noteq> None" using p serves_inv [OF s] by (auto simp: serves_def)
    from Cons.IH [OF this, of msg1] Cons.prems(3) s show ?thesis
      by (cases d) (auto simp: Inr y elim!: safe_mono intro: serves_trans)
  qed
qed simp

lemma safe_receive [safe_rules]:
  assumes inv: "e2t_inv x par st" and "peers st a \<noteq> None"
    and "reads_expected x par a reads reporting_zero st"
  shows "safe (evolves x par st) (receiveDataFromSctp x par a reads st)"
  unfolding receiveDataFromSctp_def
proof (rule safe_bind [OF safe_receive_loop [OF assms]], clarify)
  fix d msg st1 assume s: "serves x par a st st1"
  then have i1: "e2t_inv x par st1" and e1: "evolves x par st st1" by (auto simp: serves_inv serves_def)
  from s assms(2) obtain p where p: "peers st1 a = Some p" by (auto simp: serves_def)
  have "safe (evolves x par st) (fault_bind (report_failure x msg reason st1) (\<lambda>st2. cleanHashEntry a (close_fd (fileDescriptor p) st2)))" for reason
  proof (rule safe_bind [OF safe_report_failure [OF inv_bufs [OF i1]]])
    fix st2 assume q: "quiet x st1 st2"
    then have i2: "e2t_inv x par st2" and p2: "peers st2 a = Some p" using i1 p by (simp_all add: quiet_inv quiet_peers)
    from i2 have d: "distinct (map fst (keyMap st2))" by (simp add: e2t_inv_def table_inv_def)
    have "has_bufs x (close_fd (fileDescriptor p) st2)" using inv_bufs [OF i2] by (simp add: has_bufs_def close_fd_def)
    from cleanHashEntry_without [OF p2 d _ _ _ this] obtain st' where
      c: "cleanHashEntry a (close_fd (fileDescriptor p) st2) = Inr st'" "without_peer a p st2 st'" "has_bufs x st'"
      by (auto simp: close_fd_def)
    from without_peer_evolves [OF i2 p2 c(2,3)] c(1) q i1
    show "safe (evolves x par st) (cleanHashEntry a (close_fd (fileDescriptor p) st2))"
      by (auto intro: evolves_trans [OF e1] evolves_trans quiet_evolves)
  qed
  with e1 p show "safe (evolves x par st) (if d then fault_bind (peer_at a st1) (\<lambda>p.
      fault_bind (report_failure x msg (c_str (enodbName p) @ ''|CU disconnected unexpectedly'') st1) (\<lambda>st2.
        cleanHashEntry a (close_fd (fileDescriptor p) st2))) else Inr st1)"
    by (simp add: peer_at_def)
qed

end
