(* ===== verification/E2tRun.thy ===== *)
theory E2tRun
  imports E2tEvents
begin

text \<open>
  Messages from the RIC, errors and new connections keep the invariant; the reachable states of
  the E2 termination and what holds in all of them.
\<close>

section \<open>Messages from the RIC\<close>

lemma safe_sendSctpMsg [safe_rules]:
  assumes "has_bufs x st" and "data_there msg" and "peers st a = Some p" and "\<not> isConnected p"
  shows "safe (\<lambda>(rc, st'). quiet x st st') (sendSctpMsg x a msg st)"
proof -
  have sends: "safe (\<lambda>(sent, rs). True) (send_result ss)" for ss
    by (induction ss rule: send_result.induct) auto
  obtain bs where bs: "asn_octets msg st = Inr bs"
    using assms(1,2) by (auto simp: asn_octets_def data_there_def has_bufs_def)
  let ?st = "\<lambda>rs. st\<lparr>send_in := rs, out := out st @ [Sctp_send (fileDescriptor p) bs]\<rparr>"
  have "quiet x st (?st rs)" for rs by (simp add: quiet_def has_bufs_def)
  moreover have "has_bufs x (?st rs)" for rs using assms(1) by (simp add: has_bufs_def)
  ultimately have "safe (\<lambda>(rc, st'). quiet x st st')
      (fault_bind (buildJsonMessage (msg\<lparr>msg_direction := CHR ''D''\<rparr>) (?st rs)) (\<lambda>st1. Inr (0 :: int, st1)))" for rs
    using assms(2) by (intro safe_bind [OF safe_buildJsonMessage]) (auto intro: quiet_trans)
  then show ?thesis using assms(3,4)
    by (auto simp: sendSctpMsg_def peer_at_def bs intro!: safe_bind [OF sends])
qed

lemma xapp_route_counters:
  "xapp_route t = Some (b, i, j) \<Longrightarrow> i \<in> set peer_counters \<and> j \<in> set buildE2TPrometheusCounters"
  by (cases t) (auto simp: xapp_route_def peer_counters_def buildE2TPrometheusCounters_def)

lemma safe_forward_to_ran [safe_rules]:
  assumes inv: "e2t_inv x par st" and p: "peers st a = Some p" "registered p" and route: "xapp_route t = Some (b, i, j)"
  shows "safe (\<lambda>(rc, st'). evolves x par st st') (forward_to_ran x a (b, i, j) msg st)"
proof -
  note ij = xapp_route_counters [OF route]
  have first: "safe (\<lambda>(r, st'). quiet x st st') (if b then PER_FromXML x st else Inr (0, st))"
    using safe_PER_FromXML [OF inv_bufs [OF inv]] by auto
  have "safe (\<lambda>(rc, st'). evolves x par st st') (case rcVMessage of None \<Rightarrow> Inl Null_deref | Some mb \<Rightarrow>
      fault_bind (count_traffic a i j (mb_len mb) st1) (\<lambda>st2.
      fault_bind (sendDirectionalSctpMsg x a msg st2) (\<lambda>(rc, st3). Inr (if rc \<noteq> 0 then -6 else 0 :: int, st3))))"
    if q1: "quiet x st st1" and "rcVMessage = rcvMessage st1" for st1 rcVMessage
  proof -
    from quiet_bufs [OF q1 inv_bufs [OF inv]] that(2) obtain mb where mb: "rcVMessage = Some mb" by (auto simp: has_bufs_def)
    have "countable st1 a i" using registered_countable [OF inv p] ij q1 by (simp add: quiet_countable)
    then have "safe (\<lambda>(rc, st'). evolves x par st st') (fault_bind (count_traffic a i j (mb_len mb) st1) (\<lambda>st2.
      fault_bind (sendDirectionalSctpMsg x a msg st2) (\<lambda>(rc, st3). Inr (if rc \<noteq> 0 then -6 else 0 :: int, st3))))"
    proof (rule safe_bind [OF safe_count_traffic [where x = x]])
      fix st2 assume "quiet x st1 st2"
      with q1 have q2: "quiet x st st2" by (rule quiet_trans)
      from quiet_bufs [OF q2 inv_bufs [OF inv]] have b2: "has_bufs x st2" .
      then obtain rm where rm: "rcvMessage st2 = Some rm" by (auto simp: has_bufs_def)
      have p2: "peers st2 a = Some p" using q2 p by (simp add: quiet_peers)
      have c: "\<not> isConnected p" using inv p by (auto simp: e2t_inv_def table_inv_def peer_ok_def)
      show "safe (\<lambda>(rc, st'). evolves x par st st')
        (fault_bind (sendDirectionalSctpMsg x a msg st2) (\<lambda>(rc, st3). Inr (if rc \<noteq> 0 then -6 else 0 :: int, st3)))"
        unfolding sendDirectionalSctpMsg_def rm option.case
        by (rule safe_bind [OF safe_sendSctpMsg [OF b2 _ p2 c]])
          (use inv in \<open>auto intro: quiet_evolves [OF quiet_trans [OF q2]]\<close>)
    qed (use ij in simp)
    with mb show ?thesis by simp
  qed
  with inv show ?thesis unfolding forward_to_ran_def Let_def prod.case
    by (intro safe_bind [OF first]) (auto intro: quiet_evolves)
qed

section \<open>Clearing all connections\<close>

text \<open>
  While the loop runs the map still has the entries of the peers it has freed. \<open>cleared A st st'\<close>:
  the peers in \<open>A\<close> are gone from \<open>st\<close>.
\<close>

definition cleared :: "ext \<Rightarrow> addr set \<Rightarrow> e2t \<Rightarrow> e2t \<Rightarrow> bool" where
  "cleared x A st st' \<longleftrightarrow> keyMap st' = keyMap st \<and> has_bufs x st'
     \<and> peers st' = (\<lambda>a. if a \<in> A then None else peers st a)
     \<and> interest st' = (\<lambda>fd. if \<exists>a \<in> A. \<exists>p. peers st a = Some p \<and> fileDescriptor p = fd then None else interest st fd)"

lemma safe_clear_loop:
  assumes inv: "e2t_inv x par st" and "cleared x A st st1" and "distinct keys"
    and "\<forall>k \<in> set keys. \<exists>a. map_find (keyMap st) k = Some a \<and> a \<notin> A"
  shows "safe (\<lambda>(msg', st'). cleared x (A \<union> {a. \<exists>k \<in> set keys. map_find (keyMap st) k = Some a}) st st')
    (clear_loop x keys msg st1)"
  using assms(2-4)
proof (induction keys arbitrary: A msg st1)
  case Nil
  then show ?case by simp
next
  case (Cons k keys)
  have table: "table_inv st" using inv by (simp add: e2t_inv_def)
  from Cons.prems(3) obtain a where a: "map_find (keyMap st) k = Some a" "a \<notin> A" by auto
  then have nm: "name_of st a = Some k" using table by (simp add: table_inv_def registers_def)
  then obtain p where p: "peers st a = Some p" by (auto simp: name_of_def split: option.splits)
  from table_name_like [OF table nm] have like: "\<not> starts_with k ''host:''" "\<not> starts_with k ''msg:''"
    by (cases k; auto simp: ran_name_like_def starts_with_def)+
  have cl: "keyMap st1 = keyMap st" "has_bufs x st1" using Cons.prems(1) by (simp_all add: cleared_def)
  have p1: "peers st1 a = Some p" using Cons.prems(1) a(2) p by (simp add: cleared_def)
  let ?fd = "fileDescriptor p"
  have b1: "has_bufs x (close_fd ?fd st1)" using cl(2) by (simp add: close_fd_def has_bufs_def)
  have "safe (\<lambda>(msg', st'). cleared x (A \<union> {a. \<exists>k \<in> set (k # keys). map_find (keyMap st) k = Some a}) st st')
    (fault_bind (report_failure x m t (close_fd ?fd st1)) (\<lambda>st2. fault_bind (free_block a st2) (clear_loop x keys m)))" for m t
  proof (rule safe_bind [OF safe_report_failure [OF b1]])
    fix st2 assume q: "quiet x (close_fd ?fd st1) st2"
    let ?st = "st2\<lparr>peers := (peers st2)(a := None)\<rparr>"
    have free: "free_block a st2 = Inr ?st" using q p1 by (simp add: free_block_def quiet_def close_fd_def)
    have "interest ?st = (\<lambda>fd. if \<exists>a \<in> insert a A. \<exists>p. peers st a = Some p \<and> fileDescriptor p = fd then None else interest st fd)"
      using q Cons.prems(1) p by (intro ext) (auto simp: cleared_def quiet_def close_fd_def)
    moreover have "keyMap ?st = keyMap st" and "peers ?st = (\<lambda>b. if b \<in> insert a A then None else peers st b)"
      using q Cons.prems(1) by (auto simp: cleared_def quiet_def close_fd_def)
    moreover have "has_bufs x ?st" using quiet_bufs [OF q b1] by (simp add: has_bufs_def)
    ultimately have "cleared x (insert a A) st ?st" by (simp only: cleared_def simp_thms)
    moreover have "\<forall>l \<in> set keys. \<exists>b. map_find (keyMap st) l = Some b \<and> b \<notin> insert a A"
    proof
      fix l assume l: "l \<in> set keys"
      with Cons.prems(3) obtain b where b: "map_find (keyMap st) l = Some b" "b \<notin> A" by auto
      then have "name_of st b = Some l" using table by (simp add: table_inv_def registers_def)
      with nm l Cons.prems(2) b show "\<exists>b. map_find (keyMap st) l = Some b \<and> b \<notin> insert a A" by auto
    qed
    ultimately have "safe (\<lambda>(msg', st'). cleared x (insert a A \<union> {a. \<exists>k \<in> set keys. map_find (keyMap st) k = Some a}) st st')
        (clear_loop x keys m ?st)" using Cons.prems(2) by (intro Cons.IH) auto
    moreover have "insert a A \<union> {a. \<exists>k \<in> set keys. map_find (keyMap st) k = Some a}
        = A \<union> {a. \<exists>k \<in> set (k # keys). map_find (keyMap st) k = Some a}" using a(1) by auto
    ultimately show "safe (\<lambda>(msg', st'). cleared x (A \<union> {a. \<exists>k \<in> set (k # keys). map_find (keyMap st) k = Some a}) st st')
        (fault_bind (free_block a st2) (clear_loop x keys m))" by (simp add: free)
  qed
  with like show ?case by (simp add: cl(1) a(1) peer_at_def p1 Let_def del: list.set)
qed

lemma safe_clear_all:
  assumes inv: "e2t_inv x par st"
  shows "safe (\<lambda>st'. evolves x par st st' \<and> (\<forall>a. name_of st a \<noteq> None \<longrightarrow> peers st' a = None)) (clear_all x msg st)"
  unfolding clear_all_def
proof -
  have none: "cleared x {} st st" using inv by (simp add: cleared_def inv_bufs)
  have d: "distinct (map fst (keyMap st))" using inv by (simp add: inv_defs)
  from peer_map.keys_find [OF d] have keys: "distinct (map_getKeys (keyMap st))"
    "\<forall>k \<in> set (map_getKeys (keyMap st)). \<exists>a. map_find (keyMap st) k = Some a \<and> a \<notin> {}" by auto
  show "safe (\<lambda>st'. evolves x par st st' \<and> (\<forall>a. name_of st a \<noteq> None \<longrightarrow> peers st' a = None)) (fault_bind (clear_loop x (map_getKeys (keyMap st)) msg st)
    (\<lambda>(msg1, st1). Inr (st1\<lparr>keyMap := map_clear (keyMap st1)\<rparr>)))"
  proof (rule safe_bind [OF safe_clear_loop [OF inv none keys]], clarify)
    let ?A = "{} \<union> {a. \<exists>k \<in> set (map_getKeys (keyMap st)). map_find (keyMap st) k = Some a}"
    fix msg1 st1 assume c: "cleared x ?A st st1"
    have A: "a \<in> ?A \<longleftrightarrow> name_of st a \<noteq> None" for a
      using inv peer_map.keys_find [OF d] by (auto simp: inv_defs registers_def)
    let ?st = "st1\<lparr>keyMap := map_clear (keyMap st1)\<rparr>"
    have peers: "peers ?st b = (if name_of st b \<noteq> None then None else peers st b)" for b
      using c A by (simp add: cleared_def)
    have nm: "name_of ?st = (\<lambda>_. None)"
      by (rule ext, subst name_of_def, subst peers) (simp add: name_of_def split: option.split)
    have "table_inv ?st"
    proof -
      have "registers (map_find (keyMap ?st)) (name_of ?st)"
        unfolding nm using peer_map.clear_registers [of "keyMap st1"] by simp
      moreover have "peer_ok p" if "peers ?st b = Some p" for b p
        using inv that unfolding peers by (auto simp: inv_defs split: if_splits)
      ultimately show ?thesis by (simp add: table_inv_def map_clear_def)
    qed
    moreover have "epoll_inv par ?st"
    proof -
      have e: "epoll_inv par st" using inv by (simp add: e2t_inv_def)
      have i: "interest ?st fd = (if \<exists>a \<in> ?A. \<exists>p. peers st a = Some p \<and> fileDescriptor p = fd then None else interest st fd)" for fd
        using c by (simp add: cleared_def)
      have "interest ?st (fileDescriptor q) = Some (Data_ptr b, peer_events) \<and> data_fd (Data_ptr b) \<notin> reserved_fds par"
        if q: "peers ?st b = Some q" for b q
      proof -
        from q peers have b: "name_of st b = None" "peers st b = Some q" by (auto split: if_splits)
        then have ib: "interest st (fileDescriptor q) = Some (Data_ptr b, peer_events)" "data_fd (Data_ptr b) \<notin> reserved_fds par"
          using e by (simp_all add: epoll_inv_def)
        have "\<not> (\<exists>a \<in> ?A. \<exists>p. peers st a = Some p \<and> fileDescriptor p = fileDescriptor q)"
        proof
          assume "\<exists>a \<in> ?A. \<exists>p. peers st a = Some p \<and> fileDescriptor p = fileDescriptor q"
          then obtain a p where a: "name_of st a \<noteq> None" "peers st a = Some p" "fileDescriptor p = fileDescriptor q" using A by auto
          with e have "interest st (fileDescriptor q) = Some (Data_ptr a, peer_events)" by (metis epoll_inv_def)
          with ib(1) a(1) b(1) show False by simp
        qed
        then show ?thesis using ib i by simp
      qed
      moreover have "EPOLLOUT \<notin> fl \<and> (d = Data_fd f \<and> f \<in> reserved_fds par
          \<or> (\<exists>b q. d = Data_ptr b \<and> peers ?st b = Some q \<and> fileDescriptor q = f))" if f: "interest ?st f = Some (d, fl)" for f d fl
      proof -
        from f i have n: "\<not> (\<exists>a \<in> ?A. \<exists>p. peers st a = Some p \<and> fileDescriptor p = f)" and "interest st f = Some (d, fl)"
          by (auto split: if_splits)
        with e have "EPOLLOUT \<notin> fl" and "d = Data_fd f \<and> f \<in> reserved_fds par
          \<or> (\<exists>b q. d = Data_ptr b \<and> peers st b = Some q \<and> fileDescriptor q = f)" unfolding epoll_inv_def by blast+
        moreover have "peers ?st b = Some q" if "peers st b = Some q" "fileDescriptor q = f" for b q
          using that n A peers by (metis (no_types, lifting))
        ultimately show ?thesis by blast
      qed
      ultimately show ?thesis unfolding epoll_inv_def by blast
    qed
    moreover have "has_bufs x ?st" using c by (simp add: cleared_def has_bufs_def)
    ultimately have "e2t_inv x par ?st" by (simp add: e2t_inv_def)
    moreover have "registry_step (name_of st) (name_of ?st)" unfolding nm by (rule clear)
    moreover have "\<forall>a. name_of st a \<noteq> None \<longrightarrow> peers ?st a = None" by (simp only: peers) simp
    ultimately show "safe (\<lambda>st'. evolves x par st st' \<and> (\<forall>a. name_of st a \<noteq> None \<longrightarrow> peers st' a = None)) (Inr ?st)"
      by (simp add: evolves_def)
  qed
qed

section \<open>The other messages\<close>

lemma safe_keep_alive [safe_rules]:
  assumes "has_bufs x st"
  shows "safe (quiet x st) (keep_alive x par st)"
proof -
  obtain tx st1 where n: "next_transaction st = (tx, st1)" by (cases "next_transaction st")
  with quiet_next_transaction [of x st] have q1: "quiet x st st1" by simp
  have "safe (quiet x st) (fault_bind (with_send f st1) (\<lambda>st2. fault_bind (rmr_send_msg st2) (\<lambda>st3.
      Inr (if sendMessage st3 = None then st3\<lparr>sendMessage := rmr_alloc_msg x\<rparr> else st3))))" for f
  proof (rule safe_bind [OF safe_with_send [OF quiet_bufs [OF q1 assms]]])
    fix st2 assume "quiet x st1 st2"
    with q1 have q2: "quiet x st st2" by (rule quiet_trans)
    with assms have b2: "has_bufs x st2" by (simp add: quiet_bufs)
    then have "safe (quiet x st2) (fault_bind (rmr_send_msg st2) (\<lambda>st3.
      Inr (if sendMessage st3 = None then st3\<lparr>sendMessage := rmr_alloc_msg x\<rparr> else st3)))"
      by (auto simp: rmr_send_msg_def rmr_send_buf_def quiet_def has_bufs_def split: list.splits option.splits)
    then show "safe (quiet x st) (fault_bind (rmr_send_msg st2) (\<lambda>st3.
      Inr (if sendMessage st3 = None then st3\<lparr>sendMessage := rmr_alloc_msg x\<rparr> else st3)))"
      by (rule safe_mono) (rule quiet_trans [OF q2])
  qed
  then show ?thesis by (simp add: keep_alive_def n)
qed

lemma safe_health_check [safe_rules]: "has_bufs x st \<Longrightarrow> safe (quiet x st) (health_check x st)"
  by (auto simp: health_check_def next_transaction_def Let_def quiet_def has_bufs_def split: list.split option.split)

lemma xapp_route_own [simp]:
  "xapp_route RIC_SCTP_CLEAR_ALL = None" "xapp_route E2_TERM_KEEP_ALIVE_REQ = None" "xapp_route RIC_HEALTH_CHECK_REQ = None"
  by (simp_all add: xapp_route_def)

lemma safe_receiveXapp:
  assumes inv: "e2t_inv x par st"
  shows "safe (\<lambda>(r, st'). evolves x par st st') (receiveXappMessages x par st)"
proof -
  obtain rm where rm: "rcvMessage st = Some rm" using inv by (auto simp: inv_defs has_bufs_def)
  show ?thesis
  proof (cases "rmr_in st")
    case Nil
    with rm show ?thesis by (simp add: receiveXappMessages_def)
  next
    case (Cons r rs)
    have q0: "evolves x par st (st\<lparr>rcvMessage := rmr_alloc_msg x, rmr_in := rs\<rparr>)"
      using inv by (intro quiet_evolves) (auto simp: quiet_def has_bufs_def)
    show ?thesis
    proof (cases r)
      case None
      with Cons rm q0 show ?thesis by (simp add: receiveXappMessages_def)
    next
      case (Some mb)
      let ?st1 = "st\<lparr>rcvMessage := Some mb, rmr_in := rs\<rparr>"
      have q1: "quiet x st (?st1\<lparr>num_of_XAPP_messages := n\<rparr>)" for n by (auto simp: quiet_def has_bufs_def)
      then have q1': "quiet x st ?st1" by (auto simp: quiet_def has_bufs_def)
      define st2 where "st2 = (if mb_mtype mb = RIC_HEALTH_CHECK_REQ then ?st1
        else ?st1\<lparr>num_of_XAPP_messages := num_of_XAPP_messages ?st1 + 1\<rparr>)"
      have q2: "quiet x st st2" using q1 q1' by (simp add: st2_def)
      have i2: "e2t_inv x par st2" using q2 inv by (rule quiet_inv)
      have km: "keyMap ?st1 = keyMap st2" by (simp add: st2_def)
      define msg where "msg = reporting_zero\<lparr>msg_direction := CHR ''D'', msg_enodbName := mb_meid mb @ zero_buf (64 - length (mb_meid mb))\<rparr>"
      have fwd: "safe (\<lambda>(r, st'). evolves x par st st') (forward_to_ran x a route m st2)"
        if e: "map_find (keyMap st2) k = Some a" and route: "xapp_route t = Some route" for a route k m t
      proof -
        from e i2 have "name_of st2 a = Some k" by (simp add: inv_defs registers_def)
        then obtain p where p: "peers st2 a = Some p" "registered p" by (auto simp: name_of_def split: option.splits if_splits)
        obtain b i j where r: "route = (b, i, j)" by (cases route)
        show ?thesis unfolding r
          by (rule safe_mono [OF safe_forward_to_ran [OF i2 p route [unfolded r]]])
            (auto intro: evolves_trans [OF quiet_evolves [OF q2 inv]])
      qed
      note i2b = inv_bufs [OF i2]
      have q: "evolves x par st st'" if "quiet x st2 st'" for st' using quiet_trans [OF q2 that] inv by (rule quiet_evolves)
      have ca: "safe (\<lambda>(r, st'). evolves x par st st') (fault_bind (clear_all x m st2) (\<lambda>st3. Inr (0 :: int, st3)))" for m
        by (rule safe_bind [OF safe_clear_all [OF i2]]) (auto intro: evolves_trans [OF quiet_evolves [OF q2 inv]])
      have ka: "safe (\<lambda>(r, st'). evolves x par st st') (fault_bind (keep_alive x par st2) (\<lambda>st3. Inr (0 :: int, st3)))"
        by (rule safe_bind [OF safe_keep_alive [OF i2b]]) (simp add: q)
      have hc: "safe (\<lambda>(r, st'). evolves x par st st') (fault_bind (health_check x st2) (\<lambda>st3. Inr (0 :: int, st3)))"
        by (rule safe_bind [OF safe_health_check [OF i2b]]) (simp add: q)
      have tr: "safe (\<lambda>(r, st'). evolves x par st st') (fault_bind (buildJsonMessage m st2) (\<lambda>st3. Inr (-7 :: int, st3)))"
        if "data_there m" for m
        by (rule safe_bind [OF safe_buildJsonMessage [OF i2b that]]) (simp add: q)
      have e1: "evolves x par st ?st1" using q1' inv by (rule quiet_evolves)
      show ?thesis
        unfolding receiveXappMessages_def rm Cons Some list.case option.case Let_def st2_def [symmetric] msg_def [symmetric] km
        using e1 ca ka hc tr fwd
        by (cases "map_find (keyMap st2) (c_str (msg_enodbName msg))"; cases "xapp_route (mb_mtype mb)") auto
    qed
  qed
qed

section \<open>Errors and new connections\<close>

lemma safe_handlepoll_error:
  assumes inv: "e2t_inv x par st" and ev: "ev_data ev = Data_ptr a" and p: "peers st a = Some p"
  shows "safe (evolves x par st) (handlepoll_error x par ev st)"
proof -
  have fd: "data_fd (Data_ptr a) \<noteq> rmrListenFd par" using inv p by (auto simp: inv_defs reserved_fds_def)
  let ?clean = "\<lambda>st1. cleanHashEntry a ((close_fd (fileDescriptor p) st1)\<lparr>keyMap := map_erase (c_str (enodbName p)) (keyMap st1)\<rparr>)"
  have "safe (evolves x par st) (fault_bind (report_failure x msg s st) ?clean)" for msg s
  proof (rule safe_bind [OF safe_report_failure [OF inv_bufs [OF inv]]])
    fix st1 assume q: "quiet x st st1"
    then have i1: "e2t_inv x par st1" and p1: "peers st1 a = Some p" using inv p by (simp_all add: quiet_inv quiet_peers)
    from i1 have d: "distinct (map fst (keyMap st1))" by (simp add: inv_defs)
    let ?st = "(close_fd (fileDescriptor p) st1)\<lparr>keyMap := map_erase (c_str (enodbName p)) (keyMap st1)\<rparr>"
    have "has_bufs x ?st" using inv_bufs [OF i1] by (simp add: has_bufs_def close_fd_def)
    from cleanHashEntry_without [OF p1 d _ _ _ this] obtain st' where
      c: "cleanHashEntry a ?st = Inr st'" "without_peer a p st1 st'" "has_bufs x st'" by (auto simp: close_fd_def)
    from without_peer_evolves [OF i1 p1 c(2,3)] c(1) q inv show "safe (evolves x par st) (?clean st1)"
      by (auto intro: evolves_trans quiet_evolves)
  qed
  with fd ev p show ?thesis by (simp add: handlepoll_error_def peer_at_def Let_def)
qed

text \<open>The allocator answers with a block that is not in use and no descriptor in disguise, accept with a new descriptor.\<close>

definition fresh_connection :: "sctp_params \<Rightarrow> addr \<Rightarrow> connection \<Rightarrow> e2t \<Rightarrow> bool" where
  "fresh_connection par a c st \<longleftrightarrow> peers st a = None \<and> data_fd (Data_ptr a) \<notin> reserved_fds par
     \<and> cn_fd c \<notin> reserved_fds par \<and> interest st (cn_fd c) = None"

lemma close_unused:
  "interest st fd = None \<Longrightarrow> quiet x st (close_fd fd st)"
  by (auto simp: quiet_def close_fd_def has_bufs_def)

lemma safe_accept:
  assumes inv: "e2t_inv x par st" and fresh: "\<And>a c'. fresh = Some a \<Longrightarrow> c = Some c' \<Longrightarrow> fresh_connection par a c' st"
  shows "safe (evolves x par st) (accept_connection x fresh c st)"
proof -
  have add: "safe (evolves x par st) (fault_bind (addToEpoll x a {EPOLLIN, EPOLLET} None (Mtype 0) (set_peer a (new_peer c' name) st))
      (\<lambda>(r, st1). if r \<noteq> 0 then free_block a st1 else Inr st1))"
    if f: "fresh_connection par a c' st" for a c' name
  proof (cases "epoll_in st")
    case Nil
    then show ?thesis by (simp add: addToEpoll_def peer_at_def set_peer_def epoll_ctl_def)
  next
    case (Cons ok rs)
    let ?p = "new_peer c' name"
    have unreg: "\<not> registered ?p" and fd: "fileDescriptor ?p = cn_fd c'" and name0: "enodbName ?p = zero_buf 64"
      by (simp_all add: new_peer_def registered_def)
    have a: "peers st a = None" "interest st (cn_fd c') = None" using f by (simp_all add: fresh_connection_def)
    show ?thesis
    proof (cases ok)
      case True
      let ?st = "(set_peer a ?p st)\<lparr>interest := (interest st)(cn_fd c' \<mapsto> (Data_ptr a, peer_events)), epoll_in := rs\<rparr>"
      have nm: "name_of ?st = name_of st"
        by (rule ext) (simp add: name_of_def set_peer_def a(1) unreg)
      have "peer_ok ?p" using unreg by (simp add: peer_ok_def name0 ran_name_like_def) (simp add: new_peer_def)
      with inv have "table_inv ?st" unfolding table_inv_def nm by (auto simp: inv_defs set_peer_def)
      moreover have "has_bufs x ?st" using inv by (simp add: inv_defs has_bufs_def set_peer_def)
      moreover have "epoll_inv par ?st"
      proof -
        have e: "epoll_inv par st" using inv by (simp add: e2t_inv_def)
        then have other: "fileDescriptor q \<noteq> cn_fd c'" if "peers st b = Some q" for b q
          using that a(2) unfolding epoll_inv_def by (metis option.distinct(1))
        have "EPOLLOUT \<notin> fl \<and> (d = Data_fd g \<and> g \<in> reserved_fds par
            \<or> (\<exists>b q. d = Data_ptr b \<and> peers ?st b = Some q \<and> fileDescriptor q = g))" if g: "interest ?st g = Some (d, fl)" for g d fl
        proof (cases "g = cn_fd c'")
          case True
          with g fd show ?thesis by (auto simp: set_peer_def peer_events_def)
        next
          case False
          with g have "interest st g = Some (d, fl)" by (simp add: set_peer_def)
          with e have "EPOLLOUT \<notin> fl" and "d = Data_fd g \<and> g \<in> reserved_fds par
            \<or> (\<exists>b q. d = Data_ptr b \<and> peers st b = Some q \<and> fileDescriptor q = g)" unfolding epoll_inv_def by blast+
          then show ?thesis using a(1) by (auto simp: set_peer_def)
        qed
        moreover have "interest ?st (fileDescriptor q) = Some (Data_ptr b, peer_events) \<and> data_fd (Data_ptr b) \<notin> reserved_fds par"
          if "peers ?st b = Some q" for b q
          using that e f fd other by (cases "b = a") (auto simp: epoll_inv_def set_peer_def fresh_connection_def)
        ultimately show ?thesis unfolding epoll_inv_def by blast
      qed
      ultimately have "evolves x par st ?st" by (simp add: evolves_def e2t_inv_def nm)
      with True Cons show ?thesis
        by (simp add: addToEpoll_def peer_at_def epoll_ctl_def set_peer_def fd peer_events_def)
    next
      case False
      let ?st = "st\<lparr>epoll_in := rs, out := out st @ [Close (cn_fd c')]\<rparr>"
      have i: "(interest st)(cn_fd c' := None) = interest st" and ps: "(peers st)(a := None) = peers st"
        using a by (auto simp: fun_eq_iff)
      have "evolves x par st ?st" using inv by (intro quiet_evolves) (auto simp: quiet_def has_bufs_def)
      with False Cons show ?thesis
        by (simp add: addToEpoll_def peer_at_def epoll_ctl_def set_peer_def close_fd_def free_block_def fd i ps)
    qed
  qed
  have closed: "evolves x par st (close_fd (cn_fd c') st)" if "fresh_connection par a c' st" for a c'
    using that inv by (intro quiet_evolves close_unused) (simp_all add: fresh_connection_def)
  show ?thesis
  proof (cases "fresh = None \<or> c = None")
    case True
    with inv show ?thesis by (auto simp: accept_connection_def evolves_refl split: option.split)
  next
    case False
    then obtain a c' where ac: "fresh = Some a" "c = Some c'" by auto
    with fresh have "fresh_connection par a c' st" by simp
    from add [OF this] closed [OF this] ac show ?thesis by (auto simp: accept_connection_def split: option.split)
  qed
qed

section \<open>Events\<close>

text \<open>
  What epoll reports: a descriptor of the set, with the events asked for or an error. The own
  descriptors do not fail, a RAN follows the protocol (\<open>pdu_expected\<close>), new connections are fresh.
\<close>

definition event_expected ::
  "ext \<Rightarrow> sctp_params \<Rightarrow> event \<Rightarrow> read_result list \<Rightarrow> addr option \<Rightarrow> connection option \<Rightarrow> e2t \<Rightarrow> bool" where
  "event_expected x par ev reads fresh c st \<longleftrightarrow>
     (\<exists>fd fl. interest st fd = Some (ev_data ev, fl) \<and> ev_events ev \<subseteq> fl \<union> {EPOLLERR, EPOLLHUP})
     \<and> (case ev_data ev of
          Data_fd fd \<Rightarrow> EPOLLERR \<notin> ev_events ev \<and> EPOLLHUP \<notin> ev_events ev
            \<and> (fd = listenFD par \<longrightarrow> (\<forall>a c'. fresh = Some a \<longrightarrow> c = Some c' \<longrightarrow> fresh_connection par a c' st))
        | Data_ptr a \<Rightarrow> reads_expected x par a reads reporting_zero st)"

lemma interest_data:
  assumes "e2t_inv x par st" and "interest st fd = Some (d, fl)"
  shows "EPOLLOUT \<notin> fl \<and> (case d of Data_fd g \<Rightarrow> g = fd \<and> fd \<in> reserved_fds par
    | Data_ptr a \<Rightarrow> \<exists>p. peers st a = Some p \<and> fileDescriptor p = fd \<and> data_fd (Data_ptr a) \<notin> reserved_fds par)"
proof -
  have e: "epoll_inv par st" using assms(1) by (simp add: e2t_inv_def)
  with assms(2) have "EPOLLOUT \<notin> fl" and "d = Data_fd fd \<and> fd \<in> reserved_fds par
    \<or> (\<exists>a p. d = Data_ptr a \<and> peers st a = Some p \<and> fileDescriptor p = fd)" unfolding epoll_inv_def by blast+
  with e show ?thesis unfolding epoll_inv_def by auto
qed

lemma safe_handle_event:
  assumes inv: "e2t_inv x par st" and ev: "event_expected x par ev reads fresh c st"
  shows "safe (evolves x par st) (handle_event x par ev reads fresh c trace st)"
proof -
  from ev obtain fd fl where fd: "interest st fd = Some (ev_data ev, fl)" "ev_events ev \<subseteq> fl \<union> {EPOLLERR, EPOLLHUP}"
    by (auto simp: event_expected_def)
  note data = interest_data [OF inv fd(1)]
  with fd have out: "EPOLLOUT \<notin> ev_events ev" by auto
  show ?thesis
  proof (cases "ev_data ev")
    case (Data_ptr a)
    with data obtain p where p: "peers st a = Some p" and own: "data_fd (Data_ptr a) \<notin> reserved_fds par" by auto
    have "reads_expected x par a reads reporting_zero st" using ev Data_ptr by (simp add: event_expected_def)
    with safe_receive [OF inv _ this] p safe_handlepoll_error [OF inv Data_ptr p] own out Data_ptr show ?thesis
      by (simp add: handle_event_def reserved_fds_def)
  next
    case (Data_fd g)
    with data have g: "g \<in> reserved_fds par" by auto
    have noerr: "EPOLLERR \<notin> ev_events ev" "EPOLLHUP \<notin> ev_events ev" using ev Data_fd by (simp_all add: event_expected_def)
    have acc: "g = listenFD par \<Longrightarrow> safe (evolves x par st) (accept_connection x fresh c st)"
      using ev Data_fd by (intro safe_accept [OF inv]) (simp add: event_expected_def)
    have rmr: "safe (evolves x par st) (fault_bind (receiveXappMessages x par st) (\<lambda>(r, st1). Inr st1))"
      by (rule safe_bind [OF safe_receiveXapp [OF inv]]) auto
    have "evolves x par st (st\<lparr>jsonTrace := trace\<rparr>)" using inv by (intro quiet_evolves) simp_all
    with g noerr acc rmr out Data_fd show ?thesis by (auto simp: handle_event_def reserved_fds_def)
  qed
qed

section \<open>Reachable states\<close>

text \<open>
  \<^verbatim>\<open>main\<close> registers the own descriptors and starts the listener threads. Between two events
  another thread may run, with its own buffers, and the environment has new answers. Threads
  interleave event by event in this model. The RMR library can allocate buffers: \<open>rmr_alloc_msg\<close>
  does not return null, which the code does not check.
\<close>

definition started :: "ext \<Rightarrow> sctp_params \<Rightarrow> e2t \<Rightarrow> bool" where
  "started x par st \<longleftrightarrow> rmr_alloc_msg x \<noteq> None \<and> sendMessage st = rmr_alloc_msg x \<and> rcvMessage st = rmr_alloc_msg x
     \<and> peers st = (\<lambda>_. None) \<and> keyMap st = []
     \<and> interest st = (\<lambda>_. None)(rmrListenFd par \<mapsto> (Data_fd (rmrListenFd par), {EPOLLIN}),
         inotifyFD par \<mapsto> (Data_fd (inotifyFD par), {EPOLLIN}), listenFD par \<mapsto> (Data_fd (listenFD par), {EPOLLIN, EPOLLET}))"

inductive reachable :: "ext \<Rightarrow> sctp_params \<Rightarrow> e2t \<Rightarrow> bool" for x par where
  start: "started x par st \<Longrightarrow> reachable x par st"
| turn: "reachable x par st \<Longrightarrow> reachable x par (st\<lparr>sendMessage := Some mb, rcvMessage := Some mb', rmr_in := rs,
    send_in := ss, epoll_in := es, malloc_in := ms, sockopt_in := os\<rparr>)"
| event: "reachable x par st \<Longrightarrow> event_expected x par ev reads fresh c st
    \<Longrightarrow> handle_event x par ev reads fresh c trace st = Inr st' \<Longrightarrow> reachable x par st'"

lemma quiet_turn: "quiet x st (st\<lparr>sendMessage := Some mb, rcvMessage := Some mb', rmr_in := rs,
    send_in := ss, epoll_in := es, malloc_in := ms, sockopt_in := os\<rparr>)"
  by (simp add: quiet_def has_bufs_def)

lemma started_inv: "started x par st \<Longrightarrow> e2t_inv x par st"
  by (auto simp: inv_defs started_def has_bufs_def registers_def map_find_def name_of_def reserved_fds_def split: if_splits)

lemma reachable_e2t_inv: "reachable x par st \<Longrightarrow> e2t_inv x par st"
proof (induction rule: reachable.induct)
  case (start st)
  then show ?case by (simp add: started_inv)
next
  case turn
  then show ?case using quiet_inv [OF quiet_turn] by blast
next
  case (event st ev reads fresh c trace st')
  from safe_handle_event [OF event.IH event.hyps(2), of trace] event.hyps(3) show ?case
    by (simp add: evolves_inv)
qed

end
