(* ===== verification/E2tLive.thy ===== *)
theory E2tLive
  imports E2tRun
begin

text \<open>
  The handlers of the E2 termination return once the environment answers enough of their calls:
  how many answers each function needs, whatever state and message it starts with.
\<close>

named_theorems needs_rules \<open>how many answers the functions of the E2 termination need\<close>

section \<open>Counting answers\<close>

text \<open>
  \<open>needs k st s r\<close>: the call that started in \<open>st\<close> has not returned only if the RMR library or the
  allocator has given less than \<open>k\<close> answers; in the state \<open>s y\<close> of its result \<open>y\<close> at most \<open>k\<close> of each are used up.
\<close>

definition needs :: "nat \<Rightarrow> e2t \<Rightarrow> ('a \<Rightarrow> e2t) \<Rightarrow> fault + 'a \<Rightarrow> bool" where
  "needs k st s r \<longleftrightarrow>
     (case r of
        Inl f \<Rightarrow> f = Not_returned \<longrightarrow> length (rmr_in st) < k \<or> length (malloc_in st) < k
      | Inr y \<Rightarrow> length (rmr_in st) \<le> length (rmr_in (s y)) + k \<and> length (malloc_in st) \<le> length (malloc_in (s y)) + k
          \<and> send_in (s y) = send_in st)"

lemma needs_simps [simp]:
  "needs k st s (Inl f) \<longleftrightarrow> (f = Not_returned \<longrightarrow> length (rmr_in st) < k \<or> length (malloc_in st) < k)"
  "needs k st s (Inr y) \<longleftrightarrow> length (rmr_in st) \<le> length (rmr_in (s y)) + k \<and> length (malloc_in st) \<le> length (malloc_in (s y)) + k
     \<and> send_in (s y) = send_in st"
  by (simp_all add: needs_def)

lemma needs_bind:
  assumes "needs k st s r" and "\<And>y. r = Inr y \<Longrightarrow> needs k' (s y) s' (f y)" and "k + k' \<le> K"
  shows "needs K st s' (fault_bind r f)"
proof (cases r)
  case (Inl g)
  with assms show ?thesis by auto
next
  case (Inr y)
  with assms(1) have "length (rmr_in st) \<le> length (rmr_in (s y)) + k" "length (malloc_in st) \<le> length (malloc_in (s y)) + k"
    "send_in (s y) = send_in st" by simp_all
  with assms(2) [OF Inr] assms(3) Inr show ?thesis by (cases "f y") auto
qed

lemma needs_mono: "needs k st s r \<Longrightarrow> k \<le> K \<Longrightarrow> needs K st s r"
  by (cases r) auto

lemma needs_cong:
  "needs k st' s r \<Longrightarrow> rmr_in st' = rmr_in st \<Longrightarrow> malloc_in st' = malloc_in st \<Longrightarrow> send_in st' = send_in st \<Longrightarrow> needs k st s r"
  by (cases r) auto

text \<open>A call that does not touch the state.\<close>

definition answered :: "fault + 'a \<Rightarrow> bool" where
  "answered r \<longleftrightarrow> r \<noteq> Inl Not_returned"

lemma answered_simps [simp]: "answered (Inr y)" "answered (Inl f) \<longleftrightarrow> f \<noteq> Not_returned"
  by (simp_all add: answered_def)

lemma answered_bind: "answered r \<Longrightarrow> (\<And>y. r = Inr y \<Longrightarrow> answered (f y)) \<Longrightarrow> answered (fault_bind r f)"
  by (cases r) auto

lemma needs_answered: "answered r \<Longrightarrow> (\<And>y. r = Inr y \<Longrightarrow> needs k st s (f y)) \<Longrightarrow> needs k st s (fault_bind r f)"
  by (cases r) auto

section \<open>The parts of the handlers\<close>

lemma answered_peer_at [simp]: "answered (peer_at a st)"
  by (simp add: peer_at_def split: option.split)

lemma answered_asn_octets [simp]: "answered (asn_octets msg st)"
  by (auto simp: asn_octets_def intro: answered_bind split: asn_source.split option.split)

lemma needs_buildJsonMessage [needs_rules]: "needs 0 st id (buildJsonMessage msg st)"
  by (auto simp: buildJsonMessage_def intro: needs_answered)

lemma needs_rmr_send_buf [needs_rules]: "needs 1 st snd (rmr_send_buf mb st)"
  by (simp add: rmr_send_buf_def split: list.split)

lemma needs_rmr_send_msg [needs_rules]: "needs 1 st id (rmr_send_msg st)"
  by (auto simp: rmr_send_msg_def intro!: needs_bind [OF needs_rmr_send_buf, where k' = 0] split: option.split)

lemma needs_sendRmrMessage [needs_rules]: "needs 2 st snd (sendRmrMessage x msg st)"
proof -
  have second: "needs (Suc 0) st2 snd (fault_bind (rmr_send_msg (st2\<lparr>sendMessage := m\<rparr>)) (\<lambda>st3. case sendMessage st3 of
      None \<Rightarrow> Inr (-1 :: int, st3\<lparr>sendMessage := rmr_alloc_msg x\<rparr>) | Some mb' \<Rightarrow> Inr (mb_state mb', st3)))" for m st2
  proof (rule needs_bind [where s = id and k = 1 and k' = 0])
    show "needs 1 st2 id (rmr_send_msg (st2\<lparr>sendMessage := m\<rparr>))"
      using needs_rmr_send_msg [of "st2\<lparr>sendMessage := m\<rparr>"] by (simp add: needs_def split: sum.splits)
  qed (auto split: option.split)
  show ?thesis unfolding sendRmrMessage_def
    by (auto simp: second intro!: needs_bind [OF needs_buildJsonMessage, where k' = 2] needs_bind [OF needs_rmr_send_msg, where k' = 1]
        split: option.split)
qed

lemma needs_with_send [needs_rules]: "needs 0 st id (with_send f st)"
  by (simp add: with_send_def split: option.split)

lemma needs_next: "next_transaction st = (tx, st') \<Longrightarrow> needs k st' s r \<Longrightarrow> needs k st s r"
  by (auto simp: next_transaction_def needs_def split: sum.splits)

lemma needs_sendRequestToXapp [needs_rules]: "needs 2 st (\<lambda>r. snd (snd r)) (sendRequestToXapp x msg t st)"
proof -
  obtain tx st1 where n: "next_transaction st = (tx, st1)" by (cases "next_transaction st")
  have "needs 2 st1 (\<lambda>r. snd (snd r)) (fault_bind (with_send f st1) (\<lambda>st2. fault_bind (sendRmrMessage x m st2) (\<lambda>(rc, st3). Inr (rc, m, st3))))"
    for f m
    by (auto intro!: needs_bind [OF needs_with_send, where k' = 2] needs_bind [OF needs_sendRmrMessage, where k' = 0])
  with n show ?thesis by (auto simp: sendRequestToXapp_def Let_def intro: needs_next)
qed

lemma needs_report_failure [needs_rules]: "needs 2 st id (report_failure x msg s st)"
  unfolding report_failure_def
  by (auto intro!: needs_bind [OF needs_with_send, where k' = 2] needs_bind [OF needs_sendRequestToXapp, where k' = 0])

lemma needs_count_traffic [needs_rules]: "needs 0 st id (count_traffic a i j n st)"
  by (auto simp: count_traffic_def count_peer_def count_e2t_def bump_def peer_at_def split: option.split)

lemma needs_set_peer: "needs k (set_peer a p st) s r \<Longrightarrow> needs k st s r"
  by (erule needs_cong) (simp_all add: set_peer_def)

lemma needs_close: "needs k (close_fd fd st) s r \<Longrightarrow> needs k st s r"
  by (erule needs_cong) (simp_all add: close_fd_def)

lemma needs_cleanHashEntry [needs_rules]: "needs 0 st id (cleanHashEntry a st)"
  by (auto simp: cleanHashEntry_def free_block_def peer_at_def split: option.split)

section \<open>Messages from RANs\<close>

lemma needs_setup_xml [needs_rules]: "needs 2 st snd (setup_xml x pdu st)"
  by (auto simp: setup_xml_def malloc_call_def Let_def split: list.split option.split)

lemma needs_rmr_send_retry [needs_rules]: "needs 2 st id (rmr_send_retry x mb st)"
  unfolding rmr_send_retry_def
  by (rule needs_bind [OF needs_rmr_send_buf, where k' = 1])
    (auto split: option.split intro!: needs_bind [OF needs_rmr_send_buf, where k' = 0])

lemma needs_buildAndSendSetupRequest [needs_rules]: "needs 4 st id (buildAndSendSetupRequest x par a pdu msg st)"
  unfolding buildAndSendSetupRequest_def
proof (rule needs_bind [OF needs_setup_xml, where k' = 2])
  fix y :: "byte list option \<times> e2t"
  obtain r st1 where y: "y = (r, st1)" by (cases y)
  obtain tx st2 where n: "next_transaction st1 = (tx, st2)" by (cases "next_transaction st1")
  have "needs 2 st2 id (fault_bind (rmr_send_retry x m st2) (\<lambda>st3. fault_bind (peer_at a st3) (\<lambda>p.
      buildJsonMessage msg (set_peer a (p\<lparr>gotSetup := True\<rparr>) st3))))" for m
    by (auto intro!: needs_bind [OF needs_rmr_send_retry, where k' = 0] needs_answered [OF answered_peer_at]
        needs_set_peer [OF needs_buildJsonMessage])
  with n show "needs 2 (snd y) id (case y of (r, st1) \<Rightarrow> case r of None \<Rightarrow> Inr st1 | Some xml \<Rightarrow>
      let res = without_blanks xml; text = myIP par @ '':'' @ decimal (rmrPort par) @ ''|'' @ res; (tx, st2) = next_transaction st1
      in case rmr_alloc_msg x of None \<Rightarrow> Inl Null_deref
         | Some mb \<Rightarrow> fault_bind (rmr_send_retry x ((payload_text (length res + 256) text mb)\<lparr>mb_mtype := msg_messageType msg,
              mb_state := 0, mb_meid := c_str (msg_enodbName msg), mb_xact := tx\<rparr>) st2) (\<lambda>st3.
            fault_bind (peer_at a st3) (\<lambda>p. buildJsonMessage msg (set_peer a (p\<lparr>gotSetup := True\<rparr>) st3))))"
    by (auto simp: y Let_def intro: needs_next split: option.split)
qed simp

lemma needs_XML_From_PER [needs_rules]: "needs 0 st snd (XML_From_PER x st)"
  by (auto simp: XML_From_PER_def Let_def split: option.split)

lemma needs_count_and_forward [needs_rules]: "needs 2 st snd (count_and_forward x a i t msg st)"
  unfolding count_and_forward_def
  by (auto intro!: needs_bind [OF needs_count_traffic, where k' = 2] needs_bind [OF needs_sendRequestToXapp, where k' = 0])

lemma needs_count_and_forward_xml [needs_rules]: "needs 2 st snd (count_and_forward_xml x a i t msg st)"
  unfolding count_and_forward_xml_def
  by (auto intro!: needs_bind [OF needs_count_traffic, where k' = 2] needs_bind [OF needs_XML_From_PER, where k' = 2]
      needs_bind [OF needs_sendRequestToXapp, where k' = 0])

lemma needs_forward_request_id [needs_rules]: "needs 2 st snd (forward_request_id x a i t ies msg st)"
proof (induction ies)
  case (Cons ie ies)
  obtain tx st1 where n: "next_transaction st = (tx, st1)" by (cases "next_transaction st")
  have "needs 2 st1 snd (fault_bind (with_send f st1) (\<lambda>st2. fault_bind (count_traffic a i i l st2) (\<lambda>st3.
      fault_bind (sendRmrMessage x m st3) (\<lambda>(rc, st4). Inr (m, st4)))))" for f l m
    by (auto intro!: needs_bind [OF needs_with_send, where k' = 2] needs_bind [OF needs_count_traffic, where k' = 2]
        needs_bind [OF needs_sendRmrMessage, where k' = 0])
  from needs_next [OF n this] Cons show ?case by (auto simp: n Let_def split: ie_value.split)
qed simp

lemma needs_unsupported [needs_rules]: "needs 0 st snd (unsupported msg st)"
  by (auto simp: unsupported_def Let_def intro!: needs_bind [OF needs_buildJsonMessage, where k' = 0])

lemma answered_memcpy [simp]: "answered (memcpy b s)" "answered (append_text b s)"
  by (simp_all add: memcpy_def append_text_def Let_def)

lemma answered_hex_loop [simp]: "answered (hex_loop d b)"
  by (induction d arbitrary: b) (auto intro!: answered_bind)

lemma answered_plmn_and_id [simp]: "answered (translatePlmnId b p s)" "answered (translateBitStringToChar b d)"
    "answered (plmn_and_id b p s d)"
  by (auto simp: translatePlmnId_def snprintf_def translateBitStringToChar_def plmn_and_id_def intro!: answered_bind)

lemma answered_buildRanName [simp]: "answered (buildRanName b node)"
  by (cases node) (auto simp: ng_eNB_name_def eNB_name_def intro!: answered_bind
      split: gnb_id_choice.split enb_id_choice.split enb_id.split)

lemma needs_collect_loop [needs_rules]: "needs 0 st (\<lambda>r. snd (snd r)) (collect_loop a ies msg st)"
proof (induction ies arbitrary: msg st)
  case (Cons ie ies)
  have "needs 0 st (\<lambda>r. snd (snd r)) (collect_loop a ies m (st\<lparr>peers := ps, keyMap := km\<rparr>))" for m ps km
    by (rule needs_cong [OF Cons.IH]) simp_all
  with Cons.IH show ?case
    by (auto simp: Let_def set_peer_def fun_upd_def intro!: needs_answered [OF answered_peer_at] needs_answered [OF answered_buildRanName]
        needs_answered [OF answered_memcpy(1)] split: ie_value.split element_type.split node_ie.split)
qed simp

lemma needs_collectSetupRequestData [needs_rules]: "needs 0 st (\<lambda>r. snd (snd r)) (collectSetupRequestData a m msg st)"
  unfolding collectSetupRequestData_def
  by (intro needs_answered [OF answered_peer_at] needs_set_peer [OF needs_collect_loop])

lemma needs_asnInitiatingRequest [needs_rules]: "needs 4 st snd (asnInitiatingRequest x par a pdu m msg st)"
proof -
  have upd: "needs 4 st' snd (fault_bind (count_traffic a i j n st') (\<lambda>st1.
      fault_bind (buildAndSendSetupRequest x par a pdu m' st1) (\<lambda>st2. Inr (m', st2))))" for st' i j n m'
    by (auto intro!: needs_bind [OF needs_count_traffic, where k' = 4] needs_bind [OF needs_buildAndSendSetupRequest, where k' = 0])
  have first: "needs 4 st' snd (fault_bind (count_traffic a i j n (set_peer a p st')) (\<lambda>st1.
      fault_bind (buildAndSendSetupRequest x par a pdu m' st1) (\<lambda>st2. Inr (m', st2))))" for st' i j n m' p
    by (rule needs_set_peer [OF upd])
  note two = needs_mono [OF needs_count_and_forward] needs_mono [OF needs_count_and_forward_xml]
    needs_mono [OF needs_forward_request_id] needs_mono [OF needs_unsupported]
  show ?thesis
    unfolding asnInitiatingRequest_def Let_def
    by (auto intro!: two upd first needs_bind [OF needs_collectSetupRequestData, where k' = 4] needs_answered [OF answered_peer_at])
qed

lemma needs_dispatch [needs_rules]: "needs 4 st snd (dispatch_pdu x par a pdu msg st)"
proof -
  note two = needs_mono [OF needs_count_and_forward] needs_mono [OF needs_count_and_forward_xml]
    needs_mono [OF needs_forward_request_id] needs_mono [OF needs_unsupported]
  show ?thesis
    by (cases pdu) (auto simp: needs_asnInitiatingRequest asnSuccessfulMsg_def asnUnSuccsesfulMsg_def Let_def intro!: two)
qed

section \<open>Reading\<close>

lemma needs_receive_step [needs_rules]: "needs 4 st (\<lambda>r. snd (snd r)) (receive_step x par a r msg st)"
  unfolding receive_step_def Let_def
  by (auto intro!: needs_answered [OF answered_peer_at] needs_bind [OF needs_with_send, where k' = 4]
      needs_bind [OF needs_dispatch, where k' = 0] split: read_result.split option.split)

text \<open>A result of reading that ends the loop.\<close>

definition ends :: "read_result \<Rightarrow> bool" where
  "ends r \<longleftrightarrow> (case r of Read_octets bs \<Rightarrow> bs = [] | Read_failed e \<Rightarrow> e \<noteq> EINTR)"

lemma receive_step_ends: "ends r \<Longrightarrow> receive_step x par a r msg st = Inr (d, msg', st') \<Longrightarrow> d \<noteq> None"
  by (cases "peers st a"; cases "sendMessage st"; cases r)
    (auto simp: receive_step_def ends_def Let_def peer_at_def with_send_def split: if_split_asm)

lemma needs_receive_loop [needs_rules]:
  "\<exists>r \<in> set rs. ends r \<Longrightarrow> needs (length rs * 4) st (\<lambda>r. snd (snd r)) (receive_loop x par a rs msg st)"
proof (induction rs arbitrary: msg st)
  case (Cons r rs)
  have "needs (length rs * 4) (snd (snd y)) (\<lambda>r. snd (snd r)) (case y of (d, msg1, st1) \<Rightarrow>
      case d of Some dn \<Rightarrow> Inr (dn, msg1, st1) | None \<Rightarrow> receive_loop x par a rs msg1 st1)"
    if y: "receive_step x par a r msg st = Inr y" for y :: "bool option \<times> reporting \<times> e2t"
  proof (cases y)
    case (fields d msg1 st1)
    show ?thesis
    proof (cases d)
      case None
      with y fields receive_step_ends have "\<not> ends r" by blast
      with Cons.prems have "\<exists>r \<in> set rs. ends r" by auto
      from Cons.IH [OF this] None fields show ?thesis by simp
    qed (simp add: fields)
  qed
  from needs_bind [OF needs_receive_step this] show ?case by simp
qed simp

lemma needs_receive [needs_rules]:
  "\<exists>r \<in> set reads. ends r \<Longrightarrow> needs (length reads * 4 + 2) st id (receiveDataFromSctp x par a reads st)"
  unfolding receiveDataFromSctp_def
  by (rule needs_bind [OF needs_receive_loop, where k' = 2])
    (auto intro!: needs_answered [OF answered_peer_at] needs_bind [OF needs_report_failure, where k' = 0]
      needs_close [OF needs_cleanHashEntry])

section \<open>Messages from the RIC\<close>

lemma needs_0_answered: "needs 0 st s r \<Longrightarrow> answered r"
  by (cases r) auto

lemma needs_enough: "needs k st s r \<Longrightarrow> k \<le> length (rmr_in st) \<Longrightarrow> k \<le> length (malloc_in st) \<Longrightarrow> answered r"
  by (cases r) auto

definition send_ready :: "e2t \<Rightarrow> bool" where
  "send_ready st \<longleftrightarrow> (\<exists>e \<in> set (send_in st). e \<noteq> Some EINTR)"

lemma answered_send_result: "\<exists>e \<in> set ss. e \<noteq> Some EINTR \<Longrightarrow> answered (send_result ss)"
  by (induction ss rule: send_result.induct) auto

lemma answered_sendSctpMsg: "send_ready st \<Longrightarrow> answered (sendSctpMsg x a msg st)"
  by (auto simp: sendSctpMsg_def send_ready_def drop_message_entry_def free_block_def
      intro!: answered_bind answered_send_result needs_0_answered [OF needs_buildJsonMessage] needs_0_answered [OF needs_cleanHashEntry]
      split: option.split)

lemma answered_sendDirectional: "send_ready st \<Longrightarrow> answered (sendDirectionalSctpMsg x a msg st)"
  by (simp add: sendDirectionalSctpMsg_def answered_sendSctpMsg split: option.split)

lemma needs_PER_FromXML [needs_rules]: "needs 0 st snd (PER_FromXML x st)"
  by (auto simp: PER_FromXML_def Let_def split: option.split)

lemma answered_forward_to_ran: "send_ready st \<Longrightarrow> answered (forward_to_ran x a route msg st)"
proof -
  assume s: "send_ready st"
  obtain b i j where route: "route = (b, i, j)" by (cases route)
  have same: "needs 0 st' s r \<Longrightarrow> r = Inr y \<Longrightarrow> send_in (s y) = send_in st'" for st' s and r :: "fault + 'z" and y by simp
  have first: "needs 0 st snd (if b then PER_FromXML x st else Inr (0, st))" by (simp add: needs_PER_FromXML)
  have "answered (fault_bind (count_traffic a i j n st1) (\<lambda>st2. fault_bind (sendDirectionalSctpMsg x a msg st2)
      (\<lambda>(rc, st3). Inr (if rc \<noteq> 0 then -6 else 0 :: int, st3))))" if "send_in st1 = send_in st" for n st1
    using s that needs_count_traffic [of st1 a i j n]
    by (auto simp: send_ready_def intro!: answered_bind answered_sendDirectional dest: needs_0_answered)
  with needs_0_answered [OF first] first show ?thesis
    unfolding forward_to_ran_def Let_def route prod.case
    by (auto intro!: answered_bind split: option.split)
qed

lemma needs_clear_loop: "needs (length keys * 2) st snd (clear_loop x keys msg st)"
proof (induction keys arbitrary: msg st)
  case (Cons k keys)
  have free: "needs (length keys * 2) st' snd (fault_bind (free_block a st') (clear_loop x keys m))" for st' a m
    using needs_cong [OF Cons.IH [where msg = m and st = "st'\<lparr>peers := (peers st')(a := None)\<rparr>"], of st']
    by (simp add: free_block_def split: option.split)
  show ?case
    by (auto simp: Let_def free intro: needs_mono [OF Cons.IH] intro!: needs_answered [OF answered_peer_at]
        needs_close [OF needs_bind [OF needs_report_failure, where k' = "length keys * 2"]] split: option.split)
qed simp

lemma needs_clear_all: "needs (length (keyMap st) * 2) st id (clear_all x msg st)"
  unfolding clear_all_def map_getKeys_def
  by (rule needs_bind [OF needs_clear_loop, where k' = 0]) auto

lemma needs_keep_alive: "needs 1 st id (keep_alive x par st)"
proof -
  obtain tx st1 where n: "next_transaction st = (tx, st1)" by (cases "next_transaction st")
  have "needs 1 st1 id (fault_bind (with_send f st1) (\<lambda>st2. fault_bind (rmr_send_msg st2) (\<lambda>st3.
      Inr (if sendMessage st3 = None then st3\<lparr>sendMessage := rmr_alloc_msg x\<rparr> else st3))))" for f
    by (auto intro!: needs_bind [OF needs_with_send, where k' = 1] needs_bind [OF needs_rmr_send_msg, where k' = 0])
  from needs_next [OF n this] show ?thesis by (simp add: keep_alive_def n)
qed

lemma needs_health_check: "needs 1 st id (health_check x st)"
  by (auto simp: health_check_def next_transaction_def Let_def split: list.split option.split)

lemma answered_receiveXapp:
  assumes "send_ready st" and "length (keyMap st) * 2 + 2 \<le> length (rmr_in st)" and "length (keyMap st) * 2 + 2 \<le> length (malloc_in st)"
  shows "answered (receiveXappMessages x par st)"
proof -
  let ?ok = "\<lambda>st2. send_in st2 = send_in st \<and> keyMap st2 = keyMap st \<and> length (rmr_in st2) + 1 = length (rmr_in st) \<and> malloc_in st2 = malloc_in st"
  have fwd: "answered (forward_to_ran x a route msg st2)" if "?ok st2" for st2 a route msg
    by (rule answered_forward_to_ran) (use that assms(1) in \<open>simp add: send_ready_def\<close>)
  have enough: "answered r" if "needs k st2 s r" "k \<le> length (keyMap st) * 2 + 1" "?ok st2" for k st2 s and r :: "fault + 'z"
    using needs_enough [OF that(1)] that(2,3) assms(2,3) by simp
  have "answered (clear_all x msg st2)" "answered (keep_alive x par st2)" "answered (health_check x st2)"
    "answered (buildJsonMessage msg st2)" if "?ok st2" for st2 msg
    using enough [OF needs_clear_all _ that] enough [OF needs_keep_alive _ that] enough [OF needs_health_check _ that]
      enough [OF needs_buildJsonMessage _ that] that by auto
  with fwd show ?thesis
    by (cases "rmr_in st") (use assms(2) in \<open>auto simp: receiveXappMessages_def Let_def intro!: answered_bind split: option.split\<close>)
qed

section \<open>Events\<close>

lemma needs_handlepoll_error: "needs 2 st id (handlepoll_error x par ev st)"
proof -
  have clean: "needs 0 st1 id (cleanHashEntry a ((close_fd fd st1)\<lparr>keyMap := km\<rparr>))" for st1 a fd km
    by (rule needs_cong [OF needs_cleanHashEntry]) (simp_all add: close_fd_def)
  show ?thesis
    by (auto simp: handlepoll_error_def Let_def clean intro!: needs_answered [OF answered_peer_at] needs_bind [OF needs_report_failure, where k' = 0])
qed

lemma answered_accept: "epoll_in st \<noteq> [] \<Longrightarrow> answered (accept_connection x fresh c st)"
  by (auto simp: accept_connection_def addToEpoll_def epoll_ctl_def set_peer_def free_block_def
      intro!: answered_bind split: option.split list.split)

text \<open>Enough answers for any event.\<close>

definition environment_ready :: "read_result list \<Rightarrow> e2t \<Rightarrow> bool" where
  "environment_ready reads st \<longleftrightarrow> (\<exists>r \<in> set reads. ends r) \<and> send_ready st \<and> epoll_in st \<noteq> []
     \<and> length reads * 4 + length (keyMap st) * 2 + 2 \<le> min (length (rmr_in st)) (length (malloc_in st))"

lemma answered_handle_event:
  assumes "environment_ready reads st" and "EPOLLOUT \<notin> ev_events ev"
  shows "answered (handle_event x par ev reads fresh c trace st)"
proof -
  have "answered (receiveDataFromSctp x par a reads st)" for a
    by (rule needs_enough [OF needs_receive]) (use assms(1) in \<open>auto simp: environment_ready_def\<close>)
  moreover have "answered (handlepoll_error x par ev st)"
    by (rule needs_enough [OF needs_handlepoll_error]) (use assms(1) in \<open>auto simp: environment_ready_def\<close>)
  moreover have "answered (receiveXappMessages x par st)"
    by (rule answered_receiveXapp) (use assms(1) in \<open>auto simp: environment_ready_def\<close>)
  moreover have "answered (accept_connection x fresh c st)"
    by (rule answered_accept) (use assms(1) in \<open>simp add: environment_ready_def\<close>)
  ultimately show ?thesis using assms(2) by (auto simp: handle_event_def intro!: answered_bind)
qed

end
