(* ===== verification/E2tProperties.thy ===== *)
theory E2tProperties
  imports E2tLive "HOL-Library.Code_Target_Nat"
begin

text \<open>
  The properties of the E2 termination: what holds in every reachable state, and the orders of
  messages and events that it does not survive. A small deployment with one RAN shows that the
  hypotheses can hold.
\<close>

section \<open>A deployment\<close>

text \<open>The codec of the example knows four messages, by their first octet; the XML of the fourth is long.\<close>

definition demo_node :: GlobalE2node_ID where
  "demo_node = NODE_gNB \<lparr>plmn_id = [0x13, 0xF0, 0x14], node_id = GNB_ID_gnb_ID [0xB5]\<rparr>"

definition demo_message :: "int \<Rightarrow> node_ie ie list \<Rightarrow> node_ie elementary" where
  "demo_message code ies = \<lparr>em_procedureCode = code, em_criticality = 0, em_present = 1,
     em_protocolIEs = \<lparr>so_array = map Some ies, so_count = length ies, so_size = length ies, so_free = False\<rparr>\<rparr>"

definition demo_setup :: pdu where
  "demo_setup = PDU_initiatingMessage (demo_message ProcedureCode_id_E2setup
     [\<lparr>fld_id = id_GlobalE2node_ID, fld_criticality = 0, fld_value = IE_other DEF_GlobalE2node_ID (Node demo_node)\<rparr>])"

definition demo_pdu :: "byte list \<Rightarrow> pdu option" where
  "demo_pdu bs = (case bs of
     [] \<Rightarrow> None
   | b # _ \<Rightarrow> if b = 1 then Some demo_setup
       else if b = 2 then Some (PDU_initiatingMessage (demo_message ProcedureCode_id_ErrorIndication []))
       else if b = 3 then Some (PDU_successfulOutcome (demo_message ProcedureCode_id_Reset []))
       else if b = 4 then Some (PDU_initiatingMessage (demo_message ProcedureCode_id_RICserviceUpdate []))
       else None)"

definition demo_xml :: "pdu \<Rightarrow> byte list option" where
  "demo_xml pdu = (case pdu of
     PDU_initiatingMessage m \<Rightarrow>
       if em_procedureCode m = ProcedureCode_id_RICserviceUpdate then Some (replicate xer_buffer_size 0x20) else Some [0x3C, 0x3E]
   | _ \<Rightarrow> None)"

definition demo_mbuf :: mbuf where
  "demo_mbuf = \<lparr>mb_mtype = Mtype 0, mb_state = 0, mb_len = 0, mb_payload = [], mb_meid = '''', mb_xact = '''', mb_sub_id = 0\<rparr>"

definition demo_ext :: ext where
  "demo_ext = \<lparr>asn_decode_per = demo_pdu, asn_encode_per = (\<lambda>_. None), asn_decode_xer = (\<lambda>_. None),
     asn_encode_xer = demo_xml, rmr_alloc_msg = Some demo_mbuf, rmr_err_retry = 10, mtype_number = (\<lambda>_. 0)\<rparr>"

definition demo_par :: sctp_params where
  "demo_par = \<lparr>listenFD = 7, rmrListenFd = 5, inotifyFD = 6, myIP = ''10.0.0.1'', rmrPort = 38000, ka_message = ''alive''\<rparr>"

definition demo_start :: e2t where
  "demo_start = \<lparr>peers = (\<lambda>_. None), keyMap = [],
     interest = (\<lambda>_. None)(5 \<mapsto> (Data_fd 5, {EPOLLIN}), 6 \<mapsto> (Data_fd 6, {EPOLLIN}), 7 \<mapsto> (Data_fd 7, {EPOLLIN, EPOLLET})),
     sendMessage = Some demo_mbuf, rcvMessage = Some demo_mbuf, transactionCounter = 1, num_of_XAPP_messages = 0,
     jsonTrace = False, metrics = (\<lambda>_. (0, 0)), rmr_in = replicate 5 (Some demo_mbuf), send_in = [None], epoll_in = [True],
     malloc_in = [True], sockopt_in = [], out = []\<rparr>"

definition demo_event :: "epoll_data \<Rightarrow> event" where
  "demo_event d = \<lparr>ev_data = d, ev_events = {EPOLLIN}\<rparr>"

definition demo_connection :: connection where
  "demo_connection = \<lparr>cn_fd = 9, cn_nonblocking = True, cn_name = Some (''10.0.0.2'', ''36422'')\<rparr>"

definition demo_accepted :: e2t where
  "demo_accepted = (set_peer 4096 (new_peer demo_connection (''10.0.0.2'', ''36422'')) demo_start)
     \<lparr>interest := (interest demo_start)(9 \<mapsto> (Data_ptr 4096, {EPOLLIN, EPOLLET})), epoll_in := []\<rparr>"

lemmas demo_defs = demo_ext_def demo_par_def demo_start_def demo_event_def demo_connection_def demo_mbuf_def

lemma demo_started: "started demo_ext demo_par demo_start"
  by (simp add: started_def demo_defs)

lemma demo_xml_fits: "xml_fits demo_ext demo_setup"
  by (simp add: xml_fits_def demo_ext_def demo_xml_def demo_setup_def demo_message_def xer_buffer_size_def)

lemma demo_fresh: "fresh_connection demo_par 4096 demo_connection demo_start"
  by (simp add: fresh_connection_def demo_defs reserved_fds_def)

lemma demo_accept_expected:
  "event_expected demo_ext demo_par (demo_event (Data_fd 7)) [] (Some 4096) (Some demo_connection) demo_start"
proof -
  have "interest demo_start 7 = Some (Data_fd 7, {EPOLLIN, EPOLLET})" by (simp add: demo_start_def)
  then show ?thesis using demo_fresh by (auto simp: event_expected_def demo_event_def intro!: exI [of _ 7])
qed

lemma demo_accept:
  "handle_event demo_ext demo_par (demo_event (Data_fd 7)) [] (Some 4096) (Some demo_connection) t demo_start = Inr demo_accepted"
  by (simp add: handle_event_def demo_event_def demo_par_def accept_connection_def demo_connection_def addToEpoll_def
      peer_at_def set_peer_def epoll_ctl_def new_peer_def demo_start_def demo_accepted_def)

lemma demo_reachable: "reachable demo_ext demo_par demo_start" "reachable demo_ext demo_par demo_accepted"
  using reachable.start [OF demo_started] reachable.event [OF _ demo_accept_expected demo_accept] by blast+

text \<open>Reading one message and then nothing more.\<close>

lemma two_reads_expected:
  assumes "\<And>p pdu. peers st a = Some p \<Longrightarrow> asn_decode_per x bs = Some pdu \<Longrightarrow> pdu_expected x st p pdu"
  shows "reads_expected x par a [Read_octets bs, Read_failed EAGAIN] msg st"
  using assms by (auto split: option.split sum.split)

lemma demo_setup_ok: "setup_node (set_items (em_protocolIEs (demo_message ProcedureCode_id_E2setup
     [\<lparr>fld_id = id_GlobalE2node_ID, fld_criticality = 0, fld_value = IE_other DEF_GlobalE2node_ID (Node demo_node)\<rparr>]))) demo_node"
  by (simp add: setup_node_def demo_message_def set_items_def)

abbreviation demo_reads :: "read_result list" where
  "demo_reads \<equiv> [Read_octets [1], Read_failed EAGAIN]"

lemma demo_setup_expected:
  "event_expected demo_ext demo_par (demo_event (Data_ptr 4096)) demo_reads None None demo_accepted"
proof -
  have peer: "peers demo_accepted 4096 = Some (new_peer demo_connection (''10.0.0.2'', ''36422''))"
    and none: "name_of demo_accepted b = None" for b
    by (simp_all add: demo_accepted_def set_peer_def name_of_def registered_def new_peer_def demo_start_def)
  have "interest demo_accepted 9 = Some (Data_ptr 4096, {EPOLLIN, EPOLLET})" by (simp add: demo_accepted_def)
  moreover have "reads_expected demo_ext demo_par 4096 demo_reads reporting_zero demo_accepted"
  proof (rule two_reads_expected)
    fix p pdu
    assume "peers demo_accepted 4096 = Some p" and "asn_decode_per demo_ext [1] = Some pdu"
    then have p: "p = new_peer demo_connection (''10.0.0.2'', ''36422'')" and pdu: "pdu = demo_setup"
      by (simp_all add: peer demo_ext_def demo_pdu_def)
    have "node_sized demo_node" by (simp add: demo_node_def)
    with demo_setup_ok none show "pdu_expected demo_ext demo_accepted p pdu"
      using demo_xml_fits by (auto simp: pdu demo_setup_def setup_expected_def p new_peer_def) (auto simp: demo_message_def)
  qed
  ultimately show ?thesis by (auto simp: event_expected_def demo_event_def intro!: exI [of _ 9])
qed

lemma demo_setup_handled:
  "\<exists>st. handle_event demo_ext demo_par (demo_event (Data_ptr 4096)) demo_reads None None False demo_accepted = Inr st
     \<and> map_find (keyMap st) ''gnb_310_041_b5'' = Some 4096 \<and> jsonTrace st = False"
proof -
  have "case handle_event demo_ext demo_par (demo_event (Data_ptr 4096)) demo_reads None None False demo_accepted of
      Inl f \<Rightarrow> False | Inr st \<Rightarrow> map_find (keyMap st) ''gnb_310_041_b5'' = Some 4096 \<and> jsonTrace st = False"
    by code_simp
  then show ?thesis by (simp split: sum.splits)
qed

lemma demo_registered:
  "\<exists>st. reachable demo_ext demo_par st \<and> name_of st 4096 = Some ''gnb_310_041_b5'' \<and> jsonTrace st = False"
proof -
  from demo_setup_handled obtain st where
    st: "handle_event demo_ext demo_par (demo_event (Data_ptr 4096)) demo_reads None None False demo_accepted = Inr st"
      "map_find (keyMap st) ''gnb_310_041_b5'' = Some 4096" "jsonTrace st = False" by blast
  have r: "reachable demo_ext demo_par st" by (rule reachable.event [OF demo_reachable(2) demo_setup_expected st(1)])
  from reachable_e2t_inv [OF r] st(2) have "name_of st 4096 = Some ''gnb_310_041_b5''"
    by (simp add: inv_defs registers_def)
  with r st(3) show ?thesis by blast
qed

section \<open>What holds in every reachable state\<close>

text \<open>
  (C2) In every reachable state the map holds exactly the RANs that have set up, each under the
  name in its own record, and the epoll set holds exactly the live connections beside the own
  descriptors.
\<close>

theorem reachable_tables:
  assumes "reachable x par st"
  shows "(map_find (keyMap st) k = Some a \<longleftrightarrow>
      (\<exists>p. peers st a = Some p \<and> counters p (IN_INITI, ProcedureCode_id_E2setup) \<noteq> None \<and> c_str (enodbName p) = k))
    \<and> (interest st fd = Some (Data_ptr a, fl) \<longleftrightarrow>
      fl = {EPOLLIN, EPOLLET} \<and> (\<exists>p. peers st a = Some p \<and> fileDescriptor p = fd))"
proof -
  have inv: "e2t_inv x par st" using assms by (rule reachable_e2t_inv)
  have "interest st fd = Some (Data_ptr a, fl) \<longleftrightarrow> fl = peer_events \<and> (\<exists>p. peers st a = Some p \<and> fileDescriptor p = fd)"
  proof
    assume i: "interest st fd = Some (Data_ptr a, fl)"
    from interest_data [OF inv i] obtain p where p: "peers st a = Some p" "fileDescriptor p = fd" by auto
    with inv have "interest st fd = Some (Data_ptr a, peer_events)" unfolding e2t_inv_def epoll_inv_def by blast
    with i p show "fl = peer_events \<and> (\<exists>p. peers st a = Some p \<and> fileDescriptor p = fd)" by simp
  next
    assume "fl = peer_events \<and> (\<exists>p. peers st a = Some p \<and> fileDescriptor p = fd)"
    with inv show "interest st fd = Some (Data_ptr a, fl)" unfolding e2t_inv_def epoll_inv_def by blast
  qed
  moreover have "map_find (keyMap st) k = Some a \<longleftrightarrow> name_of st a = Some k" using inv by (simp add: inv_defs registers_def)
  moreover have "name_of st a = Some k \<longleftrightarrow> (\<exists>p. peers st a = Some p \<and> registered p \<and> c_str (enodbName p) = k)"
    by (auto simp: name_of_def split: option.split)
  ultimately show ?thesis unfolding peer_events_def registered_def by blast
qed

theorem reachable_tables_witness:
  "\<exists>st. reachable demo_ext demo_par st \<and> (\<exists>p. peers st 4096 = Some p \<and> c_str (enodbName p) = ''gnb_310_041_b5'')
     \<and> map_find (keyMap st) ''gnb_310_041_b5'' = Some 4096"
proof -
  from demo_registered obtain st where st: "reachable demo_ext demo_par st" "name_of st 4096 = Some ''gnb_310_041_b5''" by blast
  then have "map_find (keyMap st) ''gnb_310_041_b5'' = Some 4096"
    using reachable_e2t_inv [OF st(1)] by (simp add: inv_defs registers_def)
  with reachable_tables [OF st(1), of "''gnb_310_041_b5''" 4096] st(1) show ?thesis by blast
qed



text \<open>
  (C3) What an expected event does to the map is a run of the registry: names are entered once,
  under a name nobody else has, and leave with their connection or with all others.
\<close>

theorem registry_refined:
  assumes "reachable x par st" and "event_expected x par ev reads fresh c st"
    and "handle_event x par ev reads fresh c trace st = Inr st'"
  shows "registry_step\<^sup>*\<^sup>* (name_of st) (name_of st')"
  using safe_handle_event [OF reachable_e2t_inv [OF assms(1)] assms(2), of trace] assms(3) by (simp add: evolves_def)

theorem registry_refined_witness:
  "\<exists>st'. registry_step\<^sup>*\<^sup>* (name_of demo_accepted) (name_of st') \<and> map_find (keyMap st') ''gnb_310_041_b5'' = Some 4096"
  using registry_refined [OF demo_reachable(2) demo_setup_expected] demo_setup_handled by blast




section \<open>Messages are delivered\<close>

text \<open>What tracing adds to the output.\<close>

definition traced :: "reporting \<Rightarrow> byte list \<Rightarrow> e2t \<Rightarrow> effect list" where
  "traced msg bs st = (if jsonTrace st then [Trace (c_str (msg_enodbName msg)) (msg_messageType msg) (msg_direction msg) bs] else [])"

text \<open>
  (C6) A subscription request, subscription delete request, control request or error indication of the
  RIC for a registered RAN is sent, unchanged, on the connection of exactly that RAN, when the call of
  \<^verbatim>\<open>sctp_send\<close> is not interrupted; when the connection cannot take it nothing is sent, the RIC is not told
  and the RAN stays registered.
\<close>

theorem request_reaches_ran:
  assumes "reachable x par st" and "name_of st a = Some (mb_meid mb)" and "peers st a = Some p"
    and "rmr_in st = Some mb # rs" and "mb_state mb = 0"
    and "mb_mtype mb \<in> {RIC_SUB_REQ, RIC_SUB_DEL_REQ, RIC_CONTROL_REQ, RIC_ERROR_INDICATION}"
    and "CHR 0x00 \<notin> set (mb_meid mb)" and "length (mb_meid mb) < 64" and "send_in st = e # es" and "e \<noteq> Some EINTR"
  shows "\<exists>st'. receiveXappMessages x par st = Inr (if e = None then 0 else -6, st') \<and> name_of st' = name_of st
    \<and> out st' = out st @ (if e = None
        then Sctp_send (fileDescriptor p) (take (nat (mb_len mb)) (mb_payload mb))
          # (if jsonTrace st then [Trace (mb_meid mb) (mb_mtype mb) CHR ''D'' (take (nat (mb_len mb)) (mb_payload mb))] else [])
        else [])"
proof -
  have inv: "e2t_inv x par st" using assms(1) by (rule reachable_e2t_inv)
  obtain rm where rm: "rcvMessage st = Some rm" using inv by (auto simp: inv_defs has_bufs_def)
  have find: "map_find (keyMap st) (mb_meid mb) = Some a" using inv assms(2) by (simp add: inv_defs registers_def)
  have reg: "registered p" and ok: "peer_ok p" using assms(2,3) inv by (auto simp: name_of_def inv_defs split: if_splits)
  have cs: "c_str (mb_meid mb @ zero_buf (64 - length (mb_meid mb))) = mb_meid mb"
    using assms(7,8) by (auto simp: c_str_def zero_buf_def takeWhile_append)
  from assms(6) obtain i j where route: "xapp_route (mb_mtype mb) = Some (False, i, j)" by (auto simp: xapp_route_def)
  from xapp_route_counters [OF route] ok reg obtain n where
    cnt: "counters p i = Some n" "j \<in> set buildE2TPrometheusCounters" by (auto simp: peer_ok_def)
  have own: "mb_mtype mb \<noteq> RIC_HEALTH_CHECK_REQ" using assms(6) by auto
  show ?thesis
    using assms(3-6,9,10) rm find route cnt own ok cs
    by (cases e)
      (auto simp: receiveXappMessages_def forward_to_ran_def count_traffic_def count_peer_def count_e2t_def peer_at_def bump_def
        sendDirectionalSctpMsg_def sendSctpMsg_def asn_octets_def buildJsonMessage_def Let_def peer_ok_def name_of_def fun_eq_iff
        intro: ext)
qed

definition demo_request :: mbuf where
  "demo_request = \<lparr>mb_mtype = RIC_SUB_REQ, mb_state = 0, mb_len = 3, mb_payload = [1, 2, 3], mb_meid = ''gnb_310_041_b5'',
     mb_xact = '''', mb_sub_id = 0\<rparr>"

theorem request_reaches_ran_witness:
  "\<exists>st st' fd. reachable demo_ext demo_par st \<and> receiveXappMessages demo_ext demo_par st = Inr (0, st')
     \<and> out st' = out st @ [Sctp_send fd [1, 2, 3]]"
proof -
  from demo_registered obtain st where st: "reachable demo_ext demo_par st" "name_of st 4096 = Some ''gnb_310_041_b5''"
    "jsonTrace st = False" by blast
  let ?st = "st\<lparr>sendMessage := Some demo_mbuf, rcvMessage := Some demo_mbuf, rmr_in := [Some demo_request],
    send_in := [None], epoll_in := [], malloc_in := [], sockopt_in := []\<rparr>"
  have r: "reachable demo_ext demo_par ?st" by (rule reachable.turn [OF st(1)])
  from st(2) obtain p where p: "peers st 4096 = Some p" by (auto simp: name_of_def split: option.splits)
  have nm: "name_of ?st 4096 = Some (mb_meid demo_request)" using st(2) by (simp add: name_of_def demo_request_def)
  have "\<exists>st'. receiveXappMessages demo_ext demo_par ?st = Inr (0, st') \<and> out st' = out ?st @ [Sctp_send (fileDescriptor p) [1, 2, 3]]"
    using request_reaches_ran [OF r nm, of p "[]" None "[]"] p st(3) by (auto simp: demo_request_def)
  with r show ?thesis by blast
qed

text \<open>
  Which messages of a RAN the RIC is sent as they are, under which type, and the request whose
  instance becomes the subscription id of the message.
\<close>

definition first_request :: "node_ie elementary \<Rightarrow> RICrequestID option" where
  "first_request m = (case filter (\<lambda>ie. fld_id ie = id_RICrequestID) (set_items (em_protocolIEs m)) of
     ie # _ \<Rightarrow> (case fld_value ie of IE_RICrequestID r \<Rightarrow> Some r | _ \<Rightarrow> None) | [] \<Rightarrow> None)"

fun up_route :: "pdu \<Rightarrow> (cidx \<times> mtype \<times> RICrequestID option) option" where
  "up_route (PDU_initiatingMessage m) =
     (if em_procedureCode m = ProcedureCode_id_ErrorIndication then Some ((IN_INITI, ProcedureCode_id_ErrorIndication), RIC_ERROR_INDICATION, None)
      else if em_procedureCode m = ProcedureCode_id_RICindication
      then map_option (\<lambda>r. ((IN_INITI, ProcedureCode_id_RICindication), RIC_INDICATION, Some r)) (first_request m) else None)"
| "up_route (PDU_successfulOutcome m) =
     (if em_procedureCode m = ProcedureCode_id_RICsubscription
      then Some ((IN_SUCC, ProcedureCode_id_RICsubscription), RIC_SUB_RESP, None)
      else if em_procedureCode m = ProcedureCode_id_RICsubscriptionDelete
      then Some ((IN_SUCC, ProcedureCode_id_RICsubscriptionDelete), RIC_SUB_DEL_RESP, None)
      else if em_procedureCode m = ProcedureCode_id_RICcontrol
      then map_option (\<lambda>r. ((IN_SUCC, ProcedureCode_id_RICcontrol), RIC_CONTROL_ACK, Some r)) (first_request m) else None)"
| "up_route (PDU_unsuccessfulOutcome m) =
     (if em_procedureCode m = ProcedureCode_id_RICsubscription
      then Some ((IN_UN_SUCC, ProcedureCode_id_RICsubscription), RIC_SUB_FAILURE, None)
      else if em_procedureCode m = ProcedureCode_id_RICsubscriptionDelete
      then Some ((IN_UN_SUCC, ProcedureCode_id_RICsubscriptionDelete), RIC_SUB_FAILURE, None)
      else if em_procedureCode m = ProcedureCode_id_RICcontrol
      then map_option (\<lambda>r. ((IN_UN_SUCC, ProcedureCode_id_RICcontrol), RIC_CONTROL_FAILURE, Some r)) (first_request m) else None)"
| "up_route PDU_NOTHING = None"

text \<open>A send that the library accepts at once.\<close>

lemma sendRmrMessage_accepted:
  assumes "sendMessage st = Some sm" and "rmr_in st = Some mb # rs" and "mb_state mb = 0" and "msg_asndata msg = Send_payload"
  shows "sendRmrMessage x msg st = Inr (0, st\<lparr>sendMessage := Some mb, rmr_in := rs,
    out := out st @ traced msg (take (nat (msg_asnLength msg)) (mb_payload sm)) st @ [Rmr_send sm]\<rparr>)"
  using assms by (simp add: sendRmrMessage_def buildJsonMessage_def asn_octets_def rmr_send_msg_def rmr_send_buf_def traced_def)

lemma count_traffic_ok:
  "peers st a = Some p \<Longrightarrow> counters p i = Some n \<Longrightarrow> j \<in> set buildE2TPrometheusCounters
    \<Longrightarrow> \<exists>ms. count_traffic a i j l st = Inr (st\<lparr>metrics := ms\<rparr>)"
  by (simp add: count_traffic_def count_peer_def count_e2t_def peer_at_def bump_def) blast

lemma forward_request_id_first:
  "filter (\<lambda>ie. fld_id ie = id_RICrequestID) ies = ie # ies' \<Longrightarrow> fld_value ie = IE_RICrequestID r
    \<Longrightarrow> forward_request_id x a i t ies msg st = forward_request_id x a i t [ie] msg st"
  by (induction ies) (auto split: if_splits)

definition forwarded :: "mtype \<Rightarrow> RICrequestID option \<Rightarrow> reporting \<Rightarrow> mbuf \<Rightarrow> e2t \<Rightarrow> mbuf" where
  "forwarded t r msg sm st = sm\<lparr>mb_mtype := t, mb_state := 0, mb_meid := c_str (msg_enodbName msg), mb_xact := fst (next_transaction st),
     mb_sub_id := (case r of None \<Rightarrow> mb_sub_id sm | Some q \<Rightarrow> int32 (ricInstanceID q))\<rparr>"

lemma dispatch_forwards:
  assumes route: "up_route pdu = Some (i, t, r)" and p: "peers st a = Some p" "counters p i = Some n"
    and sm: "sendMessage st = Some sm" and answer: "rmr_in st = Some mb # rs" "mb_state mb = 0"
    and msg: "msg_asndata msg = Send_payload"
  shows "\<exists>st'. dispatch_pdu x par a pdu msg st = Inr (msg\<lparr>msg_messageType := t\<rparr>, st') \<and> peers st' = peers st \<and> keyMap st' = keyMap st
    \<and> sendMessage st' = Some mb \<and> out st' = out st
      @ traced (msg\<lparr>msg_messageType := t\<rparr>) (take (nat (msg_asnLength msg)) (mb_payload sm)) st @ [Rmr_send (forwarded t r msg sm st)]"
    (is "?goal (dispatch_pdu x par a pdu msg st)")
proof -
  have e2t: "i \<in> set buildE2TPrometheusCounters" using route by (cases pdu) (auto split: if_splits)
  have count: "\<exists>ms. count_traffic a i i l st' = Inr (st'\<lparr>metrics := ms\<rparr>)" if "peers st' = peers st" for st' l
    using count_traffic_ok [of st' a p i n i l] that p e2t by simp
  have plain: "?goal (count_and_forward x a i t msg st)" if "r = None"
  proof -
    from count [of st] obtain ms where "count_traffic a i i (msg_asnLength msg) st = Inr (st\<lparr>metrics := ms\<rparr>)" by blast
    with that sm answer msg show ?thesis
      by (simp add: count_and_forward_def sendRequestToXapp_def next_transaction_def with_send_def sendRmrMessage_accepted
          forwarded_def traced_def Let_def)
  qed
  have request: "?goal (forward_request_id x a i t (set_items (em_protocolIEs m)) msg st)"
    if q: "first_request m = Some q" "r = Some q" for m q
  proof -
    from q(1) obtain ie ies where ie: "filter (\<lambda>ie. fld_id ie = id_RICrequestID) (set_items (em_protocolIEs m)) = ie # ies"
      "fld_value ie = IE_RICrequestID q" by (auto simp: first_request_def split: list.splits ie_value.splits)
    then have id: "fld_id ie = id_RICrequestID" by (metis (mono_tags, lifting) filter_eq_Cons_iff)
    let ?st = "(snd (next_transaction st))\<lparr>sendMessage := Some (sm\<lparr>mb_mtype := t, mb_state := 0, mb_sub_id := int32 (ricInstanceID q),
      mb_xact := fst (next_transaction st), mb_meid := c_str (msg_enodbName msg)\<rparr>)\<rparr>"
    have "peers ?st = peers st" by (simp add: next_transaction_def)
    from count [OF this] obtain ms where "count_traffic a i i (msg_asnLength msg) ?st = Inr (?st\<lparr>metrics := ms\<rparr>)" by blast
    with q(2) sm answer msg show ?thesis unfolding forward_request_id_first [OF ie]
      by (simp add: id ie(2) next_transaction_def with_send_def sendRmrMessage_accepted forwarded_def traced_def Let_def)
  qed
  show ?thesis
  proof (cases pdu)
    case PDU_NOTHING
    with route show ?thesis by simp
  next
    case (PDU_initiatingMessage m)
    with route plain request show ?thesis by (auto simp: asnInitiatingRequest_def Let_def split: if_splits)
  next
    case (PDU_successfulOutcome m)
    with route plain request show ?thesis by (auto simp: asnSuccessfulMsg_def Let_def split: if_splits)
  next
    case (PDU_unsuccessfulOutcome m)
    with route plain request show ?thesis by (auto simp: asnUnSuccsesfulMsg_def Let_def split: if_splits)
  qed
qed

text \<open>
  (C5) A message of a registered RAN that is passed on as it is reaches the RIC with its octets, the
  RAN's name and the type of its procedure. An indication and the outcomes of a control request
  carry the instance of the request as subscription id; on the others the id is the one that was left in the buffer.
  The failure to delete a subscription has the type of a failed subscription.
\<close>

theorem message_reaches_ric:
  assumes "reachable x par st" and "name_of st a = Some k" and "peers st a = Some p"
    and "asn_decode_per x bs = Some pdu" and "bs \<noteq> []" and "up_route pdu = Some (i, t, r)"
    and "sendMessage st = Some sm" and "rmr_in st = Some mb # rs" and "mb_state mb = 0" and "\<not> jsonTrace st"
  shows "\<exists>st' sent. receiveDataFromSctp x par a [Read_octets bs, Read_failed EAGAIN] st = Inr st'
    \<and> name_of st' = name_of st \<and> out st' = out st @ [Rmr_send sent]
    \<and> mb_mtype sent = t \<and> mb_meid sent = k \<and> mb_len sent = int (length bs) \<and> take (length bs) (mb_payload sent) = bs
    \<and> mb_sub_id sent = (case r of None \<Rightarrow> mb_sub_id sm | Some q \<Rightarrow> int32 (ricInstanceID q))"
proof -
  have inv: "e2t_inv x par st" using assms(1) by (rule reachable_e2t_inv)
  have k: "registered p" "c_str (enodbName p) = k" and ok: "peer_ok p"
    using assms(2,3) inv by (auto simp: name_of_def inv_defs split: if_splits)
  have "i \<in> set buildE2TPrometheusCounters" using assms(6) by (cases pdu) (auto split: if_splits)
  then have "i \<in> set peer_counters" by (rule e2t_counter_peer)
  then obtain n where n: "counters p i = Some n" using ok k(1) by (auto simp: peer_ok_def)
  let ?sm = "sm\<lparr>mb_len := int (length bs), mb_payload := overwrite bs (mb_payload sm)\<rparr>"
  let ?msg = "reporting_zero\<lparr>msg_asndata := Send_payload, msg_asnLength := int (length bs), msg_enodbName := enodbName p, msg_direction := CHR ''U''\<rparr>"
  let ?st = "st\<lparr>sendMessage := Some ?sm\<rparr>"
  from dispatch_forwards [of pdu i t r ?st a p n ?sm mb rs ?msg x par] assms(3,6,8,9) n obtain st1 where
    st1: "dispatch_pdu x par a pdu ?msg ?st = Inr (?msg\<lparr>msg_messageType := t\<rparr>, st1)" "peers st1 = peers st"
      "sendMessage st1 = Some mb" and out: "out st1 = out st @ [Rmr_send (forwarded t r ?msg ?sm ?st)]"
    using assms(10) by (auto simp: traced_def)
  have nm: "name_of (st1\<lparr>sendMessage := m\<rparr>) = name_of st" for m
    by (rule ext) (simp add: name_of_def st1(2))
  have "receiveDataFromSctp x par a [Read_octets bs, Read_failed EAGAIN] st
      = Inr (st1\<lparr>sendMessage := Some (mb\<lparr>mb_len := -1, mb_payload := overwrite [] (mb_payload mb)\<rparr>)\<rparr>)"
    using assms(3-5,7) st1 by (simp add: receiveDataFromSctp_def receive_step_def peer_at_def with_send_def Let_def)
  then show ?thesis using out nm k(2) by (intro exI conjI) (assumption, auto simp: forwarded_def overwrite_def split: option.split)
qed

theorem message_reaches_ric_witness:
  "\<exists>st st' sent. reachable demo_ext demo_par st
     \<and> receiveDataFromSctp demo_ext demo_par 4096 [Read_octets [2], Read_failed EAGAIN] st = Inr st'
     \<and> out st' = out st @ [Rmr_send sent] \<and> mb_mtype sent = RIC_ERROR_INDICATION \<and> mb_meid sent = ''gnb_310_041_b5''"
proof -
  from demo_registered obtain st where st: "reachable demo_ext demo_par st" "name_of st 4096 = Some ''gnb_310_041_b5''"
    "jsonTrace st = False" by blast
  let ?st = "st\<lparr>sendMessage := Some demo_mbuf, rcvMessage := Some demo_mbuf, rmr_in := [Some demo_mbuf],
    send_in := [], epoll_in := [], malloc_in := [], sockopt_in := []\<rparr>"
  have r: "reachable demo_ext demo_par ?st" by (rule reachable.turn [OF st(1)])
  from st(2) obtain p where p: "peers st 4096 = Some p" by (auto simp: name_of_def split: option.splits)
  have nm: "name_of ?st 4096 = Some ''gnb_310_041_b5''" using st(2) by (simp add: name_of_def)
  have pdu: "asn_decode_per demo_ext [2] = Some (PDU_initiatingMessage (demo_message ProcedureCode_id_ErrorIndication []))"
    by (simp add: demo_ext_def demo_pdu_def)
  from message_reaches_ric [OF r nm _ pdu, of p "(IN_INITI, ProcedureCode_id_ErrorIndication)" RIC_ERROR_INDICATION None
      demo_mbuf demo_mbuf "[]"] p st(3)
  obtain st' sent where "receiveDataFromSctp demo_ext demo_par 4096 [Read_octets [2], Read_failed EAGAIN] ?st = Inr st'"
    "out st' = out ?st @ [Rmr_send sent]" "mb_mtype sent = RIC_ERROR_INDICATION" "mb_meid sent = ''gnb_310_041_b5''"
    by (auto simp: demo_mbuf_def demo_message_def)
  with r show ?thesis by blast
qed

section \<open>Orders that are not survived\<close>

text \<open>
  (C38) A message that is counted crashes the termination when its connection has not set up, and the
  outcome of a reset crashes it always: its counters are never registered.
\<close>

theorem uncounted_message_crashes:
  assumes "peers st a = Some p" and "sendMessage st \<noteq> None" and "asn_decode_per x bs = Some pdu" and "bs \<noteq> []"
    and "(\<exists>i t r. up_route pdu = Some (i, t, r) \<and> counters p i = None)
      \<or> (\<exists>m. pdu = PDU_successfulOutcome m \<and> em_procedureCode m = ProcedureCode_id_Reset)"
  shows "receiveDataFromSctp x par a (Read_octets bs # reads) st = Inl Null_deref"
proof -
  have reset: "(IN_SUCC, ProcedureCode_id_Reset) \<notin> set buildE2TPrometheusCounters" by (simp add: buildE2TPrometheusCounters_def)
  have plain: "count_and_forward x a i t msg st' = Inl Null_deref"
    if "counters p i = None" "peers st' = peers st" for i t msg st'
    using that assms(1) by (simp add: count_and_forward_def count_traffic_def count_peer_def peer_at_def)
  have xml: "count_and_forward_xml x a (IN_SUCC, ProcedureCode_id_Reset) t msg st' = Inl Null_deref"
    if "peers st' = peers st" for t msg st'
    using that assms(1) reset
    by (cases "counters p (IN_SUCC, ProcedureCode_id_Reset)")
      (simp_all add: count_and_forward_xml_def count_traffic_def count_peer_def count_e2t_def peer_at_def)
  have request: "forward_request_id x a i t (set_items (em_protocolIEs m)) msg st' = Inl Null_deref"
    if "counters p i = None" "peers st' = peers st" "first_request m = Some q" "sendMessage st' \<noteq> None" for i t m msg st' q
  proof -
    from that(3) obtain ie ies where ie: "filter (\<lambda>ie. fld_id ie = id_RICrequestID) (set_items (em_protocolIEs m)) = ie # ies"
      "fld_value ie = IE_RICrequestID q" by (auto simp: first_request_def split: list.splits ie_value.splits)
    then have "fld_id ie = id_RICrequestID" by (metis (mono_tags, lifting) filter_eq_Cons_iff)
    with that assms(1) ie(2) show ?thesis unfolding forward_request_id_first [OF ie]
      by (auto simp: next_transaction_def with_send_def count_traffic_def count_peer_def peer_at_def Let_def)
  qed
  have "dispatch_pdu x par a pdu msg st' = Inl Null_deref" if "peers st' = peers st" "sendMessage st' \<noteq> None" for msg st'
    using assms(5) plain [OF _ that(1)] xml [OF that(1)] request [OF _ that(1) _ that(2)]
    by (cases pdu) (auto simp: asnInitiatingRequest_def asnSuccessfulMsg_def asnUnSuccsesfulMsg_def Let_def split: if_splits)
  with assms(1-4) show ?thesis
    by (auto simp: receiveDataFromSctp_def receive_step_def peer_at_def with_send_def Let_def)
qed

theorem uncounted_message_crashes_witness:
  "reachable demo_ext demo_par demo_accepted
    \<and> receiveDataFromSctp demo_ext demo_par 4096 [Read_octets [2]] demo_accepted = Inl Null_deref
    \<and> receiveDataFromSctp demo_ext demo_par 4096 [Read_octets [3]] demo_accepted = Inl Null_deref"
proof -
  have p: "peers demo_accepted 4096 = Some (new_peer demo_connection (''10.0.0.2'', ''36422''))" "sendMessage demo_accepted \<noteq> None"
    by (simp_all add: demo_accepted_def set_peer_def demo_start_def)
  have d: "asn_decode_per demo_ext [2] = Some (PDU_initiatingMessage (demo_message ProcedureCode_id_ErrorIndication []))"
    "asn_decode_per demo_ext [3] = Some (PDU_successfulOutcome (demo_message ProcedureCode_id_Reset []))"
    by (simp_all add: demo_ext_def demo_pdu_def)
  show ?thesis
    using demo_reachable(2) uncounted_message_crashes [OF p d(1), where reads = "[]"] uncounted_message_crashes [OF p d(2), where reads = "[]"]
    by (simp add: demo_message_def new_peer_def)
qed

text \<open>
  (C39) The event that is not expected: when the XML text of a service update of a registered RAN has exactly
  524288 octets, the size of the buffer it is written to, its terminating zero is stored behind the buffer.
\<close>

theorem exact_xml_overflows:
  assumes "reachable x par st" and "name_of st a \<noteq> None" and "asn_decode_per x bs = Some (PDU_initiatingMessage m)" and "bs \<noteq> []"
    and "em_procedureCode m = ProcedureCode_id_RICserviceUpdate" and "malloc_in st = True # ms"
    and "asn_encode_xer x (PDU_initiatingMessage m) = Some xml" and "length xml = 524288"
  shows "receiveDataFromSctp x par a (Read_octets bs # reads) st = Inl Out_of_bounds"
proof -
  have inv: "e2t_inv x par st" using assms(1) by (rule reachable_e2t_inv)
  obtain sm where sm: "sendMessage st = Some sm" using inv by (auto simp: inv_defs has_bufs_def)
  obtain p where p: "peers st a = Some p" "registered p" using assms(2) by (auto simp: name_of_def split: option.splits if_splits)
  let ?i = "(IN_INITI, ProcedureCode_id_RICserviceUpdate)"
  have "peer_ok p" using inv p(1) by (auto simp: inv_defs)
  moreover have "?i \<in> set peer_counters" by (rule e2t_counter_peer) simp
  ultimately obtain n where n: "counters p ?i = Some n" using p(2) by (auto simp: peer_ok_def)
  have "dispatch_pdu x par a (PDU_initiatingMessage m) msg st' = Inl Out_of_bounds"
    if st': "peers st' = peers st" "malloc_in st' = malloc_in st" for msg st'
  proof -
    from count_traffic_ok [of st' a p ?i n ?i "msg_asnLength msg"] st' p n obtain mt where
      "count_traffic a ?i ?i (msg_asnLength msg) st' = Inr (st'\<lparr>metrics := mt\<rparr>)" by auto
    with assms(5-8) st' show ?thesis
      by (simp add: asnInitiatingRequest_def buildAndSendSetupRequest_def setup_xml_def malloc_call_def xer_buffer_size_def Let_def)
  qed
  with p sm assms(3,4) show ?thesis
    by (simp add: receiveDataFromSctp_def receive_step_def peer_at_def with_send_def Let_def)
qed

theorem exact_xml_overflows_witness:
  "\<exists>st. reachable demo_ext demo_par st
     \<and> receiveDataFromSctp demo_ext demo_par 4096 [Read_octets [4], Read_failed EAGAIN] st = Inl Out_of_bounds"
proof -
  from demo_registered obtain st where st: "reachable demo_ext demo_par st" "name_of st 4096 = Some ''gnb_310_041_b5''" by blast
  let ?st = "st\<lparr>sendMessage := Some demo_mbuf, rcvMessage := Some demo_mbuf, rmr_in := [],
    send_in := [], epoll_in := [], malloc_in := [True], sockopt_in := []\<rparr>"
  have r: "reachable demo_ext demo_par ?st" by (rule reachable.turn [OF st(1)])
  have "name_of ?st 4096 \<noteq> None" using st(2) by (simp add: name_of_def)
  from exact_xml_overflows [OF r this, of "[4]" "demo_message ProcedureCode_id_RICserviceUpdate []" "[]" "replicate xer_buffer_size 0x20"] r
  show ?thesis by (auto simp: demo_ext_def demo_pdu_def demo_xml_def demo_message_def xer_buffer_size_def)
qed

text \<open>
  (C40) Events are handled in the order in which one wait reports them: when the RIC clears all
  connections and the same wait reports an event of a registered RAN behind it, the handler uses the
  connection after it has been freed.
\<close>

theorem stale_event_crashes:
  assumes "reachable x par st" and "name_of st a \<noteq> None"
    and "rmr_in st = Some mb # rs" and "mb_state mb = 0" and "mb_mtype mb = RIC_SCTP_CLEAR_ALL" and "listenFD par \<noteq> rmrListenFd par"
    and "length (keyMap st) * 2 \<le> min (length rs) (length (malloc_in st))"
    and "oc_event clear_oc = \<lparr>ev_data = Data_fd (rmrListenFd par), ev_events = {EPOLLIN}\<rparr>"
    and "ev_data (oc_event oc) = Data_ptr a" and "EPOLLOUT \<notin> ev_events (oc_event oc)" and "oc_reads oc \<noteq> []"
  shows "handle_events x par [clear_oc, oc] st = Inl Use_after_free"
proof -
  have inv: "e2t_inv x par st" using assms(1) by (rule reachable_e2t_inv)
  obtain rm where rm: "rcvMessage st = Some rm" using inv by (auto simp: inv_defs has_bufs_def)
  from assms(2) obtain p where "peers st a = Some p" by (auto simp: name_of_def split: option.splits)
  with inv have own: "data_fd (Data_ptr a) \<notin> reserved_fds par" unfolding e2t_inv_def epoll_inv_def by blast
  have stale: "handle_event x par (oc_event oc) (oc_reads oc) fresh c t st' = Inl Use_after_free" if "peers st' a = None" for fresh c t st'
    using that own assms(9-11)
    by (cases "oc_reads oc") (auto simp: handle_event_def handlepoll_error_def reserved_fds_def peer_at_def receiveDataFromSctp_def receive_step_def)
  let ?st = "st\<lparr>rcvMessage := Some mb, rmr_in := rs, num_of_XAPP_messages := num_of_XAPP_messages st + 1\<rparr>"
  have i2: "e2t_inv x par ?st" by (rule quiet_inv [OF _ inv]) (auto simp: quiet_def has_bufs_def)
  let ?msg = "reporting_zero\<lparr>msg_direction := CHR ''D'', msg_enodbName := mb_meid mb @ zero_buf (64 - length (mb_meid mb))\<rparr>"
  have "answered (clear_all x ?msg ?st)" by (rule needs_enough [OF needs_clear_all]) (use assms(7) in simp_all)
  moreover have "name_of ?st a \<noteq> None" using assms(2) by (simp add: name_of_def)
  ultimately obtain st' where st': "clear_all x ?msg ?st = Inr st'" "peers st' a = None"
    using safe_clear_all [OF i2, of ?msg] by (cases "clear_all x ?msg ?st") (auto simp: answered_def)
  have "receiveXappMessages x par st = Inr (0, st')"
    using assms(3-5) rm st'(1) by (simp add: receiveXappMessages_def Let_def)
  then have "handle_event x par (oc_event clear_oc) reads fresh c t st = Inr st'" for reads fresh c t
    using assms(6,8) by (simp add: handle_event_def)
  with stale [OF st'(2)] show ?thesis by simp
qed

definition demo_clear :: mbuf where
  "demo_clear = demo_request\<lparr>mb_mtype := RIC_SCTP_CLEAR_ALL\<rparr>"

definition demo_wait :: "occurrence list" where
  "demo_wait = [\<lparr>oc_event = demo_event (Data_fd 5), oc_reads = [], oc_block = None, oc_connection = None, oc_trace = False\<rparr>,
     \<lparr>oc_event = demo_event (Data_ptr 4096), oc_reads = [Read_octets [2]], oc_block = None, oc_connection = None, oc_trace = False\<rparr>]"

theorem stale_event_crashes_witness:
  "\<exists>st. reachable demo_ext demo_par st \<and> handle_events demo_ext demo_par demo_wait st = Inl Use_after_free"
proof -
  from demo_registered obtain st where st: "reachable demo_ext demo_par st" "name_of st 4096 = Some ''gnb_310_041_b5''" by blast
  let ?n = "length (keyMap st) * 2"
  let ?st = "st\<lparr>sendMessage := Some demo_mbuf, rcvMessage := Some demo_mbuf, rmr_in := Some demo_clear # replicate ?n (Some demo_mbuf),
    send_in := [], epoll_in := [], malloc_in := replicate ?n True, sockopt_in := []\<rparr>"
  have r: "reachable demo_ext demo_par ?st" by (rule reachable.turn [OF st(1)])
  have "name_of ?st 4096 \<noteq> None" using st(2) by (simp add: name_of_def)
  then have "handle_events demo_ext demo_par demo_wait ?st = Inl Use_after_free"
    unfolding demo_wait_def
    by (intro stale_event_crashes [OF r, where mb = demo_clear and rs = "replicate ?n (Some demo_mbuf)"])
      (simp_all add: demo_clear_def demo_request_def demo_par_def demo_event_def)
  with r show ?thesis by blast
qed

end
