(* ===== verification/Spec2Isabelle.thy ===== *)
theory Spec2Isabelle
  imports AperInteger AsnArray IeTables E2apDecode E2apValid E2apSafety E2apSubscription KpmReport E2tProperties
begin

text \<open>
  A verification library of the near-real-time RAN intelligent controller in this repository. It
  covers the path of an E2AP message through the platform: the C runtime that codes it in aligned
  PER and the message functions of the KPI monitor xApp (\<^verbatim>\<open>src/ric-scp-kpimon/e2ap\<close>), the
  service model inside its messages (\<^verbatim>\<open>src/ric-scp-kpimon/e2sm\<close>), and the E2
  termination that exchanges messages between the RANs and the RIC
  (\<^verbatim>\<open>src/ric-plt-e2/RIC-E2-TERMINATION\<close>).

  \<^bold>\<open>The codec.\<close> \<open>BitData\<close> models \<^verbatim>\<open>asn_bit_data.c\<close>: streams of bits with the scratch space of the
  writer and the refill of the reader; \<open>BitFlow\<close> states their contracts as flows of bits
  (\<open>po_writes\<close>, \<open>pd_reads\<close>) that all later proofs compose. \<open>PerSupport\<close> is \<^verbatim>\<open>per_support.c\<close>
  (lengths, whole numbers, alignment), \<open>PerCodec\<close> the entry points of \<^verbatim>\<open>per_encoder.c\<close> and
  \<^verbatim>\<open>per_decoder.c\<close>, \<open>OpenType\<close> the fragments of \<^verbatim>\<open>per_opentype.c\<close>. \<open>AsnInteger\<close> and
  \<open>AperInteger\<close> are the conversions and the PER coding of \<^verbatim>\<open>INTEGER.c\<close> and
  \<^verbatim>\<open>NativeInteger.c\<close>, \<open>AsnArray\<close> the pointer arrays of \<^verbatim>\<open>asn_SET_OF.c\<close> and
  \<^verbatim>\<open>asn_SEQUENCE_OF.c\<close>, \<open>IeTables\<close> the information object tables and selectors of
  \<^verbatim>\<open>ProtocolIE-Field.c\<close> and the messages, with the coding of open type members.
  \<open>PerEmit\<close> adds what every encoder does on a sink with bounded room (locale \<open>roomy_sink\<close>): it
  writes exactly its field or fails for lack of room. \<open>AsnString\<close> and \<open>AsnEnumerated\<close> are
  \<^verbatim>\<open>OCTET_STRING.c\<close> and \<^verbatim>\<open>NativeEnumerated.c\<close>, \<open>AsnConstructed\<close> the coders of
  \<^verbatim>\<open>constr_SEQUENCE.c\<close>, \<^verbatim>\<open>constr_SEQUENCE_OF.c\<close>, \<^verbatim>\<open>constr_SET_OF.c\<close> and \<^verbatim>\<open>constr_CHOICE.c\<close> over
  the operations of their members. \<open>AsnMeets\<close> gives each a specification, a field of bits for every
  value, and \<open>AsnTypes\<close> the type descriptors, the dispatch through \<^verbatim>\<open>td->op\<close> (\<open>per_op\<close>) and the
  theorem that every descriptor's operations meet its specification; \<open>AsnSize\<close> bounds the fields and
  \<open>AsnWhole\<close> takes a value of any such type through the entry points.
  \<open>E2apElements\<close> and \<open>E2apMessages\<close> hold the descriptors of E2AP up to \<^verbatim>\<open>asn_DEF_E2AP_PDU\<close>, each under
  its C name; \<open>E2apRoundTrip\<close> and \<open>E2apValid\<close> are the round trips of whole messages and the values
  that are valid. \<open>AsnForward\<close>, \<open>AsnDefined\<close> and \<open>E2apSafety\<close> treat octets nobody has encoded:
  decoding stays inside them, counts what it takes and ends, and is defined for every message but
  RICserviceUpdate, whose tables do not fit together.
  The locales \<open>octet_sink\<close>, \<open>roomy_sink\<close>, \<open>per_type\<close> and \<open>open_type\<close> are the contracts between
  these layers; each is interpreted on the callbacks and coders of the source.

  \<^bold>\<open>The xApp.\<close> \<open>E2apWrapper\<close>, \<open>E2apSequence\<close>, \<open>E2apRequests\<close> and \<open>E2apDecode\<close> model
  \<^verbatim>\<open>wrapper.c\<close>: reading and replacing sequence numbers, building requests, decoding responses
  and indications, with the live messages and blocks of the heap. They work on messages with typed
  elements (\<open>E2AP_PDU\<close>); the coder of such a message is a parameter there, constrained by a locale.
  \<open>E2apCodec\<close> and \<open>E2apSubscription\<close> put the modelled coder of \<^verbatim>\<open>asn_DEF_E2AP_PDU\<close> in its place, with the
  two views of a message between them: delete requests, indications and subscription requests go from
  the builder over the octets to the reader without an assumption on the coder.

  \<^bold>\<open>The service model.\<close> \<^verbatim>\<open>e2sm/lib\<close> is a second copy of the runtime. \<open>AsnE2sm\<close> models the functions
  whose text differs on types of the service model (prefix \<open>e2sm_\<close>) and their dispatch \<open>e2sm_op\<close>; the
  others are the same text and use the definitions above. \<open>E2smTypes\<close> holds its descriptors,
  \<open>E2smWrapper\<close> the functions of \<^verbatim>\<open>e2sm/wrapper.c\<close>, \<open>E2smReports\<close> what they do, and \<open>KpmReport\<close> joins
  both codecs: header and message of a report go from the RAN through an E2AP indication to the xApp.

  \<^bold>\<open>The E2 termination.\<close> \<open>CStrings\<close> and \<open>RanName\<close> model C strings and \<^verbatim>\<open>BuildRunName.h\<close>. \<open>E2tState\<close>
  is the state of \<^verbatim>\<open>sctpThread.h\<close> and \<^verbatim>\<open>mapWrapper.h\<close>; \<open>E2tSend\<close>, \<open>E2tReceive\<close>, \<open>E2tXapp\<close> and
  \<open>E2tListener\<close> model the functions of \<^verbatim>\<open>sctpThread.cpp\<close> in the order in which they call each other.
  A connection is a block of the heap behind a 64 bit pointer; using a freed one, a null pointer or
  a place outside an array is a \<open>fault\<close>. What system calls and the RMR library answer is read from
  lists in the state, so every function terminates and a call without answer is \<open>Not_returned\<close>.
  \<open>E2tSafety\<close>, \<open>E2tInvariant\<close>, \<open>E2tEvents\<close> and \<open>E2tRun\<close> prove that expected events keep the
  invariant of the map and of the epoll set and refine an abstract registry of names, \<open>E2tLive\<close>
  counts the answers after which a handler has returned, \<open>E2tProperties\<close> states the properties
  and the orders of events that crash the termination.

  \<^bold>\<open>Bounds.\<close> Machine words keep their width. Open types are treated up to 131000 bits where a
  theorem needs a single fragment. One unit of fuel more than there are bits is enough for the loop over
  the fragments of a list (\<open>list_loop_ends\<close>). Four answers per message that is read, two per connection that
  is cleared and two more suffice for any event (\<open>environment_ready\<close>). Messages on the wire have fewer than
  15000 octets in header, message and call process id, or 14000 in the event trigger, so that no open type
  has a whole block of 16384 octets, which the runtime does not read back.

  \<^bold>\<open>Expected events.\<close> The properties of all reachable states are about RANs that keep the order of the
  protocol and XML texts of another size than the buffer (\<open>event_expected\<close>, \<open>pdu_expected\<close>), and an RMR library that
  can allocate; \<open>E2tProperties\<close> shows of the other orders and of that size what they do.

  \<^bold>\<open>Not modelled.\<close> The other transfer syntaxes of the runtime (BER, XER, OER) and its debug
  output; memory management of decoded values; the constraint checks of the
  descriptors, which nothing calls; the binding of a name that both shared libraries of the xApp
  export (each runtime is modelled as running its own functions);
  logging, configuration and metrics export of the E2 termination; handlers of its threads
  interleave event by event, not instruction by instruction; the parts of the platform in Go and
  Python and its deployment.
\<close>

end
